(* ===== verification/Prelude.thy ===== *)
theory Prelude
  imports Main "HOL-Library.AList" "HOL-Library.Multiset" "HOL-Library.Word"
begin

text \<open>
  Shared vocabulary of the development: Go's clock values and durations, byte strings and the
  few functions of package \<open>strings\<close> the daemon uses, decimal rendering, Go maps as
  association lists, and the insertion sort behind \<open>sort.SliceStable\<close>.
  Every component theory imports this one.

  \<^item> A \<open>time.Time\<close> is the number of nanoseconds since the Unix epoch; Go's zero time is
    the first of January of the year 1.  \<open>Time.Sub\<close> saturates at the \<open>int64\<close> limits, which
    matters exactly when one of the operands is the zero time.
  \<^item> A Go string is the list of its bytes.
  \<^item> A Go map is an association list with distinct keys.  The order of the list is the
    iteration order of \<open>range\<close>, which Go leaves open; a statement about every such list is
    a statement about every iteration order.
\<close>

named_theorems go_defs "definitions of clock and string helpers that component proofs unfold"

section \<open>Time and durations\<close>

type_synonym time = int
type_synonym duration = int

definition millisecond :: duration where "millisecond = 1000000"
definition second :: duration where "second = 1000 * millisecond"
definition minute :: duration where "minute = 60 * second"
definition hour :: duration where "hour = 60 * minute"

definition max_duration :: duration where "max_duration = 9223372036854775807"
definition min_duration :: duration where "min_duration = - 9223372036854775808"

definition zero_time :: time where "zero_time = - 62135596800000000000"

definition time_is_zero :: "time \<Rightarrow> bool" where
  "time_is_zero t \<longleftrightarrow> t = zero_time"

definition time_sub :: "time \<Rightarrow> time \<Rightarrow> duration" where
  "time_sub a b = max min_duration (min max_duration (a - b))"

definition unix_milli :: "int \<Rightarrow> time" where
  "unix_milli ms = ms * millisecond"

definition to_unix_milli :: "time \<Rightarrow> int" where
  "to_unix_milli t = t div millisecond"

lemmas duration_defs [go_defs] =
  millisecond_def second_def minute_def hour_def max_duration_def min_duration_def

lemma millisecond_pos [simp]: "0 < millisecond"
  by (simp add: millisecond_def)

lemma to_unix_milli_unix_milli [simp]: "to_unix_milli (unix_milli ms) = ms"
  by (simp add: to_unix_milli_def unix_milli_def millisecond_def)

lemma unix_milli_le_iff [simp]: "unix_milli a \<le> unix_milli b \<longleftrightarrow> a \<le> b"
  by (simp add: unix_milli_def millisecond_def)

lemma unix_milli_less_iff [simp]: "unix_milli a < unix_milli b \<longleftrightarrow> a < b"
  by (simp add: unix_milli_def millisecond_def)

lemma to_unix_milli_mono: "a \<le> b \<Longrightarrow> to_unix_milli a \<le> to_unix_milli b"
  by (simp add: to_unix_milli_def millisecond_def zdiv_mono1)

lemma unix_milli_to_unix_milli_le: "unix_milli (to_unix_milli t) \<le> t"
  by (simp add: to_unix_milli_def unix_milli_def millisecond_def)

lemma time_sub_le_iff:
  assumes "min_duration \<le> d" "d < max_duration"
  shows "time_sub a b \<le> d \<longleftrightarrow> a - b \<le> d"
  using assms by (auto simp: time_sub_def min_def max_def duration_defs split: if_splits)

lemma time_sub_pos_iff: "0 < time_sub a b \<longleftrightarrow> b < a"
  by (auto simp: time_sub_def min_def max_def duration_defs)

lemma time_sub_nonpos_iff: "time_sub a b \<le> 0 \<longleftrightarrow> a \<le> b"
  by (auto simp: time_sub_def min_def max_def duration_defs)

section \<open>Strings\<close>

definition has_prefix :: "string \<Rightarrow> string \<Rightarrow> bool" where
  "has_prefix s p \<longleftrightarrow> take (length p) s = p"

definition has_suffix :: "string \<Rightarrow> string \<Rightarrow> bool" where
  "has_suffix s p \<longleftrightarrow> has_prefix (rev s) (rev p)"

definition trim_prefix :: "string \<Rightarrow> string \<Rightarrow> string" where
  "trim_prefix s p = (if has_prefix s p then drop (length p) s else s)"

fun str_contains :: "string \<Rightarrow> string \<Rightarrow> bool" where
  "str_contains [] sub \<longleftrightarrow> sub = []"
| "str_contains (c # s) sub \<longleftrightarrow> has_prefix (c # s) sub \<or> str_contains s sub"

text \<open>\<open>strings.Cut (s, sep)\<close> for a one-byte separator: before, after, found.\<close>

fun str_cut :: "string \<Rightarrow> char \<Rightarrow> string \<times> string \<times> bool" where
  "str_cut [] sep = ([], [], False)"
| "str_cut (c # s) sep =
     (if c = sep then ([], s, True)
      else (case str_cut s sep of (before, after, found) \<Rightarrow> (c # before, after, found)))"

fun str_split :: "string \<Rightarrow> char \<Rightarrow> string list" where
  "str_split [] sep = [[]]"
| "str_split (c # s) sep =
     (if c = sep then [] # str_split s sep
      else (case str_split s sep of [] \<Rightarrow> [[c]] | w # ws \<Rightarrow> (c # w) # ws))"

fun str_join :: "string \<Rightarrow> string list \<Rightarrow> string" where
  "str_join sep [] = []"
| "str_join sep [w] = w"
| "str_join sep (w # v # ws) = w @ sep @ str_join sep (v # ws)"

text \<open>
  The UTF-8 encodings of the code points \<open>unicode.IsSpace\<close> accepts; \<open>strings.TrimSpace\<close>
  removes them at both ends.
\<close>

definition space_encodings :: "string list" where
  "space_encodings =
     [[CHR 0x09], [CHR 0x0A], [CHR 0x0B], [CHR 0x0C], [CHR 0x0D], [CHR 0x20],
      [CHR 0xC2, CHR 0x85], [CHR 0xC2, CHR 0xA0], [CHR 0xE1, CHR 0x9A, CHR 0x80],
      [CHR 0xE2, CHR 0x80, CHR 0x80], [CHR 0xE2, CHR 0x80, CHR 0x81],
      [CHR 0xE2, CHR 0x80, CHR 0x82], [CHR 0xE2, CHR 0x80, CHR 0x83],
      [CHR 0xE2, CHR 0x80, CHR 0x84], [CHR 0xE2, CHR 0x80, CHR 0x85],
      [CHR 0xE2, CHR 0x80, CHR 0x86], [CHR 0xE2, CHR 0x80, CHR 0x87],
      [CHR 0xE2, CHR 0x80, CHR 0x88], [CHR 0xE2, CHR 0x80, CHR 0x89],
      [CHR 0xE2, CHR 0x80, CHR 0x8A], [CHR 0xE2, CHR 0x80, CHR 0xA8],
      [CHR 0xE2, CHR 0x80, CHR 0xA9], [CHR 0xE2, CHR 0x80, CHR 0xAF],
      [CHR 0xE2, CHR 0x81, CHR 0x9F], [CHR 0xE3, CHR 0x80, CHR 0x80]]"

text \<open>Dropping the leading occurrences of the words of a list; the fuel is the length of the text.\<close>

fun drop_words :: "nat \<Rightarrow> string list \<Rightarrow> string \<Rightarrow> string" where
  "drop_words 0 ws s = s"
| "drop_words (Suc n) ws s =
     (case List.find (\<lambda>w. w \<noteq> [] \<and> has_prefix s w) ws of
        None \<Rightarrow> s
      | Some w \<Rightarrow> drop_words n ws (drop (length w) s))"

definition trim_left :: "string \<Rightarrow> string" where
  "trim_left s = drop_words (length s) space_encodings s"

definition trim_space :: "string \<Rightarrow> string" where
  "trim_space s =
     (let t = trim_left s
      in rev (drop_words (length t) (map rev space_encodings) (rev t)))"

text \<open>
  \<open>strings.ToLower\<close> on the ASCII range.  Bytes of a multi-byte rune are left as they are; the
  places that use it (RPC names, host names, user names) compare ASCII text.
\<close>

definition char_lower :: "char \<Rightarrow> char" where
  "char_lower c =
     (let n = of_char c :: nat in if 65 \<le> n \<and> n \<le> 90 then char_of (n + 32) else c)"

definition to_lower :: "string \<Rightarrow> string" where
  "to_lower s = map char_lower s"

lemma has_prefix_Nil [simp]: "has_prefix s []"
  by (simp add: has_prefix_def)

lemma has_prefix_append [simp]: "has_prefix (p @ s) p"
  by (simp add: has_prefix_def)

lemma has_prefix_iff: "has_prefix s p \<longleftrightarrow> (\<exists>r. s = p @ r)"
  by (metis append_take_drop_id has_prefix_append has_prefix_def)

lemma has_suffix_iff: "has_suffix s p \<longleftrightarrow> (\<exists>r. s = r @ p)"
  by (metis has_prefix_iff has_suffix_def rev_append rev_rev_ident)

lemma str_contains_iff: "str_contains s sub \<longleftrightarrow> (\<exists>u v. s = u @ sub @ v)"
proof (induction s)
  case Nil
  then show ?case by auto
next
  case (Cons c s)
  show ?case
  proof
    assume "str_contains (c # s) sub"
    then consider "has_prefix (c # s) sub" | "str_contains s sub" by auto
    then show "\<exists>u v. c # s = u @ sub @ v"
    proof cases
      case 1
      then obtain r where "c # s = [] @ sub @ r" by (auto simp: has_prefix_iff)
      then show ?thesis by blast
    next
      case 2
      then obtain u v where "s = u @ sub @ v" using Cons.IH by blast
      then have "c # s = (c # u) @ sub @ v" by simp
      then show ?thesis by blast
    qed
  next
    assume "\<exists>u v. c # s = u @ sub @ v"
    then obtain u v where uv: "c # s = u @ sub @ v" by blast
    show "str_contains (c # s) sub"
    proof (cases u)
      case Nil
      with uv have "has_prefix (c # s) sub" by (auto simp: has_prefix_iff)
      then show ?thesis by simp
    next
      case (Cons a u')
      with uv have "s = u' @ sub @ v" by simp
      then show ?thesis using Cons.IH by auto
    qed
  qed
qed

lemma str_split_not_Nil [simp]: "str_split s sep \<noteq> []"
  by (induction s) (auto split: list.splits)

lemma str_join_split: "str_join [sep] (str_split s sep) = s"
proof (induction s)
  case Nil
  then show ?case by simp
next
  case (Cons c s)
  obtain w ws where ws: "str_split s sep = w # ws"
    by (meson neq_Nil_conv str_split_not_Nil)
  with Cons show ?case by (cases ws) auto
qed

lemma drop_words_length: "length (drop_words n ws s) \<le> length s"
proof (induction n arbitrary: s)
  case 0
  then show ?case by simp
next
  case (Suc n)
  show ?case
  proof (cases "List.find (\<lambda>w. w \<noteq> [] \<and> has_prefix s w) ws")
    case None
    then show ?thesis by simp
  next
    case (Some w)
    have "length (drop_words n ws (drop (length w) s)) \<le> length (drop (length w) s)"
      by (rule Suc)
    also have "\<dots> \<le> length s" by simp
    finally show ?thesis using Some by simp
  qed
qed

text \<open>With the length of the text as fuel the scan reaches its end: no listed word is left in front.\<close>

lemma drop_words_complete:
  "length s \<le> n \<Longrightarrow> w \<in> set ws \<Longrightarrow> w \<noteq> [] \<Longrightarrow> \<not> has_prefix (drop_words n ws s) w"
proof (induction n arbitrary: s)
  case 0
  then show ?case by (simp add: has_prefix_def)
next
  case (Suc n)
  show ?case
  proof (cases "List.find (\<lambda>w. w \<noteq> [] \<and> has_prefix s w) ws")
    case None
    then have "\<not> has_prefix s w" using Suc.prems(2,3) by (auto simp: find_None_iff)
    moreover have "drop_words (Suc n) ws s = s" by (simp only: drop_words.simps None option.case)
    ultimately show ?thesis by simp
  next
    case (Some v)
    then have v: "v \<noteq> []" "has_prefix s v" by (auto simp: find_Some_iff)
    then have "length (drop (length v) s) \<le> n"
      using Suc.prems(1) by (cases v) auto
    with Suc Some show ?thesis by simp
  qed
qed

section \<open>Decimal rendering\<close>

definition digit_char :: "nat \<Rightarrow> char" where
  "digit_char d = char_of (48 + d)"

fun show_nat :: "nat \<Rightarrow> string" where
  "show_nat n = (if n < 10 then [digit_char n] else show_nat (n div 10) @ [digit_char (n mod 10)])"

declare show_nat.simps [simp del]

definition show_int :: "int \<Rightarrow> string" where
  "show_int i = (if i < 0 then CHR ''-'' # show_nat (nat (- i)) else show_nat (nat i))"

text \<open>The padded forms \<open>%010d\<close> and \<open>%020d\<close> of non-negative numbers.\<close>

definition pad_left :: "nat \<Rightarrow> string \<Rightarrow> string" where
  "pad_left n s = replicate (n - length s) CHR ''0'' @ s"

definition digit_value :: "char \<Rightarrow> nat" where
  "digit_value c = of_char c - 48"

definition read_nat :: "string \<Rightarrow> nat" where
  "read_nat s = foldl (\<lambda>acc c. 10 * acc + digit_value c) 0 s"

lemma digit_value_digit_char: "d < 10 \<Longrightarrow> digit_value (digit_char d) = d"
  by (simp add: digit_value_def digit_char_def)

lemma read_nat_snoc: "read_nat (s @ [c]) = 10 * read_nat s + digit_value c"
  by (simp add: read_nat_def)

lemma read_show_nat: "read_nat (show_nat n) = n"
proof (induction n rule: show_nat.induct)
  case (1 n)
  show ?case
  proof (cases "n < 10")
    case True
    then show ?thesis
      by (simp add: show_nat.simps [of n] read_nat_def digit_value_digit_char)
  next
    case False
    then show ?thesis
      using 1 by (simp add: show_nat.simps [of n] read_nat_snoc digit_value_digit_char)
  qed
qed

lemma show_nat_inj [simp]: "show_nat m = show_nat n \<longleftrightarrow> m = n"
  by (metis read_show_nat)

lemma show_nat_digits: "c \<in> set (show_nat n) \<Longrightarrow> \<exists>d<10. c = digit_char d"
proof (induction n rule: show_nat.induct)
  case (1 n)
  show ?case
  proof (cases "n < 10 \<or> c = digit_char (n mod 10)")
    case True
    with 1(2) have "c = digit_char (n mod 10)" by (auto simp: show_nat.simps [of n])
    then show ?thesis by (intro exI [of _ "n mod 10"]) simp
  next
    case False
    with 1 show ?thesis by (auto simp: show_nat.simps [of n])
  qed
qed

lemma digit_char_not_minus: "d < 10 \<Longrightarrow> digit_char d \<noteq> CHR ''-''"
  by (auto simp: digit_char_def dest: arg_cong [where f = "of_char :: char \<Rightarrow> nat"])

lemma show_nat_not_minus: "show_nat n \<noteq> CHR ''-'' # s"
  by (metis digit_char_not_minus list.set_intros(1) show_nat_digits)

lemma show_int_inj [simp]: "show_int i = show_int j \<longleftrightarrow> i = j"
  using show_nat_not_minus by (auto simp: show_int_def eq_nat_nat_iff split: if_splits) metis+

section \<open>First match in a slice\<close>

lemma find_SomeD: "List.find P xs = Some x \<Longrightarrow> x \<in> set xs \<and> P x"
  by (induction xs) (auto split: if_splits)

lemma find_append: "List.find P (xs @ ys) =
    (case List.find P xs of None \<Rightarrow> List.find P ys | Some x \<Rightarrow> Some x)"
  by (induction xs) auto

section \<open>Go maps as association lists\<close>

type_synonym ('k, 'v) gomap = "('k \<times> 'v) list"

definition gomap_ok :: "('k, 'v) gomap \<Rightarrow> bool" where
  "gomap_ok m \<longleftrightarrow> distinct (map fst m)"

definition get_or :: "'v \<Rightarrow> ('k, 'v) gomap \<Rightarrow> 'k \<Rightarrow> 'v" where
  "get_or d m k = (case map_of m k of None \<Rightarrow> d | Some v \<Rightarrow> v)"

lemma gomap_ok_Nil [simp]: "gomap_ok []"
  by (simp add: gomap_ok_def)

lemma gomap_ok_update [simp]: "gomap_ok m \<Longrightarrow> gomap_ok (AList.update k v m)"
  by (simp add: gomap_ok_def distinct_update)

lemma gomap_ok_delete [simp]: "gomap_ok m \<Longrightarrow> gomap_ok (AList.delete k m)"
  by (simp add: gomap_ok_def AList.distinct_delete)

lemma gomap_ok_filter [simp]: "gomap_ok m \<Longrightarrow> gomap_ok (filter P m)"
  by (simp add: gomap_ok_def distinct_map_filter)

lemma map_of_filter_gomap:
  "gomap_ok m \<Longrightarrow>
     map_of (filter (\<lambda>(k, v). P k v) m) k =
       (case map_of m k of None \<Rightarrow> None | Some v \<Rightarrow> if P k v then Some v else None)"
proof (induction m)
  case Nil
  then show ?case by simp
next
  case (Cons kv m)
  obtain k' v' where kv: "kv = (k', v')" by (cases kv)
  from Cons have IH: "map_of (filter (\<lambda>(k, v). P k v) m) k =
       (case map_of m k of None \<Rightarrow> None | Some v \<Rightarrow> if P k v then Some v else None)"
    and notin: "k' \<notin> fst ` set m"
    by (auto simp: gomap_ok_def kv)
  from notin have "map_of m k' = None" by (simp add: map_of_eq_None_iff)
  with IH show ?case by (auto simp: kv split: option.splits)
qed

lemma get_or_update [simp]: "get_or d (AList.update k v m) k' = (if k' = k then v else get_or d m k')"
  by (simp add: get_or_def update_conv')

lemma get_or_delete [simp]: "get_or d (AList.delete k m) k' = (if k' = k then d else get_or d m k')"
  by (simp add: get_or_def delete_conv')

lemma get_or_Nil [simp]: "get_or d [] k = d"
  by (simp add: get_or_def)

lemma get_or_Cons: "get_or d ((k, v) # m) i = (if i = k then v else get_or d m i)"
  by (simp add: get_or_def)

lemma get_or_notin: "i \<notin> fst ` set m \<Longrightarrow> get_or d m i = d"
  by (simp add: get_or_def map_of_eq_None_iff [THEN iffD2])

lemma length_alist_delete:
  "gomap_ok m \<Longrightarrow> k \<in> fst ` set m \<Longrightarrow> length (AList.delete k m) = length m - 1"
proof (induction m)
  case Nil
  then show ?case by simp
next
  case (Cons kv m)
  obtain k' v' where kv: "kv = (k', v')" by (cases kv)
  show ?case
  proof (cases "k = k'")
    case True
    with Cons.prems have "k \<notin> fst ` set m" by (simp add: gomap_ok_def kv)
    then have "AList.delete k m = m"
      by (induction m) (auto simp: AList.delete_eq)
    with True show ?thesis by (simp add: kv AList.delete_eq)
  next
    case False
    with Cons.prems have "k \<in> fst ` set m" "gomap_ok m" by (auto simp: kv gomap_ok_def)
    moreover from this(1) have "0 < length m" by (cases m) auto
    ultimately show ?thesis using Cons.IH False by (simp add: kv AList.delete_eq)
  qed
qed

lemma length_alist_update:
  "length (AList.update k v m) = (if k \<in> fst ` set m then length m else Suc (length m))"
  by (induction m) auto

section \<open>Range loops over a state\<close>

text \<open>A loop that rewrites each element of a slice while it updates a shared state.\<close>

fun thread :: "('a \<Rightarrow> 's \<Rightarrow> 's \<times> 'b) \<Rightarrow> 'a list \<Rightarrow> 's \<Rightarrow> 's \<times> 'b list" where
  "thread f [] s = (s, [])"
| "thread f (x # xs) s =
     (case f x s of (s', y) \<Rightarrow> (case thread f xs s' of (s'', ys) \<Rightarrow> (s'', y # ys)))"

lemma thread_length: "thread f xs s = (s', ys) \<Longrightarrow> length ys = length xs"
  by (induction xs arbitrary: s ys) (auto simp: split_def)

lemma thread_invariant:
  assumes "\<And>x s s' y. I s \<Longrightarrow> x \<in> set xs \<Longrightarrow> f x s = (s', y) \<Longrightarrow> I s'"
    and "thread f xs s = (s', ys)" "I s"
  shows "I s'"
  using assms
proof (induction xs arbitrary: s ys)
  case Nil
  then show ?case by simp
next
  case (Cons x xs)
  obtain s1 y where fx: "f x s = (s1, y)" by (cases "f x s")
  obtain s2 zs where t: "thread f xs s1 = (s2, zs)" by (cases "thread f xs s1")
  have "I s1" using Cons.prems(1) [of s x s1 y] Cons.prems(3) fx by simp
  moreover have "s2 = s'" using Cons.prems(2) fx t by simp
  moreover have "\<And>z s s' y. I s \<Longrightarrow> z \<in> set xs \<Longrightarrow> f z s = (s', y) \<Longrightarrow> I s'"
    by (rule Cons.prems(1)) simp_all
  ultimately show ?case using Cons.IH t by blast
qed

section \<open>Sorting with a less function\<close>

text \<open>
  \<open>sort.SliceStable\<close> is an insertion sort on blocks: the element at position \<open>j\<close> moves to the
  left while the less function puts it before its left neighbour.  \<open>insert_back\<close> works on the
  reversed sorted prefix.  For a strict weak order the result of any stable sort is this one.
\<close>

fun insert_back :: "('a \<Rightarrow> 'a \<Rightarrow> bool) \<Rightarrow> 'a \<Rightarrow> 'a list \<Rightarrow> 'a list" where
  "insert_back before x [] = [x]"
| "insert_back before x (y # ys) = (if before x y then y # insert_back before x ys else x # y # ys)"

definition stable_sort :: "('a \<Rightarrow> 'a \<Rightarrow> bool) \<Rightarrow> 'a list \<Rightarrow> 'a list" where
  "stable_sort before xs = rev (foldl (\<lambda>acc x. insert_back before x acc) [] xs)"

lemma mset_insert_back [simp]: "mset (insert_back before x ys) = add_mset x (mset ys)"
  by (induction ys) auto

lemma set_insert_back [simp]: "set (insert_back before x ys) = insert x (set ys)"
  by (induction ys) auto

lemma mset_foldl_insert_back:
  "mset (foldl (\<lambda>acc x. insert_back before x acc) acc xs) = mset acc + mset xs"
  by (induction xs arbitrary: acc) auto

lemma mset_stable_sort [simp]: "mset (stable_sort before xs) = mset xs"
  by (simp add: stable_sort_def mset_foldl_insert_back)

lemma set_stable_sort [simp]: "set (stable_sort before xs) = set xs"
  by (metis mset_stable_sort set_mset_mset)

lemma length_stable_sort [simp]: "length (stable_sort before xs) = length xs"
  by (metis mset_stable_sort size_mset)

text \<open>
  The contract of a comparator: on the carrier \<open>A\<close> it is a strict weak order.  Its clients are
  the ranked queues of the planner, the pool of guild tasks and the cooldown snapshots.
\<close>

locale weak_order =
  fixes A :: "'a set"
    and before :: "'a \<Rightarrow> 'a \<Rightarrow> bool"
  assumes less_asym: "x \<in> A \<Longrightarrow> y \<in> A \<Longrightarrow> before x y \<Longrightarrow> \<not> before y x"
    and less_negtrans:
      "x \<in> A \<Longrightarrow> y \<in> A \<Longrightarrow> z \<in> A \<Longrightarrow> \<not> before x y \<Longrightarrow> \<not> before y z \<Longrightarrow> \<not> before x z"
begin

lemma less_trans:
  assumes "x \<in> A" "y \<in> A" "z \<in> A" "before x y" "before y z"
  shows "before x z"
  using assms less_asym less_negtrans by blast

lemma insert_back_sorted:
  assumes "x \<in> A" "set ys \<subseteq> A" "sorted_wrt (\<lambda>a b. \<not> before a b) ys"
  shows "sorted_wrt (\<lambda>a b. \<not> before a b) (insert_back before x ys)"
  using assms
proof (induction ys)
  case Nil
  then show ?case by simp
next
  case (Cons y ys)
  show ?case
  proof (cases "before x y")
    case True
    with Cons show ?thesis by (auto dest: less_asym)
  next
    case False
    with Cons.prems show ?thesis by (auto dest: less_negtrans)
  qed
qed

lemma foldl_insert_back_sorted:
  assumes "set xs \<subseteq> A" "set acc \<subseteq> A" "sorted_wrt (\<lambda>a b. \<not> before a b) acc"
  shows "sorted_wrt (\<lambda>a b. \<not> before a b) (foldl (\<lambda>acc x. insert_back before x acc) acc xs)"
  using assms
proof (induction xs arbitrary: acc)
  case Nil
  then show ?case by simp
next
  case (Cons x xs)
  then show ?case by (simp add: insert_back_sorted)
qed

text \<open>No element comes before one that it should follow.\<close>

lemma stable_sort_sorted:
  assumes "set xs \<subseteq> A"
  shows "sorted_wrt (\<lambda>a b. \<not> before b a) (stable_sort before xs)"
proof -
  have "sorted_wrt (\<lambda>a b. \<not> before a b) (foldl (\<lambda>acc x. insert_back before x acc) [] xs)"
    using assms by (intro foldl_insert_back_sorted) auto
  then show ?thesis by (simp add: stable_sort_def sorted_wrt_rev)
qed

lemma stable_sort_hd_least:
  assumes "set xs \<subseteq> A" "xs \<noteq> []" "x \<in> set xs"
  shows "\<not> before x (hd (stable_sort before xs))"
proof -
  from assms(2) obtain y ys where s: "stable_sort before xs = y # ys"
    by (metis length_0_conv length_stable_sort list.exhaust)
  have srt: "sorted_wrt (\<lambda>a b. \<not> before b a) (y # ys)"
    using stable_sort_sorted [OF assms(1)] s by simp
  have "x = y \<or> x \<in> set ys"
    using assms(3) s by (metis set_ConsD set_stable_sort)
  then show ?thesis
    using srt s assms(1) less_asym
    by (metis list.sel(1) list.set_intros(1) set_stable_sort sorted_wrt.simps(2) subsetD)
qed

text \<open>Elements the comparator cannot tell apart keep their order.\<close>

lemma insert_back_stable:
  assumes "x \<in> A" "set ys \<subseteq> A" "k \<in> A"
  shows "filter (\<lambda>a. \<not> before a k \<and> \<not> before k a) (insert_back before x ys) =
         filter (\<lambda>a. \<not> before a k \<and> \<not> before k a) (x # ys)"
  using assms
proof (induction ys)
  case Nil
  then show ?case by simp
next
  case (Cons y ys)
  then show ?case by (auto dest: less_negtrans less_trans)
qed

lemma foldl_insert_back_stable:
  assumes "set xs \<subseteq> A" "set acc \<subseteq> A" "k \<in> A"
  shows "filter (\<lambda>a. \<not> before a k \<and> \<not> before k a) (foldl (\<lambda>acc x. insert_back before x acc) acc xs) =
         filter (\<lambda>a. \<not> before a k \<and> \<not> before k a) (rev xs @ acc)"
  using assms
proof (induction xs arbitrary: acc)
  case Nil
  then show ?case by simp
next
  case (Cons x xs)
  then have "filter (\<lambda>a. \<not> before a k \<and> \<not> before k a)
                (foldl (\<lambda>acc x. insert_back before x acc) (insert_back before x acc) xs) =
             filter (\<lambda>a. \<not> before a k \<and> \<not> before k a) (rev xs @ insert_back before x acc)"
    by simp
  with Cons.prems show ?case by (simp add: insert_back_stable del: filter.simps)
qed

lemma stable_sort_stable:
  assumes "set xs \<subseteq> A" "k \<in> A"
  shows "filter (\<lambda>a. \<not> before a k \<and> \<not> before k a) (stable_sort before xs) =
         filter (\<lambda>a. \<not> before a k \<and> \<not> before k a) xs"
  using foldl_insert_back_stable [of xs "[]" k] assms
  by (simp add: stable_sort_def rev_filter [symmetric])

end

text \<open>
  A weaker contract, for comparators that are not a strict weak order throughout: a key the
  comparator always respects.  The sorted list is then in key order whatever the comparator does
  between elements of equal key.
\<close>

locale keyed_order =
  fixes key :: "'a \<Rightarrow> 'b::linorder"
    and before :: "'a \<Rightarrow> 'a \<Rightarrow> bool"
  assumes key_before: "key x < key y \<Longrightarrow> before x y"
    and before_key: "before x y \<Longrightarrow> key x \<le> key y"
begin

lemma insert_back_key:
  "sorted_wrt (\<lambda>a b. key b \<le> key a) ys \<Longrightarrow> sorted_wrt (\<lambda>a b. key b \<le> key a) (insert_back before x ys)"
proof (induction ys)
  case Nil
  then show ?case by simp
next
  case (Cons y ys)
  show ?case
  proof (cases "before x y")
    case True
    then have "key x \<le> key y" by (rule before_key)
    with Cons True show ?thesis by auto
  next
    case False
    then have "key y \<le> key x" using key_before by (meson not_le)
    with Cons False show ?thesis by force
  qed
qed

lemma foldl_insert_back_key:
  "sorted_wrt (\<lambda>a b. key b \<le> key a) acc \<Longrightarrow>
     sorted_wrt (\<lambda>a b. key b \<le> key a) (foldl (\<lambda>acc x. insert_back before x acc) acc xs)"
  by (induction xs arbitrary: acc) (auto simp: insert_back_key)

lemma stable_sort_key: "sorted (map key (stable_sort before xs))"
  using foldl_insert_back_key [of "[]" xs]
  by (simp add: stable_sort_def sorted_wrt_rev sorted_map)

end

end
