(* ===== verification/Calendar.thy ===== *)
theory Calendar
  imports Prelude
begin

text \<open>
  The calendar of the game (\<open>internal/state/orders.go\<close>): days are days of the zone Asia/Shanghai,
  which is eight hours ahead all year, and a day is named by the number \<open>yyyymmdd\<close>.  Daily limits
  compare these numbers only; that they name days uniquely and in order is proved here for the
  proleptic Gregorian calendar that \<open>time.Time.Date\<close> implements.
\<close>

section \<open>Dates\<close>

definition day_length :: duration where "day_length = 24 * hour"

text \<open>\<open>time.FixedZone (8 hours)\<close>, and days counted from the first of January of the year 1.\<close>

definition gameDayLocation :: duration where "gameDayLocation = 8 * hour"

definition local_day :: "time \<Rightarrow> int" where
  "local_day t = (t + gameDayLocation) div day_length + 719162"

text \<open>Days before the year with index \<open>k\<close>, where index 0 is the year 1.\<close>

definition days_before_year :: "int \<Rightarrow> int" where
  "days_before_year k = 365 * k + k div 4 - k div 100 + k div 400"

text \<open>400 years have 146097 days; the quotient is the year index or one less.\<close>

definition year_index :: "int \<Rightarrow> int" where
  "year_index n =
     (let k = 400 * n div 146097 in if days_before_year (k + 1) \<le> n then k + 1 else k)"

definition leap_year :: "int \<Rightarrow> bool" where
  "leap_year y \<longleftrightarrow> y mod 4 = 0 \<and> (y mod 100 \<noteq> 0 \<or> y mod 400 = 0)"

definition month_lengths :: "bool \<Rightarrow> int list" where
  "month_lengths leap = [31, if leap then 29 else 28, 31, 30, 31, 30, 31, 31, 30, 31, 30, 31]"

text \<open>The day with number \<open>d\<close> from the start of month \<open>m\<close>, as the number \<open>mmdd\<close>.\<close>

fun month_day :: "int list \<Rightarrow> int \<Rightarrow> int \<Rightarrow> int" where
  "month_day [] m d = m * 100 + d + 1"
| "month_day (n # ns) m d = (if d < n then m * 100 + d + 1 else month_day ns (m + 1) (d - n))"

definition date_id :: "int \<Rightarrow> int" where
  "date_id n =
     (let k = year_index n
      in (k + 1) * 10000 + month_day (month_lengths (leap_year (k + 1))) 1 (n - days_before_year k))"

definition calendarDayID :: "time \<Rightarrow> int" where
  "calendarDayID now = date_id (local_day now)"

definition PearlHireTicketDayID :: "time \<Rightarrow> int" where
  "PearlHireTicketDayID now = calendarDayID now"

text \<open>The game's own day rolls over at five past midnight.\<close>

definition gameDayID :: "time \<Rightarrow> int" where
  "gameDayID now =
     (let clock = (now + gameDayLocation) mod day_length
      in if clock < 5 * minute then calendarDayID (now - 5 * minute) else calendarDayID now)"

definition NextCalendarDayReset :: "time \<Rightarrow> time" where
  "NextCalendarDayReset now = ((now + gameDayLocation) div day_length + 1) * day_length - gameDayLocation"

section \<open>The year of a day\<close>

lemma days_before_year_bounds:
  "400 * days_before_year k \<le> 146097 * k + 399" "146097 * k - 699 \<le> 400 * days_before_year k"
proof -
  have 1: "k div 400 = k div 4 div 100" "k div 100 = k div 4 div 25"
    by (simp_all add: div_mult2_eq [symmetric] zdiv_zmult2_eq [symmetric])
  define a where "a = k div 4"
  define b where "b = a div 25"
  have k: "4 * a \<le> k" "k \<le> 4 * a + 3" unfolding a_def by linarith+
  have b: "25 * b \<le> a" "a \<le> 25 * b + 24" unfolding b_def by linarith+
  define c where "c = b div 4"
  have c: "k div 400 = c" unfolding c_def 1 a_def b_def by (simp add: zdiv_zmult2_eq [symmetric])
  have d: "4 * c \<le> b" "b \<le> 4 * c + 3" unfolding c_def by linarith+
  have e: "days_before_year k = 365 * k + a - b + c"
    unfolding days_before_year_def c unfolding 1 a_def b_def ..
  show "400 * days_before_year k \<le> 146097 * k + 399" unfolding e using k(1) b(2) d(1) by simp
  show "146097 * k - 699 \<le> 400 * days_before_year k" unfolding e using k(2) b(1) d(2) by simp
qed

lemma year_index_bounds:
  "days_before_year (year_index n) \<le> n" "n < days_before_year (year_index n + 1)"
proof -
  define k where "k = 400 * n div 146097"
  have k: "146097 * k \<le> 400 * n" "400 * n < 146097 * k + 146097" unfolding k_def by linarith+
  have low: "days_before_year k \<le> n"
    using days_before_year_bounds(1) [of k] k by linarith
  have high: "n < days_before_year (k + 2)"
  proof -
    have "146097 * k + 291495 \<le> 400 * days_before_year (k + 2)"
      using days_before_year_bounds(2) [of "k + 2"] by (simp add: algebra_simps)
    then show ?thesis using k by linarith
  qed
  have i: "year_index n = (if days_before_year (k + 1) \<le> n then k + 1 else k)"
    unfolding year_index_def Let_def k_def ..
  show "days_before_year (year_index n) \<le> n" unfolding i using low by simp
  show "n < days_before_year (year_index n + 1)" unfolding i using high by (auto simp: add.assoc)
qed

lemma div_step:
  fixes m k :: int
  assumes "0 < m"
  shows "(k + 1) div m = k div m + (if (k + 1) mod m = 0 then 1 else 0)"
proof (cases "k mod m + 1 = m")
  case True
  have e: "k + 1 = m * (k div m + 1) + 0" using True mult_div_mod_eq [of m k] unfolding distrib_left by linarith
  show ?thesis using int_div_pos_eq [OF e] int_mod_pos_eq [OF e] assms by simp
next
  case False
  have e: "k + 1 = m * (k div m) + (k mod m + 1)" using mult_div_mod_eq [of m k] by simp
  have r: "0 \<le> k mod m + 1" "k mod m + 1 < m" "k mod m + 1 \<noteq> 0"
    using assms False pos_mod_sign [of m k] pos_mod_bound [of m k] by linarith+
  show ?thesis using int_div_pos_eq [OF e r(1,2)] int_mod_pos_eq [OF e r(1,2)] r(3) by simp
qed

lemma days_before_year_Suc:
  "days_before_year (k + 1) = days_before_year k + (if leap_year (k + 1) then 366 else 365)"
proof -
  obtain p q r where e: "((k + 1) mod 4 = 0) = p" "((k + 1) mod 100 = 0) = q" "((k + 1) mod 400 = 0) = r"
    by blast
  have i: "q \<longrightarrow> p" "r \<longrightarrow> q" unfolding e [symmetric] by (auto simp: mod_eq_0_iff_dvd elim: dvd_trans [rotated])
  have "(k + 1) div 4 = k div 4 + (if p then 1 else 0)" "(k + 1) div 100 = k div 100 + (if q then 1 else 0)"
    "(k + 1) div 400 = k div 400 + (if r then 1 else 0)"
    by (simp_all only: div_step [of _ k] e zero_less_numeral)
  moreover have "leap_year (k + 1) \<longleftrightarrow> p \<and> (\<not> q \<or> r)" by (simp add: leap_year_def e)
  ultimately have "days_before_year (k + 1) = 365 * (k + 1) + (k div 4 + (if p then 1 else 0)) -
      (k div 100 + (if q then 1 else 0)) + (k div 400 + (if r then 1 else 0))"
    "leap_year (k + 1) \<longleftrightarrow> p \<and> (\<not> q \<or> r)" by (simp_all only: days_before_year_def)
  then show ?thesis using i
    by (cases p; cases q; cases r) (simp_all only: days_before_year_def simp_thms if_True if_False distrib_left)
qed

lemma days_before_year_mono: "k \<le> l \<Longrightarrow> days_before_year k \<le> days_before_year l"
proof (induction l rule: int_ge_induct)
  case base
  then show ?case by simp
next
  case (step l)
  then show ?case by (simp add: days_before_year_Suc)
qed

lemma year_index_mono: "m \<le> n \<Longrightarrow> year_index m \<le> year_index n"
proof (rule ccontr)
  assume "m \<le> n" "\<not> year_index m \<le> year_index n"
  then have "days_before_year (year_index n + 1) \<le> days_before_year (year_index m)"
    by (intro days_before_year_mono) simp
  then show False using year_index_bounds [of m] year_index_bounds [of n] \<open>m \<le> n\<close> by linarith
qed

section \<open>Order of the day numbers\<close>

definition month_list :: "int list \<Rightarrow> bool" where
  "month_list ns \<longleftrightarrow> list_all (\<lambda>n. 0 < n \<and> n \<le> 31) ns"

lemma month_day_range:
  "month_list ns \<Longrightarrow> 0 \<le> d \<Longrightarrow> d < sum_list ns \<Longrightarrow>
     m * 100 < month_day ns m d \<and> month_day ns m d \<le> (m + int (length ns) - 1) * 100 + 31"
proof (induction ns arbitrary: m d)
  case Nil
  then show ?case by simp
next
  case (Cons n ns)
  show ?case
  proof (cases "d < n")
    case True
    then show ?thesis using Cons.prems by (simp add: month_list_def)
  next
    case False
    then have "(m + 1) * 100 < month_day ns (m + 1) (d - n) \<and>
        month_day ns (m + 1) (d - n) \<le> (m + 1 + int (length ns) - 1) * 100 + 31"
      using Cons.prems by (intro Cons.IH) (simp_all add: month_list_def)
    then show ?thesis using False by simp
  qed
qed

lemma month_day_mono:
  "month_list ns \<Longrightarrow> 0 \<le> c \<Longrightarrow> c < d \<Longrightarrow> d < sum_list ns \<Longrightarrow> month_day ns m c < month_day ns m d"
proof (induction ns arbitrary: m c d)
  case Nil
  then show ?case by simp
next
  case (Cons n ns)
  have ns: "month_list ns" "n \<le> 31" using Cons.prems(1) by (simp_all add: month_list_def)
  consider "d < n" | "c < n" "n \<le> d" | "n \<le> c" using Cons.prems(3) by linarith
  then show ?case
  proof cases
    case 2
    have "(m + 1) * 100 < month_day ns (m + 1) (d - n)"
      using month_day_range [OF ns(1), of "d - n" "m + 1"] Cons.prems 2 by simp
    then show ?thesis using 2 ns(2) Cons.prems(2) by simp
  next
    case 3
    then show ?thesis using Cons.IH [OF ns(1), of "c - n" "d - n"] Cons.prems by simp
  qed (use Cons.prems in simp)
qed

lemma month_lengths_ok [simp]:
  "month_list (month_lengths leap)" "sum_list (month_lengths leap) = (if leap then 366 else 365)"
  "length (month_lengths leap) = 12"
  by (simp_all add: month_list_def month_lengths_def)

lemma day_of_year:
  "0 \<le> n - days_before_year (year_index n)"
  "n - days_before_year (year_index n) < sum_list (month_lengths (leap_year (year_index n + 1)))"
  using year_index_bounds [of n] days_before_year_Suc [of "year_index n"] by (auto split: if_splits)

lemma date_id_range: "(year_index n + 1) * 10000 < date_id n \<and> date_id n < (year_index n + 2) * 10000"
  using month_day_range [OF month_lengths_ok(1) day_of_year, of 1 n]
  by (simp add: date_id_def Let_def)

lemma date_id_less: assumes "m < n" shows "date_id m < date_id n"
proof (cases "year_index m = year_index n")
  case True
  then show ?thesis
    using assms month_day_mono [OF month_lengths_ok(1) day_of_year(1) _ day_of_year(2), of m n]
    by (simp add: date_id_def Let_def)
next
  case False
  then have "(year_index m + 2) * 10000 \<le> (year_index n + 1) * 10000"
    using year_index_mono [of m n] assms by simp
  then show ?thesis using date_id_range [of m] date_id_range [of n] by linarith
qed

lemma date_id_le_iff: "date_id m \<le> date_id n \<longleftrightarrow> m \<le> n"
  by (metis date_id_less linorder_le_less_linear nle_le not_le)

lemma local_day_mono: "s \<le> t \<Longrightarrow> local_day s \<le> local_day t"
  by (simp add: local_day_def day_length_def duration_defs zdiv_mono1)

lemma calendarDayID_mono: "s \<le> t \<Longrightarrow> calendarDayID s \<le> calendarDayID t"
  by (simp add: calendarDayID_def date_id_le_iff local_day_mono)

lemma calendarDayID_eq_iff: "calendarDayID s = calendarDayID t \<longleftrightarrow> local_day s = local_day t"
  by (metis calendarDayID_def date_id_le_iff order_antisym order_refl)

lemma div_less_iff_int:
  fixes m n q :: int
  assumes "0 < q"
  shows "m div q < n \<longleftrightarrow> m < n * q"
proof
  assume "m div q < n"
  then have "(m div q + 1) * q \<le> n * q" using assms by simp
  moreover have "(m div q + 1) * q = m - m mod q + q"
    using div_mult_mod_eq [of m q] unfolding distrib_right by linarith
  ultimately show "m < n * q" using pos_mod_bound [OF assms, of m] by linarith
next
  assume a: "m < n * q"
  show "m div q < n"
  proof (rule ccontr)
    assume "\<not> m div q < n"
    then have "n * q \<le> (m div q) * q" using assms by simp
    then show False using a mult_div_mod_eq [of q m] pos_mod_sign [OF assms, of m] by (simp add: algebra_simps)
  qed
qed

lemma day_length_pos: "0 < day_length"
  by (simp add: day_length_def duration_defs)

lemma local_day_less_reset:
  assumes "s \<le> t"
  shows "local_day s = local_day t \<longleftrightarrow> t < NextCalendarDayReset s"
proof -
  let ?s = "(s + gameDayLocation) div day_length" and ?t = "(t + gameDayLocation) div day_length"
  have "?s \<le> ?t" using assms day_length_pos by (simp add: zdiv_mono1)
  moreover have "?t < ?s + 1 \<longleftrightarrow> t + gameDayLocation < (?s + 1) * day_length"
    using day_length_pos by (rule div_less_iff_int)
  ultimately show ?thesis unfolding local_day_def NextCalendarDayReset_def by linarith
qed

lemma calendarDayID_pos: "0 < local_day t \<Longrightarrow> 0 < calendarDayID t"
proof -
  assume "0 < local_day t"
  then have "date_id 0 < date_id (local_day t)" by (rule date_id_less)
  moreover have "date_id 0 = 10101" by code_simp
  ultimately show ?thesis by (simp add: calendarDayID_def)
qed

lemma gameDayID_eq: "gameDayID now = calendarDayID (now - 5 * minute)"
proof (cases "(now + gameDayLocation) mod day_length < 5 * minute")
  case False
  let ?d = "(now + gameDayLocation) div day_length"
  have m: "0 < 5 * minute" by (simp add: duration_defs)
  have e: "now - 5 * minute + gameDayLocation =
      day_length * ?d + ((now + gameDayLocation) mod day_length - 5 * minute)"
    using mult_div_mod_eq [of day_length "now + gameDayLocation"] by linarith
  have "(now + gameDayLocation) mod day_length - 5 * minute < day_length"
    using pos_mod_bound [OF day_length_pos, of "now + gameDayLocation"] m by linarith
  then have "(now - 5 * minute + gameDayLocation) div day_length = ?d"
    using int_div_pos_eq [OF e] False by simp
  then have "local_day (now - 5 * minute) = local_day now" by (simp add: local_day_def)
  then show ?thesis using False by (simp add: gameDayID_def Let_def calendarDayID_eq_iff)
qed (simp add: gameDayID_def Let_def)

text \<open>
  The day number changes exactly at midnight of the game's zone: two instants have
  the same number if and only if the later one is before the reset after the earlier one, and
  otherwise the later one has the larger number.  The game day is the calendar day with the clock
  five minutes behind.
\<close>

lemma day_numbers:
  assumes "s \<le> t"
  shows "s < NextCalendarDayReset s \<and>
    (if t < NextCalendarDayReset s then calendarDayID s = calendarDayID t
     else calendarDayID s < calendarDayID t) \<and>
    gameDayID s = calendarDayID (s - 5 * minute)"
proof -
  have "s < NextCalendarDayReset s"
    using local_day_less_reset [of s s] by simp
  then show ?thesis
    using calendarDayID_mono [OF assms] local_day_less_reset [OF assms]
    by (auto simp: calendarDayID_eq_iff order_less_le gameDayID_eq)
qed

end
