(* ===== verification/Daily.thy ===== *)
theory Daily
  imports Calendar
begin

text \<open>
  The daily allowances that must survive restarts: speed-up tickets
  (\<open>store/speed_up_ticket_daily.go\<close>, \<open>runner/speed_up_ticket_daily.go\<close>,
  \<open>state/speed_up_ticket_daily.go\<close>), the friends helped with their flower elves
  (\<open>elves_aid_help_daily.go\<close>, \<open>state/flower_elves_aid.go\<close>) and the hire tickets
  (\<open>pearl_hire_usage.go\<close>, \<open>state/pearl_hire.go\<close>).  Each has a table of the database, a copy in the
  state of the running account, a step that loads the copy when the account starts and one that
  books before, or notes after, the request.  The tables are modelled for one account.
\<close>

text \<open>
  A statement may succeed, fail without effect, or take effect while its result is lost (the
  context is cancelled after the commit).
\<close>

datatype sql_outcome = SqlOk | SqlFailed | SqlLost

record day_row =
  row_day :: int
  row_count :: int

text \<open>The fields of \<open>state.State\<close> that mirror the tables.\<close>

record day_state =
  ds_speedUpTicketDayID :: int
  ds_speedUpTicketsReserved :: int
  ds_pearlHireTicketUsedDayID :: int
  ds_pearlHireTicketUsedToday :: int
  ds_elvesAidHelpDayID :: int
  ds_elvesAidHelped :: "int list"
  ds_frdIsAid :: "(int, bool) gomap"

definition zero_days :: day_state where
  "zero_days = \<lparr>ds_speedUpTicketDayID = 0, ds_speedUpTicketsReserved = 0,
     ds_pearlHireTicketUsedDayID = 0, ds_pearlHireTicketUsedToday = 0, ds_elvesAidHelpDayID = 0,
     ds_elvesAidHelped = [], ds_frdIsAid = []\<rparr>"

section \<open>Speed-up tickets\<close>

text \<open>A stored count is read as zero on another day.  \<open>None\<close> is an error.\<close>

definition row_used :: "day_row option \<Rightarrow> int \<Rightarrow> int" where
  "row_used row d = (case row of None \<Rightarrow> 0 | Some r \<Rightarrow> if row_day r \<noteq> d then 0 else row_count r)"

definition SpeedUpTicketsReserved :: "bool \<Rightarrow> int \<Rightarrow> int \<Rightarrow> day_row option \<Rightarrow> int option" where
  "SpeedUpTicketsReserved fails accountID dayID row =
     (if accountID \<le> 0 \<or> dayID \<le> 0 \<or> fails then None else Some (row_used row dayID))"

lemma row_used_simps [simp]:
  "row_used None d = 0" "row_used (Some r) d = (if row_day r = d then row_count r else 0)"
  by (simp_all add: row_used_def)

text \<open>The upsert with its two guards: \<open>None\<close> when it returns no row.\<close>

definition upsert_tickets :: "int \<Rightarrow> int \<Rightarrow> int \<Rightarrow> day_row option \<Rightarrow> day_row option" where
  "upsert_tickets dayID n limit row =
     (if n \<le> limit then
        (case row of
           None \<Rightarrow> Some \<lparr>row_day = dayID, row_count = n\<rparr>
         | Some r \<Rightarrow>
             let total = (if row_day r = dayID then row_count r + n else n)
             in if total \<le> limit then Some \<lparr>row_day = dayID, row_count = total\<rparr> else None)
      else None)"

definition ReserveSpeedUpTickets ::
  "sql_outcome \<Rightarrow> int \<Rightarrow> int \<Rightarrow> int \<Rightarrow> int \<Rightarrow> day_row option \<Rightarrow> day_row option \<times> (int \<times> bool) option" where
  "ReserveSpeedUpTickets outcome accountID dayID n limit row =
     (if accountID \<le> 0 \<or> dayID \<le> 0 \<or> n \<le> 0 \<or> limit \<le> 0 \<or> outcome = SqlFailed then (row, None)
      else case upsert_tickets dayID n limit row of
          None \<Rightarrow> (row, if outcome = SqlLost then None else Some (0, False))
        | Some r \<Rightarrow> (Some r, if outcome = SqlLost then None else Some (row_count r, True)))"

definition SpeedUpTicketsReservedToday :: "time \<Rightarrow> day_state \<Rightarrow> int" where
  "SpeedUpTicketsReservedToday now st =
     (if ds_speedUpTicketDayID st \<noteq> calendarDayID now then 0 else ds_speedUpTicketsReserved st)"

definition SetSpeedUpTicketsReserved :: "int \<Rightarrow> int \<Rightarrow> day_state \<Rightarrow> day_state" where
  "SetSpeedUpTicketsReserved dayID n st =
     (if dayID \<le> 0 \<or> n < 0 then st
      else st\<lparr>ds_speedUpTicketDayID := dayID, ds_speedUpTicketsReserved := n\<rparr>)"

definition hydrateSpeedUpTicketReservations ::
  "bool \<Rightarrow> int \<Rightarrow> time \<Rightarrow> day_row option \<Rightarrow> day_state \<Rightarrow> day_state" where
  "hydrateSpeedUpTicketReservations fails accountID at row st =
     (case SpeedUpTicketsReserved fails accountID (PearlHireTicketDayID at) row of
        None \<Rightarrow> st
      | Some n \<Rightarrow> SetSpeedUpTicketsReserved (PearlHireTicketDayID at) n st)"

text \<open>
  The guard in front of the request; \<open>limit\<close> is the policy's and \<open>ready\<close> says that the runner has a
  database and an account.  The last component is whether no error is returned.
\<close>

definition reserveSpeedUpTickets ::
  "int \<Rightarrow> bool \<Rightarrow> sql_outcome \<Rightarrow> int \<Rightarrow> time \<Rightarrow> int \<Rightarrow> day_row option \<Rightarrow> day_state \<Rightarrow>
     day_row option \<times> day_state \<times> bool" where
  "reserveSpeedUpTickets limit ready outcome accountID at n row st =
     (if limit \<le> 0 then (row, st, True)
      else if \<not> ready \<or> n \<le> 0 then (row, st, False)
      else case ReserveSpeedUpTickets outcome accountID (PearlHireTicketDayID at) n limit row of
          (row', None) \<Rightarrow> (row', st, False)
        | (row', Some (used, ok)) \<Rightarrow>
            if \<not> ok then (row', st, False)
            else (row', SetSpeedUpTicketsReserved (PearlHireTicketDayID at) used st, True))"

section \<open>Help with flower elves\<close>

text \<open>The rows of the account: a day and a friend.\<close>

definition ElvesAidHelpReservations :: "bool \<Rightarrow> int \<Rightarrow> int \<Rightarrow> (int \<times> int) list \<Rightarrow> int list option" where
  "ElvesAidHelpReservations fails accountID dayID rows =
     (if accountID \<le> 0 \<or> dayID \<le> 0 \<or> fails then None
      else Some (sort (map snd (filter (\<lambda>(d, uid). d = dayID) rows))))"

text \<open>The transaction: two counts and an insertion; \<open>None\<close> when one of the counts forbids it.\<close>

definition insert_help :: "int \<Rightarrow> int \<Rightarrow> int \<Rightarrow> (int \<times> int) list \<Rightarrow> (int \<times> int) list option" where
  "insert_help dayID uid limit rows =
     (if 0 < length (filter (\<lambda>(d, u). d = dayID \<and> u = uid) rows) then None
      else if limit \<le> int (length (filter (\<lambda>(d, u). d = dayID) rows)) then None
      else Some (rows @ [(dayID, uid)]))"

definition ReserveElvesAidHelp ::
  "sql_outcome \<Rightarrow> int \<Rightarrow> int \<Rightarrow> int \<Rightarrow> int \<Rightarrow> (int \<times> int) list \<Rightarrow> (int \<times> int) list \<times> bool option" where
  "ReserveElvesAidHelp outcome accountID dayID uid limit rows =
     (if accountID \<le> 0 \<or> dayID \<le> 0 \<or> uid \<le> 0 \<or> limit \<le> 0 \<or> outcome = SqlFailed then (rows, None)
      else case insert_help dayID uid limit rows of
          None \<Rightarrow> (rows, Some False)
        | Some rows' \<Rightarrow> (rows', if outcome = SqlLost then None else Some True))"

definition FlowerElvesAidHelpCountToday :: "time \<Rightarrow> day_state \<Rightarrow> int" where
  "FlowerElvesAidHelpCountToday now st =
     (if ds_elvesAidHelpDayID st \<noteq> calendarDayID now then 0 else int (length (ds_elvesAidHelped st)))"

definition FlowerElvesAidHelpedToday :: "int \<Rightarrow> time \<Rightarrow> day_state \<Rightarrow> bool" where
  "FlowerElvesAidHelpedToday dstUID now st \<longleftrightarrow>
     0 < dstUID \<and> ds_elvesAidHelpDayID st = calendarDayID now \<and> dstUID \<in> set (ds_elvesAidHelped st)"

definition clear_is_aid :: "int \<Rightarrow> (int, bool) gomap \<Rightarrow> (int, bool) gomap" where
  "clear_is_aid uid m = map (\<lambda>(u, aid). (u, if u = uid then False else aid)) m"

definition NoteFlowerElvesAidHelped :: "int \<Rightarrow> time \<Rightarrow> day_state \<Rightarrow> day_state" where
  "NoteFlowerElvesAidHelped dstUID at st =
     (if dstUID \<le> 0 \<or> time_is_zero at then st
      else
        let d = calendarDayID at;
            helped = (if ds_elvesAidHelpDayID st \<noteq> d then [] else ds_elvesAidHelped st)
        in st\<lparr>ds_elvesAidHelpDayID := d, ds_elvesAidHelped := List.insert dstUID helped,
              ds_frdIsAid := clear_is_aid dstUID (ds_frdIsAid st)\<rparr>)"

definition SetFlowerElvesAidHelped :: "int \<Rightarrow> int list \<Rightarrow> day_state \<Rightarrow> day_state" where
  "SetFlowerElvesAidHelped dayID uids st =
     (if dayID \<le> 0 then st
      else
        let known = remdups (filter (\<lambda>u. 0 < u) uids)
        in st\<lparr>ds_elvesAidHelpDayID := dayID, ds_elvesAidHelped := known,
              ds_frdIsAid := fold clear_is_aid known (ds_frdIsAid st)\<rparr>)"

definition hydrateElvesAidHelpReservations ::
  "bool \<Rightarrow> int \<Rightarrow> time \<Rightarrow> (int \<times> int) list \<Rightarrow> day_state \<Rightarrow> day_state" where
  "hydrateElvesAidHelpReservations fails accountID at rows st =
     (case ElvesAidHelpReservations fails accountID (PearlHireTicketDayID at) rows of
        None \<Rightarrow> st
      | Some uids \<Rightarrow> SetFlowerElvesAidHelped (PearlHireTicketDayID at) uids st)"

text \<open>\<open>helpMax\<close> is the limit of the catalogue, \<open>None\<close> when the catalogue lacks it.\<close>

definition reserveElvesAidHelp ::
  "int option \<Rightarrow> bool \<Rightarrow> sql_outcome \<Rightarrow> int \<Rightarrow> time \<Rightarrow> int \<Rightarrow> (int \<times> int) list \<Rightarrow> day_state \<Rightarrow>
     (int \<times> int) list \<times> day_state \<times> bool" where
  "reserveElvesAidHelp helpMax ready outcome accountID at uid rows st =
     (case helpMax of
        None \<Rightarrow> (rows, st, False)
      | Some limit \<Rightarrow>
          if limit \<le> 0 \<or> \<not> ready then (rows, st, False)
          else case ReserveElvesAidHelp outcome accountID (PearlHireTicketDayID at) uid limit rows of
              (rows', None) \<Rightarrow> (rows', st, False)
            | (rows', Some ok) \<Rightarrow>
                if \<not> ok then (rows', st, False) else (rows', NoteFlowerElvesAidHelped uid at st, True))"

section \<open>Hire tickets\<close>

definition PearlHireTicketUsed :: "bool \<Rightarrow> int \<Rightarrow> int \<Rightarrow> day_row option \<Rightarrow> int option" where
  "PearlHireTicketUsed fails accountID dayID row =
     (if accountID \<le> 0 \<or> dayID \<le> 0 \<or> fails \<or> row_used row dayID < 0 then None
      else Some (row_used row dayID))"

definition AdvancePearlHireTicketUsed ::
  "sql_outcome \<Rightarrow> int \<Rightarrow> int \<Rightarrow> int \<Rightarrow> day_row option \<Rightarrow> day_row option \<times> int option" where
  "AdvancePearlHireTicketUsed outcome accountID dayID minimumUsed row =
     (if accountID \<le> 0 \<or> dayID \<le> 0 \<or> minimumUsed \<le> 0 \<or> outcome = SqlFailed then (row, None)
      else
        let used = (case row of
              None \<Rightarrow> minimumUsed
            | Some r \<Rightarrow> if row_day r = dayID then max (row_count r + 1) minimumUsed else minimumUsed)
        in (Some \<lparr>row_day = dayID, row_count = used\<rparr>, if outcome = SqlLost then None else Some used))"

definition SetPearlHireTicketUsed :: "int \<Rightarrow> int \<Rightarrow> day_state \<Rightarrow> day_state" where
  "SetPearlHireTicketUsed dayID used st =
     (if dayID \<le> 0 \<or> used < 0 then st
      else st\<lparr>ds_pearlHireTicketUsedDayID := dayID, ds_pearlHireTicketUsedToday := used\<rparr>)"

definition MergePearlHireTicketUsed :: "int \<Rightarrow> int \<Rightarrow> day_state \<Rightarrow> day_state" where
  "MergePearlHireTicketUsed dayID used st =
     (if dayID \<le> 0 \<or> used < 0 then st
      else if ds_pearlHireTicketUsedDayID st \<noteq> dayID
      then st\<lparr>ds_pearlHireTicketUsedDayID := dayID, ds_pearlHireTicketUsedToday := used\<rparr>
      else if ds_pearlHireTicketUsedToday st < used then st\<lparr>ds_pearlHireTicketUsedToday := used\<rparr>
      else st)"

definition NotePearlHireTicketUsed :: "time \<Rightarrow> day_state \<Rightarrow> day_state \<times> int" where
  "NotePearlHireTicketUsed at st =
     (if time_is_zero at then (st, 0)
      else
        let d = PearlHireTicketDayID at;
            used = (if ds_pearlHireTicketUsedDayID st \<noteq> d then 0 else ds_pearlHireTicketUsedToday st) + 1
        in (st\<lparr>ds_pearlHireTicketUsedDayID := d, ds_pearlHireTicketUsedToday := used\<rparr>, used))"

definition pearlHireTicketUsedToday :: "time \<Rightarrow> day_state \<Rightarrow> int" where
  "pearlHireTicketUsedToday now st =
     (if time_is_zero now \<or> ds_pearlHireTicketUsedDayID st \<noteq> PearlHireTicketDayID now then 0
      else ds_pearlHireTicketUsedToday st)"

definition hydratePearlHireTicketUsage ::
  "bool \<Rightarrow> int \<Rightarrow> time \<Rightarrow> day_row option \<Rightarrow> day_state \<Rightarrow> day_state" where
  "hydratePearlHireTicketUsage fails accountID at row st =
     (if time_is_zero at then st
      else case PearlHireTicketUsed fails accountID (PearlHireTicketDayID at) row of
          None \<Rightarrow> st
        | Some used \<Rightarrow> SetPearlHireTicketUsed (PearlHireTicketDayID at) used st)"

definition notePearlHireTicketUsed ::
  "bool \<Rightarrow> sql_outcome \<Rightarrow> int \<Rightarrow> time \<Rightarrow> day_row option \<Rightarrow> day_state \<Rightarrow> day_row option \<times> day_state" where
  "notePearlHireTicketUsed ready outcome accountID at row st =
     (if time_is_zero at then (row, st)
      else if \<not> ready then (row, fst (NotePearlHireTicketUsed at st))
      else case NotePearlHireTicketUsed at st of (st', minimumUsed) \<Rightarrow>
        (case AdvancePearlHireTicketUsed outcome accountID (PearlHireTicketDayID at) minimumUsed row of
           (row', None) \<Rightarrow> (row', st')
         | (row', Some used) \<Rightarrow> (row', MergePearlHireTicketUsed (PearlHireTicketDayID at) used st')))"

section \<open>The contract of a daily budget\<close>

text \<open>A log of grants: the day, what was asked for, and the limit then in force.\<close>

definition spent :: "('q \<Rightarrow> int) \<Rightarrow> (int \<times> 'q \<times> int) list \<Rightarrow> int \<Rightarrow> int" where
  "spent w log d = sum_list (map (\<lambda>(d', q, limit). if d' = d then w q else 0) log)"

text \<open>Every grant kept its day within the limit then in force.\<close>

definition within :: "('q \<Rightarrow> int) \<Rightarrow> (int \<times> 'q \<times> int) list \<Rightarrow> bool" where
  "within w log \<longleftrightarrow>
     list_all (\<lambda>i. case log ! i of (d, q, limit) \<Rightarrow> spent w (take (Suc i) log) d \<le> limit) [0..<length log]"

lemma spent_Nil [simp]: "spent w [] d = 0"
  by (simp add: spent_def)

lemma spent_snoc [simp]:
  "spent w (log @ [(d', q, limit)]) d = spent w log d + (if d' = d then w q else 0)"
  by (simp add: spent_def)

lemma within_Nil [simp]: "within w []"
  by (simp add: within_def)

lemma within_snoc [simp]:
  "within w (log @ [(d, q, limit)]) \<longleftrightarrow> within w log \<and> spent w log d + w q \<le> limit"
proof -
  have "list_all (\<lambda>i. case (log @ [(d, q, limit)]) ! i of (d', q', limit') \<Rightarrow>
          spent w (take (Suc i) (log @ [(d, q, limit)])) d' \<le> limit') [0..<length log] = within w log"
    by (simp add: within_def list_all_iff nth_append split_def)
  then show ?thesis by (simp add: within_def [of w "log @ _"])
qed

lemma spent_later: "\<forall>e \<in> set log. fst e < d \<Longrightarrow> spent w log d = 0"
  by (induction log) (auto simp: spent_def split_def)

text \<open>
  What a table promises: a booking counts for its day and leaves the day within the limit.  The
  client is any account that books with a clock that does not run backwards, over restarts.
\<close>

locale day_budget =
  fixes wf :: "'r \<Rightarrow> bool"
    and used :: "'r \<Rightarrow> int \<Rightarrow> int"
    and book :: "int \<Rightarrow> 'q \<Rightarrow> int \<Rightarrow> 'r \<Rightarrow> 'r option"
    and weight :: "'q \<Rightarrow> int"
  assumes used_nonneg: "wf r \<Longrightarrow> 0 \<le> used r d"
    and book_wf: "wf r \<Longrightarrow> book d q limit r = Some r' \<Longrightarrow> wf r'"
    and book_used: "book d q limit r = Some r' \<Longrightarrow> used r' d = used r d + weight q"
    and book_limit: "book d q limit r = Some r' \<Longrightarrow> used r' d \<le> limit"
    and weight_nonneg: "wf r \<Longrightarrow> book d q limit r = Some r' \<Longrightarrow> 0 \<le> weight q"
begin

definition covered :: "'r \<Rightarrow> int \<Rightarrow> (int \<times> 'q \<times> int) list \<Rightarrow> bool" where
  "covered r d log \<longleftrightarrow>
     wf r \<and> (\<forall>e \<in> set log. fst e \<le> d) \<and> spent weight log d \<le> used r d \<and> within weight log"

lemma covered_Nil: "wf r \<Longrightarrow> covered r d []"
  by (simp add: covered_def used_nonneg)

lemma covered_later: "covered r d log \<Longrightarrow> d \<le> d' \<Longrightarrow> covered r d' log"
  using spent_later [of log d' weight] used_nonneg [of r d']
  by (cases "d = d'") (force simp: covered_def)+

lemma covered_grant:
  assumes "covered r d log" "book d q limit r = Some r'"
  shows "covered r' d (log @ [(d, q, limit)])"
  using assms book_used [OF assms(2)] book_limit [OF assms(2)] book_wf [OF _ assms(2)]
  by (auto simp: covered_def)

lemma covered_lost:
  assumes "covered r d log" "book d q limit r = Some r'"
  shows "covered r' d log"
  using assms book_used [OF assms(2)] weight_nonneg [OF _ assms(2)] book_wf [OF _ assms(2)]
  by (auto simp: covered_def)

end

definition row_ok :: "day_row option \<Rightarrow> bool" where
  "row_ok row \<longleftrightarrow> (case row of None \<Rightarrow> True | Some r \<Rightarrow> 0 \<le> row_count r)"

definition book_tickets :: "int \<Rightarrow> int \<Rightarrow> int \<Rightarrow> day_row option \<Rightarrow> day_row option option" where
  "book_tickets d n limit row = (if n \<le> 0 then None else map_option Some (upsert_tickets d n limit row))"

lemma upsert_tickets_Some:
  "upsert_tickets d n limit row = Some r \<Longrightarrow>
     row_day r = d \<and> row_count r = row_used row d + n \<and> row_count r \<le> limit"
  by (auto simp: upsert_tickets_def row_used_def Let_def split: option.splits if_splits)

lemma book_tickets_Some:
  "book_tickets d n limit row = Some row' \<Longrightarrow>
     0 < n \<and> row_used row d + n \<le> limit \<and>
     row' = Some \<lparr>row_day = d, row_count = row_used row d + n\<rparr>"
  by (auto simp: book_tickets_def dest!: upsert_tickets_Some split: if_splits)

lemma row_used_nonneg: "row_ok row \<Longrightarrow> 0 \<le> row_used row d"
  by (auto simp: row_ok_def row_used_def split: option.splits)

interpretation tickets: day_budget row_ok row_used book_tickets "\<lambda>n. n"
proof
  fix row row' :: "day_row option" and d n limit :: int
  show "row_ok row \<Longrightarrow> 0 \<le> row_used row d" by (rule row_used_nonneg)
  assume b: "book_tickets d n limit row = Some row'"
  note r = book_tickets_Some [OF b]
  show "row_used row' d = row_used row d + n" "row_used row' d \<le> limit"
    using r by simp_all
  assume "row_ok row"
  then show "row_ok row'" using r row_used_nonneg [of row d] by (simp add: row_ok_def)
  show "0 \<le> n" using r by simp
qed

definition help_used :: "(int \<times> int) list \<Rightarrow> int \<Rightarrow> int" where
  "help_used rows d = int (length (filter (\<lambda>(d', u). d' = d) rows))"

interpretation aid: day_budget distinct help_used insert_help "\<lambda>uid. 1"
  by unfold_locales
    (auto simp: help_used_def insert_help_def filter_empty_conv split: if_splits)

section \<open>Tickets over restarts\<close>

text \<open>
  The account runs, is restarted and runs again; the clock does not run backwards.  The log holds
  the requests that were allowed under a positive limit.  The last argument is whether a read or a write has
  failed since the state was last loaded.
\<close>

inductive ticket_run ::
  "int \<Rightarrow> time \<Rightarrow> day_row option \<Rightarrow> day_state \<Rightarrow> (int \<times> int \<times> int) list \<Rightarrow> bool \<Rightarrow> bool"
  for accountID :: int where
  start: "0 \<le> t \<Longrightarrow> ticket_run accountID t None zero_days [] False"
| restart: "ticket_run accountID t row st log faulty \<Longrightarrow> t \<le> t' \<Longrightarrow>
    ticket_run accountID t' row (hydrateSpeedUpTicketReservations fails accountID t' row zero_days) log fails"
| reserve: "ticket_run accountID t row st log faulty \<Longrightarrow> t \<le> t' \<Longrightarrow>
    reserveSpeedUpTickets limit ready outcome accountID t' n row st = (row', st', ok) \<Longrightarrow>
    ticket_run accountID t' row' st'
      (if ok \<and> 0 < limit then log @ [(calendarDayID t', n, limit)] else log)
      (faulty \<or> outcome = SqlLost)"

text \<open>What the state says of a day.\<close>

definition tickets_known :: "day_state \<Rightarrow> int \<Rightarrow> int" where
  "tickets_known st d = (if ds_speedUpTicketDayID st \<noteq> d then 0 else ds_speedUpTicketsReserved st)"

definition tickets_mirrored :: "bool \<Rightarrow> day_row option \<Rightarrow> day_state \<Rightarrow> int \<Rightarrow> bool" where
  "tickets_mirrored faulty row st d \<longleftrightarrow>
     tickets_known st d \<le> row_used row d \<and> (\<not> faulty \<longrightarrow> tickets_known st d = row_used row d)"

definition ticket_inv ::
  "int \<Rightarrow> time \<Rightarrow> day_row option \<Rightarrow> day_state \<Rightarrow> (int \<times> int \<times> int) list \<Rightarrow> bool \<Rightarrow> bool" where
  "ticket_inv accountID t row st log faulty \<longleftrightarrow>
     0 \<le> t \<and> tickets.covered row (calendarDayID t) log \<and> row_ok row \<and>
     (\<forall>d > calendarDayID t. row_used row d = 0) \<and>
     (0 < accountID \<longrightarrow> (\<forall>d \<ge> calendarDayID t. tickets_mirrored faulty row st d))"

lemma calendarDayID_pos': "0 \<le> t \<Longrightarrow> 0 < calendarDayID t"
  by (rule calendarDayID_pos) (simp add: local_day_def day_length_def gameDayLocation_def duration_defs)

lemma ticket_inv_later:
  assumes "ticket_inv accountID t row st log faulty" "t \<le> t'"
  shows "ticket_inv accountID t' row st log faulty"
  using assms calendarDayID_mono [OF assms(2)] tickets.covered_later
  by (auto simp: ticket_inv_def)

lemma reserve_cases:
  assumes "reserveSpeedUpTickets limit ready outcome accountID t n row st = (row', st', ok)" "0 < limit"
  obtains (refused) "row' = row" "st' = st" "\<not> ok"
  | (lost) "book_tickets (calendarDayID t) n limit row = Some row'" "outcome = SqlLost" "st' = st" "\<not> ok"
  | (granted) "book_tickets (calendarDayID t) n limit row = Some row'" "outcome = SqlOk" "ok"
      "st' = SetSpeedUpTicketsReserved (calendarDayID t) (row_used row' (calendarDayID t)) st"
proof (cases "upsert_tickets (calendarDayID t) n limit row")
  case None
  then show ?thesis
    using assms refused
    by (auto simp: reserveSpeedUpTickets_def ReserveSpeedUpTickets_def PearlHireTicketDayID_def
        split: if_splits)
next
  case (Some r)
  let ?d = "calendarDayID t"
  let ?sent = "ready \<and> 0 < n \<and> 0 < accountID \<and> 0 < ?d \<and> outcome \<noteq> SqlFailed"
  have r: "if ?sent then
      row' = Some r \<and> (if outcome = SqlLost then st' = st \<and> \<not> ok
        else ok \<and> st' = SetSpeedUpTicketsReserved ?d (row_count r) st)
    else row' = row \<and> st' = st \<and> \<not> ok"
    using assms Some
    by (auto simp: reserveSpeedUpTickets_def ReserveSpeedUpTickets_def PearlHireTicketDayID_def
        split: if_splits)
  show ?thesis
  proof (cases ?sent)
    case True
    then have b: "row' = Some r" "book_tickets ?d n limit row = Some row'"
      using r Some by (simp_all add: book_tickets_def)
    show ?thesis
      using True r b upsert_tickets_Some [OF Some] lost granted by (cases outcome) simp_all
  next
    case False
    then show ?thesis using r refused by (auto split: if_splits)
  qed
qed

lemma ticket_run_inv: "ticket_run accountID t row st log faulty \<Longrightarrow> ticket_inv accountID t row st log faulty"
proof (induction rule: ticket_run.induct)
  case (start t)
  then show ?case
    by (simp add: ticket_inv_def tickets.covered_Nil row_ok_def row_used_def tickets_mirrored_def
        tickets_known_def zero_days_def)
next
  case (restart t row st log faulty t' fails)
  have i: "ticket_inv accountID t' row st log faulty" using restart ticket_inv_later by blast
  have d: "0 < calendarDayID t'" using i calendarDayID_pos' by (simp add: ticket_inv_def)
  have "tickets_mirrored fails row (hydrateSpeedUpTicketReservations fails accountID t' row zero_days) d"
    if "0 < accountID" "calendarDayID t' \<le> d" for d
    using that i d row_used_nonneg [of row d] row_used_nonneg [of row "calendarDayID t'"]
    by (auto simp: hydrateSpeedUpTicketReservations_def SpeedUpTicketsReserved_def
        SetSpeedUpTicketsReserved_def PearlHireTicketDayID_def tickets_mirrored_def tickets_known_def
        zero_days_def ticket_inv_def)
  then show ?case using i by (simp add: ticket_inv_def)
next
  case (reserve t row st log faulty t' limit ready outcome n row' st' ok)
  have i: "ticket_inv accountID t' row st log faulty" using reserve ticket_inv_later by blast
  let ?d = "calendarDayID t'"
  have d: "0 < ?d" using i calendarDayID_pos' by (simp add: ticket_inv_def)
  show ?case
  proof (cases "0 < limit")
    case False
    then have "row' = row" "st' = st" using reserve.hyps(3) by (auto simp: reserveSpeedUpTickets_def)
    then show ?thesis using i False by (simp add: ticket_inv_def tickets_mirrored_def)
  next
    case True
    from reserve.hyps(3) True show ?thesis
    proof (cases rule: reserve_cases)
      case refused
      then show ?thesis using i by (simp add: ticket_inv_def tickets_mirrored_def)
    next
      case lost
      note b = book_tickets_Some [OF lost(1)]
      have "tickets.covered row' ?d log" "row_ok row'"
        using tickets.covered_lost [OF _ lost(1)] tickets.book_wf [OF _ lost(1)] i
        by (simp_all add: ticket_inv_def)
      then show ?thesis using i lost b
        by (auto simp: ticket_inv_def tickets_mirrored_def)
    next
      case granted
      note b = book_tickets_Some [OF granted(1)]
      have "tickets.covered row' ?d (log @ [(?d, n, limit)])" "row_ok row'"
        using tickets.covered_grant [OF _ granted(1)] tickets.book_wf [OF _ granted(1)] i
        by (simp_all add: ticket_inv_def)
      moreover have "tickets_mirrored f row' st' d" if "?d \<le> d" for d f
        using granted(4) b that d row_used_nonneg [of row ?d] i
        by (auto simp: tickets_mirrored_def tickets_known_def SetSpeedUpTicketsReserved_def
            ticket_inv_def)
      ultimately show ?thesis using i True granted b
        by (simp add: ticket_inv_def)
    qed
  qed
qed

text \<open>
  C9.  Over any number of restarts, lost results and failed statements, the speed-up
  tickets allowed on one day of the game while a limit was set never exceed the limit in force when
  the last of them was allowed, and the planner's count never runs ahead of the table.  Only these
  tickets are counted: without a limit (zero or negative) the guard allows every request and books
  none, so tickets spent then stand in no count.
\<close>

theorem ticket_cap:
  assumes "ticket_run accountID t row st log faulty" "0 < accountID"
  shows "within (\<lambda>n. n) log \<and>
    SpeedUpTicketsReservedToday t st \<le> row_used row (calendarDayID t) \<and>
    (limit \<le> 0 \<longrightarrow> reserveSpeedUpTickets limit ready outcome accountID now n row st = (row, st, True))"
  using ticket_run_inv [OF assms(1)] assms(2)
  by (auto simp: ticket_inv_def tickets.covered_def tickets_mirrored_def tickets_known_def
      SpeedUpTicketsReservedToday_def reserveSpeedUpTickets_def)

text \<open>Three tickets of five, a restart that cannot read the table, two more, and one too many.\<close>

definition sample_row :: "int \<Rightarrow> day_row option" where
  "sample_row n = Some \<lparr>row_day = 19700101, row_count = n\<rparr>"

definition sample_tickets :: "int \<Rightarrow> day_state" where
  "sample_tickets n = zero_days\<lparr>ds_speedUpTicketDayID := 19700101, ds_speedUpTicketsReserved := n\<rparr>"

lemma sample_ticket_run:
  "ticket_run 1 0 (sample_row 3) (sample_tickets 3) [(19700101, 3, 5)] False"
  "ticket_run 1 hour (sample_row 5) (sample_tickets 5) [(19700101, 3, 5), (19700101, 2, 5)] True"
proof -
  have day: "calendarDayID 0 = 19700101" "calendarDayID hour = 19700101" by code_simp+
  have 1: "reserveSpeedUpTickets 5 True SqlOk 1 0 3 None zero_days = (sample_row 3, sample_tickets 3, True)"
    by code_simp
  show a: "ticket_run 1 0 (sample_row 3) (sample_tickets 3) [(19700101, 3, 5)] False"
    using ticket_run.reserve [OF ticket_run.start [of 0 1] order_refl 1] by (simp add: day)
  have 2: "hydrateSpeedUpTicketReservations True 1 hour (sample_row 3) zero_days = zero_days" by code_simp
  have h: "0 \<le> hour" by (simp add: duration_defs)
  note b = ticket_run.restart [OF a h, where fails = True, unfolded 2]
  have 3: "reserveSpeedUpTickets 5 True SqlOk 1 hour 2 (sample_row 3) zero_days =
      (sample_row 5, sample_tickets 5, True)" by code_simp
  show "ticket_run 1 hour (sample_row 5) (sample_tickets 5) [(19700101, 3, 5), (19700101, 2, 5)] True"
    using ticket_run.reserve [OF b order_refl 3] by (simp add: day)
qed

theorem ticket_cap_witness:
  "within (\<lambda>n. n) [(19700101, 3, 5), (19700101, 2, 5)] \<and>
   SpeedUpTicketsReservedToday hour (sample_tickets 5) \<le> row_used (sample_row 5) 19700101"
proof -
  have "calendarDayID hour = 19700101" by code_simp
  then show ?thesis using ticket_cap [OF sample_ticket_run(2)] by simp
qed

text \<open>
  While no statement has failed since the account was started, the guard in front of the request
  allows exactly what the planner believes to be left.
\<close>

lemma tickets_granted:
  assumes "ticket_run accountID t row st log False" "t \<le> now" "0 < accountID" "0 < limit" "0 < n"
    and "reserveSpeedUpTickets limit True SqlOk accountID now n row st = (row', st', ok)"
  shows "(ok \<longleftrightarrow> n \<le> limit - SpeedUpTicketsReservedToday now st) \<and>
    SpeedUpTicketsReservedToday now st' = row_used row' (calendarDayID now)"
proof -
  have i: "ticket_inv accountID now row st log False"
    using ticket_run_inv [OF assms(1)] assms(2) by (rule ticket_inv_later)
  have now: "0 < calendarDayID now" using i calendarDayID_pos' by (simp add: ticket_inv_def)
  have known: "SpeedUpTicketsReservedToday now st = row_used row (calendarDayID now)"
    using i assms(3)
    by (auto simp: ticket_inv_def tickets_mirrored_def tickets_known_def SpeedUpTicketsReservedToday_def)
  have used: "0 \<le> row_used row (calendarDayID now)"
    using i row_used_nonneg by (simp add: ticket_inv_def)
  show ?thesis
    using assms(3-6) now known used
    by (auto simp: reserveSpeedUpTickets_def ReserveSpeedUpTickets_def upsert_tickets_def
        SetSpeedUpTicketsReserved_def SpeedUpTicketsReservedToday_def PearlHireTicketDayID_def
        Let_def split: option.splits if_splits)
qed

section \<open>Help over restarts\<close>

inductive aid_run ::
  "int \<Rightarrow> time \<Rightarrow> (int \<times> int) list \<Rightarrow> day_state \<Rightarrow> (int \<times> int \<times> int) list \<Rightarrow> bool"
  for accountID :: int where
  start: "0 \<le> t \<Longrightarrow> aid_run accountID t [] zero_days []"
| restart: "aid_run accountID t rows st log \<Longrightarrow> t \<le> t' \<Longrightarrow>
    aid_run accountID t' rows (hydrateElvesAidHelpReservations fails accountID t' rows zero_days) log"
| help_friend: "aid_run accountID t rows st log \<Longrightarrow> t \<le> t' \<Longrightarrow>
    reserveElvesAidHelp helpMax ready outcome accountID t' uid rows st = (rows', st', ok) \<Longrightarrow>
    aid_run accountID t' rows' st' (if ok then log @ [(calendarDayID t', uid, the helpMax)] else log)"

definition aid_inv :: "time \<Rightarrow> (int \<times> int) list \<Rightarrow> (int \<times> int \<times> int) list \<Rightarrow> bool" where
  "aid_inv t rows log \<longleftrightarrow>
     aid.covered rows (calendarDayID t) log \<and> distinct (map (\<lambda>(d, uid, limit). (d, uid)) log) \<and>
     (\<lambda>(d, uid, limit). (d, uid)) ` set log \<subseteq> set rows"

lemma aid_inv_later: "aid_inv t rows log \<Longrightarrow> t \<le> t' \<Longrightarrow> aid_inv t' rows log"
  using calendarDayID_mono [of t t'] aid.covered_later by (auto simp: aid_inv_def)

lemma insert_help_Some:
  "insert_help d uid limit rows = Some rows' \<Longrightarrow> rows' = rows @ [(d, uid)] \<and> (d, uid) \<notin> set rows"
  by (auto simp: insert_help_def filter_empty_conv split: if_splits)

lemma help_cases:
  assumes "reserveElvesAidHelp helpMax ready outcome accountID t uid rows st = (rows', st', ok)"
  obtains (refused) "rows' = rows" "\<not> ok"
  | (lost) limit where "insert_help (calendarDayID t) uid limit rows = Some rows'" "\<not> ok"
  | (granted) limit where "insert_help (calendarDayID t) uid limit rows = Some rows'" "ok" "helpMax = Some limit"
  using assms
  by (cases outcome)
    (auto simp: reserveElvesAidHelp_def ReserveElvesAidHelp_def PearlHireTicketDayID_def
      split: if_splits option.splits)

lemma aid_run_inv: "aid_run accountID t rows st log \<Longrightarrow> aid_inv t rows log"
proof (induction rule: aid_run.induct)
  case (start t)
  then show ?case by (simp add: aid_inv_def aid.covered_Nil)
next
  case (restart t rows st log t' fails)
  then show ?case using aid_inv_later by blast
next
  case (help_friend t rows st log t' helpMax ready outcome uid rows' st' ok)
  have i: "aid_inv t' rows log" using help_friend aid_inv_later by blast
  let ?d = "calendarDayID t'"
  from help_friend.hyps(3) show ?case
  proof (cases rule: help_cases)
    case refused
    then show ?thesis using i by simp
  next
    case (lost limit)
    then show ?thesis
      using i insert_help_Some [OF lost(1)] aid.covered_lost [OF _ lost(1)] by (auto simp: aid_inv_def)
  next
    case (granted limit)
    have "aid.covered rows' ?d (log @ [(?d, uid, limit)])"
      using i aid.covered_grant [OF _ granted(1)] by (simp add: aid_inv_def)
    moreover have "(?d, uid) \<notin> (\<lambda>(d, uid, limit). (d, uid)) ` set log"
      using i insert_help_Some [OF granted(1)] by (auto simp: aid_inv_def)
    ultimately show ?thesis
      using i insert_help_Some [OF granted(1)] granted(2,3) by (auto simp: aid_inv_def)
  qed
qed

text \<open>
  Over any number of restarts, lost results and failed statements, no friend is helped
  twice on one day and the day's helps stay within the limit of the catalogue.
\<close>

lemma aid_once:
  assumes "aid_run accountID t rows st log"
  shows "within (\<lambda>uid. 1) log \<and> distinct (map (\<lambda>(d, uid, limit). (d, uid)) log)"
  using aid_run_inv [OF assms] by (simp add: aid_inv_def aid.covered_def)

section \<open>Hire tickets over restarts\<close>

text \<open>
  The clock moves, tickets are spent, the account restarts and reads its row, or fails to.  The
  counters of the run: tickets spent today, those whose note was never saved before a restart, and
  those noted since the last saved note.  The last argument is whether a load has failed today: the
  account then runs on with a count of zero.
\<close>

inductive pearl_run ::
  "int \<Rightarrow> time \<Rightarrow> day_row option \<Rightarrow> day_state \<Rightarrow> int \<Rightarrow> int \<Rightarrow> int \<Rightarrow> bool \<Rightarrow> bool" for accountID :: int where
  start: "0 \<le> t \<Longrightarrow> pearl_run accountID t None zero_days 0 0 0 False"
| same_day: "pearl_run accountID t row st total_spent lost unsaved blind \<Longrightarrow> t \<le> t' \<Longrightarrow>
    calendarDayID t' = calendarDayID t \<Longrightarrow> pearl_run accountID t' row st total_spent lost unsaved blind"
| new_day: "pearl_run accountID t row st total_spent lost unsaved blind \<Longrightarrow> t \<le> t' \<Longrightarrow>
    calendarDayID t' \<noteq> calendarDayID t \<Longrightarrow> pearl_run accountID t' row st 0 0 0 False"
| spend: "pearl_run accountID t row st total_spent lost unsaved blind \<Longrightarrow>
    notePearlHireTicketUsed ready outcome accountID t row st = (row', st') \<Longrightarrow>
    pearl_run accountID t row' st' (total_spent + 1) lost
      (if ready \<and> outcome \<noteq> SqlFailed then 0 else unsaved + 1) blind"
| restart: "pearl_run accountID t row st total_spent lost unsaved blind \<Longrightarrow>
    pearl_run accountID t row (hydratePearlHireTicketUsage fails accountID t row zero_days)
      total_spent (lost + unsaved) 0 (blind \<or> fails)"

definition pearl_known :: "day_state \<Rightarrow> int \<Rightarrow> int" where
  "pearl_known st d =
     (if ds_pearlHireTicketUsedDayID st \<noteq> d then 0 else ds_pearlHireTicketUsedToday st)"

definition pearl_inv :: "time \<Rightarrow> day_row option \<Rightarrow> day_state \<Rightarrow> int \<Rightarrow> int \<Rightarrow> int \<Rightarrow> bool \<Rightarrow> bool" where
  "pearl_inv t row st n lost unsaved blind \<longleftrightarrow>
     0 \<le> t \<and> 0 \<le> unsaved \<and> 0 \<le> pearl_known st (calendarDayID t) \<and> 0 \<le> row_used row (calendarDayID t) \<and>
     pearl_known st (calendarDayID t) \<le> n \<and> row_used row (calendarDayID t) \<le> n \<and>
     (\<not> blind \<longrightarrow>
       pearl_known st (calendarDayID t) = n - lost \<and> row_used row (calendarDayID t) = n - lost - unsaved) \<and>
     (\<forall>d > calendarDayID t. pearl_known st d = 0 \<and> row_used row d = 0)"

text \<open>What a note does to the count and to the row; the table keeps the larger of both counts.\<close>

lemma note_pearl:
  assumes t: "0 \<le> t" and id: "0 < accountID" and nonneg: "0 \<le> pearl_known st (calendarDayID t)"
    and step: "notePearlHireTicketUsed ready outcome accountID t row st = (row', st')"
  shows "ds_pearlHireTicketUsedDayID st' = calendarDayID t \<and>
    (let known = pearl_known st (calendarDayID t); used = max (row_used row (calendarDayID t)) known + 1
     in if \<not> ready \<or> outcome = SqlFailed then row' = row \<and> ds_pearlHireTicketUsedToday st' = known + 1
        else row' = Some \<lparr>row_day = calendarDayID t, row_count = used\<rparr> \<and>
          ds_pearlHireTicketUsedToday st' = (if outcome = SqlLost then known + 1 else used))"
proof -
  let ?d = "calendarDayID t" and ?k = "pearl_known st (calendarDayID t)"
  have d: "0 < ?d" "\<not> time_is_zero t"
    using t calendarDayID_pos' by (simp_all add: time_is_zero_def zero_time_def)
  let ?s1 = "st\<lparr>ds_pearlHireTicketUsedDayID := ?d, ds_pearlHireTicketUsedToday := ?k + 1\<rparr>"
  have nt: "NotePearlHireTicketUsed t st = (?s1, ?k + 1)"
    using d by (auto simp: NotePearlHireTicketUsed_def PearlHireTicketDayID_def pearl_known_def Let_def)
  have used: "(case row of None \<Rightarrow> ?k + 1
      | Some r \<Rightarrow> if row_day r = ?d then max (row_count r + 1) (?k + 1) else ?k + 1) = max (row_used row ?d) ?k + 1"
    using nonneg by (cases row) auto
  have adv: "AdvancePearlHireTicketUsed outcome accountID ?d (?k + 1) row =
      (if outcome = SqlFailed then (row, None)
       else (Some \<lparr>row_day = ?d, row_count = max (row_used row ?d) ?k + 1\<rparr>,
         if outcome = SqlLost then None else Some (max (row_used row ?d) ?k + 1)))"
    using d(1) id nonneg unfolding AdvancePearlHireTicketUsed_def used Let_def by auto
  have merge: "MergePearlHireTicketUsed ?d (max (row_used row ?d) ?k + 1) ?s1 =
      ?s1\<lparr>ds_pearlHireTicketUsedToday := max (row_used row ?d) ?k + 1\<rparr>"
    using d(1) nonneg by (auto simp: MergePearlHireTicketUsed_def)
  show ?thesis
    using step unfolding notePearlHireTicketUsed_def PearlHireTicketDayID_def nt prod.case adv
    by (cases ready; cases outcome) (auto simp: d(2) merge Let_def)
qed

lemma pearl_run_inv:
  "pearl_run accountID t row st n lost unsaved blind \<Longrightarrow> 0 < accountID \<Longrightarrow> pearl_inv t row st n lost unsaved blind"
proof (induction rule: pearl_run.induct)
  case (start t)
  then show ?case by (simp add: pearl_inv_def pearl_known_def zero_days_def)
next
  case (same_day t row st n lost unsaved blind t')
  then show ?case by (simp add: pearl_inv_def)
next
  case (new_day t row st n lost unsaved blind t')
  have "calendarDayID t < calendarDayID t'" using calendarDayID_mono [of t t'] new_day by simp
  then show ?case using new_day by (auto simp: pearl_inv_def)
next
  case (spend t row st n lost unsaved blind ready outcome row' st')
  let ?d = "calendarDayID t"
  have i: "pearl_inv t row st n lost unsaved blind" using spend by simp
  then have "0 \<le> t" "0 \<le> pearl_known st ?d" by (simp_all add: pearl_inv_def)
  note step = note_pearl [OF this(1) spend.prems this(2) spend.hyps(2)]
  show ?case
    using i step by (cases "\<not> ready \<or> outcome = SqlFailed") (auto simp: pearl_inv_def pearl_known_def Let_def)
next
  case (restart t row st n lost unsaved blind fails)
  have i: "pearl_inv t row st n lost unsaved blind" using restart by simp
  have d: "0 < calendarDayID t" "\<not> time_is_zero t"
    using i calendarDayID_pos' by (simp_all add: pearl_inv_def time_is_zero_def zero_time_def)
  show ?case
    using i d restart.prems
    by (auto simp: hydratePearlHireTicketUsage_def PearlHireTicketUsed_def SetPearlHireTicketUsed_def
        PearlHireTicketDayID_def pearl_inv_def pearl_known_def zero_days_def)
qed

text \<open>
  C20.  On a day on which no load of the table has failed, the count of hire tickets that the daily
  limit is checked against is exact: it is the number spent today, less only those whose note the
  database refused and whose process ended before a later note was saved; and a saved note makes the
  table agree with the count, whatever failed before it.  After a failed load the count starts from
  zero, so it may be too small; neither count nor table ever exceeds what was spent, and the first
  note that is saved and answered raises both to one more than the larger of the two.
\<close>

theorem pearl_usage_exact:
  assumes "pearl_run accountID t row st n lost unsaved blind" "0 < accountID"
  shows "(\<not> blind \<longrightarrow> pearlHireTicketUsedToday t st = n - lost \<and>
      row_used row (calendarDayID t) = pearlHireTicketUsedToday t st - unsaved) \<and>
    pearlHireTicketUsedToday t st \<le> n \<and> row_used row (calendarDayID t) \<le> n \<and>
    (\<forall>row' st'. notePearlHireTicketUsed True SqlOk accountID t row st = (row', st') \<longrightarrow>
       pearlHireTicketUsedToday t st' = max (row_used row (calendarDayID t)) (pearlHireTicketUsedToday t st) + 1 \<and>
       row_used row' (calendarDayID t) = pearlHireTicketUsedToday t st')"
proof -
  have i: "pearl_inv t row st n lost unsaved blind" using pearl_run_inv [OF assms] .
  have t: "0 \<le> t" "0 \<le> pearl_known st (calendarDayID t)" using i by (simp_all add: pearl_inv_def)
  then have z: "\<not> time_is_zero t" by (simp add: time_is_zero_def zero_time_def)
  then have known: "pearlHireTicketUsedToday t s = pearl_known s (calendarDayID t)" for s
    by (simp add: pearl_known_def pearlHireTicketUsedToday_def PearlHireTicketDayID_def)
  have "pearl_known st' (calendarDayID t) = max (row_used row (calendarDayID t)) (pearl_known st (calendarDayID t)) + 1 \<and>
      row_used row' (calendarDayID t) = pearl_known st' (calendarDayID t)"
    if "notePearlHireTicketUsed True SqlOk accountID t row st = (row', st')" for row' st'
    using note_pearl [OF t(1) assms(2) t(2) that] by (simp add: Let_def pearl_known_def [of st'])
  with i show ?thesis unfolding known by (simp add: pearl_inv_def)
qed

text \<open>A spend whose note fails, and one whose note is saved; then a restart that cannot read the table.\<close>

theorem pearl_usage_exact_witness:
  "pearlHireTicketUsedToday 0 (zero_days\<lparr>ds_pearlHireTicketUsedDayID := 19700101,
       ds_pearlHireTicketUsedToday := 2\<rparr>) = 2 \<and> row_used (sample_row 2) (calendarDayID 0) = 2 \<and>
   pearlHireTicketUsedToday 0 zero_days \<le> 2"
proof -
  let ?s = "\<lambda>n. zero_days\<lparr>ds_pearlHireTicketUsedDayID := 19700101, ds_pearlHireTicketUsedToday := n\<rparr>"
  have 1: "notePearlHireTicketUsed True SqlFailed 1 0 None zero_days = (None, ?s 1)" by code_simp
  have 2: "notePearlHireTicketUsed True SqlOk 1 0 None (?s 1) = (sample_row 2, ?s 2)" by code_simp
  have r1: "pearl_run 1 0 None (?s 1) 1 0 1 False"
    using pearl_run.spend [OF pearl_run.start [of 0 1] 1] by simp
  have r2: "pearl_run 1 0 (sample_row 2) (?s 2) 2 0 0 False"
    using pearl_run.spend [OF r1 2] by simp
  have h: "hydratePearlHireTicketUsage True 1 0 (sample_row 2) zero_days = zero_days" by code_simp
  have r3: "pearl_run 1 0 (sample_row 2) zero_days 2 0 0 True"
    using pearl_run.restart [OF r2, of True] by (simp add: h)
  show ?thesis using pearl_usage_exact [OF r2] pearl_usage_exact [OF r3] by simp
qed

end
