(* ===== verification/Literals.thy ===== *)
theory Literals
  imports Prelude
begin

text \<open>
  The Chinese string literals of the Go source, as the byte strings the compiler stores.
  Each constant carries an English gloss; operations compare, search and concatenate these
  strings, so they are kept as data.
\<close>

definition lit_diamond :: string where \<comment> \<open>ingots (diamonds)\<close>
  "lit_diamond =
     [CHR 0xE5, CHR 0x85, CHR 0x83, CHR 0xE5, CHR 0xAE, CHR 0x9D]"

definition lit_gold :: string where \<comment> \<open>gold\<close>
  "lit_gold =
     [CHR 0xE9, CHR 0x87, CHR 0x91, CHR 0xE5, CHR 0xB8, CHR 0x81]"

definition lit_water_drop :: string where \<comment> \<open>water drops\<close>
  "lit_water_drop =
     [CHR 0xE6, CHR 0xB0, CHR 0xB4, CHR 0xE6, CHR 0xBB, CHR 0xB4]"

definition lit_short_need :: string where \<comment> \<open>is short: needs\<close>
  "lit_short_need =
     [CHR 0xE4, CHR 0xB8, CHR 0x8D, CHR 0xE8, CHR 0xB6, CHR 0xB3] @ '': '' @ [CHR 0xE9, CHR 0x9C,
      CHR 0x80, CHR 0xE8, CHR 0xA6, CHR 0x81] @ '' ''"

definition lit_current :: string where \<comment> \<open>, currently\<close>
  "lit_current =
     [CHR 0xEF, CHR 0xBC, CHR 0x8C, CHR 0xE5, CHR 0xBD, CHR 0x93, CHR 0xE5, CHR 0x89, CHR 0x8D] @
      '' ''"

definition lit_queue_short :: string where \<comment> \<open>queue resources short:\<close>
  "lit_queue_short =
     [CHR 0xE9, CHR 0x98, CHR 0x9F, CHR 0xE5, CHR 0x88, CHR 0x97, CHR 0xE8, CHR 0xB5, CHR 0x84,
      CHR 0xE6, CHR 0xBA, CHR 0x90, CHR 0xE4, CHR 0xB8, CHR 0x8D, CHR 0xE8, CHR 0xB6, CHR 0xB3] @
      '': ''"

definition lit_need :: string where \<comment> \<open>needs\<close>
  "lit_need =
     [CHR 0xE9, CHR 0x9C, CHR 0x80, CHR 0xE8, CHR 0xA6, CHR 0x81] @ '' ''"

definition lit_queue_left :: string where \<comment> \<open>, queue has left\<close>
  "lit_queue_left =
     [CHR 0xEF, CHR 0xBC, CHR 0x8C, CHR 0xE9, CHR 0x98, CHR 0x9F, CHR 0xE5, CHR 0x88, CHR 0x97,
      CHR 0xE5, CHR 0x89, CHR 0xA9, CHR 0xE4, CHR 0xBD, CHR 0x99] @ '' ''"

definition lit_diamond_not_automatic :: string where \<comment> \<open>operations that cost ingots do not run by default\<close>
  "lit_diamond_not_automatic =
     [CHR 0xE5, CHR 0x85, CHR 0x83, CHR 0xE5, CHR 0xAE, CHR 0x9D, CHR 0xE6, CHR 0x88, CHR 0x90,
      CHR 0xE6, CHR 0x9C, CHR 0xAC, CHR 0xE6, CHR 0x93, CHR 0x8D, CHR 0xE4, CHR 0xBD, CHR 0x9C,
      CHR 0xE9, CHR 0xBB, CHR 0x98, CHR 0xE8, CHR 0xAE, CHR 0xA4, CHR 0xE4, CHR 0xB8, CHR 0x8D,
      CHR 0xE8, CHR 0x87, CHR 0xAA, CHR 0xE5, CHR 0x8A, CHR 0xA8, CHR 0xE6, CHR 0x89, CHR 0xA7,
      CHR 0xE8, CHR 0xA1, CHR 0x8C]"

definition lit_water_without_land :: string where \<comment> \<open>watering names no land\<close>
  "lit_water_without_land =
     [CHR 0xE6, CHR 0xB5, CHR 0x87, CHR 0xE6, CHR 0xB0, CHR 0xB4, CHR 0xE6, CHR 0x93, CHR 0x8D,
      CHR 0xE4, CHR 0xBD, CHR 0x9C, CHR 0xE7, CHR 0xBC, CHR 0xBA, CHR 0xE5, CHR 0xB0, CHR 0x91,
      CHR 0xE7, CHR 0x94, CHR 0xB0, CHR 0xE5, CHR 0x9C, CHR 0xB0]"

definition lit_stage_policy :: string where \<comment> \<open>policy\<close>
  "lit_stage_policy =
     [CHR 0xE7, CHR 0xAD, CHR 0x96, CHR 0xE7, CHR 0x95, CHR 0xA5]"

definition lit_stage_limit :: string where \<comment> \<open>upper limit\<close>
  "lit_stage_limit =
     [CHR 0xE4, CHR 0xB8, CHR 0x8A, CHR 0xE9, CHR 0x99, CHR 0x90]"

definition lit_stage_budget :: string where \<comment> \<open>budget\<close>
  "lit_stage_budget =
     [CHR 0xE9, CHR 0xA2, CHR 0x84, CHR 0xE7, CHR 0xAE, CHR 0x97]"

definition lit_stage_recipe :: string where \<comment> \<open>recipe\<close>
  "lit_stage_recipe =
     [CHR 0xE9, CHR 0x85, CHR 0x8D, CHR 0xE6, CHR 0x96, CHR 0xB9]"

definition lit_stage_config :: string where \<comment> \<open>configuration\<close>
  "lit_stage_config =
     [CHR 0xE9, CHR 0x85, CHR 0x8D, CHR 0xE7, CHR 0xBD, CHR 0xAE]"

definition lit_stage_vase :: string where \<comment> \<open>vase\<close>
  "lit_stage_vase =
     [CHR 0xE8, CHR 0x8A, CHR 0xB1, CHR 0xE7, CHR 0x93, CHR 0xB6]"

definition lit_stage_level :: string where \<comment> \<open>level\<close>
  "lit_stage_level =
     [CHR 0xE7, CHR 0xAD, CHR 0x89, CHR 0xE7, CHR 0xBA, CHR 0xA7]"

definition lit_stage_stock :: string where \<comment> \<open>stock\<close>
  "lit_stage_stock =
     [CHR 0xE5, CHR 0xBA, CHR 0x93, CHR 0xE5, CHR 0xAD, CHR 0x98]"

definition lit_stage_short :: string where \<comment> \<open>short\<close>
  "lit_stage_short =
     [CHR 0xE4, CHR 0xB8, CHR 0x8D, CHR 0xE8, CHR 0xB6, CHR 0xB3]"

definition lit_stage_unobserved :: string where \<comment> \<open>not observed\<close>
  "lit_stage_unobserved =
     [CHR 0xE6, CHR 0x9C, CHR 0xAA, CHR 0xE8, CHR 0xA7, CHR 0x82, CHR 0xE5, CHR 0xAF, CHR 0x9F]"

definition lit_stage_unmeasured :: string where \<comment> \<open>not measured\<close>
  "lit_stage_unmeasured =
     [CHR 0xE6, CHR 0x9C, CHR 0xAA, CHR 0xE8, CHR 0xA7, CHR 0x82, CHR 0xE6, CHR 0xB5, CHR 0x8B]"

definition lit_stage_state :: string where \<comment> \<open>state\<close>
  "lit_stage_state =
     [CHR 0xE7, CHR 0x8A, CHR 0xB6, CHR 0xE6, CHR 0x80, CHR 0x81]"

definition lit_stage_protocol :: string where \<comment> \<open>protocol\<close>
  "lit_stage_protocol =
     [CHR 0xE5, CHR 0x8D, CHR 0x8F, CHR 0xE8, CHR 0xAE, CHR 0xAE]"

definition lit_stage_execute :: string where \<comment> \<open>execute\<close>
  "lit_stage_execute =
     [CHR 0xE6, CHR 0x89, CHR 0xA7, CHR 0xE8, CHR 0xA1, CHR 0x8C]"

definition lit_no_feature :: string where \<comment> \<open>feature registration is missing\<close>
  "lit_no_feature =
     [CHR 0xE7, CHR 0xBC, CHR 0xBA, CHR 0xE5, CHR 0xB0, CHR 0x91, CHR 0xE5, CHR 0x8A, CHR 0x9F,
      CHR 0xE8, CHR 0x83, CHR 0xBD, CHR 0xE6, CHR 0xB3, CHR 0xA8, CHR 0xE5, CHR 0x86, CHR 0x8C,
      CHR 0xE4, CHR 0xBF, CHR 0xA1, CHR 0xE6, CHR 0x81, CHR 0xAF]"

definition lit_sdk_ad :: string where \<comment> \<open>needs a client SDK advertising callback or token\<close>
  "lit_sdk_ad =
     [CHR 0xE9, CHR 0x9C, CHR 0x80, CHR 0xE8, CHR 0xA6, CHR 0x81, CHR 0xE5, CHR 0xAE, CHR 0xA2,
      CHR 0xE6, CHR 0x88, CHR 0xB7, CHR 0xE7, CHR 0xAB, CHR 0xAF] @ '' SDK '' @ [CHR 0xE5, CHR 0xB9,
      CHR 0xBF, CHR 0xE5, CHR 0x91, CHR 0x8A, CHR 0xE5, CHR 0x9B, CHR 0x9E, CHR 0xE8, CHR 0xB0,
      CHR 0x83, CHR 0xE6, CHR 0x88, CHR 0x96] @ '' token'' @ [CHR 0xEF, CHR 0xBC, CHR 0x9B, CHR 0xE6,
      CHR 0x9C, CHR 0xAC, CHR 0xE9, CHR 0xA1, CHR 0xB9, CHR 0xE7, CHR 0x9B, CHR 0xAE, CHR 0xE4,
      CHR 0xB8, CHR 0x8D, CHR 0xE6, CHR 0x94, CHR 0xAF, CHR 0xE6, CHR 0x8C, CHR 0x81, CHR 0xE5,
      CHR 0xB9, CHR 0xBF, CHR 0xE5, CHR 0x91, CHR 0x8A] @ '' SDK '' @ [CHR 0xE8, CHR 0x87, CHR 0xAA,
      CHR 0xE5, CHR 0x8A, CHR 0xA8, CHR 0xE5, CHR 0x8C, CHR 0x96, CHR 0xEF, CHR 0xBC, CHR 0x8C,
      CHR 0xE4, CHR 0xB9, CHR 0x9F, CHR 0xE4, CHR 0xB8, CHR 0x8D, CHR 0xE4, CHR 0xBC, CHR 0x9A,
      CHR 0xE7, CHR 0xBC, CHR 0x96, CHR 0xE9, CHR 0x80, CHR 0xA0, CHR 0xE5, CHR 0x9B, CHR 0x9E,
      CHR 0xE8, CHR 0xB0, CHR 0x83, CHR 0xE5, CHR 0x8F, CHR 0x82, CHR 0xE6, CHR 0x95, CHR 0xB0]"

definition lit_no_activity_adapter :: string where \<comment> \<open>no activity adapter\<close>
  "lit_no_activity_adapter =
     [CHR 0xE7, CHR 0xBC, CHR 0xBA, CHR 0xE5, CHR 0xB0, CHR 0x91, CHR 0xE6, CHR 0xB4, CHR 0xBB,
      CHR 0xE5, CHR 0x8A, CHR 0xA8, CHR 0xE6, CHR 0x89, CHR 0xA7, CHR 0xE8, CHR 0xA1, CHR 0x8C] @
      '' adapter''"

definition lit_op_failed :: string where \<comment> \<open>the operation failed, retry later\<close>
  "lit_op_failed =
     [CHR 0xE6, CHR 0x93, CHR 0x8D, CHR 0xE4, CHR 0xBD, CHR 0x9C, CHR 0xE5, CHR 0xA4, CHR 0xB1,
      CHR 0xE8, CHR 0xB4, CHR 0xA5, CHR 0xEF, CHR 0xBC, CHR 0x8C, CHR 0xE6, CHR 0x9A, CHR 0x82,
      CHR 0xE7, CHR 0xBC, CHR 0x93, CHR 0xE9, CHR 0x87, CHR 0x8D, CHR 0xE8, CHR 0xAF, CHR 0x95]"

definition lit_none :: string where \<comment> \<open>none\<close>
  "lit_none =
     [CHR 0xE6, CHR 0x97, CHR 0xA0]"

definition lit_flower_no :: string where \<comment> \<open>flower number\<close>
  "lit_flower_no =
     [CHR 0xE8, CHR 0x8A, CHR 0xB1, CHR 0xE5, CHR 0x8D, CHR 0x89] @ ''#''"

definition lit_diamond_not_automatic_n :: string where \<comment> \<open>operations that cost ingots do not run by default:\<close>
  "lit_diamond_not_automatic_n =
     [CHR 0xE5, CHR 0x85, CHR 0x83, CHR 0xE5, CHR 0xAE, CHR 0x9D, CHR 0xE6, CHR 0x88, CHR 0x90,
      CHR 0xE6, CHR 0x9C, CHR 0xAC, CHR 0xE6, CHR 0x93, CHR 0x8D, CHR 0xE4, CHR 0xBD, CHR 0x9C,
      CHR 0xE9, CHR 0xBB, CHR 0x98, CHR 0xE8, CHR 0xAE, CHR 0xA4, CHR 0xE4, CHR 0xB8, CHR 0x8D,
      CHR 0xE8, CHR 0x87, CHR 0xAA, CHR 0xE5, CHR 0x8A, CHR 0xA8, CHR 0xE6, CHR 0x89, CHR 0xA7,
      CHR 0xE8, CHR 0xA1, CHR 0x8C] @ '': ''"

definition lit_unmet :: string where \<comment> \<open>is not met\<close>
  "lit_unmet =
     '' '' @ [CHR 0xE6, CHR 0x9C, CHR 0xAA, CHR 0xE6, CHR 0xBB, CHR 0xA1, CHR 0xE8, CHR 0xB6,
      CHR 0xB3]"

definition lit_precondition :: string where \<comment> \<open>precondition\<close>
  "lit_precondition =
     [CHR 0xE5, CHR 0x89, CHR 0x8D, CHR 0xE7, CHR 0xBD, CHR 0xAE, CHR 0xE6, CHR 0x9D, CHR 0xA1,
      CHR 0xE4, CHR 0xBB, CHR 0xB6]"

definition lit_diamond_op_not_automatic :: string where \<comment> \<open>operations that spend diamonds do not run by default:\<close>
  "lit_diamond_op_not_automatic =
     [CHR 0xE9, CHR 0x92, CHR 0xBB, CHR 0xE7, CHR 0x9F, CHR 0xB3, CHR 0xE6, CHR 0xB6, CHR 0x88,
      CHR 0xE8, CHR 0x80, CHR 0x97, CHR 0xE6, CHR 0x93, CHR 0x8D, CHR 0xE4, CHR 0xBD, CHR 0x9C,
      CHR 0xE9, CHR 0xBB, CHR 0x98, CHR 0xE8, CHR 0xAE, CHR 0xA4, CHR 0xE4, CHR 0xB8, CHR 0x8D,
      CHR 0xE8, CHR 0x87, CHR 0xAA, CHR 0xE5, CHR 0x8A, CHR 0xA8, CHR 0xE6, CHR 0x89, CHR 0xA7,
      CHR 0xE8, CHR 0xA1, CHR 0x8C] @ '': ''"

definition lit_gold_short :: string where \<comment> \<open>gold is short: needs\<close>
  "lit_gold_short =
     [CHR 0xE9, CHR 0x87, CHR 0x91, CHR 0xE5, CHR 0xB8, CHR 0x81, CHR 0xE4, CHR 0xB8, CHR 0x8D,
      CHR 0xE8, CHR 0xB6, CHR 0xB3] @ '': '' @ [CHR 0xE9, CHR 0x9C, CHR 0x80, CHR 0xE8, CHR 0xA6,
      CHR 0x81] @ '' ''"

definition lit_item_short :: string where \<comment> \<open>is short: needs\<close>
  "lit_item_short =
     '' '' @ [CHR 0xE4, CHR 0xB8, CHR 0x8D, CHR 0xE8, CHR 0xB6, CHR 0xB3] @ '': '' @ [CHR 0xE9,
      CHR 0x9C, CHR 0x80, CHR 0xE8, CHR 0xA6, CHR 0x81] @ '' ''"

definition lit_water_short :: string where \<comment> \<open>water drops are short: needs\<close>
  "lit_water_short =
     [CHR 0xE6, CHR 0xB0, CHR 0xB4, CHR 0xE6, CHR 0xBB, CHR 0xB4, CHR 0xE4, CHR 0xB8, CHR 0x8D,
      CHR 0xE8, CHR 0xB6, CHR 0xB3] @ '': '' @ [CHR 0xE9, CHR 0x9C, CHR 0x80, CHR 0xE8, CHR 0xA6,
      CHR 0x81] @ '' ''"

definition lit_union_race :: string where \<comment> \<open>guild race\<close>
  "lit_union_race =
     [CHR 0xE5, CHR 0x85, CHR 0xAC, CHR 0xE4, CHR 0xBC, CHR 0x9A, CHR 0xE7, CHR 0xAB, CHR 0x9E,
      CHR 0xE8, CHR 0xB5, CHR 0x9B]"

definition lit_race_sync_position :: string where \<comment> \<open>deletion permission not synchronised, fetch the guild position\<close>
  "lit_race_sync_position =
     [CHR 0xE5, CHR 0x85, CHR 0xAC, CHR 0xE4, CHR 0xBC, CHR 0x9A, CHR 0xE7, CHR 0xAB, CHR 0x9E,
      CHR 0xE8, CHR 0xB5, CHR 0x9B, CHR 0xE5, CHR 0x88, CHR 0xA0, CHR 0xE9, CHR 0x99, CHR 0xA4,
      CHR 0xE6, CHR 0x9D, CHR 0x83, CHR 0xE9, CHR 0x99, CHR 0x90, CHR 0xE6, CHR 0x9C, CHR 0xAA,
      CHR 0xE5, CHR 0x90, CHR 0x8C, CHR 0xE6, CHR 0xAD, CHR 0xA5, CHR 0xEF, CHR 0xBC, CHR 0x8C,
      CHR 0xE6, CHR 0x8B, CHR 0x89, CHR 0xE5, CHR 0x8F, CHR 0x96, CHR 0xE5, CHR 0xBD, CHR 0x93,
      CHR 0xE5, CHR 0x89, CHR 0x8D, CHR 0xE5, CHR 0x85, CHR 0xAC, CHR 0xE4, CHR 0xBC, CHR 0x9A,
      CHR 0xE8, CHR 0x81, CHR 0x8C, CHR 0xE4, CHR 0xBD, CHR 0x8D]"

definition lit_race_enter :: string where \<comment> \<open>enter the race\<close>
  "lit_race_enter =
     [CHR 0xE5, CHR 0x85, CHR 0xAC, CHR 0xE4, CHR 0xBC, CHR 0x9A, CHR 0xE7, CHR 0xAB, CHR 0x9E,
      CHR 0xE8, CHR 0xB5, CHR 0x9B, CHR 0xE8, CHR 0xBF, CHR 0x9B, CHR 0xE5, CHR 0x85, CHR 0xA5,
      CHR 0xE5, CHR 0x90, CHR 0x8C, CHR 0xE6, CHR 0xAD, CHR 0xA5]"

definition lit_race_enter_batch :: string where \<comment> \<open>synchronise the batch at the opening\<close>
  "lit_race_enter_batch =
     [CHR 0xE5, CHR 0x85, CHR 0xAC, CHR 0xE4, CHR 0xBC, CHR 0x9A, CHR 0xE7, CHR 0xAB, CHR 0x9E,
      CHR 0xE8, CHR 0xB5, CHR 0x9B, CHR 0xE5, CHR 0xBC, CHR 0x80, CHR 0xE8, CHR 0xB5, CHR 0x9B,
      CHR 0xE5, CHR 0x90, CHR 0x8C, CHR 0xE6, CHR 0xAD, CHR 0xA5, CHR 0xE6, CHR 0x89, CHR 0xB9,
      CHR 0xE6, CHR 0xAC, CHR 0xA1]"

definition lit_race_enter_lvl :: string where \<comment> \<open>synchronise tier and task quota\<close>
  "lit_race_enter_lvl =
     [CHR 0xE5, CHR 0x85, CHR 0xAC, CHR 0xE4, CHR 0xBC, CHR 0x9A, CHR 0xE7, CHR 0xAB, CHR 0x9E,
      CHR 0xE8, CHR 0xB5, CHR 0x9B, CHR 0xE5, CHR 0x90, CHR 0x8C, CHR 0xE6, CHR 0xAD, CHR 0xA5,
      CHR 0xE6, CHR 0xAE, CHR 0xB5, CHR 0xE4, CHR 0xBD, CHR 0x8D, CHR 0xE4, CHR 0xB8, CHR 0x8E,
      CHR 0xE4, CHR 0xBB, CHR 0xBB, CHR 0xE5, CHR 0x8A, CHR 0xA1, CHR 0xE9, CHR 0x85, CHR 0x8D,
      CHR 0xE9, CHR 0xA2, CHR 0x9D]"

definition lit_race_sync_expired :: string where \<comment> \<open>the held task expired, synchronise the pool again\<close>
  "lit_race_sync_expired =
     [CHR 0xE5, CHR 0x85, CHR 0xAC, CHR 0xE4, CHR 0xBC, CHR 0x9A, CHR 0xE7, CHR 0xAB, CHR 0x9E,
      CHR 0xE8, CHR 0xB5, CHR 0x9B, CHR 0xE5, CHR 0xB7, CHR 0xB2, CHR 0xE6, CHR 0x8E, CHR 0xA5,
      CHR 0xE4, CHR 0xBB, CHR 0xBB, CHR 0xE5, CHR 0x8A, CHR 0xA1, CHR 0xE8, CHR 0xBF, CHR 0x87,
      CHR 0xE6, CHR 0x9C, CHR 0x9F, CHR 0xEF, CHR 0xBC, CHR 0x8C, CHR 0xE9, CHR 0x87, CHR 0x8D,
      CHR 0xE6, CHR 0x96, CHR 0xB0, CHR 0xE5, CHR 0x90, CHR 0x8C, CHR 0xE6, CHR 0xAD, CHR 0xA5,
      CHR 0xE4, CHR 0xBB, CHR 0xBB, CHR 0xE5, CHR 0x8A, CHR 0xA1, CHR 0xE6, CHR 0xB1, CHR 0xA0]"

definition lit_race_sync_counts :: string where \<comment> \<open>synchronise done and purchased counts\<close>
  "lit_race_sync_counts =
     [CHR 0xE5, CHR 0x85, CHR 0xAC, CHR 0xE4, CHR 0xBC, CHR 0x9A, CHR 0xE7, CHR 0xAB, CHR 0x9E,
      CHR 0xE8, CHR 0xB5, CHR 0x9B, CHR 0xE5, CHR 0x90, CHR 0x8C, CHR 0xE6, CHR 0xAD, CHR 0xA5,
      CHR 0xE5, CHR 0xB7, CHR 0xB2, CHR 0xE5, CHR 0x81, CHR 0x9A, CHR 0xE4, CHR 0xB8, CHR 0x8E,
      CHR 0xE5, CHR 0xB7, CHR 0xB2, CHR 0xE8, CHR 0xB4, CHR 0xAD, CHR 0xE4, CHR 0xB9, CHR 0xB0,
      CHR 0xE6, CHR 0xAC, CHR 0xA1, CHR 0xE6, CHR 0x95, CHR 0xB0]"

definition lit_race_sync_progress :: string where \<comment> \<open>local harvest reached the target, synchronise to submit\<close>
  "lit_race_sync_progress =
     [CHR 0xE5, CHR 0x85, CHR 0xAC, CHR 0xE4, CHR 0xBC, CHR 0x9A, CHR 0xE7, CHR 0xAB, CHR 0x9E,
      CHR 0xE8, CHR 0xB5, CHR 0x9B, CHR 0xE6, CHR 0x9C, CHR 0xAC, CHR 0xE5, CHR 0x9C, CHR 0xB0,
      CHR 0xE6, CHR 0x94, CHR 0xB6, CHR 0xE8, CHR 0x8E, CHR 0xB7, CHR 0xE5, CHR 0xB7, CHR 0xB2,
      CHR 0xE8, CHR 0xBE, CHR 0xBE, CHR 0xE6, CHR 0xA0, CHR 0x87, CHR 0xEF, CHR 0xBC, CHR 0x8C,
      CHR 0xE5, CHR 0x90, CHR 0x8C, CHR 0xE6, CHR 0xAD, CHR 0xA5, CHR 0xE8, CHR 0xBF, CHR 0x9B,
      CHR 0xE5, CHR 0xBA, CHR 0xA6, CHR 0xE4, CHR 0xBB, CHR 0xA5, CHR 0xE4, CHR 0xBE, CHR 0xBF,
      CHR 0xE6, CHR 0x8F, CHR 0x90, CHR 0xE4, CHR 0xBA, CHR 0xA4]"

definition lit_race_sync_stale :: string where \<comment> \<open>the pool changed, synchronise again\<close>
  "lit_race_sync_stale =
     [CHR 0xE5, CHR 0x85, CHR 0xAC, CHR 0xE4, CHR 0xBC, CHR 0x9A, CHR 0xE7, CHR 0xAB, CHR 0x9E,
      CHR 0xE8, CHR 0xB5, CHR 0x9B, CHR 0xE4, CHR 0xBB, CHR 0xBB, CHR 0xE5, CHR 0x8A, CHR 0xA1,
      CHR 0xE6, CHR 0xB1, CHR 0xA0, CHR 0xE7, CHR 0x8A, CHR 0xB6, CHR 0xE6, CHR 0x80, CHR 0x81,
      CHR 0xE5, CHR 0xB7, CHR 0xB2, CHR 0xE5, CHR 0x8F, CHR 0x98, CHR 0xE5, CHR 0x8C, CHR 0x96,
      CHR 0xEF, CHR 0xBC, CHR 0x8C, CHR 0xE9, CHR 0x87, CHR 0x8D, CHR 0xE6, CHR 0x96, CHR 0xB0,
      CHR 0xE5, CHR 0x90, CHR 0x8C, CHR 0xE6, CHR 0xAD, CHR 0xA5]"

definition lit_race_sync_retry :: string where \<comment> \<open>the pool has not arrived, bounded retry\<close>
  "lit_race_sync_retry =
     [CHR 0xE5, CHR 0x85, CHR 0xAC, CHR 0xE4, CHR 0xBC, CHR 0x9A, CHR 0xE7, CHR 0xAB, CHR 0x9E,
      CHR 0xE8, CHR 0xB5, CHR 0x9B, CHR 0xE4, CHR 0xBB, CHR 0xBB, CHR 0xE5, CHR 0x8A, CHR 0xA1,
      CHR 0xE6, CHR 0xB1, CHR 0xA0, CHR 0xE5, CHR 0xB0, CHR 0x9A, CHR 0xE6, CHR 0x9C, CHR 0xAA,
      CHR 0xE8, CHR 0xBF, CHR 0x94, CHR 0xE5, CHR 0x9B, CHR 0x9E, CHR 0xEF, CHR 0xBC, CHR 0x8C,
      CHR 0xE6, CHR 0x89, CHR 0xA7, CHR 0xE8, CHR 0xA1, CHR 0x8C, CHR 0xE6, CHR 0x9C, CHR 0x89,
      CHR 0xE7, CHR 0x95, CHR 0x8C, CHR 0xE9, CHR 0x87, CHR 0x8D, CHR 0xE8, CHR 0xAF, CHR 0x95]"

definition lit_race_sync_param :: string where \<comment> \<open>task target missing, try to complete it\<close>
  "lit_race_sync_param =
     [CHR 0xE5, CHR 0x85, CHR 0xAC, CHR 0xE4, CHR 0xBC, CHR 0x9A, CHR 0xE7, CHR 0xAB, CHR 0x9E,
      CHR 0xE8, CHR 0xB5, CHR 0x9B, CHR 0xE4, CHR 0xBB, CHR 0xBB, CHR 0xE5, CHR 0x8A, CHR 0xA1,
      CHR 0xE7, CHR 0x9B, CHR 0xAE, CHR 0xE6, CHR 0xA0, CHR 0x87, CHR 0xE5, CHR 0x8F, CHR 0x82,
      CHR 0xE6, CHR 0x95, CHR 0xB0, CHR 0xE7, CHR 0xBC, CHR 0xBA, CHR 0xE5, CHR 0xA4, CHR 0xB1,
      CHR 0xEF, CHR 0xBC, CHR 0x8C, CHR 0xE5, CHR 0xB0, CHR 0x9D, CHR 0xE8, CHR 0xAF, CHR 0x95,
      CHR 0xE8, CHR 0xA1, CHR 0xA5, CHR 0xE5, CHR 0x85, CHR 0xA8]"

definition lit_race_sync_ttl :: string where \<comment> \<open>periodic refresh of the pool\<close>
  "lit_race_sync_ttl =
     [CHR 0xE5, CHR 0x85, CHR 0xAC, CHR 0xE4, CHR 0xBC, CHR 0x9A, CHR 0xE7, CHR 0xAB, CHR 0x9E,
      CHR 0xE8, CHR 0xB5, CHR 0x9B, CHR 0xE5, CHR 0xAE, CHR 0x9A, CHR 0xE6, CHR 0x97, CHR 0xB6,
      CHR 0xE5, CHR 0x88, CHR 0xB7, CHR 0xE6, CHR 0x96, CHR 0xB0, CHR 0xE4, CHR 0xBB, CHR 0xBB,
      CHR 0xE5, CHR 0x8A, CHR 0xA1, CHR 0xE6, CHR 0xB1, CHR 0xA0]"

definition lit_race_sync_customer :: string where \<comment> \<open>customer-order progress\<close>
  "lit_race_sync_customer =
     [CHR 0xE5, CHR 0x85, CHR 0xAC, CHR 0xE4, CHR 0xBC, CHR 0x9A, CHR 0xE7, CHR 0xAB, CHR 0x9E,
      CHR 0xE8, CHR 0xB5, CHR 0x9B, CHR 0xE9, CHR 0xA1, CHR 0xBE, CHR 0xE5, CHR 0xAE, CHR 0xA2,
      CHR 0xE8, CHR 0xAE, CHR 0xA2, CHR 0xE5, CHR 0x8D, CHR 0x95, CHR 0xE8, CHR 0xBF, CHR 0x9B,
      CHR 0xE5, CHR 0xBA, CHR 0xA6, CHR 0xE5, CHR 0x90, CHR 0x8C, CHR 0xE6, CHR 0xAD, CHR 0xA5]"

definition lit_race_sync_pearl :: string where \<comment> \<open>pearl-hire progress\<close>
  "lit_race_sync_pearl =
     [CHR 0xE5, CHR 0x85, CHR 0xAC, CHR 0xE4, CHR 0xBC, CHR 0x9A, CHR 0xE7, CHR 0xAB, CHR 0x9E,
      CHR 0xE8, CHR 0xB5, CHR 0x9B, CHR 0xE7, CHR 0x8F, CHR 0x8D, CHR 0xE7, CHR 0x8F, CHR 0xA0,
      CHR 0xE9, CHR 0x9B, CHR 0x87, CHR 0xE4, CHR 0xBD, CHR 0xA3, CHR 0xE8, CHR 0xBF, CHR 0x9B,
      CHR 0xE5, CHR 0xBA, CHR 0xA6, CHR 0xE5, CHR 0x90, CHR 0x8C, CHR 0xE6, CHR 0xAD, CHR 0xA5]"

definition lit_race_sync_art_craft :: string where \<comment> \<open>flower-art craft progress\<close>
  "lit_race_sync_art_craft =
     [CHR 0xE5, CHR 0x85, CHR 0xAC, CHR 0xE4, CHR 0xBC, CHR 0x9A, CHR 0xE7, CHR 0xAB, CHR 0x9E,
      CHR 0xE8, CHR 0xB5, CHR 0x9B, CHR 0xE8, CHR 0x8A, CHR 0xB1, CHR 0xE8, CHR 0x89, CHR 0xBA,
      CHR 0xE5, CHR 0x88, CHR 0xB6, CHR 0xE4, CHR 0xBD, CHR 0x9C, CHR 0xE8, CHR 0xBF, CHR 0x9B,
      CHR 0xE5, CHR 0xBA, CHR 0xA6, CHR 0xE5, CHR 0x90, CHR 0x8C, CHR 0xE6, CHR 0xAD, CHR 0xA5]"

definition lit_race_sync_art_sell :: string where \<comment> \<open>flower-art sale progress\<close>
  "lit_race_sync_art_sell =
     [CHR 0xE5, CHR 0x85, CHR 0xAC, CHR 0xE4, CHR 0xBC, CHR 0x9A, CHR 0xE7, CHR 0xAB, CHR 0x9E,
      CHR 0xE8, CHR 0xB5, CHR 0x9B, CHR 0xE8, CHR 0x8A, CHR 0xB1, CHR 0xE8, CHR 0x89, CHR 0xBA,
      CHR 0xE5, CHR 0x94, CHR 0xAE, CHR 0xE5, CHR 0x8D, CHR 0x96, CHR 0xE8, CHR 0xBF, CHR 0x9B,
      CHR 0xE5, CHR 0xBA, CHR 0xA6, CHR 0xE5, CHR 0x90, CHR 0x8C, CHR 0xE6, CHR 0xAD, CHR 0xA5]"

definition lit_race_sync_cultivate :: string where \<comment> \<open>cultivation progress\<close>
  "lit_race_sync_cultivate =
     [CHR 0xE5, CHR 0x85, CHR 0xAC, CHR 0xE4, CHR 0xBC, CHR 0x9A, CHR 0xE7, CHR 0xAB, CHR 0x9E,
      CHR 0xE8, CHR 0xB5, CHR 0x9B, CHR 0xE8, CHR 0x8A, CHR 0xB1, CHR 0xE7, CHR 0xA7, CHR 0x8D,
      CHR 0xE5, CHR 0x9F, CHR 0xB9, CHR 0xE8, CHR 0x82, CHR 0xB2, CHR 0xE8, CHR 0xBF, CHR 0x9B,
      CHR 0xE5, CHR 0xBA, CHR 0xA6, CHR 0xE5, CHR 0x90, CHR 0x8C, CHR 0xE6, CHR 0xAD, CHR 0xA5]"

definition lit_race_sync_score :: string where \<comment> \<open>synchronise score and rank\<close>
  "lit_race_sync_score =
     [CHR 0xE5, CHR 0x85, CHR 0xAC, CHR 0xE4, CHR 0xBC, CHR 0x9A, CHR 0xE7, CHR 0xAB, CHR 0x9E,
      CHR 0xE8, CHR 0xB5, CHR 0x9B, CHR 0xE5, CHR 0x90, CHR 0x8C, CHR 0xE6, CHR 0xAD, CHR 0xA5,
      CHR 0xE4, CHR 0xB8, CHR 0xAA, CHR 0xE4, CHR 0xBA, CHR 0xBA, CHR 0xE5, CHR 0xBE, CHR 0x97,
      CHR 0xE5, CHR 0x88, CHR 0x86, CHR 0xE4, CHR 0xB8, CHR 0x8E, CHR 0xE6, CHR 0x8E, CHR 0x92,
      CHR 0xE5, CHR 0x90, CHR 0x8D]"

definition lit_race_take :: string where \<comment> \<open>take the best task\<close>
  "lit_race_take =
     [CHR 0xE5, CHR 0x85, CHR 0xAC, CHR 0xE4, CHR 0xBC, CHR 0x9A, CHR 0xE7, CHR 0xAB, CHR 0x9E,
      CHR 0xE8, CHR 0xB5, CHR 0x9B, CHR 0xE9, CHR 0x80, CHR 0x89, CHR 0xE6, CHR 0x8B, CHR 0xA9,
      CHR 0xE6, CHR 0x9C, CHR 0x80, CHR 0xE4, CHR 0xBC, CHR 0x98, CHR 0xE4, CHR 0xBB, CHR 0xBB,
      CHR 0xE5, CHR 0x8A, CHR 0xA1, CHR 0xE6, CHR 0x8E, CHR 0xA5, CHR 0xE5, CHR 0x8F, CHR 0x96]"

definition lit_race_take_manual :: string where \<comment> \<open>take a task by hand\<close>
  "lit_race_take_manual =
     [CHR 0xE6, CHR 0x89, CHR 0x8B, CHR 0xE5, CHR 0x8A, CHR 0xA8, CHR 0xE6, CHR 0x8E, CHR 0xA5,
      CHR 0xE5, CHR 0x8F, CHR 0x96, CHR 0xE5, CHR 0x85, CHR 0xAC, CHR 0xE4, CHR 0xBC, CHR 0x9A,
      CHR 0xE7, CHR 0xAB, CHR 0x9E, CHR 0xE8, CHR 0xB5, CHR 0x9B, CHR 0xE4, CHR 0xBB, CHR 0xBB,
      CHR 0xE5, CHR 0x8A, CHR 0xA1]"

definition lit_race_delete :: string where \<comment> \<open>clean up low-score tasks\<close>
  "lit_race_delete =
     [CHR 0xE5, CHR 0x85, CHR 0xAC, CHR 0xE4, CHR 0xBC, CHR 0x9A, CHR 0xE7, CHR 0xAB, CHR 0x9E,
      CHR 0xE8, CHR 0xB5, CHR 0x9B, CHR 0xE4, CHR 0xBD, CHR 0x8E, CHR 0xE5, CHR 0x88, CHR 0x86,
      CHR 0xE4, CHR 0xBB, CHR 0xBB, CHR 0xE5, CHR 0x8A, CHR 0xA1, CHR 0xE6, CHR 0xB8, CHR 0x85,
      CHR 0xE7, CHR 0x90, CHR 0x86]"

definition lit_race_delete_manual :: string where \<comment> \<open>delete a task by hand\<close>
  "lit_race_delete_manual =
     [CHR 0xE6, CHR 0x89, CHR 0x8B, CHR 0xE5, CHR 0x8A, CHR 0xA8, CHR 0xE5, CHR 0x88, CHR 0xA0,
      CHR 0xE9, CHR 0x99, CHR 0xA4, CHR 0xE5, CHR 0x85, CHR 0xAC, CHR 0xE4, CHR 0xBC, CHR 0x9A,
      CHR 0xE7, CHR 0xAB, CHR 0x9E, CHR 0xE8, CHR 0xB5, CHR 0x9B, CHR 0xE4, CHR 0xBB, CHR 0xBB,
      CHR 0xE5, CHR 0x8A, CHR 0xA1]"

definition lit_race_finish :: string where \<comment> \<open>the task is complete, submit it\<close>
  "lit_race_finish =
     [CHR 0xE5, CHR 0x85, CHR 0xAC, CHR 0xE4, CHR 0xBC, CHR 0x9A, CHR 0xE7, CHR 0xAB, CHR 0x9E,
      CHR 0xE8, CHR 0xB5, CHR 0x9B, CHR 0xE4, CHR 0xBB, CHR 0xBB, CHR 0xE5, CHR 0x8A, CHR 0xA1,
      CHR 0xE5, CHR 0xB7, CHR 0xB2, CHR 0xE5, CHR 0xAE, CHR 0x8C, CHR 0xE6, CHR 0x88, CHR 0x90,
      CHR 0xEF, CHR 0xBC, CHR 0x8C, CHR 0xE6, CHR 0x8F, CHR 0x90, CHR 0xE4, CHR 0xBA, CHR 0xA4,
      CHR 0xE9, CHR 0xA2, CHR 0x86, CHR 0xE5, CHR 0x8F, CHR 0x96, CHR 0xE7, CHR 0xA7, CHR 0xAF,
      CHR 0xE5, CHR 0x88, CHR 0x86]"

definition lit_race_upgrade :: string where \<comment> \<open>the current task can be upgraded\<close>
  "lit_race_upgrade =
     [CHR 0xE5, CHR 0x85, CHR 0xAC, CHR 0xE4, CHR 0xBC, CHR 0x9A, CHR 0xE7, CHR 0xAB, CHR 0x9E,
      CHR 0xE8, CHR 0xB5, CHR 0x9B, CHR 0xE5, CHR 0xBD, CHR 0x93, CHR 0xE5, CHR 0x89, CHR 0x8D,
      CHR 0xE4, CHR 0xBB, CHR 0xBB, CHR 0xE5, CHR 0x8A, CHR 0xA1, CHR 0xE5, CHR 0x8F, CHR 0xAF,
      CHR 0xE5, CHR 0x8D, CHR 0x87, CHR 0xE7, CHR 0xBA, CHR 0xA7]"

definition lit_race_upgrade_unknown :: string where \<comment> \<open>the upgrade cost cannot be confirmed\<close>
  "lit_race_upgrade_unknown =
     [CHR 0xE5, CHR 0x85, CHR 0xAC, CHR 0xE4, CHR 0xBC, CHR 0x9A, CHR 0xE7, CHR 0xAB, CHR 0x9E,
      CHR 0xE8, CHR 0xB5, CHR 0x9B, CHR 0xE4, CHR 0xBB, CHR 0xBB, CHR 0xE5, CHR 0x8A, CHR 0xA1,
      CHR 0xE5, CHR 0x8D, CHR 0x87, CHR 0xE7, CHR 0xBA, CHR 0xA7, CHR 0xE6, CHR 0x88, CHR 0x90,
      CHR 0xE6, CHR 0x9C, CHR 0xAC, CHR 0xE6, CHR 0x97, CHR 0xA0, CHR 0xE6, CHR 0xB3, CHR 0x95,
      CHR 0xE4, CHR 0xBB, CHR 0x8E, CHR 0xE5, CHR 0xAE, CHR 0xA2, CHR 0xE6, CHR 0x88, CHR 0xB7,
      CHR 0xE7, CHR 0xAB, CHR 0xAF, CHR 0xE9, CHR 0x85, CHR 0x8D, CHR 0xE7, CHR 0xBD, CHR 0xAE,
      CHR 0xE7, CHR 0xA1, CHR 0xAE, CHR 0xE8, CHR 0xAE, CHR 0xA4]"

definition lit_race_upgrade_zero :: string where \<comment> \<open>the ceiling per upgrade is zero, no spending\<close>
  "lit_race_upgrade_zero =
     [CHR 0xE5, CHR 0x8D, CHR 0x95, CHR 0xE6, CHR 0xAC, CHR 0xA1, CHR 0xE5, CHR 0x8D, CHR 0x87,
      CHR 0xE7, CHR 0xBA, CHR 0xA7, CHR 0xE5, CHR 0x85, CHR 0x83, CHR 0xE5, CHR 0xAE, CHR 0x9D,
      CHR 0xE4, CHR 0xB8, CHR 0x8A, CHR 0xE9, CHR 0x99, CHR 0x90, CHR 0xE4, CHR 0xB8, CHR 0xBA] @
      '' 0'' @ [CHR 0xEF, CHR 0xBC, CHR 0x8C, CHR 0xE7, CHR 0xA6, CHR 0x81, CHR 0xE6, CHR 0xAD,
      CHR 0xA2, CHR 0xE6, CHR 0xB6, CHR 0x88, CHR 0xE8, CHR 0xB4, CHR 0xB9]"

definition lit_race_upgrade_over :: string where \<comment> \<open>the upgrade cost exceeds the ceiling\<close>
  "lit_race_upgrade_over =
     [CHR 0xE5, CHR 0x85, CHR 0xAC, CHR 0xE4, CHR 0xBC, CHR 0x9A, CHR 0xE7, CHR 0xAB, CHR 0x9E,
      CHR 0xE8, CHR 0xB5, CHR 0x9B, CHR 0xE4, CHR 0xBB, CHR 0xBB, CHR 0xE5, CHR 0x8A, CHR 0xA1,
      CHR 0xE5, CHR 0x8D, CHR 0x87, CHR 0xE7, CHR 0xBA, CHR 0xA7, CHR 0xE5, CHR 0x85, CHR 0x83,
      CHR 0xE5, CHR 0xAE, CHR 0x9D, CHR 0xE6, CHR 0x88, CHR 0x90, CHR 0xE6, CHR 0x9C, CHR 0xAC,
      CHR 0xE8, CHR 0xB6, CHR 0x85, CHR 0xE8, CHR 0xBF, CHR 0x87, CHR 0xE7, CHR 0xAD, CHR 0x96,
      CHR 0xE7, CHR 0x95, CHR 0xA5, CHR 0xE4, CHR 0xB8, CHR 0x8A, CHR 0xE9, CHR 0x99, CHR 0x90]"

definition lit_race_position_unknown :: string where \<comment> \<open>position unknown, deletion permission unconfirmed\<close>
  "lit_race_position_unknown =
     [CHR 0xE5, CHR 0x85, CHR 0xAC, CHR 0xE4, CHR 0xBC, CHR 0x9A, CHR 0xE8, CHR 0x81, CHR 0x8C,
      CHR 0xE4, CHR 0xBD, CHR 0x8D, CHR 0xE5, CHR 0xB0, CHR 0x9A, CHR 0xE6, CHR 0x9C, CHR 0xAA,
      CHR 0xE5, CHR 0x90, CHR 0x8C, CHR 0xE6, CHR 0xAD, CHR 0xA5, CHR 0xEF, CHR 0xBC, CHR 0x8C,
      CHR 0xE6, CHR 0x97, CHR 0xA0, CHR 0xE6, CHR 0xB3, CHR 0x95, CHR 0xE7, CHR 0xA1, CHR 0xAE,
      CHR 0xE8, CHR 0xAE, CHR 0xA4, CHR 0xE7, CHR 0xAB, CHR 0x9E, CHR 0xE8, CHR 0xB5, CHR 0x9B,
      CHR 0xE4, CHR 0xBB, CHR 0xBB, CHR 0xE5, CHR 0x8A, CHR 0xA1, CHR 0xE5, CHR 0x88, CHR 0xA0,
      CHR 0xE9, CHR 0x99, CHR 0xA4, CHR 0xE6, CHR 0x9D, CHR 0x83, CHR 0xE9, CHR 0x99, CHR 0x90]"

definition lit_race_position_denied :: string where \<comment> \<open>the position may not delete race tasks\<close>
  "lit_race_position_denied =
     [CHR 0xE5, CHR 0xBD, CHR 0x93, CHR 0xE5, CHR 0x89, CHR 0x8D, CHR 0xE5, CHR 0x85, CHR 0xAC,
      CHR 0xE4, CHR 0xBC, CHR 0x9A, CHR 0xE8, CHR 0x81, CHR 0x8C, CHR 0xE4, CHR 0xBD, CHR 0x8D,
      CHR 0xE6, CHR 0xB2, CHR 0xA1, CHR 0xE6, CHR 0x9C, CHR 0x89, CHR 0xE5, CHR 0x88, CHR 0xA0,
      CHR 0xE9, CHR 0x99, CHR 0xA4, CHR 0xE7, CHR 0xAB, CHR 0x9E, CHR 0xE8, CHR 0xB5, CHR 0x9B,
      CHR 0xE4, CHR 0xBB, CHR 0xBB, CHR 0xE5, CHR 0x8A, CHR 0xA1, CHR 0xE7, CHR 0x9A, CHR 0x84,
      CHR 0xE6, CHR 0x9D, CHR 0x83, CHR 0xE9, CHR 0x99, CHR 0x90]"

definition lit_race_give_up_score :: string where \<comment> \<open>give up a task below the score\<close>
  "lit_race_give_up_score =
     [CHR 0xE5, CHR 0x85, CHR 0xAC, CHR 0xE4, CHR 0xBC, CHR 0x9A, CHR 0xE7, CHR 0xAB, CHR 0x9E,
      CHR 0xE8, CHR 0xB5, CHR 0x9B, CHR 0xE6, CHR 0x94, CHR 0xBE, CHR 0xE5, CHR 0xBC, CHR 0x83,
      CHR 0xE4, CHR 0xB8, CHR 0x8D, CHR 0xE7, CHR 0xAC, CHR 0xA6, CHR 0xE5, CHR 0x90, CHR 0x88,
      CHR 0xE5, CHR 0x88, CHR 0x86, CHR 0xE6, CHR 0x95, CHR 0xB0, CHR 0xE8, CHR 0xA6, CHR 0x81,
      CHR 0xE6, CHR 0xB1, CHR 0x82, CHR 0xE7, CHR 0x9A, CHR 0x84, CHR 0xE5, CHR 0xB7, CHR 0xB2,
      CHR 0xE6, CHR 0x8E, CHR 0xA5, CHR 0xE4, CHR 0xBB, CHR 0xBB, CHR 0xE5, CHR 0x8A, CHR 0xA1]"

definition lit_race_give_up_cultivate :: string where \<comment> \<open>give up a cultivation task that is not worth 36\<close>
  "lit_race_give_up_cultivate =
     [CHR 0xE5, CHR 0x85, CHR 0xAC, CHR 0xE4, CHR 0xBC, CHR 0x9A, CHR 0xE7, CHR 0xAB, CHR 0x9E,
      CHR 0xE8, CHR 0xB5, CHR 0x9B, CHR 0xE6, CHR 0x94, CHR 0xBE, CHR 0xE5, CHR 0xBC, CHR 0x83,
      CHR 0xE9, CHR 0x9D, CHR 0x9E] @ ''36'' @ [CHR 0xE5, CHR 0x88, CHR 0x86, CHR 0xE8, CHR 0x8A,
      CHR 0xB1, CHR 0xE7, CHR 0xA7, CHR 0x8D, CHR 0xE5, CHR 0x9F, CHR 0xB9, CHR 0xE8, CHR 0x82,
      CHR 0xB2, CHR 0xE4, CHR 0xBB, CHR 0xBB, CHR 0xE5, CHR 0x8A, CHR 0xA1]"

definition lit_race_give_up_customer :: string where \<comment> \<open>give up an impossible customer order\<close>
  "lit_race_give_up_customer =
     [CHR 0xE5, CHR 0x85, CHR 0xAC, CHR 0xE4, CHR 0xBC, CHR 0x9A, CHR 0xE7, CHR 0xAB, CHR 0x9E,
      CHR 0xE8, CHR 0xB5, CHR 0x9B, CHR 0xE6, CHR 0x94, CHR 0xBE, CHR 0xE5, CHR 0xBC, CHR 0x83,
      CHR 0xE6, CHR 0x97, CHR 0xA0, CHR 0xE6, CHR 0xB3, CHR 0x95, CHR 0xE5, CHR 0xAE, CHR 0x8C,
      CHR 0xE6, CHR 0x88, CHR 0x90, CHR 0xE7, CHR 0x9A, CHR 0x84, CHR 0xE9, CHR 0xA1, CHR 0xBE,
      CHR 0xE5, CHR 0xAE, CHR 0xA2, CHR 0xE8, CHR 0xAE, CHR 0xA2, CHR 0xE5, CHR 0x8D, CHR 0x95,
      CHR 0xE4, CHR 0xBB, CHR 0xBB, CHR 0xE5, CHR 0x8A, CHR 0xA1]"

definition lit_race_give_up_pearl :: string where \<comment> \<open>give up an impossible pearl hire\<close>
  "lit_race_give_up_pearl =
     [CHR 0xE5, CHR 0x85, CHR 0xAC, CHR 0xE4, CHR 0xBC, CHR 0x9A, CHR 0xE7, CHR 0xAB, CHR 0x9E,
      CHR 0xE8, CHR 0xB5, CHR 0x9B, CHR 0xE6, CHR 0x94, CHR 0xBE, CHR 0xE5, CHR 0xBC, CHR 0x83,
      CHR 0xE6, CHR 0x97, CHR 0xA0, CHR 0xE6, CHR 0xB3, CHR 0x95, CHR 0xE5, CHR 0xAE, CHR 0x8C,
      CHR 0xE6, CHR 0x88, CHR 0x90, CHR 0xE7, CHR 0x9A, CHR 0x84, CHR 0xE7, CHR 0x8F, CHR 0x8D,
      CHR 0xE7, CHR 0x8F, CHR 0xA0, CHR 0xE9, CHR 0x9B, CHR 0x87, CHR 0xE4, CHR 0xBD, CHR 0xA3,
      CHR 0xE4, CHR 0xBB, CHR 0xBB, CHR 0xE5, CHR 0x8A, CHR 0xA1]"

definition lit_race_give_up_craft :: string where \<comment> \<open>give up an impossible flower-art craft\<close>
  "lit_race_give_up_craft =
     [CHR 0xE5, CHR 0x85, CHR 0xAC, CHR 0xE4, CHR 0xBC, CHR 0x9A, CHR 0xE7, CHR 0xAB, CHR 0x9E,
      CHR 0xE8, CHR 0xB5, CHR 0x9B, CHR 0xE6, CHR 0x94, CHR 0xBE, CHR 0xE5, CHR 0xBC, CHR 0x83,
      CHR 0xE6, CHR 0x97, CHR 0xA0, CHR 0xE6, CHR 0xB3, CHR 0x95, CHR 0xE5, CHR 0xAE, CHR 0x8C,
      CHR 0xE6, CHR 0x88, CHR 0x90, CHR 0xE7, CHR 0x9A, CHR 0x84, CHR 0xE8, CHR 0x8A, CHR 0xB1,
      CHR 0xE8, CHR 0x89, CHR 0xBA, CHR 0xE5, CHR 0x88, CHR 0xB6, CHR 0xE4, CHR 0xBD, CHR 0x9C,
      CHR 0xE4, CHR 0xBB, CHR 0xBB, CHR 0xE5, CHR 0x8A, CHR 0xA1]"

definition lit_race_give_up_plant :: string where \<comment> \<open>give up an impossible plant harvest\<close>
  "lit_race_give_up_plant =
     [CHR 0xE5, CHR 0x85, CHR 0xAC, CHR 0xE4, CHR 0xBC, CHR 0x9A, CHR 0xE7, CHR 0xAB, CHR 0x9E,
      CHR 0xE8, CHR 0xB5, CHR 0x9B, CHR 0xE6, CHR 0x94, CHR 0xBE, CHR 0xE5, CHR 0xBC, CHR 0x83,
      CHR 0xE6, CHR 0x97, CHR 0xA0, CHR 0xE6, CHR 0xB3, CHR 0x95, CHR 0xE5, CHR 0xAE, CHR 0x8C,
      CHR 0xE6, CHR 0x88, CHR 0x90, CHR 0xE7, CHR 0x9A, CHR 0x84, CHR 0xE7, CHR 0xA7, CHR 0x8D,
      CHR 0xE6, CHR 0xA4, CHR 0x8D, CHR 0xE6, CHR 0x94, CHR 0xB6, CHR 0xE8, CHR 0x8E, CHR 0xB7,
      CHR 0xE4, CHR 0xBB, CHR 0xBB, CHR 0xE5, CHR 0x8A, CHR 0xA1]"

definition lit_race_give_up_priority :: string where \<comment> \<open>give up a task of priority zero\<close>
  "lit_race_give_up_priority =
     [CHR 0xE5, CHR 0x85, CHR 0xAC, CHR 0xE4, CHR 0xBC, CHR 0x9A, CHR 0xE7, CHR 0xAB, CHR 0x9E,
      CHR 0xE8, CHR 0xB5, CHR 0x9B, CHR 0xE6, CHR 0x94, CHR 0xBE, CHR 0xE5, CHR 0xBC, CHR 0x83,
      CHR 0xE4, CHR 0xBC, CHR 0x98, CHR 0xE5, CHR 0x85, CHR 0x88, CHR 0xE7, CHR 0xBA, CHR 0xA7,
      CHR 0xE4, CHR 0xB8, CHR 0xBA] @ ''0'' @ [CHR 0xE7, CHR 0x9A, CHR 0x84, CHR 0xE5, CHR 0xB7,
      CHR 0xB2, CHR 0xE6, CHR 0x8E, CHR 0xA5, CHR 0xE4, CHR 0xBB, CHR 0xBB, CHR 0xE5, CHR 0x8A,
      CHR 0xA1]"

definition lit_race_give_up_gone :: string where \<comment> \<open>give up a task that left the pool\<close>
  "lit_race_give_up_gone =
     [CHR 0xE5, CHR 0x85, CHR 0xAC, CHR 0xE4, CHR 0xBC, CHR 0x9A, CHR 0xE7, CHR 0xAB, CHR 0x9E,
      CHR 0xE8, CHR 0xB5, CHR 0x9B, CHR 0xE6, CHR 0x94, CHR 0xBE, CHR 0xE5, CHR 0xBC, CHR 0x83,
      CHR 0xE4, CHR 0xB8, CHR 0x8D, CHR 0xE5, CHR 0x9C, CHR 0xA8, CHR 0xE4, CHR 0xBB, CHR 0xBB,
      CHR 0xE5, CHR 0x8A, CHR 0xA1, CHR 0xE6, CHR 0xB1, CHR 0xA0, CHR 0xE4, CHR 0xB8, CHR 0xAD,
      CHR 0xE7, CHR 0x9A, CHR 0x84, CHR 0xE5, CHR 0xB7, CHR 0xB2, CHR 0xE6, CHR 0x8E, CHR 0xA5,
      CHR 0xE4, CHR 0xBB, CHR 0xBB, CHR 0xE5, CHR 0x8A, CHR 0xA1]"

definition lit_elves_night :: string where \<comment> \<open>collect ripe elves at night\<close>
  "lit_elves_night =
     [CHR 0xE5, CHR 0xA4, CHR 0x9C, CHR 0xE9, CHR 0x97, CHR 0xB4, CHR 0xE6, CHR 0x94, CHR 0xB6,
      CHR 0xE5, CHR 0x8F, CHR 0x96, CHR 0xE6, CHR 0x88, CHR 0x90, CHR 0xE7, CHR 0x86, CHR 0x9F,
      CHR 0xE8, CHR 0x8A, CHR 0xB1, CHR 0xE7, CHR 0x81, CHR 0xB5]"

definition lit_elves_secondary :: string where \<comment> \<open>collect the elves' secondary flower\<close>
  "lit_elves_secondary =
     [CHR 0xE6, CHR 0x94, CHR 0xB6, CHR 0xE5, CHR 0x8F, CHR 0x96, CHR 0xE8, CHR 0x8A, CHR 0xB1,
      CHR 0xE7, CHR 0x81, CHR 0xB5, CHR 0xE5, CHR 0x89, CHR 0xAF, CHR 0xE8, CHR 0x8A, CHR 0xB1]"

definition lit_elves_plant_main :: string where \<comment> \<open>plant the elves' main flower\<close>
  "lit_elves_plant_main =
     [CHR 0xE7, CHR 0xA7, CHR 0x8D, CHR 0xE6, CHR 0xA4, CHR 0x8D, CHR 0xE8, CHR 0x8A, CHR 0xB1,
      CHR 0xE7, CHR 0x81, CHR 0xB5, CHR 0xE4, CHR 0xB8, CHR 0xBB, CHR 0xE8, CHR 0x8A, CHR 0xB1]"

definition lit_elves_plant_second :: string where \<comment> \<open>plant the elves' secondary flower\<close>
  "lit_elves_plant_second =
     [CHR 0xE7, CHR 0xA7, CHR 0x8D, CHR 0xE6, CHR 0xA4, CHR 0x8D, CHR 0xE8, CHR 0x8A, CHR 0xB1,
      CHR 0xE7, CHR 0x81, CHR 0xB5, CHR 0xE5, CHR 0x89, CHR 0xAF, CHR 0xE8, CHR 0x8A, CHR 0xB1]"

definition lit_auto_replant :: string where \<comment> \<open>replant on its own\<close>
  "lit_auto_replant =
     [CHR 0xE8, CHR 0x87, CHR 0xAA, CHR 0xE4, CHR 0xB8, CHR 0xBB, CHR 0xE8, CHR 0xA1, CHR 0xA5,
      CHR 0xE7, CHR 0xA7, CHR 0x8D]"

definition lit_not_cultivated :: string where \<comment> \<open>the demanded flower is not cultivated yet and cannot be planted\<close>
  "lit_not_cultivated =
     [CHR 0xE9, CHR 0x9C, CHR 0x80, CHR 0xE6, CHR 0xB1, CHR 0x82, CHR 0xE8, CHR 0x8A, CHR 0xB1,
      CHR 0xE6, CHR 0x9C, CHR 0xB5, CHR 0xE5, CHR 0xB0, CHR 0x9A, CHR 0xE6, CHR 0x9C, CHR 0xAA,
      CHR 0xE5, CHR 0x9F, CHR 0xB9, CHR 0xE8, CHR 0x82, CHR 0xB2, CHR 0xEF, CHR 0xBC, CHR 0x8C,
      CHR 0xE6, CHR 0x97, CHR 0xA0, CHR 0xE6, CHR 0xB3, CHR 0x95, CHR 0xE7, CHR 0xA7, CHR 0x8D,
      CHR 0xE6, CHR 0xA4, CHR 0x8D]"

definition lit_elves_plant :: string where \<comment> \<open>speed up the planting of elves\<close>
  "lit_elves_plant =
     [CHR 0xE7, CHR 0xA7, CHR 0x8D, CHR 0xE6, CHR 0xA4, CHR 0x8D, CHR 0xE8, CHR 0x8A, CHR 0xB1,
      CHR 0xE7, CHR 0x81, CHR 0xB5, CHR 0xE5, CHR 0x8A, CHR 0xA0, CHR 0xE9, CHR 0x80, CHR 0x9F]"

definition lit_elves_speed_up :: string where \<comment> \<open>speed up the elves' secondary flower\<close>
  "lit_elves_speed_up =
     [CHR 0xE7, CHR 0xA7, CHR 0x8D, CHR 0xE6, CHR 0xA4, CHR 0x8D, CHR 0xE8, CHR 0x8A, CHR 0xB1,
      CHR 0xE7, CHR 0x81, CHR 0xB5, CHR 0xE5, CHR 0x89, CHR 0xAF, CHR 0xE8, CHR 0x8A, CHR 0xB1,
      CHR 0xE5, CHR 0x8A, CHR 0xA0, CHR 0xE9, CHR 0x80, CHR 0x9F]"

definition lit_farm_maintenance :: string where \<comment> \<open>farm maintenance\<close>
  "lit_farm_maintenance =
     [CHR 0xE5, CHR 0x86, CHR 0x9C, CHR 0xE5, CHR 0x9C, CHR 0xBA, CHR 0xE7, CHR 0xBB, CHR 0xB4,
      CHR 0xE6, CHR 0x8A, CHR 0xA4]"

definition lit_land_unlock :: string where \<comment> \<open>a land can be unlocked\<close>
  "lit_land_unlock =
     [CHR 0xE6, CHR 0x9C, CHR 0x89, CHR 0xE5, CHR 0x8F, CHR 0xAF, CHR 0xE5, CHR 0xBC, CHR 0x80,
      CHR 0xE5, CHR 0x9E, CHR 0xA6, CHR 0xE5, CHR 0x9C, CHR 0x9F, CHR 0xE5, CHR 0x9C, CHR 0xB0]"

definition lit_speed_up_lands :: string where \<comment> \<open>there are lands to speed up\<close>
  "lit_speed_up_lands =
     [CHR 0xE5, CHR 0xAD, CHR 0x98, CHR 0xE5, CHR 0x9C, CHR 0xA8, CHR 0xE5, CHR 0x8F, CHR 0xAF,
      CHR 0xE5, CHR 0x8A, CHR 0xA0, CHR 0xE9, CHR 0x80, CHR 0x9F, CHR 0xE5, CHR 0x9C, CHR 0x9F,
      CHR 0xE5, CHR 0x9C, CHR 0xB0]"

definition lit_speed_up_race :: string where \<comment> \<open>tickets for the planting task of the race\<close>
  "lit_speed_up_race =
     [CHR 0xE5, CHR 0x85, CHR 0xAC, CHR 0xE4, CHR 0xBC, CHR 0x9A, CHR 0xE7, CHR 0xAB, CHR 0x9E,
      CHR 0xE8, CHR 0xB5, CHR 0x9B, CHR 0xE7, CHR 0xA7, CHR 0x8D, CHR 0xE6, CHR 0xA4, CHR 0x8D,
      CHR 0xE4, CHR 0xBB, CHR 0xBB, CHR 0xE5, CHR 0x8A, CHR 0xA1, CHR 0xE4, CHR 0xBD, CHR 0xBF,
      CHR 0xE7, CHR 0x94, CHR 0xA8, CHR 0xE5, CHR 0x8A, CHR 0xA0, CHR 0xE9, CHR 0x80, CHR 0x9F,
      CHR 0xE5, CHR 0x8D, CHR 0xA1]"

definition lit_speed_up_expiring :: string where \<comment> \<open>the race task is about to expire\<close>
  "lit_speed_up_expiring =
     [CHR 0xE5, CHR 0x85, CHR 0xAC, CHR 0xE4, CHR 0xBC, CHR 0x9A, CHR 0xE7, CHR 0xAB, CHR 0x9E,
      CHR 0xE8, CHR 0xB5, CHR 0x9B, CHR 0xE4, CHR 0xBB, CHR 0xBB, CHR 0xE5, CHR 0x8A, CHR 0xA1,
      CHR 0xE5, CHR 0x8D, CHR 0xB3, CHR 0xE5, CHR 0xB0, CHR 0x86, CHR 0xE8, CHR 0xBF, CHR 0x87,
      CHR 0xE6, CHR 0x9C, CHR 0x9F, CHR 0xEF, CHR 0xBC, CHR 0x8C, CHR 0xE4, CHR 0xBD, CHR 0xBF,
      CHR 0xE7, CHR 0x94, CHR 0xA8, CHR 0xE5, CHR 0x8A, CHR 0xA0, CHR 0xE9, CHR 0x80, CHR 0x9F,
      CHR 0xE5, CHR 0x8D, CHR 0xA1]"

end
