(* ===== verification/Names.thy ===== *)
theory Names
  imports Literals
begin

text \<open>
  The names the components exchange: categories, lanes, gate resources, goal ids and plan
  statuses of \<open>internal/automation/types.go\<close> and \<open>features.go\<close>, and the RPC names of
  \<open>internal/babigame/clientproto/rpc_names.go\<close> that the modelled code mentions.
\<close>

abbreviation "CategoryAccount \<equiv> ''account''"
abbreviation "CategoryBasic \<equiv> ''basic''"
abbreviation "CategoryPlant \<equiv> ''plant''"
abbreviation "CategoryOrder \<equiv> ''order''"
abbreviation "CategoryFlowerArt \<equiv> ''flower_art''"
abbreviation "CategoryWater \<equiv> ''water''"
abbreviation "CategoryUnion \<equiv> ''union''"
abbreviation "CategoryRace \<equiv> ''race''"
abbreviation "CategoryActivity \<equiv> ''activity''"

abbreviation "LaneFarm \<equiv> ''farm''"
abbreviation "LaneSide \<equiv> ''side''"

abbreviation "DemandKindFlower \<equiv> ''flower''"
abbreviation "DemandKindFlowerArt \<equiv> ''flower_art''"

abbreviation "GateResourceGold \<equiv> ''gold''"
abbreviation "GateResourceDiamond \<equiv> ''diamond''"
abbreviation "GateResourceItem \<equiv> ''item''"
abbreviation "GateResourceWaterDrop \<equiv> ''water_drop''"

abbreviation "GoalResidentOrder \<equiv> ''order.resident''"
abbreviation "GoalCustomerOrder \<equiv> ''order.customer''"
abbreviation "GoalFlowerArt \<equiv> ''order.flower_art''"
abbreviation "GoalMainTask \<equiv> ''basic.task.main''"
abbreviation "GoalDailyTask \<equiv> ''basic.task.daily''"
abbreviation "GoalWeeklyTask \<equiv> ''basic.task.weekly''"
abbreviation "GoalAutoReplant \<equiv> ''fallback.auto_replant''"
abbreviation "cyclicNoteActionGoal \<equiv> ''activity.cyclicNote''"

abbreviation "PlanStatusReady \<equiv> ''ready''"
abbreviation "PlanStatusManaged \<equiv> ''managed''"
abbreviation "PlanStatusSyncOnly \<equiv> ''sync_only''"
abbreviation "PlanStatusAdapterMissing \<equiv> ''adapter_missing''"
abbreviation "PlanStatusBlocked \<equiv> ''blocked''"

abbreviation "RPCUsrLandHarvest \<equiv> ''usrLand.harvest''"
abbreviation "RPCUsrLandPlant \<equiv> ''usrLand.plant''"
abbreviation "RPCUsrLandPlantBatch \<equiv> ''usrLand.plantBatch''"
abbreviation "RPCUsrLandWater \<equiv> ''usrLand.water''"
abbreviation "RPCUsrLandWaterBatch \<equiv> ''usrLand.waterBatch''"
abbreviation "RPCUsrLandSpeedUpBatch \<equiv> ''usrLand.speedUpBatch''"
abbreviation "RPCUsrLandUnlockLand \<equiv> ''usrLand.unlockLand''"
abbreviation "RPCFmlLandHarvest \<equiv> ''fmlLand.harvest''"
abbreviation "RPCFmlLandHarvestAll \<equiv> ''fmlLand.harvestAll''"
abbreviation "RPCFmlEnter \<equiv> ''fml.enter''"
abbreviation "RPCFmlRaceEnter \<equiv> ''fmlRace.enter''"
abbreviation "RPCFmlRaceGetTaskList \<equiv> ''fmlRace.getTaskList''"
abbreviation "RPCFmlRaceTakeTask \<equiv> ''fmlRace.takeTask''"
abbreviation "RPCFmlRaceDelTask \<equiv> ''fmlRace.delTask''"
abbreviation "RPCFmlRaceGiveUpTask \<equiv> ''fmlRace.giveUpTask''"
abbreviation "RPCFmlRaceFinishTask \<equiv> ''fmlRace.finishTask''"
abbreviation "RPCFmlRaceUpgradeTask \<equiv> ''fmlRace.upgradeTask''"
abbreviation "RPCFmlRaceGetFmlRaceUsrRankList \<equiv> ''fmlRace.getFmlRaceUsrRankList''"
abbreviation "RPCPearlPlaceHire \<equiv> ''pearlPlace.hire''"
abbreviation "RPCPearlPlaceRecvOneKey \<equiv> ''pearlPlace.recvOneKey''"
abbreviation "RPCUsrHeartTick \<equiv> ''usr.heartTick''"
abbreviation "RPCIndexLogin \<equiv> ''index.login''"
abbreviation "RPCIndexReLogin \<equiv> ''index.reLogin''"
abbreviation "RPCUsrLazySync \<equiv> ''usr.lazySync''"
abbreviation "RPCReputationView \<equiv> ''reputation.view''"
abbreviation "RPCCultivateUpgrade \<equiv> ''cultivate.upgrade''"

end
