(* ===== verification/Planned.thy ===== *)
theory Planned
  imports Names
begin

text \<open>
  The data of one decision pass (\<open>internal/automation/types.go\<close>): goals, demands, cost gates,
  planned operations, and the inventory ledger through which every demand takes its items.
\<close>

record goal =
  goal_ID :: string
  goal_Category :: string
  goal_Domain :: string
  goal_Label :: string
  goal_Priority :: int

record cost_gate =
  gate_ID :: string
  gate_ResourceKind :: string
  gate_Label :: string
  gate_ItemID :: int
  gate_Required :: int
  gate_Available :: int
  gate_Status :: string
  gate_BlockedReasons :: "string list"
  gate_Hard :: bool
  gate_Source :: string

record demand =
  dem_ID :: string
  dem_GoalID :: string
  dem_Category :: string
  dem_Domain :: string
  dem_EntityID :: string
  dem_Source :: string
  dem_Label :: string
  dem_Kind :: string
  dem_ItemID :: int
  dem_Count :: int
  dem_Have :: int
  dem_Allocated :: int
  dem_Available :: int
  dem_Missing :: int
  dem_Priority :: int
  dem_BlockedReasons :: "string list"
  dem_Status :: string
  dem_BlockingStage :: string
  dem_CostGates :: "cost_gate list"

definition Blocking :: "cost_gate \<Rightarrow> bool" where
  "Blocking g \<longleftrightarrow>
     gate_Status g = PlanStatusBlocked \<or> gate_Status g = PlanStatusAdapterMissing \<or>
     gate_BlockedReasons g \<noteq> []"

record race_task_mutation_facts =
  fact_MsID :: int
  fact_TaskID :: int
  fact_TaskType :: int
  fact_Score :: int
  fact_IsUpgrade :: int
  fact_UpgradeUID :: int
  fact_UID :: int
  fact_ParamID :: int
  fact_FinishCnt :: int

definition zero_facts :: race_task_mutation_facts where
  "zero_facts = \<lparr>fact_MsID = 0, fact_TaskID = 0, fact_TaskType = 0, fact_Score = 0,
     fact_IsUpgrade = 0, fact_UpgradeUID = 0, fact_UID = 0, fact_ParamID = 0, fact_FinishCnt = 0\<rparr>"

record race_task_mutation_guard =
  guard_AutomaticDelete :: bool
  guard_Planned :: race_task_mutation_facts
  guard_Current :: race_task_mutation_facts

record cyclic_note_task_drive =
  drive_BatchID :: int
  drive_SlotID :: int
  drive_TaskID :: int
  drive_TaskType :: int
  drive_Progress :: int
  drive_FinishCount :: int

record planned_op =
  op_OperationID :: string
  op_CyclicNoteDrive :: "cyclic_note_task_drive option"
  op_CooldownKey :: string
  op_GoalID :: string
  op_DemandID :: string
  op_Kind :: string
  op_Lane :: string
  op_FeatureID :: string
  op_Category :: string
  op_Label :: string
  op_Domain :: string
  op_Action :: string
  op_Status :: string
  op_Executable :: bool
  op_SyncOnly :: bool
  op_PreemptFarm :: bool
  op_Reason :: string
  op_BlockedReasons :: "string list"
  op_Priority :: int
  op_LandIDs :: "int list"
  op_SlotIDs :: "int list"
  op_FlowerID :: int
  op_TargetUID :: int
  op_TargetUIDs :: "int list"
  op_BatchID :: int
  op_SlotID :: int
  op_TaskID :: int
  op_TaskMsID :: int
  op_MilestoneIndex :: int
  op_TargetID :: int
  op_ItemID :: int
  op_Count :: int
  op_VaseID :: int
  op_FlowerIDs :: "int list"
  op_GoldCost :: int
  op_DiamondCost :: int
  op_ItemCost :: "(int, int) gomap"
  op_CostGates :: "cost_gate list"
  op_BlockingStage :: string
  op_CooldownUntil :: time
  op_CooldownReason :: string
  op_RaceTaskGuard :: "race_task_mutation_guard option"
  op_RaceHoldTaskMsID :: int
  op_RaceBatchID :: int

text \<open>The zero value \<open>PlannedOp{}\<close>, from which every literal of the source starts.\<close>

definition zero_op :: planned_op where
  "zero_op = \<lparr>op_OperationID = [], op_CyclicNoteDrive = None, op_CooldownKey = [],
     op_GoalID = [], op_DemandID = [], op_Kind = [], op_Lane = [], op_FeatureID = [],
     op_Category = [], op_Label = [], op_Domain = [], op_Action = [], op_Status = [],
     op_Executable = False, op_SyncOnly = False, op_PreemptFarm = False, op_Reason = [],
     op_BlockedReasons = [], op_Priority = 0, op_LandIDs = [], op_SlotIDs = [], op_FlowerID = 0,
     op_TargetUID = 0, op_TargetUIDs = [], op_BatchID = 0, op_SlotID = 0, op_TaskID = 0,
     op_TaskMsID = 0, op_MilestoneIndex = 0, op_TargetID = 0, op_ItemID = 0, op_Count = 0,
     op_VaseID = 0, op_FlowerIDs = [], op_GoldCost = 0, op_DiamondCost = 0, op_ItemCost = [],
     op_CostGates = [], op_BlockingStage = [], op_CooldownUntil = zero_time,
     op_CooldownReason = [], op_RaceTaskGuard = None, op_RaceHoldTaskMsID = 0, op_RaceBatchID = 0\<rparr>"

end
