(* ===== verification/GameState.thy ===== *)
theory GameState
  imports Planned
begin

text \<open>
  The part of \<open>state.State\<close> (\<open>internal/state/state.go\<close>, \<open>types.go\<close>) the modelled components
  read and write: wallet, inventory and water drops, the role, and the guild-race slice.
  The mutex of the Go struct serialises its methods, so each method is one state transition.
\<close>

record fml_race_task =
  task_MsId :: int
  task_TaskId :: int
  task_TaskType :: int
  task_Score :: int
  task_IsUpgrade :: int
  task_UpgradeUid :: int
  task_UID :: int
  task_ParamID :: int
  task_TargetLabel :: string
  task_AppearTime :: int
  task_TargetCnt :: int
  task_FinishCnt :: int
  task_TakeLimitMin :: int
  task_TakeExpireTime :: int

record fml_race_taken =
  taken_TaskMsId :: int
  taken_TaskId :: int
  taken_TaskType :: int
  taken_Score :: int
  taken_TargetCnt :: int
  taken_FinishCnt :: int
  taken_ParamID :: int
  taken_TargetLabel :: string
  taken_TakeLimitMin :: int
  taken_TakenAtMs :: int
  taken_ExpireTime :: int
  taken_HasTask :: bool

definition zero_taken :: fml_race_taken where
  "zero_taken = \<lparr>taken_TaskMsId = 0, taken_TaskId = 0, taken_TaskType = 0, taken_Score = 0,
     taken_TargetCnt = 0, taken_FinishCnt = 0, taken_ParamID = 0, taken_TargetLabel = [],
     taken_TakeLimitMin = 0, taken_TakenAtMs = 0, taken_ExpireTime = 0, taken_HasTask = False\<rparr>"

record fml_race_view =
  rv_Observed :: bool
  rv_TasksObserved :: bool
  rv_TaskPoolStale :: bool
  rv_TaskPoolSyncAttemptAtMs :: int
  rv_TasksSyncedAtMs :: int
  rv_FullTasksSyncedAtMs :: int
  rv_BatchActive :: bool
  rv_BatchID :: int
  rv_BatchStatus :: int
  rv_BatchStartMs :: int
  rv_BatchEndMs :: int
  rv_Tasks :: "fml_race_task list"
  rv_Taken :: fml_race_taken
  rv_TaskQuotaObserved :: bool
  rv_FinishedTaskNum :: int
  rv_BuyTaskNum :: int
  rv_RaceLvl :: int
  rv_RaceLvlObserved :: bool
  rv_RaceLvlSyncAtMs :: int
  rv_Score :: int
  rv_ScoreTimeMs :: int
  rv_ScoreObserved :: bool
  rv_Rank :: int
  rv_RankObserved :: bool
  rv_RaceQuotaSyncAtMs :: int
  rv_MissingParamRefreshFP :: string
  rv_TakeQuotaExhausted :: bool
  rv_takeQuotaExhaustedBuyTaskNum :: int
  rv_LocalFinishCnt :: int
  rv_LocalFinishTaskMsId :: int

record fml_build_view =
  bv_Observed :: bool
  bv_FmlID :: int
  bv_MembershipObserved :: bool
  bv_MemberFmlID :: int
  bv_MemberPositionObserved :: bool
  bv_MemberPosition :: int
  bv_MemberPositionSyncAtMs :: int
  bv_RaceLvl :: int

record cultivation_view =
  cv_Status :: int
  cv_Lvl :: int

record game_state =
  gs_gold :: int
  gs_diamondsFree :: int
  gs_inventory :: "(int, int) gomap"
  gs_hasWaterDropsItem :: bool
  gs_waterDropsTotal :: int
  gs_waterDropsNextMs :: int
  gs_waterDropsInFlight :: int
  gs_roleID :: int
  gs_fmlRace :: fml_race_view
  gs_fmlBuild :: fml_build_view
  gs_vaseObserved :: bool
  gs_vases :: "int list"
  gs_cultivations :: "(int, cultivation_view) gomap"

definition Inventory :: "game_state \<Rightarrow> (int, int) gomap" where
  "Inventory s = gs_inventory s"

definition Gold :: "game_state \<Rightarrow> int" where
  "Gold s = gs_gold s"

definition SpendableDiamonds :: "game_state \<Rightarrow> int" where
  "SpendableDiamonds s = gs_diamondsFree s"

text \<open>A state on which the properties are exercised.\<close>

definition sample_race :: fml_race_view where
  "sample_race = \<lparr>rv_Observed = True, rv_TasksObserved = True, rv_TaskPoolStale = False,
     rv_TaskPoolSyncAttemptAtMs = 0, rv_TasksSyncedAtMs = 0, rv_FullTasksSyncedAtMs = 0,
     rv_BatchActive = False, rv_BatchID = 0, rv_BatchStatus = 0, rv_BatchStartMs = 0,
     rv_BatchEndMs = 0, rv_Tasks = [], rv_Taken = zero_taken, rv_TaskQuotaObserved = False,
     rv_FinishedTaskNum = 0, rv_BuyTaskNum = 0, rv_RaceLvl = 0, rv_RaceLvlObserved = False,
     rv_RaceLvlSyncAtMs = 0, rv_Score = 0, rv_ScoreTimeMs = 0, rv_ScoreObserved = False,
     rv_Rank = 0, rv_RankObserved = False, rv_RaceQuotaSyncAtMs = 0, rv_MissingParamRefreshFP = [],
     rv_TakeQuotaExhausted = False, rv_takeQuotaExhaustedBuyTaskNum = 0, rv_LocalFinishCnt = 0,
     rv_LocalFinishTaskMsId = 0\<rparr>"

definition sample_build :: fml_build_view where
  "sample_build = \<lparr>bv_Observed = True, bv_FmlID = 5, bv_MembershipObserved = True,
     bv_MemberFmlID = 5, bv_MemberPositionObserved = True, bv_MemberPosition = 1,
     bv_MemberPositionSyncAtMs = 0, bv_RaceLvl = 0\<rparr>"

definition sample_state :: game_state where
  "sample_state = \<lparr>gs_gold = 100, gs_diamondsFree = 50, gs_inventory = [(7, 3), (12, 2)],
     gs_hasWaterDropsItem = True, gs_waterDropsTotal = 10, gs_waterDropsNextMs = 1000,
     gs_waterDropsInFlight = 1, gs_roleID = 9, gs_fmlRace = sample_race, gs_fmlBuild = sample_build,
     gs_vaseObserved = True, gs_vases = [1], gs_cultivations = []\<rparr>"

end
