(* ===== verification/Garden.thy ===== *)
theory Garden
  imports GameState
begin

text \<open>
  The player's lands (\<open>state/types.go\<close>, \<open>state/land.go\<close>) and the state of the help with flower elves
  (\<open>state/flower_elves_aid.go\<close>), with the judgement what a land is ready for
  (\<open>automation/farm.go\<close>) and whether planting waits for help (\<open>automation/elves_aid.go\<close>).
  These are the namespaces 100 and 132 of \<open>state.State\<close>, beside those of \<open>game_state\<close>.
\<close>

section \<open>Lands\<close>

text \<open>Go's conversion to \<open>int32\<close>.\<close>

definition int32 :: "int \<Rightarrow> int" where
  "int32 n = (n + 2 ^ 31) mod 2 ^ 32 - 2 ^ 31"

record land_view =
  lv_FlowerID :: int
  lv_State :: int
  lv_Lvl :: int
  lv_HarvestCnt :: int
  lv_StealUIDs :: "int list"
  lv_NextTimeMs :: int
  lv_ElvesID :: int
  lv_PlantTimeMs :: int
  lv_ElvesStealUIDs :: "int list"
  lv_Observed :: bool

definition zero_land :: land_view where
  "zero_land = \<lparr>lv_FlowerID = 0, lv_State = 0, lv_Lvl = 0, lv_HarvestCnt = 0, lv_StealUIDs = [],
     lv_NextTimeMs = 0, lv_ElvesID = 0, lv_PlantTimeMs = 0, lv_ElvesStealUIDs = [], lv_Observed = False\<rparr>"

definition EmptyObserved :: land_view where
  "EmptyObserved = zero_land\<lparr>lv_Observed := True\<rparr>"

definition IsPlanted :: "land_view \<Rightarrow> bool" where
  "IsPlanted l \<longleftrightarrow> lv_FlowerID l \<noteq> 0"

definition HasStealableElvesFor :: "land_view \<Rightarrow> int \<Rightarrow> time \<Rightarrow> bool" where
  "HasStealableElvesFor l selfUID now \<longleftrightarrow>
     (if lv_ElvesID l = 0 \<or> lv_ElvesStealUIDs l \<noteq> [] then False
      else if 0 < selfUID \<and> selfUID \<in> set (lv_StealUIDs l) then False
      else lv_State l = 3 \<or>
        lv_State l = 2 \<and> 0 < lv_NextTimeMs l \<and> lv_NextTimeMs l \<le> to_unix_milli now)"

record aid_view =
  aid_AidMap :: "(int, int) gomap"
  aid_PreReqAidTime :: int
  aid_EffEndTime :: int
  aid_ReqAid :: int

record garden =
  gd_lands :: "(int, land_view) gomap"
  gd_flowerElvesAid :: aid_view
  gd_flowerElvesAidObserved :: bool
  gd_flowerElvesAidClaimedPreReq :: int

definition Lands :: "garden \<Rightarrow> (int, land_view) gomap" where
  "Lands g = gd_lands g"

text \<open>Indexing a Go map yields the zero land for an unknown id.\<close>

definition land_at :: "garden \<Rightarrow> int \<Rightarrow> land_view" where
  "land_at g i = get_or zero_land (gd_lands g) i"

text \<open>All fields are compared by \<open>landViewEqual\<close>; a change reports the land before and after.\<close>

definition upsertLand :: "int \<Rightarrow> land_view \<Rightarrow> garden \<Rightarrow> garden \<times> (land_view \<times> land_view) option" where
  "upsertLand lid nxt g =
     (if map_of (gd_lands g) lid = Some nxt then (g, None)
      else (g\<lparr>gd_lands := AList.update lid nxt (gd_lands g)\<rparr>, Some (land_at g lid, nxt)))"

section \<open>What a land is ready for\<close>

datatype land_kind = KindHarvest | KindPlant | KindWater | KindWait | KindUnknown

definition harvestReadyGrace :: duration where "harvestReadyGrace = 5 * second"

definition harvestReadyAt :: "land_view \<Rightarrow> duration \<Rightarrow> time option" where
  "harvestReadyAt land delay =
     (let delay = (if delay < 0 then 0 else delay)
      in if lv_State land = 3 then
           (if delay \<le> 0 then None
            else if lv_PlantTimeMs land \<le> 0 then None
            else Some (unix_milli (lv_PlantTimeMs land) + delay))
         else if lv_State land = 2 then
           (if lv_NextTimeMs land \<le> 0 then None
            else Some (unix_milli (lv_NextTimeMs land) +
                  (if harvestReadyGrace < delay then delay else harvestReadyGrace)))
         else None)"

definition Recommend :: "land_view \<Rightarrow> time \<Rightarrow> duration \<Rightarrow> land_kind" where
  "Recommend land now delay =
     (let delay = (if delay < 0 then 0 else delay)
      in if \<not> lv_Observed land then KindUnknown
         else if \<not> IsPlanted land then KindPlant
         else if lv_State land = 3 then
           (case harvestReadyAt land delay of
              Some readyAt \<Rightarrow> if now < readyAt then KindWait else KindHarvest
            | None \<Rightarrow> KindHarvest)
         else if lv_State land = 2 then
           (if 0 < lv_NextTimeMs land then
              (case harvestReadyAt land delay of
                 Some readyAt \<Rightarrow> if now < readyAt then KindWait else KindHarvest
               | None \<Rightarrow> KindHarvest)
            else KindWait)
         else if lv_State land = 1 then KindWater
         else KindWait)"

text \<open>A planted land that a harvest request cannot reach too early.\<close>

definition ripe :: "land_view \<Rightarrow> time \<Rightarrow> bool" where
  "ripe land now \<longleftrightarrow> lv_Observed land \<and> IsPlanted land \<and>
     (lv_State land = 3 \<or>
      lv_State land = 2 \<and> 0 < lv_NextTimeMs land \<and> unix_milli (lv_NextTimeMs land) + harvestReadyGrace \<le> now)"

definition thirsty :: "land_view \<Rightarrow> bool" where
  "thirsty land \<longleftrightarrow> lv_Observed land \<and> IsPlanted land \<and> lv_State land = 1"

definition vacant :: "land_view \<Rightarrow> bool" where
  "vacant land \<longleftrightarrow> lv_Observed land \<and> \<not> IsPlanted land"

lemma Recommend_harvest: "Recommend land now delay = KindHarvest \<Longrightarrow> ripe land now"
  by (auto simp: Recommend_def harvestReadyAt_def ripe_def Let_def split: if_splits option.splits)

lemma Recommend_harvest_delay:
  "Recommend land now delay = KindHarvest \<Longrightarrow> lv_State land = 3 \<Longrightarrow> 0 < delay \<Longrightarrow>
     0 < lv_PlantTimeMs land \<Longrightarrow> unix_milli (lv_PlantTimeMs land) + delay \<le> now"
  by (auto simp: Recommend_def harvestReadyAt_def Let_def split: if_splits)

lemma Recommend_water: "Recommend land now delay = KindWater \<longleftrightarrow> thirsty land"
  by (auto simp: Recommend_def thirsty_def Let_def split: option.splits)

lemma Recommend_plant: "Recommend land now delay = KindPlant \<longleftrightarrow> vacant land"
  by (auto simp: Recommend_def vacant_def Let_def split: option.splits)

text \<open>No delay is the earliest: what is ripe at all is ripe then.\<close>

lemma Recommend_zero: "Recommend land now 0 = KindHarvest \<longleftrightarrow> ripe land now"
  by (auto simp: Recommend_def harvestReadyAt_def ripe_def Let_def duration_defs harvestReadyGrace_def)

section \<open>Help with flower elves\<close>

text \<open>The global row of the catalogue, \<open>None\<close> when it is absent.\<close>

record elves_globals =
  eg_FriendHelpNum :: int
  eg_FriendTimeMin :: int

definition canRecvFlowerElvesAid :: "elves_globals option \<Rightarrow> garden \<Rightarrow> time \<Rightarrow> bool" where
  "canRecvFlowerElvesAid globals g now \<longleftrightarrow>
     (let aid = gd_flowerElvesAid g
      in if \<not> gd_flowerElvesAidObserved g then False
         else if aid_PreReqAidTime aid \<le> 0 \<and> aid_ReqAid aid = 0 then False
         else if 0 < aid_PreReqAidTime aid \<and> aid_PreReqAidTime aid = gd_flowerElvesAidClaimedPreReq g
         then False
         else if 0 < aid_EffEndTime aid \<and> to_unix_milli now < aid_EffEndTime aid then False
         else
           let need = (case globals of
                 Some c \<Rightarrow> if 0 < eg_FriendHelpNum c then eg_FriendHelpNum c else 1 | None \<Rightarrow> 1)
           in need \<le> int (length (aid_AidMap aid)))"

definition flowerElvesAidReqReadyAt :: "elves_globals option \<Rightarrow> garden \<Rightarrow> time \<Rightarrow> int \<times> bool" where
  "flowerElvesAidReqReadyAt globals g now =
     (let pre = aid_PreReqAidTime (gd_flowerElvesAid g)
      in if pre \<le> 0 then (0, False)
         else
           let cooldown = (case globals of
                 Some c \<Rightarrow> if 0 < eg_FriendTimeMin c then eg_FriendTimeMin c else 150 | None \<Rightarrow> 150);
               readyAt = pre + cooldown * 60000
           in if to_unix_milli now < readyAt then (readyAt, True) else (0, False))"

definition CanReqFlowerElvesAid :: "elves_globals option \<Rightarrow> garden \<Rightarrow> time \<Rightarrow> bool" where
  "CanReqFlowerElvesAid globals g now \<longleftrightarrow>
     (let aid = gd_flowerElvesAid g
      in if \<not> gd_flowerElvesAidObserved g then False
         else if aid_ReqAid aid \<noteq> 0 then False
         else if canRecvFlowerElvesAid globals g now then False
         else if 0 < aid_EffEndTime aid \<and> to_unix_milli now < aid_EffEndTime aid then False
         else \<not> snd (flowerElvesAidReqReadyAt globals g now))"

definition flowerElvesAidEffectActive :: "garden \<Rightarrow> time \<Rightarrow> bool" where
  "flowerElvesAidEffectActive g now \<longleftrightarrow>
     gd_flowerElvesAidObserved g \<and> 0 < aid_EffEndTime (gd_flowerElvesAid g) \<and>
     to_unix_milli now < aid_EffEndTime (gd_flowerElvesAid g)"

definition elvesPlantBlockedByPendingAid :: "elves_globals option \<Rightarrow> garden \<Rightarrow> time \<Rightarrow> bool" where
  "elvesPlantBlockedByPendingAid globals g now \<longleftrightarrow>
     (if flowerElvesAidEffectActive g now then False
      else if \<not> gd_flowerElvesAidObserved g then True
      else canRecvFlowerElvesAid globals g now)"

end
