(* ===== verification/RaceState.thy ===== *)
theory RaceState
  imports GameState Names
begin

text \<open>
  The guild-race slice of the game state (\<open>internal/state/fml_race.go\<close>): when a batch is running,
  who holds a task at a given moment, how the pool's observations go stale, how the quota counters
  are merged, and the catalogue formulas of \<open>internal/state/catalog.go\<close> the race depends on.
  The catalogue itself is generated data; it is the record \<open>race_catalog\<close> here, each field a
  table lookup: \<open>None\<close> for a missing row, and the decoded columns otherwise.
\<close>

section \<open>The catalogue\<close>

record race_catalog =
  cat_race_row :: "int \<Rightarrow> int option"
  cat_race_task :: "int \<Rightarrow> (int \<times> int list list) option"
  cat_upgrade_multiple :: "int list option"
  cat_race_delete :: "int \<Rightarrow> int option"

definition max_int32 :: int where "max_int32 = 2147483647"

text \<open>A row that does not decode counts as \<open>taskNum\<close> 0.\<close>

definition FmlRaceBaseTaskNum :: "race_catalog \<Rightarrow> int \<Rightarrow> int" where
  "FmlRaceBaseTaskNum cat lvl =
     (let raceLvl = (if lvl \<le> 0 then 1 else lvl);
          row = (case cat_race_row cat raceLvl of
                   None \<Rightarrow> (if raceLvl \<noteq> 1 then cat_race_row cat 1 else None)
                 | Some n \<Rightarrow> Some n)
      in case row of None \<Rightarrow> 0 | Some n \<Rightarrow> (if n \<le> 0 then 0 else n))"

definition FmlRaceTotalTaskNum :: "race_catalog \<Rightarrow> int \<Rightarrow> int \<Rightarrow> int" where
  "FmlRaceTotalTaskNum cat raceLvl buyTaskNum =
     (if raceLvl \<le> 0 then 0
      else if cat_race_row cat raceLvl = None then 0
      else let base = FmlRaceBaseTaskNum cat raceLvl
           in if base \<le> 0 then 0 else min max_int32 (base + max 0 buyTaskNum))"

definition upgrade_point :: "int \<Rightarrow> int list list \<Rightarrow> int" where
  "upgrade_point currentScore points =
     (case List.find (\<lambda>p. 2 \<le> length p \<and> p ! 0 = currentScore \<and> 0 < p ! 1) points of
        None \<Rightarrow> 0
      | Some p \<Rightarrow> p ! 1)"

definition next_score :: "race_catalog \<Rightarrow> int \<Rightarrow> int list list \<Rightarrow> int \<Rightarrow> int option" where
  "next_score cat task_group points currentScore =
     (let explicit = upgrade_point currentScore points
      in if explicit \<noteq> 0 then Some explicit
         else case cat_upgrade_multiple cat of
           None \<Rightarrow> None
         | Some ms \<Rightarrow>
             (if int (length ms) < task_group then None
              else let multiplier = ms ! nat (task_group - 1)
                   in if multiplier \<le> 0 then None
                      else let next = (currentScore * multiplier + 9999) div 10000
                           in if next \<le> 0 \<or> max_int32 < next then None else Some next))"

text \<open>\<open>None\<close> is the \<open>(0, false)\<close> of the source.\<close>

definition FmlRaceTaskUpgradeCost :: "race_catalog \<Rightarrow> int \<Rightarrow> int \<Rightarrow> int option" where
  "FmlRaceTaskUpgradeCost cat taskID currentScore =
     (if taskID \<le> 0 \<or> currentScore \<le> 0 then None
      else case cat_race_task cat taskID of
        None \<Rightarrow> None
      | Some (task_group, points) \<Rightarrow>
          (if task_group \<le> 0 then None
           else case next_score cat task_group points currentScore of
             None \<Rightarrow> None
           | Some nxt \<Rightarrow>
               (let cost = max 1 (nxt - currentScore) * 3
                in if max_int32 < cost then None else Some cost)))"

definition FmlPositionAllowsRaceDelete :: "race_catalog \<Rightarrow> int \<Rightarrow> bool" where
  "FmlPositionAllowsRaceDelete cat position \<longleftrightarrow> cat_race_delete cat position = Some 1"

section \<open>The batch and the weekly session\<close>

definition fmlRaceBatchActive :: "int \<Rightarrow> int \<Rightarrow> int \<Rightarrow> time \<Rightarrow> bool" where
  "fmlRaceBatchActive status startMs endMs now =
     (if status = 2 then False
      else if status = 1 then True
      else if startMs \<le> 0 \<or> endMs \<le> startMs then False
      else startMs \<le> to_unix_milli now \<and> to_unix_milli now < endMs)"

definition ActiveAt :: "fml_race_view \<Rightarrow> time \<Rightarrow> bool" where
  "ActiveAt v now = fmlRaceBatchActive (rv_BatchStatus v) (rv_BatchStartMs v) (rv_BatchEndMs v) now"

text \<open>
  The fixed zone of \<open>gameDayLocation\<close> is eight hours east of UTC.  A local date is the number of
  days since the first of January 1970, a Thursday (weekday 4, Sunday being 0).
\<close>

definition day :: duration where "day = 24 * hour"

definition local_day :: "time \<Rightarrow> int" where
  "local_day now = (now + 8 * hour) div day"

definition weekday :: "int \<Rightarrow> int" where
  "weekday d = (d + 4) mod 7"

definition local_date :: "int \<Rightarrow> int \<Rightarrow> time" where
  "local_date d h = d * day + h * hour - 8 * hour"

definition FmlRaceCalendarSessionStart :: "time \<Rightarrow> time" where
  "FmlRaceCalendarSessionStart now =
     (let d = local_day now; daysSinceStart = (weekday d - 2 + 7) mod 7
      in local_date (d - daysSinceStart) 9)"

definition FmlRaceCalendarSessionEnd :: "time \<Rightarrow> time" where
  "FmlRaceCalendarSessionEnd now =
     (let days = 0 - 2; days = (if days < 0 then days + 7 else days)
      in local_date (local_day (FmlRaceCalendarSessionStart now) + days) 21)"

definition FmlRaceCalendarInSession :: "time \<Rightarrow> bool" where
  "FmlRaceCalendarInSession now \<longleftrightarrow>
     FmlRaceCalendarSessionStart now \<le> now \<and> now < FmlRaceCalendarSessionEnd now"

section \<open>Holding a task\<close>

definition clearFmlRaceLocalFinish :: "fml_race_view \<Rightarrow> fml_race_view" where
  "clearFmlRaceLocalFinish v = v\<lparr>rv_LocalFinishCnt := 0, rv_LocalFinishTaskMsId := 0\<rparr>"

definition resetFmlRaceLocalFinish :: "int \<Rightarrow> int \<Rightarrow> fml_race_view \<Rightarrow> fml_race_view" where
  "resetFmlRaceLocalFinish taskMsId finish v =
     v\<lparr>rv_LocalFinishTaskMsId := taskMsId, rv_LocalFinishCnt := (if finish < 0 then 0 else finish)\<rparr>"

definition bumpFmlRaceLocalFinish :: "int \<Rightarrow> fml_race_view \<Rightarrow> fml_race_view" where
  "bumpFmlRaceLocalFinish finish v =
     (if \<not> taken_HasTask (rv_Taken v) then v
      else let taken = rv_Taken v;
               v1 = (if rv_LocalFinishTaskMsId v \<noteq> taken_TaskMsId taken
                     then resetFmlRaceLocalFinish (taken_TaskMsId taken) (taken_FinishCnt taken) v
                     else v);
               v2 = (if rv_LocalFinishCnt v1 < finish then v1\<lparr>rv_LocalFinishCnt := finish\<rparr> else v1)
           in if rv_LocalFinishCnt v2 < taken_FinishCnt taken
              then v2\<lparr>rv_LocalFinishCnt := taken_FinishCnt taken\<rparr> else v2)"

definition reconcileFmlRaceLocalFinishAfterFullPool :: "fml_race_view \<Rightarrow> fml_race_view" where
  "reconcileFmlRaceLocalFinishAfterFullPool v =
     (let taken = rv_Taken v
      in if \<not> taken_HasTask taken \<or> taken_TargetCnt taken \<le> 0 \<or>
            taken_TargetCnt taken \<le> taken_FinishCnt taken then v
         else if rv_LocalFinishTaskMsId v \<noteq> taken_TaskMsId taken \<or>
                 rv_LocalFinishCnt v < taken_TargetCnt taken then v
         else v\<lparr>rv_LocalFinishCnt := taken_FinishCnt taken\<rparr>)"

definition ExpiredAt :: "fml_race_taken \<Rightarrow> time \<Rightarrow> bool" where
  "ExpiredAt taken now \<longleftrightarrow>
     taken_HasTask taken \<and> 0 < taken_ExpireTime taken \<and> taken_ExpireTime taken \<le> to_unix_milli now"

definition EffectiveAt :: "fml_race_view \<Rightarrow> time \<Rightarrow> fml_race_view" where
  "EffectiveAt v now =
     (if ExpiredAt (rv_Taken v) now then clearFmlRaceLocalFinish (v\<lparr>rv_Taken := zero_taken\<rparr>) else v)"

definition FmlRace :: "game_state \<Rightarrow> fml_race_view" where
  "FmlRace s = gs_fmlRace s"

definition FmlRaceAt :: "game_state \<Rightarrow> time \<Rightarrow> fml_race_view" where
  "FmlRaceAt s now = EffectiveAt (FmlRace s) now"

definition FmlBuild :: "game_state \<Rightarrow> fml_build_view" where
  "FmlBuild s = gs_fmlBuild s"

section \<open>Observations of the pool\<close>

text \<open>\<open>taskType == 0\<close> falls back to the catalogue id, in pool rows and in held tasks alike.\<close>

definition row_type :: "fml_race_task \<Rightarrow> int" where
  "row_type t = (if task_TaskType t = 0 then task_TaskId t else task_TaskType t)"

definition held_type :: "fml_race_taken \<Rightarrow> int" where
  "held_type taken = (if taken_TaskType taken = 0 then taken_TaskId taken else taken_TaskType taken)"

definition missing_param :: "fml_race_task \<Rightarrow> bool" where
  "missing_param t \<longleftrightarrow> (row_type t = 3036 \<or> row_type t = 3034) \<and> task_ParamID t \<le> 0"

definition FmlRacePoolMissingParam :: "fml_race_task list \<Rightarrow> bool" where
  "FmlRacePoolMissingParam tasks \<longleftrightarrow> list_ex missing_param tasks"

definition fingerprint_before :: "fml_race_task \<Rightarrow> fml_race_task \<Rightarrow> bool" where
  "fingerprint_before a b =
     (if task_MsId a \<noteq> task_MsId b then task_MsId a < task_MsId b else task_TaskId a < task_TaskId b)"

definition FmlRaceMissingParamFingerprint :: "fml_race_task list \<Rightarrow> string" where
  "FmlRaceMissingParamFingerprint tasks =
     (let missing = filter missing_param tasks
      in if missing = [] then []
         else str_join '',''
                (map (\<lambda>t. show_int (task_MsId t) @ '':'' @ show_int (task_TaskId t))
                     (stable_sort fingerprint_before missing)))"

definition on_race :: "(fml_race_view \<Rightarrow> fml_race_view) \<Rightarrow> game_state \<Rightarrow> game_state" where
  "on_race f s = s\<lparr>gs_fmlRace := f (gs_fmlRace s)\<rparr>"

definition MarkFmlRaceTaskPoolStale :: "game_state \<Rightarrow> game_state" where
  "MarkFmlRaceTaskPoolStale = on_race (\<lambda>v. v\<lparr>rv_TaskPoolStale := True, rv_FullTasksSyncedAtMs := 0,
     rv_TaskPoolSyncAttemptAtMs := 0\<rparr>)"

definition MarkFmlRaceSessionStale :: "game_state \<Rightarrow> game_state" where
  "MarkFmlRaceSessionStale = on_race (\<lambda>v. v\<lparr>rv_Observed := False, rv_FullTasksSyncedAtMs := 0,
     rv_TaskPoolStale := True, rv_TaskPoolSyncAttemptAtMs := 0\<rparr>)"

text \<open>The zero time stands for \<open>time.Now()\<close>, the second argument.\<close>

definition NoteFmlRaceTaskPoolSync :: "time \<Rightarrow> time \<Rightarrow> game_state \<Rightarrow> game_state" where
  "NoteFmlRaceTaskPoolSync at time_now = on_race (\<lambda>v.
     let nowMs = to_unix_milli (if time_is_zero at then time_now else at);
         v1 = v\<lparr>rv_TaskPoolSyncAttemptAtMs := nowMs, rv_TaskPoolStale := False\<rparr>;
         v2 = (if rv_TasksObserved v1 then v1\<lparr>rv_TasksSyncedAtMs := nowMs\<rparr> else v1)
     in v2\<lparr>rv_MissingParamRefreshFP :=
            (if FmlRacePoolMissingParam (rv_Tasks v2)
             then FmlRaceMissingParamFingerprint (rv_Tasks v2) else [])\<rparr>)"

definition MarkFmlRaceLvlSyncAttemptAt :: "time \<Rightarrow> game_state \<Rightarrow> game_state" where
  "MarkFmlRaceLvlSyncAttemptAt at = on_race (\<lambda>v. v\<lparr>rv_RaceLvlSyncAtMs := to_unix_milli at\<rparr>)"

definition MarkFmlRaceQuotaSyncAttempt :: "time \<Rightarrow> game_state \<Rightarrow> game_state" where
  "MarkFmlRaceQuotaSyncAttempt time_now =
     on_race (\<lambda>v. v\<lparr>rv_RaceQuotaSyncAtMs := to_unix_milli time_now\<rparr>)"

fun claim_row :: "int \<Rightarrow> fml_race_task list \<Rightarrow> fml_race_task list" where
  "claim_row msID [] = []"
| "claim_row msID (t # ts) =
     (if task_MsId t \<noteq> msID \<or> task_UID t \<noteq> 0 then t # claim_row msID ts
      else t\<lparr>task_UID := - 1\<rparr> # ts)"

definition MarkFmlRacePoolTaskClaimed :: "int \<Rightarrow> game_state \<Rightarrow> game_state" where
  "MarkFmlRacePoolTaskClaimed msID s =
     (if msID = 0 then s else on_race (\<lambda>v. v\<lparr>rv_Tasks := claim_row msID (rv_Tasks v)\<rparr>) s)"

section \<open>The quota\<close>

definition mergeFmlRaceQuota :: "int \<Rightarrow> int \<Rightarrow> bool \<Rightarrow> bool \<Rightarrow> fml_race_view \<Rightarrow> fml_race_view" where
  "mergeFmlRaceQuota finished buy finishedOK buyOK v =
     (let v1 = (if finishedOK \<and> 0 \<le> finished
                then v\<lparr>rv_FinishedTaskNum := max (rv_FinishedTaskNum v) finished,
                       rv_TaskQuotaObserved := True\<rparr>
                else v)
      in if buyOK \<and> 0 \<le> buy then v1\<lparr>rv_BuyTaskNum := max (rv_BuyTaskNum v1) buy\<rparr> else v1)"

definition reconcileFmlRaceQuota :: "race_catalog \<Rightarrow> fml_race_view \<Rightarrow> fml_race_view" where
  "reconcileFmlRaceQuota cat v =
     (if rv_TakeQuotaExhausted v \<and> 0 < rv_BatchID v \<and> rv_TaskQuotaObserved v \<and>
         rv_takeQuotaExhaustedBuyTaskNum v < rv_BuyTaskNum v \<and>
         rv_FinishedTaskNum v < FmlRaceTotalTaskNum cat (rv_RaceLvl v) (rv_BuyTaskNum v)
      then v\<lparr>rv_TakeQuotaExhausted := False\<rparr> else v)"

definition exhaust_quota :: "fml_race_view \<Rightarrow> fml_race_view" where
  "exhaust_quota v = v\<lparr>rv_TakeQuotaExhausted := True,
     rv_takeQuotaExhaustedBuyTaskNum := rv_BuyTaskNum v\<rparr>"

definition MarkFmlRaceTakeQuotaExhausted :: "game_state \<Rightarrow> game_state" where
  "MarkFmlRaceTakeQuotaExhausted = on_race exhaust_quota"

section \<open>Prices and quotas\<close>

lemma upgrade_cost_range:
  assumes "FmlRaceTaskUpgradeCost cat taskID currentScore = Some cost"
  shows "3 \<le> cost" "cost \<le> max_int32" "cost mod 3 = 0"
  using assms
  by (auto simp: FmlRaceTaskUpgradeCost_def Let_def not_less split: if_splits option.splits prod.splits)

lemma base_task_num_nonneg [simp]: "0 \<le> FmlRaceBaseTaskNum cat lvl"
  by (simp add: FmlRaceBaseTaskNum_def Let_def split: option.split)

lemma total_task_num_mono:
  "a \<le> b \<Longrightarrow> FmlRaceTotalTaskNum cat lvl a \<le> FmlRaceTotalTaskNum cat lvl b"
  by (auto simp: FmlRaceTotalTaskNum_def Let_def)

section \<open>The weekly session\<close>

lemma day_pos: "0 < day"
  by (simp add: day_def duration_defs)

text \<open>Tuesday 09:00 of the first week, and the length of a week and of a session.\<close>

definition first_session :: time where "first_session = 5 * day + hour"
definition week :: duration where "week = 7 * day"
definition session_length :: duration where "session_length = 5 * day + 12 * hour"

lemmas calendar_defs = day_def first_session_def week_def session_length_def local_date_def
  local_day_def weekday_def duration_defs

lemma tuesday_of:
  "local_day now - (weekday (local_day now) - 2 + 7) mod 7 = 7 * ((local_day now - 5) div 7) + 5"
proof -
  define n where "n = local_day now - 5"
  have "(weekday (local_day now) - 2 + 7) mod 7 = ((n + 9) mod 7 + 5) mod 7"
    by (simp add: weekday_def n_def add.commute)
  also have "\<dots> = (n + 2 * 7) mod 7" by (simp only: mod_add_left_eq) (simp add: add.commute)
  also have "\<dots> = n mod 7" by (rule mod_mult_self1)
  finally show ?thesis using minus_mod_eq_mult_div [of n 7] unfolding n_def by linarith
qed

lemma session_start_shape:
  "FmlRaceCalendarSessionStart now = local_date (7 * ((local_day now - 5) div 7) + 5) 9"
proof -
  have "local_day now - (weekday (local_day now) - 2 + 7) mod 7 = 7 * ((local_day now - 5) div 7) + 5"
    by (rule tuesday_of)
  then show ?thesis by (simp add: FmlRaceCalendarSessionStart_def Let_def)
qed

lemma local_day_start: "local_day (local_date d 9) = d"
  by (simp add: calendar_defs)

lemma session_end_shape:
  "FmlRaceCalendarSessionEnd now = FmlRaceCalendarSessionStart now + session_length"
  by (simp add: FmlRaceCalendarSessionEnd_def session_start_shape local_day_start)
    (simp add: calendar_defs)

text \<open>
  The weekly window: the race is in session exactly from Tuesday 09:00 to
  Sunday 21:00 of every week in Shanghai, that is, in the first five and a half days of the weeks
  counted from a Tuesday at 09:00.  The session start is the latest Tuesday 09:00, except in the
  first nine hours of a Tuesday, where it is the one still ahead.
\<close>

lemma session_is_weekly:
  "FmlRaceCalendarInSession now = ((now - first_session) mod week < session_length) \<and>
   FmlRaceCalendarSessionStart now =
     now - (now - first_session) mod week
       + (if (now - first_session) mod week < week - 9 * hour then 0 else week)"
proof -
  define k where "k = (local_day now - 5) div 7"
  define r where "r = now - (first_session + k * week)"
  have start: "FmlRaceCalendarSessionStart now = first_session + k * week"
    by (simp add: session_start_shape k_def calendar_defs)
  have r: "- (9 * hour) \<le> r" "r < week - 9 * hour"
    unfolding r_def k_def calendar_defs by simp_all
  have "now - first_session = r + k * week" by (simp add: r_def)
  then have "(now - first_session) mod week = (r + (if 0 \<le> r then 0 else week)) mod week" by simp
  also have "\<dots> = (if 0 \<le> r then r else r + week)"
    using r by (auto simp: calendar_defs)
  finally have m: "(now - first_session) mod week = (if 0 \<le> r then r else r + week)" .
  show ?thesis
    using r unfolding m FmlRaceCalendarInSession_def session_end_shape start
    by (auto simp: r_def calendar_defs)
qed

section \<open>Holds and pools\<close>

lemma ExpiredAt_mono: "ExpiredAt t now \<Longrightarrow> now \<le> later \<Longrightarrow> ExpiredAt t later"
  using to_unix_milli_mono by (force simp: ExpiredAt_def)

lemma zero_taken_simps [simp]:
  "\<not> taken_HasTask zero_taken" "taken_TargetCnt zero_taken = 0" "taken_FinishCnt zero_taken = 0"
  "taken_TaskMsId zero_taken = 0" "taken_ExpireTime zero_taken = 0"
  by (simp_all add: zero_taken_def)

lemma EffectiveAt_simps [simp]:
  "rv_Observed (EffectiveAt v now) = rv_Observed v"
  "rv_TasksObserved (EffectiveAt v now) = rv_TasksObserved v"
  "rv_TaskPoolStale (EffectiveAt v now) = rv_TaskPoolStale v"
  "rv_TaskPoolSyncAttemptAtMs (EffectiveAt v now) = rv_TaskPoolSyncAttemptAtMs v"
  "rv_TasksSyncedAtMs (EffectiveAt v now) = rv_TasksSyncedAtMs v"
  "rv_BatchID (EffectiveAt v now) = rv_BatchID v"
  "rv_BatchActive (EffectiveAt v now) = rv_BatchActive v"
  "rv_BatchStatus (EffectiveAt v now) = rv_BatchStatus v"
  "rv_BatchStartMs (EffectiveAt v now) = rv_BatchStartMs v"
  "rv_BatchEndMs (EffectiveAt v now) = rv_BatchEndMs v"
  "rv_Tasks (EffectiveAt v now) = rv_Tasks v"
  "rv_TaskQuotaObserved (EffectiveAt v now) = rv_TaskQuotaObserved v"
  "rv_FinishedTaskNum (EffectiveAt v now) = rv_FinishedTaskNum v"
  "rv_BuyTaskNum (EffectiveAt v now) = rv_BuyTaskNum v"
  "rv_RaceLvl (EffectiveAt v now) = rv_RaceLvl v"
  "rv_RaceLvlSyncAtMs (EffectiveAt v now) = rv_RaceLvlSyncAtMs v"
  "rv_RaceQuotaSyncAtMs (EffectiveAt v now) = rv_RaceQuotaSyncAtMs v"
  "rv_ScoreObserved (EffectiveAt v now) = rv_ScoreObserved v"
  "rv_RankObserved (EffectiveAt v now) = rv_RankObserved v"
  "rv_MissingParamRefreshFP (EffectiveAt v now) = rv_MissingParamRefreshFP v"
  "rv_TakeQuotaExhausted (EffectiveAt v now) = rv_TakeQuotaExhausted v"
  "rv_Taken (EffectiveAt v now) = (if ExpiredAt (rv_Taken v) now then zero_taken else rv_Taken v)"
  by (simp_all add: EffectiveAt_def clearFmlRaceLocalFinish_def)

lemma ActiveAt_EffectiveAt [simp]: "ActiveAt (EffectiveAt v t) now = ActiveAt v now"
  by (simp add: ActiveAt_def)

text \<open>A view without a hold keeps having none, and is then the observed record itself or cleared.\<close>

lemma no_hold_later:
  assumes "\<not> taken_HasTask (rv_Taken (EffectiveAt v now))" "now \<le> later"
  shows "EffectiveAt v later = EffectiveAt v now"
proof (cases "ExpiredAt (rv_Taken v) now")
  case True
  with assms(2) show ?thesis using ExpiredAt_mono by (simp add: EffectiveAt_def)
next
  case False
  with assms(1) have "\<not> taken_HasTask (rv_Taken v)" by simp
  then show ?thesis by (simp add: EffectiveAt_def ExpiredAt_def)
qed

lemma claim_row_length [simp]: "length (claim_row m ts) = length ts"
  by (induction ts) auto

lemma claim_row_MsIds: "map task_MsId (claim_row m ts) = map task_MsId ts"
  by (induction ts) auto

section \<open>Quota counters\<close>

text \<open>What a batch does to the quota: merged counters, reconciliations, and rejected takes.\<close>

inductive quota_run :: "race_catalog \<Rightarrow> fml_race_view \<Rightarrow> fml_race_view \<Rightarrow> bool"
  for cat :: race_catalog and v0 :: fml_race_view where
  start: "quota_run cat v0 v0"
| merged: "quota_run cat v0 v \<Longrightarrow> quota_run cat v0 (mergeFmlRaceQuota finished buy fOK bOK v)"
| reconciled: "quota_run cat v0 v \<Longrightarrow> quota_run cat v0 (reconcileFmlRaceQuota cat v)"
| rejected: "quota_run cat v0 v \<Longrightarrow> quota_run cat v0 (exhaust_quota v)"

lemma merge_quota_simps [simp]:
  "rv_FinishedTaskNum v \<le> rv_FinishedTaskNum (mergeFmlRaceQuota f b fOK bOK v)"
  "rv_BuyTaskNum v \<le> rv_BuyTaskNum (mergeFmlRaceQuota f b fOK bOK v)"
  "rv_TakeQuotaExhausted (mergeFmlRaceQuota f b fOK bOK v) = rv_TakeQuotaExhausted v"
  "rv_takeQuotaExhaustedBuyTaskNum (mergeFmlRaceQuota f b fOK bOK v) = rv_takeQuotaExhaustedBuyTaskNum v"
  by (simp_all add: mergeFmlRaceQuota_def Let_def)

lemma reconcile_quota_simps [simp]:
  "rv_FinishedTaskNum (reconcileFmlRaceQuota cat v) = rv_FinishedTaskNum v"
  "rv_BuyTaskNum (reconcileFmlRaceQuota cat v) = rv_BuyTaskNum v"
  "rv_takeQuotaExhaustedBuyTaskNum (reconcileFmlRaceQuota cat v) = rv_takeQuotaExhaustedBuyTaskNum v"
  by (simp_all add: reconcileFmlRaceQuota_def)

definition quota_after :: "fml_race_view \<Rightarrow> fml_race_view \<Rightarrow> bool" where
  "quota_after v0 v \<longleftrightarrow>
     rv_FinishedTaskNum v0 \<le> rv_FinishedTaskNum v \<and> rv_BuyTaskNum v0 \<le> rv_BuyTaskNum v \<and>
     (if rv_TakeQuotaExhausted v then rv_BuyTaskNum v0 \<le> rv_takeQuotaExhaustedBuyTaskNum v
      else rv_BuyTaskNum v0 < rv_BuyTaskNum v)"

lemma quota_after_steps:
  assumes "quota_after v0 v"
  shows "quota_after v0 (mergeFmlRaceQuota f b fOK bOK v)"
    and "quota_after v0 (reconcileFmlRaceQuota cat v)"
    and "quota_after v0 (exhaust_quota v)"
proof -
  show "quota_after v0 (mergeFmlRaceQuota f b fOK bOK v)"
    using assms merge_quota_simps(1,2) [of v f b fOK bOK]
    unfolding quota_after_def merge_quota_simps(3,4)
    by (smt (verit))
  show "quota_after v0 (reconcileFmlRaceQuota cat v)"
    using assms by (auto simp: quota_after_def reconcileFmlRaceQuota_def)
  show "quota_after v0 (exhaust_quota v)"
    using assms by (simp add: quota_after_def exhaust_quota_def)
qed

text \<open>
  Merging snapshots, however late or partial, never lowers a
  counter of the running batch; and once the server has rejected a take for lack of quota, takes
  stay closed until more purchased slots are observed than were known at the rejection.
\<close>

lemma quota_reopens_only_with_slots:
  assumes "quota_run cat (exhaust_quota u) v"
  shows "rv_FinishedTaskNum u \<le> rv_FinishedTaskNum v \<and> rv_BuyTaskNum u \<le> rv_BuyTaskNum v \<and>
         (rv_TakeQuotaExhausted v \<or> rv_BuyTaskNum u < rv_BuyTaskNum v)"
proof -
  have "quota_after (exhaust_quota u) v"
    using assms
    by induction (simp_all add: quota_after_steps, simp add: quota_after_def exhaust_quota_def)
  then show ?thesis by (auto simp: quota_after_def exhaust_quota_def split: if_splits)
qed

definition sample_catalog :: race_catalog where
  "sample_catalog =
     \<lparr>cat_race_row = (\<lambda>lvl. if lvl = 1 then Some 5 else None),
      cat_race_task = (\<lambda>i. if i = 77 then Some (1, [[40, 72]]) else None),
      cat_upgrade_multiple = None,
      cat_race_delete = (\<lambda>position. if position = 1 then Some 1 else None)\<rparr>"

text \<open>A late snapshot with lower counters, after a take was rejected for lack of quota.\<close>

end
