(* ===== verification/RaceTake.thy ===== *)
theory RaceTake
  imports RaceState
begin

text \<open>
  Taking a task of the guild race (\<open>internal/automation/union_race.go\<close>, with the task types of
  \<open>race_drive.go\<close>): which rows of the pool automation may take, which one it takes, the check the
  runner repeats before it sends \<open>takeTask\<close>, and the moment the decision loop wakes up for a row
  that is still cooling down.  A nil \<open>*state.State\<close> or policy is \<open>None\<close> where the source tests for it.
\<close>

section \<open>Policy and task types\<close>

record race_policy =
  rp_Enabled :: bool
  rp_AutoEnableModules :: bool
  rp_MinTaskScore :: int
  rp_OnlyUpgradeTask :: bool
  rp_ExcludeOthersUpgradeTask :: bool
  rp_TaskTypePriority :: "(int, int) gomap"
  rp_UpgradeTask :: bool
  rp_DeleteLowScoreTask :: bool
  rp_DeleteTaskMaxScore :: int
  rp_MaxSpendDiamond :: int
  rp_AutoStopOnQuotaDone :: bool
  rp_AvoidProgressedTasks :: bool
  rp_AutoGiveUpTask :: bool
  rp_PlantHarvestMaxInventory :: int

record policy =
  pol_AutomationEnabled :: bool
  pol_Race :: "race_policy option"
  pol_CustomerEnabled :: bool
  pol_PearlAutoHireEnabled :: bool
  pol_CultivateEnabled :: bool

record race_module_gates =
  gates_Customer :: bool
  gates_Pearl :: bool
  gates_Cultivate :: bool

definition raceModuleGatesFromPolicy :: "policy \<Rightarrow> race_module_gates" where
  "raceModuleGatesFromPolicy p =
     \<lparr>gates_Customer = pol_CustomerEnabled p, gates_Pearl = pol_PearlAutoHireEnabled p,
      gates_Cultivate = pol_CultivateEnabled p\<rparr>"

abbreviation "raceTaskTypePlantHarvest \<equiv> (3036::int)"
abbreviation "raceTaskTypeCustomerOrder \<equiv> (3016::int)"
abbreviation "raceTaskTypePearlHire \<equiv> (3023::int)"
abbreviation "raceTaskTypeFlowerArtSell \<equiv> (3030::int)"
abbreviation "raceTaskTypeFlowerArtCraft \<equiv> (3034::int)"
abbreviation "raceTaskTypeFlowerCultivate \<equiv> (3044::int)"
abbreviation "raceFlowerCultivateRequiredScore \<equiv> (36::int)"

definition raceTaskTypeAutoCompletable :: "int \<Rightarrow> bool" where
  "raceTaskTypeAutoCompletable taskType \<longleftrightarrow>
     taskType = raceTaskTypePlantHarvest \<or> taskType = raceTaskTypeCustomerOrder \<or>
     taskType = raceTaskTypePearlHire \<or> taskType = raceTaskTypeFlowerArtSell \<or>
     taskType = raceTaskTypeFlowerArtCraft \<or> taskType = raceTaskTypeFlowerCultivate"

definition defaultUnionRacePriority :: "(int, int) gomap" where
  "defaultUnionRacePriority =
     [(2004, 0), (3006, 0), (3016, 0), (3017, 0), (3018, 0), (3023, 0), (3024, 0), (3030, 0),
      (3034, 0), (3035, 0), (3036, 5), (3044, 0), (3052, 0)]"

definition raceTaskTypePriority :: "race_policy \<Rightarrow> int \<Rightarrow> int" where
  "raceTaskTypePriority p taskType =
     (case map_of (rp_TaskTypePriority p) taskType of
        Some n \<Rightarrow> n
      | None \<Rightarrow> get_or 0 defaultUnionRacePriority taskType)"

definition flowerCultivated :: "game_state \<Rightarrow> int \<Rightarrow> bool" where
  "flowerCultivated s flowerID \<longleftrightarrow>
     list_ex (\<lambda>(i, cv). i = flowerID \<and> cv_Status cv = 2 \<and> 0 < cv_Lvl cv) (gs_cultivations s)"

definition HasVase :: "game_state \<Rightarrow> int \<Rightarrow> bool" where
  "HasVase s vaseID \<longleftrightarrow> vaseID \<in> set (gs_vases s)"

section \<open>Why a row is not taken\<close>

text \<open>One constructor per text of the source; the empty string is \<open>None\<close>.\<close>

datatype take_skip =
    Claimed | ScoreAtMost int | Progressed int int | OnlyUpgraded | IdentityUnknown
  | UpgradedByOther | PriorityZero | NotCompletable | NotCultivated | StockAbove int
  | CustomerModuleOff | PearlModuleOff | VaseUnknown | VasesUnobserved | VaseLocked
  | OnlyScore int | CoolingUntil int

definition type_skip ::
  "game_state \<Rightarrow> fml_race_task \<Rightarrow> race_policy \<Rightarrow> race_module_gates \<Rightarrow> int \<Rightarrow> take_skip option" where
  "type_skip s t p gates taskType =
     (if taskType = raceTaskTypePlantHarvest then
        (if task_ParamID t \<le> 0 \<or> \<not> flowerCultivated s (task_ParamID t) then Some NotCultivated
         else if 0 < rp_PlantHarvestMaxInventory p \<and>
                 rp_PlantHarvestMaxInventory p < get_or 0 (Inventory s) (task_ParamID t)
              then Some (StockAbove (rp_PlantHarvestMaxInventory p))
         else None)
      else if taskType = raceTaskTypeCustomerOrder then
        (if \<not> gates_Customer gates then Some CustomerModuleOff else None)
      else if taskType = raceTaskTypePearlHire then
        (if \<not> gates_Pearl gates then Some PearlModuleOff else None)
      else if taskType = raceTaskTypeFlowerArtCraft then
        (if task_ParamID t \<le> 0 then Some VaseUnknown
         else if \<not> gs_vaseObserved s then Some VasesUnobserved
         else if \<not> HasVase s (task_ParamID t) then Some VaseLocked
         else None)
      else if taskType = raceTaskTypeFlowerCultivate then
        (if task_Score t \<noteq> raceFlowerCultivateRequiredScore
         then Some (OnlyScore raceFlowerCultivateRequiredScore) else None)
      else None)"

definition raceTakeNonCDSkipReason ::
  "game_state \<Rightarrow> fml_race_task \<Rightarrow> race_policy \<Rightarrow> int \<Rightarrow> race_module_gates \<Rightarrow> take_skip option" where
  "raceTakeNonCDSkipReason s t p uid gates =
     (if 0 < rp_MinTaskScore p \<and> task_Score t \<le> rp_MinTaskScore p
      then Some (ScoreAtMost (rp_MinTaskScore p))
      else if rp_AvoidProgressedTasks p \<and> 0 < task_FinishCnt t
      then Some (Progressed (task_FinishCnt t) (max 0 (task_TargetCnt t)))
      else if rp_OnlyUpgradeTask p \<and> task_IsUpgrade t = 0 then Some OnlyUpgraded
      else if rp_ExcludeOthersUpgradeTask p \<and> 0 < task_UpgradeUid t \<and> uid \<le> 0
      then Some IdentityUnknown
      else if rp_ExcludeOthersUpgradeTask p \<and> 0 < task_UpgradeUid t \<and> task_UpgradeUid t \<noteq> uid
      then Some UpgradedByOther
      else if raceTaskTypePriority p (row_type t) \<le> 0 then Some PriorityZero
      else if \<not> raceTaskTypeAutoCompletable (row_type t) then Some NotCompletable
      else type_skip s t p gates (row_type t))"

definition raceTakeLeadWindow :: duration where
  "raceTakeLeadWindow = 300 * millisecond"

definition RaceTakeSkipReason ::
  "game_state \<Rightarrow> fml_race_task \<Rightarrow> race_policy \<Rightarrow> int \<Rightarrow> time \<Rightarrow> race_module_gates \<Rightarrow> take_skip option" where
  "RaceTakeSkipReason s t p uid now gates =
     (if task_UID t \<noteq> 0 then Some Claimed
      else case raceTakeNonCDSkipReason s t p uid gates of
        Some reason \<Rightarrow> Some reason
      | None \<Rightarrow>
          (let leadUntil = to_unix_milli (now + raceTakeLeadWindow)
           in if 0 < task_AppearTime t \<and> leadUntil < task_AppearTime t
              then Some (CoolingUntil (task_AppearTime t)) else None))"

section \<open>Selection\<close>

definition race_task_before :: "race_policy \<Rightarrow> fml_race_task \<Rightarrow> fml_race_task \<Rightarrow> bool" where
  "race_task_before p a b =
     (let pa = raceTaskTypePriority p (task_TaskType a); pb = raceTaskTypePriority p (task_TaskType b)
      in if pa \<noteq> pb then pb < pa else task_Score b < task_Score a)"

definition upcoming :: "time \<Rightarrow> fml_race_task \<Rightarrow> bool" where
  "upcoming now t \<longleftrightarrow> 0 < task_AppearTime t \<and> to_unix_milli now < task_AppearTime t"

definition selectRaceTasks ::
  "game_state \<Rightarrow> fml_race_task list \<Rightarrow> race_policy \<Rightarrow> int \<Rightarrow> time \<Rightarrow> race_module_gates
    \<Rightarrow> fml_race_task list" where
  "selectRaceTasks s tasks p uid now gates =
     (let takeable = filter (\<lambda>t. RaceTakeSkipReason s t p uid now gates = None) tasks;
          ready = stable_sort (race_task_before p) (filter (\<lambda>t. \<not> upcoming now t) takeable);
          later = stable_sort (race_task_before p) (filter (upcoming now) takeable)
      in if 0 < length ready then ready else later)"

section \<open>The quota and the expired hold\<close>

definition raceTaskQuotaDone :: "race_catalog \<Rightarrow> game_state \<Rightarrow> fml_race_view \<Rightarrow> race_policy \<Rightarrow> bool" where
  "raceTaskQuotaDone cat s view p =
     (if \<not> rp_AutoStopOnQuotaDone p then False
      else if \<not> rv_TaskQuotaObserved view then False
      else let raceLvl = (if rv_RaceLvl view \<le> 0 then bv_RaceLvl (FmlBuild s) else rv_RaceLvl view);
               total = FmlRaceTotalTaskNum cat raceLvl (rv_BuyTaskNum view)
           in if total \<le> 0 then False else total \<le> rv_FinishedTaskNum view)"

definition raceExpiredHoldNeedsSync :: "game_state \<Rightarrow> time \<Rightarrow> bool" where
  "raceExpiredHoldNeedsSync s now \<longleftrightarrow>
     (let v = FmlRace s
      in ExpiredAt (rv_Taken v) now \<and>
         (\<not> rv_TasksObserved v \<or> rv_TaskPoolStale v \<or>
          max (rv_FullTasksSyncedAtMs v) (rv_TaskPoolSyncAttemptAtMs v) < taken_ExpireTime (rv_Taken v)))"

definition raceTaskByMsID :: "fml_race_task list \<Rightarrow> int \<Rightarrow> fml_race_task option" where
  "raceTaskByMsID tasks msID = List.find (\<lambda>t. task_MsId t = msID) tasks"

text \<open>The view with \<open>BatchActive\<close> re-evaluated.\<close>

definition active_view :: "game_state \<Rightarrow> time \<Rightarrow> fml_race_view" where
  "active_view s now = (let view = FmlRaceAt s now in view\<lparr>rv_BatchActive := ActiveAt view now\<rparr>)"

section \<open>The check before sending\<close>

datatype delete_skip =
    MembershipUnknown | NoGuild | PositionUnknown | PositionDenied | BadTaskId | RowClaimed | RowCooling

datatype race_error =
    StateUnavailable | InvalidTaskId | RaceDisabled | NoBatch | PoolUnsynced | HoldingTask
  | HoldExpired | QuotaUsed | TaskGone | NotTakeable take_skip | NotDeletable delete_skip
  | BatchOrPoolInvalid | AutoDeleteOff | ScoreOutOfRange int | HasProgress | IsUpgraded
  | NoGuard | TaskChanged int int int int | UpgradeOff | UpgradeUnconfirmed | HoldChanged
  | PriceChanged | UpgradeTooDear | DiamondsShort | UnsupportedKind string | HeldTaskChanged

definition raceTakeTaskForOperation ::
  "race_catalog \<Rightarrow> game_state option \<Rightarrow> policy option \<Rightarrow> int \<Rightarrow> time \<Rightarrow> race_error + fml_race_task" where
  "raceTakeTaskForOperation cat st pol taskMsID now =
     (case (st, pol) of
        (Some s, Some p) \<Rightarrow>
          (if taskMsID \<le> 0 then Inl InvalidTaskId
           else case pol_Race p of
             None \<Rightarrow> Inl RaceDisabled
           | Some race \<Rightarrow>
               (let view = active_view s now
                in if \<not> rp_Enabled race then Inl RaceDisabled
                   else if \<not> rv_Observed view \<or> \<not> rv_BatchActive view then Inl NoBatch
                   else if \<not> rv_TasksObserved view \<or> rv_TaskPoolStale view then Inl PoolUnsynced
                   else if taken_HasTask (rv_Taken view) then Inl HoldingTask
                   else if raceExpiredHoldNeedsSync s now then Inl HoldExpired
                   else if rv_TakeQuotaExhausted view \<or> raceTaskQuotaDone cat s view race
                   then Inl QuotaUsed
                   else case raceTaskByMsID (rv_Tasks view) taskMsID of
                     None \<Rightarrow> Inl TaskGone
                   | Some task \<Rightarrow>
                       (case RaceTakeSkipReason s task race (gs_roleID s) now
                               (raceModuleGatesFromPolicy p) of
                          Some reason \<Rightarrow> Inl (NotTakeable reason)
                        | None \<Rightarrow> Inr task)))
      | _ \<Rightarrow> Inl StateUnavailable)"

section \<open>When to take\<close>

definition take_planned :: "race_catalog \<Rightarrow> game_state \<Rightarrow> race_policy \<Rightarrow> time \<Rightarrow> bool" where
  "take_planned cat s race now \<longleftrightarrow>
     (let view = active_view s now
      in \<not> (\<not> rv_BatchActive view \<or> \<not> rv_TasksObserved view \<or> rv_TaskPoolStale view \<or>
             taken_HasTask (rv_Taken view) \<or> rv_TakeQuotaExhausted view \<or>
             raceTaskQuotaDone cat s view race))"

definition race_driving :: "policy \<Rightarrow> race_policy option" where
  "race_driving p =
     (if \<not> pol_AutomationEnabled p then None
      else case pol_Race p of
        None \<Rightarrow> None
      | Some race \<Rightarrow> if \<not> rp_Enabled race \<or> \<not> rp_AutoEnableModules race then None else Some race)"

text \<open>One row of the loop of \<open>RaceTakeWakeAt\<close>: (some row takeable now, earliest appearance).\<close>

definition wake_row ::
  "game_state \<Rightarrow> race_policy \<Rightarrow> race_module_gates \<Rightarrow> int \<Rightarrow> fml_race_task \<Rightarrow> bool \<times> int \<Rightarrow> bool \<times> int" where
  "wake_row s race gates nowMs t acc =
     (let leadMs = raceTakeLeadWindow div millisecond
      in if task_UID t \<noteq> 0 then acc
         else if raceTakeNonCDSkipReason s t race (gs_roleID s) gates \<noteq> None then acc
         else if task_AppearTime t \<le> 0 \<or> task_AppearTime t \<le> nowMs \<or>
                 task_AppearTime t - nowMs \<le> leadMs then (True, snd acc)
         else if snd acc = 0 \<or> task_AppearTime t < snd acc then (fst acc, task_AppearTime t)
         else acc)"

definition RaceTakeWakeAt ::
  "race_catalog \<Rightarrow> game_state option \<Rightarrow> policy option \<Rightarrow> time \<Rightarrow> time" where
  "RaceTakeWakeAt cat st pol now =
     (case (st, pol) of
        (Some s, Some p) \<Rightarrow>
          (case race_driving p of
             None \<Rightarrow> zero_time
           | Some race \<Rightarrow>
               (if \<not> take_planned cat s race now then zero_time
                else let (anyTakeableNow, bestAppear) =
                           fold (wake_row s race (raceModuleGatesFromPolicy p) (to_unix_milli now))
                             (rv_Tasks (active_view s now)) (False, 0)
                     in if anyTakeableNow \<or> bestAppear = 0 then zero_time
                        else unix_milli (bestAppear - raceTakeLeadWindow div millisecond)))
      | _ \<Rightarrow> zero_time)"

definition RaceTakeDue ::
  "race_catalog \<Rightarrow> game_state option \<Rightarrow> policy option \<Rightarrow> time \<Rightarrow> bool" where
  "RaceTakeDue cat st pol now =
     (case (st, pol) of
        (Some s, Some p) \<Rightarrow>
          (case race_driving p of
             None \<Rightarrow> False
           | Some race \<Rightarrow>
               (if \<not> take_planned cat s race now then False
                else 0 < length (selectRaceTasks s (rv_Tasks (active_view s now)) race (gs_roleID s)
                                   now (raceModuleGatesFromPolicy p))))
      | _ \<Rightarrow> False)"

section \<open>The ranking is a ranking\<close>

interpretation race_rank: weak_order UNIV "race_task_before p" for p
  by unfold_locales (auto simp: race_task_before_def Let_def split: if_splits)

lemma stable_sort_empty [simp]: "stable_sort before xs = [] \<longleftrightarrow> xs = []"
  using length_stable_sort [of before xs] by (metis length_0_conv)

lemma set_selectRaceTasks:
  "set (selectRaceTasks s tasks p uid now gates) \<subseteq>
     {t \<in> set tasks. RaceTakeSkipReason s t p uid now gates = None}"
  by (auto simp: selectRaceTasks_def Let_def set_stable_sort split: if_splits)

lemma selectRaceTasks_nonempty:
  "selectRaceTasks s tasks p uid now gates \<noteq> [] \<longleftrightarrow>
     (\<exists>t\<in>set tasks. RaceTakeSkipReason s t p uid now gates = None)"
  by (auto simp: selectRaceTasks_def Let_def filter_empty_conv)

section \<open>What the settings allow\<close>

text \<open>
  Specifications of the properties below, written over the account's state and settings and not over
  the code's own checks: the priority of a task type, the rows that may be taken, when taking is
  open, and when an expired hold has been settled.
\<close>

definition configured_priority :: "race_policy \<Rightarrow> int \<Rightarrow> int" where
  "configured_priority p taskType =
     (case map_of (rp_TaskTypePriority p) taskType of
        Some n \<Rightarrow> n | None \<Rightarrow> if taskType = 3036 then 5 else 0)"

definition type_allowed :: "game_state \<Rightarrow> race_policy \<Rightarrow> race_module_gates \<Rightarrow> fml_race_task \<Rightarrow> bool" where
  "type_allowed s p gates t \<longleftrightarrow>
     row_type t = 3036 \<and> 0 < task_ParamID t \<and>
       (\<exists>(flower, cv) \<in> set (gs_cultivations s). flower = task_ParamID t \<and> cv_Status cv = 2 \<and> 0 < cv_Lvl cv) \<and>
       (0 < rp_PlantHarvestMaxInventory p \<longrightarrow>
          get_or 0 (Inventory s) (task_ParamID t) \<le> rp_PlantHarvestMaxInventory p) \<or>
     row_type t = 3016 \<and> gates_Customer gates \<or>
     row_type t = 3023 \<and> gates_Pearl gates \<or>
     row_type t = 3030 \<or>
     row_type t = 3034 \<and> 0 < task_ParamID t \<and> gs_vaseObserved s \<and> task_ParamID t \<in> set (gs_vases s) \<or>
     row_type t = 3044 \<and> task_Score t = 36"

definition allowed_row ::
  "game_state \<Rightarrow> race_policy \<Rightarrow> int \<Rightarrow> race_module_gates \<Rightarrow> time \<Rightarrow> fml_race_task \<Rightarrow> bool" where
  "allowed_row s p uid gates now t \<longleftrightarrow>
     task_UID t = 0 \<and>
     (0 < rp_MinTaskScore p \<longrightarrow> rp_MinTaskScore p < task_Score t) \<and>
     (rp_AvoidProgressedTasks p \<longrightarrow> task_FinishCnt t \<le> 0) \<and>
     (rp_OnlyUpgradeTask p \<longrightarrow> task_IsUpgrade t \<noteq> 0) \<and>
     (rp_ExcludeOthersUpgradeTask p \<and> 0 < task_UpgradeUid t \<longrightarrow> task_UpgradeUid t = uid) \<and>
     0 < configured_priority p (row_type t) \<and> type_allowed s p gates t \<and>
     (0 < task_AppearTime t \<longrightarrow> task_AppearTime t \<le> to_unix_milli now + 300)"

definition takes_open :: "race_catalog \<Rightarrow> game_state \<Rightarrow> race_policy \<Rightarrow> time \<Rightarrow> bool" where
  "takes_open cat s p now \<longleftrightarrow>
     ActiveAt (FmlRace s) now \<and> rv_TasksObserved (FmlRace s) \<and> \<not> rv_TaskPoolStale (FmlRace s) \<and>
     (taken_HasTask (rv_Taken (FmlRace s)) \<longrightarrow>
        0 < taken_ExpireTime (rv_Taken (FmlRace s)) \<and>
        taken_ExpireTime (rv_Taken (FmlRace s)) \<le> to_unix_milli now) \<and>
     \<not> rv_TakeQuotaExhausted (FmlRace s) \<and>
     (rp_AutoStopOnQuotaDone p \<and> rv_TaskQuotaObserved (FmlRace s) \<longrightarrow>
        (let total = FmlRaceTotalTaskNum cat
               (if rv_RaceLvl (FmlRace s) \<le> 0 then bv_RaceLvl (FmlBuild s) else rv_RaceLvl (FmlRace s))
               (rv_BuyTaskNum (FmlRace s))
         in 0 < total \<longrightarrow> rv_FinishedTaskNum (FmlRace s) < total))"

definition hold_settled :: "game_state \<Rightarrow> bool" where
  "hold_settled s \<longleftrightarrow>
     (taken_HasTask (rv_Taken (FmlRace s)) \<longrightarrow>
        taken_ExpireTime (rv_Taken (FmlRace s)) \<le>
          max (rv_FullTasksSyncedAtMs (FmlRace s)) (rv_TaskPoolSyncAttemptAtMs (FmlRace s)))"

lemma raceTaskTypePriority_configured: "raceTaskTypePriority p ty = configured_priority p ty"
  by (simp add: raceTaskTypePriority_def configured_priority_def defaultUnionRacePriority_def get_or_def
      split: option.split)

lemma type_skip_None:
  "raceTaskTypeAutoCompletable (row_type t) \<and> type_skip s t p gates (row_type t) = None \<longleftrightarrow>
     type_allowed s p gates t"
  by (auto simp: raceTaskTypeAutoCompletable_def type_skip_def type_allowed_def flowerCultivated_def
      HasVase_def list_ex_iff not_le not_less)

lemma lead_ms: "to_unix_milli (now + raceTakeLeadWindow) = to_unix_milli now + 300"
  by (simp add: to_unix_milli_def raceTakeLeadWindow_def millisecond_def)

lemma RaceTakeSkipReason_allowed:
  "RaceTakeSkipReason s t p uid now gates = None \<longleftrightarrow> allowed_row s p uid gates now t"
proof -
  have guard: "(if b then Some e else x) = None \<longleftrightarrow> \<not> b \<and> x = None" for b e and x :: "take_skip option"
    by simp
  have bind: "(case x of Some r \<Rightarrow> Some r | None \<Rightarrow> y) = None \<longleftrightarrow> x = None \<and> y = None"
    for x y :: "take_skip option" by (cases x) simp_all
  show ?thesis
    unfolding RaceTakeSkipReason_def raceTakeNonCDSkipReason_def Let_def guard bind lead_ms allowed_row_def
      type_skip_None [symmetric] raceTaskTypePriority_configured
    by auto
qed

lemma quota_done_simps [simp]:
  "raceTaskQuotaDone cat s (v\<lparr>rv_BatchActive := b\<rparr>) race = raceTaskQuotaDone cat s v race"
  "raceTaskQuotaDone cat s (EffectiveAt v now) race = raceTaskQuotaDone cat s v race"
  by (simp_all add: raceTaskQuotaDone_def)

lemma take_planned_iff:
  "take_planned cat s race now \<longleftrightarrow>
     ActiveAt (FmlRace s) now \<and> rv_TasksObserved (FmlRace s) \<and> \<not> rv_TaskPoolStale (FmlRace s) \<and>
     \<not> taken_HasTask (rv_Taken (EffectiveAt (FmlRace s) now)) \<and>
     \<not> rv_TakeQuotaExhausted (FmlRace s) \<and> \<not> raceTaskQuotaDone cat s (FmlRace s) race"
  by (simp add: take_planned_def active_view_def FmlRaceAt_def Let_def conj_left_commute
           del: EffectiveAt_simps(22))

lemma effective_hold:
  "taken_HasTask (rv_Taken (EffectiveAt v now)) \<longleftrightarrow>
     taken_HasTask (rv_Taken v) \<and> \<not> (0 < taken_ExpireTime (rv_Taken v) \<and>
       taken_ExpireTime (rv_Taken v) \<le> to_unix_milli now)"
  by (auto simp: EffectiveAt_def ExpiredAt_def zero_taken_def clearFmlRaceLocalFinish_def)

lemma take_planned_open: "take_planned cat s p now \<longleftrightarrow> takes_open cat s p now"
  unfolding take_planned_iff takes_open_def effective_hold raceTaskQuotaDone_def Let_def
  by auto

lemma expired_hold_settled:
  "takes_open cat s p now \<Longrightarrow> raceExpiredHoldNeedsSync s now \<longleftrightarrow> \<not> hold_settled s"
  by (auto simp: takes_open_def raceExpiredHoldNeedsSync_def hold_settled_def ExpiredAt_def Let_def)

section \<open>The best row is selected\<close>

lemma selectRaceTasks_first:
  assumes "selectRaceTasks s tasks p uid now gates = best # others"
  shows "best \<in> set tasks \<and> RaceTakeSkipReason s best p uid now gates = None \<and>
         (\<forall>t\<in>set tasks. RaceTakeSkipReason s t p uid now gates = None \<longrightarrow>
            (upcoming now best \<longrightarrow> upcoming now t) \<and>
            (upcoming now best = upcoming now t \<longrightarrow> \<not> race_task_before p t best))"
proof -
  define takeable where "takeable = filter (\<lambda>t. RaceTakeSkipReason s t p uid now gates = None) tasks"
  define ready where "ready = filter (\<lambda>t. \<not> upcoming now t) takeable"
  define later where "later = filter (upcoming now) takeable"
  have sel: "best # others = stable_sort (race_task_before p) (if ready \<noteq> [] then ready else later)"
    using assms by (auto simp: selectRaceTasks_def Let_def takeable_def ready_def later_def)
  have best: "best \<in> set (if ready \<noteq> [] then ready else later)"
    by (metis sel list.set_intros(1) set_stable_sort)
  have least: "\<not> race_task_before p t best"
    if "t \<in> set (if ready \<noteq> [] then ready else later)" for t
  proof -
    from that have "(if ready \<noteq> [] then ready else later) \<noteq> []" by auto
    from race_rank.stable_sort_hd_least [OF subset_UNIV this that, of p] show ?thesis
      unfolding sel [symmetric] by simp
  qed
  have tasks: "t \<in> set takeable \<longleftrightarrow> t \<in> set tasks \<and> RaceTakeSkipReason s t p uid now gates = None" for t
    by (simp add: takeable_def)
  have split: "t \<in> set ready \<longleftrightarrow> t \<in> set takeable \<and> \<not> upcoming now t"
    "t \<in> set later \<longleftrightarrow> t \<in> set takeable \<and> upcoming now t" for t
    by (simp_all add: ready_def later_def)
  show ?thesis
  proof (cases "ready = []")
    case True
    then have none: "\<And>t. t \<in> set takeable \<Longrightarrow> upcoming now t" using split(1) by (metis empty_iff empty_set)
    with True best least tasks split(2) show ?thesis by (metis (full_types))
  next
    case False
    then have "best \<in> set ready" using best by simp
    then have "best \<in> set takeable" "\<not> upcoming now best" using split(1) by simp_all
    moreover from False least have "\<not> race_task_before p t best" if "t \<in> set ready" for t
      using that by simp
    ultimately show ?thesis using tasks split(1) by metis
  qed
qed

text \<open>
  C18.  The row of the pool that automation takes is the best of those it may take.  Nothing is
  selected exactly when no row is allowed: unclaimed, with the score, progress and upgrade the
  settings ask for, of a type with a positive configured priority that can be completed now, and
  visible within three hundred milliseconds.  Otherwise the first of the selection is an allowed row
  of the pool; it is already visible whenever some allowed row is; and no allowed row that is as soon
  visible has a higher priority of its task type, nor the same priority and a higher score.  (A row
  whose own type field is empty ranks here by the priority configured for type zero.)
\<close>

theorem best_task_selected:
  "case selectRaceTasks s tasks p uid now gates of
     [] \<Rightarrow> \<forall>t\<in>set tasks. \<not> allowed_row s p uid gates now t
   | best # _ \<Rightarrow> best \<in> set tasks \<and> allowed_row s p uid gates now best \<and>
       (\<forall>t\<in>set tasks. allowed_row s p uid gates now t \<longrightarrow>
          (to_unix_milli now < task_AppearTime best \<and> 0 < task_AppearTime best \<longrightarrow>
             to_unix_milli now < task_AppearTime t \<and> 0 < task_AppearTime t) \<and>
          ((to_unix_milli now < task_AppearTime best \<and> 0 < task_AppearTime best \<longleftrightarrow>
            to_unix_milli now < task_AppearTime t \<and> 0 < task_AppearTime t) \<longrightarrow>
             configured_priority p (task_TaskType t) < configured_priority p (task_TaskType best) \<or>
             configured_priority p (task_TaskType t) = configured_priority p (task_TaskType best) \<and>
               task_Score t \<le> task_Score best))"
proof (cases "selectRaceTasks s tasks p uid now gates")
  case Nil
  then have "\<not> (\<exists>t\<in>set tasks. allowed_row s p uid gates now t)"
    using selectRaceTasks_nonempty [of s tasks p uid now gates] by (simp add: RaceTakeSkipReason_allowed)
  with Nil show ?thesis by simp
next
  case (Cons best others)
  note first = selectRaceTasks_first [OF Cons, unfolded RaceTakeSkipReason_allowed]
  have up: "upcoming now t \<longleftrightarrow> to_unix_milli now < task_AppearTime t \<and> 0 < task_AppearTime t" for t
    by (auto simp: upcoming_def)
  have rank: "\<not> race_task_before p t best \<Longrightarrow>
      configured_priority p (task_TaskType t) < configured_priority p (task_TaskType best) \<or>
      configured_priority p (task_TaskType t) = configured_priority p (task_TaskType best) \<and>
        task_Score t \<le> task_Score best" for t
    by (auto simp: race_task_before_def Let_def raceTaskTypePriority_configured split: if_splits)
  show ?thesis
    unfolding Cons list.case using first rank unfolding up by blast
qed

definition sample_task :: fml_race_task where
  "sample_task = \<lparr>task_MsId = 11, task_TaskId = 77, task_TaskType = raceTaskTypeCustomerOrder,
     task_Score = 40, task_IsUpgrade = 0, task_UpgradeUid = 0, task_UID = 0, task_ParamID = 0,
     task_TargetLabel = [], task_AppearTime = 0, task_TargetCnt = 8, task_FinishCnt = 0,
     task_TakeLimitMin = 0, task_TakeExpireTime = 0\<rparr>"

definition sample_race_policy :: race_policy where
  "sample_race_policy = \<lparr>rp_Enabled = True, rp_AutoEnableModules = True, rp_MinTaskScore = 0,
     rp_OnlyUpgradeTask = False, rp_ExcludeOthersUpgradeTask = False,
     rp_TaskTypePriority = [(raceTaskTypeCustomerOrder, 5)], rp_UpgradeTask = True,
     rp_DeleteLowScoreTask = True, rp_DeleteTaskMaxScore = 50, rp_MaxSpendDiamond = 200,
     rp_AutoStopOnQuotaDone = True, rp_AvoidProgressedTasks = False, rp_AutoGiveUpTask = True,
     rp_PlantHarvestMaxInventory = 0\<rparr>"

definition sample_policy :: policy where
  "sample_policy = \<lparr>pol_AutomationEnabled = True, pol_Race = Some sample_race_policy,
     pol_CustomerEnabled = True, pol_PearlAutoHireEnabled = False, pol_CultivateEnabled = False\<rparr>"

text \<open>A running batch whose pool was read at second one.\<close>

definition racing :: "fml_race_task list \<Rightarrow> fml_race_taken \<Rightarrow> game_state" where
  "racing tasks taken = sample_state\<lparr>gs_diamondsFree := 100, gs_fmlRace := sample_race
     \<lparr>rv_BatchID := 3, rv_BatchStatus := 1, rv_TasksSyncedAtMs := 1000, rv_RaceLvl := 1,
      rv_TaskQuotaObserved := True, rv_RaceQuotaSyncAtMs := 1000,
      rv_Tasks := tasks, rv_Taken := taken\<rparr>\<rparr>"

text \<open>Of two customer orders, one still cooling down, the one that may be taken now is first.\<close>

theorem best_task_selected_witness:
  "let tasks = [sample_task\<lparr>task_MsId := 12, task_Score := 90, task_AppearTime := 2100\<rparr>, sample_task];
       s = racing tasks zero_taken; gates = raceModuleGatesFromPolicy sample_policy
   in selectRaceTasks s tasks sample_race_policy 9 (2 * second) gates = [sample_task] \<and>
      allowed_row s sample_race_policy 9 gates (2 * second) sample_task \<and>
      selectRaceTasks s tasks (sample_race_policy\<lparr>rp_MinTaskScore := 95\<rparr>) 9 (2 * second) gates = [] \<and>
      \<not> allowed_row s (sample_race_policy\<lparr>rp_MinTaskScore := 95\<rparr>) 9 gates (2 * second) sample_task"
proof -
  define tasks where
    "tasks = [sample_task\<lparr>task_MsId := 12, task_Score := 90, task_AppearTime := 2100\<rparr>, sample_task]"
  have 1: "selectRaceTasks (racing tasks zero_taken) tasks sample_race_policy 9 (2 * second)
      (raceModuleGatesFromPolicy sample_policy) = [sample_task]"
    unfolding tasks_def by code_simp
  have 2: "selectRaceTasks (racing tasks zero_taken) tasks (sample_race_policy\<lparr>rp_MinTaskScore := 95\<rparr>) 9
      (2 * second) (raceModuleGatesFromPolicy sample_policy) = []"
    unfolding tasks_def by code_simp
  have "sample_task \<in> set tasks" by (simp add: tasks_def)
  then show ?thesis
    using best_task_selected [where s = "racing tasks zero_taken" and tasks = tasks and p = sample_race_policy
        and uid = 9 and now = "2 * second" and gates = "raceModuleGatesFromPolicy sample_policy"]
      best_task_selected [where s = "racing tasks zero_taken" and tasks = tasks
        and p = "sample_race_policy\<lparr>rp_MinTaskScore := 95\<rparr>"
        and uid = 9 and now = "2 * second" and gates = "raceModuleGatesFromPolicy sample_policy"] 1 2
    unfolding tasks_def [symmetric] Let_def by simp
qed

section \<open>The runner's check accepts what the planner selects\<close>

lemma raceTaskByMsID_SomeD:
  "raceTaskByMsID tasks m = Some t \<Longrightarrow> t \<in> set tasks \<and> task_MsId t = m"
  by (auto simp: raceTaskByMsID_def dest!: find_SomeD)

lemma raceTaskByMsID_distinct:
  "distinct (map task_MsId tasks) \<Longrightarrow> t \<in> set tasks \<Longrightarrow> raceTaskByMsID tasks (task_MsId t) = Some t"
  unfolding raceTaskByMsID_def by (induction tasks) auto

lemma raceTakeTaskForOperation_iff:
  "raceTakeTaskForOperation cat st pol taskMsID now = Inr t \<longleftrightarrow>
     (\<exists>s p race. st = Some s \<and> pol = Some p \<and> pol_Race p = Some race \<and> rp_Enabled race \<and>
        0 < taskMsID \<and> rv_Observed (active_view s now) \<and> take_planned cat s race now \<and>
        \<not> raceExpiredHoldNeedsSync s now \<and>
        raceTaskByMsID (rv_Tasks (active_view s now)) taskMsID = Some t \<and>
        RaceTakeSkipReason s t race (gs_roleID s) now (raceModuleGatesFromPolicy p) = None)"
  by (cases st; cases pol)
    (auto simp: raceTakeTaskForOperation_def take_planned_def Let_def not_le
          split: option.splits if_splits)



section \<open>Waking up\<close>

lemma lead_ms' [simp]: "raceTakeLeadWindow div millisecond = 300"
  by (simp add: raceTakeLeadWindow_def millisecond_def)

text \<open>A row that only its appearance holds back.\<close>

definition awaited :: "game_state \<Rightarrow> race_policy \<Rightarrow> race_module_gates \<Rightarrow> fml_race_task \<Rightarrow> bool" where
  "awaited s race gates t \<longleftrightarrow>
     task_UID t = 0 \<and> raceTakeNonCDSkipReason s t race (gs_roleID s) gates = None"

lemma takeable_iff:
  "RaceTakeSkipReason s t race (gs_roleID s) now gates = None \<longleftrightarrow>
     awaited s race gates t \<and> (task_AppearTime t \<le> 0 \<or> task_AppearTime t \<le> to_unix_milli now + 300)"
  by (auto simp: RaceTakeSkipReason_def awaited_def Let_def lead_ms not_less split: option.split)

definition soon :: "int \<Rightarrow> fml_race_task \<Rightarrow> bool" where
  "soon nowMs t \<longleftrightarrow> task_AppearTime t \<le> 0 \<or> task_AppearTime t \<le> nowMs + 300"

lemma wake_row_cases:
  "0 \<le> nowMs \<Longrightarrow> wake_row s race gates nowMs t (a, b) =
     (if \<not> awaited s race gates t then (a, b)
      else if soon nowMs t then (True, b)
      else (a, if b = 0 then task_AppearTime t else min b (task_AppearTime t)))"
  by (auto simp: wake_row_def awaited_def soon_def Let_def)

text \<open>What the loop knows of the rows seen: whether one is due, and the earliest of the others.\<close>

definition far_rows ::
  "game_state \<Rightarrow> race_policy \<Rightarrow> race_module_gates \<Rightarrow> int \<Rightarrow> fml_race_task set \<Rightarrow> fml_race_task set" where
  "far_rows s race gates nowMs T = {t \<in> T. awaited s race gates t \<and> \<not> soon nowMs t}"

lemma far_rows_insert:
  "far_rows s race gates nowMs (insert t T) =
     (if awaited s race gates t \<and> \<not> soon nowMs t then insert t (far_rows s race gates nowMs T)
      else far_rows s race gates nowMs T)"
  by (auto simp: far_rows_def)

definition wake_inv ::
  "game_state \<Rightarrow> race_policy \<Rightarrow> race_module_gates \<Rightarrow> int \<Rightarrow> fml_race_task set \<Rightarrow> bool \<Rightarrow> int \<Rightarrow> bool" where
  "wake_inv s race gates nowMs T a b \<longleftrightarrow>
     (a \<longleftrightarrow> (\<exists>t\<in>T. awaited s race gates t \<and> soon nowMs t)) \<and>
     (b = 0 \<longrightarrow> far_rows s race gates nowMs T = {}) \<and>
     (b \<noteq> 0 \<longrightarrow> b \<in> task_AppearTime ` far_rows s race gates nowMs T \<and>
        (\<forall>t\<in>far_rows s race gates nowMs T. b \<le> task_AppearTime t))"

lemma wake_inv_step:
  assumes "wake_inv s race gates nowMs T a b" "0 \<le> nowMs"
    and "wake_row s race gates nowMs t (a, b) = (a', b')"
  shows "wake_inv s race gates nowMs (insert t T) a' b'"
proof -
  consider "\<not> awaited s race gates t" | "awaited s race gates t" "soon nowMs t"
    | "awaited s race gates t" "\<not> soon nowMs t" by blast
  then show ?thesis
  proof cases
    case 1
    with assms show ?thesis by (simp add: wake_inv_def wake_row_cases far_rows_insert)
  next
    case 2
    with assms show ?thesis by (simp add: wake_inv_def wake_row_cases far_rows_insert)
  next
    case 3
    then have "0 < task_AppearTime t" by (simp add: soon_def)
    moreover from 3 assms(2,3) have "a' = a" "b' = (if b = 0 then task_AppearTime t else min b (task_AppearTime t))"
      by (simp_all add: wake_row_cases)
    ultimately show ?thesis
      using 3 assms(1) by (auto simp: wake_inv_def far_rows_insert min_def)
  qed
qed

lemma wake_inv_fold:
  assumes "0 \<le> nowMs" "fold (wake_row s race gates nowMs) tasks (False, 0) = (a, b)"
  shows "wake_inv s race gates nowMs (set tasks) a b"
  using assms(2)
proof (induction tasks arbitrary: a b rule: rev_induct)
  case Nil
  then show ?case by (simp add: wake_inv_def far_rows_def)
next
  case (snoc t ts)
  obtain a1 b1 where 1: "fold (wake_row s race gates nowMs) ts (False, 0) = (a1, b1)"
    by (cases "fold (wake_row s race gates nowMs) ts (False, 0)")
  with snoc have "wake_inv s race gates nowMs (set ts) a1 b1" by simp
  moreover from snoc.prems 1 have "wake_row s race gates nowMs t (a1, b1) = (a, b)" by simp
  ultimately show ?case using wake_inv_step assms(1) by simp
qed

lemma to_unix_milli_less_iff: "to_unix_milli t < ms \<longleftrightarrow> t < unix_milli ms"
proof -
  have "t = t div 1000000 * 1000000 + t mod 1000000" "0 \<le> t mod 1000000" "t mod 1000000 < 1000000"
    by simp_all
  then show ?thesis unfolding to_unix_milli_def unix_milli_def millisecond_def by linarith
qed

lemma take_planned_later:
  assumes "take_planned cat s race now" "now \<le> later"
  shows "take_planned cat s race later \<longleftrightarrow> ActiveAt (FmlRace s) later"
proof -
  have "EffectiveAt (FmlRace s) later = EffectiveAt (FmlRace s) now"
    using assms unfolding take_planned_iff by (intro no_hold_later) blast+
  with assms(1) show ?thesis unfolding take_planned_iff by simp
qed

text \<open>
  The wake-up time for a cooling row is exact: it lies in the future,
  while the batch is running a take is due at that moment in the same state, and at no moment
  before it.
\<close>

lemma wakes_exactly_when_due:
  assumes "RaceTakeWakeAt cat (Some s) (Some p) now = wake" "wake \<noteq> zero_time" "0 \<le> now"
  shows "now < wake \<and>
         (ActiveAt (FmlRace s) wake \<longrightarrow> RaceTakeDue cat (Some s) (Some p) wake) \<and>
         (\<forall>t. now \<le> t \<and> t < wake \<longrightarrow> \<not> RaceTakeDue cat (Some s) (Some p) t)"
proof -
  from assms(1,2) obtain race where race: "race_driving p = Some race"
      and planned: "take_planned cat s race now"
    by (auto simp: RaceTakeWakeAt_def split: option.splits if_splits)
  define gates where "gates = raceModuleGatesFromPolicy p"
  define nowMs where "nowMs = to_unix_milli now"
  define T where "T = rv_Tasks (FmlRace s)"
  have T: "rv_Tasks (active_view s t) = T" for t
    by (simp add: T_def active_view_def Let_def FmlRaceAt_def)
  obtain a b where ab: "fold (wake_row s race gates nowMs) T (False, 0) = (a, b)"
    by (cases "fold (wake_row s race gates nowMs) T (False, 0)")
  have ms: "0 \<le> nowMs" using assms(3) by (simp add: nowMs_def to_unix_milli_def pos_imp_zdiv_nonneg_iff)
  have wake: "\<not> a" "b \<noteq> 0" "wake = unix_milli (b - 300)"
    using assms(1,2) race planned ab T
    by (auto simp: RaceTakeWakeAt_def gates_def nowMs_def split: if_splits)
  have inv: "wake_inv s race gates nowMs (set T) a b" by (rule wake_inv_fold [OF ms ab])
  from inv wake(1) have none: "\<And>t. t \<in> set T \<Longrightarrow> awaited s race gates t \<Longrightarrow> \<not> soon nowMs t"
    by (auto simp: wake_inv_def far_rows_def)
  from inv wake(2) obtain row where row: "row \<in> set T" "awaited s race gates row"
      "\<not> soon nowMs row" "task_AppearTime row = b"
    by (auto simp: wake_inv_def far_rows_def)
  have least: "\<And>t. t \<in> set T \<Longrightarrow> awaited s race gates t \<Longrightarrow> b \<le> task_AppearTime t"
    using inv wake(2) none by (auto simp: wake_inv_def far_rows_def)
  have fut: "nowMs + 300 < b" "0 < b" using row(3,4) ms by (simp_all add: soon_def)
  have lt: "now < wake"
    using fut(1) unfolding wake(3) nowMs_def to_unix_milli_less_iff [symmetric] by simp
  have due: "RaceTakeDue cat (Some s) (Some p) t \<longleftrightarrow>
      take_planned cat s race t \<and> (\<exists>r\<in>set T. awaited s race gates r \<and> soon (to_unix_milli t) r)" for t
    by (simp add: RaceTakeDue_def race T selectRaceTasks_nonempty takeable_iff soon_def gates_def)
  have "RaceTakeDue cat (Some s) (Some p) wake" if "ActiveAt (FmlRace s) wake"
    using that row take_planned_later [OF planned, of wake] lt
    unfolding due by (auto simp: wake(3) soon_def)
  moreover have "\<not> RaceTakeDue cat (Some s) (Some p) t" if "now \<le> t \<and> t < wake" for t
  proof -
    have "to_unix_milli t < b - 300"
      using that unfolding wake(3) to_unix_milli_less_iff by simp
    then show ?thesis using least fut unfolding due soon_def by fastforce
  qed
  ultimately show ?thesis using lt by blast
qed

text \<open>A row that appears at second sixty: the loop wakes three hundred milliseconds earlier.\<close>

end
