(* ===== verification/Features.thy ===== *)
theory Features
  imports Planned
begin

text \<open>
  \<open>internal/automation/features.go\<close>: the feature catalogue, its index by domain and action, and
  \<open>enrichPlannedOp\<close>, which every constructed operation passes through.  The catalogue is the
  source's table, entry for entry.  The index is a Go map filled in table order, so a later entry
  with the same domain and action replaces an earlier one.
\<close>

record feature_spec =
  fs_ID :: string
  fs_Label :: string
  fs_Category :: string
  fs_Domain :: string
  fs_Action :: string
  fs_Status :: string
  fs_Executable :: bool
  fs_SyncOnly :: bool
  fs_BlockedReasons :: "string list"

definition feature ::
  "string \<Rightarrow> string \<Rightarrow> string \<Rightarrow> string \<Rightarrow> string \<Rightarrow> string \<Rightarrow> bool \<Rightarrow> bool \<Rightarrow> string list \<Rightarrow> feature_spec" where
  "feature i l c d a s e y b = \<lparr>fs_ID = i, fs_Label = l, fs_Category = c, fs_Domain = d,
     fs_Action = a, fs_Status = s, fs_Executable = e, fs_SyncOnly = y, fs_BlockedReasons = b\<rparr>"

definition activityFeature :: "string \<Rightarrow> string \<Rightarrow> string \<Rightarrow> feature_spec" where
  "activityFeature name label status =
     \<lparr>fs_ID = ''activity.'' @ name, fs_Label = label, fs_Category = CategoryActivity,
      fs_Domain = ''activity.'' @ name, fs_Action = ''run'', fs_Status = status,
      fs_Executable = (status = PlanStatusManaged),
      fs_SyncOnly = (status = PlanStatusSyncOnly),
      fs_BlockedReasons = (if status = PlanStatusAdapterMissing then [lit_no_activity_adapter] else [])\<rparr>"

definition featureSpecs :: "feature_spec list" where
  "featureSpecs =
    [feature ''plant.harvest'' [CHR 0xE6, CHR 0x94, CHR 0xB6, CHR 0xE8, CHR 0x8E, CHR 0xB7] CategoryPlant ''farm.harvest'' ''harvest''
        PlanStatusReady True False [],
     feature ''plant.plant'' [CHR 0xE7, CHR 0xA7, CHR 0x8D, CHR 0xE6, CHR 0xA4, CHR 0x8D] CategoryPlant ''farm.plant'' ''plant''
        PlanStatusReady True False [],
     feature ''plant.water'' [CHR 0xE6, CHR 0xB5, CHR 0x87, CHR 0xE6, CHR 0xB0, CHR 0xB4] CategoryPlant ''farm.water'' ''water''
        PlanStatusReady True False [],
     feature ''plant.land_unlock'' [CHR 0xE5, CHR 0x9C, CHR 0x9F, CHR 0xE5, CHR 0x9C, CHR 0xB0, CHR 0xE5, CHR 0xBC, CHR 0x80, CHR 0xE5, CHR 0x9E, CHR 0xA6] CategoryPlant ''farm.land'' ''unlock''
        PlanStatusManaged True False [],
     feature ''plant.speed_up'' [CHR 0xE5, CHR 0x8A, CHR 0xA0, CHR 0xE9, CHR 0x80, CHR 0x9F] CategoryPlant ''farm.speed_up'' ''speed_up''
        PlanStatusManaged True False [],
     feature ''plant.video_speed_up'' [CHR 0xE8, CHR 0xA7, CHR 0x86, CHR 0xE9, CHR 0xA2, CHR 0x91, CHR 0xE5, CHR 0x8A, CHR 0xA0, CHR 0xE9, CHR 0x80, CHR 0x9F] CategoryPlant ''farm.speed_up.video'' ''speed_up''
        PlanStatusAdapterMissing False False [lit_sdk_ad],
     feature ''plant.cultivate'' [CHR 0xE5, CHR 0x9F, CHR 0xB9, CHR 0xE8, CHR 0x82, CHR 0xB2] CategoryPlant ''farm.cultivate'' ''cultivate''
        PlanStatusManaged True False [],
     feature ''plant.cultivate_video_speed_up'' [CHR 0xE8, CHR 0xA7, CHR 0x86, CHR 0xE9, CHR 0xA2, CHR 0x91, CHR 0xE5, CHR 0x8A, CHR 0xA0, CHR 0xE9, CHR 0x80, CHR 0x9F, CHR 0xE5, CHR 0x9F, CHR 0xB9, CHR 0xE8, CHR 0x82, CHR 0xB2] CategoryPlant ''farm.cultivate.video'' ''speed_up''
        PlanStatusAdapterMissing False False [lit_sdk_ad],
     feature ''plant.cultivate_recv'' [CHR 0xE5, CHR 0x9F, CHR 0xB9, CHR 0xE8, CHR 0x82, CHR 0xB2, CHR 0xE9, CHR 0xA2, CHR 0x86, CHR 0xE5, CHR 0x8F, CHR 0x96] CategoryPlant ''farm.cultivate'' ''recv''
        PlanStatusManaged True False [],
     feature ''plant.upgrade'' [CHR 0xE9, CHR 0xB2, CHR 0x9C, CHR 0xE8, CHR 0x8A, CHR 0xB1, CHR 0xE5, CHR 0x8D, CHR 0x87, CHR 0xE7, CHR 0xBA, CHR 0xA7] CategoryPlant ''farm.upgrade'' ''upgrade''
        PlanStatusManaged True False [],
     feature ''plant.friend_steal'' [CHR 0xE5, CHR 0xA5, CHR 0xBD, CHR 0xE5, CHR 0x8F, CHR 0x8B, CHR 0xE6, CHR 0x91, CHR 0xB8, CHR 0xE8, CHR 0x8A, CHR 0xB1] CategoryPlant ''farm.friend_steal'' ''steal''
        PlanStatusManaged True False [],
     feature ''plant.friend_steal_buy'' [CHR 0xE5, CHR 0x8F, CHR 0x8B, CHR 0xE6, CHR 0x83, CHR 0x85, CHR 0xE5, CHR 0xB8, CHR 0x81, CHR 0xE5, CHR 0x85, CHR 0x91, CHR 0xE6, CHR 0x8D, CHR 0xA2, CHR 0xE6, CHR 0x91, CHR 0xB8, CHR 0xE8, CHR 0x8A, CHR 0xB1, CHR 0xE6, CHR 0xAC, CHR 0xA1, CHR 0xE6, CHR 0x95, CHR 0xB0] CategoryPlant ''farm.friend_steal'' ''buy''
        PlanStatusManaged True False [],
     feature ''plant.friend_steal_elves'' [CHR 0xE6, CHR 0x91, CHR 0xB8, CHR 0xE5, CHR 0x8F, CHR 0x96, CHR 0xE8, CHR 0x8A, CHR 0xB1, CHR 0xE7, CHR 0x81, CHR 0xB5] CategoryPlant ''farm.elves_steal'' ''steal_elves''
        PlanStatusManaged True False [],
     feature ''plant.elves'' [CHR 0xE8, CHR 0x8A, CHR 0xB1, CHR 0xE7, CHR 0x81, CHR 0xB5] CategoryPlant ''farm.elves'' ''run''
        PlanStatusSyncOnly False True [],
     feature ''plant.elves_plant_harvest'' [CHR 0xE8, CHR 0x8A, CHR 0xB1, CHR 0xE7, CHR 0x81, CHR 0xB5, CHR 0xE5, CHR 0x89, CHR 0xAF, CHR 0xE8, CHR 0x8A, CHR 0xB1, CHR 0xE6, CHR 0x94, CHR 0xB6, CHR 0xE5, CHR 0x8F, CHR 0x96] CategoryPlant ''farm.harvest'' ''harvest''
        PlanStatusManaged True False [],
     feature ''plant.elves_night_harvest'' [CHR 0xE5, CHR 0xA4, CHR 0x9C, CHR 0xE9, CHR 0x97, CHR 0xB4, CHR 0xE8, CHR 0x8A, CHR 0xB1, CHR 0xE7, CHR 0x81, CHR 0xB5, CHR 0xE6, CHR 0x94, CHR 0xB6, CHR 0xE5, CHR 0x8F, CHR 0x96] CategoryPlant ''farm.harvest'' ''harvest''
        PlanStatusManaged True False [],
     feature ''plant.elves_plant_speed_up'' [CHR 0xE8, CHR 0x8A, CHR 0xB1, CHR 0xE7, CHR 0x81, CHR 0xB5, CHR 0xE7, CHR 0xA7, CHR 0x8D, CHR 0xE6, CHR 0xA4, CHR 0x8D, CHR 0xE5, CHR 0x8A, CHR 0xA0, CHR 0xE9, CHR 0x80, CHR 0x9F] CategoryPlant ''farm.speed_up'' ''speed_up''
        PlanStatusManaged True False [],
     feature ''plant.elves_aid_sync'' [CHR 0xE8, CHR 0x8A, CHR 0xB1, CHR 0xE7, CHR 0x81, CHR 0xB5, CHR 0xE5, CHR 0x8D, CHR 0x8F, CHR 0xE5, CHR 0x8A, CHR 0xA9, CHR 0xE5, CHR 0x90, CHR 0x8C, CHR 0xE6, CHR 0xAD, CHR 0xA5] CategoryPlant ''farm.elves_aid'' ''sync''
        PlanStatusManaged True False [],
     feature ''plant.elves_aid_request'' [CHR 0xE7, CHR 0x94, CHR 0xB3, CHR 0xE8, CHR 0xAF, CHR 0xB7, CHR 0xE8, CHR 0x8A, CHR 0xB1, CHR 0xE7, CHR 0x81, CHR 0xB5, CHR 0xE5, CHR 0x8D, CHR 0x8F, CHR 0xE5, CHR 0x8A, CHR 0xA9] CategoryPlant ''farm.elves_aid'' ''request''
        PlanStatusManaged True False [],
     feature ''plant.elves_aid_receive'' [CHR 0xE9, CHR 0xA2, CHR 0x86, CHR 0xE5, CHR 0x8F, CHR 0x96, CHR 0xE8, CHR 0x8A, CHR 0xB1, CHR 0xE7, CHR 0x81, CHR 0xB5, CHR 0xE5, CHR 0x8D, CHR 0x8F, CHR 0xE5, CHR 0x8A, CHR 0xA9] CategoryPlant ''farm.elves_aid'' ''claim''
        PlanStatusManaged True False [],
     feature ''plant.elves_aid_help'' [CHR 0xE5, CHR 0x8D, CHR 0x8F, CHR 0xE5, CHR 0x8A, CHR 0xA9, CHR 0xE5, CHR 0xA5, CHR 0xBD, CHR 0xE5, CHR 0x8F, CHR 0x8B, CHR 0xE8, CHR 0x8A, CHR 0xB1, CHR 0xE7, CHR 0x81, CHR 0xB5] CategoryPlant ''farm.elves_aid'' ''help''
        PlanStatusManaged True False [],
     feature ''plant.elves_speed_up'' [CHR 0xE8, CHR 0x8A, CHR 0xB1, CHR 0xE7, CHR 0x81, CHR 0xB5, CHR 0xE5, CHR 0x8A, CHR 0xA0, CHR 0xE9, CHR 0x80, CHR 0x9F, CHR 0xE6, CHR 0xB4, CHR 0xBE, CHR 0xE9, CHR 0x81, CHR 0xA3] CategoryPlant ''farm.elves'' ''speed_up''
        PlanStatusAdapterMissing False False [[CHR 0xE5, CHR 0x8A, CHR 0xA0, CHR 0xE9, CHR 0x80, CHR 0x9F, CHR 0xE6, CHR 0x88, CHR 0x90, CHR 0xE6, CHR 0x9C, CHR 0xAC, CHR 0xE5, CHR 0x92, CHR 0x8C, CHR 0xE6, CHR 0x89, CHR 0xA7, CHR 0xE8, CHR 0xA1, CHR 0x8C, CHR 0xE5, CHR 0x8D, CHR 0x8F, CHR 0xE8, CHR 0xAE, CHR 0xAE, CHR 0xE5, CHR 0xB0, CHR 0x9A, CHR 0xE6, CHR 0x9C, CHR 0xAA, CHR 0xE7, CHR 0xA1, CHR 0xAE, CHR 0xE8, CHR 0xAE, CHR 0xA4]],
     feature ''plant.elves_pass'' [CHR 0xE8, CHR 0x8A, CHR 0xB1, CHR 0xE7, CHR 0x81, CHR 0xB5, CHR 0xE5, CHR 0xAF, CHR 0x86, CHR 0xE4, CHR 0xBB, CHR 0xA4] CategoryPlant ''plant.elves_pass'' ''claim''
        PlanStatusManaged True False [],
     feature ''plant.elves_pass_sync'' [CHR 0xE8, CHR 0x8A, CHR 0xB1, CHR 0xE7, CHR 0x81, CHR 0xB5, CHR 0xE5, CHR 0xAF, CHR 0x86, CHR 0xE4, CHR 0xBB, CHR 0xA4, CHR 0xE5, CHR 0x90, CHR 0x8C, CHR 0xE6, CHR 0xAD, CHR 0xA5] CategoryPlant ''plant.elves_pass'' ''sync''
        PlanStatusManaged True False [],
     feature ''plant.flower_pass'' [CHR 0xE8, CHR 0x8A, CHR 0xB1, CHR 0xE4, CHR 0xB9, CHR 0x8B, CHR 0xE5, CHR 0xAF, CHR 0x86, CHR 0xE4, CHR 0xBB, CHR 0xA4] CategoryPlant ''plant.flower_pass'' ''claim''
        PlanStatusManaged True False [],
     feature ''plant.flower_pass_sync'' [CHR 0xE8, CHR 0x8A, CHR 0xB1, CHR 0xE4, CHR 0xB9, CHR 0x8B, CHR 0xE5, CHR 0xAF, CHR 0x86, CHR 0xE4, CHR 0xBB, CHR 0xA4, CHR 0xE5, CHR 0x90, CHR 0x8C, CHR 0xE6, CHR 0xAD, CHR 0xA5] CategoryPlant ''plant.flower_pass'' ''sync''
        PlanStatusManaged True False [],
     feature ''plant.market'' [CHR 0xE8, CHR 0x8A, CHR 0xB1, CHR 0xE8, CHR 0xB4, CHR 0xB8, CHR 0xE5, CHR 0xB8, CHR 0x82, CHR 0xE5, CHR 0x9C, CHR 0xBA] CategoryPlant ''farm.market'' ''run''
        PlanStatusSyncOnly False True [],
     feature ''plant.market_unlock'' [CHR 0xE8, CHR 0x8A, CHR 0xB1, CHR 0xE8, CHR 0xB4, CHR 0xB8, CHR 0xE5, CHR 0xB8, CHR 0x82, CHR 0xE5, CHR 0x9C, CHR 0xBA, CHR 0xE8, CHR 0xA7, CHR 0xA3, CHR 0xE9, CHR 0x94, CHR 0x81, CHR 0xE8, CHR 0xB4, CHR 0xA7, CHR 0xE6, CHR 0x9E, CHR 0xB6] CategoryPlant ''farm.market'' ''unlock''
        PlanStatusAdapterMissing False False [[CHR 0xE8, CHR 0xB4, CHR 0xA7, CHR 0xE6, CHR 0x9E, CHR 0xB6, CHR 0xE8, CHR 0xA7, CHR 0xA3, CHR 0xE9, CHR 0x94, CHR 0x81, CHR 0xE6, CHR 0x88, CHR 0x90, CHR 0xE6, CHR 0x9C, CHR 0xAC, CHR 0xE5, CHR 0xB0, CHR 0x9A, CHR 0xE6, CHR 0x9C, CHR 0xAA, CHR 0xE7, CHR 0xA1, CHR 0xAE, CHR 0xE8, CHR 0xAE, CHR 0xA4]],
     feature ''basic.waterwheel'' [CHR 0xE6, CHR 0xB0, CHR 0xB4, CHR 0xE8, CHR 0xBD, CHR 0xA6, CHR 0xE6, CHR 0xB0, CHR 0xB4, CHR 0xE6, CHR 0xBB, CHR 0xB4] CategoryWater ''basic.waterwheel'' ''claim''
        PlanStatusManaged True False [],
     feature ''basic.free_water'' [CHR 0xE9, CHR 0x99, CHR 0x90, CHR 0xE6, CHR 0x97, CHR 0xB6, CHR 0xE6, CHR 0xB0, CHR 0xB4, CHR 0xE6, CHR 0xBB, CHR 0xB4] CategoryWater ''basic.free_water'' ''claim''
        PlanStatusManaged True False [],
     feature ''basic.benefit_box'' [CHR 0xE7, CHR 0xA6, CHR 0x8F, CHR 0xE5, CHR 0x88, CHR 0xA9, CHR 0xE5, CHR 0xAE, CHR 0x9D, CHR 0xE7, CHR 0xAE, CHR 0xB1] CategoryBasic ''basic.benefit'' ''claim''
        PlanStatusManaged True False [],
     feature ''basic.reputation'' [CHR 0xE7, CHR 0xA4, CHR 0xBC, CHR 0xE4, CHR 0xBB, CHR 0xAA, CHR 0xE5, CHR 0x88, CHR 0x86, CHR 0xE7, CHR 0x9B, CHR 0x91, CHR 0xE6, CHR 0x8E, CHR 0xA7] CategoryBasic ''basic.reputation'' ''guard''
        PlanStatusManaged False False [],
     feature ''basic.item_log'' [CHR 0xE9, CHR 0x81, CHR 0x93, CHR 0xE5, CHR 0x85, CHR 0xB7, CHR 0xE6, CHR 0x97, CHR 0xA5, CHR 0xE5, CHR 0xBF, CHR 0x97] CategoryBasic ''basic.item_log'' ''observe''
        PlanStatusManaged True False [],
     feature ''basic.mail_sync'' [CHR 0xE9, CHR 0x82, CHR 0xAE, CHR 0xE4, CHR 0xBB, CHR 0xB6, CHR 0xE5, CHR 0x90, CHR 0x8C, CHR 0xE6, CHR 0xAD, CHR 0xA5] CategoryBasic ''basic.mail'' ''sync''
        PlanStatusManaged True False [],
     feature ''basic.mail'' [CHR 0xE9, CHR 0x82, CHR 0xAE, CHR 0xE4, CHR 0xBB, CHR 0xB6] CategoryBasic ''basic.mail'' ''claim''
        PlanStatusManaged True False [],
     feature ''basic.welfare'' [CHR 0xE7, CHR 0xA6, CHR 0x8F, CHR 0xE5, CHR 0x88, CHR 0xA9] CategoryBasic ''basic.welfare'' ''claim''
        PlanStatusAdapterMissing False False [[CHR 0xE7, CHR 0xBC, CHR 0xBA, CHR 0xE5, CHR 0xB0, CHR 0x91, CHR 0xE7, CHR 0xA6, CHR 0x8F, CHR 0xE5, CHR 0x88, CHR 0xA9, CHR 0xE6, CHR 0x89, CHR 0xA7, CHR 0xE8, CHR 0xA1, CHR 0x8C, CHR 0x20, CHR 0x61, CHR 0x64, CHR 0x61, CHR 0x70, CHR 0x74, CHR 0x65, CHR 0x72]],
     feature ''basic.double_coin'' [CHR 0xE5, CHR 0x8F, CHR 0x8C, CHR 0xE5, CHR 0x80, CHR 0x8D, CHR 0xE9, CHR 0x87, CHR 0x91, CHR 0xE5, CHR 0xB8, CHR 0x81] CategoryBasic ''basic.benefit.double_coin'' ''claim''
        PlanStatusAdapterMissing False False [lit_sdk_ad],
     feature ''basic.share_reward'' [CHR 0xE5, CHR 0x88, CHR 0x86, CHR 0xE4, CHR 0xBA, CHR 0xAB, CHR 0xE5, CHR 0xA5, CHR 0x96, CHR 0xE5, CHR 0x8A, CHR 0xB1] CategoryBasic ''basic.benefit.share'' ''claim''
        PlanStatusSyncOnly False True [],
     feature ''basic.anti_scam_box'' [CHR 0xE9, CHR 0x98, CHR 0xB2, CHR 0xE9, CHR 0xAA, CHR 0x97, CHR 0xE5, CHR 0xAE, CHR 0x9D, CHR 0xE7, CHR 0xAE, CHR 0xB1] CategoryBasic ''basic.benefit.anti_scam'' ''answer''
        PlanStatusManaged True False [],
     feature ''basic.anti_scam_box'' [CHR 0xE9, CHR 0x98, CHR 0xB2, CHR 0xE9, CHR 0xAA, CHR 0x97, CHR 0xE5, CHR 0xAE, CHR 0x9D, CHR 0xE7, CHR 0xAE, CHR 0xB1] CategoryBasic ''basic.benefit.anti_scam'' ''claim''
        PlanStatusManaged True False [],
     feature ''basic.task_main'' [CHR 0xE4, CHR 0xB8, CHR 0xBB, CHR 0xE7, CHR 0xBA, CHR 0xBF, CHR 0xE4, CHR 0xBB, CHR 0xBB, CHR 0xE5, CHR 0x8A, CHR 0xA1] CategoryBasic ''basic.task.main'' ''claim''
        PlanStatusManaged True False [],
     feature ''basic.task_daily'' [CHR 0xE6, CHR 0xAF, CHR 0x8F, CHR 0xE6, CHR 0x97, CHR 0xA5, CHR 0xE4, CHR 0xBB, CHR 0xBB, CHR 0xE5, CHR 0x8A, CHR 0xA1] CategoryBasic ''basic.task.daily'' ''claim''
        PlanStatusManaged True False [],
     feature ''basic.task_weekly'' [CHR 0xE6, CHR 0xAF, CHR 0x8F, CHR 0xE5, CHR 0x91, CHR 0xA8, CHR 0xE4, CHR 0xBB, CHR 0xBB, CHR 0xE5, CHR 0x8A, CHR 0xA1] CategoryBasic ''basic.task.weekly'' ''claim''
        PlanStatusManaged True False [],
     feature ''basic.task_achievement'' [CHR 0xE6, CHR 0x88, CHR 0x90, CHR 0xE5, CHR 0xB0, CHR 0xB1, CHR 0xE4, CHR 0xBB, CHR 0xBB, CHR 0xE5, CHR 0x8A, CHR 0xA1] CategoryBasic ''basic.task.achievement'' ''claim''
        PlanStatusManaged True False [],
     feature ''basic.story_sync'' [CHR 0xE5, CHR 0x89, CHR 0xA7, CHR 0xE6, CHR 0x83, CHR 0x85, CHR 0xE5, CHR 0x90, CHR 0x8C, CHR 0xE6, CHR 0xAD, CHR 0xA5] CategoryBasic ''basic.story'' ''sync''
        PlanStatusManaged True False [],
     feature ''basic.story'' [CHR 0xE5, CHR 0x89, CHR 0xA7, CHR 0xE6, CHR 0x83, CHR 0x85] CategoryBasic ''basic.story'' ''unlock''
        PlanStatusManaged True False [],
     feature ''basic.sign_sync'' [CHR 0xE9, CHR 0x98, CHR 0xB2, CHR 0xE8, CHR 0xAF, CHR 0x88, CHR 0xE9, CHR 0xAA, CHR 0x97, CHR 0xE7, CHR 0xAD, CHR 0xBE, CHR 0xE5, CHR 0x88, CHR 0xB0, CHR 0xE5, CHR 0x90, CHR 0x8C, CHR 0xE6, CHR 0xAD, CHR 0xA5] CategoryBasic ''basic.sign'' ''sync''
        PlanStatusManaged True False [],
     feature ''basic.sign'' [CHR 0xE9, CHR 0x98, CHR 0xB2, CHR 0xE8, CHR 0xAF, CHR 0x88, CHR 0xE9, CHR 0xAA, CHR 0x97, CHR 0xE7, CHR 0xAD, CHR 0xBE, CHR 0xE5, CHR 0x88, CHR 0xB0, CHR 0xE5, CHR 0xA5, CHR 0x96, CHR 0xE5, CHR 0x8A, CHR 0xB1] CategoryBasic ''basic.sign'' ''claim''
        PlanStatusManaged True False [],
     feature ''basic.sign_patch'' [CHR 0xE8, CHR 0x87, CHR 0xAA, CHR 0xE5, CHR 0x8A, CHR 0xA8, CHR 0xE8, CHR 0xA1, CHR 0xA5, CHR 0xE7, CHR 0xAD, CHR 0xBE] CategoryBasic ''basic.sign.patch'' ''claim''
        PlanStatusAdapterMissing False False [[CHR 0xE8, CHR 0xA1, CHR 0xA5, CHR 0xE7, CHR 0xAD, CHR 0xBE, CHR 0xE6, CHR 0x88, CHR 0x90, CHR 0xE6, CHR 0x9C, CHR 0xAC, CHR 0xE5, CHR 0xB0, CHR 0x9A, CHR 0xE6, CHR 0x9C, CHR 0xAA, CHR 0xE7, CHR 0xA1, CHR 0xAE, CHR 0xE8, CHR 0xAE, CHR 0xA4]],
     feature ''basic.road_grow'' [CHR 0xE6, CHR 0x88, CHR 0x90, CHR 0xE9, CHR 0x95, CHR 0xBF, CHR 0xE4, CHR 0xB9, CHR 0x8B, CHR 0xE8, CHR 0xB7, CHR 0xAF] CategoryBasic ''basic.road_grow'' ''claim''
        PlanStatusManaged True False [],
     feature ''basic.map_event_sync'' [CHR 0xE5, CHR 0x9C, CHR 0xB0, CHR 0xE5, CHR 0x9B, CHR 0xBE, CHR 0xE4, CHR 0xBA, CHR 0x8B, CHR 0xE4, CHR 0xBB, CHR 0xB6, CHR 0xE5, CHR 0x90, CHR 0x8C, CHR 0xE6, CHR 0xAD, CHR 0xA5] CategoryBasic ''basic.map_event'' ''sync''
        PlanStatusManaged True False [],
     feature ''basic.map_event'' [CHR 0xE5, CHR 0x9C, CHR 0xB0, CHR 0xE5, CHR 0x9B, CHR 0xBE, CHR 0xE9, CHR 0x9A, CHR 0x8F, CHR 0xE6, CHR 0x9C, CHR 0xBA, CHR 0xE4, CHR 0xBA, CHR 0x8B, CHR 0xE4, CHR 0xBB, CHR 0xB6] CategoryBasic ''basic.map_event'' ''claim''
        PlanStatusManaged True False [],
     feature ''basic.pearl_sync'' [CHR 0xE7, CHR 0x8F, CHR 0x8D, CHR 0xE7, CHR 0x8F, CHR 0xA0, CHR 0xE5, CHR 0x90, CHR 0x8C, CHR 0xE6, CHR 0xAD, CHR 0xA5] CategoryBasic ''basic.pearl'' ''sync''
        PlanStatusManaged True False [],
     feature ''basic.pearl_free'' [CHR 0xE5, CHR 0x85, CHR 0x8D, CHR 0xE8, CHR 0xB4, CHR 0xB9, CHR 0xE7, CHR 0x8F, CHR 0x8D, CHR 0xE7, CHR 0x8F, CHR 0xA0] CategoryBasic ''basic.pearl.free'' ''claim''
        PlanStatusManaged True False [],
     feature ''basic.pearl_place'' [CHR 0xE7, CHR 0x8F, CHR 0x8D, CHR 0xE7, CHR 0x8F, CHR 0xA0, CHR 0xE4, CHR 0xB8, CHR 0x80, CHR 0xE9, CHR 0x94, CHR 0xAE, CHR 0xE6, CHR 0x94, CHR 0xB6, CHR 0xE5, CHR 0x8F, CHR 0x96] CategoryBasic ''basic.pearl.place'' ''claim''
        PlanStatusManaged True False [],
     feature ''basic.pearl_draw'' [CHR 0xE5, CHR 0xBC, CHR 0x80, CHR 0xE7, CHR 0x8F, CHR 0x8D, CHR 0xE7, CHR 0x8F, CHR 0xA0] CategoryBasic ''basic.pearl.draw'' ''draw''
        PlanStatusManaged True False [],
     feature ''basic.pearl_protect'' [CHR 0xE7, CHR 0x8F, CHR 0x8D, CHR 0xE7, CHR 0x8F, CHR 0xA0, CHR 0xE9, CHR 0x98, CHR 0xB2, CHR 0xE8, CHR 0xBA, CHR 0xAB] CategoryBasic ''basic.pearl.protect'' ''enable''
        PlanStatusManaged True False [],
     feature ''basic.pearl_hire'' [CHR 0xE9, CHR 0x9B, CHR 0x87, CHR 0xE4, CHR 0xBD, CHR 0xA3, CHR 0xE5, CHR 0x8A, CHR 0xB3, CHR 0xE5, CHR 0xB7, CHR 0xA5] CategoryBasic ''basic.pearl.hire'' ''hire''
        PlanStatusManaged True False [],
     feature ''basic.pearl_buy_hire_ticket'' [CHR 0xE4, CHR 0xB9, CHR 0xB0, CHR 0xE9, CHR 0x9B, CHR 0x87, CHR 0xE4, CHR 0xBD, CHR 0xA3, CHR 0xE4, CHR 0xB9, CHR 0xA6] CategoryBasic ''basic.pearl.buy_hire_ticket'' ''buy''
        PlanStatusAdapterMissing False False [[CHR 0xE5, CHR 0x85, CHR 0x83, CHR 0xE5, CHR 0xAE, CHR 0x9D, CHR 0xE6, CHR 0x88, CHR 0x90, CHR 0xE6, CHR 0x9C, CHR 0xAC, CHR 0xE5, CHR 0xB0, CHR 0x9A, CHR 0xE6, CHR 0x9C, CHR 0xAA, CHR 0xE6, CHR 0x94, CHR 0xBE, CHR 0xE5, CHR 0xBC, CHR 0x80, CHR 0xE8, CHR 0x87, CHR 0xAA, CHR 0xE5, CHR 0x8A, CHR 0xA8, CHR 0xE6, CHR 0x89, CHR 0xA7, CHR 0xE8, CHR 0xA1, CHR 0x8C]],
     feature ''basic.shop'' [CHR 0xE5, CHR 0x95, CHR 0x86, CHR 0xE5, CHR 0x9F, CHR 0x8E] CategoryBasic ''basic.shop'' ''buy''
        PlanStatusSyncOnly False True [],
     feature ''basic.shop_giftbag_sync'' [CHR 0xE7, CHR 0xA4, CHR 0xBC, CHR 0xE5, CHR 0x8C, CHR 0x85, CHR 0xE5, CHR 0x95, CHR 0x86, CHR 0xE5, CHR 0xBA, CHR 0x97, CHR 0xE5, CHR 0x90, CHR 0x8C, CHR 0xE6, CHR 0xAD, CHR 0xA5] CategoryBasic ''basic.shop.giftbag'' ''sync''
        PlanStatusManaged True False [],
     feature ''basic.shop_video_gift'' [CHR 0xE8, CHR 0xA7, CHR 0x86, CHR 0xE9, CHR 0xA2, CHR 0x91, CHR 0xE7, CHR 0xA4, CHR 0xBC, CHR 0xE5, CHR 0x8C, CHR 0x85] CategoryBasic ''basic.shop.video_gift'' ''claim''
        PlanStatusAdapterMissing False False [lit_sdk_ad],
     feature ''basic.shop_cultivate_sync'' [CHR 0xE6, CHR 0x9D, CHR 0x90, CHR 0xE6, CHR 0x96, CHR 0x99, CHR 0xE5, CHR 0x95, CHR 0x86, CHR 0xE5, CHR 0xBA, CHR 0x97, CHR 0xE5, CHR 0x90, CHR 0x8C, CHR 0xE6, CHR 0xAD, CHR 0xA5] CategoryBasic ''basic.shop.cultivate'' ''sync''
        PlanStatusManaged True False [],
     feature ''basic.shop_cultivate'' [CHR 0xE6, CHR 0x9D, CHR 0x90, CHR 0xE6, CHR 0x96, CHR 0x99, CHR 0xE5, CHR 0x95, CHR 0x86, CHR 0xE5, CHR 0xBA, CHR 0x97] CategoryBasic ''basic.shop.cultivate'' ''buy''
        PlanStatusManaged True False [],
     feature ''basic.shop_vip'' [CHR 0x56, CHR 0x49, CHR 0x50, CHR 0x20, CHR 0xE5, CHR 0x95, CHR 0x86, CHR 0xE5, CHR 0xBA, CHR 0x97] CategoryBasic ''basic.shop.vip'' ''buy''
        PlanStatusAdapterMissing False False [[CHR 0x56, CHR 0x49, CHR 0x50, CHR 0x20, CHR 0xE5, CHR 0x95, CHR 0x86, CHR 0xE5, CHR 0xBA, CHR 0x97, CHR 0xE6, CHR 0x88, CHR 0x90, CHR 0xE6, CHR 0x9C, CHR 0xAC, CHR 0xE5, CHR 0x92, CHR 0x8C, CHR 0xE7, CHR 0x8A, CHR 0xB6, CHR 0xE6, CHR 0x80, CHR 0x81, CHR 0xE5, CHR 0xB0, CHR 0x9A, CHR 0xE6, CHR 0x9C, CHR 0xAA, CHR 0xE7, CHR 0xA1, CHR 0xAE, CHR 0xE8, CHR 0xAE, CHR 0xA4]],
     feature ''basic.zoo'' [CHR 0xE5, CHR 0xAE, CHR 0xA0, CHR 0xE7, CHR 0x89, CHR 0xA9] CategoryBasic ''basic.zoo'' ''sync''
        PlanStatusManaged True False [],
     feature ''basic.zoo_refresh'' [CHR 0xE5, CHR 0xAE, CHR 0xA0, CHR 0xE7, CHR 0x89, CHR 0xA9, CHR 0xE7, CHR 0x8A, CHR 0xB6, CHR 0xE6, CHR 0x80, CHR 0x81, CHR 0xE5, CHR 0x88, CHR 0xB7, CHR 0xE6, CHR 0x96, CHR 0xB0] CategoryBasic ''basic.zoo'' ''refresh''
        PlanStatusManaged True False [],
     feature ''basic.zoo_feed'' [CHR 0xE8, CHR 0xA1, CHR 0xA5, CHR 0xE5, CHR 0x85, CHR 0x85, CHR 0xE5, CHR 0xAE, CHR 0xA0, CHR 0xE7, CHR 0x89, CHR 0xA9, CHR 0xE9, CHR 0xA3, CHR 0x9F, CHR 0xE7, CHR 0x9B, CHR 0x86] CategoryBasic ''basic.zoo.feed'' ''stock''
        PlanStatusManaged True False [],
     feature ''basic.zoo_stroke'' [CHR 0xE5, CHR 0xAE, CHR 0xA0, CHR 0xE7, CHR 0x89, CHR 0xA9, CHR 0xE4, CHR 0xBA, CHR 0x92, CHR 0xE5, CHR 0x8A, CHR 0xA8] CategoryBasic ''basic.zoo.stroke'' ''stroke''
        PlanStatusManaged True False [],
     feature ''basic.zoo_buy_food_sync'' [CHR 0xE5, CHR 0x90, CHR 0x8C, CHR 0xE6, CHR 0xAD, CHR 0xA5, CHR 0xE7, CHR 0x8C, CHR 0xAB, CHR 0xE7, CHR 0xB2, CHR 0xAE, CHR 0xE5, CHR 0x95, CHR 0x86, CHR 0xE5, CHR 0xBA, CHR 0x97] CategoryBasic ''basic.zoo.buy_food'' ''sync''
        PlanStatusManaged True False [],
     feature ''basic.zoo_buy_food'' [CHR 0xE8, CHR 0xB4, CHR 0xAD, CHR 0xE4, CHR 0xB9, CHR 0xB0, CHR 0xE6, CHR 0x99, CHR 0xAE, CHR 0xE9, CHR 0x80, CHR 0x9A, CHR 0xE7, CHR 0x8C, CHR 0xAB, CHR 0xE7, CHR 0xB2, CHR 0xAE] CategoryBasic ''basic.zoo.buy_food'' ''buy''
        PlanStatusManaged True False [],
     feature ''basic.zoo_find_pet'' [CHR 0xE5, CHR 0xAE, CHR 0xA0, CHR 0xE7, CHR 0x89, CHR 0xA9, CHR 0xE5, CHR 0xAF, CHR 0xBB, CHR 0xE5, CHR 0x9B, CHR 0x9E] CategoryBasic ''basic.zoo.event'' ''find_pet''
        PlanStatusBlocked False False [[CHR 0xE5, CHR 0xAE, CHR 0x9E, CHR 0xE6, CHR 0xB5, CHR 0x8B, CHR 0xE5, CHR 0xAF, CHR 0xBB, CHR 0xE5, CHR 0x9B, CHR 0x9E, CHR 0xE5, CHR 0x9B, CHR 0xBA, CHR 0xE5, CHR 0xAE, CHR 0x9A, CHR 0xE6, CHR 0xB6, CHR 0x88, CHR 0xE8, CHR 0x80, CHR 0x97, CHR 0x20, CHR 0x31, CHR 0x30, CHR 0x20, CHR 0xE5, CHR 0x85, CHR 0x83, CHR 0xE5, CHR 0xAE, CHR 0x9D, CHR 0xEF, CHR 0xBC, CHR 0x8C, CHR 0xE6, CHR 0xB0, CHR 0xB8, CHR 0xE4, CHR 0xB9, CHR 0x85, CHR 0xE7, CHR 0xA6, CHR 0x81, CHR 0xE6, CHR 0xAD, CHR 0xA2, CHR 0xE8, CHR 0x87, CHR 0xAA, CHR 0xE5, CHR 0x8A, CHR 0xA8, CHR 0xE6, CHR 0x89, CHR 0xA7, CHR 0xE8, CHR 0xA1, CHR 0x8C]],
     feature ''basic.zoo_handle_event'' [CHR 0xE5, CHR 0xAE, CHR 0xA0, CHR 0xE7, CHR 0x89, CHR 0xA9, CHR 0xE4, CHR 0xBA, CHR 0x8B, CHR 0xE4, CHR 0xBB, CHR 0xB6] CategoryBasic ''basic.zoo.event'' ''handle_event''
        PlanStatusManaged True False [],
     feature ''basic.zoo_read_log'' [CHR 0xE5, CHR 0xAE, CHR 0xA0, CHR 0xE7, CHR 0x89, CHR 0xA9, CHR 0xE6, CHR 0x97, CHR 0xA5, CHR 0xE5, CHR 0xBF, CHR 0x97, CHR 0xE5, CHR 0xB7, CHR 0xB2, CHR 0xE8, CHR 0xAF, CHR 0xBB] CategoryBasic ''basic.zoo.event'' ''read_log''
        PlanStatusManaged True False [],
     feature ''basic.zoo_souvenir_reward'' [CHR 0xE5, CHR 0xAE, CHR 0xA0, CHR 0xE7, CHR 0x89, CHR 0xA9, CHR 0xE7, CHR 0xBA, CHR 0xAA, CHR 0xE5, CHR 0xBF, CHR 0xB5, CHR 0xE5, CHR 0x93, CHR 0x81, CHR 0xE5, CHR 0xA5, CHR 0x96, CHR 0xE5, CHR 0x8A, CHR 0xB1] CategoryBasic ''basic.zoo.souvenir'' ''claim''
        PlanStatusManaged True False [],
     feature ''basic.zoo_souvenir_read'' [CHR 0xE5, CHR 0xAE, CHR 0xA0, CHR 0xE7, CHR 0x89, CHR 0xA9, CHR 0xE7, CHR 0xBA, CHR 0xAA, CHR 0xE5, CHR 0xBF, CHR 0xB5, CHR 0xE5, CHR 0x93, CHR 0x81, CHR 0xE5, CHR 0xB7, CHR 0xB2, CHR 0xE8, CHR 0xAF, CHR 0xBB] CategoryBasic ''basic.zoo.souvenir'' ''read''
        PlanStatusManaged True False [],
     feature ''order.customer'' [CHR 0xE9, CHR 0xA1, CHR 0xBE, CHR 0xE5, CHR 0xAE, CHR 0xA2, CHR 0xE8, CHR 0xAE, CHR 0xA2, CHR 0xE5, CHR 0x8D, CHR 0x95] CategoryOrder ''order.customer'' ''finish''
        PlanStatusManaged True False [],
     feature ''order.customer_craft'' [CHR 0xE9, CHR 0xA1, CHR 0xBE, CHR 0xE5, CHR 0xAE, CHR 0xA2, CHR 0xE8, CHR 0xAE, CHR 0xA2, CHR 0xE5, CHR 0x8D, CHR 0x95, CHR 0xE8, CHR 0x8A, CHR 0xB1, CHR 0xE8, CHR 0x89, CHR 0xBA, CHR 0xE5, CHR 0x88, CHR 0xB6, CHR 0xE4, CHR 0xBD, CHR 0x9C] CategoryOrder ''order.customer'' ''craft''
        PlanStatusManaged True False [],
     feature ''order.customer_generate'' [CHR 0xE9, CHR 0xA1, CHR 0xBE, CHR 0xE5, CHR 0xAE, CHR 0xA2, CHR 0xE8, CHR 0xAE, CHR 0xA2, CHR 0xE5, CHR 0x8D, CHR 0x95, CHR 0xE7, CHR 0x94, CHR 0x9F, CHR 0xE6, CHR 0x88, CHR 0x90] CategoryOrder ''order.customer'' ''generate''
        PlanStatusManaged True False [],
     feature ''order.customer_reject'' [CHR 0xE9, CHR 0xA1, CHR 0xBE, CHR 0xE5, CHR 0xAE, CHR 0xA2, CHR 0xE8, CHR 0xAE, CHR 0xA2, CHR 0xE5, CHR 0x8D, CHR 0x95, CHR 0xE6, CHR 0x9A, CHR 0x82, CHR 0xE6, CHR 0x97, CHR 0xB6, CHR 0xE6, CHR 0x97, CHR 0xA0, CHR 0xE8, CHR 0xB4, CHR 0xA7] CategoryOrder ''order.customer'' ''reject''
        PlanStatusManaged True False [],
     feature ''order.resident'' [CHR 0xE5, CHR 0xB1, CHR 0x85, CHR 0xE6, CHR 0xB0, CHR 0x91, CHR 0xE8, CHR 0xAE, CHR 0xA2, CHR 0xE5, CHR 0x8D, CHR 0x95] CategoryOrder ''order.resident'' ''finish''
        PlanStatusManaged True False [],
     feature ''order.flower_art'' [CHR 0xE8, CHR 0x8A, CHR 0xB1, CHR 0xE8, CHR 0x89, CHR 0xBA, CHR 0x2F, CHR 0xE8, CHR 0x8A, CHR 0xB1, CHR 0xE6, CHR 0x9E, CHR 0xB6] CategoryOrder ''order.flower_art'' ''sell''
        PlanStatusManaged True False [],
     feature ''order.flower_art_craft'' [CHR 0xE8, CHR 0x8A, CHR 0xB1, CHR 0xE8, CHR 0x89, CHR 0xBA, CHR 0xE5, CHR 0x88, CHR 0xB6, CHR 0xE4, CHR 0xBD, CHR 0x9C] CategoryOrder ''order.flower_art'' ''craft''
        PlanStatusManaged True False [],
     feature ''order.flower_art_claim'' [CHR 0xE8, CHR 0x8A, CHR 0xB1, CHR 0xE6, CHR 0x9E, CHR 0xB6, CHR 0xE6, CHR 0x94, CHR 0xB6, CHR 0xE7, CHR 0x9B, CHR 0x8A] CategoryOrder ''order.flower_art'' ''claim''
        PlanStatusManaged True False [],
     feature ''order.flower_art_stand'' [CHR 0xE8, CHR 0x8A, CHR 0xB1, CHR 0xE6, CHR 0x9E, CHR 0xB6, CHR 0xE8, CHR 0xA7, CHR 0xA3, CHR 0xE9, CHR 0x94, CHR 0x81] CategoryOrder ''order.flower_art.stand'' ''unlock''
        PlanStatusAdapterMissing False False [[CHR 0xE8, CHR 0x8A, CHR 0xB1, CHR 0xE6, CHR 0x9E, CHR 0xB6, CHR 0xE8, CHR 0xA7, CHR 0xA3, CHR 0xE9, CHR 0x94, CHR 0x81, CHR 0xE6, CHR 0x88, CHR 0x90, CHR 0xE6, CHR 0x9C, CHR 0xAC, CHR 0xE5, CHR 0xB0, CHR 0x9A, CHR 0xE6, CHR 0x9C, CHR 0xAA, CHR 0xE7, CHR 0xA1, CHR 0xAE, CHR 0xE8, CHR 0xAE, CHR 0xA4]],
     feature ''order.flower_art_create_reward'' [CHR 0xE8, CHR 0x8A, CHR 0xB1, CHR 0xE8, CHR 0x89, CHR 0xBA, CHR 0xE7, CHR 0xBB, CHR 0x8F, CHR 0xE9, CHR 0xAA, CHR 0x8C, CHR 0xE5, CHR 0xA5, CHR 0x96, CHR 0xE5, CHR 0x8A, CHR 0xB1] CategoryOrder ''order.flower_art.create_reward'' ''claim''
        PlanStatusManaged True False [],
     feature ''order.flower_art_collect_reward'' [CHR 0xE5, CHR 0x9B, CHR 0xBE, CHR 0xE9, CHR 0x89, CHR 0xB4, CHR 0xE5, CHR 0xA5, CHR 0x96, CHR 0xE5, CHR 0x8A, CHR 0xB1] CategoryOrder ''order.flower_art.collect_reward'' ''claim''
        PlanStatusManaged True False [],
     feature ''order.palace_sync'' [CHR 0xE5, CHR 0xAE, CHR 0xAB, CHR 0xE5, CHR 0xBB, CHR 0xB7, CHR 0xE8, CHR 0xAE, CHR 0xA2, CHR 0xE5, CHR 0x8D, CHR 0x95, CHR 0xE5, CHR 0x90, CHR 0x8C, CHR 0xE6, CHR 0xAD, CHR 0xA5] CategoryOrder ''order.palace'' ''sync''
        PlanStatusSyncOnly False True [],
     feature ''order.palace'' [CHR 0xE5, CHR 0xAE, CHR 0xAB, CHR 0xE5, CHR 0xBB, CHR 0xB7, CHR 0xE8, CHR 0xAE, CHR 0xA2, CHR 0xE5, CHR 0x8D, CHR 0x95] CategoryOrder ''order.palace'' ''finish''
        PlanStatusSyncOnly False True [],
     feature ''order.team_sync'' [CHR 0xE7, CHR 0xBB, CHR 0x84, CHR 0xE5, CHR 0x9B, CHR 0xA2, CHR 0xE8, CHR 0xAE, CHR 0xA2, CHR 0xE5, CHR 0x8D, CHR 0x95, CHR 0xE5, CHR 0x90, CHR 0x8C, CHR 0xE6, CHR 0xAD, CHR 0xA5] CategoryOrder ''order.team'' ''sync''
        PlanStatusSyncOnly False True [],
     feature ''order.team'' [CHR 0xE7, CHR 0xBB, CHR 0x84, CHR 0xE5, CHR 0x9B, CHR 0xA2, CHR 0xE8, CHR 0xAE, CHR 0xA2, CHR 0xE5, CHR 0x8D, CHR 0x95] CategoryOrder ''order.team'' ''submit''
        PlanStatusSyncOnly False True [],
     feature ''order.team_one_more'' [CHR 0xE7, CHR 0xBB, CHR 0x84, CHR 0xE5, CHR 0x9B, CHR 0xA2, CHR 0xE8, CHR 0xAE, CHR 0xA2, CHR 0xE5, CHR 0x8D, CHR 0x95, CHR 0xE5, CHR 0x86, CHR 0x8D, CHR 0xE6, CHR 0x9D, CHR 0xA5, CHR 0xE4, CHR 0xB8, CHR 0x80, CHR 0xE5, CHR 0x8D, CHR 0x95] CategoryOrder ''order.team'' ''one_more''
        PlanStatusAdapterMissing False False [[CHR 0xE5, CHR 0x86, CHR 0x8D, CHR 0xE6, CHR 0x9D, CHR 0xA5, CHR 0xE4, CHR 0xB8, CHR 0x80, CHR 0xE5, CHR 0x8D, CHR 0x95, CHR 0xE7, CHR 0x9A, CHR 0x84, CHR 0xE6, CHR 0x88, CHR 0x90, CHR 0xE6, CHR 0x9C, CHR 0xAC, CHR 0xE5, CHR 0x92, CHR 0x8C, CHR 0xE7, CHR 0x8A, CHR 0xB6, CHR 0xE6, CHR 0x80, CHR 0x81, CHR 0xE5, CHR 0xB0, CHR 0x9A, CHR 0xE6, CHR 0x9C, CHR 0xAA, CHR 0xE7, CHR 0xA1, CHR 0xAE, CHR 0xE8, CHR 0xAE, CHR 0xA4]],
     feature ''order.flower_art_early_cancel'' [CHR 0xE8, CHR 0x8A, CHR 0xB1, CHR 0xE6, CHR 0x9E, CHR 0xB6, CHR 0xE6, CHR 0x8F, CHR 0x90, CHR 0xE5, CHR 0x89, CHR 0x8D, CHR 0xE4, CHR 0xB8, CHR 0x8B, CHR 0xE6, CHR 0x9E, CHR 0xB6] CategoryOrder ''order.flower_art'' ''cancel''
        PlanStatusAdapterMissing False False [[CHR 0xE6, CHR 0x8F, CHR 0x90, CHR 0xE5, CHR 0x89, CHR 0x8D, CHR 0xE4, CHR 0xB8, CHR 0x8B, CHR 0xE6, CHR 0x9E, CHR 0xB6, CHR 0xE7, CHR 0x9A, CHR 0x84, CHR 0xE7, CHR 0x8A, CHR 0xB6, CHR 0xE6, CHR 0x80, CHR 0x81, CHR 0xE5, CHR 0x92, CHR 0x8C, CHR 0xE6, CHR 0x8D, CHR 0x9F, CHR 0xE5, CHR 0xA4, CHR 0xB1, CHR 0xE5, CHR 0xB0, CHR 0x9A, CHR 0xE6, CHR 0x9C, CHR 0xAA, CHR 0xE7, CHR 0xA1, CHR 0xAE, CHR 0xE8, CHR 0xAE, CHR 0xA4]],
     feature ''union.build'' [CHR 0xE5, CHR 0x85, CHR 0xAC, CHR 0xE4, CHR 0xBC, CHR 0x9A, CHR 0xE5, CHR 0xBB, CHR 0xBA, CHR 0xE8, CHR 0xAE, CHR 0xBE] CategoryUnion ''union.build'' ''build''
        PlanStatusManaged True False [],
     feature ''union.build_video'' [CHR 0xE5, CHR 0x85, CHR 0xAC, CHR 0xE4, CHR 0xBC, CHR 0x9A, CHR 0xE8, CHR 0xA7, CHR 0x86, CHR 0xE9, CHR 0xA2, CHR 0x91, CHR 0xE5, CHR 0xBB, CHR 0xBA, CHR 0xE8, CHR 0xAE, CHR 0xBE] CategoryUnion ''union.build.video'' ''build''
        PlanStatusAdapterMissing False False [lit_sdk_ad],
     feature ''union.build_diamond'' [CHR 0xE5, CHR 0x85, CHR 0xAC, CHR 0xE4, CHR 0xBC, CHR 0x9A, CHR 0xE5, CHR 0x85, CHR 0x83, CHR 0xE5, CHR 0xAE, CHR 0x9D, CHR 0xE5, CHR 0xBB, CHR 0xBA, CHR 0xE8, CHR 0xAE, CHR 0xBE] CategoryUnion ''union.build.diamond'' ''build''
        PlanStatusAdapterMissing False False [[CHR 0xE5, CHR 0x85, CHR 0x83, CHR 0xE5, CHR 0xAE, CHR 0x9D, CHR 0xE6, CHR 0x88, CHR 0x90, CHR 0xE6, CHR 0x9C, CHR 0xAC, CHR 0xE5, CHR 0x92, CHR 0x8C, CHR 0xE5, CHR 0xAE, CHR 0x89, CHR 0xE5, CHR 0x85, CHR 0xA8, CHR 0xE9, CHR 0x97, CHR 0xA8, CHR 0xE6, CHR 0xA7, CHR 0x9B, CHR 0xE5, CHR 0xB0, CHR 0x9A, CHR 0xE6, CHR 0x9C, CHR 0xAA, CHR 0xE6, CHR 0x94, CHR 0xBE, CHR 0xE5, CHR 0xBC, CHR 0x80, CHR 0xE8, CHR 0x87, CHR 0xAA, CHR 0xE5, CHR 0x8A, CHR 0xA8, CHR 0xE6, CHR 0x89, CHR 0xA7, CHR 0xE8, CHR 0xA1, CHR 0x8C]],
     feature ''union.flower'' [CHR 0xE5, CHR 0x85, CHR 0xAC, CHR 0xE4, CHR 0xBC, CHR 0x9A, CHR 0xE9, CHR 0xB2, CHR 0x9C, CHR 0xE8, CHR 0x8A, CHR 0xB1, CHR 0xE5, CHR 0x85, CHR 0xB1, CHR 0xE4, CHR 0xBA, CHR 0xAB] CategoryUnion ''union.flower'' ''share_take''
        PlanStatusSyncOnly False True [],
     feature ''union.flower_share'' [CHR 0xE5, CHR 0x85, CHR 0xAC, CHR 0xE4, CHR 0xBC, CHR 0x9A, CHR 0xE5, CHR 0x88, CHR 0x86, CHR 0xE4, CHR 0xBA, CHR 0xAB] CategoryUnion ''union.flower.share'' ''share''
        PlanStatusSyncOnly False True [],
     feature ''union.flower_reward'' [CHR 0xE5, CHR 0x85, CHR 0xAC, CHR 0xE4, CHR 0xBC, CHR 0x9A, CHR 0xE5, CHR 0x88, CHR 0x86, CHR 0xE4, CHR 0xBA, CHR 0xAB, CHR 0xE5, CHR 0xA5, CHR 0x96, CHR 0xE5, CHR 0x8A, CHR 0xB1] CategoryUnion ''union.flower.reward'' ''claim''
        PlanStatusManaged True False [],
     feature ''union.flower_take'' [CHR 0xE5, CHR 0x85, CHR 0xAC, CHR 0xE4, CHR 0xBC, CHR 0x9A, CHR 0xE6, CHR 0x91, CHR 0xB8, CHR 0xE8, CHR 0x8A, CHR 0xB1] CategoryUnion ''union.flower.take'' ''take''
        PlanStatusManaged True False [],
     feature ''union.race'' [CHR 0xE5, CHR 0x85, CHR 0xAC, CHR 0xE4, CHR 0xBC, CHR 0x9A, CHR 0xE7, CHR 0xAB, CHR 0x9E, CHR 0xE8, CHR 0xB5, CHR 0x9B] CategoryRace ''union.race'' ''race''
        PlanStatusSyncOnly False True [],
     feature ''union.race.enter'' [CHR 0xE5, CHR 0x85, CHR 0xAC, CHR 0xE4, CHR 0xBC, CHR 0x9A, CHR 0xE7, CHR 0xAB, CHR 0x9E, CHR 0xE8, CHR 0xB5, CHR 0x9B, CHR 0xE8, CHR 0xBF, CHR 0x9B, CHR 0xE5, CHR 0x85, CHR 0xA5] CategoryRace ''union.race.enter'' ''enter''
        PlanStatusManaged True False [],
     feature ''union.membership.sync'' [CHR 0xE5, CHR 0x85, CHR 0xAC, CHR 0xE4, CHR 0xBC, CHR 0x9A, CHR 0xE8, CHR 0xBA, CHR 0xAB, CHR 0xE4, CHR 0xBB, CHR 0xBD, CHR 0xE5, CHR 0x90, CHR 0x8C, CHR 0xE6, CHR 0xAD, CHR 0xA5] CategoryUnion ''union.membership.sync'' ''sync''
        PlanStatusManaged True False [],
     feature ''union.race.sync'' [CHR 0xE5, CHR 0x85, CHR 0xAC, CHR 0xE4, CHR 0xBC, CHR 0x9A, CHR 0xE7, CHR 0xAB, CHR 0x9E, CHR 0xE8, CHR 0xB5, CHR 0x9B, CHR 0xE4, CHR 0xBB, CHR 0xBB, CHR 0xE5, CHR 0x8A, CHR 0xA1, CHR 0xE5, CHR 0x90, CHR 0x8C, CHR 0xE6, CHR 0xAD, CHR 0xA5] CategoryRace ''union.race.sync'' ''sync''
        PlanStatusManaged True False [],
     feature ''union.race.take'' [CHR 0xE5, CHR 0x85, CHR 0xAC, CHR 0xE4, CHR 0xBC, CHR 0x9A, CHR 0xE7, CHR 0xAB, CHR 0x9E, CHR 0xE8, CHR 0xB5, CHR 0x9B, CHR 0xE6, CHR 0x8E, CHR 0xA5, CHR 0xE4, CHR 0xBB, CHR 0xBB, CHR 0xE5, CHR 0x8A, CHR 0xA1] CategoryRace ''union.race.take'' ''take''
        PlanStatusManaged True False [],
     feature ''union.race.progress'' [CHR 0xE5, CHR 0x85, CHR 0xAC, CHR 0xE4, CHR 0xBC, CHR 0x9A, CHR 0xE7, CHR 0xAB, CHR 0x9E, CHR 0xE8, CHR 0xB5, CHR 0x9B, CHR 0xE8, CHR 0xBF, CHR 0x9B, CHR 0xE8, CHR 0xA1, CHR 0x8C, CHR 0xE4, CHR 0xBB, CHR 0xBB, CHR 0xE5, CHR 0x8A, CHR 0xA1] CategoryRace ''union.race'' ''progress''
        PlanStatusManaged True False [],
     feature ''union.race.finish'' [CHR 0xE5, CHR 0x85, CHR 0xAC, CHR 0xE4, CHR 0xBC, CHR 0x9A, CHR 0xE7, CHR 0xAB, CHR 0x9E, CHR 0xE8, CHR 0xB5, CHR 0x9B, CHR 0xE4, CHR 0xBA, CHR 0xA4, CHR 0xE4, CHR 0xBB, CHR 0xBB, CHR 0xE5, CHR 0x8A, CHR 0xA1] CategoryRace ''union.race.finish'' ''finish''
        PlanStatusManaged True False [],
     feature ''union.race.upgrade'' [CHR 0xE5, CHR 0x85, CHR 0xAC, CHR 0xE4, CHR 0xBC, CHR 0x9A, CHR 0xE7, CHR 0xAB, CHR 0x9E, CHR 0xE8, CHR 0xB5, CHR 0x9B, CHR 0xE5, CHR 0x8D, CHR 0x87, CHR 0xE7, CHR 0xBA, CHR 0xA7, CHR 0xE4, CHR 0xBB, CHR 0xBB, CHR 0xE5, CHR 0x8A, CHR 0xA1] CategoryRace ''union.race.upgrade'' ''upgrade''
        PlanStatusManaged True False [],
     feature ''union.race.delete'' [CHR 0xE5, CHR 0x85, CHR 0xAC, CHR 0xE4, CHR 0xBC, CHR 0x9A, CHR 0xE7, CHR 0xAB, CHR 0x9E, CHR 0xE8, CHR 0xB5, CHR 0x9B, CHR 0xE5, CHR 0x88, CHR 0xA0, CHR 0xE9, CHR 0x99, CHR 0xA4, CHR 0xE4, CHR 0xBD, CHR 0x8E, CHR 0xE5, CHR 0x88, CHR 0x86, CHR 0xE4, CHR 0xBB, CHR 0xBB, CHR 0xE5, CHR 0x8A, CHR 0xA1] CategoryRace ''union.race.delete'' ''delete''
        PlanStatusManaged True False [],
     feature ''union.race.giveUp'' [CHR 0xE5, CHR 0x85, CHR 0xAC, CHR 0xE4, CHR 0xBC, CHR 0x9A, CHR 0xE7, CHR 0xAB, CHR 0x9E, CHR 0xE8, CHR 0xB5, CHR 0x9B, CHR 0xE6, CHR 0x94, CHR 0xBE, CHR 0xE5, CHR 0xBC, CHR 0x83, CHR 0xE4, CHR 0xBB, CHR 0xBB, CHR 0xE5, CHR 0x8A, CHR 0xA1] CategoryRace ''union.race.giveUp'' ''giveUp''
        PlanStatusManaged True False [],
     feature ''union.land'' [CHR 0xE5, CHR 0x85, CHR 0xAC, CHR 0xE4, CHR 0xBC, CHR 0x9A, CHR 0xE5, CHR 0x9C, CHR 0x9F, CHR 0xE5, CHR 0x9C, CHR 0xB0] CategoryUnion ''union.land'' ''run''
        PlanStatusSyncOnly False True [],
     feature ''union.land_sync'' [CHR 0xE5, CHR 0x85, CHR 0xAC, CHR 0xE4, CHR 0xBC, CHR 0x9A, CHR 0xE5, CHR 0x9C, CHR 0x9F, CHR 0xE5, CHR 0x9C, CHR 0xB0, CHR 0xE5, CHR 0x90, CHR 0x8C, CHR 0xE6, CHR 0xAD, CHR 0xA5] CategoryUnion ''union.land'' ''sync''
        PlanStatusManaged True False [],
     feature ''union.land_harvest'' [CHR 0xE5, CHR 0x85, CHR 0xAC, CHR 0xE4, CHR 0xBC, CHR 0x9A, CHR 0xE5, CHR 0x9C, CHR 0x9F, CHR 0xE5, CHR 0x9C, CHR 0xB0, CHR 0xE6, CHR 0x94, CHR 0xB6, CHR 0xE8, CHR 0x8E, CHR 0xB7] CategoryUnion ''union.land.harvest'' ''harvest''
        PlanStatusManaged True False [],
     feature ''union.land_plant'' [CHR 0xE5, CHR 0x85, CHR 0xAC, CHR 0xE4, CHR 0xBC, CHR 0x9A, CHR 0xE5, CHR 0x9C, CHR 0x9F, CHR 0xE5, CHR 0x9C, CHR 0xB0, CHR 0xE7, CHR 0xA7, CHR 0x8D, CHR 0xE6, CHR 0xA4, CHR 0x8D] CategoryUnion ''union.land.plant'' ''plant''
        PlanStatusManaged True False [],
     feature ''union.red_packet'' [CHR 0xE5, CHR 0x85, CHR 0xAC, CHR 0xE4, CHR 0xBC, CHR 0x9A, CHR 0xE7, CHR 0xBA, CHR 0xA2, CHR 0xE5, CHR 0x8C, CHR 0x85] CategoryUnion ''union.red_packet'' ''claim''
        PlanStatusAdapterMissing False False [[CHR 0xE7, CHR 0xBC, CHR 0xBA, CHR 0xE5, CHR 0xB0, CHR 0x91, CHR 0xE5, CHR 0x85, CHR 0xAC, CHR 0xE4, CHR 0xBC, CHR 0x9A, CHR 0xE7, CHR 0xBA, CHR 0xA2, CHR 0xE5, CHR 0x8C, CHR 0x85, CHR 0xE6, CHR 0x89, CHR 0xA7, CHR 0xE8, CHR 0xA1, CHR 0x8C, CHR 0x20, CHR 0x61, CHR 0x64, CHR 0x61, CHR 0x70, CHR 0x74, CHR 0x65, CHR 0x72]],
     feature ''union.forest'' [CHR 0xE8, CHR 0x83, CHR 0xBD, CHR 0xE9, CHR 0x87, CHR 0x8F, CHR 0xE6, CHR 0xA3, CHR 0xAE, CHR 0xE6, CHR 0x9E, CHR 0x97] CategoryUnion ''union.forest'' ''collect''
        PlanStatusManaged True False [],
     feature ''activity.actCyclicStory.enter'' [CHR 0xE8, CHR 0x8E, CHR 0xB3, CHR 0xE8, CHR 0x8A, CHR 0xB1, CHR 0xE7, CHR 0xBA, CHR 0xAA, CHR 0xE9, CHR 0x97, CHR 0xBB, CHR 0xE5, CHR 0x90, CHR 0x8C, CHR 0xE6, CHR 0xAD, CHR 0xA5] CategoryActivity ''activity.actCyclicStory'' ''enter''
        PlanStatusManaged True False [],
     feature ''activity.actCyclicStory.claim_order'' [CHR 0xE8, CHR 0x8E, CHR 0xB3, CHR 0xE8, CHR 0x8A, CHR 0xB1, CHR 0xE7, CHR 0xBA, CHR 0xAA, CHR 0xE9, CHR 0x97, CHR 0xBB, CHR 0xE8, CHR 0xAE, CHR 0xA2, CHR 0xE5, CHR 0x8D, CHR 0x95, CHR 0xE5, CHR 0xA5, CHR 0x96, CHR 0xE5, CHR 0x8A, CHR 0xB1] CategoryActivity ''activity.actCyclicStory'' ''claim_order''
        PlanStatusManaged True False [],
     feature ''activity.actCyclicStory.claim_progress'' [CHR 0xE8, CHR 0x8E, CHR 0xB3, CHR 0xE8, CHR 0x8A, CHR 0xB1, CHR 0xE7, CHR 0xBA, CHR 0xAA, CHR 0xE9, CHR 0x97, CHR 0xBB, CHR 0xE7, CHR 0xA7, CHR 0xAF, CHR 0xE5, CHR 0x88, CHR 0x86, CHR 0xE5, CHR 0xA5, CHR 0x96, CHR 0xE5, CHR 0x8A, CHR 0xB1] CategoryActivity ''activity.actCyclicStory'' ''claim_progress''
        PlanStatusManaged True False [],
     activityFeature ''actCyclicStory'' [CHR 0xE8, CHR 0x8E, CHR 0xB3, CHR 0xE8, CHR 0x8A, CHR 0xB1, CHR 0xE7, CHR 0xBA, CHR 0xAA, CHR 0xE9, CHR 0x97, CHR 0xBB] PlanStatusManaged,
     activityFeature ''actDuanWu'' [CHR 0xE9, CHR 0xBE, CHR 0x99, CHR 0xE8, CHR 0x88, CHR 0x9F, CHR 0xE7, CHR 0xAB, CHR 0x9E, CHR 0xE6, CHR 0xB8, CHR 0xA1] PlanStatusAdapterMissing,
     activityFeature ''actElim'' [CHR 0xE8, CHR 0x8A, CHR 0xB1, CHR 0xE6, CHR 0xBC, CHR 0xBE, CHR 0xE7, CHR 0x89, CHR 0xA9, CHR 0xE8, CHR 0xAF, CHR 0xAD] PlanStatusSyncOnly,
     activityFeature ''actMerge2'' [CHR 0xE7, CHR 0x94, CHR 0xB0, CHR 0xE5, CHR 0x9B, CHR 0xAD, CHR 0xE5, CHR 0xA5, CHR 0x87, CHR 0xE8, CHR 0xB6, CHR 0xA3] PlanStatusSyncOnly,
     activityFeature ''actSpool'' [CHR 0xE6, CHR 0xA2, CHR 0xB3, CHR 0xE4, CHR 0xB8, CHR 0x9D, CHR 0xE5, CHR 0xBC, CHR 0x95, CHR 0xE7, CHR 0xBA, CHR 0xBF] PlanStatusSyncOnly,
     activityFeature ''cyclicNote'' [CHR 0xE8, CHR 0x8A, CHR 0xB1, CHR 0xE7, CHR 0xAC, CHR 0xBA, CHR 0xE9, CHR 0x9B, CHR 0x86, CHR 0xE8, CHR 0x8A, CHR 0xB3] PlanStatusManaged,
     activityFeature ''fishFun'' [CHR 0xE9, CHR 0xB1, CHR 0xBC, CHR 0xE4, CHR 0xB9, CHR 0x90, CHR 0xE6, CHR 0x97, CHR 0xA0, CHR 0xE7, CHR 0xA9, CHR 0xB7] PlanStatusAdapterMissing,
     activityFeature ''fishMerge'' [CHR 0xE4, CHR 0xB8, CHR 0xB0, CHR 0xE4, CHR 0xBB, CHR 0x93, CHR 0xE9, CHR 0xB1, CHR 0xBC, CHR 0xE5, CHR 0xB9, CHR 0xB2] PlanStatusAdapterMissing,
     activityFeature ''lanternFestival'' [CHR 0xE5, CHR 0x85, CHR 0x83, CHR 0xE5, CHR 0xAE, CHR 0xB5, CHR 0xE7, CHR 0x81, CHR 0xAF, CHR 0xE8, CHR 0xB0, CHR 0x9C] PlanStatusAdapterMissing,
     activityFeature ''magicBubble'' [CHR 0xE5, CHR 0xA5, CHR 0x87, CHR 0xE5, CHR 0xA6, CHR 0x99, CHR 0xE6, CHR 0xB3, CHR 0xA1, CHR 0xE6, CHR 0xB3, CHR 0xA1] PlanStatusAdapterMissing,
     activityFeature ''moneyTree'' [CHR 0xE6, CHR 0x91, CHR 0x87, CHR 0xE9, CHR 0x92, CHR 0xB1, CHR 0xE6, CHR 0xA0, CHR 0x91] PlanStatusSyncOnly,
     activityFeature ''recvLuck'' [CHR 0xE8, CHR 0xBF, CHR 0x8E, CHR 0xE6, CHR 0x96, CHR 0xB0, CHR 0xE6, CHR 0x8E, CHR 0xA5, CHR 0xE7, CHR 0xA6, CHR 0x8F] PlanStatusAdapterMissing,
     activityFeature ''redPacket'' [CHR 0xE7, CHR 0xBA, CHR 0xA2, CHR 0xE5, CHR 0x8C, CHR 0x85, CHR 0xE9, CHR 0x9B, CHR 0xA8] PlanStatusSyncOnly,
     activityFeature ''yzCall'' [CHR 0xE4, CHR 0xB8, CHR 0xBA, CHR 0xE7, CHR 0xB4, CHR 0xAB, CHR 0xE6, CHR 0x89, CHR 0x93, CHR 0x20, CHR 0x63, CHR 0x61, CHR 0x6C, CHR 0x6C] PlanStatusAdapterMissing,
     activityFeature ''zooGameElim'' [CHR 0xE5, CHR 0x8A, CHR 0xA8, CHR 0xE7, CHR 0x89, CHR 0xA9, CHR 0xE6, CHR 0xB6, CHR 0x88, CHR 0xE9, CHR 0x99, CHR 0xA4] PlanStatusSyncOnly]"

definition featureKey :: "string \<Rightarrow> string \<Rightarrow> string" where
  "featureKey domain action = domain @ CHR 0x00 # action"

definition index_features :: "feature_spec list \<Rightarrow> (string, feature_spec) gomap" where
  "index_features specs =
     foldl (\<lambda>out spec. AList.update (featureKey (fs_Domain spec) (fs_Action spec)) spec out) [] specs"

definition buildFeatureIndex :: "(string, feature_spec) gomap" where
  "buildFeatureIndex = index_features featureSpecs"

definition featureByDomainAction :: "string \<Rightarrow> feature_spec option" where
  "featureByDomainAction key = map_of buildFeatureIndex key"

definition FeatureCatalog :: "feature_spec list" where
  "FeatureCatalog = featureSpecs"

definition laneForDomain :: "string \<Rightarrow> string" where
  "laneForDomain domain =
     (if domain \<in> {''farm.harvest'', ''farm.plant'', ''farm.water''} then LaneFarm else LaneSide)"

text \<open>
  \<open>enrichPlannedOp\<close>: the lane, then the catalogue entry of the operation's domain and action for
  every field the caller left at its zero value, then the defaults of an unregistered operation.
\<close>

definition apply_spec :: "feature_spec \<Rightarrow> planned_op \<Rightarrow> planned_op" where
  "apply_spec spec op =
     op\<lparr>op_FeatureID := (if op_FeatureID op = [] then fs_ID spec else op_FeatureID op),
        op_Label := (if op_Label op = [] then fs_Label spec else op_Label op),
        op_Status := (if op_Status op = [] then fs_Status spec else op_Status op),
        op_Executable := (if \<not> op_Executable op then fs_Executable spec else op_Executable op),
        op_SyncOnly := (if \<not> op_SyncOnly op then fs_SyncOnly spec else op_SyncOnly op),
        op_BlockedReasons :=
          (if op_BlockedReasons op = [] \<and> fs_BlockedReasons spec \<noteq> [] then fs_BlockedReasons spec
           else op_BlockedReasons op)\<rparr>"

definition enrichPlannedOp :: "planned_op \<Rightarrow> planned_op" where
  "enrichPlannedOp op0 =
     (let op1 = (if op_Lane op0 = [] then op0\<lparr>op_Lane := laneForDomain (op_Domain op0)\<rparr> else op0);
          op2 = (case featureByDomainAction (featureKey (op_Domain op1) (op_Action op1)) of
                   None \<Rightarrow> op1 | Some spec \<Rightarrow> apply_spec spec op1);
          op3 = (if op_FeatureID op2 = [] then op2\<lparr>op_FeatureID := op_Domain op2\<rparr> else op2);
          op4 = (if op_Label op3 = [] then op3\<lparr>op_Label := op_Domain op3\<rparr> else op3)
      in if op_Status op4 = [] then
           if has_prefix (op_Kind op4) ''usrLand.'' then
             op4\<lparr>op_Status := PlanStatusReady, op_Executable := True\<rparr>
           else
             op4\<lparr>op_Status := PlanStatusAdapterMissing,
                 op_BlockedReasons := op_BlockedReasons op4 @ [lit_no_feature]\<rparr>
         else op4)"

section \<open>The index\<close>

definition spec_key :: "feature_spec \<Rightarrow> string" where
  "spec_key spec = featureKey (fs_Domain spec) (fs_Action spec)"

text \<open>A lookup finds the last entry of the table with the key.\<close>

lemma map_of_index_fold:
  "map_of (foldl (\<lambda>out spec. AList.update (featureKey (fs_Domain spec) (fs_Action spec)) spec out)
             acc specs) k =
   (case List.find (\<lambda>spec. spec_key spec = k) (rev specs) of
      None \<Rightarrow> map_of acc k | Some spec \<Rightarrow> Some spec)"
proof (induction specs arbitrary: acc)
  case Nil
  then show ?case by simp
next
  case (Cons spec specs)
  show ?case
    by (simp add: Cons find_append update_conv' spec_key_def split: option.splits)
qed

lemma featureByDomainAction_find [code]:
  "featureByDomainAction k = List.find (\<lambda>spec. spec_key spec = k) (rev featureSpecs)"
  by (simp add: featureByDomainAction_def buildFeatureIndex_def index_features_def
      map_of_index_fold split: option.splits)

lemma featureKey_inj:
  assumes "featureKey d a = featureKey d' a'" "CHR 0x00 \<notin> set d" "CHR 0x00 \<notin> set d'"
  shows "d = d' \<and> a = a'"
  using assms
proof (induction d arbitrary: d')
  case Nil
  then show ?case by (cases d') (auto simp: featureKey_def)
next
  case (Cons c d)
  then show ?case by (cases d') (auto simp: featureKey_def)
qed

section \<open>What the catalogue promises\<close>

text \<open>An entry that is executable is offered with a status that lets it run, and carries no reason.\<close>

definition spec_runnable :: "feature_spec \<Rightarrow> bool" where
  "spec_runnable spec \<longleftrightarrow>
     fs_Executable spec \<and> \<not> fs_SyncOnly spec \<and> fs_BlockedReasons spec = [] \<and>
     fs_Status spec \<noteq> PlanStatusAdapterMissing \<and> fs_Status spec \<noteq> PlanStatusBlocked"

definition spec_consistent :: "feature_spec \<Rightarrow> bool" where
  "spec_consistent spec \<longleftrightarrow>
     fs_Status spec \<noteq> [] \<and> fs_ID spec \<noteq> [] \<and> fs_Domain spec \<noteq> [] \<and>
     (fs_Executable spec \<longrightarrow> spec_runnable spec) \<and>
     (fs_Status spec = PlanStatusAdapterMissing \<or> fs_Status spec = PlanStatusBlocked \<longrightarrow>
        fs_BlockedReasons spec \<noteq> [])"

text \<open>The shapes the table's entries take.\<close>

lemma spec_consistent_rules:
  "spec_consistent (feature (i # is) l c (d # ds) a PlanStatusReady True False [])"
  "spec_consistent (feature (i # is) l c (d # ds) a PlanStatusManaged True False [])"
  "spec_consistent (feature (i # is) l c (d # ds) a PlanStatusManaged False False [])"
  "spec_consistent (feature (i # is) l c (d # ds) a PlanStatusSyncOnly False True [])"
  "spec_consistent (feature (i # is) l c (d # ds) a PlanStatusAdapterMissing False False (r # rs))"
  "spec_consistent (feature (i # is) l c (d # ds) a PlanStatusBlocked False False (r # rs))"
  "spec_consistent (activityFeature name l PlanStatusManaged)"
  "spec_consistent (activityFeature name l PlanStatusSyncOnly)"
  "spec_consistent (activityFeature name l PlanStatusAdapterMissing)"
  by (simp_all add: spec_consistent_def spec_runnable_def feature_def activityFeature_def)

lemma list_all_Cons_eq: "list_all P (x # xs) = (P x \<and> list_all P xs)"
  by simp

lemma list_all_Nil_eq: "list_all P [] = True"
  by simp

lemma featureSpecs_consistent: "list_all spec_consistent featureSpecs"
  unfolding featureSpecs_def list_all_Cons_eq list_all_Nil_eq
  by (intro conjI spec_consistent_rules TrueI)

lemma featureByDomainAction_mem:
  assumes "featureByDomainAction k = Some spec"
  shows "spec \<in> set featureSpecs \<and> spec_key spec = k"
  using find_SomeD [OF assms [unfolded featureByDomainAction_find]] by simp

lemma featureByDomainAction_consistent:
  assumes "featureByDomainAction k = Some spec"
  shows "spec_consistent spec"
proof -
  have "spec \<in> set featureSpecs" using featureByDomainAction_mem [OF assms] by blast
  with featureSpecs_consistent show ?thesis by (simp only: list_all_iff)
qed

text \<open>Entries the planner's components look up.\<close>

lemma lookup_harvest:
  "featureByDomainAction (featureKey ''farm.harvest'' ''harvest'') =
     Some (feature ''plant.elves_night_harvest''
       [CHR 0xE5, CHR 0xA4, CHR 0x9C, CHR 0xE9, CHR 0x97, CHR 0xB4, CHR 0xE8, CHR 0x8A, CHR 0xB1,
        CHR 0xE7, CHR 0x81, CHR 0xB5, CHR 0xE6, CHR 0x94, CHR 0xB6, CHR 0xE5, CHR 0x8F, CHR 0x96]
       CategoryPlant ''farm.harvest'' ''harvest'' PlanStatusManaged True False [])"
  by code_simp

definition lookup_runnable :: "string \<Rightarrow> string \<Rightarrow> bool" where
  "lookup_runnable domain action =
     (case featureByDomainAction (featureKey domain action) of
        None \<Rightarrow> False | Some spec \<Rightarrow> spec_runnable spec)"

lemma lookup_runnable_race:
  "lookup_runnable ''union.race.take'' ''take''"
  "lookup_runnable ''union.race.sync'' ''sync''"
  "lookup_runnable ''union.race.enter'' ''enter''"
  "lookup_runnable ''union.race.giveUp'' ''giveUp''"
  "lookup_runnable ''union.race.finish'' ''finish''"
  "lookup_runnable ''union.race.delete'' ''delete''"
  "lookup_runnable ''union.race.upgrade'' ''upgrade''"
  by code_simp+

text \<open>
  An operation built from scratch (no status, not executable, no reasons) leaves
  \<open>enrichPlannedOp\<close> with a status, and it can run exactly when the catalogue says so or when it
  is an unregistered garden operation.
\<close>

definition fresh_op :: "planned_op \<Rightarrow> bool" where
  "fresh_op op \<longleftrightarrow>
     op_Status op = [] \<and> \<not> op_Executable op \<and> \<not> op_SyncOnly op \<and> op_BlockedReasons op = []"

definition op_ready :: "planned_op \<Rightarrow> bool" where
  "op_ready op \<longleftrightarrow>
     op_Executable op \<and> \<not> op_SyncOnly op \<and> op_Status op \<noteq> PlanStatusAdapterMissing \<and>
     op_Status op \<noteq> PlanStatusBlocked \<and> op_BlockedReasons op = []"

lemma enrich_fresh:
  assumes "fresh_op op"
  shows "op_ready (enrichPlannedOp op) \<longleftrightarrow>
     (case featureByDomainAction (featureKey (op_Domain op) (op_Action op)) of
        None \<Rightarrow> has_prefix (op_Kind op) ''usrLand.''
      | Some spec \<Rightarrow> spec_runnable spec)"
proof (cases "featureByDomainAction (featureKey (op_Domain op) (op_Action op))")
  case None
  with assms show ?thesis
    by (auto simp: enrichPlannedOp_def Let_def fresh_op_def op_ready_def)
next
  case (Some spec)
  then have "spec_consistent spec" by (rule featureByDomainAction_consistent)
  with Some assms show ?thesis
    by (auto simp: enrichPlannedOp_def Let_def fresh_op_def op_ready_def apply_spec_def
        spec_consistent_def spec_runnable_def)
qed

end
