(* ===== verification/Ops.thy ===== *)
theory Ops
  imports Features "HOL-Library.List_Lexorder" "HOL-Library.Char_ord" "HOL-Library.Product_Lexorder"
begin

text \<open>
  \<open>internal/automation/ops.go\<close>: the constructors of planned operations, their identifiers, and the
  order of the execution queue.  Go compares strings bytewise, which is the lexicographic order of
  \<open>List_Lexorder\<close> and \<open>Char_ord\<close>.
\<close>

definition int32Set :: "int list \<Rightarrow> int set" where
  "int32Set ids = set (filter (\<lambda>i. 0 < i) ids)"

definition demandID :: "string \<Rightarrow> string \<Rightarrow> string \<Rightarrow> string \<Rightarrow> int \<Rightarrow> string" where
  "demandID goalID entityID source kind itemID =
     goalID @ '':'' @ entityID @ '':'' @ source @ '':'' @ kind @ '':'' @ show_int itemID"

definition demandByID :: "demand list \<Rightarrow> string \<Rightarrow> demand option" where
  "demandByID demands i = List.find (\<lambda>d. dem_ID d = i) demands"

definition operationID :: "string \<Rightarrow> int list \<Rightarrow> int \<Rightarrow> int \<Rightarrow> int \<Rightarrow> string" where
  "operationID kind landIDs flowerID targetID itemID =
     str_join ''|''
       ([kind]
        @ (if targetID \<noteq> 0 then [''target='' @ show_int targetID] else [])
        @ (if itemID \<noteq> 0 then [''item='' @ show_int itemID] else [])
        @ (if flowerID \<noteq> 0 then [''flower='' @ show_int flowerID] else [])
        @ (if landIDs \<noteq> [] then [''lands='' @ str_join '','' (map show_int landIDs)] else []))"

definition landOp ::
  "string \<Rightarrow> string \<Rightarrow> string \<Rightarrow> string \<Rightarrow> int \<Rightarrow> int list \<Rightarrow> int \<Rightarrow> string \<Rightarrow> string \<Rightarrow> planned_op" where
  "landOp kind domain action reason priority landIDs flowerID goalID dID =
     enrichPlannedOp (zero_op\<lparr>
       op_OperationID := operationID kind landIDs flowerID 0 0,
       op_GoalID := goalID, op_DemandID := dID, op_Kind := kind, op_Lane := laneForDomain domain,
       op_Category := CategoryPlant, op_Domain := domain, op_Action := action, op_Reason := reason,
       op_Priority := priority, op_LandIDs := landIDs, op_FlowerID := flowerID\<rparr>)"

definition markerOp :: "string \<Rightarrow> string \<Rightarrow> string \<Rightarrow> string \<Rightarrow> int \<Rightarrow> planned_op" where
  "markerOp category domain action reason priority =
     enrichPlannedOp (zero_op\<lparr>
       op_OperationID := operationID (domain @ ''.'' @ action) [] 0 0 0,
       op_Kind := domain @ ''.'' @ action, op_Lane := laneForDomain domain,
       op_Category := category, op_Domain := domain, op_Action := action, op_Reason := reason,
       op_Priority := priority\<rparr>)"

definition domainOp ::
  "string \<Rightarrow> goal \<Rightarrow> string \<Rightarrow> string \<Rightarrow> string \<Rightarrow> int \<Rightarrow> int \<Rightarrow> int \<Rightarrow> int \<Rightarrow> planned_op" where
  "domainOp kind goal domain action reason priority targetID itemID cnt =
     enrichPlannedOp (zero_op\<lparr>
       op_OperationID := operationID kind [] 0 targetID itemID,
       op_GoalID := goal_ID goal, op_Kind := kind, op_Lane := laneForDomain domain,
       op_Category := goal_Category goal, op_Domain := domain, op_Action := action,
       op_Reason := reason, op_Priority := priority, op_TargetID := targetID,
       op_ItemID := itemID, op_Count := cnt\<rparr>)"

text \<open>The source's \<open>op\<close>: an operation in its goal's own domain.\<close>

definition goal_op :: "string \<Rightarrow> goal \<Rightarrow> string \<Rightarrow> string \<Rightarrow> int \<Rightarrow> int \<Rightarrow> int \<Rightarrow> int \<Rightarrow> planned_op" where
  "goal_op kind goal action reason priority targetID itemID cnt =
     enrichPlannedOp (zero_op\<lparr>
       op_OperationID := operationID kind [] 0 targetID itemID,
       op_GoalID := goal_ID goal, op_Kind := kind, op_Lane := laneForDomain (goal_Domain goal),
       op_Category := goal_Category goal, op_Domain := goal_Domain goal, op_Action := action,
       op_Reason := reason, op_Priority := priority, op_TargetID := targetID,
       op_ItemID := itemID, op_Count := cnt\<rparr>)"

section \<open>The execution order\<close>

definition IsUrgentRaceOp :: "planned_op \<Rightarrow> bool" where
  "IsUrgentRaceOp op \<longleftrightarrow> op_PreemptFarm op"

definition isPlantOperation :: "string \<Rightarrow> bool" where
  "isPlantOperation kind \<longleftrightarrow> kind = RPCUsrLandPlant \<or> kind = RPCUsrLandPlantBatch"

definition laneRank :: "string \<Rightarrow> int" where
  "laneRank lane = (if lane = LaneFarm then 0 else if lane = LaneSide \<or> lane = [] then 1 else 2)"

definition categoryRank :: "string \<Rightarrow> int" where
  "categoryRank category =
     (if category = CategoryRace then 0
      else if category = CategoryPlant then 1
      else if category \<in> {CategoryOrder, CategoryFlowerArt, CategoryWater} then 2
      else if category = CategoryBasic then 3
      else if category = CategoryUnion then 4
      else if category = CategoryActivity then 5
      else if category = CategoryAccount then 6
      else 9)"

definition operationLaneRank :: "planned_op \<Rightarrow> int" where
  "operationLaneRank op =
     (if IsUrgentRaceOp op then - 1
      else if op_Lane op = LaneFarm \<and> op_GoalID op = GoalAutoReplant \<and>
              has_prefix (op_DemandID op) (cyclicNoteActionGoal @ '':'')
      then laneRank LaneSide
      else laneRank (op_Lane op))"

definition operationComesBefore :: "planned_op \<Rightarrow> planned_op \<Rightarrow> bool" where
  "operationComesBefore left right \<longleftrightarrow>
     (if operationLaneRank left \<noteq> operationLaneRank right
      then operationLaneRank left < operationLaneRank right
      else if op_Priority left \<noteq> op_Priority right then op_Priority left > op_Priority right
      else if op_Category left \<noteq> op_Category right
      then categoryRank (op_Category left) < categoryRank (op_Category right)
      else if op_Domain left \<noteq> op_Domain right then op_Domain left < op_Domain right
      else if op_GoalID left = GoalAutoReplant \<and> op_GoalID right = GoalAutoReplant \<and>
              isPlantOperation (op_Kind left) \<and> isPlantOperation (op_Kind right)
      then False
      else op_OperationID left < op_OperationID right)"

definition sortOperations :: "planned_op list \<Rightarrow> planned_op list" where
  "sortOperations ops = stable_sort operationComesBefore ops"

section \<open>Contracts of the order\<close>

text \<open>Lane rank, then descending priority, is respected by every comparison.\<close>

definition queue_key :: "planned_op \<Rightarrow> int \<times> int" where
  "queue_key op = (operationLaneRank op, - op_Priority op)"

interpretation queue: keyed_order queue_key operationComesBefore
proof
  fix x y :: planned_op
  show "queue_key x < queue_key y \<Longrightarrow> operationComesBefore x y"
    by (auto simp: queue_key_def operationComesBefore_def)
  show "operationComesBefore x y \<Longrightarrow> queue_key x \<le> queue_key y"
    by (auto simp: queue_key_def operationComesBefore_def split: if_splits)
qed

text \<open>
  Below that key the comparator is a strict weak order on operations whose category has a rank of
  its own and that are not planting batches of the fallback goal.
\<close>

definition ranked_categories :: "string set" where
  "ranked_categories = {CategoryRace, CategoryPlant, CategoryOrder, CategoryBasic, CategoryUnion,
     CategoryActivity, CategoryAccount}"

lemma categoryRank_values:
  "categoryRank CategoryRace = 0" "categoryRank CategoryPlant = 1"
  "categoryRank CategoryOrder = 2" "categoryRank CategoryBasic = 3"
  "categoryRank CategoryUnion = 4" "categoryRank CategoryActivity = 5"
  "categoryRank CategoryAccount = 6"
  by (simp_all add: categoryRank_def)

definition ranked_op :: "planned_op \<Rightarrow> bool" where
  "ranked_op op \<longleftrightarrow>
     op_Category op \<in> ranked_categories \<and>
     \<not> (op_GoalID op = GoalAutoReplant \<and> isPlantOperation (op_Kind op))"

definition full_key :: "planned_op \<Rightarrow> int \<times> int \<times> int \<times> string \<times> string" where
  "full_key op = (operationLaneRank op, - op_Priority op, categoryRank (op_Category op),
     op_Domain op, op_OperationID op)"

lemma categoryRank_inj:
  assumes "ranked_op x" "ranked_op y" "categoryRank (op_Category x) = categoryRank (op_Category y)"
  shows "op_Category x = op_Category y"
proof -
  have "\<forall>c \<in> ranked_categories. \<forall>d \<in> ranked_categories. categoryRank c = categoryRank d \<longrightarrow> c = d"
    unfolding ranked_categories_def by (simp add: categoryRank_values)
  with assms show ?thesis
    by (auto simp: ranked_op_def)
qed

lemma operationComesBefore_full_key:
  assumes "ranked_op x" "ranked_op y"
  shows "operationComesBefore x y \<longleftrightarrow> full_key x < full_key y"
proof -
  have "op_Category x = op_Category y \<longleftrightarrow> categoryRank (op_Category x) = categoryRank (op_Category y)"
    using categoryRank_inj [OF assms] by auto
  moreover have "\<not> (op_GoalID x = GoalAutoReplant \<and> op_GoalID y = GoalAutoReplant \<and>
      isPlantOperation (op_Kind x) \<and> isPlantOperation (op_Kind y))"
    using assms by (auto simp: ranked_op_def)
  ultimately show ?thesis
    by (auto simp: operationComesBefore_def full_key_def)
qed

interpretation ranked: weak_order "Collect ranked_op" operationComesBefore
  by unfold_locales (auto simp: operationComesBefore_full_key)

end
