(* ===== verification/Water.thy ===== *)
theory Water
  imports GameState
begin

text \<open>
  Water drops (\<open>internal/state/resources.go\<close>): item 7 recovers one drop per interval up to the
  capacity, and drops committed to an in-flight watering request are withheld from the planner.
  The interval comes from the first \<open>restore\<close> entry of item 7 in the catalogue, which is the
  parameter \<open>restore\<close> (\<open>None\<close> when the item is absent).
\<close>

definition waterDropRestoreIntervalMs :: "int list option \<Rightarrow> int" where
  "waterDropRestoreIntervalMs restore =
     (case restore of
        Some (cnt # _) \<Rightarrow> if 0 < cnt then cnt else 120001
      | _ \<Rightarrow> 120001)"

definition currentWaterDrops :: "game_state \<Rightarrow> int" where
  "currentWaterDrops s = (if gs_hasWaterDropsItem s then get_or 0 (gs_inventory s) 7 else 0)"

text \<open>Drops, next recovery timestamp, and how many drops have recovered since the last update.\<close>

definition projectedWaterDrops :: "int list option \<Rightarrow> time \<Rightarrow> game_state \<Rightarrow> int \<times> int \<times> int" where
  "projectedWaterDrops restore now s =
     (let current = currentWaterDrops s;
          nxt = gs_waterDropsNextMs s;
          total = gs_waterDropsTotal s;
          nowMs = to_unix_milli now;
          interval = waterDropRestoreIntervalMs restore
      in if \<not> gs_hasWaterDropsItem s \<or> nxt \<le> 0 then (current, nxt, 0)
         else if 0 < total \<and> total \<le> current then (current, 0, 0)
         else if nowMs < nxt then (current, nxt, 0)
         else if interval \<le> 0 then (current, nxt, 0)
         else
           let recover = (nowMs - nxt) div interval + 1
           in if 0 < total \<and> total - current \<le> 0 then (current, 0, 0)
              else
                let recover' = (if 0 < total \<and> recover > total - current then total - current
                                else recover);
                    current' = current + recover';
                    nxt' = nxt + recover' * interval
                in (current', if 0 < total \<and> total \<le> current' then 0 else nxt', recover'))"

definition WaterDrops :: "game_state \<Rightarrow> int \<times> int \<times> int" where
  "WaterDrops s = (currentWaterDrops s, gs_waterDropsTotal s, gs_waterDropsNextMs s)"

definition AvailableWaterDrops :: "int list option \<Rightarrow> time \<Rightarrow> game_state \<Rightarrow> int \<times> int \<times> int" where
  "AvailableWaterDrops restore now s =
     (case projectedWaterDrops restore now s of (drops, nextMs, _) \<Rightarrow>
        let current = drops - gs_waterDropsInFlight s
        in (if current < 0 then 0 else current, gs_waterDropsTotal s, nextMs))"

definition LockWaterDrops :: "int list option \<Rightarrow> int \<Rightarrow> time \<Rightarrow> game_state \<Rightarrow> game_state \<times> bool" where
  "LockWaterDrops restore n now s =
     (if n \<le> 0 then (s, True)
      else case projectedWaterDrops restore now s of (current, _, _) \<Rightarrow>
        if current - gs_waterDropsInFlight s < n then (s, False)
        else (s\<lparr>gs_waterDropsInFlight := gs_waterDropsInFlight s + n\<rparr>, True))"

definition ReleaseWaterDropsLock :: "int \<Rightarrow> game_state \<Rightarrow> game_state" where
  "ReleaseWaterDropsLock n s =
     (if n \<le> 0 then s
      else if gs_waterDropsInFlight s \<le> n then s\<lparr>gs_waterDropsInFlight := 0\<rparr>
      else s\<lparr>gs_waterDropsInFlight := gs_waterDropsInFlight s - n\<rparr>)"

definition RefreshWaterDrops :: "int list option \<Rightarrow> time \<Rightarrow> game_state \<Rightarrow> game_state \<times> bool" where
  "RefreshWaterDrops restore now s =
     (case projectedWaterDrops restore now s of (nxt, nextMs, recovered) \<Rightarrow>
        if recovered \<le> 0 then (s, False)
        else (s\<lparr>gs_inventory := AList.update 7 nxt (gs_inventory s),
                gs_waterDropsNextMs := nextMs\<rparr>, True))"

definition MarkWaterDropsExhausted :: "int list option \<Rightarrow> time \<Rightarrow> game_state \<Rightarrow> game_state" where
  "MarkWaterDropsExhausted restore now s =
     (let nowMs = to_unix_milli now;
          nxt = nowMs + waterDropRestoreIntervalMs restore;
          s' = s\<lparr>gs_hasWaterDropsItem := True,
                 gs_inventory := AList.update 7 0 (gs_inventory s),
                 gs_waterDropsInFlight := 0\<rparr>
      in if 0 < gs_waterDropsTotal s \<and>
            (gs_waterDropsNextMs s \<le> nowMs \<or> gs_waterDropsNextMs s = 0)
         then s'\<lparr>gs_waterDropsNextMs := nxt\<rparr> else s')"

definition MarkInventoryItemExhausted :: "int \<Rightarrow> game_state \<Rightarrow> game_state" where
  "MarkInventoryItemExhausted itemID s =
     (if itemID \<le> 0 then s
      else if get_or 0 (gs_inventory s) itemID \<le> 0 then s
      else
        let s' = s\<lparr>gs_inventory := AList.update itemID 0 (gs_inventory s)\<rparr>
        in if itemID = 7 then s'\<lparr>gs_hasWaterDropsItem := True, gs_waterDropsInFlight := 0\<rparr> else s')"

section \<open>Recovery\<close>

lemma interval_pos: "0 < waterDropRestoreIntervalMs restore"
  by (auto simp: waterDropRestoreIntervalMs_def split: option.splits list.splits)

text \<open>
  Three cases cover the projection: nothing to recover, recovery below the capacity, and recovery
  that fills it.
\<close>

lemma projected_cases:
  obtains (idle) nxt where "projectedWaterDrops restore now s = (currentWaterDrops s, nxt, 0)"
  | (partial) r where
      "gs_hasWaterDropsItem s" "0 < gs_waterDropsNextMs s" "0 < r"
      "r = (to_unix_milli now - gs_waterDropsNextMs s) div waterDropRestoreIntervalMs restore + 1"
      "gs_waterDropsNextMs s \<le> to_unix_milli now"
      "0 < gs_waterDropsTotal s \<longrightarrow> currentWaterDrops s + r < gs_waterDropsTotal s"
      "projectedWaterDrops restore now s =
         (currentWaterDrops s + r, gs_waterDropsNextMs s + r * waterDropRestoreIntervalMs restore, r)"
  | (full) r where
      "gs_hasWaterDropsItem s" "0 < gs_waterDropsTotal s" "0 < r"
      "currentWaterDrops s + r = gs_waterDropsTotal s"
      "projectedWaterDrops restore now s = (gs_waterDropsTotal s, 0, r)"
proof -
  let ?i = "waterDropRestoreIntervalMs restore"
  let ?r = "(to_unix_milli now - gs_waterDropsNextMs s) div ?i + 1"
  let ?c = "currentWaterDrops s" and ?t = "gs_waterDropsTotal s" and ?n = "gs_waterDropsNextMs s"
  note d = projectedWaterDrops_def Let_def
  have i: "0 < ?i" by (rule interval_pos)
  consider (a) "\<not> gs_hasWaterDropsItem s \<or> ?n \<le> 0 \<or> (0 < ?t \<and> ?t \<le> ?c) \<or> to_unix_milli now < ?n"
    | (b) "gs_hasWaterDropsItem s" "0 < ?n" "\<not> (0 < ?t \<and> ?t \<le> ?c)" "?n \<le> to_unix_milli now"
    by linarith
  then show ?thesis
  proof cases
    case a
    have "\<exists>nxt. projectedWaterDrops restore now s = (?c, nxt, 0)"
      using a by (auto simp: d)
    then show ?thesis using idle by blast
  next
    case b
    have r: "0 < ?r" using b(4) i by (simp add: pos_imp_zdiv_nonneg_iff add_pos_nonneg)
    show ?thesis
    proof (cases "0 < ?t \<and> ?t \<le> ?c + ?r")
      case True
      show ?thesis
        by (rule full [of "?t - ?c"]) (use b True i r in \<open>auto simp: d\<close>)
    next
      case False
      show ?thesis
        by (rule partial [of ?r]) (use b False i r in \<open>auto simp: d\<close>)
    qed
  qed
qed

lemma projected_running:
  assumes "gs_hasWaterDropsItem s" "0 < gs_waterDropsNextMs s"
    and "gs_waterDropsNextMs s \<le> to_unix_milli now"
    and "0 < gs_waterDropsTotal s \<longrightarrow> currentWaterDrops s < gs_waterDropsTotal s"
  shows "fst (projectedWaterDrops restore now s) =
    (let q = currentWaterDrops s +
           ((to_unix_milli now - gs_waterDropsNextMs s) div waterDropRestoreIntervalMs restore + 1)
     in if 0 < gs_waterDropsTotal s \<and> gs_waterDropsTotal s \<le> q then gs_waterDropsTotal s else q)"
  using assms interval_pos [of restore]
  by (cases "0 < gs_waterDropsTotal s") (auto simp: projectedWaterDrops_def Let_def)

lemma projected_waiting:
  assumes "to_unix_milli now < gs_waterDropsNextMs s"
  shows "fst (projectedWaterDrops restore now s) = currentWaterDrops s"
  using assms by (auto simp: projectedWaterDrops_def Let_def)

text \<open>Recovery never removes drops, and never exceeds the capacity where one is known.\<close>

lemma projected_bounds:
  assumes "projectedWaterDrops restore now s = (drops, nxt, r)"
  shows "0 \<le> r \<and> drops = currentWaterDrops s + r \<and>
    (0 < gs_waterDropsTotal s \<longrightarrow> drops \<le> max (gs_waterDropsTotal s) (currentWaterDrops s))"
  by (cases rule: projected_cases [of restore now s]) (use assms in auto)

lemma currentWaterDrops_refresh:
  assumes "RefreshWaterDrops restore now s = (s', changed)"
  shows "currentWaterDrops s' = fst (projectedWaterDrops restore now s)"
  by (cases rule: projected_cases [of restore now s])
     (use assms in \<open>auto simp: RefreshWaterDrops_def currentWaterDrops_def\<close>)

text \<open>
  Materialising the recovery at one moment does not change what is seen later: projecting at
  \<open>t2\<close> gives the same drops from the refreshed state as from the original one.
\<close>

lemma div_shift:
  fixes i :: int
  assumes "0 < i"
  shows "(b - (n + k * i)) div i = (b - n) div i - k"
proof -
  have "(b - (n + k * i)) div i = ((b - n) + (- k) * i) div i" by (simp add: algebra_simps)
  also have "\<dots> = (b - n) div i - k" using assms by (subst div_mult_self1) auto
  finally show ?thesis .
qed

lemma refresh_then_project:
  assumes "t1 \<le> t2" "RefreshWaterDrops restore t1 s = (s', changed)"
  shows "fst (projectedWaterDrops restore t2 s') = fst (projectedWaterDrops restore t2 s)"
proof (cases rule: projected_cases [of restore t1 s])
  case (idle nxt)
  with assms(2) show ?thesis by (simp add: RefreshWaterDrops_def)
next
  case (full r)
  then have s': "s' = s\<lparr>gs_inventory := AList.update 7 (gs_waterDropsTotal s) (gs_inventory s),
                       gs_waterDropsNextMs := 0\<rparr>"
    using assms(2) by (simp add: RefreshWaterDrops_def)
  have m: "to_unix_milli t1 \<le> to_unix_milli t2" by (rule to_unix_milli_mono [OF assms(1)])
  have d: "(to_unix_milli t1 - gs_waterDropsNextMs s) div waterDropRestoreIntervalMs restore
        \<le> (to_unix_milli t2 - gs_waterDropsNextMs s) div waterDropRestoreIntervalMs restore"
    using m interval_pos [of restore] by (simp add: zdiv_mono1)
  have "fst (projectedWaterDrops restore t2 s) = gs_waterDropsTotal s"
  proof (cases rule: projected_cases [of restore t2 s])
    case (idle n2)
    with full m d show ?thesis
      using interval_pos [of restore]
      by (auto simp: projectedWaterDrops_def Let_def split: if_splits)
  next
    case (partial q)
    with full d show ?thesis
      by (auto simp: projectedWaterDrops_def Let_def split: if_splits)
  qed simp
  moreover have "fst (projectedWaterDrops restore t2 s') = gs_waterDropsTotal s"
    using full(1) by (simp add: s' projectedWaterDrops_def Let_def currentWaterDrops_def)
  ultimately show ?thesis by simp
next
  case (partial r)
  let ?i = "waterDropRestoreIntervalMs restore"
  have i: "0 < ?i" by (rule interval_pos)
  have s': "s' = s\<lparr>gs_inventory := AList.update 7 (currentWaterDrops s + r) (gs_inventory s),
                  gs_waterDropsNextMs := gs_waterDropsNextMs s + r * ?i\<rparr>"
    using assms(2) partial by (simp add: RefreshWaterDrops_def)
  have cur: "currentWaterDrops s' = currentWaterDrops s + r"
    using partial(1) by (simp add: s' currentWaterDrops_def)
  have m: "to_unix_milli t1 \<le> to_unix_milli t2" by (rule to_unix_milli_mono [OF assms(1)])
  let ?q = "(to_unix_milli t2 - gs_waterDropsNextMs s) div ?i + 1"
  have q': "(to_unix_milli t2 - (gs_waterDropsNextMs s + r * ?i)) div ?i + 1 = ?q - r"
    using div_shift [OF i, of "to_unix_milli t2" "gs_waterDropsNextMs s" r] by simp
  have le: "to_unix_milli t2 < gs_waterDropsNextMs s + r * ?i \<longleftrightarrow> ?q \<le> r"
    using q' i by (smt (verit) div_neg_pos_less0 pos_imp_zdiv_neg_iff)
  have rq: "r \<le> ?q"
    using partial(4) zdiv_mono1 [OF _ i, of "to_unix_milli t1 - gs_waterDropsNextMs s"
        "to_unix_milli t2 - gs_waterDropsNextMs s"] m by simp
  have nx: "0 < gs_waterDropsNextMs s + r * ?i" using partial(2,3) i by (simp add: add_pos_pos)
  have A: "fst (projectedWaterDrops restore t2 s) =
      (if 0 < gs_waterDropsTotal s \<and> gs_waterDropsTotal s \<le> currentWaterDrops s + ?q
       then gs_waterDropsTotal s else currentWaterDrops s + ?q)"
    using partial(1,2,3,5,6) m by (subst projected_running) (auto simp: Let_def)
  have B: "fst (projectedWaterDrops restore t2 s') =
      (if 0 < gs_waterDropsTotal s \<and> gs_waterDropsTotal s \<le> currentWaterDrops s + ?q
       then gs_waterDropsTotal s else currentWaterDrops s + ?q)"
  proof (cases "to_unix_milli t2 < gs_waterDropsNextMs s + r * ?i")
    case True
    then have "?q = r" using le rq by simp
    moreover have "fst (projectedWaterDrops restore t2 s') = currentWaterDrops s + r"
      using True by (subst projected_waiting) (simp_all add: cur, simp add: s')
    ultimately show ?thesis using partial(6) by auto
  next
    case False
    then have "fst (projectedWaterDrops restore t2 s') =
      (let q = currentWaterDrops s' +
             ((to_unix_milli t2 - gs_waterDropsNextMs s') div ?i + 1)
       in if 0 < gs_waterDropsTotal s' \<and> gs_waterDropsTotal s' \<le> q then gs_waterDropsTotal s' else q)"
      using partial(1,6) nx by (intro projected_running) (simp_all add: cur, simp_all add: s')
    moreover have "gs_waterDropsTotal s' = gs_waterDropsTotal s"
      "gs_waterDropsNextMs s' = gs_waterDropsNextMs s + r * ?i" by (simp_all add: s')
    ultimately show ?thesis using q' by (simp add: cur Let_def)
  qed
  from A B show ?thesis by simp
qed

section \<open>Reservations\<close>

text \<open>What is reserved never exceeds what can be spent.\<close>

definition reservation_ok :: "int list option \<Rightarrow> time \<Rightarrow> game_state \<Rightarrow> bool" where
  "reservation_ok restore now s \<longleftrightarrow>
     0 \<le> gs_waterDropsInFlight s \<and>
     gs_waterDropsInFlight s \<le> fst (projectedWaterDrops restore now s)"

lemma lock_inflight:
  "projectedWaterDrops restore now (s\<lparr>gs_waterDropsInFlight := k\<rparr>) = projectedWaterDrops restore now s"
  by (simp add: projectedWaterDrops_def currentWaterDrops_def)

lemma LockWaterDrops_result:
  assumes "LockWaterDrops restore n now s = (s', granted)"
  shows "granted \<longleftrightarrow> n \<le> 0 \<or> n \<le> fst (projectedWaterDrops restore now s) - gs_waterDropsInFlight s"
    and "gs_waterDropsInFlight s' = gs_waterDropsInFlight s + (if granted \<and> 0 < n then n else 0)"
    and "projectedWaterDrops restore now s' = projectedWaterDrops restore now s"
  using assms
  by (auto simp: LockWaterDrops_def lock_inflight split: if_splits prod.splits)

lemma release_after_lock:
  assumes "LockWaterDrops restore n now s = (s', True)" "0 \<le> gs_waterDropsInFlight s"
  shows "ReleaseWaterDropsLock n s' = s"
  using assms
  by (auto simp: LockWaterDrops_def ReleaseWaterDropsLock_def split: if_splits prod.splits)

section \<open>Writing the recovery back\<close>

definition refresh_all :: "int list option \<Rightarrow> time list \<Rightarrow> game_state \<Rightarrow> game_state" where
  "refresh_all restore ts s = fold (\<lambda>t s. fst (RefreshWaterDrops restore t s)) ts s"

lemma refresh_all_project:
  assumes "\<forall>u \<in> set ts. u \<le> t"
  shows "fst (projectedWaterDrops restore t (refresh_all restore ts s)) =
         fst (projectedWaterDrops restore t s)"
  using assms
proof (induction ts arbitrary: s)
  case Nil
  then show ?case by (simp add: refresh_all_def)
next
  case (Cons u ts)
  have "fst (projectedWaterDrops restore t (fst (RefreshWaterDrops restore u s))) =
        fst (projectedWaterDrops restore t s)"
    using refresh_then_project [of u t restore s] Cons.prems by (metis list.set_intros(1) prod.collapse)
  then show ?case using Cons by (simp add: refresh_all_def)
qed

text \<open>
  However often the recovery is written back before \<open>t\<close>, the drops seen
  at \<open>t\<close> are those of the closed form: one drop at the recorded moment and one per interval
  after it, up to the capacity.
\<close>

lemma water_recovery_exact:
  assumes "gs_hasWaterDropsItem s" "0 < gs_waterDropsNextMs s" "currentWaterDrops s < gs_waterDropsTotal s"
    and "0 \<le> currentWaterDrops s" "\<forall>u \<in> set ts. u \<le> t"
  shows "currentWaterDrops (refresh_all restore (ts @ [t]) s) =
    min (gs_waterDropsTotal s)
      (currentWaterDrops s +
       max 0 ((to_unix_milli t - gs_waterDropsNextMs s) div waterDropRestoreIntervalMs restore + 1))"
proof -
  let ?i = "waterDropRestoreIntervalMs restore"
  let ?d = "to_unix_milli t - gs_waterDropsNextMs s"
  let ?s = "refresh_all restore ts s"
  have "refresh_all restore (ts @ [t]) s = fst (RefreshWaterDrops restore t ?s)"
    by (simp add: refresh_all_def)
  then have "currentWaterDrops (refresh_all restore (ts @ [t]) s) = fst (projectedWaterDrops restore t ?s)"
    using currentWaterDrops_refresh [of restore t ?s] by (metis prod.collapse)
  also have "\<dots> = fst (projectedWaterDrops restore t s)"
    using assms(5) by (rule refresh_all_project)
  also have "\<dots> = min (gs_waterDropsTotal s) (currentWaterDrops s + max 0 (?d div ?i + 1))"
  proof (cases "to_unix_milli t < gs_waterDropsNextMs s")
    case True
    then have "?d div ?i < 0" using interval_pos [of restore] by (simp add: div_neg_pos_less0)
    then show ?thesis using projected_waiting [OF True] assms(3) by simp
  next
    case False
    then have "0 \<le> ?d div ?i" using interval_pos [of restore] by (simp add: pos_imp_zdiv_nonneg_iff)
    then show ?thesis
      using projected_running [of s t restore] False assms(1-4) by (simp add: Let_def min_def)
  qed
  finally show ?thesis .
qed

text \<open>From three drops, two intervals and a bit after the recorded moment there are six.\<close>

end
