(* ===== verification/Gates.thy ===== *)
theory Gates
  imports Ops Water
begin

text \<open>
  Cost gates (\<open>internal/automation/gates.go\<close>).  A planned operation carries one gate per
  resource it needs; \<open>annotateOperationGates\<close> blocks an operation whose own gates do not pass,
  and \<open>annotateSequentialResourceBudget\<close> walks the ranked queue once more, so that the
  operations it leaves executable can be paid for together.  The names of items come from the
  game catalogue, which is the parameter \<open>ItemName\<close>.
\<close>

section \<open>Gates of one operation\<close>

definition itemLabel :: "(int \<Rightarrow> string) \<Rightarrow> int \<Rightarrow> string" where
  "itemLabel ItemName itemID =
     (if ItemName itemID \<noteq> [] then ItemName itemID else CHR ''#'' # show_int itemID)"

definition resourceGate ::
  "string \<Rightarrow> string \<Rightarrow> string \<Rightarrow> int \<Rightarrow> int \<Rightarrow> int \<Rightarrow> string \<Rightarrow> cost_gate" where
  "resourceGate i kind label itemID required available src =
     (let gate = \<lparr>gate_ID = i, gate_ResourceKind = kind, gate_Label = label, gate_ItemID = itemID,
                  gate_Required = required, gate_Available = available,
                  gate_Status = PlanStatusReady, gate_BlockedReasons = [], gate_Hard = True,
                  gate_Source = src\<rparr>
      in if required > available
         then gate\<lparr>gate_Status := PlanStatusBlocked,
                   gate_BlockedReasons := [label @ lit_short_need @ show_int required @
                                           lit_current @ show_int available]\<rparr>
         else gate)"

definition isWaterRPC :: "string \<Rightarrow> bool" where
  "isWaterRPC kind \<longleftrightarrow> kind = RPCUsrLandWater \<or> kind = RPCUsrLandWaterBatch"

fun inferBlockingStage :: "string list \<Rightarrow> string" where
  "inferBlockingStage [] = []"
| "inferBlockingStage (reason # reasons) =
     (let has = str_contains reason
      in if has lit_stage_policy \<or> has lit_stage_limit \<or> has lit_stage_budget then ''policy''
         else if has lit_stage_recipe \<or> has lit_stage_config then ''recipe''
         else if has lit_stage_vase then ''vase''
         else if has lit_stage_level then ''level''
         else if has lit_gold \<or> has lit_diamond \<or> has lit_water_drop \<or> has lit_stage_stock \<or>
                 has lit_stage_short then ''resource''
         else if has lit_stage_unobserved \<or> has lit_stage_unmeasured \<or> has lit_stage_state
              then ''state''
         else if has ''adapter'' \<or> has lit_stage_protocol \<or> has lit_stage_execute then ''adapter''
         else inferBlockingStage reasons)"

text \<open>The gates an operation has by its costs; \<open>restore\<close> is the catalogue entry of item 7.\<close>

definition goldCostGates :: "game_state \<Rightarrow> planned_op \<Rightarrow> cost_gate list" where
  "goldCostGates s op =
     (if 0 < op_GoldCost op
      then [resourceGate ''gold'' GateResourceGold lit_gold 0 (op_GoldCost op) (Gold s)
              ''operation.cost'']
      else [])"

definition diamondCostGates :: "game_state \<Rightarrow> planned_op \<Rightarrow> cost_gate list" where
  "diamondCostGates s op =
     (if 0 < op_DiamondCost op
      then let gate = resourceGate ''diamond'' GateResourceDiamond lit_diamond 1 (op_DiamondCost op)
                        (SpendableDiamonds s) ''operation.cost''
           in [if gate_BlockedReasons gate = [] \<and> op_Kind op \<noteq> RPCFmlRaceUpgradeTask
               then gate\<lparr>gate_Status := PlanStatusAdapterMissing,
                         gate_BlockedReasons := [lit_diamond_not_automatic]\<rparr>
               else gate]
      else [])"

definition itemCostGates :: "(int \<Rightarrow> string) \<Rightarrow> game_state \<Rightarrow> planned_op \<Rightarrow> cost_gate list" where
  "itemCostGates ItemName s op =
     concat (map (\<lambda>itemID.
       let count = get_or 0 (op_ItemCost op) itemID
       in if count \<le> 0 then []
          else [resourceGate (''item:'' @ show_int itemID) GateResourceItem (itemLabel ItemName itemID)
                  itemID count (get_or 0 (Inventory s) itemID) ''operation.cost''])
       (sort (map fst (op_ItemCost op))))"

definition waterCostGates ::
  "int list option \<Rightarrow> game_state \<Rightarrow> planned_op \<Rightarrow> time \<Rightarrow> cost_gate list" where
  "waterCostGates restore s op now =
     (if isWaterRPC (op_Kind op)
      then let need = int (length (op_LandIDs op));
               available = fst (AvailableWaterDrops restore now s);
               gate = resourceGate ''water_drop'' GateResourceWaterDrop lit_water_drop 7 need available
                        ''operation.resource''
           in [if need \<le> 0
               then gate\<lparr>gate_Status := PlanStatusBlocked,
                         gate_BlockedReasons := [lit_water_without_land]\<rparr>
               else gate]
      else [])"

definition implicitOperationCostGates ::
  "(int \<Rightarrow> string) \<Rightarrow> int list option \<Rightarrow> game_state option \<Rightarrow> planned_op \<Rightarrow> time \<Rightarrow> cost_gate list" where
  "implicitOperationCostGates ItemName restore st op now =
     (case st of None \<Rightarrow> []
      | Some s \<Rightarrow> goldCostGates s op @ diamondCostGates s op @ itemCostGates ItemName s op @
                  waterCostGates restore s op now)"

definition mergeCostGates :: "cost_gate list \<Rightarrow> cost_gate list \<Rightarrow> cost_gate list" where
  "mergeCostGates existing implicit =
     (if existing = [] then implicit
      else if implicit = [] then existing
      else existing @ filter (\<lambda>gate. gate_ID gate \<notin> gate_ID ` set existing) implicit)"

definition annotate_gates ::
  "(int \<Rightarrow> string) \<Rightarrow> int list option \<Rightarrow> game_state option \<Rightarrow> time \<Rightarrow> planned_op \<Rightarrow> planned_op" where
  "annotate_gates ItemName restore st now op0 =
     (let op1 = op0\<lparr>op_CostGates := mergeCostGates (op_CostGates op0)
                      (implicitOperationCostGates ItemName restore st op0 now)\<rparr>;
          op2 = (if op_BlockingStage op1 = []
                 then op1\<lparr>op_BlockingStage := inferBlockingStage (op_BlockedReasons op1)\<rparr> else op1);
          op = (if op_BlockedReasons op2 \<noteq> [] \<and> op_Status op2 = []
                then op2\<lparr>op_Status := PlanStatusBlocked\<rparr> else op2)
      in if op_Status op = PlanStatusBlocked \<or> op_Status op = PlanStatusAdapterMissing \<or>
            op_SyncOnly op \<or> \<not> op_Executable op
         then op
         else
           let failing = filter Blocking (op_CostGates op);
               reasons = concat (map gate_BlockedReasons failing);
               status = (if \<exists>gate \<in> set failing. gate_Status gate = PlanStatusAdapterMissing
                         then PlanStatusAdapterMissing else PlanStatusBlocked)
           in if reasons = [] then op
              else op\<lparr>op_Status := status, op_Executable := False,
                      op_BlockedReasons := op_BlockedReasons op @ reasons,
                      op_BlockingStage := inferBlockingStage (op_BlockedReasons op @ reasons)\<rparr>)"

definition annotateOperationGates ::
  "(int \<Rightarrow> string) \<Rightarrow> int list option \<Rightarrow> game_state option \<Rightarrow> planned_op list \<Rightarrow> time \<Rightarrow> planned_op list"
  where
  "annotateOperationGates ItemName restore st ops now =
     map (annotate_gates ItemName restore st now) ops"

section \<open>The budget of the queue\<close>

record resource_budget =
  bud_gold :: int
  bud_diamonds :: int
  bud_waterDrops :: int
  bud_items :: "(int, int) gomap"

record resource_cost =
  cost_gold :: int
  cost_diamonds :: int
  cost_waterDrops :: int
  cost_items :: "(int, int) gomap"

definition zero_cost :: resource_cost where
  "zero_cost = \<lparr>cost_gold = 0, cost_diamonds = 0, cost_waterDrops = 0, cost_items = []\<rparr>"

definition operationConsumesQueueBudget :: "planned_op \<Rightarrow> bool" where
  "operationConsumesQueueBudget op \<longleftrightarrow>
     op_Executable op \<and> \<not> op_SyncOnly op \<and> op_Status op \<noteq> PlanStatusAdapterMissing \<and>
     op_Status op \<noteq> PlanStatusBlocked \<and> op_BlockedReasons op = []"

definition add_gate_cost :: "cost_gate \<Rightarrow> resource_cost \<Rightarrow> resource_cost" where
  "add_gate_cost gate cost =
     (if gate_Required gate \<le> 0 \<or> \<not> gate_Hard gate \<or> gate_Source gate = ''operation.queue'' then cost
      else if gate_ResourceKind gate = GateResourceDiamond
        then cost\<lparr>cost_diamonds := max (cost_diamonds cost) (gate_Required gate)\<rparr>
      else if gate_ResourceKind gate = GateResourceGold
        then (if gate_Required gate > cost_gold cost then cost\<lparr>cost_gold := gate_Required gate\<rparr> else cost)
      else if gate_ResourceKind gate = GateResourceWaterDrop
        then (if gate_Required gate > cost_waterDrops cost
              then cost\<lparr>cost_waterDrops := gate_Required gate\<rparr> else cost)
      else if gate_ResourceKind gate = GateResourceItem
        then (if gate_ItemID gate \<le> 0 then cost
              else if gate_Required gate > get_or 0 (cost_items cost) (gate_ItemID gate)
              then cost\<lparr>cost_items :=
                     AList.update (gate_ItemID gate) (gate_Required gate) (cost_items cost)\<rparr>
              else cost)
      else cost)"

definition operationCostFromGates :: "cost_gate list \<Rightarrow> resource_cost" where
  "operationCostFromGates gates = fold add_gate_cost gates zero_cost"

definition cost_empty :: "resource_cost \<Rightarrow> bool" where
  "cost_empty c \<longleftrightarrow>
     cost_gold c \<le> 0 \<and> cost_diamonds c \<le> 0 \<and> cost_waterDrops c \<le> 0 \<and> cost_items c = []"

definition queueBudgetGate :: "string \<Rightarrow> string \<Rightarrow> string \<Rightarrow> int \<Rightarrow> int \<Rightarrow> int \<Rightarrow> cost_gate" where
  "queueBudgetGate i kind label itemID required available =
     \<lparr>gate_ID = ''queue_budget:'' @ i, gate_ResourceKind = kind, gate_Label = label,
      gate_ItemID = itemID, gate_Required = required, gate_Available = available,
      gate_Status = PlanStatusBlocked,
      gate_BlockedReasons = [lit_queue_short @ label @ lit_need @ show_int required @
                             lit_queue_left @ show_int available],
      gate_Hard = True, gate_Source = ''operation.queue''\<rparr>"

definition queueBlockedGates ::
  "(int \<Rightarrow> string) \<Rightarrow> resource_budget \<Rightarrow> resource_cost \<Rightarrow> cost_gate list" where
  "queueBlockedGates ItemName b cost =
     (if cost_diamonds cost > bud_diamonds b
      then [queueBudgetGate ''diamond'' GateResourceDiamond lit_diamond 1
              (cost_diamonds cost) (bud_diamonds b)] else []) @
     (if cost_gold cost > bud_gold b
      then [queueBudgetGate ''gold'' GateResourceGold lit_gold 0 (cost_gold cost) (bud_gold b)] else []) @
     (if cost_waterDrops cost > bud_waterDrops b
      then [queueBudgetGate ''water_drop'' GateResourceWaterDrop lit_water_drop 7
              (cost_waterDrops cost) (bud_waterDrops b)] else []) @
     concat (map (\<lambda>i.
       let required = get_or 0 (cost_items cost) i; available = get_or 0 (bud_items b) i
       in if required \<le> available then []
          else [queueBudgetGate (''item:'' @ show_int i) GateResourceItem (itemLabel ItemName i) i
                  required available])
       (sort (map fst (cost_items cost))))"

definition spend_item :: "int \<times> int \<Rightarrow> (int, int) gomap \<Rightarrow> (int, int) gomap" where
  "spend_item = (\<lambda>(i, count) items.
     let left = get_or 0 items i - count in AList.update i (if left < 0 then 0 else left) items)"

definition spend :: "resource_cost \<Rightarrow> resource_budget \<Rightarrow> resource_budget" where
  "spend cost b =
     \<lparr>bud_gold = (let left = bud_gold b - cost_gold cost in if left < 0 then 0 else left),
      bud_diamonds = max 0 (bud_diamonds b - cost_diamonds cost),
      bud_waterDrops = (let left = bud_waterDrops b - cost_waterDrops cost
                        in if left < 0 then 0 else left),
      bud_items = fold spend_item (cost_items cost) (bud_items b)\<rparr>"

definition budget_op ::
  "(int \<Rightarrow> string) \<Rightarrow> planned_op \<Rightarrow> resource_budget \<Rightarrow> resource_budget \<times> planned_op" where
  "budget_op ItemName op b =
     (if \<not> operationConsumesQueueBudget op then (b, op)
      else let cost = operationCostFromGates (op_CostGates op) in
        if cost_empty cost then (b, op)
        else let gates = queueBlockedGates ItemName b cost in
          if gates \<noteq> []
          then let reasons = op_BlockedReasons op @ concat (map gate_BlockedReasons gates)
               in (b, op\<lparr>op_Status := PlanStatusBlocked, op_Executable := False,
                         op_BlockedReasons := reasons,
                         op_BlockingStage := inferBlockingStage reasons,
                         op_CostGates := op_CostGates op @ gates\<rparr>)
          else (spend cost b, op))"

definition initial_budget :: "int list option \<Rightarrow> game_state \<Rightarrow> time \<Rightarrow> resource_budget" where
  "initial_budget restore s now =
     \<lparr>bud_gold = Gold s, bud_diamonds = SpendableDiamonds s,
      bud_waterDrops = fst (AvailableWaterDrops restore now s), bud_items = Inventory s\<rparr>"

definition annotateSequentialResourceBudget ::
  "(int \<Rightarrow> string) \<Rightarrow> int list option \<Rightarrow> game_state option \<Rightarrow> planned_op list \<Rightarrow> time \<Rightarrow> planned_op list"
  where
  "annotateSequentialResourceBudget ItemName restore st ops now =
     (case st of None \<Rightarrow> ops
      | Some s \<Rightarrow>
          if ops = [] then ops
          else snd (thread (budget_op ItemName) ops (initial_budget restore s now)))"

section \<open>A queue that spends from a budget\<close>

text \<open>
  The contract between the queue and its budget: an admitted cost fits what is left and is
  subtracted exactly.  Its client is any pass that threads the budget through the operations and
  either admits an operation with its cost or leaves the budget alone.
\<close>

locale budgeted =
  fixes ok :: "'b \<Rightarrow> bool"
    and left :: "'b \<Rightarrow> 'r \<Rightarrow> int"
    and need :: "'op \<Rightarrow> 'r \<Rightarrow> int"
    and step :: "'op \<Rightarrow> 'b \<Rightarrow> 'b \<times> 'op"
  assumes step_ok: "ok b \<Longrightarrow> step op b = (b', op') \<Longrightarrow> ok b'"
    and step_left: "ok b \<Longrightarrow> step op b = (b', op') \<Longrightarrow> left b r = left b' r + need op' r"
    and left_nonneg: "ok b \<Longrightarrow> 0 \<le> left b r"
begin

lemma run_ok: "ok b \<Longrightarrow> thread step ops b = (b', ops') \<Longrightarrow> ok b'"
  by (rule thread_invariant [where I = ok]) (auto intro: step_ok)

lemma run_spends:
  "ok b \<Longrightarrow> thread step ops b = (b', ops') \<Longrightarrow>
     left b r = left b' r + sum_list (map (\<lambda>op. need op r) ops')"
proof (induction ops arbitrary: b ops')
  case Nil
  then show ?case by simp
next
  case (Cons op ops)
  obtain b1 op1 where s: "step op b = (b1, op1)" by (cases "step op b")
  obtain ops1 where t: "thread step ops b1 = (b', ops1)" and ops': "ops' = op1 # ops1"
    using Cons.prems(2) s by (cases "thread step ops b1") simp
  have "left b1 r = left b' r + sum_list (map (\<lambda>op. need op r) ops1)"
    using Cons.IH [OF step_ok [OF Cons.prems(1) s] t] .
  then show ?case using step_left [OF Cons.prems(1) s] ops' by simp
qed

lemma run_affordable:
  assumes "ok b" "thread step ops b = (b', ops')"
  shows "sum_list (map (\<lambda>op. need op r) ops') \<le> left b r"
  using run_spends [OF assms, of r] left_nonneg [OF run_ok [OF assms], of r] by simp

end

section \<open>The budget of the code\<close>

text \<open>The resources of a budget, and what a cost or an operation needs of one of them.\<close>

datatype resource = Diamonds | GoldCoins | Drops | Item int

fun budget_left :: "resource_budget \<Rightarrow> resource \<Rightarrow> int" where
  "budget_left b Diamonds = bud_diamonds b"
| "budget_left b GoldCoins = bud_gold b"
| "budget_left b Drops = bud_waterDrops b"
| "budget_left b (Item i) = get_or 0 (bud_items b) i"

fun cost_need :: "resource_cost \<Rightarrow> resource \<Rightarrow> int" where
  "cost_need c Diamonds = cost_diamonds c"
| "cost_need c GoldCoins = cost_gold c"
| "cost_need c Drops = cost_waterDrops c"
| "cost_need c (Item i) = get_or 0 (cost_items c) i"

definition op_need :: "planned_op \<Rightarrow> resource \<Rightarrow> int" where
  "op_need op r =
     (if operationConsumesQueueBudget op then cost_need (operationCostFromGates (op_CostGates op)) r
      else 0)"

definition budget_ok :: "resource_budget \<Rightarrow> bool" where
  "budget_ok b \<longleftrightarrow> (\<forall>r. 0 \<le> budget_left b r)"

definition cost_ok :: "resource_cost \<Rightarrow> bool" where
  "cost_ok c \<longleftrightarrow> gomap_ok (cost_items c) \<and> (\<forall>r. 0 \<le> cost_need c r)"

lemma add_gate_cost_ok: "cost_ok c \<Longrightarrow> cost_ok (add_gate_cost g c)"
  unfolding cost_ok_def
proof (intro conjI allI)
  fix r
  assume c: "gomap_ok (cost_items c) \<and> (\<forall>r. 0 \<le> cost_need c r)"
  then show "gomap_ok (cost_items (add_gate_cost g c))" by (simp add: add_gate_cost_def)
  from c have "0 \<le> cost_need c r" by simp
  then show "0 \<le> cost_need (add_gate_cost g c) r"
    by (cases r) (simp_all add: add_gate_cost_def max_def)
qed

lemma fold_add_gate_cost_ok: "cost_ok c \<Longrightarrow> cost_ok (fold add_gate_cost gates c)"
  by (induction gates arbitrary: c) (auto simp: add_gate_cost_ok)

lemma operationCostFromGates_ok: "cost_ok (operationCostFromGates gates)"
proof -
  have "0 \<le> cost_need zero_cost r" for r by (cases r) (simp_all add: zero_cost_def)
  then have "cost_ok zero_cost" by (simp add: cost_ok_def zero_cost_def)
  then show ?thesis unfolding operationCostFromGates_def by (rule fold_add_gate_cost_ok)
qed

text \<open>A hard gate of the operation is covered by its cost.\<close>

lemma add_gate_cost_mono: "cost_need c r \<le> cost_need (add_gate_cost g c) r"
  by (cases r) (simp_all add: add_gate_cost_def)

lemma fold_add_gate_cost_mono: "cost_need c r \<le> cost_need (fold add_gate_cost gates c) r"
proof (induction gates arbitrary: c)
  case Nil
  then show ?case by simp
next
  case (Cons g gates)
  have "cost_need c r \<le> cost_need (add_gate_cost g c) r" by (rule add_gate_cost_mono)
  also have "\<dots> \<le> cost_need (fold add_gate_cost gates (add_gate_cost g c)) r" by (rule Cons.IH)
  finally show ?case by simp
qed

lemma cost_covers_gate:
  assumes "g \<in> set gates" "\<And>c. gate_Required g \<le> cost_need (add_gate_cost g c) r"
  shows "gate_Required g \<le> cost_need (operationCostFromGates gates) r"
proof -
  obtain xs ys where "gates = xs @ g # ys" using assms(1) by (auto dest: split_list)
  then have eq: "operationCostFromGates gates =
      fold add_gate_cost ys (add_gate_cost g (fold add_gate_cost xs zero_cost))"
    by (simp add: operationCostFromGates_def)
  show ?thesis
    unfolding eq using assms(2) fold_add_gate_cost_mono order_trans by blast
qed

text \<open>No queue gate appears exactly when every resource of the cost fits.\<close>

lemma queueBlockedGates_Nil:
  assumes "cost_ok c" "budget_ok b"
  shows "queueBlockedGates ItemName b c = [] \<longleftrightarrow> (\<forall>r. cost_need c r \<le> budget_left b r)"
proof
  assume e: "queueBlockedGates ItemName b c = []"
  have i: "get_or 0 (cost_items c) i \<le> get_or 0 (bud_items b) i" for i
  proof (cases "i \<in> fst ` set (cost_items c)")
    case True
    with e show ?thesis by (fastforce simp: queueBlockedGates_def Let_def split: if_splits)
  next
    case False
    then have "get_or 0 (cost_items c) i = 0" by (rule get_or_notin)
    moreover have "0 \<le> budget_left b (Item i)" using assms(2) unfolding budget_ok_def by blast
    ultimately show ?thesis by simp
  qed
  show "\<forall>r. cost_need c r \<le> budget_left b r"
  proof
    fix r
    show "cost_need c r \<le> budget_left b r"
      using e i by (cases r) (auto simp: queueBlockedGates_def split: if_splits)
  qed
next
  assume f: "\<forall>r. cost_need c r \<le> budget_left b r"
  have "get_or 0 (cost_items c) i \<le> get_or 0 (bud_items b) i" for i
    using f [rule_format, of "Item i"] by simp
  then show "queueBlockedGates ItemName b c = []"
    using f [rule_format, of Diamonds] f [rule_format, of GoldCoins] f [rule_format, of Drops]
    by (simp add: queueBlockedGates_def Let_def)
qed

lemma fold_spend_item:
  assumes "gomap_ok c" "\<And>i. get_or 0 c i \<le> get_or 0 items i"
  shows "get_or 0 (fold spend_item c items) i = get_or 0 items i - get_or 0 c i"
  using assms
proof (induction c arbitrary: items)
  case Nil
  then show ?case by simp
next
  case (Cons kv c)
  obtain k v where kv: "kv = (k, v)" by (cases kv)
  have c: "gomap_ok c" "get_or 0 c k = 0"
    using Cons.prems(1) by (simp_all add: gomap_ok_def kv get_or_notin)
  have v: "v \<le> get_or 0 items k" using Cons.prems(2) [of k] by (simp add: kv get_or_Cons)
  let ?items = "spend_item (k, v) items"
  have le: "get_or 0 c j \<le> get_or 0 ?items j" for j
    using Cons.prems(2) [of j] v c(2) by (auto simp: kv spend_item_def Let_def get_or_Cons)
  have "get_or 0 (fold spend_item c ?items) i = get_or 0 ?items i - get_or 0 c i"
    by (rule Cons.IH [OF c(1) le])
  then show ?case using c(2) v by (auto simp: kv spend_item_def Let_def get_or_Cons)
qed

lemma spend_left:
  assumes "cost_ok c" "\<forall>r. cost_need c r \<le> budget_left b r"
  shows "budget_left (spend c b) r = budget_left b r - cost_need c r"
proof (cases r)
  case (Item i)
  have "get_or 0 (cost_items c) j \<le> get_or 0 (bud_items b) j" for j
    using assms(2) [rule_format, of "Item j"] by simp
  with assms(1) Item show ?thesis by (simp add: spend_def cost_ok_def fold_spend_item)
qed (use assms(2) [rule_format, of r] in \<open>auto simp: spend_def Let_def\<close>)

lemma cost_empty_need: "cost_ok c \<Longrightarrow> cost_empty c \<Longrightarrow> cost_need c r = 0"
  by (cases r) (auto simp: cost_empty_def cost_ok_def dest: spec [of _ r])

text \<open>One step of the pass: unchanged without cost, blocked, or paid for.\<close>

lemma budget_op_cases:
  assumes "budget_ok b" "budget_op ItemName op b = (b', op')"
  obtains (free) "b' = b" "op' = op" "\<forall>r. op_need op r = 0"
  | (blocked) "b' = b" "\<not> operationConsumesQueueBudget op'" "operationConsumesQueueBudget op"
      "\<exists>r. budget_left b r < op_need op r"
  | (paid) "operationConsumesQueueBudget op" "op' = op"
      "b' = spend (operationCostFromGates (op_CostGates op)) b"
      "\<forall>r. cost_need (operationCostFromGates (op_CostGates op)) r \<le> budget_left b r"
proof -
  let ?c = "operationCostFromGates (op_CostGates op)"
  have c: "cost_ok ?c" by (rule operationCostFromGates_ok)
  note nil = queueBlockedGates_Nil [OF c assms(1), of ItemName]
  consider "\<not> operationConsumesQueueBudget op" | "operationConsumesQueueBudget op" "cost_empty ?c"
    | "operationConsumesQueueBudget op" "\<not> cost_empty ?c" "queueBlockedGates ItemName b ?c \<noteq> []"
    | "operationConsumesQueueBudget op" "\<not> cost_empty ?c" "queueBlockedGates ItemName b ?c = []"
    by blast
  then show ?thesis
  proof cases
    case 1
    then have "b' = b" "op' = op" "\<forall>r. op_need op r = 0"
      using assms(2) by (simp_all add: budget_op_def op_need_def)
    then show ?thesis by (rule free)
  next
    case 2
    then have "b' = b" "op' = op" "\<forall>r. op_need op r = 0"
      using assms(2) cost_empty_need [OF c] by (simp_all add: budget_op_def op_need_def)
    then show ?thesis by (rule free)
  next
    case 3
    then have ex: "\<exists>r. budget_left b r < op_need op r" using nil by (simp add: op_need_def not_le)
    from 3 assms(2) have "b' = b" "\<not> op_Executable op'" by (auto simp: budget_op_def Let_def)
    then have "b' = b" "\<not> operationConsumesQueueBudget op'"
      by (simp_all add: operationConsumesQueueBudget_def)
    then show ?thesis using blocked 3(1) ex by blast
  next
    case 4
    then have "b' = spend ?c b" "op' = op" using assms(2) by (auto simp: budget_op_def)
    then show ?thesis using paid 4 nil by blast
  qed
qed

interpretation queue_budget: budgeted budget_ok budget_left op_need "budget_op ItemName"
proof
  fix b b' :: resource_budget and op op' r
  assume ok: "budget_ok b" and st: "budget_op ItemName op b = (b', op')"
  show left: "budget_left b r = budget_left b' r + op_need op' r" for r
    using ok st
  proof (cases rule: budget_op_cases)
    case paid
    then show ?thesis
      using spend_left [OF operationCostFromGates_ok paid(4)] by (simp add: op_need_def)
  qed (simp_all add: op_need_def)
  show "budget_ok b'"
    using ok st
  proof (cases rule: budget_op_cases)
    case paid
    then show ?thesis
      using spend_left [OF operationCostFromGates_ok paid(4)] by (simp add: budget_ok_def)
  qed (simp_all add: ok)
qed (simp add: budget_ok_def)

section \<open>What the pass promises\<close>

lemma queueBlockedGates_reason:
  "gate \<in> set (queueBlockedGates ItemName b c) \<Longrightarrow> gate_Source gate = ''operation.queue''"
  by (auto simp: queueBlockedGates_def queueBudgetGate_def Let_def split: if_splits)

lemma budget_ok_initial:
  assumes "0 \<le> Gold s" "0 \<le> SpendableDiamonds s" "\<And>i. 0 \<le> get_or 0 (Inventory s) i"
  shows "budget_ok (initial_budget restore s now)"
  unfolding budget_ok_def
proof
  fix r
  show "0 \<le> budget_left (initial_budget restore s now) r"
    using assms by (cases r) (auto simp: initial_budget_def AvailableWaterDrops_def Let_def split: prod.splits)
qed

text \<open>
  C1.  The operations the budget pass leaves executable can be paid for together:
  summed over the whole queue, the cost of every resource stays within what the account owns.
\<close>

theorem queue_affordable:
  assumes "0 \<le> Gold s" "0 \<le> SpendableDiamonds s" "\<And>i. 0 \<le> get_or 0 (Inventory s) i"
  shows "sum_list (map (\<lambda>op. op_need op r)
           (annotateSequentialResourceBudget ItemName restore (Some s) ops now))
         \<le> max 0 (budget_left (initial_budget restore s now) r)"
proof (cases "ops = []")
  case True
  then show ?thesis by (simp add: annotateSequentialResourceBudget_def)
next
  case False
  obtain b' ops' where t: "thread (budget_op ItemName) ops (initial_budget restore s now) = (b', ops')"
    by (cases "thread (budget_op ItemName) ops (initial_budget restore s now)")
  have "sum_list (map (\<lambda>op. op_need op r) ops') \<le> budget_left (initial_budget restore s now) r"
    by (rule queue_budget.run_affordable [OF budget_ok_initial [OF assms] t])
  then show ?thesis using False t by (simp add: annotateSequentialResourceBudget_def)
qed

definition paid_op :: "int \<Rightarrow> planned_op" where
  "paid_op gold = zero_op\<lparr>op_Executable := True, op_GoldCost := gold,
     op_CostGates := [resourceGate ''gold'' GateResourceGold lit_gold 0 gold 100 ''operation.cost'']\<rparr>"

lemma sample_inventory: "0 \<le> get_or 0 (Inventory sample_state) i"
  by (simp add: sample_state_def Inventory_def get_or_Cons)

text \<open>Two operations of sixty coins each before a purse of one hundred: the second is blocked.\<close>

theorem queue_affordable_witness:
  "let ops = annotateSequentialResourceBudget (\<lambda>i. []) None (Some sample_state) [paid_op 60, paid_op 60] 0
   in map op_Executable ops = [True, False] \<and> sum_list (map (\<lambda>op. op_need op GoldCoins) ops) \<le> 100"
proof -
  have "map op_Executable (annotateSequentialResourceBudget (\<lambda>i. []) None (Some sample_state)
          [paid_op 60, paid_op 60] 0) = [True, False]" by code_simp
  moreover have "budget_left (initial_budget None sample_state 0) GoldCoins = 100"
    by (simp add: initial_budget_def Gold_def sample_state_def)
  ultimately show ?thesis
    using queue_affordable [of sample_state GoldCoins "\<lambda>i. []" None "[paid_op 60, paid_op 60]" 0]
      sample_inventory
    by (simp add: Gold_def SpendableDiamonds_def Let_def) (simp add: sample_state_def)
qed

text \<open>
  An operation whose cost exceeds what the operations before it left is blocked, with a reason;
  every other operation leaves the pass as it entered it.
\<close>

lemma budget_op_exact:
  assumes "budget_ok b" "budget_op ItemName op b = (b', op')"
  shows "op' = op \<or> operationConsumesQueueBudget op \<and> \<not> operationConsumesQueueBudget op' \<and>
           (\<exists>r. budget_left b r < op_need op r)"
    and "operationConsumesQueueBudget op \<Longrightarrow>
           operationConsumesQueueBudget op' \<longleftrightarrow> (\<forall>r. op_need op r \<le> budget_left b r)"
proof -
  have nonneg: "0 \<le> budget_left b r" for r using assms(1) by (simp add: budget_ok_def)
  show "op' = op \<or> operationConsumesQueueBudget op \<and> \<not> operationConsumesQueueBudget op' \<and>
           (\<exists>r. budget_left b r < op_need op r)"
    using assms by (cases rule: budget_op_cases) auto
  assume c: "operationConsumesQueueBudget op"
  show "operationConsumesQueueBudget op' \<longleftrightarrow> (\<forall>r. op_need op r \<le> budget_left b r)"
    using assms
  proof (cases rule: budget_op_cases)
    case free
    then show ?thesis using c nonneg by simp
  next
    case blocked
    then show ?thesis by (metis not_le)
  next
    case paid
    then show ?thesis by (simp add: op_need_def)
  qed
qed

lemma thread_append:
  "thread f (xs @ ys) s =
     (case thread f xs s of (s', us) \<Rightarrow> (case thread f ys s' of (s'', vs) \<Rightarrow> (s'', us @ vs)))"
  by (induction xs arbitrary: s) (auto simp: split_def)

text \<open>
  Admission is first come, first served: an operation that enters the pass
  executable stays so exactly when its cost fits what the operations admitted before it left.
\<close>

lemma queue_first_fit:
  assumes "0 \<le> Gold s" "0 \<le> SpendableDiamonds s" "\<And>i. 0 \<le> get_or 0 (Inventory s) i"
    and "operationConsumesQueueBudget op"
    and "ops' = annotateSequentialResourceBudget ItemName restore (Some s) (xs @ op # ys) now"
  shows "operationConsumesQueueBudget (ops' ! length xs) \<longleftrightarrow>
    (\<forall>r. op_need op r + sum_list (map (\<lambda>x. op_need x r) (take (length xs) ops'))
          \<le> budget_left (initial_budget restore s now) r)"
proof -
  let ?b0 = "initial_budget restore s now"
  have ok0: "budget_ok ?b0" by (rule budget_ok_initial [OF assms(1-3)])
  obtain b us where t: "thread (budget_op ItemName) xs ?b0 = (b, us)"
    by (cases "thread (budget_op ItemName) xs ?b0")
  obtain b1 op' where st: "budget_op ItemName op b = (b1, op')" by (cases "budget_op ItemName op b")
  obtain b2 vs where t2: "thread (budget_op ItemName) ys b1 = (b2, vs)"
    by (cases "thread (budget_op ItemName) ys b1")
  have len: "length us = length xs" by (rule thread_length [OF t])
  have ops': "ops' = us @ op' # vs"
    using assms(5) t st t2 by (simp add: annotateSequentialResourceBudget_def thread_append)
  have "budget_left ?b0 r = budget_left b r + sum_list (map (\<lambda>x. op_need x r) us)" for r
    by (rule queue_budget.run_spends [OF ok0 t])
  moreover have "operationConsumesQueueBudget op' \<longleftrightarrow> (\<forall>r. op_need op r \<le> budget_left b r)"
    using budget_op_exact(2) [OF queue_budget.run_ok [OF ok0 t] st] assms(4) by simp
  ultimately show ?thesis by (simp add: ops' nth_append flip: len)
qed

end
