(* ===== verification/OpGates.thy ===== *)
theory OpGates
  imports Gates
begin

text \<open>
  The runner's own check of an operation's costs, made again just before the request is sent
  (\<open>internal/runner/operation_gates.go\<close>), and the reservation of water drops around a watering
  request.  The planner's gates (theory Gates) and this check are two implementations of one
  contract, \<open>costs_met\<close>; both are proved against it.
\<close>

definition runnablePlannedOp :: "planned_op \<Rightarrow> bool" where
  "runnablePlannedOp op \<longleftrightarrow>
     op_Executable op \<and> \<not> op_SyncOnly op \<and> op_Status op \<noteq> PlanStatusAdapterMissing \<and>
     op_Status op \<noteq> PlanStatusBlocked \<and> op_BlockedReasons op = []"

definition flowerName :: "(int \<Rightarrow> string) \<Rightarrow> int \<Rightarrow> string" where
  "flowerName FlowerName i =
     (if i = 0 then lit_none
      else if FlowerName i \<noteq> [] then FlowerName i else lit_flower_no @ show_int i)"

definition gateLabel :: "cost_gate \<Rightarrow> string \<Rightarrow> string" where
  "gateLabel gate fallback = (if trim_space (gate_Label gate) \<noteq> [] then gate_Label gate else fallback)"

definition isWaterOp :: "string \<Rightarrow> bool" where
  "isWaterOp kind \<longleftrightarrow> kind = RPCUsrLandWater \<or> kind = RPCUsrLandWaterBatch"

text \<open>The error of a check is its text; \<open>None\<close> is Go's nil error.\<close>

definition short_error :: "string \<Rightarrow> int \<Rightarrow> int \<Rightarrow> string" where
  "short_error label required available =
     label @ lit_short_need @ show_int required @ lit_current @ show_int available"

definition checkCostGate ::
  "(int \<Rightarrow> string) \<Rightarrow> int list option \<Rightarrow> game_state \<Rightarrow> planned_op \<Rightarrow> cost_gate \<Rightarrow> time \<Rightarrow> string option" where
  "checkCostGate FlowerName restore s op gate now =
     (let required = gate_Required gate; kind = gate_ResourceKind gate in
      if required \<le> 0 then None
      else if kind = GateResourceGold then
        (if Gold s < required then Some (short_error (gateLabel gate lit_gold) required (Gold s)) else None)
      else if kind = GateResourceDiamond then
        (if SpendableDiamonds s < required
         then Some (short_error (gateLabel gate lit_diamond) required (SpendableDiamonds s))
         else if op_Kind op \<noteq> RPCFmlRaceUpgradeTask
         then Some (lit_diamond_not_automatic_n @ show_int required)
         else None)
      else if kind = GateResourceItem then
        (let available = get_or 0 (Inventory s) (gate_ItemID gate)
         in if available < required
            then Some (short_error (gateLabel gate (flowerName FlowerName (gate_ItemID gate)))
                         required available)
            else None)
      else if kind = GateResourceWaterDrop then
        (let available = fst (AvailableWaterDrops restore now s)
         in if available < required
            then Some (short_error (gateLabel gate lit_water_drop) required available) else None)
      else if Blocking gate then
        (if gate_BlockedReasons gate \<noteq> [] then Some (str_join ''; '' (gate_BlockedReasons gate))
         else Some (gateLabel gate lit_precondition @ lit_unmet))
      else None)"

text \<open>The first error of a range loop.\<close>

fun first_error :: "('a \<Rightarrow> string option) \<Rightarrow> 'a list \<Rightarrow> string option" where
  "first_error f [] = None"
| "first_error f (x # xs) = (case f x of Some e \<Rightarrow> Some e | None \<Rightarrow> first_error f xs)"

definition checkItemCost ::
  "(int \<Rightarrow> string) \<Rightarrow> game_state \<Rightarrow> int \<times> int \<Rightarrow> string option" where
  "checkItemCost FlowerName s = (\<lambda>(itemID, count).
     if count \<le> 0 then None
     else let available = get_or 0 (Inventory s) itemID
          in if available < count
             then Some (flowerName FlowerName itemID @ lit_item_short @ show_int count @
                        lit_current @ show_int available)
             else None)"

text \<open>
  The cost part of \<open>checkOperationResources\<close>, which follows the checks of the single domains:
  the gates, then the operation's own gold, diamond, item and water costs.
\<close>

definition check_operation_costs ::
  "(int \<Rightarrow> string) \<Rightarrow> int list option \<Rightarrow> game_state \<Rightarrow> planned_op \<Rightarrow> time \<Rightarrow> string option" where
  "check_operation_costs FlowerName restore s op now =
     (case first_error (\<lambda>gate. checkCostGate FlowerName restore s op gate now) (op_CostGates op) of
        Some e \<Rightarrow> Some e
      | None \<Rightarrow>
        if 0 < op_DiamondCost op \<and> op_Kind op \<noteq> RPCFmlRaceUpgradeTask
        then Some (lit_diamond_op_not_automatic @ show_int (op_DiamondCost op))
        else if 0 < op_GoldCost op \<and> Gold s < op_GoldCost op
        then Some (lit_gold_short @ show_int (op_GoldCost op) @ lit_current @ show_int (Gold s))
        else case first_error (checkItemCost FlowerName s) (op_ItemCost op) of
          Some e \<Rightarrow> Some e
        | None \<Rightarrow>
          if isWaterOp (op_Kind op)
          then let need = int (length (op_LandIDs op));
                   available = fst (AvailableWaterDrops restore now s)
               in if need \<le> 0 then Some lit_water_without_land
                  else if available < need
                  then Some (lit_water_short @ show_int need @ lit_current @ show_int available)
                  else None
          else None)"

text \<open>
  \<open>lockOperationWaterDrops\<close>: the state with the reservation and the number of drops the returned
  release function gives back, or the error.
\<close>

definition lockOperationWaterDrops ::
  "int list option \<Rightarrow> planned_op \<Rightarrow> time \<Rightarrow> game_state \<Rightarrow> game_state \<times> (string + int)" where
  "lockOperationWaterDrops restore op now s =
     (if \<not> isWaterOp (op_Kind op) then (s, Inr 0)
      else let n = int (length (op_LandIDs op)) in
        case LockWaterDrops restore n now s of
          (s', granted) \<Rightarrow>
            if \<not> granted then (s', Inl ''insufficient local water drops'') else (s', Inr n))"

section \<open>The contract of a cost check\<close>

definition costs_met :: "int list option \<Rightarrow> game_state \<Rightarrow> planned_op \<Rightarrow> time \<Rightarrow> bool" where
  "costs_met restore s op now \<longleftrightarrow>
     (0 < op_GoldCost op \<longrightarrow> op_GoldCost op \<le> Gold s) \<and>
     (0 < op_DiamondCost op \<longrightarrow>
        op_DiamondCost op \<le> SpendableDiamonds s \<and> op_Kind op = RPCFmlRaceUpgradeTask) \<and>
     (\<forall>(i, c) \<in> set (op_ItemCost op). 0 < c \<longrightarrow> c \<le> get_or 0 (Inventory s) i) \<and>
     (isWaterOp (op_Kind op) \<longrightarrow> op_LandIDs op \<noteq> [] \<and>
        int (length (op_LandIDs op)) \<le> fst (AvailableWaterDrops restore now s))"

text \<open>A gate of the planner passes in the eyes of the runner when it carries no reason.\<close>

lemma resourceGate_reasons:
  "gate_BlockedReasons (resourceGate i kind label itemID required available src) = [] \<longleftrightarrow>
     required \<le> available"
  by (simp add: resourceGate_def Let_def)

lemma resourceGate_fields [simp]:
  "gate_ResourceKind (resourceGate i kind label itemID required available src) = kind"
  "gate_Required (resourceGate i kind label itemID required available src) = required"
  "gate_ItemID (resourceGate i kind label itemID required available src) = itemID"
  by (simp_all add: resourceGate_def Let_def)

lemma first_error_None: "first_error f xs = None \<longleftrightarrow> (\<forall>x \<in> set xs. f x = None)"
  by (induction xs) (auto split: option.splits)

lemma goldCostGates_pass:
  "(\<forall>g \<in> set (goldCostGates s op). gate_BlockedReasons g = []) \<longleftrightarrow>
     (0 < op_GoldCost op \<longrightarrow> op_GoldCost op \<le> Gold s)"
  by (simp add: goldCostGates_def resourceGate_reasons)

lemma diamondCostGates_pass:
  "(\<forall>g \<in> set (diamondCostGates s op). gate_BlockedReasons g = []) \<longleftrightarrow>
     (0 < op_DiamondCost op \<longrightarrow>
        op_DiamondCost op \<le> SpendableDiamonds s \<and> op_Kind op = RPCFmlRaceUpgradeTask)"
  by (simp add: diamondCostGates_def Let_def resourceGate_reasons) blast

lemma itemCostGates_pass:
  assumes "gomap_ok (op_ItemCost op)"
  shows "(\<forall>g \<in> set (itemCostGates ItemName s op). gate_BlockedReasons g = []) \<longleftrightarrow>
     (\<forall>(i, c) \<in> set (op_ItemCost op). 0 < c \<longrightarrow> c \<le> get_or 0 (Inventory s) i)"
proof -
  have val: "get_or 0 (op_ItemCost op) i = c" if "(i, c) \<in> set (op_ItemCost op)" for i c
    using assms that by (simp add: get_or_def gomap_ok_def)
  have "(\<forall>g \<in> set (itemCostGates ItemName s op). gate_BlockedReasons g = []) \<longleftrightarrow>
      (\<forall>i \<in> fst ` set (op_ItemCost op).
         0 < get_or 0 (op_ItemCost op) i \<longrightarrow>
         get_or 0 (op_ItemCost op) i \<le> get_or 0 (Inventory s) i)"
    by (auto simp: itemCostGates_def Let_def resourceGate_reasons not_le)
  also have "\<dots> \<longleftrightarrow> (\<forall>(i, c) \<in> set (op_ItemCost op). 0 < c \<longrightarrow> c \<le> get_or 0 (Inventory s) i)"
    using val by force
  finally show ?thesis .
qed

lemma waterCostGates_pass:
  "(\<forall>g \<in> set (waterCostGates restore s op now). gate_BlockedReasons g = []) \<longleftrightarrow>
     (isWaterOp (op_Kind op) \<longrightarrow> op_LandIDs op \<noteq> [] \<and>
        int (length (op_LandIDs op)) \<le> fst (AvailableWaterDrops restore now s))"
  by (auto simp: waterCostGates_def Let_def resourceGate_reasons isWaterRPC_def isWaterOp_def)

lemmas gates_pass = goldCostGates_pass diamondCostGates_pass itemCostGates_pass waterCostGates_pass

text \<open>Whatever is reported as blocking carries a reason, so no failing gate is silent.\<close>

definition explained :: "cost_gate \<Rightarrow> bool" where
  "explained g \<longleftrightarrow> (Blocking g \<longleftrightarrow> gate_BlockedReasons g \<noteq> [])"

lemma explained_resourceGate [simp]: "explained (resourceGate i kind label itemID required available src)"
  by (simp add: explained_def resourceGate_def Let_def Blocking_def)

lemma explained_reasons [simp]:
  "explained (g\<lparr>gate_Status := st, gate_BlockedReasons := [r]\<rparr>)"
  by (simp add: explained_def Blocking_def)

lemma explained_implicit:
  "\<forall>g \<in> set (implicitOperationCostGates ItemName restore st op now). explained g"
proof -
  have "\<forall>g \<in> set (goldCostGates s op). explained g" for s by (simp add: goldCostGates_def)
  moreover have "\<forall>g \<in> set (diamondCostGates s op). explained g" for s
    by (simp add: diamondCostGates_def Let_def)
  moreover have "\<forall>g \<in> set (itemCostGates ItemName s op). explained g" for s
    by (simp add: itemCostGates_def Let_def)
  moreover have "\<forall>g \<in> set (waterCostGates restore s op now). explained g" for s
    by (simp add: waterCostGates_def Let_def)
  ultimately show ?thesis
    by (simp add: implicitOperationCostGates_def split: option.splits) blast
qed

lemma implicit_gates_pass:
  assumes "gomap_ok (op_ItemCost op)"
  shows "(\<forall>g \<in> set (implicitOperationCostGates ItemName restore (Some s) op now).
            gate_BlockedReasons g = []) \<longleftrightarrow> costs_met restore s op now"
  using assms by (simp add: implicitOperationCostGates_def ball_Un gates_pass costs_met_def)

text \<open>The planner's annotation of a fresh operation keeps it runnable exactly when its costs are met.\<close>

lemma annotate_gates_runnable:
  assumes "runnablePlannedOp op" "op_CostGates op = []" "gomap_ok (op_ItemCost op)"
  shows "runnablePlannedOp (annotate_gates ItemName restore (Some s) now op) \<longleftrightarrow> costs_met restore s op now"
    (is "runnablePlannedOp ?op' \<longleftrightarrow> _")
proof -
  let ?gates = "implicitOperationCostGates ItemName restore (Some s) op now"
  let ?reasons = "concat (map gate_BlockedReasons (filter Blocking ?gates))"
  have m: "mergeCostGates [] ?gates = ?gates" by (simp add: mergeCostGates_def)
  have "runnablePlannedOp ?op' \<longleftrightarrow> ?reasons = []"
    using assms(1,2) by (simp add: annotate_gates_def runnablePlannedOp_def Let_def m)
  also have "\<dots> \<longleftrightarrow> (\<forall>g \<in> set ?gates. Blocking g \<longrightarrow> gate_BlockedReasons g = [])"
    by auto
  also have "\<dots> \<longleftrightarrow> (\<forall>g \<in> set ?gates. gate_BlockedReasons g = [])"
    using explained_implicit [of ItemName restore "Some s" op now] unfolding explained_def by blast
  also have "\<dots> \<longleftrightarrow> costs_met restore s op now" by (rule implicit_gates_pass [OF assms(3)])
  finally show ?thesis .
qed

lemma annotate_gates_fields:
  "op_Kind (annotate_gates ItemName restore st now op) = op_Kind op"
  "op_GoldCost (annotate_gates ItemName restore st now op) = op_GoldCost op"
  "op_DiamondCost (annotate_gates ItemName restore st now op) = op_DiamondCost op"
  "op_ItemCost (annotate_gates ItemName restore st now op) = op_ItemCost op"
  "op_LandIDs (annotate_gates ItemName restore st now op) = op_LandIDs op"
  "op_CostGates (annotate_gates ItemName restore st now op) =
     mergeCostGates (op_CostGates op) (implicitOperationCostGates ItemName restore st op now)"
  by (simp_all add: annotate_gates_def Let_def)

lemma costs_met_cong:
  assumes "op_Kind op' = op_Kind op" "op_GoldCost op' = op_GoldCost op"
    "op_DiamondCost op' = op_DiamondCost op" "op_ItemCost op' = op_ItemCost op"
    "op_LandIDs op' = op_LandIDs op"
  shows "costs_met restore s op' now = costs_met restore s op now"
  by (simp add: costs_met_def assms)

section \<open>The runner's check\<close>

lemma item_costs_pass:
  "first_error (checkItemCost FlowerName s) items = None \<longleftrightarrow>
     (\<forall>(i, c) \<in> set items. 0 < c \<longrightarrow> c \<le> get_or 0 (Inventory s) i)"
  unfolding first_error_None
  by (rule ball_cong [OF refl]) (simp add: checkItemCost_def Let_def not_le split: prod.split)

text \<open>The tail of the check, without the gates.\<close>

lemma check_costs_parts:
  "check_operation_costs FlowerName restore s op now = None \<longleftrightarrow>
     (\<forall>g \<in> set (op_CostGates op). checkCostGate FlowerName restore s op g now = None) \<and>
     (0 < op_DiamondCost op \<longrightarrow> op_Kind op = RPCFmlRaceUpgradeTask) \<and>
     (0 < op_GoldCost op \<longrightarrow> op_GoldCost op \<le> Gold s) \<and>
     (\<forall>(i, c) \<in> set (op_ItemCost op). 0 < c \<longrightarrow> c \<le> get_or 0 (Inventory s) i) \<and>
     (isWaterOp (op_Kind op) \<longrightarrow> op_LandIDs op \<noteq> [] \<and>
        int (length (op_LandIDs op)) \<le> fst (AvailableWaterDrops restore now s))"
  unfolding check_operation_costs_def Let_def item_costs_pass [symmetric, of _ _ FlowerName]
    first_error_None [symmetric]
  by (simp split: option.split) (auto simp: not_less not_le)

text \<open>The runner accepts every gate of the planner that carries no reason.\<close>

lemma checkCostGate_resource:
  assumes "kind \<in> {GateResourceGold, GateResourceDiamond, GateResourceItem, GateResourceWaterDrop}"
    and "kind = GateResourceGold \<Longrightarrow> available = Gold s"
    and "kind = GateResourceDiamond \<Longrightarrow>
           available = SpendableDiamonds s \<and> op_Kind op = RPCFmlRaceUpgradeTask"
    and "kind = GateResourceItem \<Longrightarrow> available = get_or 0 (Inventory s) itemID"
    and "kind = GateResourceWaterDrop \<Longrightarrow> available = fst (AvailableWaterDrops restore now s)"
    and "gate_ResourceKind g = kind" "gate_Required g = required" "gate_ItemID g = itemID"
    and "required \<le> available"
  shows "checkCostGate FlowerName restore s op g now = None"
  using assms(1)
proof (elim insertE emptyE)
  assume k: "kind = GateResourceGold"
  show ?thesis using k assms(2,6-9) by (simp add: checkCostGate_def Let_def)
next
  assume k: "kind = GateResourceDiamond"
  show ?thesis using k assms(3,6-9) by (simp add: checkCostGate_def Let_def)
next
  assume k: "kind = GateResourceItem"
  show ?thesis using k assms(4,6-9) by (simp add: checkCostGate_def Let_def)
next
  assume k: "kind = GateResourceWaterDrop"
  show ?thesis using k assms(5-9) by (simp add: checkCostGate_def Let_def)
qed

lemma implicit_gates_checked:
  assumes "costs_met restore s op now" "gomap_ok (op_ItemCost op)" "op_Kind op' = op_Kind op"
    and "g \<in> set (implicitOperationCostGates ItemName restore (Some s) op now)"
  shows "checkCostGate FlowerName restore s op' g now = None"
proof -
  have none: "gate_BlockedReasons g = []"
    using implicit_gates_pass [OF assms(2)] assms(1,4) by blast
  consider "g \<in> set (goldCostGates s op)" | "g \<in> set (diamondCostGates s op)"
    | "g \<in> set (itemCostGates ItemName s op)" | "g \<in> set (waterCostGates restore s op now)"
    using assms(4) by (auto simp: implicitOperationCostGates_def)
  then show ?thesis
  proof cases
    case 1
    then show ?thesis
      using none by (intro checkCostGate_resource [where kind = GateResourceGold and available = "Gold s" and itemID = 0])
        (simp_all add: goldCostGates_def resourceGate_reasons split: if_splits)
  next
    case 2
    then have pos: "0 < op_DiamondCost op" by (simp add: diamondCostGates_def split: if_splits)
    then have m: "op_DiamondCost op \<le> SpendableDiamonds s" "op_Kind op = RPCFmlRaceUpgradeTask"
      using assms(1) by (simp_all add: costs_met_def)
    show ?thesis
      using m 2 assms(3) pos
      by (intro checkCostGate_resource
           [where kind = GateResourceDiamond and available = "SpendableDiamonds s" and itemID = 1])
        (simp_all add: diamondCostGates_def Let_def resourceGate_reasons)
  next
    case 3
    then obtain i where i: "g = resourceGate (''item:'' @ show_int i) GateResourceItem
        (itemLabel ItemName i) i (get_or 0 (op_ItemCost op) i) (get_or 0 (Inventory s) i)
        ''operation.cost''"
      by (auto simp: itemCostGates_def Let_def split: if_splits)
    show ?thesis
      using none by (intro checkCostGate_resource
           [where kind = GateResourceItem and available = "get_or 0 (Inventory s) i" and itemID = i])
        (simp_all add: i resourceGate_reasons)
  next
    case 4
    then show ?thesis
      using none
      by (intro checkCostGate_resource
           [where kind = GateResourceWaterDrop and itemID = 7
              and available = "fst (AvailableWaterDrops restore now s)"])
        (simp_all add: waterCostGates_def Let_def resourceGate_reasons split: if_splits)
  qed
qed

text \<open>The diamond balance is the one cost the tail leaves to the gate.\<close>

lemma diamond_gate_checked:
  assumes "0 < op_DiamondCost op" "op_Kind op' = op_Kind op"
    and "\<forall>g \<in> set (diamondCostGates s op). checkCostGate FlowerName restore s op' g now = None"
  shows "op_DiamondCost op \<le> SpendableDiamonds s"
  using assms by (simp add: diamondCostGates_def Let_def checkCostGate_def split: if_splits)

text \<open>
  C2.  The planner's annotation and the runner's last check agree: a fresh operation
  stays runnable after \<open>annotateOperationGates\<close> exactly when the runner, in the same state,
  raises no error for its costs.
\<close>

theorem gates_agree:
  assumes "runnablePlannedOp op" "op_CostGates op = []" "gomap_ok (op_ItemCost op)"
    and "annotateOperationGates ItemName restore (Some s) [op] now = [op']"
  shows "runnablePlannedOp op' \<longleftrightarrow> check_operation_costs FlowerName restore s op' now = None"
proof -
  have op': "op' = annotate_gates ItemName restore (Some s) now op"
    using assms(4) by (simp add: annotateOperationGates_def)
  let ?gates = "implicitOperationCostGates ItemName restore (Some s) op now"
  have gates: "op_CostGates op' = ?gates"
    using assms(2) by (simp add: op' annotate_gates_fields mergeCostGates_def)
  have kind: "op_Kind op' = op_Kind op" by (simp add: op' annotate_gates_fields)
  have "check_operation_costs FlowerName restore s op' now = None \<longleftrightarrow> costs_met restore s op now"
  proof
    assume c: "check_operation_costs FlowerName restore s op' now = None"
    have "0 < op_DiamondCost op \<Longrightarrow> op_DiamondCost op \<le> SpendableDiamonds s"
      using c [unfolded check_costs_parts gates]
      by (intro diamond_gate_checked [OF _ kind, where FlowerName = FlowerName and restore = restore
            and now = now]) (simp_all add: implicitOperationCostGates_def ball_Un)
    then show "costs_met restore s op now"
      using c [unfolded check_costs_parts]
      by (simp add: costs_met_def op' annotate_gates_fields)
  next
    assume m: "costs_met restore s op now"
    have "\<forall>g \<in> set ?gates. checkCostGate FlowerName restore s op' g now = None"
      using implicit_gates_checked [OF m assms(3) kind] by blast
    then show "check_operation_costs FlowerName restore s op' now = None"
      using m unfolding check_costs_parts gates
      by (simp add: costs_met_def op' annotate_gates_fields)
  qed
  then show ?thesis using annotate_gates_runnable [OF assms(1-3)] by (simp add: op')
qed

text \<open>An upgrade of thirty coins with water to spare passes both checks.\<close>

theorem gates_agree_witness:
  "let op = zero_op\<lparr>op_Executable := True, op_Kind := RPCUsrLandWater, op_LandIDs := [4],
                    op_GoldCost := 30, op_ItemCost := [(12, 2)]\<rparr>;
       op' = hd (annotateOperationGates (\<lambda>i. []) None (Some sample_state) [op] 0)
   in runnablePlannedOp op' \<and>
      (runnablePlannedOp op' \<longleftrightarrow> check_operation_costs (\<lambda>i. []) None sample_state op' 0 = None)"
proof -
  define op where "op = zero_op\<lparr>op_Executable := True, op_Kind := RPCUsrLandWater,
    op_LandIDs := [4 :: int], op_GoldCost := 30, op_ItemCost := [(12, 2)]\<rparr>"
  define op' where "op' = hd (annotateOperationGates (\<lambda>i. []) None (Some sample_state) [op] 0)"
  have a: "annotateOperationGates (\<lambda>i. []) None (Some sample_state) [op] 0 = [op']"
    by (simp add: op'_def annotateOperationGates_def)
  have r: "runnablePlannedOp op" by (simp add: op_def runnablePlannedOp_def zero_op_def)
  have g: "op_CostGates op = []" "gomap_ok (op_ItemCost op)"
    by (simp_all add: op_def zero_op_def gomap_ok_def)
  have "runnablePlannedOp op'" unfolding op'_def op_def by code_simp
  then show ?thesis
    using gates_agree [OF r g a, of "\<lambda>i. []"] unfolding op_def [symmetric]
    by (simp add: op'_def [symmetric] Let_def)
qed

definition drops_needed :: "planned_op \<Rightarrow> int" where
  "drops_needed op = (if isWaterOp (op_Kind op) then int (length (op_LandIDs op)) else 0)"

text \<open>
  C25.  A watering request reserves one drop for each of its lands, any other request none.  The
  reservation is granted exactly when that many drops are there beside those in flight; it then adds
  them to the drops in flight and changes nothing else, what is in flight stays covered, and releasing
  it restores the state.  A refused request leaves the state as it was.
\<close>

theorem reservation_exact:
  assumes "reservation_ok restore now s" "lockOperationWaterDrops restore op now s = (s', res)"
  shows "reservation_ok restore now s' \<and>
    (case res of
       Inl e \<Rightarrow> s' = s \<and> 0 < drops_needed op \<and> drops_needed op > fst (AvailableWaterDrops restore now s)
     | Inr n \<Rightarrow> n = drops_needed op \<and>
               (0 < n \<longrightarrow> n \<le> fst (AvailableWaterDrops restore now s)) \<and>
               s' = s\<lparr>gs_waterDropsInFlight := gs_waterDropsInFlight s + drops_needed op\<rparr> \<and>
               ReleaseWaterDropsLock n s' = s)"
proof (cases "isWaterOp (op_Kind op)")
  case False
  then show ?thesis using assms by (auto simp: lockOperationWaterDrops_def ReleaseWaterDropsLock_def drops_needed_def)
next
  case True
  let ?n = "int (length (op_LandIDs op))"
  have need: "drops_needed op = ?n" using True by (simp add: drops_needed_def)
  obtain t granted where l: "LockWaterDrops restore ?n now s = (t, granted)"
    by (cases "LockWaterDrops restore ?n now s")
  have av: "fst (AvailableWaterDrops restore now s) =
      max 0 (fst (projectedWaterDrops restore now s) - gs_waterDropsInFlight s)"
    by (simp add: AvailableWaterDrops_def Let_def split_def)
  note r = LockWaterDrops_result [OF l]
  show ?thesis
  proof (cases granted)
    case False
    then have "t = s" "0 < ?n" using l by (auto simp: LockWaterDrops_def split: if_splits prod.splits)
    then show ?thesis using False True assms l r(1) av by (auto simp: lockOperationWaterDrops_def need)
  next
    case g: True
    then have res: "s' = t" "res = Inr ?n" using True assms(2) l by (simp_all add: lockOperationWaterDrops_def)
    moreover have "t = s\<lparr>gs_waterDropsInFlight := gs_waterDropsInFlight s + ?n\<rparr>"
      "0 < ?n \<longrightarrow> ?n \<le> fst (AvailableWaterDrops restore now s)"
      using l g unfolding av by (auto simp: LockWaterDrops_def split: if_splits prod.splits)
    moreover have "ReleaseWaterDropsLock ?n t = s"
      using release_after_lock l g assms(1) by (simp add: reservation_ok_def)
    moreover have "reservation_ok restore now t"
      using r g assms(1) by (simp add: reservation_ok_def split: if_splits)
    ultimately show ?thesis by (simp only: need sum.case simp_thms)
  qed
qed

theorem reservation_exact_witness:
  "let op = zero_op\<lparr>op_Kind := RPCUsrLandWater, op_LandIDs := [4, 6]\<rparr>;
       r = lockOperationWaterDrops None op 0 sample_state
   in snd r = Inr 2 \<and> reservation_ok None 0 (fst r) \<and>
      ReleaseWaterDropsLock 2 (fst r) = sample_state \<and> gs_waterDropsInFlight (fst r) = 3"
proof -
  define op where "op = zero_op\<lparr>op_Kind := RPCUsrLandWater, op_LandIDs := [4 :: int, 6]\<rparr>"
  define r where "r = lockOperationWaterDrops None op 0 sample_state"
  have r: "snd r = Inr 2" "gs_waterDropsInFlight (fst r) = 3" unfolding r_def op_def by code_simp+
  have ok: "reservation_ok None 0 sample_state" unfolding reservation_ok_def by code_simp
  have "lockOperationWaterDrops None op 0 sample_state = (fst r, snd r)" by (simp add: r_def)
  from reservation_exact [OF ok this] have "reservation_ok None 0 (fst r) \<and> ReleaseWaterDropsLock 2 (fst r) = sample_state"
    unfolding r(1) sum.case by blast
  with r show ?thesis unfolding op_def [symmetric] Let_def r_def [symmetric] by blast
qed

end
