(* ===== verification/Padded.thy ===== *)
theory Padded
  imports Prelude "HOL-Library.List_Lexorder" "HOL-Library.Char_ord"
begin

text \<open>
  Zero-padded decimals in operation identifiers: bytewise comparison of \<open>%010d\<close> and \<open>%020d\<close> is the
  comparison of the numbers.  The planner relies on it to keep a score order through the final
  sort of the plan, whose last key is the operation identifier.
\<close>

lemma lex_append:
  fixes u :: "'a::linorder list"
  assumes "length u = length u'"
  shows "u @ v < u' @ v' \<longleftrightarrow> u < u' \<or> u = u' \<and> v < v'"
  using assms
proof (induction u arbitrary: u')
  case Nil
  then show ?case by simp
next
  case (Cons a u)
  then obtain b w where "u' = b # w" by (cases u') auto
  with Cons show ?case by auto
qed

definition digits :: "string \<Rightarrow> bool" where
  "digits s \<longleftrightarrow> list_all (\<lambda>c. \<exists>d<10. c = digit_char d) s"

lemma read_nat_Cons: "read_nat (c # cs) = digit_value c * 10 ^ length cs + read_nat cs"
proof (induction cs rule: rev_induct)
  case Nil
  then show ?case by (simp add: read_nat_def)
next
  case (snoc x xs)
  have "read_nat (c # xs @ [x]) = 10 * read_nat (c # xs) + digit_value x"
    using read_nat_snoc [of "c # xs" x] by simp
  with snoc show ?case by (simp add: read_nat_snoc algebra_simps)
qed

lemma read_nat_Nil [simp]: "read_nat [] = 0"
  by (simp add: read_nat_def)

lemma digit_value_less: "digits (c # s) \<Longrightarrow> digit_value c < 10"
  by (auto simp: digits_def digit_value_digit_char)

lemma read_nat_bound: "digits s \<Longrightarrow> read_nat s < 10 ^ length s"
proof (induction s)
  case Nil
  then show ?case by simp
next
  case (Cons c s)
  have "digit_value c < 10" using Cons.prems by (rule digit_value_less)
  then have "digit_value c * 10 ^ length s \<le> 9 * 10 ^ length s" by (intro mult_right_mono) simp_all
  moreover have "read_nat s < 10 ^ length s" using Cons by (simp add: digits_def)
  ultimately have "read_nat (c # s) < 9 * 10 ^ length s + 10 ^ length s"
    unfolding read_nat_Cons by (rule add_le_less_mono)
  then show ?case by simp
qed

lemma digit_char_less: "a < 10 \<Longrightarrow> b < 10 \<Longrightarrow> digit_char a < digit_char b \<longleftrightarrow> a < b"
  by (simp add: digit_char_def less_char_def)

lemma digits_less_iff:
  "digits s \<Longrightarrow> digits t \<Longrightarrow> length s = length t \<Longrightarrow> s < t \<longleftrightarrow> read_nat s < read_nat t"
proof (induction s arbitrary: t)
  case Nil
  then show ?case by simp
next
  case (Cons c s)
  then obtain e t' where t: "t = e # t'" by (cases t) auto
  have len: "length s = length t'" using Cons.prems(3) t by simp
  obtain a b where ab: "c = digit_char a" "a < 10" "e = digit_char b" "b < 10"
    using Cons.prems t by (auto simp: digits_def)
  have bounds: "read_nat s < 10 ^ length t'" "read_nat t' < 10 ^ length t'"
    using read_nat_bound [of s] read_nat_bound [of t'] Cons.prems len t by (simp_all add: digits_def)
  have IH: "s < t' \<longleftrightarrow> read_nat s < read_nat t'"
    using Cons len t by (simp add: digits_def)
  have less: "a * 10 ^ length t' + read_nat s < b * 10 ^ length t' + read_nat t'"
    if "a < b" for a b :: nat
  proof -
    have "a * 10 ^ length t' + read_nat s < Suc a * 10 ^ length t'" using bounds(1) by simp
    also have "\<dots> \<le> b * 10 ^ length t'" using that by (intro mult_right_mono) simp_all
    finally show ?thesis by simp
  qed
  have less': "b * 10 ^ length t' + read_nat t' < a * 10 ^ length t' + read_nat s"
    if "b < a" for a b :: nat
  proof -
    have "b * 10 ^ length t' + read_nat t' < Suc b * 10 ^ length t'" using bounds(2) by simp
    also have "\<dots> \<le> a * 10 ^ length t'" using that by (intro mult_right_mono) simp_all
    finally show ?thesis by simp
  qed
  have vals: "read_nat (c # s) = a * 10 ^ length t' + read_nat s"
    "read_nat t = b * 10 ^ length t' + read_nat t'"
    by (simp_all add: t read_nat_Cons ab digit_value_digit_char len)
  have lex: "c # s < t \<longleftrightarrow> a < b \<or> a = b \<and> s < t'"
    using ab digit_char_less [OF ab(2,4)] digit_char_less [OF ab(4,2)]
    by (auto simp: t ab)
  show ?case
    unfolding lex vals using IH less [of a b] less' [of b a]
    by (cases a b rule: linorder_cases) auto
qed

lemma digits_show_nat: "digits (show_nat n)"
  using show_nat_digits by (auto simp: digits_def list_all_iff)

lemma digits_pad: "digits s \<Longrightarrow> digits (pad_left n s)"
proof -
  have "\<exists>d<10. CHR ''0'' = digit_char d"
    by (rule exI [of _ 0]) (simp add: digit_char_def, code_simp)
  then show "digits s \<Longrightarrow> digits (pad_left n s)"
    by (auto simp: digits_def pad_left_def list_all_iff)
qed

lemma read_nat_pad: "read_nat (pad_left n s) = read_nat s"
proof -
  have "read_nat (replicate k CHR ''0'' @ s) = read_nat s" for k
    by (induction k) (simp_all add: read_nat_Cons digit_value_def)
  then show ?thesis by (simp add: pad_left_def)
qed

lemma length_show_nat: "n < 10 ^ k \<Longrightarrow> 0 < k \<Longrightarrow> length (show_nat n) \<le> k"
proof (induction k arbitrary: n)
  case 0
  then show ?case by simp
next
  case (Suc k)
  show ?case
  proof (cases "n < 10")
    case True
    then show ?thesis by (simp add: show_nat.simps [of n])
  next
    case False
    then have "0 < k" using Suc.prems by (cases k) auto
    moreover have "n div 10 < 10 ^ k" using Suc.prems by (simp add: less_mult_imp_div_less mult.commute)
    ultimately have "length (show_nat (n div 10)) \<le> k" by (rule Suc.IH [rotated])
    with False show ?thesis by (simp add: show_nat.simps [of n])
  qed
qed

lemma length_pad_int: "0 \<le> i \<Longrightarrow> i < 10 ^ k \<Longrightarrow> 0 < k \<Longrightarrow> length (pad_left k (show_int i)) = k"
  using length_show_nat [of "nat i" k] by (simp add: pad_left_def show_int_def nat_less_iff)

lemma pad_less_iff:
  assumes "0 \<le> i" "i < 10 ^ k" "0 \<le> j" "j < 10 ^ k" "0 < k"
  shows "pad_left k (show_int i) < pad_left k (show_int j) \<longleftrightarrow> i < j"
proof -
  have "pad_left k (show_int i) < pad_left k (show_int j) \<longleftrightarrow>
      read_nat (pad_left k (show_nat (nat i))) < read_nat (pad_left k (show_nat (nat j)))"
    using assms digits_less_iff [of "pad_left k (show_nat (nat i))" "pad_left k (show_nat (nat j))"]
      length_pad_int [of i k] length_pad_int [of j k]
    by (simp add: show_int_def digits_pad digits_show_nat)
  also have "\<dots> \<longleftrightarrow> i < j" using assms by (auto simp: read_nat_pad read_show_nat)
  finally show ?thesis .
qed

lemma pad_eq_iff:
  assumes "0 \<le> i" "i < 10 ^ k" "0 \<le> j" "j < 10 ^ k" "0 < k"
  shows "pad_left k (show_int i) = pad_left k (show_int j) \<longleftrightarrow> i = j"
  using pad_less_iff [OF assms] pad_less_iff [OF assms(3,4,1,2,5)] by (metis linorder_neqE less_irrefl)

end
