(* ===== verification/RaceChange.thy ===== *)
theory RaceChange
  imports RaceTake Ops OpGates Padded
begin

text \<open>
  The mutations of the guild's task pool (\<open>internal/automation/union_race.go\<close>): deleting low-score
  rows, upgrading the held task, the manual take and delete, and the check the runner makes of each
  of them against the pool it has just read again.
\<close>

section \<open>Freshness of the pool\<close>

definition raceTaskPoolRefreshInterval :: duration where
  "raceTaskPoolRefreshInterval = 30 * second"

definition raceMaintenanceTaskPoolRefreshInterval :: duration where
  "raceMaintenanceTaskPoolRefreshInterval = 5 * minute"

definition last_pool_sync :: "fml_race_view \<Rightarrow> int" where
  "last_pool_sync view =
     (if rv_TaskPoolSyncAttemptAtMs view \<le> 0 then rv_TasksSyncedAtMs view
      else rv_TaskPoolSyncAttemptAtMs view)"

definition raceTaskPoolTTLStale :: "fml_race_view \<Rightarrow> time \<Rightarrow> bool" where
  "raceTaskPoolTTLStale view now =
     (if \<not> rv_BatchActive view \<or> \<not> rv_TasksObserved view \<or> rv_TaskPoolStale view then False
      else let lastSync = last_pool_sync view
           in if lastSync \<le> 0 then True
              else unix_milli lastSync + raceTaskPoolRefreshInterval \<le> now)"

definition raceTaskPoolRefreshDue :: "fml_race_view \<Rightarrow> race_policy \<Rightarrow> time \<Rightarrow> bool" where
  "raceTaskPoolRefreshDue view p now =
     (if \<not> rp_AutoEnableModules p \<and> \<not> taken_HasTask (rv_Taken view) then
        (let last = last_pool_sync view
         in rv_BatchActive view \<and> rv_TasksObserved view \<and> \<not> rv_TaskPoolStale view \<and>
            (last \<le> 0 \<or> unix_milli last + raceMaintenanceTaskPoolRefreshInterval \<le> now))
      else raceTaskPoolTTLStale view now)"

section \<open>Guards\<close>

definition raceTaskMutationFacts :: "fml_race_task \<Rightarrow> race_task_mutation_facts" where
  "raceTaskMutationFacts t =
     \<lparr>fact_MsID = task_MsId t, fact_TaskID = task_TaskId t, fact_TaskType = task_TaskType t,
      fact_Score = task_Score t, fact_IsUpgrade = task_IsUpgrade t,
      fact_UpgradeUID = task_UpgradeUid t, fact_UID = task_UID t, fact_ParamID = task_ParamID t,
      fact_FinishCnt = task_FinishCnt t\<rparr>"

definition newRaceTaskMutationGuard :: "fml_race_task \<Rightarrow> bool \<Rightarrow> race_task_mutation_guard" where
  "newRaceTaskMutationGuard t automaticDelete =
     \<lparr>guard_AutomaticDelete = automaticDelete, guard_Planned = raceTaskMutationFacts t,
      guard_Current = zero_facts\<rparr>"

section \<open>Upgrading the held task\<close>

definition race_goal :: goal where
  "race_goal = \<lparr>goal_ID = ''union.race'', goal_Category = CategoryRace, goal_Domain = ''union.race'',
     goal_Label = lit_union_race, goal_Priority = 43\<rparr>"

definition upgrade_op :: "fml_race_view \<Rightarrow> goal \<Rightarrow> fml_race_task \<Rightarrow> planned_op" where
  "upgrade_op view goal task =
     (domainOp RPCFmlRaceUpgradeTask goal ''union.race.upgrade'' ''upgrade'' lit_race_upgrade
        4370 0 0 0)
     \<lparr>op_PreemptFarm := True, op_TaskMsID := task_MsId task, op_RaceBatchID := rv_BatchID view,
      op_CooldownKey := ''union.race.upgrade:'' @ show_int (rv_BatchID view) @ '':''
                          @ show_int (task_MsId task),
      op_RaceTaskGuard := Some (newRaceTaskMutationGuard task False),
      op_TaskID := row_type task, op_FlowerID := task_ParamID task\<rparr>"

definition price_upgrade :: "race_catalog \<Rightarrow> race_policy \<Rightarrow> fml_race_task \<Rightarrow> planned_op \<Rightarrow> planned_op" where
  "price_upgrade cat p task op =
     (case FmlRaceTaskUpgradeCost cat (task_TaskId task) (task_Score task) of
        None \<Rightarrow>
          op\<lparr>op_Status := PlanStatusAdapterMissing, op_Executable := False,
             op_BlockedReasons := [lit_race_upgrade_unknown]\<rparr>
      | Some cost \<Rightarrow>
          (if cost \<le> 0 then
             op\<lparr>op_Status := PlanStatusAdapterMissing, op_Executable := False,
                op_BlockedReasons := [lit_race_upgrade_unknown]\<rparr>
           else if rp_MaxSpendDiamond p \<le> 0 then
             op\<lparr>op_DiamondCost := cost, op_Status := PlanStatusBlocked, op_Executable := False,
                op_BlockedReasons := [lit_race_upgrade_zero]\<rparr>
           else if rp_MaxSpendDiamond p < cost then
             op\<lparr>op_DiamondCost := cost, op_Status := PlanStatusBlocked, op_Executable := False,
                op_BlockedReasons := [lit_race_upgrade_over]\<rparr>
           else op\<lparr>op_DiamondCost := cost\<rparr>))"

definition raceUpgradeOperations ::
  "race_catalog \<Rightarrow> fml_race_view \<Rightarrow> race_policy \<Rightarrow> goal \<Rightarrow> time \<Rightarrow> planned_op list" where
  "raceUpgradeOperations cat view p goal now =
     (if raceTaskPoolTTLStale view now \<or> rv_TaskPoolStale view then []
      else if 0 < taken_TargetCnt (rv_Taken view) \<and>
              taken_TargetCnt (rv_Taken view) \<le> taken_FinishCnt (rv_Taken view) then []
      else if rp_UpgradeTask p \<and> taken_HasTask (rv_Taken view) then
        (case raceTaskByMsID (rv_Tasks view) (taken_TaskMsId (rv_Taken view)) of
           None \<Rightarrow> []
         | Some task \<Rightarrow>
             (if task_IsUpgrade task = 0
              then [price_upgrade cat p task (upgrade_op view goal task)] else []))
      else [])"

definition ValidateRaceUpgrade ::
  "race_catalog \<Rightarrow> game_state option \<Rightarrow> race_policy option \<Rightarrow> planned_op \<Rightarrow> time \<Rightarrow> race_error option" where
  "ValidateRaceUpgrade cat st pol op now =
     (case (st, op_RaceTaskGuard op) of
        (Some s, Some g) \<Rightarrow>
          (if op_Kind op \<noteq> RPCFmlRaceUpgradeTask then Some NoGuard
           else case pol of
             None \<Rightarrow> Some UpgradeOff
           | Some p \<Rightarrow>
               (let view = FmlRaceAt s now; build = FmlBuild s; taken = rv_Taken view
                in if \<not> rp_Enabled p \<or> \<not> rp_UpgradeTask p then Some UpgradeOff
                   else if \<not> ActiveAt view now \<or> rv_BatchID view \<noteq> op_RaceBatchID op \<or>
                           \<not> rv_TasksObserved view \<or> rv_TaskPoolStale view \<or>
                           raceTaskPoolTTLStale view now \<or> \<not> bv_MembershipObserved build \<or>
                           bv_MemberFmlID build \<le> 0 then Some UpgradeUnconfirmed
                   else if \<not> taken_HasTask taken \<or> taken_TaskMsId taken \<noteq> op_TaskMsID op \<or>
                           (0 < taken_TargetCnt taken \<and> taken_TargetCnt taken \<le> taken_FinishCnt taken) \<or>
                           (0 < taken_ExpireTime taken \<and> taken_ExpireTime taken \<le> to_unix_milli now)
                   then Some HoldChanged
                   else case raceTaskByMsID (rv_Tasks view) (op_TaskMsID op) of
                     None \<Rightarrow> Some PriceChanged
                   | Some task \<Rightarrow>
                       (if gs_roleID s \<le> 0 \<or> task_UID task \<noteq> gs_roleID s \<or> task_IsUpgrade task \<noteq> 0 \<or>
                           task_TaskId task \<noteq> fact_TaskID (guard_Planned g) \<or>
                           task_Score task \<noteq> fact_Score (guard_Planned g) then Some PriceChanged
                        else case FmlRaceTaskUpgradeCost cat (task_TaskId task) (task_Score task) of
                          None \<Rightarrow> Some UpgradeTooDear
                        | Some cost \<Rightarrow>
                            (if cost \<le> 0 \<or> cost \<noteq> op_DiamondCost op \<or> rp_MaxSpendDiamond p \<le> 0 \<or>
                                rp_MaxSpendDiamond p < cost then Some UpgradeTooDear
                             else if SpendableDiamonds s < cost then Some DiamondsShort
                             else None))))
      | _ \<Rightarrow> Some NoGuard)"

section \<open>Deleting low-score rows\<close>

definition delete_candidate :: "race_policy \<Rightarrow> time \<Rightarrow> fml_race_task \<Rightarrow> bool" where
  "delete_candidate p now t \<longleftrightarrow>
     \<not> (task_MsId t \<le> 0 \<or> task_UID t \<noteq> 0 \<or> task_Score t \<le> 0 \<or>
        rp_DeleteTaskMaxScore p < task_Score t \<or> 0 < task_FinishCnt t \<or> task_IsUpgrade t \<noteq> 0) \<and>
     \<not> to_unix_milli now < task_AppearTime t"

definition lower_score :: "fml_race_task \<Rightarrow> fml_race_task \<Rightarrow> bool" where
  "lower_score a b =
     (if task_Score a \<noteq> task_Score b then task_Score a < task_Score b else task_MsId a < task_MsId b)"

definition delete_blocked_reason :: "race_catalog \<Rightarrow> fml_build_view \<Rightarrow> string option" where
  "delete_blocked_reason cat build =
     (if \<not> bv_MemberPositionObserved build then Some lit_race_position_unknown
      else if \<not> FmlPositionAllowsRaceDelete cat (bv_MemberPosition build)
      then Some lit_race_position_denied
      else None)"

definition delete_op :: "goal \<Rightarrow> fml_race_task \<Rightarrow> planned_op" where
  "delete_op goal task =
     (let op = (domainOp RPCFmlRaceDelTask goal ''union.race.delete'' ''delete'' lit_race_delete
                  4360 0 0 0)
               \<lparr>op_TaskMsID := task_MsId task, op_TaskID := row_type task,
                op_FlowerID := task_ParamID task,
                op_RaceTaskGuard := Some (newRaceTaskMutationGuard task True)\<rparr>
      in op\<lparr>op_OperationID := op_OperationID op
              @ ''|score='' @ pad_left 10 (show_int (task_Score task))
              @ ''|task='' @ pad_left 20 (show_int (task_MsId task)),
            op_CooldownKey := ''union.race.delete:'' @ show_int (task_MsId task)\<rparr>)"

definition block_delete :: "string \<Rightarrow> planned_op \<Rightarrow> planned_op" where
  "block_delete reason op =
     op\<lparr>op_Status := PlanStatusBlocked, op_Executable := False, op_BlockingStage := ''permission'',
        op_BlockedReasons := [reason]\<rparr>"

text \<open>Task ids are distinct in a pool, so \<open>sort.Slice\<close> has one possible result.\<close>

definition raceLowScoreDeleteOperations ::
  "race_catalog \<Rightarrow> game_state \<Rightarrow> fml_race_view \<Rightarrow> race_policy \<Rightarrow> goal \<Rightarrow> time \<Rightarrow> planned_op list" where
  "raceLowScoreDeleteOperations cat s view p goal now =
     (if \<not> rp_DeleteLowScoreTask p \<or> rp_DeleteTaskMaxScore p \<le> 0 \<or> \<not> rv_TasksObserved view \<or>
         rv_TaskPoolStale view then []
      else case stable_sort lower_score (filter (delete_candidate p now) (rv_Tasks view)) of
        [] \<Rightarrow> []
      | task # tasks \<Rightarrow>
          (case delete_blocked_reason cat (FmlBuild s) of
             Some reason \<Rightarrow> [block_delete reason (delete_op goal task)]
           | None \<Rightarrow> map (delete_op goal) (task # tasks)))"

definition RaceDeleteSkipReason ::
  "race_catalog \<Rightarrow> game_state \<Rightarrow> fml_race_task \<Rightarrow> time \<Rightarrow> delete_skip option" where
  "RaceDeleteSkipReason cat s task now =
     (let build = FmlBuild s
      in if \<not> bv_MembershipObserved build then Some MembershipUnknown
         else if bv_MemberFmlID build \<le> 0 then Some NoGuild
         else if \<not> bv_MemberPositionObserved build then Some PositionUnknown
         else if \<not> FmlPositionAllowsRaceDelete cat (bv_MemberPosition build) then Some PositionDenied
         else if task_MsId task \<le> 0 then Some BadTaskId
         else if task_UID task \<noteq> 0 then Some RowClaimed
         else if to_unix_milli now < task_AppearTime task then Some RowCooling
         else None)"

definition raceDeleteTaskForOperation ::
  "race_catalog \<Rightarrow> game_state option \<Rightarrow> policy option \<Rightarrow> int \<Rightarrow> time \<Rightarrow> bool
    \<Rightarrow> race_error + fml_race_task" where
  "raceDeleteTaskForOperation cat st pol taskMsID now automatic =
     (case (st, pol) of
        (Some s, Some p) \<Rightarrow>
          (if taskMsID \<le> 0 then Inl StateUnavailable
           else case pol_Race p of
             None \<Rightarrow> Inl RaceDisabled
           | Some race \<Rightarrow>
               (let view = FmlRaceAt s now
                in if \<not> rp_Enabled race then Inl RaceDisabled
                   else if \<not> rv_Observed view \<or> \<not> ActiveAt view now \<or> \<not> rv_TasksObserved view \<or>
                           rv_TaskPoolStale view then Inl BatchOrPoolInvalid
                   else case raceTaskByMsID (rv_Tasks view) taskMsID of
                     None \<Rightarrow> Inl TaskGone
                   | Some task \<Rightarrow>
                       (case RaceDeleteSkipReason cat s task now of
                          Some reason \<Rightarrow> Inl (NotDeletable reason)
                        | None \<Rightarrow>
                            (if automatic \<and>
                                (\<not> rp_DeleteLowScoreTask race \<or> rp_DeleteTaskMaxScore race \<le> 0)
                             then Inl AutoDeleteOff
                             else if automatic \<and>
                                (task_Score task \<le> 0 \<or> rp_DeleteTaskMaxScore race < task_Score task)
                             then Inl (ScoreOutOfRange (task_Score task))
                             else if automatic \<and> 0 < task_FinishCnt task then Inl HasProgress
                             else if automatic \<and> task_IsUpgrade task \<noteq> 0 then Inl IsUpgraded
                             else Inr task))))
      | _ \<Rightarrow> Inl StateUnavailable)"

section \<open>The check before sending\<close>

text \<open>The guard with its \<open>Current\<close> facts, and the error.\<close>

definition ValidateRaceTaskMutation ::
  "race_catalog \<Rightarrow> game_state option \<Rightarrow> policy option \<Rightarrow> planned_op option \<Rightarrow> time
    \<Rightarrow> race_task_mutation_guard option \<times> race_error option" where
  "ValidateRaceTaskMutation cat st pol opt now =
     (case opt of
        None \<Rightarrow> (None, Some NoGuard)
      | Some op \<Rightarrow>
          (case op_RaceTaskGuard op of
             None \<Rightarrow> (None, Some NoGuard)
           | Some g \<Rightarrow>
               (let current = (case st of None \<Rightarrow> None
                               | Some s \<Rightarrow> raceTaskByMsID (rv_Tasks (FmlRaceAt s now)) (op_TaskMsID op));
                    g1 = (case current of None \<Rightarrow> g
                          | Some t \<Rightarrow> g\<lparr>guard_Current := raceTaskMutationFacts t\<rparr>)
                in if current \<noteq> None \<and> guard_Current g1 \<noteq> guard_Planned g1 then
                     (Some g1, Some (TaskChanged (fact_Score (guard_Planned g1))
                        (fact_Score (guard_Current g1)) (fact_IsUpgrade (guard_Planned g1))
                        (fact_IsUpgrade (guard_Current g1))))
                   else if op_Kind op = RPCFmlRaceUpgradeTask then
                     (Some g1, ValidateRaceUpgrade cat st
                        (case pol of None \<Rightarrow> None | Some p \<Rightarrow> pol_Race p) op now)
                   else if op_Kind op = RPCFmlRaceTakeTask then
                     (case raceTakeTaskForOperation cat st pol (op_TaskMsID op) now of
                        Inl e \<Rightarrow> (Some g1, Some e)
                      | Inr t \<Rightarrow> (Some (g1\<lparr>guard_Current := raceTaskMutationFacts t\<rparr>), None))
                   else if op_Kind op = RPCFmlRaceDelTask then
                     (case raceDeleteTaskForOperation cat st pol (op_TaskMsID op) now
                             (guard_AutomaticDelete g1) of
                        Inl e \<Rightarrow> (Some g1, Some e)
                      | Inr t \<Rightarrow> (Some (g1\<lparr>guard_Current := raceTaskMutationFacts t\<rparr>), None))
                   else (Some g1, Some (UnsupportedKind (op_Kind op))))))"

section \<open>Manual operations\<close>

definition take_op :: "string \<Rightarrow> fml_race_task \<Rightarrow> planned_op" where
  "take_op reason task =
     (domainOp RPCFmlRaceTakeTask race_goal ''union.race.take'' ''take'' reason 4380 0 0 0)
     \<lparr>op_TaskMsID := task_MsId task, op_TaskID := row_type task, op_FlowerID := task_ParamID task,
      op_RaceTaskGuard := Some (newRaceTaskMutationGuard task False), op_PreemptFarm := True\<rparr>"

definition ManualRaceTakeOperation ::
  "race_catalog \<Rightarrow> game_state option \<Rightarrow> policy option \<Rightarrow> int \<Rightarrow> time \<Rightarrow> race_error + planned_op" where
  "ManualRaceTakeOperation cat st pol taskMsID now =
     (case raceTakeTaskForOperation cat st pol taskMsID now of
        Inl e \<Rightarrow> Inl e
      | Inr task \<Rightarrow> Inr (take_op lit_race_take_manual task))"

definition manual_delete_op :: "fml_race_task \<Rightarrow> planned_op" where
  "manual_delete_op task =
     (domainOp RPCFmlRaceDelTask race_goal ''union.race.delete'' ''delete'' lit_race_delete_manual
        4385 0 0 0)
     \<lparr>op_TaskMsID := task_MsId task, op_TaskID := row_type task, op_FlowerID := task_ParamID task,
      op_RaceTaskGuard := Some (newRaceTaskMutationGuard task False),
      op_CooldownKey := ''union.race.delete:'' @ show_int (task_MsId task)\<rparr>"

definition ManualRaceDeleteOperation ::
  "race_catalog \<Rightarrow> game_state option \<Rightarrow> policy option \<Rightarrow> int \<Rightarrow> time \<Rightarrow> race_error + planned_op" where
  "ManualRaceDeleteOperation cat st pol taskMsID now =
     (case (st, pol) of
        (Some s, Some p) \<Rightarrow>
          (if taskMsID \<le> 0 then Inl InvalidTaskId
           else case pol_Race p of
             None \<Rightarrow> Inl RaceDisabled
           | Some race \<Rightarrow>
               (let view = FmlRaceAt s now
                in if \<not> rp_Enabled race then Inl RaceDisabled
                   else if \<not> rv_Observed view \<or> \<not> ActiveAt view now then Inl NoBatch
                   else if \<not> rv_TasksObserved view \<or> rv_TaskPoolStale view then Inl PoolUnsynced
                   else case raceTaskByMsID (rv_Tasks view) taskMsID of
                     None \<Rightarrow> Inl TaskGone
                   | Some task \<Rightarrow>
                       (case RaceDeleteSkipReason cat s task now of
                          Some reason \<Rightarrow> Inl (NotDeletable reason)
                        | None \<Rightarrow> Inr (manual_delete_op task))))
      | _ \<Rightarrow> Inl StateUnavailable)"

section \<open>Deletion\<close>

interpretation delete_rank: weak_order UNIV lower_score
  by unfold_locales (auto simp: lower_score_def split: if_splits)

lemma domainOp_fields:
  "op_Kind (domainOp k g d a r pr t i c) = k"
  "op_Domain (domainOp k g d a r pr t i c) = d"
  "op_Priority (domainOp k g d a r pr t i c) = pr"
  "op_GoalID (domainOp k g d a r pr t i c) = goal_ID g"
  "op_DiamondCost (domainOp k g d a r pr t i c) = 0"
  "op_Lane (domainOp k g d a r pr t i c) = laneForDomain d"
  "op_OperationID (domainOp k g d a r pr t i c) = operationID k [] 0 t i"
  "op_PreemptFarm (domainOp k g d a r pr t i c) = False"
  by (simp_all add: domainOp_def enrichPlannedOp_def apply_spec_def Let_def zero_op_def
      split: option.split)

lemma delete_op_fields:
  "op_Kind (delete_op g t) = RPCFmlRaceDelTask"
  "op_TaskMsID (delete_op g t) = task_MsId t"
  "op_RaceTaskGuard (delete_op g t) = Some (newRaceTaskMutationGuard t True)"
  "op_Priority (delete_op g t) = 4360"
  "op_Domain (delete_op g t) = ''union.race.delete''"
  "op_GoalID (delete_op g t) = goal_ID g"
  "op_PreemptFarm (delete_op g t) = False"
  "op_OperationID (delete_op g t) = operationID RPCFmlRaceDelTask [] 0 0 0
     @ ''|score='' @ pad_left 10 (show_int (task_Score t))
     @ ''|task='' @ pad_left 20 (show_int (task_MsId t))"
  by (simp_all add: delete_op_def Let_def domainOp_fields)

lemma delete_op_alike:
  "op_Category (delete_op g a) = op_Category (delete_op g b)"
  "op_Lane (delete_op g a) = op_Lane (delete_op g b)"
  "op_DemandID (delete_op g a) = op_DemandID (delete_op g b)"
  by (simp_all add: delete_op_def Let_def)

lemma operationLaneRank_delete: "operationLaneRank (delete_op g a) = operationLaneRank (delete_op g b)"
  by (simp add: operationLaneRank_def delete_op_fields delete_op_alike [of g a b] IsUrgentRaceOp_def)

text \<open>Scores are \<open>int32\<close> and ids \<open>int64\<close>, and candidates have both positive.\<close>

definition sized :: "fml_race_task \<Rightarrow> bool" where
  "sized t \<longleftrightarrow> 0 < task_Score t \<and> task_Score t \<le> max_int32 \<and>
     0 < task_MsId t \<and> task_MsId t \<le> 9223372036854775807"

lemma operationID_less:
  assumes "sized a" "sized b"
  shows "op_OperationID (delete_op g a) < op_OperationID (delete_op g b) \<longleftrightarrow> lower_score a b"
proof -
  have small: "0 \<le> task_Score t" "task_Score t < 10 ^ 10" "0 \<le> task_MsId t" "task_MsId t < 10 ^ 20"
    if "sized t" for t using that by (simp_all add: sized_def max_int32_def)
  note score = small(1,2) [OF assms(1)] small(1,2) [OF assms(2)]
  note msid = small(3,4) [OF assms(1)] small(3,4) [OF assms(2)]
  have len: "length (pad_left 10 (show_int (task_Score a))) = length (pad_left 10 (show_int (task_Score b)))"
    using length_pad_int [of _ 10] score by simp
  show ?thesis
    unfolding delete_op_fields lower_score_def
    by (simp add: lex_append [OF refl] lex_append [OF len]
        pad_less_iff [OF score] pad_eq_iff [OF score] pad_less_iff [OF msid])
qed

text \<open>
  Deletions keep their order through the final sort of the plan: of two
  planned deletions, the one of the lower score comes first, and of equal scores the one of the
  lower task id.
\<close>

lemma deletes_lowest_first:
  assumes "sized a" "sized b"
  shows "operationComesBefore (delete_op goal a) (delete_op goal b) \<longleftrightarrow> lower_score a b"
  by (simp add: operationComesBefore_def operationLaneRank_delete [of goal a b] delete_op_fields(1-7)
      isPlantOperation_def delete_op_alike [of goal a b] operationID_less [OF assms])

text \<open>Equal scores are ordered by id, and ids of different lengths compare as numbers.\<close>

definition delete_permitted :: "race_catalog \<Rightarrow> fml_build_view \<Rightarrow> bool" where
  "delete_permitted cat build \<longleftrightarrow>
     bv_MembershipObserved build \<and> 0 < bv_MemberFmlID build \<and> bv_MemberPositionObserved build \<and>
     FmlPositionAllowsRaceDelete cat (bv_MemberPosition build)"

definition pool_ready :: "fml_race_view \<Rightarrow> time \<Rightarrow> bool" where
  "pool_ready v now \<longleftrightarrow>
     rv_Observed v \<and> ActiveAt v now \<and> rv_TasksObserved v \<and> \<not> rv_TaskPoolStale v"

lemma RaceDeleteSkipReason_None:
  "RaceDeleteSkipReason cat s t now = None \<longleftrightarrow>
     delete_permitted cat (FmlBuild s) \<and> 0 < task_MsId t \<and> task_UID t = 0 \<and>
     task_AppearTime t \<le> to_unix_milli now"
  by (auto simp: RaceDeleteSkipReason_def delete_permitted_def Let_def)

lemma raceDeleteTaskForOperation_iff:
  "raceDeleteTaskForOperation cat st pol m now automatic = Inr t \<longleftrightarrow>
     (\<exists>s p race. st = Some s \<and> pol = Some p \<and> pol_Race p = Some race \<and> rp_Enabled race \<and> 0 < m \<and>
        pool_ready (FmlRace s) now \<and> raceTaskByMsID (rv_Tasks (FmlRace s)) m = Some t \<and>
        delete_permitted cat (FmlBuild s) \<and> 0 < task_MsId t \<and> task_UID t = 0 \<and>
        task_AppearTime t \<le> to_unix_milli now \<and>
        (automatic \<longrightarrow> rp_DeleteLowScoreTask race \<and> 0 < rp_DeleteTaskMaxScore race \<and>
           0 < task_Score t \<and> task_Score t \<le> rp_DeleteTaskMaxScore race \<and>
           task_FinishCnt t \<le> 0 \<and> task_IsUpgrade t = 0))"
proof -
  have guard: "(if b then Inl e else x) = Inr t \<longleftrightarrow> \<not> b \<and> x = Inr t"
    for b e and x :: "race_error + fml_race_task" and t by simp
  have find: "(case x of None \<Rightarrow> Inl e | Some y \<Rightarrow> f y) = Inr t \<longleftrightarrow> (\<exists>y. x = Some y \<and> f y = Inr t)"
    for x :: "'b option" and e and f :: "'b \<Rightarrow> race_error + fml_race_task" and t by (cases x) simp_all
  have skip: "(case x of None \<Rightarrow> y | Some r \<Rightarrow> Inl (NotDeletable r)) = Inr t \<longleftrightarrow> x = None \<and> y = Inr t"
    for x and y :: "race_error + fml_race_task" and t by (cases x) simp_all
  show ?thesis
    unfolding raceDeleteTaskForOperation_def prod.case Let_def FmlRaceAt_def EffectiveAt_simps
      ActiveAt_EffectiveAt pool_ready_def find skip guard RaceDeleteSkipReason_None
      de_Morgan_disj de_Morgan_conj not_not not_le not_less
    by (auto simp: not_le not_less)
qed

definition delete_targets :: "race_policy \<Rightarrow> fml_race_view \<Rightarrow> time \<Rightarrow> fml_race_task list" where
  "delete_targets p view now =
     (if rp_DeleteLowScoreTask p \<and> 0 < rp_DeleteTaskMaxScore p
      then stable_sort lower_score (filter (delete_candidate p now) (rv_Tasks view)) else [])"

lemma delete_operations_shape:
  assumes "delete_permitted cat (FmlBuild s)" "rv_TasksObserved view" "\<not> rv_TaskPoolStale view"
  shows "raceLowScoreDeleteOperations cat s view p goal now = map (delete_op goal) (delete_targets p view now)"
proof -
  have "delete_blocked_reason cat (FmlBuild s) = None"
    using assms(1) by (simp add: delete_blocked_reason_def delete_permitted_def)
  with assms(2,3) show ?thesis
    by (simp add: raceLowScoreDeleteOperations_def delete_targets_def not_less split: list.split)
qed

text \<open>
  Planner and runner agree on automatic deletions: in a state where the pool is
  fresh, its ids are distinct and the account may delete, the planned deletions are exactly those
  of the rows the runner's check accepts, each once, lowest score first; and every such row is
  unclaimed, not upgraded, without progress, not cooling, and of a known score within the limit.
\<close>

lemma deletions_alike:
  assumes "pol_Race p = Some race" "rp_Enabled race" "pool_ready (FmlRace s) now"
    and "delete_permitted cat (FmlBuild s)" "distinct (map task_MsId (rv_Tasks (FmlRace s)))"
  shows "\<exists>ts. raceLowScoreDeleteOperations cat s (active_view s now) race goal now = map (delete_op goal) ts \<and>
      distinct ts \<and> sorted_wrt (\<lambda>a b. \<not> lower_score b a) ts \<and>
      (\<forall>t. t \<in> set ts \<longleftrightarrow>
         raceDeleteTaskForOperation cat (Some s) (Some p) (task_MsId t) now True = Inr t) \<and>
      (\<forall>t\<in>set ts. task_UID t = 0 \<and> task_IsUpgrade t = 0 \<and> task_FinishCnt t \<le> 0 \<and>
         task_AppearTime t \<le> to_unix_milli now \<and> 0 < task_Score t \<and>
         task_Score t \<le> rp_DeleteTaskMaxScore race)"
proof (intro exI conjI)
  let ?ts = "delete_targets race (active_view s now) now"
  have view: "rv_Tasks (active_view s now) = rv_Tasks (FmlRace s)"
    "rv_TasksObserved (active_view s now)" "\<not> rv_TaskPoolStale (active_view s now)"
    using assms(3) by (simp_all add: active_view_def Let_def FmlRaceAt_def pool_ready_def)
  show "raceLowScoreDeleteOperations cat s (active_view s now) race goal now = map (delete_op goal) ?ts"
    by (rule delete_operations_shape [OF assms(4) view(2,3)])
  have dist: "distinct (rv_Tasks (FmlRace s))" using assms(5) by (simp add: distinct_map)
  have mem: "t \<in> set ?ts \<longleftrightarrow> rp_DeleteLowScoreTask race \<and> 0 < rp_DeleteTaskMaxScore race \<and>
      t \<in> set (rv_Tasks (FmlRace s)) \<and> delete_candidate race now t" for t
    by (auto simp: delete_targets_def set_stable_sort view)
  have "distinct (stable_sort lower_score (filter (delete_candidate race now) (rv_Tasks (FmlRace s))))"
    using dist by (metis card_distinct distinct_card distinct_filter length_stable_sort set_stable_sort)
  then show "distinct ?ts" by (simp add: delete_targets_def view)
  show "sorted_wrt (\<lambda>a b. \<not> lower_score b a) ?ts"
    by (simp add: delete_targets_def delete_rank.stable_sort_sorted)
  have find: "raceTaskByMsID (rv_Tasks (FmlRace s)) (task_MsId t) = Some t \<longleftrightarrow>
      t \<in> set (rv_Tasks (FmlRace s))" for t
    using raceTaskByMsID_distinct [OF assms(5)] raceTaskByMsID_SomeD by blast
  show "\<forall>t. t \<in> set ?ts \<longleftrightarrow>
      raceDeleteTaskForOperation cat (Some s) (Some p) (task_MsId t) now True = Inr t"
    by (auto simp: mem raceDeleteTaskForOperation_iff find assms(1-4) delete_candidate_def)
  show "\<forall>t\<in>set ?ts. task_UID t = 0 \<and> task_IsUpgrade t = 0 \<and> task_FinishCnt t \<le> 0 \<and>
         task_AppearTime t \<le> to_unix_milli now \<and> 0 < task_Score t \<and>
         task_Score t \<le> rp_DeleteTaskMaxScore race"
    by (auto simp: mem delete_candidate_def)
qed

section \<open>The check before sending\<close>

lemma ValidateRaceTaskMutation_None:
  assumes "ValidateRaceTaskMutation cat (Some s) pol (Some op) now = (g', None)"
  obtains g where "op_RaceTaskGuard op = Some g"
    and "\<And>t. raceTaskByMsID (rv_Tasks (FmlRace s)) (op_TaskMsID op) = Some t \<Longrightarrow>
           raceTaskMutationFacts t = guard_Planned g"
    and "op_Kind op = RPCFmlRaceUpgradeTask \<and>
           ValidateRaceUpgrade cat (Some s) (case pol of None \<Rightarrow> None | Some p \<Rightarrow> pol_Race p) op now = None
         \<or> op_Kind op = RPCFmlRaceTakeTask \<and>
           (\<exists>t. raceTakeTaskForOperation cat (Some s) pol (op_TaskMsID op) now = Inr t)
         \<or> op_Kind op = RPCFmlRaceDelTask \<and>
           (\<exists>t. raceDeleteTaskForOperation cat (Some s) pol (op_TaskMsID op) now
                  (guard_AutomaticDelete g) = Inr t)"
proof -
  obtain g where g: "op_RaceTaskGuard op = Some g"
    using assms by (cases "op_RaceTaskGuard op") (simp_all add: ValidateRaceTaskMutation_def)
  define cur where "cur = raceTaskByMsID (rv_Tasks (FmlRace s)) (op_TaskMsID op)"
  define g1 where "g1 = (case cur of None \<Rightarrow> g | Some t \<Rightarrow> g\<lparr>guard_Current := raceTaskMutationFacts t\<rparr>)"
  have g1: "guard_Planned g1 = guard_Planned g" "guard_AutomaticDelete g1 = guard_AutomaticDelete g"
    by (simp_all add: g1_def split: option.split)
  have eq: "ValidateRaceTaskMutation cat (Some s) pol (Some op) now =
     (if cur \<noteq> None \<and> guard_Current g1 \<noteq> guard_Planned g1 then
        (Some g1, Some (TaskChanged (fact_Score (guard_Planned g1))
           (fact_Score (guard_Current g1)) (fact_IsUpgrade (guard_Planned g1))
           (fact_IsUpgrade (guard_Current g1))))
      else if op_Kind op = RPCFmlRaceUpgradeTask then
        (Some g1, ValidateRaceUpgrade cat (Some s)
           (case pol of None \<Rightarrow> None | Some p \<Rightarrow> pol_Race p) op now)
      else if op_Kind op = RPCFmlRaceTakeTask then
        (case raceTakeTaskForOperation cat (Some s) pol (op_TaskMsID op) now of
           Inl e \<Rightarrow> (Some g1, Some e)
         | Inr t \<Rightarrow> (Some (g1\<lparr>guard_Current := raceTaskMutationFacts t\<rparr>), None))
      else if op_Kind op = RPCFmlRaceDelTask then
        (case raceDeleteTaskForOperation cat (Some s) pol (op_TaskMsID op) now
                (guard_AutomaticDelete g1) of
           Inl e \<Rightarrow> (Some g1, Some e)
         | Inr t \<Rightarrow> (Some (g1\<lparr>guard_Current := raceTaskMutationFacts t\<rparr>), None))
      else (Some g1, Some (UnsupportedKind (op_Kind op))))"
    by (simp only: ValidateRaceTaskMutation_def option.case g Let_def FmlRaceAt_def EffectiveAt_simps
        cur_def [symmetric] g1_def [symmetric])
  have same: "cur = None \<or> guard_Current g1 = guard_Planned g1"
    using assms unfolding eq by (cases "cur \<noteq> None \<and> guard_Current g1 \<noteq> guard_Planned g1") auto
  show thesis
  proof (rule that [OF g])
    show "raceTaskMutationFacts t = guard_Planned g"
      if "raceTaskByMsID (rv_Tasks (FmlRace s)) (op_TaskMsID op) = Some t" for t
      using same that g1(1) by (simp add: cur_def g1_def)
    have not: "\<not> (cur \<noteq> None \<and> guard_Current g1 \<noteq> guard_Planned g1)" using same by blast
    show "op_Kind op = RPCFmlRaceUpgradeTask \<and>
           ValidateRaceUpgrade cat (Some s) (case pol of None \<Rightarrow> None | Some p \<Rightarrow> pol_Race p) op now = None
         \<or> op_Kind op = RPCFmlRaceTakeTask \<and>
           (\<exists>t. raceTakeTaskForOperation cat (Some s) pol (op_TaskMsID op) now = Inr t)
         \<or> op_Kind op = RPCFmlRaceDelTask \<and>
           (\<exists>t. raceDeleteTaskForOperation cat (Some s) pol (op_TaskMsID op) now
                  (guard_AutomaticDelete g) = Inr t)"
      using assms unfolding eq if_not_P [OF not]
      by (simp split: if_splits sum.splits add: g1(2))
  qed
qed

section \<open>Upgrades\<close>

lemma upgrade_op_fields:
  "op_Kind (upgrade_op view g t) = RPCFmlRaceUpgradeTask"
  "op_TaskMsID (upgrade_op view g t) = task_MsId t"
  "op_RaceBatchID (upgrade_op view g t) = rv_BatchID view"
  "op_RaceTaskGuard (upgrade_op view g t) = Some (newRaceTaskMutationGuard t False)"
  "op_Domain (upgrade_op view g t) = ''union.race.upgrade''"
  "op_DiamondCost (upgrade_op view g t) = 0"
  by (simp_all add: upgrade_op_def domainOp_fields)

lemma price_upgrade_fields:
  "op_Kind (price_upgrade cat p t op) = op_Kind op"
  "op_TaskMsID (price_upgrade cat p t op) = op_TaskMsID op"
  "op_RaceBatchID (price_upgrade cat p t op) = op_RaceBatchID op"
  "op_RaceTaskGuard (price_upgrade cat p t op) = op_RaceTaskGuard op"
  by (simp_all add: price_upgrade_def split: option.split)

definition affordable_price :: "race_policy \<Rightarrow> int \<Rightarrow> bool" where
  "affordable_price p cost \<longleftrightarrow> 0 < cost \<and> 0 < rp_MaxSpendDiamond p \<and> cost \<le> rp_MaxSpendDiamond p"

lemma price_upgrade_runnable:
  assumes "op_Executable (price_upgrade cat p t op)"
  shows "\<exists>cost. FmlRaceTaskUpgradeCost cat (task_TaskId t) (task_Score t) = Some cost \<and>
           affordable_price p cost \<and> price_upgrade cat p t op = op\<lparr>op_DiamondCost := cost\<rparr>"
proof (cases "FmlRaceTaskUpgradeCost cat (task_TaskId t) (task_Score t)")
  case None
  then have "price_upgrade cat p t op = op\<lparr>op_Status := PlanStatusAdapterMissing, op_Executable := False,
    op_BlockedReasons := [lit_race_upgrade_unknown]\<rparr>" unfolding price_upgrade_def by simp
  then show ?thesis using assms by simp
next
  case (Some cost)
  note eq = price_upgrade_def [of cat p t op, unfolded Some option.case]
  consider (zero) "cost \<le> 0" | (none) "\<not> cost \<le> 0" "rp_MaxSpendDiamond p \<le> 0"
    | (over) "\<not> cost \<le> 0" "\<not> rp_MaxSpendDiamond p \<le> 0" "rp_MaxSpendDiamond p < cost"
    | (ok) "\<not> cost \<le> 0" "\<not> rp_MaxSpendDiamond p \<le> 0" "\<not> rp_MaxSpendDiamond p < cost" by linarith
  then show ?thesis
  proof cases
    case ok
    have "price_upgrade cat p t op = op\<lparr>op_DiamondCost := cost\<rparr>" unfolding eq using ok by (simp only: if_False)
    moreover have "affordable_price p cost" using ok by (simp add: affordable_price_def)
    ultimately show ?thesis using Some by blast
  next
    case zero
    have "\<not> op_Executable (price_upgrade cat p t op)" unfolding eq using zero by (simp only: if_True) simp
    then show ?thesis using assms by blast
  next
    case none
    have "\<not> op_Executable (price_upgrade cat p t op)" unfolding eq using none by (simp only: if_True if_False) simp
    then show ?thesis using assms by blast
  next
    case over
    have "\<not> op_Executable (price_upgrade cat p t op)" unfolding eq using over by (simp only: if_True if_False) simp
    then show ?thesis using assms by blast
  qed
qed

text \<open>What the runner demands of an upgrade.\<close>

lemma ValidateRaceUpgrade_None:
  "ValidateRaceUpgrade cat (Some s) (Some p) op now = None \<longleftrightarrow>
     (\<exists>g task cost. op_RaceTaskGuard op = Some g \<and> op_Kind op = RPCFmlRaceUpgradeTask \<and>
        rp_Enabled p \<and> rp_UpgradeTask p \<and> ActiveAt (FmlRace s) now \<and>
        rv_BatchID (FmlRace s) = op_RaceBatchID op \<and> rv_TasksObserved (FmlRace s) \<and>
        \<not> rv_TaskPoolStale (FmlRace s) \<and> \<not> raceTaskPoolTTLStale (FmlRaceAt s now) now \<and>
        bv_MembershipObserved (FmlBuild s) \<and> 0 < bv_MemberFmlID (FmlBuild s) \<and>
        taken_HasTask (rv_Taken (FmlRaceAt s now)) \<and>
        taken_TaskMsId (rv_Taken (FmlRaceAt s now)) = op_TaskMsID op \<and>
        \<not> (0 < taken_TargetCnt (rv_Taken (FmlRaceAt s now)) \<and>
           taken_TargetCnt (rv_Taken (FmlRaceAt s now)) \<le> taken_FinishCnt (rv_Taken (FmlRaceAt s now))) \<and>
        \<not> (0 < taken_ExpireTime (rv_Taken (FmlRaceAt s now)) \<and>
           taken_ExpireTime (rv_Taken (FmlRaceAt s now)) \<le> to_unix_milli now) \<and>
        raceTaskByMsID (rv_Tasks (FmlRace s)) (op_TaskMsID op) = Some task \<and>
        0 < gs_roleID s \<and> task_UID task = gs_roleID s \<and> task_IsUpgrade task = 0 \<and>
        task_TaskId task = fact_TaskID (guard_Planned g) \<and>
        task_Score task = fact_Score (guard_Planned g) \<and>
        FmlRaceTaskUpgradeCost cat (task_TaskId task) (task_Score task) = Some cost \<and>
        cost = op_DiamondCost op \<and> affordable_price p cost \<and> cost \<le> SpendableDiamonds s)"
    (is "?L \<longleftrightarrow> ?R")
proof -
  have eff: "rv_Tasks (FmlRaceAt s now) = rv_Tasks (FmlRace s)"
    "ActiveAt (FmlRaceAt s now) now = ActiveAt (FmlRace s) now"
    "rv_BatchID (FmlRaceAt s now) = rv_BatchID (FmlRace s)"
    "rv_TasksObserved (FmlRaceAt s now) = rv_TasksObserved (FmlRace s)"
    "rv_TaskPoolStale (FmlRaceAt s now) = rv_TaskPoolStale (FmlRace s)"
    by (simp_all add: FmlRaceAt_def)
  have guard: "(if b then Some e else x) = None \<longleftrightarrow> \<not> b \<and> x = None" for b e and x :: "race_error option"
    by simp
  have find: "(case x of None \<Rightarrow> Some e | Some y \<Rightarrow> f y) = None \<longleftrightarrow> (\<exists>y. x = Some y \<and> f y = None)"
    for x :: "'b option" and e and f :: "'b \<Rightarrow> race_error option" by (cases x) simp_all
  obtain v where v: "v = FmlRaceAt s now" by simp
  show ?thesis
    unfolding ValidateRaceUpgrade_def prod.case option.case Let_def affordable_price_def
      eff [symmetric] v [symmetric] guard find de_Morgan_disj not_not not_le not_less
    by (simp add: not_le not_less)
qed

lemma raceUpgradeOperations_mem:
  assumes "op \<in> set (raceUpgradeOperations cat view p goal now)"
  obtains task where "raceTaskByMsID (rv_Tasks view) (taken_TaskMsId (rv_Taken view)) = Some task"
    "op = price_upgrade cat p task (upgrade_op view goal task)" "task_IsUpgrade task = 0"
    "rp_UpgradeTask p" "taken_HasTask (rv_Taken view)" "\<not> rv_TaskPoolStale view"
    "\<not> raceTaskPoolTTLStale view now"
    "\<not> (0 < taken_TargetCnt (rv_Taken view) \<and> taken_TargetCnt (rv_Taken view) \<le> taken_FinishCnt (rv_Taken view))"
proof -
  let ?open = "0 < taken_TargetCnt (rv_Taken view) \<and>
      taken_TargetCnt (rv_Taken view) \<le> taken_FinishCnt (rv_Taken view)"
  have some: "raceUpgradeOperations cat view p goal now \<noteq> []" using assms by auto
  have 1: "\<not> (raceTaskPoolTTLStale view now \<or> rv_TaskPoolStale view)"
    by (rule notI) (use some in \<open>simp add: raceUpgradeOperations_def\<close>)
  have 2: "\<not> ?open"
    by (rule notI) (use some in \<open>simp add: raceUpgradeOperations_def split: if_splits\<close>)
  have 3: "rp_UpgradeTask p \<and> taken_HasTask (rv_Taken view)"
    by (rule ccontr) (use some in \<open>simp add: raceUpgradeOperations_def split: if_splits\<close>)
  show thesis
  proof (cases "raceTaskByMsID (rv_Tasks view) (taken_TaskMsId (rv_Taken view))")
    case None
    with assms 1 2 3 show ?thesis by (simp add: raceUpgradeOperations_def split: if_splits)
  next
    case (Some task)
    with assms 1 2 3 have "task_IsUpgrade task = 0" "op = price_upgrade cat p task (upgrade_op view goal task)"
      by (simp_all add: raceUpgradeOperations_def split: if_splits)
    with Some 1 2 3 show ?thesis by (intro that [of task]) auto
  qed
qed

lemma last_pool_sync_active: "last_pool_sync (active_view s now) = last_pool_sync (FmlRaceAt s now)"
  by (simp add: last_pool_sync_def active_view_def Let_def)

lemma raceTaskPoolTTLStale_active:
  "\<not> raceTaskPoolTTLStale (active_view s now) now \<Longrightarrow> ActiveAt (FmlRace s) now \<Longrightarrow>
     \<not> raceTaskPoolTTLStale (FmlRaceAt s now) now"
  unfolding raceTaskPoolTTLStale_def last_pool_sync_active
  by (auto simp: active_view_def Let_def FmlRaceAt_def split: if_splits)

text \<open>
  Spending on an upgrade is bounded and agreed: an upgrade the planner leaves
  executable has the catalogue's price, positive and within the per-upgrade ceiling; and in the same
  state the runner sends it exactly when the row is the account's own and the ingots suffice.
\<close>

lemma upgrades_alike:
  assumes "op \<in> set (raceUpgradeOperations cat (active_view s now) p goal now)" "op_Executable op"
    and "pool_ready (FmlRace s) now" "rp_Enabled p"
    and "bv_MembershipObserved (FmlBuild s)" "0 < bv_MemberFmlID (FmlBuild s)"
  shows "affordable_price p (op_DiamondCost op) \<and>
     (\<exists>task. raceTaskByMsID (rv_Tasks (FmlRace s)) (op_TaskMsID op) = Some task \<and>
        FmlRaceTaskUpgradeCost cat (task_TaskId task) (task_Score task) = Some (op_DiamondCost op) \<and>
        (ValidateRaceUpgrade cat (Some s) (Some p) op now = None \<longleftrightarrow>
           0 < gs_roleID s \<and> task_UID task = gs_roleID s \<and> op_DiamondCost op \<le> SpendableDiamonds s))"
proof -
  obtain task where task: "raceTaskByMsID (rv_Tasks (active_view s now))
      (taken_TaskMsId (rv_Taken (active_view s now))) = Some task"
    and op: "op = price_upgrade cat p task (upgrade_op (active_view s now) goal task)"
    and up: "task_IsUpgrade task = 0" "rp_UpgradeTask p" "taken_HasTask (rv_Taken (active_view s now))"
      "\<not> raceTaskPoolTTLStale (active_view s now) now"
    and unfinished: "\<not> (0 < taken_TargetCnt (rv_Taken (active_view s now)) \<and>
        taken_TargetCnt (rv_Taken (active_view s now)) \<le> taken_FinishCnt (rv_Taken (active_view s now)))"
    by (rule raceUpgradeOperations_mem [OF assms(1)]) blast
  have view: "rv_Tasks (active_view s now) = rv_Tasks (FmlRace s)"
    "rv_Taken (active_view s now) = rv_Taken (FmlRaceAt s now)"
    "rv_BatchID (active_view s now) = rv_BatchID (FmlRace s)"
    by (simp_all add: active_view_def Let_def FmlRaceAt_def)
  obtain cost where cost: "FmlRaceTaskUpgradeCost cat (task_TaskId task) (task_Score task) = Some cost"
      "affordable_price p cost"
    and op': "op = (upgrade_op (active_view s now) goal task)\<lparr>op_DiamondCost := cost\<rparr>"
    using price_upgrade_runnable [OF assms(2) [unfolded op]] op by auto
  have msid: "task_MsId task = taken_TaskMsId (rv_Taken (FmlRaceAt s now))"
    using raceTaskByMsID_SomeD [OF task] view by simp
  have fields: "op_RaceTaskGuard op = Some (newRaceTaskMutationGuard task False)"
    "op_Kind op = RPCFmlRaceUpgradeTask" "op_RaceBatchID op = rv_BatchID (FmlRace s)"
    "op_TaskMsID op = taken_TaskMsId (rv_Taken (FmlRaceAt s now))" "op_DiamondCost op = cost"
    by (simp_all add: op' upgrade_op_fields view msid)
  have ttl: "\<not> raceTaskPoolTTLStale (FmlRaceAt s now) now"
    using up(4) assms(3) by (simp add: raceTaskPoolTTLStale_active pool_ready_def)
  have held: "taken_HasTask (rv_Taken (FmlRaceAt s now))" using up(3) view by simp
  then have live: "\<not> (0 < taken_ExpireTime (rv_Taken (FmlRaceAt s now)) \<and>
        taken_ExpireTime (rv_Taken (FmlRaceAt s now)) \<le> to_unix_milli now)"
    by (auto simp: FmlRaceAt_def ExpiredAt_def split: if_splits)
  have find: "raceTaskByMsID (rv_Tasks (FmlRace s)) (taken_TaskMsId (rv_Taken (FmlRaceAt s now))) = Some task"
    using task view by simp
  have facts: "fact_TaskID (guard_Planned (newRaceTaskMutationGuard task False)) = task_TaskId task"
    "fact_Score (guard_Planned (newRaceTaskMutationGuard task False)) = task_Score task"
    by (simp_all add: newRaceTaskMutationGuard_def raceTaskMutationFacts_def)
  have "ValidateRaceUpgrade cat (Some s) (Some p) op now = None \<longleftrightarrow>
     0 < gs_roleID s \<and> task_UID task = gs_roleID s \<and> cost \<le> SpendableDiamonds s"
    unfolding ValidateRaceUpgrade_None fields
    using assms(3-6) up(1,2) held live ttl unfinished cost view
    by (simp add: find facts pool_ready_def)
  with find cost show ?thesis by (simp add: fields)
qed

text \<open>The held task of role 9 goes from forty to seventy-two points for ninety-six diamonds.\<close>

definition held_task :: fml_race_task where
  "held_task = sample_task\<lparr>task_UID := 9\<rparr>"

definition held_taken :: fml_race_taken where
  "held_taken = zero_taken\<lparr>taken_TaskMsId := 11, taken_TaskId := 77,
     taken_TaskType := raceTaskTypeCustomerOrder, taken_Score := 40, taken_TargetCnt := 8,
     taken_ExpireTime := 90000, taken_HasTask := True\<rparr>"

section \<open>Only what was planned\<close>

text \<open>
  Specifications, over the state and the settings alone: the holder's unexpired task and, for each of
  the three changes of the pool, what has to hold of the row at the moment of sending.
\<close>

definition holds_live :: "game_state \<Rightarrow> time \<Rightarrow> bool" where
  "holds_live s now \<longleftrightarrow>
     taken_HasTask (rv_Taken (FmlRace s)) \<and>
     (0 < taken_ExpireTime (rv_Taken (FmlRace s)) \<longrightarrow>
        to_unix_milli now < taken_ExpireTime (rv_Taken (FmlRace s)))"

definition delete_confirmed ::
  "race_catalog \<Rightarrow> game_state \<Rightarrow> race_policy \<Rightarrow> time \<Rightarrow> bool \<Rightarrow> fml_race_task \<Rightarrow> bool" where
  "delete_confirmed cat s p now automatic t \<longleftrightarrow>
     bv_MembershipObserved (FmlBuild s) \<and> 0 < bv_MemberFmlID (FmlBuild s) \<and>
     bv_MemberPositionObserved (FmlBuild s) \<and> cat_race_delete cat (bv_MemberPosition (FmlBuild s)) = Some 1 \<and>
     task_UID t = 0 \<and> task_AppearTime t \<le> to_unix_milli now \<and>
     (automatic \<longrightarrow> rp_DeleteLowScoreTask p \<and> 0 < task_Score t \<and> task_Score t \<le> rp_DeleteTaskMaxScore p \<and>
        task_FinishCnt t \<le> 0 \<and> task_IsUpgrade t = 0)"

definition upgrade_confirmed ::
  "race_catalog \<Rightarrow> game_state \<Rightarrow> race_policy \<Rightarrow> time \<Rightarrow> planned_op \<Rightarrow> fml_race_task \<Rightarrow> bool" where
  "upgrade_confirmed cat s p now op t \<longleftrightarrow>
     rp_UpgradeTask p \<and> bv_MembershipObserved (FmlBuild s) \<and> 0 < bv_MemberFmlID (FmlBuild s) \<and>
     rv_BatchID (FmlRace s) = op_RaceBatchID op \<and>
     (rv_BatchActive (FmlRace s) \<longrightarrow>
        (let readMs = (if rv_TaskPoolSyncAttemptAtMs (FmlRace s) \<le> 0 then rv_TasksSyncedAtMs (FmlRace s)
                       else rv_TaskPoolSyncAttemptAtMs (FmlRace s))
         in 0 < readMs \<and> now < unix_milli readMs + 30 * second)) \<and>
     holds_live s now \<and> taken_TaskMsId (rv_Taken (FmlRace s)) = task_MsId t \<and>
     (0 < taken_TargetCnt (rv_Taken (FmlRace s)) \<longrightarrow>
        taken_FinishCnt (rv_Taken (FmlRace s)) < taken_TargetCnt (rv_Taken (FmlRace s))) \<and>
     0 < gs_roleID s \<and> task_UID t = gs_roleID s \<and> task_IsUpgrade t = 0 \<and>
     FmlRaceTaskUpgradeCost cat (task_TaskId t) (task_Score t) = Some (op_DiamondCost op) \<and>
     0 < op_DiamondCost op \<and> op_DiamondCost op \<le> rp_MaxSpendDiamond p \<and>
     op_DiamondCost op \<le> SpendableDiamonds s"

lemma live_hold:
  assumes "taken_HasTask (rv_Taken (FmlRaceAt s now))"
  shows "holds_live s now" "rv_Taken (FmlRaceAt s now) = rv_Taken (FmlRace s)"
proof -
  from assms have live: "\<not> ExpiredAt (rv_Taken (FmlRace s)) now" "taken_HasTask (rv_Taken (FmlRace s))"
    unfolding FmlRaceAt_def effective_hold ExpiredAt_def by blast+
  then show "rv_Taken (FmlRaceAt s now) = rv_Taken (FmlRace s)"
    by (simp add: FmlRaceAt_def EffectiveAt_def)
  from live show "holds_live s now" by (auto simp: holds_live_def ExpiredAt_def)
qed

lemma upgrade_sent:
  assumes "ValidateRaceUpgrade cat (Some s) pol_race op now = None"
  shows "\<exists>p t. pol_race = Some p \<and> rp_Enabled p \<and> ActiveAt (FmlRace s) now \<and> rv_TasksObserved (FmlRace s) \<and>
     \<not> rv_TaskPoolStale (FmlRace s) \<and> raceTaskByMsID (rv_Tasks (FmlRace s)) (op_TaskMsID op) = Some t \<and>
     upgrade_confirmed cat s p now op t"
proof (cases pol_race)
  case None
  with assms show ?thesis by (auto simp: ValidateRaceUpgrade_def split: option.splits if_splits)
next
  case (Some p)
  from assms [unfolded Some ValidateRaceUpgrade_None] obtain task where
    task: "raceTaskByMsID (rv_Tasks (FmlRace s)) (op_TaskMsID op) = Some task"
    and row: "0 < gs_roleID s" "task_UID task = gs_roleID s" "task_IsUpgrade task = 0"
      "FmlRaceTaskUpgradeCost cat (task_TaskId task) (task_Score task) = Some (op_DiamondCost op)"
      "affordable_price p (op_DiamondCost op)" "op_DiamondCost op \<le> SpendableDiamonds s"
    and view: "rp_Enabled p" "rp_UpgradeTask p" "ActiveAt (FmlRace s) now"
      "rv_BatchID (FmlRace s) = op_RaceBatchID op" "rv_TasksObserved (FmlRace s)"
      "\<not> rv_TaskPoolStale (FmlRace s)" "bv_MembershipObserved (FmlBuild s)" "0 < bv_MemberFmlID (FmlBuild s)"
      "\<not> raceTaskPoolTTLStale (FmlRaceAt s now) now"
    and held: "taken_HasTask (rv_Taken (FmlRaceAt s now))"
      "taken_TaskMsId (rv_Taken (FmlRaceAt s now)) = op_TaskMsID op"
      "\<not> (0 < taken_TargetCnt (rv_Taken (FmlRaceAt s now)) \<and>
         taken_TargetCnt (rv_Taken (FmlRaceAt s now)) \<le> taken_FinishCnt (rv_Taken (FmlRaceAt s now)))"
    by blast
  have id: "task_MsId task = op_TaskMsID op" using raceTaskByMsID_SomeD [OF task] ..
  have fresh: "rv_BatchActive (FmlRace s) \<longrightarrow>
      (let readMs = (if rv_TaskPoolSyncAttemptAtMs (FmlRace s) \<le> 0 then rv_TasksSyncedAtMs (FmlRace s)
                     else rv_TaskPoolSyncAttemptAtMs (FmlRace s))
       in 0 < readMs \<and> now < unix_milli readMs + 30 * second)"
    using view(5,6,9) by (simp add: raceTaskPoolTTLStale_def last_pool_sync_def FmlRaceAt_def
        raceTaskPoolRefreshInterval_def Let_def not_le split: if_splits)
  have "upgrade_confirmed cat s p now op task"
    unfolding upgrade_confirmed_def using row view(2,4,7,8) held(2,3) live_hold [OF held(1)] id fresh
    by (simp add: affordable_price_def not_le)
  with task view show ?thesis using Some by blast
qed

text \<open>
  C24.  The runner changes the pool only as planned and only what its settings still allow at the
  moment of sending.  A validated operation is guarded by the facts it was planned on; the race is
  enabled, its batch running, the pool observed and fresh; and the row it names is in the pool with
  the planned identity, type, score, upgrade state, owner, parameter and progress.  A take is moreover
  of a row the settings allow, with no unexpired hold, quota left and an expired hold settled; a
  deletion is of an unclaimed, visible row by a member whose position may delete, and an automatic
  one of a row within the configured score, without progress and not upgraded; an upgrade is of the
  account's own unfinished, unexpired and not yet upgraded task of the same batch, in a pool read less than
  thirty seconds ago (while the batch is marked as running), at the catalogue's price, within the ceiling and the diamonds owned.
\<close>

theorem only_planned_task_changes:
  assumes "ValidateRaceTaskMutation cat (Some s) pol (Some op) now = (g', None)"
  shows "\<exists>g p race t. op_RaceTaskGuard op = Some g \<and> pol = Some p \<and> pol_Race p = Some race \<and> rp_Enabled race \<and>
     ActiveAt (FmlRace s) now \<and> rv_TasksObserved (FmlRace s) \<and> \<not> rv_TaskPoolStale (FmlRace s) \<and>
     t \<in> set (rv_Tasks (FmlRace s)) \<and> task_MsId t = op_TaskMsID op \<and> raceTaskMutationFacts t = guard_Planned g \<and>
     (op_Kind op = RPCFmlRaceTakeTask \<and> takes_open cat s race now \<and> hold_settled s \<and>
        allowed_row s race (gs_roleID s) (raceModuleGatesFromPolicy p) now t
      \<or> op_Kind op = RPCFmlRaceDelTask \<and> delete_confirmed cat s race now (guard_AutomaticDelete g) t
      \<or> op_Kind op = RPCFmlRaceUpgradeTask \<and> upgrade_confirmed cat s race now op t)"
proof -
  let ?row = "raceTaskByMsID (rv_Tasks (FmlRace s)) (op_TaskMsID op)"
  from assms obtain g where g: "op_RaceTaskGuard op = Some g"
    and same: "\<And>t. ?row = Some t \<Longrightarrow> raceTaskMutationFacts t = guard_Planned g"
    and kind: "op_Kind op = RPCFmlRaceUpgradeTask \<and>
           ValidateRaceUpgrade cat (Some s) (case pol of None \<Rightarrow> None | Some p \<Rightarrow> pol_Race p) op now = None
         \<or> op_Kind op = RPCFmlRaceTakeTask \<and>
           (\<exists>t. raceTakeTaskForOperation cat (Some s) pol (op_TaskMsID op) now = Inr t)
         \<or> op_Kind op = RPCFmlRaceDelTask \<and>
           (\<exists>t. raceDeleteTaskForOperation cat (Some s) pol (op_TaskMsID op) now
                  (guard_AutomaticDelete g) = Inr t)"
    by (rule ValidateRaceTaskMutation_None) blast
  have row: "t \<in> set (rv_Tasks (FmlRace s)) \<and> task_MsId t = op_TaskMsID op \<and>
      raceTaskMutationFacts t = guard_Planned g" if "?row = Some t" for t
    using that same raceTaskByMsID_SomeD by blast
  from kind show ?thesis
  proof (elim disjE conjE exE)
    assume k: "op_Kind op = RPCFmlRaceUpgradeTask"
      and "ValidateRaceUpgrade cat (Some s) (case pol of None \<Rightarrow> None | Some p \<Rightarrow> pol_Race p) op now = None"
    from upgrade_sent [OF this(2)] obtain race t where
      "(case pol of None \<Rightarrow> None | Some p \<Rightarrow> pol_Race p) = Some race" "rp_Enabled race"
      "ActiveAt (FmlRace s) now" "rv_TasksObserved (FmlRace s)" "\<not> rv_TaskPoolStale (FmlRace s)"
      "?row = Some t" "upgrade_confirmed cat s race now op t" by blast
    moreover from this(1) obtain p where "pol = Some p" "pol_Race p = Some race" by (cases pol) auto
    ultimately show ?thesis using g row k by blast
  next
    fix t
    assume k: "op_Kind op = RPCFmlRaceTakeTask"
      and "raceTakeTaskForOperation cat (Some s) pol (op_TaskMsID op) now = Inr t"
    from this(2) [unfolded raceTakeTaskForOperation_iff RaceTakeSkipReason_allowed take_planned_open]
    obtain p race where p: "pol = Some p" "pol_Race p = Some race" "rp_Enabled race"
      and ready: "takes_open cat s race now" "\<not> raceExpiredHoldNeedsSync s now"
      and t: "raceTaskByMsID (rv_Tasks (active_view s now)) (op_TaskMsID op) = Some t"
      and allowed: "allowed_row s race (gs_roleID s) (raceModuleGatesFromPolicy p) now t"
      by (metis option.inject)
    have "?row = Some t" using t by (simp add: active_view_def Let_def FmlRaceAt_def)
    moreover have "hold_settled s" using expired_hold_settled [OF ready(1)] ready(2) by blast
    moreover have "ActiveAt (FmlRace s) now" "rv_TasksObserved (FmlRace s)" "\<not> rv_TaskPoolStale (FmlRace s)"
      using ready(1) by (simp_all add: takes_open_def)
    ultimately show ?thesis using g p ready(1) allowed row k by blast
  next
    fix t
    assume k: "op_Kind op = RPCFmlRaceDelTask"
      and "raceDeleteTaskForOperation cat (Some s) pol (op_TaskMsID op) now (guard_AutomaticDelete g) = Inr t"
    from this(2) [unfolded raceDeleteTaskForOperation_iff] obtain p race where
      p: "pol = Some p" "pol_Race p = Some race" "rp_Enabled race" and ready: "pool_ready (FmlRace s) now"
      and t: "?row = Some t" and del: "delete_confirmed cat s race now (guard_AutomaticDelete g) t"
      unfolding delete_confirmed_def delete_permitted_def FmlPositionAllowsRaceDelete_def by blast
    from ready have "ActiveAt (FmlRace s) now" "rv_TasksObserved (FmlRace s)" "\<not> rv_TaskPoolStale (FmlRace s)"
      by (simp_all add: pool_ready_def)
    with g p t del row k show ?thesis by blast
  qed
qed

text \<open>A deletion planned for a row that is still as it was passes, on the planned facts.\<close>

theorem only_planned_task_changes_witness:
  "let op = delete_op race_goal sample_task; s = racing [sample_task] zero_taken
   in snd (ValidateRaceTaskMutation sample_catalog (Some s) (Some sample_policy) (Some op) (2 * second)) = None \<and>
      (\<exists>g race t. op_RaceTaskGuard op = Some g \<and> pol_Race sample_policy = Some race \<and>
         t \<in> set (rv_Tasks (FmlRace s)) \<and> raceTaskMutationFacts t = guard_Planned g \<and>
         delete_confirmed sample_catalog s race (2 * second) (guard_AutomaticDelete g) t)"
proof -
  let ?op = "delete_op race_goal sample_task" and ?s = "racing [sample_task] zero_taken"
  define r where
    "r = ValidateRaceTaskMutation sample_catalog (Some ?s) (Some sample_policy) (Some ?op) (2 * second)"
  have n: "snd r = None" unfolding r_def by code_simp
  then have "ValidateRaceTaskMutation sample_catalog (Some ?s) (Some sample_policy) (Some ?op) (2 * second) =
      (fst r, None)" by (simp add: r_def prod_eq_iff)
  note changes = only_planned_task_changes [OF this]
  have kind: "op_Kind ?op = RPCFmlRaceDelTask" by (simp add: delete_op_fields)
  have distinct: "RPCFmlRaceDelTask \<noteq> RPCFmlRaceTakeTask" "RPCFmlRaceDelTask \<noteq> RPCFmlRaceUpgradeTask"
    by code_simp+
  from changes distinct have "\<exists>g race t. op_RaceTaskGuard ?op = Some g \<and> pol_Race sample_policy = Some race \<and>
      t \<in> set (rv_Tasks (FmlRace ?s)) \<and> raceTaskMutationFacts t = guard_Planned g \<and>
      delete_confirmed sample_catalog ?s race (2 * second) (guard_AutomaticDelete g) t"
    unfolding kind by blast
  with n show ?thesis unfolding r_def Let_def by blast
qed

end
