(* ===== verification/RacePlan.thy ===== *)
theory RacePlan
  imports RaceChange
begin

text \<open>
  The guild-race component of the planner (\<open>unionRaceOperations\<close> and its helpers in
  \<open>internal/automation/union_race.go\<close> and \<open>race_drive.go\<close>, and \<open>race_hold.go\<close>): entering a batch,
  keeping pool and quota synchronised, finishing, giving up and taking a task, and the guard that
  ties operations to the task they were planned for.

  The source's one function with early returns is the chain of stages below: a stage yields
  \<open>Some ops\<close> where the source returns \<open>ops\<close>, and \<open>None\<close> where it goes on.
\<close>

section \<open>Priorities and intervals\<close>

abbreviation "raceCustomerSyncPriority \<equiv> (12400::int)"
abbreviation "raceCustomerFinishPriority \<equiv> (12500::int)"
abbreviation "racePearlSyncPriority \<equiv> (12400::int)"
abbreviation "racePearlFinishPriority \<equiv> (12500::int)"
abbreviation "raceFlowerArtSyncPriority \<equiv> (12400::int)"
abbreviation "raceFlowerArtFinishPriority \<equiv> (12500::int)"
abbreviation "raceCultivateSyncPriority \<equiv> (12400::int)"
abbreviation "raceCultivateFinishPriority \<equiv> (12500::int)"

definition raceTaskPoolBootstrapRetryInterval :: duration where
  "raceTaskPoolBootstrapRetryInterval = 30 * second"
definition raceNearCDSyncSuppressWindow :: duration where
  "raceNearCDSyncSuppressWindow = 10 * second"
definition raceFinishProgressSyncInterval :: duration where
  "raceFinishProgressSyncInterval = 30 * second"
definition raceInactiveEnterRetryInterval :: duration where
  "raceInactiveEnterRetryInterval = 30 * second"
definition fmlMemberPositionSyncInterval :: duration where
  "fmlMemberPositionSyncInterval = 10 * minute"
definition raceEnterProbeInterval :: duration where
  "raceEnterProbeInterval = 10 * minute"
definition raceModuleProgressSyncInterval :: duration where
  "raceModuleProgressSyncInterval = 10 * minute"
definition raceQuotaSyncInterval :: duration where
  "raceQuotaSyncInterval = 10 * minute"

section \<open>The held task\<close>

definition held_complete :: "fml_race_taken \<Rightarrow> bool" where
  "held_complete taken \<longleftrightarrow> 0 < taken_TargetCnt taken \<and> taken_TargetCnt taken \<le> taken_FinishCnt taken"

definition raceHoldsUnfinishedType :: "fml_race_view \<Rightarrow> int \<Rightarrow> bool" where
  "raceHoldsUnfinishedType view wantType \<longleftrightarrow>
     taken_HasTask (rv_Taken view) \<and> held_type (rv_Taken view) = wantType \<and>
     (taken_TargetCnt (rv_Taken view) \<le> 0 \<or> taken_FinishCnt (rv_Taken view) < taken_TargetCnt (rv_Taken view))"

definition RaceHoldsUnfinishedCustomerOrder :: "fml_race_view \<Rightarrow> bool" where
  "RaceHoldsUnfinishedCustomerOrder view = raceHoldsUnfinishedType view raceTaskTypeCustomerOrder"
definition RaceHoldsUnfinishedPearlHire :: "fml_race_view \<Rightarrow> bool" where
  "RaceHoldsUnfinishedPearlHire view = raceHoldsUnfinishedType view raceTaskTypePearlHire"
definition RaceHoldsUnfinishedFlowerArtSell :: "fml_race_view \<Rightarrow> bool" where
  "RaceHoldsUnfinishedFlowerArtSell view = raceHoldsUnfinishedType view raceTaskTypeFlowerArtSell"
definition RaceHoldsUnfinishedFlowerArtCraft :: "fml_race_view \<Rightarrow> bool" where
  "RaceHoldsUnfinishedFlowerArtCraft view = raceHoldsUnfinishedType view raceTaskTypeFlowerArtCraft"
definition RaceHoldsUnfinishedFlowerCultivate :: "fml_race_view \<Rightarrow> bool" where
  "RaceHoldsUnfinishedFlowerCultivate view = raceHoldsUnfinishedType view raceTaskTypeFlowerCultivate"

definition raceNeedsModuleProgressSync :: "fml_race_view \<Rightarrow> bool \<Rightarrow> time \<Rightarrow> bool" where
  "raceNeedsModuleProgressSync view holds now =
     (if \<not> holds then False
      else if held_complete (rv_Taken view) then False
      else if \<not> rv_TasksObserved view \<or> rv_TasksSyncedAtMs view \<le> 0 then True
      else unix_milli (rv_TasksSyncedAtMs view) + raceModuleProgressSyncInterval \<le> now)"

definition raceNeedsFinishProgressSync :: "fml_race_view \<Rightarrow> time \<Rightarrow> bool" where
  "raceNeedsFinishProgressSync view now =
     (let taken = rv_Taken view
      in if \<not> taken_HasTask taken \<or> taken_TargetCnt taken \<le> 0 \<or>
            taken_TargetCnt taken \<le> taken_FinishCnt taken then False
         else if rv_LocalFinishTaskMsId view \<noteq> taken_TaskMsId taken \<or>
                 rv_LocalFinishCnt view < taken_TargetCnt taken then False
         else \<not> (rv_TasksObserved view \<and> 0 < rv_TasksSyncedAtMs view \<and>
                 now < unix_milli (rv_TasksSyncedAtMs view) + raceFinishProgressSyncInterval))"

definition raceTakenScore :: "fml_race_view \<Rightarrow> int" where
  "raceTakenScore view =
     (if 0 < taken_Score (rv_Taken view) then taken_Score (rv_Taken view)
      else case raceTaskByMsID (rv_Tasks view) (taken_TaskMsId (rv_Taken view)) of
        Some task \<Rightarrow> if 0 < task_Score task then task_Score task else 0
      | None \<Rightarrow> 0)"

definition raceFlowerArtCraftVaseUnavailable :: "game_state \<Rightarrow> int \<Rightarrow> bool" where
  "raceFlowerArtCraftVaseUnavailable s vaseID =
     (if vaseID \<le> 0 \<or> \<not> gs_vaseObserved s then True else \<not> HasVase s vaseID)"

definition raceTakenUncompletable ::
  "game_state \<Rightarrow> fml_race_taken \<Rightarrow> race_module_gates \<Rightarrow> bool" where
  "raceTakenUncompletable s taken gates =
     (let taskType = held_type taken
      in if taskType = raceTaskTypePlantHarvest
         then taken_ParamID taken \<le> 0 \<or> \<not> flowerCultivated s (taken_ParamID taken)
         else if taskType = raceTaskTypeFlowerArtCraft
         then raceFlowerArtCraftVaseUnavailable s (taken_ParamID taken)
         else if taskType = raceTaskTypeCustomerOrder then \<not> gates_Customer gates
         else if taskType = raceTaskTypePearlHire then \<not> gates_Pearl gates
         else False)"

definition raceTakenPriorityZero :: "race_policy \<Rightarrow> fml_race_taken \<Rightarrow> bool" where
  "raceTakenPriorityZero p taken \<longleftrightarrow> raceTaskTypePriority p (held_type taken) \<le> 0"

definition uncompletable_reason :: "int \<Rightarrow> string" where
  "uncompletable_reason taskType =
     (if taskType = raceTaskTypeCustomerOrder then lit_race_give_up_customer
      else if taskType = raceTaskTypePearlHire then lit_race_give_up_pearl
      else if taskType = raceTaskTypeFlowerArtCraft then lit_race_give_up_craft
      else lit_race_give_up_plant)"

definition raceTakenAbandonReason ::
  "game_state \<Rightarrow> race_policy \<Rightarrow> fml_race_view \<Rightarrow> race_module_gates \<Rightarrow> string" where
  "raceTakenAbandonReason s p view gates =
     (let taken = rv_Taken view; score = raceTakenScore view; minScore = rp_MinTaskScore p;
          taskType = held_type taken
      in if \<not> rp_AutoGiveUpTask p \<or> \<not> taken_HasTask taken then []
         else if taskType = raceTaskTypeFlowerCultivate \<and> score = raceFlowerCultivateRequiredScore then []
         else if 0 < minScore \<and> 0 < score \<and> score \<le> minScore then lit_race_give_up_score
         else if taskType = raceTaskTypeFlowerCultivate \<and> 0 < score \<and>
                 score \<noteq> raceFlowerCultivateRequiredScore then lit_race_give_up_cultivate
         else if raceTakenUncompletable s taken gates then uncompletable_reason taskType
         else if raceTakenPriorityZero p taken then lit_race_give_up_priority
         else if 0 < taken_FinishCnt taken then []
         else if rv_TasksObserved view \<and> raceTaskByMsID (rv_Tasks view) (taken_TaskMsId taken) = None
         then lit_race_give_up_gone
         else [])"

definition raceTakenBlocksProgress ::
  "game_state \<Rightarrow> race_policy option \<Rightarrow> fml_race_view \<Rightarrow> race_module_gates \<Rightarrow> bool" where
  "raceTakenBlocksProgress s pol view gates =
     (let build = FmlBuild s; taken = rv_Taken view
      in if \<not> bv_MembershipObserved build \<or> bv_MemberFmlID build \<le> 0 then True
         else case pol of
           None \<Rightarrow> False
         | Some p \<Rightarrow>
             (if \<not> rp_AutoGiveUpTask p \<or> \<not> taken_HasTask taken then False
              else if raceTakenAbandonReason s p view gates \<noteq> [] then True
              else if 0 < taken_FinishCnt taken then False
              else 0 < rp_MinTaskScore p \<and> raceTakenScore view = 0))"

section \<open>When to synchronise\<close>

definition memberPositionSyncDue :: "fml_build_view \<Rightarrow> time \<Rightarrow> bool" where
  "memberPositionSyncDue build now =
     (if bv_MemberPositionObserved build then False
      else if bv_MemberPositionSyncAtMs build \<le> 0 then True
      else unix_milli (bv_MemberPositionSyncAtMs build) + fmlMemberPositionSyncInterval \<le> now)"

definition raceEnterProbeCoolingDown :: "fml_race_view \<Rightarrow> time \<Rightarrow> bool" where
  "raceEnterProbeCoolingDown view now \<longleftrightarrow>
     0 < rv_RaceLvlSyncAtMs view \<and> now < unix_milli (rv_RaceLvlSyncAtMs view) + raceEnterProbeInterval"

definition raceInactiveEnterRetryDue :: "fml_race_view \<Rightarrow> time \<Rightarrow> time \<Rightarrow> bool" where
  "raceInactiveEnterRetryDue view now sessionStart =
     (if rv_RaceLvlSyncAtMs view \<le> 0 then True
      else let last = unix_milli (rv_RaceLvlSyncAtMs view)
           in if \<not> time_is_zero sessionStart \<and> last < sessionStart then True
              else last + raceInactiveEnterRetryInterval \<le> now)"

definition calendar_enter :: "fml_race_view \<Rightarrow> time \<Rightarrow> bool" where
  "calendar_enter view now =
     (if \<not> FmlRaceCalendarInSession now then False
      else raceInactiveEnterRetryDue view now (FmlRaceCalendarSessionStart now))"

definition raceShouldEnterInactiveBatch :: "fml_race_view \<Rightarrow> time \<Rightarrow> bool" where
  "raceShouldEnterInactiveBatch view now =
     (if rv_BatchStatus view \<noteq> 2 \<and> 0 < rv_BatchStartMs view then
        (let start = unix_milli (rv_BatchStartMs view)
         in if now < start then False
            else if rv_BatchEndMs view \<le> 0 \<or> now < unix_milli (rv_BatchEndMs view)
            then raceInactiveEnterRetryDue view now start
            else calendar_enter view now)
      else calendar_enter view now)"

definition raceTaskPoolBootstrapSyncDue :: "fml_race_view \<Rightarrow> time \<Rightarrow> bool" where
  "raceTaskPoolBootstrapSyncDue view now =
     (if rv_TasksObserved view then False
      else if rv_TaskPoolSyncAttemptAtMs view \<le> 0 then True
      else unix_milli (rv_TaskPoolSyncAttemptAtMs view) + raceTaskPoolBootstrapRetryInterval \<le> now)"

definition raceTaskPoolNeedsParamRefresh :: "fml_race_view \<Rightarrow> bool" where
  "raceTaskPoolNeedsParamRefresh view =
     (if \<not> FmlRacePoolMissingParam (rv_Tasks view) then False
      else FmlRaceMissingParamFingerprint (rv_Tasks view) \<noteq> rv_MissingParamRefreshFP view)"

text \<open>The remaining time is an \<open>int64\<close> product, which wraps for appearances centuries ahead.\<close>

definition near_cd ::
  "game_state \<Rightarrow> race_policy \<Rightarrow> int \<Rightarrow> time \<Rightarrow> race_module_gates \<Rightarrow> fml_race_task \<Rightarrow> bool" where
  "near_cd s p uid now gates t =
     (let nowMs = to_unix_milli now
      in if task_AppearTime t \<le> 0 \<or> task_AppearTime t \<le> nowMs then False
         else if task_UID t \<noteq> 0 then False
         else if raceNearCDSyncSuppressWindow \<le>
                   signed_take_bit 63 ((task_AppearTime t - nowMs) * millisecond) then False
         else raceTakeNonCDSkipReason s t p uid gates = None)"

definition raceHasNearTakeableCD ::
  "game_state \<Rightarrow> fml_race_task list \<Rightarrow> race_policy \<Rightarrow> int \<Rightarrow> time \<Rightarrow> race_module_gates \<Rightarrow> bool" where
  "raceHasNearTakeableCD s tasks p uid now gates = list_ex (near_cd s p uid now gates) tasks"

section \<open>The operations of the race\<close>

definition race_op :: "string \<Rightarrow> string \<Rightarrow> string \<Rightarrow> string \<Rightarrow> int \<Rightarrow> planned_op" where
  "race_op kind domain action reason priority = domainOp kind race_goal domain action reason priority 0 0 0"

definition urgent :: "planned_op \<Rightarrow> planned_op" where
  "urgent op = op\<lparr>op_PreemptFarm := True\<rparr>"

definition pool_sync_op :: "string \<Rightarrow> int \<Rightarrow> planned_op" where
  "pool_sync_op reason priority =
     race_op RPCFmlRaceGetTaskList ''union.race.sync'' ''sync'' reason priority"

definition enter_op :: "string \<Rightarrow> int \<Rightarrow> planned_op" where
  "enter_op reason priority =
     race_op RPCFmlRaceEnter ''union.race.enter'' ''enter'' reason priority"

definition finish_priority :: "int \<Rightarrow> int" where
  "finish_priority taskType =
     (if taskType = raceTaskTypeCustomerOrder then raceCustomerFinishPriority
      else if taskType = raceTaskTypePearlHire then racePearlFinishPriority
      else if taskType = raceTaskTypeFlowerArtSell \<or> taskType = raceTaskTypeFlowerArtCraft
      then raceFlowerArtFinishPriority
      else if taskType = raceTaskTypeFlowerCultivate then raceCultivateFinishPriority
      else 4390)"

definition raceFinishOperation :: "fml_race_taken \<Rightarrow> planned_op" where
  "raceFinishOperation taken =
     (race_op RPCFmlRaceFinishTask ''union.race.finish'' ''finish'' lit_race_finish
        (finish_priority (held_type taken)))
     \<lparr>op_TaskMsID := taken_TaskMsId taken, op_TaskID := held_type taken,
      op_FlowerID := taken_ParamID taken, op_PreemptFarm := True\<rparr>"

definition give_up_op :: "string \<Rightarrow> fml_race_taken \<Rightarrow> planned_op" where
  "give_up_op reason taken =
     (race_op RPCFmlRaceGiveUpTask ''union.race.giveUp'' ''giveUp'' reason 4395)
     \<lparr>op_TaskMsID := taken_TaskMsId taken, op_TaskID := held_type taken,
      op_FlowerID := taken_ParamID taken, op_PreemptFarm := True\<rparr>"

definition raceUsrRankScoreSyncOp :: "fml_race_view \<Rightarrow> time \<Rightarrow> planned_op option" where
  "raceUsrRankScoreSyncOp view now =
     (if rv_BatchID view \<le> 0 then None
      else let needScoreRank = (\<not> rv_ScoreObserved view \<or> \<not> rv_RankObserved view);
               synced = rv_RaceQuotaSyncAtMs view;
               past = (unix_milli synced + raceQuotaSyncInterval \<le> now);
               backoffOK = (synced = 0 \<or> past);
               periodic = (\<not> needScoreRank \<and> 0 < synced \<and> past)
           in if (\<not> needScoreRank \<or> \<not> backoffOK) \<and> \<not> periodic then None
              else Some ((race_op RPCFmlRaceGetFmlRaceUsrRankList ''union.race.sync'' ''sync''
                            lit_race_sync_score 4398)
                         \<lparr>op_TaskMsID := rv_BatchID view, op_CooldownKey := ''union.race.usr_rank''\<rparr>))"

definition isRacePrimaryMutatingOp :: "planned_op \<Rightarrow> bool" where
  "isRacePrimaryMutatingOp op \<longleftrightarrow>
     op_Kind op = RPCFmlRaceGiveUpTask \<or> op_Kind op = RPCFmlRaceFinishTask \<or>
     op_Kind op = RPCFmlRaceTakeTask"

section \<open>The stages of the planner\<close>

definition race_position_stage :: "race_policy \<Rightarrow> fml_build_view \<Rightarrow> time \<Rightarrow> planned_op list option" where
  "race_position_stage p build now =
     (if rp_DeleteLowScoreTask p \<and> \<not> bv_MemberPositionObserved build \<and> memberPositionSyncDue build now
      then Some [(race_op RPCFmlEnter ''union.race.sync'' ''sync'' lit_race_sync_position 4490)
                 \<lparr>op_CooldownKey := ''union.race.delete.member_position'', op_PreemptFarm := True\<rparr>]
      else None)"

definition race_enter_stage ::
  "game_state \<Rightarrow> fml_race_view \<Rightarrow> time \<Rightarrow> planned_op list option" where
  "race_enter_stage s view now =
     (if \<not> rv_Observed view then
        (if raceEnterProbeCoolingDown view now then Some []
         else Some [(if FmlRaceCalendarInSession now then urgent (enter_op lit_race_enter 4400)
                     else enter_op lit_race_enter 4400)])
      else if rv_BatchStatus view \<noteq> 1 \<and> raceShouldEnterInactiveBatch view now then
        Some [(enter_op lit_race_enter_batch 4400)
              \<lparr>op_CooldownKey := ''union.race.enter.batch'', op_PreemptFarm := True\<rparr>]
      else if \<not> rv_BatchActive view then Some []
      else if rv_RaceLvl view \<le> 0 \<and> bv_RaceLvl (FmlBuild s) \<le> 0 \<and>
              (rv_RaceLvlSyncAtMs view = 0 \<or>
               unix_milli (rv_RaceLvlSyncAtMs view) + raceEnterProbeInterval \<le> now) then
        Some [(enter_op lit_race_enter_lvl 4399)
              \<lparr>op_CooldownKey := ''union.race.enter.race_lvl'', op_PreemptFarm := True\<rparr>]
      else None)"

definition race_session_stage ::
  "race_catalog \<Rightarrow> game_state \<Rightarrow> race_policy \<Rightarrow> fml_race_view \<Rightarrow> time \<Rightarrow> planned_op list option" where
  "race_session_stage cat s p view now =
     (let quotaBlocked = (\<not> taken_HasTask (rv_Taken view) \<and>
            (rv_TakeQuotaExhausted view \<or> raceTaskQuotaDone cat s view p));
          initialQuotaSync = (rv_RaceQuotaSyncAtMs view = 0 \<and> \<not> taken_HasTask (rv_Taken view));
          synced = rv_RaceQuotaSyncAtMs view
      in if raceExpiredHoldNeedsSync s now then Some [urgent (pool_sync_op lit_race_sync_expired 4399)]
         else if (\<not> rv_TaskQuotaObserved view \<or> initialQuotaSync \<or> quotaBlocked) \<and> 0 < rv_BatchID view \<and>
                 (synced = 0 \<or> unix_milli synced + raceQuotaSyncInterval \<le> now) then
           Some [(race_op RPCFmlRaceGetFmlRaceUsrRankList ''union.race.sync'' ''sync''
                    lit_race_sync_counts 4398)
                 \<lparr>op_TaskMsID := rv_BatchID view, op_CooldownKey := ''union.race.usr_rank'',
                  op_PreemptFarm := quotaBlocked \<or> initialQuotaSync\<rparr>]
         else if rp_AutoEnableModules p \<and> taken_HasTask (rv_Taken view) \<and> held_complete (rv_Taken view)
         then Some [raceFinishOperation (rv_Taken view)]
         else if rp_AutoEnableModules p \<and> raceNeedsFinishProgressSync view now
         then Some [urgent (pool_sync_op lit_race_sync_progress 4397)]
         else None)"

definition sync_priority :: "fml_race_view \<Rightarrow> race_module_gates \<Rightarrow> int" where
  "sync_priority view gates =
     (if RaceHoldsUnfinishedCustomerOrder view \<and> gates_Customer gates then raceCustomerSyncPriority
      else if RaceHoldsUnfinishedPearlHire view \<and> gates_Pearl gates then racePearlSyncPriority
      else if RaceHoldsUnfinishedFlowerArtSell view \<or> RaceHoldsUnfinishedFlowerArtCraft view
      then raceFlowerArtSyncPriority
      else if RaceHoldsUnfinishedFlowerCultivate view then raceCultivateSyncPriority
      else 4398)"

definition race_pool_stage ::
  "fml_race_view \<Rightarrow> race_module_gates \<Rightarrow> time \<Rightarrow> planned_op list option" where
  "race_pool_stage view gates now =
     (let syncPrio = sync_priority view gates
      in if rv_BatchActive view \<and> rv_TaskPoolStale view
         then Some [urgent (pool_sync_op lit_race_sync_stale syncPrio)]
         else if rv_BatchActive view \<and> \<not> rv_TasksObserved view then
           (if \<not> raceTaskPoolBootstrapSyncDue view now then Some []
            else Some [urgent (pool_sync_op lit_race_sync_retry syncPrio)])
         else if rv_BatchActive view \<and> raceTaskPoolNeedsParamRefresh view
         then Some [urgent (pool_sync_op lit_race_sync_param syncPrio)]
         else None)"

definition race_give_up_stage ::
  "game_state \<Rightarrow> race_policy \<Rightarrow> fml_race_view \<Rightarrow> race_module_gates \<Rightarrow> planned_op list option" where
  "race_give_up_stage s p view gates =
     (if taken_HasTask (rv_Taken view) \<and>
         (taken_TargetCnt (rv_Taken view) \<le> 0 \<or>
          taken_FinishCnt (rv_Taken view) < taken_TargetCnt (rv_Taken view)) then
        (let reason = raceTakenAbandonReason s p view gates
         in if reason \<noteq> [] then Some [give_up_op reason (rv_Taken view)] else None)
      else None)"

definition race_manual_stage ::
  "race_catalog \<Rightarrow> game_state \<Rightarrow> race_policy \<Rightarrow> fml_race_view \<Rightarrow> time \<Rightarrow> planned_op list option" where
  "race_manual_stage cat s p view now =
     (if rp_AutoEnableModules p then None
      else if raceTaskPoolRefreshDue view p now then Some [urgent (pool_sync_op lit_race_sync_ttl 4398)]
      else Some (raceLowScoreDeleteOperations cat s view p race_goal now
                 @ raceUpgradeOperations cat view p race_goal now
                 @ (case raceUsrRankScoreSyncOp view now of None \<Rightarrow> [] | Some op \<Rightarrow> [op])))"

definition race_progress_stage ::
  "fml_race_view \<Rightarrow> race_module_gates \<Rightarrow> time \<Rightarrow> planned_op list option" where
  "race_progress_stage view gates now =
     (let sync = raceNeedsModuleProgressSync view
      in if gates_Customer gates \<and> sync (RaceHoldsUnfinishedCustomerOrder view) now
         then Some [pool_sync_op lit_race_sync_customer raceCustomerSyncPriority]
         else if gates_Pearl gates \<and> sync (RaceHoldsUnfinishedPearlHire view) now
         then Some [pool_sync_op lit_race_sync_pearl racePearlSyncPriority]
         else if sync (RaceHoldsUnfinishedFlowerArtSell view \<or> RaceHoldsUnfinishedFlowerArtCraft view) now
         then Some [pool_sync_op (if RaceHoldsUnfinishedFlowerArtSell view
                                  then lit_race_sync_art_sell else lit_race_sync_art_craft)
                      raceFlowerArtSyncPriority]
         else if sync (RaceHoldsUnfinishedFlowerCultivate view) now
         then Some [pool_sync_op lit_race_sync_cultivate raceCultivateSyncPriority]
         else None)"

definition race_take_ops ::
  "race_catalog \<Rightarrow> game_state \<Rightarrow> race_policy \<Rightarrow> fml_race_view \<Rightarrow> int \<Rightarrow> time \<Rightarrow> race_module_gates
    \<Rightarrow> planned_op list" where
  "race_take_ops cat s p view uid now gates =
     (if taken_HasTask (rv_Taken view) \<and> held_complete (rv_Taken view)
      then [raceFinishOperation (rv_Taken view)] else [])
     @ (if \<not> taken_HasTask (rv_Taken view) \<and> \<not> rv_TakeQuotaExhausted view \<and>
           \<not> raceTaskQuotaDone cat s view p
        then (case selectRaceTasks s (rv_Tasks view) p uid now gates of
                [] \<Rightarrow> []
              | best # _ \<Rightarrow> [take_op lit_race_take best])
        else [])"

definition race_auto_stage ::
  "race_catalog \<Rightarrow> game_state \<Rightarrow> race_policy \<Rightarrow> fml_race_view \<Rightarrow> int \<Rightarrow> time \<Rightarrow> race_module_gates
    \<Rightarrow> planned_op list" where
  "race_auto_stage cat s p view uid now gates =
     (let ops = race_take_ops cat s p view uid now gates;
          hasPrimary = list_ex isRacePrimaryMutatingOp ops
      in if \<not> hasPrimary \<and> raceTaskPoolRefreshDue view p now \<and>
            \<not> raceHasNearTakeableCD s (rv_Tasks view) p uid now gates
         then [urgent (pool_sync_op lit_race_sync_ttl 4398)]
         else let ops1 = ops @ raceUpgradeOperations cat view p race_goal now;
                  ops2 = (if \<not> raceTaskPoolTTLStale view now
                          then ops1 @ raceLowScoreDeleteOperations cat s view p race_goal now
                          else ops1)
              in if ops2 = [] then
                   (case raceUsrRankScoreSyncOp view now of None \<Rightarrow> [] | Some op \<Rightarrow> [op])
                 else ops2)"

fun first_stage :: "planned_op list option list \<Rightarrow> planned_op list \<Rightarrow> planned_op list" where
  "first_stage [] final = final"
| "first_stage (Some ops # rest) final = ops"
| "first_stage (None # rest) final = first_stage rest final"

definition unionRaceOperations ::
  "race_catalog \<Rightarrow> game_state \<Rightarrow> race_policy option \<Rightarrow> int \<Rightarrow> time \<Rightarrow> race_module_gates
    \<Rightarrow> planned_op list" where
  "unionRaceOperations cat s pol uid now gates =
     (case pol of
        None \<Rightarrow> []
      | Some p \<Rightarrow>
          (let build = FmlBuild s; view = active_view s now
           in if \<not> rp_Enabled p then []
              else if \<not> bv_MembershipObserved build \<or> bv_MemberFmlID build \<le> 0 then []
              else first_stage
                [race_position_stage p build now,
                 race_enter_stage s view now,
                 race_session_stage cat s p view now,
                 race_pool_stage view gates now,
                 race_give_up_stage s p view gates,
                 race_manual_stage cat s p view now,
                 race_progress_stage view gates now]
                (race_auto_stage cat s p view uid now gates)))"

section \<open>What the decision loop asks\<close>

definition RaceBootstrapDue ::
  "race_catalog \<Rightarrow> game_state option \<Rightarrow> policy option \<Rightarrow> time \<Rightarrow> bool" where
  "RaceBootstrapDue cat st pol now =
     (case (st, pol) of
        (Some s, Some p) \<Rightarrow>
          (case pol_Race p of
             None \<Rightarrow> False
           | Some race \<Rightarrow>
               (let view0 = FmlRaceAt s now; view = active_view s now; build = FmlBuild s
                in if \<not> pol_AutomationEnabled p \<or> \<not> rp_Enabled race then False
                   else if \<not> bv_MembershipObserved build \<or> bv_MemberFmlID build \<le> 0 then False
                   else if \<not> rv_Observed view0 \<and> bv_FmlID build \<le> 0 then False
                   else if \<not> rv_Observed view0 then
                     (if raceEnterProbeCoolingDown view0 now then False else FmlRaceCalendarInSession now)
                   else if \<not> rv_BatchActive view then raceShouldEnterInactiveBatch view now
                   else if rv_TaskPoolStale view then True
                   else if \<not> rv_TasksObserved view then raceTaskPoolBootstrapSyncDue view now
                   else if taken_HasTask (rv_Taken view) \<and> held_complete (rv_Taken view)
                   then rp_AutoEnableModules race
                   else if \<not> rp_AutoEnableModules race then False
                   else RaceTakeDue cat (Some s) (Some p) now \<or> raceTaskPoolRefreshDue view race now))
      | _ \<Rightarrow> False)"

definition RaceTaskPoolWakeAt ::
  "race_catalog \<Rightarrow> game_state option \<Rightarrow> policy option \<Rightarrow> time \<Rightarrow> time" where
  "RaceTaskPoolWakeAt cat st pol now =
     (case (st, pol) of
        (Some s, Some p) \<Rightarrow>
          (case pol_Race p of
             None \<Rightarrow> zero_time
           | Some race \<Rightarrow>
               (let view = FmlRaceAt s now; build = FmlBuild s
                in if \<not> pol_AutomationEnabled p \<or> \<not> rp_Enabled race \<or> \<not> rp_AutoEnableModules race \<or>
                      \<not> bv_MembershipObserved build \<or> bv_MemberFmlID build \<le> 0 \<or>
                      \<not> ActiveAt view now \<or> \<not> rv_TasksObserved view \<or> rv_TaskPoolStale view \<or>
                      taken_HasTask (rv_Taken view) \<or> rv_TakeQuotaExhausted view \<or>
                      raceTaskQuotaDone cat s view race
                   then zero_time
                   else unix_milli (last_pool_sync view) + raceTaskPoolRefreshInterval))
      | _ \<Rightarrow> zero_time)"

text \<open>The texts of \<open>RaceAutoDeleteStatus\<close>, one constructor each.\<close>

datatype delete_status =
    SyncOff | DeleteOff | LimitZero | OutOfSession | AwaitPosition | NoDeletePermission
  | AwaitExpiredSync | AwaitPool | Eligible nat | NoneEligible int

definition RaceAutoDeleteStatus ::
  "race_catalog \<Rightarrow> game_state \<Rightarrow> race_policy option \<Rightarrow> time \<Rightarrow> delete_status" where
  "RaceAutoDeleteStatus cat s pol now =
     (case pol of
        None \<Rightarrow> SyncOff
      | Some p \<Rightarrow>
          (let view = FmlRaceAt s now; build = FmlBuild s;
               ops = raceLowScoreDeleteOperations cat s view p
                       \<lparr>goal_ID = [], goal_Category = [], goal_Domain = [], goal_Label = [],
                        goal_Priority = 0\<rparr> now
           in if \<not> rp_Enabled p then SyncOff
              else if \<not> rp_DeleteLowScoreTask p then DeleteOff
              else if rp_DeleteTaskMaxScore p \<le> 0 then LimitZero
              else if \<not> rv_Observed view \<or> \<not> ActiveAt view now then OutOfSession
              else if \<not> bv_MemberPositionObserved build then AwaitPosition
              else if \<not> FmlPositionAllowsRaceDelete cat (bv_MemberPosition build) then NoDeletePermission
              else if raceExpiredHoldNeedsSync s now then AwaitExpiredSync
              else if \<not> rv_TasksObserved view \<or> rv_TaskPoolStale view \<or>
                      raceTaskPoolRefreshDue view p now then AwaitPool
              else if ops \<noteq> [] then Eligible (length ops)
              else NoneEligible (rp_DeleteTaskMaxScore p)))"

section \<open>Operations tied to the held task\<close>

definition raceDrivesFarm :: "game_state option \<Rightarrow> policy option \<Rightarrow> time \<Rightarrow> bool" where
  "raceDrivesFarm st pol now =
     (case (st, pol) of
        (Some s, Some p) \<Rightarrow>
          (let build = FmlBuild s; taken = rv_Taken (FmlRaceAt s now)
           in if \<not> pol_AutomationEnabled p then False
              else if \<not> bv_MembershipObserved build \<or> bv_MemberFmlID build \<le> 0 then False
              else case race_driving p of
                None \<Rightarrow> False
              | Some race \<Rightarrow>
                  (if \<not> taken_HasTask taken \<or> taken_TaskType taken \<noteq> raceTaskTypePlantHarvest then False
                   else if taken_TargetCnt taken \<le> 0 \<or> taken_TargetCnt taken \<le> taken_FinishCnt taken
                   then False
                   else \<not> raceTakenBlocksProgress s (Some race) (FmlRaceAt s now)
                            (raceModuleGatesFromPolicy p)))
      | _ \<Rightarrow> False)"

abbreviation "raceActionGoal \<equiv> ''union.race''"

definition unguarded_kind :: "string \<Rightarrow> bool" where
  "unguarded_kind kind \<longleftrightarrow>
     kind = RPCFmlRaceTakeTask \<or> kind = RPCFmlRaceDelTask \<or> kind = RPCFmlRaceEnter \<or>
     kind = RPCFmlRaceGetTaskList \<or> kind = RPCFmlRaceGetFmlRaceUsrRankList"

definition guard_held_op :: "fml_race_view \<Rightarrow> bool \<Rightarrow> planned_op \<Rightarrow> planned_op" where
  "guard_held_op v farmDriven op =
     (if unguarded_kind (op_Kind op) then op
      else if op_GoalID op = raceActionGoal \<or> (farmDriven \<and> has_prefix (op_Kind op) ''usrLand.'') \<or>
              (op_GoalID op = GoalCustomerOrder \<and> RaceHoldsUnfinishedCustomerOrder v)
      then op\<lparr>op_RaceHoldTaskMsID := taken_TaskMsId (rv_Taken v), op_RaceBatchID := rv_BatchID v\<rparr>
      else op)"

definition guardRaceHeldOperations ::
  "game_state \<Rightarrow> policy \<Rightarrow> planned_op list \<Rightarrow> time \<Rightarrow> planned_op list" where
  "guardRaceHeldOperations s p ops now =
     (let v = FmlRaceAt s now
      in if \<not> taken_HasTask (rv_Taken v) then ops
         else map (guard_held_op v (raceDrivesFarm (Some s) (Some p) now)) ops)"

text \<open>\<open>None\<close> is the nil error.\<close>

definition ValidateRaceHeldOperation ::
  "game_state \<Rightarrow> planned_op option \<Rightarrow> time \<Rightarrow> race_error option" where
  "ValidateRaceHeldOperation s opt now =
     (case opt of
        None \<Rightarrow> None
      | Some op \<Rightarrow>
          (if op_RaceHoldTaskMsID op = 0 then None
           else let v = FmlRaceAt s now
                in if \<not> ActiveAt v now \<or> \<not> taken_HasTask (rv_Taken v) \<or>
                      taken_TaskMsId (rv_Taken v) \<noteq> op_RaceHoldTaskMsID op \<or>
                      rv_BatchID v \<noteq> op_RaceBatchID op
                   then Some HeldTaskChanged else None))"

section \<open>What each stage plans\<close>

lemma race_op_fields [simp]:
  "op_Kind (race_op k d a r pr) = k" "op_Domain (race_op k d a r pr) = d"
  "op_PreemptFarm (race_op k d a r pr) = False"
  by (simp_all add: race_op_def domainOp_fields)

lemma urgent_fields [simp]:
  "op_Kind (urgent op) = op_Kind op" "op_PreemptFarm (urgent op)"
  by (simp_all add: urgent_def)

lemma built_kinds [simp]:
  "op_Kind (pool_sync_op r pr) = RPCFmlRaceGetTaskList"
  "op_Kind (enter_op r pr) = RPCFmlRaceEnter"
  "op_Kind (raceFinishOperation taken) = RPCFmlRaceFinishTask"
  "op_TaskMsID (raceFinishOperation taken) = taken_TaskMsId taken"
  "op_PreemptFarm (raceFinishOperation taken)"
  "op_Kind (give_up_op r taken) = RPCFmlRaceGiveUpTask"
  "op_TaskMsID (give_up_op r taken) = taken_TaskMsId taken"
  "op_PreemptFarm (give_up_op r taken)"
  by (simp_all add: pool_sync_op_def enter_op_def raceFinishOperation_def give_up_op_def)

lemma take_op_fields [simp]:
  "op_Kind (take_op r t) = RPCFmlRaceTakeTask" "op_TaskMsID (take_op r t) = task_MsId t"
  "op_RaceTaskGuard (take_op r t) = Some (newRaceTaskMutationGuard t False)"
  "op_PreemptFarm (take_op r t)"
  by (simp_all add: take_op_def domainOp_fields)

lemma score_sync_kind:
  "raceUsrRankScoreSyncOp view now = Some op \<Longrightarrow> op_Kind op = RPCFmlRaceGetFmlRaceUsrRankList"
  by (auto simp: raceUsrRankScoreSyncOp_def Let_def split: if_splits)

lemma position_stage_kind:
  "race_position_stage p build now = Some ops \<Longrightarrow> op \<in> set ops \<Longrightarrow> op_Kind op = RPCFmlEnter"
  by (auto simp: race_position_stage_def split: if_splits)

lemma enter_stage_kind:
  "race_enter_stage s view now = Some ops \<Longrightarrow> op \<in> set ops \<Longrightarrow> op_Kind op = RPCFmlRaceEnter"
  by (auto simp: race_enter_stage_def split: if_splits)

lemma enter_stage_None:
  "race_enter_stage s view now = None \<Longrightarrow> rv_Observed view \<and> rv_BatchActive view"
  by (auto simp: race_enter_stage_def split: if_splits)

lemma session_stage_kind:
  "race_session_stage cat s p view now = Some ops \<Longrightarrow> op \<in> set ops \<Longrightarrow>
     op_Kind op = RPCFmlRaceGetTaskList \<or> op_Kind op = RPCFmlRaceGetFmlRaceUsrRankList \<or>
     op = raceFinishOperation (rv_Taken view) \<and> rp_AutoEnableModules p \<and>
       taken_HasTask (rv_Taken view) \<and> held_complete (rv_Taken view)"
  by (auto simp: race_session_stage_def Let_def split: if_splits)

lemma session_stage_None:
  "race_session_stage cat s p view now = None \<Longrightarrow>
     \<not> raceExpiredHoldNeedsSync s now \<and>
     \<not> (rp_AutoEnableModules p \<and> taken_HasTask (rv_Taken view) \<and> held_complete (rv_Taken view))"
  by (auto simp: race_session_stage_def Let_def split: if_splits)

lemma pool_stage_kind:
  "race_pool_stage view gates now = Some ops \<Longrightarrow> op \<in> set ops \<Longrightarrow> op_Kind op = RPCFmlRaceGetTaskList"
  by (auto simp: race_pool_stage_def Let_def split: if_splits)

lemma pool_stage_None:
  "race_pool_stage view gates now = None \<Longrightarrow> rv_BatchActive view \<Longrightarrow>
     rv_TasksObserved view \<and> \<not> rv_TaskPoolStale view"
  by (auto simp: race_pool_stage_def Let_def split: if_splits)

lemma give_up_stage_kind:
  "race_give_up_stage s p view gates = Some ops \<Longrightarrow> op \<in> set ops \<Longrightarrow>
     taken_HasTask (rv_Taken view) \<and> \<not> held_complete (rv_Taken view) \<and>
     raceTakenAbandonReason s p view gates \<noteq> [] \<and>
     op = give_up_op (raceTakenAbandonReason s p view gates) (rv_Taken view)"
  by (auto simp: race_give_up_stage_def held_complete_def Let_def split: if_splits)

lemma progress_stage_kind:
  "race_progress_stage view gates now = Some ops \<Longrightarrow> op \<in> set ops \<Longrightarrow> op_Kind op = RPCFmlRaceGetTaskList"
  by (auto simp: race_progress_stage_def Let_def split: if_splits)

lemma delete_ops_kind:
  assumes "op \<in> set (raceLowScoreDeleteOperations cat s view p goal now)"
  shows "op_Kind op = RPCFmlRaceDelTask \<and> rp_DeleteLowScoreTask p"
proof -
  have "op_Kind (block_delete r x) = op_Kind x" for r x by (simp add: block_delete_def)
  with assms show ?thesis
    by (auto simp: raceLowScoreDeleteOperations_def delete_op_fields split: if_splits list.splits option.splits)
qed

lemma upgrade_ops_kind:
  assumes "op \<in> set (raceUpgradeOperations cat view p goal now)"
  shows "op_Kind op = RPCFmlRaceUpgradeTask \<and> rp_UpgradeTask p \<and> taken_HasTask (rv_Taken view)"
  by (rule raceUpgradeOperations_mem [OF assms]) (simp add: price_upgrade_fields upgrade_op_fields)

lemma manual_stage_kind:
  assumes "race_manual_stage cat s p view now = Some ops" "op \<in> set ops"
  shows "op_Kind op = RPCFmlRaceGetTaskList \<or> op_Kind op = RPCFmlRaceGetFmlRaceUsrRankList \<or>
     op_Kind op = RPCFmlRaceDelTask \<and> rp_DeleteLowScoreTask p \<or>
     op_Kind op = RPCFmlRaceUpgradeTask \<and> rp_UpgradeTask p \<and> taken_HasTask (rv_Taken view)"
  using assms delete_ops_kind upgrade_ops_kind score_sync_kind
  by (auto simp: race_manual_stage_def split: if_splits option.splits)

lemma mem_if_list: "x \<in> set (if c then xs else []) \<longleftrightarrow> c \<and> x \<in> set xs"
  by simp

lemma mem_single: "x \<in> set [y] \<longleftrightarrow> x = y"
  by simp

lemma mem_head:
  "x \<in> set (case xs of [] \<Rightarrow> [] | b # r \<Rightarrow> [f b]) \<longleftrightarrow> (\<exists>b r. xs = b # r \<and> x = f b)"
  by (cases xs) simp_all

lemma take_ops_mem:
  "op \<in> set (race_take_ops cat s p view uid now gates) \<Longrightarrow>
     op = raceFinishOperation (rv_Taken view) \<and> taken_HasTask (rv_Taken view) \<and> held_complete (rv_Taken view) \<or>
     (\<exists>best others. selectRaceTasks s (rv_Tasks view) p uid now gates = best # others \<and>
        op = take_op lit_race_take best \<and> \<not> taken_HasTask (rv_Taken view) \<and>
        \<not> rv_TakeQuotaExhausted view \<and> \<not> raceTaskQuotaDone cat s view p)"
  unfolding race_take_ops_def set_append Un_iff mem_if_list mem_single mem_head by blast

lemma auto_stage_mem:
  assumes "op \<in> set (race_auto_stage cat s p view uid now gates)"
  shows "op \<in> set (race_take_ops cat s p view uid now gates) \<or>
     op_Kind op = RPCFmlRaceGetTaskList \<or> op_Kind op = RPCFmlRaceGetFmlRaceUsrRankList \<or>
     op_Kind op = RPCFmlRaceDelTask \<and> rp_DeleteLowScoreTask p \<or>
     op_Kind op = RPCFmlRaceUpgradeTask \<and> rp_UpgradeTask p \<and> taken_HasTask (rv_Taken view)"
proof -
  from assms have "op \<in> set (race_take_ops cat s p view uid now gates) \<or>
      op = urgent (pool_sync_op lit_race_sync_ttl 4398) \<or>
      op \<in> set (raceUpgradeOperations cat view p race_goal now) \<or>
      op \<in> set (raceLowScoreDeleteOperations cat s view p race_goal now) \<or>
      raceUsrRankScoreSyncOp view now = Some op"
    unfolding race_auto_stage_def Let_def by (auto split: if_splits option.splits)
  then show ?thesis
  proof (elim disjE)
    assume "op = urgent (pool_sync_op lit_race_sync_ttl 4398)"
    then have "op_Kind op = RPCFmlRaceGetTaskList" by (simp only: urgent_fields built_kinds)
    then show ?thesis by blast
  next
    assume "op \<in> set (raceUpgradeOperations cat view p race_goal now)"
    then show ?thesis using upgrade_ops_kind by blast
  next
    assume "op \<in> set (raceLowScoreDeleteOperations cat s view p race_goal now)"
    then show ?thesis using delete_ops_kind by blast
  next
    assume "raceUsrRankScoreSyncOp view now = Some op"
    then show ?thesis using score_sync_kind by blast
  qed blast
qed

text \<open>The stage an operation comes from.\<close>

inductive planned_by ::
  "race_catalog \<Rightarrow> game_state \<Rightarrow> race_policy \<Rightarrow> int \<Rightarrow> time \<Rightarrow> race_module_gates \<Rightarrow> planned_op \<Rightarrow> bool"
  for cat s p uid now gates op where
  position: "race_position_stage p (FmlBuild s) now = Some ops \<Longrightarrow> op \<in> set ops \<Longrightarrow>
    planned_by cat s p uid now gates op"
| enter: "race_enter_stage s (active_view s now) now = Some ops \<Longrightarrow> op \<in> set ops \<Longrightarrow>
    planned_by cat s p uid now gates op"
| session: "race_enter_stage s (active_view s now) now = None \<Longrightarrow>
    race_session_stage cat s p (active_view s now) now = Some ops \<Longrightarrow> op \<in> set ops \<Longrightarrow>
    planned_by cat s p uid now gates op"
| pool: "race_pool_stage (active_view s now) gates now = Some ops \<Longrightarrow> op \<in> set ops \<Longrightarrow>
    planned_by cat s p uid now gates op"
| later: "race_enter_stage s (active_view s now) now = None \<Longrightarrow>
    race_session_stage cat s p (active_view s now) now = None \<Longrightarrow>
    race_pool_stage (active_view s now) gates now = None \<Longrightarrow>
    race_give_up_stage s p (active_view s now) gates = Some ops \<and> op \<in> set ops \<or>
    race_manual_stage cat s p (active_view s now) now = Some ops \<and> op \<in> set ops \<or>
    race_progress_stage (active_view s now) gates now = Some ops \<and> op \<in> set ops \<or>
    race_manual_stage cat s p (active_view s now) now = None \<and>
      op \<in> set (race_auto_stage cat s p (active_view s now) uid now gates) \<Longrightarrow>
    planned_by cat s p uid now gates op"

lemma unionRaceOperations_planned_by:
  assumes "op \<in> set (unionRaceOperations cat s (Some p) uid now gates)"
  shows "rp_Enabled p \<and> bv_MembershipObserved (FmlBuild s) \<and> 0 < bv_MemberFmlID (FmlBuild s) \<and>
         planned_by cat s p uid now gates op"
proof -
  have pre: "rp_Enabled p" "bv_MembershipObserved (FmlBuild s)" "0 < bv_MemberFmlID (FmlBuild s)"
    using assms by (auto simp: unionRaceOperations_def Let_def not_le split: if_splits)
  then have op: "op \<in> set (first_stage
                [race_position_stage p (FmlBuild s) now,
                 race_enter_stage s (active_view s now) now,
                 race_session_stage cat s p (active_view s now) now,
                 race_pool_stage (active_view s now) gates now,
                 race_give_up_stage s p (active_view s now) gates,
                 race_manual_stage cat s p (active_view s now) now,
                 race_progress_stage (active_view s now) gates now]
                (race_auto_stage cat s p (active_view s now) uid now gates))"
    using assms by (simp add: unionRaceOperations_def Let_def not_le)
  have "planned_by cat s p uid now gates op"
  proof (cases "race_position_stage p (FmlBuild s) now")
    case (Some ops)
    with op show ?thesis by (intro planned_by.position [OF Some]) simp
  next
    case 1: None
    show ?thesis
    proof (cases "race_enter_stage s (active_view s now) now")
      case (Some ops)
      with op 1 show ?thesis by (intro planned_by.enter [OF Some]) simp
    next
      case 2: None
      show ?thesis
      proof (cases "race_session_stage cat s p (active_view s now) now")
        case (Some ops)
        with op 1 2 show ?thesis by (intro planned_by.session [OF 2 Some]) simp
      next
        case 3: None
        show ?thesis
        proof (cases "race_pool_stage (active_view s now) gates now")
          case (Some ops)
          with op 1 2 3 show ?thesis by (intro planned_by.pool [OF Some]) simp
        next
          case 4: None
          show ?thesis
            using op 1 2 3 4 planned_by.later [OF 2 3 4]
            by (cases "race_give_up_stage s p (active_view s now) gates";
                cases "race_manual_stage cat s p (active_view s now) now";
                cases "race_progress_stage (active_view s now) gates now") auto
        qed
      qed
    qed
  qed
  with pre show ?thesis by blast
qed

section \<open>What the planner promises\<close>

lemma active_view_simps [simp]:
  "rv_Observed (active_view s now) = rv_Observed (FmlRace s)"
  "rv_TasksObserved (active_view s now) = rv_TasksObserved (FmlRace s)"
  "rv_TaskPoolStale (active_view s now) = rv_TaskPoolStale (FmlRace s)"
  "rv_BatchActive (active_view s now) = ActiveAt (FmlRace s) now"
  "rv_Tasks (active_view s now) = rv_Tasks (FmlRace s)"
  "rv_Taken (active_view s now) = rv_Taken (FmlRaceAt s now)"
  "rv_BatchID (active_view s now) = rv_BatchID (FmlRace s)"
  "rv_TakeQuotaExhausted (active_view s now) = rv_TakeQuotaExhausted (FmlRace s)"
  "raceTaskQuotaDone cat s (active_view s now) p = raceTaskQuotaDone cat s (FmlRace s) p"
  by (simp_all add: active_view_def Let_def FmlRaceAt_def)

lemma stages_passed:
  assumes "race_enter_stage s (active_view s now) now = None"
    and "race_session_stage cat s p (active_view s now) now = None"
    and "race_pool_stage (active_view s now) gates now = None"
  shows "pool_ready (FmlRace s) now \<and> \<not> raceExpiredHoldNeedsSync s now"
  using enter_stage_None [OF assms(1)] session_stage_None [OF assms(2)] pool_stage_None [OF assms(3)]
  by (simp add: pool_ready_def)

definition sync_kind :: "string \<Rightarrow> bool" where
  "sync_kind k \<longleftrightarrow> k = RPCFmlEnter \<or> k = RPCFmlRaceEnter \<or> k = RPCFmlRaceGetTaskList \<or>
     k = RPCFmlRaceGetFmlRaceUsrRankList"

text \<open>What justifies an operation that is not a read.\<close>

definition justified ::
  "race_catalog \<Rightarrow> game_state \<Rightarrow> race_policy \<Rightarrow> int \<Rightarrow> time \<Rightarrow> race_module_gates \<Rightarrow> planned_op \<Rightarrow> bool" where
  "justified cat s p uid now gates op \<longleftrightarrow>
     op = raceFinishOperation (rv_Taken (FmlRaceAt s now)) \<and> rp_AutoEnableModules p \<and>
       taken_HasTask (rv_Taken (FmlRaceAt s now)) \<and> held_complete (rv_Taken (FmlRaceAt s now)) \<or>
     pool_ready (FmlRace s) now \<and> \<not> raceExpiredHoldNeedsSync s now \<and>
     (op_Kind op = RPCFmlRaceGiveUpTask \<and> taken_HasTask (rv_Taken (FmlRaceAt s now)) \<and>
        op_TaskMsID op = taken_TaskMsId (rv_Taken (FmlRaceAt s now)) \<and>
        \<not> held_complete (rv_Taken (FmlRaceAt s now)) \<and> rp_AutoGiveUpTask p \<or>
      op_Kind op = RPCFmlRaceDelTask \<and> rp_DeleteLowScoreTask p \<or>
      op_Kind op = RPCFmlRaceUpgradeTask \<and> rp_UpgradeTask p \<and>
        taken_HasTask (rv_Taken (FmlRaceAt s now)) \<or>
      rp_AutoEnableModules p \<and> take_planned cat s p now \<and>
        (\<exists>best others. selectRaceTasks s (rv_Tasks (FmlRace s)) p uid now gates = best # others \<and>
           op = take_op lit_race_take best))"

lemma abandon_authorised:
  "raceTakenAbandonReason s p view gates \<noteq> [] \<Longrightarrow> rp_AutoGiveUpTask p"
  by (auto simp: raceTakenAbandonReason_def Let_def split: if_splits)

lemma sync_kinds:
  "sync_kind RPCFmlEnter" "sync_kind RPCFmlRaceEnter" "sync_kind RPCFmlRaceGetTaskList"
  "sync_kind RPCFmlRaceGetFmlRaceUsrRankList"
  by (simp_all add: sync_kind_def)

lemma justified_finish:
  assumes "op = raceFinishOperation (rv_Taken (FmlRaceAt s now))" "rp_AutoEnableModules p"
    and "taken_HasTask (rv_Taken (FmlRaceAt s now))" "held_complete (rv_Taken (FmlRaceAt s now))"
  shows "justified cat s p uid now gates op"
  unfolding justified_def by (rule disjI1) (use assms in simp)

lemma justified_give_up:
  assumes "pool_ready (FmlRace s) now" "\<not> raceExpiredHoldNeedsSync s now"
    and "op = give_up_op reason (rv_Taken (FmlRaceAt s now))" "rp_AutoGiveUpTask p"
    and "taken_HasTask (rv_Taken (FmlRaceAt s now))" "\<not> held_complete (rv_Taken (FmlRaceAt s now))"
  shows "justified cat s p uid now gates op"
  unfolding justified_def by (rule disjI2) (use assms in simp)

lemma justified_delete:
  assumes "pool_ready (FmlRace s) now" "\<not> raceExpiredHoldNeedsSync s now"
    and "op_Kind op = RPCFmlRaceDelTask" "rp_DeleteLowScoreTask p"
  shows "justified cat s p uid now gates op"
  unfolding justified_def by (rule disjI2) (use assms in simp)

lemma justified_upgrade:
  assumes "pool_ready (FmlRace s) now" "\<not> raceExpiredHoldNeedsSync s now"
    and "op_Kind op = RPCFmlRaceUpgradeTask" "rp_UpgradeTask p"
    and "taken_HasTask (rv_Taken (FmlRaceAt s now))"
  shows "justified cat s p uid now gates op"
  unfolding justified_def by (rule disjI2) (use assms in simp)

lemma justified_take:
  assumes "pool_ready (FmlRace s) now" "\<not> raceExpiredHoldNeedsSync s now"
    and "rp_AutoEnableModules p" "take_planned cat s p now"
    and "selectRaceTasks s (rv_Tasks (FmlRace s)) p uid now gates = best # others"
    and "op = take_op lit_race_take best"
  shows "justified cat s p uid now gates op"
  unfolding justified_def by (rule disjI2) (use assms in simp)

lemma planned_by_justified:
  assumes "planned_by cat s p uid now gates op"
  shows "sync_kind (op_Kind op) \<or> justified cat s p uid now gates op"
  using assms
proof cases
  case (position ops)
  then show ?thesis using position_stage_kind sync_kinds(1) by metis
next
  case (enter ops)
  then show ?thesis using enter_stage_kind sync_kinds(2) by metis
next
  case (session ops)
  from session_stage_kind [OF session(2,3)] show ?thesis
  proof (elim disjE conjE)
    assume "op = raceFinishOperation (rv_Taken (active_view s now))" "rp_AutoEnableModules p"
      "taken_HasTask (rv_Taken (active_view s now))" "held_complete (rv_Taken (active_view s now))"
    then have "justified cat s p uid now gates op"
      unfolding active_view_simps by (intro justified_finish)
    then show ?thesis ..
  qed (simp_all only: sync_kinds simp_thms)
next
  case (pool ops)
  then show ?thesis using pool_stage_kind sync_kinds(3) by metis
next
  case (later ops)
  have ready: "pool_ready (FmlRace s) now" "\<not> raceExpiredHoldNeedsSync s now"
    using stages_passed [OF later(1-3)] by simp_all
  from later(4) show ?thesis
  proof (elim disjE conjE)
    assume "race_give_up_stage s p (active_view s now) gates = Some ops" "op \<in> set ops"
    from give_up_stage_kind [OF this] have "justified cat s p uid now gates op"
      unfolding active_view_simps using ready abandon_authorised by (intro justified_give_up) auto
    then show ?thesis ..
  next
    assume "race_manual_stage cat s p (active_view s now) now = Some ops" "op \<in> set ops"
    from manual_stage_kind [OF this] show ?thesis
      unfolding active_view_simps
      by (elim disjE conjE) (simp_all only: sync_kinds simp_thms justified_delete [OF ready]
          justified_upgrade [OF ready])
  next
    assume "race_progress_stage (active_view s now) gates now = Some ops" "op \<in> set ops"
    then show ?thesis using progress_stage_kind sync_kinds(3) by metis
  next
    assume man: "race_manual_stage cat s p (active_view s now) now = None"
      and op: "op \<in> set (race_auto_stage cat s p (active_view s now) uid now gates)"
    have auto: "rp_AutoEnableModules p"
      using man unfolding race_manual_stage_def by (simp split: if_split_asm)
    have take: "take_planned cat s p now"
      if "\<not> taken_HasTask (rv_Taken (FmlRaceAt s now))" "\<not> rv_TakeQuotaExhausted (FmlRace s)"
        "\<not> raceTaskQuotaDone cat s (FmlRace s) p"
      using ready that unfolding take_planned_iff pool_ready_def FmlRaceAt_def by blast
    from auto_stage_mem [OF op] show ?thesis
      unfolding active_view_simps
    proof (elim disjE conjE)
      assume "op \<in> set (race_take_ops cat s p (active_view s now) uid now gates)"
      from take_ops_mem [OF this] have "justified cat s p uid now gates op"
        unfolding active_view_simps using auto take
        by (elim disjE conjE exE) (blast intro: justified_finish justified_take [OF ready])+
      then show ?thesis ..
    qed (simp_all only: sync_kinds simp_thms justified_delete [OF ready] justified_upgrade [OF ready])
  qed
qed

text \<open>
  C4.  The race component never acts on guesses: it plans nothing before
  the account is known to be in a guild; everything it plans is a read, the submission of a
  completed held task, or a give-up, deletion, upgrade or take that its own switch authorises, and
  those four only over a running batch whose task pool has been observed and is not stale.
\<close>

theorem race_mutations_justified:
  assumes "op \<in> set (unionRaceOperations cat s (Some p) uid now gates)"
  shows "rp_Enabled p \<and> bv_MembershipObserved (FmlBuild s) \<and> 0 < bv_MemberFmlID (FmlBuild s) \<and>
         (sync_kind (op_Kind op) \<or> justified cat s p uid now gates op)"
  using unionRaceOperations_planned_by [OF assms] planned_by_justified by blast

theorem race_mutations_justified_witness:
  "let s = racing [sample_task] zero_taken; gates = raceModuleGatesFromPolicy sample_policy
   in take_op lit_race_take sample_task \<in>
        set (unionRaceOperations sample_catalog s (Some sample_race_policy) 9 (2 * second) gates) \<and>
      (sync_kind (op_Kind (take_op lit_race_take sample_task)) \<or>
       justified sample_catalog s sample_race_policy 9 (2 * second) gates (take_op lit_race_take sample_task))"
proof -
  let ?s = "racing [sample_task] zero_taken" and ?g = "raceModuleGatesFromPolicy sample_policy"
  have "take_op lit_race_take sample_task \<in>
      set (unionRaceOperations sample_catalog ?s (Some sample_race_policy) 9 (2 * second) ?g)"
    by code_simp
  from race_mutations_justified [OF this] this show ?thesis by (simp add: Let_def)
qed

lemma take_is_not_sync [simp]: "\<not> sync_kind RPCFmlRaceTakeTask"
  by (simp add: sync_kind_def)

lemma planned_take:
  assumes "justified cat s p uid now gates op" "op_Kind op = RPCFmlRaceTakeTask"
  shows "\<exists>best others. selectRaceTasks s (rv_Tasks (FmlRace s)) p uid now gates = best # others \<and>
     op = take_op lit_race_take best \<and> take_planned cat s p now \<and> pool_ready (FmlRace s) now \<and>
     \<not> raceExpiredHoldNeedsSync s now"
  using assms unfolding justified_def by (elim disjE conjE exE) simp_all

text \<open>
  C5.  A take the planner emits passes the runner's last check when nothing has
  changed since: with the role and the module switches of the account, and task ids positive and
  distinct, \<open>ValidateRaceTaskMutation\<close> accepts it.
\<close>

theorem planned_take_is_sent:
  assumes "op \<in> set (unionRaceOperations cat s (Some race) (gs_roleID s) now (raceModuleGatesFromPolicy p))"
    and "op_Kind op = RPCFmlRaceTakeTask" "pol_Race p = Some race"
    and "distinct (map task_MsId (rv_Tasks (FmlRace s)))"
    and "list_all (\<lambda>t. 0 < task_MsId t) (rv_Tasks (FmlRace s))"
  shows "snd (ValidateRaceTaskMutation cat (Some s) (Some p) (Some op) now) = None"
proof -
  let ?gates = "raceModuleGatesFromPolicy p"
  from unionRaceOperations_planned_by [OF assms(1)] have en: "rp_Enabled race"
    and "planned_by cat s race (gs_roleID s) now ?gates op" by blast+
  with planned_by_justified assms(2) take_is_not_sync
  have "justified cat s race (gs_roleID s) now ?gates op" by metis
  from planned_take [OF this assms(2)] obtain best others where
    sel: "selectRaceTasks s (rv_Tasks (FmlRace s)) race (gs_roleID s) now ?gates = best # others"
    and op: "op = take_op lit_race_take best" and plan: "take_planned cat s race now"
    and ready: "pool_ready (FmlRace s) now" "\<not> raceExpiredHoldNeedsSync s now" by blast
  have best: "best \<in> set (rv_Tasks (FmlRace s))"
    "RaceTakeSkipReason s best race (gs_roleID s) now ?gates = None"
    using set_selectRaceTasks [of s "rv_Tasks (FmlRace s)" race "gs_roleID s" now ?gates] sel by auto
  then have find: "raceTaskByMsID (rv_Tasks (FmlRace s)) (task_MsId best) = Some best"
    by (intro raceTaskByMsID_distinct assms(4))
  have "0 < task_MsId best" using best(1) assms(5) by (simp add: list_all_iff)
  then have take: "raceTakeTaskForOperation cat (Some s) (Some p) (task_MsId best) now = Inr best"
    unfolding raceTakeTaskForOperation_iff
    using en plan ready best(2) find assms(3) by (simp add: pool_ready_def)
  have facts: "guard_Planned (newRaceTaskMutationGuard best False) = raceTaskMutationFacts best"
    by (simp add: newRaceTaskMutationGuard_def)
  show ?thesis
    by (simp add: ValidateRaceTaskMutation_def op Let_def FmlRaceAt_def find facts take)
qed

theorem planned_take_is_sent_witness:
  "snd (ValidateRaceTaskMutation sample_catalog (Some (racing [sample_task] zero_taken)) (Some sample_policy)
     (Some (take_op lit_race_take sample_task)) (2 * second)) = None"
proof -
  let ?s = "racing [sample_task] zero_taken"
  have 1: "take_op lit_race_take sample_task \<in>
      set (unionRaceOperations sample_catalog ?s (Some sample_race_policy) (gs_roleID ?s) (2 * second)
        (raceModuleGatesFromPolicy sample_policy))" by code_simp
  have 2: "op_Kind (take_op lit_race_take sample_task) = RPCFmlRaceTakeTask"
    "pol_Race sample_policy = Some sample_race_policy"
    "distinct (map task_MsId (rv_Tasks (FmlRace ?s)))"
    "list_all (\<lambda>t. 0 < task_MsId t) (rv_Tasks (FmlRace ?s))" by code_simp+
  show ?thesis by (rule planned_take_is_sent [OF 1 2])
qed

section \<open>Giving up\<close>

lemma give_up_texts [simp]:
  "lit_race_give_up_score \<noteq> []" "lit_race_give_up_cultivate \<noteq> []" "lit_race_give_up_customer \<noteq> []"
  "lit_race_give_up_pearl \<noteq> []" "lit_race_give_up_craft \<noteq> []" "lit_race_give_up_plant \<noteq> []"
  "lit_race_give_up_priority \<noteq> []" "lit_race_give_up_gone \<noteq> []"
  by (simp_all add: lit_race_give_up_score_def lit_race_give_up_cultivate_def
      lit_race_give_up_customer_def lit_race_give_up_pearl_def lit_race_give_up_craft_def
      lit_race_give_up_plant_def lit_race_give_up_priority_def lit_race_give_up_gone_def)

lemma uncompletable_reason_nonempty [simp]: "uncompletable_reason k \<noteq> []"
  by (simp add: uncompletable_reason_def)

text \<open>
  When a held task is given up: only with the explicit switch, never for a
  36-point cultivation task, and then exactly when its known score is at or below the threshold, it
  is a cultivation task of another known score, automation cannot complete it, its type has
  priority zero, or it has no progress and is gone from an observed pool.  With progress, only the
  first four reasons count.
\<close>

lemma give_up_exact:
  "raceTakenAbandonReason s p view gates \<noteq> [] \<longleftrightarrow>
     rp_AutoGiveUpTask p \<and> taken_HasTask (rv_Taken view) \<and>
     \<not> (held_type (rv_Taken view) = raceTaskTypeFlowerCultivate \<and> raceTakenScore view = 36) \<and>
     (0 < raceTakenScore view \<and> raceTakenScore view \<le> rp_MinTaskScore p \<or>
      held_type (rv_Taken view) = raceTaskTypeFlowerCultivate \<and> 0 < raceTakenScore view \<or>
      raceTakenUncompletable s (rv_Taken view) gates \<or>
      raceTaskTypePriority p (held_type (rv_Taken view)) \<le> 0 \<or>
      taken_FinishCnt (rv_Taken view) \<le> 0 \<and> rv_TasksObserved view \<and>
        (\<forall>t \<in> set (rv_Tasks view). task_MsId t \<noteq> taken_TaskMsId (rv_Taken view)))"
proof -
  have gone: "raceTaskByMsID (rv_Tasks view) m = None \<longleftrightarrow> (\<forall>t \<in> set (rv_Tasks view). task_MsId t \<noteq> m)"
    for m by (auto simp: raceTaskByMsID_def find_None_iff)
  show ?thesis
    unfolding raceTakenAbandonReason_def Let_def raceTakenPriorityZero_def gone [symmetric]
    by (simp add: not_le) linarith
qed

text \<open>A held customer order whose module has been switched off is given up.\<close>

section \<open>Operations tied to a held task\<close>

text \<open>The situation an operation was tied to still stands.\<close>

definition same_hold :: "game_state \<Rightarrow> time \<Rightarrow> game_state \<Rightarrow> time \<Rightarrow> bool" where
  "same_hold s now s' now' \<longleftrightarrow>
     ActiveAt (FmlRace s') now' \<and> taken_HasTask (rv_Taken (FmlRaceAt s' now')) \<and>
     taken_TaskMsId (rv_Taken (FmlRaceAt s' now')) = taken_TaskMsId (rv_Taken (FmlRaceAt s now)) \<and>
     rv_BatchID (FmlRace s') = rv_BatchID (FmlRace s)"

lemma ValidateRaceHeldOperation_None:
  "ValidateRaceHeldOperation s (Some op) now = None \<longleftrightarrow>
     op_RaceHoldTaskMsID op = 0 \<or>
     ActiveAt (FmlRace s) now \<and> taken_HasTask (rv_Taken (FmlRaceAt s now)) \<and>
     taken_TaskMsId (rv_Taken (FmlRaceAt s now)) = op_RaceHoldTaskMsID op \<and>
     rv_BatchID (FmlRace s) = op_RaceBatchID op"
proof -
  obtain v where v: "v = FmlRaceAt s now" by simp
  have "ActiveAt v now = ActiveAt (FmlRace s) now" "rv_BatchID v = rv_BatchID (FmlRace s)"
    by (simp_all add: v FmlRaceAt_def)
  then show ?thesis
    by (simp add: ValidateRaceHeldOperation_def Let_def v [symmetric])
qed

lemma expired_not_held:
  "0 < taken_ExpireTime (rv_Taken (FmlRace s)) \<Longrightarrow>
     taken_ExpireTime (rv_Taken (FmlRace s)) \<le> to_unix_milli now \<Longrightarrow>
     \<not> taken_HasTask (rv_Taken (FmlRaceAt s now))"
  by (simp add: FmlRaceAt_def ExpiredAt_def)

text \<open>
  While a task is held, every planned operation of the race
  other than its reads, takes and deletions is tied to that task: later, in whatever state, it may
  be sent exactly while the batch is running and the same task of the same batch is still held, and
  so never after the task's deadline.
\<close>

lemma held_operations_die_with_the_hold:
  assumes "taken_HasTask (rv_Taken (FmlRaceAt s now))" "taken_TaskMsId (rv_Taken (FmlRaceAt s now)) \<noteq> 0"
    and "op \<in> set ops" "op_GoalID op = raceActionGoal" "\<not> unguarded_kind (op_Kind op)"
  shows "\<exists>op' \<in> set (guardRaceHeldOperations s p ops now).
     op' = op\<lparr>op_RaceHoldTaskMsID := op_RaceHoldTaskMsID op', op_RaceBatchID := op_RaceBatchID op'\<rparr> \<and>
     (\<forall>s' now'. (ValidateRaceHeldOperation s' (Some op') now' = None \<longleftrightarrow> same_hold s now s' now') \<and>
        (0 < taken_ExpireTime (rv_Taken (FmlRace s')) \<and>
         taken_ExpireTime (rv_Taken (FmlRace s')) \<le> to_unix_milli now' \<longrightarrow>
           ValidateRaceHeldOperation s' (Some op') now' \<noteq> None))"
proof -
  let ?v = "FmlRaceAt s now"
  let ?op = "op\<lparr>op_RaceHoldTaskMsID := taken_TaskMsId (rv_Taken ?v), op_RaceBatchID := rv_BatchID ?v\<rparr>"
  have batch: "rv_BatchID ?v = rv_BatchID (FmlRace s)" by (simp add: FmlRaceAt_def)
  have tied: "guard_held_op ?v d op = ?op" for d
    using assms(4,5) by (simp add: guard_held_op_def)
  have "guardRaceHeldOperations s p ops now =
      map (guard_held_op ?v (raceDrivesFarm (Some s) (Some p) now)) ops"
    using assms(1) by (simp add: guardRaceHeldOperations_def Let_def)
  then have mem: "?op \<in> set (guardRaceHeldOperations s p ops now)"
    using imageI [OF assms(3), of "guard_held_op ?v (raceDrivesFarm (Some s) (Some p) now)"]
    by (simp only: tied set_map)
  have valid: "ValidateRaceHeldOperation s' (Some ?op) now' = None \<longleftrightarrow> same_hold s now s' now'" for s' now'
    unfolding ValidateRaceHeldOperation_None same_hold_def batch using assms(2) by simp
  show ?thesis
    by (rule bexI [OF _ mem]) (use valid expired_not_held in \<open>auto simp: same_hold_def\<close>)
qed

text \<open>The finish planned for the held task is refused once the deadline has passed.\<close>

end
