(* ===== verification/Planting.thy ===== *)
theory Planting
  imports Garden RacePlan
begin

text \<open>
  Which flowers go into the empty lands (\<open>automation/farm.go\<close>): demands first, those of the guild
  race before all others, then replanting at will, which keeps the stocks level.  \<open>PlantableFlowers\<close>
  is from \<open>state/resources.go\<close>.  Stocks are \<open>int32\<close> counts of the server and are added up without
  wrapping; priorities come from the owner's policy and wrap as \<open>int32\<close>.
\<close>

section \<open>Flowers that can be planted\<close>

text \<open>The flower table of the catalogue.\<close>

record flower_catalog =
  fc_Gold :: "int \<Rightarrow> int"
  fc_Experience :: "int \<Rightarrow> int"
  fc_Color :: "int \<Rightarrow> int option"

record plantable_flower =
  pf_FlowerID :: int
  pf_Stock :: int
  pf_Lvl :: int
  pf_Gold :: int
  pf_Experience :: int

definition FlowerSeedLow :: int where "FlowerSeedLow = 23000"
definition FlowerSeedHigh :: int where "FlowerSeedHigh = 24000"

definition isFlowerItemID :: "int \<Rightarrow> bool" where
  "isFlowerItemID i \<longleftrightarrow> FlowerSeedLow \<le> i \<and> i < FlowerSeedHigh"

definition isPlantableCultivation :: "cultivation_view \<Rightarrow> bool" where
  "isPlantableCultivation cv \<longleftrightarrow> cv_Status cv = 2 \<and> 0 < cv_Lvl cv"

definition PlantableFlowers ::
  "flower_catalog \<Rightarrow> game_state \<Rightarrow> int list \<Rightarrow> int list \<Rightarrow> plantable_flower list" where
  "PlantableFlowers cat s allowed blocked =
     stable_sort (\<lambda>a b. pf_FlowerID a < pf_FlowerID b)
       (map (\<lambda>(i, cv). \<lparr>pf_FlowerID = i, pf_Stock = get_or 0 (gs_inventory s) i, pf_Lvl = cv_Lvl cv,
                        pf_Gold = fc_Gold cat i, pf_Experience = fc_Experience cat i\<rparr>)
         (filter (\<lambda>(i, cv). isPlantableCultivation cv \<and> isFlowerItemID i \<and>
                    (allowed \<noteq> [] \<longrightarrow> i \<in> set allowed) \<and> i \<notin> set blocked)
            (gs_cultivations s)))"

definition flowerQuality :: "flower_catalog \<Rightarrow> int \<Rightarrow> int" where
  "flowerQuality cat i = (case fc_Color cat i of None \<Rightarrow> 0 | Some c \<Rightarrow> c)"

section \<open>The owner's choice\<close>

datatype selection_mode =
  SelectionUnspecified | SelectionAll | SelectionQuality | SelectionSpecific | SelectionExclude

text \<open>A nil \<open>PlantingPolicy\<close> answers every getter with the zero value, as the zero record does.\<close>

record planting_policy =
  pp_AutoEnabled :: bool
  pp_AutoHarvestEnabled :: bool
  pp_MinWaterDrops :: int
  pp_UseSpeedUpTicket :: bool
  pp_SpeedUpTicketMax :: int
  pp_DemandPriorityEnabled :: bool
  pp_AutoReplantMode :: selection_mode
  pp_AutoReplantFlowerIds :: "int list"
  pp_AutoReplantExcludeFlowerIds :: "int list"
  pp_AutoReplantQualities :: "int list"
  pp_AutoReplantMinLevel :: int
  pp_HarvestDelaySeconds :: int

fun unique_positive :: "int list \<Rightarrow> int list \<Rightarrow> int list" where
  "unique_positive seen [] = []"
| "unique_positive seen (v # vs) =
     (if v \<le> 0 \<or> v \<in> set seen then unique_positive seen vs else v # unique_positive (v # seen) vs)"

definition uniquePositiveInt32s :: "int list \<Rightarrow> int list" where
  "uniquePositiveInt32s values = unique_positive [] values"

definition autoReplantFlowerFilters :: "planting_policy \<Rightarrow> int list \<times> int list" where
  "autoReplantFlowerFilters p =
     (case pp_AutoReplantMode p of
        SelectionSpecific \<Rightarrow> (uniquePositiveInt32s (pp_AutoReplantFlowerIds p), [])
      | SelectionExclude \<Rightarrow> ([], uniquePositiveInt32s (pp_AutoReplantExcludeFlowerIds p))
      | _ \<Rightarrow> ([], []))"

definition filterPlantableByAutoReplantQualities ::
  "flower_catalog \<Rightarrow> plantable_flower list \<Rightarrow> planting_policy \<Rightarrow> plantable_flower list" where
  "filterPlantableByAutoReplantQualities cat candidates p =
     (if pp_AutoReplantMode p = SelectionSpecific \<or> pp_AutoReplantMode p = SelectionExclude then candidates
      else
        let allowed = int32Set (pp_AutoReplantQualities p)
        in if allowed = {} then candidates
           else filter (\<lambda>c. flowerQuality cat (pf_FlowerID c) \<in> allowed) candidates)"

definition filterPlantableByAutoReplantMinLevel ::
  "plantable_flower list \<Rightarrow> planting_policy \<Rightarrow> plantable_flower list" where
  "filterPlantableByAutoReplantMinLevel candidates p =
     (if pp_AutoReplantMinLevel p \<le> 0 then candidates
      else filter (\<lambda>c. pp_AutoReplantMinLevel p \<le> pf_Lvl c) candidates)"

definition autoReplantUsesLowestStockBatch :: "selection_mode \<Rightarrow> bool" where
  "autoReplantUsesLowestStockBatch mode \<longleftrightarrow> mode \<noteq> SelectionSpecific"

text \<open>The flowers replanting may use.\<close>

definition replant_candidates :: "flower_catalog \<Rightarrow> game_state \<Rightarrow> planting_policy \<Rightarrow> plantable_flower list" where
  "replant_candidates cat s p =
     (case autoReplantFlowerFilters p of (allowed, blocked) \<Rightarrow>
        filterPlantableByAutoReplantMinLevel
          (filterPlantableByAutoReplantQualities cat (PlantableFlowers cat s allowed blocked) p) p)"

section \<open>Assignments\<close>

record plant_assignment =
  pa_FlowerID :: int
  pa_Count :: int
  pa_Priority :: int
  pa_GoalID :: string
  pa_DemandID :: string
  pa_Reason :: string

definition defaultDemandPriority :: "(string, int) gomap" where
  "defaultDemandPriority =
     [(GoalCustomerOrder, 90), (GoalResidentOrder, 80), (GoalMainTask, 70), (GoalDailyTask, 60),
      (GoalWeeklyTask, 55), (GoalFlowerArt, 40), (GoalAutoReplant, 10)]"

definition priorityFor :: "(string, int) gomap \<Rightarrow> string \<Rightarrow> int" where
  "priorityFor priorities i =
     (let v = get_or 0 priorities i in if v \<noteq> 0 then v else get_or 0 defaultDemandPriority i)"

definition autoReplantAssignment :: "int \<Rightarrow> int \<Rightarrow> plant_assignment" where
  "autoReplantAssignment flowerID n =
     \<lparr>pa_FlowerID = flowerID, pa_Count = n,
      pa_Priority = priorityFor defaultDemandPriority GoalAutoReplant * 100 + 100,
      pa_GoalID = GoalAutoReplant, pa_DemandID = [], pa_Reason = lit_auto_replant\<rparr>"

definition stock_before :: "plantable_flower \<Rightarrow> plantable_flower \<Rightarrow> bool" where
  "stock_before a b \<longleftrightarrow>
     (if pf_Stock a \<noteq> pf_Stock b then pf_Stock a < pf_Stock b else pf_FlowerID a < pf_FlowerID b)"

definition sortPlantableByStock :: "plantable_flower list \<Rightarrow> plantable_flower list" where
  "sortPlantableByStock cs = stable_sort stock_before cs"

definition autoReplantBatchSize :: int where "autoReplantBatchSize = 4"

text \<open>
  A step of at most four lands for the flower of least stock, then the stocks are ranked again.
  The caller has ruled out that there is no candidate.
\<close>

function replant_batches :: "plantable_flower list \<Rightarrow> int \<Rightarrow> plant_assignment list" where
  "replant_batches cs remaining =
     (if remaining \<le> 0 then []
      else case sortPlantableByStock cs of
          [] \<Rightarrow> []
        | c # cs' \<Rightarrow>
            let n = (if remaining < autoReplantBatchSize then remaining else autoReplantBatchSize)
            in autoReplantAssignment (pf_FlowerID c) n #
               replant_batches (c\<lparr>pf_Stock := pf_Stock c + n\<rparr> # cs') (remaining - n))"
  by pat_completeness auto
termination
  by (relation "measure (\<lambda>(cs, remaining). nat remaining)") (auto simp: autoReplantBatchSize_def)

declare replant_batches.simps [simp del]

definition autoReplantLowestStockBatchAssignments ::
  "plantable_flower list \<Rightarrow> int \<Rightarrow> plant_assignment list" where
  "autoReplantLowestStockBatchAssignments cs limit = replant_batches cs limit"

definition raise_count :: "int \<Rightarrow> plantable_flower \<Rightarrow> int \<Rightarrow> int" where
  "raise_count nextStock c remaining =
     (let n = nextStock - pf_Stock c; n = (if n \<le> 0 then 1 else n)
      in if remaining < n then remaining else n)"

text \<open>One pass over the sorted candidates: those at the least stock are raised to the next level.\<close>

fun raise_level ::
  "int \<Rightarrow> int \<Rightarrow> plantable_flower list \<Rightarrow> int \<Rightarrow> plantable_flower list \<times> int \<times> plant_assignment list" where
  "raise_level minStock nextStock [] remaining = ([], remaining, [])"
| "raise_level minStock nextStock (c # cs) remaining =
     (if remaining \<le> 0 \<or> minStock < pf_Stock c then (c # cs, remaining, [])
      else
        let n = raise_count nextStock c remaining
        in case raise_level minStock nextStock cs (remaining - n) of (cs', remaining', out) \<Rightarrow>
             (c\<lparr>pf_Stock := pf_Stock c + n\<rparr> # cs', remaining', autoReplantAssignment (pf_FlowerID c) n # out))"

definition next_level :: "plantable_flower list \<Rightarrow> int" where
  "next_level cs =
     (case List.find (\<lambda>c. pf_Stock (hd cs) < pf_Stock c) cs of
        None \<Rightarrow> pf_Stock (hd cs) + 1 | Some c \<Rightarrow> pf_Stock c)"

lemma raise_level_decreases:
  "raise_level minStock nextStock cs remaining = (cs', remaining', out) \<Longrightarrow>
     remaining' \<le> remaining \<and> (out \<noteq> [] \<longrightarrow> remaining' < remaining)"
proof (induction cs arbitrary: remaining cs' remaining' out)
  case Nil
  then show ?case by simp
next
  case (Cons c cs)
  let ?n = "raise_count nextStock c remaining"
  obtain cs2 r2 out2 where r: "raise_level minStock nextStock cs (remaining - ?n) = (cs2, r2, out2)"
    by (metis prod_cases3)
  have "0 < remaining \<Longrightarrow> 0 < ?n" by (simp add: raise_count_def Let_def)
  then show ?case
    using Cons.prems r Cons.IH [OF r] by (auto simp: Let_def split: if_splits)
qed

function replant_levels :: "plantable_flower list \<Rightarrow> int \<Rightarrow> plant_assignment list" where
  "replant_levels cs remaining =
     (if remaining \<le> 0 then []
      else case raise_level (pf_Stock (hd cs)) (next_level cs) cs remaining of (cs', remaining', out) \<Rightarrow>
        if out = [] then [] else out @ replant_levels (sortPlantableByStock cs') remaining')"
  by pat_completeness auto
termination
  by (relation "measure (\<lambda>(cs, remaining). nat remaining)") (auto dest!: raise_level_decreases [OF sym])

declare replant_levels.simps [simp del]

definition autoReplantBalanceAssignments :: "plantable_flower list \<Rightarrow> int \<Rightarrow> plant_assignment list" where
  "autoReplantBalanceAssignments cs limit = replant_levels (sortPlantableByStock cs) limit"

definition autoReplantAssignments ::
  "plantable_flower list \<Rightarrow> int \<Rightarrow> selection_mode \<Rightarrow> plant_assignment list" where
  "autoReplantAssignments cs limit mode =
     (if cs = [] \<or> limit \<le> 0 then []
      else if autoReplantUsesLowestStockBatch mode then autoReplantLowestStockBatchAssignments cs limit
      else autoReplantBalanceAssignments cs limit)"


section \<open>Level stocks\<close>

interpretation stock: weak_order UNIV stock_before
  by unfold_locales (auto simp: stock_before_def split: if_splits)

definition stock_of :: "plantable_flower list \<Rightarrow> int \<Rightarrow> int" where
  "stock_of cs = get_or 0 (map (\<lambda>c. (pf_FlowerID c, pf_Stock c)) cs)"

definition flower_ids :: "plantable_flower list \<Rightarrow> int list" where
  "flower_ids cs = map pf_FlowerID cs"

definition planted :: "plant_assignment list \<Rightarrow> int" where
  "planted out = sum_list (map pa_Count out)"

text \<open>
  Assignments carried out one after the other: each goes to a flower whose stock is least at that
  moment, is at least one land, and keeps the strategy's bound.
\<close>

fun fills :: "((int \<Rightarrow> int) \<Rightarrow> plant_assignment \<Rightarrow> bool) \<Rightarrow> int list \<Rightarrow> (int \<Rightarrow> int) \<Rightarrow> plant_assignment list \<Rightarrow> bool" where
  "fills bound ids stock [] \<longleftrightarrow> True"
| "fills bound ids stock (a # out) \<longleftrightarrow>
     pa_FlowerID a \<in> set ids \<and> list_all (\<lambda>i. stock (pa_FlowerID a) \<le> stock i) ids \<and>
     0 < pa_Count a \<and> bound stock a \<and>
     fills bound ids (stock(pa_FlowerID a := stock (pa_FlowerID a) + pa_Count a)) out"

lemma planted_simps [simp]:
  "planted [] = 0" "planted (a # out) = pa_Count a + planted out" "planted (out @ out') = planted out + planted out'"
  by (simp_all add: planted_def)

lemma autoReplantAssignment_simps [simp]:
  "pa_FlowerID (autoReplantAssignment i n) = i" "pa_Count (autoReplantAssignment i n) = n"
  "pa_GoalID (autoReplantAssignment i n) = GoalAutoReplant" "pa_DemandID (autoReplantAssignment i n) = []"
  by (simp_all add: autoReplantAssignment_def)

lemma stock_of_Cons: "stock_of (c # cs) = (stock_of cs)(pf_FlowerID c := pf_Stock c)"
  by (auto simp: stock_of_def get_or_def)

lemma stock_of_perm:
  assumes "mset cs = mset cs'" "distinct (flower_ids cs)"
  shows "stock_of cs = stock_of cs'"
proof -
  let ?m = "map (\<lambda>c. (pf_FlowerID c, pf_Stock c))"
  have "mset (flower_ids cs) = mset (flower_ids cs')"
    unfolding flower_ids_def using assms(1) by (metis mset_map)
  from mset_eq_imp_distinct_iff [OF this]
  have "distinct (map fst (?m cs))" "distinct (map fst (?m cs'))"
    using assms(2) by (simp_all add: flower_ids_def comp_def)
  moreover have "set (?m cs) = set (?m cs')" using assms(1) by (metis mset_map set_mset_mset)
  ultimately have "map_of (?m cs) = map_of (?m cs')" by (simp add: map_of_inject_set)
  then show ?thesis by (simp add: stock_of_def get_or_def fun_eq_iff)
qed

lemma stock_of_member: "distinct (flower_ids cs) \<Longrightarrow> c \<in> set cs \<Longrightarrow> stock_of cs (pf_FlowerID c) = pf_Stock c"
  by (induction cs) (auto simp: stock_of_Cons flower_ids_def rev_image_eqI)

lemma sort_perm:
  "mset (sortPlantableByStock cs) = mset cs" "set (sortPlantableByStock cs) = set cs"
  "distinct (flower_ids (sortPlantableByStock cs)) \<longleftrightarrow> distinct (flower_ids cs)"
  "set (flower_ids (sortPlantableByStock cs)) = set (flower_ids cs)"
proof -
  show m: "mset (sortPlantableByStock cs) = mset cs" "set (sortPlantableByStock cs) = set cs"
    by (simp_all add: sortPlantableByStock_def)
  show "set (flower_ids (sortPlantableByStock cs)) = set (flower_ids cs)" by (simp add: flower_ids_def m)
  have "mset (flower_ids (sortPlantableByStock cs)) = mset (flower_ids cs)"
    unfolding flower_ids_def using m(1) by (metis mset_map)
  then show "distinct (flower_ids (sortPlantableByStock cs)) \<longleftrightarrow> distinct (flower_ids cs)"
    by (rule mset_eq_imp_distinct_iff)
qed

lemma sort_hd_least:
  assumes "sortPlantableByStock cs = c # cs'" "d \<in> set cs"
  shows "pf_Stock c \<le> pf_Stock d"
proof -
  have "\<not> stock_before d (hd (sortPlantableByStock cs))"
    unfolding sortPlantableByStock_def using assms(2) by (intro stock.stable_sort_hd_least) auto
  then show ?thesis using assms(1) by (auto simp: stock_before_def split: if_splits)
qed

text \<open>Steps of at most four lands.\<close>

definition batch_bound :: "(int \<Rightarrow> int) \<Rightarrow> plant_assignment \<Rightarrow> bool" where
  "batch_bound stock a \<longleftrightarrow> pa_Count a \<le> autoReplantBatchSize"

lemma batch_bound_auto: "batch_bound st (autoReplantAssignment i n) \<longleftrightarrow> n \<le> autoReplantBatchSize"
  by (simp add: batch_bound_def)

lemma batches_fill:
  "distinct (flower_ids cs) \<Longrightarrow> cs \<noteq> [] \<Longrightarrow> set ids = set (flower_ids cs) \<Longrightarrow>
     fills batch_bound ids (stock_of cs) (replant_batches cs r) \<and>
     planted (replant_batches cs r) = max 0 r"
proof (induction cs r rule: replant_batches.induct)
  case (1 cs r)
  show ?case
  proof (cases "r \<le> 0")
    case True
    then show ?thesis by (simp add: replant_batches.simps [of cs r])
  next
    case False
    obtain c cs' where srt: "sortPlantableByStock cs = c # cs'"
      using sort_perm(2) [of cs] 1(3) by (cases "sortPlantableByStock cs") auto
    define n where "n = (if r < autoReplantBatchSize then r else autoReplantBatchSize)"
    define c' where "c' = c\<lparr>pf_Stock := pf_Stock c + n\<rparr>"
    have out: "replant_batches cs r = autoReplantAssignment (pf_FlowerID c) n # replant_batches (c' # cs') (r - n)"
      unfolding replant_batches.simps [of cs r] using False srt
      by (simp add: n_def [symmetric] c'_def Let_def)
    have n: "0 < n" "n \<le> autoReplantBatchSize" "n \<le> r"
      using False by (auto simp: n_def autoReplantBatchSize_def)
    have d: "distinct (flower_ids (c # cs'))" "set (flower_ids (c # cs')) = set ids"
      using sort_perm [of cs] srt 1(2,4) by auto
    have st: "stock_of cs = stock_of (c # cs')"
      using sort_perm(1) [of cs] 1(2) srt by (metis stock_of_perm)
    have least: "\<forall>i \<in> set ids. stock_of (c # cs') (pf_FlowerID c) \<le> stock_of (c # cs') i"
    proof
      fix i assume "i \<in> set ids"
      then obtain e where e: "e \<in> set (c # cs')" "i = pf_FlowerID e"
        using d(2) by (force simp: flower_ids_def)
      have "pf_Stock c \<le> pf_Stock e" using sort_hd_least [OF srt] e(1) sort_perm(2) [of cs] srt by auto
      then show "stock_of (c # cs') (pf_FlowerID c) \<le> stock_of (c # cs') i"
        using stock_of_member [OF d(1) e(1)] e(2) stock_of_member [OF d(1), of c] by simp
    qed
    have ids: "flower_ids (c' # cs') = flower_ids (c # cs')" by (simp add: flower_ids_def c'_def)
    have upd: "stock_of (c' # cs') = (stock_of (c # cs'))(pf_FlowerID c := stock_of (c # cs') (pf_FlowerID c) + n)"
      by (simp add: stock_of_Cons c'_def)
    have "fills batch_bound ids (stock_of (c' # cs')) (replant_batches (c' # cs') (r - n)) \<and>
        planted (replant_batches (c' # cs') (r - n)) = max 0 (r - n)"
      using 1(1) [OF False srt] d ids by (simp add: n_def c'_def flower_ids_def)
    then show ?thesis
      unfolding out st
      using n least d(2) upd by (auto simp: list_all_iff batch_bound_auto flower_ids_def)
  qed
qed

text \<open>Levels: a flower is raised by one, or to a level that some flower has reached already.\<close>

definition level_bound :: "int list \<Rightarrow> (int \<Rightarrow> int) \<Rightarrow> plant_assignment \<Rightarrow> bool" where
  "level_bound ids stock a \<longleftrightarrow>
     pa_Count a = 1 \<or> list_ex (\<lambda>i. stock (pa_FlowerID a) + pa_Count a \<le> stock i) ids"

lemma level_bound_auto:
  "level_bound ids st (autoReplantAssignment i n) \<longleftrightarrow> n = 1 \<or> (\<exists>j \<in> set ids. st i + n \<le> st j)"
  by (simp add: level_bound_def list_ex_iff)

lemma raise_level_ids: "raise_level m l cs r = (cs', r', out) \<Longrightarrow> flower_ids cs' = flower_ids cs"
proof (induction cs arbitrary: r cs' r' out)
  case (Cons c cs)
  then show ?case
    by (cases "raise_level m l cs (r - raise_count l c r)")
      (auto simp: flower_ids_def Let_def split: if_splits)
qed (simp add: flower_ids_def)

lemma stock_of_middle:
  "distinct (flower_ids (done @ c # cs)) \<Longrightarrow>
     stock_of (done @ c\<lparr>pf_Stock := x\<rparr> # cs) = (stock_of (done @ c # cs))(pf_FlowerID c := x)"
proof (induction "done")
  case (Cons d ds)
  then have "pf_FlowerID d \<noteq> pf_FlowerID c" by (simp add: flower_ids_def)
  with Cons show ?case by (auto simp: stock_of_Cons flower_ids_def)
qed (simp add: stock_of_Cons)

text \<open>What a pass hands out is in order of least stock, whatever the later passes do.\<close>

lemma raise_level_fill:
  assumes "raise_level m l cs r = (cs', r', out)" "0 \<le> r" "m < l"
    and "distinct (flower_ids (done @ cs))" "set ids = set (flower_ids (done @ cs))"
    and "\<forall>c \<in> set (done @ cs). m \<le> pf_Stock c"
    and "l = m + 1 \<or> (\<exists>c \<in> set (done @ cs). l \<le> pf_Stock c)"
    and "fills (level_bound ids) ids (stock_of (done @ cs')) rest"
  shows "fills (level_bound ids) ids (stock_of (done @ cs)) (out @ rest) \<and>
    planted out = r - r' \<and> 0 \<le> r'"
  using assms
proof (induction cs arbitrary: r cs' r' out "done")
  case Nil
  then show ?case by simp
next
  case (Cons c cs)
  show ?case
  proof (cases "r \<le> 0 \<or> m < pf_Stock c")
    case True
    then show ?thesis using Cons.prems by auto
  next
    case False
    define n where "n = raise_count l c r"
    define c' where "c' = c\<lparr>pf_Stock := pf_Stock c + n\<rparr>"
    obtain cs2 r2 out2 where 2: "raise_level m l cs (r - n) = (cs2, r2, out2)" by (metis prod_cases3)
    have res: "cs' = c' # cs2" "r' = r2" "out = autoReplantAssignment (pf_FlowerID c) n # out2"
      using Cons.prems(1) False 2 by (simp_all add: Let_def n_def [symmetric] c'_def)
    have c: "pf_Stock c = m" using False Cons.prems(6) by force
    have n: "0 < n" "n \<le> l - m" "n \<le> r"
      using False Cons.prems(3) c by (auto simp: n_def raise_count_def Let_def)
    let ?d = "done @ [c']"
    have ids: "flower_ids (?d @ cs) = flower_ids (done @ c # cs)" by (simp add: flower_ids_def c'_def)
    have stk: "stock_of (?d @ cs) = (stock_of (done @ c # cs))(pf_FlowerID c := m + n)"
      using stock_of_middle [OF Cons.prems(4), of "m + n"] by (simp add: c'_def c)
    have at: "stock_of (done @ c # cs) (pf_FlowerID e) = pf_Stock e" if "e \<in> set (done @ c # cs)" for e
      using stock_of_member [OF Cons.prems(4) that] .
    have IH: "fills (level_bound ids) ids (stock_of (?d @ cs)) (out2 @ rest) \<and> planted out2 = r - n - r2 \<and> 0 \<le> r2"
    proof (rule Cons.IH [OF 2])
      show "0 \<le> r - n" "m < l" using n Cons.prems(3) by simp_all
      show "distinct (flower_ids (?d @ cs))" "set ids = set (flower_ids (?d @ cs))"
        using Cons.prems(4,5) unfolding ids by simp_all
      show "\<forall>e \<in> set (?d @ cs). m \<le> pf_Stock e" using Cons.prems(6) n c by (auto simp: c'_def)
      show "l = m + 1 \<or> (\<exists>e \<in> set (?d @ cs). l \<le> pf_Stock e)"
        using Cons.prems(7) c Cons.prems(3) by (auto simp: c'_def)
      show "fills (level_bound ids) ids (stock_of (?d @ cs2)) rest" using Cons.prems(8) res by simp
    qed
    have mem: "pf_FlowerID c \<in> set ids" using Cons.prems(5) by (simp add: flower_ids_def)
    have least: "list_all (\<lambda>i. stock_of (done @ c # cs) (pf_FlowerID c) \<le> stock_of (done @ c # cs) i) ids"
      using Cons.prems(5,6) at c by (auto simp: list_all_iff flower_ids_def)
    have "level_bound ids (stock_of (done @ c # cs)) (autoReplantAssignment (pf_FlowerID c) n)"
      using Cons.prems(7)
    proof
      assume "l = m + 1"
      then show ?thesis using n by (simp add: level_bound_auto)
    next
      assume "\<exists>e \<in> set (done @ c # cs). l \<le> pf_Stock e"
      then obtain e where e: "e \<in> set (done @ c # cs)" "l \<le> pf_Stock e" by blast
      have "pf_FlowerID e \<in> set ids" using e(1) Cons.prems(5) by (auto simp: flower_ids_def)
      moreover have "stock_of (done @ c # cs) (pf_FlowerID c) + n \<le> stock_of (done @ c # cs) (pf_FlowerID e)"
        using at [OF e(1)] at [of c] e(2) c n by simp
      ultimately show ?thesis unfolding level_bound_auto by blast
    qed
    then show ?thesis using IH stk mem least n(1) at [of c] c res by simp
  qed
qed

lemma next_level:
  assumes "\<forall>c \<in> set cs. pf_Stock (hd cs) \<le> pf_Stock c"
  shows "pf_Stock (hd cs) < next_level cs"
    and "next_level cs = pf_Stock (hd cs) + 1 \<or> (\<exists>c \<in> set cs. next_level cs \<le> pf_Stock c)"
  by (auto simp: next_level_def split: option.splits dest: find_SomeD)

lemma levels_fill:
  "distinct (flower_ids cs) \<Longrightarrow> cs \<noteq> [] \<Longrightarrow> set ids = set (flower_ids cs) \<Longrightarrow>
     \<forall>c \<in> set cs. pf_Stock (hd cs) \<le> pf_Stock c \<Longrightarrow>
     fills (level_bound ids) ids (stock_of cs) (replant_levels cs r) \<and>
     planted (replant_levels cs r) = max 0 r"
proof (induction cs r rule: replant_levels.induct)
  case (1 cs r)
  show ?case
  proof (cases "r \<le> 0")
    case True
    then show ?thesis by (simp add: replant_levels.simps [of cs r])
  next
    case False
    obtain cs' r' out where p: "raise_level (pf_Stock (hd cs)) (next_level cs) cs r = (cs', r', out)"
      by (metis prod_cases3)
    have ne: "out \<noteq> []"
      using p False 1(3) by (cases cs) (auto simp: Let_def split: prod.splits)
    then have eq: "replant_levels cs r = out @ replant_levels (sortPlantableByStock cs') r'"
      using False p by (simp add: replant_levels.simps [of cs r])
    have ids: "flower_ids cs' = flower_ids cs" using raise_level_ids [OF p] .
    then have ne': "cs' \<noteq> []" using 1(3) by (auto simp: flower_ids_def)
    let ?s = "sortPlantableByStock cs'"
    have s: "distinct (flower_ids ?s)" "?s \<noteq> []" "set ids = set (flower_ids ?s)"
      using sort_perm [of cs'] 1(2,4) ids ne' by (simp, metis list.set_intros(1) neq_Nil_conv set_empty, simp)
    have hd_s: "\<forall>c \<in> set ?s. pf_Stock (hd ?s) \<le> pf_Stock c"
      using sort_hd_least [of cs'] sort_perm(2) [of cs'] s(2) by (cases ?s) auto
    have IH: "fills (level_bound ids) ids (stock_of ?s) (replant_levels ?s r') \<and>
        planted (replant_levels ?s r') = max 0 r'"
      by (rule 1(1) [OF False p [symmetric] refl ne s hd_s])
    have "stock_of ?s = stock_of cs'" using sort_perm [of cs'] s(1) by (metis stock_of_perm)
    with IH have rest: "fills (level_bound ids) ids (stock_of ([] @ cs')) (replant_levels ?s r')" by simp
    have "fills (level_bound ids) ids (stock_of ([] @ cs)) (out @ replant_levels ?s r') \<and>
        planted out = r - r' \<and> 0 \<le> r'"
      by (rule raise_level_fill [OF p _ _ _ _ _ _ rest]) (use False 1(2,4,5) next_level in auto)
    then show ?thesis using IH eq False by simp
  qed
qed

text \<open>
  What a strategy of replanting promises; its client is the planner, for both modes.
\<close>

locale replant_strategy =
  fixes strategy :: "plantable_flower list \<Rightarrow> int \<Rightarrow> plant_assignment list"
    and bound :: "int list \<Rightarrow> (int \<Rightarrow> int) \<Rightarrow> plant_assignment \<Rightarrow> bool"
  assumes strategy_fills: "distinct (flower_ids cs) \<Longrightarrow> cs \<noteq> [] \<Longrightarrow> 0 < limit \<Longrightarrow>
      fills (bound (flower_ids cs)) (flower_ids cs) (stock_of cs) (strategy cs limit)"
    and strategy_all: "distinct (flower_ids cs) \<Longrightarrow> cs \<noteq> [] \<Longrightarrow> 0 < limit \<Longrightarrow>
      planted (strategy cs limit) = limit"
begin

lemma fills_member: "fills b ids st out \<Longrightarrow> a \<in> set out \<Longrightarrow> pa_FlowerID a \<in> set ids \<and> 0 < pa_Count a"
  by (induction out arbitrary: st) auto

lemma strategy_member:
  assumes "distinct (flower_ids cs)" "cs \<noteq> []" "0 < limit" "a \<in> set (strategy cs limit)"
  shows "pa_FlowerID a \<in> set (flower_ids cs) \<and> 0 < pa_Count a"
  using fills_member strategy_fills [OF assms(1-3)] assms(4) by blast

end

interpretation batches: replant_strategy autoReplantLowestStockBatchAssignments "\<lambda>ids. batch_bound"
  by unfold_locales (auto simp: autoReplantLowestStockBatchAssignments_def batches_fill)

lemma balance_fills:
  assumes "distinct (flower_ids cs)" "cs \<noteq> []"
  shows "fills (level_bound (flower_ids cs)) (flower_ids cs) (stock_of cs) (autoReplantBalanceAssignments cs r) \<and>
    planted (autoReplantBalanceAssignments cs r) = max 0 r"
proof -
  let ?s = "sortPlantableByStock cs"
  have "?s \<noteq> []" using assms(2) sort_perm(2) [of cs] by auto
  moreover have "\<forall>c \<in> set ?s. pf_Stock (hd ?s) \<le> pf_Stock c"
    using sort_hd_least [of cs] sort_perm(2) [of cs] calculation by (cases ?s) auto
  moreover have "stock_of ?s = stock_of cs" using sort_perm [of cs] assms(1) by (metis stock_of_perm)
  ultimately show ?thesis
    using levels_fill [of ?s "flower_ids cs" r] sort_perm [of cs] assms(1)
    by (simp add: autoReplantBalanceAssignments_def)
qed

interpretation balance: replant_strategy autoReplantBalanceAssignments level_bound
  by unfold_locales (auto simp: balance_fills)

text \<open>
  Replanting covers exactly the empty lands, and one after the other every batch
  goes to a flower whose effective stock is least at that moment.  A batch is at most four lands, or,
  in the mode for chosen flowers, raises the flower by one or to a level another flower has reached.
\<close>

lemma replant_level:
  assumes "distinct (flower_ids cs)" "cs \<noteq> []" "0 < limit"
  shows "planted (autoReplantAssignments cs limit mode) = limit \<and>
    fills (if mode = SelectionSpecific then level_bound (flower_ids cs) else batch_bound)
      (flower_ids cs) (stock_of cs) (autoReplantAssignments cs limit mode)"
  using assms batches.strategy_fills [OF assms] batches.strategy_all [OF assms]
    balance.strategy_fills [OF assms] balance.strategy_all [OF assms]
  by (simp add: autoReplantAssignments_def autoReplantUsesLowestStockBatch_def)

text \<open>Three flowers with stocks 5, 0 and 2.\<close>

definition sample_flower :: "int \<Rightarrow> int \<Rightarrow> plantable_flower" where
  "sample_flower i n = \<lparr>pf_FlowerID = i, pf_Stock = n, pf_Lvl = 3, pf_Gold = 1, pf_Experience = 1\<rparr>"

definition sample_flowers :: "plantable_flower list" where
  "sample_flowers = [sample_flower 23001 5, sample_flower 23002 0, sample_flower 23003 2]"

section \<open>The plan\<close>

definition isRaceDrivenFlowerDemand :: "demand \<Rightarrow> bool" where
  "isRaceDrivenFlowerDemand d \<longleftrightarrow> dem_GoalID d = raceActionGoal \<and> dem_Source d = ''race_task''"

definition blockedPlantDiagnosticPriority :: int where "blockedPlantDiagnosticPriority = 1000"

record plant_pass =
  ps_out :: "plant_assignment list"
  ps_diagnostics :: "plant_assignment list"
  ps_remaining :: int

definition demand_assignment :: "demand \<Rightarrow> int \<Rightarrow> plant_assignment" where
  "demand_assignment d n =
     \<lparr>pa_FlowerID = dem_ItemID d, pa_Count = n, pa_Priority = int32 (dem_Priority d * 100 + 500),
      pa_GoalID = dem_GoalID d, pa_DemandID = dem_ID d, pa_Reason = dem_Label d\<rparr>"

definition demand_diagnostic :: "demand \<Rightarrow> plant_assignment" where
  "demand_diagnostic d =
     \<lparr>pa_FlowerID = dem_ItemID d, pa_Count = 0, pa_Priority = blockedPlantDiagnosticPriority,
      pa_GoalID = dem_GoalID d, pa_DemandID = dem_ID d, pa_Reason = lit_not_cultivated\<rparr>"

definition assignFlowerDemand :: "int list \<Rightarrow> bool \<Rightarrow> demand \<Rightarrow> plant_pass \<Rightarrow> plant_pass" where
  "assignFlowerDemand plantable demandPlanting d st =
     (if dem_Kind d \<noteq> DemandKindFlower \<or> dem_Missing d \<le> 0 \<or> dem_BlockedReasons d \<noteq> [] then st
      else if \<not> demandPlanting \<and> \<not> isRaceDrivenFlowerDemand d then st
      else if dem_ItemID d \<notin> set plantable
      then st\<lparr>ps_diagnostics := ps_diagnostics st @ [demand_diagnostic d]\<rparr>
      else if ps_remaining st \<le> 0 then st
      else
        let n = (if ps_remaining st < dem_Missing d then ps_remaining st else dem_Missing d)
        in if n \<le> 0 then st
           else st\<lparr>ps_out := ps_out st @ [demand_assignment d n], ps_remaining := ps_remaining st - n\<rparr>)"

definition executableAssignments :: "plant_assignment list \<Rightarrow> plant_assignment list" where
  "executableAssignments out = filter (\<lambda>a. 0 < pa_Count a) out"

definition applyPlantedLandStock :: "garden \<Rightarrow> plantable_flower list \<Rightarrow> plantable_flower list" where
  "applyPlantedLandStock g cs =
     map (\<lambda>c. c\<lparr>pf_Stock := pf_Stock c +
        int (length (filter (\<lambda>(i, l). IsPlanted l \<and> int32 (lv_FlowerID l) = pf_FlowerID c) (Lands g)))\<rparr>) cs"

definition applyAssignmentStock ::
  "plantable_flower list \<Rightarrow> plant_assignment list \<Rightarrow> plantable_flower list" where
  "applyAssignmentStock cs out =
     map (\<lambda>c. c\<lparr>pf_Stock := pf_Stock c +
        planted (filter (\<lambda>a. 0 < pa_FlowerID a \<and> 0 < pa_Count a \<and> pa_FlowerID a = pf_FlowerID c) out)\<rparr>) cs"

text \<open>The executable assignments and the diagnostics of demands for flowers not cultivated.\<close>

definition planPlantAssignments ::
  "flower_catalog \<Rightarrow> game_state \<Rightarrow> garden \<Rightarrow> planting_policy \<Rightarrow> demand list \<Rightarrow> int \<Rightarrow> bool \<Rightarrow>
     plant_assignment list \<times> plant_assignment list" where
  "planPlantAssignments cat s g p demands emptyCount suppressAutoReplant =
     (if emptyCount \<le> 0 then ([], [])
      else
        let candidates = replant_candidates cat s p;
            plantable = flower_ids (PlantableFlowers cat s [] []);
            assign = assignFlowerDemand plantable (pp_DemandPriorityEnabled p);
            st0 = \<lparr>ps_out = [], ps_diagnostics = [], ps_remaining = emptyCount\<rparr>;
            st1 = fold assign (filter isRaceDrivenFlowerDemand demands) st0;
            st = fold assign (filter (\<lambda>d. \<not> isRaceDrivenFlowerDemand d) demands) st1;
            executable = executableAssignments (ps_out st)
        in if ps_remaining st \<le> 0 \<or> suppressAutoReplant then (executable, ps_diagnostics st)
           else
             let mode = pp_AutoReplantMode p;
                 candidates' = (if autoReplantUsesLowestStockBatch mode
                   then applyAssignmentStock (applyPlantedLandStock g candidates) executable
                   else candidates)
             in (executable @ autoReplantAssignments candidates' (ps_remaining st) mode, ps_diagnostics st))"

section \<open>Who gets the land\<close>

text \<open>A demand the plan may serve.\<close>

definition servable_flower :: "int list \<Rightarrow> bool \<Rightarrow> demand \<Rightarrow> bool" where
  "servable_flower plantable demandPlanting d \<longleftrightarrow>
     dem_Kind d = DemandKindFlower \<and> 0 < dem_Missing d \<and> dem_BlockedReasons d = [] \<and>
     (demandPlanting \<or> isRaceDrivenFlowerDemand d) \<and> dem_ItemID d \<in> set plantable"

fun give :: "int \<Rightarrow> demand list \<Rightarrow> plant_assignment list" where
  "give r [] = []"
| "give r (d # ds) =
     (if r \<le> 0 then [] else demand_assignment d (min r (dem_Missing d)) # give (r - min r (dem_Missing d)) ds)"

lemma demand_assignment_simps [simp]:
  "pa_FlowerID (demand_assignment d n) = dem_ItemID d" "pa_Count (demand_assignment d n) = n"
  "pa_GoalID (demand_assignment d n) = dem_GoalID d" "pa_DemandID (demand_assignment d n) = dem_ID d"
  by (simp_all add: demand_assignment_def)

lemma give_none [simp]: "r \<le> 0 \<Longrightarrow> give r ds = []"
  by (cases ds) simp_all

lemma give_append: "0 \<le> r \<Longrightarrow> give r (xs @ ys) = give r xs @ give (r - planted (give r xs)) ys"
  by (induction xs arbitrary: r) (auto simp: min_def diff_diff_eq)

lemma give_planted: "0 \<le> r \<Longrightarrow> planted (give r ds) \<le> r"
proof (induction ds arbitrary: r)
  case (Cons d ds)
  show ?case
  proof (cases "r \<le> dem_Missing d")
    case False
    then have "planted (give (r - dem_Missing d) ds) \<le> r - dem_Missing d" by (intro Cons.IH) simp
    then show ?thesis using False Cons.prems by (auto simp: min_def)
  qed (use Cons.prems in \<open>simp add: min_def\<close>)
qed simp

lemma give_member:
  "a \<in> set (give r ds) \<Longrightarrow> \<forall>d \<in> set ds. 0 < dem_Missing d \<Longrightarrow>
     \<exists>d \<in> set ds. \<exists>n. a = demand_assignment d n \<and> 0 < n \<and> n \<le> dem_Missing d"
  by (induction ds arbitrary: r) (fastforce split: if_splits)+

lemma give_short:
  "d \<in> set ds \<Longrightarrow> demand_assignment d (dem_Missing d) \<notin> set (give r ds) \<Longrightarrow> 0 \<le> r \<Longrightarrow> planted (give r ds) = r"
proof (induction ds arbitrary: r)
  case (Cons e ds)
  show ?case
  proof (cases "r \<le> dem_Missing e")
    case True
    then show ?thesis using Cons.prems(3) by (auto simp: min_def)
  next
    case False
    then have "d \<in> set ds" "demand_assignment d (dem_Missing d) \<notin> set (give (r - dem_Missing e) ds)" if "0 < r"
      using Cons.prems that by (auto simp: min_def split: if_splits)
    then show ?thesis using Cons.IH [of "r - dem_Missing e"] Cons.prems(3) False by (auto simp: min_def)
  qed
qed simp

lemma assign_fold:
  "ps_out (fold (assignFlowerDemand ids dp) ds st) =
     ps_out st @ give (ps_remaining st) (filter (servable_flower ids dp) ds) \<and>
   ps_remaining (fold (assignFlowerDemand ids dp) ds st) =
     ps_remaining st - planted (give (ps_remaining st) (filter (servable_flower ids dp) ds))"
proof (induction ds arbitrary: st)
  case (Cons d ds)
  have "ps_out (assignFlowerDemand ids dp d st) =
      ps_out st @ (if servable_flower ids dp d \<and> 0 < ps_remaining st
        then [demand_assignment d (min (ps_remaining st) (dem_Missing d))] else [])"
    "ps_remaining (assignFlowerDemand ids dp d st) =
      ps_remaining st - (if servable_flower ids dp d \<and> 0 < ps_remaining st
        then min (ps_remaining st) (dem_Missing d) else 0)"
    by (auto simp: assignFlowerDemand_def servable_flower_def Let_def min_def)
  then show ?case using Cons.IH [of "assignFlowerDemand ids dp d st"] by auto
qed simp

text \<open>The flowers of the plan and the demands in the order in which they are served.\<close>

definition plan_flowers :: "flower_catalog \<Rightarrow> game_state \<Rightarrow> int list" where
  "plan_flowers cat s = flower_ids (PlantableFlowers cat s [] [])"

definition served_in_order :: "flower_catalog \<Rightarrow> game_state \<Rightarrow> planting_policy \<Rightarrow> demand list \<Rightarrow> demand list" where
  "served_in_order cat s p demands =
     (let servable = servable_flower (plan_flowers cat s) (pp_DemandPriorityEnabled p)
      in filter (\<lambda>d. servable d \<and> isRaceDrivenFlowerDemand d) demands @
         filter (\<lambda>d. servable d \<and> \<not> isRaceDrivenFlowerDemand d) demands)"

lemma served_missing: "\<forall>d \<in> set (served_in_order cat s p demands). 0 < dem_Missing d"
  by (auto simp: served_in_order_def servable_flower_def)

lemma flower_ids_stocks [simp]:
  "flower_ids (applyPlantedLandStock g cs) = flower_ids cs"
  "flower_ids (applyAssignmentStock cs out) = flower_ids cs"
  "applyPlantedLandStock g cs = [] \<longleftrightarrow> cs = []" "applyAssignmentStock cs out = [] \<longleftrightarrow> cs = []"
  by (simp_all add: flower_ids_def applyPlantedLandStock_def applyAssignmentStock_def comp_def)

lemma distinct_flower_ids_filter: "distinct (flower_ids cs) \<Longrightarrow> distinct (flower_ids (filter P cs))"
  by (simp add: flower_ids_def distinct_map_filter)

lemma plantable_distinct:
  assumes "gomap_ok (gs_cultivations s)"
  shows "distinct (flower_ids (PlantableFlowers cat s allowed blocked))"
proof -
  let ?P = "\<lambda>(i, cv). isPlantableCultivation cv \<and> isFlowerItemID i \<and> (allowed \<noteq> [] \<longrightarrow> i \<in> set allowed) \<and>
      i \<notin> set blocked"
  have "mset (flower_ids (PlantableFlowers cat s allowed blocked)) = mset (map fst (filter ?P (gs_cultivations s)))"
    unfolding flower_ids_def PlantableFlowers_def
    by (simp add: multiset.map_comp comp_def split_def)
  moreover have "distinct (map fst (filter ?P (gs_cultivations s)))"
    using assms by (simp add: gomap_ok_def distinct_map_filter)
  ultimately show ?thesis using mset_eq_imp_distinct_iff by blast
qed

lemma candidates_distinct:
  "gomap_ok (gs_cultivations s) \<Longrightarrow> distinct (flower_ids (replant_candidates cat s p))"
  by (auto simp: replant_candidates_def filterPlantableByAutoReplantMinLevel_def
      filterPlantableByAutoReplantQualities_def Let_def split_def
      intro!: distinct_flower_ids_filter plantable_distinct)

text \<open>The plan is the served demands, in order, and what replanting adds in the lands left.\<close>

lemma plan_split:
  assumes "0 < n"
  obtains rest where
    "fst (planPlantAssignments cat s g p demands n suppress) = give n (served_in_order cat s p demands) @ rest"
    "rest = [] \<and> (suppress \<or> planted (give n (served_in_order cat s p demands)) = n \<or>
        replant_candidates cat s p = []) \<or>
     \<not> suppress \<and> (\<exists>cs. cs \<noteq> [] \<and> flower_ids cs = flower_ids (replant_candidates cat s p) \<and>
       0 < n - planted (give n (served_in_order cat s p demands)) \<and>
       rest = autoReplantAssignments cs (n - planted (give n (served_in_order cat s p demands))) (pp_AutoReplantMode p))"
proof -
  let ?assign = "assignFlowerDemand (flower_ids (PlantableFlowers cat s [] [])) (pp_DemandPriorityEnabled p)"
  define st0 where "st0 = \<lparr>ps_out = [], ps_diagnostics = [], ps_remaining = n\<rparr>"
  define st where "st = fold ?assign (filter (\<lambda>d. \<not> isRaceDrivenFlowerDemand d) demands)
      (fold ?assign (filter isRaceDrivenFlowerDemand demands) st0)"
  define G where "G = give n (served_in_order cat s p demands)"
  have G: "planted G \<le> n" using give_planted assms by (simp add: G_def)
  have fold: "ps_out st = G" "ps_remaining st = n - planted G"
    using give_append assms give_planted
    by (simp_all add: st_def assign_fold st0_def G_def served_in_order_def plan_flowers_def Let_def
        conj_commute)
  have pos: "filter (\<lambda>a. 0 < pa_Count a) G = G"
    using give_member [OF _ served_missing] by (force simp: G_def filter_id_conv)
  let ?plan = "planPlantAssignments cat s g p demands n suppress"
  let ?cs0 = "replant_candidates cat s p"
  define cs where "cs = (if autoReplantUsesLowestStockBatch (pp_AutoReplantMode p)
      then applyAssignmentStock (applyPlantedLandStock g ?cs0) G else ?cs0)"
  have plan: "fst ?plan = (if n - planted G \<le> 0 \<or> suppress then G
      else G @ autoReplantAssignments cs (n - planted G) (pp_AutoReplantMode p))"
    using assms fold pos
    by (simp add: planPlantAssignments_def Let_def st_def [symmetric] st0_def [symmetric]
        executableAssignments_def cs_def)
  have ids: "flower_ids cs = flower_ids ?cs0" "cs = [] \<longleftrightarrow> ?cs0 = []" by (simp_all add: cs_def)
  show ?thesis
  proof (cases "n - planted G \<le> 0 \<or> suppress \<or> ?cs0 = []")
    case True
    then have "fst ?plan = G @ []" using plan ids by (auto simp: autoReplantAssignments_def)
    then show ?thesis using True G by (intro that [of "[]"]) (auto simp: G_def)
  next
    case False
    then show ?thesis
      using plan ids by (intro that [of "autoReplantAssignments cs (n - planted G) (pp_AutoReplantMode p)"])
        (auto simp: G_def intro!: exI [of _ cs])
  qed
qed

lemma plan_prefix:
  assumes "0 < n"
  shows "\<exists>rest. fst (planPlantAssignments cat s g p demands n suppress) =
      give n (served_in_order cat s p demands) @ rest \<and>
    (rest = [] \<or> planted (give n (served_in_order cat s p demands)) < n)"
  by (rule plan_split [OF assms, of cat s g p demands suppress]) auto

lemma replant_rest:
  assumes "distinct (flower_ids cs)" "cs \<noteq> []" "0 < r" "a \<in> set (autoReplantAssignments cs r mode)"
  shows "pa_FlowerID a \<in> set (flower_ids cs)" "0 < pa_Count a"
  using batches.strategy_member [OF assms(1-3)] balance.strategy_member [OF assms(1-3)] assms(4) assms(2,3)
  by (auto simp: autoReplantAssignments_def split: if_splits)

lemma replant_all:
  assumes "distinct (flower_ids cs)" "cs \<noteq> []" "0 < r"
  shows "planted (autoReplantAssignments cs r mode) = r"
  using batches.strategy_all [OF assms] balance.strategy_all [OF assms] assms
  by (simp add: autoReplantAssignments_def)

text \<open>
  The plan never hands out more lands than are empty, hands out only positive
  numbers, and hands out every empty land as soon as replanting is allowed and some flower qualifies.
\<close>

lemma plan_fills:
  assumes "gomap_ok (gs_cultivations s)" "0 < n"
    and "out = fst (planPlantAssignments cat s g p demands n suppress)"
  shows "planted out \<le> n \<and> (\<forall>a \<in> set out. 0 < pa_Count a) \<and>
    (\<not> suppress \<and> replant_candidates cat s p \<noteq> [] \<longrightarrow> planted out = n)"
proof -
  let ?ds = "served_in_order cat s p demands"
  have pos: "\<forall>a \<in> set (give n ?ds). 0 < pa_Count a" using give_member [OF _ served_missing] by force
  have le: "planted (give n ?ds) \<le> n" using give_planted assms(2) by simp
  obtain rest where out: "out = give n ?ds @ rest"
    and rest: "rest = [] \<and> (suppress \<or> planted (give n ?ds) = n \<or> replant_candidates cat s p = []) \<or>
      \<not> suppress \<and> (\<exists>cs. cs \<noteq> [] \<and> flower_ids cs = flower_ids (replant_candidates cat s p) \<and>
        0 < n - planted (give n ?ds) \<and>
        rest = autoReplantAssignments cs (n - planted (give n ?ds)) (pp_AutoReplantMode p))"
    using plan_split [OF assms(2)] assms(3) by metis
  from rest show ?thesis
  proof (elim disjE conjE exE)
    fix cs
    assume cs: "cs \<noteq> []" "flower_ids cs = flower_ids (replant_candidates cat s p)"
      and r: "0 < n - planted (give n ?ds)"
      and eq: "rest = autoReplantAssignments cs (n - planted (give n ?ds)) (pp_AutoReplantMode p)"
    have d: "distinct (flower_ids cs)" using candidates_distinct [OF assms(1)] cs(2) by simp
    show ?thesis
      using out pos replant_all [OF d cs(1) r] replant_rest(2) [OF d cs(1) r] eq by auto
  qed (use out pos le in auto)
qed

text \<open>Two cultivated flowers and one that is not; a race demand for five, an order for three.\<close>

definition sample_cultivated :: game_state where
  "sample_cultivated = sample_state\<lparr>gs_cultivations :=
     [(23002, \<lparr>cv_Status = 2, cv_Lvl = 4\<rparr>), (23001, \<lparr>cv_Status = 2, cv_Lvl = 9\<rparr>),
      (23003, \<lparr>cv_Status = 1, cv_Lvl = 1\<rparr>)]\<rparr>"

definition sample_flower_catalog :: flower_catalog where
  "sample_flower_catalog = \<lparr>fc_Gold = (\<lambda>i. 1), fc_Experience = (\<lambda>i. 1), fc_Color = (\<lambda>i. Some 1)\<rparr>"

definition sample_planting :: planting_policy where
  "sample_planting = \<lparr>pp_AutoEnabled = True, pp_AutoHarvestEnabled = True, pp_MinWaterDrops = 1,
     pp_UseSpeedUpTicket = False, pp_SpeedUpTicketMax = 0, pp_DemandPriorityEnabled = True,
     pp_AutoReplantMode = SelectionAll, pp_AutoReplantFlowerIds = [],
     pp_AutoReplantExcludeFlowerIds = [], pp_AutoReplantQualities = [], pp_AutoReplantMinLevel = 0,
     pp_HarvestDelaySeconds = 60\<rparr>"

definition flower_demand :: "string \<Rightarrow> string \<Rightarrow> int \<Rightarrow> int \<Rightarrow> demand" where
  "flower_demand goalID source flower n =
     \<lparr>dem_ID = goalID, dem_GoalID = goalID, dem_Category = [], dem_Domain = [], dem_EntityID = [],
      dem_Source = source, dem_Label = [], dem_Kind = DemandKindFlower, dem_ItemID = flower,
      dem_Count = n, dem_Have = 0, dem_Allocated = 0, dem_Available = 0, dem_Missing = n,
      dem_Priority = 50, dem_BlockedReasons = [], dem_Status = [], dem_BlockingStage = [],
      dem_CostGates = []\<rparr>"

definition sample_demands :: "demand list" where
  "sample_demands = [flower_demand GoalCustomerOrder ''order'' 23001 3,
     flower_demand raceActionGoal ''race_task'' 23002 5]"

definition sample_garden :: garden where
  "sample_garden = \<lparr>gd_lands =
       [(1002, EmptyObserved),
        (1001, EmptyObserved\<lparr>lv_FlowerID := 23001, lv_State := 3, lv_PlantTimeMs := 1000\<rparr>),
        (1003, EmptyObserved\<lparr>lv_FlowerID := 23002, lv_State := 1\<rparr>),
        (1004, EmptyObserved\<lparr>lv_FlowerID := 23002, lv_State := 1\<rparr>),
        (1005, zero_land)],
     gd_flowerElvesAid = \<lparr>aid_AidMap = [], aid_PreReqAidTime = 0, aid_EffEndTime = 0, aid_ReqAid = 0\<rparr>,
     gd_flowerElvesAidObserved = True, gd_flowerElvesAidClaimedPreReq = 0\<rparr>"

definition sample_plan :: "int \<Rightarrow> plant_assignment list" where
  "sample_plan n = fst (planPlantAssignments sample_flower_catalog sample_cultivated sample_garden
     sample_planting sample_demands n False)"

text \<open>
  C11.  While a demand of the guild race is short of its flowers, nobody else gets
  land: every assignment then serves a race demand and all empty lands are handed out.  While any
  demand that may be served is short, nothing is replanted at will.
\<close>

theorem race_plants_first:
  assumes "0 < n" "out = fst (planPlantAssignments cat s g p demands n suppress)"
    and "d \<in> set demands" "servable_flower (plan_flowers cat s) (pp_DemandPriorityEnabled p) d"
    and "demand_assignment d (dem_Missing d) \<notin> set out"
  shows "planted out = n \<and>
    (\<forall>a \<in> set out. \<exists>e \<in> set demands. \<exists>k.
       a = demand_assignment e k \<and> 0 < k \<and> k \<le> dem_Missing e \<and>
       servable_flower (plan_flowers cat s) (pp_DemandPriorityEnabled p) e \<and>
       (isRaceDrivenFlowerDemand d \<longrightarrow> isRaceDrivenFlowerDemand e))"
proof -
  let ?ok = "servable_flower (plan_flowers cat s) (pp_DemandPriorityEnabled p)"
  let ?race = "filter (\<lambda>d. ?ok d \<and> isRaceDrivenFlowerDemand d) demands"
  let ?other = "filter (\<lambda>d. ?ok d \<and> \<not> isRaceDrivenFlowerDemand d) demands"
  have ds: "served_in_order cat s p demands = ?race @ ?other" by (simp add: served_in_order_def Let_def)
  obtain rest where out: "out = give n (?race @ ?other) @ rest"
    and rest: "rest = [] \<or> planted (give n (?race @ ?other)) < n"
    using plan_prefix [OF assms(1), of cat s g p demands suppress] assms(2) unfolding ds by blast
  have "d \<in> set (?race @ ?other)" using assms(3,4) by auto
  moreover have "demand_assignment d (dem_Missing d) \<notin> set (give n (?race @ ?other))"
    using assms(5) out by simp
  ultimately have all: "planted (give n (?race @ ?other)) = n"
    using give_short assms(1) by (meson order_less_imp_le)
  then have out': "out = give n (?race @ ?other)" using out rest by simp
  have split: "give n (?race @ ?other) = give n ?race @ give (n - planted (give n ?race)) ?other"
    using assms(1) by (simp add: give_append)
  have missing: "\<forall>e \<in> set (?race @ ?other). 0 < dem_Missing e"
    by (auto simp: servable_flower_def)
  have "\<exists>e \<in> set demands. \<exists>k. a = demand_assignment e k \<and> 0 < k \<and> k \<le> dem_Missing e \<and> ?ok e \<and>
      (isRaceDrivenFlowerDemand d \<longrightarrow> isRaceDrivenFlowerDemand e)" if a: "a \<in> set out" for a
  proof (cases "isRaceDrivenFlowerDemand d")
    case True
    then have "d \<in> set ?race" using assms(3,4) by simp
    moreover have "demand_assignment d (dem_Missing d) \<notin> set (give n ?race)"
      using assms(5) out' split by simp
    ultimately have "planted (give n ?race) = n" using give_short assms(1) by (meson order_less_imp_le)
    then have "a \<in> set (give n ?race)" using a out' split by simp
    from give_member [OF this] missing show ?thesis by fastforce
  next
    case False
    from give_member [OF a [unfolded out'] missing] show ?thesis using False by fastforce
  qed
  then show ?thesis using all out' by blast
qed

theorem race_plants_first_witness:
  "planted (sample_plan 4) = 4 \<and> map pa_GoalID (sample_plan 4) = [raceActionGoal]"
proof -
  let ?d = "flower_demand raceActionGoal ''race_task'' 23002 5"
  let ?p = "sample_planting"
  have 1: "?d \<in> set sample_demands" by (simp add: sample_demands_def)
  have 2: "servable_flower (plan_flowers sample_flower_catalog sample_cultivated) (pp_DemandPriorityEnabled ?p) ?d"
    by code_simp
  have 3: "map pa_Count (sample_plan 4) = [4]" "map pa_GoalID (sample_plan 4) = [raceActionGoal]" by code_simp+
  have "pa_Count (demand_assignment ?d (dem_Missing ?d)) = 5" by code_simp
  moreover have "x \<in> set (sample_plan 4) \<Longrightarrow> pa_Count x \<in> set (map pa_Count (sample_plan 4))" for x by simp
  ultimately have 4: "demand_assignment ?d (dem_Missing ?d) \<notin> set (sample_plan 4)"
    unfolding 3(1) by force
  have "planted (sample_plan 4) = 4"
    using race_plants_first [OF _ refl 1 2 4 [unfolded sample_plan_def]] unfolding sample_plan_def by simp
  then show ?thesis using 3(2) by blast
qed

end
