(* ===== verification/Farm.thy ===== *)
theory Farm
  imports Planting Daily Water
begin

text \<open>
  The planner of the lands (\<open>automation/farm.go\<close>, \<open>elves_plant.go\<close> and the speed-up part of
  \<open>maintenance.go\<close>): what to harvest, plant, water and speed up, for ordinary farming, for the guild
  race and for growing flower elves.
\<close>

section \<open>Policies\<close>

text \<open>A nil \<open>ElvesPlantPolicy\<close> behaves as the zero record: not enabled.\<close>

record elves_plant_policy =
  ep_Enabled :: bool
  ep_MainFlowerId :: int
  ep_SecondaryFlowerId :: int
  ep_MainLandCount :: int
  ep_UseSpeedUpTicket :: bool
  ep_ElvesSpawnCap :: int
  ep_HarvestDelaySeconds :: int
  ep_NightHarvestEnabled :: bool

record plant_policy =
  pl_Planting :: planting_policy
  pl_ElvesPlant :: elves_plant_policy

definition elvesPlantActive :: "elves_plant_policy \<Rightarrow> bool" where
  "elvesPlantActive p \<longleftrightarrow> ep_Enabled p \<and> 0 < ep_MainFlowerId p \<and> 0 < ep_SecondaryFlowerId p"

definition elvesPlantMainLandCount :: "elves_plant_policy \<Rightarrow> int \<Rightarrow> int" where
  "elvesPlantMainLandCount p totalLands =
     (let n = (if ep_MainLandCount p \<le> 0 then 4 else ep_MainLandCount p)
      in if 0 < totalLands \<and> totalLands \<le> n then (if totalLands - 1 < 0 then 0 else totalLands - 1) else n)"

definition elvesPlantDelayedHarvest :: "elves_plant_policy \<Rightarrow> bool" where
  "elvesPlantDelayedHarvest p \<longleftrightarrow> elvesPlantActive p \<and> 0 < ep_HarvestDelaySeconds p"

definition elvesNightHarvestOpen :: "time \<Rightarrow> bool" where
  "elvesNightHarvestOpen now \<longleftrightarrow> 22 \<le> ((now + gameDayLocation) mod day_length) div hour"

definition elvesSecondaryFirstBloom :: "land_view \<Rightarrow> bool" where
  "elvesSecondaryFirstBloom land \<longleftrightarrow>
     lv_State land = 3 \<and> lv_HarvestCnt land = 0 \<and> lv_ElvesID land = 0"

definition elvesPlantHarvestDelayForLand :: "elves_plant_policy \<Rightarrow> land_view \<Rightarrow> duration" where
  "elvesPlantHarvestDelayForLand p land =
     (if \<not> elvesPlantDelayedHarvest p then 0
      else if elvesSecondaryFirstBloom land then 0
      else ep_HarvestDelaySeconds p * second)"

section \<open>Choosing lands\<close>

definition flower_at :: "garden \<Rightarrow> int \<Rightarrow> int" where
  "flower_at g i = int32 (lv_FlowerID (land_at g i))"

definition land_ids :: "garden \<Rightarrow> int list" where
  "land_ids g = sort (map fst (Lands g))"

definition elvesNightHarvestLandIDs :: "garden \<Rightarrow> elves_plant_policy \<Rightarrow> time \<Rightarrow> int list" where
  "elvesNightHarvestLandIDs g p now =
     (if \<not> ep_NightHarvestEnabled p \<or> \<not> elvesNightHarvestOpen now then []
      else filter (\<lambda>i. lv_ElvesID (land_at g i) \<noteq> 0 \<and> Recommend (land_at g i) now 0 = KindHarvest)
             (land_ids g))"

definition filterOutLandIDs :: "int list \<Rightarrow> int list \<Rightarrow> int list" where
  "filterOutLandIDs landIDs drop_ids = filter (\<lambda>i. i \<notin> set drop_ids) landIDs"

definition filterOutFlowerLandIDs :: "garden \<Rightarrow> int list \<Rightarrow> int \<Rightarrow> int list" where
  "filterOutFlowerLandIDs g landIDs flowerID =
     (if flowerID \<le> 0 then landIDs else filter (\<lambda>i. flower_at g i \<noteq> flowerID) landIDs)"

definition filterOnlyFlowerLandIDs :: "garden \<Rightarrow> int list \<Rightarrow> int \<Rightarrow> int list" where
  "filterOnlyFlowerLandIDs g landIDs flowerID =
     (if flowerID \<le> 0 then [] else filter (\<lambda>i. flower_at g i = flowerID) landIDs)"

definition filterLandIDsByFlower :: "garden \<Rightarrow> int list \<Rightarrow> int \<Rightarrow> int list" where
  "filterLandIDsByFlower g landIDs flowerID =
     (if flowerID \<le> 0 then landIDs else filter (\<lambda>i. flower_at g i = flowerID) landIDs)"

definition prioritizeLandIDsByFlower :: "garden \<Rightarrow> int list \<Rightarrow> int \<Rightarrow> int list" where
  "prioritizeLandIDsByFlower g landIDs flowerID =
     (if flowerID \<le> 0 \<or> length landIDs \<le> 1 then landIDs
      else
        let matched = filter (\<lambda>i. flower_at g i = flowerID) landIDs;
            rest = filter (\<lambda>i. flower_at g i \<noteq> flowerID) landIDs
        in if matched = [] \<or> rest = [] then landIDs else matched @ rest)"

definition hasRacePlantDemand :: "demand list \<Rightarrow> bool" where
  "hasRacePlantDemand demands \<longleftrightarrow>
     list_ex (\<lambda>d. dem_GoalID d = raceActionGoal \<and> dem_Source d = ''race_task'' \<and>
                 dem_Kind d = DemandKindFlower \<and> 0 < dem_Missing d) demands"

definition racePlantHarvestFlowerID :: "game_state \<Rightarrow> demand list \<Rightarrow> time \<Rightarrow> int" where
  "racePlantHarvestFlowerID s demands now =
     (case List.find (\<lambda>d. isRaceDrivenFlowerDemand d \<and> 0 < dem_ItemID d) demands of
        Some d \<Rightarrow> dem_ItemID d
      | None \<Rightarrow>
          let taken = rv_Taken (FmlRaceAt s now)
          in if taken_HasTask taken \<and> taken_TaskType taken = raceTaskTypePlantHarvest \<and>
                0 < taken_ParamID taken
             then taken_ParamID taken else 0)"

section \<open>Operations on lands\<close>

abbreviation elvesPlantPriority :: int where "elvesPlantPriority \<equiv> 9800"
abbreviation elvesPlantHarvestPriority :: int where "elvesPlantHarvestPriority \<equiv> 10100"
abbreviation elvesNightHarvestPriority :: int where "elvesNightHarvestPriority \<equiv> 10200"

definition elvesPlantLandOp :: "int list \<Rightarrow> int \<Rightarrow> string \<Rightarrow> planned_op" where
  "elvesPlantLandOp landIDs flowerID reason =
     landOp (if 1 < length landIDs then RPCUsrLandPlantBatch else RPCUsrLandPlant)
       ''farm.plant'' ''plant'' reason elvesPlantPriority landIDs flowerID ''elves_plant'' ''elves_plant''"

definition elvesPlantPlantOps :: "garden \<Rightarrow> elves_plant_policy \<Rightarrow> int list \<Rightarrow> planned_op list" where
  "elvesPlantPlantOps g p empty0 =
     (if \<not> elvesPlantActive p \<or> empty0 = [] then []
      else
        let lands = Lands g;
            mainID = ep_MainFlowerId p;
            mainCount = length (filter (\<lambda>(i, l). int32 (lv_FlowerID l) = mainID) lands);
            needMain = nat (elvesPlantMainLandCount p (int (length lands)) - int mainCount);
            empty = sort empty0;
            main = take needMain empty;
            rest = drop needMain empty
        in (if main \<noteq> [] then [elvesPlantLandOp main mainID lit_elves_plant_main] else []) @
           (if rest \<noteq> [] then [elvesPlantLandOp rest (ep_SecondaryFlowerId p) lit_elves_plant_second] else []))"

definition blockedPlantDiagnosticOp :: "plant_assignment \<Rightarrow> planned_op" where
  "blockedPlantDiagnosticOp a =
     (let op = landOp RPCUsrLandPlant ''farm.plant'' ''plant'' (pa_Reason a) (pa_Priority a) []
                 (pa_FlowerID a) (pa_GoalID a) (pa_DemandID a)
      in op\<lparr>op_OperationID := op_OperationID op @ ''|demand='' @ pa_DemandID a,
            op_Status := PlanStatusBlocked, op_Executable := False, op_LandIDs := [],
            op_BlockedReasons := [pa_Reason a], op_BlockingStage := ''state''\<rparr>)"

text \<open>The loop over the executable assignments; \<open>free\<close> are the empty lands past the cursor.\<close>

fun plant_assignments :: "int list \<Rightarrow> plant_assignment list \<Rightarrow> planned_op list" where
  "plant_assignments free [] = []"
| "plant_assignments free (a # as) =
     (if free = [] then []
      else
        let picks = take (nat (pa_Count a)) free
        in landOp (if 1 < length picks then RPCUsrLandPlantBatch else RPCUsrLandPlant) ''farm.plant''
             ''plant'' (pa_Reason a) (pa_Priority a) picks (pa_FlowerID a) (pa_GoalID a) (pa_DemandID a) #
           plant_assignments (drop (nat (pa_Count a)) free) as)"

text \<open>
  What the pass over the lands knows: who drives the farm, the flower of the race, and the delay of
  a harvest for each land.
\<close>

record farm_pass =
  fp_raceDriven :: bool
  fp_elvesDriving :: bool
  fp_raceFlowerID :: int

definition farm_pass_of ::
  "game_state \<Rightarrow> plant_policy \<Rightarrow> demand list \<Rightarrow> time \<Rightarrow> bool \<Rightarrow> farm_pass" where
  "farm_pass_of s p demands now raceProgress =
     (let raceDriven = (hasRacePlantDemand demands \<or> raceProgress)
      in \<lparr>fp_raceDriven = raceDriven,
          fp_elvesDriving = (elvesPlantActive (pl_ElvesPlant p) \<and> \<not> raceDriven),
          fp_raceFlowerID = racePlantHarvestFlowerID s demands now\<rparr>)"

definition farm_delay :: "plant_policy \<Rightarrow> farm_pass \<Rightarrow> land_view \<Rightarrow> duration" where
  "farm_delay p fp land =
     (if fp_elvesDriving fp \<and> int32 (lv_FlowerID land) = ep_SecondaryFlowerId (pl_ElvesPlant p)
      then elvesPlantHarvestDelayForLand (pl_ElvesPlant p) land
      else if 0 < fp_raceFlowerID fp \<and> int32 (lv_FlowerID land) = fp_raceFlowerID fp then 0
      else pp_HarvestDelaySeconds (pl_Planting p) * second)"

definition lands_for :: "land_kind \<Rightarrow> garden \<Rightarrow> plant_policy \<Rightarrow> farm_pass \<Rightarrow> time \<Rightarrow> int list" where
  "lands_for kind g p fp now =
     filter (\<lambda>i. Recommend (land_at g i) now (farm_delay p fp (land_at g i)) = kind) (land_ids g)"

definition harvest_op :: "string \<Rightarrow> int \<Rightarrow> int list \<Rightarrow> string \<Rightarrow> planned_op" where
  "harvest_op reason priority landIDs goalID =
     landOp RPCUsrLandHarvest ''farm.harvest'' ''harvest'' reason priority landIDs 0 goalID goalID"

definition farm_harvest_ops :: "garden \<Rightarrow> plant_policy \<Rightarrow> farm_pass \<Rightarrow> time \<Rightarrow> planned_op list" where
  "farm_harvest_ops g p fp now =
     (let planting = pl_Planting p;
          elves = pl_ElvesPlant p;
          night = elvesNightHarvestLandIDs g elves now;
          harvest1 = filterOutLandIDs (lands_for KindHarvest g p fp now) night;
          secondary = (if fp_elvesDriving fp
            then filterOnlyFlowerLandIDs g harvest1 (ep_SecondaryFlowerId elves) else []);
          harvest2 = (if fp_elvesDriving fp
            then filterOutFlowerLandIDs g (filterOutLandIDs harvest1 secondary) (ep_MainFlowerId elves)
            else harvest1);
          harvest3 = (if fp_raceDriven fp \<and> \<not> pp_AutoHarvestEnabled planting \<and> 0 < fp_raceFlowerID fp
            then filterLandIDsByFlower g harvest2 (fp_raceFlowerID fp) else harvest2)
      in (if night \<noteq> []
          then [(harvest_op lit_elves_night elvesNightHarvestPriority night ''elves_plant'')
                  \<lparr>op_FeatureID := ''plant.elves_night_harvest''\<rparr>] else []) @
         (if secondary \<noteq> []
          then [(harvest_op lit_elves_secondary elvesPlantHarvestPriority secondary ''elves_plant'')
                  \<lparr>op_FeatureID := ''plant.elves_plant_harvest''\<rparr>] else []) @
         (if (pp_AutoHarvestEnabled planting \<or> fp_raceDriven fp) \<and> harvest3 \<noteq> []
          then [harvest_op (show_int (int (length harvest3)) @ '' ready lands'') 10000 harvest3 []] else []))"

definition farm_plant_ops ::
  "flower_catalog \<Rightarrow> elves_globals option \<Rightarrow> game_state \<Rightarrow> garden \<Rightarrow> plant_policy \<Rightarrow> demand list \<Rightarrow>
     farm_pass \<Rightarrow> time \<Rightarrow> planned_op list" where
  "farm_plant_ops cat globals s g p demands fp now =
     (let plant = lands_for KindPlant g p fp now
      in if plant = [] then []
         else if fp_elvesDriving fp then
           (if \<not> elvesPlantBlockedByPendingAid globals g now
            then elvesPlantPlantOps g (pl_ElvesPlant p) plant else [])
         else
           case planPlantAssignments cat s g (pl_Planting p) demands (int (length plant))
                  (\<not> pp_AutoEnabled (pl_Planting p)) of
             (executable, blockedDiagnostic) \<Rightarrow>
               plant_assignments plant executable @ map blockedPlantDiagnosticOp blockedDiagnostic)"

text \<open>The lands to water, in the order in which scarce drops are spent.\<close>

definition farm_water_lands ::
  "elves_globals option \<Rightarrow> garden \<Rightarrow> plant_policy \<Rightarrow> farm_pass \<Rightarrow> time \<Rightarrow> bool \<Rightarrow> int list" where
  "farm_water_lands globals g p fp now raceProgress =
     (let elves = pl_ElvesPlant p;
          water0 = lands_for KindWater g p fp now;
          water1 = (if fp_elvesDriving fp then
              (let w = filterOutFlowerLandIDs g water0 (ep_MainFlowerId elves)
               in if elvesPlantBlockedByPendingAid globals g now
                  then filterOutFlowerLandIDs g w (ep_SecondaryFlowerId elves) else w)
            else water0)
      in if 0 < fp_raceFlowerID fp \<and> raceProgress then
           (if \<not> pp_AutoEnabled (pl_Planting p)
            then filterLandIDsByFlower g water1 (fp_raceFlowerID fp)
            else prioritizeLandIDsByFlower g water1 (fp_raceFlowerID fp))
         else water1)"

definition usable_drops :: "int list option \<Rightarrow> game_state \<Rightarrow> plant_policy \<Rightarrow> time \<Rightarrow> int" where
  "usable_drops restore s p now =
     fst (AvailableWaterDrops restore now s) - max 0 (pp_MinWaterDrops (pl_Planting p))"

definition farm_water_ops :: "int list option \<Rightarrow> game_state \<Rightarrow> plant_policy \<Rightarrow> time \<Rightarrow> int list \<Rightarrow> planned_op list" where
  "farm_water_ops restore s p now water =
     (let usable = usable_drops restore s p now
      in if water = [] \<or> usable \<le> 0 then []
         else
           let picks = take (nat usable) water
           in [if 1 < length picks
               then landOp RPCUsrLandWaterBatch ''farm.water'' ''water'' ''lands need water'' 8000 picks 0 [] []
               else landOp RPCUsrLandWater ''farm.water'' ''water'' ''land needs water'' 8000 picks 0 [] []])"

text \<open>\<open>farmOps\<close>; the last argument is whether a held race task drives the farm.\<close>

definition farmOps ::
  "int list option \<Rightarrow> flower_catalog \<Rightarrow> elves_globals option \<Rightarrow> game_state \<Rightarrow> garden \<Rightarrow> plant_policy option \<Rightarrow>
     demand list \<Rightarrow> time \<Rightarrow> bool \<Rightarrow> planned_op list" where
  "farmOps restore cat globals s g policy demands now raceProgress =
     (case policy of
        None \<Rightarrow> []
      | Some p \<Rightarrow>
          let fp = farm_pass_of s p demands now raceProgress;
              harvest = farm_harvest_ops g p fp now
          in if \<not> pp_AutoEnabled (pl_Planting p) \<and> \<not> fp_raceDriven fp \<and> \<not> fp_elvesDriving fp then harvest
             else harvest @ farm_plant_ops cat globals s g p demands fp now @
               farm_water_ops restore s p now (farm_water_lands globals g p fp now raceProgress))"

section \<open>Speed-up tickets\<close>

definition speed_before :: "garden \<Rightarrow> int \<Rightarrow> int \<Rightarrow> int \<Rightarrow> bool" where
  "speed_before g preferFlower i j \<longleftrightarrow>
     (if 0 < preferFlower \<and> (flower_at g i = preferFlower) \<noteq> (flower_at g j = preferFlower)
      then flower_at g i = preferFlower else i < j)"

definition speedUpCandidates ::
  "game_state \<Rightarrow> garden \<Rightarrow> time \<Rightarrow> int \<Rightarrow> int \<Rightarrow> int \<Rightarrow> int list \<times> int" where
  "speedUpCandidates s g now flowerID preferFlower maxCount =
     (let available = get_or 0 (gs_inventory s) 1001
      in if available \<le> 0 then ([], 0)
         else
           let ids = stable_sort (speed_before g preferFlower) (map fst (filter (\<lambda>(i, l).
                 lv_State l = 2 \<and> to_unix_milli now < lv_NextTimeMs l \<and>
                 (0 < flowerID \<longrightarrow> int32 (lv_FlowerID l) = flowerID)) (Lands g)));
               want = min 5 (min (int (length ids)) available);
               want' = (if 0 < maxCount \<and> maxCount < want then maxCount else want)
           in (take (nat want') ids, want'))"

definition raceExpireSpeedupLead :: duration where "raceExpireSpeedupLead = 10 * minute"

definition raceExpireUrgentSpeedup :: "fml_race_taken \<Rightarrow> time \<Rightarrow> bool" where
  "raceExpireUrgentSpeedup taken now \<longleftrightarrow>
     (if taken_ExpireTime taken \<le> 0 \<or> taken_TargetCnt taken \<le> 0 \<or>
         taken_TargetCnt taken \<le> taken_FinishCnt taken then False
      else unix_milli (taken_ExpireTime taken) - raceExpireSpeedupLead \<le> now \<and>
        now < unix_milli (taken_ExpireTime taken))"

text \<open>\<open>useTicket\<close> is the policy's \<open>UseSpeedupTicketInTask\<close>.\<close>

definition raceSpeedupEnabledAt :: "game_state \<Rightarrow> race_policy option \<Rightarrow> bool \<Rightarrow> time \<Rightarrow> bool" where
  "raceSpeedupEnabledAt s pol useTicket now \<longleftrightarrow>
     (case pol of
        None \<Rightarrow> False
      | Some race \<Rightarrow>
          let taken = rv_Taken (FmlRaceAt s now)
          in if \<not> rp_Enabled race \<or> \<not> rp_AutoEnableModules race then False
             else if \<not> taken_HasTask taken \<or> taken_TaskType taken \<noteq> raceTaskTypePlantHarvest \<or>
                taken_TargetCnt taken \<le> taken_FinishCnt taken \<or>
                raceTakenBlocksProgress s (Some race) (FmlRaceAt s now)
                  \<lparr>gates_Customer = True, gates_Pearl = True, gates_Cultivate = True\<rparr> then False
             else if useTicket then True
             else raceExpireUrgentSpeedup taken now)"

definition speed_up_op :: "goal \<Rightarrow> string \<Rightarrow> int \<Rightarrow> int list \<Rightarrow> int \<Rightarrow> planned_op" where
  "speed_up_op goal reason priority lands n =
     (goal_op RPCUsrLandSpeedUpBatch goal ''speed_up'' reason priority 0 0 n)
       \<lparr>op_LandIDs := lands, op_ItemCost := [(1001, n)]\<rparr>"

definition maintenance_goal :: goal where
  "maintenance_goal = \<lparr>goal_ID = ''farm.maintenance'', goal_Category = CategoryPlant,
     goal_Domain = ''farm.maintenance'', goal_Label = lit_farm_maintenance, goal_Priority = 55\<rparr>"

text \<open>The speed-up part of \<open>maintenanceOperations\<close>; the daily allowance is what \<open>day_state\<close> shows.\<close>

definition maintenance_speed_up ::
  "game_state \<Rightarrow> garden \<Rightarrow> day_state \<Rightarrow> planting_policy \<Rightarrow> race_policy option \<Rightarrow> bool \<Rightarrow> time \<Rightarrow> planned_op list" where
  "maintenance_speed_up s g st planting race useTicket now =
     (let raceOn = raceSpeedupEnabledAt s race useTicket now
      in if \<not> pp_UseSpeedUpTicket planting \<and> \<not> raceOn then []
         else
           let raceFlower = (if raceOn then taken_ParamID (rv_Taken (FmlRaceAt s now)) else 0);
               flowerFilter = (if pp_UseSpeedUpTicket planting then 0 else raceFlower);
               preferFlower = (if pp_UseSpeedUpTicket planting then raceFlower else 0);
               remaining = (if 0 < pp_SpeedUpTicketMax planting
                 then pp_SpeedUpTicketMax planting - SpeedUpTicketsReservedToday now st
                 else pp_SpeedUpTicketMax planting)
           in if pp_SpeedUpTicketMax planting \<le> 0 \<or> 0 < remaining then
                (case speedUpCandidates s g now flowerFilter preferFlower remaining of (lands, n) \<Rightarrow>
                   if 0 < n then
                     [speed_up_op maintenance_goal
                        (if pp_UseSpeedUpTicket planting then lit_speed_up_lands
                         else if raceExpireUrgentSpeedup (rv_Taken (FmlRaceAt s now)) now \<and> \<not> useTicket
                         then lit_speed_up_expiring else lit_speed_up_race)
                        7400 lands n]
                   else [])
              else [])"

definition elves_speed_up_goal :: goal where
  "elves_speed_up_goal = \<lparr>goal_ID = ''farm.elves_plant'', goal_Category = CategoryPlant,
     goal_Domain = ''farm.speed_up'', goal_Label = lit_elves_plant, goal_Priority = 55\<rparr>"

text \<open>The catalogue's harvest limit and its bonus.\<close>

definition ResolveElvesSpawnCap :: "(int \<times> int) option \<Rightarrow> int \<Rightarrow> int" where
  "ResolveElvesSpawnCap limits policyCap =
     (if 0 < policyCap then policyCap
      else case limits of
          Some (harvestMax, addHarvestMax) \<Rightarrow>
            if 0 < harvestMax \<and> 0 < harvestMax + addHarvestMax then harvestMax + addHarvestMax else 30
        | None \<Rightarrow> 30)"

text \<open>\<open>produced\<close> is the number of lands that showed an elf this round.\<close>

definition elvesPlantSpeedUpOps ::
  "elves_globals option \<Rightarrow> (int \<times> int) option \<Rightarrow> int \<Rightarrow> game_state \<Rightarrow> garden \<Rightarrow> day_state \<Rightarrow> plant_policy \<Rightarrow> time \<Rightarrow>
     planned_op list" where
  "elvesPlantSpeedUpOps globals limits produced s g st plant now =
     (let p = pl_ElvesPlant plant; planting = pl_Planting plant
      in if \<not> elvesPlantActive p \<or> \<not> ep_UseSpeedUpTicket p then []
         else if elvesPlantBlockedByPendingAid globals g now then []
         else if ResolveElvesSpawnCap limits (ep_ElvesSpawnCap p) \<le> produced then []
         else
           let batchMax = pp_SpeedUpTicketMax planting;
               remaining = (if 0 < batchMax then batchMax - SpeedUpTicketsReservedToday now st else batchMax)
           in if 0 < batchMax \<and> remaining \<le> 0 then []
              else case speedUpCandidates s g now (ep_SecondaryFlowerId p) 0 remaining of (lands, n) \<Rightarrow>
                if n \<le> 0 then []
                else [(speed_up_op elves_speed_up_goal lit_elves_speed_up 7450 lands n)
                        \<lparr>op_FeatureID := ''plant.elves_plant_speed_up''\<rparr>])"

section \<open>Each land once, and for what it is ready\<close>

lemma landOp_fields [simp]:
  "op_LandIDs (landOp k d a r pr ids f gl dm) = ids" "op_Action (landOp k d a r pr ids f gl dm) = a"
  by (simp_all add: landOp_def enrichPlannedOp_def apply_spec_def Let_def zero_op_def split: option.split)

definition ops_lands :: "planned_op list \<Rightarrow> int list" where
  "ops_lands ops = concat (map op_LandIDs ops)"

lemma ops_lands_simps [simp]:
  "ops_lands [] = []" "ops_lands (op1 # ops) = op_LandIDs op1 @ ops_lands ops"
  "ops_lands (ops @ ops') = ops_lands ops @ ops_lands ops'"
  by (simp_all add: ops_lands_def)

text \<open>An operation that is left out when it has no lands.\<close>

lemma optional_lands: "(if ids \<noteq> [] then ids @ [] else []) = ids"
  by simp

lemma land_op_ids [simp]:
  "op_LandIDs (elvesPlantLandOp ids f r) = ids" "op_Action (elvesPlantLandOp ids f r) = ''plant''"
  "op_LandIDs (harvest_op r pr ids gl) = ids" "op_Action (harvest_op r pr ids gl) = ''harvest''"
  by (simp_all add: elvesPlantLandOp_def harvest_op_def)

lemma land_ids_ok: "gomap_ok (gd_lands g) \<Longrightarrow> distinct (land_ids g)" "set (land_ids g) = fst ` set (gd_lands g)"
  by (simp_all add: land_ids_def Lands_def gomap_ok_def)

definition lands_in :: "(land_view \<Rightarrow> bool) \<Rightarrow> garden \<Rightarrow> int set" where
  "lands_in P g = {i \<in> fst ` set (gd_lands g). P (land_at g i)}"

lemma lands_for_in:
  "set (lands_for KindHarvest g p fp now) \<subseteq> lands_in (\<lambda>l. ripe l now) g"
  "set (lands_for KindPlant g p fp now) = lands_in vacant g"
  "set (lands_for KindWater g p fp now) = lands_in thirsty g"
  by (auto simp: lands_for_def lands_in_def land_ids_ok Recommend_plant Recommend_water dest: Recommend_harvest)

lemma lands_for_distinct: "gomap_ok (gd_lands g) \<Longrightarrow> distinct (lands_for kind g p fp now)"
  by (simp add: lands_for_def land_ids_ok)

lemma kinds_disjoint:
  "\<not> (ripe l now \<and> vacant l)" "\<not> (ripe l now \<and> thirsty l)" "\<not> (vacant l \<and> thirsty l)"
  by (auto simp: ripe_def vacant_def thirsty_def)

text \<open>A stage of the pass: its operations have one action, on distinct lands that fit it.\<close>

definition stage_ok :: "string \<Rightarrow> (land_view \<Rightarrow> bool) \<Rightarrow> garden \<Rightarrow> planned_op list \<Rightarrow> bool" where
  "stage_ok action P g ops \<longleftrightarrow>
     distinct (ops_lands ops) \<and> set (ops_lands ops) \<subseteq> lands_in P g \<and> (\<forall>x \<in> set ops. op_Action x = action)"

lemma harvest_stage:
  assumes "gomap_ok (gd_lands g)"
  shows "stage_ok ''harvest'' (\<lambda>l. ripe l now) g (farm_harvest_ops g p fp now)"
proof -
  have h: "set (lands_for KindHarvest g p fp now) \<subseteq> lands_in (\<lambda>l. ripe l now) g"
    "distinct (lands_for KindHarvest g p fp now)"
    using lands_for_in lands_for_distinct [OF assms] by auto
  have n: "set (elvesNightHarvestLandIDs g (pl_ElvesPlant p) now) \<subseteq> lands_in (\<lambda>l. ripe l now) g"
    "distinct (elvesNightHarvestLandIDs g (pl_ElvesPlant p) now)"
    using land_ids_ok(1) [OF assms]
    by (auto simp: elvesNightHarvestLandIDs_def lands_in_def land_ids_ok Recommend_zero)
  define night where "night = elvesNightHarvestLandIDs g (pl_ElvesPlant p) now"
  define h1 where "h1 = filterOutLandIDs (lands_for KindHarvest g p fp now) night"
  define sec where "sec = (if fp_elvesDriving fp
      then filterOnlyFlowerLandIDs g h1 (ep_SecondaryFlowerId (pl_ElvesPlant p)) else [])"
  define h2 where "h2 = (if fp_elvesDriving fp
      then filterOutFlowerLandIDs g (filterOutLandIDs h1 sec) (ep_MainFlowerId (pl_ElvesPlant p)) else h1)"
  define h3 where "h3 = (if fp_raceDriven fp \<and> \<not> pp_AutoHarvestEnabled (pl_Planting p) \<and> 0 < fp_raceFlowerID fp
      then filterLandIDsByFlower g h2 (fp_raceFlowerID fp) else h2)"
  note d = night_def [symmetric] h1_def [symmetric] sec_def [symmetric] h2_def [symmetric] h3_def [symmetric]
  let ?on = "pp_AutoHarvestEnabled (pl_Planting p) \<or> fp_raceDriven fp"
  have lands: "ops_lands (farm_harvest_ops g p fp now) = night @ sec @ (if ?on then h3 else [])"
    unfolding farm_harvest_ops_def Let_def d by simp
  have act: "\<forall>x \<in> set (farm_harvest_ops g p fp now). op_Action x = ''harvest''"
    unfolding farm_harvest_ops_def Let_def d by auto
  have night: "set night \<subseteq> lands_in (\<lambda>l. ripe l now) g" "distinct night" using n by (simp_all add: night_def)
  have h1: "set h1 \<subseteq> lands_in (\<lambda>l. ripe l now) g" "distinct h1" "set h1 \<inter> set night = {}"
    using h by (auto simp: h1_def filterOutLandIDs_def)
  have sec: "set sec \<subseteq> set h1" "distinct sec" using h1 by (auto simp: sec_def filterOnlyFlowerLandIDs_def)
  have h2: "set h2 \<subseteq> set h1" "distinct h2" "set h2 \<inter> set sec = {}"
    using h1 by (auto simp: h2_def sec_def filterOutFlowerLandIDs_def filterOutLandIDs_def)
  have h3: "set h3 \<subseteq> set h2" "distinct h3" using h2 by (auto simp: h3_def filterLandIDsByFlower_def)
  have sub: "set sec \<subseteq> lands_in (\<lambda>l. ripe l now) g" "set h3 \<subseteq> lands_in (\<lambda>l. ripe l now) g"
    using sec h1 h2 h3 by blast+
  have dj: "set night \<inter> set sec = {}" "set night \<inter> set h3 = {}" "set sec \<inter> set h3 = {}"
    using sec h1 h2 h3 by blast+
  show ?thesis
    using night(1) night(2) sec(2) h3(2) sub dj act
    unfolding stage_ok_def lands by (simp add: Int_Un_distrib)
qed

lemma plant_assignments_lands:
  "\<exists>k. ops_lands (plant_assignments free as) = take k free"
proof (induction as arbitrary: free)
  case Nil
  then show ?case by (intro exI [of _ 0]) simp
next
  case (Cons a as)
  obtain k where "ops_lands (plant_assignments (drop (nat (pa_Count a)) free) as) =
      take k (drop (nat (pa_Count a)) free)" using Cons.IH by blast
  then show ?case
    by (intro exI [of _ "nat (pa_Count a) + k"]) (simp add: Let_def take_add)
qed

lemma plant_assignments_action: "x \<in> set (plant_assignments free as) \<Longrightarrow> op_Action x = ''plant''"
  by (induction free as rule: plant_assignments.induct) (auto simp: Let_def split: if_splits)

lemma diagnostic_lands [simp]:
  "op_LandIDs (blockedPlantDiagnosticOp a) = []" "op_Action (blockedPlantDiagnosticOp a) = ''plant''"
  "ops_lands (map blockedPlantDiagnosticOp as) = []"
  by (simp_all add: blockedPlantDiagnosticOp_def Let_def ops_lands_def)

lemma elvesPlantPlantOps_lands:
  "set (ops_lands (elvesPlantPlantOps g p empty0)) \<subseteq> set empty0"
  "distinct empty0 \<Longrightarrow> distinct (ops_lands (elvesPlantPlantOps g p empty0))"
  "\<forall>x \<in> set (elvesPlantPlantOps g p empty0). op_Action x = ''plant''"
proof -
  let ?n = "nat (elvesPlantMainLandCount p (int (length (Lands g))) -
      int (length (filter (\<lambda>(i, l). int32 (lv_FlowerID l) = ep_MainFlowerId p) (Lands g))))"
  have "ops_lands (elvesPlantPlantOps g p empty0) = (if \<not> elvesPlantActive p \<or> empty0 = [] then []
      else take ?n (sort empty0) @ drop ?n (sort empty0))"
    by (simp only: elvesPlantPlantOps_def Let_def if_distrib [of ops_lands] ops_lands_simps
        optional_lands land_op_ids)
  then have "ops_lands (elvesPlantPlantOps g p empty0) = [] \<or>
      ops_lands (elvesPlantPlantOps g p empty0) = sort empty0" by simp
  then show "set (ops_lands (elvesPlantPlantOps g p empty0)) \<subseteq> set empty0"
    "distinct empty0 \<Longrightarrow> distinct (ops_lands (elvesPlantPlantOps g p empty0))" by auto
  show "\<forall>x \<in> set (elvesPlantPlantOps g p empty0). op_Action x = ''plant''"
    by (auto simp: elvesPlantPlantOps_def Let_def)
qed

lemma plant_stage:
  assumes "gomap_ok (gd_lands g)"
  shows "stage_ok ''plant'' vacant g (farm_plant_ops cat globals s g p demands fp now)"
proof -
  let ?plant = "lands_for KindPlant g p fp now"
  have pl: "set ?plant = lands_in vacant g" "distinct ?plant"
    using lands_for_in lands_for_distinct [OF assms] by auto
  show ?thesis
  proof (cases "fp_elvesDriving fp")
    case True
    then show ?thesis
      using pl elvesPlantPlantOps_lands [where g = g and p = "pl_ElvesPlant p" and ?empty0.0 = ?plant]
      by (auto simp: stage_ok_def farm_plant_ops_def Let_def)
  next
    case False
    obtain ex bl where plan: "planPlantAssignments cat s g (pl_Planting p) demands (int (length ?plant))
        (\<not> pp_AutoEnabled (pl_Planting p)) = (ex, bl)" by fastforce
    obtain k where k: "ops_lands (plant_assignments ?plant ex) = take k ?plant"
      using plant_assignments_lands by blast
    have "set (take k ?plant) \<subseteq> lands_in vacant g" "distinct (take k ?plant)"
      using pl set_take_subset by (fastforce, simp)
    then show ?thesis
      using False plan k plant_assignments_action
      by (auto simp: stage_ok_def farm_plant_ops_def Let_def)
  qed
qed

lemma farm_water_lands_in:
  assumes "gomap_ok (gd_lands g)"
  shows "set (farm_water_lands globals g p fp now raceProgress) \<subseteq> lands_in thirsty g"
    and "distinct (farm_water_lands globals g p fp now raceProgress)"
proof -
  have w: "set (lands_for KindWater g p fp now) = lands_in thirsty g" "distinct (lands_for KindWater g p fp now)"
    using lands_for_in lands_for_distinct [OF assms] by auto
  have pr: "set (prioritizeLandIDsByFlower g ids f) = set ids"
    "distinct ids \<Longrightarrow> distinct (prioritizeLandIDsByFlower g ids f)" for ids f
    by (auto simp: prioritizeLandIDsByFlower_def Let_def)
  show "set (farm_water_lands globals g p fp now raceProgress) \<subseteq> lands_in thirsty g"
    "distinct (farm_water_lands globals g p fp now raceProgress)"
    using w by (auto simp: farm_water_lands_def Let_def pr filterOutFlowerLandIDs_def filterLandIDsByFlower_def)
qed

lemma water_ops_lands:
  "ops_lands (farm_water_ops restore s p now water) = take (nat (usable_drops restore s p now)) water"
  "\<forall>x \<in> set (farm_water_ops restore s p now water). op_Action x = ''water''"
  by (auto simp: farm_water_ops_def Let_def)

lemma water_stage:
  assumes "gomap_ok (gd_lands g)"
  shows "stage_ok ''water'' thirsty g
    (farm_water_ops restore s p now (farm_water_lands globals g p fp now raceProgress))"
  using farm_water_lands_in [OF assms, of globals p fp now raceProgress] set_take_subset
  by (fastforce simp: stage_ok_def water_ops_lands)

text \<open>
  C6.  In one plan of the farm no land is named twice, and every operation names owned
  lands that are ready for it: harvests name planted lands in bloom, or regrown for at least the five
  seconds of grace; planting names observed empty lands; watering names planted lands that wait for
  their first water.
\<close>

theorem farm_ops_fit:
  assumes "gomap_ok (gd_lands g)"
    and "ops = farmOps restore cat globals s g policy demands now raceProgress"
  shows "distinct (ops_lands ops) \<and>
    (\<forall>x \<in> set ops. \<forall>i \<in> set (op_LandIDs x). i \<in> fst ` set (gd_lands g) \<and>
       (op_Action x = ''harvest'' \<and> ripe (land_at g i) now \<or>
        op_Action x = ''plant'' \<and> vacant (land_at g i) \<or>
        op_Action x = ''water'' \<and> thirsty (land_at g i)))"
proof (cases policy)
  case None
  then show ?thesis using assms(2) by (simp add: farmOps_def)
next
  case (Some p)
  let ?fp = "farm_pass_of s p demands now raceProgress"
  let ?h = "farm_harvest_ops g p ?fp now"
  let ?p = "farm_plant_ops cat globals s g p demands ?fp now"
  let ?w = "farm_water_ops restore s p now (farm_water_lands globals g p ?fp now raceProgress)"
  have ops: "ops = ?h \<or> ops = ?h @ ?p @ ?w" using assms(2) Some by (auto simp: farmOps_def Let_def)
  note st = harvest_stage [OF assms(1), of now p ?fp] plant_stage [OF assms(1), of cat globals s p demands ?fp now]
    water_stage [OF assms(1), of restore s p now globals ?fp raceProgress]
  have disj: "lands_in (\<lambda>l. ripe l now) g \<inter> lands_in vacant g = {}"
    "lands_in (\<lambda>l. ripe l now) g \<inter> lands_in thirsty g = {}" "lands_in vacant g \<inter> lands_in thirsty g = {}"
    using kinds_disjoint by (auto simp: lands_in_def)
  have d: "distinct (ops_lands (?h @ ?p @ ?w))" "distinct (ops_lands ?h)"
    using st disj unfolding stage_ok_def by (auto simp: disjoint_iff) 
  have fit: "i \<in> lands_in P g" if "stage_ok a P g xs" "x \<in> set xs" "i \<in> set (op_LandIDs x)" for a P xs x i
    using that by (auto simp: stage_ok_def ops_lands_def)
  have act: "op_Action x = a" if "stage_ok a P g xs" "x \<in> set xs" for a P xs x
    using that by (simp add: stage_ok_def)
  show ?thesis
    using ops d fit [OF st(1)] fit [OF st(2)] fit [OF st(3)] act [OF st(1)] act [OF st(2)] act [OF st(3)]
    by (auto simp: lands_in_def)
qed

text \<open>Four lands: one in bloom, one empty, two thirsty; the race wants the flower of the thirsty ones.\<close>

definition plain_elves :: elves_plant_policy where
  "plain_elves = \<lparr>ep_Enabled = False, ep_MainFlowerId = 0, ep_SecondaryFlowerId = 0, ep_MainLandCount = 0,
     ep_UseSpeedUpTicket = False, ep_ElvesSpawnCap = 0, ep_HarvestDelaySeconds = 0,
     ep_NightHarvestEnabled = False\<rparr>"

definition sample_plants :: plant_policy where
  "sample_plants = \<lparr>pl_Planting = sample_planting, pl_ElvesPlant = plain_elves\<rparr>"

definition sample_farm :: "planned_op list" where
  "sample_farm = farmOps None sample_flower_catalog None sample_cultivated sample_garden (Some sample_plants)
     sample_demands hour True"

definition sample_pass :: farm_pass where
  "sample_pass = \<lparr>fp_raceDriven = True, fp_elvesDriving = False, fp_raceFlowerID = 23002\<rparr>"

lemma sample_farm_parts:
  "farm_pass_of sample_cultivated sample_plants sample_demands hour True = sample_pass"
  "farm_harvest_ops sample_garden sample_plants sample_pass hour =
     [harvest_op (show_int 1 @ '' ready lands'') 10000 [1001] []]"
  "farm_water_lands None sample_garden sample_plants sample_pass hour True = [1003, 1004]"
  "usable_drops None sample_cultivated sample_plants hour = 8"
proof -
  show "farm_pass_of sample_cultivated sample_plants sample_demands hour True = sample_pass" by code_simp
  have 1: "lands_for KindHarvest sample_garden sample_plants sample_pass hour = [1001]" by code_simp
  have 2: "elvesNightHarvestLandIDs sample_garden (pl_ElvesPlant sample_plants) hour = []" by code_simp
  have 3: "filterOutLandIDs [1001] [] = [1001]" by code_simp
  have 4: "pp_AutoHarvestEnabled (pl_Planting sample_plants)" by code_simp
  have 5: "fp_elvesDriving sample_pass = False" by code_simp
  show "farm_harvest_ops sample_garden sample_plants sample_pass hour =
     [harvest_op (show_int 1 @ '' ready lands'') 10000 [1001] []]"
    by (simp add: farm_harvest_ops_def Let_def 1 2 3 4 5)
  show "farm_water_lands None sample_garden sample_plants sample_pass hour True = [1003, 1004]" by code_simp
  show "usable_drops None sample_cultivated sample_plants hour = 8" by code_simp
qed

lemma sample_farm_eq:
  "sample_farm = harvest_op (show_int 1 @ '' ready lands'') 10000 [1001] [] #
     farm_plant_ops sample_flower_catalog None sample_cultivated sample_garden sample_plants sample_demands
       sample_pass hour @
     [landOp RPCUsrLandWaterBatch ''farm.water'' ''water'' ''lands need water'' 8000 [1003, 1004] 0 [] []]"
proof -
  have "pp_AutoEnabled (pl_Planting sample_plants)" by code_simp
  then show ?thesis
    by (simp add: sample_farm_def farmOps_def Let_def sample_farm_parts farm_water_ops_def)
qed

theorem farm_ops_fit_witness:
  "distinct (ops_lands sample_farm) \<and> 1001 \<in> set (ops_lands sample_farm) \<and> ripe (land_at sample_garden 1001) hour"
proof -
  define r where "r = show_int 1 @ '' ready lands''"
  have g: "gomap_ok (gd_lands sample_garden)" by code_simp
  have mem: "harvest_op r 10000 [1001] [] \<in> set sample_farm" by (simp add: sample_farm_eq r_def)
  have "1001 \<in> set (ops_lands sample_farm)" by (simp add: sample_farm_eq)
  moreover note fit = farm_ops_fit [OF g sample_farm_def]
  moreover have "ripe (land_at sample_garden 1001) hour"
    using bspec [OF conjunct2 [OF fit] mem] by simp
  ultimately show ?thesis by simp
qed

section \<open>Drops\<close>

lemma prioritize_split:
  "0 < f \<Longrightarrow> prioritizeLandIDsByFlower g ids f =
     filter (\<lambda>i. flower_at g i = f) ids @ filter (\<lambda>i. flower_at g i \<noteq> f) ids"
proof -
  assume f: "0 < f"
  have 1: "filter P ids @ filter (\<lambda>i. \<not> P i) ids = ids" if "length ids \<le> 1" for P :: "int \<Rightarrow> bool"
    using that by (cases ids) auto
  have 2: "filter P ids = [] \<Longrightarrow> filter (\<lambda>i. \<not> P i) ids = ids" "filter (\<lambda>i. \<not> P i) ids = [] \<Longrightarrow> filter P ids = ids"
    for P :: "int \<Rightarrow> bool" by (simp_all add: filter_empty_conv filter_id_conv)
  show ?thesis
    using f 1 [of "\<lambda>i. flower_at g i = f"] 2 [of "\<lambda>i. flower_at g i = f"]
    by (auto simp: prioritizeLandIDsByFlower_def Let_def)
qed

lemma take_first:
  assumes "i \<in> set (take k (xs @ ys))" "i \<notin> set xs" "j \<in> set xs"
  shows "j \<in> set (take k (xs @ ys))"
proof (cases "k \<le> length xs")
  case True
  then show ?thesis using assms(1,2) by (auto dest: in_set_takeD)
qed (use assms(3) in simp)

definition watered :: "planned_op list \<Rightarrow> int list" where
  "watered ops = ops_lands (filter (\<lambda>x. op_Action x = ''water'') ops)"

lemma watered_farm:
  assumes "gomap_ok (gd_lands g)"
  shows "watered (farmOps restore cat globals s g (Some p) demands now raceProgress) = [] \<or>
    watered (farmOps restore cat globals s g (Some p) demands now raceProgress) =
      take (nat (usable_drops restore s p now))
        (farm_water_lands globals g p (farm_pass_of s p demands now raceProgress) now raceProgress)"
proof -
  let ?fp = "farm_pass_of s p demands now raceProgress"
  have none: "filter (\<lambda>x. op_Action x = ''water'') (farm_harvest_ops g p ?fp now) = []"
    "filter (\<lambda>x. op_Action x = ''water'') (farm_plant_ops cat globals s g p demands ?fp now) = []"
    using harvest_stage [OF assms, of now p ?fp] plant_stage [OF assms, of cat globals s p demands ?fp now]
    by (auto simp: stage_ok_def filter_empty_conv)
  have all: "filter (\<lambda>x. op_Action x = ''water'') (farm_water_ops restore s p now w) =
      farm_water_ops restore s p now w" for w
    using water_ops_lands(2) by (simp add: filter_id_conv)
  show ?thesis
    by (simp add: watered_def farmOps_def Let_def none all water_ops_lands)
qed

text \<open>
  C12.  A plan waters no more lands than there are drops above the owner's reserve, and
  while a race task drives the farm it waters another crop only when every thirsty land of the race
  flower is watered as well.
\<close>

theorem water_reserve:
  assumes "gomap_ok (gd_lands g)"
    and "w = watered (farmOps restore cat globals s g (Some p) demands now raceProgress)"
  shows "(w \<noteq> [] \<longrightarrow> int (length w) + max 0 (pp_MinWaterDrops (pl_Planting p)) \<le>
      fst (AvailableWaterDrops restore now s)) \<and>
    (raceProgress \<and> 0 < racePlantHarvestFlowerID s demands now \<longrightarrow>
      (\<forall>i \<in> set w. flower_at g i \<noteq> racePlantHarvestFlowerID s demands now \<longrightarrow>
        (\<forall>j \<in> lands_in thirsty g. flower_at g j = racePlantHarvestFlowerID s demands now \<longrightarrow> j \<in> set w)))"
proof -
  let ?fp = "farm_pass_of s p demands now raceProgress"
  let ?f = "racePlantHarvestFlowerID s demands now"
  let ?u = "usable_drops restore s p now"
  let ?l = "farm_water_lands globals g p ?fp now raceProgress"
  have w: "w = [] \<or> w = take (nat ?u) ?l" using watered_farm [OF assms(1)] assms(2) by simp
  then have "w \<noteq> [] \<Longrightarrow> int (length w) \<le> ?u" by (auto simp: min_def split: if_splits)
  moreover have "j \<in> set w"
    if r: "raceProgress" "0 < ?f" and i: "i \<in> set w" "flower_at g i \<noteq> ?f"
      and j: "j \<in> lands_in thirsty g" "flower_at g j = ?f" for i j
  proof -
    let ?t = "lands_for KindWater g p ?fp now"
    have fp: "fp_raceFlowerID ?fp = ?f" "\<not> fp_elvesDriving ?fp"
      using r by (simp_all add: farm_pass_of_def Let_def)
    have l: "?l = (if pp_AutoEnabled (pl_Planting p) then
        filter (\<lambda>i. flower_at g i = ?f) ?t @ filter (\<lambda>i. flower_at g i \<noteq> ?f) ?t
        else filter (\<lambda>i. flower_at g i = ?f) ?t)"
      using r fp prioritize_split by (simp add: farm_water_lands_def Let_def filterLandIDsByFlower_def)
    have wt: "w = take (nat ?u) ?l" using w i by auto
    have "pp_AutoEnabled (pl_Planting p)"
      using i l wt by (auto dest: in_set_takeD split: if_splits)
    moreover have "j \<in> set (filter (\<lambda>i. flower_at g i = ?f) ?t)" using j lands_for_in(3) by auto
    ultimately show "j \<in> set w" using take_first i l wt by fastforce
  qed
  ultimately show ?thesis by (auto simp: usable_drops_def)
qed

theorem water_reserve_witness:
  "watered sample_farm = [1003, 1004] \<and>
   2 + max 0 (pp_MinWaterDrops sample_planting) \<le> fst (AvailableWaterDrops None hour sample_cultivated)"
proof -
  have g: "gomap_ok (gd_lands sample_garden)" by code_simp
  have "watered sample_farm = [] \<or> watered sample_farm = [1003, 1004]"
    using watered_farm [OF g, of None sample_flower_catalog None sample_cultivated sample_plants sample_demands
        hour True]
    by (simp add: sample_farm_def sample_farm_parts)
  moreover have "watered sample_farm \<noteq> []"
    by (simp add: sample_farm_eq watered_def)
  ultimately have w: "watered sample_farm = [1003, 1004]" by simp
  then show ?thesis
    using conjunct1 [OF water_reserve [OF g refl, of None sample_flower_catalog None sample_cultivated
          sample_plants sample_demands hour True]]
    by (simp add: sample_farm_def sample_plants_def)
qed

section \<open>Tickets\<close>

lemma speedUpCandidates_ok:
  assumes "gomap_ok (gd_lands g)" "speedUpCandidates s g now flowerID preferred maxCount = (lands, n)" "0 < n"
  shows "n = int (length lands) \<and> distinct lands \<and> n \<le> 5 \<and> n \<le> get_or 0 (gs_inventory s) 1001 \<and>
    (0 < maxCount \<longrightarrow> n \<le> maxCount) \<and>
    (\<forall>i \<in> set lands. lv_State (land_at g i) = 2 \<and> to_unix_milli now < lv_NextTimeMs (land_at g i) \<and>
       (0 < flowerID \<longrightarrow> flower_at g i = flowerID))"
proof -
  let ?P = "\<lambda>(i, l). lv_State l = 2 \<and> to_unix_milli now < lv_NextTimeMs l \<and>
      (0 < flowerID \<longrightarrow> int32 (lv_FlowerID l) = flowerID)"
  define ids where "ids = stable_sort (speed_before g preferred) (map fst (filter ?P (Lands g)))"
  have avail: "0 < get_or 0 (gs_inventory s) 1001"
    using assms(2,3) by (auto simp: speedUpCandidates_def Let_def split: if_splits)
  define want where "want = min 5 (min (int (length ids)) (get_or 0 (gs_inventory s) 1001))"
  define want' where "want' = (if 0 < maxCount \<and> maxCount < want then maxCount else want)"
  have na: "\<not> get_or 0 (gs_inventory s) 1001 \<le> 0" using avail by simp
  have "speedUpCandidates s g now flowerID preferred maxCount = (take (nat want') ids, want')"
    by (simp only: speedUpCandidates_def Let_def na if_False ids_def want_def want'_def)
  then have r: "lands = take (nat want') ids" "n = want'" using assms(2) by simp_all
  have le: "want' \<le> want" "0 < maxCount \<longrightarrow> want' \<le> maxCount" by (auto simp: want'_def)
  have d: "distinct ids"
  proof -
    have "mset ids = mset (map fst (filter ?P (Lands g)))" by (simp add: ids_def)
    moreover have "distinct (map fst (filter ?P (Lands g)))"
      using assms(1) by (simp add: Lands_def gomap_ok_def distinct_map_filter)
    ultimately show ?thesis using mset_eq_imp_distinct_iff by blast
  qed
  have growing: "lv_State (land_at g i) = 2 \<and> to_unix_milli now < lv_NextTimeMs (land_at g i) \<and>
      (0 < flowerID \<longrightarrow> flower_at g i = flowerID)" if "i \<in> set ids" for i
  proof -
    from that obtain l where l: "(i, l) \<in> set (gd_lands g)" "?P (i, l)"
      by (auto simp: ids_def Lands_def)
    then have "land_at g i = l" using assms(1) by (simp add: land_at_def get_or_def gomap_ok_def)
    then show ?thesis using l(2) by (simp add: flower_at_def)
  qed
  show ?thesis
    using r le d growing assms(3) by (auto simp: want_def dest: in_set_takeD)
qed

text \<open>All operations of a plan that spend speed-up tickets.\<close>

definition speed_up_plan ::
  "elves_globals option \<Rightarrow> (int \<times> int) option \<Rightarrow> int \<Rightarrow> game_state \<Rightarrow> garden \<Rightarrow> day_state \<Rightarrow> plant_policy \<Rightarrow>
     race_policy option \<Rightarrow> bool \<Rightarrow> time \<Rightarrow> planned_op list" where
  "speed_up_plan globals limits produced s g st p race useTicket now =
     elvesPlantSpeedUpOps globals limits produced s g st p now @
     maintenance_speed_up s g st (pl_Planting p) race useTicket now"

lemma speed_up_op_lands [simp]: "op_LandIDs (speed_up_op gl r pr lands n) = lands"
  by (simp add: speed_up_op_def)

lemma mem_guarded:
  "x \<in> set (if P then [] else if Q then if R then [y] else [] else []) \<longleftrightarrow> \<not> P \<and> Q \<and> R \<and> x = y"
  by auto

lemma speed_up_plan_lands:
  assumes "x \<in> set (speed_up_plan globals limits produced s g st p race useTicket now)"
  shows "\<exists>flower preferred m n. speedUpCandidates s g now flower preferred m = (op_LandIDs x, n) \<and> 0 < n \<and>
    (0 < pp_SpeedUpTicketMax (pl_Planting p) \<longrightarrow>
      0 < m \<and> m = pp_SpeedUpTicketMax (pl_Planting p) - SpeedUpTicketsReservedToday now st)"
proof -
  let ?max = "pp_SpeedUpTicketMax (pl_Planting p)"
  define left where "left = (if 0 < ?max then ?max - SpeedUpTicketsReservedToday now st else ?max)"
  have left: "0 < ?max \<longrightarrow> left = ?max - SpeedUpTicketsReservedToday now st" by (simp add: left_def)
  from assms consider "x \<in> set (elvesPlantSpeedUpOps globals limits produced s g st p now)"
    | "x \<in> set (maintenance_speed_up s g st (pl_Planting p) race useTicket now)"
    by (auto simp: speed_up_plan_def)
  then obtain f pr n where "speedUpCandidates s g now f pr left = (op_LandIDs x, n)" "0 < n" "0 < ?max \<longrightarrow> 0 < left"
  proof cases
    case 1
    obtain lands n where c: "speedUpCandidates s g now (ep_SecondaryFlowerId (pl_ElvesPlant p)) 0 left = (lands, n)"
      by fastforce
    have "op_LandIDs x = lands \<and> 0 < n \<and> (0 < ?max \<longrightarrow> 0 < left)"
      using 1 unfolding elvesPlantSpeedUpOps_def Let_def left_def [symmetric] c
      by (auto split: if_splits)
    then show thesis using that c by blast
  next
    case 2
    let ?on = "raceSpeedupEnabledAt s race useTicket now"
    define rf where "rf = (if ?on then taken_ParamID (rv_Taken (FmlRaceAt s now)) else 0)"
    define ff where "ff = (if pp_UseSpeedUpTicket (pl_Planting p) then 0 else rf)"
    define pf where "pf = (if pp_UseSpeedUpTicket (pl_Planting p) then rf else 0)"
    obtain lands n where c: "speedUpCandidates s g now ff pf left = (lands, n)" by fastforce
    have "?max \<le> 0 \<or> 0 < left" "0 < n" "op_LandIDs x = lands"
      using 2 unfolding maintenance_speed_up_def Let_def left_def [symmetric] rf_def [symmetric]
        ff_def [symmetric] pf_def [symmetric] c prod.case mem_guarded
      by auto
    then have "op_LandIDs x = lands \<and> 0 < n \<and> (0 < ?max \<longrightarrow> 0 < left)" by auto
    then show thesis using that c by blast
  qed
  then show ?thesis using left by blast
qed

text \<open>
  C15.  A planned speed-up names distinct growing lands, at most five and at
  most as many as tickets are owned.  While no statement has failed since the account started, the
  guard in front of the request allows it: what the planner leaves out of its own accord is what the
  table would refuse.
\<close>

theorem planned_speed_up_granted:
  assumes "ticket_run accountID t row st log False" "t \<le> now" "0 < accountID"
    and "gomap_ok (gd_lands g)"
    and "x \<in> set (speed_up_plan globals limits produced s g st p race useTicket now)"
    and "reserveSpeedUpTickets (pp_SpeedUpTicketMax (pl_Planting p)) True SqlOk accountID now
           (int (length (op_LandIDs x))) row st = (row', st', ok)"
  shows "ok \<and> distinct (op_LandIDs x) \<and> 0 < length (op_LandIDs x) \<and> length (op_LandIDs x) \<le> 5 \<and>
    int (length (op_LandIDs x)) \<le> get_or 0 (gs_inventory s) 1001 \<and>
    (\<forall>i \<in> set (op_LandIDs x). lv_State (land_at g i) = 2 \<and> to_unix_milli now < lv_NextTimeMs (land_at g i))"
proof -
  obtain flower preferred m n where c: "speedUpCandidates s g now flower preferred m = (op_LandIDs x, n)" "0 < n"
    "0 < pp_SpeedUpTicketMax (pl_Planting p) \<longrightarrow>
      0 < m \<and> m = pp_SpeedUpTicketMax (pl_Planting p) - SpeedUpTicketsReservedToday now st"
    using speed_up_plan_lands [OF assms(5)] by blast
  note ok = speedUpCandidates_ok [OF assms(4) c(1,2)]
  have "ok"
  proof (cases "0 < pp_SpeedUpTicketMax (pl_Planting p)")
    case True
    then show ?thesis
      using tickets_granted [OF assms(1-3) True _ assms(6)] ok c(2,3) by simp
  next
    case False
    then show ?thesis using assms(6) by (simp add: reserveSpeedUpTickets_def)
  qed
  then show ?thesis using ok c(2) by auto
qed

text \<open>Three tickets of the five a day are gone: of three growing lands the plan speeds up two.\<close>

definition sample_growing :: garden where
  "sample_growing = sample_garden\<lparr>gd_lands :=
     map (\<lambda>i. (i, EmptyObserved\<lparr>lv_FlowerID := 23001, lv_State := 2, lv_NextTimeMs := 60000\<rparr>)) [3, 1, 2]\<rparr>"

definition ticket_plants :: plant_policy where
  "ticket_plants = \<lparr>pl_Planting = sample_planting\<lparr>pp_UseSpeedUpTicket := True, pp_SpeedUpTicketMax := 5\<rparr>,
     pl_ElvesPlant = plain_elves\<rparr>"

definition ticket_state :: game_state where
  "ticket_state = sample_state\<lparr>gs_inventory := [(1001, 9)]\<rparr>"

theorem planned_speed_up_granted_witness:
  "reserveSpeedUpTickets 5 True SqlOk 1 0 2 (sample_row 3) (sample_tickets 3) = (sample_row 5, sample_tickets 5, True) \<and>
   map op_LandIDs (speed_up_plan None None 0 ticket_state sample_growing (sample_tickets 3) ticket_plants None False 0) =
     [[1, 2]]"
proof -
  define x where "x = speed_up_op maintenance_goal lit_speed_up_lands 7400 [1, 2] 2"
  have c: "speedUpCandidates ticket_state sample_growing 0 0 0 2 = ([1, 2], 2)" by code_simp
  have d: "SpeedUpTicketsReservedToday 0 (sample_tickets 3) = 3" by code_simp
  have off: "elvesPlantActive plain_elves = False" by code_simp
  have plan: "speed_up_plan None None 0 ticket_state sample_growing (sample_tickets 3) ticket_plants None False 0 = [x]"
    by (simp add: speed_up_plan_def elvesPlantSpeedUpOps_def maintenance_speed_up_def ticket_plants_def off d c
        raceSpeedupEnabledAt_def x_def)
  have g: "gomap_ok (gd_lands sample_growing)" by code_simp
  have r: "reserveSpeedUpTickets 5 True SqlOk 1 0 2 (sample_row 3) (sample_tickets 3) =
      (sample_row 5, sample_tickets 5, True)" by code_simp
  have max: "pp_SpeedUpTicketMax (pl_Planting ticket_plants) = 5" "op_LandIDs x = [1, 2]"
    by (simp_all add: ticket_plants_def x_def)
  have "True \<and> distinct (op_LandIDs x)"
    using planned_speed_up_granted [OF sample_ticket_run(1) order_refl _ g, of x None None 0 ticket_state
        ticket_plants None False "sample_row 5" "sample_tickets 5" True] plan r max by simp
  then show ?thesis using r plan max by simp
qed

end
