(* ===== verification/Frames.thy ===== *)
theory Frames
  imports Prelude
begin

unbundle bit_operations_syntax

text \<open>
  The WebSocket taps of the capture proxy (\<open>internal/captureproxy/ws.go\<close>): a connection is copied
  byte by byte in whatever pieces the network delivers, and each direction is parsed on the side.
  The wire format of RFC 6455 is the specification here (\<open>ws_encode\<close>); the parser is proved to read
  back every frame of a stream, however the stream is cut.  Rendering a record as JSON and the
  decoder behind \<open>ProcessFrame\<close> are not modelled; what they are given is.
\<close>

section \<open>The parser\<close>

type_synonym byte = "8 word"

record ws_frame =
  wf_Fin :: bool
  wf_Opcode :: byte
  wf_Masked :: bool
  wf_Payload :: "byte list"

text \<open>The loop of the eight-byte length; an \<open>int64\<close> is a \<open>64 word\<close> read with its sign.\<close>

definition be_int64 :: "byte list \<Rightarrow> 64 word" where
  "be_int64 bs = fold (\<lambda>b len. push_bit 8 len OR ucast b) bs 0"

definition xor_mask :: "byte list \<Rightarrow> byte list \<Rightarrow> byte list" where
  "xor_mask key payload = map (\<lambda>(i, b). b XOR key ! (i mod 4)) (enumerate 0 payload)"

text \<open>Length and position after the length field; \<open>None\<close> while the field is incomplete.\<close>

definition ws_length :: "byte list \<Rightarrow> (int \<times> nat) option" where
  "ws_length buf =
     (let len7 = uint (buf ! 1 AND 0x7f)
      in if len7 = 126 then
           (if length buf < 4 then None
            else Some (sint (push_bit 8 (ucast (buf ! 2)) OR ucast (buf ! 3) :: 64 word), 4))
         else if len7 = 127 then
           (if length buf < 10 then None else Some (sint (be_int64 (take 8 (drop 2 buf))), 10))
         else Some (len7, 2))"

definition parseWSFrame :: "byte list \<Rightarrow> (ws_frame \<times> nat) option" where
  "parseWSFrame buf =
     (if length buf < 2 then None
      else let b0 = buf ! 0; b1 = buf ! 1 in
        case ws_length buf of
          None \<Rightarrow> None
        | Some (len, pos) \<Rightarrow>
            (if len < 0 then None
             else
               let masked = (b1 AND 0x80 \<noteq> 0) in
               if masked \<and> length buf < pos + 4 then None
               else
                 let key = (if masked then take 4 (drop pos buf) else [0, 0, 0, 0]);
                     pos' = (if masked then pos + 4 else pos)
                 in if int (length buf) - int pos' < len then None
                    else
                      let payload = take (nat len) (drop pos' buf)
                      in Some (\<lparr>wf_Fin = (b0 AND 0x80 \<noteq> 0), wf_Opcode = b0 AND 0x0f, wf_Masked = masked,
                                wf_Payload = (if masked then xor_mask key payload else payload)\<rparr>,
                               pos' + nat len)))"

lemma ws_length_pos: "ws_length buf = Some (len, pos) \<Longrightarrow> 2 \<le> pos \<and> pos \<le> max 2 (length buf)"
  by (auto simp: ws_length_def Let_def split: if_splits)

lemma parse_used:
  assumes "parseWSFrame buf = Some (f, n)"
  shows "2 \<le> n \<and> n \<le> length buf"
  using assms ws_length_pos [of buf]
  by (auto simp: parseWSFrame_def Let_def split: if_splits option.splits)

section \<open>The tap\<close>

text \<open>
  What is written to the log: a frame with its number, what is stored of its payload and whether
  that is less than the whole, or the error of a buffer that grew too long.
\<close>

datatype ws_log = LogFrame nat ws_frame "byte list" bool | LogOverflow

record ws_parser =
  wp_buf :: "byte list"
  wp_max :: int
  wp_frameNo :: nat
  wp_log :: "ws_log list"

definition newWSFrameParser :: "int \<Rightarrow> ws_parser" where
  "newWSFrameParser max_bytes = \<lparr>wp_buf = [], wp_max = max_bytes, wp_frameNo = 0, wp_log = []\<rparr>"

definition logFrame :: "ws_frame \<Rightarrow> ws_parser \<Rightarrow> ws_parser" where
  "logFrame frame p =
     (let payload = wf_Payload frame; n = wp_frameNo p + 1;
          truncated = (0 < wp_max p \<and> wp_max p < int (length payload));
          stored = (if truncated then take (nat (wp_max p)) payload else payload)
      in p\<lparr>wp_frameNo := n, wp_log := wp_log p @ [LogFrame n frame stored truncated]\<rparr>)"

definition ws_buffer_limit :: nat where "ws_buffer_limit = 16 * 1024 * 1024"

text \<open>The loop of \<open>Feed\<close>; every frame uses at least two bytes of the buffer.\<close>

function drain :: "ws_parser \<Rightarrow> ws_parser" where
  "drain p =
     (case parseWSFrame (wp_buf p) of
        None \<Rightarrow>
          (if ws_buffer_limit < length (wp_buf p)
           then p\<lparr>wp_log := wp_log p @ [LogOverflow], wp_buf := []\<rparr> else p)
      | Some (frame, used) \<Rightarrow> drain (logFrame frame (p\<lparr>wp_buf := drop used (wp_buf p)\<rparr>)))"
  by pat_completeness auto
termination
proof (relation "measure (length \<circ> wp_buf)")
  fix p :: ws_parser and x frame used
  assume "parseWSFrame (wp_buf p) = Some x" "(frame, used) = x"
  then have "2 \<le> used \<and> used \<le> length (wp_buf p)" using parse_used by blast
  then show "(logFrame frame (p\<lparr>wp_buf := drop used (wp_buf p)\<rparr>), p) \<in> measure (length \<circ> wp_buf)"
    by (simp add: logFrame_def Let_def) linarith
qed simp

declare drain.simps [simp del]

definition Feed :: "byte list \<Rightarrow> ws_parser \<Rightarrow> ws_parser" where
  "Feed data p = drain (p\<lparr>wp_buf := wp_buf p @ data\<rparr>)"

definition wsOpcodeText :: "byte \<Rightarrow> string" where
  "wsOpcodeText op1 =
     (if op1 = 0 then ''continuation'' else if op1 = 1 then ''text'' else if op1 = 2 then ''binary''
      else if op1 = 8 then ''close'' else if op1 = 9 then ''ping'' else if op1 = 10 then ''pong''
      else ''unknown'')"

section \<open>The wire format\<close>

text \<open>A number in \<open>k\<close> bytes, most significant first.\<close>

fun be_bytes :: "nat \<Rightarrow> nat \<Rightarrow> byte list" where
  "be_bytes 0 n = []"
| "be_bytes (Suc k) n = be_bytes k (drop_bit 8 n) @ [of_nat n]"

lemma length_be_bytes [simp]: "length (be_bytes k n) = k"
  by (induction k arbitrary: n) simp_all

lemma be_int64_snoc: "be_int64 (bs @ [b]) = push_bit 8 (be_int64 bs) OR ucast b"
  by (simp add: be_int64_def)

lemma be_step: "push_bit 8 (of_nat (drop_bit 8 n)) OR ucast (of_nat n :: byte) = (of_nat n :: 64 word)"
  by (rule bit_word_eqI) (auto simp: bit_simps not_le)

lemma drop_bit_less: "n < 2 ^ (8 * Suc k) \<Longrightarrow> drop_bit 8 n < 2 ^ (8 * k)" for n :: nat
  by (simp add: drop_bit_eq_div div_less_iff_less_mult power_add algebra_simps)

lemma be_int64_be_bytes: "n < 2 ^ (8 * k) \<Longrightarrow> be_int64 (be_bytes k n) = of_nat n"
proof (induction k arbitrary: n)
  case 0
  then show ?case by (simp add: be_int64_def)
next
  case (Suc k)
  then show ?case using drop_bit_less [of n k] by (simp add: be_int64_snoc be_step)
qed

lemma sint_of_nat_64: "n < 2 ^ 63 \<Longrightarrow> sint (of_nat n :: 64 word) = int n"
  by (simp add: signed_of_nat signed_take_bit_int_eq_self)

definition mask_key_ok :: "byte list \<Rightarrow> bool" where "mask_key_ok key \<longleftrightarrow> length key = 4"

definition length_code :: "nat \<Rightarrow> nat" where
  "length_code n = (if n < 126 then n else if n < 2 ^ 16 then 126 else 127)"

definition length_field :: "nat \<Rightarrow> byte list" where
  "length_field n = (if n < 126 then [] else if n < 2 ^ 16 then be_bytes 2 n else be_bytes 8 n)"

definition ws_encode :: "byte list \<Rightarrow> ws_frame \<Rightarrow> byte list" where
  "ws_encode key f =
     (let n = length (wf_Payload f)
      in [(if wf_Fin f then 0x80 else 0) OR wf_Opcode f,
          (if wf_Masked f then 0x80 else 0) OR of_nat (length_code n)]
         @ length_field n
         @ (if wf_Masked f then key @ xor_mask key (wf_Payload f) else wf_Payload f))"

definition ws_valid :: "ws_frame \<Rightarrow> bool" where
  "ws_valid f \<longleftrightarrow> wf_Opcode f < 16 \<and> length (wf_Payload f) < 2 ^ 63"

section \<open>Reading back\<close>

lemma flag_byte:
  fixes x :: byte
  assumes "x AND m = x" "m AND 0x80 = 0"
  shows "((if b then 0x80 else 0) OR x) AND m = x"
    and "((if b then 0x80 else 0) OR x) AND 0x80 \<noteq> 0 \<longleftrightarrow> b"
proof -
  have x: "x AND 0x80 = 0" using assms by (metis and.assoc and_zero_eq)
  have m: "0x80 AND m = 0" using assms(2) by (simp add: and.commute)
  show "((if b then 0x80 else 0) OR x) AND m = x"
    using assms(1) m by (simp add: bit.conj_disj_distrib2)
  show "((if b then 0x80 else 0) OR x) AND 0x80 \<noteq> 0 \<longleftrightarrow> b"
    using x by (simp add: bit.conj_disj_distrib2)
qed

lemma high_bit: "(0x7f :: byte) AND 0x80 = 0" "(0x0f :: byte) AND 0x80 = 0"
  by simp_all

lemma opcode_byte: "x < 16 \<Longrightarrow> x AND 0x0f = x" for x :: byte
  using less_mask_eq [of x 4] by (simp add: mask_eq_exp_minus_1)

lemma length_code_byte: "length_code n < 128"
  by (simp add: length_code_def)

lemma length_byte:
  "(of_nat (length_code n) :: byte) AND 0x7f = of_nat (length_code n)"
  "uint (of_nat (length_code n) :: byte) = int (length_code n)"
proof -
  have u: "unat (of_nat (length_code n) :: byte) = length_code n"
    using length_code_byte [of n] by (simp add: unat_of_nat)
  then have "(of_nat (length_code n) :: byte) < 2 ^ 7"
    using length_code_byte [of n] by (simp add: word_less_nat_alt)
  from less_mask_eq [OF this] show "(of_nat (length_code n) :: byte) AND 0x7f = of_nat (length_code n)"
    by (simp add: mask_eq_exp_minus_1)
  show "uint (of_nat (length_code n) :: byte) = int (length_code n)"
    using u by (metis uint_nat)
qed

lemma length_xor_mask [simp]: "length (xor_mask key p) = length p"
  by (simp add: xor_mask_def)

lemma xor_mask_twice [simp]: "xor_mask key (xor_mask key p) = p"
  by (rule nth_equalityI) (simp_all add: xor_mask_def nth_enumerate_eq xor.assoc)

text \<open>The extended length read from its place in the buffer.\<close>

lemma ws_length_encoded:
  assumes "n < 2 ^ 63" "buf = b0 # (c OR of_nat (length_code n)) # length_field n @ rest"
    and "c = (if b then 0x80 else 0)"
  shows "ws_length buf = Some (int n, 2 + length (length_field n))"
proof -
  have c: "uint (buf ! 1 AND 0x7f) = int (length_code n)"
    using flag_byte(1) [OF length_byte(1) high_bit(1), where b = b] length_byte(2) [of n] by (simp add: assms(2,3))
  consider "n < 126" | "126 \<le> n" "n < 2 ^ 16" | "2 ^ 16 \<le> n" by linarith
  then show ?thesis
  proof cases
    case 1
    then show ?thesis using c by (simp add: ws_length_def length_code_def length_field_def)
  next
    case 2
    have be: "be_bytes 2 n = [of_nat (drop_bit 8 n), of_nat n]" by (simp add: numeral_2_eq_2)
    have "push_bit 8 (ucast (of_nat (drop_bit 8 n) :: byte)) OR ucast (of_nat n :: byte) = (of_nat n :: 64 word)"
      using be_int64_be_bytes [of n 2] 2 unfolding be by (simp add: be_int64_def)
    then show ?thesis
      using 2 c be sint_of_nat_64 [of n]
      by (simp add: ws_length_def assms(2) length_code_def length_field_def)
  next
    case 3
    have "be_int64 (be_bytes 8 n) = of_nat n" using assms(1) by (simp add: be_int64_be_bytes)
    moreover have "take 8 (drop 2 buf) = be_bytes 8 n"
      using 3 by (simp add: assms(2) length_field_def)
    ultimately show ?thesis
      using 3 c sint_of_nat_64 [OF assms(1)]
      by (simp add: ws_length_def assms(2) length_code_def length_field_def)
  qed
qed

lemma parse_encode:
  assumes "ws_valid f" "wf_Masked f \<Longrightarrow> mask_key_ok key"
  shows "parseWSFrame (ws_encode key f @ rest) = Some (f, length (ws_encode key f))"
proof -
  let ?n = "length (wf_Payload f)" and ?buf = "ws_encode key f @ rest"
  let ?c = "\<lambda>b. if b then 0x80 else 0 :: byte"
  have op1: "wf_Opcode f AND 0x0f = wf_Opcode f" using assms(1) opcode_byte by (simp add: ws_valid_def)
  note b0 = flag_byte [OF op1 high_bit(2), where b = "wf_Fin f"]
  note b1 = flag_byte [OF length_byte(1) [of ?n] high_bit(1), where b = "wf_Masked f"]
  have buf: "?buf = (?c (wf_Fin f) OR wf_Opcode f) # (?c (wf_Masked f) OR of_nat (length_code ?n)) #
      length_field ?n @
      ((if wf_Masked f then key @ xor_mask key (wf_Payload f) else wf_Payload f) @ rest)"
    by (simp add: ws_encode_def Let_def)
  have len: "ws_length ?buf = Some (int ?n, 2 + length (length_field ?n))"
    using assms(1) by (intro ws_length_encoded [OF _ buf refl]) (simp add: ws_valid_def)
  show ?thesis
  proof (cases "wf_Masked f")
    case True
    then have k: "length key = 4" using assms(2) by (simp add: mask_key_ok_def)
    have d: "drop (6 + length (length_field ?n)) (x # y # length_field ?n @ key @ z) = z" for x y z
      using k by (simp add: drop_Cons')
    show ?thesis
      using True k len b0 b1
      by (auto simp: parseWSFrame_def buf ws_encode_def Let_def d intro!: ws_frame.equality)
  next
    case False
    then show ?thesis
      using len b0 b1
      by (simp add: parseWSFrame_def buf ws_encode_def Let_def)
  qed
qed

section \<open>Streams in pieces\<close>

text \<open>
  The contract of a self-delimiting code: a word is read back whatever follows it, more bytes never
  change what has been read, and reading uses some of the buffer.  Its client is anyone who decodes
  a stream that arrives in pieces.
\<close>

locale stream_code =
  fixes enc :: "'w \<Rightarrow> 'b list"
    and val :: "'w \<Rightarrow> 'f"
    and good :: "'w \<Rightarrow> bool"
    and dec :: "'b list \<Rightarrow> ('f \<times> nat) option"
  assumes dec_enc: "good w \<Longrightarrow> dec (enc w @ rest) = Some (val w, length (enc w))"
    and dec_append: "dec buf = Some r \<Longrightarrow> dec (buf @ post) = Some r"
    and dec_used: "dec buf = Some (f, n) \<Longrightarrow> 0 < n \<and> n \<le> length buf"
begin

lemma dec_Nil: "dec [] = None"
  using dec_used [of "[]"] by (cases "dec []") auto

lemma dec_partial:
  assumes "good w" "enc w = buf @ post" "post \<noteq> []"
  shows "dec buf = None"
proof (rule ccontr)
  assume "dec buf \<noteq> None"
  then obtain f n where d: "dec buf = Some (f, n)" by auto
  have "dec (enc w) = Some (f, n)" using dec_append [OF d, of post] assms(2) by simp
  moreover have "dec (enc w) = Some (val w, length (enc w))" using dec_enc [OF assms(1), of "[]"] by simp
  ultimately show False using dec_used [OF d] assms(2,3) by simp
qed

text \<open>A prefix of a stream is some whole words and a tail that does not decode yet.\<close>

lemma stream_split:
  assumes "list_all good ws" "buf @ post = concat (map enc ws)"
  shows "\<exists>ws1 ws2 tail. ws = ws1 @ ws2 \<and> buf = concat (map enc ws1) @ tail \<and>
    tail @ post = concat (map enc ws2) \<and> dec tail = None \<and>
    (ws2 = [] \<and> tail = [] \<or> ws2 \<noteq> [] \<and> length tail < length (enc (hd ws2)))"
  using assms
proof (induction ws arbitrary: buf)
  case Nil
  then show ?case using dec_Nil by auto
next
  case (Cons w ws)
  show ?case
  proof (cases "length (enc w) \<le> length buf")
    case True
    then have "enc w = take (length (enc w)) buf"
      using Cons.prems(2) by (metis append_eq_conv_conj append_take_drop_id concat.simps(2) list.simps(9) take_append
          append_Nil2 diff_is_0_eq take_0)
    then obtain buf' where b: "buf = enc w @ buf'" by (metis append_take_drop_id)
    then have "buf' @ post = concat (map enc ws)" using Cons.prems(2) by simp
    moreover have "list_all good ws" using Cons.prems(1) by simp
    ultimately obtain ws1 ws2 tail where "ws = ws1 @ ws2" "buf' = concat (map enc ws1) @ tail"
      "tail @ post = concat (map enc ws2)" "dec tail = None"
      "ws2 = [] \<and> tail = [] \<or> ws2 \<noteq> [] \<and> length tail < length (enc (hd ws2))"
      using Cons.IH by blast
    then show ?thesis using b by (intro exI [of _ "w # ws1"] exI [of _ ws2] exI [of _ tail]) simp
  next
    case False
    then obtain m where m: "enc w = buf @ m"
      using Cons.prems(2) by (auto simp: append_eq_append_conv2 intro: sym)
    moreover have "m \<noteq> []" using False m by auto
    ultimately have "dec buf = None" using dec_partial [of w buf m] Cons.prems(1) by simp
    then show ?thesis
      using False Cons.prems(2) by (intro exI [of _ "[]"] exI [of _ "w # ws"] exI [of _ buf]) simp
  qed
qed

end

text \<open>What crosses the wire: a masking key and a frame.\<close>

definition wire_bytes :: "byte list \<times> ws_frame \<Rightarrow> byte list" where
  "wire_bytes = (\<lambda>(key, f). ws_encode key f)"

definition wire_ok :: "byte list \<times> ws_frame \<Rightarrow> bool" where
  "wire_ok = (\<lambda>(key, f). ws_valid f \<and> (wf_Masked f \<longrightarrow> mask_key_ok key))"

lemma ws_length_append:
  "ws_length buf = Some r \<Longrightarrow> 2 \<le> length buf \<Longrightarrow> ws_length (buf @ post) = Some r"
  by (auto simp: ws_length_def Let_def nth_append split: if_splits)

lemma parse_append:
  assumes "parseWSFrame buf = Some r"
  shows "parseWSFrame (buf @ post) = Some r"
proof -
  have n: "2 \<le> length buf" using assms by (auto simp: parseWSFrame_def split: if_splits)
  then have bytes: "(buf @ post) ! 0 = buf ! 0" "(buf @ post) ! Suc 0 = buf ! Suc 0"
    by (auto simp: nth_append)
  obtain len pos where l: "ws_length buf = Some (len, pos)"
    using assms n by (cases "ws_length buf") (auto simp: parseWSFrame_def Let_def)
  note l' = ws_length_append [OF l n, of post]
  show ?thesis
    using assms n
    by (auto simp: parseWSFrame_def l l' bytes Let_def split: if_splits)
qed

interpretation ws: stream_code wire_bytes snd wire_ok parseWSFrame
proof
  fix w :: "byte list \<times> ws_frame" and rest
  assume "wire_ok w"
  then show "parseWSFrame (wire_bytes w @ rest) = Some (snd w, length (wire_bytes w))"
    using parse_encode by (cases w) (auto simp: wire_ok_def wire_bytes_def)
next
  fix buf :: "byte list" and r post
  assume "parseWSFrame buf = Some r"
  then show "parseWSFrame (buf @ post) = Some r" by (rule parse_append)
next
  fix buf :: "byte list" and f n
  assume "parseWSFrame buf = Some (f, n)"
  then show "0 < n \<and> n \<le> length buf" using parse_used by fastforce
qed

section \<open>The tap logs the stream\<close>

definition log_entry :: "int \<Rightarrow> nat \<Rightarrow> ws_frame \<Rightarrow> ws_log" where
  "log_entry max_bytes n f =
     (if 0 < max_bytes \<and> max_bytes < int (length (wf_Payload f))
      then LogFrame n f (take (nat max_bytes) (wf_Payload f)) True
      else LogFrame n f (wf_Payload f) False)"

definition log_all :: "ws_frame list \<Rightarrow> ws_parser \<Rightarrow> ws_parser" where
  "log_all fs p = p\<lparr>wp_frameNo := wp_frameNo p + length fs,
     wp_log := wp_log p @ map (\<lambda>(n, f). log_entry (wp_max p) n f) (enumerate (wp_frameNo p + 1) fs)\<rparr>"

lemma logFrame_log_all: "log_all fs (logFrame f p) = log_all (f # fs) p"
  by (simp add: log_all_def logFrame_def log_entry_def Let_def)

lemma log_all_append: "log_all gs (log_all fs p) = log_all (fs @ gs) p"
  by (simp add: log_all_def enumerate_append_eq add.commute add.left_commute)

lemma log_all_buf: "log_all fs (p\<lparr>wp_buf := b\<rparr>) = (log_all fs p)\<lparr>wp_buf := b\<rparr>"
  by (simp add: log_all_def)

lemma drain_stream:
  assumes "list_all wire_ok ws" "wp_buf p = concat (map wire_bytes ws) @ tail"
    and "parseWSFrame tail = None" "length tail \<le> ws_buffer_limit"
  shows "drain p = (log_all (map snd ws) p)\<lparr>wp_buf := tail\<rparr>"
  using assms
proof (induction ws arbitrary: p)
  case Nil
  then show ?case by (simp add: drain.simps [of p] log_all_def)
next
  case (Cons w ws)
  let ?p = "p\<lparr>wp_buf := concat (map wire_bytes ws) @ tail\<rparr>"
  have "parseWSFrame (wp_buf p) = Some (snd w, length (wire_bytes w))"
    using ws.dec_enc [of w "concat (map wire_bytes ws) @ tail"] Cons.prems by simp
  then have "drain p = drain (logFrame (snd w) ?p)"
    using Cons.prems(2) by (subst drain.simps) simp
  also have "\<dots> = (log_all (map snd ws) (logFrame (snd w) ?p))\<lparr>wp_buf := tail\<rparr>"
    by (rule Cons.IH) (use Cons.prems in \<open>simp_all add: logFrame_def Let_def\<close>)
  finally show ?case by (simp add: logFrame_log_all log_all_buf)
qed

lemma feed_prefix:
  assumes "list_all wire_ok ws" "list_all (\<lambda>w. length (wire_bytes w) \<le> ws_buffer_limit) ws"
    and "concat chunks @ post = concat (map wire_bytes ws)" "wp_buf p = []"
  shows "\<exists>ws1 ws2 tail. ws = ws1 @ ws2 \<and> tail @ post = concat (map wire_bytes ws2) \<and>
    (ws2 = [] \<and> tail = [] \<or> ws2 \<noteq> [] \<and> length tail < length (wire_bytes (hd ws2))) \<and>
    fold Feed chunks p = (log_all (map snd ws1) p)\<lparr>wp_buf := tail\<rparr>"
  using assms(3)
proof (induction chunks arbitrary: post rule: rev_induct)
  case Nil
  have e: "log_all [] p = p" "p\<lparr>wp_buf := []\<rparr> = p" using assms(4) by (simp_all add: log_all_def)
  show ?case
  proof (cases ws)
    case Nil
    then show ?thesis using \<open>concat [] @ post = concat (map wire_bytes ws)\<close> e by auto
  next
    case (Cons w ws')
    have "length (wire_bytes w) > 0" by (cases w) (simp add: wire_bytes_def ws_encode_def Let_def)
    then show ?thesis
      using \<open>concat [] @ post = concat (map wire_bytes ws)\<close> e Cons
      by (intro exI [of _ "[]"] exI [of _ ws] exI [of _ "[]"]) simp
  qed
next
  case (snoc c chunks)
  have "concat chunks @ (c @ post) = concat (map wire_bytes ws)" using snoc.prems by simp
  from snoc.IH [OF this] obtain ws1 ws2 tail where 1: "ws = ws1 @ ws2"
    "tail @ c @ post = concat (map wire_bytes ws2)"
    "fold Feed chunks p = (log_all (map snd ws1) p)\<lparr>wp_buf := tail\<rparr>" by blast
  have ok: "list_all wire_ok ws2" using assms(1) 1(1) by simp
  have "(tail @ c) @ post = concat (map wire_bytes ws2)" using 1(2) by simp
  from ws.stream_split [OF ok this] obtain v1 v2 tail' where 2: "ws2 = v1 @ v2"
    "tail @ c = concat (map wire_bytes v1) @ tail'" "tail' @ post = concat (map wire_bytes v2)"
    "parseWSFrame tail' = None"
    "v2 = [] \<and> tail' = [] \<or> v2 \<noteq> [] \<and> length tail' < length (wire_bytes (hd v2))" by blast
  have lim: "length tail' \<le> ws_buffer_limit"
    using 2(5) assms(2) 1(1) 2(1) by (cases v2) auto
  have "fold Feed (chunks @ [c]) p = drain ((log_all (map snd ws1) p)\<lparr>wp_buf := tail @ c\<rparr>)"
    using 1(3) by (simp add: Feed_def)
  also have "\<dots> = (log_all (map snd v1) ((log_all (map snd ws1) p)\<lparr>wp_buf := tail @ c\<rparr>))\<lparr>wp_buf := tail'\<rparr>"
    by (rule drain_stream) (use ok 2 lim in simp_all)
  also have "\<dots> = (log_all (map snd (ws1 @ v1)) p)\<lparr>wp_buf := tail'\<rparr>"
    by (simp add: log_all_buf log_all_append)
  finally have "fold Feed (chunks @ [c]) p = (log_all (map snd (ws1 @ v1)) p)\<lparr>wp_buf := tail'\<rparr>" .
  moreover have "ws = (ws1 @ v1) @ v2" using 1(1) 2(1) by simp
  ultimately show ?case using 2(3,5) by blast
qed

text \<open>
  C19.  However the network cuts a stream of frames, the tap logs every frame exactly
  once, in order and numbered from one, with the payload unmasked and stored up to the limit, loses
  nothing and keeps nothing back, provided no single frame exceeds sixteen mebibytes.
\<close>

theorem stream_logged:
  assumes "list_all wire_ok ws" "list_all (\<lambda>w. length (wire_bytes w) \<le> ws_buffer_limit) ws"
    and "concat chunks = concat (map wire_bytes ws)"
    and "p = fold Feed chunks (newWSFrameParser max_bytes)"
  shows "wp_log p = map (\<lambda>(n, key, f). log_entry max_bytes n f) (enumerate 1 ws) \<and>
    wp_frameNo p = length ws \<and> wp_buf p = []"
proof -
  let ?p = "newWSFrameParser max_bytes"
  have "concat chunks @ [] = concat (map wire_bytes ws)" using assms(3) by simp
  from feed_prefix [OF assms(1,2) this, of ?p] obtain ws1 ws2 tail where r: "ws = ws1 @ ws2"
    "tail @ [] = concat (map wire_bytes ws2)"
    "ws2 = [] \<and> tail = [] \<or> ws2 \<noteq> [] \<and> length tail < length (wire_bytes (hd ws2))"
    "fold Feed chunks ?p = (log_all (map snd ws1) ?p)\<lparr>wp_buf := tail\<rparr>"
    by (auto simp: newWSFrameParser_def)
  have "ws2 = [] \<and> tail = []" using r(2,3) by (cases ws2) auto
  then have "p = (log_all (map snd ws) ?p)\<lparr>wp_buf := []\<rparr>" using r assms(4) by simp
  moreover have "map (\<lambda>(n, f). log_entry max_bytes n f) (enumerate 1 (map snd ws)) =
      map (\<lambda>(n, key, f). log_entry max_bytes n f) (enumerate 1 ws)"
    by (rule nth_equalityI) (simp_all add: nth_enumerate_eq split_def)
  ultimately show ?thesis by (simp add: log_all_def newWSFrameParser_def)
qed

text \<open>A masked and an unmasked text frame, cut in the middle of a header and of a payload.\<close>

definition sample_wire :: "(byte list \<times> ws_frame) list" where
  "sample_wire =
     [([1, 2, 3, 4], \<lparr>wf_Fin = True, wf_Opcode = 1, wf_Masked = True, wf_Payload = [72, 105, 33]\<rparr>),
      ([], \<lparr>wf_Fin = True, wf_Opcode = 1, wf_Masked = False, wf_Payload = [79, 75]\<rparr>)]"

theorem stream_logged_witness:
  "wp_log (fold Feed [[129], [131, 1, 2, 3, 4, 73], [107, 34, 129, 2, 79], [75]] (newWSFrameParser 2)) =
     [LogFrame 1 (snd (sample_wire ! 0)) [72, 105] True, LogFrame 2 (snd (sample_wire ! 1)) [79, 75] False]"
proof -
  let ?chunks = "[[129], [131, 1, 2, 3, 4, 73], [107, 34, 129, 2, 79], [75]] :: byte list list"
  have enc: "concat ?chunks = concat (map wire_bytes sample_wire)"
    by (simp add: sample_wire_def wire_bytes_def ws_encode_def length_code_def length_field_def
        xor_mask_def Let_def)
  have ok: "list_all wire_ok sample_wire"
    by (simp add: sample_wire_def wire_ok_def ws_valid_def mask_key_ok_def)
  have len: "list_all (\<lambda>w. length (wire_bytes w) \<le> ws_buffer_limit) sample_wire"
    by (simp add: sample_wire_def wire_bytes_def ws_encode_def length_code_def length_field_def
        ws_buffer_limit_def Let_def)
  from stream_logged [OF ok len enc refl, of 2] show ?thesis
    by (simp add: sample_wire_def log_entry_def)
qed

end
