(* ===== verification/Cooldown.thy ===== *)
theory Cooldown
  imports Ops
begin

text \<open>
  Back-off of failed operations (\<open>internal/runner/cooldown.go\<close>): a failed side operation is
  withheld for a time that doubles with each failure, under a key shared by all plans of the same
  work.  The map \<open>operationCooldowns\<close> of the runner is the state.
\<close>

definition sideOperationBaseCooldown :: duration where "sideOperationBaseCooldown = 60 * second"
definition sideOperationMaxCooldown :: duration where "sideOperationMaxCooldown = 10 * minute"
definition operationFailureRetention :: duration where "operationFailureRetention = 10 * minute"

lemmas cooldown_constants = sideOperationBaseCooldown_def sideOperationMaxCooldown_def
  operationFailureRetention_def duration_defs

record operation_cooldown =
  cd_OperationID :: string
  cd_Category :: string
  cd_Domain :: string
  cd_Lane :: string
  cd_Reason :: string
  cd_Until :: time
  cd_FailureCount :: int

definition zero_cooldown :: operation_cooldown where
  "zero_cooldown = \<lparr>cd_OperationID = [], cd_Category = [], cd_Domain = [], cd_Lane = [],
     cd_Reason = [], cd_Until = zero_time, cd_FailureCount = 0\<rparr>"

type_synonym cooldowns = "(string, operation_cooldown) gomap"

definition isRaceSyncOperation :: "planned_op \<Rightarrow> bool" where
  "isRaceSyncOperation op \<longleftrightarrow>
     op_Kind op = RPCFmlRaceGetTaskList \<or> op_Kind op = RPCFmlRaceEnter"

definition operationCooldownKey :: "planned_op \<Rightarrow> string" where
  "operationCooldownKey op =
     (if isRaceSyncOperation op then ''rpc:'' @ op_Kind op
      else let key = trim_space (op_CooldownKey op) in
        if key \<noteq> [] then key
        else if op_OperationID op \<noteq> [] then op_OperationID op
        else str_join ''|'' [op_Kind op, op_Domain op, op_Action op])"

text \<open>The loop of \<open>exponentialCooldown\<close>, by the number of iterations left.\<close>

fun cooldown_doubling :: "nat \<Rightarrow> duration \<Rightarrow> duration" where
  "cooldown_doubling 0 d = d"
| "cooldown_doubling (Suc n) d =
     (let d' = d * 2
      in if d' \<ge> sideOperationMaxCooldown then sideOperationMaxCooldown else cooldown_doubling n d')"

definition exponentialCooldown :: "int \<Rightarrow> duration" where
  "exponentialCooldown failures =
     (if failures \<le> 1 then sideOperationBaseCooldown
      else cooldown_doubling (nat (failures - 1)) sideOperationBaseCooldown)"

text \<open>An operation is absent (\<open>None\<close>) or given; farm operations are never cooled down.\<close>

definition operationCoolingDown ::
  "planned_op option \<Rightarrow> time \<Rightarrow> cooldowns \<Rightarrow> cooldowns \<times> operation_cooldown option" where
  "operationCoolingDown opo now cds =
     (case opo of None \<Rightarrow> (cds, None)
      | Some op \<Rightarrow>
        if op_Lane op = LaneFarm then (cds, None)
        else let key = operationCooldownKey op in
          case map_of cds key of
            None \<Rightarrow> (cds, None)
          | Some cd \<Rightarrow>
              if \<not> cd_Until cd > now
              then (if \<not> now < cd_Until cd + operationFailureRetention
                    then AList.delete key cds else cds, None)
              else (cds, Some cd))"

definition setSideOperationCooldown ::
  "planned_op option \<Rightarrow> time \<Rightarrow> string option \<Rightarrow> string \<Rightarrow> duration \<Rightarrow> cooldowns
     \<Rightarrow> cooldowns \<times> operation_cooldown" where
  "setSideOperationCooldown opo now err reason explicit cds =
     (case opo of None \<Rightarrow> (cds, zero_cooldown)
      | Some op \<Rightarrow>
        if op_Lane op = LaneFarm then (cds, zero_cooldown)
        else
          let reason1 = (case err of Some e \<Rightarrow> if reason = [] then e else reason | None \<Rightarrow> reason);
              reason2 = (if reason1 = [] then lit_op_failed else reason1);
              key = operationCooldownKey op;
              prev0 = get_or zero_cooldown cds key;
              prev = (if \<not> now < cd_Until prev0 + operationFailureRetention then zero_cooldown else prev0);
              failures = min (cd_FailureCount prev + 1) 32;
              dur = (if explicit \<le> 0
                     then let d = exponentialCooldown failures
                          in if isRaceSyncOperation op then min (d div 2) (5 * minute) else d
                     else explicit);
              cd = \<lparr>cd_OperationID = key, cd_Category = op_Category op, cd_Domain = op_Domain op,
                    cd_Lane = op_Lane op, cd_Reason = reason2, cd_Until = now + dur,
                    cd_FailureCount = failures\<rparr>
          in (AList.update key cd cds, cd))"

definition cooldownSideOperation ::
  "planned_op option \<Rightarrow> time \<Rightarrow> string option \<Rightarrow> string \<Rightarrow> duration \<Rightarrow> cooldowns
     \<Rightarrow> cooldowns \<times> planned_op option" where
  "cooldownSideOperation opo now err reason explicit cds =
     (case opo of None \<Rightarrow> (cds, None)
      | Some op \<Rightarrow>
        if op_Lane op = LaneFarm then (cds, Some op)
        else case setSideOperationCooldown (Some op) now err reason explicit cds of
          (cds', cd) \<Rightarrow>
            if cd_OperationID cd = [] then (cds', Some op)
            else (cds', Some (op\<lparr>op_CooldownUntil := cd_Until cd, op_CooldownReason := cd_Reason cd\<rparr>)))"

definition clearOperationCooldown :: "planned_op option \<Rightarrow> cooldowns \<Rightarrow> cooldowns" where
  "clearOperationCooldown opo cds =
     (case opo of None \<Rightarrow> cds | Some op \<Rightarrow> AList.delete (operationCooldownKey op) cds)"

definition snapshot_before :: "operation_cooldown \<Rightarrow> operation_cooldown \<Rightarrow> bool" where
  "snapshot_before a b \<longleftrightarrow>
     (if cd_Until a \<noteq> cd_Until b then cd_Until a < cd_Until b
      else cd_OperationID a < cd_OperationID b)"

definition operationCooldownSnapshots :: "time \<Rightarrow> cooldowns \<Rightarrow> cooldowns \<times> operation_cooldown list" where
  "operationCooldownSnapshots now cds =
     (filter (\<lambda>(key, cd). cd_Until cd > now \<or> now < cd_Until cd + operationFailureRetention) cds,
      stable_sort snapshot_before (map snd (filter (\<lambda>(key, cd). cd_Until cd > now) cds)))"

section \<open>The length of a cooldown\<close>

lemma cooldown_doubling_closed:
  assumes "0 < d" "d \<le> sideOperationMaxCooldown"
  shows "cooldown_doubling n d = min sideOperationMaxCooldown (d * 2 ^ n)"
  using assms
proof (induction n arbitrary: d)
  case 0
  then show ?case by simp
next
  case (Suc n)
  show ?case
  proof (cases "sideOperationMaxCooldown \<le> d * 2")
    case True
    have "d * 2 * 1 \<le> d * 2 * 2 ^ n" using Suc.prems(1) by (intro mult_left_mono) auto
    with True show ?thesis by (simp add: Let_def min_def mult.assoc)
  next
    case False
    then show ?thesis using Suc.IH [of "d * 2"] Suc.prems(1) by (simp add: Let_def mult.assoc)
  qed
qed

text \<open>The loop computes the capped exponential: sixty seconds, doubled per failure, at most ten minutes.\<close>

lemma exponentialCooldown_closed:
  "exponentialCooldown failures =
     min sideOperationMaxCooldown (sideOperationBaseCooldown * 2 ^ nat (failures - 1))"
proof (cases "failures \<le> 1")
  case True
  then show ?thesis by (simp add: exponentialCooldown_def cooldown_constants)
next
  case False
  then show ?thesis
    by (simp add: exponentialCooldown_def cooldown_doubling_closed cooldown_constants)
qed

lemma exponentialCooldown_bounds:
  "sideOperationBaseCooldown \<le> exponentialCooldown f \<and> exponentialCooldown f \<le> sideOperationMaxCooldown"
proof -
  have "sideOperationBaseCooldown * 1 \<le> sideOperationBaseCooldown * 2 ^ nat (f - 1)"
    by (intro mult_left_mono) (auto simp: cooldown_constants)
  then show ?thesis by (simp add: exponentialCooldown_closed) (simp add: cooldown_constants)
qed

lemma exponentialCooldown_mono: "f \<le> g \<Longrightarrow> exponentialCooldown f \<le> exponentialCooldown g"
proof -
  assume "f \<le> g"
  then have "(2::int) ^ nat (f - 1) \<le> 2 ^ nat (g - 1)" by (intro power_increasing) auto
  then have "sideOperationBaseCooldown * 2 ^ nat (f - 1) \<le> sideOperationBaseCooldown * 2 ^ nat (g - 1)"
    by (intro mult_left_mono) (auto simp: cooldown_constants)
  then show ?thesis by (simp add: exponentialCooldown_closed)
qed

section \<open>Recording a failure\<close>

definition cooling :: "planned_op \<Rightarrow> time \<Rightarrow> cooldowns \<Rightarrow> bool" where
  "cooling op now cds \<longleftrightarrow> snd (operationCoolingDown (Some op) now cds) \<noteq> None"

lemma cooling_iff:
  "cooling op now cds \<longleftrightarrow> op_Lane op \<noteq> LaneFarm \<and>
     (\<exists>cd. map_of cds (operationCooldownKey op) = Some cd \<and> now < cd_Until cd)"
  by (auto simp: cooling_def operationCoolingDown_def Let_def split: option.splits)

text \<open>What a lookup forgets is expired for good: no operation is cooling because of it.\<close>

lemma operationCoolingDown_keeps:
  assumes "operationCoolingDown opo t cds = (cds', r)" "t \<le> now"
  shows "cooling op now cds' = cooling op now cds"
  using assms
  by (auto simp: operationCoolingDown_def Let_def cooling_iff delete_conv' cooldown_constants
      split: option.splits if_splits)

lemma setSideOperationCooldown_entry:
  assumes "setSideOperationCooldown (Some op) now err reason explicit cds = (cds', cd)"
    and "op_Lane op \<noteq> LaneFarm"
  shows "cds' = AList.update (operationCooldownKey op) cd cds"
    and "cd_OperationID cd = operationCooldownKey op"
    and "cd_FailureCount cd =
      min ((if now < cd_Until (get_or zero_cooldown cds (operationCooldownKey op)) + operationFailureRetention
            then cd_FailureCount (get_or zero_cooldown cds (operationCooldownKey op)) else 0) + 1) 32"
    and "cd_Until cd = now + (if explicit \<le> 0
      then if isRaceSyncOperation op then min (exponentialCooldown (cd_FailureCount cd) div 2) (5 * minute)
           else exponentialCooldown (cd_FailureCount cd)
      else explicit)"
  using assms by (auto simp: setSideOperationCooldown_def Let_def zero_cooldown_def)

lemma setSideOperationCooldown_future:
  assumes "setSideOperationCooldown (Some op) now err reason explicit cds = (cds', cd)"
    and "op_Lane op \<noteq> LaneFarm"
  shows "now < cd_Until cd"
  using setSideOperationCooldown_entry(4) [OF assms] exponentialCooldown_bounds [of "cd_FailureCount cd"]
  by (auto simp: cooldown_constants min_def split: if_splits)

text \<open>
  A recorded failure withholds exactly the operations that share its key, from
  the failure until the recorded deadline, and changes nothing for the others; clearing the
  cooldown readmits them.
\<close>

lemma cooldown_exact:
  assumes "setSideOperationCooldown (Some op) now err reason explicit cds = (cds', cd)"
    and "op_Lane op \<noteq> LaneFarm"
  shows "now < cd_Until cd \<and>
    cooling op' t cds' = (if operationCooldownKey op' = operationCooldownKey op
                          then op_Lane op' \<noteq> LaneFarm \<and> t < cd_Until cd
                          else cooling op' t cds) \<and>
    cooling op' t (clearOperationCooldown (Some op) cds') =
      (operationCooldownKey op' \<noteq> operationCooldownKey op \<and> cooling op' t cds)"
  using setSideOperationCooldown_future [OF assms] setSideOperationCooldown_entry(1) [OF assms]
  by (auto simp: cooling_iff clearOperationCooldown_def update_conv' delete_conv')

text \<open>A first failure of a daily operation withholds it for a minute.\<close>

text \<open>A series of failures of one operation, without an explicit delay.\<close>

definition fail_all :: "planned_op \<Rightarrow> time list \<Rightarrow> cooldowns \<Rightarrow> cooldowns" where
  "fail_all op ts cds =
     fold (\<lambda>t cds. fst (setSideOperationCooldown (Some op) t None [] 0 cds)) ts cds"

lemma exponentialCooldown_saturates: "5 \<le> f \<Longrightarrow> exponentialCooldown f = sideOperationMaxCooldown"
  using exponentialCooldown_mono [of 5 f] exponentialCooldown_bounds [of f]
  by (simp add: exponentialCooldown_closed [of 5] cooldown_constants)

lemma exponentialCooldown_min32: "exponentialCooldown (min f 32) = exponentialCooldown f"
  by (cases "5 \<le> f") (simp_all add: exponentialCooldown_saturates min_def)

lemma fail_all_entry:
  assumes "op_Lane op \<noteq> LaneFarm" "\<not> isRaceSyncOperation op" "ts \<noteq> []"
    and "map_of cds (operationCooldownKey op) = None"
    and "successively (\<lambda>t t'. t' < t + 11 * minute) ts"
    and "zero_time + operationFailureRetention \<le> hd ts"
  shows "\<exists>cd. map_of (fail_all op ts cds) (operationCooldownKey op) = Some cd \<and>
           cd_FailureCount cd = min (int (length ts)) 32 \<and>
           cd_Until cd = last ts + exponentialCooldown (int (length ts))"
  using assms(3,5,6)
proof (induction ts rule: rev_induct)
  case Nil
  then show ?case by simp
next
  case (snoc t ts)
  let ?k = "operationCooldownKey op"
  let ?cds = "fail_all op ts cds"
  obtain cds' cd where st: "setSideOperationCooldown (Some op) t None [] 0 ?cds = (cds', cd)"
    by (cases "setSideOperationCooldown (Some op) t None [] 0 ?cds")
  have run: "fail_all op (ts @ [t]) cds = cds'" using st by (simp add: fail_all_def)
  note e = setSideOperationCooldown_entry [OF st assms(1)]
  have cnt: "cd_FailureCount cd = min (int (length (ts @ [t]))) 32"
  proof (cases "ts = []")
    case True
    then have "get_or zero_cooldown ?cds ?k = zero_cooldown"
      using assms(4) by (simp add: fail_all_def get_or_def)
    with e(3) show ?thesis using True by (simp add: zero_cooldown_def)
  next
    case False
    then obtain cd0 where cd0: "map_of ?cds ?k = Some cd0"
      "cd_FailureCount cd0 = min (int (length ts)) 32"
      "cd_Until cd0 = last ts + exponentialCooldown (int (length ts))"
      using snoc by (auto simp: successively_append_iff)
    have "t < last ts + 11 * minute" using snoc.prems(2) False by (simp add: successively_append_iff)
    then have "t < cd_Until cd0 + operationFailureRetention"
      using cd0(3) exponentialCooldown_bounds [of "int (length ts)"] by (simp add: cooldown_constants)
    then show ?thesis using e(3) cd0(1,2) by (simp add: get_or_def)
  qed
  have "cd_Until cd = t + exponentialCooldown (cd_FailureCount cd)"
    using e(4) assms(2) by simp
  then have "cd_Until cd = t + exponentialCooldown (int (length (ts @ [t])))"
    unfolding cnt exponentialCooldown_min32 .
  then show ?case using e(1) cnt run by (simp add: update_conv')
qed

text \<open>
  Failures that follow each other within eleven minutes accumulate: the
  n-th one withholds the operation for sixty seconds doubled n - 1 times, capped at ten minutes.
\<close>

lemma consecutive_failures:
  assumes "op_Lane op \<noteq> LaneFarm" "\<not> isRaceSyncOperation op" "ts \<noteq> []"
    and "map_of cds (operationCooldownKey op) = None"
    and "successively (\<lambda>t t'. t' < t + 11 * minute) ts"
    and "zero_time + operationFailureRetention \<le> hd ts"
  shows "cooling op now (fail_all op ts cds) \<longleftrightarrow>
    now < last ts + min (10 * minute) (60 * second * 2 ^ (length ts - 1))"
proof -
  obtain cd where cd: "map_of (fail_all op ts cds) (operationCooldownKey op) = Some cd"
    "cd_Until cd = last ts + exponentialCooldown (int (length ts))"
    using fail_all_entry [OF assms] by blast
  have "nat (int (length ts) - 1) = length ts - 1" by simp
  then have "cd_Until cd = last ts + min (10 * minute) (60 * second * 2 ^ (length ts - 1))"
    using cd(2) by (simp only: exponentialCooldown_closed sideOperationMaxCooldown_def
        sideOperationBaseCooldown_def)
  with cd(1) assms(1) show ?thesis by (simp add: cooling_iff)
qed

text \<open>Three failures a minute apart withhold the operation for four minutes after the last.\<close>

section \<open>Snapshots\<close>

interpretation snapshots: weak_order UNIV snapshot_before
  by unfold_locales (auto simp: snapshot_before_def split: if_splits)

text \<open>
  A snapshot lists exactly the cooldowns still running, earliest deadline
  first, and taking it does not release any operation.
\<close>

lemma snapshots_live_sorted:
  assumes "gomap_ok cds" "operationCooldownSnapshots now cds = (cds', out)"
  shows "(cd \<in> set out \<longleftrightarrow> (\<exists>key. map_of cds key = Some cd \<and> now < cd_Until cd)) \<and>
    sorted_wrt (\<lambda>a b. \<not> snapshot_before b a) out \<and>
    (\<forall>op. cooling op now cds' = cooling op now cds)"
proof (intro conjI allI)
  have out: "out = stable_sort snapshot_before (map snd (filter (\<lambda>(key, cd). cd_Until cd > now) cds))"
    and cds': "cds' = filter (\<lambda>(key, cd). cd_Until cd > now \<or>
        now < cd_Until cd + operationFailureRetention) cds"
    using assms(2) by (auto simp: operationCooldownSnapshots_def)
  show "cd \<in> set out \<longleftrightarrow> (\<exists>key. map_of cds key = Some cd \<and> now < cd_Until cd)"
    using assms(1) by (force simp: out gomap_ok_def)
  show "sorted_wrt (\<lambda>a b. \<not> snapshot_before b a) out"
    unfolding out by (rule snapshots.stable_sort_sorted) simp
  show "cooling op now cds' = cooling op now cds" for op
    using map_of_filter_gomap [OF assms(1), of "\<lambda>key cd. cd_Until cd > now \<or>
        now < cd_Until cd + operationFailureRetention"]
    by (auto simp: cooling_iff cds' split: option.splits if_splits)
qed

end
