(* ===== verification/GameGate.thy ===== *)
theory GameGate
  imports Prelude
begin

text \<open>
  The maintenance gate (\<open>internal/runner/game_gate.go\<close>), which tracks every piece of game I/O
  from admission to release, and the guard of identity probes
  (\<open>internal/apiserver/identity_probe_guard.go\<close>).  Both hand out a handle that must be used
  once.  A channel is the number of its \<open>make\<close>; closing a nil or a closed channel panics in Go,
  which is the result \<open>None\<close> of a release.
\<close>

section \<open>The gate\<close>

record game_gate =
  gg_blocked :: bool
  gg_next :: nat
  gg_work :: "(nat, bool) gomap"  \<comment> \<open>admitted work, and whether it has been cancelled\<close>
  gg_idle :: "nat option"         \<comment> \<open>the current idle channel\<close>
  gg_made :: nat                  \<comment> \<open>channels made so far\<close>
  gg_closed :: "nat list"         \<comment> \<open>channels closed so far\<close>
  gg_released :: "nat list"       \<comment> \<open>handles whose release has run (\<open>once\<close>)\<close>

definition zero_gate :: game_gate where
  "zero_gate = \<lparr>gg_blocked = False, gg_next = 0, gg_work = [], gg_idle = None, gg_made = 0, gg_closed = [],
     gg_released = []\<rparr>"

datatype gate_error = ErrMaintenance | ErrContext string | ErrAccountDeleting

definition gate_begin :: "string option \<Rightarrow> game_gate \<Rightarrow> game_gate \<times> (gate_error + nat)" where
  "gate_begin ctx_err g =
     (if gg_blocked g then (g, Inl ErrMaintenance)
      else case ctx_err of Some e \<Rightarrow> (g, Inl (ErrContext e))
      | None \<Rightarrow>
          let g1 = (if gg_work g = [] then g\<lparr>gg_idle := Some (gg_made g + 1), gg_made := gg_made g + 1\<rparr> else g);
              i = gg_next g + 1
          in (g1\<lparr>gg_next := i, gg_work := AList.update i False (gg_work g)\<rparr>, Inr i))"

text \<open>The release function of handle \<open>i\<close>.\<close>

definition gate_release :: "nat \<Rightarrow> game_gate \<Rightarrow> game_gate option" where
  "gate_release i g =
     (if i \<in> set (gg_released g) then Some g
      else
        let work = AList.delete i (gg_work g);
            g1 = g\<lparr>gg_released := i # gg_released g, gg_work := work\<rparr>
        in if work = []
           then (case gg_idle g of
                   None \<Rightarrow> None
                 | Some c \<Rightarrow> if c \<in> set (gg_closed g) then None else Some (g1\<lparr>gg_closed := c # gg_closed g\<rparr>))
           else Some g1)"

definition gate_block :: "game_gate \<Rightarrow> game_gate" where
  "gate_block g = g\<lparr>gg_blocked := True, gg_work := map (\<lambda>(i, c). (i, True)) (gg_work g)\<rparr>"

definition gate_open :: "game_gate \<Rightarrow> game_gate" where
  "gate_open g = g\<lparr>gg_blocked := False\<rparr>"

definition gate_status :: "game_gate \<Rightarrow> bool \<times> nat" where
  "gate_status g = (gg_blocked g, length (gg_work g))"

text \<open>
  \<open>wait\<close> returns at once when nothing is tracked; otherwise it has captured the idle channel, and is
  blocked until that channel, and no other, is closed (or its own context ends).
\<close>

datatype gate_answer = Returns | BlockedOn "nat option"

definition gate_wait :: "game_gate \<Rightarrow> gate_answer" where
  "gate_wait g = (if length (gg_work g) = 0 then Returns else BlockedOn (gg_idle g))"

fun gate_woken :: "nat option \<Rightarrow> game_gate \<Rightarrow> bool" where
  "gate_woken None g = False"
| "gate_woken (Some c) g = (c \<in> set (gg_closed g))"

text \<open>
  \<open>beginGameWork\<close>: the gate of the daemon, then the gate of the account; both may be absent.  The
  account's gate is given the context the daemon's gate derived, whose state by then, \<open>work_err\<close>, may
  be worse than that of the caller's, \<open>ctx_err\<close>: a block in between cancels it.  The result holds the
  handles the combined release gives back, the account's first.
\<close>

definition beginGameWork ::
  "string option \<Rightarrow> string option \<Rightarrow> game_gate option \<Rightarrow> game_gate option
     \<Rightarrow> (game_gate option \<times> game_gate option \<times> (gate_error + nat option \<times> nat option)) option" where
  "beginGameWork ctx_err work_err daemon account =
     (case (case daemon of
              None \<Rightarrow> (None, Inr None)
            | Some g \<Rightarrow> (case gate_begin ctx_err g of
                (g', Inl e) \<Rightarrow> (Some g', Inl e) | (g', Inr i) \<Rightarrow> (Some g', Inr (Some i)))) of
        (daemon', Inl e) \<Rightarrow> Some (daemon', account, Inl e)
      | (daemon', Inr di) \<Rightarrow>
          (case account of
             Some a \<Rightarrow>
               (case gate_begin work_err a of
                  (a', Inr ai) \<Rightarrow> Some (daemon', Some a', Inr (Some ai, di))
                | (a', Inl e) \<Rightarrow>
                    map_option
                      (\<lambda>d. (d, Some a', Inl (if e = ErrMaintenance then ErrAccountDeleting else e)))
                      (case (daemon', di) of
                         (Some g, Some i) \<Rightarrow> map_option Some (gate_release i g)
                       | _ \<Rightarrow> Some daemon'))
           | None \<Rightarrow>
               (case work_err of Some e \<Rightarrow> Some (daemon', None, Inl (ErrContext e))
                | None \<Rightarrow> Some (daemon', None, Inr (None, di)))))"

section \<open>Runs of a gate\<close>

text \<open>
  A run of any number of goroutines, with the handles it has issued and its blocked waiters: each
  holds the channel it captured and the work that was tracked at that moment.  A release may be called
  again.
\<close>

type_synonym waiter = "nat option \<times> nat list"

inductive gate_run :: "game_gate \<Rightarrow> nat list \<Rightarrow> waiter list \<Rightarrow> bool" where
  start: "gate_run zero_gate [] []"
| admit: "gate_run g hs ws \<Longrightarrow> gate_begin ctx_err g = (g', Inr i) \<Longrightarrow> gate_run g' (i # hs) ws"
| refused: "gate_run g hs ws \<Longrightarrow> gate_begin ctx_err g = (g', Inl e) \<Longrightarrow> gate_run g' hs ws"
| release: "gate_run g hs ws \<Longrightarrow> i \<in> set hs \<Longrightarrow> gate_release i g = Some g' \<Longrightarrow> gate_run g' hs ws"
| block: "gate_run g hs ws \<Longrightarrow> gate_run (gate_block g) hs ws"
| unblock: "gate_run g hs ws \<Longrightarrow> gate_run (gate_open g) hs ws"
| await: "gate_run g hs ws \<Longrightarrow> gate_wait g = BlockedOn c \<Longrightarrow> gate_run g hs ((c, map fst (gg_work g)) # ws)"

definition gate_ok :: "game_gate \<Rightarrow> nat list \<Rightarrow> bool" where
  "gate_ok g hs \<longleftrightarrow>
     gomap_ok (gg_work g) \<and> (\<forall>i \<in> set hs. i \<le> gg_next g) \<and>
     fst ` set (gg_work g) = set hs - set (gg_released g) \<and> set (gg_released g) \<subseteq> set hs \<and>
     (\<forall>c \<in> set (gg_closed g). c \<le> gg_made g) \<and> (\<forall>c. gg_idle g = Some c \<longrightarrow> c \<le> gg_made g) \<and>
     (gg_work g \<noteq> [] \<longrightarrow> (\<exists>c. gg_idle g = Some c \<and> c \<notin> set (gg_closed g)))"

text \<open>
  A waiter's channel is the current one of a busy gate, with all the work it saw tracked or released,
  or it has been closed, with that work released.
\<close>

definition waiter_ok :: "game_gate \<Rightarrow> waiter \<Rightarrow> bool" where
  "waiter_ok g w \<longleftrightarrow>
     (if gate_woken (fst w) g then set (snd w) \<subseteq> set (gg_released g)
      else gg_work g \<noteq> [] \<and> fst w = gg_idle g \<and>
        set (snd w) \<subseteq> fst ` set (gg_work g) \<union> set (gg_released g))"

lemma update_not_Nil: "AList.update k v m \<noteq> []"
  by (cases m) auto

lemma delete_keys: "fst ` set (AList.delete i m) = fst ` set m - {i}"
  by (force simp: AList.delete_eq)

lemma gate_release_ok:
  assumes "gate_ok g hs" "i \<in> set hs"
  obtains g' where "gate_release i g = Some g'" "gate_ok g' hs" "i \<in> set (gg_released g')"
    "\<forall>w. waiter_ok g w \<longrightarrow> waiter_ok g' w"
proof (cases "i \<in> set (gg_released g)")
  case True
  then show ?thesis using assms that by (simp add: gate_release_def)
next
  case False
  then have i: "i \<in> fst ` set (gg_work g)" using assms by (simp add: gate_ok_def)
  then obtain c where idle: "gg_idle g = Some c" "c \<notin> set (gg_closed g)" using assms by (auto simp: gate_ok_def)
  have keys: "fst ` set (AList.delete i (gg_work g)) = set hs - insert i (set (gg_released g))"
    using assms(1) unfolding gate_ok_def delete_keys by blast
  let ?g1 = "g\<lparr>gg_released := i # gg_released g, gg_work := AList.delete i (gg_work g)\<rparr>"
  show ?thesis
  proof (cases "AList.delete i (gg_work g) = []")
    case True
    let ?g2 = "?g1\<lparr>gg_closed := c # gg_closed g\<rparr>"
    have only: "x = i" if "x \<in> fst ` set (gg_work g)" for x
      using that True delete_keys [of i "gg_work g"] by auto
    have "waiter_ok ?g2 w" if w: "waiter_ok g w" for w
    proof (cases "gate_woken (fst w) g")
      case True
      then have "gate_woken (fst w) ?g2" by (cases "fst w") simp_all
      with w True show ?thesis by (auto simp: waiter_ok_def)
    next
      case False
      with w idle have "fst w = Some c" "set (snd w) \<subseteq> fst ` set (gg_work g) \<union> set (gg_released g)"
        by (auto simp: waiter_ok_def)
      then show ?thesis using only by (fastforce simp: waiter_ok_def)
    qed
    then have "\<forall>w. waiter_ok g w \<longrightarrow> waiter_ok ?g2 w" by blast
    moreover have "gate_release i g = Some ?g2"
      using True False idle by (simp add: gate_release_def Let_def)
    moreover have "gate_ok ?g2 hs"
      using assms keys True idle by (simp add: gate_ok_def)
    ultimately show ?thesis by (intro that) simp_all
  next
    case nonempty: False
    have "gate_release i g = Some ?g1"
      using nonempty False by (simp add: gate_release_def Let_def)
    moreover have "gate_ok ?g1 hs" using assms keys nonempty idle by (auto simp: gate_ok_def)
    moreover have "gate_woken c' ?g1 = gate_woken c' g" for c' by (cases c') simp_all
    then have "\<forall>w. waiter_ok g w \<longrightarrow> waiter_ok ?g1 w"
      using nonempty delete_keys [of i "gg_work g"] by (auto simp: waiter_ok_def)
    ultimately show ?thesis by (intro that) simp_all
  qed
qed

lemma gate_begin_ok:
  assumes "gate_ok g hs" "gate_begin ctx_err g = (g', Inr i)"
  shows "gate_ok g' (i # hs) \<and> i \<notin> set hs \<and> \<not> gg_blocked g \<and> (\<forall>w. waiter_ok g w \<longrightarrow> waiter_ok g' w)"
proof -
  let ?g1 = "if gg_work g = [] then g\<lparr>gg_idle := Some (gg_made g + 1), gg_made := gg_made g + 1\<rparr> else g"
  have i: "i = gg_next g + 1" "\<not> gg_blocked g"
    and g': "g' = ?g1\<lparr>gg_next := i, gg_work := AList.update i False (gg_work g)\<rparr>"
    using assms(2) by (auto simp: gate_begin_def Let_def split: if_splits option.splits)
  have new: "i \<notin> set hs" using assms(1) i(1) by (auto simp: gate_ok_def)
  then have "i \<notin> set (gg_released g)" using assms(1) by (auto simp: gate_ok_def)
  then have "gate_ok g' (i # hs)"
    using assms(1) i(1)
    by (auto simp: gate_ok_def g' dom_update update_not_Nil)
  moreover have "gate_woken c g' = gate_woken c g" for c by (cases c) (simp_all add: g')
  then have "\<forall>w. waiter_ok g w \<longrightarrow> waiter_ok g' w"
    by (auto simp: waiter_ok_def g' dom_update update_not_Nil split: if_splits)
  ultimately show ?thesis using new i(2) by simp
qed

lemma gate_begin_refused: "gate_begin ctx_err g = (g', Inl e) \<Longrightarrow> g' = g"
  by (auto simp: gate_begin_def Let_def split: if_splits option.splits)

lemma gate_run_ok: "gate_run g hs ws \<Longrightarrow> gate_ok g hs \<and> (\<forall>w \<in> set ws. waiter_ok g w)"
proof (induction rule: gate_run.induct)
  case start
  then show ?case by (simp add: gate_ok_def zero_gate_def)
next
  case (admit g hs ws ctx_err g' i)
  then show ?case using gate_begin_ok by blast
next
  case (refused g hs ws ctx_err g' e)
  then show ?case using gate_begin_refused by blast
next
  case (release g hs ws i g')
  obtain g1 where "gate_release i g = Some g1" "gate_ok g1 hs" "\<forall>w. waiter_ok g w \<longrightarrow> waiter_ok g1 w"
    by (rule gate_release_ok [OF conjunct1 [OF release.IH] release.hyps(2)])
  then have "g1 = g'" using release.hyps(3) by simp
  then show ?case using \<open>gate_ok g1 hs\<close> \<open>\<forall>w. waiter_ok g w \<longrightarrow> waiter_ok g1 w\<close> release.IH by blast
next
  case (block g hs ws)
  have "gomap_ok (gg_work (gate_block g)) = gomap_ok (gg_work g)"
    by (simp add: gomap_ok_def gate_block_def split_def comp_def)
  moreover have keys: "fst ` set (gg_work (gate_block g)) = fst ` set (gg_work g)"
    by (simp add: gate_block_def image_image split_def)
  moreover have same: "gg_work (gate_block g) = [] \<longleftrightarrow> gg_work g = []" "gg_next (gate_block g) = gg_next g"
    "gg_released (gate_block g) = gg_released g" "gg_idle (gate_block g) = gg_idle g"
    "gg_closed (gate_block g) = gg_closed g" "gg_made (gate_block g) = gg_made g"
    by (simp_all add: gate_block_def)
  moreover have "gate_woken c (gate_block g) = gate_woken c g" for c by (cases c) (simp_all add: same)
  then have "waiter_ok (gate_block g) w = waiter_ok g w" for w by (simp add: waiter_ok_def keys same)
  ultimately show ?case using block.IH by (simp add: gate_ok_def)
next
  case (unblock g hs ws)
  have "gate_woken c (gate_open g) = gate_woken c g" for c by (cases c) (simp_all add: gate_open_def)
  then have "waiter_ok (gate_open g) w = waiter_ok g w" for w by (simp add: waiter_ok_def gate_open_def)
  then show ?case using unblock.IH by (simp add: gate_ok_def gate_open_def)
next
  case (await g hs ws c)
  then have "gg_work g \<noteq> []" "c = gg_idle g" by (auto simp: gate_wait_def split: if_splits)
  moreover from this(1) have "\<not> gate_woken (gg_idle g) g" using await.IH by (auto simp: gate_ok_def)
  ultimately have "waiter_ok g (c, map fst (gg_work g))" by (simp add: waiter_ok_def)
  then show ?case using await.IH by simp
qed

text \<open>
  C17.  In every interleaving, releasing an issued handle never panics, however often it is
  called, and the gate is drained exactly when every issued handle has been released.  A waiting
  maintenance command blocks exactly while something is tracked; once the gate has drained every
  command that was blocked is woken, even if new work is admitted after that, and none is woken before
  all the work it found has been released (one whose own context ends may give up earlier).
\<close>

theorem gate_drains:
  assumes "gate_run g hs ws"
  shows "(\<forall>i \<in> set hs. gate_release i g \<noteq> None) \<and>
    (set hs \<subseteq> set (gg_released g) \<longleftrightarrow> snd (gate_status g) = 0) \<and>
    (gate_wait g = Returns \<longleftrightarrow> snd (gate_status g) = 0) \<and>
    (\<forall>(c, seen) \<in> set ws. (snd (gate_status g) = 0 \<longrightarrow> gate_woken c g) \<and>
       (gate_woken c g \<longrightarrow> set seen \<subseteq> set (gg_released g)) \<and>
       (gate_woken c g \<longrightarrow> (\<forall>ctx_err. gate_woken c (fst (gate_begin ctx_err g)))))"
proof -
  have ok: "gate_ok g hs" and ws: "\<forall>w \<in> set ws. waiter_ok g w" using gate_run_ok [OF assms] by simp_all
  have woken: "gate_woken c g \<longrightarrow> gate_woken c (fst (gate_begin ctx_err g))" for c ctx_err
    by (cases c) (simp_all add: gate_begin_def Let_def split: option.split)
  have "gate_release i g \<noteq> None" if "i \<in> set hs" for i
    by (rule gate_release_ok [OF ok that]) simp
  moreover have "set hs \<subseteq> set (gg_released g) \<longleftrightarrow> gg_work g = []"
    using ok by (auto simp: gate_ok_def)
  moreover have "(gg_work g = [] \<longrightarrow> gate_woken c g) \<and> (gate_woken c g \<longrightarrow> set seen \<subseteq> set (gg_released g)) \<and>
      (gate_woken c g \<longrightarrow> (\<forall>ctx_err. gate_woken c (fst (gate_begin ctx_err g))))"
    if "(c, seen) \<in> set ws" for c seen
    using bspec [OF ws that] woken by (auto simp: waiter_ok_def split: if_splits)
  ultimately show ?thesis
    unfolding gate_status_def gate_wait_def snd_conv length_0_conv by (intro conjI ballI) (blast, blast, simp, blast)
qed

text \<open>A waiter finds one request at work; it returns when that is released, and a second release is harmless.\<close>

theorem gate_drains_witness:
  "let g1 = fst (gate_begin None zero_gate); g2 = the (gate_release 1 g1)
   in gate_wait g1 = BlockedOn (Some 1) \<and> \<not> gate_woken (Some 1) g1 \<and> gate_release 1 g2 \<noteq> None \<and>
      gate_wait g2 = Returns \<and> gate_woken (Some 1) g2"
proof -
  define g1 where "g1 = fst (gate_begin None zero_gate)"
  define g2 where "g2 = the (gate_release 1 g1)"
  have b: "gate_begin None zero_gate = (g1, Inr 1)" unfolding g1_def by code_simp
  have r: "gate_release 1 g1 = Some g2" unfolding g2_def g1_def by code_simp
  have w: "gate_wait g1 = BlockedOn (Some 1)" "map fst (gg_work g1) = [1]" "\<not> gate_woken (Some 1) g1"
    unfolding g1_def by code_simp+
  have run1: "gate_run g1 [1] [(Some 1, [1])]"
    using gate_run.await [OF gate_run.admit [OF gate_run.start b] w(1)] by (simp add: w(2))
  have run2: "gate_run g2 [1] [(Some 1, [1])]" by (rule gate_run.release [OF run1 _ r]) simp
  have "snd (gate_status g2) = 0" unfolding g2_def g1_def by code_simp
  then show ?thesis
    using gate_drains [OF run2] w(1, 3)
    unfolding g1_def [symmetric] Let_def g2_def [symmetric] by simp
qed

inductive blocked_run :: "game_gate \<Rightarrow> game_gate \<Rightarrow> bool" where
  stay: "blocked_run g g"
| admit: "blocked_run g g1 \<Longrightarrow> gate_begin ctx_err g1 = (g2, r) \<Longrightarrow> blocked_run g g2"
| release: "blocked_run g g1 \<Longrightarrow> gate_release i g1 = Some g2 \<Longrightarrow> blocked_run g g2"
| block: "blocked_run g g1 \<Longrightarrow> blocked_run g (gate_block g1)"

text \<open>
  Blocking cancels everything admitted so far and, until the gate is opened again,
  nothing is admitted: the tracked work only shrinks and stays cancelled.
\<close>

lemma gate_blocks:
  assumes "blocked_run (gate_block g) g'"
  shows "gate_begin ctx_err g' = (g', Inl ErrMaintenance) \<and>
    set (gg_work g') \<subseteq> (\<lambda>(i, c). (i, True)) ` set (gg_work g)"
proof -
  have "gg_blocked g' \<and> set (gg_work g') \<subseteq> (\<lambda>(i, c). (i, True)) ` set (gg_work g)"
    using assms
  proof (induction "gate_block g" g' rule: blocked_run.induct)
    case stay
    then show ?case by (auto simp: gate_block_def)
  next
    case (admit g1 ctx_err g2 r)
    then show ?case by (simp add: gate_begin_def)
  next
    case (release g1 i g2)
    have "g2 = g1 \<or> gg_work g2 = AList.delete i (gg_work g1) \<and> gg_blocked g2 = gg_blocked g1"
      using release.hyps(3)
      by (auto simp: gate_release_def Let_def split: if_splits option.splits bool.splits)
    moreover have "set (AList.delete i (gg_work g1)) \<subseteq> set (gg_work g1)"
      by (auto simp: AList.delete_eq)
    ultimately show ?case using release.hyps(2) by auto
  next
    case (block g1)
    then have "(\<lambda>(i, c). (i, True)) ` set (gg_work g1) \<subseteq>
        (\<lambda>(i, c). (i, True)) ` (\<lambda>(i, c). (i, True)) ` set (gg_work g)"
      by (intro image_mono) simp
    also have "\<dots> = (\<lambda>(i, c). (i, True)) ` set (gg_work g)" by (force simp: image_image)
    finally show ?case by (simp add: gate_block_def)
  qed
  then show ?thesis by (simp add: gate_begin_def)
qed

text \<open>A request in flight is cancelled by the block, and the next one is refused.\<close>

lemma delete_update_same: "k \<notin> fst ` set m \<Longrightarrow> AList.delete k (AList.update k v m) = m"
proof (induction m)
  case Nil
  then show ?case by (simp add: AList.delete_eq)
next
  case (Cons kv m)
  then show ?case by (cases kv) (auto simp: AList.delete_eq)
qed

text \<open>
  C26.  Admission through both gates is all or nothing: it never panics, and when
  either gate refuses, both track exactly what they tracked before, and only a blocked daemon
  reports maintenance.
\<close>

theorem begin_all_or_nothing:
  assumes "gate_run d ds dw" "gate_run a as aw"
  shows "\<exists>d' a' r. beginGameWork ctx_err work_err (Some d) (Some a) = Some (Some d', Some a', r) \<and>
    (case r of
       Inl e \<Rightarrow> gg_work d' = gg_work d \<and> gg_work a' = gg_work a \<and> (e = ErrMaintenance \<longrightarrow> gg_blocked d)
     | Inr (ai, di) \<Rightarrow> \<exists>i j. ai = Some i \<and> di = Some j \<and> i \<in> fst ` set (gg_work a') \<and>
                        j \<in> fst ` set (gg_work d'))"
proof (cases "gate_begin ctx_err d")
  case d: (Pair d1 dr)
  show ?thesis
  proof (cases dr)
    case (Inl e)
    then have "d1 = d" "e \<noteq> ErrMaintenance \<or> gg_blocked d"
      using d by (auto simp: gate_begin_def Let_def split: if_splits option.splits)
    then show ?thesis using d Inl by (simp add: beginGameWork_def)
  next
    case (Inr i)
    then have b: "gate_begin ctx_err d = (d1, Inr i)" using d by simp
    have ok: "gate_ok d1 (i # ds)" "i \<notin> set ds"
      using gate_begin_ok [OF conjunct1 [OF gate_run_ok [OF assms(1)]] b] by auto
    have work: "gg_work d1 = AList.update i False (gg_work d)"
      using b by (auto simp: gate_begin_def Let_def split: if_splits option.splits)
    have fresh: "i \<notin> fst ` set (gg_work d)"
      using gate_run_ok [OF assms(1)] ok(2) by (auto simp: gate_ok_def)
    show ?thesis
    proof (cases "gate_begin work_err a")
      case a: (Pair a1 ar)
      show ?thesis
      proof (cases ar)
        case (Inl e)
        have a1: "a1 = a" using a Inl by (auto simp: gate_begin_def Let_def split: if_splits option.splits)
        obtain d2 where r: "gate_release i d1 = Some d2"
          by (rule gate_release_ok [OF ok(1), of i]) simp_all
        have "i \<notin> set (gg_released d1)"
          using ok(1) fresh work by (auto simp: gate_ok_def dom_update)
        then have "gg_work d2 = AList.delete i (gg_work d1)"
          using r by (auto simp: gate_release_def Let_def split: if_splits option.splits bool.splits)
        then have "gg_work d2 = gg_work d" using work fresh by (simp add: delete_update_same)
        then show ?thesis using a a1 Inl b r by (simp add: beginGameWork_def)
      next
        case (Inr j)
        then have "gate_begin work_err a = (a1, Inr j)" using a by simp
        moreover from this have "gg_work a1 = AList.update j False (gg_work a)"
          by (auto simp: gate_begin_def Let_def split: if_splits option.splits)
        ultimately show ?thesis using b work by (simp add: beginGameWork_def dom_update)
      qed
    qed
  qed
qed

text \<open>The account is being deleted: the daemon's gate forgets the handle it had issued.\<close>

theorem begin_all_or_nothing_witness:
  "beginGameWork None None (Some zero_gate) (Some (gate_block zero_gate)) \<noteq> None \<and>
   (\<exists>d' a' e. beginGameWork None None (Some zero_gate) (Some (gate_block zero_gate)) =
                Some (Some d', Some a', Inl e) \<and>
              gg_work d' = gg_work zero_gate \<and> e = ErrAccountDeleting)"
proof -
  have "\<exists>d' a' r. beginGameWork None None (Some zero_gate) (Some (gate_block zero_gate)) =
      Some (Some d', Some a', r) \<and>
    (case r of
       Inl e \<Rightarrow> gg_work d' = gg_work zero_gate \<and> gg_work a' = gg_work (gate_block zero_gate) \<and>
              (e = ErrMaintenance \<longrightarrow> gg_blocked zero_gate)
     | Inr (ai, di) \<Rightarrow> \<exists>i j. ai = Some i \<and> di = Some j \<and> i \<in> fst ` set (gg_work a') \<and>
                        j \<in> fst ` set (gg_work d'))"
    by (rule begin_all_or_nothing [OF gate_run.start gate_run.block [OF gate_run.start]])
  moreover have "map_option (snd \<circ> snd) (beginGameWork None None (Some zero_gate) (Some (gate_block zero_gate))) =
      Some (Inl ErrAccountDeleting)" by code_simp
  ultimately show ?thesis by auto
qed

section \<open>Identity probes\<close>

type_synonym probe_key = "int \<times> string \<times> string"

record probe_entry =
  pe_active :: bool
  pe_expires :: time
  pe_retryAt :: time

definition identityProbeTTL :: duration where "identityProbeTTL = 10 * minute"
definition identityProbeRetryWait :: duration where "identityProbeRetryWait = 30 * second"
definition identityProbeRiskWait :: duration where "identityProbeRiskWait = 5 * minute"
definition identityProbeMaxEntries :: nat where "identityProbeMaxEntries = 1024"

type_synonym probes = "(probe_key, probe_entry) gomap"

datatype probe_refusal = AlreadyProbing | RetryIn int | TooManyProbes

definition purge_probes :: "time \<Rightarrow> probes \<Rightarrow> probes" where
  "purge_probes now m = filter (\<lambda>(k, e). \<not> (\<not> pe_active e \<and> \<not> now < pe_expires e)) m"

definition probe_begin :: "probe_key \<Rightarrow> time \<Rightarrow> probes \<Rightarrow> probes \<times> probe_refusal option" where
  "probe_begin key now m0 =
     (let m = purge_probes now m0 in
      case map_of m key of
        Some e \<Rightarrow>
          if pe_active e then (m, Some AlreadyProbing)
          else if now < pe_retryAt e
            then (m, Some (RetryIn (time_sub (pe_retryAt e) now div second + 1)))
          else (AList.update key (e\<lparr>pe_active := True\<rparr>) m, None)
      | None \<Rightarrow>
          if length m \<ge> identityProbeMaxEntries then (m, Some TooManyProbes)
          else (AList.update key
                  \<lparr>pe_active = True, pe_expires = zero_time, pe_retryAt = zero_time\<rparr> m, None))"

text \<open>\<open>failed\<close> is \<open>None\<close> for a success, and otherwise whether the error is a login-risk error.\<close>

definition probe_finish :: "probe_key \<Rightarrow> bool option \<Rightarrow> time \<Rightarrow> probes \<Rightarrow> probes" where
  "probe_finish key failed completed m =
     (case failed of
        None \<Rightarrow> AList.delete key m
      | Some risk \<Rightarrow>
          AList.update key
            \<lparr>pe_active = False, pe_expires = completed + identityProbeTTL,
             pe_retryAt = completed + (if risk then identityProbeRiskWait else identityProbeRetryWait)\<rparr> m)"

text \<open>Runs with the probes in flight; a finish function acts once, on a probe in flight.\<close>

inductive probe_run :: "probes \<Rightarrow> probe_key list \<Rightarrow> bool" where
  start: "probe_run [] []"
| admit: "probe_run m ks \<Longrightarrow> probe_begin key now m = (m', None) \<Longrightarrow> probe_run m' (key # ks)"
| refused: "probe_run m ks \<Longrightarrow> probe_begin key now m = (m', Some r) \<Longrightarrow> probe_run m' ks"
| finish: "probe_run m ks \<Longrightarrow> key \<in> set ks \<Longrightarrow>
    probe_run (probe_finish key failed completed m) (remove1 key ks)"

definition probes_ok :: "probes \<Rightarrow> probe_key list \<Rightarrow> bool" where
  "probes_ok m ks \<longleftrightarrow> gomap_ok m \<and> distinct ks \<and> length m \<le> identityProbeMaxEntries \<and>
     (\<forall>k. k \<in> set ks \<longleftrightarrow> (\<exists>e. map_of m k = Some e \<and> pe_active e))"

lemma probes_ok_active:
  "probes_ok m ks \<Longrightarrow> k \<in> set ks \<longleftrightarrow> (\<exists>e. map_of m k = Some e \<and> pe_active e)"
  unfolding probes_ok_def by blast

lemma map_of_purge:
  "gomap_ok m \<Longrightarrow> map_of (purge_probes now m) k =
     (case map_of m k of None \<Rightarrow> None
      | Some e \<Rightarrow> if \<not> (\<not> pe_active e \<and> \<not> now < pe_expires e) then Some e else None)"
  unfolding purge_probes_def by (rule map_of_filter_gomap)

lemma purge_ok: "probes_ok m ks \<Longrightarrow> probes_ok (purge_probes now m) ks"
proof -
  assume ok: "probes_ok m ks"
  then have "gomap_ok m" by (simp add: probes_ok_def)
  note mp = map_of_purge [OF this, of now]
  have "length (purge_probes now m) \<le> length m" by (simp add: purge_probes_def)
  moreover have "gomap_ok (purge_probes now m)" using ok by (simp add: probes_ok_def purge_probes_def)
  ultimately show ?thesis
    using ok by (auto simp: probes_ok_def mp split: option.splits)
qed

lemma probe_update_ok:
  assumes "probes_ok m ks" "k \<in> fst ` set m \<or> length m < identityProbeMaxEntries"
  shows "probes_ok (AList.update k e m)
           (if pe_active e then (if k \<in> set ks then ks else k # ks) else remove1 k ks)"
  using assms
  by (auto simp: probes_ok_def length_alist_update update_conv' set_remove1_eq)

lemma probe_run_ok: "probe_run m ks \<Longrightarrow> probes_ok m ks"
proof (induction rule: probe_run.induct)
  case start
  then show ?case by (simp add: probes_ok_def)
next
  case (admit m ks key now m')
  let ?p = "purge_probes now m"
  have ok: "probes_ok ?p ks" by (rule purge_ok [OF admit.IH])
  show ?case
  proof (cases "map_of ?p key")
    case None
    then have "length ?p < identityProbeMaxEntries" and
      m': "m' = AList.update key \<lparr>pe_active = True, pe_expires = zero_time, pe_retryAt = zero_time\<rparr> ?p"
      using admit.hyps(2) by (auto simp: probe_begin_def Let_def split: if_splits)
    moreover have "key \<notin> set ks" using probes_ok_active [OF ok] None by simp
    ultimately show ?thesis
      using probe_update_ok [OF ok, of key "\<lparr>pe_active = True, pe_expires = zero_time, pe_retryAt = zero_time\<rparr>"]
      by simp
  next
    case (Some e)
    then have e: "\<not> pe_active e" and m': "m' = AList.update key (e\<lparr>pe_active := True\<rparr>) ?p"
      using admit.hyps(2) by (auto simp: probe_begin_def Let_def split: if_splits)
    have "key \<in> fst ` set ?p" using Some by (metis map_of_eq_None_iff option.distinct(1))
    moreover have "key \<notin> set ks" using probes_ok_active [OF ok] Some e by simp
    ultimately show ?thesis
      using probe_update_ok [OF ok, of key "e\<lparr>pe_active := True\<rparr>"] m' by simp
  qed
next
  case (refused m ks key now m' r)
  then have "m' = purge_probes now m"
    by (auto simp: probe_begin_def Let_def split: if_splits option.splits)
  then show ?case using purge_ok [OF refused.IH] by simp
next
  case (finish m ks key failed completed)
  show ?case
  proof (cases failed)
    case None
    have "length (AList.delete key m) \<le> length m" by (simp add: AList.delete_eq)
    then show ?thesis using finish None
      by (auto simp: probe_finish_def probes_ok_def delete_conv' set_remove1_eq)
  next
    case (Some risk)
    have "map_of m key \<noteq> None" using probes_ok_active [OF finish.IH, of key] finish.hyps(2) by auto
    then have "key \<in> fst ` set m" by (metis map_of_eq_None_iff)
    then have "probes_ok (AList.update key e m) (remove1 key ks)" if "\<not> pe_active e" for e
      using probe_update_ok [OF finish.IH, of key e] that by simp
    then show ?thesis using Some by (simp add: probe_finish_def)
  qed
qed

text \<open>
  One identity never has two password probes in flight, and the guard never
  remembers more than 1024 identities, whatever the order of requests and answers.
\<close>

lemma probes_exclusive:
  assumes "probe_run m ks"
  shows "distinct ks \<and> length m \<le> 1024 \<and>
    (key \<in> set ks \<longrightarrow> snd (probe_begin key now m) = Some AlreadyProbing)"
proof -
  note ok = probe_run_ok [OF assms]
  have "snd (probe_begin key now m) = Some AlreadyProbing" if k: "key \<in> set ks"
  proof -
    obtain e where "map_of m key = Some e" "pe_active e"
      using probes_ok_active [OF ok, of key] k by blast
    moreover have "gomap_ok m" using ok by (simp add: probes_ok_def)
    ultimately show ?thesis by (simp add: probe_begin_def Let_def map_of_purge)
  qed
  then show ?thesis using ok by (simp add: probes_ok_def identityProbeMaxEntries_def)
qed

text \<open>A second probe of the same identity is refused while the first is in flight.\<close>

definition sample_key :: probe_key where "sample_key = (1, ''ann'', ''sha256'')"

text \<open>
  After a failed probe the identity is refused for thirty seconds, and for
  five minutes after a login-risk error; from then on it may be probed again.
\<close>

lemma failed_probe_waits:
  assumes "probe_run m ks" "key \<in> set ks"
    and "m' = probe_finish key (Some risk) completed m"
    and "wait = (if risk then identityProbeRiskWait else identityProbeRetryWait)"
  shows "(now < completed + wait \<longrightarrow> (\<exists>n. snd (probe_begin key now m') = Some (RetryIn n) \<and> 1 \<le> n)) \<and>
    (completed + wait \<le> now \<and> now < completed + identityProbeTTL \<longrightarrow> snd (probe_begin key now m') = None)"
proof -
  have ok: "probes_ok m' (remove1 key ks)"
    unfolding assms(3) by (rule probe_run_ok [OF probe_run.finish [OF assms(1,2)]])
  let ?e = "\<lparr>pe_active = False, pe_expires = completed + identityProbeTTL, pe_retryAt = completed + wait\<rparr>"
  have m': "map_of m' key = Some ?e" using assms(3,4) by (simp add: probe_finish_def update_conv')
  have w: "wait < identityProbeTTL"
    using assms(4) by (auto simp: identityProbeRiskWait_def identityProbeRetryWait_def identityProbeTTL_def
        duration_defs)
  have g: "gomap_ok m'" using ok by (simp add: probes_ok_def)
  have pos: "0 \<le> time_sub (completed + wait) now div second" if "now < completed + wait"
    using that time_sub_pos_iff [of "completed + wait" now]
    by (simp add: pos_imp_zdiv_nonneg_iff duration_defs)
  show ?thesis
    using w pos by (auto simp: probe_begin_def Let_def map_of_purge [OF g] m')
qed

end
