(* ===== verification/Harvest.thy ===== *)
theory Harvest
  imports OpGates
begin

text \<open>
  Two guards of the runner that withhold work the server has just rejected:
  failed harvests per land and RPC (\<open>internal/runner/operation_gates_harvest.go\<close>), and flower
  upgrades rejected for lack of resources (\<open>internal/runner/cultivate_upgrade_guard.go\<close>).
\<close>

section \<open>Failed harvests\<close>

definition harvestRetryWait :: duration where "harvestRetryWait = 30 * second"

record harvest_failure =
  hf_Attempts :: int
  hf_Until :: time

definition zero_harvest_failure :: harvest_failure where
  "zero_harvest_failure = \<lparr>hf_Attempts = 0, hf_Until = zero_time\<rparr>"

type_synonym harvest_failures = "(string \<times> int, harvest_failure) gomap"

definition harvest_delay :: "int \<Rightarrow> duration" where
  "harvest_delay attempts = min (harvestRetryWait * 2 ^ nat (attempts - 1)) (5 * minute)"

definition fail_land ::
  "string \<Rightarrow> time \<Rightarrow> int \<Rightarrow> harvest_failures \<times> duration \<Rightarrow> harvest_failures \<times> duration" where
  "fail_land kind now i = (\<lambda>(failures, wait).
     let failure = get_or zero_harvest_failure failures (kind, i);
         attempts = min (hf_Attempts failure + 1) 5;
         delay = harvest_delay attempts
     in (AList.update (kind, i) \<lparr>hf_Attempts = attempts, hf_Until = now + delay\<rparr> failures,
         max wait delay))"

text \<open>\<open>land_err\<close> is the land of a \<open>harvestLandError\<close> in the error chain, when there is one.\<close>

definition deferFailedHarvest ::
  "planned_op \<Rightarrow> int option \<Rightarrow> time \<Rightarrow> harvest_failures \<Rightarrow> harvest_failures \<times> duration" where
  "deferFailedHarvest op land_err now failures =
     fold (fail_land (op_Kind op) now)
       (case land_err of Some i \<Rightarrow> [i] | None \<Rightarrow> op_LandIDs op) (failures, harvestRetryWait)"

definition setHarvestBlockedUntil :: "int list \<Rightarrow> time \<Rightarrow> (int, time) gomap \<Rightarrow> (int, time) gomap" where
  "setHarvestBlockedUntil landIDs until m = fold (\<lambda>i. AList.update i until) landIDs m"

definition isHarvestOp :: "string \<Rightarrow> bool" where
  "isHarvestOp kind \<longleftrightarrow>
     kind = RPCUsrLandHarvest \<or> kind = RPCFmlLandHarvest \<or> kind = RPCFmlLandHarvestAll"

definition land_blocked :: "(int, time) gomap \<Rightarrow> harvest_failures \<Rightarrow> string \<Rightarrow> time \<Rightarrow> int \<Rightarrow> bool" where
  "land_blocked blockedUntil failures kind now i =
     (let until0 = get_or zero_time blockedUntil i;
          rejected = hf_Until (get_or zero_harvest_failure failures (kind, i));
          until = (if rejected > until0 then rejected else until0)
      in \<not> (time_is_zero until \<or> \<not> now < until))"

definition applyHarvestBlocks ::
  "planned_op \<Rightarrow> time \<Rightarrow> (int, time) gomap \<Rightarrow> harvest_failures \<Rightarrow> planned_op option" where
  "applyHarvestBlocks op now blockedUntil failures =
     (if \<not> isHarvestOp (op_Kind op) then Some op
      else if op_LandIDs op = [] then Some op
      else let blocked = land_blocked blockedUntil failures (op_Kind op) now in
        if \<not> list_ex blocked (op_LandIDs op) then Some op
        else let landIDs = filter (\<lambda>i. \<not> blocked i) (op_LandIDs op) in
          if landIDs = [] then None
          else Some (op\<lparr>op_LandIDs := landIDs, op_Count := int (length landIDs)\<rparr>))"

section \<open>Rejected flower upgrades\<close>

record cultivate_observation =
  co_FlowerID :: int
  co_Level :: int
  co_Gold :: int
  co_GoldCost :: int
  co_EssenceItemID :: int
  co_EssenceCount :: int
  co_EssenceCost :: int

type_synonym cultivate_rejects = "(int, cultivate_observation) gomap"

definition cultivateUpgradeResourceObservation ::
  "game_state \<Rightarrow> planned_op \<Rightarrow> cultivate_observation option" where
  "cultivateUpgradeResourceObservation s op =
     (if op_Kind op \<noteq> RPCCultivateUpgrade \<or> op_FlowerID op \<le> 0 then None
      else case map_of (gs_cultivations s) (op_FlowerID op) of
        None \<Rightarrow> None
      | Some cultivation \<Rightarrow>
          if cv_Lvl cultivation \<le> 0 then None
          else
            let itemIDs = sort (map fst (filter (\<lambda>(itemID, count). 0 < itemID \<and> 0 < count) (op_ItemCost op)));
                itemID = (case itemIDs of [] \<Rightarrow> 0 | i # _ \<Rightarrow> i);
                itemCost = (case itemIDs of [] \<Rightarrow> 0 | i # _ \<Rightarrow> get_or 0 (op_ItemCost op) i)
            in Some \<lparr>co_FlowerID = op_FlowerID op, co_Level = cv_Lvl cultivation, co_Gold = Gold s,
                     co_GoldCost = op_GoldCost op, co_EssenceItemID = itemID,
                     co_EssenceCount = get_or 0 (Inventory s) itemID, co_EssenceCost = itemCost\<rparr>)"

definition markCultivateUpgradeResourceRejected ::
  "game_state \<Rightarrow> planned_op \<Rightarrow> cultivate_rejects \<Rightarrow> cultivate_rejects" where
  "markCultivateUpgradeResourceRejected s op rejects =
     (case cultivateUpgradeResourceObservation s op of None \<Rightarrow> rejects
      | Some ob \<Rightarrow> AList.update (co_FlowerID ob) ob rejects)"

definition cultivateUpgradeResourceRejectedUnchanged ::
  "game_state \<Rightarrow> planned_op \<Rightarrow> cultivate_rejects \<Rightarrow> cultivate_rejects \<times> bool" where
  "cultivateUpgradeResourceRejectedUnchanged s op rejects =
     (case cultivateUpgradeResourceObservation s op of None \<Rightarrow> (rejects, False)
      | Some ob \<Rightarrow>
        (case map_of rejects (co_FlowerID ob) of None \<Rightarrow> (rejects, False)
         | Some rejected \<Rightarrow>
             if rejected = ob then (rejects, True)
             else (AList.delete (co_FlowerID ob) rejects, False)))"

definition clearCultivateUpgradeResourceRejection ::
  "planned_op \<Rightarrow> cultivate_rejects \<Rightarrow> cultivate_rejects" where
  "clearCultivateUpgradeResourceRejection op rejects =
     (if op_Kind op \<noteq> RPCCultivateUpgrade \<or> op_FlowerID op \<le> 0 then rejects
      else AList.delete (op_FlowerID op) rejects)"

section \<open>Harvest blocks\<close>

lemma applyHarvestBlocks_lands:
  assumes "applyHarvestBlocks op now b f = Some op'" "isHarvestOp (op_Kind op)"
  shows "op_LandIDs op' = filter (\<lambda>i. \<not> land_blocked b f (op_Kind op) now i) (op_LandIDs op)"
    and "op_Kind op' = op_Kind op"
proof -
  let ?b = "land_blocked b f (op_Kind op) now"
  have all: "filter (\<lambda>i. \<not> ?b i) xs = xs" if "\<not> list_ex ?b xs" for xs
    using that by (auto simp: list_ex_iff filter_id_conv)
  show "op_LandIDs op' = filter (\<lambda>i. \<not> ?b i) (op_LandIDs op)" "op_Kind op' = op_Kind op"
    using assms all by (auto simp: applyHarvestBlocks_def Let_def split: if_splits)
qed

lemma applyHarvestBlocks_None:
  "applyHarvestBlocks op now b f = None \<longleftrightarrow>
     isHarvestOp (op_Kind op) \<and> op_LandIDs op \<noteq> [] \<and>
     (\<forall>i \<in> set (op_LandIDs op). land_blocked b f (op_Kind op) now i)"
  by (auto simp: applyHarvestBlocks_def Let_def list_ex_iff filter_empty_conv neq_Nil_conv)

lemma land_blocked_iff:
  assumes "zero_time \<le> now"
  shows "land_blocked b f kind now i \<longleftrightarrow>
     now < max (get_or zero_time b i) (hf_Until (get_or zero_harvest_failure f (kind, i)))"
  using assms by (auto simp: land_blocked_def Let_def time_is_zero_def max_def)

lemma harvest_delay_bounds:
  "harvestRetryWait \<le> harvest_delay a \<and> harvest_delay a \<le> 5 * minute"
proof -
  have "harvestRetryWait * 1 \<le> harvestRetryWait * 2 ^ nat (a - 1)"
    by (intro mult_left_mono) (auto simp: harvestRetryWait_def duration_defs)
  then show ?thesis by (simp add: harvest_delay_def) (simp add: harvestRetryWait_def duration_defs)
qed

lemma fail_land_entry:
  "get_or zero_harvest_failure (fst (fail_land kind now i (f, w))) k =
     (if k = (kind, i)
      then \<lparr>hf_Attempts = min (hf_Attempts (get_or zero_harvest_failure f k) + 1) 5,
            hf_Until = now + harvest_delay (min (hf_Attempts (get_or zero_harvest_failure f k) + 1) 5)\<rparr>
      else get_or zero_harvest_failure f k)"
  by (simp add: fail_land_def Let_def)

lemma fail_lands_until:
  assumes "fold (fail_land kind now) is (f, w) = (f', w')"
  shows "(k \<notin> (\<lambda>i. (kind, i)) ` set is \<longrightarrow>
            get_or zero_harvest_failure f' k = get_or zero_harvest_failure f k) \<and>
         (k \<in> (\<lambda>i. (kind, i)) ` set is \<longrightarrow>
            now + harvestRetryWait \<le> hf_Until (get_or zero_harvest_failure f' k) \<and>
            hf_Until (get_or zero_harvest_failure f' k) \<le> now + w') \<and> w \<le> w'"
  using assms
proof (induction "is" arbitrary: f w)
  case Nil
  then show ?case by auto
next
  case (Cons i "is")
  obtain f1 w1 where s: "fail_land kind now i (f, w) = (f1, w1)" by (cases "fail_land kind now i (f, w)")
  have IH: "(k \<notin> (\<lambda>i. (kind, i)) ` set is \<longrightarrow>
            get_or zero_harvest_failure f' k = get_or zero_harvest_failure f1 k) \<and>
         (k \<in> (\<lambda>i. (kind, i)) ` set is \<longrightarrow>
            now + harvestRetryWait \<le> hf_Until (get_or zero_harvest_failure f' k) \<and>
            hf_Until (get_or zero_harvest_failure f' k) \<le> now + w') \<and> w1 \<le> w'"
    using Cons.prems s by (intro Cons.IH) simp
  let ?a = "min (hf_Attempts (get_or zero_harvest_failure f (kind, i)) + 1) 5"
  have w1: "w1 = max w (harvest_delay ?a)" using s by (simp add: fail_land_def Let_def)
  have e: "get_or zero_harvest_failure f1 k =
      (if k = (kind, i) then \<lparr>hf_Attempts = ?a, hf_Until = now + harvest_delay ?a\<rparr>
       else get_or zero_harvest_failure f k)"
    using fail_land_entry [of kind now i f w k] s by auto
  show ?case
    using IH e w1 harvest_delay_bounds [of ?a] by auto
qed

text \<open>
  A failed harvest withholds exactly the lands that failed, under the
  RPC that failed, for between thirty seconds and the returned wait; every other land and RPC stays
  as it was, so the rest of a batch is still harvested.
\<close>

lemma failed_harvest_isolated:
  assumes "deferFailedHarvest op land_err now f = (f', wait)" "zero_time \<le> now"
    and "failed = (case land_err of Some i \<Rightarrow> {i} | None \<Rightarrow> set (op_LandIDs op))"
  shows "(i \<in> failed \<longrightarrow>
      (t < now + harvestRetryWait \<and> zero_time \<le> t \<longrightarrow> land_blocked b f' (op_Kind op) t i) \<and>
      (now + wait \<le> t \<and> get_or zero_time b i \<le> t \<longrightarrow> \<not> land_blocked b f' (op_Kind op) t i)) \<and>
    (i \<notin> failed \<or> kind \<noteq> op_Kind op \<longrightarrow> land_blocked b f' kind t i = land_blocked b f kind t i)"
proof -
  have run: "fold (fail_land (op_Kind op) now)
      (case land_err of Some i \<Rightarrow> [i] | None \<Rightarrow> op_LandIDs op) (f, harvestRetryWait) = (f', wait)"
    using assms(1) by (simp add: deferFailedHarvest_def)
  have failed: "failed = set (case land_err of Some i \<Rightarrow> [i] | None \<Rightarrow> op_LandIDs op)"
    using assms(3) by (simp split: option.splits)
  note u = fail_lands_until [OF run, folded failed]
  have "i \<in> failed \<Longrightarrow> now + harvestRetryWait \<le> hf_Until (get_or zero_harvest_failure f' (op_Kind op, i))
      \<and> hf_Until (get_or zero_harvest_failure f' (op_Kind op, i)) \<le> now + wait"
    using u [of "(op_Kind op, i)"] by auto
  moreover have "0 < harvestRetryWait" by (simp add: harvestRetryWait_def duration_defs)
  moreover have "i \<notin> failed \<or> kind \<noteq> op_Kind op \<Longrightarrow>
      get_or zero_harvest_failure f' (kind, i) = get_or zero_harvest_failure f (kind, i)"
    using u [of "(kind, i)"] by auto
  moreover have "harvestRetryWait \<le> wait" using u by blast
  ultimately show ?thesis
    using assms(2) by (auto simp: land_blocked_iff land_blocked_def Let_def time_is_zero_def)
qed

text \<open>Land 4 fails: it waits thirty seconds, land 5 is untouched.\<close>

text \<open>
  A flower upgrade the server rejected is withheld exactly while the facts of
  the attempt - level, gold, essence and their costs - are unchanged, and any change readmits it.
\<close>

lemma rejected_upgrade_exact:
  assumes "cultivateUpgradeResourceObservation s op = Some ob"
    and "cultivateUpgradeResourceObservation s' op' = Some ob'"
    and "cultivateUpgradeResourceRejectedUnchanged s' op'
           (markCultivateUpgradeResourceRejected s op rejects) = (rejects', withheld)"
    and "op_FlowerID op' = op_FlowerID op"
  shows "withheld = (ob' = ob) \<and>
    (\<not> withheld \<longrightarrow> \<not> snd (cultivateUpgradeResourceRejectedUnchanged s'' op' rejects'))"
proof -
  have fid: "co_FlowerID x = op_FlowerID p"
    if "cultivateUpgradeResourceObservation t p = Some x" for t p x
    using that by (auto simp: cultivateUpgradeResourceObservation_def Let_def split: if_splits option.splits)
  show ?thesis
    using assms fid [OF assms(1)] fid [OF assms(2)]
    by (auto simp: cultivateUpgradeResourceRejectedUnchanged_def markCultivateUpgradeResourceRejected_def
        update_conv' delete_conv' dest: fid split: option.splits if_splits)
qed

text \<open>An upgrade of flower 12 rejected with one hundred coins is withheld until something changes.\<close>

end
