(* ===== verification/Ledger.thy ===== *)
theory Ledger
  imports Planned
begin

text \<open>
  \<open>InventoryLedger\<close> of \<open>internal/automation/types.go\<close>: the one account of the items a
  planning cycle may spend.  A ledger knows what is owned, what is already promised, and to which
  demand.  A nil ledger is \<open>None\<close>; the methods are total on it, as in the source.

  The component's contract is the locale \<open>item_ledger\<close>: a grant never exceeds what is
  available and lowers the availability of its own item by exactly the grant.  Its client is the
  loop that serves a list of demands (\<open>applyLedgerAllocations\<close>), and the contract is discharged
  for the code's ledger by the interpretation at the end.
\<close>

record inventory_ledger =
  owned :: "(int, int) gomap"
  allocated :: "(int, int) gomap"
  byDemand :: "(string, (int, int) gomap) gomap"

definition NewInventoryLedger :: "(int, int) gomap \<Rightarrow> inventory_ledger" where
  "NewInventoryLedger inventory =
     \<lparr>owned = filter (\<lambda>(itemID, count). 0 < count) inventory, allocated = [], byDemand = []\<rparr>"

fun Owned :: "inventory_ledger option \<Rightarrow> int \<Rightarrow> int" where
  "Owned None itemID = 0"
| "Owned (Some l) itemID = get_or 0 (owned l) itemID"

fun Allocated :: "inventory_ledger option \<Rightarrow> int \<Rightarrow> int" where
  "Allocated None itemID = 0"
| "Allocated (Some l) itemID = get_or 0 (allocated l) itemID"

fun Available :: "inventory_ledger option \<Rightarrow> int \<Rightarrow> int" where
  "Available None itemID = 0"
| "Available (Some l) itemID =
     (let available = get_or 0 (owned l) itemID - get_or 0 (allocated l) itemID
      in if available < 0 then 0 else available)"

fun Allocate :: "demand \<Rightarrow> inventory_ledger option \<Rightarrow> inventory_ledger option \<times> int" where
  "Allocate d None = (None, 0)"
| "Allocate d (Some l) =
     (if dem_ID d = [] \<or> dem_ItemID d \<le> 0 \<or> dem_Count d \<le> 0 \<or> dem_BlockedReasons d \<noteq> []
      then (Some l, 0)
      else if dem_Kind d \<noteq> DemandKindFlower \<and> dem_Kind d \<noteq> DemandKindFlowerArt then (Some l, 0)
      else
        let available = Available (Some l) (dem_ItemID d);
            count = (if dem_Count d > available then available else dem_Count d)
        in if count \<le> 0 then (Some l, 0)
           else
             let mine = get_or [] (byDemand l) (dem_ID d)
             in (Some (l\<lparr>allocated := AList.update (dem_ItemID d)
                            (get_or 0 (allocated l) (dem_ItemID d) + count) (allocated l),
                         byDemand := AList.update (dem_ID d)
                            (AList.update (dem_ItemID d)
                               (get_or 0 mine (dem_ItemID d) + count) mine) (byDemand l)\<rparr>),
                 count))"

fun AllocatedForDemand :: "inventory_ledger option \<Rightarrow> string \<Rightarrow> int \<Rightarrow> int" where
  "AllocatedForDemand None demandID itemID = 0"
| "AllocatedForDemand (Some l) demandID itemID =
     (if demandID = [] then 0 else get_or 0 (get_or [] (byDemand l) demandID) itemID)"

fun CanSpendItems :: "inventory_ledger option \<Rightarrow> (int, int) gomap \<Rightarrow> bool" where
  "CanSpendItems None items \<longleftrightarrow> items = []"
| "CanSpendItems (Some l) items \<longleftrightarrow>
     list_all (\<lambda>(itemID, count). \<not> (0 < count \<and> Available (Some l) itemID < count)) items"

fun AllocatedItems :: "inventory_ledger option \<Rightarrow> (int, int) gomap option" where
  "AllocatedItems None = None"
| "AllocatedItems (Some l) = (if allocated l = [] then None else Some (allocated l))"

section \<open>Invariant\<close>

text \<open>What the demands of a ledger hold of one item, summed over the demands.\<close>

definition promised :: "inventory_ledger \<Rightarrow> int \<Rightarrow> int" where
  "promised l itemID = sum_list (map (\<lambda>(demandID, items). get_or 0 items itemID) (byDemand l))"

definition ledger_ok :: "inventory_ledger \<Rightarrow> bool" where
  "ledger_ok l \<longleftrightarrow>
     gomap_ok (owned l) \<and> gomap_ok (allocated l) \<and> gomap_ok (byDemand l) \<and>
     (\<forall>i. 0 \<le> get_or 0 (allocated l) i \<and> get_or 0 (allocated l) i \<le> get_or 0 (owned l) i) \<and>
     (\<forall>i. promised l i = get_or 0 (allocated l) i)"

definition ledger_opt_ok :: "inventory_ledger option \<Rightarrow> bool" where
  "ledger_opt_ok lo \<longleftrightarrow> (case lo of None \<Rightarrow> True | Some l \<Rightarrow> ledger_ok l)"

lemma sum_list_update:
  fixes f :: "'v \<Rightarrow> int"
  assumes "gomap_ok m" "f d = 0"
  shows "sum_list (map (\<lambda>(k, v). f v) (AList.update k v m)) =
         sum_list (map (\<lambda>(k, v). f v) m) - f (get_or d m k) + f v"
  using assms
proof (induction m)
  case Nil
  then show ?case by simp
next
  case (Cons kv m)
  obtain k' v' where kv: "kv = (k', v')" by (cases kv)
  with Cons show ?case by (auto simp: gomap_ok_def get_or_def)
qed

lemma promised_update:
  assumes "gomap_ok (byDemand l)"
  shows "promised (l\<lparr>allocated := a, byDemand := AList.update k v (byDemand l)\<rparr>) i =
         promised l i - get_or 0 (get_or [] (byDemand l) k) i + get_or 0 v i"
  using sum_list_update [OF assms, of "\<lambda>v. get_or 0 v i" "[]" k v] by (simp add: promised_def)

lemma ledger_ok_New: "gomap_ok inventory \<Longrightarrow> ledger_ok (NewInventoryLedger inventory)"
  by (auto simp: ledger_ok_def NewInventoryLedger_def promised_def get_or_def map_of_filter_gomap
      split: option.splits)

lemma Available_ok:
  "ledger_ok l \<Longrightarrow> Available (Some l) i = get_or 0 (owned l) i - get_or 0 (allocated l) i"
  by (simp add: ledger_ok_def Let_def not_less)

lemma Available_nonneg: "0 \<le> Available lo i"
  by (cases lo) (auto simp: Let_def)

text \<open>Either nothing changes and nothing is granted, or the ledger moves by the granted count.\<close>

lemma Allocate_cases:
  obtains (skip) "Allocate d (Some l) = (Some l, 0)"
  | (grant) count where
      "Allocate d (Some l) =
         (Some (l\<lparr>allocated := AList.update (dem_ItemID d)
                    (get_or 0 (allocated l) (dem_ItemID d) + count) (allocated l),
                  byDemand := AList.update (dem_ID d)
                    (AList.update (dem_ItemID d)
                       (get_or 0 (get_or [] (byDemand l) (dem_ID d)) (dem_ItemID d) + count)
                       (get_or [] (byDemand l) (dem_ID d))) (byDemand l)\<rparr>), count)"
      "0 < count" "count = min (dem_Count d) (Available (Some l) (dem_ItemID d))"
proof (cases "Allocate d (Some l) = (Some l, 0)")
  case True
  then show ?thesis by (rule skip)
next
  case False
  show ?thesis
    by (rule grant [of "min (dem_Count d) (Available (Some l) (dem_ItemID d))"];
        use False in \<open>auto simp: Let_def min_def split: if_splits\<close>)
qed

lemma Allocate_ledger_ok:
  assumes "ledger_ok l" "Allocate d (Some l) = (Some l', a)"
  shows "ledger_ok l'"
  using Allocate_cases [of d l]
proof cases
  case skip
  with assms show ?thesis by simp
next
  case (grant count)
  note l' = grant(1) [unfolded assms(2), THEN arg_cong [where f = fst], simplified]
  have "count \<le> get_or 0 (owned l) (dem_ItemID d) - get_or 0 (allocated l) (dem_ItemID d)"
    using grant(3) Available_ok [OF assms(1)] by simp
  moreover have "0 < count" by (rule grant(2))
  moreover have "gomap_ok (byDemand l)" using assms(1) by (simp add: ledger_ok_def)
  ultimately show ?thesis
    using assms(1) by (auto simp: ledger_ok_def l' promised_update)
qed

section \<open>Serving a list of demands\<close>

text \<open>\<open>applyLedgerAllocations\<close> of \<open>goals_demands.go\<close>: one pass, in the order of the demands.\<close>

definition allocate_demand ::
  "demand \<Rightarrow> inventory_ledger option \<Rightarrow> inventory_ledger option \<times> demand" where
  "allocate_demand d ledger =
     (let d1 = d\<lparr>dem_Have := Owned ledger (dem_ItemID d)\<rparr>;
          (ledger', granted) = Allocate d1 ledger;
          missing = dem_Count d1 - granted
      in (ledger',
          d1\<lparr>dem_Allocated := granted,
             dem_Available := Available ledger' (dem_ItemID d1),
             dem_Missing := (if missing < 0 then 0 else missing)\<rparr>))"

definition applyLedgerAllocations ::
  "demand list \<Rightarrow> inventory_ledger option \<Rightarrow> inventory_ledger option \<times> demand list" where
  "applyLedgerAllocations demands ledger = thread allocate_demand demands ledger"

locale item_ledger =
  fixes ok :: "'l \<Rightarrow> bool"
    and avail :: "'l \<Rightarrow> int \<Rightarrow> int"
    and serve :: "demand \<Rightarrow> 'l \<Rightarrow> 'l \<times> demand"
    and short :: "demand \<Rightarrow> bool"
  assumes serve_ok: "ok l \<Longrightarrow> serve d l = (l', d') \<Longrightarrow> ok l'"
    and serve_item: "serve d l = (l', d') \<Longrightarrow> dem_ItemID d' = dem_ItemID d"
    and serve_avail: "ok l \<Longrightarrow> serve d l = (l', d') \<Longrightarrow>
      avail l' i = avail l i - (if i = dem_ItemID d then dem_Allocated d' else 0)"
    and serve_nonneg: "ok l \<Longrightarrow> serve d l = (l', d') \<Longrightarrow> 0 \<le> dem_Allocated d'"
    and avail_nonneg: "ok l \<Longrightarrow> 0 \<le> avail l i"
    and serve_short: "ok l \<Longrightarrow> serve d l = (l', d') \<Longrightarrow> short d' \<Longrightarrow> avail l' (dem_ItemID d') = 0"
begin

lemma serve_all_ok: "ok l \<Longrightarrow> thread serve ds l = (l', ds') \<Longrightarrow> ok l'"
  by (rule thread_invariant [where I = ok]) (auto intro: serve_ok)

lemma thread_nonneg:
  "ok l \<Longrightarrow> thread serve ds l = (l', ds') \<Longrightarrow> d \<in> set ds' \<Longrightarrow> 0 \<le> dem_Allocated d"
proof (induction ds arbitrary: l ds')
  case Nil
  then show ?case by simp
next
  case (Cons d0 ds)
  obtain l1 d1 where s: "serve d0 l = (l1, d1)" by (cases "serve d0 l")
  obtain ds1 where t: "thread serve ds l1 = (l', ds1)" and ds': "ds' = d1 # ds1"
    using Cons.prems(2) s by (auto split: prod.splits)
  show ?case
    using Cons.IH [OF serve_ok [OF Cons.prems(1) s] t] serve_nonneg [OF Cons.prems(1) s]
      Cons.prems(3) ds' by auto
qed

text \<open>Conservation: what one item loses is what the demands for it were granted.\<close>

lemma serve_all_conserves:
  assumes "ok l" "thread serve ds l = (l', ds')"
  shows "avail l i = avail l' i +
         sum_list (map dem_Allocated (filter (\<lambda>d. dem_ItemID d = i) ds'))"
  using assms
proof (induction ds arbitrary: l ds')
  case Nil
  then show ?case by simp
next
  case (Cons d ds)
  obtain l1 d1 where s: "serve d l = (l1, d1)" by (cases "serve d l")
  obtain ds1 where t: "thread serve ds l1 = (l', ds1)" and ds': "ds' = d1 # ds1"
    using Cons.prems(2) s by (auto split: prod.splits)
  have "ok l1" using serve_ok Cons.prems(1) s by blast
  then have "avail l1 i = avail l' i +
      sum_list (map dem_Allocated (filter (\<lambda>d. dem_ItemID d = i) ds1))"
    using t by (rule Cons.IH)
  moreover have "avail l1 i = avail l i - (if i = dem_ItemID d then dem_Allocated d1 else 0)"
    by (rule serve_avail [OF Cons.prems(1) s])
  ultimately show ?case using serve_item [OF s] by (auto simp: ds')
qed

text \<open>No item is promised twice: the grants for it never exceed what was available.\<close>

lemma serve_all_bounded:
  assumes "ok l" "thread serve ds l = (l', ds')"
  shows "sum_list (map dem_Allocated (filter (\<lambda>d. dem_ItemID d = i) ds')) \<le> avail l i"
  using serve_all_conserves [OF assms, of i] avail_nonneg [OF serve_all_ok [OF assms], of i] by simp

text \<open>A demand that stays short leaves nothing of its item, and nothing comes back later.\<close>

lemma serve_all_exhausts:
  assumes "ok l" "thread serve ds l = (l', ds')" "d' \<in> set ds'" "short d'"
  shows "avail l' (dem_ItemID d') = 0"
  using assms
proof (induction ds arbitrary: l ds')
  case Nil
  then show ?case by simp
next
  case (Cons d ds)
  obtain l1 d1 where s: "serve d l = (l1, d1)" by (cases "serve d l")
  obtain ds1 where t: "thread serve ds l1 = (l', ds1)" and ds': "ds' = d1 # ds1"
    using Cons.prems(2) s by (auto split: prod.splits)
  have ok1: "ok l1" using serve_ok Cons.prems(1) s by blast
  show ?case
  proof (cases "d' \<in> set ds1")
    case True
    then show ?thesis using Cons.IH [OF ok1 t] Cons.prems(4) by blast
  next
    case False
    then have "avail l1 (dem_ItemID d') = 0"
      using serve_short [OF Cons.prems(1) s] Cons.prems(3,4) ds' by auto
    moreover have "0 \<le> sum_list (map dem_Allocated (filter (\<lambda>d. dem_ItemID d = dem_ItemID d') ds1))"
      by (rule sum_list_nonneg) (use thread_nonneg [OF ok1 t] in auto)
    ultimately show ?thesis
      using serve_all_conserves [OF ok1 t, of "dem_ItemID d'"]
        avail_nonneg [OF serve_all_ok [OF ok1 t], of "dem_ItemID d'"] by simp
  qed
qed

end

lemma Allocate_demand_Have: "Allocate (d\<lparr>dem_Have := h\<rparr>) lo = Allocate d lo"
  by (cases lo) (auto simp: Let_def)

lemma Available_grant:
  assumes "ledger_ok l" "ledger_ok l'"
    and "l' = l\<lparr>allocated := AList.update k (get_or 0 (allocated l) k + c) (allocated l),
                 byDemand := b\<rparr>"
  shows "Available (Some l') i = Available (Some l) i - (if i = k then c else 0)"
  using assms by (simp add: Available_ok del: Available.simps)

lemma Allocate_props:
  assumes ok: "ledger_opt_ok lo" and run: "Allocate d lo = (lo', a)"
  shows "ledger_opt_ok lo' \<and> 0 \<le> a \<and>
         Available lo' i = Available lo i - (if i = dem_ItemID d then a else 0)"
proof (cases lo)
  case None
  with run show ?thesis by (auto simp: ledger_opt_ok_def)
next
  case (Some l)
  then have l: "ledger_ok l" using ok by (simp add: ledger_opt_ok_def)
  show ?thesis
  proof (rule Allocate_cases [of d l])
    assume "Allocate d (Some l) = (Some l, 0)"
    with run Some ok show ?thesis by auto
  next
    fix count
    let ?l' = "l\<lparr>allocated := AList.update (dem_ItemID d)
                    (get_or 0 (allocated l) (dem_ItemID d) + count) (allocated l),
                  byDemand := AList.update (dem_ID d)
                    (AList.update (dem_ItemID d)
                       (get_or 0 (get_or [] (byDemand l) (dem_ID d)) (dem_ItemID d) + count)
                       (get_or [] (byDemand l) (dem_ID d))) (byDemand l)\<rparr>"
    assume *: "Allocate d (Some l) = (Some ?l', count)" and pos: "0 < count"
    then have lo': "lo' = Some ?l'" "a = count" using run Some by auto
    have ok': "ledger_ok ?l'" by (rule Allocate_ledger_ok [OF l *])
    show ?thesis
      using Available_grant [OF l ok' refl] pos ok' lo' Some
      by (simp add: ledger_opt_ok_def del: Available.simps)
  qed
qed

text \<open>A demand the ledger may serve at all, and one that was served less than it asked for.\<close>

definition servable :: "demand \<Rightarrow> bool" where
  "servable d \<longleftrightarrow> dem_ID d \<noteq> [] \<and> 0 < dem_ItemID d \<and> dem_BlockedReasons d = [] \<and>
     (dem_Kind d = DemandKindFlower \<or> dem_Kind d = DemandKindFlowerArt)"

lemma allocate_demand_result:
  assumes "allocate_demand d lo = (lo', d')"
  shows "Allocate d lo = (lo', dem_Allocated d')"
    "dem_Missing d' = max 0 (dem_Count d - dem_Allocated d')"
    "dem_ItemID d' = dem_ItemID d" "servable d' = servable d"
  using assms
  by (auto simp: allocate_demand_def Let_def Allocate_demand_Have servable_def max_def split: prod.splits)

lemma allocate_demand_short:
  assumes "ledger_opt_ok lo" "allocate_demand d lo = (lo', d')" "servable d' \<and> 0 < dem_Missing d'"
  shows "Available lo' (dem_ItemID d') = 0"
proof (cases lo)
  case None
  then show ?thesis using allocate_demand_result(1) [OF assms(2)] by simp
next
  case (Some l)
  note a = allocate_demand_result [OF assms(2)]
  have av: "Available lo' (dem_ItemID d) = Available lo (dem_ItemID d) - dem_Allocated d'"
    using Allocate_props [OF assms(1) a(1)] by simp
  have d: "servable d" "dem_Allocated d' < dem_Count d" using a(2,4) assms(3) by auto
  show ?thesis
  proof (cases rule: Allocate_cases [of d l])
    case skip
    then have e: "dem_Allocated d' = 0" using a(1) Some by simp
    with skip have "Available (Some l) (dem_ItemID d) \<le> 0"
      using d unfolding servable_def by (auto simp: Let_def split: if_splits)
    then show ?thesis using av e a(3) Some Available_nonneg [of lo "dem_ItemID d"] by simp
  next
    case (grant count)
    then have "dem_Allocated d' = min (dem_Count d) (Available lo (dem_ItemID d))"
      using a(1) Some by simp
    then show ?thesis using av d(2) a(3) by (simp add: min_def split: if_splits)
  qed
qed

interpretation il: item_ledger ledger_opt_ok Available allocate_demand
  "\<lambda>d. servable d \<and> 0 < dem_Missing d"
proof
  fix l l' :: "inventory_ledger option" and d d' i
  assume ok: "ledger_opt_ok l" and a: "allocate_demand d l = (l', d')"
  show "ledger_opt_ok l'" "0 \<le> dem_Allocated d'"
    "Available l' i = Available l i - (if i = dem_ItemID d then dem_Allocated d' else 0)"
    using Allocate_props [OF ok allocate_demand_result(1) [OF a]] by auto
  assume "servable d' \<and> 0 < dem_Missing d'"
  with ok a show "Available l' (dem_ItemID d') = 0" by (rule allocate_demand_short)
qed (rule allocate_demand_result(3) Available_nonneg; assumption?)+

definition sample_demand :: "string \<Rightarrow> int \<Rightarrow> demand" where
  "sample_demand i n = \<lparr>dem_ID = i, dem_GoalID = ''order'', dem_Category = [], dem_Domain = [],
     dem_EntityID = [], dem_Source = [], dem_Label = [], dem_Kind = DemandKindFlower, dem_ItemID = 12,
     dem_Count = n, dem_Have = 0, dem_Allocated = 0, dem_Available = 0, dem_Missing = 0,
     dem_Priority = 0, dem_BlockedReasons = [], dem_Status = [], dem_BlockingStage = [],
     dem_CostGates = []\<rparr>"

text \<open>
  C10.  Serving a list of demands from a fresh ledger promises no item twice: for
  every item, what is owned splits exactly into what the demands were granted and what is still
  available, the ledger stays consistent, and a servable demand is left short only when its item
  is used up.
\<close>

theorem grants_conserved:
  assumes "gomap_ok inventory"
    and "applyLedgerAllocations ds (Some (NewInventoryLedger inventory)) = (ledger, ds')"
  shows "max 0 (get_or 0 inventory i) =
           Available ledger i + sum_list (map dem_Allocated (filter (\<lambda>d. dem_ItemID d = i) ds')) \<and>
         0 \<le> Available ledger i \<and> ledger_opt_ok ledger \<and>
         (\<forall>d \<in> set ds'. servable d \<and> 0 < dem_Missing d \<longrightarrow> Available ledger (dem_ItemID d) = 0)"
proof -
  let ?l = "Some (NewInventoryLedger inventory)"
  have ok: "ledger_opt_ok ?l" using assms(1) by (simp add: ledger_opt_ok_def ledger_ok_New)
  note run = assms(2) [unfolded applyLedgerAllocations_def]
  have "Available ?l i = max 0 (get_or 0 inventory i)"
    using assms(1)
    by (auto simp: NewInventoryLedger_def get_or_def map_of_filter_gomap Let_def split: option.splits)
  then show ?thesis
    using il.serve_all_conserves [OF ok run, of i] il.serve_all_ok [OF ok run]
      il.serve_all_exhausts [OF ok run] Available_nonneg [of ledger i]
    by (metis (no_types, lifting))
qed

text \<open>Three roses for two demands of two: the second is left one short.\<close>

theorem grants_conserved_witness:
  "let (ledger, ds) = applyLedgerAllocations [sample_demand ''a'' 2, sample_demand ''b'' 2]
                        (Some (NewInventoryLedger [(12, 3)]))
   in map dem_Allocated ds = [2, 1] \<and> map dem_Missing ds = [0, 1] \<and>
      max 0 (get_or 0 [(12 :: int, 3 :: int)] 12) =
        Available ledger 12 + sum_list (map dem_Allocated (filter (\<lambda>d. dem_ItemID d = 12) ds)) \<and>
      (\<forall>d \<in> set ds. servable d \<and> 0 < dem_Missing d \<longrightarrow> Available ledger (dem_ItemID d) = 0)"
proof -
  define run where "run = applyLedgerAllocations [sample_demand ''a'' 2, sample_demand ''b'' 2]
    (Some (NewInventoryLedger [(12, 3)]))"
  have "map dem_Allocated (snd run) = [2, 1] \<and> map dem_Missing (snd run) = [0, 1]"
    unfolding run_def by code_simp
  moreover have "gomap_ok [(12 :: int, 3 :: int)]" by (simp add: gomap_ok_def)
  moreover have "applyLedgerAllocations [sample_demand ''a'' 2, sample_demand ''b'' 2]
      (Some (NewInventoryLedger [(12, 3)])) = (fst run, snd run)"
    by (simp add: run_def)
  ultimately show ?thesis
    using grants_conserved [of "[(12, 3)]"
        "[sample_demand ''a'' 2, sample_demand ''b'' 2]" "fst run" "snd run" 12]
    unfolding run_def [symmetric] by (simp add: case_prod_beta)
qed

end
