(* ===== verification/Login.thy ===== *)
theory Login
  imports Prelude
begin

text \<open>
  The admission guards of the API server: the login limiter
  (\<open>internal/apiserver/login_limiter.go\<close>) and the guard of identity probes
  (\<open>identity_probe_guard.go\<close>).  The client address arrives normalised (\<open>remoteIP\<close> rests on
  package \<open>net\<close>), so an address here is the key of its bucket.
\<close>

section \<open>The login limiter\<close>

record limiter_config =
  lc_Window :: duration
  lc_UserFailures :: int
  lc_IPFailures :: int
  lc_Lockout :: duration
  lc_MaxEntries :: int

definition normalizeLoginLimiterConfig :: "limiter_config \<Rightarrow> limiter_config" where
  "normalizeLoginLimiterConfig cfg =
     \<lparr>lc_Window = (if lc_Window cfg \<le> 0 then 10 * minute else lc_Window cfg),
      lc_UserFailures = (if lc_UserFailures cfg \<le> 0 then 5 else lc_UserFailures cfg),
      lc_IPFailures = (if lc_IPFailures cfg \<le> 0 then 30 else lc_IPFailures cfg),
      lc_Lockout = (if lc_Lockout cfg \<le> 0 then 15 * minute else lc_Lockout cfg),
      lc_MaxEntries = (if lc_MaxEntries cfg \<le> 0 then 4096 else lc_MaxEntries cfg)\<rparr>"

record login_bucket =
  lb_failures :: int
  lb_firstFailure :: time
  lb_lockedUntil :: time
  lb_lastSeen :: time

definition zero_bucket :: login_bucket where
  "zero_bucket = \<lparr>lb_failures = 0, lb_firstFailure = zero_time, lb_lockedUntil = zero_time,
     lb_lastSeen = zero_time\<rparr>"

type_synonym buckets = "(string, login_bucket) gomap"

record login_limiter =
  ll_cfg :: limiter_config
  ll_users :: buckets
  ll_ips :: buckets

definition NewLoginLimiter :: "limiter_config \<Rightarrow> login_limiter" where
  "NewLoginLimiter cfg = \<lparr>ll_cfg = normalizeLoginLimiterConfig cfg, ll_users = [], ll_ips = []\<rparr>"

text \<open>A decision is its scope and the end of the lockout.\<close>

type_synonym decision = "(string \<times> time) option"

definition normalizeLoginKey :: "string \<Rightarrow> string" where
  "normalizeLoginKey username = to_lower (trim_space username)"

definition checkBucket :: "login_bucket \<Rightarrow> string \<Rightarrow> time \<Rightarrow> login_bucket \<times> decision" where
  "checkBucket b scope now =
     (if \<not> time_is_zero (lb_lockedUntil b)
      then if now < lb_lockedUntil b
           then (b\<lparr>lb_lastSeen := now\<rparr>, Some (scope, lb_lockedUntil b))
           else (b\<lparr>lb_lockedUntil := zero_time\<rparr>, None)
      else (b, None))"

definition bucket_live :: "duration \<Rightarrow> time \<Rightarrow> login_bucket \<Rightarrow> bool" where
  "bucket_live window now b \<longleftrightarrow>
     (if \<not> time_is_zero (lb_lockedUntil b) then now < lb_lockedUntil b
      else \<not> (time_is_zero (lb_firstFailure b) \<or> time_sub now (lb_firstFailure b) > window))"

definition pruneMap :: "duration \<Rightarrow> time \<Rightarrow> buckets \<Rightarrow> buckets" where
  "pruneMap window now m = filter (\<lambda>(key, b). bucket_live window now b) m"

definition pruneExpired :: "time \<Rightarrow> login_limiter \<Rightarrow> login_limiter" where
  "pruneExpired now l =
     l\<lparr>ll_users := pruneMap (lc_Window (ll_cfg l)) now (ll_users l),
       ll_ips := pruneMap (lc_Window (ll_cfg l)) now (ll_ips l)\<rparr>"

definition older :: "string \<times> login_bucket \<Rightarrow> (string \<times> time) option \<Rightarrow> (string \<times> time) option" where
  "older kb best =
     (case best of
        None \<Rightarrow> Some (fst kb, lb_lastSeen (snd kb))
      | Some (k, seen) \<Rightarrow>
          if lb_lastSeen (snd kb) < seen then Some (fst kb, lb_lastSeen (snd kb)) else best)"

definition oldest_key :: "buckets \<Rightarrow> string option" where
  "oldest_key m = map_option fst (fold older m None)"

lemma fold_older_Some: "\<exists>k seen. fold older xs (Some r) = Some (k, seen) \<and> (k \<in> fst ` set xs \<or> k = fst r)"
proof (induction xs arbitrary: r)
  case Nil
  then show ?case by (cases r) simp
next
  case (Cons kb xs)
  obtain k seen where r: "r = (k, seen)" by (cases r)
  show ?case
    using Cons.IH [of "(fst kb, lb_lastSeen (snd kb))"] Cons.IH [of r]
    by (simp add: older_def r) blast
qed

lemma oldest_key_Nil: "oldest_key [] = None"
  by (simp add: oldest_key_def)

lemma oldest_key_Cons: "\<exists>k. oldest_key (kb # m) = Some k \<and> k \<in> fst ` set (kb # m)"
  using fold_older_Some [of m "(fst kb, lb_lastSeen (snd kb))"]
  by (auto simp: oldest_key_def older_def)

lemma oldest_key_mem: "oldest_key m = Some k \<Longrightarrow> k \<in> fst ` set m"
  using oldest_key_Cons [of "hd m" "tl m"] by (cases m) (auto simp: oldest_key_Nil)

lemma length_delete_less: "k \<in> fst ` set m \<Longrightarrow> length (AList.delete k m) < length m"
  by (auto simp: AList.delete_eq intro!: length_filter_less)

text \<open>The eviction loop of \<open>makeRoom\<close>.\<close>

function evict :: "int \<Rightarrow> buckets \<Rightarrow> buckets" where
  "evict max_entries m =
     (if int (length m) < max_entries then m
      else case oldest_key m of None \<Rightarrow> m | Some key \<Rightarrow> evict max_entries (AList.delete key m))"
  by auto
termination
  by (relation "measure (length \<circ> snd)") (auto dest: oldest_key_mem intro: length_delete_less)

declare evict.simps [simp del]

definition makeRoom :: "limiter_config \<Rightarrow> time \<Rightarrow> buckets \<Rightarrow> buckets" where
  "makeRoom cfg now m =
     (if int (length m) < lc_MaxEntries cfg then m
      else evict (lc_MaxEntries cfg) (pruneMap (lc_Window cfg) now m))"

definition recordFailure ::
  "limiter_config \<Rightarrow> string \<Rightarrow> string \<Rightarrow> int \<Rightarrow> time \<Rightarrow> buckets \<Rightarrow> buckets \<times> decision" where
  "recordFailure cfg key scope threshold now m0 =
     (if threshold \<le> 0 then (m0, None)
      else
        let m = makeRoom cfg now m0;
            b0 = (get_or zero_bucket m key)\<lparr>lb_lastSeen := now\<rparr>
        in case checkBucket b0 scope now of
             (b1, Some dec) \<Rightarrow> (AList.update key b1 m, Some dec)
           | (b1, None) \<Rightarrow>
               let b2 = (if time_is_zero (lb_firstFailure b1) \<or>
                            time_sub now (lb_firstFailure b1) > lc_Window cfg
                         then b1\<lparr>lb_failures := 0, lb_firstFailure := now\<rparr> else b1);
                   b3 = b2\<lparr>lb_failures := lb_failures b2 + 1\<rparr>
               in if lb_failures b3 \<ge> threshold
                  then (AList.update key (b3\<lparr>lb_failures := 0, lb_firstFailure := zero_time,
                                             lb_lockedUntil := now + lc_Lockout cfg\<rparr>) m,
                        Some (scope, now + lc_Lockout cfg))
                  else (AList.update key b3 m, None))"

text \<open>A bucket looked up in a map, checked, and written back through its pointer.\<close>

definition check_key :: "string \<Rightarrow> string \<Rightarrow> time \<Rightarrow> buckets \<Rightarrow> buckets \<times> decision" where
  "check_key key scope now m =
     (case map_of m key of None \<Rightarrow> (m, None)
      | Some b \<Rightarrow> (case checkBucket b scope now of (b', dec) \<Rightarrow> (AList.update key b' m, dec)))"

definition Check :: "string \<Rightarrow> string \<Rightarrow> time \<Rightarrow> login_limiter \<Rightarrow> login_limiter \<times> decision" where
  "Check username ipKey now l0 =
     (let l = pruneExpired now l0 in
      case check_key (normalizeLoginKey username) ''username'' now (ll_users l) of
        (users, Some dec) \<Rightarrow> (l\<lparr>ll_users := users\<rparr>, Some dec)
      | (users, None) \<Rightarrow>
          (case check_key ipKey ''ip'' now (ll_ips l) of
             (ips, dec) \<Rightarrow> (l\<lparr>ll_users := users, ll_ips := ips\<rparr>, dec)))"

definition RecordFailure :: "string \<Rightarrow> string \<Rightarrow> time \<Rightarrow> login_limiter \<Rightarrow> login_limiter \<times> decision" where
  "RecordFailure username ipKey now l0 =
     (let l = pruneExpired now l0; userKey = normalizeLoginKey username in
      case (if userKey \<noteq> []
            then recordFailure (ll_cfg l) userKey ''username'' (lc_UserFailures (ll_cfg l)) now (ll_users l)
            else (ll_users l, None)) of
        (users, userDec) \<Rightarrow>
          (case recordFailure (ll_cfg l) ipKey ''ip'' (lc_IPFailures (ll_cfg l)) now (ll_ips l) of
             (ips, ipDec) \<Rightarrow>
               (l\<lparr>ll_users := users, ll_ips := ips\<rparr>,
                case userDec of Some dec \<Rightarrow> Some dec | None \<Rightarrow> ipDec)))"

definition RecordSuccess :: "string \<Rightarrow> login_limiter \<Rightarrow> login_limiter" where
  "RecordSuccess username l = l\<lparr>ll_users := AList.delete (normalizeLoginKey username) (ll_users l)\<rparr>"

section \<open>Memory\<close>

lemma evict_length: "0 < max_entries \<Longrightarrow> int (length (evict max_entries m)) < max_entries"
proof (induction max_entries m rule: evict.induct)
  case (1 max_entries m)
  show ?case
  proof (cases "oldest_key m")
    case None
    then have "m = []" using oldest_key_Cons [of "hd m" "tl m"] by (cases m) auto
    then show ?thesis using 1(2) by (simp add: evict.simps [of max_entries "[]"])
  next
    case (Some key)
    then show ?thesis using 1 by (auto simp: evict.simps [of max_entries m])
  qed
qed

lemma evict_subset: "set (evict max_entries m) \<subseteq> set m"
proof (induction max_entries m rule: evict.induct)
  case (1 max_entries m)
  show ?case
  proof (cases "int (length m) < max_entries \<or> oldest_key m = None")
    case True
    then show ?thesis by (auto simp: evict.simps [of max_entries m])
  next
    case False
    then obtain key where k: "oldest_key m = Some key" by auto
    have "set (evict max_entries (AList.delete key m)) \<subseteq> set (AList.delete key m)"
      using 1 False k by auto
    also have "\<dots> \<subseteq> set m" by (auto simp: AList.delete_eq)
    finally show ?thesis using False k by (simp add: evict.simps [of max_entries m])
  qed
qed

lemma makeRoom_length: "0 < lc_MaxEntries cfg \<Longrightarrow> int (length (makeRoom cfg now m)) < lc_MaxEntries cfg"
  by (auto simp: makeRoom_def evict_length)

lemma recordFailure_length:
  assumes "0 < lc_MaxEntries cfg" "recordFailure cfg key scope threshold now m = (m', dec)"
    and "int (length m) \<le> lc_MaxEntries cfg"
  shows "int (length m') \<le> lc_MaxEntries cfg"
proof (cases "threshold \<le> 0")
  case True
  then show ?thesis using assms by (simp add: recordFailure_def)
next
  case False
  then obtain b where "m' = AList.update key b (makeRoom cfg now m)"
    using assms(2) by (auto simp: recordFailure_def Let_def split: prod.splits option.splits if_splits)
  then show ?thesis using makeRoom_length [OF assms(1), of now m] by (simp add: length_alist_update)
qed

inductive limiter_run :: "limiter_config \<Rightarrow> login_limiter \<Rightarrow> bool" for cfg :: limiter_config where
  start: "limiter_run cfg (NewLoginLimiter cfg)"
| check: "limiter_run cfg l \<Longrightarrow> Check username ipKey now l = (l', dec) \<Longrightarrow> limiter_run cfg l'"
| failure: "limiter_run cfg l \<Longrightarrow> RecordFailure username ipKey now l = (l', dec) \<Longrightarrow> limiter_run cfg l'"
| success: "limiter_run cfg l \<Longrightarrow> limiter_run cfg (RecordSuccess username l)"

lemma length_pruneMap: "length (pruneMap w now m) \<le> length m"
  by (simp add: pruneMap_def)

lemma check_key_length: "check_key key scope now m = (m', dec) \<Longrightarrow> length m' = length m"
proof -
  assume c: "check_key key scope now m = (m', dec)"
  show "length m' = length m"
  proof (cases "map_of m key")
    case None
    then show ?thesis using c by (simp add: check_key_def)
  next
    case (Some b)
    then have "key \<in> fst ` set m" by (metis map_of_eq_None_iff option.distinct(1))
    moreover obtain b' where "m' = AList.update key b' m"
      using c Some by (auto simp: check_key_def split: prod.splits)
    ultimately show ?thesis by (simp only: length_alist_update if_True)
  qed
qed

lemma check_run_length:
  assumes "Check username ipKey now l = (l', dec)"
  shows "ll_cfg l' = ll_cfg l" "length (ll_users l') \<le> length (ll_users l)"
    "length (ll_ips l') \<le> length (ll_ips l)"
proof -
  let ?l = "pruneExpired now l"
  have p: "length (ll_users ?l) \<le> length (ll_users l)" "length (ll_ips ?l) \<le> length (ll_ips l)"
    "ll_cfg ?l = ll_cfg l"
    by (simp_all add: pruneExpired_def length_pruneMap)
  obtain users ud where u: "check_key (normalizeLoginKey username) ''username'' now (ll_users ?l) = (users, ud)"
    by fastforce
  obtain ips id' where i: "check_key ipKey ''ip'' now (ll_ips ?l) = (ips, id')" by fastforce
  show "ll_cfg l' = ll_cfg l" "length (ll_users l') \<le> length (ll_users l)"
    "length (ll_ips l') \<le> length (ll_ips l)"
    using assms check_key_length [OF u] check_key_length [OF i] p
    by (auto simp: Check_def Let_def u i split: option.splits)
qed

lemma normalize_pos: "0 < lc_MaxEntries (normalizeLoginLimiterConfig cfg)"
  by (simp add: normalizeLoginLimiterConfig_def)

text \<open>
  However many user names and addresses are tried, the limiter never remembers
  more of either than its configured number of entries.
\<close>

lemma limiter_bounded:
  assumes "limiter_run cfg l"
  shows "int (length (ll_users l)) \<le> lc_MaxEntries (ll_cfg l) \<and>
    int (length (ll_ips l)) \<le> lc_MaxEntries (ll_cfg l)"
proof -
  have "ll_cfg l = normalizeLoginLimiterConfig cfg \<and>
    int (length (ll_users l)) \<le> lc_MaxEntries (ll_cfg l) \<and>
    int (length (ll_ips l)) \<le> lc_MaxEntries (ll_cfg l)"
    using assms
  proof (induction rule: limiter_run.induct)
    case start
    then show ?case using normalize_pos [of cfg] by (simp add: NewLoginLimiter_def)
  next
    case (check l username ipKey now l' dec)
    note c = check_run_length [OF check.hyps(2)]
    from check.IH have "int (length (ll_users l)) \<le> lc_MaxEntries (ll_cfg l)"
      "int (length (ll_ips l)) \<le> lc_MaxEntries (ll_cfg l)" by blast+
    with c have "int (length (ll_users l')) \<le> lc_MaxEntries (ll_cfg l)"
      "int (length (ll_ips l')) \<le> lc_MaxEntries (ll_cfg l)" by linarith+
    then show ?case unfolding c(1) using check.IH by blast
  next
    case (failure l username ipKey now l' dec)
    let ?l = "pruneExpired now l" and ?k = "normalizeLoginKey username"
    from failure.IH have b: "int (length (ll_users l)) \<le> lc_MaxEntries (ll_cfg l)"
      "int (length (ll_ips l)) \<le> lc_MaxEntries (ll_cfg l)" by blast+
    have p: "int (length (ll_users ?l)) \<le> lc_MaxEntries (ll_cfg ?l)"
      "int (length (ll_ips ?l)) \<le> lc_MaxEntries (ll_cfg ?l)" "ll_cfg ?l = ll_cfg l"
      using b length_pruneMap [of "lc_Window (ll_cfg l)" now "ll_users l"]
        length_pruneMap [of "lc_Window (ll_cfg l)" now "ll_ips l"]
      by (simp_all add: pruneExpired_def)
    have pos: "0 < lc_MaxEntries (ll_cfg ?l)" using p(3) failure.IH normalize_pos [of cfg] by simp
    obtain users ud where u: "(if ?k \<noteq> []
            then recordFailure (ll_cfg ?l) ?k ''username'' (lc_UserFailures (ll_cfg ?l)) now (ll_users ?l)
            else (ll_users ?l, None)) = (users, ud)" by fastforce
    obtain ips idd where i: "recordFailure (ll_cfg ?l) ipKey ''ip'' (lc_IPFailures (ll_cfg ?l)) now
        (ll_ips ?l) = (ips, idd)" by fastforce
    have "int (length users) \<le> lc_MaxEntries (ll_cfg ?l)"
      using u p(1) recordFailure_length [OF pos] by (auto split: if_splits)
    moreover have "int (length ips) \<le> lc_MaxEntries (ll_cfg ?l)"
      by (rule recordFailure_length [OF pos i p(2)])
    moreover have "l' = ?l\<lparr>ll_users := users, ll_ips := ips\<rparr>"
      using failure.hyps(2) unfolding RecordFailure_def Let_def u i by simp
    ultimately show ?case using failure.IH p(3) by simp
  next
    case (success l username)
    have "length (AList.delete (normalizeLoginKey username) (ll_users l)) \<le> length (ll_users l)"
      by (simp add: AList.delete_eq)
    then have "length (ll_users (RecordSuccess username l)) \<le> length (ll_users l)"
      by (simp add: RecordSuccess_def)
    moreover have "ll_cfg (RecordSuccess username l) = ll_cfg l" "ll_ips (RecordSuccess username l) = ll_ips l"
      by (simp_all add: RecordSuccess_def)
    ultimately show ?case using success.IH by (metis of_nat_mono order_trans)
  qed
  then show ?thesis by blast
qed

text \<open>Two failing users in a limiter of one entry per map: the older one is evicted.\<close>

definition small_limiter :: limiter_config where
  "small_limiter = \<lparr>lc_Window = 10 * minute, lc_UserFailures = 2, lc_IPFailures = 9, lc_Lockout = minute,
     lc_MaxEntries = 1\<rparr>"

section \<open>Lockouts\<close>

text \<open>What a bucket says of its key at a moment.\<close>

definition locked :: "string \<Rightarrow> time \<Rightarrow> buckets \<Rightarrow> bool" where
  "locked key t m \<longleftrightarrow> (\<exists>b. map_of m key = Some b \<and> lb_lockedUntil b \<noteq> zero_time \<and> t < lb_lockedUntil b)"

lemma locked_code [code]:
  "locked key t m = (case map_of m key of None \<Rightarrow> False
     | Some b \<Rightarrow> \<not> time_is_zero (lb_lockedUntil b) \<and> t < lb_lockedUntil b)"
  by (auto simp: locked_def time_is_zero_def split: option.splits)

lemma map_of_pruneMap:
  "gomap_ok m \<Longrightarrow> map_of (pruneMap w now m) key =
     (case map_of m key of None \<Rightarrow> None | Some b \<Rightarrow> if bucket_live w now b then Some b else None)"
  unfolding pruneMap_def by (rule map_of_filter_gomap)

lemma locked_prune: "gomap_ok m \<Longrightarrow> now \<le> t \<Longrightarrow> locked key t (pruneMap w now m) = locked key t m"
  by (auto simp: locked_def map_of_pruneMap bucket_live_def time_is_zero_def split: option.splits if_splits)

lemma check_key_locked:
  assumes "check_key key scope now m = (m', dec)"
  shows "dec \<noteq> None \<longleftrightarrow> locked key now m"
    and "now \<le> t \<Longrightarrow> locked k t m' = locked k t m"
  using assms
  by (auto simp: check_key_def checkBucket_def locked_def time_is_zero_def update_conv'
      split: option.splits if_splits prod.splits)

text \<open>
  \<open>Check\<close> turns a login away exactly while the lockout of its user name or of its
  address runs, and looking never shortens or extends a lockout.
\<close>

lemma check_exact:
  assumes "Check username ipKey now l = (l', dec)" "gomap_ok (ll_users l)" "gomap_ok (ll_ips l)"
    and "now \<le> t"
  shows "(dec \<noteq> None \<longleftrightarrow> locked (normalizeLoginKey username) now (ll_users l) \<or> locked ipKey now (ll_ips l)) \<and>
    locked k t (ll_users l') = locked k t (ll_users l) \<and>
    locked k t (ll_ips l') = locked k t (ll_ips l)"
proof -
  let ?l = "pruneExpired now l"
  let ?w = "lc_Window (ll_cfg l)"
  have p: "ll_users ?l = pruneMap ?w now (ll_users l)" "ll_ips ?l = pruneMap ?w now (ll_ips l)"
    by (simp_all add: pruneExpired_def)
  obtain users ud where u: "check_key (normalizeLoginKey username) ''username'' now (ll_users ?l) = (users, ud)"
    by fastforce
  obtain ips idd where i: "check_key ipKey ''ip'' now (ll_ips ?l) = (ips, idd)" by fastforce
  note ku = check_key_locked [OF u] and ki = check_key_locked [OF i]
  note lu = locked_prune [OF assms(2)] and li = locked_prune [OF assms(3)]
  have U: "ud \<noteq> None \<longleftrightarrow> locked (normalizeLoginKey username) now (ll_users l)"
    "locked k t users = locked k t (ll_users l)"
    using ku(1) ku(2) [OF assms(4)] lu assms(4) by (simp_all add: p)
  have I: "idd \<noteq> None \<longleftrightarrow> locked ipKey now (ll_ips l)" "locked k t ips = locked k t (ll_ips l)"
    using ki(1) ki(2) [OF assms(4)] li assms(4) by (simp_all add: p)
  show ?thesis
  proof (cases ud)
    case None
    then have "dec = idd" "l' = ?l\<lparr>ll_users := users, ll_ips := ips\<rparr>"
      using assms(1) by (simp_all add: Check_def Let_def u i)
    then show ?thesis using U I None by simp
  next
    case (Some d)
    then have "dec = Some d" "l' = ?l\<lparr>ll_users := users\<rparr>"
      using assms(1) by (simp_all add: Check_def Let_def u)
    moreover have "locked k t (ll_ips ?l) = locked k t (ll_ips l)" using li assms(4) by (simp add: p)
    ultimately show ?thesis using U Some by simp
  qed
qed

text \<open>A locked user is refused, and the refusal leaves both lockouts as they were.\<close>

text \<open>The counting of failures, when the map has room for another key.\<close>

definition roomy :: "limiter_config \<Rightarrow> buckets \<Rightarrow> bool" where
  "roomy cfg m \<longleftrightarrow> int (length m) < lc_MaxEntries cfg"

definition counting :: "limiter_config \<Rightarrow> string \<Rightarrow> time \<Rightarrow> int \<Rightarrow> buckets \<Rightarrow> bool" where
  "counting cfg key t0 n m \<longleftrightarrow>
     (\<exists>b. map_of m key = Some b \<and> lb_failures b = n \<and> lb_firstFailure b = t0 \<and>
          lb_lockedUntil b = zero_time)"

lemma recordFailure_first:
  assumes "recordFailure cfg key scope threshold now m = (m', dec)" "0 < threshold" "roomy cfg m"
    and "map_of m key = None"
  shows "if threshold = 1 then dec = Some (scope, now + lc_Lockout cfg)
         else dec = None \<and> counting cfg key now 1 m'"
  using assms
  by (auto simp: recordFailure_def makeRoom_def roomy_def Let_def get_or_def zero_bucket_def
      checkBucket_def time_is_zero_def counting_def update_conv' split: if_splits)

lemma recordFailure_again:
  assumes "recordFailure cfg key scope threshold now m = (m', dec)" "0 < threshold" "roomy cfg m"
    and "counting cfg key t0 n m" "t0 \<noteq> zero_time" "time_sub now t0 \<le> lc_Window cfg"
  shows "if threshold \<le> n + 1 then dec = Some (scope, now + lc_Lockout cfg)
         else dec = None \<and> counting cfg key t0 (n + 1) m'"
  using assms
  by (auto simp: recordFailure_def makeRoom_def roomy_def Let_def get_or_def
      checkBucket_def time_is_zero_def counting_def update_conv' split: if_splits)

lemma recordFailure_locks:
  assumes "recordFailure cfg key scope threshold now m = (m', Some (sc, until))" "now < until"
    and "until \<noteq> zero_time" "t < until"
  shows "locked key t m'"
  using assms
  by (auto simp: recordFailure_def Let_def checkBucket_def locked_def time_is_zero_def update_conv'
      split: if_splits prod.splits option.splits)

text \<open>What happens at the limiter: failures, checks and successes of any names from any addresses.\<close>

datatype login_event = Failed string string time | Checked string string time | Succeeded string

fun login_step :: "login_event \<Rightarrow> login_limiter \<Rightarrow> login_limiter" where
  "login_step (Failed username ip t) l = fst (RecordFailure username ip t l)"
| "login_step (Checked username ip t) l = fst (Check username ip t l)"
| "login_step (Succeeded username) l = RecordSuccess username l"

definition login_series :: "login_event list \<Rightarrow> login_limiter \<Rightarrow> login_limiter" where
  "login_series evs l = fold login_step evs l"

text \<open>The moments at which the user name failed, the names that failed at all, and the moments of the events.\<close>

fun failure_of :: "string \<Rightarrow> login_event \<Rightarrow> time option" where
  "failure_of key (Failed username ip t) = (if normalizeLoginKey username = key then Some t else None)"
| "failure_of key _ = None"

definition own_failures :: "string \<Rightarrow> login_event list \<Rightarrow> time list" where
  "own_failures key evs = List.map_filter (failure_of key) evs"

fun failed_name :: "login_event \<Rightarrow> string option" where
  "failed_name (Failed username ip t) = Some (normalizeLoginKey username)"
| "failed_name _ = None"

definition failed_names :: "login_event list \<Rightarrow> string list" where
  "failed_names evs = List.map_filter failed_name evs"

fun event_between :: "time \<Rightarrow> time \<Rightarrow> login_event \<Rightarrow> bool" where
  "event_between from until (Failed username ip t) \<longleftrightarrow> from \<le> t \<and> t \<le> until"
| "event_between from until (Checked username ip t) \<longleftrightarrow> from \<le> t \<and> t \<le> until"
| "event_between from until (Succeeded username) \<longleftrightarrow> True"

lemma own_failures_snoc [simp]:
  "own_failures key (evs @ [e]) = own_failures key evs @ (case failure_of key e of None \<Rightarrow> [] | Some t \<Rightarrow> [t])"
  by (simp add: own_failures_def List.map_filter_def split: option.split)

lemma failed_names_snoc [simp]:
  "failed_names (evs @ [e]) = failed_names evs @ (case failed_name e of None \<Rightarrow> [] | Some k \<Rightarrow> [k])"
  by (simp add: failed_names_def List.map_filter_def split: option.split)

lemma RecordFailure_users:
  "ll_users (fst (RecordFailure username ip t l)) =
      (if normalizeLoginKey username = [] then pruneMap (lc_Window (ll_cfg l)) t (ll_users l)
       else fst (recordFailure (ll_cfg l) (normalizeLoginKey username) ''username''
             (lc_UserFailures (ll_cfg l)) t (pruneMap (lc_Window (ll_cfg l)) t (ll_users l))))"
  "ll_cfg (fst (RecordFailure username ip t l)) = ll_cfg l"
  by (simp_all add: RecordFailure_def Let_def pruneExpired_def split_def)

lemma Check_users:
  "ll_users (fst (Check username ip t l)) =
      fst (check_key (normalizeLoginKey username) ''username'' t (pruneMap (lc_Window (ll_cfg l)) t (ll_users l)))"
  "ll_cfg (fst (Check username ip t l)) = ll_cfg l"
  by (simp_all add: Check_def Let_def pruneExpired_def split: prod.split option.split)

lemma recordFailure_update:
  "roomy cfg m \<Longrightarrow> fst (recordFailure cfg key scope threshold now m) = m \<or>
     (\<exists>b. fst (recordFailure cfg key scope threshold now m) = AList.update key b m)"
  by (auto simp: recordFailure_def makeRoom_def roomy_def Let_def split: prod.splits option.splits if_splits)

lemma keys_roomy:
  assumes "gomap_ok m" "fst ` set m \<subseteq> S" "finite S" "int (card S) < lc_MaxEntries cfg"
  shows "roomy cfg m"
proof -
  have "length m = card (fst ` set m)"
    using assms(1) distinct_card [of "map fst m"] by (simp add: gomap_ok_def)
  also have "\<dots> \<le> card S" by (rule card_mono [OF assms(3, 2)])
  finally show ?thesis using assms(4) by (simp add: roomy_def)
qed

text \<open>The maps of users a limiter may hold when only the names of \<open>S\<close> have failed.\<close>

definition users_among :: "string set \<Rightarrow> limiter_config \<Rightarrow> login_limiter \<Rightarrow> bool" where
  "users_among S cfg l \<longleftrightarrow> ll_cfg l = cfg \<and> gomap_ok (ll_users l) \<and> fst ` set (ll_users l) \<subseteq> S"

lemma prune_among: "gomap_ok m \<Longrightarrow> fst ` set m \<subseteq> S \<Longrightarrow> gomap_ok (pruneMap w t m) \<and> fst ` set (pruneMap w t m) \<subseteq> S"
  by (auto simp: pruneMap_def)

lemma check_key_map:
  "gomap_ok m \<Longrightarrow> gomap_ok (fst (check_key k scope t m)) \<and> fst ` set (fst (check_key k scope t m)) = fst ` set m \<and>
     map_of (fst (check_key k scope t m)) key =
       (if k = key then map_option (\<lambda>b. fst (checkBucket b scope t)) (map_of m key) else map_of m key)"
proof (cases "map_of m k")
  case (Some b)
  then have "k \<in> fst ` set m" by (metis map_of_eq_None_iff option.distinct(1))
  moreover have "fst (check_key k scope t m) = AList.update k (fst (checkBucket b scope t)) m"
    using Some by (simp add: check_key_def split: prod.split)
  moreover assume "gomap_ok m"
  ultimately show ?thesis using Some by (auto simp: dom_update insert_absorb update_conv')
qed (auto simp: check_key_def)

lemma check_key_counting:
  "gomap_ok m \<Longrightarrow> counting cfg key t0 n m \<Longrightarrow> counting cfg key t0 n (fst (check_key k scope t m))"
  using check_key_map [of m k scope t key] by (auto simp: counting_def checkBucket_def time_is_zero_def)

lemma prune_counting:
  "gomap_ok m \<Longrightarrow> counting cfg key t0 n m \<Longrightarrow> t0 \<noteq> zero_time \<Longrightarrow> time_sub t t0 \<le> w \<Longrightarrow>
     counting cfg key t0 n (pruneMap w t m)"
  by (auto simp: counting_def map_of_pruneMap bucket_live_def time_is_zero_def)

lemma step_among:
  assumes l: "users_among S cfg l" and S: "finite S" "int (card S) < lc_MaxEntries cfg"
    and name: "\<forall>k. failed_name e = Some k \<longrightarrow> k \<in> S"
  shows "users_among S cfg (login_step e l)"
proof (cases e)
  case (Failed username ip t)
  let ?m = "pruneMap (lc_Window cfg) t (ll_users l)" and ?k = "normalizeLoginKey username"
  have m: "gomap_ok ?m" "fst ` set ?m \<subseteq> S" "ll_cfg l = cfg" using l prune_among by (auto simp: users_among_def)
  define m' where "m' = fst (recordFailure cfg ?k ''username'' (lc_UserFailures cfg) t ?m)"
  have "gomap_ok m' \<and> fst ` set m' \<subseteq> insert ?k (fst ` set ?m)"
    using recordFailure_update [OF keys_roomy [OF m(1, 2) S], of ?k "''username''" "lc_UserFailures cfg" t] m(1)
    by (elim disjE exE) (simp_all add: m'_def [symmetric] dom_update subset_insertI)
  moreover have "insert ?k (fst ` set ?m) \<subseteq> S" using m(2) name by (simp add: Failed)
  ultimately have "gomap_ok m' \<and> fst ` set m' \<subseteq> S" by (meson order_trans)
  then show ?thesis
    using m unfolding Failed users_among_def login_step.simps RecordFailure_users m(3) m'_def by simp
next
  case (Checked username ip t)
  let ?m = "pruneMap (lc_Window cfg) t (ll_users l)"
  have m: "gomap_ok ?m" "fst ` set ?m \<subseteq> S" "ll_cfg l = cfg" using l prune_among by (auto simp: users_among_def)
  show ?thesis
    using m check_key_map [OF m(1)] by (simp add: Checked users_among_def Check_users)
next
  case (Succeeded username)
  then show ?thesis using l by (auto simp: users_among_def RecordSuccess_def AList.delete_eq)
qed

text \<open>An event that is no failure and no success of the name leaves its count, and its lockout, alone.\<close>

lemma quiet_step:
  assumes l: "users_among S cfg l" and S: "finite S" "int (card S) < lc_MaxEntries cfg"
    and e: "failure_of key e = None" "\<forall>u. e = Succeeded u \<longrightarrow> normalizeLoginKey u \<noteq> key"
    and t0: "t0 \<noteq> zero_time" and win: "event_between t0 (t0 + lc_Window cfg) e" "lc_Window cfg < max_duration" "0 \<le> lc_Window cfg"
  shows "(counting cfg key t0 n (ll_users l) \<longrightarrow> counting cfg key t0 n (ll_users (login_step e l))) \<and>
    (event_between t0 t e \<longrightarrow> locked key t (ll_users (login_step e l)) = locked key t (ll_users l))"
proof -
  have sub: "time_sub t' t0 \<le> lc_Window cfg" if "t' \<le> t0 + lc_Window cfg" for t'
    using that win(2, 3) by (subst time_sub_le_iff) (auto simp: duration_defs)
  have ok: "gomap_ok (ll_users l)" "fst ` set (ll_users l) \<subseteq> S" "ll_cfg l = cfg"
    using l by (simp_all add: users_among_def)
  show ?thesis
  proof (cases e)
    case (Failed username ip t')
    let ?m = "pruneMap (lc_Window cfg) t' (ll_users l)" and ?k = "normalizeLoginKey username"
    have k: "?k \<noteq> key" "time_sub t' t0 \<le> lc_Window cfg" using e(1) win(1) sub by (auto simp: Failed split: if_splits)
    have m: "gomap_ok ?m" "fst ` set ?m \<subseteq> S" using prune_among [OF ok(1, 2)] by auto
    have "map_of (fst (recordFailure cfg ?k ''username'' (lc_UserFailures cfg) t' ?m)) key = map_of ?m key"
      using recordFailure_update [OF keys_roomy [OF m S], of ?k "''username''" "lc_UserFailures cfg" t'] k(1)
      by (auto simp: update_conv')
    then have "map_of (ll_users (login_step e l)) key = map_of ?m key"
      by (simp add: Failed RecordFailure_users ok(3))
    then show ?thesis
      using prune_counting [OF ok(1) _ t0 k(2)] locked_prune [OF ok(1), of t' t key]
      by (auto simp: Failed counting_def locked_def)
  next
    case (Checked username ip t')
    let ?m = "pruneMap (lc_Window cfg) t' (ll_users l)" and ?k = "normalizeLoginKey username"
    have m: "gomap_ok ?m" "time_sub t' t0 \<le> lc_Window cfg"
      using prune_among [OF ok(1, 2)] win(1) sub by (auto simp: Checked)
    have u: "ll_users (login_step e l) = fst (check_key ?k ''username'' t' ?m)"
      by (simp add: Checked Check_users ok(3))
    have "locked key t (ll_users (login_step e l)) = locked key t ?m" if "t' \<le> t"
      unfolding u by (rule check_key_locked(2) [OF surjective_pairing that])
    then show ?thesis
      using check_key_counting [OF m(1)] prune_counting [OF ok(1) _ t0 m(2)] locked_prune [OF ok(1), of t' t key]
      unfolding u by (auto simp: Checked)
  next
    case (Succeeded username)
    then have "map_of (ll_users (login_step e l)) key = map_of (ll_users l) key"
      using e(2) by (simp add: RecordSuccess_def delete_conv')
    then show ?thesis by (simp add: counting_def locked_def)
  qed
qed

text \<open>What the limiter knows of a name whose failures of the window are \<open>ts\<close>.\<close>

definition known_of :: "limiter_config \<Rightarrow> string \<Rightarrow> time list \<Rightarrow> (time \<Rightarrow> bool) \<Rightarrow> buckets \<Rightarrow> bool" where
  "known_of cfg key ts later m \<longleftrightarrow>
     (if int (length ts) < lc_UserFailures cfg then counting cfg key (hd ts) (int (length ts)) m
      else \<forall>t. later t \<longrightarrow> (locked key t m \<longleftrightarrow> t < last ts + lc_Lockout cfg))"

lemma own_failure:
  assumes l: "users_among S cfg l" and S: "finite S" "int (card S) < lc_MaxEntries cfg"
    and key: "normalizeLoginKey username = key" "key \<noteq> []"
    and ts: "hd (ts @ [t]) = t0" "int (length (ts @ [t])) \<le> lc_UserFailures cfg"
    and t0: "zero_time < t0" "t0 \<le> t" "t \<le> t0 + lc_Window cfg" and win: "lc_Window cfg < max_duration" "0 \<le> lc_Window cfg"
    and pos: "0 < lc_Lockout cfg"
    and before: "if ts = [] then map_of (ll_users l) key = None else known_of cfg key ts later (ll_users l)"
  shows "known_of cfg key (ts @ [t]) later' (ll_users (login_step (Failed username ip t) l))"
proof -
  let ?m = "pruneMap (lc_Window cfg) t (ll_users l)"
  have ok: "gomap_ok (ll_users l)" "fst ` set (ll_users l) \<subseteq> S" "ll_cfg l = cfg"
    using l by (simp_all add: users_among_def)
  have m: "gomap_ok ?m" "fst ` set ?m \<subseteq> S" using prune_among [OF ok(1, 2)] by auto
  note room = keys_roomy [OF m S]
  have sub: "time_sub t t0 \<le> lc_Window cfg" using t0 win by (subst time_sub_le_iff) (auto simp: duration_defs)
  obtain m' dec where rf: "recordFailure cfg key ''username'' (lc_UserFailures cfg) t ?m = (m', dec)" by fastforce
  have u: "ll_users (login_step (Failed username ip t) l) = m'"
    using key rf by (simp add: RecordFailure_users ok(3))
  have th: "0 < lc_UserFailures cfg" using ts(2) by simp
  have dec: "if lc_UserFailures cfg \<le> int (length (ts @ [t])) then dec = Some (''username'', t + lc_Lockout cfg)
      else dec = None \<and> counting cfg key t0 (int (length (ts @ [t]))) m'"
  proof (cases "ts = []")
    case True
    then have "map_of ?m key = None" using before by (simp add: map_of_pruneMap [OF ok(1)])
    from recordFailure_first [OF rf th room this] show ?thesis using True ts by (auto split: if_splits)
  next
    case False
    then have "counting cfg key t0 (int (length ts)) (ll_users l)" using before ts by (auto simp: known_of_def)
    then have "counting cfg key t0 (int (length ts)) ?m" by (rule prune_counting [OF ok(1) _ _ sub]) (use t0 in simp)
    from recordFailure_again [OF rf th room this _ sub] show ?thesis using t0 by (auto simp: add.commute split: if_splits)
  qed
  show ?thesis
  proof (cases "lc_UserFailures cfg \<le> int (length (ts @ [t]))")
    case True
    then have "\<exists>b. map_of m' key = Some b \<and> lb_lockedUntil b = t + lc_Lockout cfg"
      using rf dec by (auto simp: recordFailure_def Let_def checkBucket_def update_conv'
          split: if_splits prod.splits option.splits)
    then show ?thesis using True t0 pos unfolding known_of_def u by (auto simp: locked_def)
  next
    case False
    then show ?thesis using dec ts(1) unfolding known_of_def u by simp
  qed
qed

lemma series_known:
  assumes key: "key \<noteq> []" and t0: "zero_time < t0"
    and win: "lc_Window cfg < max_duration" "0 \<le> lc_Window cfg" and pos: "0 < lc_Lockout cfg"
    and l: "users_among S cfg l" "map_of (ll_users l) key = None" and S: "finite S" "int (card S) < lc_MaxEntries cfg"
    and first: "failure_of key e0 = Some t0"
  shows "set (failed_names (e0 # evs)) \<subseteq> S \<Longrightarrow> \<forall>u. Succeeded u \<in> set evs \<longrightarrow> normalizeLoginKey u \<noteq> key \<Longrightarrow>
    \<forall>e \<in> set (e0 # evs). event_between t0 (t0 + lc_Window cfg) e \<Longrightarrow>
    int (length (own_failures key (e0 # evs))) \<le> lc_UserFailures cfg \<Longrightarrow>
    users_among S cfg (login_series (e0 # evs) l) \<and>
    known_of cfg key (own_failures key (e0 # evs)) (\<lambda>t. \<forall>e \<in> set (e0 # evs). event_between t0 t e)
      (ll_users (login_series (e0 # evs) l))"
proof (induction evs rule: rev_induct)
  case Nil
  obtain username ip where e0: "e0 = Failed username ip t0" "normalizeLoginKey username = key"
    using first by (cases e0) (auto split: if_splits)
  have own: "own_failures key [e0] = [t0]" using e0 by (simp add: own_failures_def List.map_filter_def)
  have "users_among S cfg (login_step e0 l)"
    by (rule step_among [OF l(1) S]) (use Nil e0 in \<open>simp add: failed_names_def List.map_filter_def\<close>)
  moreover have "known_of cfg key ([] @ [t0]) (\<lambda>t. \<forall>e \<in> set [e0]. event_between t0 t e)
      (ll_users (login_step (Failed username ip t0) l))"
    by (rule own_failure [OF l(1) S e0(2) key _ _ t0 _ _ win pos]) (use Nil l own e0 in simp_all)
  ultimately show ?case using own e0 by (simp add: login_series_def)
next
  case (snoc e evs)
  let ?l = "login_series (e0 # evs) l" and ?own = "own_failures key (e0 # evs)"
  have run: "login_series (e0 # evs @ [e]) l = login_step e ?l" by (simp add: login_series_def)
  have snoc': "own_failures key (e0 # evs @ [e]) = ?own @ (case failure_of key e of None \<Rightarrow> [] | Some t \<Rightarrow> [t])"
    "failed_names (e0 # evs @ [e]) = failed_names (e0 # evs) @ (case failed_name e of None \<Rightarrow> [] | Some k \<Rightarrow> [k])"
    using own_failures_snoc [of key "e0 # evs" e] failed_names_snoc [of "e0 # evs" e] by simp_all
  have own: "?own \<noteq> []" "hd ?own = t0" using first by (simp_all add: own_failures_def List.map_filter_def)
  have IH: "users_among S cfg ?l"
    "known_of cfg key ?own (\<lambda>t. \<forall>e \<in> set (e0 # evs). event_between t0 t e) (ll_users ?l)"
    using snoc.IH snoc.prems unfolding snoc' by auto
  have "users_among S cfg (login_step e ?l)"
    by (rule step_among [OF IH(1) S]) (use snoc.prems(1) in \<open>auto simp: snoc'\<close>)
  moreover have "known_of cfg key (own_failures key (e0 # evs @ [e]))
      (\<lambda>t. \<forall>e \<in> set (e0 # evs @ [e]). event_between t0 t e) (ll_users (login_step e ?l))"
  proof (cases "failure_of key e")
    case None
    have e: "\<forall>u. e = Succeeded u \<longrightarrow> normalizeLoginKey u \<noteq> key" "event_between t0 (t0 + lc_Window cfg) e"
      using snoc.prems by auto
    note q = quiet_step [OF IH(1) S None e(1) _ e(2) win]
    show ?thesis using IH(2) q t0 own(2) unfolding snoc' None known_of_def by auto
  next
    case (Some t)
    then obtain username ip where e: "e = Failed username ip t" "normalizeLoginKey username = key"
      by (cases e) (auto split: if_splits)
    show ?thesis unfolding snoc' Some option.case unfolding e(1)
      by (rule own_failure [OF IH(1) S e(2) key _ _ t0 _ _ win pos, where later = "\<lambda>t. \<forall>e \<in> set (e0 # evs). event_between t0 t e"])
        (use own snoc.prems(3) snoc.prems(4) [unfolded snoc' Some option.case] IH(2) in \<open>simp_all add: e(1)\<close>)
  qed
  ultimately show ?case unfolding run by blast
qed

text \<open>
  C16.  A user name of which nothing is remembered is locked by exactly the configured number of
  failures within the window, from whatever addresses they come and whatever other names do
  meanwhile: one failure fewer leaves it open, and the last one closes it for the whole lockout.  This
  holds as long as the map of users has room for every name that is remembered or fails meanwhile and
  the name has no success in between: in a full map a count may be evicted and start again.
\<close>

theorem user_lockout:
  assumes "key \<noteq> []" "zero_time < t0" "lc_Window cfg < max_duration" "0 \<le> lc_Window cfg" "0 < lc_Lockout cfg"
    and "ll_cfg l = cfg" "gomap_ok (ll_users l)" "map_of (ll_users l) key = None"
    and "int (card (fst ` set (ll_users l) \<union> set (failed_names (e0 # evs)))) < lc_MaxEntries cfg"
    and "failure_of key e0 = Some t0" "\<forall>u. Succeeded u \<in> set evs \<longrightarrow> normalizeLoginKey u \<noteq> key"
    and "\<forall>e \<in> set (e0 # evs). event_between t0 (t0 + lc_Window cfg) e"
    and "\<forall>e \<in> set (e0 # evs). event_between t0 t e"
    and "int (length (own_failures key (e0 # evs))) \<le> lc_UserFailures cfg"
  shows "locked key t (ll_users (login_series (e0 # evs) l)) \<longleftrightarrow>
    int (length (own_failures key (e0 # evs))) = lc_UserFailures cfg \<and>
    t < last (own_failures key (e0 # evs)) + lc_Lockout cfg"
proof -
  let ?S = "fst ` set (ll_users l) \<union> set (failed_names (e0 # evs))"
  have "users_among ?S cfg l" using assms(6, 7) by (auto simp: users_among_def)
  from series_known [OF assms(1-5) this assms(8) _ assms(9, 10) _ assms(11, 12, 14)]
  have "known_of cfg key (own_failures key (e0 # evs)) (\<lambda>t. \<forall>e \<in> set (e0 # evs). event_between t0 t e)
      (ll_users (login_series (e0 # evs) l))" by simp
  then show ?thesis using assms(13, 14) by (auto simp: known_of_def counting_def locked_def split: if_splits)
qed

text \<open>Two failures from two addresses, with another name's in between, lock the user for a minute.\<close>

theorem user_lockout_witness:
  "let l = login_series [Failed ''ann'' ''10.0.0.1'' 0, Failed ''bob'' ''10.0.0.1'' 1, Failed ''ann'' ''10.0.0.2'' second]
             \<lparr>ll_cfg = small_limiter\<lparr>lc_MaxEntries := 8\<rparr>, ll_users = [], ll_ips = []\<rparr>
   in locked ''ann'' (30 * second) (ll_users l) \<and> \<not> locked ''ann'' (61 * second) (ll_users l)"
proof -
  let ?cfg = "small_limiter\<lparr>lc_MaxEntries := 8\<rparr>"
  let ?l = "\<lparr>ll_cfg = ?cfg, ll_users = [], ll_ips = []\<rparr>"
  let ?e0 = "Failed ''ann'' ''10.0.0.1'' 0"
  let ?evs = "[Failed ''bob'' ''10.0.0.1'' 1, Failed ''ann'' ''10.0.0.2'' second]"
  have n: "normalizeLoginKey ''ann'' = ''ann''" "normalizeLoginKey ''bob'' = ''bob''" by code_simp+
  have own: "own_failures ''ann'' (?e0 # ?evs) = [0, second]" "failed_names (?e0 # ?evs) = [''ann'', ''bob'', ''ann'']"
    by (simp_all add: own_failures_def failed_names_def List.map_filter_def n)
  have "card {''ann'', ''bob''} \<le> 2" by (simp add: card_insert_if)
  then have c: "card (insert ''ann'' (insert ''bob'' {''ann''})) \<le> 2" by (simp add: insert_commute)
  have "locked ''ann'' t (ll_users (login_series (?e0 # ?evs) ?l)) \<longleftrightarrow>
      int (length (own_failures ''ann'' (?e0 # ?evs))) = lc_UserFailures ?cfg \<and>
      t < last (own_failures ''ann'' (?e0 # ?evs)) + lc_Lockout ?cfg"
    if "second \<le> t" for t
    by (rule user_lockout [of "''ann''" 0 ?cfg ?l ?e0 ?evs t], unfold own)
       (use that c in \<open>simp_all add: own n small_limiter_def duration_defs max_duration_def zero_time_def insert_commute\<close>)
  then have "second \<le> t \<Longrightarrow> locked ''ann'' t (ll_users (login_series (?e0 # ?evs) ?l)) \<longleftrightarrow> t < second + minute" for t
    unfolding own by (simp add: small_limiter_def)
  from this [of "30 * second"] this [of "61 * second"] show ?thesis
    unfolding Let_def by (simp add: duration_defs)
qed

text \<open>
  The room for a new bucket is made before the key is looked up: in a full map whose oldest bucket
  is the failing key's own, the failure forgets the count it should extend.
\<close>

lemma full_map_forgets_count:
  assumes "recordFailure cfg key scope threshold now m = (m', dec)" "1 < threshold"
    and "gomap_ok m" "pruneMap (lc_Window cfg) now m = m" "int (length m) = lc_MaxEntries cfg"
    and "oldest_key m = Some key"
  shows "dec = None \<and> counting cfg key now 1 m'"
proof -
  have len: "length (AList.delete key m) = length m - 1"
    by (rule length_alist_delete [OF assms(3) oldest_key_mem [OF assms(6)]])
  have "0 < length m" using oldest_key_mem [OF assms(6)] by (cases m) auto
  then have "int (length (AList.delete key m)) < lc_MaxEntries cfg" using assms(5) len by linarith
  then have "evict (lc_MaxEntries cfg) m = AList.delete key m"
    using assms(5,6)
    by (simp add: evict.simps [of "lc_MaxEntries cfg" m] evict.simps [of "lc_MaxEntries cfg" "AList.delete key m"])
  then have room: "makeRoom cfg now m = AList.delete key m"
    using assms(4,5) by (simp add: makeRoom_def)
  show ?thesis
    using assms(1,2)
    by (auto simp: recordFailure_def room Let_def get_or_def delete_conv' zero_bucket_def checkBucket_def
        time_is_zero_def counting_def update_conv' split: if_splits)
qed

end
