(* ===== verification/Pacing.thy ===== *)
theory Pacing
  imports Names
begin

text \<open>
  The request pacer (\<open>internal/runner/request_pacing.go\<close>): all requests of one account pass
  through it, and it spaces them by an account interval, a longer interval for repeats of one
  RPC, and a still longer one shared by all purchases of a namespace.  \<open>wait\<close> is modelled one
  iteration at a time, since other goroutines may use the pacer between two iterations; the
  inductive relation \<open>pacer_run\<close> is every interleaving of such iterations with the other
  operations of the pacer.
\<close>

record request_pacing =
  pc_RequestInterval :: duration
  pc_RepeatInterval :: duration
  pc_PurchaseInterval :: duration

definition pacing_defaults :: "request_pacing \<Rightarrow> request_pacing" where
  "pacing_defaults p =
     \<lparr>pc_RequestInterval = (if pc_RequestInterval p = 0 then 2 * second else pc_RequestInterval p),
      pc_RepeatInterval = (if pc_RepeatInterval p = 0 then 8 * second else pc_RepeatInterval p),
      pc_PurchaseInterval = (if pc_PurchaseInterval p = 0 then 30 * second else pc_PurchaseInterval p)\<rparr>"

text \<open>\<open>Validate\<close> as a predicate: it holds when the Go method returns nil.\<close>

definition pacing_valid :: "request_pacing \<Rightarrow> bool" where
  "pacing_valid p0 \<longleftrightarrow>
     (let p = pacing_defaults p0
      in \<not> (pc_RequestInterval p < second \<or> pc_RequestInterval p > 30 * second \<or>
             pc_RepeatInterval p < pc_RequestInterval p \<or> pc_RepeatInterval p > 5 * minute \<or>
             pc_PurchaseInterval p < pc_RepeatInterval p \<or> pc_PurchaseInterval p > 30 * minute))"

record request_pacer =
  config :: request_pacing
  lastRequest :: time
  lastScope :: "(string, time) gomap"
  lastSpacing :: "(string, duration) gomap"
  recoveryUntil :: time
  pearlCollectInterval :: duration

definition recoveryPacingDuration :: duration where
  "recoveryPacingDuration = 5 * minute"

text \<open>\<open>PearlCollectInterval\<close> of \<open>automation/pearl_collection.go\<close>, on the policy's seconds.\<close>

definition PearlCollectInterval :: "int \<Rightarrow> duration" where
  "PearlCollectInterval seconds =
     (let seconds' = (if seconds \<le> 0 then 300 else seconds)
      in min 3600 (max 60 seconds') * second)"

definition newRequestPacer :: "request_pacing \<Rightarrow> request_pacer" where
  "newRequestPacer p =
     \<lparr>config = pacing_defaults p, lastRequest = zero_time, lastScope = [], lastSpacing = [],
      recoveryUntil = zero_time, pearlCollectInterval = PearlCollectInterval 0\<rparr>"

definition startRecovery :: "time \<Rightarrow> request_pacer option \<Rightarrow> request_pacer option" where
  "startRecovery now = map_option (\<lambda>p. p\<lparr>recoveryUntil := now + recoveryPacingDuration\<rparr>)"

definition setPearlCollectInterval :: "duration \<Rightarrow> request_pacer option \<Rightarrow> request_pacer option" where
  "setPearlCollectInterval interval = map_option (\<lambda>p. p\<lparr>pearlCollectInterval := interval\<rparr>)"

definition pacer_scope :: "request_pacer \<Rightarrow> string \<Rightarrow> string \<times> duration" where
  "pacer_scope p name =
     (case str_cut name CHR ''.'' of (grp, mthd, _) \<Rightarrow>
        if has_prefix (to_lower mthd) ''buy'' \<or> name = RPCPearlPlaceHire
        then (grp @ ''.purchase'', pc_PurchaseInterval (config p))
        else if name = RPCPearlPlaceRecvOneKey
        then (name, max (pc_RepeatInterval (config p)) (pearlCollectInterval p))
        else (name, pc_RepeatInterval (config p)))"

definition intervalsLocked :: "request_pacer \<Rightarrow> string \<Rightarrow> time \<Rightarrow> string \<times> duration \<times> duration" where
  "intervalsLocked p name now =
     (case pacer_scope p name of (scope, repeat) \<Rightarrow>
        if now < recoveryUntil p
        then (scope, max (pc_RequestInterval (config p)) (5 * second),
              max repeat (if has_suffix scope ''.purchase'' then minute else 30 * second))
        else (scope, pc_RequestInterval (config p), repeat))"

definition delayLocked :: "request_pacer \<Rightarrow> string \<Rightarrow> time \<Rightarrow> duration" where
  "delayLocked p name now =
     (case intervalsLocked p name now of (scope, request, interval) \<Rightarrow>
        max (max 0 (time_sub (lastRequest p + request) now))
            (time_sub (get_or zero_time (lastScope p) scope + interval) now))"

definition pacer_delay :: "request_pacer option \<Rightarrow> string \<Rightarrow> time \<Rightarrow> duration" where
  "pacer_delay po name now =
     (case po of None \<Rightarrow> 0
      | Some p \<Rightarrow> if name = RPCUsrHeartTick then 0 else delayLocked p name now)"

definition reserveUrgentSlot :: "request_pacer option \<Rightarrow> string \<Rightarrow> time \<Rightarrow> bool" where
  "reserveUrgentSlot po name now =
     (case po of None \<Rightarrow> False
      | Some p \<Rightarrow>
          let delay = delayLocked p name now
          in case intervalsLocked p name now of (_, request, _) \<Rightarrow> 0 < delay \<and> delay \<le> request)"

text \<open>
  One iteration of \<open>wait\<close>.  \<open>ctx_err\<close> and \<open>guard_err\<close> are what the context and the guard report
  at its start.  \<open>Bypass\<close> and \<open>Admit\<close> both end with a call of the guard, which decides whether
  the request is sent; \<open>Deferred\<close> is the error of a pearl collection that is not due.
\<close>

datatype wait_outcome = Bypass | Failed string | Admit | Deferred duration | Sleep duration

definition admit :: "string \<Rightarrow> time \<Rightarrow> request_pacer \<Rightarrow> request_pacer" where
  "admit name now p =
     (let scope = fst (pacer_scope p name);
          previous = get_or zero_time (lastScope p) scope;
          p1 = (if \<not> time_is_zero previous
                then p\<lparr>lastSpacing := AList.update scope (time_sub now previous) (lastSpacing p)\<rparr>
                else p)
      in p1\<lparr>lastRequest := now, lastScope := AList.update scope now (lastScope p1)\<rparr>)"

definition wait_iteration ::
  "string \<Rightarrow> time \<Rightarrow> string option \<Rightarrow> string option \<Rightarrow> request_pacer option
     \<Rightarrow> request_pacer option \<times> wait_outcome" where
  "wait_iteration name now ctx_err guard_err po =
     (case po of
        None \<Rightarrow> (po, Bypass)
      | Some p \<Rightarrow>
        if name = RPCUsrHeartTick then (po, Bypass)
        else case ctx_err of Some e \<Rightarrow> (po, Failed e)
        | None \<Rightarrow>
          case guard_err of Some e \<Rightarrow> (po, Failed e)
          | None \<Rightarrow>
            let delay = delayLocked p name now in
            if delay \<le> 0 then (Some (admit name now p), Admit)
            else if name = RPCPearlPlaceRecvOneKey then (po, Deferred delay)
            else (po, Sleep delay))"

text \<open>The runs of a pacer, with the admissions so far, newest first.\<close>

inductive pacer_run :: "request_pacing \<Rightarrow> request_pacer \<Rightarrow> (string \<times> time) list \<Rightarrow> bool"
  for cfg :: request_pacing where
  start: "pacer_run cfg (newRequestPacer cfg) []"
| iterate: "pacer_run cfg p hist \<Longrightarrow>
    wait_iteration name now ctx_err guard_err (Some p) = (Some p', outcome) \<Longrightarrow>
    pacer_run cfg p' (if outcome = Admit then (name, now) # hist else hist)"
| recover: "pacer_run cfg p hist \<Longrightarrow> startRecovery now (Some p) = Some p' \<Longrightarrow> pacer_run cfg p' hist"
| pearl: "pacer_run cfg p hist \<Longrightarrow> setPearlCollectInterval d (Some p) = Some p' \<Longrightarrow>
    pacer_run cfg p' hist"

section \<open>Spacing\<close>

definition isPurchase :: "string \<Rightarrow> bool" where
  "isPurchase name \<longleftrightarrow>
     (case str_cut name CHR ''.'' of (grp, mthd, _) \<Rightarrow>
        has_prefix (to_lower mthd) ''buy'' \<or> name = RPCPearlPlaceHire)"

definition scope_name :: "string \<Rightarrow> string" where
  "scope_name name = (if isPurchase name then fst (str_cut name CHR ''.'') @ ''.purchase'' else name)"

lemma pacer_scope_name: "fst (pacer_scope p name) = scope_name name"
  by (simp add: pacer_scope_def scope_name_def isPurchase_def split: prod.split)

lemma pacer_scope_interval:
  "(if isPurchase name then pc_PurchaseInterval (config p) else pc_RepeatInterval (config p))
     \<le> snd (pacer_scope p name)"
  by (simp add: pacer_scope_def isPurchase_def split: prod.split)

text \<open>The intervals a request must respect, with and without recovery.\<close>

lemma intervals_scope: "fst (intervalsLocked p name now) = scope_name name"
  using pacer_scope_name [of p name] by (simp add: intervalsLocked_def split_def)

lemma intervals_request: "pc_RequestInterval (config p) \<le> fst (snd (intervalsLocked p name now))"
  by (simp add: intervalsLocked_def split: prod.split)

lemma intervals_repeat:
  "(if isPurchase name then pc_PurchaseInterval (config p) else pc_RepeatInterval (config p))
     \<le> snd (snd (intervalsLocked p name now))"
proof -
  have "snd (pacer_scope p name) \<le> snd (snd (intervalsLocked p name now))"
    by (simp add: intervalsLocked_def split_def)
  with pacer_scope_interval [of name p] show ?thesis by (rule order_trans)
qed

lemma delay_zero_iff:
  "delayLocked p name now \<le> 0 \<longleftrightarrow>
     lastRequest p + fst (snd (intervalsLocked p name now)) \<le> now \<and>
     get_or zero_time (lastScope p) (scope_name name) + snd (snd (intervalsLocked p name now)) \<le> now"
  using intervals_scope [of p name now]
  by (simp add: delayLocked_def time_sub_nonpos_iff split_def)

lemma admit_fields [simp]:
  "config (admit name now p) = config p"
  "lastRequest (admit name now p) = now"
  "lastScope (admit name now p) = AList.update (scope_name name) now (lastScope p)"
  "recoveryUntil (admit name now p) = recoveryUntil p"
  by (simp_all add: admit_def Let_def pacer_scope_name)

text \<open>
  The pacer remembers exactly what the history needs: the newest admission, and the newest one of
  every scope.
\<close>

definition remembers :: "request_pacing \<Rightarrow> request_pacer \<Rightarrow> (string \<times> time) list \<Rightarrow> bool" where
  "remembers cfg p hist \<longleftrightarrow>
     config p = pacing_defaults cfg \<and>
     (hist \<noteq> [] \<longrightarrow> lastRequest p = snd (hd hist)) \<and>
     (\<forall>s. filter (\<lambda>(n, t). scope_name n = s) hist \<noteq> [] \<longrightarrow>
         get_or zero_time (lastScope p) s =
           snd (hd (filter (\<lambda>(n, t). scope_name n = s) hist)))"

lemma remembers_cong:
  assumes "config p' = config p" "lastRequest p' = lastRequest p" "lastScope p' = lastScope p"
  shows "remembers cfg p' hist = remembers cfg p hist"
  by (simp add: remembers_def assms)

definition spaced :: "request_pacing \<Rightarrow> string \<times> time \<Rightarrow> string \<times> time \<Rightarrow> bool" where
  "spaced cfg = (\<lambda>(newer, t2) (older, t1).
     t1 + pc_RequestInterval cfg \<le> t2 \<and>
     (scope_name newer = scope_name older \<longrightarrow>
        t1 + (if isPurchase newer then pc_PurchaseInterval cfg else pc_RepeatInterval cfg) \<le> t2))"

lemma pacing_valid_pos:
  assumes "pacing_valid cfg"
  shows "0 < pc_RequestInterval (pacing_defaults cfg)"
    and "0 < pc_RepeatInterval (pacing_defaults cfg)"
    and "0 < pc_PurchaseInterval (pacing_defaults cfg)"
  using assms by (auto simp: pacing_valid_def Let_def duration_defs)

lemma wait_iteration_cases:
  assumes "wait_iteration name now ctx_err guard_err (Some p) = (Some p', outcome)"
  obtains (admitted) "outcome = Admit" "p' = admit name now p" "delayLocked p name now \<le> 0"
  | (kept) "outcome \<noteq> Admit" "p' = p"
  using assms
  by (auto simp: wait_iteration_def Let_def split: if_splits option.splits)

lemma sorted_head_least:
  assumes "sorted_wrt (spaced cfg) hist" "(n, t) \<in> set hist" "0 \<le> pc_RequestInterval cfg"
  shows "t \<le> snd (hd hist)"
  using assms by (cases hist) (auto simp: spaced_def)

lemma pacer_run_invariant:
  assumes "pacer_run cfg p hist" "pacing_valid cfg"
  shows "remembers cfg p hist \<and> sorted_wrt (spaced (pacing_defaults cfg)) hist"
  using assms(1)
proof (induction rule: pacer_run.induct)
  case start
  then show ?case by (simp add: remembers_def newRequestPacer_def)
next
  case (iterate p hist name now ctx_err guard_err p' outcome)
  let ?cfg = "pacing_defaults cfg"
  note IH = iterate.IH
  have srt: "sorted_wrt (spaced ?cfg) hist" and rem: "remembers cfg p hist" using IH by auto
  from iterate.hyps(2) show ?case
  proof (cases rule: wait_iteration_cases)
    case kept
    then show ?thesis using IH by simp
  next
    case admitted
    have cfg: "config p = ?cfg" using rem by (simp add: remembers_def)
    have ok: "lastRequest p + pc_RequestInterval ?cfg \<le> now"
      "get_or zero_time (lastScope p) (scope_name name) +
         (if isPurchase name then pc_PurchaseInterval ?cfg else pc_RepeatInterval ?cfg) \<le> now"
      using admitted(3) intervals_request [of p name now] intervals_repeat [of name p now]
      unfolding delay_zero_iff cfg by linarith+
    have "spaced ?cfg (name, now) (n, t)" if m: "(n, t) \<in> set hist" for n t
    proof -
      have "t \<le> snd (hd hist)"
        using sorted_head_least [OF srt m] pacing_valid_pos(1) [OF assms(2)] by simp
      moreover have "lastRequest p = snd (hd hist)" using rem m by (auto simp: remembers_def)
      ultimately have a: "t + pc_RequestInterval ?cfg \<le> now" using ok(1) by simp
      have "t \<le> get_or zero_time (lastScope p) (scope_name name)" if s: "scope_name n = scope_name name"
      proof -
        let ?f = "filter (\<lambda>(n, t). scope_name n = scope_name name) hist"
        have "sorted_wrt (spaced ?cfg) ?f" using srt by (rule sorted_wrt_filter)
        moreover have "(n, t) \<in> set ?f" using m s by simp
        ultimately have "t \<le> snd (hd ?f)"
          using sorted_head_least pacing_valid_pos(1) [OF assms(2)] by (metis less_imp_le)
        moreover have "get_or zero_time (lastScope p) (scope_name name) = snd (hd ?f)"
          using rem \<open>(n, t) \<in> set ?f\<close> unfolding remembers_def by (metis empty_iff list.set(1))
        ultimately show ?thesis by simp
      qed
      then show ?thesis using a ok(2) by (auto simp: spaced_def)
    qed
    then have "sorted_wrt (spaced ?cfg) ((name, now) # hist)" using srt by auto
    moreover have "remembers cfg p' ((name, now) # hist)"
      using rem admitted(2) by (simp add: remembers_def)
    ultimately show ?thesis using admitted(1) by simp
  qed
next
  case (recover p hist now p')
  then have "p' = p\<lparr>recoveryUntil := now + recoveryPacingDuration\<rparr>" by (simp add: startRecovery_def)
  then have "remembers cfg p' hist = remembers cfg p hist" by (intro remembers_cong) simp_all
  then show ?case using recover.IH by simp
next
  case (pearl p hist d p')
  then have "p' = p\<lparr>pearlCollectInterval := d\<rparr>" by (simp add: setPearlCollectInterval_def)
  then have "remembers cfg p' hist = remembers cfg p hist" by (intro remembers_cong) simp_all
  then show ?case using pearl.IH by simp
qed

text \<open>
  C3.  In every run, two admitted requests lie at least the request interval apart,
  two of the same scope at least the repeat interval, and two purchases of one namespace at least
  the purchase interval: neither another goroutine, a settings change nor a recovery gets around
  the pacer.
\<close>

theorem requests_spaced:
  assumes "pacer_run cfg p hist" "pacing_valid cfg" "i < j" "j < length hist"
    and "hist ! i = (newer, t2)" "hist ! j = (older, t1)"
  shows "t1 + pc_RequestInterval (pacing_defaults cfg) \<le> t2 \<and>
    (scope_name newer = scope_name older \<longrightarrow>
       t1 + (if isPurchase newer then pc_PurchaseInterval (pacing_defaults cfg)
             else pc_RepeatInterval (pacing_defaults cfg)) \<le> t2)"
proof -
  have "spaced (pacing_defaults cfg) (hist ! i) (hist ! j)"
    using pacer_run_invariant [OF assms(1,2)] assms(3,4) by (simp add: sorted_wrt_iff_nth_less)
  then show ?thesis using assms(5,6) by (simp add: spaced_def)
qed

text \<open>Two purchases of one namespace under the default settings, sixty seconds apart.\<close>

theorem requests_spaced_witness:
  "\<exists>p. pacer_run \<lparr>pc_RequestInterval = 0, pc_RepeatInterval = 0, pc_PurchaseInterval = 0\<rparr> p
         [(''shop.buyOne'', 100 * second), (''shop.buyTen'', 30 * second)] \<and>
       30 * second + pc_RequestInterval (pacing_defaults
           \<lparr>pc_RequestInterval = 0, pc_RepeatInterval = 0, pc_PurchaseInterval = 0\<rparr>) \<le> 100 * second"
proof -
  let ?c = "\<lparr>pc_RequestInterval = 0, pc_RepeatInterval = 0, pc_PurchaseInterval = 0\<rparr>"
  define p1 where "p1 = admit ''shop.buyTen'' (30 * second) (newRequestPacer ?c)"
  define p2 where "p2 = admit ''shop.buyOne'' (100 * second) p1"
  have "wait_iteration ''shop.buyTen'' (30 * second) None None (Some (newRequestPacer ?c)) = (Some p1, Admit)"
    unfolding p1_def by code_simp
  from pacer_run.iterate [OF pacer_run.start this]
  have 1: "pacer_run ?c p1 [(''shop.buyTen'', 30 * second)]" by simp
  have "wait_iteration ''shop.buyOne'' (100 * second) None None (Some p1) = (Some p2, Admit)"
    unfolding p1_def p2_def by code_simp
  from pacer_run.iterate [OF 1 this]
  have 2: "pacer_run ?c p2 [(''shop.buyOne'', 100 * second), (''shop.buyTen'', 30 * second)]" by simp
  have "pacing_valid ?c" by code_simp
  from requests_spaced [OF 2 this, of 0 1] 2 show ?thesis by auto
qed

text \<open>During recovery the intervals are at least five seconds and thirty seconds.\<close>

lemma recovery_intervals:
  assumes "now < recoveryUntil p"
  shows "5 * second \<le> fst (snd (intervalsLocked p name now))"
    and "30 * second \<le> snd (snd (intervalsLocked p name now))"
    and "isPurchase name \<Longrightarrow> minute \<le> snd (snd (intervalsLocked p name now))"
proof -
  have m: "30 * second \<le> minute" by (simp add: duration_defs)
  have p: "isPurchase name \<Longrightarrow> has_suffix (fst (pacer_scope p name)) ''.purchase''"
    unfolding pacer_scope_name scope_name_def has_suffix_iff by auto
  show "5 * second \<le> fst (snd (intervalsLocked p name now))"
    using assms by (simp add: intervalsLocked_def split_def)
  show "30 * second \<le> snd (snd (intervalsLocked p name now))"
    using assms m by (simp add: intervalsLocked_def split_def le_max_iff_disj)
  show "isPurchase name \<Longrightarrow> minute \<le> snd (snd (intervalsLocked p name now))"
    using assms p by (simp add: intervalsLocked_def split_def le_max_iff_disj)
qed

text \<open>
  A caller told to sleep is admitted on its next iteration when nobody
  used the pacer meanwhile: the sleep is exactly the remaining delay, so the loop of \<open>wait\<close>
  returns after one sleep.
\<close>

lemma wait_sleeps_enough:
  assumes "wait_iteration name now None None (Some p) = (Some p', Sleep d)" "d < max_duration"
  shows "p' = p \<and> 0 < d \<and>
    wait_iteration name (now + d) None None (Some p) = (Some (admit name (now + d) p), Admit)"
proof -
  have d: "d = delayLocked p name now" "0 < d" "p' = p" "name \<noteq> RPCUsrHeartTick"
    using assms(1) by (auto simp: wait_iteration_def Let_def split: if_splits)
  let ?i = "intervalsLocked p name now" and ?j = "intervalsLocked p name (now + d)"
  have mono: "fst (snd ?j) \<le> fst (snd ?i)" "snd (snd ?j) \<le> snd (snd ?i)"
    using d(2) by (auto simp: intervalsLocked_def split_def)
  have "time_sub (lastRequest p + fst (snd ?i)) now \<le> d"
    "time_sub (get_or zero_time (lastScope p) (fst ?i) + snd (snd ?i)) now \<le> d"
    by (simp_all add: d(1) delayLocked_def split_def)
  then have "lastRequest p + fst (snd ?i) \<le> now + d"
    "get_or zero_time (lastScope p) (fst ?i) + snd (snd ?i) \<le> now + d"
    using time_sub_le_iff [of d] assms(2) d(2) by (simp_all add: duration_defs)
  then have "delayLocked p name (now + d) \<le> 0"
    using mono by (simp add: delay_zero_iff intervals_scope)
  then show ?thesis using d by (simp add: wait_iteration_def Let_def)
qed

end
