(* ===== verification/Safety.thy ===== *)
theory Safety
  imports Names "HOL-Library.Sublist"
begin

text \<open>
  Account protection: what the daemon does when the game server rejects an account
  (\<open>internal/runner/account_restriction.go\<close>, \<open>account_safety.go\<close>, \<open>session_recovery.go\<close>,
  \<open>rpc_observations.go\<close>) and the durable row behind it
  (\<open>internal/store/account_request_safety.go\<close>).  A response is its error code and the date its
  first argument parses to; user-visible texts are not modelled.  The row of the database is
  \<open>None\<close> when absent, and every statement may fail, which the flag \<open>fails\<close> stands for.
\<close>

section \<open>The durable row\<close>

record account_request_safety =
  ars_LastRaceDeleteMS :: int
  ars_RestrictedUntilMS :: int
  ars_RestrictionCode :: int
  ars_RestrictionAttempts :: int
  ars_FreshLoginAttempts :: int
  ars_LastFreshLoginMS :: int

definition zero_safety :: account_request_safety where
  "zero_safety = \<lparr>ars_LastRaceDeleteMS = 0, ars_RestrictedUntilMS = 0, ars_RestrictionCode = 0,
     ars_RestrictionAttempts = 0, ars_FreshLoginAttempts = 0, ars_LastFreshLoginMS = 0\<rparr>"

type_synonym safety_row = "account_request_safety option"

definition LoadAccountRequestSafety :: "bool \<Rightarrow> safety_row \<Rightarrow> string + account_request_safety" where
  "LoadAccountRequestSafety fails row =
     (if fails then Inl ''load failed''
      else Inr (case row of None \<Rightarrow> zero_safety | Some s \<Rightarrow> s))"

definition ReserveRaceDelete ::
  "bool \<Rightarrow> int \<Rightarrow> int \<Rightarrow> int \<Rightarrow> safety_row \<Rightarrow> safety_row \<times> (string + bool)" where
  "ReserveRaceDelete fails accountID nowMS intervalMS row =
     (if accountID \<le> 0 \<or> nowMS \<le> 0 \<or> intervalMS \<le> 0
      then (row, Inl ''invalid race delete reservation'')
      else if fails then (row, Inl ''statement failed'')
      else case row of
        None \<Rightarrow> (Some (zero_safety\<lparr>ars_LastRaceDeleteMS := nowMS\<rparr>), Inr True)
      | Some s \<Rightarrow>
          if ars_LastRaceDeleteMS s = 0 \<or> ars_LastRaceDeleteMS s + intervalMS \<le> nowMS
          then (Some (s\<lparr>ars_LastRaceDeleteMS := nowMS\<rparr>), Inr True)
          else (row, Inr False))"

definition SaveAccountRestriction ::
  "bool \<Rightarrow> account_request_safety \<Rightarrow> safety_row \<Rightarrow> safety_row \<times> bool" where
  "SaveAccountRestriction fails s row =
     (if fails then (row, False)
      else (Some (s\<lparr>ars_LastRaceDeleteMS :=
                     (case row of None \<Rightarrow> 0 | Some old \<Rightarrow> ars_LastRaceDeleteMS old)\<rparr>), True))"

definition reserveRecovery ::
  "bool \<Rightarrow> int \<Rightarrow> int \<Rightarrow> int \<Rightarrow> int \<Rightarrow> bool \<Rightarrow> safety_row \<Rightarrow> safety_row \<times> (string + bool)" where
  "reserveRecovery fails accountID nowMS intervalMS maxAttempts manual row =
     (if accountID \<le> 0 \<or> nowMS \<le> 0 \<or> (\<not> manual \<and> (intervalMS \<le> 0 \<or> maxAttempts \<le> 0))
      then (row, Inl ''invalid recovery reservation'')
      else if fails then (row, Inl ''statement failed'')
      else case row of
        None \<Rightarrow> (row, Inr False)
      | Some s \<Rightarrow>
          if ars_RestrictionCode s \<in> {5000, 97777, 97778} \<and> 1 \<le> ars_RestrictionAttempts s \<and>
             (manual \<or>
              (ars_RestrictedUntilMS s \<le> nowMS \<and> ars_FreshLoginAttempts s < maxAttempts \<and>
               (ars_LastFreshLoginMS s = 0 \<or> ars_LastFreshLoginMS s + intervalMS \<le> nowMS)))
          then (Some (s\<lparr>ars_FreshLoginAttempts := ars_FreshLoginAttempts s + 1,
                        ars_LastFreshLoginMS := nowMS\<rparr>), Inr True)
          else (row, Inr False))"

definition ReserveFreshRecovery ::
  "bool \<Rightarrow> int \<Rightarrow> int \<Rightarrow> int \<Rightarrow> int \<Rightarrow> safety_row \<Rightarrow> safety_row \<times> (string + bool)" where
  "ReserveFreshRecovery fails accountID nowMS intervalMS maxAttempts row =
     reserveRecovery fails accountID nowMS intervalMS maxAttempts False row"

definition ReserveManualRecovery ::
  "bool \<Rightarrow> int \<Rightarrow> int \<Rightarrow> safety_row \<Rightarrow> safety_row \<times> (string + bool)" where
  "ReserveManualRecovery fails accountID nowMS row = reserveRecovery fails accountID nowMS 0 0 True row"

section \<open>Recent responses\<close>

definition rpcObservationLimit :: nat where "rpcObservationLimit = 256"

record rpc_observation =
  ob_name :: string
  ob_code :: int
  ob_failed :: bool
  ob_at :: time

record rpc_observation_window =
  win_items :: "rpc_observation list"
  win_droppedAt :: time

definition rpc_record ::
  "string \<Rightarrow> int \<Rightarrow> bool \<Rightarrow> time \<Rightarrow> rpc_observation_window \<Rightarrow> rpc_observation_window" where
  "rpc_record name code failed now w =
     (if name = [] then w
      else
        let kept = filter (\<lambda>item. \<not> ob_at item < now - minute \<and> \<not> ob_at item > now) (win_items w);
            new = \<lparr>ob_name = name, ob_code = code, ob_failed = failed, ob_at = now\<rparr>
        in case kept of
             oldest # rest \<Rightarrow>
               if length kept = rpcObservationLimit
               then w\<lparr>win_droppedAt := ob_at oldest, win_items := rest @ [new]\<rparr>
               else w\<lparr>win_items := kept @ [new]\<rparr>
           | [] \<Rightarrow> w\<lparr>win_items := [new]\<rparr>)"

section \<open>Restrictions\<close>

record server_error =
  err_code :: int
  err_is_error :: bool
  err_date :: time

text \<open>\<open>restrictionRetryAt\<close>, after its argument has been parsed to \<open>err_date\<close>.\<close>

definition restrictionRetryAt :: "server_error \<Rightarrow> time \<Rightarrow> time option" where
  "restrictionRetryAt d now =
     (if \<not> time_is_zero (err_date d) \<and> err_date d > now then Some (err_date d) else None)"

definition restrictionBackoff :: "int \<Rightarrow> duration" where
  "restrictionBackoff attempts =
     min (30 * minute) (5 * minute * 2 ^ nat (min 3 (max 0 (attempts - 1))))"

definition nextAccountRestriction ::
  "account_request_safety \<Rightarrow> server_error \<Rightarrow> time \<Rightarrow> account_request_safety" where
  "nextAccountRestriction previous d now =
     (let active = ars_RestrictionCode previous \<noteq> 0 \<and>
                   ars_RestrictedUntilMS previous > to_unix_milli now;
          next0 = (if \<not> active
                   then previous\<lparr>ars_RestrictionAttempts := min 4 (ars_RestrictionAttempts previous + 1)\<rparr>
                   else previous);
          until0 = now + restrictionBackoff (ars_RestrictionAttempts next0);
          until1 = (if err_code d = 97778
                    then (case restrictionRetryAt d now of
                            Some serverUntil \<Rightarrow> serverUntil + 30 * second
                          | None \<Rightarrow> now + 30 * minute)
                    else until0);
          until = (if active
                   then let kept = unix_milli (ars_RestrictedUntilMS previous)
                        in (case (if err_code d = 97778 then restrictionRetryAt d now else None) of
                              Some serverUntil \<Rightarrow> max kept (serverUntil + 30 * second)
                            | None \<Rightarrow>
                                if err_code d = 97778 \<and> ars_RestrictionCode previous \<noteq> 97778
                                then max kept (now + 30 * minute) else kept)
                   else until1);
          code = (if active \<and> (ars_RestrictionCode previous = 97778 \<or>
                               (ars_RestrictionCode previous = 97777 \<and> err_code d = 5000))
                  then ars_RestrictionCode previous else err_code d)
      in next0\<lparr>ars_RestrictedUntilMS := max (to_unix_milli until) (ars_RestrictedUntilMS previous),
               ars_RestrictionCode := code\<rparr>)"

record account_safety =
  as_safety :: account_request_safety
  as_safetyRevision :: int
  as_serverFailures :: "(string \<times> time) list"
  as_rpcObservations :: rpc_observation_window
  as_row :: safety_row
  as_recoveryPacing :: "time option"

definition serverFailureWindow :: duration where "serverFailureWindow = minute"
definition serverFailureThreshold :: nat where "serverFailureThreshold = 3"

definition recordAccountRestriction ::
  "bool \<Rightarrow> server_error \<Rightarrow> time \<Rightarrow> account_safety \<Rightarrow> account_safety" where
  "recordAccountRestriction save_fails d now st =
     (let next = nextAccountRestriction (as_safety st) d now
      in st\<lparr>as_safetyRevision := as_safetyRevision st + 1, as_safety := next,
            as_row := fst (SaveAccountRestriction save_fails next (as_row st))\<rparr>)"

text \<open>The last elements of a slice.\<close>

definition last_n :: "nat \<Rightarrow> 'a list \<Rightarrow> 'a list" where
  "last_n n xs = drop (length xs - n) xs"

definition observeGameRPCAt ::
  "bool \<Rightarrow> string \<Rightarrow> server_error \<Rightarrow> time \<Rightarrow> account_safety \<Rightarrow> account_safety" where
  "observeGameRPCAt save_fails name d now st =
     (let code = err_code d;
          st1 = st\<lparr>as_rpcObservations :=
                    rpc_record name code (err_is_error d) now (as_rpcObservations st)\<rparr>
      in if code \<noteq> 5000 \<and> code \<noteq> 97777 \<and> code \<noteq> 97778 then st1
         else if code = 5000 \<and> ars_RestrictionCode (as_safety st1) = 0 then
           let kept = filter (\<lambda>(rpc, at). \<not> at < now - serverFailureWindow \<and> \<not> at > now)
                        (as_serverFailures st1);
               failures = last_n serverFailureThreshold (kept @ [(name, now)]);
               st2 = st1\<lparr>as_serverFailures := failures\<rparr>;
               crossRPC = list_ex (\<lambda>(rpc, at). rpc \<noteq> name) failures
           in if length failures < serverFailureThreshold \<or> \<not> crossRPC then st2
              else recordAccountRestriction save_fails d now st2
         else recordAccountRestriction save_fails d now st1)"

text \<open>Clearing needs the revision of the successful probe; \<open>False\<close> is an error.\<close>

definition clearAccountRestriction ::
  "bool \<Rightarrow> int \<Rightarrow> time \<Rightarrow> account_safety \<Rightarrow> account_safety \<times> bool" where
  "clearAccountRestriction save_fails revision now st =
     (if ars_RestrictionCode (as_safety st) = 0 then (st, True)
      else if as_safetyRevision st \<noteq> revision then (st, False)
      else
        let next = (as_safety st)\<lparr>ars_RestrictedUntilMS := 0, ars_RestrictionCode := 0,
                     ars_RestrictionAttempts := 0, ars_FreshLoginAttempts := 0\<rparr>
        in case SaveAccountRestriction save_fails next (as_row st) of
             (row, saved) \<Rightarrow>
               if \<not> saved then (st, False)
               else (st\<lparr>as_row := row, as_safety := next, as_serverFailures := [],
                        as_recoveryPacing := Some now\<rparr>, True))"

section \<open>Admission\<close>

text \<open>
  What the guard reads from the request context: its error, the revision of a manual permit, the
  mark of an automatic recovery attempt, and the revision of a recovery probe.
\<close>

record rpc_context =
  ctx_error :: "string option"
  ctx_manual :: "int option"
  ctx_recovery_attempt :: bool
  ctx_probe :: "int option"

datatype rpc_block = ContextDone string | Maintenance | RecoveryBlocked | Restricted int

definition manualRecoveryAtRevision :: "rpc_context \<Rightarrow> int \<Rightarrow> bool" where
  "manualRecoveryAtRevision ctx revision \<longleftrightarrow> ctx_manual ctx = Some revision"

definition checkGameRPCContext ::
  "rpc_context \<Rightarrow> bool \<Rightarrow> bool \<Rightarrow> time \<Rightarrow> string \<Rightarrow> account_safety \<Rightarrow> rpc_block option" where
  "checkGameRPCContext ctx gate_blocked automation_enabled now name st =
     (case ctx_error ctx of Some e \<Rightarrow> Some (ContextDone e)
      | None \<Rightarrow>
        if gate_blocked then Some Maintenance
        else
          let s = as_safety st; revision = as_safetyRevision st in
          if ars_RestrictionCode s = 0 then None
          else
            let manual = manualRecoveryAtRevision ctx revision in
            if ctx_recovery_attempt ctx \<and> \<not> automation_enabled \<and> \<not> manual then Some RecoveryBlocked
            else if (to_unix_milli now \<ge> ars_RestrictedUntilMS s \<or> manual) \<and>
                    (name = RPCIndexLogin \<or> name = RPCIndexReLogin) then None
            else if (to_unix_milli now \<ge> ars_RestrictedUntilMS s \<or> manual) \<and>
                    ctx_probe ctx = Some revision \<and>
                    (name = RPCUsrLazySync \<or> name = RPCReputationView) then None
            else Some (Restricted (ars_RestrictionCode s)))"

definition freshRecoveryInterval :: duration where "freshRecoveryInterval = 30 * minute"

record recovery_policy =
  rp_AutomationEnabled :: bool
  rp_ServerErrorFreshLoginEnabled :: bool
  rp_MaxAttempts :: int

definition prefersFreshRecovery :: "recovery_policy \<Rightarrow> account_safety \<Rightarrow> bool" where
  "prefersFreshRecovery p st \<longleftrightarrow>
     ars_RestrictionCode (as_safety st) \<noteq> 0 \<and> rp_AutomationEnabled p \<and> rp_ServerErrorFreshLoginEnabled p"

datatype recovery_refusal =
    Guarded rpc_block | SessionInvalidated | Waiting "time option" | Unavailable

definition checkFreshRecoveryAuthorization ::
  "rpc_context \<Rightarrow> bool \<Rightarrow> recovery_policy \<Rightarrow> bool \<Rightarrow> time \<Rightarrow> account_safety \<Rightarrow> recovery_refusal option" where
  "checkFreshRecoveryAuthorization ctx gate_blocked p invalidated now st =
     (case checkGameRPCContext ctx gate_blocked (rp_AutomationEnabled p) now RPCIndexLogin st of
        Some e \<Rightarrow> Some (Guarded e)
      | None \<Rightarrow>
        if invalidated then Some SessionInvalidated
        else
          let restricted = ars_RestrictionCode (as_safety st) \<noteq> 0;
              manual = manualRecoveryAtRevision ctx (as_safetyRevision st)
          in if restricted \<and> \<not> rp_AutomationEnabled p \<and> \<not> manual then Some (Waiting None)
             else if restricted \<and> \<not> rp_ServerErrorFreshLoginEnabled p \<and> \<not> manual then Some (Waiting None)
             else None)"

text \<open>\<open>db_present\<close> is false when the runner has no database; \<open>fails\<close> is the statement's error.\<close>

definition reserveFreshRecovery ::
  "rpc_context \<Rightarrow> bool \<Rightarrow> recovery_policy \<Rightarrow> bool \<Rightarrow> bool \<Rightarrow> bool \<Rightarrow> int \<Rightarrow> time \<Rightarrow> account_safety
     \<Rightarrow> account_safety \<times> recovery_refusal option" where
  "reserveFreshRecovery ctx gate_blocked p invalidated db_present fails accountID now st =
     (case checkFreshRecoveryAuthorization ctx gate_blocked p invalidated now st of
        Some e \<Rightarrow> (st, Some e)
      | None \<Rightarrow>
        let manual = manualRecoveryAtRevision ctx (as_safetyRevision st);
            s = as_safety st;
            until = unix_milli (ars_LastFreshLoginMS s) + freshRecoveryInterval
        in if ars_RestrictionCode s = 0 then (st, None)
           else if \<not> rp_AutomationEnabled p \<and> \<not> manual then (st, Some (Waiting None))
           else if \<not> manual \<and> ars_FreshLoginAttempts s \<ge> rp_MaxAttempts p
             then (st, Some (Waiting None))
           else if \<not> manual \<and> ars_LastFreshLoginMS s \<noteq> 0 \<and> now < until
             then (st, Some (Waiting (Some until)))
           else if \<not> db_present then (st, Some Unavailable)
           else
             case (if manual then ReserveManualRecovery fails accountID (to_unix_milli now) (as_row st)
                   else ReserveFreshRecovery fails accountID (to_unix_milli now)
                          (freshRecoveryInterval div millisecond) (rp_MaxAttempts p) (as_row st)) of
               (row, Inl e) \<Rightarrow> (st\<lparr>as_row := row\<rparr>, Some Unavailable)
             | (row, Inr allowed) \<Rightarrow>
                 if \<not> allowed then (st\<lparr>as_row := row\<rparr>, Some (Waiting None))
                 else (st\<lparr>as_row := row,
                          as_safety := s\<lparr>ars_FreshLoginAttempts := ars_FreshLoginAttempts s + 1,
                                         ars_LastFreshLoginMS := to_unix_milli now\<rparr>\<rparr>, None))"

text \<open>\<open>reserveRaceDelete\<close> of \<open>account_safety.go\<close>, for a deletion; \<open>True\<close> is success.\<close>

definition reserveRaceDelete ::
  "bool \<Rightarrow> bool \<Rightarrow> bool \<Rightarrow> int \<Rightarrow> duration \<Rightarrow> time \<Rightarrow> account_safety \<Rightarrow> account_safety \<times> bool" where
  "reserveRaceDelete db_present fails reload_fails accountID interval now st =
     (let s = as_safety st; until = unix_milli (ars_LastRaceDeleteMS s) + interval in
      if ars_LastRaceDeleteMS s \<noteq> 0 \<and> now < until then (st, False)
      else if \<not> db_present
        then (st\<lparr>as_safety := s\<lparr>ars_LastRaceDeleteMS := to_unix_milli now\<rparr>\<rparr>, True)
      else case ReserveRaceDelete fails accountID (to_unix_milli now) (interval div millisecond)
                  (as_row st) of
        (row, Inl e) \<Rightarrow> (st\<lparr>as_row := row\<rparr>, False)
      | (row, Inr allowed) \<Rightarrow>
          if \<not> allowed
          then (case LoadAccountRequestSafety reload_fails row of
                  Inl e \<Rightarrow> (st\<lparr>as_row := row\<rparr>, False)
                | Inr loaded \<Rightarrow>
                    (st\<lparr>as_row := row,
                        as_safety := s\<lparr>ars_LastRaceDeleteMS := ars_LastRaceDeleteMS loaded\<rparr>\<rparr>, False))
          else (st\<lparr>as_row := row, as_safety := s\<lparr>ars_LastRaceDeleteMS := to_unix_milli now\<rparr>\<rparr>, True))"

section \<open>The deadline\<close>

abbreviation restricted :: "account_safety \<Rightarrow> bool" where
  "restricted st \<equiv> ars_RestrictionCode (as_safety st) \<noteq> 0"

definition protective :: "int \<Rightarrow> bool" where
  "protective code \<longleftrightarrow> code = 5000 \<or> code = 97777 \<or> code = 97778"

definition active_restriction :: "account_request_safety \<Rightarrow> time \<Rightarrow> bool" where
  "active_restriction s now \<longleftrightarrow>
     ars_RestrictionCode s \<noteq> 0 \<and> ars_RestrictedUntilMS s > to_unix_milli now"

lemma restrictionBackoff_bounds:
  "5 * minute \<le> restrictionBackoff a \<and> restrictionBackoff a \<le> 30 * minute"
proof -
  have "5 * minute * 1 \<le> 5 * minute * 2 ^ nat (min 3 (max 0 (a - 1)))"
    by (intro mult_left_mono) (auto simp: duration_defs)
  then show ?thesis by (simp add: restrictionBackoff_def) (simp add: duration_defs)
qed

lemma to_unix_milli_add: "to_unix_milli (t + k * millisecond) = to_unix_milli t + k"
  by (simp add: to_unix_milli_def millisecond_def)

lemma nextAccountRestriction_code:
  "protective (err_code d) \<Longrightarrow> ars_RestrictionCode (nextAccountRestriction previous d now) \<noteq> 0"
  by (auto simp: nextAccountRestriction_def Let_def protective_def)

lemma nextAccountRestriction_until:
  "ars_RestrictedUntilMS previous \<le> ars_RestrictedUntilMS (nextAccountRestriction previous d now)"
  by (simp add: nextAccountRestriction_def Let_def)

lemma nextAccountRestriction_kept [simp]:
  "ars_FreshLoginAttempts (nextAccountRestriction previous d now) = ars_FreshLoginAttempts previous"
  "ars_LastFreshLoginMS (nextAccountRestriction previous d now) = ars_LastFreshLoginMS previous"
  "ars_LastRaceDeleteMS (nextAccountRestriction previous d now) = ars_LastRaceDeleteMS previous"
  by (simp_all add: nextAccountRestriction_def Let_def)

text \<open>A new incident pauses for the back-off, or until the server's own date and a margin.\<close>

lemma nextAccountRestriction_new:
  assumes "\<not> active_restriction previous now"
  shows "ars_RestrictedUntilMS (nextAccountRestriction previous d now) =
    max (to_unix_milli
      (if err_code d = 97778
       then (case restrictionRetryAt d now of Some t \<Rightarrow> t + 30 * second | None \<Rightarrow> now + 30 * minute)
       else now + restrictionBackoff (min 4 (ars_RestrictionAttempts previous + 1))))
      (ars_RestrictedUntilMS previous)"
  using assms
  by (auto simp: nextAccountRestriction_def active_restriction_def Let_def split: option.splits)

lemma nextAccountRestriction_active:
  assumes "active_restriction previous now" "err_code d \<noteq> 97778"
  shows "ars_RestrictedUntilMS (nextAccountRestriction previous d now) = ars_RestrictedUntilMS previous"
  using assms by (auto simp: nextAccountRestriction_def active_restriction_def Let_def)

text \<open>
  A rejection never shortens a pause; a new incident pauses the account for
  at least five minutes (thirty seconds past the date the server names); repeats of the error while
  the pause runs do not push its end, and the stronger role-data restriction is not relabelled.
\<close>

lemma restriction_deadline:
  assumes "protective (err_code d)"
    and "next = nextAccountRestriction previous d now"
  shows "ars_RestrictionCode next \<noteq> 0 \<and>
    ars_RestrictedUntilMS previous \<le> ars_RestrictedUntilMS next \<and>
    (\<not> active_restriction previous now \<longrightarrow>
       to_unix_milli (now + (if err_code d = 97778 then 30 * second else 5 * minute))
         \<le> ars_RestrictedUntilMS next) \<and>
    (active_restriction previous now \<and> err_code d \<noteq> 97778 \<longrightarrow>
       ars_RestrictedUntilMS next = ars_RestrictedUntilMS previous) \<and>
    (active_restriction previous now \<and> ars_RestrictionCode previous = 97778 \<longrightarrow>
       ars_RestrictionCode next = 97778)"
proof (intro conjI impI)
  show "ars_RestrictionCode next \<noteq> 0" unfolding assms(2) by (rule nextAccountRestriction_code [OF assms(1)])
  show "ars_RestrictedUntilMS previous \<le> ars_RestrictedUntilMS next"
    unfolding assms(2) by (rule nextAccountRestriction_until)
  show "active_restriction previous now \<and> err_code d \<noteq> 97778 \<Longrightarrow>
      ars_RestrictedUntilMS next = ars_RestrictedUntilMS previous"
    unfolding assms(2) by (simp add: nextAccountRestriction_active)
  show "active_restriction previous now \<and> ars_RestrictionCode previous = 97778 \<Longrightarrow>
      ars_RestrictionCode next = 97778"
    unfolding assms(2) by (simp add: nextAccountRestriction_def active_restriction_def Let_def)
  assume n: "\<not> active_restriction previous now"
  have "now + (if err_code d = 97778 then 30 * second else 5 * minute) \<le>
      (if err_code d = 97778
       then (case restrictionRetryAt d now of Some t \<Rightarrow> t + 30 * second | None \<Rightarrow> now + 30 * minute)
       else now + restrictionBackoff (min 4 (ars_RestrictionAttempts previous + 1)))"
    using restrictionBackoff_bounds [of "min 4 (ars_RestrictionAttempts previous + 1)"]
    by (auto simp: restrictionRetryAt_def duration_defs split: option.splits if_splits)
  then show "to_unix_milli (now + (if err_code d = 97778 then 30 * second else 5 * minute))
         \<le> ars_RestrictedUntilMS next"
    unfolding assms(2) nextAccountRestriction_new [OF n] by (rule le_max_iff_disj [THEN iffD2, OF disjI1, OF to_unix_milli_mono])
qed

definition server_error_code :: "int \<Rightarrow> server_error" where
  "server_error_code code = \<lparr>err_code = code, err_is_error = True, err_date = zero_time\<rparr>"

definition quiet_account :: account_safety where
  "quiet_account = \<lparr>as_safety = zero_safety, as_safetyRevision = 0, as_serverFailures = [],
     as_rpcObservations = \<lparr>win_items = [], win_droppedAt = zero_time\<rparr>, as_row = Some zero_safety,
     as_recoveryPacing = None\<rparr>"

text \<open>A first maintenance error pauses a quiet account for at least five minutes.\<close>

section \<open>Opening protection\<close>

lemma observe_restricted_keeps:
  assumes "restricted st"
  shows "restricted (observeGameRPCAt f name d now st)"
    and "protective (err_code d) \<Longrightarrow>
         as_safetyRevision (observeGameRPCAt f name d now st) = as_safetyRevision st + 1"
    and "as_safetyRevision st \<le> as_safetyRevision (observeGameRPCAt f name d now st)"
    and "ars_RestrictedUntilMS (as_safety st) \<le>
         ars_RestrictedUntilMS (as_safety (observeGameRPCAt f name d now st))"
  using assms nextAccountRestriction_code [of d "as_safety st" now]
    nextAccountRestriction_until [of "as_safety st" d now]
  by (auto simp: observeGameRPCAt_def recordAccountRestriction_def Let_def protective_def)

lemma last_n_subseq: "subseq (last_n n xs) xs"
  by (simp add: last_n_def suffix_imp_subseq suffix_drop)

definition observe_all ::
  "(string \<times> time) list \<Rightarrow> account_safety \<Rightarrow> account_safety" where
  "observe_all obs st =
     fold (\<lambda>(name, t). observeGameRPCAt False name \<lparr>err_code = 5000, err_is_error = True, err_date = zero_time\<rparr> t)
       obs st"

definition burst :: "(string \<times> time) list \<Rightarrow> bool" where
  "burst fs \<longleftrightarrow> length fs = 3 \<and>
     (\<forall>(n, t) \<in> set fs. t \<le> snd (last fs) \<and> snd (last fs) - minute \<le> t) \<and>
     (\<exists>(n, t) \<in> set fs. n \<noteq> fst (last fs))"

lemma observe_5000_unrestricted:
  assumes "\<not> restricted st"
  and st'_def: "st' = observeGameRPCAt False name
    \<lparr>err_code = 5000, err_is_error = True, err_date = zero_time\<rparr> now st"
  and fs_def: "fs = last_n 3 (filter (\<lambda>(rpc, at). \<not> at < now - minute \<and> \<not> at > now)
       (as_serverFailures st) @ [(name, now)])"
  shows "as_serverFailures st' = fs" and "restricted st' \<longleftrightarrow> burst fs"
proof -
  let ?d = "\<lparr>err_code = 5000, err_is_error = True, err_date = zero_time\<rparr>"
  let ?kept = "filter (\<lambda>(rpc, at). \<not> at < now - minute \<and> \<not> at > now) (as_serverFailures st)"
  have last: "last fs = (name, now)"
    by (simp add: fs_def last_n_def)
  have len: "length fs \<le> 3" by (simp add: fs_def last_n_def)
  have "set fs \<subseteq> set (?kept @ [(name, now)])"
    unfolding fs_def last_n_def by (rule set_drop_subset)
  then have win: "\<forall>(n, t) \<in> set fs. t \<le> now \<and> now - minute \<le> t"
    by (auto simp: duration_defs)
  have b: "burst fs \<longleftrightarrow> \<not> (length fs < 3 \<or> \<not> list_ex (\<lambda>(rpc, at). rpc \<noteq> name) fs)"
    using win len by (auto simp: burst_def last list_ex_iff)
  have nz: "ars_RestrictionCode (nextAccountRestriction (as_safety st) ?d now) \<noteq> 0"
    by (rule nextAccountRestriction_code) (simp add: protective_def)
  show "as_serverFailures st' = fs"
    using assms(1) by (simp add: st'_def observeGameRPCAt_def Let_def recordAccountRestriction_def
        serverFailureWindow_def serverFailureThreshold_def flip: fs_def)
  show "restricted st' \<longleftrightarrow> burst fs"
    unfolding b using assms(1) nz
    by (simp add: st'_def observeGameRPCAt_def Let_def recordAccountRestriction_def
        serverFailureWindow_def serverFailureThreshold_def flip: fs_def)
qed

lemma observe_all_failures:
  "\<not> restricted (observe_all obs st) \<Longrightarrow> as_serverFailures st = [] \<Longrightarrow>
     subseq (as_serverFailures (observe_all obs st)) obs \<and> \<not> restricted st"
proof (induction obs rule: rev_induct)
  case Nil
  then show ?case by (simp add: observe_all_def)
next
  case (snoc o1 obs)
  obtain name t where o1: "o1 = (name, t)" by (cases o1)
  let ?st = "observe_all obs st"
  have run: "observe_all (obs @ [o1]) st = observeGameRPCAt False name
      \<lparr>err_code = 5000, err_is_error = True, err_date = zero_time\<rparr> t ?st"
    by (simp add: observe_all_def o1)
  have un: "\<not> restricted ?st"
    using snoc.prems(1) observe_restricted_keeps(1) unfolding run by blast
  then have IH: "subseq (as_serverFailures ?st) obs" "\<not> restricted st" using snoc by auto
  let ?kept = "filter (\<lambda>(rpc, at). \<not> at < t - minute \<and> \<not> at > t) (as_serverFailures ?st)"
  have "subseq (last_n 3 (?kept @ [o1])) (?kept @ [o1])" by (rule last_n_subseq)
  also have "subseq (?kept @ [o1]) (obs @ [o1])"
    using subseq_order.trans [OF subseq_filter_left IH(1)] by (intro list_emb_append_mono) auto
  finally show ?case
    using observe_5000_unrestricted(1) [OF un refl refl, of name t] IH(2) unfolding run by (simp add: o1)
qed

text \<open>
  Internal server errors pause the account only in a burst across
  RPCs: when a series of failures opens protection, three of them lie within one minute and
  come from at least two different RPCs.
\<close>

lemma burst_opens_protection:
  assumes "\<not> restricted st" "as_serverFailures st = []" "restricted (observe_all obs st)"
  shows "\<exists>fs. subseq fs obs \<and> burst fs"
  using assms(3)
proof (induction obs rule: rev_induct)
  case Nil
  then show ?case using assms(1) by (simp add: observe_all_def)
next
  case (snoc o1 obs)
  obtain name t where o1: "o1 = (name, t)" by (cases o1)
  let ?st = "observe_all obs st"
  have run: "observe_all (obs @ [o1]) st = observeGameRPCAt False name
      \<lparr>err_code = 5000, err_is_error = True, err_date = zero_time\<rparr> t ?st"
    by (simp add: observe_all_def o1)
  show ?case
  proof (cases "restricted ?st")
    case True
    then show ?thesis using snoc.IH by (auto intro: subseq_order.trans subseq_rev_drop_many)
  next
    case False
    let ?fs = "last_n 3 (filter (\<lambda>(rpc, at). \<not> at < t - minute \<and> \<not> at > t) (as_serverFailures ?st)
      @ [(name, t)])"
    have "burst ?fs" using snoc.prems observe_5000_unrestricted(2) [OF False refl refl, of name t] by (simp add: run)
    moreover have "subseq (as_serverFailures ?st) obs"
      using observe_all_failures [OF False assms(2)] by simp
    then have "subseq ?fs (obs @ [o1])"
      unfolding o1
      by (intro subseq_order.trans [OF last_n_subseq] list_emb_append_mono
          subseq_order.trans [OF subseq_filter_left]) auto
    ultimately show ?thesis by blast
  qed
qed

text \<open>Three internal errors of two RPCs within a minute pause the account.\<close>

section \<open>Leaving protection\<close>

definition observe_run ::
  "(bool \<times> string \<times> server_error \<times> time) list \<Rightarrow> account_safety \<Rightarrow> account_safety" where
  "observe_run obs st = fold (\<lambda>(f, name, d, t). observeGameRPCAt f name d t) obs st"

lemma observe_run_restricted:
  "restricted st \<Longrightarrow>
     restricted (observe_run obs st) \<and>
     as_safetyRevision st \<le> as_safetyRevision (observe_run obs st) \<and>
     ((\<exists>(f, name, d, t) \<in> set obs. protective (err_code d)) \<longrightarrow>
        as_safetyRevision st < as_safetyRevision (observe_run obs st)) \<and>
     ars_RestrictedUntilMS (as_safety st) \<le> ars_RestrictedUntilMS (as_safety (observe_run obs st))"
proof (induction obs arbitrary: st)
  case Nil
  then show ?case by (simp add: observe_run_def)
next
  case (Cons o1 obs)
  obtain f name d t where o1: "o1 = (f, name, d, t)" by (cases o1)
  let ?st = "observeGameRPCAt f name d t st"
  note k = observe_restricted_keeps [OF Cons.prems, where f = f and name = name and d = d and now = t]
  have run: "observe_run (o1 # obs) st = observe_run obs ?st" by (simp add: observe_run_def o1)
  note IH = Cons.IH [OF k(1)]
  show ?case
    unfolding run using IH k(2-4) by (auto simp: o1)
qed

text \<open>
  A recovery probe that succeeded before the server rejected another request
  cannot lift the pause: clearing with the revision the probe was given fails after any later
  protective error, and the account stays paused.
\<close>

lemma late_error_wins:
  assumes "restricted st" "\<exists>(f, name, d, t) \<in> set obs. protective (err_code d)"
  shows "clearAccountRestriction save_fails (as_safetyRevision st) now (observe_run obs st) =
           (observe_run obs st, False) \<and> restricted (observe_run obs st)"
  using observe_run_restricted [OF assms(1), of obs] assms(2)
  by (simp add: clearAccountRestriction_def)

text \<open>An account paused by a maintenance error, which rejects one more request.\<close>

definition paused_account :: account_safety where
  "paused_account = observeGameRPCAt False ''usr.sign'' (server_error_code 97777) (10 * minute) quiet_account"

text \<open>Everything the runner does to the protection state short of a successful clear.\<close>

inductive paused_run :: "account_safety \<Rightarrow> account_safety \<Rightarrow> bool" where
  unchanged: "paused_run st st"
| observe: "paused_run st st1 \<Longrightarrow> paused_run st (observeGameRPCAt f name d now st1)"
| clear: "paused_run st st1 \<Longrightarrow> clearAccountRestriction f revision now st1 = (st2, False) \<Longrightarrow>
    paused_run st st2"
| fresh: "paused_run st st1 \<Longrightarrow>
    reserveFreshRecovery ctx gate p invalidated db fails accountID now st1 = (st2, r) \<Longrightarrow>
    paused_run st st2"
| delete: "paused_run st st1 \<Longrightarrow>
    reserveRaceDelete db fails reload_fails accountID interval now st1 = (st2, r) \<Longrightarrow>
    paused_run st st2"

definition same_restriction :: "account_safety \<Rightarrow> account_safety \<Rightarrow> bool" where
  "same_restriction a b \<longleftrightarrow>
     ars_RestrictionCode (as_safety b) = ars_RestrictionCode (as_safety a) \<and>
     ars_RestrictedUntilMS (as_safety b) = ars_RestrictedUntilMS (as_safety a) \<and>
     as_safetyRevision b = as_safetyRevision a"

lemma same_restriction_refl [simp]: "same_restriction st st"
  by (simp add: same_restriction_def)

lemma reserveFreshRecovery_same:
  "same_restriction st (fst (reserveFreshRecovery ctx gate p invalidated db fails accountID now st))"
  by (simp add: reserveFreshRecovery_def Let_def split: option.split prod.split sum.split)
     (auto simp: same_restriction_def)

lemma reserveRaceDelete_same:
  "same_restriction st (fst (reserveRaceDelete db fails reload_fails accountID interval now st))"
  by (simp add: reserveRaceDelete_def Let_def split: prod.split sum.split)
     (auto simp: same_restriction_def)

definition recovery_rpcs :: "string set" where
  "recovery_rpcs = {RPCIndexLogin, RPCIndexReLogin, RPCUsrLazySync, RPCReputationView}"

lemma business_refused:
  assumes "restricted st" "name \<notin> recovery_rpcs"
  shows "checkGameRPCContext ctx gate auto_enabled now name st \<noteq> None"
proof -
  have no: "(name = RPCIndexLogin \<or> name = RPCIndexReLogin) = False"
    "(name = RPCUsrLazySync \<or> name = RPCReputationView) = False"
    using assms(2) unfolding recovery_rpcs_def
    by (simp_all only: insert_iff empty_iff de_Morgan_disj simp_thms)
  show ?thesis
    using assms(1) by (simp add: checkGameRPCContext_def Let_def no split: option.split)
qed

text \<open>
  C7.  Once paused, an account sends no game request but login and the two
  recovery probes, whatever is observed, reserved or unsuccessfully cleared in between, and its
  deadline never moves back; only a successful clear ends this.
\<close>

theorem paused_until_cleared:
  assumes "paused_run st st'" "restricted st" "name \<notin> recovery_rpcs"
  shows "checkGameRPCContext ctx gate auto_enabled now name st' \<noteq> None \<and>
    ars_RestrictedUntilMS (as_safety st) \<le> ars_RestrictedUntilMS (as_safety st')"
proof -
  have "restricted st' \<and>
      ars_RestrictedUntilMS (as_safety st) \<le> ars_RestrictedUntilMS (as_safety st')"
    using assms(1,2)
  proof (induction rule: paused_run.induct)
    case (unchanged st)
    then show ?case by simp
  next
    case (observe st st1 f name d now)
    then have IH: "restricted st1"
      "ars_RestrictedUntilMS (as_safety st) \<le> ars_RestrictedUntilMS (as_safety st1)" by simp_all
    show ?case
      using observe_restricted_keeps(1,4) [OF IH(1), where f = f and name = name and d = d and now = now]
        IH(2) by simp
  next
    case (clear st st1 f revision now st2)
    then have "st2 = st1"
      by (simp add: clearAccountRestriction_def SaveAccountRestriction_def Let_def split: if_splits)
    then show ?case using clear by simp
  next
    case (fresh st st1 ctx gate p invalidated db fails accountID now st2 r)
    then show ?case
      using reserveFreshRecovery_same [of st1 ctx gate p invalidated db fails accountID now]
      by (simp add: same_restriction_def)
  next
    case (delete st st1 db fails reload_fails accountID interval now st2 r)
    then show ?case
      using reserveRaceDelete_same [of st1 db fails reload_fails accountID interval now]
      by (simp add: same_restriction_def)
  qed
  then show ?thesis using business_refused [OF _ assms(3)] by blast
qed

theorem paused_until_cleared_witness:
  "checkGameRPCContext \<lparr>ctx_error = None, ctx_manual = None, ctx_recovery_attempt = False,
       ctx_probe = None\<rparr> False True (40 * minute) ''shop.list''
     (observeGameRPCAt True ''usr.sign'' (server_error_code 5000) (12 * minute) paused_account) \<noteq> None"
proof -
  have r: "restricted paused_account" by code_simp
  have n: "''shop.list'' \<notin> recovery_rpcs" by code_simp
  show ?thesis
    using paused_until_cleared [OF paused_run.observe [OF paused_run.unchanged] r n] by blast
qed

section \<open>Budgets that survive a restart\<close>

text \<open>A restart forgets the memory of the runner and reloads the row.\<close>

definition restart :: "account_safety \<Rightarrow> account_safety" where
  "restart st = st\<lparr>as_safety := (case as_row st of None \<Rightarrow> zero_safety | Some s \<Rightarrow> s),
     as_safetyRevision := 0, as_serverFailures := []\<rparr>"

lemma reserveRaceDelete_done:
  assumes "reserveRaceDelete True fails reload_fails accountID interval now st = (st', True)"
  shows "\<exists>s. as_row st' = Some s \<and> ars_LastRaceDeleteMS s = to_unix_milli now \<and> 0 < to_unix_milli now"
    and "\<And>s. as_row st = Some s \<Longrightarrow> ars_LastRaceDeleteMS s = 0 \<or>
            ars_LastRaceDeleteMS s + interval div millisecond \<le> to_unix_milli now"
  using assms
  by (auto simp: reserveRaceDelete_def ReserveRaceDelete_def Let_def
      split: if_splits sum.splits prod.splits option.splits)

text \<open>What happens between two deletions: anything but a successful deletion, restarts included.\<close>

inductive between_deletes :: "account_safety \<Rightarrow> account_safety \<Rightarrow> bool" where
  none: "between_deletes st st"
| observe: "between_deletes st st1 \<Longrightarrow> between_deletes st (observeGameRPCAt f name d now st1)"
| clear: "between_deletes st st1 \<Longrightarrow> clearAccountRestriction f revision now st1 = (st2, ok) \<Longrightarrow>
    between_deletes st st2"
| fresh: "between_deletes st st1 \<Longrightarrow>
    reserveFreshRecovery ctx gate p invalidated db fails accountID now st1 = (st2, r) \<Longrightarrow>
    between_deletes st st2"
| refused: "between_deletes st st1 \<Longrightarrow>
    reserveRaceDelete True fails reload_fails accountID interval now st1 = (st2, False) \<Longrightarrow>
    between_deletes st st2"
| restarted: "between_deletes st st1 \<Longrightarrow> between_deletes st (restart st1)"

definition last_delete_row :: "int \<Rightarrow> safety_row \<Rightarrow> bool" where
  "last_delete_row ms row \<longleftrightarrow> (\<exists>s. row = Some s \<and> ars_LastRaceDeleteMS s = ms)"

lemma SaveAccountRestriction_keeps_delete:
  "last_delete_row ms row \<Longrightarrow> last_delete_row ms (fst (SaveAccountRestriction f s row))"
  by (auto simp: last_delete_row_def SaveAccountRestriction_def)

lemma observe_keeps_delete:
  "last_delete_row ms (as_row st) \<Longrightarrow> last_delete_row ms (as_row (observeGameRPCAt f name d now st))"
  by (simp add: observeGameRPCAt_def recordAccountRestriction_def Let_def
      SaveAccountRestriction_keeps_delete)

lemma clear_keeps_delete:
  assumes "last_delete_row ms (as_row st)" "clearAccountRestriction f revision now st = (st', ok)"
  shows "last_delete_row ms (as_row st')"
  using assms(2) SaveAccountRestriction_keeps_delete [OF assms(1)] assms(1)
  by (auto simp: clearAccountRestriction_def Let_def split: if_splits prod.splits) (metis fst_conv)

lemma reserveRecovery_keeps_delete:
  assumes "last_delete_row ms row"
  shows "last_delete_row ms (fst (reserveRecovery f a now i m man row))"
  using assms by (auto simp: last_delete_row_def reserveRecovery_def)

lemma fresh_keeps_delete:
  assumes "last_delete_row ms (as_row st)"
  shows "last_delete_row ms (as_row (fst (reserveFreshRecovery ctx gate p iv db f a now st)))"
proof -
  note k = reserveRecovery_keeps_delete [OF assms]
  have "last_delete_row ms row" if "reserveRecovery f' a' n i m man (as_row st) = (row, x)"
    for f' a' n i m man row x
    using k [of f' a' n i m man] that by simp
  then show ?thesis
    using assms
    by (auto simp: reserveFreshRecovery_def ReserveFreshRecovery_def ReserveManualRecovery_def Let_def
        split: option.split prod.split sum.split)
qed

lemma refused_keeps_delete:
  assumes "last_delete_row ms (as_row st)"
    and "reserveRaceDelete True f g a i now st = (st', False)"
  shows "last_delete_row ms (as_row st')"
  using assms
  by (auto simp: reserveRaceDelete_def ReserveRaceDelete_def last_delete_row_def Let_def
      split: if_splits sum.splits prod.splits option.splits)

lemma between_deletes_keeps:
  "between_deletes st st' \<Longrightarrow> last_delete_row ms (as_row st) \<Longrightarrow> last_delete_row ms (as_row st')"
proof (induction rule: between_deletes.induct)
  case (fresh st st1 ctx gate p invalidated db fails accountID now st2 r)
  then show ?case
    using fresh_keeps_delete [of ms st1 ctx gate p invalidated db fails accountID now] by simp
next
  case (restarted st st1)
  then show ?case by (simp add: restart_def)
qed (auto intro: observe_keeps_delete clear_keeps_delete refused_keeps_delete)

text \<open>
  Two successive guild-task deletions of one account are at least the
  configured interval apart, automatic and manual together, whatever happens between them:
  rejections, recoveries, refused deletions and restarts of the daemon do not shorten it.
\<close>

lemma race_delete_spaced:
  assumes "reserveRaceDelete True f1 g1 accountID interval t1 st1 = (st2, True)"
    and "between_deletes st2 st3"
    and "reserveRaceDelete True f2 g2 accountID interval t2 st3 = (st4, True)"
  shows "to_unix_milli t1 + interval div millisecond \<le> to_unix_milli t2"
proof -
  have pos: "0 < to_unix_milli t1" and "last_delete_row (to_unix_milli t1) (as_row st2)"
    using reserveRaceDelete_done(1) [OF assms(1)] by (auto simp: last_delete_row_def)
  then have "last_delete_row (to_unix_milli t1) (as_row st3)"
    using between_deletes_keeps [OF assms(2)] by blast
  then show ?thesis
    using reserveRaceDelete_done(2) [OF assms(3)] pos by (auto simp: last_delete_row_def)
qed

text \<open>Two deletions a minute apart under a limit of thirty seconds, with a restart between them.\<close>

text \<open>The automatic recovery logins of one incident, across restarts, with their number.\<close>

inductive recovery_run :: "recovery_policy \<Rightarrow> account_safety \<Rightarrow> nat \<Rightarrow> account_safety \<Rightarrow> bool"
  for p :: recovery_policy where
  start: "recovery_run p st 0 st"
| reserve: "recovery_run p st n st1 \<Longrightarrow> ctx_manual ctx = None \<Longrightarrow>
    reserveFreshRecovery ctx gate p invalidated True fails accountID now st1 = (st2, r) \<Longrightarrow>
    recovery_run p st (if r = None \<and> restricted st1 then Suc n else n) st2"
| observe: "recovery_run p st n st1 \<Longrightarrow>
    recovery_run p st n (observeGameRPCAt f name d now st1)"
| restarted: "recovery_run p st n st1 \<Longrightarrow> recovery_run p st n (restart st1)"

text \<open>Memory never knows of fewer attempts than the row, and the row of fewer than happened.\<close>

definition attempts_at_least :: "int \<Rightarrow> account_safety \<Rightarrow> bool" where
  "attempts_at_least k st \<longleftrightarrow>
     (\<exists>s. as_row st = Some s \<and> k \<le> ars_FreshLoginAttempts s) \<and>
     k \<le> ars_FreshLoginAttempts (as_safety st)"

lemma reserveFreshRecovery_counts:
  assumes "reserveFreshRecovery ctx gate p invalidated True fails accountID now st = (st', r)"
    and "ctx_manual ctx = None" "attempts_at_least k st"
  shows "attempts_at_least (if r = None \<and> restricted st then k + 1 else k) st'"
    and "r = None \<Longrightarrow> restricted st \<Longrightarrow> k + 1 \<le> rp_MaxAttempts p"
  using assms
  by (auto simp: reserveFreshRecovery_def manualRecoveryAtRevision_def ReserveFreshRecovery_def
      reserveRecovery_def attempts_at_least_def Let_def
      split: if_splits sum.splits prod.splits option.splits)

lemma observe_counts:
  assumes "attempts_at_least k st"
  shows "attempts_at_least k (observeGameRPCAt f name d now st)"
  using assms
  by (auto simp: attempts_at_least_def observeGameRPCAt_def recordAccountRestriction_def
      SaveAccountRestriction_def Let_def)

text \<open>
  C8.  An incident gets at most the configured number of automatic logins: however the
  attempts, further errors and restarts of the daemon interleave, the budget is not replenished.
\<close>

theorem recovery_budget:
  assumes "recovery_run p st n st'" "attempts_at_least 0 st"
  shows "int n \<le> max 0 (rp_MaxAttempts p)"
proof -
  have "attempts_at_least (int n) st' \<and> int n \<le> max 0 (rp_MaxAttempts p)"
    using assms
  proof (induction rule: recovery_run.induct)
    case (start st)
    then show ?case by simp
  next
    case (reserve st n st1 ctx gate invalidated fails accountID now st2 r)
    then have c: "attempts_at_least (int n) st1" by simp
    note step = reserveFreshRecovery_counts [OF reserve.hyps(3,2) c]
    show ?case
    proof (cases "r = None \<and> restricted st1")
      case True
      have "attempts_at_least (int n + 1) st2" using step(1) True by auto
      moreover have "int n + 1 \<le> rp_MaxAttempts p" using step(2) True by auto
      ultimately show ?thesis using True by (simp add: add.commute)
    next
      case False
      have "attempts_at_least (int n) st2" using step(1) by (simp only: False if_False)
      then show ?thesis using False reserve by auto
    qed
  next
    case (observe st n st1 f name d now)
    then show ?case by (simp add: observe_counts)
  next
    case (restarted st n st1)
    then show ?case by (auto simp: attempts_at_least_def restart_def)
  qed
  then show ?thesis by simp
qed

text \<open>With a budget of one login, the paused account gets its one attempt after the deadline.\<close>

theorem recovery_budget_witness:
  "\<exists>st. recovery_run \<lparr>rp_AutomationEnabled = True, rp_ServerErrorFreshLoginEnabled = True,
           rp_MaxAttempts = 1\<rparr> paused_account 1 st \<and> int 1 \<le> max 0 1"
proof -
  let ?p = "\<lparr>rp_AutomationEnabled = True, rp_ServerErrorFreshLoginEnabled = True, rp_MaxAttempts = 1\<rparr>"
  let ?ctx = "\<lparr>ctx_error = None, ctx_manual = None, ctx_recovery_attempt = True, ctx_probe = None\<rparr>"
  define r where "r = reserveFreshRecovery ?ctx False ?p False True False 7 (2 * hour) paused_account"
  have n: "snd r = None" "restricted paused_account" unfolding r_def by code_simp+
  have a: "attempts_at_least 0 paused_account"
  proof -
    have "as_row paused_account = Some (as_safety paused_account)"
      "0 \<le> ars_FreshLoginAttempts (as_safety paused_account)" by code_simp+
    then show ?thesis by (simp add: attempts_at_least_def)
  qed
  have "reserveFreshRecovery ?ctx False ?p False True False 7 (2 * hour) paused_account = (fst r, snd r)"
    by (simp add: r_def)
  from recovery_run.reserve [OF recovery_run.start _ this] n
  have run: "recovery_run ?p paused_account 1 (fst r)" by simp
  with recovery_budget [OF run a] show ?thesis by auto
qed

end
