(* ===== verification/SideLane.thy ===== *)
theory SideLane
  imports Cooldown Harvest Pacing
begin

text \<open>
  The scheduler's choice of the next operation (\<open>internal/runner/side_lane.go\<close>): the planner's
  farm-first order, with an aging threshold for the side lane, alternation after a forced side
  turn, and precedence for contested guild-race mutations.  The fields of \<open>Runner\<close> this code
  touches form the record \<open>scheduler\<close>; \<open>PlanOperations\<close> supplies the ranked candidates.
\<close>

definition sideLaneMaxWait :: duration where "sideLaneMaxWait = 20 * second"

record scheduler =
  sch_pacer :: "request_pacer option"
  sch_raceUpgradeAttempts :: "(int \<times> int) list"
  sch_cultivateUpgradeRejects :: cultivate_rejects
  sch_operationCooldowns :: cooldowns
  sch_harvestBlockedUntil :: "(int, time) gomap"
  sch_harvestFailures :: harvest_failures
  sch_LastRaceDeleteMS :: int
  sch_DeleteIntervalSeconds :: int
  sch_sideLaneFirstWait :: "(string, time) gomap"
  sch_sideLaneFarmTurn :: bool
  sch_raceSyncNeedsFarmTurn :: bool
  sch_lastSchedulerWaitDiagnostic :: time

text \<open>\<open>automation/race_delete_interval.go\<close> and \<open>raceDeleteWait\<close> of \<open>account_safety.go\<close>.\<close>

definition RaceDeleteInterval :: "int \<Rightarrow> duration" where
  "RaceDeleteInterval seconds =
     (let seconds' = (if seconds \<le> 0 then 120 else seconds) in max 30 (min 3600 seconds') * second)"

definition raceDeleteWait :: "scheduler \<Rightarrow> time \<Rightarrow> duration" where
  "raceDeleteWait sch now =
     (if sch_LastRaceDeleteMS sch = 0 then 0
      else max 0 (time_sub (unix_milli (sch_LastRaceDeleteMS sch)
                             + RaceDeleteInterval (sch_DeleteIntervalSeconds sch)) now))"

record candidate =
  cand_op :: planned_op
  cand_scope :: string

definition isYieldingRaceSync :: "planned_op \<Rightarrow> bool" where
  "isYieldingRaceSync op \<longleftrightarrow> op_PreemptFarm op \<and> op_Action op = ''sync''"

definition isSideLane :: "planned_op \<Rightarrow> bool" where
  "isSideLane op \<longleftrightarrow> op_Lane op = LaneSide \<or> op_Lane op = []"

definition sideLaneWaitScope :: "planned_op \<Rightarrow> string" where
  "sideLaneWaitScope op =
     (if trim_space (op_CooldownKey op) \<noteq> [] then trim_space (op_CooldownKey op)
      else trim_space (op_OperationID op))"

definition resetSideLaneFairness :: "scheduler \<Rightarrow> scheduler" where
  "resetSideLaneFairness sch =
     sch\<lparr>sch_sideLaneFirstWait := [], sch_lastSchedulerWaitDiagnostic := zero_time,
         sch_sideLaneFarmTurn := False, sch_raceSyncNeedsFarmTurn := False\<rparr>"

section \<open>Eligibility\<close>

text \<open>
  What the loop over the candidates does with one of them: nothing, or an eligible entry and
  whether it may be sent now and whether it reserves the next slot.  The guards may also drop
  stale records from the scheduler's maps.
\<close>

record verdict =
  vd_entry :: candidate
  vd_sendable :: bool
  vd_reserves :: bool

definition judge ::
  "game_state \<Rightarrow> time \<Rightarrow> planned_op \<Rightarrow> scheduler \<Rightarrow> scheduler \<times> verdict option" where
  "judge gs now op sch =
     (if \<not> runnablePlannedOp op then (sch, None)
      else if op_Kind op = RPCPearlPlaceRecvOneKey \<and> 0 < pacer_delay (sch_pacer sch) (op_Kind op) now
        then (sch, None)
      else if op_Kind op = RPCFmlRaceUpgradeTask \<and>
              (op_RaceBatchID op, op_TaskMsID op) \<in> set (sch_raceUpgradeAttempts sch)
        then (sch, None)
      else case cultivateUpgradeResourceRejectedUnchanged gs op (sch_cultivateUpgradeRejects sch) of
        (rejects, withheld) \<Rightarrow>
          let sch1 = sch\<lparr>sch_cultivateUpgradeRejects := rejects\<rparr> in
          if withheld then (sch1, None)
          else case operationCoolingDown (Some op) now (sch_operationCooldowns sch1) of
            (cds, cd) \<Rightarrow>
              let sch2 = sch1\<lparr>sch_operationCooldowns := cds\<rparr> in
              if cd \<noteq> None then (sch2, None)
              else case applyHarvestBlocks op now (sch_harvestBlockedUntil sch2)
                          (sch_harvestFailures sch2) of
                None \<Rightarrow> (sch2, None)
              | Some filtered \<Rightarrow>
                  let entry = \<lparr>cand_op = filtered,
                        cand_scope = (if isSideLane filtered then sideLaneWaitScope filtered else [])\<rparr>;
                      deleteWait = (if op_Kind op = RPCFmlRaceDelTask then raceDeleteWait sch2 now else 0);
                      delay = pacer_delay (sch_pacer sch2) (op_Kind op) now
                  in (sch2, Some \<lparr>vd_entry = entry,
                        vd_sendable = (\<not> (0 < delay \<or> 0 < deleteWait)),
                        vd_reserves = (IsUrgentRaceOp op \<and> \<not> isYieldingRaceSync op \<and>
                          deleteWait \<le> delay \<and> reserveUrgentSlot (sch_pacer sch2) (op_Kind op) now)\<rparr>))"

definition eligible ::
  "game_state \<Rightarrow> time \<Rightarrow> planned_op list \<Rightarrow> scheduler \<Rightarrow> scheduler \<times> verdict list" where
  "eligible gs now candidates sch =
     (case thread (judge gs now) candidates sch of (sch', vs) \<Rightarrow> (sch', List.map_filter (\<lambda>v. v) vs))"

section \<open>The choice\<close>

definition refresh_waits ::
  "string list \<Rightarrow> time \<Rightarrow> (string, time) gomap \<Rightarrow> (string, time) gomap" where
  "refresh_waits active now waits =
     fold (\<lambda>scope m.
         case map_of m scope of
           None \<Rightarrow> AList.update scope now m
         | Some firstWait \<Rightarrow> if firstWait > now then AList.update scope now m else m)
       active (filter (\<lambda>(scope, t). scope \<in> set active) waits)"

definition firstUrgentRaceOp :: "candidate list \<Rightarrow> candidate option" where
  "firstUrgentRaceOp runnable =
     (case List.find (\<lambda>c. IsUrgentRaceOp (cand_op c) \<and> \<not> isYieldingRaceSync (cand_op c)) runnable of
        Some c \<Rightarrow> Some c
      | None \<Rightarrow> List.find (\<lambda>c. IsUrgentRaceOp (cand_op c)) runnable)"

definition due :: "(string, time) gomap \<Rightarrow> time \<Rightarrow> candidate \<Rightarrow> bool" where
  "due waits now c \<longleftrightarrow>
     cand_scope c \<noteq> [] \<and>
     (let firstWait = get_or zero_time waits (cand_scope c)
      in \<not> time_is_zero firstWait \<and> \<not> now < firstWait + sideLaneMaxWait)"

definition first_due :: "(string, time) gomap \<Rightarrow> time \<Rightarrow> candidate list \<Rightarrow> candidate option" where
  "first_due waits now runnable =
     fold (\<lambda>c best.
         if due waits now c \<and>
            (case best of None \<Rightarrow> True
             | Some b \<Rightarrow> get_or zero_time waits (cand_scope c) < get_or zero_time waits (cand_scope b))
         then Some c else best)
       runnable None"

definition first_farm :: "candidate list \<Rightarrow> candidate option" where
  "first_farm runnable = List.find (\<lambda>c. op_Lane (cand_op c) = LaneFarm) runnable"

definition drop_wait :: "string \<Rightarrow> scheduler \<Rightarrow> scheduler" where
  "drop_wait scope sch = sch\<lparr>sch_sideLaneFirstWait := AList.delete scope (sch_sideLaneFirstWait sch)\<rparr>"

text \<open>The part under the lock, from the runnable entries to the selected one.\<close>

definition choose_next ::
  "candidate list \<Rightarrow> bool \<Rightarrow> time \<Rightarrow> scheduler \<Rightarrow> scheduler \<times> candidate option" where
  "choose_next runnable reserve now sch =
     (let urgent = firstUrgentRaceOp runnable in
      if reserve \<and> (case urgent of None \<Rightarrow> True | Some u \<Rightarrow> isYieldingRaceSync (cand_op u))
      then (sch, None)
      else
        let farm = first_farm runnable;
            dueSide = first_due (sch_sideLaneFirstWait sch) now runnable
        in
        case (case urgent of None \<Rightarrow> None
              | Some u \<Rightarrow> if \<not> isYieldingRaceSync (cand_op u) \<or> dueSide = None then Some u else None) of
          Some u \<Rightarrow>
            (case (if isYieldingRaceSync (cand_op u) \<and> sch_raceSyncNeedsFarmTurn sch then farm else None) of
               Some f \<Rightarrow> (sch\<lparr>sch_raceSyncNeedsFarmTurn := False, sch_sideLaneFarmTurn := False\<rparr>, Some f)
             | None \<Rightarrow>
                 let sch1 = (if cand_scope u \<noteq> [] then drop_wait (cand_scope u) sch else sch)
                 in (sch1\<lparr>sch_raceSyncNeedsFarmTurn := isYieldingRaceSync (cand_op u),
                          sch_sideLaneFarmTurn := True\<rparr>, Some u))
        | None \<Rightarrow>
            (case (if sch_sideLaneFarmTurn sch then farm else None) of
               Some f \<Rightarrow> (sch\<lparr>sch_sideLaneFarmTurn := False, sch_raceSyncNeedsFarmTurn := False\<rparr>, Some f)
             | None \<Rightarrow>
                 (case dueSide of
                    Some d \<Rightarrow> ((drop_wait (cand_scope d) sch)\<lparr>sch_sideLaneFarmTurn := True,
                                 sch_raceSyncNeedsFarmTurn := False\<rparr>, Some d)
                  | None \<Rightarrow>
                      (case runnable of
                         [] \<Rightarrow> (sch, None)
                       | c # _ \<Rightarrow>
                           let sch1 = sch\<lparr>sch_raceSyncNeedsFarmTurn := False\<rparr> in
                           ((if op_Lane (cand_op c) = LaneFarm then sch1\<lparr>sch_sideLaneFarmTurn := False\<rparr>
                             else if cand_scope c \<noteq> [] then drop_wait (cand_scope c) sch1
                             else sch1), Some c)))))"

definition active_scopes :: "verdict list \<Rightarrow> string list" where
  "active_scopes vs = remdups (filter (\<lambda>s. s \<noteq> []) (map (cand_scope \<circ> vd_entry) vs))"

definition decide :: "verdict list \<Rightarrow> time \<Rightarrow> scheduler \<Rightarrow> scheduler \<times> candidate option" where
  "decide vs now sch =
     (let active = active_scopes vs;
          sch1 = sch\<lparr>sch_sideLaneFirstWait := refresh_waits active now (sch_sideLaneFirstWait sch)\<rparr>;
          sch2 = (if active = []
                  then sch1\<lparr>sch_sideLaneFarmTurn := False, sch_raceSyncNeedsFarmTurn := False\<rparr>
                  else sch1)
      in choose_next (map vd_entry (filter vd_sendable vs)) (list_ex vd_reserves vs) now sch2)"

definition selectRunnableOperation ::
  "game_state \<Rightarrow> planned_op list \<Rightarrow> time \<Rightarrow> scheduler \<Rightarrow> scheduler \<times> planned_op option" where
  "selectRunnableOperation gs candidates now sch =
     (case eligible gs now candidates sch of (sch1, vs) \<Rightarrow>
        case decide vs now sch1 of (sch2, selected) \<Rightarrow> (sch2, map_option cand_op selected))"

text \<open>
  \<open>nextRunnableOperation\<close> (\<open>operation_gates.go\<close>): nothing runs while automation is off, and the
  fairness state starts afresh.  \<open>drive_error\<close> is the verdict of \<open>validateCyclicNoteDrive\<close>.
\<close>

definition nextRunnableOperation ::
  "bool \<Rightarrow> (planned_op \<Rightarrow> string option) \<Rightarrow> game_state \<Rightarrow> planned_op list \<Rightarrow> time \<Rightarrow> scheduler
     \<Rightarrow> scheduler \<times> planned_op option" where
  "nextRunnableOperation automation_enabled drive_error gs planned now sch =
     (if \<not> automation_enabled then (resetSideLaneFairness sch, None)
      else selectRunnableOperation gs
             (map (\<lambda>op. case drive_error op of None \<Rightarrow> op
                        | Some e \<Rightarrow> op\<lparr>op_Executable := False,
                                        op_BlockedReasons := op_BlockedReasons op @ [e]\<rparr>) planned)
             now sch)"

section \<open>What is selected may run\<close>

lemma first_due_mem:
  "first_due waits now runnable = Some c \<Longrightarrow> c \<in> set runnable \<and> due waits now c"
proof -
  have "fold (\<lambda>c best. if due waits now c \<and>
            (case best of None \<Rightarrow> True
             | Some b \<Rightarrow> get_or zero_time waits (cand_scope c) < get_or zero_time waits (cand_scope b))
         then Some c else best) cs best = Some c \<Longrightarrow>
      best = Some c \<or> (c \<in> set cs \<and> due waits now c)" for cs best
    by (induction cs arbitrary: best) (auto split: if_splits)
  from this [of runnable None] show "first_due waits now runnable = Some c \<Longrightarrow> ?thesis"
    by (simp add: first_due_def)
qed

lemma firstUrgent_mem:
  "firstUrgentRaceOp runnable = Some c \<Longrightarrow> c \<in> set runnable \<and> IsUrgentRaceOp (cand_op c)"
  by (auto simp: firstUrgentRaceOp_def dest: find_SomeD split: option.splits)

lemma first_farm_mem:
  "first_farm runnable = Some c \<Longrightarrow> c \<in> set runnable \<and> op_Lane (cand_op c) = LaneFarm"
  by (auto simp: first_farm_def dest: find_SomeD)

text \<open>The sources of a choice; every one of them is in the runnable list.\<close>

lemma choose_next_mem:
  assumes "choose_next runnable reserve now sch = (sch', Some c)"
  shows "c \<in> set runnable"
proof -
  have "c \<in> set runnable \<or> firstUrgentRaceOp runnable = Some c \<or> first_farm runnable = Some c \<or>
      first_due (sch_sideLaneFirstWait sch) now runnable = Some c"
    using assms
    by (simp add: choose_next_def Let_def split: option.splits if_splits list.splits)
  then show ?thesis using firstUrgent_mem first_farm_mem first_due_mem by blast
qed

lemma judge_Some:
  assumes "judge gs now op sch = (sch', Some v)"
  shows "runnablePlannedOp op"
    and "\<not> cooling op now (sch_operationCooldowns sch)"
    and "applyHarvestBlocks op now (sch_harvestBlockedUntil sch) (sch_harvestFailures sch) =
           Some (cand_op (vd_entry v))"
    and "vd_sendable v \<Longrightarrow> pacer_delay (sch_pacer sch) (op_Kind op) now \<le> 0"
    and "vd_sendable v \<Longrightarrow> op_Kind op = RPCFmlRaceDelTask \<Longrightarrow> raceDeleteWait sch now \<le> 0"
    and "op_Kind op = RPCFmlRaceUpgradeTask \<Longrightarrow>
           (op_RaceBatchID op, op_TaskMsID op) \<notin> set (sch_raceUpgradeAttempts sch)"
proof -
  obtain rejects withheld where cu: "cultivateUpgradeResourceRejectedUnchanged gs op
      (sch_cultivateUpgradeRejects sch) = (rejects, withheld)" by fastforce
  obtain cds cd where cd: "operationCoolingDown (Some op) now (sch_operationCooldowns sch) = (cds, cd)"
    by fastforce
  note parts = judge_def Let_def cu cd raceDeleteWait_def cooling_def
  show "runnablePlannedOp op" using assms by (simp add: judge_def split: if_splits)
  show "\<not> cooling op now (sch_operationCooldowns sch)"
    using assms by (simp add: parts split: if_splits)
  show "applyHarvestBlocks op now (sch_harvestBlockedUntil sch) (sch_harvestFailures sch) =
           Some (cand_op (vd_entry v))"
    using assms by (auto simp: parts split: if_splits option.splits)
  show "vd_sendable v \<Longrightarrow> pacer_delay (sch_pacer sch) (op_Kind op) now \<le> 0"
    using assms by (auto simp: parts split: if_splits option.splits)
  show "vd_sendable v \<Longrightarrow> op_Kind op = RPCFmlRaceDelTask \<Longrightarrow> raceDeleteWait sch now \<le> 0"
    using assms by (auto simp: parts split: if_splits option.splits)
  show "op_Kind op = RPCFmlRaceUpgradeTask \<Longrightarrow>
           (op_RaceBatchID op, op_TaskMsID op) \<notin> set (sch_raceUpgradeAttempts sch)"
    using assms by (auto simp: judge_def split: if_splits)
qed

text \<open>Judging candidates only forgets records that have no effect any more.\<close>

definition same_guards :: "time \<Rightarrow> scheduler \<Rightarrow> scheduler \<Rightarrow> bool" where
  "same_guards now a b \<longleftrightarrow>
     sch_pacer b = sch_pacer a \<and> sch_raceUpgradeAttempts b = sch_raceUpgradeAttempts a \<and>
     sch_harvestBlockedUntil b = sch_harvestBlockedUntil a \<and>
     sch_harvestFailures b = sch_harvestFailures a \<and>
     sch_LastRaceDeleteMS b = sch_LastRaceDeleteMS a \<and>
     sch_DeleteIntervalSeconds b = sch_DeleteIntervalSeconds a \<and>
     sch_sideLaneFirstWait b = sch_sideLaneFirstWait a \<and>
     sch_sideLaneFarmTurn b = sch_sideLaneFarmTurn a \<and>
     sch_raceSyncNeedsFarmTurn b = sch_raceSyncNeedsFarmTurn a \<and>
     (\<forall>op. cooling op now (sch_operationCooldowns b) = cooling op now (sch_operationCooldowns a))"

lemma judge_same: "judge gs now op sch = (sch', v) \<Longrightarrow> same_guards now sch sch'"
proof -
  assume j: "judge gs now op sch = (sch', v)"
  obtain rejects withheld where cu: "cultivateUpgradeResourceRejectedUnchanged gs op
      (sch_cultivateUpgradeRejects sch) = (rejects, withheld)" by fastforce
  obtain cds cd where cd: "operationCoolingDown (Some op) now (sch_operationCooldowns sch) = (cds, cd)"
    by fastforce
  have "cooling op' now cds = cooling op' now (sch_operationCooldowns sch)" for op'
    by (rule operationCoolingDown_keeps [OF cd order_refl])
  then have keep: "same_guards now sch sch"
    "same_guards now sch (sch\<lparr>sch_cultivateUpgradeRejects := rejects\<rparr>)"
    "same_guards now sch (sch\<lparr>sch_cultivateUpgradeRejects := rejects, sch_operationCooldowns := cds\<rparr>)"
    by (simp_all add: same_guards_def)
  have "same_guards now sch (fst (judge gs now op sch))"
    by (simp add: judge_def Let_def cu cd keep split: option.split)
  then show "same_guards now sch sch'" using j by simp
qed

lemma same_guards_trans: "same_guards now a b \<Longrightarrow> same_guards now b c \<Longrightarrow> same_guards now a c"
  by (simp add: same_guards_def)

lemma eligible_judged:
  assumes "eligible gs now candidates sch = (sch', vs)"
  shows "same_guards now sch sch' \<and>
    (\<forall>v \<in> set vs. \<exists>op \<in> set candidates. \<exists>s1 s2. same_guards now sch s1 \<and> judge gs now op s1 = (s2, Some v))"
proof -
  have "thread (judge gs now) ops s = (s', us) \<Longrightarrow> same_guards now s s' \<and>
      (\<forall>v. Some v \<in> set us \<longrightarrow>
        (\<exists>op \<in> set ops. \<exists>s1 s2. same_guards now s s1 \<and> judge gs now op s1 = (s2, Some v)))" for ops s s' us
  proof (induction ops arbitrary: s us)
    case Nil
    then show ?case by (simp add: same_guards_def)
  next
    case (Cons op ops)
    obtain s1 u where j: "judge gs now op s = (s1, u)" by fastforce
    obtain us1 where t: "thread (judge gs now) ops s1 = (s', us1)" and us: "us = u # us1"
      using Cons.prems j by (cases "thread (judge gs now) ops s1") auto
    have g: "same_guards now s s1" by (rule judge_same [OF j])
    note IH = Cons.IH [OF t]
    have "same_guards now s s" by (simp add: same_guards_def)
    with IH g j us show ?case by (metis same_guards_trans set_ConsD list.set_intros)
  qed
  moreover obtain us where "thread (judge gs now) candidates sch = (sch', us)"
    "vs = List.map_filter (\<lambda>v. v) us"
    using assms by (auto simp: eligible_def split: prod.splits)
  ultimately show ?thesis by (fastforce simp: map_filter_def)
qed

text \<open>
  C21.  Whatever is selected comes from a candidate the planner left runnable, is not
  cooling down, carries only lands no failed harvest holds back, and may be sent at once: the pacer
  asks for no delay, and a guild task deletion has waited out its own interval.
\<close>

theorem selection_sound:
  assumes "selectRunnableOperation gs candidates now sch = (sch', Some op)"
  shows "\<exists>c \<in> set candidates. runnablePlannedOp c \<and>
    \<not> cooling c now (sch_operationCooldowns sch) \<and>
    applyHarvestBlocks c now (sch_harvestBlockedUntil sch) (sch_harvestFailures sch) = Some op \<and>
    pacer_delay (sch_pacer sch) (op_Kind c) now \<le> 0 \<and>
    (op_Kind c = RPCFmlRaceDelTask \<longrightarrow> raceDeleteWait sch now \<le> 0) \<and>
    (op_Kind c = RPCFmlRaceUpgradeTask \<longrightarrow>
       (op_RaceBatchID c, op_TaskMsID c) \<notin> set (sch_raceUpgradeAttempts sch))"
proof -
  obtain sch1 vs where e: "eligible gs now candidates sch = (sch1, vs)" by fastforce
  obtain c where d: "decide vs now sch1 = (sch', Some c)" "op = cand_op c"
    using assms e by (auto simp: selectRunnableOperation_def split: prod.splits)
  then have "c \<in> set (map vd_entry (filter vd_sendable vs))"
    unfolding decide_def Let_def by (auto dest: choose_next_mem)
  then obtain v where v: "v \<in> set vs" "vd_sendable v" "c = vd_entry v" by auto
  then obtain q s1 s2 where q: "q \<in> set candidates" "same_guards now sch s1"
      "judge gs now q s1 = (s2, Some v)"
    using eligible_judged [OF e] by blast
  have "raceDeleteWait s1 now = raceDeleteWait sch now"
    using q(2) by (simp add: raceDeleteWait_def same_guards_def)
  with judge_Some [OF q(3)] q v d(2) show ?thesis
    by (intro bexI [OF _ q(1)]) (simp add: same_guards_def)
qed

definition sample_scheduler :: scheduler where
  "sample_scheduler = \<lparr>sch_pacer = None, sch_raceUpgradeAttempts = [], sch_cultivateUpgradeRejects = [],
     sch_operationCooldowns = [], sch_harvestBlockedUntil = [], sch_harvestFailures = [],
     sch_LastRaceDeleteMS = 0, sch_DeleteIntervalSeconds = 0,
     sch_sideLaneFirstWait = [(''sign'', second)], sch_sideLaneFarmTurn = True,
     sch_raceSyncNeedsFarmTurn = False, sch_lastSchedulerWaitDiagnostic = zero_time\<rparr>"

definition farm_op :: planned_op where
  "farm_op = zero_op\<lparr>op_OperationID := ''water'', op_Kind := RPCUsrLandWater, op_Lane := LaneFarm,
     op_Executable := True\<rparr>"

definition sign_op :: planned_op where
  "sign_op = zero_op\<lparr>op_OperationID := ''sign'', op_Kind := ''usr.sign'', op_Lane := LaneSide,
     op_Executable := True\<rparr>"

text \<open>The farm operation goes first, and the guards that it passed are those the theorem names.\<close>

theorem selection_sound_witness:
  "let r = selectRunnableOperation sample_state [sign_op, farm_op] minute sample_scheduler
   in snd r = Some farm_op \<and>
      (\<exists>c \<in> set [sign_op, farm_op]. runnablePlannedOp c \<and> applyHarvestBlocks c minute [] [] = Some farm_op)"
proof -
  define r where "r = selectRunnableOperation sample_state [sign_op, farm_op] minute sample_scheduler"
  have "snd r = Some farm_op" unfolding r_def by code_simp
  then have r: "selectRunnableOperation sample_state [sign_op, farm_op] minute sample_scheduler =
      (fst r, Some farm_op)" by (simp add: r_def prod_eq_iff)
  then show ?thesis
    using selection_sound [OF r] by (auto simp: Let_def sample_scheduler_def)
qed

section \<open>Aging\<close>

lemma map_of_filter_key: "map_of (filter (\<lambda>(k, v). P k) m) k = (if P k then map_of m k else None)"
  by (induction m) auto

lemma fold_refresh:
  "map_of (fold (\<lambda>scope m.
         case map_of m scope of
           None \<Rightarrow> AList.update scope now m
         | Some firstWait \<Rightarrow> if firstWait > now then AList.update scope now m else m) active m) x =
     (if x \<in> set active
      then Some (case map_of m x of None \<Rightarrow> now | Some t \<Rightarrow> if t > now then now else t)
      else map_of m x)"
  by (induction active arbitrary: m) (auto simp: update_conv' split: option.splits)

lemma map_of_refresh_waits:
  "map_of (refresh_waits active now waits) x =
     (if x \<in> set active
      then Some (case map_of waits x of None \<Rightarrow> now | Some t \<Rightarrow> if t > now then now else t)
      else None)"
  by (simp add: refresh_waits_def fold_refresh map_of_filter_key)

text \<open>The oldest due entry wins.\<close>

lemma first_due_oldest:
  assumes "c \<in> set runnable" "due waits now c"
  obtains b where "first_due waits now runnable = Some b" "b \<in> set runnable" "due waits now b"
    "get_or zero_time waits (cand_scope b) \<le> get_or zero_time waits (cand_scope c)"
proof -
  let ?w = "\<lambda>c. get_or zero_time waits (cand_scope c)"
  let ?f = "\<lambda>c best. if due waits now c \<and> (case best of None \<Rightarrow> True | Some b \<Rightarrow> ?w c < ?w b)
      then Some c else best"
  have keep: "\<exists>b'. fold ?f cs (Some b) = Some b' \<and> ?w b' \<le> ?w b" for cs b
  proof (induction cs arbitrary: b)
    case (Cons x cs)
    then show ?case by (fastforce intro: order_trans less_imp_le)
  qed simp
  have "\<exists>b'. fold ?f cs best = Some b' \<and> ?w b' \<le> ?w c" if "c \<in> set cs" for cs best
    using that
  proof (induction cs arbitrary: best)
    case (Cons x cs)
    show ?case
    proof (cases "c \<in> set cs")
      case True
      then show ?thesis using Cons.IH by simp
    next
      case False
      then have x: "x = c" using Cons.prems by simp
      show ?thesis
      proof (cases best)
        case None
        then show ?thesis using keep [of cs c] assms(2) x by simp
      next
        case (Some b)
        then show ?thesis
          using keep [of cs c] keep [of cs b] assms(2) x by (fastforce simp: not_less)
      qed
    qed
  qed simp
  then obtain b where b: "first_due waits now runnable = Some b" "?w b \<le> ?w c"
    using assms(1) unfolding first_due_def by blast
  then show ?thesis using first_due_mem that by blast
qed

text \<open>
  A round is open for a scope when the scope is due and may be sent, and no contested mutation of
  the guild race claims the turn.
\<close>

definition round_open :: "string \<Rightarrow> time \<Rightarrow> verdict list \<Rightarrow> scheduler \<Rightarrow> bool" where
  "round_open s now vs sch \<longleftrightarrow>
     s \<noteq> [] \<and> (\<exists>v \<in> set vs. vd_sendable v \<and> cand_scope (vd_entry v) = s) \<and>
     (\<forall>v \<in> set vs. \<not> vd_reserves v \<and>
        (vd_sendable v \<and> IsUrgentRaceOp (cand_op (vd_entry v)) \<longrightarrow>
           isYieldingRaceSync (cand_op (vd_entry v)))) \<and>
     (\<exists>w. map_of (sch_sideLaneFirstWait sch) s = Some w \<and> w \<noteq> zero_time \<and> w + sideLaneMaxWait \<le> now)"

definition ahead :: "string \<Rightarrow> (string, time) gomap \<Rightarrow> string set" where
  "ahead s waits = {x. x \<noteq> s \<and> (\<exists>t w. map_of waits x = Some t \<and> map_of waits s = Some w \<and> t \<le> w)}"

lemma finite_ahead: "finite (ahead s waits)"
  by (rule finite_subset [OF _ finite_dom_map_of [of waits]]) (auto simp: ahead_def)

lemma choose_next_open:
  assumes due: "c \<in> set runnable" "due (sch_sideLaneFirstWait sch) now c"
    and calm: "\<forall>x \<in> set runnable. IsUrgentRaceOp (cand_op x) \<longrightarrow> isYieldingRaceSync (cand_op x)"
    and run: "choose_next runnable False now sch = (sch', sel)"
  shows "(sch_sideLaneFarmTurn sch \<and> \<not> sch_sideLaneFarmTurn sch' \<and>
          sch_sideLaneFirstWait sch' = sch_sideLaneFirstWait sch) \<or>
    (\<exists>b \<in> set runnable. sel = Some b \<and> due (sch_sideLaneFirstWait sch) now b \<and>
       get_or zero_time (sch_sideLaneFirstWait sch) (cand_scope b)
         \<le> get_or zero_time (sch_sideLaneFirstWait sch) (cand_scope c) \<and>
       sch_sideLaneFirstWait sch' = AList.delete (cand_scope b) (sch_sideLaneFirstWait sch))"
proof -
  obtain b where b: "first_due (sch_sideLaneFirstWait sch) now runnable = Some b"
    "b \<in> set runnable" "due (sch_sideLaneFirstWait sch) now b"
    "get_or zero_time (sch_sideLaneFirstWait sch) (cand_scope b)
       \<le> get_or zero_time (sch_sideLaneFirstWait sch) (cand_scope c)"
    by (rule first_due_oldest [OF due])
  have "isYieldingRaceSync (cand_op u)" if "firstUrgentRaceOp runnable = Some u" for u
    using calm firstUrgent_mem [OF that] by blast
  then have u: "(case firstUrgentRaceOp runnable of None \<Rightarrow> None
      | Some u \<Rightarrow> if \<not> isYieldingRaceSync (cand_op u) \<or>
            first_due (sch_sideLaneFirstWait sch) now runnable = None then Some u else None) = None"
    using b(1) by (simp split: option.splits)
  show ?thesis
  proof (cases "sch_sideLaneFarmTurn sch \<and> first_farm runnable \<noteq> None")
    case True
    then show ?thesis using run u by (auto simp: choose_next_def Let_def)
  next
    case False
    then have n: "(if sch_sideLaneFarmTurn sch then first_farm runnable else None) = None" by auto
    have "sel = Some b \<and> sch_sideLaneFirstWait sch' = AList.delete (cand_scope b) (sch_sideLaneFirstWait sch)"
      using run unfolding choose_next_def Let_def b(1) u [unfolded b(1)] n by (auto simp: drop_wait_def)
    then show ?thesis using b by blast
  qed
qed

text \<open>
  The rounds in which a scope is passed over; between two rounds other goroutines may change
  everything but the fairness state.
\<close>

definition same_fairness :: "scheduler \<Rightarrow> scheduler \<Rightarrow> bool" where
  "same_fairness a b \<longleftrightarrow>
     sch_sideLaneFirstWait b = sch_sideLaneFirstWait a \<and>
     sch_sideLaneFarmTurn b = sch_sideLaneFarmTurn a"

inductive passed_over :: "string \<Rightarrow> scheduler \<Rightarrow> nat \<Rightarrow> scheduler \<Rightarrow> bool" for s :: string where
  none: "passed_over s sch 0 sch"
| round: "passed_over s sch n sch1 \<Longrightarrow> same_fairness sch1 sch2 \<Longrightarrow>
    eligible gs now candidates sch2 = (sch3, vs) \<Longrightarrow> round_open s now vs sch3 \<Longrightarrow>
    decide vs now sch3 = (sch4, sel) \<Longrightarrow> (\<forall>c. sel = Some c \<longrightarrow> cand_scope c \<noteq> s) \<Longrightarrow>
    passed_over s sch (Suc n) sch4"

definition turns_ahead :: "string \<Rightarrow> scheduler \<Rightarrow> nat" where
  "turns_ahead s sch =
     2 * card (ahead s (sch_sideLaneFirstWait sch)) + (if sch_sideLaneFarmTurn sch then 1 else 0)"

lemma ahead_refresh:
  assumes "map_of waits s = Some w" "w < now" "s \<in> set active"
  shows "map_of (refresh_waits active now waits) s = Some w"
    and "ahead s (refresh_waits active now waits) \<subseteq> ahead s waits"
  using assms by (auto simp: ahead_def map_of_refresh_waits split: if_splits option.splits)

lemma decide_open:
  assumes o: "round_open s now vs sch" and d: "decide vs now sch = (sch', sel)"
    and skip: "\<forall>c. sel = Some c \<longrightarrow> cand_scope c \<noteq> s"
  shows "turns_ahead s sch' < turns_ahead s sch"
proof -
  from o obtain v w where v: "v \<in> set vs" "vd_sendable v" "cand_scope (vd_entry v) = s"
    and s: "s \<noteq> []" and w: "map_of (sch_sideLaneFirstWait sch) s = Some w"
      "w \<noteq> zero_time" "w + sideLaneMaxWait \<le> now"
    and quiet: "\<forall>v \<in> set vs. \<not> vd_reserves v \<and>
        (vd_sendable v \<and> IsUrgentRaceOp (cand_op (vd_entry v)) \<longrightarrow>
           isYieldingRaceSync (cand_op (vd_entry v)))"
    unfolding round_open_def by blast
  have lt: "w < now" using w(3) by (simp add: sideLaneMaxWait_def duration_defs)
  let ?active = "active_scopes vs"
  have mem: "s \<in> set ?active" using v s by (auto simp: active_scopes_def)
  define sch1 where "sch1 = sch\<lparr>sch_sideLaneFirstWait :=
      refresh_waits ?active now (sch_sideLaneFirstWait sch)\<rparr>"
  let ?W = "sch_sideLaneFirstWait sch1"
  note r = ahead_refresh [OF w(1) lt mem]
  have W: "map_of ?W s = Some w" "ahead s ?W \<subseteq> ahead s (sch_sideLaneFirstWait sch)"
    using r by (simp_all add: sch1_def)
  let ?run = "map vd_entry (filter vd_sendable vs)"
  have nores: "list_ex vd_reserves vs = False" using quiet by (auto simp: list_ex_iff)
  have ch: "choose_next ?run False now sch1 = (sch', sel)"
    using d mem nores by (auto simp: decide_def Let_def sch1_def split: if_splits)
  have duev: "due ?W now (vd_entry v)"
    using v(3) s W(1) w by (simp add: due_def Let_def get_or_def time_is_zero_def)
  have calm: "\<forall>x \<in> set ?run. IsUrgentRaceOp (cand_op x) \<longrightarrow> isYieldingRaceSync (cand_op x)"
    using quiet by auto
  have inrun: "vd_entry v \<in> set ?run" using v by auto
  have farm: "sch_sideLaneFarmTurn sch1 = sch_sideLaneFarmTurn sch" by (simp add: sch1_def)
  have le: "card (ahead s ?W) \<le> card (ahead s (sch_sideLaneFirstWait sch))"
    by (rule card_mono [OF finite_ahead W(2)])
  from choose_next_open [OF inrun duev calm ch] show ?thesis
  proof
    assume "sch_sideLaneFarmTurn sch1 \<and> \<not> sch_sideLaneFarmTurn sch' \<and> sch_sideLaneFirstWait sch' = ?W"
    then show ?thesis using le farm by (simp add: turns_ahead_def)
  next
    assume "\<exists>b \<in> set ?run. sel = Some b \<and> due ?W now b \<and>
       get_or zero_time ?W (cand_scope b) \<le> get_or zero_time ?W (cand_scope (vd_entry v)) \<and>
       sch_sideLaneFirstWait sch' = AList.delete (cand_scope b) ?W"
    then obtain b where b: "sel = Some b" "due ?W now b"
       "get_or zero_time ?W (cand_scope b) \<le> w"
       "sch_sideLaneFirstWait sch' = AList.delete (cand_scope b) ?W"
      using v(3) W(1) by (auto simp: get_or_def)
    have ne: "cand_scope b \<noteq> s" using b(1) skip by blast
    obtain t where t: "map_of ?W (cand_scope b) = Some t" "t \<le> w"
      using b(2,3) by (auto simp: due_def Let_def get_or_def time_is_zero_def split: option.splits)
    then have inb: "cand_scope b \<in> ahead s ?W" using ne W(1) by (auto simp: ahead_def)
    have "ahead s (sch_sideLaneFirstWait sch') \<subseteq> ahead s ?W - {cand_scope b}"
      using ne by (auto simp: b(4) ahead_def delete_conv' split: if_splits)
    then have "card (ahead s (sch_sideLaneFirstWait sch')) \<le> card (ahead s ?W - {cand_scope b})"
      by (intro card_mono) (auto simp: finite_ahead)
    also have "\<dots> < card (ahead s ?W)" by (rule card_Diff1_less [OF finite_ahead inb])
    finally show ?thesis using le by (simp add: turns_ahead_def)
  qed
qed

text \<open>
  C22.  A side operation that has waited twenty seconds and may be sent is passed
  over at most twice for every scope that has waited at least as long, plus once for an owed farm
  turn: no stream of farm work, other side work or race reads starves it.
\<close>

theorem due_scope_served:
  assumes "passed_over s sch n sch'"
  shows "n + turns_ahead s sch' \<le> turns_ahead s sch"
  using assms
proof (induction rule: passed_over.induct)
  case (none sch)
  then show ?case by simp
next
  case (round sch n sch1 sch2 gs now candidates sch3 vs sch4 sel)
  have "same_guards now sch2 sch3" using eligible_judged [OF round.hyps(3)] by blast
  then have "turns_ahead s sch3 = turns_ahead s sch1"
    using round.hyps(2) by (simp add: same_guards_def same_fairness_def turns_ahead_def)
  moreover have "turns_ahead s sch4 < turns_ahead s sch3"
    by (rule decide_open [OF round.hyps(4-6)])
  ultimately show ?case using round.IH by simp
qed

text \<open>The sign-in has waited since second one: it yields to the farm turn that is owed, once.\<close>

theorem due_scope_served_witness:
  "let r = eligible sample_state minute [sign_op, farm_op] sample_scheduler;
       sch' = fst (decide (snd r) minute (fst r))
   in passed_over ''sign'' sample_scheduler 1 sch' \<and>
      1 + turns_ahead ''sign'' sch' \<le> turns_ahead ''sign'' sample_scheduler"
proof -
  define r where "r = eligible sample_state minute [sign_op, farm_op] sample_scheduler"
  define d where "d = decide (snd r) minute (fst r)"
  have 1: "eligible sample_state minute [sign_op, farm_op] sample_scheduler = (fst r, snd r)"
    by (simp add: r_def)
  have 2: "decide (snd r) minute (fst r) = (fst d, snd d)" by (simp add: d_def)
  have "map_of (sch_sideLaneFirstWait (fst r)) ''sign'' = Some second"
    "second \<noteq> zero_time" "second + sideLaneMaxWait \<le> minute"
    "list_ex (\<lambda>v. vd_sendable v \<and> cand_scope (vd_entry v) = ''sign'') (snd r)"
    "list_all (\<lambda>v. \<not> vd_reserves v \<and> \<not> IsUrgentRaceOp (cand_op (vd_entry v))) (snd r)"
    unfolding r_def by code_simp+
  then have 3: "round_open ''sign'' minute (snd r) (fst r)"
    unfolding round_open_def list_ex_iff list_all_iff by blast
  have "map_option cand_scope (snd d) = Some []" unfolding d_def r_def by code_simp
  then have 4: "\<forall>c. snd d = Some c \<longrightarrow> cand_scope c \<noteq> ''sign''" by auto
  have run: "passed_over ''sign'' sample_scheduler (Suc 0) (fst d)"
    by (rule passed_over.round [OF passed_over.none _ 1 3 2 4]) (simp add: same_fairness_def)
  from due_scope_served [OF run] run show ?thesis
    unfolding r_def [symmetric] by (simp add: Let_def d_def [symmetric])
qed

end
