(* ===== verification/Texts.thy ===== *)
theory Texts
  imports Literals
begin

text \<open>
  The Chinese texts of the orders, the racks and the drives of the module planners, as the byte
  strings the compiler stores.
\<close>

definition lit_race_plant :: string where \<comment> \<open>planting for the guild race\<close>
  "lit_race_plant =
     [CHR 0xE5, CHR 0x85, CHR 0xAC, CHR 0xE4, CHR 0xBC, CHR 0x9A, CHR 0xE7, CHR 0xAB, CHR 0x9E,
      CHR 0xE8, CHR 0xB5, CHR 0x9B, CHR 0xE7, CHR 0xA7, CHR 0x8D, CHR 0xE6, CHR 0xA4, CHR 0x8D] @
      '' ''"

definition lit_race_customer :: string where \<comment> \<open>customer orders for the guild race\<close>
  "lit_race_customer =
     [CHR 0xE5, CHR 0x85, CHR 0xAC, CHR 0xE4, CHR 0xBC, CHR 0x9A, CHR 0xE7, CHR 0xAB, CHR 0x9E,
      CHR 0xE8, CHR 0xB5, CHR 0x9B, CHR 0xE9, CHR 0xA1, CHR 0xBE, CHR 0xE5, CHR 0xAE, CHR 0xA2,
      CHR 0xE8, CHR 0xAE, CHR 0xA2, CHR 0xE5, CHR 0x8D, CHR 0x95]"

definition lit_race_pearl :: string where \<comment> \<open>pearl hires for the guild race\<close>
  "lit_race_pearl =
     [CHR 0xE5, CHR 0x85, CHR 0xAC, CHR 0xE4, CHR 0xBC, CHR 0x9A, CHR 0xE7, CHR 0xAB, CHR 0x9E,
      CHR 0xE8, CHR 0xB5, CHR 0x9B, CHR 0xE7, CHR 0x8F, CHR 0x8D, CHR 0xE7, CHR 0x8F, CHR 0xA0,
      CHR 0xE9, CHR 0x9B, CHR 0x87, CHR 0xE4, CHR 0xBD, CHR 0xA3]"

definition lit_race_art_sell :: string where \<comment> \<open>flower-art sales for the guild race\<close>
  "lit_race_art_sell =
     [CHR 0xE5, CHR 0x85, CHR 0xAC, CHR 0xE4, CHR 0xBC, CHR 0x9A, CHR 0xE7, CHR 0xAB, CHR 0x9E,
      CHR 0xE8, CHR 0xB5, CHR 0x9B, CHR 0xE8, CHR 0x8A, CHR 0xB1, CHR 0xE8, CHR 0x89, CHR 0xBA,
      CHR 0xE5, CHR 0x94, CHR 0xAE, CHR 0xE5, CHR 0x8D, CHR 0x96]"

definition lit_race_art_craft :: string where \<comment> \<open>flower-art crafting for the guild race\<close>
  "lit_race_art_craft =
     [CHR 0xE5, CHR 0x85, CHR 0xAC, CHR 0xE4, CHR 0xBC, CHR 0x9A, CHR 0xE7, CHR 0xAB, CHR 0x9E,
      CHR 0xE8, CHR 0xB5, CHR 0x9B, CHR 0xE8, CHR 0x8A, CHR 0xB1, CHR 0xE8, CHR 0x89, CHR 0xBA,
      CHR 0xE5, CHR 0x88, CHR 0xB6, CHR 0xE4, CHR 0xBD, CHR 0x9C]"

definition lit_remaining :: string where \<comment> \<open>remaining\<close>
  "lit_remaining =
     [CHR 0xE5, CHR 0x89, CHR 0xA9, CHR 0xE4, CHR 0xBD, CHR 0x99] @ '' ''"

definition lit_times :: string where \<comment> \<open>times\<close>
  "lit_times =
     '' '' @ [CHR 0xE6, CHR 0xAC, CHR 0xA1]"

definition lit_semicolon :: string where \<comment> \<open>semicolon\<close>
  "lit_semicolon =
     [CHR 0xEF, CHR 0xBC, CHR 0x9B]"

definition lit_note_task :: string where \<comment> \<open>task of the cyclic note\<close>
  "lit_note_task =
     [CHR 0xE8, CHR 0x8A, CHR 0xB1, CHR 0xE7, CHR 0xAC, CHR 0xBA, CHR 0xE9, CHR 0x9B, CHR 0x86,
      CHR 0xE8, CHR 0x8A, CHR 0xB3, CHR 0xE4, CHR 0xBB, CHR 0xBB, CHR 0xE5, CHR 0x8A, CHR 0xA1]"

definition lit_daily_task :: string where \<comment> \<open>daily task\<close>
  "lit_daily_task =
     [CHR 0xE6, CHR 0x97, CHR 0xA5, CHR 0xE5, CHR 0xB8, CHR 0xB8, CHR 0xE4, CHR 0xBB, CHR 0xBB,
      CHR 0xE5, CHR 0x8A, CHR 0xA1]"

definition lit_note_plant :: string where \<comment> \<open>cyclic note: plant anything\<close>
  "lit_note_plant =
     [CHR 0xE8, CHR 0x8A, CHR 0xB1, CHR 0xE7, CHR 0xAC, CHR 0xBA, CHR 0xE9, CHR 0x9B, CHR 0x86,
      CHR 0xE8, CHR 0x8A, CHR 0xB3, CHR 0xE4, CHR 0xBB, CHR 0xBB, CHR 0xE6, CHR 0x84, CHR 0x8F,
      CHR 0xE7, CHR 0xA7, CHR 0x8D, CHR 0xE6, CHR 0xA4, CHR 0x8D]"

definition lit_note_rack :: string where \<comment> \<open>cyclic note: sell on the rack\<close>
  "lit_note_rack =
     [CHR 0xE8, CHR 0x8A, CHR 0xB1, CHR 0xE7, CHR 0xAC, CHR 0xBA, CHR 0xE9, CHR 0x9B, CHR 0x86,
      CHR 0xE8, CHR 0x8A, CHR 0xB3, CHR 0xE8, CHR 0x8A, CHR 0xB1, CHR 0xE6, CHR 0x9E, CHR 0xB6,
      CHR 0xE5, CHR 0x87, CHR 0xBA, CHR 0xE5, CHR 0x94, CHR 0xAE]"

definition lit_note_customer :: string where \<comment> \<open>cyclic note: customer orders\<close>
  "lit_note_customer =
     [CHR 0xE8, CHR 0x8A, CHR 0xB1, CHR 0xE7, CHR 0xAC, CHR 0xBA, CHR 0xE9, CHR 0x9B, CHR 0x86,
      CHR 0xE8, CHR 0x8A, CHR 0xB3, CHR 0xE9, CHR 0xA1, CHR 0xBE, CHR 0xE5, CHR 0xAE, CHR 0xA2,
      CHR 0xE8, CHR 0xAE, CHR 0xA2, CHR 0xE5, CHR 0x8D, CHR 0x95]"

definition lit_note_resident :: string where \<comment> \<open>cyclic note: resident orders\<close>
  "lit_note_resident =
     [CHR 0xE8, CHR 0x8A, CHR 0xB1, CHR 0xE7, CHR 0xAC, CHR 0xBA, CHR 0xE9, CHR 0x9B, CHR 0x86,
      CHR 0xE8, CHR 0x8A, CHR 0xB3, CHR 0xE5, CHR 0xB1, CHR 0x85, CHR 0xE6, CHR 0xB0, CHR 0x91,
      CHR 0xE8, CHR 0xAE, CHR 0xA2, CHR 0xE5, CHR 0x8D, CHR 0x95]"

definition lit_note_pearl :: string where \<comment> \<open>cyclic note: pearl hires\<close>
  "lit_note_pearl =
     [CHR 0xE8, CHR 0x8A, CHR 0xB1, CHR 0xE7, CHR 0xAC, CHR 0xBA, CHR 0xE9, CHR 0x9B, CHR 0x86,
      CHR 0xE8, CHR 0x8A, CHR 0xB3, CHR 0xE7, CHR 0x8F, CHR 0x8D, CHR 0xE7, CHR 0x8F, CHR 0xA0,
      CHR 0xE9, CHR 0x9B, CHR 0x87, CHR 0xE4, CHR 0xBD, CHR 0xA3]"

end
