(* ===== verification/RaceDemand.thy ===== *)
theory RaceDemand
  imports Farm Texts
begin

text \<open>
  What a held task of the guild race asks of the other modules (\<open>automation/race_drive.go\<close>), with the
  annotation and the order of the demands (\<open>goals_demands.go\<close>).  The planting task is turned into the
  number of lands that still have to be planted.
\<close>

section \<open>Yields\<close>

text \<open>The rows \<open>(cropGets, left, frequencys)\<close> of the catalogue, decoded; \<open>None\<close> when a row is absent.\<close>

record yield_tables =
  yt_FlowerLvl :: "int \<Rightarrow> (int \<times> int \<times> int) option"
  yt_FlowerLvlCfg :: "int \<Rightarrow> (int \<times> int \<times> int) option"

record flower_yield =
  fy_Level :: int
  fy_CropGets :: int
  fy_Left :: int
  fy_Frequencys :: int

definition parseFlowerLvlYield :: "(int \<times> int \<times> int) option \<Rightarrow> int \<Rightarrow> flower_yield option" where
  "parseFlowerLvlYield row level =
     (case row of
        None \<Rightarrow> None
      | Some (cropGets, left, frequencys) \<Rightarrow>
          if cropGets \<le> 0 \<or> left < 0 \<or> frequencys \<le> 0 then None
          else Some \<lparr>fy_Level = level, fy_CropGets = cropGets, fy_Left = left, fy_Frequencys = frequencys\<rparr>)"

definition FlowerLvlYieldByID :: "yield_tables \<Rightarrow> int \<Rightarrow> int \<Rightarrow> flower_yield option" where
  "FlowerLvlYieldByID tab flowerID level =
     (if level \<le> 0 then None
      else case (if 0 < flowerID then parseFlowerLvlYield (yt_FlowerLvl tab (flowerID * 100 + level)) level
                 else None) of
        Some y \<Rightarrow> Some y
      | None \<Rightarrow> parseFlowerLvlYield (yt_FlowerLvlCfg tab level) level)"

definition FlowersPerPlant :: "flower_yield \<Rightarrow> int" where
  "FlowersPerPlant y =
     (if fy_CropGets y \<le> 0 \<or> fy_Frequencys y \<le> 0 then 0 else fy_CropGets y * fy_Frequencys y)"

definition raceFlowerCultivateLevel :: "game_state \<Rightarrow> int \<Rightarrow> int" where
  "raceFlowerCultivateLevel s flowerID =
     (if flowerID \<le> 0 then 0
      else case map_of (gs_cultivations s) flowerID of
        None \<Rightarrow> 0
      | Some cv \<Rightarrow> if cv_Lvl cv \<le> 0 then 0 else cv_Lvl cv)"

definition raceFlowerFlowersPerPlant :: "yield_tables \<Rightarrow> game_state \<Rightarrow> int \<Rightarrow> int" where
  "raceFlowerFlowersPerPlant tab s flowerID =
     (case FlowerLvlYieldByID tab flowerID (raceFlowerCultivateLevel s flowerID) of
        Some y \<Rightarrow> if 0 < FlowersPerPlant y then FlowersPerPlant y else 1
      | None \<Rightarrow> 1)"

text \<open>What one land contributes: the rounds already harvested, or those still to come.\<close>

definition land_yield :: "yield_tables \<Rightarrow> game_state \<Rightarrow> int \<Rightarrow> bool \<Rightarrow> land_view \<Rightarrow> int" where
  "land_yield tab s flowerID harvested land =
     (if int32 (lv_FlowerID land) \<noteq> flowerID then 0
      else
        let lvl = (if int32 (lv_Lvl land) \<le> 0 then raceFlowerCultivateLevel s flowerID else int32 (lv_Lvl land))
        in case FlowerLvlYieldByID tab flowerID lvl of
          None \<Rightarrow> 0
        | Some y \<Rightarrow>
            if fy_CropGets y \<le> 0 \<or> fy_Frequencys y \<le> 0 then 0
            else
              let done0 = (if int32 (lv_HarvestCnt land) < 0 then 0 else int32 (lv_HarvestCnt land));
                  done = (if fy_Frequencys y < done0 then fy_Frequencys y else done0);
                  rounds = (if harvested then done else fy_Frequencys y - done)
              in if rounds \<le> 0 then 0 else rounds * fy_CropGets y)"

definition racePlantedYieldSum :: "yield_tables \<Rightarrow> game_state \<Rightarrow> garden \<Rightarrow> int \<Rightarrow> bool \<Rightarrow> int" where
  "racePlantedYieldSum tab s g flowerID harvested =
     (if flowerID \<le> 0 then 0
      else sum_list (map (\<lambda>(i, l). land_yield tab s flowerID harvested l) (Lands g)))"

definition racePlantedPendingFlowers :: "yield_tables \<Rightarrow> game_state \<Rightarrow> garden \<Rightarrow> int \<Rightarrow> int" where
  "racePlantedPendingFlowers tab s g flowerID = racePlantedYieldSum tab s g flowerID False"

definition racePlantedHarvestedFlowers :: "yield_tables \<Rightarrow> game_state \<Rightarrow> garden \<Rightarrow> int \<Rightarrow> int" where
  "racePlantedHarvestedFlowers tab s g flowerID = racePlantedYieldSum tab s g flowerID True"

definition racePlantHarvestPlantMissing ::
  "yield_tables \<Rightarrow> game_state \<Rightarrow> garden \<Rightarrow> int \<Rightarrow> int \<Rightarrow> int \<Rightarrow> int" where
  "racePlantHarvestPlantMissing tab s g flowerID targetCnt finishCnt =
     (if targetCnt \<le> 0 \<or> flowerID \<le> 0 \<or> targetCnt \<le> finishCnt then 0
      else
        let perPlant = raceFlowerFlowersPerPlant tab s flowerID;
            local = racePlantedHarvestedFlowers tab s g flowerID;
            progress = (if finishCnt < local then local else finishCnt);
            need = targetCnt - progress - racePlantedPendingFlowers tab s g flowerID
        in if need \<le> 0 then 0 else (need + perPlant - 1) div perPlant)"

section \<open>The demands of the held task\<close>

abbreviation "raceDemandPriority \<equiv> (95::int)"
abbreviation "DemandKindAction \<equiv> ''action''"

definition raceActionDemandSource :: "int \<Rightarrow> string" where
  "raceActionDemandSource taskType = ''race_task:'' @ show_int taskType"

definition race_demand :: "fml_race_taken \<Rightarrow> string \<Rightarrow> string \<Rightarrow> string \<Rightarrow> int \<Rightarrow> int \<Rightarrow> demand" where
  "race_demand taken source label kind itemID missing =
     (let entityID = show_int (taken_TaskMsId taken)
      in \<lparr>dem_ID = demandID raceActionGoal entityID source kind itemID, dem_GoalID = raceActionGoal,
          dem_Category = CategoryRace, dem_Domain = raceActionGoal, dem_EntityID = entityID,
          dem_Source = source, dem_Label = label, dem_Kind = kind, dem_ItemID = itemID,
          dem_Count = taken_TargetCnt taken, dem_Have = taken_FinishCnt taken, dem_Allocated = 0,
          dem_Available = taken_FinishCnt taken, dem_Missing = missing, dem_Priority = raceDemandPriority,
          dem_BlockedReasons = [], dem_Status = [], dem_BlockingStage = [], dem_CostGates = []\<rparr>)"

definition race_action_label :: "int \<Rightarrow> string" where
  "race_action_label taskType =
     (if taskType = raceTaskTypePearlHire then lit_race_pearl
      else if taskType = raceTaskTypeFlowerArtSell then lit_race_art_sell
      else if taskType = raceTaskTypeFlowerArtCraft then lit_race_art_craft
      else lit_race_customer)"

text \<open>Flowers known to be harvested: the server's count or the local one of the same task.\<close>

definition race_progress :: "fml_race_view \<Rightarrow> int" where
  "race_progress view =
     (let taken = rv_Taken view
      in if rv_LocalFinishTaskMsId view = taken_TaskMsId taken \<and> taken_FinishCnt taken < rv_LocalFinishCnt view
         then rv_LocalFinishCnt view else taken_FinishCnt taken)"

definition raceTaskProgressDemands ::
  "yield_tables \<Rightarrow> game_state \<Rightarrow> garden \<Rightarrow> policy \<Rightarrow> time \<Rightarrow> demand list" where
  "raceTaskProgressDemands tab s g p now =
     (case race_driving p of
        None \<Rightarrow> []
      | Some race \<Rightarrow>
          let view = FmlRaceAt s now; taken = rv_Taken view
          in if \<not> taken_HasTask taken \<or> taken_TargetCnt taken \<le> 0 \<or>
                taken_TargetCnt taken \<le> taken_FinishCnt taken then []
             else if raceTakenBlocksProgress s (Some race) view (raceModuleGatesFromPolicy p) then []
             else if taken_TaskType taken = raceTaskTypePlantHarvest then
               (if taken_ParamID taken \<le> 0 then []
                else
                  let plantsMissing = racePlantHarvestPlantMissing tab s g (taken_ParamID taken)
                        (taken_TargetCnt taken) (race_progress view);
                      label = lit_race_plant @
                        (if taken_TargetLabel taken = [] then ''#'' @ show_int (taken_ParamID taken)
                         else taken_TargetLabel taken)
                  in if plantsMissing \<le> 0 then []
                     else [race_demand taken ''race_task'' label DemandKindFlower (taken_ParamID taken) plantsMissing])
             else if taken_TaskType taken \<in> {raceTaskTypeCustomerOrder, raceTaskTypePearlHire,
                raceTaskTypeFlowerArtSell, raceTaskTypeFlowerArtCraft} then
               (let missing = taken_TargetCnt taken - taken_FinishCnt taken;
                    label = race_action_label (taken_TaskType taken) @
                      (if taken_TargetLabel taken = [] then [] else '' '' @ taken_TargetLabel taken)
                in if missing \<le> 0 then []
                   else [race_demand taken (raceActionDemandSource (taken_TaskType taken)) label DemandKindAction
                          (if taken_TaskType taken = raceTaskTypeFlowerArtCraft then taken_ParamID taken else 0)
                          missing])
             else [])"

section \<open>Annotation and order\<close>

definition annotate_demand :: "demand \<Rightarrow> demand" where
  "annotate_demand d =
     (if dem_BlockedReasons d \<noteq> []
      then d\<lparr>dem_Status := PlanStatusBlocked, dem_BlockingStage := inferBlockingStage (dem_BlockedReasons d)\<rparr>
      else if 0 < dem_Missing d then d\<lparr>dem_Status := PlanStatusManaged\<rparr>
      else d\<lparr>dem_Status := PlanStatusReady\<rparr>)"

definition annotateDemandStatuses :: "demand list \<Rightarrow> demand list" where
  "annotateDemandStatuses demands = map annotate_demand demands"

definition demand_before :: "demand \<Rightarrow> demand \<Rightarrow> bool" where
  "demand_before a b \<longleftrightarrow>
     (if dem_Priority a \<noteq> dem_Priority b then dem_Priority b < dem_Priority a
      else if dem_Missing a \<noteq> dem_Missing b then dem_Missing b < dem_Missing a
      else dem_ID a < dem_ID b)"

definition sortDemands :: "demand list \<Rightarrow> demand list" where
  "sortDemands demands = stable_sort demand_before demands"

section \<open>As many lands as needed\<close>

lemma flowers_per_plant_pos: "0 < raceFlowerFlowersPerPlant tab s flowerID"
  by (simp add: raceFlowerFlowersPerPlant_def split: option.split)

lemma ceil_div:
  assumes "0 < per" "0 < (need::int)"
  shows "0 < (need + per - 1) div per" "need \<le> (need + per - 1) div per * per"
    "((need + per - 1) div per - 1) * per < need"
proof -
  define q where "q = (need + per - 1) div per"
  define r where "r = (need + per - 1) mod per"
  have e: "need + per - 1 = q * per + r" by (simp add: q_def r_def)
  have r: "0 \<le> r" "r < per" using assms by (simp_all add: r_def)
  show "need \<le> (need + per - 1) div per * per" using e r by (simp add: q_def [symmetric])
  have "(q - 1) * per = need - 1 - r" using e by (simp add: algebra_simps)
  then show "((need + per - 1) div per - 1) * per < need" using r by (simp add: q_def [symmetric])
  show "0 < (need + per - 1) div per" using assms by (simp add: pos_imp_zdiv_pos_iff)
qed

text \<open>The lands still to be planted: the least number whose yield covers what is missing.\<close>

lemma plants_least:
  assumes "0 < targetCnt" "0 < flowerID"
    and "m = racePlantHarvestPlantMissing tab s g flowerID targetCnt finishCnt"
    and "have = max finishCnt (racePlantedHarvestedFlowers tab s g flowerID) +
           racePlantedPendingFlowers tab s g flowerID"
    and "0 \<le> racePlantedPendingFlowers tab s g flowerID"
  shows "0 \<le> m \<and> targetCnt \<le> have + m * raceFlowerFlowersPerPlant tab s flowerID \<and>
    (0 < m \<longrightarrow> have + (m - 1) * raceFlowerFlowersPerPlant tab s flowerID < targetCnt)"
proof (cases "targetCnt \<le> have")
  case True
  have "m = 0" using True assms by (auto simp: racePlantHarvestPlantMissing_def Let_def max_def)
  then show ?thesis using True by simp
next
  case False
  define per where "per = raceFlowerFlowersPerPlant tab s flowerID"
  define L where "L = racePlantedHarvestedFlowers tab s g flowerID"
  have mx: "(if finishCnt < L then L else finishCnt) = max finishCnt L" by auto
  have need: "targetCnt - max finishCnt L - racePlantedPendingFlowers tab s g flowerID = targetCnt - have"
    using assms(4) by (simp add: L_def)
  have "\<not> (targetCnt \<le> 0 \<or> flowerID \<le> 0 \<or> targetCnt \<le> finishCnt)"
    using False assms(1,2,4,5) by (auto simp: max_def split: if_splits)
  then have "m = (targetCnt - have + per - 1) div per"
    using False unfolding assms(3) racePlantHarvestPlantMissing_def Let_def L_def [symmetric] mx need
    by (simp add: per_def)
  then show ?thesis
    using ceil_div [of per "targetCnt - have"] False flowers_per_plant_pos [of tab s flowerID]
    by (simp add: per_def)
qed

lemma land_yield_nonneg: "0 \<le> land_yield tab s f h l"
  by (auto simp: land_yield_def Let_def split: option.split)

lemma pending_nonneg: "0 \<le> racePlantedPendingFlowers tab s g f"
  by (auto simp: racePlantedPendingFlowers_def racePlantedYieldSum_def intro!: sum_list_nonneg land_yield_nonneg)

section \<open>The race's share of the plan\<close>

lemma annotate_demand_simps [simp]:
  "dem_GoalID (annotate_demand d) = dem_GoalID d" "dem_Source (annotate_demand d) = dem_Source d"
  "dem_Missing (annotate_demand d) = dem_Missing d" "dem_ItemID (annotate_demand d) = dem_ItemID d"
  "dem_Kind (annotate_demand d) = dem_Kind d" "dem_BlockedReasons (annotate_demand d) = dem_BlockedReasons d"
  by (simp_all add: annotate_demand_def)

lemma raise_level_goal:
  "a \<in> set (snd (snd (raise_level lo nxt cs r))) \<Longrightarrow> pa_GoalID a = GoalAutoReplant"
  by (induction lo nxt cs r rule: raise_level.induct) (auto simp: Let_def split: if_splits prod.splits)

lemma replant_batches_goal: "a \<in> set (replant_batches cs r) \<Longrightarrow> pa_GoalID a = GoalAutoReplant"
proof (induction cs r rule: replant_batches.induct)
  case (1 cs r)
  show ?case
  proof (cases "sortPlantableByStock cs")
    case Nil
    then show ?thesis using "1.prems" by (simp add: replant_batches.simps [of cs r] split: if_splits)
  next
    case (Cons c cs')
    then show ?thesis
      using "1.prems" "1.IH" [OF _ Cons refl] unfolding replant_batches.simps [of cs r]
      by (auto simp: Let_def split: if_split_asm)
  qed
qed

lemma replant_levels_goal: "a \<in> set (replant_levels cs r) \<Longrightarrow> pa_GoalID a = GoalAutoReplant"
proof (induction cs r rule: replant_levels.induct)
  case (1 cs r)
  obtain cs' r' out where l: "raise_level (pf_Stock (hd cs)) (next_level cs) cs r = (cs', r', out)"
    by (metis prod_cases3)
  show ?case
    using "1.prems" "1.IH" [OF _ l [symmetric] refl] raise_level_goal [of a "pf_Stock (hd cs)" "next_level cs" cs r]
    unfolding replant_levels.simps [of cs r] l by (auto split: if_split_asm)
qed

lemma autoReplantAssignments_goal:
  "a \<in> set (autoReplantAssignments cs r mode) \<Longrightarrow> pa_GoalID a = GoalAutoReplant"
  by (auto simp: autoReplantAssignments_def autoReplantLowestStockBatchAssignments_def
      autoReplantBalanceAssignments_def dest: replant_batches_goal replant_levels_goal split: if_splits)

definition race_lands :: "plant_assignment list \<Rightarrow> int" where
  "race_lands out = sum_list (map pa_Count (filter (\<lambda>a. pa_GoalID a = raceActionGoal) out))"

lemma race_lands_none: "\<forall>a \<in> set out. pa_GoalID a \<noteq> raceActionGoal \<Longrightarrow> race_lands out = 0"
  by (simp add: race_lands_def filter_False)

lemma race_lands_simps [simp]:
  "race_lands (a # out) = (if pa_GoalID a = raceActionGoal then pa_Count a else 0) + race_lands out"
  "race_lands (out @ out') = race_lands out + race_lands out'"
  by (simp_all add: race_lands_def)

text \<open>The plan gives the race what its demand misses, as far as there is land.\<close>

lemma plan_race_share:
  assumes "0 < n" "out = fst (planPlantAssignments cat s g pl D n suppress)"
    and "filter isRaceDrivenFlowerDemand (served_in_order cat s pl D) = ds" "length ds \<le> 1"
    and "\<forall>d \<in> set D. \<not> isRaceDrivenFlowerDemand d \<longrightarrow> dem_GoalID d \<noteq> raceActionGoal"
  shows "race_lands out = (case ds of [] \<Rightarrow> 0 | d # _ \<Rightarrow> min n (dem_Missing d)) \<and>
    (\<forall>a \<in> set out. pa_GoalID a = raceActionGoal \<longrightarrow> (\<exists>d \<in> set ds. pa_FlowerID a = dem_ItemID d))"
proof -
  let ?ok = "servable_flower (plan_flowers cat s) (pp_DemandPriorityEnabled pl)"
  define others where "others = filter (\<lambda>d. ?ok d \<and> \<not> isRaceDrivenFlowerDemand d) D"
  have sv: "served_in_order cat s pl D = ds @ others"
    using assms(3) by (auto simp: served_in_order_def Let_def others_def filter_empty_conv)
  have o: "pa_GoalID a \<noteq> raceActionGoal" if "a \<in> set (give r others)" for a r
  proof -
    have "\<forall>d \<in> set others. 0 < dem_Missing d" using served_missing [of cat s pl D] sv by simp
    from give_member [OF that this] obtain d where "d \<in> set others" "pa_GoalID a = dem_GoalID d" by auto
    then show ?thesis using assms(5) by (auto simp: others_def)
  qed
  obtain rest where out: "out = give n (ds @ others) @ rest"
    and rest: "rest = [] \<or> (\<exists>cs k. rest = autoReplantAssignments cs k (pp_AutoReplantMode pl))"
    using plan_split [OF assms(1), of cat s g pl D suppress] sv assms(2) by metis
  have r: "pa_GoalID a \<noteq> raceActionGoal" if "a \<in> set rest" for a
    using rest that autoReplantAssignments_goal by fastforce
  show ?thesis
  proof (cases ds)
    case Nil
    then show ?thesis using o r out race_lands_none by fastforce
  next
    case (Cons d ds')
    then have ds: "ds = [d]" using assms(4) by simp
    have "d \<in> set ds" using ds by simp
    then have d: "isRaceDrivenFlowerDemand d" using assms(3) by auto
    then have goal: "dem_GoalID d = raceActionGoal" by (simp add: isRaceDrivenFlowerDemand_def)
    have e: "out = demand_assignment d (min n (dem_Missing d)) # give (n - min n (dem_Missing d)) others @ rest"
      using out ds assms(1) by simp
    have "race_lands (give (n - min n (dem_Missing d)) others @ rest) = 0"
      using o r by (intro race_lands_none) auto
    then have "race_lands out = min n (dem_Missing d)" using e goal by simp
    moreover have "\<forall>a \<in> set out. pa_GoalID a = raceActionGoal \<longrightarrow> pa_FlowerID a = dem_ItemID d"
      using e o r by auto
    ultimately show ?thesis using ds by simp
  qed
qed

text \<open>The demands as the planner passes them on: annotated, sorted, the race's among the others.\<close>

definition plan_demands :: "demand list \<Rightarrow> demand list \<Rightarrow> demand list" where
  "plan_demands others race = sortDemands (annotateDemandStatuses (others @ race))"

lemma set_plan_demands: "set (plan_demands others race) = annotate_demand ` (set others \<union> set race)"
  by (simp add: plan_demands_def sortDemands_def annotateDemandStatuses_def image_Un)

lemma filter_plan_demands:
  "mset (filter P (plan_demands others race)) = mset (filter P (map annotate_demand others @ map annotate_demand race))"
  by (simp add: plan_demands_def sortDemands_def annotateDemandStatuses_def mset_filter)

lemma race_demand_simps [simp]:
  "dem_GoalID (race_demand t src l k i m) = raceActionGoal" "dem_Source (race_demand t src l k i m) = src"
  "dem_Missing (race_demand t src l k i m) = m" "dem_ItemID (race_demand t src l k i m) = i"
  "dem_Kind (race_demand t src l k i m) = k" "dem_BlockedReasons (race_demand t src l k i m) = []"
  by (simp_all add: race_demand_def Let_def)

text \<open>
  C13.  Suppose a planting task of the guild race is held and not yet finished, automation, the race
  and its switch to drive the modules are on, the task is not one that is to be given up or whose
  progress is held back, its flower is one the account can plant, some land is empty, and the
  other demands are not of the race. Then the plan gives that flower exactly the lands it needs:
  with the flowers harvested, those still growing and those of the new lands the target is
  reached, unless every empty land already went to the race; and without the last of the new lands
  it would not be reached. Amounts are taken as unbounded integers.
\<close>

theorem race_planting_meets_target:
  assumes "0 < n" "race_driving p = Some race" "taken = rv_Taken (FmlRaceAt s now)"
    and "taken_HasTask taken" "taken_TaskType taken = raceTaskTypePlantHarvest"
    and "taken_FinishCnt taken < taken_TargetCnt taken" "0 < taken_TargetCnt taken"
    and "\<not> raceTakenBlocksProgress s (Some race) (FmlRaceAt s now) (raceModuleGatesFromPolicy p)"
    and "taken_ParamID taken \<in> set (plan_flowers cat s)" "0 < taken_ParamID taken"
    and "\<forall>d \<in> set others. dem_GoalID d \<noteq> raceActionGoal"
    and "out = fst (planPlantAssignments cat s g pl
           (plan_demands others (raceTaskProgressDemands tab s g p now)) n suppress)"
    and "grown = max (race_progress (FmlRaceAt s now)) (racePlantedHarvestedFlowers tab s g (taken_ParamID taken)) +
           racePlantedPendingFlowers tab s g (taken_ParamID taken)"
    and "per = raceFlowerFlowersPerPlant tab s (taken_ParamID taken)"
  shows "(taken_TargetCnt taken \<le> grown + race_lands out * per \<or> race_lands out = n) \<and>
    (0 < race_lands out \<longrightarrow> grown + (race_lands out - 1) * per < taken_TargetCnt taken) \<and>
    0 \<le> race_lands out \<and> race_lands out \<le> n \<and>
    (\<forall>a \<in> set out. pa_GoalID a = raceActionGoal \<longrightarrow> pa_FlowerID a = taken_ParamID taken)"
proof -
  let ?f = "taken_ParamID taken"
  let ?race = "raceTaskProgressDemands tab s g p now"
  let ?D = "plan_demands others ?race"
  define m where "m = racePlantHarvestPlantMissing tab s g ?f (taken_TargetCnt taken) (race_progress (FmlRaceAt s now))"
  have least: "0 \<le> m" "taken_TargetCnt taken \<le> grown + m * per" "0 < m \<longrightarrow> grown + (m - 1) * per < taken_TargetCnt taken"
    using plants_least [OF assms(7,10) m_def assms(13) pending_nonneg] assms(14) by auto
  define label where "label = lit_race_plant @
    (if taken_TargetLabel taken = [] then ''#'' @ show_int ?f else taken_TargetLabel taken)"
  have race: "?race = (if m \<le> 0 then [] else [race_demand taken ''race_task'' label DemandKindFlower ?f m])"
    using assms(2,4-8,10) unfolding label_def m_def assms(3)
    by (simp add: raceTaskProgressDemands_def Let_def)
  have notrace: "\<not> isRaceDrivenFlowerDemand (annotate_demand d)" if "d \<in> set others" for d
    using assms(11) that by (simp add: isRaceDrivenFlowerDemand_def)
  have other: "\<forall>d \<in> set ?D. \<not> isRaceDrivenFlowerDemand d \<longrightarrow> dem_GoalID d \<noteq> raceActionGoal"
    using assms(11) race by (auto simp: set_plan_demands isRaceDrivenFlowerDemand_def split: if_splits)
  let ?ok = "servable_flower (plan_flowers cat s) (pp_DemandPriorityEnabled pl)"
  define ds where "ds = filter isRaceDrivenFlowerDemand (served_in_order cat s pl ?D)"
  define d where "d = annotate_demand (race_demand taken ''race_task'' label DemandKindFlower ?f m)"
  have ds: "ds = (if m \<le> 0 then [] else [d])"
  proof -
    have "ds = filter (\<lambda>d. ?ok d \<and> isRaceDrivenFlowerDemand d) ?D"
      by (simp add: ds_def served_in_order_def Let_def conj_commute conj_left_commute cong: filter_cong conj_cong)
    then have "mset ds = mset (filter (\<lambda>d. ?ok d \<and> isRaceDrivenFlowerDemand d)
        (map annotate_demand others @ map annotate_demand ?race))"
      by (simp only: filter_plan_demands)
    also have "\<dots> = mset (if m \<le> 0 then [] else [d])"
      using notrace race assms(9)
      by (auto simp: d_def filter_empty_conv servable_flower_def isRaceDrivenFlowerDemand_def)
    finally show ?thesis by (auto split: if_splits)
  qed
  note share = plan_race_share [OF assms(1,12) ds_def [symmetric] _ other]
  have k: "race_lands out = min n m" "\<forall>a \<in> set out. pa_GoalID a = raceActionGoal \<longrightarrow> pa_FlowerID a = ?f"
    using share ds least(1) assms(1) by (auto simp: d_def split: if_splits)
  have mono: "grown + (min n m - 1) * per \<le> grown + (m - 1) * per" if "0 < m"
    using flowers_per_plant_pos [of tab s ?f] assms(14) by (intro add_left_mono mult_right_mono) auto
  show ?thesis using k least assms(1) mono by (auto simp: min_def split: if_splits)
qed

text \<open>Two growing lands bring twelve flowers, two are delivered, 27 are wanted: three of five lands.\<close>

definition sample_taken :: fml_race_taken where
  "sample_taken = zero_taken\<lparr>taken_TaskMsId := 77, taken_TaskType := raceTaskTypePlantHarvest,
     taken_TargetCnt := 27, taken_FinishCnt := 2, taken_ParamID := 23002, taken_HasTask := True\<rparr>"

definition planting_race :: game_state where
  "planting_race = (racing [sample_task] sample_taken)\<lparr>gs_cultivations := gs_cultivations sample_cultivated\<rparr>"

definition sample_yields :: yield_tables where
  "sample_yields = \<lparr>yt_FlowerLvl = \<lambda>k. None, yt_FlowerLvlCfg = \<lambda>level. Some (3, 0, 2)\<rparr>"

definition race_plan :: "plant_assignment list" where
  "race_plan = fst (planPlantAssignments sample_flower_catalog planting_race sample_garden sample_planting
     (plan_demands [flower_demand GoalCustomerOrder ''order'' 23001 1]
       (raceTaskProgressDemands sample_yields planting_race sample_garden sample_policy 0)) 5 False)"

theorem race_planting_meets_target_witness: "race_lands race_plan = 3"
proof -
  let ?view = "FmlRaceAt planting_race 0"
  have t: "sample_taken = rv_Taken ?view" by code_simp
  have race: "race_driving sample_policy = Some sample_race_policy" by code_simp
  have free: "\<not> raceTakenBlocksProgress planting_race (Some sample_race_policy) ?view
      (raceModuleGatesFromPolicy sample_policy)" by code_simp
  have fl: "taken_ParamID sample_taken \<in> set (plan_flowers sample_flower_catalog planting_race)" by code_simp
  have grown: "14 = max (race_progress ?view)
      (racePlantedHarvestedFlowers sample_yields planting_race sample_garden (taken_ParamID sample_taken)) +
      racePlantedPendingFlowers sample_yields planting_race sample_garden (taken_ParamID sample_taken)" by code_simp
  have per: "6 = raceFlowerFlowersPerPlant sample_yields planting_race (taken_ParamID sample_taken)" by code_simp
  have other: "\<forall>d \<in> set [flower_demand GoalCustomerOrder ''order'' 23001 1]. dem_GoalID d \<noteq> raceActionGoal"
    by code_simp
  have held: "taken_HasTask sample_taken" "taken_TaskType sample_taken = raceTaskTypePlantHarvest"
    "taken_FinishCnt sample_taken < taken_TargetCnt sample_taken" "0 < taken_TargetCnt sample_taken"
    "0 < taken_ParamID sample_taken" "taken_TargetCnt sample_taken = 27" by code_simp+
  show ?thesis
    using race_planting_meets_target [OF _ race t held(1-4) free fl held(5) other race_plan_def grown per] held(6)
    by (auto simp: algebra_simps)
qed

end
