(* ===== verification/Drives.thy ===== *)
theory Drives
  imports RaceDemand Ledger
begin

text \<open>
  Tasks of other modules that ride on operations already planned: the cyclic note
  (\<open>automation/activity_drive.go\<close>), the daily tasks (\<open>daily_task_drive.go\<close>) and the customer and pearl
  tasks of the guild race (\<open>race_drive.go\<close>).  A drive links one operation to its task; only planting
  batches are regrouped and only rack sales are cut.
\<close>

abbreviation "RPCOrderCustomerFinishOrder \<equiv> ''orderCustomer.finishOrder''"
abbreviation "RPCOrderFlowerFinishOrder \<equiv> ''orderFlower.finishOrder''"
abbreviation "RPCFlowerRackSell \<equiv> ''flowerRack.sell''"
abbreviation "RPCFrdEnter \<equiv> ''frd.enter''"
abbreviation "RPCOpptGetDetailOppts \<equiv> ''oppt.getDetailOppts''"
abbreviation "RPCPearlGetHireStateByUids \<equiv> ''pearl.getHireStateByUids''"
abbreviation "RPCPearlGetRecommendList \<equiv> ''pearl.getRecommendList''"
abbreviation "RPCPearlRefresh \<equiv> ''pearl.refresh''"

abbreviation "flowerRackPerSlotCount \<equiv> (12::int)"

section \<open>Choosing an operation\<close>

definition runnableBusinessOperation :: "planned_op \<Rightarrow> bool" where
  "runnableBusinessOperation op \<longleftrightarrow>
     op_Executable op \<and> \<not> op_SyncOnly op \<and> op_Status op \<noteq> PlanStatusBlocked \<and>
     op_Status op \<noteq> PlanStatusAdapterMissing \<and> op_BlockedReasons op = []"

fun first_match :: "(planned_op \<Rightarrow> bool) \<Rightarrow> nat \<Rightarrow> planned_op list \<Rightarrow> (nat \<times> planned_op) option \<Rightarrow> (nat \<times> planned_op) option" where
  "first_match m i [] best = best"
| "first_match m i (x # xs) best =
     first_match m (i + 1) xs
       (if \<not> m x then best
        else case best of
          None \<Rightarrow> Some (i, x)
        | Some (j, b) \<Rightarrow> if operationComesBefore x b then Some (i, x) else best)"

text \<open>\<open>None\<close> is the index -1 of the source.\<close>

definition deterministicOperationIndex :: "planned_op list \<Rightarrow> (planned_op \<Rightarrow> bool) \<Rightarrow> nat option" where
  "deterministicOperationIndex ops m = map_option fst (first_match m 0 ops None)"

definition reason_prefix :: "string \<Rightarrow> int \<Rightarrow> string" where
  "reason_prefix what missing = what @ lit_remaining @ show_int missing @ lit_times"

definition with_reason :: "string \<Rightarrow> planned_op \<Rightarrow> planned_op" where
  "with_reason prefix op =
     op\<lparr>op_Reason := (if op_Reason op = [] then prefix else prefix @ lit_semicolon @ op_Reason op)\<rparr>"

section \<open>The cyclic note\<close>

abbreviation "cyclicNoteTaskTypeResidentOrder \<equiv> (1009::int)"
abbreviation "cyclicNoteTaskTypePearlHire \<equiv> (1010::int)"
abbreviation "cyclicNoteTaskTypePlantAny \<equiv> (3001::int)"
abbreviation "cyclicNoteTaskTypeFlowerRack \<equiv> (3015::int)"
abbreviation "cyclicNoteTaskTypeCustomerOrder \<equiv> (3016::int)"
abbreviation "cyclicNoteDemandPriority \<equiv> (50::int)"
abbreviation "cyclicNotePlantOpFloor \<equiv> (5500::int)"

text \<open>The view of the state's decoder (\<open>state.CyclicNoteView\<close>), the fields in use.\<close>

record cyclic_note_slot =
  cs_SlotID :: int
  cs_Unlocked :: bool
  cs_TaskID :: int
  cs_TaskType :: int
  cs_Title :: string
  cs_Target :: int
  cs_Progress :: int
  cs_ProgressObserved :: bool
  cs_ReceiptObserved :: bool
  cs_Received :: bool
  cs_CatalogKnown :: bool

record cyclic_note_view =
  cn_Valid :: bool
  cn_TaskListObserved :: bool
  cn_TaskRecordObserved :: bool
  cn_BatchID :: int
  cn_Phase :: int
  cn_FinishCount :: int
  cn_Tasks :: "cyclic_note_slot list"

text \<open>The switches of the modules a task may ride on.\<close>

record module_switches =
  ms_AutomationEnabled :: bool
  ms_CyclicNoteEnabled :: bool
  ms_CyclicNoteSatisfyTasks :: bool
  ms_DailyEnabled :: bool
  ms_PlantAutoEnabled :: bool
  ms_ResidentNormalEnabled :: bool
  ms_CustomerEnabled :: bool
  ms_FlowerArtSellEnabled :: bool
  ms_PearlAutoHireEnabled :: bool
  ms_StoryEnabled :: bool
  ms_CultivateShopAutoBuy :: bool
  ms_FriendStealEnabled :: bool
  ms_ZooEnabled :: bool
  ms_ZooAutoStroke :: bool
  ms_DemandPriority :: "(string, int) gomap"

definition cyclicNoteTaskTypeSupported :: "int \<Rightarrow> bool" where
  "cyclicNoteTaskTypeSupported k \<longleftrightarrow>
     k = cyclicNoteTaskTypePlantAny \<or> k = cyclicNoteTaskTypeFlowerRack \<or> k = cyclicNoteTaskTypeCustomerOrder \<or>
     k = cyclicNoteTaskTypeResidentOrder \<or> k = cyclicNoteTaskTypePearlHire"

definition cyclicNoteTaskTypeLabel :: "int \<Rightarrow> string" where
  "cyclicNoteTaskTypeLabel k =
     (if k = cyclicNoteTaskTypePlantAny then lit_note_plant
      else if k = cyclicNoteTaskTypeFlowerRack then lit_note_rack
      else if k = cyclicNoteTaskTypeCustomerOrder then lit_note_customer
      else if k = cyclicNoteTaskTypeResidentOrder then lit_note_resident
      else if k = cyclicNoteTaskTypePearlHire then lit_note_pearl
      else lit_note_task)"

record note_action =
  na_TaskType :: int
  na_Demand :: demand
  na_Drive :: cyclic_note_task_drive

definition note_occurrences :: "cyclic_note_view \<Rightarrow> int \<Rightarrow> nat" where
  "note_occurrences view taskID =
     length (filter (\<lambda>t. cs_Unlocked t \<and> cs_TaskID t = taskID) (cn_Tasks view))"

definition note_task_open :: "cyclic_note_view \<Rightarrow> cyclic_note_slot \<Rightarrow> bool" where
  "note_task_open view t \<longleftrightarrow>
     cyclicNoteTaskTypeSupported (cs_TaskType t) \<and> note_occurrences view (cs_TaskID t) = 1 \<and>
     cs_Unlocked t \<and> 0 < cs_TaskID t \<and> cs_CatalogKnown t \<and> 0 < cs_Target t \<and> 0 \<le> cs_Progress t \<and>
     cs_ProgressObserved t \<and> cs_ReceiptObserved t \<and> \<not> cs_Received t \<and> cs_Progress t < cs_Target t"

definition note_remaining :: "cyclic_note_slot \<Rightarrow> int" where
  "note_remaining t = cs_Target t - cs_Progress t"

text \<open>Of the open tasks of one type the one with most left represents it, then the lower slot.\<close>

definition note_representative ::
  "cyclic_note_view \<Rightarrow> cyclic_note_slot \<Rightarrow> (int, cyclic_note_slot) gomap \<Rightarrow> (int, cyclic_note_slot) gomap" where
  "note_representative view t byType =
     (if \<not> note_task_open view t then byType
      else case map_of byType (cs_TaskType t) of
        None \<Rightarrow> AList.update (cs_TaskType t) t byType
      | Some c \<Rightarrow>
          if note_remaining t < note_remaining c \<or>
             (note_remaining c = note_remaining t \<and> cs_SlotID c \<le> cs_SlotID t) then byType
          else AList.update (cs_TaskType t) t byType)"

definition note_action_of :: "cyclic_note_view \<Rightarrow> int \<Rightarrow> cyclic_note_slot \<Rightarrow> note_action" where
  "note_action_of view taskType t =
     (let entityID = show_int (cn_BatchID view) @ '':'' @ show_int taskType
      in \<lparr>na_TaskType = taskType,
          na_Demand = \<lparr>dem_ID = cyclicNoteActionGoal @ '':'' @ entityID, dem_GoalID = cyclicNoteActionGoal,
            dem_Category = CategoryActivity, dem_Domain = cyclicNoteActionGoal, dem_EntityID = entityID,
            dem_Source = ''task_type:'' @ show_int taskType,
            dem_Label = (if cs_Title t = [] then cyclicNoteTaskTypeLabel taskType else cs_Title t),
            dem_Kind = DemandKindAction, dem_ItemID = 0, dem_Count = cs_Target t, dem_Have = cs_Progress t,
            dem_Allocated = 0, dem_Available = cs_Progress t, dem_Missing = note_remaining t,
            dem_Priority = cyclicNoteDemandPriority, dem_BlockedReasons = [], dem_Status = [],
            dem_BlockingStage = [], dem_CostGates = []\<rparr>,
          na_Drive = \<lparr>drive_BatchID = cn_BatchID view, drive_SlotID = cs_SlotID t, drive_TaskID = cs_TaskID t,
            drive_TaskType = taskType, drive_Progress = cs_Progress t, drive_FinishCount = cn_FinishCount view\<rparr>\<rparr>)"

definition cyclicNoteTaskActionDemands ::
  "cyclic_note_view option \<Rightarrow> module_switches \<Rightarrow> note_action list" where
  "cyclicNoteTaskActionDemands cn ms =
     (case cn of
        None \<Rightarrow> []
      | Some view \<Rightarrow>
          if \<not> ms_AutomationEnabled ms \<or> \<not> ms_CyclicNoteEnabled ms \<or> \<not> ms_CyclicNoteSatisfyTasks ms then []
          else if \<not> cn_Valid view \<or> cn_Phase view \<noteq> 2 \<or> cn_BatchID view \<le> 0 \<or>
                  \<not> cn_TaskListObserved view \<or> \<not> cn_TaskRecordObserved view then []
          else
            let byType = fold (note_representative view) (cn_Tasks view) []
            in map (\<lambda>k. note_action_of view k (the (map_of byType k))) (sort (map fst byType)))"

definition cyclicNotePearlPlannerKind :: "string \<Rightarrow> bool" where
  "cyclicNotePearlPlannerKind kind \<longleftrightarrow>
     kind = RPCFrdEnter \<or> kind = RPCOpptGetDetailOppts \<or> kind = RPCPearlGetHireStateByUids \<or>
     kind = RPCPearlGetRecommendList \<or> kind = RPCPearlRefresh \<or> kind = RPCPearlPlaceHire \<or>
     kind = ''basic.pearl.hire.blocked''"

definition hasConcretePlantOperation :: "planned_op list \<Rightarrow> bool" where
  "hasConcretePlantOperation ops \<longleftrightarrow>
     list_ex (\<lambda>x. isPlantOperation (op_Kind x) \<and> op_GoalID x \<noteq> GoalAutoReplant \<and> op_DemandID x \<noteq> [] \<and>
                 op_LandIDs x \<noteq> []) ops"

definition link_note :: "demand \<Rightarrow> planned_op \<Rightarrow> planned_op" where
  "link_note d x = with_reason (reason_prefix lit_note_task (dem_Missing d)) (x\<lparr>op_DemandID := dem_ID d\<rparr>)"

definition linkCyclicNoteBusinessOperation ::
  "demand \<Rightarrow> (planned_op \<Rightarrow> bool) \<Rightarrow> planned_op list \<Rightarrow> planned_op list" where
  "linkCyclicNoteBusinessOperation d m ops =
     (case deterministicOperationIndex ops m of
        None \<Rightarrow> ops
      | Some i \<Rightarrow> ops[i := link_note d (ops ! i)])"

definition is_fallback_plant :: "planned_op \<Rightarrow> bool" where
  "is_fallback_plant x \<longleftrightarrow>
     runnableBusinessOperation x \<and> isPlantOperation (op_Kind x) \<and> op_GoalID x = GoalAutoReplant \<and> op_LandIDs x \<noteq> []"

text \<open>The fallback operations, with the selected one replaced and the others left out.\<close>

definition keep_one :: "nat \<Rightarrow> planned_op \<Rightarrow> planned_op list \<Rightarrow> planned_op list" where
  "keep_one idx selected ops =
     concat (map (\<lambda>(i, x). if \<not> is_fallback_plant x then [x] else if i = idx then [selected] else [])
       (enumerate 0 ops))"

text \<open>
  The slice of the source, \<open>lands[:demand.Missing]\<close>, panics for a negative number.  Its only caller,
  \<open>driveCyclicNoteTaskOperations\<close>, skips every action with nothing missing, so the model does not
  distinguish that case from taking none.
\<close>

definition driveCyclicNotePlant :: "module_switches \<Rightarrow> demand \<Rightarrow> planned_op list \<Rightarrow> planned_op list" where
  "driveCyclicNotePlant ms d ops =
     (if \<not> ms_PlantAutoEnabled ms \<or> hasConcretePlantOperation ops then ops
      else case deterministicOperationIndex ops is_fallback_plant of
        None \<Rightarrow> ops
      | Some idx \<Rightarrow>
          let x = ops ! idx;
              batches = filter (\<lambda>c. is_fallback_plant c \<and> op_FlowerID c = op_FlowerID x) ops;
              all = sort (remdups (filter (\<lambda>i. 0 < i) (concat (map op_LandIDs batches))));
              lands = (if dem_Missing d < int (length all) then take (nat (dem_Missing d)) all else all);
              kind = (if length lands = 1 then RPCUsrLandPlant else RPCUsrLandPlantBatch);
              selected = link_note d (x\<lparr>op_LandIDs := lands, op_Kind := kind,
                op_OperationID := operationID kind lands (op_FlowerID x) 0 0\<rparr>)
          in if lands = [] then ops
             else keep_one idx (selected\<lparr>op_Priority := max cyclicNotePlantOpFloor (op_Priority x)\<rparr>) ops)"

definition is_rack_sale :: "planned_op \<Rightarrow> bool" where
  "is_rack_sale x \<longleftrightarrow>
     runnableBusinessOperation x \<and> op_Kind x = RPCFlowerRackSell \<and> 0 < op_TargetID x \<and> 0 < op_ItemID x \<and>
     0 < op_Count x"

text \<open>How many pieces of a sale the task may take.\<close>

definition rack_cut :: "int \<Rightarrow> inventory_ledger option \<Rightarrow> planned_op \<Rightarrow> int" where
  "rack_cut missing ledger x =
     (let c1 = (if missing < op_Count x then missing else op_Count x);
          c2 = (if Available ledger (op_ItemID x) < c1 then Available ledger (op_ItemID x) else c1)
      in if flowerRackPerSlotCount < c2 then flowerRackPerSlotCount else c2)"

definition driveCyclicNoteFlowerRack ::
  "module_switches \<Rightarrow> demand \<Rightarrow> inventory_ledger option \<Rightarrow> planned_op list \<Rightarrow> planned_op list" where
  "driveCyclicNoteFlowerRack ms d ledger ops =
     (if \<not> ms_FlowerArtSellEnabled ms \<or> ledger = None then ops
      else case deterministicOperationIndex ops is_rack_sale of
        None \<Rightarrow> ops
      | Some i \<Rightarrow>
          let x = ops ! i; n = rack_cut (dem_Missing d) ledger x
          in if n \<le> 0 then ops
             else ops[i := link_note d (x\<lparr>op_Count := n, op_ItemCost := [(op_ItemID x, n)]\<rparr>)])"

definition drive_note ::
  "module_switches \<Rightarrow> inventory_ledger option \<Rightarrow> note_action \<Rightarrow> planned_op list \<Rightarrow> planned_op list" where
  "drive_note ms ledger action ops =
     (let d = na_Demand action
      in if dem_Missing d \<le> 0 then ops
         else if na_TaskType action = cyclicNoteTaskTypePlantAny then driveCyclicNotePlant ms d ops
         else if na_TaskType action = cyclicNoteTaskTypeFlowerRack then driveCyclicNoteFlowerRack ms d ledger ops
         else if na_TaskType action = cyclicNoteTaskTypeCustomerOrder then
           (if ms_CustomerEnabled ms
            then linkCyclicNoteBusinessOperation d
              (\<lambda>x. runnableBusinessOperation x \<and> op_Kind x = RPCOrderCustomerFinishOrder) ops
            else ops)
         else if na_TaskType action = cyclicNoteTaskTypeResidentOrder then
           (if ms_ResidentNormalEnabled ms
            then linkCyclicNoteBusinessOperation d
              (\<lambda>x. runnableBusinessOperation x \<and> op_Kind x = RPCOrderFlowerFinishOrder) ops
            else ops)
         else if na_TaskType action = cyclicNoteTaskTypePearlHire then
           (if ms_PearlAutoHireEnabled ms
            then linkCyclicNoteBusinessOperation d
              (\<lambda>x. op_FeatureID x = ''basic.pearl_hire'' \<and> cyclicNotePearlPlannerKind (op_Kind x)) ops
            else ops)
         else ops)"

definition driveCyclicNoteTaskOperations ::
  "module_switches \<Rightarrow> note_action list \<Rightarrow> inventory_ledger option \<Rightarrow> planned_op list \<Rightarrow> planned_op list" where
  "driveCyclicNoteTaskOperations ms actions ledger ops =
     (if actions = [] \<or> ops = [] then ops else fold (drive_note ms ledger) actions ops)"

section \<open>Daily tasks\<close>

abbreviation "dailyTaskDrivePriorityFloor \<equiv> (6260::int)"

datatype task_feature =
    FeatureUnspecified | FeatureClaimOnly | FeatureStory | FeaturePlanting | FeatureResident | FeatureFlowerRack
  | FeatureCustomer | FeatureCultivateShop | FeaturePalace | FeaturePearlHire | FeatureFriendTouch
  | FeatureVideo | FeatureZooStroke | FeatureCultivation

definition DailyTaskExecutionFeature :: "int \<Rightarrow> task_feature \<times> bool" where
  "DailyTaskExecutionFeature k =
     (if k = 4 then (FeatureStory, True)
      else if k = 3006 then (FeatureResident, True)
      else if k = 3014 then (FeaturePlanting, True)
      else if k = 3015 then (FeatureFlowerRack, True)
      else if k = 3016 then (FeatureCustomer, True)
      else if k = 3017 then (FeatureCultivateShop, True)
      else if k = 3018 then (FeaturePalace, False)
      else if k = 3023 then (FeaturePearlHire, True)
      else if k = 3024 then (FeatureFriendTouch, True)
      else if k = 3025 then (FeatureVideo, False)
      else if k = 3052 then (FeatureZooStroke, True)
      else (FeatureUnspecified, False))"

record daily_task =
  dt_TaskID :: int
  dt_ProgressType :: int
  dt_Target :: int
  dt_Finished :: int
  dt_Receipted :: int

record daily_action =
  da_Feature :: task_feature
  da_Demand :: demand

definition dailyTaskBusinessModuleEnabled :: "module_switches \<Rightarrow> task_feature \<Rightarrow> bool" where
  "dailyTaskBusinessModuleEnabled ms f =
     (case f of
        FeatureStory \<Rightarrow> ms_StoryEnabled ms
      | FeaturePlanting \<Rightarrow> ms_PlantAutoEnabled ms
      | FeatureResident \<Rightarrow> ms_ResidentNormalEnabled ms
      | FeatureFlowerRack \<Rightarrow> ms_FlowerArtSellEnabled ms
      | FeatureCustomer \<Rightarrow> ms_CustomerEnabled ms
      | FeatureCultivateShop \<Rightarrow> ms_CultivateShopAutoBuy ms
      | FeaturePearlHire \<Rightarrow> ms_PearlAutoHireEnabled ms
      | FeatureFriendTouch \<Rightarrow> ms_FriendStealEnabled ms
      | FeatureZooStroke \<Rightarrow> ms_ZooEnabled ms \<and> ms_ZooAutoStroke ms
      | _ \<Rightarrow> False)"

text \<open>\<open>title\<close> is the catalogue's text for a task and its target.\<close>

definition daily_action_of ::
  "(int \<Rightarrow> int \<Rightarrow> string) \<Rightarrow> module_switches \<Rightarrow> task_feature \<Rightarrow> daily_task \<Rightarrow> daily_action" where
  "daily_action_of title ms f t =
     \<lparr>da_Feature = f,
      da_Demand = \<lparr>dem_ID = GoalDailyTask @ '':'' @ show_int (dt_TaskID t), dem_GoalID = GoalDailyTask,
        dem_Category = CategoryBasic, dem_Domain = ''basic.task.daily'', dem_EntityID = show_int (dt_TaskID t),
        dem_Source = ''task_type:'' @ show_int (dt_ProgressType t), dem_Label = title (dt_TaskID t) (dt_Target t),
        dem_Kind = DemandKindAction, dem_ItemID = 0, dem_Count = dt_Target t, dem_Have = dt_Finished t,
        dem_Allocated = 0, dem_Available = dt_Finished t, dem_Missing = dt_Target t - dt_Finished t,
        dem_Priority = priorityFor (ms_DemandPriority ms) GoalDailyTask, dem_BlockedReasons = [],
        dem_Status = [], dem_BlockingStage = [], dem_CostGates = []\<rparr>\<rparr>"

definition dailyTaskActionDemands ::
  "(int \<Rightarrow> int \<Rightarrow> string) \<Rightarrow> (int, daily_task) gomap \<Rightarrow> module_switches \<Rightarrow> daily_action list" where
  "dailyTaskActionDemands title tasks ms =
     (if \<not> ms_AutomationEnabled ms \<or> \<not> ms_DailyEnabled ms then []
      else concat (map (\<lambda>i.
        let t = the (map_of tasks i); (f, supported) = DailyTaskExecutionFeature (dt_ProgressType t)
        in if dt_Receipted t \<noteq> 0 \<or> dt_Target t \<le> 0 \<or> dt_Finished t < 0 \<or> dt_Target t \<le> dt_Finished t then []
           else if \<not> supported \<or> \<not> dailyTaskBusinessModuleEnabled ms f then []
           else [daily_action_of title ms f t]) (sort (map fst tasks))))"

definition dailyTaskOperationMatches :: "task_feature \<Rightarrow> planned_op \<Rightarrow> bool" where
  "dailyTaskOperationMatches f x \<longleftrightarrow>
     (if \<not> runnableBusinessOperation x then False
      else case f of
        FeatureStory \<Rightarrow> op_Domain x = ''basic.story''
      | FeaturePlanting \<Rightarrow> op_Kind x = RPCUsrLandWater \<or> op_Kind x = RPCUsrLandWaterBatch
      | FeatureResident \<Rightarrow> op_Kind x = RPCOrderFlowerFinishOrder
      | FeatureFlowerRack \<Rightarrow> op_Kind x = RPCFlowerRackSell
      | FeatureCustomer \<Rightarrow> op_GoalID x = GoalCustomerOrder \<and>
          (op_Action x = ''finish'' \<or> op_Action x = ''craft'' \<or> op_Action x = ''generate'')
      | FeatureCultivateShop \<Rightarrow> op_Domain x = ''basic.shop.cultivate''
      | FeaturePearlHire \<Rightarrow> op_FeatureID x = ''basic.pearl_hire'' \<and> cyclicNotePearlPlannerKind (op_Kind x)
      | FeatureFriendTouch \<Rightarrow> op_FeatureID x = ''plant.friend_steal''
      | FeatureZooStroke \<Rightarrow> op_Domain x = ''basic.zoo.stroke'' \<or> op_Domain x = ''basic.zoo''
      | _ \<Rightarrow> False)"

definition drive_daily :: "daily_action \<Rightarrow> planned_op list \<Rightarrow> planned_op list" where
  "drive_daily action ops =
     (case deterministicOperationIndex ops (dailyTaskOperationMatches (da_Feature action)) of
        None \<Rightarrow> ops
      | Some i \<Rightarrow>
          ops[i := with_reason (reason_prefix lit_daily_task (dem_Missing (da_Demand action)))
            ((ops ! i)\<lparr>op_DemandID := dem_ID (da_Demand action),
               op_Priority := max dailyTaskDrivePriorityFloor (op_Priority (ops ! i))\<rparr>)])"

definition driveDailyTaskOperations :: "daily_action list \<Rightarrow> planned_op list \<Rightarrow> planned_op list" where
  "driveDailyTaskOperations actions ops = fold drive_daily actions ops"

section \<open>Customer orders and pearl hires of the race\<close>

definition find_race_demand :: "int \<Rightarrow> demand list \<Rightarrow> demand option" where
  "find_race_demand taskType demands =
     List.find (\<lambda>d. dem_GoalID d = raceActionGoal \<and> dem_Source d = raceActionDemandSource taskType \<and>
                   dem_Kind d = DemandKindAction \<and> 0 < dem_Missing d) demands"

definition driveRaceActionModuleOperations ::
  "bool \<Rightarrow> int \<Rightarrow> (planned_op \<Rightarrow> bool) \<Rightarrow> string \<Rightarrow> demand list \<Rightarrow> planned_op list \<Rightarrow> planned_op list" where
  "driveRaceActionModuleOperations moduleOn taskType m what demands ops =
     (if \<not> moduleOn \<or> ops = [] then ops
      else case find_race_demand taskType demands of
        None \<Rightarrow> ops
      | Some d \<Rightarrow>
          (case deterministicOperationIndex ops m of
             None \<Rightarrow> ops
           | Some i \<Rightarrow> ops[i := with_reason (reason_prefix what (dem_Missing d)) ((ops ! i)\<lparr>op_DemandID := dem_ID d\<rparr>)]))"

definition driveRaceCustomerOrderOperations ::
  "module_switches \<Rightarrow> demand list \<Rightarrow> planned_op list \<Rightarrow> planned_op list" where
  "driveRaceCustomerOrderOperations ms demands ops =
     driveRaceActionModuleOperations (ms_CustomerEnabled ms) raceTaskTypeCustomerOrder
       (\<lambda>x. runnableBusinessOperation x \<and> op_Kind x = RPCOrderCustomerFinishOrder) lit_race_customer demands ops"

definition driveRacePearlHireOperations ::
  "module_switches \<Rightarrow> demand list \<Rightarrow> planned_op list \<Rightarrow> planned_op list" where
  "driveRacePearlHireOperations ms demands ops =
     driveRaceActionModuleOperations (ms_PearlAutoHireEnabled ms) raceTaskTypePearlHire
       (\<lambda>x. op_FeatureID x = ''basic.pearl_hire'' \<and> cyclicNotePearlPlannerKind (op_Kind x)) lit_race_pearl demands ops"

section \<open>The chosen operation\<close>

lemma first_match_some:
  assumes "first_match m k xs best = Some (i, x)"
    and "\<And>j b. best = Some (j, b) \<Longrightarrow> j < k \<and> m b"
  shows "m x \<and> (best = Some (i, x) \<or> k \<le> i \<and> i < k + length xs \<and> x = xs ! (i - k)) \<and>
    (\<forall>y \<in> set xs. m y \<longrightarrow> queue_key x \<le> queue_key y) \<and>
    (\<forall>j b. best = Some (j, b) \<longrightarrow> queue_key x \<le> queue_key b)"
  using assms
proof (induction m k xs best rule: first_match.induct)
  case (1 m k best)
  then show ?case by auto
next
  case (2 m k a xs best)
  define best' where "best' = (if \<not> m a then best
      else case best of None \<Rightarrow> Some (k, a) | Some (j, b) \<Rightarrow> if operationComesBefore a b then Some (k, a) else best)"
  have run: "first_match m (k + 1) xs best' = Some (i, x)" using "2.prems"(1) by (simp add: best'_def)
  have inv: "j < k + 1 \<and> m b" if "best' = Some (j, b)" for j b
    using that "2.prems"(2) by (fastforce simp: best'_def split: if_splits option.splits)
  note ih = "2.IH" [folded best'_def, OF run inv]
  have key_a: "queue_key x \<le> queue_key a" if "m a"
  proof (cases best)
    case None
    then show ?thesis using ih that by (auto simp: best'_def)
  next
    case (Some jb)
    obtain j b where jb: "jb = (j, b)" by (cases jb)
    show ?thesis
    proof (cases "operationComesBefore a b")
      case True
      then show ?thesis using ih that Some jb by (auto simp: best'_def)
    next
      case False
      then have "queue_key b \<le> queue_key a" using queue.key_before by (meson not_le)
      moreover have "queue_key x \<le> queue_key b" using ih that Some jb False by (auto simp: best'_def)
      ultimately show ?thesis by simp
    qed
  qed
  have key_b: "queue_key x \<le> queue_key b" if b: "best = Some (j, b)" for j b
  proof (cases "m a \<and> operationComesBefore a b")
    case True
    then have "queue_key x \<le> queue_key a" "queue_key a \<le> queue_key b"
      using key_a queue.before_key by auto
    then show ?thesis by simp
  next
    case False
    then have "best' = Some (j, b)" using b by (cases "m a") (simp_all add: best'_def)
    then show ?thesis using ih by simp
  qed
  have pos: "best = Some (i, x) \<or> k \<le> i \<and> i < k + length (a # xs) \<and> x = (a # xs) ! (i - k)"
  proof -
    consider "best' = Some (i, x)" | "k + 1 \<le> i" "i < k + 1 + length xs" "x = xs ! (i - (k + 1))" using ih by blast
    then show ?thesis
    proof cases
      case 1
      then show ?thesis by (auto simp: best'_def split: if_splits option.splits)
    next
      case 2
      then have "(a # xs) ! (i - k) = xs ! (i - (k + 1))" by (simp add: nth_Cons')
      then show ?thesis using 2 by simp
    qed
  qed
  show ?case using ih key_a key_b pos by auto
qed

text \<open>The chosen operation matches, and no matching one has a better lane or priority.\<close>

lemma chosen_operation:
  assumes "deterministicOperationIndex ops m = Some i"
  shows "i < length ops" "m (ops ! i)" "\<And>y. y \<in> set ops \<Longrightarrow> m y \<Longrightarrow> queue_key (ops ! i) \<le> queue_key y"
proof -
  obtain x where "first_match m 0 ops None = Some (i, x)"
    using assms by (auto simp: deterministicOperationIndex_def)
  from first_match_some [OF this] have *: "m x" "i < length ops" "x = ops ! i"
    "\<forall>y \<in> set ops. m y \<longrightarrow> queue_key x \<le> queue_key y" by auto
  then show "i < length ops" "m (ops ! i)" "\<And>y. y \<in> set ops \<Longrightarrow> m y \<Longrightarrow> queue_key (ops ! i) \<le> queue_key y"
    by auto
qed

section \<open>Drives only decorate\<close>

text \<open>
  What a drive may change of an operation: the task it is linked to, the reason shown, a higher
  priority, and the number of pieces of a rack sale, which can only shrink.
\<close>

definition decorated :: "planned_op \<Rightarrow> planned_op \<Rightarrow> bool" where
  "decorated x y \<longleftrightarrow>
     y\<lparr>op_DemandID := op_DemandID x, op_Reason := op_Reason x, op_Priority := op_Priority x,
       op_Count := op_Count x, op_ItemCost := op_ItemCost x\<rparr> = x \<and>
     op_Priority x \<le> op_Priority y \<and>
     (op_Count y = op_Count x \<and> op_ItemCost y = op_ItemCost x \<or>
      is_rack_sale x \<and> 0 < op_Count y \<and> op_Count y \<le> op_Count x \<and> op_ItemCost y = [(op_ItemID x, op_Count y)])"

lemma decorated_refl: "decorated x x"
  by (simp add: decorated_def)

lemma decorated_fields:
  assumes "decorated x y"
  shows "op_ItemID y = op_ItemID x \<and> op_Kind y = op_Kind x \<and> op_TargetID y = op_TargetID x \<and>
    runnableBusinessOperation y = runnableBusinessOperation x"
proof -
  have e: "y\<lparr>op_DemandID := op_DemandID x, op_Reason := op_Reason x, op_Priority := op_Priority x,
      op_Count := op_Count x, op_ItemCost := op_ItemCost x\<rparr> = x" using assms by (simp add: decorated_def)
  note f = arg_cong [OF e, where f = op_ItemID] arg_cong [OF e, where f = op_Kind]
    arg_cong [OF e, where f = op_TargetID] arg_cong [OF e, where f = runnableBusinessOperation]
  have "runnableBusinessOperation (y\<lparr>op_DemandID := a, op_Reason := b, op_Priority := c, op_Count := d,
      op_ItemCost := z\<rparr>) = runnableBusinessOperation y" for a b c d z
    by (simp add: runnableBusinessOperation_def)
  then show ?thesis using f by simp
qed

lemma decorated_trans:
  assumes "decorated x y" "decorated y z"
  shows "decorated x z"
proof -
  have "z\<lparr>op_DemandID := op_DemandID x, op_Reason := op_Reason x, op_Priority := op_Priority x,
      op_Count := op_Count x, op_ItemCost := op_ItemCost x\<rparr> =
    (z\<lparr>op_DemandID := op_DemandID y, op_Reason := op_Reason y, op_Priority := op_Priority y,
      op_Count := op_Count y, op_ItemCost := op_ItemCost y\<rparr>)
      \<lparr>op_DemandID := op_DemandID x, op_Reason := op_Reason x, op_Priority := op_Priority x,
        op_Count := op_Count x, op_ItemCost := op_ItemCost x\<rparr>" by simp
  also have "\<dots> = x" using assms by (simp add: decorated_def)
  finally have same: "z\<lparr>op_DemandID := op_DemandID x, op_Reason := op_Reason x, op_Priority := op_Priority x,
      op_Count := op_Count x, op_ItemCost := op_ItemCost x\<rparr> = x" .
  have pr: "op_Priority x \<le> op_Priority z" using assms unfolding decorated_def by linarith
  have yz: "op_ItemID y = op_ItemID x" "is_rack_sale y \<longrightarrow> op_Count y = op_Count x \<longrightarrow> is_rack_sale x"
    using decorated_fields [OF assms(1)] by (auto simp: is_rack_sale_def)
  have "op_Count z = op_Count x \<and> op_ItemCost z = op_ItemCost x \<or>
      is_rack_sale x \<and> 0 < op_Count z \<and> op_Count z \<le> op_Count x \<and> op_ItemCost z = [(op_ItemID x, op_Count z)]"
    using assms yz unfolding decorated_def by force
  then show ?thesis using same pr by (simp add: decorated_def)
qed

lemma decorated_all_refl: "list_all2 decorated ops ops"
  by (rule list.rel_refl) (rule decorated_refl)

lemma decorated_all_trans:
  "list_all2 decorated a b \<Longrightarrow> list_all2 decorated b c \<Longrightarrow> list_all2 decorated a c"
  by (rule list_all2_trans [where ?P1.0 = decorated and ?P2.0 = decorated]) (rule decorated_trans)

lemma decorated_update: "decorated (ops ! i) y \<Longrightarrow> list_all2 decorated ops (ops[i := y])"
  by (cases "i < length ops") (auto simp: list_all2_conv_all_nth nth_list_update decorated_refl)

text \<open>The contract of a drive; its client is the loop over the tasks.\<close>

locale decoration =
  fixes drive :: "'a \<Rightarrow> planned_op list \<Rightarrow> planned_op list"
  assumes drive_decorates: "list_all2 decorated ops (drive a ops)"
begin

lemma fold_decorates: "list_all2 decorated ops (fold drive as ops)"
proof (induction as arbitrary: ops)
  case Nil
  then show ?case by (simp add: decorated_all_refl)
next
  case (Cons a as)
  have "list_all2 decorated (drive a ops) (fold drive as (drive a ops))" by (rule Cons.IH)
  then show ?case
    using decorated_all_trans [OF drive_decorates] by simp
qed

end

lemma decorated_link:
  "decorated x (link_note d x)" "decorated x (with_reason r (x\<lparr>op_DemandID := i\<rparr>))"
  "decorated x (with_reason r (x\<lparr>op_DemandID := i, op_Priority := max k (op_Priority x)\<rparr>))"
  by (simp_all add: decorated_def link_note_def with_reason_def)

interpretation daily: decoration drive_daily
  by unfold_locales (auto simp: drive_daily_def decorated_all_refl intro!: decorated_update decorated_link
      split: option.split)

lemma race_module_decorates: "list_all2 decorated ops (driveRaceActionModuleOperations on k m w demands ops)"
  by (auto simp: driveRaceActionModuleOperations_def decorated_all_refl intro!: decorated_update decorated_link
      split: option.split)

interpretation race_customer: decoration "driveRaceCustomerOrderOperations ms" for ms
  by unfold_locales (simp add: driveRaceCustomerOrderOperations_def race_module_decorates)

interpretation race_pearl: decoration "driveRacePearlHireOperations ms" for ms
  by unfold_locales (simp add: driveRacePearlHireOperations_def race_module_decorates)

lemma note_link_decorates: "list_all2 decorated ops (linkCyclicNoteBusinessOperation d m ops)"
  by (auto simp: linkCyclicNoteBusinessOperation_def decorated_all_refl intro!: decorated_update decorated_link
      split: option.split)

lemma rack_cut_le: "rack_cut missing ledger x \<le> op_Count x" "rack_cut missing ledger x \<le> missing"
  "rack_cut missing ledger x \<le> Available ledger (op_ItemID x)" "rack_cut missing ledger x \<le> flowerRackPerSlotCount"
  by (auto simp: rack_cut_def Let_def)

lemma note_rack_decorates: "list_all2 decorated ops (driveCyclicNoteFlowerRack ms d ledger ops)"
proof (cases "deterministicOperationIndex ops is_rack_sale")
  case (Some i)
  define n where "n = rack_cut (dem_Missing d) ledger (ops ! i)"
  have "decorated (ops ! i) (link_note d ((ops ! i)\<lparr>op_Count := n, op_ItemCost := [(op_ItemID (ops ! i), n)]\<rparr>))"
    if "0 < n"
    using that chosen_operation(2) [OF Some] rack_cut_le(1) [of "dem_Missing d" ledger "ops ! i"]
    by (simp add: decorated_def link_note_def with_reason_def n_def)
  then show ?thesis
    using Some by (auto simp: driveCyclicNoteFlowerRack_def Let_def n_def [symmetric] decorated_all_refl
        intro!: decorated_update)
qed (simp add: driveCyclicNoteFlowerRack_def decorated_all_refl)

text \<open>All tasks of the cyclic note but planting.\<close>

definition drive_other_note ::
  "module_switches \<Rightarrow> inventory_ledger option \<Rightarrow> note_action \<Rightarrow> planned_op list \<Rightarrow> planned_op list" where
  "drive_other_note ms ledger a ops =
     (if na_TaskType a = cyclicNoteTaskTypePlantAny then ops else drive_note ms ledger a ops)"

interpretation other_note: decoration "drive_other_note ms ledger" for ms ledger
  by unfold_locales (simp add: drive_other_note_def drive_note_def Let_def decorated_all_refl note_link_decorates
      note_rack_decorates)

lemma fold_other_note:
  "\<forall>a \<in> set as. na_TaskType a \<noteq> cyclicNoteTaskTypePlantAny \<Longrightarrow>
     fold (drive_note ms ledger) as ops = fold (drive_other_note ms ledger) as ops"
  by (rule fold_cong) (auto simp: drive_other_note_def fun_eq_iff)

text \<open>
  Linking the tasks of the cyclic note, of the guild race and of the day to
  planned operations starts, unblocks, retargets, adds and removes nothing: every operation keeps its
  place and all its fields but its task, its reason, a possibly higher priority, and for a runnable
  rack sale a smaller number of pieces with the matching cost.
\<close>

lemma drives_only_decorate:
  "list_all2 decorated ops
    (driveDailyTaskOperations dailies (driveRacePearlHireOperations ms demands
       (driveRaceCustomerOrderOperations ms demands
         (driveCyclicNoteTaskOperations ms
           (filter (\<lambda>a. na_TaskType a \<noteq> cyclicNoteTaskTypePlantAny) actions) ledger ops))))"
proof -
  define acts where "acts = filter (\<lambda>a. na_TaskType a \<noteq> cyclicNoteTaskTypePlantAny) actions"
  have other: "\<forall>a \<in> set acts. na_TaskType a \<noteq> cyclicNoteTaskTypePlantAny" by (simp add: acts_def)
  let ?a = "driveCyclicNoteTaskOperations ms acts ledger ops"
  let ?b = "driveRaceCustomerOrderOperations ms demands ?a"
  let ?c = "driveRacePearlHireOperations ms demands ?b"
  have "list_all2 decorated ops ?a"
    using other_note.fold_decorates [where as = acts] fold_other_note [OF other]
    by (simp add: driveCyclicNoteTaskOperations_def decorated_all_refl)
  moreover have "list_all2 decorated ?a ?b" by (rule race_customer.drive_decorates)
  moreover have "list_all2 decorated ?b ?c" by (rule race_pearl.drive_decorates)
  moreover have "list_all2 decorated ?c (driveDailyTaskOperations dailies ?c)"
    unfolding driveDailyTaskOperations_def by (rule daily.fold_decorates)
  ultimately show ?thesis unfolding acts_def [symmetric] by (blast intro: decorated_all_trans)
qed

section \<open>Planting for the cyclic note\<close>

definition keep_from :: "nat \<Rightarrow> nat \<Rightarrow> planned_op \<Rightarrow> planned_op list \<Rightarrow> planned_op list" where
  "keep_from k idx selected ops =
     concat (map (\<lambda>(i, x). if \<not> is_fallback_plant x then [x] else if i = idx then [selected] else [])
       (enumerate k ops))"

lemma keep_from_simps [simp]:
  "keep_from k idx sel [] = []"
  "keep_from k idx sel (x # ops) =
     (if \<not> is_fallback_plant x then [x] else if k = idx then [sel] else []) @ keep_from (Suc k) idx sel ops"
  by (simp_all add: keep_from_def)

lemma keep_from_others:
  "is_fallback_plant sel \<Longrightarrow>
     filter (\<lambda>x. \<not> is_fallback_plant x) (keep_from k idx sel ops) = filter (\<lambda>x. \<not> is_fallback_plant x) ops"
  by (induction ops arbitrary: k) auto

lemma keep_from_after: "idx < k \<Longrightarrow> filter is_fallback_plant (keep_from k idx sel ops) = []"
  by (induction ops arbitrary: k) auto

lemma keep_from_selected:
  assumes "is_fallback_plant sel" "k \<le> idx" "idx < k + length ops" "is_fallback_plant (ops ! (idx - k))"
  shows "filter is_fallback_plant (keep_from k idx sel ops) = [sel]"
  using assms
proof (induction ops arbitrary: k)
  case (Cons x ops)
  show ?case
  proof (cases "k = idx")
    case True
    then show ?thesis using Cons.prems by (simp add: keep_from_after)
  next
    case False
    then have "ops ! (idx - Suc k) = (x # ops) ! (idx - k)" using Cons.prems(2) by (simp add: nth_Cons')
    then show ?thesis using Cons.IH [of "Suc k"] Cons.prems False by auto
  qed
qed simp

lemma ops_lands_split:
  "mset (ops_lands ops) = mset (ops_lands (filter P ops) @ ops_lands (filter (\<lambda>x. \<not> P x) ops))"
  by (induction ops) auto

lemma set_ops_lands: "set (ops_lands ops) = (\<Union>x \<in> set ops. set (op_LandIDs x))"
  by (simp add: ops_lands_def)

lemma drive_note_plant_None:
  "deterministicOperationIndex ops is_fallback_plant = None \<Longrightarrow> driveCyclicNotePlant ms d ops = ops"
  unfolding driveCyclicNotePlant_def by simp

text \<open>
  C14.  Planting for a task of the cyclic note leaves every other operation as it
  is; of the free planting batches it either changes nothing or keeps one, linked to the task, with at
  most as many lands as the task has left, all of them lands that such batches already held for the
  same flower.  A plan that named no land twice still names none twice.
\<close>

theorem note_planting_capped:
  assumes "ops' = driveCyclicNotePlant ms d ops"
  shows "filter (\<lambda>x. \<not> is_fallback_plant x) ops' = filter (\<lambda>x. \<not> is_fallback_plant x) ops \<and>
    (ops' = ops \<or>
     ms_PlantAutoEnabled ms \<and> \<not> hasConcretePlantOperation ops \<and>
     (\<exists>x. filter is_fallback_plant ops' = [x] \<and> op_DemandID x = dem_ID d \<and>
        int (length (op_LandIDs x)) \<le> dem_Missing d \<and>
        (\<forall>i \<in> set (op_LandIDs x). \<exists>y \<in> set ops. is_fallback_plant y \<and> op_FlowerID y = op_FlowerID x \<and>
           i \<in> set (op_LandIDs y)))) \<and>
    (distinct (ops_lands ops) \<longrightarrow> distinct (ops_lands ops'))"
proof (cases "ops' = ops")
  case False
  let ?fb = is_fallback_plant
  from False assms have on: "ms_PlantAutoEnabled ms" "\<not> hasConcretePlantOperation ops"
    by (auto simp: driveCyclicNotePlant_def split: if_splits)
  from False assms on obtain idx where idx: "deterministicOperationIndex ops ?fb = Some idx"
    using drive_note_plant_None by (cases "deterministicOperationIndex ops ?fb") auto
  define x where "x = ops ! idx"
  define batches where "batches = filter (\<lambda>c. ?fb c \<and> op_FlowerID c = op_FlowerID x) ops"
  define all where "all = sort (remdups (filter (\<lambda>i. 0 < i) (concat (map op_LandIDs batches))))"
  define lands where "lands = (if dem_Missing d < int (length all) then take (nat (dem_Missing d)) all else all)"
  define kind where "kind = (if length lands = 1 then RPCUsrLandPlant else RPCUsrLandPlantBatch)"
  define sel where "sel = (link_note d (x\<lparr>op_LandIDs := lands, op_Kind := kind,
      op_OperationID := operationID kind lands (op_FlowerID x) 0 0\<rparr>))
      \<lparr>op_Priority := max cyclicNotePlantOpFloor (op_Priority x)\<rparr>"
  have dr: "driveCyclicNotePlant ms d ops = (if lands = [] then ops else keep_one idx sel ops)"
    unfolding driveCyclicNotePlant_def idx option.case Let_def sel_def kind_def lands_def all_def batches_def x_def
    by (rule if_not_P) (use on in blast)
  have ops': "lands \<noteq> []" "ops' = keep_one idx sel ops"
    using False unfolding assms dr by (auto split: if_splits)
  note ch = chosen_operation [OF idx]
  have sel: "?fb sel" "op_LandIDs sel = lands" "op_DemandID sel = dem_ID d" "op_FlowerID sel = op_FlowerID x"
    using ch(2) ops'(1)
    by (simp_all add: sel_def x_def link_note_def with_reason_def is_fallback_plant_def
        runnableBusinessOperation_def isPlantOperation_def kind_def)
  have keep: "ops' = keep_from 0 idx sel ops" by (simp add: ops'(2) keep_one_def keep_from_def)
  have others: "filter (\<lambda>x. \<not> ?fb x) ops' = filter (\<lambda>x. \<not> ?fb x) ops"
    unfolding keep by (rule keep_from_others [OF sel(1)])
  have one: "filter ?fb ops' = [sel]"
    unfolding keep using ch sel(1) by (intro keep_from_selected) simp_all
  have len: "int (length lands) \<le> dem_Missing d"
  proof (cases "dem_Missing d < int (length all)")
    case True
    then have "lands = take (nat (dem_Missing d)) all" by (simp add: lands_def)
    then show ?thesis using ops'(1) True by (cases "dem_Missing d \<le> 0") auto
  qed (simp add: lands_def)
  have sub: "set lands \<subseteq> set (ops_lands batches)"
    by (auto simp: lands_def all_def ops_lands_def dest: in_set_takeD)
  have dl: "distinct lands" by (simp add: lands_def all_def)
  have "distinct (ops_lands ops')" if d: "distinct (ops_lands ops)"
  proof -
    have "distinct (ops_lands (filter ?fb ops) @ ops_lands (filter (\<lambda>x. \<not> ?fb x) ops))"
      using d mset_eq_imp_distinct_iff [OF ops_lands_split [of ops ?fb]] by simp
    moreover have "set (ops_lands batches) \<subseteq> set (ops_lands (filter ?fb ops))"
      by (auto simp: batches_def set_ops_lands)
    ultimately have "distinct (lands @ ops_lands (filter (\<lambda>x. \<not> ?fb x) ops))" using sub dl by auto
    then show ?thesis
      using mset_eq_imp_distinct_iff [OF ops_lands_split [of ops' ?fb]] one others sel(2) by simp
  qed
  then show ?thesis
    using others one on sel len sub
    by (auto simp: batches_def set_ops_lands)
qed simp

text \<open>Two lands are left to plant: of two batches of one flower one remains, cut to two lands.\<close>

definition fallback_batch :: "int \<Rightarrow> int list \<Rightarrow> planned_op" where
  "fallback_batch flower lands = zero_op\<lparr>op_Kind := RPCUsrLandPlantBatch, op_Lane := LaneFarm,
     op_GoalID := GoalAutoReplant, op_Executable := True, op_FlowerID := flower, op_LandIDs := lands\<rparr>"

definition sample_batches :: "planned_op list" where
  "sample_batches = [fallback_batch 23001 [4, 2], zero_op\<lparr>op_Kind := RPCUsrLandHarvest, op_LandIDs := [7]\<rparr>,
     fallback_batch 23001 [3], fallback_batch 23002 [9]]"

definition riding_modules :: module_switches where
  "riding_modules = \<lparr>ms_AutomationEnabled = True, ms_CyclicNoteEnabled = True, ms_CyclicNoteSatisfyTasks = True,
     ms_DailyEnabled = True, ms_PlantAutoEnabled = True, ms_ResidentNormalEnabled = True,
     ms_CustomerEnabled = True, ms_FlowerArtSellEnabled = True, ms_PearlAutoHireEnabled = False,
     ms_StoryEnabled = False, ms_CultivateShopAutoBuy = False, ms_FriendStealEnabled = False,
     ms_ZooEnabled = False, ms_ZooAutoStroke = False, ms_DemandPriority = []\<rparr>"

definition plant_two :: demand where
  "plant_two = (flower_demand cyclicNoteActionGoal ''task_type:3001'' 0 2)"

theorem note_planting_capped_witness:
  "filter (\<lambda>x. \<not> is_fallback_plant x) (driveCyclicNotePlant riding_modules plant_two sample_batches) =
     [zero_op\<lparr>op_Kind := RPCUsrLandHarvest, op_LandIDs := [7]\<rparr>] \<and>
   distinct (ops_lands (driveCyclicNotePlant riding_modules plant_two sample_batches))"
proof -
  have "distinct (ops_lands sample_batches)"
    by (simp add: sample_batches_def ops_lands_def fallback_batch_def)
  moreover have "filter (\<lambda>x. \<not> is_fallback_plant x) sample_batches =
      [zero_op\<lparr>op_Kind := RPCUsrLandHarvest, op_LandIDs := [7]\<rparr>]"
    by (simp add: sample_batches_def fallback_batch_def is_fallback_plant_def runnableBusinessOperation_def
        isPlantOperation_def zero_op_def)
  ultimately show ?thesis
    using note_planting_capped [OF refl, of riding_modules plant_two sample_batches] by simp
qed

section \<open>The tasks of the cyclic note\<close>

definition note_key :: "cyclic_note_slot \<Rightarrow> int \<times> int" where
  "note_key t = (- note_remaining t, cs_SlotID t)"

definition note_chosen :: "cyclic_note_view \<Rightarrow> cyclic_note_slot list \<Rightarrow> (int, cyclic_note_slot) gomap \<Rightarrow> bool" where
  "note_chosen view ts m \<longleftrightarrow> gomap_ok m \<and>
     (\<forall>k t. map_of m k = Some t \<longrightarrow> t \<in> set ts \<and> note_task_open view t \<and> cs_TaskType t = k \<and>
        (\<forall>u \<in> set ts. note_task_open view u \<and> cs_TaskType u = k \<longrightarrow> note_key t \<le> note_key u)) \<and>
     (\<forall>u \<in> set ts. note_task_open view u \<longrightarrow> map_of m (cs_TaskType u) \<noteq> None)"

lemma note_chosenD:
  assumes "note_chosen view ts m"
  shows "gomap_ok m"
    "\<And>k t. map_of m k = Some t \<Longrightarrow> t \<in> set ts \<and> note_task_open view t \<and> cs_TaskType t = k"
    "\<And>k t u. map_of m k = Some t \<Longrightarrow> u \<in> set ts \<Longrightarrow> note_task_open view u \<Longrightarrow> cs_TaskType u = k \<Longrightarrow>
       note_key t \<le> note_key u"
    "\<And>u. u \<in> set ts \<Longrightarrow> note_task_open view u \<Longrightarrow> map_of m (cs_TaskType u) \<noteq> None"
  using assms unfolding note_chosen_def by blast+

lemma note_chosenI:
  assumes "gomap_ok m"
    "\<And>k t. map_of m k = Some t \<Longrightarrow> t \<in> set ts \<and> note_task_open view t \<and> cs_TaskType t = k"
    "\<And>k t u. map_of m k = Some t \<Longrightarrow> u \<in> set ts \<Longrightarrow> note_task_open view u \<Longrightarrow> cs_TaskType u = k \<Longrightarrow>
       note_key t \<le> note_key u"
    "\<And>u. u \<in> set ts \<Longrightarrow> note_task_open view u \<Longrightarrow> map_of m (cs_TaskType u) \<noteq> None"
  shows "note_chosen view ts m"
  using assms unfolding note_chosen_def by blast

lemma note_chosen_step:
  assumes ih: "note_chosen view ts m"
  shows "note_chosen view (ts @ [t]) (note_representative view t m)"
proof -
  note d = note_chosenD [OF ih]
  consider (closed) "\<not> note_task_open view t" "note_representative view t m = m"
    | (kept) c where "map_of m (cs_TaskType t) = Some c" "note_key c \<le> note_key t"
        "note_representative view t m = m"
    | (new) "note_task_open view t" "note_representative view t m = AList.update (cs_TaskType t) t m"
        "\<And>c. map_of m (cs_TaskType t) = Some c \<Longrightarrow> note_key t \<le> note_key c"
    by (cases "note_task_open view t"; cases "map_of m (cs_TaskType t)")
      (force simp: note_representative_def note_key_def less_eq_prod_def split: if_splits)+
  then show ?thesis
  proof cases
    case closed
    show ?thesis unfolding closed(2)
    proof (rule note_chosenI)
      show "gomap_ok m" by (rule d(1))
      show "u \<in> set (ts @ [t]) \<and> note_task_open view u \<and> cs_TaskType u = k" if "map_of m k = Some u" for k u
        using d(2) [OF that] by simp
      show "note_key x \<le> note_key u" if "map_of m k = Some x" "u \<in> set (ts @ [t])" "note_task_open view u"
        "cs_TaskType u = k" for k x u
      proof -
        have "u \<in> set ts" using that closed(1) by auto
        then show ?thesis using d(3) [OF that(1) _ that(3,4)] by blast
      qed
      show "map_of m (cs_TaskType u) \<noteq> None" if "u \<in> set (ts @ [t])" "note_task_open view u" for u
        using that closed(1) d(4) [of u] by auto
    qed
  next
    case kept
    show ?thesis unfolding kept(3)
    proof (rule note_chosenI)
      show "gomap_ok m" by (rule d(1))
      show "u \<in> set (ts @ [t]) \<and> note_task_open view u \<and> cs_TaskType u = k" if "map_of m k = Some u" for k u
        using d(2) [OF that] by simp
      show "note_key x \<le> note_key u" if "map_of m k = Some x" "u \<in> set (ts @ [t])" "note_task_open view u"
        "cs_TaskType u = k" for k x u
      proof (cases "u \<in> set ts")
        case True
        show ?thesis by (rule d(3) [OF that(1) True that(3,4)])
      next
        case False
        then have "u = t" using that(2) by simp
        then show ?thesis using kept(1,2) that(1,4) by simp
      qed
      show "map_of m (cs_TaskType u) \<noteq> None" if "u \<in> set (ts @ [t])" "note_task_open view u" for u
        using that kept(1) d(4) [of u] by auto
    qed
  next
    case new
    have upd: "map_of (AList.update (cs_TaskType t) t m) k = (if k = cs_TaskType t then Some t else map_of m k)" for k
      by (simp add: update_conv')
    have below: "note_key t \<le> note_key u" if u: "u \<in> set (ts @ [t])" "note_task_open view u"
      "cs_TaskType u = cs_TaskType t" for u
    proof (cases "u \<in> set ts")
      case True
      then obtain c where c: "map_of m (cs_TaskType t) = Some c" using d(4) [OF True u(2)] u(3) by auto
      show ?thesis using new(3) [OF c] d(3) [OF c True u(2,3)] by simp
    next
      case False
      then have "u = t" using u(1) by simp
      then show ?thesis by simp
    qed
    show ?thesis unfolding new(2)
    proof (rule note_chosenI)
      show "gomap_ok (AList.update (cs_TaskType t) t m)" using d(1) by (simp add: gomap_ok_def distinct_update)
      show "u \<in> set (ts @ [t]) \<and> note_task_open view u \<and> cs_TaskType u = k"
        if "map_of (AList.update (cs_TaskType t) t m) k = Some u" for k u
        using that new(1) d(2) [of k u] by (auto simp: upd split: if_splits)
      show "note_key x \<le> note_key u" if "map_of (AList.update (cs_TaskType t) t m) k = Some x"
        "u \<in> set (ts @ [t])" "note_task_open view u" "cs_TaskType u = k" for k x u
      proof (cases "k = cs_TaskType t")
        case True
        then show ?thesis using below [OF that(2,3)] that(1,4) by (simp add: upd)
      next
        case False
        then have "u \<in> set ts" using that(2,4) by auto
        then show ?thesis using d(3) [of k x u] that False by (simp add: upd)
      qed
      show "map_of (AList.update (cs_TaskType t) t m) (cs_TaskType u) \<noteq> None"
        if "u \<in> set (ts @ [t])" "note_task_open view u" for u
        using that d(4) [of u] by (auto simp: upd)
    qed
  qed
qed

lemma note_chosen_fold: "note_chosen view ts (fold (note_representative view) ts [])"
proof (induction ts rule: rev_induct)
  case Nil
  then show ?case by (simp add: note_chosen_def gomap_ok_def)
next
  case (snoc t ts)
  then show ?case using note_chosen_step [of view ts _ t] by simp
qed

text \<open>
  While the activity runs and the owner lets it satisfy its tasks, there is one
  demand for every supported type of task that has an open one, and it stands for the open task of
  that type with most left to do, of those the one in the lowest slot.
\<close>

lemma note_tasks_chosen:
  assumes "actions = cyclicNoteTaskActionDemands (Some view) ms" "actions \<noteq> []"
  shows "distinct (map na_TaskType actions) \<and>
    set (map na_TaskType actions) = cs_TaskType ` {t \<in> set (cn_Tasks view). note_task_open view t} \<and>
    (\<forall>a \<in> set actions. \<exists>t \<in> set (cn_Tasks view).
       note_task_open view t \<and> a = note_action_of view (cs_TaskType t) t \<and> 0 < dem_Missing (na_Demand a) \<and>
       (\<forall>u \<in> set (cn_Tasks view). note_task_open view u \<and> cs_TaskType u = cs_TaskType t \<longrightarrow>
          note_key t \<le> note_key u))"
proof -
  define m where "m = fold (note_representative view) (cn_Tasks view) []"
  have c: "note_chosen view (cn_Tasks view) m" unfolding m_def by (rule note_chosen_fold)
  have a: "actions = map (\<lambda>k. note_action_of view k (the (map_of m k))) (sort (map fst m))"
    using assms by (auto simp: cyclicNoteTaskActionDemands_def Let_def m_def split: if_splits)
  have types: "map na_TaskType actions = sort (map fst m)"
    by (simp add: a note_action_of_def Let_def comp_def)
  have dom: "fst ` set m = cs_TaskType ` {t \<in> set (cn_Tasks view). note_task_open view t}"
  proof -
    have "k \<in> fst ` set m \<longleftrightarrow> map_of m k \<noteq> None" for k by (simp add: map_of_eq_None_iff)
    then show ?thesis using note_chosenD(2,4) [OF c] by (simp add: set_eq_iff image_iff) (metis option.exhaust)
  qed
  have "\<exists>t \<in> set (cn_Tasks view). note_task_open view t \<and> x = note_action_of view (cs_TaskType t) t \<and>
      0 < dem_Missing (na_Demand x) \<and>
      (\<forall>u \<in> set (cn_Tasks view). note_task_open view u \<and> cs_TaskType u = cs_TaskType t \<longrightarrow> note_key t \<le> note_key u)"
    if x: "x \<in> set actions" for x
  proof -
    obtain k where k: "k \<in> fst ` set m" "x = note_action_of view k (the (map_of m k))" using x a by auto
    then obtain t where t: "map_of m k = Some t" by (metis map_of_eq_None_iff option.exhaust)
    then have p: "t \<in> set (cn_Tasks view)" "note_task_open view t" "cs_TaskType t = k"
      "\<forall>u \<in> set (cn_Tasks view). note_task_open view u \<and> cs_TaskType u = k \<longrightarrow> note_key t \<le> note_key u"
      using c by (auto simp: note_chosen_def)
    have "0 < dem_Missing (na_Demand x)"
      using p(2) k t by (simp add: note_action_of_def Let_def note_task_open_def note_remaining_def)
    then show ?thesis using p k t by auto
  qed
  moreover have "distinct (map na_TaskType actions)"
    using c by (simp add: types note_chosen_def gomap_ok_def)
  moreover have "set (map na_TaskType actions) = fst ` set m" by (simp add: types)
  ultimately show ?thesis using dom by simp
qed

definition note_slot :: "int \<Rightarrow> int \<Rightarrow> int \<Rightarrow> int \<Rightarrow> int \<Rightarrow> cyclic_note_slot" where
  "note_slot slot taskID taskType target progress = \<lparr>cs_SlotID = slot, cs_Unlocked = True, cs_TaskID = taskID,
     cs_TaskType = taskType, cs_Title = [], cs_Target = target, cs_Progress = progress,
     cs_ProgressObserved = True, cs_ReceiptObserved = True, cs_Received = False, cs_CatalogKnown = True\<rparr>"

definition sample_note :: cyclic_note_view where
  "sample_note = \<lparr>cn_Valid = True, cn_TaskListObserved = True, cn_TaskRecordObserved = True, cn_BatchID = 5,
     cn_Phase = 2, cn_FinishCount = 0,
     cn_Tasks = [note_slot 1 71 3016 5 4, note_slot 2 72 3001 6 1, note_slot 3 73 3016 9 2,
       note_slot 4 74 3016 7 7]\<rparr>"

end
