(* ===== verification/OrderTexts.thy ===== *)
theory OrderTexts
  imports Literals
begin

text \<open>
  The Chinese texts of the order planner (\<open>automation/orders.go\<close>, \<open>availability.go\<close>,
  \<open>goals_demands.go\<close>, \<open>customer_filter.go\<close>), as the byte strings the compiler stores.
\<close>

definition lit_resident_order :: string where \<comment> \<open>resident orders\<close>
  "lit_resident_order =
     [CHR 0xE5, CHR 0xB1, CHR 0x85, CHR 0xE6, CHR 0xB0, CHR 0x91, CHR 0xE8, CHR 0xAE, CHR 0xA2,
      CHR 0xE5, CHR 0x8D, CHR 0x95]"

definition lit_customer_order :: string where \<comment> \<open>customer orders\<close>
  "lit_customer_order =
     [CHR 0xE9, CHR 0xA1, CHR 0xBE, CHR 0xE5, CHR 0xAE, CHR 0xA2, CHR 0xE8, CHR 0xAE, CHR 0xA2,
      CHR 0xE5, CHR 0x8D, CHR 0x95]"

definition lit_palace_order :: string where \<comment> \<open>palace orders\<close>
  "lit_palace_order =
     [CHR 0xE5, CHR 0xAE, CHR 0xAB, CHR 0xE5, CHR 0xBB, CHR 0xB7, CHR 0xE8, CHR 0xAE, CHR 0xA2,
      CHR 0xE5, CHR 0x8D, CHR 0x95]"

definition lit_team_order :: string where \<comment> \<open>team orders\<close>
  "lit_team_order =
     [CHR 0xE7, CHR 0xBB, CHR 0x84, CHR 0xE5, CHR 0x9B, CHR 0xA2, CHR 0xE8, CHR 0xAE, CHR 0xA2,
      CHR 0xE5, CHR 0x8D, CHR 0x95]"

definition lit_art_goal :: string where \<comment> \<open>flower art and racks\<close>
  "lit_art_goal =
     [CHR 0xE8, CHR 0x8A, CHR 0xB1, CHR 0xE8, CHR 0x89, CHR 0xBA] @ ''/'' @ [CHR 0xE8, CHR 0x8A,
      CHR 0xB1, CHR 0xE6, CHR 0x9E, CHR 0xB6]"

definition lit_main_task :: string where \<comment> \<open>main task\<close>
  "lit_main_task =
     [CHR 0xE4, CHR 0xB8, CHR 0xBB, CHR 0xE7, CHR 0xBA, CHR 0xBF, CHR 0xE4, CHR 0xBB, CHR 0xBB,
      CHR 0xE5, CHR 0x8A, CHR 0xA1]"

definition lit_daily_tasks :: string where \<comment> \<open>daily tasks\<close>
  "lit_daily_tasks =
     [CHR 0xE6, CHR 0xAF, CHR 0x8F, CHR 0xE6, CHR 0x97, CHR 0xA5, CHR 0xE4, CHR 0xBB, CHR 0xBB,
      CHR 0xE5, CHR 0x8A, CHR 0xA1]"

definition lit_weekly_task :: string where \<comment> \<open>weekly tasks\<close>
  "lit_weekly_task =
     [CHR 0xE6, CHR 0xAF, CHR 0x8F, CHR 0xE5, CHR 0x91, CHR 0xA8, CHR 0xE4, CHR 0xBB, CHR 0xBB,
      CHR 0xE5, CHR 0x8A, CHR 0xA1]"

definition lit_satin_order :: string where \<comment> \<open>satin orders\<close>
  "lit_satin_order =
     [CHR 0xE7, CHR 0xBB, CHR 0xB8, CHR 0xE7, CHR 0xBC, CHR 0x8E, CHR 0xE5, CHR 0xB1, CHR 0x85,
      CHR 0xE6, CHR 0xB0, CHR 0x91, CHR 0xE8, CHR 0xAE, CHR 0xA2, CHR 0xE5, CHR 0x8D, CHR 0x95]"

definition lit_decorate_order :: string where \<comment> \<open>building-material orders\<close>
  "lit_decorate_order =
     [CHR 0xE5, CHR 0xBB, CHR 0xBA, CHR 0xE6, CHR 0x9D, CHR 0x90, CHR 0xE5, CHR 0xB1, CHR 0x85,
      CHR 0xE6, CHR 0xB0, CHR 0x91, CHR 0xE8, CHR 0xAE, CHR 0xA2, CHR 0xE5, CHR 0x8D, CHR 0x95]"

definition lit_no_recipe :: string where \<comment> \<open>no recipe\<close>
  "lit_no_recipe =
     [CHR 0xE7, CHR 0xBC, CHR 0xBA, CHR 0xE5, CHR 0xB0, CHR 0x91, CHR 0xE8, CHR 0x8A, CHR 0xB1,
      CHR 0xE8, CHR 0x89, CHR 0xBA, CHR 0xE9, CHR 0x85, CHR 0x8D, CHR 0xE6, CHR 0x96, CHR 0xB9]"

definition lit_vase_unseen :: string where \<comment> \<open>vases not observed\<close>
  "lit_vase_unseen =
     [CHR 0xE6, CHR 0x9C, CHR 0xAA, CHR 0xE8, CHR 0xA7, CHR 0x82, CHR 0xE5, CHR 0xAF, CHR 0x9F,
      CHR 0xE5, CHR 0x88, CHR 0xB0, CHR 0xE8, CHR 0x8A, CHR 0xB1, CHR 0xE7, CHR 0x93, CHR 0xB6,
      CHR 0xE7, CHR 0x8A, CHR 0xB6, CHR 0xE6, CHR 0x80, CHR 0x81] @ '' namespace 102''"

definition lit_vase :: string where \<comment> \<open>vase\<close>
  "lit_vase =
     [CHR 0xE8, CHR 0x8A, CHR 0xB1, CHR 0xE7, CHR 0x93, CHR 0xB6]"

definition lit_locked :: string where \<comment> \<open>locked\<close>
  "lit_locked =
     [CHR 0xE6, CHR 0x9C, CHR 0xAA, CHR 0xE8, CHR 0xA7, CHR 0xA3, CHR 0xE9, CHR 0x94, CHR 0x81]"

definition lit_flowers_short :: string where \<comment> \<open>not enough flowers\<close>
  "lit_flowers_short =
     [CHR 0xE8, CHR 0x8A, CHR 0xB1, CHR 0xE6, CHR 0x9C, CHR 0xB5, CHR 0xE5, CHR 0xBA, CHR 0x93,
      CHR 0xE5, CHR 0xAD, CHR 0x98, CHR 0xE4, CHR 0xB8, CHR 0x8D, CHR 0xE8, CHR 0xB6, CHR 0xB3]"

definition lit_lacks :: string where \<comment> \<open>lacks\<close>
  "lit_lacks =
     [CHR 0xE7, CHR 0xBC, CHR 0xBA, CHR 0xE5, CHR 0xB0, CHR 0x91]"

definition lit_make :: string where \<comment> \<open>make\<close>
  "lit_make =
     [CHR 0xE5, CHR 0x88, CHR 0xB6, CHR 0xE4, CHR 0xBD, CHR 0x9C]"

definition lit_server_cap :: string where \<comment> \<open>the server says the daily cap is reached\<close>
  "lit_server_cap =
     [CHR 0xE6, CHR 0x9C, CHR 0x8D, CHR 0xE5, CHR 0x8A, CHR 0xA1, CHR 0xE7, CHR 0xAB, CHR 0xAF,
      CHR 0xE6, CHR 0x8F, CHR 0x90, CHR 0xE7, CHR 0xA4, CHR 0xBA, CHR 0xE4, CHR 0xBB, CHR 0x8A,
      CHR 0xE6, CHR 0x97, CHR 0xA5, CHR 0xE5, CHR 0xAE, CHR 0x8C, CHR 0xE6, CHR 0x88, CHR 0x90,
      CHR 0xE8, CHR 0xAE, CHR 0xA2, CHR 0xE5, CHR 0x8D, CHR 0x95, CHR 0xE6, CHR 0xAC, CHR 0xA1,
      CHR 0xE6, CHR 0x95, CHR 0xB0, CHR 0xE5, CHR 0xB7, CHR 0xB2, CHR 0xE8, CHR 0xBE, CHR 0xBE,
      CHR 0xE4, CHR 0xB8, CHR 0x8A, CHR 0xE9, CHR 0x99, CHR 0x90, CHR 0xEF, CHR 0xBC, CHR 0x8C]"

definition lit_expected :: string where \<comment> \<open>expected\<close>
  "lit_expected =
     [CHR 0xE9, CHR 0xA2, CHR 0x84, CHR 0xE8, CHR 0xAE, CHR 0xA1]"

definition lit_retry_after :: string where \<comment> \<open>retry after\<close>
  "lit_retry_after =
     [CHR 0xE5, CHR 0x90, CHR 0x8E, CHR 0xE5, CHR 0x86, CHR 0x8D, CHR 0xE8, CHR 0xAF, CHR 0x95]"

definition lit_wait_midnight :: string where \<comment> \<open>wait for midnight\<close>
  "lit_wait_midnight =
     [CHR 0xE7, CHR 0xAD, CHR 0x89, CHR 0xE5, CHR 0xBE, CHR 0x85, CHR 0xE6, CHR 0xAC, CHR 0xA1,
      CHR 0xE6, CHR 0x97, CHR 0xA5] @ ''0'' @ [CHR 0xE7, CHR 0x82, CHR 0xB9, CHR 0xEF, CHR 0xBC,
      CHR 0x88]"

definition lit_then_continue :: string where \<comment> \<open>then continue\<close>
  "lit_then_continue =
     [CHR 0xEF, CHR 0xBC, CHR 0x89, CHR 0xE5, CHR 0x90, CHR 0x8E, CHR 0xE5, CHR 0x86, CHR 0x8D,
      CHR 0xE7, CHR 0xBB, CHR 0xA7, CHR 0xE7, CHR 0xBB, CHR 0xAD]"

definition lit_normal_prefix :: string where \<comment> \<open>ordinary resident orders\<close>
  "lit_normal_prefix =
     [CHR 0xE6, CHR 0x99, CHR 0xAE, CHR 0xE9, CHR 0x80, CHR 0x9A, CHR 0xE5, CHR 0xB1, CHR 0x85,
      CHR 0xE6, CHR 0xB0, CHR 0x91, CHR 0xE8, CHR 0xAE, CHR 0xA2, CHR 0xE5, CHR 0x8D, CHR 0x95]"

definition lit_cap_positive :: string where \<comment> \<open>the cap must be positive\<close>
  "lit_cap_positive =
     [CHR 0xE4, CHR 0xB8, CHR 0x8A, CHR 0xE9, CHR 0x99, CHR 0x90, CHR 0xE5, CHR 0xBF, CHR 0x85,
      CHR 0xE9, CHR 0xA1, CHR 0xBB, CHR 0xE5, CHR 0xA4, CHR 0xA7, CHR 0xE4, CHR 0xBA, CHR 0x8E] @
      '' 0''"

definition lit_positive :: string where \<comment> \<open>must be positive\<close>
  "lit_positive =
     [CHR 0xE5, CHR 0xBF, CHR 0x85, CHR 0xE9, CHR 0xA1, CHR 0xBB, CHR 0xE5, CHR 0xA4, CHR 0xA7,
      CHR 0xE4, CHR 0xBA, CHR 0x8E] @ '' 0''"

definition lit_done_today :: string where \<comment> \<open>done today\<close>
  "lit_done_today =
     [CHR 0xE4, CHR 0xBB, CHR 0x8A, CHR 0xE6, CHR 0x97, CHR 0xA5, CHR 0xE5, CHR 0xB7, CHR 0xB2,
      CHR 0xE5, CHR 0xAE, CHR 0x8C, CHR 0xE6, CHR 0x88, CHR 0x90]"

definition lit_resident_capped :: string where \<comment> \<open>resident orders capped today\<close>
  "lit_resident_capped =
     [CHR 0xE5, CHR 0xB1, CHR 0x85, CHR 0xE6, CHR 0xB0, CHR 0x91, CHR 0xE8, CHR 0xAE, CHR 0xA2,
      CHR 0xE5, CHR 0x8D, CHR 0x95, CHR 0xE4, CHR 0xBB, CHR 0x8A, CHR 0xE6, CHR 0x97, CHR 0xA5,
      CHR 0xE4, CHR 0xB8, CHR 0x8A, CHR 0xE9, CHR 0x99, CHR 0x90, CHR 0xE5, CHR 0xB7, CHR 0xB2,
      CHR 0xE8, CHR 0xBE, CHR 0xBE]"

definition lit_resident_cap_unset :: string where \<comment> \<open>cap of ordinary orders not set\<close>
  "lit_resident_cap_unset =
     [CHR 0xE5, CHR 0xB1, CHR 0x85, CHR 0xE6, CHR 0xB0, CHR 0x91, CHR 0xE8, CHR 0xAE, CHR 0xA2,
      CHR 0xE5, CHR 0x8D, CHR 0x95, CHR 0xE6, CHR 0x99, CHR 0xAE, CHR 0xE9, CHR 0x80, CHR 0x9A,
      CHR 0xE8, CHR 0xAE, CHR 0xA2, CHR 0xE5, CHR 0x8D, CHR 0x95, CHR 0xE4, CHR 0xB8, CHR 0x8A,
      CHR 0xE9, CHR 0x99, CHR 0x90, CHR 0xE6, CHR 0x9C, CHR 0xAA, CHR 0xE8, CHR 0xAE, CHR 0xBE,
      CHR 0xE7, CHR 0xBD, CHR 0xAE]"

definition lit_satin_capped :: string where \<comment> \<open>satin orders capped today\<close>
  "lit_satin_capped =
     [CHR 0xE7, CHR 0xBB, CHR 0xB8, CHR 0xE7, CHR 0xBC, CHR 0x8E, CHR 0xE5, CHR 0xB1, CHR 0x85,
      CHR 0xE6, CHR 0xB0, CHR 0x91, CHR 0xE8, CHR 0xAE, CHR 0xA2, CHR 0xE5, CHR 0x8D, CHR 0x95,
      CHR 0xE4, CHR 0xBB, CHR 0x8A, CHR 0xE6, CHR 0x97, CHR 0xA5, CHR 0xE4, CHR 0xB8, CHR 0x8A,
      CHR 0xE9, CHR 0x99, CHR 0x90, CHR 0xE5, CHR 0xB7, CHR 0xB2, CHR 0xE8, CHR 0xBE, CHR 0xBE]"

definition lit_decorate_capped :: string where \<comment> \<open>building-material orders capped today\<close>
  "lit_decorate_capped =
     [CHR 0xE5, CHR 0xBB, CHR 0xBA, CHR 0xE6, CHR 0x9D, CHR 0x90, CHR 0xE5, CHR 0xB1, CHR 0x85,
      CHR 0xE6, CHR 0xB0, CHR 0x91, CHR 0xE8, CHR 0xAE, CHR 0xA2, CHR 0xE5, CHR 0x8D, CHR 0x95,
      CHR 0xE4, CHR 0xBB, CHR 0x8A, CHR 0xE6, CHR 0x97, CHR 0xA5, CHR 0xE4, CHR 0xB8, CHR 0x8A,
      CHR 0xE9, CHR 0x99, CHR 0x90, CHR 0xE5, CHR 0xB7, CHR 0xB2, CHR 0xE8, CHR 0xBE, CHR 0xBE]"

definition lit_customer_capped :: string where \<comment> \<open>customer orders capped today\<close>
  "lit_customer_capped =
     [CHR 0xE9, CHR 0xA1, CHR 0xBE, CHR 0xE5, CHR 0xAE, CHR 0xA2, CHR 0xE8, CHR 0xAE, CHR 0xA2,
      CHR 0xE5, CHR 0x8D, CHR 0x95, CHR 0xE4, CHR 0xBB, CHR 0x8A, CHR 0xE6, CHR 0x97, CHR 0xA5,
      CHR 0xE4, CHR 0xB8, CHR 0x8A, CHR 0xE9, CHR 0x99, CHR 0x90, CHR 0xE5, CHR 0xB7, CHR 0xB2,
      CHR 0xE8, CHR 0xBE, CHR 0xBE]"

definition lit_satin_unsynced :: string where \<comment> \<open>satin orders not synchronised\<close>
  "lit_satin_unsynced =
     [CHR 0xE7, CHR 0xBB, CHR 0xB8, CHR 0xE7, CHR 0xBC, CHR 0x8E, CHR 0xE5, CHR 0xB1, CHR 0x85,
      CHR 0xE6, CHR 0xB0, CHR 0x91, CHR 0xE8, CHR 0xAE, CHR 0xA2, CHR 0xE5, CHR 0x8D, CHR 0x95,
      CHR 0xE6, CHR 0x9C, CHR 0xAA, CHR 0xE5, CHR 0x90, CHR 0x8C, CHR 0xE6, CHR 0xAD, CHR 0xA5]"

definition lit_decorate_unsynced :: string where \<comment> \<open>building-material orders not synchronised\<close>
  "lit_decorate_unsynced =
     [CHR 0xE5, CHR 0xBB, CHR 0xBA, CHR 0xE6, CHR 0x9D, CHR 0x90, CHR 0xE5, CHR 0xB1, CHR 0x85,
      CHR 0xE6, CHR 0xB0, CHR 0x91, CHR 0xE8, CHR 0xAE, CHR 0xA2, CHR 0xE5, CHR 0x8D, CHR 0x95,
      CHR 0xE6, CHR 0x9C, CHR 0xAA, CHR 0xE5, CHR 0x90, CHR 0x8C, CHR 0xE6, CHR 0xAD, CHR 0xA5]"

definition lit_satin_unseen :: string where \<comment> \<open>satin orders not observed\<close>
  "lit_satin_unseen =
     [CHR 0xE7, CHR 0xBB, CHR 0xB8, CHR 0xE7, CHR 0xBC, CHR 0x8E, CHR 0xE5, CHR 0xB1, CHR 0x85,
      CHR 0xE6, CHR 0xB0, CHR 0x91, CHR 0xE8, CHR 0xAE, CHR 0xA2, CHR 0xE5, CHR 0x8D, CHR 0x95,
      CHR 0xE7, CHR 0x8A, CHR 0xB6, CHR 0xE6, CHR 0x80, CHR 0x81, CHR 0xE6, CHR 0x9C, CHR 0xAA,
      CHR 0xE8, CHR 0xA7, CHR 0x82, CHR 0xE5, CHR 0xAF, CHR 0x9F, CHR 0xE5, CHR 0x88, CHR 0xB0]"

definition lit_decorate_unseen :: string where \<comment> \<open>building-material orders not observed\<close>
  "lit_decorate_unseen =
     [CHR 0xE5, CHR 0xBB, CHR 0xBA, CHR 0xE6, CHR 0x9D, CHR 0x90, CHR 0xE5, CHR 0xB1, CHR 0x85,
      CHR 0xE6, CHR 0xB0, CHR 0x91, CHR 0xE8, CHR 0xAE, CHR 0xA2, CHR 0xE5, CHR 0x8D, CHR 0x95,
      CHR 0xE7, CHR 0x8A, CHR 0xB6, CHR 0xE6, CHR 0x80, CHR 0x81, CHR 0xE6, CHR 0x9C, CHR 0xAA,
      CHR 0xE8, CHR 0xA7, CHR 0x82, CHR 0xE5, CHR 0xAF, CHR 0x9F, CHR 0xE5, CHR 0x88, CHR 0xB0]"

definition lit_satin_video :: string where \<comment> \<open>satin order needs a video\<close>
  "lit_satin_video =
     [CHR 0xE7, CHR 0xBB, CHR 0xB8, CHR 0xE7, CHR 0xBC, CHR 0x8E, CHR 0xE5, CHR 0xB1, CHR 0x85,
      CHR 0xE6, CHR 0xB0, CHR 0x91, CHR 0xE8, CHR 0xAE, CHR 0xA2, CHR 0xE5, CHR 0x8D, CHR 0x95,
      CHR 0xE9, CHR 0x9C, CHR 0x80, CHR 0xE7, CHR 0x9C, CHR 0x8B, CHR 0xE5, CHR 0xB9, CHR 0xBF,
      CHR 0xE5, CHR 0x91, CHR 0x8A]"

definition lit_decorate_video :: string where \<comment> \<open>building-material order needs a video\<close>
  "lit_decorate_video =
     [CHR 0xE5, CHR 0xBB, CHR 0xBA, CHR 0xE6, CHR 0x9D, CHR 0x90, CHR 0xE5, CHR 0xB1, CHR 0x85,
      CHR 0xE6, CHR 0xB0, CHR 0x91, CHR 0xE8, CHR 0xAE, CHR 0xA2, CHR 0xE5, CHR 0x8D, CHR 0x95,
      CHR 0xE9, CHR 0x9C, CHR 0x80, CHR 0xE7, CHR 0x9C, CHR 0x8B, CHR 0xE5, CHR 0xB9, CHR 0xBF,
      CHR 0xE5, CHR 0x91, CHR 0x8A]"

definition lit_satin_video_why :: string where \<comment> \<open>satin video order\<close>
  "lit_satin_video_why =
     [CHR 0xE5, CHR 0xBD, CHR 0x93, CHR 0xE5, CHR 0x89, CHR 0x8D, CHR 0xE7, CHR 0xBB, CHR 0xB8,
      CHR 0xE7, CHR 0xBC, CHR 0x8E, CHR 0xE8, CHR 0xAE, CHR 0xA2, CHR 0xE5, CHR 0x8D, CHR 0x95,
      CHR 0xE4, CHR 0xB8, CHR 0xBA, CHR 0xE5, CHR 0xB9, CHR 0xBF, CHR 0xE5, CHR 0x91, CHR 0x8A,
      CHR 0xE8, CHR 0xAE, CHR 0xA2, CHR 0xE5, CHR 0x8D, CHR 0x95, CHR 0xEF, CHR 0xBC, CHR 0x8C,
      CHR 0xE6, CHR 0x9A, CHR 0x82, CHR 0xE4, CHR 0xB8, CHR 0x8D, CHR 0xE8, CHR 0x87, CHR 0xAA,
      CHR 0xE5, CHR 0x8A, CHR 0xA8, CHR 0xE6, CHR 0x8F, CHR 0x90, CHR 0xE4, CHR 0xBA, CHR 0xA4,
      CHR 0xEF, CHR 0xBC, CHR 0x9B, CHR 0xE8, CHR 0xAF, CHR 0xB7, CHR 0xE8, CHR 0x87, CHR 0xAA,
      CHR 0xE8, CHR 0xA1, CHR 0x8C, CHR 0xE7, CHR 0x9C, CHR 0x8B, CHR 0xE5, CHR 0xB9, CHR 0xBF,
      CHR 0xE5, CHR 0x91, CHR 0x8A, CHR 0xEF, CHR 0xBC, CHR 0x8C, CHR 0xE7, CHR 0x9C, CHR 0x8B,
      CHR 0xE5, CHR 0xAE, CHR 0x8C, CHR 0xE6, CHR 0x88, CHR 0x96, CHR 0xE9, CHR 0x87, CHR 0x8D,
      CHR 0xE5, CHR 0x90, CHR 0xAF, CHR 0xE5, CHR 0x90, CHR 0x8E, CHR 0xE4, CHR 0xBC, CHR 0x9A,
      CHR 0xE9, CHR 0x87, CHR 0x8D, CHR 0xE6, CHR 0x96, CHR 0xB0, CHR 0xE5, CHR 0x90, CHR 0x8C,
      CHR 0xE6, CHR 0xAD, CHR 0xA5, CHR 0xE5, CHR 0xB9, CHR 0xB6, CHR 0xE7, CHR 0xBB, CHR 0xA7,
      CHR 0xE7, CHR 0xBB, CHR 0xAD]"

definition lit_decorate_video_why :: string where \<comment> \<open>material video order\<close>
  "lit_decorate_video_why =
     [CHR 0xE5, CHR 0xBD, CHR 0x93, CHR 0xE5, CHR 0x89, CHR 0x8D, CHR 0xE5, CHR 0xBB, CHR 0xBA,
      CHR 0xE6, CHR 0x9D, CHR 0x90, CHR 0xE8, CHR 0xAE, CHR 0xA2, CHR 0xE5, CHR 0x8D, CHR 0x95,
      CHR 0xE4, CHR 0xB8, CHR 0xBA, CHR 0xE5, CHR 0xB9, CHR 0xBF, CHR 0xE5, CHR 0x91, CHR 0x8A,
      CHR 0xE8, CHR 0xAE, CHR 0xA2, CHR 0xE5, CHR 0x8D, CHR 0x95, CHR 0xEF, CHR 0xBC, CHR 0x8C,
      CHR 0xE6, CHR 0x9A, CHR 0x82, CHR 0xE4, CHR 0xB8, CHR 0x8D, CHR 0xE8, CHR 0x87, CHR 0xAA,
      CHR 0xE5, CHR 0x8A, CHR 0xA8, CHR 0xE6, CHR 0x8F, CHR 0x90, CHR 0xE4, CHR 0xBA, CHR 0xA4,
      CHR 0xEF, CHR 0xBC, CHR 0x9B, CHR 0xE8, CHR 0xAF, CHR 0xB7, CHR 0xE8, CHR 0x87, CHR 0xAA,
      CHR 0xE8, CHR 0xA1, CHR 0x8C, CHR 0xE7, CHR 0x9C, CHR 0x8B, CHR 0xE5, CHR 0xB9, CHR 0xBF,
      CHR 0xE5, CHR 0x91, CHR 0x8A, CHR 0xEF, CHR 0xBC, CHR 0x8C, CHR 0xE7, CHR 0x9C, CHR 0x8B,
      CHR 0xE5, CHR 0xAE, CHR 0x8C, CHR 0xE6, CHR 0x88, CHR 0x96, CHR 0xE9, CHR 0x87, CHR 0x8D,
      CHR 0xE5, CHR 0x90, CHR 0xAF, CHR 0xE5, CHR 0x90, CHR 0x8E, CHR 0xE4, CHR 0xBC, CHR 0x9A,
      CHR 0xE9, CHR 0x87, CHR 0x8D, CHR 0xE6, CHR 0x96, CHR 0xB0, CHR 0xE5, CHR 0x90, CHR 0x8C,
      CHR 0xE6, CHR 0xAD, CHR 0xA5, CHR 0xE5, CHR 0xB9, CHR 0xB6, CHR 0xE7, CHR 0xBB, CHR 0xA7,
      CHR 0xE7, CHR 0xBB, CHR 0xAD]"

definition lit_no_needs :: string where \<comment> \<open>no recognisable needs\<close>
  "lit_no_needs =
     [CHR 0xE7, CHR 0xBC, CHR 0xBA, CHR 0xE5, CHR 0xB0, CHR 0x91, CHR 0xE5, CHR 0x8F, CHR 0xAF,
      CHR 0xE8, CHR 0xAF, CHR 0x86, CHR 0xE5, CHR 0x88, CHR 0xAB, CHR 0xE9, CHR 0x9C, CHR 0x80,
      CHR 0xE6, CHR 0xB1, CHR 0x82]"

definition lit_bad_quality :: string where \<comment> \<open>quality outside the policy\<close>
  "lit_bad_quality =
     [CHR 0xE5, CHR 0x93, CHR 0x81, CHR 0xE8, CHR 0xB4, CHR 0xA8, CHR 0xE4, CHR 0xB8, CHR 0x8D,
      CHR 0xE7, CHR 0xAC, CHR 0xA6, CHR 0xE5, CHR 0x90, CHR 0x88, CHR 0xE7, CHR 0xAD, CHR 0x96,
      CHR 0xE7, CHR 0x95, CHR 0xA5]"

definition lit_quality :: string where \<comment> \<open>quality\<close>
  "lit_quality =
     [CHR 0xE5, CHR 0x93, CHR 0x81, CHR 0xE8, CHR 0xB4, CHR 0xA8]"

definition lit_not_in_policy :: string where \<comment> \<open>not in the policy\<close>
  "lit_not_in_policy =
     [CHR 0xE4, CHR 0xB8, CHR 0x8D, CHR 0xE5, CHR 0x9C, CHR 0xA8, CHR 0xE7, CHR 0xAD, CHR 0x96,
      CHR 0xE7, CHR 0x95, CHR 0xA5, CHR 0xE8, CHR 0x8C, CHR 0x83, CHR 0xE5, CHR 0x9B, CHR 0xB4,
      CHR 0xE5, CHR 0x86, CHR 0x85]"

definition lit_deliverable :: string where \<comment> \<open>deliverable\<close>
  "lit_deliverable =
     [CHR 0xE5, CHR 0x8F, CHR 0xAF, CHR 0xE4, CHR 0xBA, CHR 0xA4, CHR 0xE4, CHR 0xBB, CHR 0x98]"

definition lit_stats_unseen :: string where \<comment> \<open>statistics not observed\<close>
  "lit_stats_unseen =
     [CHR 0xEF, CHR 0xBC, CHR 0x9B, CHR 0xE6, CHR 0x9C, CHR 0xAA, CHR 0xE8, CHR 0xA7, CHR 0x82,
      CHR 0xE5, CHR 0xAF, CHR 0x9F, CHR 0xE5, CHR 0x88, CHR 0xB0, CHR 0xE4, CHR 0xBB, CHR 0x8A,
      CHR 0xE6, CHR 0x97, CHR 0xA5, CHR 0xE7, CHR 0xBB, CHR 0x9F, CHR 0xE8, CHR 0xAE, CHR 0xA1] @
      '' namespace 124''"

definition lit_stage_reward :: string where \<comment> \<open>stage reward\<close>
  "lit_stage_reward =
     [CHR 0xE5, CHR 0xB1, CHR 0x85, CHR 0xE6, CHR 0xB0, CHR 0x91, CHR 0xE8, CHR 0xAE, CHR 0xA2,
      CHR 0xE5, CHR 0x8D, CHR 0x95, CHR 0xE9, CHR 0x98, CHR 0xB6, CHR 0xE6, CHR 0xAE, CHR 0xB5,
      CHR 0xE5, CHR 0xA5, CHR 0x96, CHR 0xE5, CHR 0x8A, CHR 0xB1, CHR 0xE5, CHR 0x8F, CHR 0xAF,
      CHR 0xE9, CHR 0xA2, CHR 0x86, CHR 0xE5, CHR 0x8F, CHR 0x96]"

definition lit_art_pieces :: string where \<comment> \<open>pieces of flower art\<close>
  "lit_art_pieces =
     [CHR 0xE9, CHR 0xA1, CHR 0xBE, CHR 0xE5, CHR 0xAE, CHR 0xA2, CHR 0xE8, CHR 0xAE, CHR 0xA2,
      CHR 0xE5, CHR 0x8D, CHR 0x95, CHR 0xE8, CHR 0x8A, CHR 0xB1, CHR 0xE8, CHR 0x89, CHR 0xBA,
      CHR 0xE4, CHR 0xBB, CHR 0xB6, CHR 0xE6, CHR 0x95, CHR 0xB0]"

definition lit_minimum :: string where \<comment> \<open>minimum\<close>
  "lit_minimum =
     [CHR 0xE6, CHR 0x9C, CHR 0x80, CHR 0xE4, CHR 0xBD, CHR 0x8E, CHR 0xE8, CHR 0xA6, CHR 0x81,
      CHR 0xE6, CHR 0xB1, CHR 0x82]"

definition lit_refuse :: string where \<comment> \<open>refuse\<close>
  "lit_refuse =
     [CHR 0xEF, CHR 0xBC, CHR 0x8C, CHR 0xE6, CHR 0x89, CHR 0xA7, CHR 0xE8, CHR 0xA1, CHR 0x8C,
      CHR 0xE6, CHR 0x8B, CHR 0x92, CHR 0xE7, CHR 0xBB, CHR 0x9D]"

definition lit_out_of_stock :: string where \<comment> \<open>out of stock\<close>
  "lit_out_of_stock =
     [CHR 0xE9, CHR 0xA1, CHR 0xBE, CHR 0xE5, CHR 0xAE, CHR 0xA2, CHR 0xE8, CHR 0xAE, CHR 0xA2,
      CHR 0xE5, CHR 0x8D, CHR 0x95, CHR 0xE5, CHR 0xBA, CHR 0x93, CHR 0xE5, CHR 0xAD, CHR 0x98,
      CHR 0xE4, CHR 0xB8, CHR 0x8D, CHR 0xE8, CHR 0xB6, CHR 0xB3, CHR 0xE4, CHR 0xB8, CHR 0x94,
      CHR 0xE6, CHR 0x97, CHR 0xA0, CHR 0xE6, CHR 0xB3, CHR 0x95, CHR 0xE5, CHR 0x88, CHR 0xB6,
      CHR 0xE4, CHR 0xBD, CHR 0x9C, CHR 0xEF, CHR 0xBC, CHR 0x8C, CHR 0xE6, CHR 0x89, CHR 0xA7,
      CHR 0xE8, CHR 0xA1, CHR 0x8C, CHR 0xE6, CHR 0x9A, CHR 0x82, CHR 0xE6, CHR 0x97, CHR 0xB6,
      CHR 0xE6, CHR 0x97, CHR 0xA0, CHR 0xE8, CHR 0xB4, CHR 0xA7]"

definition lit_out_of_stock_wait :: string where \<comment> \<open>out of stock, waiting\<close>
  "lit_out_of_stock_wait =
     [CHR 0xE9, CHR 0xA1, CHR 0xBE, CHR 0xE5, CHR 0xAE, CHR 0xA2, CHR 0xE8, CHR 0xAE, CHR 0xA2,
      CHR 0xE5, CHR 0x8D, CHR 0x95, CHR 0xE5, CHR 0xBA, CHR 0x93, CHR 0xE5, CHR 0xAD, CHR 0x98,
      CHR 0xE4, CHR 0xB8, CHR 0x8D, CHR 0xE8, CHR 0xB6, CHR 0xB3, CHR 0xE4, CHR 0xB8, CHR 0x94,
      CHR 0xE6, CHR 0x97, CHR 0xA0, CHR 0xE6, CHR 0xB3, CHR 0x95, CHR 0xE5, CHR 0x88, CHR 0xB6,
      CHR 0xE4, CHR 0xBD, CHR 0x9C, CHR 0xEF, CHR 0xBC, CHR 0x8C, CHR 0xE7, CHR 0xAD, CHR 0x89,
      CHR 0xE5, CHR 0xBE, CHR 0x85, CHR 0xE7, CHR 0xAD, CHR 0x96, CHR 0xE7, CHR 0x95, CHR 0xA5,
      CHR 0xE5, CHR 0x85, CHR 0x81, CHR 0xE8, CHR 0xAE, CHR 0xB8, CHR 0xE6, CHR 0x9A, CHR 0x82,
      CHR 0xE6, CHR 0x97, CHR 0xB6, CHR 0xE6, CHR 0x97, CHR 0xA0, CHR 0xE8, CHR 0xB4, CHR 0xA7]"

definition lit_reject_off :: string where \<comment> \<open>rejecting switched off\<close>
  "lit_reject_off =
     ''order.customer.reject_unavailable_enabled '' @ [CHR 0xE6, CHR 0x9C, CHR 0xAA, CHR 0xE5,
      CHR 0xBC, CHR 0x80, CHR 0xE5, CHR 0x90, CHR 0xAF]"

definition lit_no_stock_no_craft :: string where \<comment> \<open>no stock and no craft\<close>
  "lit_no_stock_no_craft =
     [CHR 0xE5, CHR 0xBA, CHR 0x93, CHR 0xE5, CHR 0xAD, CHR 0x98, CHR 0xE4, CHR 0xB8, CHR 0x8D,
      CHR 0xE8, CHR 0xB6, CHR 0xB3, CHR 0xE4, CHR 0xB8, CHR 0x94, CHR 0xE6, CHR 0x97, CHR 0xA0,
      CHR 0xE6, CHR 0xB3, CHR 0x95, CHR 0xE5, CHR 0x88, CHR 0xB6, CHR 0xE4, CHR 0xBD, CHR 0x9C]"

definition lit_generate_customers :: string where \<comment> \<open>generate customers\<close>
  "lit_generate_customers =
     [CHR 0xE9, CHR 0xA1, CHR 0xBE, CHR 0xE5, CHR 0xAE, CHR 0xA2, CHR 0xE8, CHR 0xAE, CHR 0xA2,
      CHR 0xE5, CHR 0x8D, CHR 0x95, CHR 0xE4, CHR 0xB8, CHR 0xBA, CHR 0xE7, CHR 0xA9, CHR 0xBA,
      CHR 0xE4, CHR 0xB8, CHR 0x94, CHR 0xE5, CHR 0x88, CHR 0xB7, CHR 0xE6, CHR 0x96, CHR 0xB0,
      CHR 0xE6, CHR 0x97, CHR 0xB6, CHR 0xE9, CHR 0x97, CHR 0xB4, CHR 0xE5, CHR 0xB7, CHR 0xB2,
      CHR 0xE5, CHR 0x88, CHR 0xB0, CHR 0xEF, CHR 0xBC, CHR 0x8C, CHR 0xE7, CHR 0x94, CHR 0x9F,
      CHR 0xE6, CHR 0x88, CHR 0x90, CHR 0xE9, CHR 0xA1, CHR 0xBE, CHR 0xE5, CHR 0xAE, CHR 0xA2,
      CHR 0xE8, CHR 0xAE, CHR 0xA2, CHR 0xE5, CHR 0x8D, CHR 0x95]"

definition lit_palace_unsynced :: string where \<comment> \<open>palace not synchronised\<close>
  "lit_palace_unsynced =
     [CHR 0xE5, CHR 0xAE, CHR 0xAB, CHR 0xE5, CHR 0xBB, CHR 0xB7, CHR 0xE8, CHR 0xAE, CHR 0xA2,
      CHR 0xE5, CHR 0x8D, CHR 0x95, CHR 0xE6, CHR 0x9C, CHR 0xAA, CHR 0xE5, CHR 0x90, CHR 0x8C,
      CHR 0xE6, CHR 0xAD, CHR 0xA5, CHR 0xEF, CHR 0xBC, CHR 0x8C, CHR 0xE4, CHR 0xBF, CHR 0x9D,
      CHR 0xE7, CHR 0x95, CHR 0x99, CHR 0xE5, CHR 0x90, CHR 0x8C, CHR 0xE6, CHR 0xAD, CHR 0xA5,
      CHR 0xE6, CHR 0x8F, CHR 0x90, CHR 0xE7, CHR 0xA4, CHR 0xBA]"

definition lit_palace_sync_only :: string where \<comment> \<open>palace sync only\<close>
  "lit_palace_sync_only =
     [CHR 0xE5, CHR 0xAE, CHR 0xAB, CHR 0xE5, CHR 0xBB, CHR 0xB7, CHR 0xE8, CHR 0xAE, CHR 0xA2,
      CHR 0xE5, CHR 0x8D, CHR 0x95, CHR 0xE6, CHR 0x9C, CHR 0xAC, CHR 0xE8, CHR 0xBD, CHR 0xAE,
      CHR 0xE4, CHR 0xBF, CHR 0x9D, CHR 0xE6, CHR 0x8C, CHR 0x81] @ '' sync_only'' @ [CHR 0xEF,
      CHR 0xBC, CHR 0x8C, CHR 0xE4, CHR 0xB8, CHR 0x8D, CHR 0xE8, CHR 0x87, CHR 0xAA, CHR 0xE5,
      CHR 0x8A, CHR 0xA8, CHR 0xE6, CHR 0x89, CHR 0xA7, CHR 0xE8, CHR 0xA1, CHR 0x8C] @ '' RPC''"

definition lit_palace_paused :: string where \<comment> \<open>palace deliverable, paused\<close>
  "lit_palace_paused =
     [CHR 0xE5, CHR 0xAE, CHR 0xAB, CHR 0xE5, CHR 0xBB, CHR 0xB7, CHR 0xE8, CHR 0xAE, CHR 0xA2,
      CHR 0xE5, CHR 0x8D, CHR 0x95, CHR 0xE5, CHR 0x8F, CHR 0xAF, CHR 0xE4, CHR 0xBA, CHR 0xA4,
      CHR 0xE4, CHR 0xBB, CHR 0x98, CHR 0xE4, CHR 0xBD, CHR 0x86, CHR 0xE6, CHR 0x89, CHR 0xA7,
      CHR 0xE8, CHR 0xA1, CHR 0x8C, CHR 0xE5, CHR 0x8C, CHR 0x96, CHR 0xE6, CHR 0x9A, CHR 0x82,
      CHR 0xE5, CHR 0x81, CHR 0x9C]"

definition lit_palace_no_submit :: string where \<comment> \<open>palace not submitted\<close>
  "lit_palace_no_submit =
     [CHR 0xE5, CHR 0xAE, CHR 0xAB, CHR 0xE5, CHR 0xBB, CHR 0xB7, CHR 0xE8, CHR 0xAE, CHR 0xA2,
      CHR 0xE5, CHR 0x8D, CHR 0x95, CHR 0xE6, CHR 0x9C, CHR 0xAC, CHR 0xE8, CHR 0xBD, CHR 0xAE,
      CHR 0xE4, CHR 0xBF, CHR 0x9D, CHR 0xE6, CHR 0x8C, CHR 0x81] @ '' sync_only'' @ [CHR 0xEF,
      CHR 0xBC, CHR 0x8C, CHR 0xE4, CHR 0xB8, CHR 0x8D, CHR 0xE8, CHR 0x87, CHR 0xAA, CHR 0xE5,
      CHR 0x8A, CHR 0xA8, CHR 0xE6, CHR 0x8F, CHR 0x90, CHR 0xE4, CHR 0xBA, CHR 0xA4]"

definition lit_palace_blocked :: string where \<comment> \<open>palace blocked\<close>
  "lit_palace_blocked =
     [CHR 0xE5, CHR 0xAE, CHR 0xAB, CHR 0xE5, CHR 0xBB, CHR 0xB7, CHR 0xE8, CHR 0xAE, CHR 0xA2,
      CHR 0xE5, CHR 0x8D, CHR 0x95, CHR 0xE6, CHR 0x9A, CHR 0x82, CHR 0xE4, CHR 0xB8, CHR 0x8D,
      CHR 0xE5, CHR 0x8F, CHR 0xAF, CHR 0xE6, CHR 0x8F, CHR 0x90, CHR 0xE4, CHR 0xBA, CHR 0xA4]"

definition lit_palace_finished :: string where \<comment> \<open>palace finished or no needs\<close>
  "lit_palace_finished =
     [CHR 0xE5, CHR 0xAE, CHR 0xAB, CHR 0xE5, CHR 0xBB, CHR 0xB7, CHR 0xE8, CHR 0xAE, CHR 0xA2,
      CHR 0xE5, CHR 0x8D, CHR 0x95, CHR 0xE7, CHR 0x8A, CHR 0xB6, CHR 0xE6, CHR 0x80, CHR 0x81,
      CHR 0xE6, CHR 0x98, CHR 0xBE, CHR 0xE7, CHR 0xA4, CHR 0xBA, CHR 0xE5, CHR 0xB7, CHR 0xB2,
      CHR 0xE5, CHR 0xAE, CHR 0x8C, CHR 0xE6, CHR 0x88, CHR 0x90, CHR 0xE6, CHR 0x88, CHR 0x96,
      CHR 0xE7, CHR 0xBC, CHR 0xBA, CHR 0xE5, CHR 0xB0, CHR 0x91, CHR 0xE5, CHR 0x8F, CHR 0xAF,
      CHR 0xE8, CHR 0xAF, CHR 0x86, CHR 0xE5, CHR 0x88, CHR 0xAB, CHR 0xE9, CHR 0x9C, CHR 0x80,
      CHR 0xE6, CHR 0xB1, CHR 0x82]"

definition lit_team_unsynced :: string where \<comment> \<open>team not synchronised\<close>
  "lit_team_unsynced =
     [CHR 0xE7, CHR 0xBB, CHR 0x84, CHR 0xE5, CHR 0x9B, CHR 0xA2, CHR 0xE8, CHR 0xAE, CHR 0xA2,
      CHR 0xE5, CHR 0x8D, CHR 0x95, CHR 0xE6, CHR 0x9C, CHR 0xAA, CHR 0xE5, CHR 0x90, CHR 0x8C,
      CHR 0xE6, CHR 0xAD, CHR 0xA5, CHR 0xEF, CHR 0xBC, CHR 0x8C, CHR 0xE4, CHR 0xBF, CHR 0x9D,
      CHR 0xE7, CHR 0x95, CHR 0x99, CHR 0xE5, CHR 0x90, CHR 0x8C, CHR 0xE6, CHR 0xAD, CHR 0xA5,
      CHR 0xE6, CHR 0x8F, CHR 0x90, CHR 0xE7, CHR 0xA4, CHR 0xBA]"

definition lit_team_sync_only :: string where \<comment> \<open>team sync only\<close>
  "lit_team_sync_only =
     [CHR 0xE7, CHR 0xBB, CHR 0x84, CHR 0xE5, CHR 0x9B, CHR 0xA2, CHR 0xE8, CHR 0xAE, CHR 0xA2,
      CHR 0xE5, CHR 0x8D, CHR 0x95, CHR 0xE6, CHR 0x9C, CHR 0xAC, CHR 0xE8, CHR 0xBD, CHR 0xAE,
      CHR 0xE4, CHR 0xBF, CHR 0x9D, CHR 0xE6, CHR 0x8C, CHR 0x81] @ '' sync_only'' @ [CHR 0xEF,
      CHR 0xBC, CHR 0x8C, CHR 0xE4, CHR 0xB8, CHR 0x8D, CHR 0xE8, CHR 0x87, CHR 0xAA, CHR 0xE5,
      CHR 0x8A, CHR 0xA8, CHR 0xE6, CHR 0x89, CHR 0xA7, CHR 0xE8, CHR 0xA1, CHR 0x8C] @ '' RPC''"

definition lit_team_paused :: string where \<comment> \<open>team submittable, paused\<close>
  "lit_team_paused =
     [CHR 0xE7, CHR 0xBB, CHR 0x84, CHR 0xE5, CHR 0x9B, CHR 0xA2, CHR 0xE8, CHR 0xAE, CHR 0xA2,
      CHR 0xE5, CHR 0x8D, CHR 0x95, CHR 0xE5, CHR 0x8F, CHR 0xAF, CHR 0xE6, CHR 0x8F, CHR 0x90,
      CHR 0xE4, CHR 0xBA, CHR 0xA4, CHR 0xE4, CHR 0xBD, CHR 0x86, CHR 0xE6, CHR 0x89, CHR 0xA7,
      CHR 0xE8, CHR 0xA1, CHR 0x8C, CHR 0xE5, CHR 0x8C, CHR 0x96, CHR 0xE6, CHR 0x9A, CHR 0x82,
      CHR 0xE5, CHR 0x81, CHR 0x9C]"

definition lit_team_no_submit :: string where \<comment> \<open>team not submitted\<close>
  "lit_team_no_submit =
     [CHR 0xE7, CHR 0xBB, CHR 0x84, CHR 0xE5, CHR 0x9B, CHR 0xA2, CHR 0xE8, CHR 0xAE, CHR 0xA2,
      CHR 0xE5, CHR 0x8D, CHR 0x95, CHR 0xE6, CHR 0x9C, CHR 0xAC, CHR 0xE8, CHR 0xBD, CHR 0xAE,
      CHR 0xE4, CHR 0xBF, CHR 0x9D, CHR 0xE6, CHR 0x8C, CHR 0x81] @ '' sync_only'' @ [CHR 0xEF,
      CHR 0xBC, CHR 0x8C, CHR 0xE4, CHR 0xB8, CHR 0x8D, CHR 0xE8, CHR 0x87, CHR 0xAA, CHR 0xE5,
      CHR 0x8A, CHR 0xA8, CHR 0xE6, CHR 0x8F, CHR 0x90, CHR 0xE4, CHR 0xBA, CHR 0xA4]"

definition lit_team_blocked :: string where \<comment> \<open>team blocked\<close>
  "lit_team_blocked =
     [CHR 0xE7, CHR 0xBB, CHR 0x84, CHR 0xE5, CHR 0x9B, CHR 0xA2, CHR 0xE8, CHR 0xAE, CHR 0xA2,
      CHR 0xE5, CHR 0x8D, CHR 0x95, CHR 0xE6, CHR 0x9A, CHR 0x82, CHR 0xE4, CHR 0xB8, CHR 0x8D,
      CHR 0xE5, CHR 0x8F, CHR 0xAF, CHR 0xE6, CHR 0x8F, CHR 0x90, CHR 0xE4, CHR 0xBA, CHR 0xA4]"

definition lit_team_no_needs :: string where \<comment> \<open>team without needs\<close>
  "lit_team_no_needs =
     [CHR 0xE7, CHR 0xBB, CHR 0x84, CHR 0xE5, CHR 0x9B, CHR 0xA2, CHR 0xE8, CHR 0xAE, CHR 0xA2,
      CHR 0xE5, CHR 0x8D, CHR 0x95, CHR 0xE7, CHR 0xBC, CHR 0xBA, CHR 0xE5, CHR 0xB0, CHR 0x91,
      CHR 0xE5, CHR 0x8F, CHR 0xAF, CHR 0xE8, CHR 0xAF, CHR 0x86, CHR 0xE5, CHR 0x88, CHR 0xAB,
      CHR 0xE9, CHR 0x9C, CHR 0x80, CHR 0xE6, CHR 0xB1, CHR 0x82]"

definition lit_order_unseen :: string where \<comment> \<open>order not observed\<close>
  "lit_order_unseen =
     [CHR 0xE8, CHR 0xAE, CHR 0xA2, CHR 0xE5, CHR 0x8D, CHR 0x95, CHR 0xE7, CHR 0x8A, CHR 0xB6,
      CHR 0xE6, CHR 0x80, CHR 0x81, CHR 0xE6, CHR 0x9C, CHR 0xAA, CHR 0xE8, CHR 0xA7, CHR 0x82,
      CHR 0xE5, CHR 0xAF, CHR 0x9F, CHR 0xE5, CHR 0x88, CHR 0xB0]"

definition lit_order_no_flower :: string where \<comment> \<open>order without flower\<close>
  "lit_order_no_flower =
     [CHR 0xE8, CHR 0xAE, CHR 0xA2, CHR 0xE5, CHR 0x8D, CHR 0x95, CHR 0xE7, CHR 0xBC, CHR 0xBA,
      CHR 0xE5, CHR 0xB0, CHR 0x91, CHR 0xE5, CHR 0x8F, CHR 0xAF, CHR 0xE8, CHR 0xAF, CHR 0x86,
      CHR 0xE5, CHR 0x88, CHR 0xAB, CHR 0xE8, CHR 0x8A, CHR 0xB1, CHR 0xE6, CHR 0x9C, CHR 0xB5,
      CHR 0xE9, CHR 0x9C, CHR 0x80, CHR 0xE6, CHR 0xB1, CHR 0x82]"

definition lit_order_uncultivated :: string where \<comment> \<open>not cultivated\<close>
  "lit_order_uncultivated =
     [CHR 0xE6, CHR 0x9C, CHR 0xAA, CHR 0xE8, CHR 0xBE, CHR 0xBE, CHR 0xE5, CHR 0x88, CHR 0xB0,
      CHR 0xE5, CHR 0xB7, CHR 0xB2, CHR 0xE5, CHR 0x9F, CHR 0xB9, CHR 0xE8, CHR 0x82, CHR 0xB2,
      CHR 0xE5, CHR 0x8F, CHR 0xAF, CHR 0xE6, CHR 0x8F, CHR 0x90, CHR 0xE4, CHR 0xBA, CHR 0xA4,
      CHR 0xE6, CHR 0x9D, CHR 0xA1, CHR 0xE4, CHR 0xBB, CHR 0xB6]"

definition lit_create_reward :: string where \<comment> \<open>creation reward\<close>
  "lit_create_reward =
     [CHR 0xE8, CHR 0x8A, CHR 0xB1, CHR 0xE8, CHR 0x89, CHR 0xBA, CHR 0xE5, CHR 0x88, CHR 0xB6,
      CHR 0xE4, CHR 0xBD, CHR 0x9C, CHR 0xE7, CHR 0xBB, CHR 0x8F, CHR 0xE9, CHR 0xAA, CHR 0x8C,
      CHR 0xE5, CHR 0xA5, CHR 0x96, CHR 0xE5, CHR 0x8A, CHR 0xB1, CHR 0xE5, CHR 0x8F, CHR 0xAF,
      CHR 0xE9, CHR 0xA2, CHR 0x86, CHR 0xE5, CHR 0x8F, CHR 0x96]"

definition lit_collect_reward :: string where \<comment> \<open>collection reward\<close>
  "lit_collect_reward =
     [CHR 0xE5, CHR 0x9B, CHR 0xBE, CHR 0xE9, CHR 0x89, CHR 0xB4, CHR 0xE5, CHR 0xA5, CHR 0x96,
      CHR 0xE5, CHR 0x8A, CHR 0xB1, CHR 0xE5, CHR 0x8F, CHR 0xAF, CHR 0xE9, CHR 0xA2, CHR 0x86,
      CHR 0xE5, CHR 0x8F, CHR 0x96]"

definition lit_rack_sold :: string where \<comment> \<open>rack sold\<close>
  "lit_rack_sold =
     [CHR 0xE8, CHR 0x8A, CHR 0xB1, CHR 0xE6, CHR 0x9E, CHR 0xB6, CHR 0xE5, CHR 0x94, CHR 0xAE,
      CHR 0xE5, CHR 0x8D, CHR 0x96, CHR 0xE6, CHR 0x97, CHR 0xB6, CHR 0xE9, CHR 0x97, CHR 0xB4,
      CHR 0xE5, CHR 0xB7, CHR 0xB2, CHR 0xE5, CHR 0x88, CHR 0xB0, CHR 0xEF, CHR 0xBC, CHR 0x8C,
      CHR 0xE5, CHR 0x8F, CHR 0xAF, CHR 0xE9, CHR 0xA2, CHR 0x86, CHR 0xE5, CHR 0x8F, CHR 0x96,
      CHR 0xE6, CHR 0x94, CHR 0xB6, CHR 0xE7, CHR 0x9B, CHR 0x8A]"

definition lit_rack_list :: string where \<comment> \<open>rack can list\<close>
  "lit_rack_list =
     [CHR 0xE8, CHR 0x8A, CHR 0xB1, CHR 0xE6, CHR 0x9E, CHR 0xB6, CHR 0xE7, CHR 0xA9, CHR 0xBA,
      CHR 0xE4, CHR 0xBD, CHR 0x8D, CHR 0xE5, CHR 0x8F, CHR 0xAF, CHR 0xE4, CHR 0xB8, CHR 0x8A,
      CHR 0xE6, CHR 0x9E, CHR 0xB6, CHR 0xE6, CHR 0x9C, CHR 0xAA, CHR 0xE9, CHR 0xA2, CHR 0x84,
      CHR 0xE7, CHR 0x95, CHR 0x99, CHR 0xE8, CHR 0x8A, CHR 0xB1, CHR 0xE8, CHR 0x89, CHR 0xBA]"

definition lit_rack_craft :: string where \<comment> \<open>rack craft\<close>
  "lit_rack_craft =
     [CHR 0xE8, CHR 0x8A, CHR 0xB1, CHR 0xE6, CHR 0x9E, CHR 0xB6, CHR 0xE7, CHR 0xBC, CHR 0xBA,
      CHR 0xE5, CHR 0xB0, CHR 0x91, CHR 0xE8, CHR 0x8A, CHR 0xB1, CHR 0xE8, CHR 0x89, CHR 0xBA,
      CHR 0xE6, CHR 0x88, CHR 0x90, CHR 0xE5, CHR 0x93, CHR 0x81, CHR 0xEF, CHR 0xBC, CHR 0x8C,
      CHR 0xE6, CHR 0x9D, CHR 0x90, CHR 0xE6, CHR 0x96, CHR 0x99, CHR 0xE5, CHR 0xB7, CHR 0xB2,
      CHR 0xE6, CHR 0xBB, CHR 0xA1, CHR 0xE8, CHR 0xB6, CHR 0xB3]"

definition lit_customer_craft :: string where \<comment> \<open>customer craft\<close>
  "lit_customer_craft =
     [CHR 0xE9, CHR 0xA1, CHR 0xBE, CHR 0xE5, CHR 0xAE, CHR 0xA2, CHR 0xE8, CHR 0xAE, CHR 0xA2,
      CHR 0xE5, CHR 0x8D, CHR 0x95, CHR 0xE7, CHR 0xBC, CHR 0xBA, CHR 0xE5, CHR 0xB0, CHR 0x91,
      CHR 0xE8, CHR 0x8A, CHR 0xB1, CHR 0xE8, CHR 0x89, CHR 0xBA, CHR 0xE6, CHR 0x88, CHR 0x90,
      CHR 0xE5, CHR 0x93, CHR 0x81, CHR 0xEF, CHR 0xBC, CHR 0x8C, CHR 0xE6, CHR 0x9D, CHR 0x90,
      CHR 0xE6, CHR 0x96, CHR 0x99, CHR 0xE5, CHR 0xB7, CHR 0xB2, CHR 0xE6, CHR 0xBB, CHR 0xA1,
      CHR 0xE8, CHR 0xB6, CHR 0xB3]"

definition lit_customer_no_craft :: string where \<comment> \<open>customer craft blocked\<close>
  "lit_customer_no_craft =
     [CHR 0xE9, CHR 0xA1, CHR 0xBE, CHR 0xE5, CHR 0xAE, CHR 0xA2, CHR 0xE8, CHR 0xAE, CHR 0xA2,
      CHR 0xE5, CHR 0x8D, CHR 0x95, CHR 0xE8, CHR 0x8A, CHR 0xB1, CHR 0xE8, CHR 0x89, CHR 0xBA,
      CHR 0xE6, CHR 0x9A, CHR 0x82, CHR 0xE4, CHR 0xB8, CHR 0x8D, CHR 0xE5, CHR 0x8F, CHR 0xAF,
      CHR 0xE5, CHR 0x88, CHR 0xB6, CHR 0xE4, CHR 0xBD, CHR 0x9C]"

definition lit_coin_invalid :: string where \<comment> \<open>coin filter invalid\<close>
  "lit_coin_invalid =
     [CHR 0xE8, CHR 0x8A, CHR 0xB1, CHR 0xE5, CHR 0x9D, CHR 0x8A, CHR 0xE5, CHR 0xB8, CHR 0x81,
      CHR 0xE7, CHR 0xAD, CHR 0x9B, CHR 0xE9, CHR 0x80, CHR 0x89, CHR 0xE5, CHR 0x80, CHR 0xBC,
      CHR 0xE6, CHR 0x97, CHR 0xA0, CHR 0xE6, CHR 0x95, CHR 0x88, CHR 0xEF, CHR 0xBC, CHR 0x8C,
      CHR 0xE4, CHR 0xBF, CHR 0x9D, CHR 0xE7, CHR 0x95, CHR 0x99, CHR 0xE8, CHR 0xAE, CHR 0xA2,
      CHR 0xE5, CHR 0x8D, CHR 0x95]"

definition lit_coin_unknown :: string where \<comment> \<open>coin reward unknown\<close>
  "lit_coin_unknown =
     [CHR 0xE8, CHR 0x8A, CHR 0xB1, CHR 0xE5, CHR 0x9D, CHR 0x8A, CHR 0xE5, CHR 0xB8, CHR 0x81,
      CHR 0xE5, CHR 0xA5, CHR 0x96, CHR 0xE5, CHR 0x8A, CHR 0xB1, CHR 0xE5, CHR 0xB0, CHR 0x9A,
      CHR 0xE6, CHR 0x9C, CHR 0xAA, CHR 0xE7, CHR 0xA1, CHR 0xAE, CHR 0xE8, CHR 0xAE, CHR 0xA4,
      CHR 0xEF, CHR 0xBC, CHR 0x8C, CHR 0xE4, CHR 0xBF, CHR 0x9D, CHR 0xE7, CHR 0x95, CHR 0x99,
      CHR 0xE8, CHR 0xAE, CHR 0xA2, CHR 0xE5, CHR 0x8D, CHR 0x95]"

definition lit_coin_reward :: string where \<comment> \<open>coin reward\<close>
  "lit_coin_reward =
     [CHR 0xE8, CHR 0x8A, CHR 0xB1, CHR 0xE5, CHR 0x9D, CHR 0x8A, CHR 0xE5, CHR 0xB8, CHR 0x81,
      CHR 0xE5, CHR 0xA5, CHR 0x96, CHR 0xE5, CHR 0x8A, CHR 0xB1]"

definition lit_coin_differs :: string where \<comment> \<open>differs from the wanted value\<close>
  "lit_coin_differs =
     [CHR 0xE4, CHR 0xB8, CHR 0x8D, CHR 0xE7, CHR 0xAD, CHR 0x89, CHR 0xE4, CHR 0xBA, CHR 0x8E,
      CHR 0xE6, CHR 0x8C, CHR 0x87, CHR 0xE5, CHR 0xAE, CHR 0x9A, CHR 0xE5, CHR 0x80, CHR 0xBC]"

definition lit_keep_order :: string where \<comment> \<open>keep the order\<close>
  "lit_keep_order =
     [CHR 0xEF, CHR 0xBC, CHR 0x8C, CHR 0xE4, CHR 0xBF, CHR 0x9D, CHR 0xE7, CHR 0x95, CHR 0x99,
      CHR 0xE8, CHR 0xAE, CHR 0xA2, CHR 0xE5, CHR 0x8D, CHR 0x95]"

definition lit_flower_part :: string where \<comment> \<open>flowers\<close>
  "lit_flower_part =
     [CHR 0xE8, CHR 0x8A, CHR 0xB1] @ '': ''"

definition lit_art_part :: string where \<comment> \<open>flower art\<close>
  "lit_art_part =
     [CHR 0xE8, CHR 0x8A, CHR 0xB1, CHR 0xE8, CHR 0x89, CHR 0xBA] @ '': ''"

definition lit_order_needs :: string where \<comment> \<open>needs\<close>
  "lit_order_needs =
     [CHR 0xE9, CHR 0x9C, CHR 0x80] @ '' ''"

definition lit_times_sign :: string where \<comment> \<open>times sign\<close>
  "lit_times_sign =
     [CHR 0xC3, CHR 0x97]"

definition lit_comma :: string where \<comment> \<open>comma\<close>
  "lit_comma =
     [CHR 0xE3, CHR 0x80, CHR 0x81]"

definition lit_vase_colon :: string where \<comment> \<open>vase\<close>
  "lit_vase_colon =
     ''['' @ [CHR 0xE8, CHR 0x8A, CHR 0xB1, CHR 0xE7, CHR 0x93, CHR 0xB6] @ '':''"

definition lit_part_sep :: string where \<comment> \<open>separator\<close>
  "lit_part_sep =
     [CHR 0xEF, CHR 0xBC, CHR 0x9B] @ '' ''"

end
