(* ===== verification/OrderCounts.thy ===== *)
theory OrderCounts
  imports Calendar Garden RaceState
begin

text \<open>
  The daily counters of finished orders and the daily caps the server announces
  (\<open>internal/state/orders.go\<close>), with the statistics of namespace 124 they are merged with
  (\<open>internal/state/account.go\<close>).  The server sends its own counters sparsely; what a response leaves
  out is counted locally until the next authoritative number.
\<close>

section \<open>Statistics of the server\<close>

text \<open>
  A decoded JSON value: what \<open>readInt32Raw\<close> and \<open>readInt64JSONField\<close> read from it, and its fields
  when it is an object.  The list of an object has the iteration order of \<open>range\<close>.
\<close>

datatype json_value = JsonValue
  (jv_int32: "int option") (jv_int64: "int option") (jv_object: "(string \<times> json_value) list option")

type_synonym json_fields = "(string, json_value) gomap"

record statistics_view =
  sv_Observed :: bool
  sv_DayID :: int
  sv_Gold :: int
  sv_Experience :: int
  sv_Diamonds :: int
  sv_SpeedUpCard :: int
  sv_FlowerShopCoin :: int
  sv_FlowerHarvestNum :: int
  sv_FlowerArtSellNum :: int
  sv_OrderFlowerFinishNum :: int
  sv_OrderPalaceFinishNum :: int
  sv_OrderCustomerFinishNum :: int
  sv_OrderSatinFinishNum :: int
  sv_Satin :: int
  sv_OrderDecorateFinishNum :: int
  sv_Wood :: int
  sv_UTimeMs :: int
  sv_CTimeMs :: int

definition zero_statistics :: statistics_view where
  "zero_statistics = \<lparr>sv_Observed = False, sv_DayID = 0, sv_Gold = 0, sv_Experience = 0, sv_Diamonds = 0,
     sv_SpeedUpCard = 0, sv_FlowerShopCoin = 0, sv_FlowerHarvestNum = 0, sv_FlowerArtSellNum = 0,
     sv_OrderFlowerFinishNum = 0, sv_OrderPalaceFinishNum = 0, sv_OrderCustomerFinishNum = 0,
     sv_OrderSatinFinishNum = 0, sv_Satin = 0, sv_OrderDecorateFinishNum = 0, sv_Wood = 0,
     sv_UTimeMs = 0, sv_CTimeMs = 0\<rparr>"

record counters_seen =
  seen_normal :: bool
  seen_satin :: bool
  seen_decorate :: bool
  seen_customer :: bool

definition nothing_seen :: counters_seen where
  "nothing_seen = \<lparr>seen_normal = False, seen_satin = False, seen_decorate = False, seen_customer = False\<rparr>"

definition normalizeStatisticsDayID :: "int \<Rightarrow> int" where
  "normalizeStatisticsDayID v =
     (if v \<le> 0 then 0
      else if 20000101 \<le> v \<and> v \<le> 21001231 then v
      else if 1000000000000 \<le> v then int32 (calendarDayID (unix_milli v))
      else if 1000000000 \<le> v then int32 (calendarDayID (v * second))
      else 0)"

definition field32 :: "json_fields \<Rightarrow> string \<Rightarrow> int option" where
  "field32 obj key = (case map_of obj key of None \<Rightarrow> None | Some v \<Rightarrow> jv_int32 v)"

definition field64 :: "json_fields \<Rightarrow> string \<Rightarrow> int option" where
  "field64 obj key = (case map_of obj key of None \<Rightarrow> None | Some v \<Rightarrow> jv_int64 v)"

definition statistics_keys :: "string list" where
  "statistics_keys = [''1'', ''2'', ''3'', ''4'', ''5'', ''6'', ''7'', ''8'', ''9'', ''10'', ''11'', ''12'',
     ''13'', ''14'', ''15'', ''16'', ''17'']"

definition hasStatisticsField :: "json_fields \<Rightarrow> bool" where
  "hasStatisticsField obj \<longleftrightarrow> list_ex (\<lambda>k. map_of obj k \<noteq> None) statistics_keys"

text \<open>The counter of one field, when the field can be read.\<close>

definition take_field :: "int option \<Rightarrow> int \<Rightarrow> int" where
  "take_field o' old = (case o' of None \<Rightarrow> old | Some n \<Rightarrow> n)"

definition merge_day :: "statistics_view \<Rightarrow> json_fields \<Rightarrow> int \<Rightarrow> statistics_view" where
  "merge_day prev obj dayHint =
     (case field64 obj ''1'' of
        Some rawDay \<Rightarrow>
          let n0 = normalizeStatisticsDayID rawDay; n = (if n0 = 0 then int32 rawDay else n0);
              base = (if sv_Observed prev \<and> sv_DayID prev \<noteq> 0 \<and> n \<noteq> sv_DayID prev then zero_statistics else prev)
          in base\<lparr>sv_DayID := n\<rparr>
      | None \<Rightarrow> if sv_DayID prev = 0 \<and> dayHint \<noteq> 0 then prev\<lparr>sv_DayID := dayHint\<rparr> else prev)"

definition fields_read :: "json_fields \<Rightarrow> bool" where
  "fields_read obj \<longleftrightarrow>
     list_ex (\<lambda>k. field64 obj k \<noteq> None) [''1'', ''12'', ''13''] \<or>
     list_ex (\<lambda>k. field32 obj k \<noteq> None)
       [''2'', ''3'', ''4'', ''5'', ''6'', ''7'', ''8'', ''9'', ''10'', ''11'', ''14'', ''15'', ''16'', ''17'']"

definition counters_of :: "json_fields \<Rightarrow> counters_seen" where
  "counters_of obj = \<lparr>seen_normal = (field32 obj ''9'' \<noteq> None), seen_satin = (field32 obj ''14'' \<noteq> None),
     seen_decorate = (field32 obj ''16'' \<noteq> None), seen_customer = (field32 obj ''11'' \<noteq> None)\<rparr>"

definition mergeStatisticsFields ::
  "statistics_view \<Rightarrow> json_fields \<Rightarrow> int \<Rightarrow> (statistics_view \<times> counters_seen) option" where
  "mergeStatisticsFields prev obj dayHint =
     (if \<not> fields_read obj then None
      else
        let v = merge_day prev obj dayHint; f = (\<lambda>k. take_field (field32 obj k))
        in Some (\<lparr>sv_Observed = True, sv_DayID = sv_DayID v, sv_Gold = f ''2'' (sv_Gold v),
             sv_Experience = f ''3'' (sv_Experience v), sv_Diamonds = f ''4'' (sv_Diamonds v),
             sv_SpeedUpCard = f ''5'' (sv_SpeedUpCard v), sv_FlowerShopCoin = f ''6'' (sv_FlowerShopCoin v),
             sv_FlowerHarvestNum = f ''7'' (sv_FlowerHarvestNum v),
             sv_FlowerArtSellNum = f ''8'' (sv_FlowerArtSellNum v),
             sv_OrderFlowerFinishNum = f ''9'' (sv_OrderFlowerFinishNum v),
             sv_OrderPalaceFinishNum = f ''10'' (sv_OrderPalaceFinishNum v),
             sv_OrderCustomerFinishNum = f ''11'' (sv_OrderCustomerFinishNum v),
             sv_OrderSatinFinishNum = f ''14'' (sv_OrderSatinFinishNum v), sv_Satin = f ''15'' (sv_Satin v),
             sv_OrderDecorateFinishNum = f ''16'' (sv_OrderDecorateFinishNum v), sv_Wood = f ''17'' (sv_Wood v),
             sv_UTimeMs = take_field (field64 obj ''12'') (sv_UTimeMs v),
             sv_CTimeMs = take_field (field64 obj ''13'') (sv_CTimeMs v)\<rparr>, counters_of obj))"

type_synonym statistics_days = "(int, statistics_view) gomap"

definition statisticsDayBase :: "statistics_days \<Rightarrow> statistics_view \<Rightarrow> int \<Rightarrow> statistics_view" where
  "statisticsDayBase days prevLatest dayID =
     (case (if dayID \<noteq> 0 then map_of days dayID else None) of
        Some stored \<Rightarrow> stored
      | None \<Rightarrow>
          if sv_Observed prevLatest \<and> (dayID = 0 \<or> sv_DayID prevLatest = 0 \<or> sv_DayID prevLatest = dayID)
          then prevLatest else zero_statistics)"

definition storeStatisticsDay :: "statistics_days \<Rightarrow> statistics_view \<Rightarrow> statistics_days" where
  "storeStatisticsDay days view = (if sv_DayID view = 0 then days else AList.update (sv_DayID view) view days)"

text \<open>\<open>atoi64\<close>: digits only, any other byte gives 0; overflow wraps.\<close>

definition int64 :: "int \<Rightarrow> int" where
  "int64 n = (n + 2 ^ 63) mod 2 ^ 64 - 2 ^ 63"

fun atoi64_from :: "int \<Rightarrow> string \<Rightarrow> int" where
  "atoi64_from n [] = n"
| "atoi64_from n (c # s) =
     (if of_char c < (48 :: nat) \<or> (57 :: nat) < of_char c then 0
      else atoi64_from (int64 (n * 10 + (of_char c - 48))) s)"

definition atoi64 :: "string \<Rightarrow> int" where
  "atoi64 s = atoi64_from 0 s"

text \<open>The entries of a table keyed by days: the days, and the latest entry with its counters.\<close>

fun parse_entries ::
  "statistics_view \<Rightarrow> (string \<times> json_value) list \<Rightarrow> statistics_days \<times> (statistics_view \<times> counters_seen) option \<Rightarrow>
     statistics_days \<times> (statistics_view \<times> counters_seen) option" where
  "parse_entries prevLatest [] acc = acc"
| "parse_entries prevLatest ((dayIDStr, v) # rest) (days, best) =
     parse_entries prevLatest rest
       (case jv_object v of
          None \<Rightarrow> (days, best)
        | Some entryFields \<Rightarrow>
            let dayHint = normalizeStatisticsDayID (atoi64 dayIDStr)
            in case mergeStatisticsFields (statisticsDayBase days prevLatest dayHint) entryFields dayHint of
                 None \<Rightarrow> (days, best)
               | Some (entry, entryCounters) \<Rightarrow>
                   (storeStatisticsDay days entry,
                    case best of
                      Some (b, s) \<Rightarrow> if sv_DayID b \<le> sv_DayID entry then Some (entry, entryCounters) else best
                    | None \<Rightarrow> Some (entry, entryCounters)))"

definition parseStatisticsDays ::
  "statistics_days \<Rightarrow> statistics_view \<Rightarrow> json_value \<Rightarrow>
     (statistics_days \<times> statistics_view \<times> counters_seen) option" where
  "parseStatisticsDays prevDays prevLatest raw =
     (case jv_object raw of
        None \<Rightarrow> None
      | Some obj \<Rightarrow>
          if hasStatisticsField obj then
            (case mergeStatisticsFields (statisticsDayBase prevDays prevLatest (sv_DayID prevLatest)) obj 0 of
               None \<Rightarrow> None
             | Some (view, seen) \<Rightarrow> Some (storeStatisticsDay prevDays view, view, seen))
          else
            (case parse_entries prevLatest obj (prevDays, None) of
               (days, None) \<Rightarrow> None
             | (days, Some (best, seen)) \<Rightarrow> Some (days, best, seen)))"

section \<open>Counters and caps\<close>

record finish_bias =
  fb_Bias :: int
  fb_DayID :: int

record order_counts =
  oc_statistics :: statistics_view
  oc_statisticsByDay :: statistics_days
  oc_normal :: finish_bias
  oc_satin :: finish_bias
  oc_decorate :: finish_bias
  oc_customer :: finish_bias
  oc_limitUntilMs :: int
  oc_limitDayID :: int
  oc_satinLimitUntilMs :: int
  oc_decorateLimitUntilMs :: int

definition clearResidentOrderLimitIfStatisticsReset :: "statistics_view \<Rightarrow> order_counts \<Rightarrow> order_counts" where
  "clearResidentOrderLimitIfStatisticsReset stats c =
     (if oc_limitUntilMs c \<le> 0 then c
      else if sv_DayID stats \<noteq> 0 \<and> oc_limitDayID c \<noteq> 0 \<and> sv_DayID stats \<noteq> oc_limitDayID c
      then c\<lparr>oc_limitUntilMs := 0, oc_limitDayID := 0\<rparr>
      else c)"

text \<open>The local count of the counters that keep what was counted for the new day already.\<close>

definition rebase_keep :: "bool \<Rightarrow> bool \<Rightarrow> int \<Rightarrow> finish_bias \<Rightarrow> finish_bias" where
  "rebase_keep seen dayChanged dd b =
     (if seen then \<lparr>fb_Bias = 0, fb_DayID = (if dd \<noteq> 0 then dd else fb_DayID b)\<rparr>
      else if dayChanged then (if fb_DayID b \<noteq> dd then \<lparr>fb_Bias = 0, fb_DayID = dd\<rparr> else b)
      else b)"

definition rebase_drop :: "bool \<Rightarrow> bool \<Rightarrow> int \<Rightarrow> finish_bias \<Rightarrow> finish_bias" where
  "rebase_drop seen dayChanged dd b =
     (if seen \<or> dayChanged then \<lparr>fb_Bias = 0, fb_DayID = (if dd \<noteq> 0 then dd else fb_DayID b)\<rparr> else b)"

definition applyStatistics :: "json_value \<Rightarrow> order_counts \<Rightarrow> order_counts" where
  "applyStatistics raw0 c =
     (case parseStatisticsDays (oc_statisticsByDay c) (oc_statistics c) raw0 of
        None \<Rightarrow> c
      | Some (days, view, seen) \<Rightarrow>
          let prevDay = sv_DayID (oc_statistics c);
              dayChanged = (sv_DayID view \<noteq> 0 \<and> prevDay \<noteq> 0 \<and> sv_DayID view \<noteq> prevDay)
          in clearResidentOrderLimitIfStatisticsReset view
               (c\<lparr>oc_statisticsByDay := days, oc_statistics := view,
                  oc_normal := rebase_keep (seen_normal seen) dayChanged (sv_DayID view) (oc_normal c),
                  oc_satin := rebase_drop (seen_satin seen) dayChanged (sv_DayID view) (oc_satin c),
                  oc_decorate := rebase_drop (seen_decorate seen) dayChanged (sv_DayID view) (oc_decorate c),
                  oc_customer := rebase_keep (seen_customer seen) dayChanged (sv_DayID view) (oc_customer c)\<rparr>))"

definition noteResidentOrderFinish :: "int \<Rightarrow> finish_bias \<Rightarrow> finish_bias" where
  "noteResidentOrderFinish dd b =
     (let b1 = (if fb_DayID b \<noteq> dd then \<lparr>fb_Bias = 0, fb_DayID = dd\<rparr> else b)
      in if fb_Bias b1 < max_int32 then b1\<lparr>fb_Bias := fb_Bias b1 + 1\<rparr> else b1)"

text \<open>The counters a response carries itself; \<open>resp\<close> is its top-level object.\<close>

definition responseStatisticsCounters :: "json_fields \<Rightarrow> counters_seen" where
  "responseStatisticsCounters resp =
     (case map_of resp ''124'' of
        None \<Rightarrow> nothing_seen
      | Some ns \<Rightarrow>
          (case jv_object ns of
             None \<Rightarrow> nothing_seen
           | Some ns' \<Rightarrow>
               (case map_of ns' ''0'' of
                  None \<Rightarrow> nothing_seen
                | Some raw0 \<Rightarrow>
                    (case parseStatisticsDays [] zero_statistics raw0 of
                       None \<Rightarrow> nothing_seen
                     | Some (days, latest, seen) \<Rightarrow> seen))))"

definition NoteResidentOrderFinished :: "time \<Rightarrow> json_fields \<Rightarrow> order_counts \<Rightarrow> order_counts" where
  "NoteResidentOrderFinished now resp c =
     (if seen_normal (responseStatisticsCounters resp) then c
      else c\<lparr>oc_normal := noteResidentOrderFinish (gameDayID now) (oc_normal c)\<rparr>)"

definition NoteResidentSatinOrderFinished :: "time \<Rightarrow> json_fields \<Rightarrow> order_counts \<Rightarrow> order_counts" where
  "NoteResidentSatinOrderFinished now resp c =
     (if seen_satin (responseStatisticsCounters resp) then c
      else c\<lparr>oc_satin := noteResidentOrderFinish (calendarDayID now) (oc_satin c)\<rparr>)"

definition NoteResidentDecorateOrderFinished :: "time \<Rightarrow> json_fields \<Rightarrow> order_counts \<Rightarrow> order_counts" where
  "NoteResidentDecorateOrderFinished now resp c =
     (if seen_decorate (responseStatisticsCounters resp) then c
      else c\<lparr>oc_decorate := noteResidentOrderFinish (calendarDayID now) (oc_decorate c)\<rparr>)"

definition NoteCustomerOrderFinished :: "time \<Rightarrow> json_fields \<Rightarrow> order_counts \<Rightarrow> order_counts" where
  "NoteCustomerOrderFinished now resp c =
     (if seen_customer (responseStatisticsCounters resp) then c
      else c\<lparr>oc_customer := noteResidentOrderFinish (gameDayID now) (oc_customer c)\<rparr>)"

definition residentOrderFinishCount :: "statistics_view \<Rightarrow> int \<Rightarrow> finish_bias \<Rightarrow> int \<Rightarrow> int" where
  "residentOrderFinishCount stats observed b dd =
     (let n0 = (if sv_Observed stats \<and> (sv_DayID stats = 0 \<or> dd \<le> sv_DayID stats) then observed else 0);
          n = (if fb_DayID b = dd \<and> (\<not> sv_Observed stats \<or> sv_DayID stats = 0 \<or> sv_DayID stats \<le> dd)
               then n0 + fb_Bias b else n0)
      in if n < 0 then 0 else if max_int32 < n then max_int32 else n)"

definition ResidentOrderFinishNum :: "order_counts \<Rightarrow> time \<Rightarrow> int" where
  "ResidentOrderFinishNum c now = residentOrderFinishCount (oc_statistics c)
     (sv_OrderFlowerFinishNum (oc_statistics c)) (oc_normal c) (gameDayID now)"

definition ResidentSatinOrderFinishNum :: "order_counts \<Rightarrow> time \<Rightarrow> int" where
  "ResidentSatinOrderFinishNum c now = residentOrderFinishCount (oc_statistics c)
     (sv_OrderSatinFinishNum (oc_statistics c)) (oc_satin c) (calendarDayID now)"

definition ResidentDecorateOrderFinishNum :: "order_counts \<Rightarrow> time \<Rightarrow> int" where
  "ResidentDecorateOrderFinishNum c now = residentOrderFinishCount (oc_statistics c)
     (sv_OrderDecorateFinishNum (oc_statistics c)) (oc_decorate c) (calendarDayID now)"

definition CustomerOrderFinishNum :: "order_counts \<Rightarrow> time \<Rightarrow> int" where
  "CustomerOrderFinishNum c now = residentOrderFinishCount (oc_statistics c)
     (sv_OrderCustomerFinishNum (oc_statistics c)) (oc_customer c) (gameDayID now)"

text \<open>The next 00:05 of the game's zone.\<close>

definition NextGameDayReset :: "time \<Rightarrow> time" where
  "NextGameDayReset now =
     (let reset = (now + gameDayLocation) div day_length * day_length - gameDayLocation + 5 * minute
      in if now < reset then reset else reset + day_length)"

definition MarkResidentOrderDailyLimitReached :: "time \<Rightarrow> order_counts \<Rightarrow> order_counts" where
  "MarkResidentOrderDailyLimitReached now c =
     c\<lparr>oc_limitUntilMs := to_unix_milli (NextGameDayReset now),
       oc_limitDayID := (if sv_DayID (oc_statistics c) = 0 then gameDayID now else sv_DayID (oc_statistics c))\<rparr>"

definition MarkResidentSatinDailyLimitReached :: "time \<Rightarrow> order_counts \<Rightarrow> order_counts" where
  "MarkResidentSatinDailyLimitReached now c = c\<lparr>oc_satinLimitUntilMs := to_unix_milli (NextCalendarDayReset now)\<rparr>"

definition MarkResidentDecorateDailyLimitReached :: "time \<Rightarrow> order_counts \<Rightarrow> order_counts" where
  "MarkResidentDecorateDailyLimitReached now c =
     c\<lparr>oc_decorateLimitUntilMs := to_unix_milli (NextCalendarDayReset now)\<rparr>"

text \<open>A query also drops a cap that is over.\<close>

definition ResidentOrderDailyLimitReached :: "time \<Rightarrow> order_counts \<Rightarrow> order_counts \<times> time option" where
  "ResidentOrderDailyLimitReached now c =
     (if oc_limitUntilMs c \<le> 0 then (c, None)
      else if unix_milli (oc_limitUntilMs c) \<le> now then (c\<lparr>oc_limitUntilMs := 0, oc_limitDayID := 0\<rparr>, None)
      else (c, Some (unix_milli (oc_limitUntilMs c))))"

definition ResidentSatinDailyLimitReached :: "time \<Rightarrow> order_counts \<Rightarrow> order_counts \<times> time option" where
  "ResidentSatinDailyLimitReached now c =
     (if oc_satinLimitUntilMs c \<le> 0 then (c, None)
      else if unix_milli (oc_satinLimitUntilMs c) \<le> now then (c\<lparr>oc_satinLimitUntilMs := 0\<rparr>, None)
      else (c, Some (unix_milli (oc_satinLimitUntilMs c))))"

definition ResidentDecorateDailyLimitReached :: "time \<Rightarrow> order_counts \<Rightarrow> order_counts \<times> time option" where
  "ResidentDecorateDailyLimitReached now c =
     (if oc_decorateLimitUntilMs c \<le> 0 then (c, None)
      else if unix_milli (oc_decorateLimitUntilMs c) \<le> now then (c\<lparr>oc_decorateLimitUntilMs := 0\<rparr>, None)
      else (c, Some (unix_milli (oc_decorateLimitUntilMs c))))"

section \<open>When the days end\<close>

lemma day_shift:
  "(now - 5 * minute + gameDayLocation) div day_length =
     (now + gameDayLocation) div day_length -
       (if (now + gameDayLocation) mod day_length < 5 * minute then 1 else 0)"
proof -
  let ?d = "(now + gameDayLocation) div day_length" and ?r = "(now + gameDayLocation) mod day_length"
  have m: "0 < 5 * minute" "5 * minute < day_length" by (simp_all add: day_length_def duration_defs)
  have r: "0 \<le> ?r" "?r < day_length" using day_length_pos by simp_all
  have split: "now + gameDayLocation = day_length * ?d + ?r" by simp
  show ?thesis
  proof (cases "?r < 5 * minute")
    case True
    have e: "now - 5 * minute + gameDayLocation = day_length * (?d - 1) + (?r - 5 * minute + day_length)"
      using split unfolding right_diff_distrib by linarith
    have "(now - 5 * minute + gameDayLocation) div day_length = ?d - 1"
      using int_div_pos_eq [OF e] True r m by simp
    then show ?thesis using True by simp
  next
    case False
    have e: "now - 5 * minute + gameDayLocation = day_length * ?d + (?r - 5 * minute)"
      using split by linarith
    have "(now - 5 * minute + gameDayLocation) div day_length = ?d"
      using int_div_pos_eq [OF e] False r m by simp
    then show ?thesis using False by simp
  qed
qed

lemma NextGameDayReset_eq: "NextGameDayReset now = NextCalendarDayReset (now - 5 * minute) + 5 * minute"
proof -
  let ?d = "(now + gameDayLocation) div day_length" and ?r = "(now + gameDayLocation) mod day_length"
  have "now + gameDayLocation = ?d * day_length + ?r" by simp
  then have lt: "now < ?d * day_length - gameDayLocation + 5 * minute \<longleftrightarrow> ?r < 5 * minute" by linarith
  show ?thesis
    unfolding NextGameDayReset_def NextCalendarDayReset_def Let_def day_shift lt
    by (simp add: distrib_right left_diff_distrib)
qed

lemma game_day_reset: "s \<le> t \<Longrightarrow> gameDayID t = gameDayID s \<longleftrightarrow> t < NextGameDayReset s"
  using local_day_less_reset [of "s - 5 * minute" "t - 5 * minute"] calendarDayID_eq_iff
  by (auto simp: gameDayID_eq NextGameDayReset_eq)

lemma calendar_day_reset: "s \<le> t \<Longrightarrow> calendarDayID t = calendarDayID s \<longleftrightarrow> t < NextCalendarDayReset s"
  using local_day_less_reset [of s t] calendarDayID_eq_iff by auto

lemma resets_in_milliseconds:
  "unix_milli (to_unix_milli (NextCalendarDayReset s)) = NextCalendarDayReset s"
  "unix_milli (to_unix_milli (NextGameDayReset s)) = NextGameDayReset s"
proof -
  have *: "NextCalendarDayReset u = unix_milli (((u + gameDayLocation) div day_length + 1) * 86400000 - 28800000)" for u
    by (simp add: NextCalendarDayReset_def unix_milli_def day_length_def gameDayLocation_def duration_defs)
  show "unix_milli (to_unix_milli (NextCalendarDayReset s)) = NextCalendarDayReset s" by (simp add: *)
  have "NextGameDayReset s =
      unix_milli (((s - 5 * minute + gameDayLocation) div day_length + 1) * 86400000 - 28800000 + 300000)"
    by (simp add: NextGameDayReset_eq * unix_milli_def duration_defs)
  then show "unix_milli (to_unix_milli (NextGameDayReset s)) = NextGameDayReset s" by simp
qed

lemma reset_after_epoch:
  assumes "0 \<le> s"
  shows "0 < to_unix_milli (NextGameDayReset s)" "0 < to_unix_milli (NextCalendarDayReset s)"
proof -
  have "s < NextGameDayReset s" using game_day_reset [of s s] by simp
  then have "unix_milli 0 < unix_milli (to_unix_milli (NextGameDayReset s))"
    using assms unfolding resets_in_milliseconds(2) by (simp add: unix_milli_def)
  then show "0 < to_unix_milli (NextGameDayReset s)" by (simp only: unix_milli_less_iff)
  have "s < NextCalendarDayReset s" using calendar_day_reset [of s s] by simp
  then have "unix_milli 0 < unix_milli (to_unix_milli (NextCalendarDayReset s))"
    using assms unfolding resets_in_milliseconds(1) by (simp add: unix_milli_def)
  then show "0 < to_unix_milli (NextCalendarDayReset s)" by (simp only: unix_milli_less_iff)
qed

text \<open>
  A daily cap the server announces holds exactly as long as its day: for ordinary
  resident orders the game day, which rolls over at 00:05, for satin and building-material orders the
  calendar day of the game's zone; afterwards the next query opens the orders again.
\<close>

lemma caps_last_a_day:
  assumes "0 \<le> now" "now \<le> t"
  shows "(snd (ResidentOrderDailyLimitReached t (MarkResidentOrderDailyLimitReached now c)) \<noteq> None \<longleftrightarrow>
      gameDayID t = gameDayID now) \<and>
    (snd (ResidentSatinDailyLimitReached t (MarkResidentSatinDailyLimitReached now c)) \<noteq> None \<longleftrightarrow>
      calendarDayID t = calendarDayID now) \<and>
    (snd (ResidentDecorateDailyLimitReached t (MarkResidentDecorateDailyLimitReached now c)) \<noteq> None \<longleftrightarrow>
      calendarDayID t = calendarDayID now)"
  using reset_after_epoch [OF assms(1)] game_day_reset [OF assms(2)] calendar_day_reset [OF assms(2)]
  by (auto simp: ResidentOrderDailyLimitReached_def MarkResidentOrderDailyLimitReached_def
      ResidentSatinDailyLimitReached_def MarkResidentSatinDailyLimitReached_def
      ResidentDecorateDailyLimitReached_def MarkResidentDecorateDailyLimitReached_def
      resets_in_milliseconds not_le)

definition no_bias :: finish_bias where
  "no_bias = \<lparr>fb_Bias = 0, fb_DayID = 0\<rparr>"

definition fresh_counts :: order_counts where
  "fresh_counts = \<lparr>oc_statistics = zero_statistics, oc_statisticsByDay = [], oc_normal = no_bias,
     oc_satin = no_bias, oc_decorate = no_bias, oc_customer = no_bias, oc_limitUntilMs = 0,
     oc_limitDayID = 0, oc_satinLimitUntilMs = 0, oc_decorateLimitUntilMs = 0\<rparr>"

text \<open>Capped at 23:30 of the zone: at 00:02 the satin orders are open again, the ordinary ones are not.\<close>

section \<open>Counting over a day\<close>

datatype order_kind = NormalOrder | SatinOrder | DecorateOrder | CustomerKind

fun kind_key :: "order_kind \<Rightarrow> string" where
  "kind_key NormalOrder = ''9''"
| "kind_key SatinOrder = ''14''"
| "kind_key DecorateOrder = ''16''"
| "kind_key CustomerKind = ''11''"

fun kind_num :: "order_kind \<Rightarrow> statistics_view \<Rightarrow> int" where
  "kind_num NormalOrder v = sv_OrderFlowerFinishNum v"
| "kind_num SatinOrder v = sv_OrderSatinFinishNum v"
| "kind_num DecorateOrder v = sv_OrderDecorateFinishNum v"
| "kind_num CustomerKind v = sv_OrderCustomerFinishNum v"

fun kind_seen :: "order_kind \<Rightarrow> counters_seen \<Rightarrow> bool" where
  "kind_seen NormalOrder s = seen_normal s"
| "kind_seen SatinOrder s = seen_satin s"
| "kind_seen DecorateOrder s = seen_decorate s"
| "kind_seen CustomerKind s = seen_customer s"

fun kind_bias :: "order_kind \<Rightarrow> order_counts \<Rightarrow> finish_bias" where
  "kind_bias NormalOrder c = oc_normal c"
| "kind_bias SatinOrder c = oc_satin c"
| "kind_bias DecorateOrder c = oc_decorate c"
| "kind_bias CustomerKind c = oc_customer c"

fun kind_day :: "order_kind \<Rightarrow> time \<Rightarrow> int" where
  "kind_day NormalOrder now = gameDayID now"
| "kind_day SatinOrder now = calendarDayID now"
| "kind_day DecorateOrder now = calendarDayID now"
| "kind_day CustomerKind now = gameDayID now"

fun note_finish :: "order_kind \<Rightarrow> time \<Rightarrow> json_fields \<Rightarrow> order_counts \<Rightarrow> order_counts" where
  "note_finish NormalOrder now resp c = NoteResidentOrderFinished now resp c"
| "note_finish SatinOrder now resp c = NoteResidentSatinOrderFinished now resp c"
| "note_finish DecorateOrder now resp c = NoteResidentDecorateOrderFinished now resp c"
| "note_finish CustomerKind now resp c = NoteCustomerOrderFinished now resp c"

fun finish_num :: "order_kind \<Rightarrow> order_counts \<Rightarrow> time \<Rightarrow> int" where
  "finish_num NormalOrder c now = ResidentOrderFinishNum c now"
| "finish_num SatinOrder c now = ResidentSatinOrderFinishNum c now"
| "finish_num DecorateOrder c now = ResidentDecorateOrderFinishNum c now"
| "finish_num CustomerKind c now = CustomerOrderFinishNum c now"

text \<open>What happens to the counters: a finished order with its response, or a statistics patch.\<close>

datatype count_event = Finished order_kind time json_fields | StatisticsPatch json_value

fun count_step :: "count_event \<Rightarrow> order_counts \<Rightarrow> order_counts" where
  "count_step (Finished k now resp) c = note_finish k now resp c"
| "count_step (StatisticsPatch raw) c = applyStatistics raw c"

text \<open>A patch of one day: flat, or a table with the entry of that day only.\<close>

definition patch_fields :: "json_value \<Rightarrow> json_fields" where
  "patch_fields raw =
     (case jv_object raw of
        None \<Rightarrow> []
      | Some obj \<Rightarrow>
          if hasStatisticsField obj then obj
          else (case obj of [(k, v)] \<Rightarrow> (case jv_object v of None \<Rightarrow> [] | Some f \<Rightarrow> f) | _ \<Rightarrow> []))"

definition patch_of_day :: "int \<Rightarrow> json_value \<Rightarrow> bool" where
  "patch_of_day D raw \<longleftrightarrow>
     (case jv_object raw of
        None \<Rightarrow> True
      | Some obj \<Rightarrow>
          hasStatisticsField obj \<or> obj = [] \<or>
          (length obj = 1 \<and> normalizeStatisticsDayID (atoi64 (fst (hd obj))) = D)) \<and>
     (case field64 (patch_fields raw) ''1'' of None \<Rightarrow> True | Some d \<Rightarrow> normalizeStatisticsDayID d = D)"

definition event_of_day :: "order_kind \<Rightarrow> int \<Rightarrow> count_event \<Rightarrow> bool" where
  "event_of_day k D e \<longleftrightarrow>
     (case e of
        Finished k' now resp \<Rightarrow> k' = k \<longrightarrow> kind_day k now = D
      | StatisticsPatch raw \<Rightarrow> patch_of_day D raw \<and>
          (case field32 (patch_fields raw) (kind_key k) of None \<Rightarrow> True | Some n \<Rightarrow> 0 \<le> n))"

text \<open>The intended count: the server's last number plus the finishes it was silent about since.\<close>

fun true_count :: "order_kind \<Rightarrow> int \<Rightarrow> count_event list \<Rightarrow> int" where
  "true_count k n [] = n"
| "true_count k n (Finished k' now resp # es) =
     true_count k (if k' = k \<and> \<not> kind_seen k (responseStatisticsCounters resp) then n + 1 else n) es"
| "true_count k n (StatisticsPatch raw # es) =
     true_count k (take_field (field32 (patch_fields raw) (kind_key k)) n) es"

text \<open>Counters in the middle of a day \<open>D\<close> on which \<open>n\<close> orders of a kind are finished.\<close>

definition counts_day :: "order_kind \<Rightarrow> int \<Rightarrow> int \<Rightarrow> order_counts \<Rightarrow> bool" where
  "counts_day k D n c \<longleftrightarrow>
     sv_Observed (oc_statistics c) \<and> sv_DayID (oc_statistics c) = D \<and>
     map_of (oc_statisticsByDay c) D \<in> {None, Some (oc_statistics c)} \<and>
     0 \<le> kind_num k (oc_statistics c) \<and>
     (\<exists>b. 0 \<le> b \<and> n = kind_num k (oc_statistics c) + b \<and>
        (kind_bias k c = \<lparr>fb_Bias = min max_int32 b, fb_DayID = D\<rparr> \<or> b = 0 \<and> fb_DayID (kind_bias k c) \<noteq> D))"

lemma fields_read_kind: "field32 obj (kind_key k) \<noteq> None \<Longrightarrow> fields_read obj"
  by (cases k) (auto simp: fields_read_def)

lemma merge_same_day:
  assumes "sv_DayID prev = D" "D \<noteq> 0"
    and "case field64 obj ''1'' of None \<Rightarrow> True | Some d \<Rightarrow> normalizeStatisticsDayID d = D"
  shows "mergeStatisticsFields prev obj h = None \<and> field32 obj (kind_key k) = None \<or>
    (\<exists>view s. mergeStatisticsFields prev obj h = Some (view, s) \<and> sv_Observed view \<and> sv_DayID view = D \<and>
       kind_num k view = take_field (field32 obj (kind_key k)) (kind_num k prev) \<and>
       kind_seen k s = (field32 obj (kind_key k) \<noteq> None))"
proof (cases "fields_read obj")
  case False
  then have "field32 obj (kind_key k) = None" using fields_read_kind by blast
  then show ?thesis using False by (simp add: mergeStatisticsFields_def)
next
  case True
  have "merge_day prev obj h = prev\<lparr>sv_DayID := D\<rparr>"
    using assms by (auto simp: merge_day_def Let_def split: option.splits)
  then show ?thesis
    using True by (cases k) (simp_all add: mergeStatisticsFields_def Let_def counters_of_def)
qed

lemma parse_same_day:
  assumes "patch_of_day D raw" "sv_Observed latest" "sv_DayID latest = D" "D \<noteq> 0"
    and "map_of days D \<in> {None, Some latest}"
  shows "parseStatisticsDays days latest raw = None \<and> field32 (patch_fields raw) (kind_key k) = None \<or>
    (\<exists>days' view s. parseStatisticsDays days latest raw = Some (days', view, s) \<and>
       sv_Observed view \<and> sv_DayID view = D \<and> map_of days' D = Some view \<and>
       kind_num k view = take_field (field32 (patch_fields raw) (kind_key k)) (kind_num k latest) \<and>
       kind_seen k s = (field32 (patch_fields raw) (kind_key k) \<noteq> None))"
proof -
  have base: "statisticsDayBase days latest D = latest"
    using assms(2-5) by (auto simp: statisticsDayBase_def)
  have day: "case field64 (patch_fields raw) ''1'' of None \<Rightarrow> True | Some d \<Rightarrow> normalizeStatisticsDayID d = D"
    using assms(1) by (simp add: patch_of_day_def)
  note m = merge_same_day [OF assms(3,4) day, of _ k]
  have none: "field32 [] key = None" for key by (simp add: field32_def)
  consider (no) "jv_object raw = None"
    | (flat) obj where "jv_object raw = Some obj" "hasStatisticsField obj"
    | (empty) "jv_object raw = Some []"
    | (day) key v where "jv_object raw = Some [(key, v)]" "\<not> hasStatisticsField [(key, v)]"
        "normalizeStatisticsDayID (atoi64 key) = D"
  proof (cases "jv_object raw")
    case (Some obj)
    then have "hasStatisticsField obj \<or> obj = [] \<or>
        length obj = 1 \<and> normalizeStatisticsDayID (atoi64 (fst (hd obj))) = D"
      using assms(1) by (simp add: patch_of_day_def)
    moreover obtain key v where "obj = [(key, v)]" if "length obj = 1"
      by (cases obj) auto
    ultimately show ?thesis using Some that by (cases "hasStatisticsField obj") auto
  qed
  then show ?thesis
  proof cases
    case no
    then show ?thesis by (simp add: parseStatisticsDays_def patch_fields_def none)
  next
    case flat
    then have pf: "patch_fields raw = obj" by (simp add: patch_fields_def)
    show ?thesis
      using m [of 0] flat pf assms(3,4) base
      by (auto simp: parseStatisticsDays_def storeStatisticsDay_def update_conv')
  next
    case empty
    then show ?thesis
      by (simp add: parseStatisticsDays_def patch_fields_def hasStatisticsField_def statistics_keys_def none)
  next
    case day
    show ?thesis
    proof (cases "jv_object v")
      case None
      then show ?thesis using day by (simp add: parseStatisticsDays_def patch_fields_def none)
    next
      case (Some f)
      then have pf: "patch_fields raw = f" using day by (simp add: patch_fields_def)
      show ?thesis
        using m [of D] day pf assms(4) base Some
        by (auto simp: parseStatisticsDays_def storeStatisticsDay_def Let_def update_conv')
    qed
  qed
qed

lemma note_finish_statistics:
  "oc_statistics (note_finish k now resp c) = oc_statistics c"
  "oc_statisticsByDay (note_finish k now resp c) = oc_statisticsByDay c"
  by (cases k; simp add: NoteResidentOrderFinished_def NoteResidentSatinOrderFinished_def
      NoteResidentDecorateOrderFinished_def NoteCustomerOrderFinished_def)+

lemma note_finish_other: "k' \<noteq> k \<Longrightarrow> kind_bias k (note_finish k' now resp c) = kind_bias k c"
  by (cases k'; cases k; simp add: NoteResidentOrderFinished_def NoteResidentSatinOrderFinished_def
      NoteResidentDecorateOrderFinished_def NoteCustomerOrderFinished_def)

lemma note_finish_own:
  "kind_bias k (note_finish k now resp c) =
     (if kind_seen k (responseStatisticsCounters resp) then kind_bias k c
      else noteResidentOrderFinish (kind_day k now) (kind_bias k c))"
  by (cases k; simp add: NoteResidentOrderFinished_def NoteResidentSatinOrderFinished_def
      NoteResidentDecorateOrderFinished_def NoteCustomerOrderFinished_def)

lemma clear_limit_keeps:
  "oc_statistics (clearResidentOrderLimitIfStatisticsReset v c) = oc_statistics c"
  "oc_statisticsByDay (clearResidentOrderLimitIfStatisticsReset v c) = oc_statisticsByDay c"
  "kind_bias k (clearResidentOrderLimitIfStatisticsReset v c) = kind_bias k c"
  by (cases k; simp add: clearResidentOrderLimitIfStatisticsReset_def)+

lemma apply_statistics_kinds:
  assumes "parseStatisticsDays (oc_statisticsByDay c) (oc_statistics c) raw = Some (days, view, s)"
    and "sv_DayID view = sv_DayID (oc_statistics c)" "sv_DayID view = D" "D \<noteq> 0"
  shows "oc_statistics (applyStatistics raw c) = view" "oc_statisticsByDay (applyStatistics raw c) = days"
    "kind_bias k (applyStatistics raw c) = (if kind_seen k s then \<lparr>fb_Bias = 0, fb_DayID = D\<rparr> else kind_bias k c)"
  using assms
  by (simp_all add: applyStatistics_def Let_def clear_limit_keeps)
    (cases k; simp add: rebase_keep_def rebase_drop_def)

lemma note_counts:
  assumes "0 \<le> b" and "kind_bias k c = \<lparr>fb_Bias = min max_int32 b, fb_DayID = D\<rparr> \<or> b = 0 \<and> fb_DayID (kind_bias k c) \<noteq> D"
  shows "noteResidentOrderFinish D (kind_bias k c) = \<lparr>fb_Bias = min max_int32 (b + 1), fb_DayID = D\<rparr>"
  using assms(2)
proof
  assume "kind_bias k c = \<lparr>fb_Bias = min max_int32 b, fb_DayID = D\<rparr>"
  then show ?thesis using assms(1) by (simp add: noteResidentOrderFinish_def Let_def max_int32_def min_def)
next
  assume "b = 0 \<and> fb_DayID (kind_bias k c) \<noteq> D"
  then show ?thesis by (simp add: noteResidentOrderFinish_def Let_def max_int32_def)
qed

lemma count_step_day:
  assumes "counts_day k D n c" "D \<noteq> 0" "event_of_day k D e"
  shows "counts_day k D (true_count k n [e]) (count_step e c)"
proof (cases e)
  case (Finished k' now resp)
  from assms(1) obtain b where b: "0 \<le> b" "n = kind_num k (oc_statistics c) + b"
    "kind_bias k c = \<lparr>fb_Bias = min max_int32 b, fb_DayID = D\<rparr> \<or> b = 0 \<and> fb_DayID (kind_bias k c) \<noteq> D"
    by (auto simp: counts_day_def)
  show ?thesis
  proof (cases "k' = k \<and> \<not> kind_seen k (responseStatisticsCounters resp)")
    case True
    then have "kind_day k now = D" using assms(3) Finished by (simp add: event_of_day_def)
    then have "kind_bias k (count_step e c) = \<lparr>fb_Bias = min max_int32 (b + 1), fb_DayID = D\<rparr>"
      using True Finished note_counts [OF b(1,3)] by (simp add: note_finish_own)
    then show ?thesis
      using assms(1) b True Finished unfolding counts_day_def
      by (auto simp: note_finish_statistics intro!: exI [of _ "b + 1"])
  next
    case False
    then have e: "kind_bias k (count_step e c) = kind_bias k c"
      using Finished note_finish_other [of k' k] by (cases "k' = k") (auto simp: note_finish_own)
    have "true_count k n [e] = n" using False Finished by simp
    then show ?thesis
      using assms(1) e Finished unfolding counts_day_def by (simp add: note_finish_statistics)
  qed
next
  case (StatisticsPatch raw)
  from assms(1) obtain b where b: "0 \<le> b" "n = kind_num k (oc_statistics c) + b"
    "kind_bias k c = \<lparr>fb_Bias = min max_int32 b, fb_DayID = D\<rparr> \<or> b = 0 \<and> fb_DayID (kind_bias k c) \<noteq> D"
    and c: "sv_Observed (oc_statistics c)" "sv_DayID (oc_statistics c) = D"
    "map_of (oc_statisticsByDay c) D \<in> {None, Some (oc_statistics c)}" "0 \<le> kind_num k (oc_statistics c)"
    unfolding counts_day_def by blast
  have pd: "patch_of_day D raw" using assms(3) StatisticsPatch by (simp add: event_of_day_def)
  have pos: "\<And>m. field32 (patch_fields raw) (kind_key k) = Some m \<Longrightarrow> 0 \<le> m"
    using assms(3) StatisticsPatch by (simp add: event_of_day_def)
  consider (none) "parseStatisticsDays (oc_statisticsByDay c) (oc_statistics c) raw = None"
      "field32 (patch_fields raw) (kind_key k) = None"
    | (some) days view s where
        "parseStatisticsDays (oc_statisticsByDay c) (oc_statistics c) raw = Some (days, view, s)"
        "sv_Observed view" "sv_DayID view = D" "map_of days D = Some view"
        "kind_num k view = take_field (field32 (patch_fields raw) (kind_key k)) (kind_num k (oc_statistics c))"
        "kind_seen k s = (field32 (patch_fields raw) (kind_key k) \<noteq> None)"
    using parse_same_day [OF pd c(1,2) assms(2) c(3), of k] by metis
  then show ?thesis
  proof cases
    case none
    then show ?thesis
      using assms(1) StatisticsPatch by (simp add: applyStatistics_def take_field_def)
  next
    case some
    have dv: "sv_DayID view = sv_DayID (oc_statistics c)" using some(3) c(2) by simp
    note a = apply_statistics_kinds [OF some(1) dv some(3) assms(2)]
    show ?thesis
    proof (cases "field32 (patch_fields raw) (kind_key k)")
      case None
      then show ?thesis
        using StatisticsPatch a some b c unfolding counts_day_def by (auto simp: take_field_def)
    next
      case (Some m)
      then show ?thesis
        using StatisticsPatch a some pos [OF Some] unfolding counts_day_def
        by (auto simp: take_field_def max_int32_def intro!: exI [of _ 0])
    qed
  qed
qed

lemma true_count_Cons: "true_count k n (e # es) = true_count k (true_count k n [e]) es"
  by (cases e) simp_all

lemma counts_day_run:
  assumes "counts_day k D n c" "D \<noteq> 0" "\<forall>e \<in> set es. event_of_day k D e"
  shows "counts_day k D (true_count k n es) (fold count_step es c)"
  using assms
proof (induction es arbitrary: n c)
  case Nil
  then show ?case by simp
next
  case (Cons e es)
  then have "counts_day k D (true_count k n [e]) (count_step e c)" by (auto intro: count_step_day)
  then show ?case using Cons.IH [of "true_count k n [e]" "count_step e c"] Cons.prems
    by (subst true_count_Cons) simp
qed

lemma counts_day_num:
  assumes "counts_day k D n c" "D \<noteq> 0" "kind_day k now = D"
  shows "finish_num k c now = min max_int32 n"
proof -
  from assms(1) obtain b where b: "0 \<le> b" "n = kind_num k (oc_statistics c) + b"
    "kind_bias k c = \<lparr>fb_Bias = min max_int32 b, fb_DayID = D\<rparr> \<or> b = 0 \<and> fb_DayID (kind_bias k c) \<noteq> D"
    and c: "sv_Observed (oc_statistics c)" "sv_DayID (oc_statistics c) = D" "0 \<le> kind_num k (oc_statistics c)"
    unfolding counts_day_def by blast
  have "finish_num k c now = residentOrderFinishCount (oc_statistics c) (kind_num k (oc_statistics c)) (kind_bias k c) D"
    using assms(3) by (cases k) (simp_all add: ResidentOrderFinishNum_def ResidentSatinOrderFinishNum_def
        ResidentDecorateOrderFinishNum_def CustomerOrderFinishNum_def)
  also have "\<dots> = min max_int32 n"
    using b(3)
  proof
    assume *: "kind_bias k c = \<lparr>fb_Bias = min max_int32 b, fb_DayID = D\<rparr>"
    show ?thesis using b(1,2) c assms(2) by (simp add: * residentOrderFinishCount_def Let_def max_int32_def min_def)
  next
    assume "b = 0 \<and> fb_DayID (kind_bias k c) \<noteq> D"
    then show ?thesis using b(2) c assms(2) by (simp add: residentOrderFinishCount_def Let_def max_int32_def min_def)
  qed
  finally show ?thesis .
qed

text \<open>
  C27.  Once the statistics at hand are of the day, and as long as every patch that follows is about
  the same day, finished orders and sparse statistics patches may interleave in any way: the count
  that daily limits are checked against is the server's last number for that kind of order plus the
  finishes since that no response has counted, saturating at the largest \<open>int32\<close>; finishes of other
  kinds and patches about other counters do not disturb it.  (The patch that first brings a new day is
  outside this: it drops the local counts of satin and building-material orders.)
\<close>

theorem finish_count_exact:
  assumes "counts_day k D n c" "D \<noteq> 0" "\<forall>e \<in> set es. event_of_day k D e" "kind_day k now = D"
  shows "finish_num k (fold count_step es c) now = min max_int32 (true_count k n es)"
  using counts_day_num [OF counts_day_run [OF assms(1-3)] assms(2,4)] .

definition read_number :: "int \<Rightarrow> json_value" where
  "read_number n = JsonValue (Some n) (Some n) None"

definition day_patch :: "(string \<times> int) list \<Rightarrow> json_value" where
  "day_patch kvs = JsonValue None None (Some (map (\<lambda>(k, n). (k, read_number n)) kvs))"

definition counted_day :: order_counts where
  "counted_day = fresh_counts\<lparr>oc_statistics := zero_statistics\<lparr>sv_Observed := True, sv_DayID := 19700101,
     sv_OrderFlowerFinishNum := 7\<rparr>\<rparr>"

text \<open>Seven, then two uncounted finishes, a patch about another counter, and the server says ten.\<close>

theorem finish_count_exact_witness:
  "let es = [Finished NormalOrder hour [], Finished NormalOrder (2 * hour) [], StatisticsPatch (day_patch [(''8'', 4)])] in
     ResidentOrderFinishNum (fold count_step es counted_day) (3 * hour) = 9 \<and>
     ResidentOrderFinishNum (fold count_step (es @ [StatisticsPatch (day_patch [(''9'', 10)])]) counted_day) (3 * hour) = 10"
proof -
  define es where "es = [Finished NormalOrder hour [], Finished NormalOrder (2 * hour) [],
    StatisticsPatch (day_patch [(''8'', 4)])]"
  define es' where "es' = es @ [StatisticsPatch (day_patch [(''9'', 10)])]"
  have c: "counts_day NormalOrder 19700101 7 counted_day"
    by (simp add: counts_day_def counted_day_def fresh_counts_def no_bias_def)
  have ev: "\<forall>e \<in> set es'. event_of_day NormalOrder 19700101 e" unfolding es'_def es_def by code_simp
  then have ev': "\<forall>e \<in> set es. event_of_day NormalOrder 19700101 e" by (simp add: es'_def)
  have d: "kind_day NormalOrder (3 * hour) = 19700101" by code_simp
  have n: "true_count NormalOrder 7 es = 9" "true_count NormalOrder 7 es' = 10"
    unfolding es'_def es_def by code_simp+
  show ?thesis
    using finish_count_exact [OF c _ ev' d] finish_count_exact [OF c _ ev d] n
    unfolding Let_def es_def [symmetric] es'_def [symmetric] by (simp add: max_int32_def)
qed

end
