(* ===== verification/Orders.thy ===== *)
theory Orders
  imports OrderCounts OrderTexts RacePlan Planting Drives
begin

text \<open>
  The orders of the game as the planner sees them: the views of \<open>internal/state/types.go\<close> and
  \<open>orders.go\<close>, the recipes of \<open>catalog.go\<close>, the filters and daily limits of
  \<open>automation/availability.go\<close> and \<open>customer_filter.go\<close>, and the coins a customer pays
  (\<open>state/customer_reward.go\<close>).
\<close>

section \<open>Views\<close>

text \<open>A requirement is an item and a number; \<open>FlowerRequire\<close> and \<open>ItemRequire\<close> are pairs.\<close>

type_synonym requirement = "int \<times> int"

record flower_order =
  fo_Requires :: "requirement list"
  fo_IsVideo :: int
  fo_CdTimeMs :: int

record special_order =
  so_Observed :: bool
  so_Requires :: "requirement list"
  so_IsVideo :: int
  so_CdTimeMs :: int

record customer_order =
  co_Requires :: "requirement list"
  co_ItemRequires :: "requirement list"

record palace_order =
  po_Observed :: bool
  po_FlowerID :: int
  po_Num :: int
  po_IsFinish :: int

record team_order =
  to_Observed :: bool
  to_FlowerID :: int
  to_OrderNum :: int
  to_RemainingNum :: int

record rack_slot =
  rs_ItemID :: int
  rs_Count :: int
  rs_ListedAtMs :: int
  rs_SellReadyAtMs :: int

record main_task =
  mt_Valid :: bool
  mt_Complete :: bool
  mt_ProgressObserved :: bool
  mt_TaskID :: int
  mt_Finished :: int

record collect_reward =
  cr_Type :: int
  cr_Exp :: int
  cr_RecvIDs :: "int list"
  cr_ArtCreateRewardIDs :: "int list"

text \<open>The part of \<open>state.State\<close> the order planner reads beside the wallet and the race.\<close>

record order_state =
  os_counts :: order_counts
  os_flowerOrders :: "(int, flower_order) gomap"
  os_satin :: special_order
  os_decorate :: special_order
  os_customerOrders :: "(int, customer_order) gomap"
  os_customerObserved :: bool
  os_customerNextGenMs :: int
  os_palace :: palace_order
  os_team :: team_order
  os_flowerRack :: "(int, rack_slot) gomap"
  os_mainTask :: "main_task option"
  os_dailyTasks :: "(int, daily_task) gomap"
  os_rewardsReceived :: "int list"
  os_collectRewards :: "(int, collect_reward) gomap"
  os_makeList :: "int list"

section \<open>Policy and catalogue\<close>

record resident_policy =
  res_NormalEnabled :: bool
  res_RewardEnabled :: bool
  res_DecorateEnabled :: bool
  res_SatinEnabled :: bool
  res_Qualities :: "int list"
  res_NormalDailyLimit :: int
  res_SatinDailyLimit :: int
  res_DecorateDailyLimit :: int

record customer_policy =
  cus_Enabled :: bool
  cus_DailyLimit :: int
  cus_ExactFloralCoin :: "int option"
  cus_MinFlowerArtCount :: int
  cus_RejectUnavailableEnabled :: bool

record art_policy =
  art_SellEnabled :: bool
  art_CraftEnabled :: bool
  art_CreateRewardEnabled :: bool
  art_CollectRewardEnabled :: bool
  art_SellArtIds :: "int list"
  art_SellNightPauseEnabled :: bool

record order_policy =
  orp_Resident :: resident_policy
  orp_Customer :: customer_policy
  orp_PalaceEnabled :: bool
  orp_PalaceQualities :: "int list"
  orp_TeamEnabled :: bool
  orp_TeamQualities :: "int list"
  orp_TeamSubmitOnlyCultivated :: bool
  orp_Art :: art_policy
  orp_MainEnabled :: bool
  orp_DailyEnabled :: bool
  orp_WeeklyEnabled :: bool
  orp_DemandPriority :: "(string, int) gomap"

text \<open>
  The rows of the embedded catalogue, decoded: a field that does not decode has its zero value, and
  the price lists of \<open>cPrice\<close> and \<open>$cPrice\<close> are \<open>None\<close> when they do not decode.  \<open>cat_FormatTime\<close> is
  \<open>Time.Format\<close> in the zone of the process.
\<close>

record art_row =
  ar_Level :: int
  ar_VaseID :: int
  ar_Flowers :: "int list"
  ar_SalePrices :: "int list"
  ar_CustomerPrices :: "int list list option"

record catalog =
  cat_ItemName :: "int \<Rightarrow> string"
  cat_Color :: "int \<Rightarrow> int option"
  cat_Art :: "int \<Rightarrow> art_row option"
  cat_ArtIDs :: "int list"
  cat_DefaultPrice :: "int list option"
  cat_DailyMax :: "string \<Rightarrow> int"
  cat_CollectRows :: "(int \<times> int) list"
  cat_MainTaskTarget :: "int \<Rightarrow> (int \<times> int) option"
  cat_MainTaskTitle :: "int \<Rightarrow> string"
  cat_FormatTime :: "time \<Rightarrow> string"

definition quality_of :: "catalog \<Rightarrow> int \<Rightarrow> int" where
  "quality_of cat flowerID = (case cat_Color cat flowerID of None \<Rightarrow> 0 | Some c \<Rightarrow> c)"

abbreviation label :: "catalog \<Rightarrow> int \<Rightarrow> string" where
  "label cat i \<equiv> itemLabel (cat_ItemName cat) i"

section \<open>Recipes\<close>

record recipe =
  rec_ArtID :: int
  rec_VaseID :: int
  rec_Flowers :: "int list"
  rec_Level :: int
  rec_SaleValue :: int

definition FlowerArtRecipeByID :: "catalog \<Rightarrow> int \<Rightarrow> recipe option" where
  "FlowerArtRecipeByID cat artID =
     (case cat_Art cat artID of
        None \<Rightarrow> None
      | Some row \<Rightarrow>
          if ar_VaseID row = 0 \<or> ar_Flowers row = [] then None
          else Some \<lparr>rec_ArtID = artID, rec_VaseID = ar_VaseID row, rec_Flowers = ar_Flowers row,
            rec_Level = ar_Level row, rec_SaleValue = fold max (ar_SalePrices row) 0\<rparr>)"

definition dearer :: "recipe \<Rightarrow> recipe \<Rightarrow> bool" where
  "dearer a b \<longleftrightarrow>
     (if rec_SaleValue a \<noteq> rec_SaleValue b then rec_SaleValue b < rec_SaleValue a
      else rec_ArtID b < rec_ArtID a)"

definition AllFlowerArtRecipes :: "catalog \<Rightarrow> recipe list" where
  "AllFlowerArtRecipes cat =
     stable_sort dearer (List.map_filter (\<lambda>i. if i = 0 then None else FlowerArtRecipeByID cat i) (cat_ArtIDs cat))"

section \<open>What a customer pays\<close>

abbreviation "max_int64 \<equiv> (9223372036854775807::int)"
abbreviation "floralCoinItem \<equiv> (1002::int)"

fun add_prices :: "int \<Rightarrow> int list list \<Rightarrow> int option" where
  "add_prices coins [] = Some coins"
| "add_prices coins (price # prices) =
     (if length price \<noteq> 2 \<or> price ! 0 \<le> 0 \<or> price ! 1 < 0 then None
      else if price ! 0 = floralCoinItem then
        (if max_int64 - coins < price ! 1 then None
         else add_prices (int64 (coins + price ! 1)) prices)
      else add_prices coins prices)"

definition customerArtFloralCoin :: "int list list option \<Rightarrow> int list option \<Rightarrow> int option" where
  "customerArtFloralCoin rowPrices fallback =
     (case rowPrices of
        None \<Rightarrow> None
      | Some prices \<Rightarrow>
          if prices \<noteq> [] then add_prices 0 prices
          else (case fallback of
                  None \<Rightarrow> None
                | Some d \<Rightarrow> if length d \<noteq> 2 then None else add_prices 0 [d]))"

fun add_rewards :: "catalog \<Rightarrow> int \<Rightarrow> requirement list \<Rightarrow> int option" where
  "add_rewards cat acc [] = Some acc"
| "add_rewards cat acc ((itemID, n) # reqs) =
     (if itemID \<le> 0 \<or> n \<le> 0 then None
      else case cat_Art cat itemID of
        None \<Rightarrow> None
      | Some row \<Rightarrow>
          (case customerArtFloralCoin (ar_CustomerPrices row) (cat_DefaultPrice cat) of
             None \<Rightarrow> None
           | Some perArt \<Rightarrow>
               if (max_int64 - acc) div n < perArt then None
               else add_rewards cat (int64 (acc + int64 (perArt * n))) reqs))"

definition CustomerOrderFloralCoinReward :: "catalog \<Rightarrow> customer_order \<Rightarrow> int option" where
  "CustomerOrderFloralCoinReward cat order =
     (if co_Requires order \<noteq> [] \<or> co_ItemRequires order = [] then None
      else add_rewards cat 0 (co_ItemRequires order))"

text \<open>The empty string is \<open>None\<close>.\<close>

definition CustomerOrderRewardSkipReason :: "catalog \<Rightarrow> customer_order \<Rightarrow> customer_policy \<Rightarrow> string option" where
  "CustomerOrderRewardSkipReason cat order p =
     (case cus_ExactFloralCoin p of
        None \<Rightarrow> None
      | Some wanted \<Rightarrow>
          if wanted < 0 then Some lit_coin_invalid
          else case CustomerOrderFloralCoinReward cat order of
            None \<Rightarrow> Some lit_coin_unknown
          | Some coins \<Rightarrow>
              if coins \<noteq> wanted
              then Some (lit_coin_reward @ '' '' @ show_int coins @ '' '' @ lit_coin_differs @ '' '' @
                show_int wanted @ lit_keep_order)
              else None)"

section \<open>Queries of the state\<close>

definition cooldown_ready :: "int \<Rightarrow> time \<Rightarrow> bool" where
  "cooldown_ready cdTimeMs now \<longleftrightarrow> cdTimeMs \<le> 0 \<or> unix_milli cdTimeMs \<le> now"

definition CustomerOrderGenerationReady :: "order_state \<Rightarrow> time \<Rightarrow> bool" where
  "CustomerOrderGenerationReady os now \<longleftrightarrow>
     os_customerObserved os \<and> os_customerOrders os = [] \<and>
     (os_customerNextGenMs os \<le> 0 \<or> os_customerNextGenMs os + 1000 \<le> to_unix_milli now)"

definition FlowerRackClaimableSlotIDs :: "order_state \<Rightarrow> time \<Rightarrow> int list" where
  "FlowerRackClaimableSlotIDs os now =
     sort (map fst (filter (\<lambda>(i, slot). 0 < rs_ItemID slot \<and> 0 < rs_Count slot \<and> 0 < rs_SellReadyAtMs slot \<and>
       rs_SellReadyAtMs slot \<le> to_unix_milli now) (os_flowerRack os)))"

definition EmptyFlowerRackSlotIDs :: "order_state \<Rightarrow> int list" where
  "EmptyFlowerRackSlotIDs os =
     sort (map fst (filter (\<lambda>(i, slot). rs_ItemID slot = 0 \<and> rs_Count slot = 0) (os_flowerRack os)))"

definition ReadyFlowerOrderRewardTargets :: "order_state \<Rightarrow> int list" where
  "ReadyFlowerOrderRewardTargets os =
     (let finished = fold (\<lambda>(i, t) m. if dt_TaskID t = 30060001 \<and> m < dt_Finished t then dt_Finished t else m)
            (os_dailyTasks os) 0
      in if finished \<le> 0 then []
         else map snd (filter (\<lambda>(threshold, target). threshold \<le> finished \<and> target \<notin> set (os_rewardsReceived os))
           [(15, 1), (30, 2), (45, 3), (60, 4)]))"

text \<open>\<open>cat_CollectRows\<close> are the rows of \<open>c_flowerCollect\<close> with their experience.\<close>

definition collectRewardReady :: "catalog \<Rightarrow> collect_reward \<Rightarrow> bool" where
  "collectRewardReady cat view \<longleftrightarrow>
     0 < cr_Type view \<and> 0 < cr_Exp view \<and>
     list_ex (\<lambda>(rowID, exp). 0 < rowID \<and> rowID div 10000 = cr_Type view \<and> rowID \<notin> set (cr_RecvIDs view) \<and>
       0 < exp \<and> exp \<le> cr_Exp view) (cat_CollectRows cat)"

definition ReadyCollectRewardTypes :: "catalog \<Rightarrow> order_state \<Rightarrow> int list \<Rightarrow> int list" where
  "ReadyCollectRewardTypes cat os types =
     sort (map fst (filter (\<lambda>(typeID, reward). (types = [] \<or> typeID \<in> set types) \<and> collectRewardReady cat reward)
       (os_collectRewards os)))"

definition ReadyArtCreateRewardVaseIDs :: "order_state \<Rightarrow> int list" where
  "ReadyArtCreateRewardVaseIDs os =
     (case map_of (os_collectRewards os) 13 of
        None \<Rightarrow> []
      | Some reward \<Rightarrow>
          sort (remdups (filter (\<lambda>vaseID. 0 < vaseID)
            (map (\<lambda>artID. (artID - 1) div 100)
              (filter (\<lambda>artID. 0 < artID \<and> artID \<notin> set (cr_ArtCreateRewardIDs reward)) (os_makeList os))))))"

text \<open>\<open>cat_MainTaskTarget\<close> is \<open>MainTaskFlowerTarget\<close>: the flower and the number a main task asks for.\<close>

definition MainTaskFlowerRequirement :: "catalog \<Rightarrow> int \<Rightarrow> int \<Rightarrow> (int \<times> int) option" where
  "MainTaskFlowerRequirement cat taskID finished =
     (case cat_MainTaskTarget cat taskID of
        None \<Rightarrow> None
      | Some (flowerID, target) \<Rightarrow> if target \<le> finished then None else Some (flowerID, target - finished))"

section \<open>Daily limits\<close>

definition residentNormalDailyLimit :: "catalog \<Rightarrow> resident_policy \<Rightarrow> int" where
  "residentNormalDailyLimit cat p =
     (let limit = res_NormalDailyLimit p; hardLimit = cat_DailyMax cat ''$dailyMax''
      in if limit \<le> 0 then limit else if 0 < hardLimit \<and> hardLimit < limit then hardLimit else limit)"

definition special_daily_limit :: "int \<Rightarrow> int \<Rightarrow> int" where
  "special_daily_limit limit hardLimit =
     (if limit \<le> 0 then (if 0 < hardLimit then hardLimit else 120)
      else if 0 < hardLimit \<and> hardLimit < limit then hardLimit else limit)"

definition residentSatinDailyLimit :: "catalog \<Rightarrow> resident_policy \<Rightarrow> int" where
  "residentSatinDailyLimit cat p = special_daily_limit (res_SatinDailyLimit p) (cat_DailyMax cat ''$dailyMax2'')"

definition residentDecorateDailyLimit :: "catalog \<Rightarrow> resident_policy \<Rightarrow> int" where
  "residentDecorateDailyLimit cat p =
     special_daily_limit (res_DecorateDailyLimit p) (cat_DailyMax cat ''$dailyMax3'')"

definition done_reason :: "string \<Rightarrow> int \<Rightarrow> int \<Rightarrow> string" where
  "done_reason what finished limit = what @ lit_done_today @ '' '' @ show_int finished @ ''/'' @ show_int limit"

text \<open>\<open>None\<close> is not reached; a reached limit has its reason.\<close>

definition residentNormalDailyLimitReached ::
  "catalog \<Rightarrow> order_counts \<Rightarrow> resident_policy \<Rightarrow> time \<Rightarrow> string option" where
  "residentNormalDailyLimitReached cat c p now =
     (case snd (ResidentOrderDailyLimitReached now c) of
        Some til \<Rightarrow> Some (lit_server_cap @ lit_expected @ '' '' @ cat_FormatTime cat til @ '' '' @ lit_retry_after)
      | None \<Rightarrow>
          let limit = residentNormalDailyLimit cat p; finished = ResidentOrderFinishNum c now
          in if limit \<le> 0 then Some (lit_normal_prefix @ lit_cap_positive)
             else if limit \<le> finished then Some (done_reason lit_normal_prefix finished limit) else None)"

definition special_limit_reached ::
  "catalog \<Rightarrow> time option \<Rightarrow> int \<Rightarrow> int \<Rightarrow> string \<Rightarrow> string option" where
  "special_limit_reached cat til0 limit finished what =
     (case til0 of
        Some til \<Rightarrow> Some (lit_server_cap @ lit_wait_midnight @ cat_FormatTime cat til @ lit_then_continue)
      | None \<Rightarrow>
          if limit \<le> 0 then Some (what @ lit_cap_positive)
          else if limit \<le> finished then Some (done_reason what finished limit) else None)"

definition residentSatinDailyLimitReached ::
  "catalog \<Rightarrow> order_counts \<Rightarrow> resident_policy \<Rightarrow> time \<Rightarrow> string option" where
  "residentSatinDailyLimitReached cat c p now =
     special_limit_reached cat (snd (ResidentSatinDailyLimitReached now c)) (residentSatinDailyLimit cat p)
       (ResidentSatinOrderFinishNum c now) lit_satin_order"

definition residentDecorateDailyLimitReached ::
  "catalog \<Rightarrow> order_counts \<Rightarrow> resident_policy \<Rightarrow> time \<Rightarrow> string option" where
  "residentDecorateDailyLimitReached cat c p now =
     special_limit_reached cat (snd (ResidentDecorateDailyLimitReached now c)) (residentDecorateDailyLimit cat p)
       (ResidentDecorateOrderFinishNum c now) lit_decorate_order"

definition customerDailyLimitReached :: "order_counts \<Rightarrow> customer_policy \<Rightarrow> time \<Rightarrow> string option" where
  "customerDailyLimitReached c p now =
     (let limit = cus_DailyLimit p; finished = CustomerOrderFinishNum c now
      in if limit \<le> 0 then None
         else if limit \<le> finished then Some (done_reason lit_customer_order finished limit) else None)"

section \<open>Filters\<close>

definition qualities_ok :: "catalog \<Rightarrow> int list \<Rightarrow> requirement list \<Rightarrow> bool" where
  "qualities_ok cat qualities reqs \<longleftrightarrow>
     int32Set qualities = {} \<or>
     list_all (\<lambda>(flowerID, n). flowerID \<le> 0 \<or> quality_of cat flowerID \<in> int32Set qualities) reqs"

definition residentFlowerOrderAllowed :: "catalog \<Rightarrow> flower_order \<Rightarrow> resident_policy \<Rightarrow> bool" where
  "residentFlowerOrderAllowed cat order p \<longleftrightarrow>
     fo_Requires order \<noteq> [] \<and> qualities_ok cat (res_Qualities p) (fo_Requires order)"

definition residentSpecialOrderAllowed :: "catalog \<Rightarrow> special_order \<Rightarrow> resident_policy \<Rightarrow> bool" where
  "residentSpecialOrderAllowed cat order p \<longleftrightarrow>
     so_Observed order \<and> so_IsVideo order = 0 \<and> so_Requires order \<noteq> [] \<and>
     qualities_ok cat (res_Qualities p) (so_Requires order)"

definition palaceOrderAllowed :: "catalog \<Rightarrow> palace_order \<Rightarrow> int list \<Rightarrow> bool" where
  "palaceOrderAllowed cat order qualities \<longleftrightarrow>
     po_Observed order \<and> po_IsFinish order = 0 \<and> 0 < po_FlowerID order \<and> 0 < po_Num order \<and>
     (int32Set qualities = {} \<or> quality_of cat (po_FlowerID order) \<in> int32Set qualities)"

definition teamOrderNeedCount :: "team_order \<Rightarrow> int" where
  "teamOrderNeedCount order = (if 0 < to_RemainingNum order then to_RemainingNum order else to_OrderNum order)"

definition teamOrderAllowed :: "catalog \<Rightarrow> game_state \<Rightarrow> team_order \<Rightarrow> int list \<Rightarrow> bool \<Rightarrow> bool" where
  "teamOrderAllowed cat s order qualities onlyCultivated \<longleftrightarrow>
     to_Observed order \<and> 0 < to_FlowerID order \<and> 0 < teamOrderNeedCount order \<and>
     (int32Set qualities = {} \<or> quality_of cat (to_FlowerID order) \<in> int32Set qualities) \<and>
     (onlyCultivated \<longrightarrow> flowerCultivated s (to_FlowerID order))"

definition customerOrderFlowerArtCount :: "customer_order \<Rightarrow> int" where
  "customerOrderFlowerArtCount order =
     int32 (sum_list (map snd (filter (\<lambda>(i, n). 0 < i \<and> 0 < n) (co_ItemRequires order))))"

definition customerOrderMeetsMinFlowerArt :: "customer_order \<Rightarrow> customer_policy \<Rightarrow> bool \<Rightarrow> bool" where
  "customerOrderMeetsMinFlowerArt order p bypass \<longleftrightarrow>
     bypass \<or> cus_MinFlowerArtCount p \<le> 0 \<or> cus_MinFlowerArtCount p \<le> customerOrderFlowerArtCount order"

section \<open>The reward is exact\<close>

text \<open>The coins of a price list and of an order as unbounded numbers; \<open>None\<close> is not known.\<close>

definition price_ok :: "int list \<Rightarrow> bool" where
  "price_ok price \<longleftrightarrow> length price = 2 \<and> 0 < price ! 0 \<and> 0 \<le> price ! 1"

definition exact_price :: "int list list \<Rightarrow> int option" where
  "exact_price prices =
     (if list_all price_ok prices
      then Some (sum_list (map (\<lambda>price. price ! 1) (filter (\<lambda>price. price ! 0 = floralCoinItem) prices)))
      else None)"

definition art_price :: "catalog \<Rightarrow> int \<Rightarrow> int option" where
  "art_price cat itemID =
     (case cat_Art cat itemID of
        None \<Rightarrow> None
      | Some row \<Rightarrow>
          (case ar_CustomerPrices row of
             None \<Rightarrow> None
           | Some [] \<Rightarrow> (case cat_DefaultPrice cat of None \<Rightarrow> None | Some d \<Rightarrow> exact_price [d])
           | Some prices \<Rightarrow> exact_price prices))"

fun exact_reward :: "catalog \<Rightarrow> requirement list \<Rightarrow> int option" where
  "exact_reward cat [] = Some 0"
| "exact_reward cat ((itemID, n) # reqs) =
     (if itemID \<le> 0 \<or> n \<le> 0 then None
      else case (art_price cat itemID, exact_reward cat reqs) of
        (Some perArt, Some rest) \<Rightarrow> Some (perArt * n + rest)
      | _ \<Rightarrow> None)"

lemma int64_id: "0 \<le> x \<Longrightarrow> x \<le> max_int64 \<Longrightarrow> int64 x = x"
  by (simp add: int64_def)

lemma exact_price_nonneg: "exact_price prices = Some c \<Longrightarrow> 0 \<le> c"
  by (auto simp: exact_price_def price_ok_def list_all_iff intro!: sum_list_nonneg split: if_splits)

lemma add_prices_exact:
  assumes "0 \<le> coins" "coins \<le> max_int64"
  shows "add_prices coins prices =
    (case exact_price prices of
       None \<Rightarrow> None
     | Some c \<Rightarrow> if coins + c \<le> max_int64 then Some (coins + c) else None)"
  using assms
proof (induction prices arbitrary: coins)
  case Nil
  then show ?case by (simp add: exact_price_def)
next
  case (Cons price prices)
  show ?case
  proof (cases "price_ok price")
    case False
    then have "exact_price (price # prices) = None" by (simp add: exact_price_def)
    moreover have "add_prices coins (price # prices) = None" using False by (auto simp: price_ok_def)
    ultimately show ?thesis by simp
  next
    case ok: True
    then have p: "length price = 2" "0 < price ! 0" "0 \<le> price ! 1" by (simp_all add: price_ok_def)
    show ?thesis
    proof (cases "price ! 0 = floralCoinItem")
      case False
      have "exact_price (price # prices) = exact_price prices" using ok False by (simp add: exact_price_def)
      moreover have "add_prices coins (price # prices) = add_prices coins prices" using p False by simp
      ultimately show ?thesis using Cons.IH [OF Cons.prems] by simp
    next
      case True
      have e: "exact_price (price # prices) =
          (case exact_price prices of None \<Rightarrow> None | Some c \<Rightarrow> Some (price ! 1 + c))"
        using ok True by (simp add: exact_price_def)
      show ?thesis
      proof (cases "max_int64 - coins < price ! 1")
        case over: True
        have "add_prices coins (price # prices) = None" using p True over by simp
        then show ?thesis
          using over exact_price_nonneg [of prices] unfolding e by (cases "exact_price prices") force+
      next
        case False
        then have b: "0 \<le> coins + price ! 1" "coins + price ! 1 \<le> max_int64" using p Cons.prems by simp_all
        have "add_prices coins (price # prices) = add_prices (coins + price ! 1) prices"
          using p True False int64_id [OF b] by simp
        then show ?thesis using Cons.IH [OF b] unfolding e by (cases "exact_price prices") (auto simp: algebra_simps)
      qed
    qed
  qed
qed

lemma art_price_nonneg: "art_price cat i = Some c \<Longrightarrow> 0 \<le> c"
  by (auto simp: art_price_def exact_price_nonneg split: option.splits list.splits)

lemma customer_coin_exact:
  "cat_Art cat i = Some row \<Longrightarrow>
   customerArtFloralCoin (ar_CustomerPrices row) (cat_DefaultPrice cat) =
     (case art_price cat i of None \<Rightarrow> None | Some c \<Rightarrow> if c \<le> max_int64 then Some c else None)"
  using add_prices_exact [of 0]
  by (auto simp: customerArtFloralCoin_def art_price_def exact_price_def price_ok_def not_less int64_id
      split: option.splits list.splits)

lemma exact_reward_nonneg: "exact_reward cat reqs = Some c \<Longrightarrow> 0 \<le> c"
proof (induction reqs arbitrary: c)
  case (Cons req reqs)
  obtain i n where req: "req = (i, n)" by (cases req)
  from Cons.prems req obtain p r where *: "0 < n" "art_price cat i = Some p" "exact_reward cat reqs = Some r" "c = p * n + r"
    by (auto split: if_splits option.splits)
  then show ?case using Cons.IH [of r] art_price_nonneg [of cat i p] by simp
qed simp

lemma add_rewards_exact:
  assumes "0 \<le> acc" "acc \<le> max_int64"
  shows "add_rewards cat acc reqs =
    (case exact_reward cat reqs of
       None \<Rightarrow> None
     | Some c \<Rightarrow> if acc + c \<le> max_int64 then Some (acc + c) else None)"
  using assms
proof (induction reqs arbitrary: acc)
  case Nil
  then show ?case by simp
next
  case (Cons req reqs)
  obtain i n where req: "req = (i, n)" by (cases req)
  show ?case
  proof (cases "i \<le> 0 \<or> n \<le> 0 \<or> art_price cat i = None")
    case True
    then show ?thesis
      using req customer_coin_exact [of cat i] by (auto simp: art_price_def split: option.splits)
  next
    case False
    then obtain p where p: "0 < i" "0 < n" "art_price cat i = Some p" by auto
    then obtain row where row: "cat_Art cat i = Some row" by (auto simp: art_price_def split: option.splits)
    have p0: "0 \<le> p" by (rule art_price_nonneg [OF p(3)])
    have le: "p \<le> p * n" using p0 p(2) mult_left_mono [of 1 n p] by simp
    have coin: "customerArtFloralCoin (ar_CustomerPrices row) (cat_DefaultPrice cat) =
        (if p \<le> max_int64 then Some p else None)"
      using customer_coin_exact [OF row] p(3) by simp
    have e: "exact_reward cat (req # reqs) =
        (case exact_reward cat reqs of None \<Rightarrow> None | Some r \<Rightarrow> Some (p * n + r))"
      using p req by (simp split: option.splits)
    show ?thesis
    proof (cases "max_int64 - acc < p * n")
      case over: True
      have "add_rewards cat acc (req # reqs) = None"
        using p req row coin over div_less_iff_int [OF p(2), of "max_int64 - acc" p] by simp
      then show ?thesis
        using over exact_reward_nonneg [of cat reqs] unfolding e by (cases "exact_reward cat reqs") force+
    next
      case False
      have b: "0 \<le> p * n" "p * n \<le> max_int64" "0 \<le> acc + p * n" "acc + p * n \<le> max_int64"
        using False Cons.prems p0 p(2) by simp_all
      have "add_rewards cat acc (req # reqs) = add_rewards cat (acc + p * n) reqs"
        using p req row coin False le b div_less_iff_int [OF p(2), of "max_int64 - acc" p]
        by (simp add: int64_id)
      then show ?thesis using Cons.IH [OF b(3,4)] unfolding e
        by (cases "exact_reward cat reqs") (auto simp: algebra_simps)
    qed
  qed
qed

text \<open>
  The coins a customer order is said to pay are the exact sum over its pieces of
  flower art: the guards of the code catch every overflow of its 64-bit arithmetic before it happens,
  so a reward is either exact or unknown, and it is unknown only when a price is, when the order is not
  of pieces only, or when the exact sum does not fit.
\<close>

lemma coin_reward_exact:
  "CustomerOrderFloralCoinReward cat order =
    (if co_Requires order = [] \<and> co_ItemRequires order \<noteq> [] then
       (case exact_reward cat (co_ItemRequires order) of
          None \<Rightarrow> None
        | Some coins \<Rightarrow> if coins \<le> max_int64 then Some coins else None)
     else None)"
  using add_rewards_exact [of 0 cat "co_ItemRequires order"]
  by (simp add: CustomerOrderFloralCoinReward_def split: option.split)

end
