(* ===== verification/Arts.thy ===== *)
theory Arts
  imports Orders
begin

text \<open>
  Flower art (\<open>automation/availability.go\<close>): what a recipe needs, whether it can be made from what the
  ledger has not promised, and which art the racks list or have made.
\<close>

section \<open>What a recipe needs\<close>

text \<open>The counts of a recipe's flowers; the order of the list is the iteration order of the map.\<close>

definition recipeFlowerCounts :: "recipe \<Rightarrow> (int, int) gomap" where
  "recipeFlowerCounts r =
     fold (\<lambda>f m. if 0 < f then AList.update f (get_or 0 m f + 1) m else m) (rec_Flowers r) []"

definition flowerArtCraftItemCost :: "int list \<Rightarrow> int \<Rightarrow> (int, int) gomap" where
  "flowerArtCraftItemCost flowerIDs n =
     (if n \<le> 0 then []
      else fold (\<lambda>f m. if 0 < f then AList.update f (get_or 0 m f + n) m else m) flowerIDs [])"

definition artBlockedReasons :: "game_state \<Rightarrow> recipe \<Rightarrow> string list" where
  "artBlockedReasons s r =
     (if \<not> gs_vaseObserved s then [lit_vase_unseen]
      else if \<not> HasVase s (rec_VaseID r)
      then [lit_vase @ '' #'' @ show_int (rec_VaseID r) @ '' '' @ lit_locked]
      else [])"

fun craftable_min :: "inventory_ledger option \<Rightarrow> int \<Rightarrow> (int, int) gomap \<Rightarrow> int" where
  "craftable_min ledger best [] = best"
| "craftable_min ledger best ((flowerID, needEach) # rest) =
     (if needEach \<le> 0 then craftable_min ledger best rest
      else
        let n = Available ledger flowerID div needEach
        in craftable_min ledger (if best < 0 \<or> n < best then n else best) rest)"

definition maxCraftableCount :: "recipe \<Rightarrow> inventory_ledger option \<Rightarrow> int" where
  "maxCraftableCount r ledger =
     (if rec_ArtID r \<le> 0 \<or> ledger = None then 0
      else let m = craftable_min ledger (- 1) (recipeFlowerCounts r) in if m < 0 then 0 else m)"

record art_availability =
  aa_Recipe :: "recipe option"
  aa_VaseUnlocked :: bool
  aa_Craftable :: bool
  aa_Requirements :: "demand list"
  aa_BlockedReasons :: "string list"

definition art_requirement ::
  "catalog \<Rightarrow> int \<Rightarrow> int \<Rightarrow> inventory_ledger option \<Rightarrow> (int, int) gomap \<Rightarrow> int \<times> int \<Rightarrow> demand" where
  "art_requirement cat artID n ledger granted fl =
     (case fl of (flowerID, needEach) \<Rightarrow>
        let required = needEach * n; available = Available ledger flowerID + get_or 0 granted flowerID;
            missing = (if required - available < 0 then 0 else required - available)
        in \<lparr>dem_ID = demandID ''flower_art.availability'' (show_int artID) ''availability'' DemandKindFlower flowerID,
            dem_GoalID = [], dem_Category = [], dem_Domain = [], dem_EntityID = [], dem_Source = [],
            dem_Label = lit_make @ '' '' @ label cat artID, dem_Kind = DemandKindFlower, dem_ItemID = flowerID,
            dem_Count = required, dem_Have = Owned ledger flowerID, dem_Allocated = 0,
            dem_Available = available, dem_Missing = missing, dem_Priority = 0,
            dem_BlockedReasons = (if 0 < missing then [lit_flowers_short] else []), dem_Status = [],
            dem_BlockingStage = [], dem_CostGates = []\<rparr>)"

definition shortage :: "catalog \<Rightarrow> demand \<Rightarrow> string list" where
  "shortage cat d =
     (if 0 < dem_Missing d
      then [label cat (dem_ItemID d) @ '' '' @ lit_lacks @ '' '' @ show_int (dem_Missing d)] else [])"

text \<open>A nil ledger stands for a fresh one over the inventory.\<close>

definition ledger_or_fresh :: "game_state \<Rightarrow> inventory_ledger option \<Rightarrow> inventory_ledger option" where
  "ledger_or_fresh s ledger = (if ledger = None then Some (NewInventoryLedger (Inventory s)) else ledger)"

definition FlowerArtAvailabilityWithAllocated ::
  "catalog \<Rightarrow> game_state \<Rightarrow> int \<Rightarrow> int \<Rightarrow> inventory_ledger option \<Rightarrow> (int, int) gomap \<Rightarrow> art_availability" where
  "FlowerArtAvailabilityWithAllocated cat s artID n ledger0 granted =
     (case FlowerArtRecipeByID cat artID of
        None \<Rightarrow> \<lparr>aa_Recipe = None, aa_VaseUnlocked = False, aa_Craftable = False, aa_Requirements = [],
          aa_BlockedReasons = [lit_no_recipe]\<rparr>
      | Some r \<Rightarrow>
          let ledger = ledger_or_fresh s ledger0;
              reqs = map (art_requirement cat artID n ledger granted) (recipeFlowerCounts r);
              blocked = artBlockedReasons s r @ concat (map (shortage cat) reqs)
          in \<lparr>aa_Recipe = Some r, aa_VaseUnlocked = HasVase s (rec_VaseID r), aa_Craftable = (blocked = []),
              aa_Requirements = reqs, aa_BlockedReasons = blocked\<rparr>)"

definition FlowerArtAvailability ::
  "catalog \<Rightarrow> game_state \<Rightarrow> int \<Rightarrow> int \<Rightarrow> inventory_ledger option \<Rightarrow> art_availability" where
  "FlowerArtAvailability cat s artID n ledger = FlowerArtAvailabilityWithAllocated cat s artID n ledger []"

section \<open>The racks\<close>

definition filterRecipesByUnlockedVase :: "game_state \<Rightarrow> recipe list \<Rightarrow> recipe list" where
  "filterRecipesByUnlockedVase s recipes =
     (if recipes = [] \<or> \<not> gs_vaseObserved s then recipes
      else filter (\<lambda>r. HasVase s (rec_VaseID r)) recipes)"

definition rackCandidateRecipes :: "catalog \<Rightarrow> recipe list" where
  "rackCandidateRecipes cat = AllFlowerArtRecipes cat"

definition rackArtCandidates :: "catalog \<Rightarrow> game_state \<Rightarrow> int list \<Rightarrow> recipe list" where
  "rackArtCandidates cat s preferredArtIDs =
     filterRecipesByUnlockedVase s
       (if preferredArtIDs = [] then rackCandidateRecipes cat
        else filter (\<lambda>r. rec_ArtID r \<in> int32Set preferredArtIDs) (rackCandidateRecipes cat))"

text \<open>The art with most pieces, then the lower id; the triple is (art, pieces to list, available).\<close>

fun best_art :: "inventory_ledger option \<Rightarrow> (int \<times> int \<times> int) option \<Rightarrow> recipe list \<Rightarrow> (int \<times> int \<times> int) option" where
  "best_art ledger best [] = best"
| "best_art ledger best (r # rs) =
     (let available = Available ledger (rec_ArtID r)
      in if available \<le> 0 then best_art ledger best rs
         else
           let listCount = (if flowerRackPerSlotCount < available then flowerRackPerSlotCount else available);
               here = Some (rec_ArtID r, listCount, available)
           in best_art ledger
                (case best of
                   None \<Rightarrow> here
                 | Some (bestArtID, bestCount, bestAvailable) \<Rightarrow>
                     if bestAvailable < available \<or> (available = bestAvailable \<and> rec_ArtID r < bestArtID)
                     then here else best) rs)"

definition bestArtByInventoryCount :: "recipe list \<Rightarrow> inventory_ledger option \<Rightarrow> (int \<times> int) option" where
  "bestArtByInventoryCount recipes ledger =
     (if ledger = None \<or> recipes = [] then None
      else map_option (\<lambda>(artID, n, available). (artID, n)) (best_art ledger None recipes))"

definition bestRackArtByCount ::
  "catalog \<Rightarrow> game_state \<Rightarrow> art_policy \<Rightarrow> inventory_ledger option \<Rightarrow> (int \<times> int) option" where
  "bestRackArtByCount cat s p ledger =
     (if ledger = None then None
      else case bestArtByInventoryCount (rackArtCandidates cat s (art_SellArtIds p)) ledger of
        Some best \<Rightarrow> Some best
      | None \<Rightarrow>
          if art_SellArtIds p \<noteq> []
          then bestArtByInventoryCount (filterRecipesByUnlockedVase s (rackCandidateRecipes cat)) ledger
          else None)"

definition bestRackArt :: "catalog \<Rightarrow> game_state \<Rightarrow> art_policy \<Rightarrow> inventory_ledger option \<Rightarrow> (int \<times> int) option" where
  "bestRackArt cat s p ledger = bestRackArtByCount cat s p ledger"

definition bestRackArtForRace :: "catalog \<Rightarrow> game_state \<Rightarrow> inventory_ledger option \<Rightarrow> (int \<times> int) option" where
  "bestRackArtForRace cat s ledger = bestArtByInventoryCount (rackArtCandidates cat s []) ledger"

fun rackCraftRecipeTarget :: "game_state \<Rightarrow> inventory_ledger option \<Rightarrow> recipe list \<Rightarrow> (int \<times> int) option" where
  "rackCraftRecipeTarget s ledger [] = None"
| "rackCraftRecipeTarget s ledger (r # rs) =
     (if artBlockedReasons s r \<noteq> [] then rackCraftRecipeTarget s ledger rs
      else
        let n = maxCraftableCount r ledger
        in if n \<le> 0 then rackCraftRecipeTarget s ledger rs
           else Some (rec_ArtID r, if flowerRackPerSlotCount < n then flowerRackPerSlotCount else n))"

definition rackCraftTarget ::
  "catalog \<Rightarrow> game_state \<Rightarrow> order_state \<Rightarrow> art_policy \<Rightarrow> inventory_ledger option \<Rightarrow> (int \<times> int) option" where
  "rackCraftTarget cat s os p ledger0 =
     (if \<not> art_SellEnabled p \<or> \<not> art_CraftEnabled p then None
      else if EmptyFlowerRackSlotIDs os = [] then None
      else
        let ledger = ledger_or_fresh s ledger0;
            candidates = rackArtCandidates cat s (art_SellArtIds p);
            fallback = filterRecipesByUnlockedVase s (rackCandidateRecipes cat)
        in if list_ex (\<lambda>r. 0 < Available ledger (rec_ArtID r)) candidates then None
           else case rackCraftRecipeTarget s ledger candidates of
             Some t \<Rightarrow> Some t
           | None \<Rightarrow>
               if art_SellArtIds p = [] then None
               else if list_ex (\<lambda>r. 0 < Available ledger (rec_ArtID r)) fallback then None
               else rackCraftRecipeTarget s ledger fallback)"

section \<open>As many pieces as the flowers allow\<close>

lemma recipe_counts_ok: "gomap_ok (recipeFlowerCounts r)"
proof -
  have "gomap_ok m \<Longrightarrow> gomap_ok (fold (\<lambda>f m. if 0 < f then AList.update f (get_or 0 m f + 1) m else m) fs m)"
    for fs :: "int list" and m :: "(int, int) gomap"
    by (induction fs arbitrary: m) simp_all
  then show ?thesis by (simp add: recipeFlowerCounts_def)
qed

lemma counted:
  "get_or 0 (fold (\<lambda>f m. if 0 < f then AList.update f (get_or 0 m f + k) m else m) fs m) i =
     get_or 0 m i + (if 0 < i then k * int (length (filter ((=) i) fs)) else 0)"
  by (induction fs arbitrary: m) (auto simp: algebra_simps)

lemma recipe_counts:
  "get_or 0 (recipeFlowerCounts r) i = (if 0 < i then int (length (filter ((=) i) (rec_Flowers r))) else 0)"
  using counted [of 1 "rec_Flowers r" "[]" i] by (simp add: recipeFlowerCounts_def)

lemma craft_cost:
  "0 < n \<Longrightarrow> get_or 0 (flowerArtCraftItemCost fs n) i = (if 0 < i then n * int (length (filter ((=) i) fs)) else 0)"
  using counted [of n fs "[]" i] by (simp add: flowerArtCraftItemCost_def)

lemma update_positive:
  fixes m :: "(int, int) gomap"
  assumes "\<forall>(k, v) \<in> set m. 0 < k \<and> 0 < v" "0 < f"
  shows "\<forall>(k, v) \<in> set (AList.update f (get_or 0 m f + 1) m). 0 < k \<and> 0 < v"
proof -
  have "0 \<le> get_or 0 m f"
    using assms(1) by (cases "map_of m f") (fastforce simp: get_or_def dest: map_of_SomeD)+
  moreover have "set (AList.update f v m) \<subseteq> insert (f, v) (set m)" for v
    by (induction m) auto
  ultimately show ?thesis using assms by fastforce
qed

lemma recipe_counts_positive: "(f, n) \<in> set (recipeFlowerCounts r) \<Longrightarrow> 0 < f \<and> 0 < n"
proof -
  have "\<forall>(k, v) \<in> set m. 0 < k \<and> 0 < v \<Longrightarrow>
      \<forall>(k, v) \<in> set (fold (\<lambda>f m. if 0 < f then AList.update f (get_or 0 m f + 1) m else m) fs m). 0 < k \<and> (0::int) < v"
    for fs :: "int list" and m
  proof (induction fs arbitrary: m)
    case Nil
    then show ?case by simp
  next
    case (Cons f fs)
    show ?case
    proof (cases "0 < f")
      case True
      show ?thesis using Cons.IH [OF update_positive [OF Cons.prems True]] True by (simp only: fold_simps if_True)
    next
      case False
      show ?thesis using Cons.IH [OF Cons.prems] False by (simp only: fold_simps if_False)
    qed
  qed
  from this [of "[]" "rec_Flowers r"] show "(f, n) \<in> set (recipeFlowerCounts r) \<Longrightarrow> 0 < f \<and> 0 < n"
    by (auto simp: recipeFlowerCounts_def)
qed

lemma craftable_min_bounds:
  assumes "\<forall>(f, n) \<in> set m. 0 < n"
  shows "(0 \<le> best \<longrightarrow> craftable_min ledger best m \<le> best \<and> 0 \<le> craftable_min ledger best m) \<and>
    (best < 0 \<longrightarrow> m \<noteq> [] \<longrightarrow> 0 \<le> craftable_min ledger best m) \<and>
    (\<forall>(f, n) \<in> set m. craftable_min ledger best m \<le> Available ledger f div n) \<and>
    (craftable_min ledger best m = best \<or> (\<exists>(f, n) \<in> set m. craftable_min ledger best m = Available ledger f div n))"
  using assms
proof (induction ledger best m rule: craftable_min.induct)
  case (1 ledger best)
  then show ?case by simp
next
  case (2 ledger best f n rest)
  have n: "0 < n" using "2.prems" by simp
  let ?q = "Available ledger f div n"
  have q: "0 \<le> ?q" using n Available_nonneg [of ledger f] by (simp add: pos_imp_zdiv_nonneg_iff)
  define b' where "b' = (if best < 0 \<or> ?q < best then ?q else best)"
  have step: "craftable_min ledger best ((f, n) # rest) = craftable_min ledger b' rest"
    using n by (simp add: b'_def Let_def)
  have ih: "(0 \<le> b' \<longrightarrow> craftable_min ledger b' rest \<le> b' \<and> 0 \<le> craftable_min ledger b' rest) \<and>
    (b' < 0 \<longrightarrow> rest \<noteq> [] \<longrightarrow> 0 \<le> craftable_min ledger b' rest) \<and>
    (\<forall>(f, n) \<in> set rest. craftable_min ledger b' rest \<le> Available ledger f div n) \<and>
    (craftable_min ledger b' rest = b' \<or> (\<exists>(f, n) \<in> set rest. craftable_min ledger b' rest = Available ledger f div n))"
    using "2.IH"(2) n "2.prems" by (simp add: b'_def)
  have b: "0 \<le> b'" "b' \<le> ?q" "b' = ?q \<or> b' = best" "0 \<le> best \<longrightarrow> b' \<le> best"
    using q by (auto simp: b'_def)
  show ?case unfolding step using ih b by auto
qed

lemma craft_limit:
  assumes "n = maxCraftableCount r ledger" "0 < n"
  shows "(\<forall>(f, need) \<in> set (recipeFlowerCounts r). n * need \<le> Available ledger f) \<and>
    (\<exists>(f, need) \<in> set (recipeFlowerCounts r). Available ledger f < (n + 1) * need)"
proof -
  let ?m = "recipeFlowerCounts r"
  have pos: "\<forall>(f, need) \<in> set ?m. 0 < need" using recipe_counts_positive by blast
  have n: "n = craftable_min ledger (- 1) ?m"
    using assms by (simp add: maxCraftableCount_def Let_def split: if_splits)
  note c = craftable_min_bounds [OF pos, of "- 1" ledger, folded n]
  have le: "n * need \<le> Available ledger f" if "(f, need) \<in> set ?m" for f need
  proof -
    have "n \<le> Available ledger f div need" "0 < need" using c that pos by auto
    then have "n * need \<le> Available ledger f div need * need" by simp
    also have "\<dots> \<le> Available ledger f"
      using \<open>0 < need\<close> pos_mod_sign [of need "Available ledger f"] div_mult_mod_eq [of "Available ledger f" need] by linarith
    finally show ?thesis .
  qed
  from c assms(2) obtain f need where f: "(f, need) \<in> set ?m" "n = Available ledger f div need" by auto
  have "0 < need" using pos f(1) by auto
  then have "Available ledger f < (n + 1) * need"
    using div_less_iff_int [of need "Available ledger f" "n + 1"] f(2) by simp
  then show ?thesis using le f(1) by blast
qed

lemma rack_target_from:
  "rackCraftRecipeTarget s ledger rs = Some (artID, n) \<Longrightarrow>
     \<exists>r \<in> set rs. rec_ArtID r = artID \<and> artBlockedReasons s r = [] \<and> 0 < maxCraftableCount r ledger \<and>
       n = min flowerRackPerSlotCount (maxCraftableCount r ledger)"
  by (induction rs) (auto simp: Let_def min_def split: if_splits)

lemma candidates_from_catalogue:
  "r \<in> set (rackArtCandidates cat s ids) \<Longrightarrow> r \<in> set (AllFlowerArtRecipes cat)"
  by (auto simp: rackArtCandidates_def filterRecipesByUnlockedVase_def rackCandidateRecipes_def split: if_splits)

lemma recipe_of_catalogue: "r \<in> set (AllFlowerArtRecipes cat) \<Longrightarrow> FlowerArtRecipeByID cat (rec_ArtID r) = Some r"
proof -
  assume "r \<in> set (AllFlowerArtRecipes cat)"
  then obtain i where "FlowerArtRecipeByID cat i = Some r" "i \<noteq> 0"
    by (auto simp: AllFlowerArtRecipes_def map_filter_def split: if_splits)
  moreover have "rec_ArtID r = i" using calculation(1)
    by (auto simp: FlowerArtRecipeByID_def split: option.splits if_splits)
  ultimately show ?thesis by simp
qed

lemma shortage_requirement:
  "shortage cat (art_requirement cat artID n ledger granted (f, need)) = [] \<longleftrightarrow>
     need * n \<le> Available ledger f + get_or 0 granted f"
  by (simp add: shortage_def art_requirement_def Let_def not_less)

lemma craftable_iff:
  assumes "FlowerArtRecipeByID cat artID = Some r" "artBlockedReasons s r = []"
  shows "aa_Craftable (FlowerArtAvailabilityWithAllocated cat s artID n ledger granted) \<longleftrightarrow>
    (\<forall>(f, need) \<in> set (recipeFlowerCounts r).
       need * n \<le> Available (ledger_or_fresh s ledger) f + get_or 0 granted f)"
proof -
  have "aa_Craftable (FlowerArtAvailabilityWithAllocated cat s artID n ledger granted) \<longleftrightarrow>
      (\<forall>x \<in> set (recipeFlowerCounts r).
         shortage cat (art_requirement cat artID n (ledger_or_fresh s ledger) granted x) = [])"
    using assms by (simp add: FlowerArtAvailabilityWithAllocated_def Let_def)
  moreover have "shortage cat (art_requirement cat artID n (ledger_or_fresh s ledger) granted x) = [] \<longleftrightarrow>
      (case x of (f, need) \<Rightarrow> need * n \<le> Available (ledger_or_fresh s ledger) f + get_or 0 granted f)" for x
    by (cases x) (simp add: shortage_requirement)
  ultimately show ?thesis by simp
qed

text \<open>
  C28.  When the racks have an art made, no art they would list is in stock, at most
  twelve pieces are made, and they can be made at once from flowers no demand has been promised; one
  piece more could not, unless twelve are made already.
\<close>

theorem rack_crafts_makeable:
  assumes "rackCraftTarget cat s os p ledger = Some (artID, n)"
  shows "0 < n \<and> n \<le> 12 \<and> EmptyFlowerRackSlotIDs os \<noteq> [] \<and>
    aa_Craftable (FlowerArtAvailability cat s artID n ledger) \<and>
    (n < 12 \<longrightarrow> \<not> aa_Craftable (FlowerArtAvailability cat s artID (n + 1) ledger)) \<and>
    (\<forall>r \<in> set (rackArtCandidates cat s (art_SellArtIds p)).
       Available (ledger_or_fresh s ledger) (rec_ArtID r) \<le> 0)"
proof -
  let ?l = "ledger_or_fresh s ledger"
  have slots: "EmptyFlowerRackSlotIDs os \<noteq> []"
    and none: "\<forall>r \<in> set (rackArtCandidates cat s (art_SellArtIds p)). Available ?l (rec_ArtID r) \<le> 0"
    using assms by (auto simp: rackCraftTarget_def Let_def list_ex_iff not_less split: if_splits)
  obtain ids where "rackCraftRecipeTarget s ?l (rackArtCandidates cat s ids) = Some (artID, n)"
  proof -
    have "filterRecipesByUnlockedVase s (rackCandidateRecipes cat) = rackArtCandidates cat s []"
      by (simp add: rackArtCandidates_def)
    then show ?thesis
      using assms that by (auto simp: rackCraftTarget_def Let_def split: if_splits option.splits)
  qed
  from rack_target_from [OF this] obtain r where r: "r \<in> set (rackArtCandidates cat s ids)" "rec_ArtID r = artID"
    "artBlockedReasons s r = []" "0 < maxCraftableCount r ?l" "n = min 12 (maxCraftableCount r ?l)" by blast
  have rec_of: "FlowerArtRecipeByID cat artID = Some r"
    using recipe_of_catalogue candidates_from_catalogue [OF r(1)] r(2) by blast
  note cr = craftable_iff [OF rec_of r(3), of _ ledger "[]", simplified, folded FlowerArtAvailability_def]
  define m where "m = maxCraftableCount r ?l"
  have m: "0 < m" "n = min 12 m" using r(4,5) by (simp_all add: m_def)
  note lim = craft_limit [OF m_def m(1)]
  have can: "need * n \<le> Available ?l f" if f: "(f, need) \<in> set (recipeFlowerCounts r)" for f need
  proof -
    have "0 < need" using recipe_counts_positive [OF f] by simp
    then have "n * need \<le> m * need" using m by simp
    also have "\<dots> \<le> Available ?l f" using lim f by blast
    finally show ?thesis by (simp add: mult.commute)
  qed
  have cannot: "\<exists>(f, need) \<in> set (recipeFlowerCounts r). Available ?l f < need * (n + 1)" if "n < 12"
    using lim m that by (auto simp: min_def mult.commute split: if_splits)
  have "aa_Craftable (FlowerArtAvailability cat s artID n ledger)" using can cr by blast
  moreover have "n < 12 \<longrightarrow> \<not> aa_Craftable (FlowerArtAvailability cat s artID (n + 1) ledger)"
    using cannot cr [of "n + 1"] by fastforce
  ultimately show ?thesis using m slots none by auto
qed

definition bouquet_catalog :: catalog where
  "bouquet_catalog = \<lparr>cat_ItemName = (\<lambda>i. []), cat_Color = (\<lambda>i. None),
     cat_Art = (\<lambda>i. if i = 101 then Some \<lparr>ar_Level = 1, ar_VaseID = 1, ar_Flowers = [12, 12, 7],
       ar_SalePrices = [3], ar_CustomerPrices = Some []\<rparr> else None),
     cat_ArtIDs = [101], cat_DefaultPrice = Some [1002, 4], cat_DailyMax = (\<lambda>k. 0), cat_CollectRows = [],
     cat_MainTaskTarget = (\<lambda>i. None), cat_MainTaskTitle = (\<lambda>i. []), cat_FormatTime = (\<lambda>t. [])\<rparr>"

definition no_special :: special_order where
  "no_special = \<lparr>so_Observed = False, so_Requires = [], so_IsVideo = 0, so_CdTimeMs = 0\<rparr>"

definition quiet_orders :: order_state where
  "quiet_orders = \<lparr>os_counts = fresh_counts, os_flowerOrders = [], os_satin = no_special, os_decorate = no_special,
     os_customerOrders = [], os_customerObserved = False, os_customerNextGenMs = 0,
     os_palace = \<lparr>po_Observed = False, po_FlowerID = 0, po_Num = 0, po_IsFinish = 0\<rparr>,
     os_team = \<lparr>to_Observed = False, to_FlowerID = 0, to_OrderNum = 0, to_RemainingNum = 0\<rparr>,
     os_flowerRack = [(3, \<lparr>rs_ItemID = 0, rs_Count = 0, rs_ListedAtMs = 0, rs_SellReadyAtMs = 0\<rparr>)],
     os_mainTask = None, os_dailyTasks = [], os_rewardsReceived = [], os_collectRewards = [],
     os_makeList = []\<rparr>"

definition selling_arts :: art_policy where
  "selling_arts = \<lparr>art_SellEnabled = True, art_CraftEnabled = True, art_CreateRewardEnabled = False,
     art_CollectRewardEnabled = False, art_SellArtIds = [], art_SellNightPauseEnabled = False\<rparr>"

text \<open>Three of flower 7 and two of flower 12 make one bouquet of two and one, not two.\<close>

theorem rack_crafts_makeable_witness:
  "rackCraftTarget bouquet_catalog sample_state quiet_orders selling_arts None = Some (101, 1) \<and>
   aa_Craftable (FlowerArtAvailability bouquet_catalog sample_state 101 1 None) \<and>
   \<not> aa_Craftable (FlowerArtAvailability bouquet_catalog sample_state 101 2 None)"
proof -
  have t: "rackCraftTarget bouquet_catalog sample_state quiet_orders selling_arts None = Some (101, 1)"
    by code_simp
  show ?thesis using rack_crafts_makeable [OF t] t by simp
qed

section \<open>The art with most pieces\<close>

text \<open>The triple kept by the scan is a listed art in stock, and none scanned has more or as many with a lower id.\<close>

definition best_so_far :: "inventory_ledger option \<Rightarrow> recipe list \<Rightarrow> int \<times> int \<times> int \<Rightarrow> bool" where
  "best_so_far ledger rs b \<longleftrightarrow>
     (case b of (artID, n, available) \<Rightarrow>
        artID \<in> rec_ArtID ` set rs \<and> available = Available ledger artID \<and> 0 < available \<and>
        n = min flowerRackPerSlotCount available \<and>
        (\<forall>r \<in> set rs. Available ledger (rec_ArtID r) < available \<or>
           Available ledger (rec_ArtID r) = available \<and> artID \<le> rec_ArtID r))"

lemma best_art_spec:
  assumes "case best of None \<Rightarrow> \<forall>r \<in> set seen. Available ledger (rec_ArtID r) \<le> 0 | Some b \<Rightarrow> best_so_far ledger seen b"
  shows "case best_art ledger best rs of
      None \<Rightarrow> \<forall>r \<in> set (seen @ rs). Available ledger (rec_ArtID r) \<le> 0
    | Some b \<Rightarrow> best_so_far ledger (seen @ rs) b"
  using assms
proof (induction rs arbitrary: best seen)
  case Nil
  then show ?case by (simp only: append_Nil2 best_art.simps)
next
  case (Cons r rs)
  let ?a = "Available ledger (rec_ArtID r)"
  show ?case
  proof (cases "?a \<le> 0")
    case True
    have "case best of None \<Rightarrow> \<forall>q \<in> set (seen @ [r]). Available ledger (rec_ArtID q) \<le> 0
        | Some b \<Rightarrow> best_so_far ledger (seen @ [r]) b"
      using Cons.prems True by (auto simp: best_so_far_def split: option.splits)
    note ih = Cons.IH [OF this]
    have "best_art ledger best (r # rs) = best_art ledger best rs" using True by simp
    then show ?thesis using ih by (simp only: append_assoc append_Cons append_Nil)
  next
    case False
    define here where "here = (rec_ArtID r, min flowerRackPerSlotCount ?a, ?a)"
    define best' where "best' = (case best of None \<Rightarrow> here
      | Some (i, n, a) \<Rightarrow> if a < ?a \<or> (?a = a \<and> rec_ArtID r < i) then here else (i, n, a))"
    have b': "best_so_far ledger (seen @ [r]) best'"
    proof (cases best)
      case None
      then show ?thesis using Cons.prems False by (fastforce simp: best_so_far_def best'_def here_def)
    next
      case (Some b)
      obtain i n a where b: "b = (i, n, a)" by (cases b)
      show ?thesis
      proof (cases "a < ?a \<or> (?a = a \<and> rec_ArtID r < i)")
        case True
        then have "best' = here" using Some b by (simp add: best'_def)
        then show ?thesis
          using Cons.prems Some b True False by (fastforce simp: best_so_far_def here_def)
      next
        case no: False
        then have "best' = (i, n, a)" using Some b by (auto simp: best'_def)
        then show ?thesis using Cons.prems Some b no by (auto simp: best_so_far_def)
      qed
    qed
    have step: "best_art ledger best (r # rs) = best_art ledger (Some best') rs"
      using False by (auto simp: best'_def here_def Let_def min_def split: option.splits)
    have "case Some best' of None \<Rightarrow> \<forall>q \<in> set (seen @ [r]). Available ledger (rec_ArtID q) \<le> 0
        | Some b \<Rightarrow> best_so_far ledger (seen @ [r]) b"
      using b' by simp
    note ih = Cons.IH [OF this]
    show ?thesis unfolding step using ih by (simp only: append_assoc append_Cons append_Nil)
  qed
qed

lemma best_by_count:
  "bestArtByInventoryCount rs ledger = Some (artID, n) \<Longrightarrow>
     best_so_far ledger rs (artID, n, Available ledger artID)"
  using best_art_spec [where best = None and seen = "[]" and ledger = ledger and rs = rs]
  by (auto simp: bestArtByInventoryCount_def best_so_far_def simp del: Available.simps split: if_splits)

lemma best_rack_art:
  assumes "bestRackArt cat s p ledger = Some (artID, n)"
  shows "0 < n \<and> n \<le> flowerRackPerSlotCount \<and> n \<le> Available ledger artID"
proof -
  obtain rs where "bestArtByInventoryCount rs ledger = Some (artID, n)"
    using assms by (auto simp: bestRackArt_def bestRackArtByCount_def split: if_splits option.splits)
  from best_by_count [OF this] show ?thesis by (auto simp: best_so_far_def)
qed

end
