(* ===== verification/OrderDemands.thy ===== *)
theory OrderDemands
  imports Arts
begin

text \<open>
  Goals and the demands of orders (\<open>automation/goals_demands.go\<close>): what the open orders ask for
  directly, and the flowers for the pieces of flower art they still lack.
\<close>

abbreviation "GoalPalaceOrder \<equiv> ''order.palace''"
abbreviation "GoalTeamOrder \<equiv> ''order.team''"

section \<open>Goals\<close>

definition make_goal :: "order_policy \<Rightarrow> string \<Rightarrow> string \<Rightarrow> string \<Rightarrow> string \<Rightarrow> goal" where
  "make_goal p i category domain lbl =
     \<lparr>goal_ID = i, goal_Category = category, goal_Domain = domain, goal_Label = lbl,
      goal_Priority = priorityFor (orp_DemandPriority p) i\<rparr>"

definition enabledGoals :: "order_policy \<Rightarrow> goal list" where
  "enabledGoals p =
     (let res = orp_Resident p; art = orp_Art p
      in (if res_NormalEnabled res \<or> res_RewardEnabled res \<or> res_DecorateEnabled res \<or> res_SatinEnabled res
          then [make_goal p GoalResidentOrder CategoryOrder ''order.resident'' lit_resident_order] else []) @
         (if cus_Enabled (orp_Customer p)
          then [make_goal p GoalCustomerOrder CategoryOrder ''order.customer'' lit_customer_order] else []) @
         (if orp_PalaceEnabled p
          then [make_goal p GoalPalaceOrder CategoryOrder ''order.palace'' lit_palace_order] else []) @
         (if orp_TeamEnabled p
          then [make_goal p GoalTeamOrder CategoryOrder ''order.team'' lit_team_order] else []) @
         (if art_SellEnabled art \<or> art_CraftEnabled art \<or> art_CreateRewardEnabled art \<or> art_CollectRewardEnabled art
          then [make_goal p GoalFlowerArt CategoryOrder ''order.flower_art'' lit_art_goal] else []) @
         (if orp_MainEnabled p
          then [make_goal p GoalMainTask CategoryBasic ''basic.task.main'' lit_main_task] else []) @
         (if orp_DailyEnabled p
          then [make_goal p GoalDailyTask CategoryBasic ''basic.task.daily'' lit_daily_tasks] else []) @
         (if orp_WeeklyEnabled p
          then [make_goal p GoalWeeklyTask CategoryBasic ''basic.task.weekly'' lit_weekly_task] else []))"

definition goalByID :: "goal list \<Rightarrow> string \<Rightarrow> goal option" where
  "goalByID goals i = List.find (\<lambda>g. goal_ID g = i) goals"

section \<open>Direct demands\<close>

definition direct_demand ::
  "(int, int) gomap \<Rightarrow> goal \<Rightarrow> string \<Rightarrow> string \<Rightarrow> int \<Rightarrow> int \<Rightarrow> string \<Rightarrow> string \<Rightarrow> string list \<Rightarrow> demand list" where
  "direct_demand inventory goal source kind itemID n entityID lbl blocked =
     (if itemID \<le> 0 \<or> n \<le> 0 then []
      else
        let have = get_or 0 inventory itemID; missing = (if n - have < 0 then 0 else n - have)
        in [\<lparr>dem_ID = demandID (goal_ID goal) entityID source kind itemID, dem_GoalID = goal_ID goal,
             dem_Category = goal_Category goal, dem_Domain = goal_Domain goal, dem_EntityID = entityID,
             dem_Source = source, dem_Label = lbl, dem_Kind = kind, dem_ItemID = itemID, dem_Count = n,
             dem_Have = have, dem_Allocated = 0, dem_Available = have, dem_Missing = missing,
             dem_Priority = goal_Priority goal, dem_BlockedReasons = blocked, dem_Status = [],
             dem_BlockingStage = [], dem_CostGates = []\<rparr>])"

definition flower_needs ::
  "(int, int) gomap \<Rightarrow> goal \<Rightarrow> string \<Rightarrow> string \<Rightarrow> requirement list \<Rightarrow> demand list" where
  "flower_needs inventory goal entityID lbl reqs =
     concat (map (\<lambda>(flowerID, n). direct_demand inventory goal ''direct'' DemandKindFlower flowerID n entityID lbl [])
       reqs)"

definition resident_demands ::
  "catalog \<Rightarrow> (int, int) gomap \<Rightarrow> order_state \<Rightarrow> resident_policy \<Rightarrow> goal \<Rightarrow> time \<Rightarrow> demand list" where
  "resident_demands cat inventory os p goal now =
     (if res_NormalEnabled p \<and> residentNormalDailyLimitReached cat (os_counts os) p now = None
      then concat (map (\<lambda>(boxID, order).
             if fo_IsVideo order \<noteq> 0 \<or> \<not> residentFlowerOrderAllowed cat order p then []
             else flower_needs inventory goal (show_int boxID) (lit_resident_order @ '' #'' @ show_int boxID)
               (fo_Requires order)) (os_flowerOrders os))
      else []) @
     (if res_SatinEnabled p \<and> residentSatinDailyLimitReached cat (os_counts os) p now = None \<and>
         so_IsVideo (os_satin os) = 0 \<and> residentSpecialOrderAllowed cat (os_satin os) p \<and>
         cooldown_ready (so_CdTimeMs (os_satin os)) now
      then flower_needs inventory goal ''satin'' lit_satin_order (so_Requires (os_satin os)) else []) @
     (if res_DecorateEnabled p \<and> residentDecorateDailyLimitReached cat (os_counts os) p now = None \<and>
         so_IsVideo (os_decorate os) = 0 \<and> residentSpecialOrderAllowed cat (os_decorate os) p \<and>
         cooldown_ready (so_CdTimeMs (os_decorate os)) now
      then flower_needs inventory goal ''decorate'' lit_decorate_order (so_Requires (os_decorate os)) else [])"

definition art_need ::
  "catalog \<Rightarrow> game_state \<Rightarrow> goal \<Rightarrow> string \<Rightarrow> string \<Rightarrow> requirement \<Rightarrow> demand list" where
  "art_need cat s goal entityID lbl req =
     (case req of (itemID, n) \<Rightarrow>
        if itemID \<le> 0 \<or> n \<le> 0 then []
        else
          direct_demand (Inventory s) goal ''direct'' DemandKindFlowerArt itemID n entityID lbl
            (case FlowerArtRecipeByID cat itemID of
               None \<Rightarrow> [lit_no_recipe]
             | Some r \<Rightarrow> if 0 < n - get_or 0 (Inventory s) itemID then artBlockedReasons s r else []))"

definition customer_demands ::
  "catalog \<Rightarrow> game_state \<Rightarrow> order_state \<Rightarrow> customer_policy \<Rightarrow> goal \<Rightarrow> time \<Rightarrow> demand list" where
  "customer_demands cat s os p goal now =
     (if customerDailyLimitReached (os_counts os) p now \<noteq> None then []
      else
        let bypassMinArt = RaceHoldsUnfinishedCustomerOrder (FmlRaceAt s now)
        in concat (map (\<lambda>(npcID, order).
             if CustomerOrderRewardSkipReason cat order p \<noteq> None \<or>
                \<not> customerOrderMeetsMinFlowerArt order p bypassMinArt then []
             else
               let lbl = lit_customer_order @ '' NPC='' @ show_int npcID
               in flower_needs (Inventory s) goal (show_int npcID) lbl (co_Requires order) @
                  concat (map (art_need cat s goal (show_int npcID) lbl) (co_ItemRequires order)))
             (os_customerOrders os)))"

definition main_task_demand :: "catalog \<Rightarrow> game_state \<Rightarrow> order_state \<Rightarrow> goal \<Rightarrow> demand list" where
  "main_task_demand cat s os goal =
     (case os_mainTask os of
        None \<Rightarrow> []
      | Some task \<Rightarrow>
          if mt_Valid task \<and> \<not> mt_Complete task \<and> mt_ProgressObserved task then
            (case MainTaskFlowerRequirement cat (mt_TaskID task) (mt_Finished task) of
               None \<Rightarrow> []
             | Some (flowerID, missing) \<Rightarrow>
                 direct_demand (Inventory s) goal ''direct'' DemandKindFlower flowerID missing
                   (show_int (mt_TaskID task)) (cat_MainTaskTitle cat (mt_TaskID task)) [])
          else [])"

definition with_goal :: "goal list \<Rightarrow> string \<Rightarrow> (goal \<Rightarrow> 'a list) \<Rightarrow> 'a list" where
  "with_goal goals i f = (case goalByID goals i of None \<Rightarrow> [] | Some goal \<Rightarrow> f goal)"

definition buildDirectDemands ::
  "catalog \<Rightarrow> game_state \<Rightarrow> order_state \<Rightarrow> order_policy \<Rightarrow> goal list \<Rightarrow> time \<Rightarrow> demand list" where
  "buildDirectDemands cat s os p goals now =
     sortDemands
       (with_goal goals GoalResidentOrder (\<lambda>goal. resident_demands cat (Inventory s) os (orp_Resident p) goal now) @
        with_goal goals GoalCustomerOrder (\<lambda>goal. customer_demands cat s os (orp_Customer p) goal now) @
        with_goal goals GoalPalaceOrder (\<lambda>goal.
          if palaceOrderAllowed cat (os_palace os) (orp_PalaceQualities p)
          then direct_demand (Inventory s) goal ''direct'' DemandKindFlower (po_FlowerID (os_palace os))
            (po_Num (os_palace os)) ''current'' lit_palace_order []
          else []) @
        with_goal goals GoalTeamOrder (\<lambda>goal.
          if teamOrderAllowed cat s (os_team os) (orp_TeamQualities p) (orp_TeamSubmitOnlyCultivated p)
          then direct_demand (Inventory s) goal ''direct'' DemandKindFlower (to_FlowerID (os_team os))
            (teamOrderNeedCount (os_team os)) ''current'' lit_team_order []
          else []) @
        with_goal goals GoalMainTask (\<lambda>goal. main_task_demand cat s os goal))"

section \<open>Demands of production\<close>

definition craft_source :: "int \<Rightarrow> string" where
  "craft_source artID = ''craft:'' @ show_int artID"

definition craft_flower_demand ::
  "inventory_ledger option \<Rightarrow> goal \<Rightarrow> string \<Rightarrow> string \<Rightarrow> string \<Rightarrow> int \<Rightarrow> int \<times> int \<Rightarrow> demand" where
  "craft_flower_demand ledger goal entityID source lbl craftCount fl =
     (case fl of (flowerID, n) \<Rightarrow>
        let required = n * craftCount; available = Available ledger flowerID
        in \<lparr>dem_ID = demandID (goal_ID goal) entityID source DemandKindFlower flowerID,
            dem_GoalID = goal_ID goal, dem_Category = goal_Category goal, dem_Domain = goal_Domain goal,
            dem_EntityID = entityID, dem_Source = source, dem_Label = lbl, dem_Kind = DemandKindFlower,
            dem_ItemID = flowerID, dem_Count = required, dem_Have = Owned ledger flowerID, dem_Allocated = 0,
            dem_Available = available,
            dem_Missing = (if required - available < 0 then 0 else required - available),
            dem_Priority = goal_Priority goal, dem_BlockedReasons = [], dem_Status = [],
            dem_BlockingStage = [], dem_CostGates = []\<rparr>)"

definition appendCraftFlowerDemands ::
  "catalog \<Rightarrow> game_state \<Rightarrow> inventory_ledger option \<Rightarrow> goal \<Rightarrow> string \<Rightarrow> string \<Rightarrow> string \<Rightarrow> int \<Rightarrow> int \<Rightarrow> demand list" where
  "appendCraftFlowerDemands cat s ledger0 goal entityID source lbl artID craftCount =
     (if craftCount \<le> 0 then []
      else case FlowerArtRecipeByID cat artID of
        None \<Rightarrow> []
      | Some r \<Rightarrow>
          if artBlockedReasons s r \<noteq> [] then []
          else map (craft_flower_demand (ledger_or_fresh s ledger0) goal entityID source lbl craftCount)
            (recipeFlowerCounts r))"

definition buildProductionDemands ::
  "catalog \<Rightarrow> game_state \<Rightarrow> goal list \<Rightarrow> demand list \<Rightarrow> inventory_ledger option \<Rightarrow> demand list" where
  "buildProductionDemands cat s goals direct ledger =
     sortDemands (with_goal goals GoalCustomerOrder (\<lambda>goal.
       concat (map (\<lambda>d.
         if dem_GoalID d \<noteq> goal_ID goal \<or> dem_Kind d \<noteq> DemandKindFlowerArt \<or> dem_Missing d \<le> 0 \<or>
            dem_BlockedReasons d \<noteq> [] then []
         else appendCraftFlowerDemands cat s ledger goal (dem_EntityID d) (craft_source (dem_ItemID d))
           (dem_Label d @ '' '' @ lit_make @ '' '' @ label cat (dem_ItemID d)) (dem_ItemID d) (dem_Missing d))
         direct)))"

section \<open>Well-formed demands\<close>

text \<open>A demand as the planner may use it: the facts every reader of the list relies on.\<close>

definition demand_typed :: "(int, int) gomap \<Rightarrow> goal list \<Rightarrow> demand \<Rightarrow> bool" where
  "demand_typed inventory goals d \<longleftrightarrow>
     0 < dem_ItemID d \<and> 0 < dem_Count d \<and> dem_Kind d \<in> {DemandKindFlower, DemandKindFlowerArt} \<and>
     dem_Source d = ''direct'' \<and> dem_Have d = get_or 0 inventory (dem_ItemID d) \<and>
     dem_Missing d = max 0 (dem_Count d - dem_Have d) \<and> dem_Allocated d = 0 \<and>
     dem_ID d = demandID (dem_GoalID d) (dem_EntityID d) (dem_Source d) (dem_Kind d) (dem_ItemID d) \<and>
     (\<exists>g \<in> set goals. dem_GoalID d = goal_ID g \<and> dem_Priority d = goal_Priority g \<and>
        dem_Category d = goal_Category g \<and> dem_Domain d = goal_Domain g)"

lemma direct_demand_typed:
  "g \<in> set goals \<Longrightarrow> kind \<in> {DemandKindFlower, DemandKindFlowerArt} \<Longrightarrow>
     d \<in> set (direct_demand inventory g ''direct'' kind i n e l b) \<Longrightarrow> demand_typed inventory goals d"
  by (auto simp: direct_demand_def demand_typed_def Let_def max_def split: if_splits)

lemma flower_needs_typed:
  "g \<in> set goals \<Longrightarrow> d \<in> set (flower_needs inventory g e l reqs) \<Longrightarrow> demand_typed inventory goals d"
  by (auto simp: flower_needs_def intro: direct_demand_typed)

lemma resident_demands_typed:
  "g \<in> set goals \<Longrightarrow> d \<in> set (resident_demands cat inventory os p g now) \<Longrightarrow> demand_typed inventory goals d"
  by (auto simp: resident_demands_def intro: flower_needs_typed split: if_splits)

lemma art_need_typed:
  "g \<in> set goals \<Longrightarrow> d \<in> set (art_need cat s g e l req) \<Longrightarrow> demand_typed (Inventory s) goals d"
  by (cases req) (auto simp: art_need_def intro: direct_demand_typed split: if_splits)

lemma customer_demands_typed:
  "g \<in> set goals \<Longrightarrow> d \<in> set (customer_demands cat s os p g now) \<Longrightarrow> demand_typed (Inventory s) goals d"
  by (auto simp: customer_demands_def Let_def intro: flower_needs_typed art_need_typed split: if_splits)

lemma main_task_demand_typed:
  assumes "g \<in> set goals" "d \<in> set (main_task_demand cat s os g)"
  shows "demand_typed (Inventory s) goals d"
proof (cases "os_mainTask os")
  case None
  then show ?thesis using assms(2) by (simp add: main_task_demand_def)
next
  case (Some task)
  let ?r = "MainTaskFlowerRequirement cat (mt_TaskID task) (mt_Finished task)"
  have inner: "d \<in> set (case ?r of None \<Rightarrow> []
      | Some (flowerID, missing) \<Rightarrow>
          direct_demand (Inventory s) g ''direct'' DemandKindFlower flowerID missing
            (show_int (mt_TaskID task)) (cat_MainTaskTitle cat (mt_TaskID task)) [])"
  proof (cases "mt_Valid task \<and> \<not> mt_Complete task \<and> mt_ProgressObserved task")
    case True
    show ?thesis using assms(2) unfolding main_task_demand_def Some option.case if_P [OF True] .
  next
    case False
    have "d \<in> set []"
      using assms(2) unfolding main_task_demand_def Some option.case if_not_P [OF False] .
    then show ?thesis by simp
  qed
  show ?thesis
  proof (cases ?r)
    case None
    show ?thesis using inner unfolding None option.case by simp
  next
    case (Some q)
    obtain i n where q: "q = (i, n)" by (cases q)
    show ?thesis
      using inner unfolding Some q option.case prod.case by (rule direct_demand_typed [OF assms(1), rotated]) simp
  qed
qed

lemma with_goal_elem:
  "d \<in> set (with_goal goals i f) \<Longrightarrow> \<exists>g \<in> set goals. goal_ID g = i \<and> d \<in> set (f g)"
  by (cases "goalByID goals i") (auto simp: with_goal_def goalByID_def dest: find_SomeD)

interpretation demand_order: weak_order UNIV demand_before
proof
  fix x y z :: demand
  show "demand_before x y \<Longrightarrow> \<not> demand_before y x" by (auto simp: demand_before_def split: if_splits)
  show "\<not> demand_before x y \<Longrightarrow> \<not> demand_before y z \<Longrightarrow> \<not> demand_before x z"
    by (auto simp: demand_before_def split: if_splits)
qed

text \<open>
  C29.  Every demand built from the orders and the main task is well formed: it
  asks for a positive number of an item, its shortage is what the number exceeds the stock by, its
  identity is spelled from its own goal, order, kind and item, and its goal is enabled with the
  priority the demand carries; and the list is in the order in which the ledger serves it.
\<close>

theorem direct_demands_typed:
  "list_all (demand_typed (Inventory s) goals) (buildDirectDemands cat s os p goals now) \<and>
   sorted_wrt (\<lambda>a b. \<not> demand_before b a) (buildDirectDemands cat s os p goals now)"
proof -
  have "demand_typed (Inventory s) goals d" if "d \<in> set (buildDirectDemands cat s os p goals now)" for d
    using that unfolding buildDirectDemands_def sortDemands_def set_stable_sort set_append Un_iff
    by (elim disjE; elim with_goal_elem [THEN bexE] conjE)
      (auto intro: resident_demands_typed customer_demands_typed main_task_demand_typed direct_demand_typed
        split: if_splits)
  moreover have "sorted_wrt (\<lambda>a b. \<not> demand_before b a) (buildDirectDemands cat s os p goals now)"
    unfolding buildDirectDemands_def sortDemands_def by (rule demand_order.stable_sort_sorted) simp
  ultimately show ?thesis by (simp add: list_all_iff)
qed

end
