(* ===== verification/OrderOps.thy ===== *)
theory OrderOps
  imports OrderDemands
begin

text \<open>
  The operations of orders, flower art and racks (\<open>automation/orders.go\<close> and the rest of
  \<open>availability.go\<close>): deliveries from what the ledger granted, crafting, refusing, claiming and listing.
\<close>

abbreviation "RPCOrderFlowerRecvOrderRwd \<equiv> ''orderFlower.recvOrderRwd''"
abbreviation "RPCOrderFlowerFinishSatinOrder \<equiv> ''orderFlower.finishSatinOrder''"
abbreviation "RPCOrderFlowerFinishDecorateOrder \<equiv> ''orderFlower.finishDecorateOrder''"
abbreviation "RPCOrderCustomerRejectOrder \<equiv> ''orderCustomer.rejectOrder''"
abbreviation "RPCOrderCustomerGenOrder \<equiv> ''orderCustomer.genOrder''"
abbreviation "RPCOrderPalaceEnter \<equiv> ''orderPalace.enter''"
abbreviation "RPCOrderPalaceFinishOrder \<equiv> ''orderPalace.finishOrder''"
abbreviation "RPCOrderTeamRefreshOrder \<equiv> ''orderTeam.refreshOrder''"
abbreviation "RPCOrderTeamSubmitOrder \<equiv> ''orderTeam.submitOrder''"
abbreviation "RPCCollectRwdRecvArtCreateRwdByVase \<equiv> ''collectRwd.recvArtCreateRwdByVase''"
abbreviation "RPCCollectRwdRecv \<equiv> ''collectRwd.recv''"
abbreviation "RPCFlowerRackRecvSellMoney \<equiv> ''flowerRack.recvSellMoney''"
abbreviation "RPCFlowerArtMakeFlowerArt \<equiv> ''flowerArt.makeFlowerArt''"
abbreviation "PlanStatusSkipped \<equiv> ''skipped''"

section \<open>Texts\<close>

definition times_text :: "catalog \<Rightarrow> requirement \<Rightarrow> string" where
  "times_text cat req = (case req of (i, n) \<Rightarrow> label cat i @ lit_times_sign @ show_int n)"

definition positive_reqs :: "requirement list \<Rightarrow> requirement list" where
  "positive_reqs reqs = filter (\<lambda>(i, n). 0 < i \<and> 0 < n) reqs"

definition FormatFlowerRequires :: "catalog \<Rightarrow> requirement list \<Rightarrow> string" where
  "FormatFlowerRequires cat reqs = str_join lit_comma (map (times_text cat) (positive_reqs reqs))"

definition art_text :: "catalog \<Rightarrow> requirement \<Rightarrow> string" where
  "art_text cat req =
     (case FlowerArtRecipeByID cat (fst req) of
        None \<Rightarrow> times_text cat req
      | Some r \<Rightarrow>
          let names = sort (map (times_text cat) (recipeFlowerCounts r))
          in times_text cat req @ lit_vase_colon @ label cat (rec_VaseID r) @
             (if names \<noteq> [] then '':'' @ str_join ''/'' names else []) @ '']'')"

definition FormatCustomerOrderRequires :: "catalog \<Rightarrow> customer_order \<Rightarrow> string" where
  "FormatCustomerOrderRequires cat order =
     (let flowerParts = map (times_text cat) (positive_reqs (co_Requires order));
          artParts = map (art_text cat) (positive_reqs (co_ItemRequires order));
          parts = (if flowerParts \<noteq> [] then [lit_flower_part @ str_join lit_comma flowerParts] else []) @
                  (if artParts \<noteq> [] then [lit_art_part @ str_join lit_comma artParts] else [])
      in if parts = [] then [] else lit_order_needs @ str_join lit_part_sep parts)"

definition FormatFlowerArtOpDesc :: "catalog \<Rightarrow> int \<Rightarrow> int \<Rightarrow> string" where
  "FormatFlowerArtOpDesc cat artID n = (if artID \<le> 0 then [] else art_text cat (artID, n))"

definition withOrderReason :: "string \<Rightarrow> string \<Rightarrow> string" where
  "withOrderReason reason summary = (if summary = [] then reason else reason @ '' ('' @ summary @ '')'')"

section \<open>Blocked operations\<close>

definition block :: "string list \<Rightarrow> planned_op \<Rightarrow> planned_op" where
  "block reasons x = x\<lparr>op_Status := PlanStatusBlocked, op_Executable := False, op_BlockedReasons := reasons\<rparr>"

definition syncOnlyOperation :: "planned_op \<Rightarrow> string \<Rightarrow> planned_op" where
  "syncOnlyOperation x reason =
     (let reasons = op_BlockedReasons x @ [reason]
      in x\<lparr>op_Status := PlanStatusSyncOnly, op_SyncOnly := True, op_Executable := False,
           op_BlockedReasons := reasons, op_BlockingStage := inferBlockingStage reasons\<rparr>)"

definition quality_reasons :: "catalog \<Rightarrow> requirement list \<Rightarrow> string list" where
  "quality_reasons cat reqs =
     map (\<lambda>(flowerID, n). label cat flowerID @ '' '' @ lit_quality @ '' '' @
       show_int (quality_of cat flowerID) @ '' '' @ lit_not_in_policy) reqs"

definition residentOrderLimitBlock ::
  "catalog \<Rightarrow> order_counts \<Rightarrow> resident_policy \<Rightarrow> goal \<Rightarrow> time \<Rightarrow> planned_op option" where
  "residentOrderLimitBlock cat c p goal now =
     (case residentNormalDailyLimitReached cat c p now of
        None \<Rightarrow> None
      | Some reason \<Rightarrow>
          let lbl = (if str_contains reason lit_positive then lit_resident_cap_unset else lit_resident_capped)
          in Some (block [reason] ((markerOp CategoryOrder ''order.resident'' ''finish'' lbl
               (goal_Priority goal * 100 + 690))\<lparr>op_GoalID := goal_ID goal\<rparr>)))"

definition customerOrderLimitBlock :: "order_counts \<Rightarrow> customer_policy \<Rightarrow> goal \<Rightarrow> time \<Rightarrow> planned_op option" where
  "customerOrderLimitBlock c p goal now =
     (case customerDailyLimitReached c p now of
        None \<Rightarrow> None
      | Some reason \<Rightarrow>
          Some (block [reason] ((markerOp CategoryOrder ''order.customer'' ''finish'' lit_customer_capped
               (goal_Priority goal * 100 + 690))\<lparr>op_GoalID := goal_ID goal\<rparr>)))"

definition blockedResidentOrderOp :: "catalog \<Rightarrow> flower_order \<Rightarrow> int \<Rightarrow> goal \<Rightarrow> string \<Rightarrow> planned_op" where
  "blockedResidentOrderOp cat order boxID goal reason =
     block (if fo_Requires order = [] then [lit_resident_order @ lit_no_needs]
            else quality_reasons cat (fo_Requires order))
       (goal_op RPCOrderFlowerFinishOrder goal ''finish'' reason (goal_Priority goal * 100 + 120) boxID 0 0)"

definition blockedResidentSpecialOrderOp ::
  "catalog \<Rightarrow> string \<Rightarrow> string \<Rightarrow> string \<Rightarrow> special_order \<Rightarrow> goal \<Rightarrow> string \<Rightarrow> planned_op" where
  "blockedResidentSpecialOrderOp cat kind domain lbl order goal reason =
     block (if so_Requires order = [] then [lbl @ lit_no_needs] else quality_reasons cat (so_Requires order))
       ((goal_op kind goal ''finish'' reason (goal_Priority goal * 100 + 125) 0 0 0)\<lparr>op_Domain := domain\<rparr>)"

definition orderPolicyBlockedReasons ::
  "catalog \<Rightarrow> bool \<Rightarrow> int \<Rightarrow> int \<Rightarrow> int list \<Rightarrow> bool \<Rightarrow> string list" where
  "orderPolicyBlockedReasons cat observed flowerID n qualities notCultivated =
     (if \<not> observed then [lit_order_unseen] else []) @
     (if flowerID \<le> 0 \<or> n \<le> 0 then [lit_order_no_flower] else []) @
     (if qualities \<noteq> [] \<and> 0 < flowerID \<and> quality_of cat flowerID \<notin> int32Set qualities
      then quality_reasons cat [(flowerID, n)] else []) @
     (if notCultivated then [label cat flowerID @ '' '' @ lit_order_uncultivated] else [])"

definition blockedPalaceOrderOp :: "catalog \<Rightarrow> palace_order \<Rightarrow> goal \<Rightarrow> int list \<Rightarrow> planned_op" where
  "blockedPalaceOrderOp cat order goal qualities =
     (let reasons = orderPolicyBlockedReasons cat (po_Observed order) (po_FlowerID order) (po_Num order) qualities False
      in block (if reasons = [] then [lit_palace_finished] else reasons)
           (goal_op RPCOrderPalaceFinishOrder goal ''finish'' lit_palace_blocked (goal_Priority goal * 100 + 120)
              0 (po_FlowerID order) (po_Num order)))"

definition blockedTeamOrderOp ::
  "catalog \<Rightarrow> game_state \<Rightarrow> team_order \<Rightarrow> goal \<Rightarrow> int list \<Rightarrow> bool \<Rightarrow> planned_op" where
  "blockedTeamOrderOp cat s order goal qualities onlyCultivated =
     (let n = teamOrderNeedCount order;
          reasons = orderPolicyBlockedReasons cat (to_Observed order) (to_FlowerID order) n qualities
            (onlyCultivated \<and> \<not> flowerCultivated s (to_FlowerID order))
      in block (if reasons = [] then [lit_team_no_needs] else reasons)
           (goal_op RPCOrderTeamSubmitOrder goal ''submit'' lit_team_blocked (goal_Priority goal * 100 + 120)
              0 (to_FlowerID order) n))"

section \<open>What can be delivered\<close>

definition granted :: "inventory_ledger option \<Rightarrow> goal \<Rightarrow> string \<Rightarrow> string \<Rightarrow> int \<Rightarrow> int" where
  "granted ledger goal entityID kind itemID =
     AllocatedForDemand ledger (demandID (goal_ID goal) entityID ''direct'' kind itemID) itemID"

definition all_granted :: "inventory_ledger option \<Rightarrow> goal \<Rightarrow> string \<Rightarrow> requirement list \<Rightarrow> bool" where
  "all_granted ledger goal entityID reqs \<longleftrightarrow>
     reqs \<noteq> [] \<and>
     list_all (\<lambda>(flowerID, n). \<not> (flowerID = 0 \<or> n \<le> 0 \<or> granted ledger goal entityID DemandKindFlower flowerID < n)) reqs"

definition canFulfillFlowerOrder :: "flower_order \<Rightarrow> int \<Rightarrow> goal \<Rightarrow> inventory_ledger option \<Rightarrow> bool" where
  "canFulfillFlowerOrder order boxID goal ledger \<longleftrightarrow> all_granted ledger goal (show_int boxID) (fo_Requires order)"

definition canFulfillResidentSpecialOrder ::
  "special_order \<Rightarrow> string \<Rightarrow> goal \<Rightarrow> inventory_ledger option \<Rightarrow> bool" where
  "canFulfillResidentSpecialOrder order entityID goal ledger \<longleftrightarrow> all_granted ledger goal entityID (so_Requires order)"

definition canFulfillSingleFlowerDemand ::
  "goal \<Rightarrow> string \<Rightarrow> int \<Rightarrow> int \<Rightarrow> inventory_ledger option \<Rightarrow> bool" where
  "canFulfillSingleFlowerDemand goal entityID flowerID n ledger \<longleftrightarrow>
     0 < flowerID \<and> 0 < n \<and> n \<le> granted ledger goal entityID DemandKindFlower flowerID"

definition real_reqs :: "requirement list \<Rightarrow> requirement list" where
  "real_reqs reqs = filter (\<lambda>(i, n). \<not> (i = 0 \<or> n \<le> 0)) reqs"

definition on_hand :: "inventory_ledger option \<Rightarrow> goal \<Rightarrow> string \<Rightarrow> string \<Rightarrow> requirement list \<Rightarrow> bool" where
  "on_hand ledger goal entityID kind reqs \<longleftrightarrow>
     list_all (\<lambda>(i, n). n \<le> Owned ledger i \<and> n \<le> granted ledger goal entityID kind i) (real_reqs reqs)"

definition canFulfillCustomerOrder :: "customer_order \<Rightarrow> int \<Rightarrow> goal \<Rightarrow> inventory_ledger option \<Rightarrow> bool" where
  "canFulfillCustomerOrder order npcID goal ledger \<longleftrightarrow>
     ledger \<noteq> None \<and> on_hand ledger goal (show_int npcID) DemandKindFlower (co_Requires order) \<and>
     on_hand ledger goal (show_int npcID) DemandKindFlowerArt (co_ItemRequires order) \<and>
     (real_reqs (co_Requires order) \<noteq> [] \<or> real_reqs (co_ItemRequires order) \<noteq> [])"

section \<open>Priorities\<close>

datatype orderScheduleStage =
    CustomerCraft | CustomerReject | CustomerGenerate | FlowerRackCraft | FlowerRackSell | FlowerRackClaim
  | CustomerFinish

fun stage_number :: "orderScheduleStage \<Rightarrow> int" where
  "stage_number CustomerCraft = 1"
| "stage_number CustomerReject = 2"
| "stage_number CustomerGenerate = 3"
| "stage_number FlowerRackCraft = 4"
| "stage_number FlowerRackSell = 5"
| "stage_number FlowerRackClaim = 6"
| "stage_number CustomerFinish = 7"

definition orderSchedulePriority :: "orderScheduleStage \<Rightarrow> int" where
  "orderSchedulePriority stage = 11000 + stage_number stage * 100"

section \<open>Crafting\<close>

definition allocatedCraftFlowerCounts :: "goal \<Rightarrow> string \<Rightarrow> int \<Rightarrow> demand list \<Rightarrow> (int, int) gomap" where
  "allocatedCraftFlowerCounts goal entityID artID demands =
     fold (\<lambda>d m.
       if dem_GoalID d \<noteq> goal_ID goal \<or> dem_EntityID d \<noteq> entityID \<or> dem_Source d \<noteq> craft_source artID \<or>
          dem_Kind d \<noteq> DemandKindFlower \<or> dem_Allocated d \<le> 0 then m
       else AList.update (dem_ItemID d) (get_or 0 m (dem_ItemID d) + dem_Allocated d) m) demands []"

definition craft_op :: "goal \<Rightarrow> string \<Rightarrow> int \<Rightarrow> int \<Rightarrow> int \<Rightarrow> int \<Rightarrow> recipe option \<Rightarrow> planned_op" where
  "craft_op goal reason priority targetID artID n r =
     (goal_op RPCFlowerArtMakeFlowerArt goal ''craft'' reason priority targetID artID n)
       \<lparr>op_VaseID := (case r of None \<Rightarrow> 0 | Some r' \<Rightarrow> rec_VaseID r'),
         op_FlowerIDs := (case r of None \<Rightarrow> [] | Some r' \<Rightarrow> rec_Flowers r')\<rparr>"

definition with_craft_cost :: "planned_op \<Rightarrow> planned_op" where
  "with_craft_cost x = x\<lparr>op_ItemCost := flowerArtCraftItemCost (op_FlowerIDs x) (op_Count x)\<rparr>"

text \<open>The first piece the order lacks, counted against everything owned.\<close>

fun craft_for_customer ::
  "catalog \<Rightarrow> game_state \<Rightarrow> int \<Rightarrow> goal \<Rightarrow> demand list \<Rightarrow> inventory_ledger option \<Rightarrow> requirement list \<Rightarrow> planned_op option" where
  "craft_for_customer cat s npcID goal demands ledger [] = None"
| "craft_for_customer cat s npcID goal demands ledger ((itemID, n) # reqs) =
     (if itemID = 0 \<or> n \<le> 0 \<or> n - Owned ledger itemID \<le> 0
      then craft_for_customer cat s npcID goal demands ledger reqs
      else
        let missing = n - Owned ledger itemID;
            a = FlowerArtAvailabilityWithAllocated cat s itemID missing ledger
                  (allocatedCraftFlowerCounts goal (show_int npcID) itemID demands)
        in if \<not> aa_Craftable a
           then Some (block (aa_BlockedReasons a)
             (craft_op goal lit_customer_no_craft (goal_Priority goal * 100 + 500) npcID itemID missing (aa_Recipe a)))
           else Some (with_craft_cost
             (craft_op goal lit_customer_craft (orderSchedulePriority CustomerCraft) npcID itemID missing (aa_Recipe a))))"

definition craftOperationForCustomerOrder ::
  "catalog \<Rightarrow> game_state \<Rightarrow> customer_order \<Rightarrow> int \<Rightarrow> goal \<Rightarrow> demand list \<Rightarrow> inventory_ledger option \<Rightarrow> planned_op option" where
  "craftOperationForCustomerOrder cat s order npcID goal demands ledger =
     craft_for_customer cat s npcID goal demands ledger (co_ItemRequires order)"

definition craftOperationForFlowerRack ::
  "catalog \<Rightarrow> game_state \<Rightarrow> order_state \<Rightarrow> art_policy \<Rightarrow> goal \<Rightarrow> inventory_ledger option \<Rightarrow> planned_op option" where
  "craftOperationForFlowerRack cat s os p goal ledger =
     (case rackCraftTarget cat s os p ledger of
        None \<Rightarrow> None
      | Some (artID, n) \<Rightarrow>
          let a = FlowerArtAvailability cat s artID n ledger
          in if \<not> aa_Craftable a then None
             else Some (with_craft_cost
               (craft_op goal lit_rack_craft (orderSchedulePriority FlowerRackCraft) 0 artID n (aa_Recipe a))))"

text \<open>Listing pauses from midnight to eight in the game's zone when the owner wants that.\<close>

definition flowerArtAutoListActive :: "art_policy \<Rightarrow> time \<Rightarrow> bool" where
  "flowerArtAutoListActive p now \<longleftrightarrow>
     art_SellEnabled p \<and>
     (art_SellNightPauseEnabled p \<longrightarrow> 8 \<le> (now + gameDayLocation) mod day_length div hour)"

section \<open>Orders of residents\<close>

definition resident_order_op ::
  "catalog \<Rightarrow> order_state \<Rightarrow> resident_policy \<Rightarrow> goal \<Rightarrow> inventory_ledger option \<Rightarrow> time \<Rightarrow> int \<times> flower_order \<Rightarrow> planned_op list" where
  "resident_order_op cat os p goal ledger now bo =
     (case bo of (boxID, order) \<Rightarrow>
        if fo_IsVideo order \<noteq> 0 then []
        else if \<not> residentFlowerOrderAllowed cat order p
          then [blockedResidentOrderOp cat order boxID goal (lit_resident_order @ lit_bad_quality)]
        else if \<not> cooldown_ready (fo_CdTimeMs order) now then []
        else if canFulfillFlowerOrder order boxID goal ledger then
          (let reason = lit_resident_order @ lit_deliverable @
                 (if sv_Observed (oc_statistics (os_counts os)) then [] else lit_stats_unseen)
           in [goal_op RPCOrderFlowerFinishOrder goal ''finish''
                 (withOrderReason reason (FormatFlowerRequires cat (fo_Requires order)))
                 (goal_Priority goal * 100 + 700) boxID 0 0])
        else [])"

definition special_marker :: "string \<Rightarrow> goal \<Rightarrow> string \<Rightarrow> int \<Rightarrow> string \<Rightarrow> planned_op" where
  "special_marker domain goal lbl priority reason =
     block [reason] ((markerOp CategoryOrder domain ''finish'' lbl priority)\<lparr>op_GoalID := goal_ID goal\<rparr>)"

text \<open>What differs between satin and building-material orders.\<close>

record special_texts =
  st_Kind :: string
  st_Domain :: string
  st_Entity :: string
  st_Label :: string
  st_Capped :: string
  st_Unsynced :: string
  st_Unseen :: string
  st_Video :: string
  st_VideoWhy :: string
  st_CappedPriority :: int
  st_IdlePriority :: int
  st_FinishPriority :: int

definition satin_texts :: special_texts where
  "satin_texts = \<lparr>st_Kind = RPCOrderFlowerFinishSatinOrder, st_Domain = ''order.resident.satin'',
     st_Entity = ''satin'', st_Label = lit_satin_order, st_Capped = lit_satin_capped,
     st_Unsynced = lit_satin_unsynced, st_Unseen = lit_satin_unseen, st_Video = lit_satin_video,
     st_VideoWhy = lit_satin_video_why, st_CappedPriority = 695, st_IdlePriority = 125, st_FinishPriority = 710\<rparr>"

definition decorate_texts :: special_texts where
  "decorate_texts = \<lparr>st_Kind = RPCOrderFlowerFinishDecorateOrder, st_Domain = ''order.resident.decorate'',
     st_Entity = ''decorate'', st_Label = lit_decorate_order, st_Capped = lit_decorate_capped,
     st_Unsynced = lit_decorate_unsynced, st_Unseen = lit_decorate_unseen, st_Video = lit_decorate_video,
     st_VideoWhy = lit_decorate_video_why, st_CappedPriority = 694, st_IdlePriority = 124, st_FinishPriority = 705\<rparr>"

definition special_order_op ::
  "catalog \<Rightarrow> special_texts \<Rightarrow> string option \<Rightarrow> special_order \<Rightarrow> resident_policy \<Rightarrow> goal \<Rightarrow> inventory_ledger option \<Rightarrow>
     time \<Rightarrow> planned_op list" where
  "special_order_op cat st limited order p goal ledger now =
     (let pr = goal_Priority goal * 100
      in case limited of
        Some reason \<Rightarrow> [special_marker (st_Domain st) goal (st_Capped st) (pr + st_CappedPriority st) reason]
      | None \<Rightarrow>
          if \<not> so_Observed order
            then [special_marker (st_Domain st) goal (st_Unsynced st) (pr + st_IdlePriority st) (st_Unseen st)]
          else if so_IsVideo order \<noteq> 0
            then [special_marker (st_Domain st) goal (st_Video st) (pr + st_IdlePriority st) (st_VideoWhy st)]
          else if so_Requires order = []
            then [blockedResidentSpecialOrderOp cat (st_Kind st) (st_Domain st) (st_Label st) order goal
                    (st_Label st @ lit_no_needs)]
          else if \<not> cooldown_ready (so_CdTimeMs order) now then []
          else if \<not> residentSpecialOrderAllowed cat order p
            then [blockedResidentSpecialOrderOp cat (st_Kind st) (st_Domain st) (st_Label st) order goal
                    (st_Label st @ lit_bad_quality)]
          else if canFulfillResidentSpecialOrder order (st_Entity st) goal ledger
            then [(goal_op (st_Kind st) goal ''finish''
                     (withOrderReason (st_Label st @ lit_deliverable) (FormatFlowerRequires cat (so_Requires order)))
                     (pr + st_FinishPriority st) 0 0 0)\<lparr>op_Domain := st_Domain st\<rparr>]
          else [])"

definition resident_ops ::
  "catalog \<Rightarrow> order_state \<Rightarrow> resident_policy \<Rightarrow> goal \<Rightarrow> inventory_ledger option \<Rightarrow> time \<Rightarrow> planned_op list" where
  "resident_ops cat os p goal ledger now =
     (if res_NormalEnabled p then
        (case residentOrderLimitBlock cat (os_counts os) p goal now of
           Some blocked \<Rightarrow> [blocked]
         | None \<Rightarrow> concat (map (resident_order_op cat os p goal ledger now) (os_flowerOrders os)))
      else []) @
     (if res_RewardEnabled p
      then map (\<lambda>target. goal_op RPCOrderFlowerRecvOrderRwd goal ''reward'' lit_stage_reward
             (goal_Priority goal * 100 + 620) target 0 0) (ReadyFlowerOrderRewardTargets os)
      else []) @
     (if res_SatinEnabled p
      then special_order_op cat satin_texts (residentSatinDailyLimitReached cat (os_counts os) p now)
             (os_satin os) p goal ledger now
      else []) @
     (if res_DecorateEnabled p
      then special_order_op cat decorate_texts (residentDecorateDailyLimitReached cat (os_counts os) p now)
             (os_decorate os) p goal ledger now
      else [])"

section \<open>Orders of customers\<close>

definition reject_op :: "goal \<Rightarrow> string \<Rightarrow> int \<Rightarrow> int \<Rightarrow> planned_op" where
  "reject_op goal reason priority npcID = goal_op RPCOrderCustomerRejectOrder goal ''reject'' reason priority npcID 0 0"

definition customer_order_op ::
  "catalog \<Rightarrow> game_state \<Rightarrow> customer_policy \<Rightarrow> goal \<Rightarrow> demand list \<Rightarrow> inventory_ledger option \<Rightarrow> bool \<Rightarrow>
     int \<times> customer_order \<Rightarrow> planned_op" where
  "customer_order_op cat s p goal demands ledger bypassMinArt no =
     (case no of (npcID, order) \<Rightarrow>
        let summary = FormatCustomerOrderRequires cat order;
            craft = craftOperationForCustomerOrder cat s order npcID goal demands ledger
        in case CustomerOrderRewardSkipReason cat order p of
          Some reason \<Rightarrow>
            (markerOp CategoryOrder GoalCustomerOrder ''filter'' reason (goal_Priority goal * 100))
              \<lparr>op_GoalID := goal_ID goal, op_TargetID := npcID, op_Status := PlanStatusSkipped, op_Executable := False\<rparr>
        | None \<Rightarrow>
            if \<not> customerOrderMeetsMinFlowerArt order p bypassMinArt
              then reject_op goal (withOrderReason (lit_art_pieces @ '' '' @ show_int (customerOrderFlowerArtCount order) @
                     '' < '' @ lit_minimum @ '' '' @ show_int (cus_MinFlowerArtCount p) @ lit_refuse) summary)
                     (orderSchedulePriority CustomerReject) npcID
            else if canFulfillCustomerOrder order npcID goal ledger
              then goal_op RPCOrderCustomerFinishOrder goal ''finish''
                     (withOrderReason (lit_customer_order @ lit_deliverable) summary)
                     (orderSchedulePriority CustomerFinish) npcID 0 0
            else if (case craft of None \<Rightarrow> False | Some c \<Rightarrow> op_Executable c)
              then (the craft)\<lparr>op_Reason := withOrderReason (op_Reason (the craft)) summary\<rparr>
            else if cus_RejectUnavailableEnabled p
              then reject_op goal (withOrderReason lit_out_of_stock summary) (orderSchedulePriority CustomerReject) npcID
            else block [lit_reject_off, lit_no_stock_no_craft]
                   (reject_op goal (withOrderReason lit_out_of_stock_wait summary) (goal_Priority goal * 100 + 130) npcID))"

definition customer_ops ::
  "catalog \<Rightarrow> game_state \<Rightarrow> order_state \<Rightarrow> customer_policy \<Rightarrow> goal \<Rightarrow> demand list \<Rightarrow> inventory_ledger option \<Rightarrow> time \<Rightarrow>
     planned_op list" where
  "customer_ops cat s os p goal demands ledger now =
     (case customerOrderLimitBlock (os_counts os) p goal now of
        Some blocked \<Rightarrow> [blocked]
      | None \<Rightarrow>
          map (customer_order_op cat s p goal demands ledger (RaceHoldsUnfinishedCustomerOrder (FmlRaceAt s now)))
            (os_customerOrders os) @
          (if CustomerOrderGenerationReady os now
           then [goal_op RPCOrderCustomerGenOrder goal ''generate'' lit_generate_customers
                   (orderSchedulePriority CustomerGenerate) 0 0 0]
           else []))"

section \<open>Palace, team, flower art\<close>

definition palace_ops ::
  "catalog \<Rightarrow> order_state \<Rightarrow> int list \<Rightarrow> goal \<Rightarrow> inventory_ledger option \<Rightarrow> planned_op list" where
  "palace_ops cat os qualities goal ledger =
     (let order = os_palace os; pr = goal_Priority goal * 100
      in if \<not> po_Observed order
           then [syncOnlyOperation (domainOp RPCOrderPalaceEnter goal ''order.palace'' ''sync'' lit_palace_unsynced
                   (pr + 580) 0 0 0) lit_palace_sync_only]
         else if po_IsFinish order \<noteq> 0 then []
         else if \<not> palaceOrderAllowed cat order qualities then [blockedPalaceOrderOp cat order goal qualities]
         else if canFulfillSingleFlowerDemand goal ''current'' (po_FlowerID order) (po_Num order) ledger
           then [syncOnlyOperation (goal_op RPCOrderPalaceFinishOrder goal ''finish'' lit_palace_paused (pr + 570)
                   0 (po_FlowerID order) (po_Num order)) lit_palace_no_submit]
         else [])"

definition team_ops ::
  "catalog \<Rightarrow> game_state \<Rightarrow> order_state \<Rightarrow> int list \<Rightarrow> bool \<Rightarrow> goal \<Rightarrow> inventory_ledger option \<Rightarrow> planned_op list" where
  "team_ops cat s os qualities onlyCultivated goal ledger =
     (let order = os_team os; n = teamOrderNeedCount order; pr = goal_Priority goal * 100
      in if \<not> to_Observed order
           then [syncOnlyOperation (domainOp RPCOrderTeamRefreshOrder goal ''order.team'' ''sync'' lit_team_unsynced
                   (pr + 560) 0 0 0) lit_team_sync_only]
         else if \<not> teamOrderAllowed cat s order qualities onlyCultivated
           then [blockedTeamOrderOp cat s order goal qualities onlyCultivated]
         else if canFulfillSingleFlowerDemand goal ''current'' (to_FlowerID order) n ledger
           then [syncOnlyOperation (goal_op RPCOrderTeamSubmitOrder goal ''submit'' lit_team_paused (pr + 550)
                   0 (to_FlowerID order) n) lit_team_no_submit]
         else [])"

text \<open>The first empty rack for which an art can be listed, or the craft of one.\<close>

fun list_rack ::
  "catalog \<Rightarrow> game_state \<Rightarrow> order_state \<Rightarrow> art_policy \<Rightarrow> goal \<Rightarrow> inventory_ledger option \<Rightarrow> int list \<Rightarrow> planned_op list" where
  "list_rack cat s os p goal ledger [] = []"
| "list_rack cat s os p goal ledger (rackID # rackIDs) =
     (case bestRackArt cat s p ledger of
        Some (artID, n) \<Rightarrow>
          [(goal_op RPCFlowerRackSell goal ''sell'' lit_rack_list (orderSchedulePriority FlowerRackSell) rackID artID n)
             \<lparr>op_Category := CategoryOrder\<rparr>]
      | None \<Rightarrow>
          (case craftOperationForFlowerRack cat s os p goal ledger of
             Some craft \<Rightarrow> [craft]
           | None \<Rightarrow> list_rack cat s os p goal ledger rackIDs))"

definition claim_rack :: "order_state \<Rightarrow> goal \<Rightarrow> time \<Rightarrow> planned_op list" where
  "claim_rack os goal now =
     (case FlowerRackClaimableSlotIDs os now of
        [] \<Rightarrow> []
      | rackID # rest \<Rightarrow>
          let claim = (goal_op RPCFlowerRackRecvSellMoney goal ''claim'' lit_rack_sold
                (orderSchedulePriority FlowerRackClaim) rackID 0 0)\<lparr>op_Category := CategoryOrder\<rparr>
          in [case map_of (os_flowerRack os) rackID of
                None \<Rightarrow> claim
              | Some slot \<Rightarrow> claim\<lparr>op_ItemID := rs_ItemID slot, op_Count := rs_Count slot\<rparr>])"

definition art_ops ::
  "catalog \<Rightarrow> game_state \<Rightarrow> order_state \<Rightarrow> art_policy \<Rightarrow> goal \<Rightarrow> inventory_ledger option \<Rightarrow> time \<Rightarrow> planned_op list" where
  "art_ops cat s os p goal ledger now =
     (if art_CreateRewardEnabled p
      then (case ReadyArtCreateRewardVaseIDs os of
              [] \<Rightarrow> []
            | vaseID # rest \<Rightarrow> [domainOp RPCCollectRwdRecvArtCreateRwdByVase goal ''order.flower_art.create_reward''
                ''claim'' lit_create_reward (goal_Priority goal * 100 + 670) vaseID 0 0])
      else []) @
     (if art_CollectRewardEnabled p
      then (case ReadyCollectRewardTypes cat os [11, 12, 13] of
              [] \<Rightarrow> []
            | typeID # rest \<Rightarrow> [domainOp RPCCollectRwdRecv goal ''order.flower_art.collect_reward''
                ''claim'' lit_collect_reward (goal_Priority goal * 100 + 660) typeID 0 0])
      else []) @
     (if art_SellEnabled p
      then claim_rack os goal now @
           (if flowerArtAutoListActive p now then list_rack cat s os p goal ledger (EmptyFlowerRackSlotIDs os) else [])
      else [])"

definition orderOperations ::
  "catalog \<Rightarrow> game_state \<Rightarrow> order_state \<Rightarrow> order_policy \<Rightarrow> goal list \<Rightarrow> demand list \<Rightarrow> inventory_ledger option \<Rightarrow>
     time \<Rightarrow> planned_op list" where
  "orderOperations cat s os p goals demands ledger now =
     with_goal goals GoalResidentOrder (\<lambda>goal. resident_ops cat os (orp_Resident p) goal ledger now) @
     with_goal goals GoalCustomerOrder (\<lambda>goal. customer_ops cat s os (orp_Customer p) goal demands ledger now) @
     with_goal goals GoalPalaceOrder (\<lambda>goal. palace_ops cat os (orp_PalaceQualities p) goal ledger) @
     with_goal goals GoalTeamOrder (\<lambda>goal. team_ops cat s os (orp_TeamQualities p) (orp_TeamSubmitOnlyCultivated p) goal ledger) @
     with_goal goals GoalFlowerArt (\<lambda>goal. art_ops cat s os (orp_Art p) goal ledger now)"

end
