(* ===== verification/OrderSafety.thy ===== *)
theory OrderSafety
  imports OrderOps
begin

text \<open>
  What the operations of one pass take out of the inventory: every delivery is covered by the grants
  of its own demands, and the grants of different orders are apart.
\<close>

section \<open>Grants\<close>

definition grants_nonneg :: "inventory_ledger option \<Rightarrow> bool" where
  "grants_nonneg lo \<longleftrightarrow> (\<forall>i j. 0 \<le> AllocatedForDemand lo i j)"

definition grants_of :: "inventory_ledger \<Rightarrow> bool" where
  "grants_of l \<longleftrightarrow> list_all (\<lambda>(k, items). \<forall>j. 0 \<le> get_or 0 items j) (byDemand l)"

lemma list_all_update: "list_all P m \<Longrightarrow> P (k, v) \<Longrightarrow> list_all P (AList.update k v m)"
  by (induction m) auto

lemma grants_get: "grants_of l \<Longrightarrow> 0 \<le> get_or 0 (get_or [] (byDemand l) k) j"
proof (cases "map_of (byDemand l) k")
  case (Some items)
  assume "grants_of l"
  then show ?thesis using map_of_SomeD [OF Some] by (auto simp: grants_of_def list_all_iff get_or_def Some)
qed (simp add: get_or_def)

lemma Allocate_grants:
  assumes "grants_of l" "Allocate d (Some l) = (Some l', a)"
  shows "grants_of l'"
  using Allocate_cases [of d l]
proof cases
  case skip
  with assms show ?thesis by simp
next
  case (grant n)
  note l' = grant(1) [unfolded assms(2), THEN arg_cong [where f = fst], simplified]
  have "0 \<le> n" using grant(2) by simp
  then show ?thesis
    using assms(1) grants_get [OF assms(1)] unfolding l' grants_of_def
    by (auto intro!: list_all_update)
qed

lemma Allocate_some: "\<exists>l' a. Allocate d (Some l) = (Some l', a) \<and> owned l' = owned l"
  by (cases rule: Allocate_cases [of d l]) auto

lemma serve_all_some:
  assumes "ledger_ok l" "grants_of l"
  shows "\<exists>l'. fst (applyLedgerAllocations ds (Some l)) = Some l' \<and> ledger_ok l' \<and> grants_of l' \<and> owned l' = owned l"
  using assms unfolding applyLedgerAllocations_def
proof (induction ds arbitrary: l)
  case Nil
  then show ?case by simp
next
  case (Cons d ds)
  obtain l1 a where a: "Allocate (d\<lparr>dem_Have := Owned (Some l) (dem_ItemID d)\<rparr>) (Some l) = (Some l1, a)" "owned l1 = owned l"
    using Allocate_some by blast
  have ok: "ledger_ok l1" "grants_of l1"
    using Allocate_ledger_ok [OF Cons.prems(1) a(1)] Allocate_grants [OF Cons.prems(2) a(1)] by auto
  obtain d1 where d1: "allocate_demand d (Some l) = (Some l1, d1)"
    using a(1) by (auto simp: allocate_demand_def Let_def simp del: Owned.simps Available.simps Allocate.simps)
  show ?case using Cons.IH [OF ok] a(2) by (simp add: d1 split: prod.splits) (metis fst_conv)
qed

text \<open>A ledger as the pass leaves it: every grant is nonnegative, and the owned stock is the inventory.\<close>

definition served_ledger :: "(int, int) gomap \<Rightarrow> inventory_ledger \<Rightarrow> bool" where
  "served_ledger inventory l \<longleftrightarrow>
     ledger_ok l \<and> grants_of l \<and> (\<forall>i. get_or 0 (owned l) i = max 0 (get_or 0 inventory i))"

lemma served:
  assumes "gomap_ok inventory"
  shows "\<exists>l. fst (applyLedgerAllocations ds (Some (NewInventoryLedger inventory))) = Some l \<and> served_ledger inventory l"
proof -
  have o': "get_or 0 (owned (NewInventoryLedger inventory)) i = max 0 (get_or 0 inventory i)" for i
    using assms by (auto simp: NewInventoryLedger_def get_or_def map_of_filter_gomap split: option.splits)
  have "grants_of (NewInventoryLedger inventory)" by (simp add: grants_of_def NewInventoryLedger_def)
  from serve_all_some [OF ledger_ok_New [OF assms] this, of ds] obtain l where
    "fst (applyLedgerAllocations ds (Some (NewInventoryLedger inventory))) = Some l" "ledger_ok l" "grants_of l"
    "owned l = owned (NewInventoryLedger inventory)" by blast
  then show ?thesis using o' by (auto simp: served_ledger_def)
qed

lemma served_nonneg: "served_ledger inventory l \<Longrightarrow> 0 \<le> AllocatedForDemand (Some l) i j"
  by (simp add: served_ledger_def grants_get)

text \<open>Grants of different demands share what is allocated.\<close>

lemma sum_distinct_keys:
  fixes f :: "'v \<Rightarrow> int"
  assumes "gomap_ok m" "\<And>k v. (k, v) \<in> set m \<Longrightarrow> 0 \<le> f v" "distinct ks" "f d = 0"
  shows "sum_list (map (\<lambda>k. f (get_or d m k)) ks) \<le> sum_list (map (\<lambda>(k, v). f v) m)"
proof -
  let ?D = "fst ` set m" and ?g = "\<lambda>k. f (get_or d m k)"
  have "sum_list (map ?g ks) = sum ?g (set ks)" using assms(3) by (simp add: sum_list_distinct_conv_sum_set)
  also have "\<dots> = sum ?g (set ks \<inter> ?D)"
    by (rule sum.mono_neutral_right) (auto simp: get_or_notin assms(4))
  also have "\<dots> \<le> sum ?g ?D"
  proof (rule sum_mono2)
    fix k assume "k \<in> ?D - set ks \<inter> ?D"
    then obtain v where "map_of m k = Some v" by (metis DiffD1 map_of_eq_None_iff option.exhaust)
    then show "0 \<le> ?g k" using assms(2) map_of_SomeD by (fastforce simp: get_or_def)
  qed auto
  also have "\<dots> = sum_list (map ?g (map fst m))"
    using assms(1) by (simp add: gomap_ok_def sum_list_distinct_conv_sum_set del: map_map)
  also have "\<dots> = sum_list (map (\<lambda>(k, v). f v) m)"
    using assms(1) by (auto simp: gomap_ok_def get_or_def intro!: arg_cong [where f = sum_list] map_cong)
  finally show ?thesis .
qed

lemma distinct_grants:
  assumes "served_ledger inventory l" "distinct ids"
  shows "sum_list (map (\<lambda>k. AllocatedForDemand (Some l) k i) ids) + Available (Some l) i \<le> max 0 (get_or 0 inventory i)"
proof -
  have l: "ledger_ok l" "grants_of l" "get_or 0 (owned l) i = max 0 (get_or 0 inventory i)"
    using assms(1) by (simp_all add: served_ledger_def)
  have "sum_list (map (\<lambda>k. AllocatedForDemand (Some l) k i) ids)
      \<le> sum_list (map (\<lambda>k. get_or 0 (get_or [] (byDemand l) k) i) ids)"
    by (rule sum_list_mono) (simp add: grants_get [OF l(2)])
  also have "\<dots> \<le> promised l i"
    unfolding promised_def
    by (rule sum_distinct_keys)
      (use l(1,2) assms(2) in \<open>auto simp: ledger_ok_def grants_of_def list_all_iff\<close>)
  also have "promised l i = get_or 0 (allocated l) i" using l(1) by (simp add: ledger_ok_def)
  finally show ?thesis using Available_ok [OF l(1), of i] l(3) by linarith
qed

section \<open>Identities\<close>

lemma demandID_entity [simp]: "demandID g e s k i = demandID g e' s k i \<longleftrightarrow> e = e'"
  by (simp add: demandID_def)

lemma resident_not_customer: "demandID GoalResidentOrder e s k i \<noteq> demandID GoalCustomerOrder e' s' k' i'"
  by (simp add: demandID_def)

lemma flower_not_art:
  "demandID g e ''direct'' DemandKindFlower i \<noteq> demandID g e' ''direct'' DemandKindFlowerArt i"
proof
  assume "demandID g e ''direct'' DemandKindFlower i = demandID g e' ''direct'' DemandKindFlowerArt i"
  then have "(g @ '':'' @ e @ '':direct:flowe'') @ ''r:'' @ show_int i
      = (g @ '':'' @ e' @ '':direct:flower_ar'') @ ''t:'' @ show_int i"
    by (simp add: demandID_def)
  then show False by (subst (asm) append_eq_append_conv) simp_all
qed

lemma show_int_start: "c \<in> set (show_int i) \<Longrightarrow> c = CHR ''-'' \<or> (\<exists>d<10. c = digit_char d)"
  using show_nat_digits by (auto simp: show_int_def split: if_splits)

lemma show_int_word [simp]:
  "show_int i \<noteq> ''satin''" "show_int i \<noteq> ''decorate''" "''satin'' \<noteq> show_int i" "''decorate'' \<noteq> show_int i"
proof -
  have d: "of_char (digit_char d) = 48 + d" if "d < 10" for d
    using that by (simp add: digit_char_def)
  have "digit_char d \<noteq> CHR ''s''" "digit_char d \<noteq> CHR ''d''" if "d < 10" for d
  proof -
    have "of_char CHR ''s'' = (115 :: nat)" "of_char CHR ''d'' = (100 :: nat)" by simp_all
    then show "digit_char d \<noteq> CHR ''s''" "digit_char d \<noteq> CHR ''d''" using d [OF that] that by auto
  qed
  moreover have "CHR ''s'' \<noteq> CHR ''-''" "CHR ''d'' \<noteq> CHR ''-''" by simp_all
  ultimately have "CHR ''s'' \<notin> set (show_int i)" "CHR ''d'' \<notin> set (show_int i)"
    using show_int_start by metis+
  moreover have "CHR ''s'' \<in> set ''satin''" "CHR ''d'' \<in> set ''decorate''" by simp_all
  ultimately show "show_int i \<noteq> ''satin''" "show_int i \<noteq> ''decorate''" by metis+
  then show "''satin'' \<noteq> show_int i" "''decorate'' \<noteq> show_int i" by metis+
qed

section \<open>What an operation takes\<close>

definition order_takes :: "order_state \<Rightarrow> planned_op \<Rightarrow> requirement list" where
  "order_takes os x =
     (if op_Kind x = RPCOrderFlowerFinishOrder then
        (case map_of (os_flowerOrders os) (op_TargetID x) of None \<Rightarrow> [] | Some order \<Rightarrow> fo_Requires order)
      else if op_Kind x = RPCOrderFlowerFinishSatinOrder then so_Requires (os_satin os)
      else if op_Kind x = RPCOrderFlowerFinishDecorateOrder then so_Requires (os_decorate os)
      else if op_Kind x = RPCOrderCustomerFinishOrder then
        (case map_of (os_customerOrders os) (op_TargetID x) of
           None \<Rightarrow> [] | Some order \<Rightarrow> co_Requires order @ co_ItemRequires order)
      else if op_Kind x \<in> {RPCOrderPalaceFinishOrder, RPCOrderTeamSubmitOrder, RPCFlowerRackSell}
        then [(op_ItemID x, op_Count x)]
      else [])"

definition wanted :: "requirement list \<Rightarrow> int \<Rightarrow> int" where
  "wanted reqs i = sum_list (map (\<lambda>(j, n). if j = i then n else 0) (real_reqs reqs))"

definition taken :: "order_state \<Rightarrow> planned_op list \<Rightarrow> int \<Rightarrow> int" where
  "taken os ops i = sum_list (map (\<lambda>x. wanted (order_takes os x) i) (filter runnableBusinessOperation ops))"

lemma taken_simps [simp]:
  "taken os [] i = 0" "taken os (a @ b) i = taken os a i + taken os b i"
  "taken os (x # xs) i = (if runnableBusinessOperation x then wanted (order_takes os x) i else 0) + taken os xs i"
  by (simp_all add: taken_def)

lemma wanted_simps [simp]:
  "wanted [] i = 0" "wanted (a @ b) i = wanted a i + wanted b i"
  "wanted ((j, n) # reqs) i = (if j = i \<and> j \<noteq> 0 \<and> 0 < n then n else 0) + wanted reqs i"
  by (simp_all add: wanted_def real_reqs_def)

lemma wanted_bound:
  "distinct (map fst reqs) \<Longrightarrow> 0 \<le> b \<Longrightarrow> (\<And>n. (i, n) \<in> set reqs \<Longrightarrow> i \<noteq> 0 \<Longrightarrow> 0 < n \<Longrightarrow> n \<le> b) \<Longrightarrow>
     wanted reqs i \<le> b"
proof (induction reqs)
  case (Cons r reqs)
  obtain j n where r: "r = (j, n)" by (cases r)
  have "wanted reqs i = 0" if "j = i"
  proof -
    have "i \<notin> fst ` set reqs" using Cons.prems(1) that r by auto
    then show ?thesis by (induction reqs) auto
  qed
  moreover have "wanted reqs i \<le> b" using Cons by (auto simp: r)
  ultimately show ?case using Cons.prems(2,3) by (auto simp: r)
qed simp

lemma all_granted_wanted:
  assumes "all_granted (Some l) goal e reqs" "distinct (map fst reqs)" "served_ledger inventory l"
  shows "wanted reqs i \<le> granted (Some l) goal e DemandKindFlower i"
  by (rule wanted_bound [OF assms(2)])
    (use assms(1) served_nonneg [OF assms(3)] in \<open>fastforce simp: all_granted_def list_all_iff granted_def\<close>)+

lemma on_hand_wanted:
  assumes "on_hand (Some l) goal e k reqs" "distinct (map fst reqs)" "served_ledger inventory l"
  shows "wanted reqs i \<le> granted (Some l) goal e k i"
  by (rule wanted_bound [OF assms(2)])
    (use assms(1) served_nonneg [OF assms(3)] in \<open>fastforce simp: on_hand_def real_reqs_def list_all_iff granted_def\<close>)+

section \<open>Fields of the operations\<close>

lemma goal_op_fields [simp]:
  "op_Kind (goal_op k g a r pr t i n) = k" "op_TargetID (goal_op k g a r pr t i n) = t"
  "op_ItemID (goal_op k g a r pr t i n) = i" "op_Count (goal_op k g a r pr t i n) = n"
  by (simp_all add: goal_op_def enrichPlannedOp_def apply_spec_def Let_def zero_op_def split: option.split)

lemma domainOp_kind [simp]: "op_Kind (domainOp k g d a r pr t i n) = k"
  by (rule domainOp_fields)

lemma not_run [simp]:
  "\<not> runnableBusinessOperation (block reasons x)" "\<not> runnableBusinessOperation (syncOnlyOperation x reason)"
  by (simp_all add: runnableBusinessOperation_def block_def syncOnlyOperation_def Let_def)

lemma blocked_not_run [simp]:
  "\<not> runnableBusinessOperation (blockedResidentOrderOp cat order b goal r)"
  "\<not> runnableBusinessOperation (blockedResidentSpecialOrderOp cat k d lb so goal r)"
  "\<not> runnableBusinessOperation (blockedPalaceOrderOp cat po goal qs)"
  "\<not> runnableBusinessOperation (blockedTeamOrderOp cat s to goal qs oc)"
  "\<not> runnableBusinessOperation (special_marker d goal lb pr r)"
  by (simp_all add: blockedResidentOrderOp_def blockedResidentSpecialOrderOp_def blockedPalaceOrderOp_def
      blockedTeamOrderOp_def special_marker_def Let_def)

lemma limit_blocks [dest]:
  "residentOrderLimitBlock cat c p goal now = Some x \<Longrightarrow> \<not> runnableBusinessOperation x"
  "customerOrderLimitBlock c cp goal now = Some x \<Longrightarrow> \<not> runnableBusinessOperation x"
  by (auto simp: residentOrderLimitBlock_def customerOrderLimitBlock_def Let_def split: option.splits)

lemma takes_of_kind:
  "op_Kind x = RPCOrderFlowerRecvOrderRwd \<Longrightarrow> order_takes os x = []"
  "op_Kind x = RPCOrderCustomerRejectOrder \<Longrightarrow> order_takes os x = []"
  "op_Kind x = RPCOrderCustomerGenOrder \<Longrightarrow> order_takes os x = []"
  "op_Kind x = RPCFlowerArtMakeFlowerArt \<Longrightarrow> order_takes os x = []"
  "op_Kind x = RPCFlowerRackRecvSellMoney \<Longrightarrow> order_takes os x = []"
  "op_Kind x = RPCCollectRwdRecv \<Longrightarrow> order_takes os x = []"
  "op_Kind x = RPCCollectRwdRecvArtCreateRwdByVase \<Longrightarrow> order_takes os x = []"
  "op_Kind x = RPCOrderFlowerFinishSatinOrder \<Longrightarrow> order_takes os x = so_Requires (os_satin os)"
  "op_Kind x = RPCOrderFlowerFinishDecorateOrder \<Longrightarrow> order_takes os x = so_Requires (os_decorate os)"
  "op_Kind x = RPCFlowerRackSell \<Longrightarrow> order_takes os x = [(op_ItemID x, op_Count x)]"
  by (simp_all add: order_takes_def)

lemma takes_flower_order:
  "op_Kind x = RPCOrderFlowerFinishOrder \<Longrightarrow> map_of (os_flowerOrders os) (op_TargetID x) = Some order \<Longrightarrow>
     order_takes os x = fo_Requires order"
  by (simp add: order_takes_def)

lemma takes_customer_order:
  "op_Kind x = RPCOrderCustomerFinishOrder \<Longrightarrow> map_of (os_customerOrders os) (op_TargetID x) = Some order \<Longrightarrow>
     order_takes os x = co_Requires order @ co_ItemRequires order"
  by (simp add: order_takes_def)

section \<open>Each group of operations within its grants\<close>

declare AllocatedForDemand.simps [simp del]

definition grants :: "inventory_ledger \<Rightarrow> int \<Rightarrow> string list \<Rightarrow> int" where
  "grants l i ids = sum_list (map (\<lambda>k. AllocatedForDemand (Some l) k i) ids)"

lemma grants_simps [simp]:
  "grants l i [] = 0" "grants l i (k # ids) = AllocatedForDemand (Some l) k i + grants l i ids"
  "grants l i (a @ b) = grants l i a + grants l i b"
  by (simp_all add: grants_def)

definition resident_id :: "string \<Rightarrow> int \<Rightarrow> string" where
  "resident_id e i = demandID GoalResidentOrder e ''direct'' DemandKindFlower i"

definition customer_ids :: "int \<Rightarrow> int \<Rightarrow> string list" where
  "customer_ids npcID i =
     [demandID GoalCustomerOrder (show_int npcID) ''direct'' DemandKindFlower i,
      demandID GoalCustomerOrder (show_int npcID) ''direct'' DemandKindFlowerArt i]"

definition orders_distinct :: "order_state \<Rightarrow> bool" where
  "orders_distinct os \<longleftrightarrow>
     gomap_ok (os_flowerOrders os) \<and> gomap_ok (os_customerOrders os) \<and>
     list_all (\<lambda>(b, order). distinct (map fst (fo_Requires order))) (os_flowerOrders os) \<and>
     list_all (\<lambda>(b, order). distinct (map fst (co_Requires order)) \<and> distinct (map fst (co_ItemRequires order)))
       (os_customerOrders os) \<and>
     distinct (map fst (so_Requires (os_satin os))) \<and> distinct (map fst (so_Requires (os_decorate os)))"

lemma taken_nothing: "(\<And>x. x \<in> set ops \<Longrightarrow> order_takes os x = []) \<Longrightarrow> taken os ops i = 0"
  by (induction ops) auto

lemma taken_concat:
  assumes "\<And>y. y \<in> set ys \<Longrightarrow> taken os (f y) i \<le> grants l i (g y)"
  shows "taken os (concat (map f ys)) i \<le> grants l i (concat (map g ys))"
  using assms by (induction ys) (auto intro!: add_mono)

lemma resident_order_taken:
  assumes "served_ledger inventory l" "orders_distinct os" "goal_ID goal = GoalResidentOrder"
    and "(boxID, order) \<in> set (os_flowerOrders os)"
  shows "taken os (resident_order_op cat os p goal (Some l) now (boxID, order)) i \<le> grants l i [resident_id (show_int boxID) i]"
proof -
  define b where "b = granted (Some l) goal (show_int boxID) DemandKindFlower i"
  have d: "distinct (map fst (fo_Requires order))" and m: "map_of (os_flowerOrders os) boxID = Some order"
    using assms(2,4) by (auto simp: orders_distinct_def gomap_ok_def list_all_iff)
  have n: "0 \<le> b" using served_nonneg [OF assms(1)] by (simp add: b_def granted_def)
  have w: "wanted (fo_Requires order) i \<le> b" if "canFulfillFlowerOrder order boxID goal (Some l)"
    unfolding b_def by (rule all_granted_wanted [OF that [unfolded canFulfillFlowerOrder_def] d assms(1)])
  have "grants l i [resident_id (show_int boxID) i] = b" by (simp add: b_def granted_def resident_id_def assms(3))
  moreover have "taken os (resident_order_op cat os p goal (Some l) now (boxID, order)) i \<le> b"
    using n w by (auto simp: resident_order_op_def Let_def takes_flower_order m)
  ultimately show ?thesis by simp
qed

lemma special_order_taken:
  assumes "served_ledger inventory l" "goal_ID goal = GoalResidentOrder"
    and "distinct (map fst (so_Requires order))"
    and k: "\<And>x. op_Kind x = st_Kind st \<Longrightarrow> order_takes os x = so_Requires order"
  shows "taken os (special_order_op cat st limited order p goal (Some l) now) i \<le> grants l i [resident_id (st_Entity st) i]"
proof -
  define b where "b = granted (Some l) goal (st_Entity st) DemandKindFlower i"
  have n: "0 \<le> b" using served_nonneg [OF assms(1)] by (simp add: b_def granted_def)
  have w: "wanted (so_Requires order) i \<le> b" if "canFulfillResidentSpecialOrder order (st_Entity st) goal (Some l)"
    unfolding b_def by (rule all_granted_wanted [OF that [unfolded canFulfillResidentSpecialOrder_def] assms(3,1)])
  have "grants l i [resident_id (st_Entity st) i] = b" by (simp add: b_def granted_def resident_id_def assms(2))
  moreover have "taken os (special_order_op cat st limited order p goal (Some l) now) i \<le> b"
    using n w by (cases limited) (auto simp: special_order_op_def Let_def k)
  ultimately show ?thesis by simp
qed

definition resident_ids :: "order_state \<Rightarrow> int \<Rightarrow> string list" where
  "resident_ids os i =
     concat (map (\<lambda>bo. [resident_id (show_int (fst bo)) i]) (os_flowerOrders os)) @
     [resident_id ''satin'' i] @ [resident_id ''decorate'' i]"

lemma resident_taken:
  assumes "served_ledger inventory l" "orders_distinct os" "goal_ID goal = GoalResidentOrder"
  shows "taken os (resident_ops cat os p goal (Some l) now) i \<le> grants l i (resident_ids os i)"
proof -
  have nn: "0 \<le> grants l i ids" for ids
    unfolding grants_def by (rule sum_list_nonneg) (use served_nonneg [OF assms(1)] in auto)
  define normal where "normal = (if res_NormalEnabled p then
        (case residentOrderLimitBlock cat (os_counts os) p goal now of
           Some blocked \<Rightarrow> [blocked]
         | None \<Rightarrow> concat (map (resident_order_op cat os p goal (Some l) now) (os_flowerOrders os)))
      else [])"
  define reward where "reward = (if res_RewardEnabled p
      then map (\<lambda>target. goal_op RPCOrderFlowerRecvOrderRwd goal ''reward'' lit_stage_reward
             (goal_Priority goal * 100 + 620) target 0 0) (ReadyFlowerOrderRewardTargets os)
      else [])"
  define satin where "satin = (if res_SatinEnabled p
      then special_order_op cat satin_texts (residentSatinDailyLimitReached cat (os_counts os) p now)
             (os_satin os) p goal (Some l) now
      else [])"
  define decorate where "decorate = (if res_DecorateEnabled p
      then special_order_op cat decorate_texts (residentDecorateDailyLimitReached cat (os_counts os) p now)
             (os_decorate os) p goal (Some l) now
      else [])"
  have "taken os (concat (map (resident_order_op cat os p goal (Some l) now) (os_flowerOrders os))) i
      \<le> grants l i (concat (map (\<lambda>bo. [resident_id (show_int (fst bo)) i]) (os_flowerOrders os)))"
    by (rule taken_concat) (use resident_order_taken [OF assms] in auto)
  then have 1: "taken os normal i \<le> grants l i (concat (map (\<lambda>bo. [resident_id (show_int (fst bo)) i]) (os_flowerOrders os)))"
    unfolding normal_def
    by (cases "residentOrderLimitBlock cat (os_counts os) p goal now") (use nn limit_blocks(1) in auto)
  have 2: "taken os reward i = 0" by (rule taken_nothing) (auto simp: reward_def takes_of_kind split: if_splits)
  have 3: "taken os satin i \<le> grants l i [resident_id ''satin'' i]"
    using special_order_taken [OF assms(1,3), of "os_satin os" satin_texts os] assms(2) nn [of "[resident_id ''satin'' i]"]
    by (auto simp: satin_def satin_texts_def orders_distinct_def takes_of_kind)
  have 4: "taken os decorate i \<le> grants l i [resident_id ''decorate'' i]"
    using special_order_taken [OF assms(1,3), of "os_decorate os" decorate_texts os] assms(2) nn [of "[resident_id ''decorate'' i]"]
    by (auto simp: decorate_def decorate_texts_def orders_distinct_def takes_of_kind)
  have "resident_ops cat os p goal (Some l) now = normal @ reward @ satin @ decorate"
    by (simp add: resident_ops_def normal_def reward_def satin_def decorate_def)
  then show ?thesis using 1 2 3 4 unfolding resident_ids_def by simp
qed

lemma craft_kind:
  "craft_for_customer cat s npcID goal demands ledger reqs = Some c \<Longrightarrow> op_Kind c = RPCFlowerArtMakeFlowerArt"
  by (induction reqs rule: list.induct)
    (auto simp: Let_def craft_op_def with_craft_cost_def block_def simp del: Owned.simps split: if_splits)

lemma filter_marker_not_run [simp]: "\<not> runnableBusinessOperation (x\<lparr>op_Status := st, op_Executable := False\<rparr>)"
  by (simp add: runnableBusinessOperation_def)

lemma customer_order_taken:
  assumes "served_ledger inventory l" "orders_distinct os" "goal_ID goal = GoalCustomerOrder"
    and "(npcID, order) \<in> set (os_customerOrders os)"
  shows "taken os [customer_order_op cat s p goal demands (Some l) bypass (npcID, order)] i \<le> grants l i (customer_ids npcID i)"
proof -
  define bf where "bf = granted (Some l) goal (show_int npcID) DemandKindFlower i"
  define ba where "ba = granted (Some l) goal (show_int npcID) DemandKindFlowerArt i"
  have d: "distinct (map fst (co_Requires order))" "distinct (map fst (co_ItemRequires order))"
    and m: "map_of (os_customerOrders os) npcID = Some order"
    using assms(2,4) by (auto simp: orders_distinct_def gomap_ok_def list_all_iff)
  have n: "0 \<le> bf" "0 \<le> ba" using served_nonneg [OF assms(1)] by (simp_all add: bf_def ba_def granted_def)
  have w: "wanted (co_Requires order) i \<le> bf" "wanted (co_ItemRequires order) i \<le> ba"
    if "canFulfillCustomerOrder order npcID goal (Some l)"
    using that d assms(1) unfolding bf_def ba_def canFulfillCustomerOrder_def by (blast intro: on_hand_wanted)+
  have craft: "op_Kind c = RPCFlowerArtMakeFlowerArt"
    if "craftOperationForCustomerOrder cat s order npcID goal demands (Some l) = Some c" for c
    using that unfolding craftOperationForCustomerOrder_def by (rule craft_kind)
  have "grants l i (customer_ids npcID i) = bf + ba"
    by (simp add: bf_def ba_def granted_def customer_ids_def assms(3))
  moreover have "taken os [customer_order_op cat s p goal demands (Some l) bypass (npcID, order)] i \<le> bf + ba"
  proof (cases "CustomerOrderRewardSkipReason cat order p")
    case (Some r)
    then show ?thesis using n by (simp add: customer_order_op_def Let_def)
  next
    case None
    let ?craft = "craftOperationForCustomerOrder cat s order npcID goal demands (Some l)"
    have c: "order_takes os ((the ?craft)\<lparr>op_Reason := r\<rparr>) = []" if "\<not> (case ?craft of None \<Rightarrow> False | Some c \<Rightarrow> op_Executable c) = False" for r
      using that craft by (cases ?craft) (simp_all add: takes_of_kind)
    show ?thesis
      using n add_mono [OF w] c by (auto simp: customer_order_op_def None Let_def reject_op_def takes_of_kind takes_customer_order m)
  qed
  ultimately show ?thesis by simp
qed

lemma customer_taken:
  assumes "served_ledger inventory l" "orders_distinct os" "goal_ID goal = GoalCustomerOrder"
  shows "taken os (customer_ops cat s os p goal demands (Some l) now) i
      \<le> grants l i (concat (map (\<lambda>no. customer_ids (fst no) i) (os_customerOrders os)))"
proof (cases "customerOrderLimitBlock (os_counts os) p goal now")
  case (Some x)
  have "0 \<le> grants l i ids" for ids
    unfolding grants_def by (rule sum_list_nonneg) (use served_nonneg [OF assms(1)] in auto)
  then show ?thesis using limit_blocks(2) [OF Some] by (simp add: customer_ops_def Some)
next
  case None
  let ?f = "\<lambda>no. [customer_order_op cat s p goal demands (Some l) (RaceHoldsUnfinishedCustomerOrder (FmlRaceAt s now)) no]"
  have "taken os (concat (map ?f (os_customerOrders os))) i
      \<le> grants l i (concat (map (\<lambda>no. customer_ids (fst no) i) (os_customerOrders os)))"
    by (rule taken_concat) (use customer_order_taken [OF assms] in \<open>auto simp del: taken_simps\<close>)
  moreover have "concat (map ?f nos) = map (customer_order_op cat s p goal demands (Some l)
      (RaceHoldsUnfinishedCustomerOrder (FmlRaceAt s now))) nos" for nos by (induction nos) auto
  ultimately show ?thesis by (auto simp: customer_ops_def None takes_of_kind)
qed

lemma palace_team_taken:
  "taken os (palace_ops cat os qs goal ledger) i = 0" "taken os (team_ops cat s os qs oc goal ledger) i = 0"
  by (simp_all add: palace_ops_def team_ops_def Let_def)

lemma rack_craft_kind: "craftOperationForFlowerRack cat s os p goal ledger = Some x \<Longrightarrow> op_Kind x = RPCFlowerArtMakeFlowerArt"
  by (auto simp: craftOperationForFlowerRack_def craft_op_def with_craft_cost_def Let_def split: option.splits if_splits)

lemma list_rack_taken: "taken os (list_rack cat s os' p goal ledger racks) i \<le> Available ledger i"
proof (induction racks)
  case Nil
  then show ?case by (simp add: Available_nonneg del: Available.simps)
next
  case (Cons rackID racks)
  show ?case
  proof (cases "bestRackArt cat s p ledger")
    case None
    then show ?thesis
      using Cons.IH rack_craft_kind Available_nonneg [of ledger i]
      by (cases "craftOperationForFlowerRack cat s os' p goal ledger") (auto simp: takes_of_kind simp del: Available.simps)
  next
    case (Some an)
    obtain artID n where an: "an = (artID, n)" by (cases an)
    show ?thesis
      using best_rack_art [OF Some [unfolded an]] Available_nonneg [of ledger i]
      by (auto simp: Some an takes_of_kind simp del: Available.simps)
  qed
qed

lemma claim_rack_taken: "taken os (claim_rack os' goal now) i = 0"
  by (cases "FlowerRackClaimableSlotIDs os' now") (auto simp: claim_rack_def Let_def takes_of_kind split: option.splits)

lemma art_taken: "taken os (art_ops cat s os' p goal ledger now) i \<le> Available ledger i"
proof -
  have "taken os (case ids of [] \<Rightarrow> [] | v # r \<Rightarrow> [domainOp k goal d a t pr v 0 0]) i = 0"
    if "k = RPCCollectRwdRecvArtCreateRwdByVase \<or> k = RPCCollectRwdRecv" for ids k d a t pr
    using that by (cases ids) (auto simp: takes_of_kind)
  then show ?thesis
    using list_rack_taken [of os cat s os' p goal ledger "EmptyFlowerRackSlotIDs os'" i] Available_nonneg [of ledger i]
    by (simp add: art_ops_def claim_rack_taken del: Available.simps)
qed

section \<open>All orders of a pass\<close>

lemma with_goal_taken:
  assumes "\<And>goal. goal_ID goal = k \<Longrightarrow> taken os (f goal) i \<le> b" "0 \<le> b"
  shows "taken os (with_goal goals k f) i \<le> b"
proof (cases "goalByID goals k")
  case (Some g)
  then have "goal_ID g = k" by (auto simp: goalByID_def dest: find_SomeD)
  with Some assms(1) show ?thesis by (simp add: with_goal_def)
qed (simp add: with_goal_def assms(2))

lemma resident_id_inj [simp]: "resident_id e i = resident_id e' i \<longleftrightarrow> e = e'"
  by (simp add: resident_id_def)

lemma customer_ids_distinct: "distinct ks \<Longrightarrow> distinct (concat (map (\<lambda>k. customer_ids k i) ks))"
proof (induction ks)
  case (Cons k ks)
  have "set (customer_ids k i) \<inter> set (concat (map (\<lambda>k. customer_ids k i) ks)) = {}"
    using Cons.prems by (auto simp: customer_ids_def flower_not_art flower_not_art [symmetric])
  moreover have "distinct (customer_ids k i)" by (simp add: customer_ids_def flower_not_art)
  ultimately show ?case using Cons by simp
qed simp

lemma order_ids_distinct:
  assumes "orders_distinct os"
  shows "distinct (resident_ids os i @ concat (map (\<lambda>no. customer_ids (fst no) i) (os_customerOrders os)))"
proof -
  let ?boxes = "map fst (os_flowerOrders os)" and ?npcs = "map fst (os_customerOrders os)"
  have d: "distinct ?boxes" "distinct ?npcs" using assms by (simp_all add: orders_distinct_def gomap_ok_def)
  have boxes: "concat (map (\<lambda>bo. [resident_id (show_int (fst bo)) i]) bos) = map (\<lambda>b. resident_id (show_int b) i) (map fst bos)"
    for bos :: "(int \<times> flower_order) list" by (induction bos) auto
  have "distinct (map (\<lambda>b. resident_id (show_int b) i) ?boxes)"
    using d(1) by (rule distinct_map [THEN iffD2, OF conjI]) (simp add: inj_on_def)
  then have "distinct (resident_ids os i)"
    unfolding resident_ids_def boxes by (auto simp del: map_map)
  moreover have "distinct (concat (map (\<lambda>no. customer_ids (fst no) i) (os_customerOrders os)))"
    using customer_ids_distinct [OF d(2), of i] by (simp add: comp_def)
  moreover have "\<exists>e. x = resident_id e i" if "x \<in> set (resident_ids os i)" for x
    using that by (auto simp: resident_ids_def)
  moreover have "\<exists>e k. x = demandID GoalCustomerOrder e ''direct'' k i"
    if "x \<in> set (concat (map (\<lambda>no. customer_ids (fst no) i) (os_customerOrders os)))" for x
    using that by (auto simp: customer_ids_def)
  ultimately show ?thesis
    using resident_not_customer unfolding resident_id_def distinct_append by blast
qed

definition order_grant_ids :: "order_state \<Rightarrow> int \<Rightarrow> string list" where
  "order_grant_ids os i = resident_ids os i @ concat (map (\<lambda>no. customer_ids (fst no) i) (os_customerOrders os))"

text \<open>All groups but the last take what their orders were granted; the last, racks and art, what is left.\<close>

lemma order_parts:
  assumes "served_ledger (Inventory s) l" "orders_distinct os"
  obtains A where
    "orderOperations cat s os p goals demands (Some l) now =
       A @ with_goal goals GoalFlowerArt (\<lambda>goal. art_ops cat s os (orp_Art p) goal (Some l) now)"
    "taken os A i \<le> grants l i (order_grant_ids os i)"
proof -
  define R where "R = with_goal goals GoalResidentOrder (\<lambda>goal. resident_ops cat os (orp_Resident p) goal (Some l) now)"
  define C where "C = with_goal goals GoalCustomerOrder
    (\<lambda>goal. customer_ops cat s os (orp_Customer p) goal demands (Some l) now)"
  define P where "P = with_goal goals GoalPalaceOrder (\<lambda>goal. palace_ops cat os (orp_PalaceQualities p) goal (Some l))"
  define T where "T = with_goal goals GoalTeamOrder
    (\<lambda>goal. team_ops cat s os (orp_TeamQualities p) (orp_TeamSubmitOnlyCultivated p) goal (Some l))"
  have nn: "0 \<le> grants l i ids" for ids
    unfolding grants_def by (rule sum_list_nonneg) (use served_nonneg [OF assms(1)] in auto)
  have "taken os R i \<le> grants l i (resident_ids os i)"
    unfolding R_def by (rule with_goal_taken) (use resident_taken [OF assms] nn in auto)
  moreover have "taken os C i \<le> grants l i (concat (map (\<lambda>no. customer_ids (fst no) i) (os_customerOrders os)))"
    unfolding C_def by (rule with_goal_taken) (use customer_taken [OF assms] nn in auto)
  moreover have "taken os P i \<le> 0" "taken os T i \<le> 0"
    unfolding P_def T_def by (rule with_goal_taken; simp add: palace_team_taken)+
  ultimately have "taken os (R @ C @ P @ T) i \<le> grants l i (order_grant_ids os i)"
    unfolding order_grant_ids_def taken_simps grants_simps by linarith
  moreover have "orderOperations cat s os p goals demands (Some l) now =
      (R @ C @ P @ T) @ with_goal goals GoalFlowerArt (\<lambda>goal. art_ops cat s os (orp_Art p) goal (Some l) now)"
    by (simp add: orderOperations_def R_def C_def P_def T_def)
  ultimately show thesis by (rule that [rotated])
qed

lemma order_grants_fit:
  assumes "served_ledger (Inventory s) l" "orders_distinct os"
  shows "grants l i (order_grant_ids os i) + Available (Some l) i \<le> max 0 (get_or 0 (Inventory s) i)"
  unfolding grants_def order_grant_ids_def by (rule distinct_grants [OF assms(1) order_ids_distinct [OF assms(2)]])

text \<open>
  C30.  Whatever demands a pass has served from the inventory, and provided that no order lists an
  item twice, the deliveries and the rack sale it plans can all be made from that inventory: for every
  item, what the runnable operations of residents, customers, palace, team and racks take together is
  no more than is owned.
\<close>

theorem orders_fit_inventory:
  assumes "gomap_ok (Inventory s)" "orders_distinct os"
    and "ledger = fst (applyLedgerAllocations served (Some (NewInventoryLedger (Inventory s))))"
  shows "taken os (orderOperations cat s os p goals demands ledger now) i \<le> max 0 (get_or 0 (Inventory s) i)"
proof -
  obtain l where l: "ledger = Some l" "served_ledger (Inventory s) l"
    using served [OF assms(1), of served] assms(3) by auto
  obtain A where A: "orderOperations cat s os p goals demands ledger now =
      A @ with_goal goals GoalFlowerArt (\<lambda>goal. art_ops cat s os (orp_Art p) goal ledger now)"
    "taken os A i \<le> grants l i (order_grant_ids os i)"
    using order_parts [OF l(2) assms(2)] unfolding l(1) .
  have "taken os (with_goal goals GoalFlowerArt (\<lambda>goal. art_ops cat s os (orp_Art p) goal ledger now)) i
      \<le> Available ledger i"
    by (rule with_goal_taken) (rule art_taken Available_nonneg)+
  then show ?thesis
    unfolding A(1) taken_simps using A(2) order_grants_fit [OF l(2) assms(2), of i] unfolding l(1) by linarith
qed

definition resident_goal :: goal where
  "resident_goal = \<lparr>goal_ID = GoalResidentOrder, goal_Category = CategoryOrder, goal_Domain = ''order.resident'',
     goal_Label = [], goal_Priority = 10\<rparr>"

definition box_order :: "requirement list \<Rightarrow> flower_order" where
  "box_order reqs = \<lparr>fo_Requires = reqs, fo_IsVideo = 0, fo_CdTimeMs = 0\<rparr>"

definition two_boxes :: order_state where
  "two_boxes = quiet_orders\<lparr>os_flowerOrders := [(1, box_order [(12, 2)]), (2, box_order [(12, 2)])]\<rparr>"

definition box_demands :: "(int, int) gomap \<Rightarrow> (int \<times> flower_order) list \<Rightarrow> demand list" where
  "box_demands inventory = concat \<circ> map (\<lambda>(b, order). flower_needs inventory resident_goal (show_int b) [] (fo_Requires order))"

definition order_owner :: order_policy where
  "order_owner = \<lparr>orp_Resident = \<lparr>res_NormalEnabled = True, res_RewardEnabled = False, res_DecorateEnabled = False,
       res_SatinEnabled = False, res_Qualities = [], res_NormalDailyLimit = 50, res_SatinDailyLimit = 0,
       res_DecorateDailyLimit = 0\<rparr>,
     orp_Customer = \<lparr>cus_Enabled = False, cus_DailyLimit = 0, cus_ExactFloralCoin = None,
       cus_MinFlowerArtCount = 0, cus_RejectUnavailableEnabled = False\<rparr>,
     orp_PalaceEnabled = False, orp_PalaceQualities = [], orp_TeamEnabled = False, orp_TeamQualities = [],
     orp_TeamSubmitOnlyCultivated = False, orp_Art = selling_arts, orp_MainEnabled = False,
     orp_DailyEnabled = False, orp_WeeklyEnabled = False, orp_DemandPriority = []\<rparr>"

text \<open>Two of flower 12 for two orders of two: one can be delivered, and the pass takes at most two.\<close>

theorem orders_fit_inventory_witness:
  "let served = box_demands (Inventory sample_state) (os_flowerOrders two_boxes);
       ledger = fst (applyLedgerAllocations served (Some (NewInventoryLedger (Inventory sample_state))))
   in canFulfillFlowerOrder (box_order [(12, 2)]) 1 resident_goal ledger \<and>
      \<not> canFulfillFlowerOrder (box_order [(12, 2)]) 2 resident_goal ledger \<and>
      taken two_boxes
        (orderOperations bouquet_catalog sample_state two_boxes order_owner [resident_goal] served ledger 0) 12 \<le> 2"
proof -
  define served where "served = box_demands (Inventory sample_state) (os_flowerOrders two_boxes)"
  define ledger where "ledger = fst (applyLedgerAllocations served (Some (NewInventoryLedger (Inventory sample_state))))"
  have ok: "gomap_ok (Inventory sample_state)" "orders_distinct two_boxes" by code_simp+
  have "canFulfillFlowerOrder (box_order [(12, 2)]) 1 resident_goal ledger \<and>
      \<not> canFulfillFlowerOrder (box_order [(12, 2)]) 2 resident_goal ledger"
    unfolding ledger_def served_def by code_simp
  moreover have "get_or 0 (Inventory sample_state) 12 = 2" by code_simp
  ultimately show ?thesis
    using orders_fit_inventory [OF ok ledger_def, of bouquet_catalog order_owner "[resident_goal]" served 0 12]
    by (simp add: Let_def served_def [symmetric] ledger_def [symmetric])
qed

text \<open>Why no item may be listed twice: both rows of such an order are checked against the same grant.\<close>

lemma repeated_item_passes:
  "let inventory = [(12, 3)]; order = box_order [(12, 2), (12, 2)];
       ledger = fst (applyLedgerAllocations (box_demands inventory [(1, order)]) (Some (NewInventoryLedger inventory)))
   in canFulfillFlowerOrder order 1 resident_goal ledger \<and> wanted (fo_Requires order) 12 = 4"
  by code_simp

end
