(* ===== verification/RaceTexts.thy ===== *)
theory RaceTexts
  imports Literals
begin

text \<open>
  The Chinese texts of the flower-art tasks of the race (\<open>automation/race_drive.go\<close>), as the byte
  strings the compiler stores.
\<close>

definition lit_claim_frees :: string where \<comment> \<open>sold, claim to free the rack\<close>
  "lit_claim_frees =
     [CHR 0xEF, CHR 0xBC, CHR 0x9B, CHR 0xE8, CHR 0x8A, CHR 0xB1, CHR 0xE6, CHR 0x9E, CHR 0xB6,
      CHR 0xE5, CHR 0x94, CHR 0xAE, CHR 0xE5, CHR 0x8D, CHR 0x96, CHR 0xE6, CHR 0x97, CHR 0xB6,
      CHR 0xE9, CHR 0x97, CHR 0xB4, CHR 0xE5, CHR 0xB7, CHR 0xB2, CHR 0xE5, CHR 0x88, CHR 0xB0,
      CHR 0xEF, CHR 0xBC, CHR 0x8C, CHR 0xE9, CHR 0xA2, CHR 0x86, CHR 0xE5, CHR 0x8F, CHR 0x96,
      CHR 0xE4, CHR 0xBB, CHR 0xA5, CHR 0xE8, CHR 0x85, CHR 0xBE, CHR 0xE7, CHR 0xA9, CHR 0xBA,
      CHR 0xE4, CHR 0xBD, CHR 0x8D]"

definition lit_cancel_relist :: string where \<comment> \<open>listed five minutes, cancel and list again\<close>
  "lit_cancel_relist =
     [CHR 0xEF, CHR 0xBC, CHR 0x9B, CHR 0xE4, CHR 0xB8, CHR 0x8A, CHR 0xE6, CHR 0x9E, CHR 0xB6,
      CHR 0xE5, CHR 0xB7, CHR 0xB2, CHR 0xE6, CHR 0xBB, CHR 0xA1] @ ''5'' @ [CHR 0xE5, CHR 0x88,
      CHR 0x86, CHR 0xE9, CHR 0x92, CHR 0x9F, CHR 0xEF, CHR 0xBC, CHR 0x8C, CHR 0xE5, CHR 0x85,
      CHR 0xA8, CHR 0xE9, CHR 0x83, CHR 0xA8, CHR 0xE4, CHR 0xB8, CHR 0x8B, CHR 0xE6, CHR 0x9E,
      CHR 0xB6, CHR 0xE5, CHR 0x86, CHR 0x8D, CHR 0xE6, CHR 0x8C, CHR 0x82]"

definition lit_craft_first :: string where \<comment> \<open>no finished piece, craft first\<close>
  "lit_craft_first =
     [CHR 0xEF, CHR 0xBC, CHR 0x9B, CHR 0xE7, CHR 0xBC, CHR 0xBA, CHR 0xE5, CHR 0xB0, CHR 0x91,
      CHR 0xE6, CHR 0x88, CHR 0x90, CHR 0xE5, CHR 0x93, CHR 0x81, CHR 0xEF, CHR 0xBC, CHR 0x8C,
      CHR 0xE5, CHR 0x85, CHR 0x88, CHR 0xE5, CHR 0x88, CHR 0xB6, CHR 0xE4, CHR 0xBD, CHR 0x9C]"

definition lit_target_vase :: string where \<comment> \<open>target vase\<close>
  "lit_target_vase =
     [CHR 0xEF, CHR 0xBC, CHR 0x9B, CHR 0xE7, CHR 0x9B, CHR 0xAE, CHR 0xE6, CHR 0xA0, CHR 0x87,
      CHR 0xE8, CHR 0x8A, CHR 0xB1, CHR 0xE7, CHR 0x93, CHR 0xB6] @ '' #''"

definition lit_dearest_seeded :: string where \<comment> \<open>the dearest recipe with seeds\<close>
  "lit_dearest_seeded =
     [CHR 0xE9, CHR 0x80, CHR 0x89, CHR 0xE4, CHR 0xBB, CHR 0xB7, CHR 0xE6, CHR 0x9C, CHR 0x80,
      CHR 0xE9, CHR 0xAB, CHR 0x98, CHR 0xE6, CHR 0x9C, CHR 0x89, CHR 0xE7, CHR 0xA7, CHR 0x8D,
      CHR 0xE5, CHR 0xAD, CHR 0x90, CHR 0xE9, CHR 0x85, CHR 0x8D, CHR 0xE6, CHR 0x96, CHR 0xB9]"

definition lit_type_vip_shop :: string where \<comment> \<open>VIP shop\<close>
  "lit_type_vip_shop =
     ''VIP'' @ [CHR 0xE5, CHR 0x95, CHR 0x86, CHR 0xE5, CHR 0xBA, CHR 0x97, CHR 0xE8, CHR 0xB4,
      CHR 0xAD, CHR 0xE4, CHR 0xB9, CHR 0xB0]"

definition lit_type_resident :: string where \<comment> \<open>resident orders\<close>
  "lit_type_resident =
     [CHR 0xE5, CHR 0xB1, CHR 0x85, CHR 0xE6, CHR 0xB0, CHR 0x91, CHR 0xE8, CHR 0xAE, CHR 0xA2,
      CHR 0xE5, CHR 0x8D, CHR 0x95]"

definition lit_type_customer :: string where \<comment> \<open>customer orders\<close>
  "lit_type_customer =
     [CHR 0xE9, CHR 0xA1, CHR 0xBE, CHR 0xE5, CHR 0xAE, CHR 0xA2, CHR 0xE8, CHR 0xAE, CHR 0xA2,
      CHR 0xE5, CHR 0x8D, CHR 0x95]"

definition lit_type_material_shop :: string where \<comment> \<open>material shop\<close>
  "lit_type_material_shop =
     [CHR 0xE6, CHR 0x9D, CHR 0x90, CHR 0xE6, CHR 0x96, CHR 0x99, CHR 0xE5, CHR 0x95, CHR 0x86,
      CHR 0xE5, CHR 0xBA, CHR 0x97, CHR 0xE8, CHR 0xB4, CHR 0xAD, CHR 0xE4, CHR 0xB9, CHR 0xB0]"

definition lit_type_palace :: string where \<comment> \<open>palace orders\<close>
  "lit_type_palace =
     [CHR 0xE5, CHR 0xAE, CHR 0xAB, CHR 0xE5, CHR 0xBB, CHR 0xB7, CHR 0xE8, CHR 0xAE, CHR 0xA2,
      CHR 0xE5, CHR 0x8D, CHR 0x95]"

definition lit_type_pearl :: string where \<comment> \<open>pearl hires\<close>
  "lit_type_pearl =
     [CHR 0xE7, CHR 0x8F, CHR 0x8D, CHR 0xE7, CHR 0x8F, CHR 0xA0, CHR 0xE9, CHR 0x87, CHR 0x87,
      CHR 0xE9, CHR 0x9B, CHR 0x86, CHR 0xE9, CHR 0x9B, CHR 0x87, CHR 0xE4, CHR 0xBD, CHR 0xA3]"

definition lit_type_friend_touch :: string where \<comment> \<open>touching friends\<close>
  "lit_type_friend_touch =
     [CHR 0xE5, CHR 0xA5, CHR 0xBD, CHR 0xE5, CHR 0x8F, CHR 0x8B, CHR 0xE5, CHR 0x81, CHR 0xB7,
      CHR 0xE8, CHR 0x8A, CHR 0xB1]"

definition lit_type_art_sell :: string where \<comment> \<open>selling art\<close>
  "lit_type_art_sell =
     [CHR 0xE8, CHR 0x8A, CHR 0xB1, CHR 0xE8, CHR 0x89, CHR 0xBA, CHR 0xE5, CHR 0x94, CHR 0xAE,
      CHR 0xE5, CHR 0x8D, CHR 0x96]"

definition lit_type_art_craft :: string where \<comment> \<open>crafting art\<close>
  "lit_type_art_craft =
     [CHR 0xE8, CHR 0x8A, CHR 0xB1, CHR 0xE8, CHR 0x89, CHR 0xBA, CHR 0xE5, CHR 0x88, CHR 0xB6,
      CHR 0xE4, CHR 0xBD, CHR 0x9C]"

definition lit_type_upgrade :: string where \<comment> \<open>flower upgrades\<close>
  "lit_type_upgrade =
     [CHR 0xE9, CHR 0xB2, CHR 0x9C, CHR 0xE8, CHR 0x8A, CHR 0xB1, CHR 0xE5, CHR 0x8D, CHR 0x87,
      CHR 0xE7, CHR 0xBA, CHR 0xA7]"

definition lit_type_plant :: string where \<comment> \<open>planting\<close>
  "lit_type_plant =
     [CHR 0xE7, CHR 0xA7, CHR 0x8D, CHR 0xE6, CHR 0xA4, CHR 0x8D, CHR 0xE6, CHR 0x94, CHR 0xB6,
      CHR 0xE8, CHR 0x8E, CHR 0xB7]"

definition lit_type_cultivate :: string where \<comment> \<open>cultivating\<close>
  "lit_type_cultivate =
     [CHR 0xE8, CHR 0x8A, CHR 0xB1, CHR 0xE7, CHR 0xA7, CHR 0x8D, CHR 0xE5, CHR 0x9F, CHR 0xB9,
      CHR 0xE8, CHR 0x82, CHR 0xB2]"

definition lit_type_zoo :: string where \<comment> \<open>animals\<close>
  "lit_type_zoo =
     [CHR 0xE5, CHR 0x8A, CHR 0xA8, CHR 0xE7, CHR 0x89, CHR 0xA9, CHR 0xE4, CHR 0xBA, CHR 0x92,
      CHR 0xE5, CHR 0x8A, CHR 0xA8]"

definition lit_type_other :: string where \<comment> \<open>task\<close>
  "lit_type_other =
     [CHR 0xE4, CHR 0xBB, CHR 0xBB, CHR 0xE5, CHR 0x8A, CHR 0xA1] @ ''#''"

definition lit_middle_dot :: string where \<comment> \<open>middle dot\<close>
  "lit_middle_dot =
     '' '' @ [CHR 0xC2, CHR 0xB7] @ '' ''"

end
