(* ===== verification/RaceArts.thy ===== *)
theory RaceArts
  imports OrderSafety RaceTexts
begin

text \<open>
  The flower-art tasks of the guild race (\<open>automation/race_drive.go\<close>): claiming and clearing racks,
  selling and crafting for the held task, and the titles of race tasks.
\<close>

abbreviation "RPCFlowerRackCancelSell \<equiv> ''flowerRack.cancelSell''"
abbreviation "raceFlowerArtSellOpPriority \<equiv> (12300::int)"
abbreviation "raceFlowerArtCraftOpPriority \<equiv> (12300::int)"
abbreviation "raceFlowerArtClaimOpPriority \<equiv> (12350::int)"
abbreviation "raceFlowerArtCancelOpPriority \<equiv> (12340::int)"
abbreviation "raceFlowerArtRelistAfter \<equiv> 5 * minute"

section \<open>Progress of the held task\<close>

definition raceNeedsCustomerProgressSync :: "fml_race_view \<Rightarrow> time \<Rightarrow> bool" where
  "raceNeedsCustomerProgressSync view now = raceNeedsModuleProgressSync view (RaceHoldsUnfinishedCustomerOrder view) now"

definition raceNeedsPearlProgressSync :: "fml_race_view \<Rightarrow> time \<Rightarrow> bool" where
  "raceNeedsPearlProgressSync view now = raceNeedsModuleProgressSync view (RaceHoldsUnfinishedPearlHire view) now"

definition raceNeedsFlowerArtProgressSync :: "fml_race_view \<Rightarrow> time \<Rightarrow> bool" where
  "raceNeedsFlowerArtProgressSync view now =
     raceNeedsModuleProgressSync view (RaceHoldsUnfinishedFlowerArtSell view \<or> RaceHoldsUnfinishedFlowerArtCraft view) now"

definition raceNeedsCultivateProgressSync :: "fml_race_view \<Rightarrow> time \<Rightarrow> bool" where
  "raceNeedsCultivateProgressSync view now = raceNeedsModuleProgressSync view (RaceHoldsUnfinishedFlowerCultivate view) now"

section \<open>Titles\<close>

definition raceTaskTypeLabel :: "int \<Rightarrow> string" where
  "raceTaskTypeLabel k =
     (if k = 2004 then lit_type_vip_shop
      else if k = 3006 then lit_type_resident
      else if k = raceTaskTypeCustomerOrder then lit_type_customer
      else if k = 3017 then lit_type_material_shop
      else if k = 3018 then lit_type_palace
      else if k = raceTaskTypePearlHire then lit_type_pearl
      else if k = 3024 then lit_type_friend_touch
      else if k = raceTaskTypeFlowerArtSell then lit_type_art_sell
      else if k = raceTaskTypeFlowerArtCraft then lit_type_art_craft
      else if k = 3035 then lit_type_upgrade
      else if k = raceTaskTypePlantHarvest then lit_type_plant
      else if k = raceTaskTypeFlowerCultivate then lit_type_cultivate
      else if k = 3052 then lit_type_zoo
      else if 0 < k then lit_type_other @ show_int k
      else [])"

definition FormatRaceTaskOpDesc :: "catalog \<Rightarrow> int \<Rightarrow> int \<Rightarrow> string" where
  "FormatRaceTaskOpDesc cat taskType paramID =
     (let typeLabel = raceTaskTypeLabel taskType;
          target = (if 0 < paramID then label cat paramID else [])
      in if typeLabel \<noteq> [] \<and> target \<noteq> [] then typeLabel @ lit_middle_dot @ target
         else if typeLabel \<noteq> [] then typeLabel
         else target)"

section \<open>Racks\<close>

definition race_art_goal :: goal where
  "race_art_goal = \<lparr>goal_ID = GoalFlowerArt, goal_Category = CategoryOrder, goal_Domain = ''order.flower_art'',
     goal_Label = lit_art_goal, goal_Priority = 40\<rparr>"

definition raceFlowerArtClaimOperation :: "order_state \<Rightarrow> demand \<Rightarrow> string \<Rightarrow> time \<Rightarrow> planned_op option" where
  "raceFlowerArtClaimOperation os d prefix now =
     (if dem_Missing d \<le> 0 then None
      else case FlowerRackClaimableSlotIDs os now of
        [] \<Rightarrow> None
      | rackID # rest \<Rightarrow>
          let claim = (goal_op RPCFlowerRackRecvSellMoney race_art_goal ''claim'' (prefix @ lit_claim_frees)
                raceFlowerArtClaimOpPriority rackID 0 0)\<lparr>op_DemandID := dem_ID d\<rparr>
          in Some (case map_of (os_flowerRack os) rackID of
                None \<Rightarrow> claim
              | Some slot \<Rightarrow> claim\<lparr>op_ItemID := rs_ItemID slot, op_Count := rs_Count slot\<rparr>))"

definition stale_listing :: "time \<Rightarrow> rack_slot \<Rightarrow> bool" where
  "stale_listing now slot \<longleftrightarrow>
     0 < rs_ItemID slot \<and> 0 < rs_Count slot \<and> 0 < rs_ListedAtMs slot \<and>
     \<not> (0 < rs_SellReadyAtMs slot \<and> rs_SellReadyAtMs slot \<le> to_unix_milli now) \<and>
     rs_ListedAtMs slot \<le> to_unix_milli (now - raceFlowerArtRelistAfter)"

definition cancel_listing :: "demand \<Rightarrow> string \<Rightarrow> int \<times> rack_slot \<Rightarrow> planned_op" where
  "cancel_listing d prefix rs =
     (case rs of (rackID, slot) \<Rightarrow>
        (goal_op RPCFlowerRackCancelSell race_art_goal ''cancel'' (prefix @ lit_cancel_relist)
           raceFlowerArtCancelOpPriority rackID (rs_ItemID slot) (rs_Count slot))
          \<lparr>op_DemandID := dem_ID d, op_Status := PlanStatusManaged, op_Executable := True, op_SyncOnly := False,
            op_BlockedReasons := [], op_FeatureID := ''union.race.flower_art_cancel''\<rparr>)"

definition raceFlowerArtCancelStaleListings :: "order_state \<Rightarrow> demand \<Rightarrow> string \<Rightarrow> time \<Rightarrow> planned_op list" where
  "raceFlowerArtCancelStaleListings os d prefix now =
     (if dem_Missing d \<le> 0 then []
      else map (cancel_listing d prefix)
        (stable_sort (\<lambda>a b. fst a < fst b) (filter (\<lambda>(rackID, slot). stale_listing now slot) (os_flowerRack os))))"

definition raceFlowerArtSellOperation ::
  "catalog \<Rightarrow> game_state \<Rightarrow> order_state \<Rightarrow> demand \<Rightarrow> inventory_ledger option \<Rightarrow> string \<Rightarrow> planned_op option" where
  "raceFlowerArtSellOperation cat s os d ledger prefix =
     (if dem_Missing d \<le> 0 then None
      else case EmptyFlowerRackSlotIDs os of
        [] \<Rightarrow> None
      | rackID # rest \<Rightarrow>
          (case bestRackArtForRace cat s (ledger_or_fresh s ledger) of
             None \<Rightarrow> None
           | Some (artID, n0) \<Rightarrow>
               if n0 \<le> 0 then None
               else
                 let n = (if dem_Missing d < n0 then dem_Missing d else n0)
                 in Some ((goal_op RPCFlowerRackSell race_art_goal ''sell'' prefix raceFlowerArtSellOpPriority rackID artID n)
                      \<lparr>op_DemandID := dem_ID d, op_ItemCost := [(artID, n)]\<rparr>)))"

section \<open>Crafting\<close>

fun all_seeded :: "game_state \<Rightarrow> int list \<Rightarrow> bool" where
  "all_seeded s [] \<longleftrightarrow> True"
| "all_seeded s (f # fs) \<longleftrightarrow> 0 < f \<and> flowerCultivated s f \<and> all_seeded s fs"

definition raceRecipeAllFlowersSeeded :: "game_state \<Rightarrow> recipe \<Rightarrow> bool" where
  "raceRecipeAllFlowersSeeded s r \<longleftrightarrow> rec_Flowers r \<noteq> [] \<and> all_seeded s (rec_Flowers r)"

definition race_craftable :: "game_state \<Rightarrow> inventory_ledger option \<Rightarrow> int \<Rightarrow> recipe \<Rightarrow> bool" where
  "race_craftable s ledger vaseID r \<longleftrightarrow>
     \<not> (0 < vaseID \<and> rec_VaseID r \<noteq> vaseID) \<and> raceRecipeAllFlowersSeeded s r \<and> artBlockedReasons s r = [] \<and>
     0 < maxCraftableCount r ledger"

definition race_craft_count :: "inventory_ledger option \<Rightarrow> int \<Rightarrow> recipe \<Rightarrow> int" where
  "race_craft_count ledger missing r = min flowerRackPerSlotCount (min missing (maxCraftableCount r ledger))"

fun best_seeded ::
  "inventory_ledger option \<Rightarrow> int \<Rightarrow> (recipe \<times> int) option \<Rightarrow> recipe list \<Rightarrow> (recipe \<times> int) option" where
  "best_seeded ledger missing best [] = best"
| "best_seeded ledger missing best (r # rs) =
     best_seeded ledger missing
       (case best of
          None \<Rightarrow> Some (r, race_craft_count ledger missing r)
        | Some (b, n) \<Rightarrow>
            if rec_SaleValue b < rec_SaleValue r \<or> (rec_SaleValue r = rec_SaleValue b \<and> rec_ArtID r < rec_ArtID b)
            then Some (r, race_craft_count ledger missing r) else best) rs"

definition raceBestSeededCraftableRecipe ::
  "catalog \<Rightarrow> game_state \<Rightarrow> inventory_ledger option \<Rightarrow> int \<Rightarrow> int \<Rightarrow> (recipe \<times> int) option" where
  "raceBestSeededCraftableRecipe cat s ledger missing vaseID =
     best_seeded ledger missing None (filter (race_craftable s ledger vaseID) (rackCandidateRecipes cat))"

definition raceFlowerArtCraftOperation ::
  "catalog \<Rightarrow> game_state \<Rightarrow> string \<Rightarrow> int \<Rightarrow> int \<Rightarrow> inventory_ledger option \<Rightarrow> planned_op option" where
  "raceFlowerArtCraftOperation cat s demID missing vaseID ledger =
     (if missing \<le> 0 then None
      else case raceBestSeededCraftableRecipe cat s (ledger_or_fresh s ledger) missing vaseID of
        None \<Rightarrow> None
      | Some (r, n) \<Rightarrow>
          let reason = reason_prefix lit_race_art_craft missing @
                (if 0 < vaseID then lit_target_vase @ show_int vaseID @ '' '' else lit_semicolon) @ lit_dearest_seeded
          in Some (with_craft_cost
               ((goal_op RPCFlowerArtMakeFlowerArt race_art_goal ''craft'' reason raceFlowerArtCraftOpPriority
                   0 (rec_ArtID r) n)
                 \<lparr>op_DemandID := demID, op_VaseID := rec_VaseID r, op_FlowerIDs := rec_Flowers r\<rparr>)))"

section \<open>Driving the operations\<close>

definition race_sale :: "planned_op \<Rightarrow> bool" where
  "race_sale x \<longleftrightarrow>
     runnableBusinessOperation x \<and> op_Kind x = RPCFlowerRackSell \<and> 0 < op_TargetID x \<and> 0 < op_ItemID x \<and> 0 < op_Count x"

definition race_sale_count :: "inventory_ledger option \<Rightarrow> demand \<Rightarrow> planned_op \<Rightarrow> int" where
  "race_sale_count ledger d x =
     (let c1 = min (op_Count x) (dem_Missing d);
          c2 = (if ledger = None then c1 else min c1 (Available ledger (op_ItemID x)))
      in min c2 flowerRackPerSlotCount)"

definition link_race_sale :: "inventory_ledger option \<Rightarrow> demand \<Rightarrow> string \<Rightarrow> planned_op \<Rightarrow> planned_op" where
  "link_race_sale ledger d prefix x =
     (let x1 = with_reason prefix (x\<lparr>op_DemandID := dem_ID d\<rparr>); n = race_sale_count ledger d x
      in if n \<le> 0 then x1
         else x1\<lparr>op_Count := n, op_ItemCost := [(op_ItemID x, n)],
                op_Priority := max raceFlowerArtSellOpPriority (op_Priority x)\<rparr>)"

definition emit_race_sale ::
  "catalog \<Rightarrow> game_state \<Rightarrow> order_state \<Rightarrow> demand \<Rightarrow> inventory_ledger option \<Rightarrow> string \<Rightarrow> planned_op list" where
  "emit_race_sale cat s os d ledger prefix =
     (case raceFlowerArtSellOperation cat s os d ledger prefix of
        Some sell \<Rightarrow> [sell]
      | None \<Rightarrow>
          (case raceFlowerArtCraftOperation cat s (dem_ID d) (dem_Missing d) 0 ledger of
             None \<Rightarrow> []
           | Some craft \<Rightarrow> [craft\<lparr>op_Reason := prefix @ lit_craft_first,
               op_Priority := max raceFlowerArtCraftOpPriority (op_Priority craft)\<rparr>]))"

definition driveRaceFlowerArtSellOperations ::
  "catalog \<Rightarrow> game_state \<Rightarrow> order_state \<Rightarrow> demand list \<Rightarrow> planned_op list \<Rightarrow> inventory_ledger option \<Rightarrow> time \<Rightarrow> planned_op list" where
  "driveRaceFlowerArtSellOperations cat s os demands ops ledger now =
     (case find_race_demand raceTaskTypeFlowerArtSell demands of
        None \<Rightarrow> ops
      | Some d \<Rightarrow>
          let prefix = reason_prefix lit_race_art_sell (dem_Missing d);
              cancels = raceFlowerArtCancelStaleListings os d prefix now
          in case raceFlowerArtClaimOperation os d prefix now of
            Some claim \<Rightarrow> ops @ [claim]
          | None \<Rightarrow>
              if cancels \<noteq> [] then ops @ cancels
              else case deterministicOperationIndex ops race_sale of
                Some i \<Rightarrow> ops[i := link_race_sale ledger d prefix (ops ! i)]
              | None \<Rightarrow> ops @ emit_race_sale cat s os d ledger prefix)"

definition link_race_craft :: "demand \<Rightarrow> planned_op \<Rightarrow> planned_op" where
  "link_race_craft d x =
     (let x1 = with_reason (reason_prefix lit_race_art_craft (dem_Missing d)) (x\<lparr>op_DemandID := dem_ID d\<rparr>);
          n = (if dem_Missing d < op_Count x then dem_Missing d else op_Count x)
      in x1\<lparr>op_Count := n, op_ItemCost := flowerArtCraftItemCost (op_FlowerIDs x) n,
            op_Priority := max raceFlowerArtCraftOpPriority (op_Priority x)\<rparr>)"

definition race_craft_match :: "demand \<Rightarrow> planned_op \<Rightarrow> bool" where
  "race_craft_match d x \<longleftrightarrow>
     runnableBusinessOperation x \<and> op_Kind x = RPCFlowerArtMakeFlowerArt \<and>
     (dem_ItemID d \<le> 0 \<or> op_VaseID x = dem_ItemID d)"

definition driveRaceFlowerArtCraftOperations ::
  "catalog \<Rightarrow> game_state \<Rightarrow> demand list \<Rightarrow> planned_op list \<Rightarrow> inventory_ledger option \<Rightarrow> planned_op list" where
  "driveRaceFlowerArtCraftOperations cat s demands ops ledger =
     (case find_race_demand raceTaskTypeFlowerArtCraft demands of
        None \<Rightarrow> ops
      | Some d \<Rightarrow>
          (case deterministicOperationIndex ops (race_craft_match d) of
             Some i \<Rightarrow> ops[i := link_race_craft d (ops ! i)]
           | None \<Rightarrow>
               (case raceFlowerArtCraftOperation cat s (dem_ID d) (dem_Missing d) (dem_ItemID d) ledger of
                  None \<Rightarrow> ops
                | Some craft \<Rightarrow> ops @ [craft])))"

section \<open>What a race drive takes\<close>

lemma first_match_kept: "first_match m k xs (Some b) \<noteq> None"
  by (induction xs arbitrary: k b) (auto split: prod.splits)

lemma first_match_none: "first_match m k xs None = None \<Longrightarrow> \<forall>x \<in> set xs. \<not> m x"
proof (induction xs arbitrary: k)
  case (Cons x xs)
  then show ?case using first_match_kept by (cases "m x") auto
qed simp

lemma no_operation: "deterministicOperationIndex ops m = None \<Longrightarrow> x \<in> set ops \<Longrightarrow> \<not> m x"
  by (simp add: deterministicOperationIndex_def) (drule first_match_none, blast)

definition op_takes :: "order_state \<Rightarrow> planned_op \<Rightarrow> int \<Rightarrow> int" where
  "op_takes os x i = (if runnableBusinessOperation x then wanted (order_takes os x) i else 0)"

lemma taken_Cons: "taken os (x # xs) i = op_takes os x i + taken os xs i"
  by (simp add: op_takes_def)

lemma taken_update:
  "k < length ops \<Longrightarrow> op_takes os y i \<le> op_takes os (ops ! k) i \<Longrightarrow> taken os (ops[k := y]) i \<le> taken os ops i"
proof (induction ops arbitrary: k)
  case (Cons x ops)
  then show ?case by (cases k) (auto simp: taken_Cons simp del: taken_simps(3))
qed simp

lemma with_reason_fields [simp]:
  "op_Kind (with_reason r x) = op_Kind x" "op_ItemID (with_reason r x) = op_ItemID x"
  "op_Count (with_reason r x) = op_Count x" "op_TargetID (with_reason r x) = op_TargetID x"
  "runnableBusinessOperation (with_reason r x) = runnableBusinessOperation x"
  by (simp_all add: with_reason_def runnableBusinessOperation_def)

lemma runnable_update [simp]:
  "runnableBusinessOperation (x\<lparr>op_DemandID := d\<rparr>) = runnableBusinessOperation x"
  "runnableBusinessOperation (x\<lparr>op_Count := n, op_ItemCost := c, op_Priority := p\<rparr>) = runnableBusinessOperation x"
  by (simp_all add: runnableBusinessOperation_def)

lemma link_race_sale_takes:
  assumes "race_sale x"
  shows "op_takes os (link_race_sale ledger d prefix x) i \<le> op_takes os x i"
proof -
  define n where "n = race_sale_count ledger d x"
  have n: "n \<le> op_Count x" by (auto simp: n_def race_sale_count_def Let_def)
  have k: "op_Kind x = RPCFlowerRackSell" "0 < op_Count x" using assms by (simp_all add: race_sale_def)
  have takes: "order_takes os x = [(op_ItemID x, op_Count x)]" using k(1) by (simp add: takes_of_kind)
  show ?thesis
  proof (cases "n \<le> 0")
    case True
    then have "link_race_sale ledger d prefix x = with_reason prefix (x\<lparr>op_DemandID := dem_ID d\<rparr>)"
      by (simp add: link_race_sale_def n_def [symmetric])
    then show ?thesis using k(1) by (simp add: op_takes_def takes_of_kind)
  next
    case False
    then show ?thesis
      using k n by (simp add: op_takes_def link_race_sale_def n_def [symmetric] Let_def takes_of_kind)
  qed
qed

lemma link_race_craft_takes: "race_craft_match d x \<Longrightarrow> op_takes os (link_race_craft d x) i = op_takes os x i"
  by (simp add: op_takes_def link_race_craft_def Let_def takes_of_kind race_craft_match_def)

lemma race_craft_kind:
  "raceFlowerArtCraftOperation cat s dID missing v ledger = Some x \<Longrightarrow> op_Kind x = RPCFlowerArtMakeFlowerArt"
  by (auto simp: raceFlowerArtCraftOperation_def with_craft_cost_def Let_def split: if_splits option.splits)

lemma race_sell_fits:
  assumes "raceFlowerArtSellOperation cat s os' d (Some l) prefix = Some x"
  shows "op_takes os x i \<le> Available (Some l) i"
proof -
  obtain rackID rest where racks: "EmptyFlowerRackSlotIDs os' = rackID # rest"
    using assms by (cases "EmptyFlowerRackSlotIDs os'") (auto simp: raceFlowerArtSellOperation_def split: if_splits)
  obtain artID n0 where best: "bestRackArtForRace cat s (Some l) = Some (artID, n0)"
    using assms
    by (cases "bestRackArtForRace cat s (Some l)")
      (auto simp: raceFlowerArtSellOperation_def ledger_or_fresh_def racks split: if_splits)
  have n0: "n0 \<le> Available (Some l) artID"
    using best_by_count [OF best [unfolded bestRackArtForRace_def]] by (auto simp: best_so_far_def simp del: Available.simps)
  define n where "n = (if dem_Missing d < n0 then dem_Missing d else n0)"
  have "op_Kind x = RPCFlowerRackSell" "op_ItemID x = artID" "op_Count x = n"
    using assms by (auto simp: raceFlowerArtSellOperation_def ledger_or_fresh_def racks best Let_def n_def split: if_splits)
  moreover have "n \<le> Available (Some l) artID" using n0 by (simp add: n_def del: Available.simps)
  ultimately show ?thesis
    using Available_nonneg [of "Some l" i] by (auto simp: op_takes_def takes_of_kind simp del: Available.simps)
qed

lemma emit_race_sale_takes: "taken os (emit_race_sale cat s os' d (Some l) prefix) i \<le> Available (Some l) i"
proof (cases "raceFlowerArtSellOperation cat s os' d (Some l) prefix")
  case None
  then show ?thesis
    using Available_nonneg [of "Some l" i] race_craft_kind
    by (cases "raceFlowerArtCraftOperation cat s (dem_ID d) (dem_Missing d) 0 (Some l)")
      (auto simp: emit_race_sale_def takes_of_kind simp del: Available.simps)
next
  case (Some x)
  then show ?thesis using race_sell_fits [OF Some, of os i] by (simp add: emit_race_sale_def op_takes_def del: Available.simps)
qed

section \<open>Sales of the plan\<close>

definition arts_positive :: "catalog \<Rightarrow> bool" where
  "arts_positive cat \<longleftrightarrow> list_all (\<lambda>i. 0 \<le> i) (cat_ArtIDs cat)"

definition racks_positive :: "order_state \<Rightarrow> bool" where
  "racks_positive os \<longleftrightarrow> list_all (\<lambda>(rackID, slot). 0 < rackID) (os_flowerRack os)"

lemma art_id_positive: "r \<in> set (AllFlowerArtRecipes cat) \<Longrightarrow> arts_positive cat \<Longrightarrow> 0 < rec_ArtID r"
  by (force simp: AllFlowerArtRecipes_def map_filter_def arts_positive_def list_all_iff FlowerArtRecipeByID_def
      split: if_splits option.splits)

lemma best_art_positive:
  assumes "bestRackArt cat s p ledger = Some (artID, n)" "arts_positive cat"
  shows "0 < artID"
proof -
  obtain ids where "bestArtByInventoryCount (rackArtCandidates cat s ids) ledger = Some (artID, n)"
  proof -
    have "filterRecipesByUnlockedVase s (rackCandidateRecipes cat) = rackArtCandidates cat s []"
      by (simp add: rackArtCandidates_def)
    then show ?thesis
      using assms(1) that by (auto simp: bestRackArt_def bestRackArtByCount_def split: if_splits option.splits)
  qed
  from best_by_count [OF this] obtain r where "r \<in> set (rackArtCandidates cat s ids)" "rec_ArtID r = artID"
    by (auto simp: best_so_far_def)
  then show ?thesis using art_id_positive [OF candidates_from_catalogue assms(2)] by blast
qed

lemma unsold_rack:
  assumes "arts_positive cat" "list_all (\<lambda>r. 0 < r) racks"
    and "\<And>x. x \<in> set (list_rack cat s os' p goal ledger racks) \<Longrightarrow> \<not> race_sale x"
  shows "taken os (list_rack cat s os' p goal ledger racks) i = 0"
  using assms(2,3)
proof (induction racks)
  case (Cons rackID racks)
  show ?case
  proof (cases "bestRackArt cat s p ledger")
    case None
    then show ?thesis
      using Cons rack_craft_kind by (cases "craftOperationForFlowerRack cat s os' p goal ledger") (auto simp: takes_of_kind)
  next
    case (Some an)
    obtain artID n where an: "an = (artID, n)" by (cases an)
    let ?x = "(goal_op RPCFlowerRackSell goal ''sell'' lit_rack_list (orderSchedulePriority FlowerRackSell) rackID artID n)
      \<lparr>op_Category := CategoryOrder\<rparr>"
    have l: "list_rack cat s os' p goal ledger (rackID # racks) = [?x]" by (simp add: Some an)
    have "0 < artID" "0 < n" "0 < rackID"
      using best_art_positive best_rack_art Some [unfolded an] assms(1) Cons.prems(1) by auto
    then have "\<not> runnableBusinessOperation ?x" using Cons.prems(2) [unfolded l] by (simp add: race_sale_def)
    then show ?thesis unfolding l by simp
  qed
qed simp

lemma empty_racks_positive: "racks_positive os \<Longrightarrow> list_all (\<lambda>r. 0 < r) (EmptyFlowerRackSlotIDs os)"
  by (auto simp: racks_positive_def EmptyFlowerRackSlotIDs_def list_all_iff)

lemma reward_claims_take_nothing:
  "taken os (case ids of [] \<Rightarrow> [] | v # r \<Rightarrow> [domainOp RPCCollectRwdRecvArtCreateRwdByVase goal d a t pr v 0 0]) i = 0"
  "taken os (case ids of [] \<Rightarrow> [] | v # r \<Rightarrow> [domainOp RPCCollectRwdRecv goal d a t pr v 0 0]) i = 0"
  by (cases ids; simp add: takes_of_kind)+

lemma unsold_arts:
  assumes "arts_positive cat" "racks_positive os'"
    and "\<And>x. x \<in> set (with_goal goals GoalFlowerArt (\<lambda>goal. art_ops cat s os' p goal ledger now)) \<Longrightarrow> \<not> race_sale x"
  shows "taken os (with_goal goals GoalFlowerArt (\<lambda>goal. art_ops cat s os' p goal ledger now)) i = 0"
proof (cases "goalByID goals GoalFlowerArt")
  case None
  then show ?thesis by (simp add: with_goal_def)
next
  case (Some goal)
  define R where "R = list_rack cat s os' p goal ledger (EmptyFlowerRackSlotIDs os')"
  have "taken os R i = 0" if "art_SellEnabled p" "flowerArtAutoListActive p now"
  proof -
    have "set R \<subseteq> set (with_goal goals GoalFlowerArt (\<lambda>goal. art_ops cat s os' p goal ledger now))"
      unfolding with_goal_def Some option.case art_ops_def R_def using that by (simp only: if_True set_append) blast
    then show ?thesis
      unfolding R_def
      by (intro unsold_rack [OF assms(1) empty_racks_positive [OF assms(2)]]) (use assms(3) R_def in blast)
  qed
  then show ?thesis
    unfolding with_goal_def Some option.case art_ops_def R_def [symmetric]
    by (simp add: reward_claims_take_nothing claim_rack_taken)
qed

lemma cancels_take_nothing: "taken os (raceFlowerArtCancelStaleListings os' d prefix now) i = 0"
  by (rule taken_nothing) (auto simp: raceFlowerArtCancelStaleListings_def cancel_listing_def order_takes_def split: if_splits)

lemma claim_takes_nothing: "raceFlowerArtClaimOperation os' d prefix now = Some x \<Longrightarrow> order_takes os x = []"
  by (auto simp: raceFlowerArtClaimOperation_def Let_def takes_of_kind split: if_splits list.splits option.splits)

text \<open>The sale of the race replaces or cuts the sale of the plan, it never adds a second one.\<close>

lemma race_sell_taken:
  assumes "arts_positive cat" "racks_positive os"
    and ops: "ops = A @ B" "B = with_goal goals GoalFlowerArt (\<lambda>goal. art_ops cat s os p goal (Some l) now)"
  shows "taken os (driveRaceFlowerArtSellOperations cat s os demands ops (Some l) now) i
    \<le> taken os A i + Available (Some l) i"
proof (cases "find_race_demand raceTaskTypeFlowerArtSell demands")
  case None
  have "taken os B i \<le> Available (Some l) i"
    unfolding ops(2) by (rule with_goal_taken) (rule art_taken Available_nonneg)+
  then show ?thesis by (simp add: driveRaceFlowerArtSellOperations_def None ops(1) del: Available.simps)
next
  case (Some d)
  let ?prefix = "reason_prefix lit_race_art_sell (dem_Missing d)"
  let ?drive = "driveRaceFlowerArtSellOperations cat s os demands ops (Some l) now"
  have t: "taken os ops i = taken os A i + taken os B i" by (simp add: ops(1))
  have B: "taken os B i \<le> Available (Some l) i"
    unfolding ops(2) by (rule with_goal_taken) (rule art_taken Available_nonneg)+
  consider (claim) x where "raceFlowerArtClaimOperation os d ?prefix now = Some x"
    | (cancel) "raceFlowerArtClaimOperation os d ?prefix now = None"
        "raceFlowerArtCancelStaleListings os d ?prefix now \<noteq> []"
    | (linked) k where "raceFlowerArtClaimOperation os d ?prefix now = None"
        "raceFlowerArtCancelStaleListings os d ?prefix now = []" "deterministicOperationIndex ops race_sale = Some k"
    | (emit) "raceFlowerArtClaimOperation os d ?prefix now = None"
        "raceFlowerArtCancelStaleListings os d ?prefix now = []" "deterministicOperationIndex ops race_sale = None"
    by (cases "raceFlowerArtClaimOperation os d ?prefix now"; cases "deterministicOperationIndex ops race_sale") auto
  then show ?thesis
  proof cases
    case claim
    then have "?drive = ops @ [x]" by (simp add: driveRaceFlowerArtSellOperations_def Some Let_def)
    then show ?thesis using B t claim_takes_nothing [OF claim] by (simp del: Available.simps)
  next
    case cancel
    then have "?drive = ops @ raceFlowerArtCancelStaleListings os d ?prefix now"
      by (simp add: driveRaceFlowerArtSellOperations_def Some Let_def)
    then show ?thesis using B t by (simp add: cancels_take_nothing del: Available.simps)
  next
    case linked
    then have "?drive = ops[k := link_race_sale (Some l) d ?prefix (ops ! k)]"
      by (simp add: driveRaceFlowerArtSellOperations_def Some Let_def)
    then show ?thesis
      using taken_update [OF chosen_operation(1) [OF linked(3)] link_race_sale_takes [OF chosen_operation(2) [OF linked(3)]], of os "Some l" d ?prefix i]
        B t by (simp del: Available.simps)
  next
    case emit
    have "taken os B i = 0"
      unfolding ops(2) by (rule unsold_arts [OF assms(1,2)]) (use no_operation [OF emit(3)] ops in auto)
    moreover have "?drive = ops @ emit_race_sale cat s os d (Some l) ?prefix"
      using emit by (simp add: driveRaceFlowerArtSellOperations_def Some Let_def)
    ultimately show ?thesis
      using emit_race_sale_takes [of os cat s os d l ?prefix i] t by (simp del: Available.simps)
  qed
qed

lemma race_craft_taken:
  "taken os (driveRaceFlowerArtCraftOperations cat s demands ops ledger) i \<le> taken os ops i"
proof (cases "find_race_demand raceTaskTypeFlowerArtCraft demands")
  case None
  then show ?thesis by (simp add: driveRaceFlowerArtCraftOperations_def)
next
  case (Some d)
  show ?thesis
  proof (cases "deterministicOperationIndex ops (race_craft_match d)")
    case linked: (Some k)
    have "taken os (ops[k := link_race_craft d (ops ! k)]) i \<le> taken os ops i"
      using taken_update link_race_craft_takes chosen_operation [OF linked] by (metis order.refl)
    then show ?thesis by (simp add: driveRaceFlowerArtCraftOperations_def Some linked)
  next
    case None
    then show ?thesis
      using race_craft_kind
      by (cases "raceFlowerArtCraftOperation cat s (dem_ID d) (dem_Missing d) (dem_ItemID d) ledger")
        (auto simp: driveRaceFlowerArtCraftOperations_def Some takes_of_kind)
  qed
qed

text \<open>
  C31.  Provided that no order lists an item twice, and that the catalogue's bouquets and the racks
  have the positive numbers they are given, the flower-art tasks of the guild race never make the plan
  sell what it does not have: after they have linked, cut or added their sale and their craft, the
  deliveries of the orders and the rack sales together still take no more of an item than is owned.
  (An order that does list an item twice is checked row by row and may exceed it.)
\<close>

theorem race_sales_fit:
  assumes "gomap_ok (Inventory s)" "orders_distinct os" "arts_positive cat" "racks_positive os"
    and "ledger = fst (applyLedgerAllocations served (Some (NewInventoryLedger (Inventory s))))"
  shows "taken os
      (driveRaceFlowerArtCraftOperations cat s tasks
        (driveRaceFlowerArtSellOperations cat s os tasks
          (orderOperations cat s os p goals demands ledger now) ledger now) ledger) i
    \<le> max 0 (get_or 0 (Inventory s) i)"
proof -
  obtain l where l: "ledger = Some l" "served_ledger (Inventory s) l"
    using served [OF assms(1), of served] assms(5) by auto
  obtain A where A: "orderOperations cat s os p goals demands ledger now =
      A @ with_goal goals GoalFlowerArt (\<lambda>goal. art_ops cat s os (orp_Art p) goal ledger now)"
    "taken os A i \<le> grants l i (order_grant_ids os i)"
    using order_parts [OF l(2) assms(2)] unfolding l(1) .
  define X where "X = driveRaceFlowerArtSellOperations cat s os tasks
      (orderOperations cat s os p goals demands ledger now) ledger now"
  have "taken os X i \<le> taken os A i + Available ledger i"
    unfolding X_def l(1) by (rule race_sell_taken [OF assms(3,4) A(1) [unfolded l(1)] refl])
  moreover have "taken os (driveRaceFlowerArtCraftOperations cat s tasks X ledger) i \<le> taken os X i"
    by (rule race_craft_taken)
  moreover have "grants l i (order_grant_ids os i) + Available ledger i \<le> max 0 (get_or 0 (Inventory s) i)"
    unfolding l(1) by (rule order_grants_fit [OF l(2) assms(2)])
  ultimately show ?thesis using A(2) unfolding X_def by linarith
qed

definition sale_task :: demand where
  "sale_task = \<lparr>dem_ID = ''race'', dem_GoalID = raceActionGoal, dem_Category = CategoryRace, dem_Domain = raceActionGoal,
     dem_EntityID = [], dem_Source = raceActionDemandSource raceTaskTypeFlowerArtSell, dem_Label = [],
     dem_Kind = DemandKindAction, dem_ItemID = 0, dem_Count = 5, dem_Have = 0, dem_Allocated = 0,
     dem_Available = 0, dem_Missing = 5, dem_Priority = 0, dem_BlockedReasons = [], dem_Status = [],
     dem_BlockingStage = [], dem_CostGates = []\<rparr>"

definition stocked_state :: game_state where
  "stocked_state = sample_state\<lparr>gs_inventory := [(12, 2), (101, 20)]\<rparr>"

text \<open>Twenty bouquets and a task of five: whatever is sold for the task, it is no more than the twenty.\<close>

theorem race_sales_fit_witness:
  "let served = box_demands (Inventory stocked_state) (os_flowerOrders two_boxes);
       ledger = fst (applyLedgerAllocations served (Some (NewInventoryLedger (Inventory stocked_state))));
       ops = orderOperations bouquet_catalog stocked_state two_boxes order_owner [resident_goal] served ledger 0
   in find_race_demand raceTaskTypeFlowerArtSell [sale_task] = Some sale_task \<and>
      bestRackArtForRace bouquet_catalog stocked_state ledger = Some (101, 12) \<and>
      taken two_boxes
        (driveRaceFlowerArtCraftOperations bouquet_catalog stocked_state [sale_task]
          (driveRaceFlowerArtSellOperations bouquet_catalog stocked_state two_boxes [sale_task] ops ledger 0) ledger) 101
        \<le> 20"
proof -
  define served where "served = box_demands (Inventory stocked_state) (os_flowerOrders two_boxes)"
  define ledger where "ledger = fst (applyLedgerAllocations served (Some (NewInventoryLedger (Inventory stocked_state))))"
  have ok: "gomap_ok (Inventory stocked_state)" "orders_distinct two_boxes" "arts_positive bouquet_catalog"
    "racks_positive two_boxes" by code_simp+
  have "find_race_demand raceTaskTypeFlowerArtSell [sale_task] = Some sale_task"
    by (simp add: find_race_demand_def sale_task_def)
  moreover have "bestRackArtForRace bouquet_catalog stocked_state ledger = Some (101, 12)"
    unfolding ledger_def served_def by code_simp
  moreover have "get_or 0 (Inventory stocked_state) 101 = 20" by code_simp
  ultimately show ?thesis
    using race_sales_fit [OF ok ledger_def, of "[sale_task]" order_owner "[resident_goal]" served 0 101]
    by (simp add: Let_def served_def [symmetric] ledger_def [symmetric])
qed

end
