(* ===== verification/PearlTexts.thy ===== *)
theory PearlTexts
  imports Literals
begin

text \<open>
The Chinese texts of hiring pearl workers (\<open>automation/pearl_hire.go\<close>,
  \<open>runner/operation_executor_pearl.go\<close>), as the byte strings the compiler stores.
\<close>

definition lit_pearl_no_workers :: string where \<comment> \<open>at most 0 workers, hiring is off\<close>
  "lit_pearl_no_workers =
     [CHR 0xE5, CHR 0x90, CHR 0x8C, CHR 0xE6, CHR 0x97, CHR 0xB6, CHR 0xE5, CHR 0x9C, CHR 0xA8,
      CHR 0xE5, CHR 0xB2, CHR 0x97, CHR 0xE4, CHR 0xBA, CHR 0xBA, CHR 0xE6, CHR 0x95, CHR 0xB0,
      CHR 0xE4, CHR 0xB8, CHR 0x8A, CHR 0xE9, CHR 0x99, CHR 0x90, CHR 0xE4, CHR 0xB8, CHR 0xBA] @
      '' 0'' @ [CHR 0xEF, CHR 0xBC, CHR 0x8C, CHR 0xE8, CHR 0x87, CHR 0xAA, CHR 0xE5, CHR 0x8A,
      CHR 0xA8, CHR 0xE9, CHR 0x9B, CHR 0x87, CHR 0xE4, CHR 0xBD, CHR 0xA3, CHR 0xE5, CHR 0xB7,
      CHR 0xB2, CHR 0xE7, CHR 0xA6, CHR 0x81, CHR 0xE7, CHR 0x94, CHR 0xA8]"

definition lit_pearl_bad_level :: string where \<comment> \<open>negative level limit\<close>
  "lit_pearl_bad_level =
     [CHR 0xE9, CHR 0x9B, CHR 0x87, CHR 0xE4, CHR 0xBD, CHR 0xA3, CHR 0xE7, CHR 0xAD, CHR 0x89,
      CHR 0xE7, CHR 0xBA, CHR 0xA7, CHR 0xE4, CHR 0xB8, CHR 0x8A, CHR 0xE9, CHR 0x99, CHR 0x90,
      CHR 0xE4, CHR 0xB8, CHR 0x8D, CHR 0xE8, CHR 0x83, CHR 0xBD, CHR 0xE4, CHR 0xB8, CHR 0xBA,
      CHR 0xE8, CHR 0xB4, CHR 0x9F, CHR 0xE6, CHR 0x95, CHR 0xB0]"

definition lit_pearl_bad_limit :: string where \<comment> \<open>negative ticket limit\<close>
  "lit_pearl_bad_limit =
     [CHR 0xE6, CHR 0xAF, CHR 0x8F, CHR 0xE6, CHR 0x97, CHR 0xA5, CHR 0xE9, CHR 0x9B, CHR 0x87,
      CHR 0xE4, CHR 0xBD, CHR 0xA3, CHR 0xE5, CHR 0x88, CHR 0xB8, CHR 0xE4, CHR 0xB8, CHR 0x8A,
      CHR 0xE9, CHR 0x99, CHR 0x90, CHR 0xE4, CHR 0xB8, CHR 0x8D, CHR 0xE8, CHR 0x83, CHR 0xBD,
      CHR 0xE4, CHR 0xB8, CHR 0xBA, CHR 0xE8, CHR 0xB4, CHR 0x9F, CHR 0xE6, CHR 0x95, CHR 0xB0]"

definition lit_pearl_no_catalog :: string where \<comment> \<open>no catalogue or another ticket item\<close>
  "lit_pearl_no_catalog =
     [CHR 0xE7, CHR 0x8F, CHR 0x8D, CHR 0xE7, CHR 0x8F, CHR 0xA0, CHR 0xE9, CHR 0x9B, CHR 0x87,
      CHR 0xE4, CHR 0xBD, CHR 0xA3, CHR 0xE7, CHR 0x9B, CHR 0xAE, CHR 0xE5, CHR 0xBD, CHR 0x95,
      CHR 0xE5, CHR 0xB8, CHR 0xB8, CHR 0xE9, CHR 0x87, CHR 0x8F, CHR 0xE7, CHR 0xBC, CHR 0xBA,
      CHR 0xE5, CHR 0xA4, CHR 0xB1, CHR 0xE6, CHR 0x88, CHR 0x96, CHR 0xE9, CHR 0x9B, CHR 0x87,
      CHR 0xE4, CHR 0xBD, CHR 0xA3, CHR 0xE5, CHR 0x88, CHR 0xB8, CHR 0xE4, CHR 0xB8, CHR 0x8D,
      CHR 0xE6, CHR 0x98, CHR 0xAF, CHR 0xE5, CHR 0xB7, CHR 0xB2, CHR 0xE5, CHR 0xAE, CHR 0x9E,
      CHR 0xE6, CHR 0xB5, CHR 0x8B, CHR 0xE7, CHR 0x9A, CHR 0x84] @ '' item 1003''"

definition lit_pearl_no_uid :: string where \<comment> \<open>own UID unknown\<close>
  "lit_pearl_no_uid =
     [CHR 0xE8, CHR 0x87, CHR 0xAA, CHR 0xE5, CHR 0xB7, CHR 0xB1, CHR 0xE7, CHR 0x9A, CHR 0x84] @
      '' UID '' @ [CHR 0xE5, CHR 0xB0, CHR 0x9A, CHR 0xE6, CHR 0x9C, CHR 0xAA, CHR 0xE5, CHR 0x8F,
      CHR 0xAF, CHR 0xE9, CHR 0x9D, CHR 0xA0, CHR 0xE5, CHR 0x90, CHR 0x8C, CHR 0xE6, CHR 0xAD,
      CHR 0xA5, CHR 0xEF, CHR 0xBC, CHR 0x8C, CHR 0xE6, CHR 0x97, CHR 0xA0, CHR 0xE6, CHR 0xB3,
      CHR 0x95, CHR 0xE6, CHR 0x8E, CHR 0x92, CHR 0xE9, CHR 0x99, CHR 0xA4] @ '' self '' @ [CHR 0xE5,
      CHR 0x80, CHR 0x99, CHR 0xE9, CHR 0x80, CHR 0x89]"

definition lit_pearl_locked :: string where \<comment> \<open>this session has stopped hiring\<close>
  "lit_pearl_locked =
     [CHR 0xE5, CHR 0xBD, CHR 0x93, CHR 0xE5, CHR 0x89, CHR 0x8D, CHR 0xE4, CHR 0xBC, CHR 0x9A,
      CHR 0xE8, CHR 0xAF, CHR 0x9D, CHR 0xE5, CHR 0x9B, CHR 0xA0, CHR 0xE7, CHR 0x8F, CHR 0x8D,
      CHR 0xE7, CHR 0x8F, CHR 0xA0, CHR 0xE9, CHR 0x9B, CHR 0x87, CHR 0xE4, CHR 0xBD, CHR 0xA3,
      CHR 0xE7, CHR 0xBB, CHR 0x93, CHR 0xE6, CHR 0x9E, CHR 0x9C, CHR 0xE4, CHR 0xB8, CHR 0x8D,
      CHR 0xE6, CHR 0x98, CHR 0x8E, CHR 0xE7, CHR 0xA1, CHR 0xAE, CHR 0xEF, CHR 0xBC, CHR 0x8C,
      CHR 0xE5, CHR 0xB7, CHR 0xB2, CHR 0xE5, CHR 0x81, CHR 0x9C, CHR 0xE6, CHR 0xAD, CHR 0xA2,
      CHR 0xE8, CHR 0x87, CHR 0xAA, CHR 0xE5, CHR 0x8A, CHR 0xA8, CHR 0xE9, CHR 0x9B, CHR 0x87,
      CHR 0xE4, CHR 0xBD, CHR 0xA3]"

definition lit_pearl_no_ticket :: string where \<comment> \<open>no ticket\<close>
  "lit_pearl_no_ticket =
     [CHR 0xE9, CHR 0x9B, CHR 0x87, CHR 0xE4, CHR 0xBD, CHR 0xA3, CHR 0xE5, CHR 0x88, CHR 0xB8] @
      '' item 1003 '' @ [CHR 0xE4, CHR 0xB8, CHR 0x8D, CHR 0xE8, CHR 0xB6, CHR 0xB3, CHR 0xEF,
      CHR 0xBC, CHR 0x8C, CHR 0xE4, CHR 0xB8, CHR 0x8D, CHR 0xE4, CHR 0xBC, CHR 0x9A, CHR 0xE8,
      CHR 0xB4, CHR 0xAD, CHR 0xE4, CHR 0xB9, CHR 0xB0, CHR 0xE6, CHR 0x88, CHR 0x96, CHR 0xE4,
      CHR 0xBD, CHR 0xBF, CHR 0xE7, CHR 0x94, CHR 0xA8, CHR 0xE9, CHR 0x87, CHR 0x91, CHR 0xE5,
      CHR 0xB8, CHR 0x81, CHR 0xE5, CHR 0x9B, CHR 0x9E, CHR 0xE9, CHR 0x80, CHR 0x80]"

definition lit_pearl_used_today :: string where \<comment> \<open>tickets used today\<close>
  "lit_pearl_used_today =
     [CHR 0xE4, CHR 0xBB, CHR 0x8A, CHR 0xE6, CHR 0x97, CHR 0xA5, CHR 0xE5, CHR 0xB7, CHR 0xB2,
      CHR 0xE4, CHR 0xBD, CHR 0xBF, CHR 0xE7, CHR 0x94, CHR 0xA8, CHR 0xE9, CHR 0x9B, CHR 0x87,
      CHR 0xE4, CHR 0xBD, CHR 0xA3, CHR 0xE5, CHR 0x88, CHR 0xB8] @ '' ''"

definition lit_pearl_daily_cap :: string where \<comment> \<open>the daily limit\<close>
  "lit_pearl_daily_cap =
     '' '' @ [CHR 0xE5, CHR 0xBC, CHR 0xA0, CHR 0xEF, CHR 0xBC, CHR 0x8C, CHR 0xE5, CHR 0xB7,
      CHR 0xB2, CHR 0xE8, CHR 0xBE, CHR 0xBE, CHR 0xE5, CHR 0x88, CHR 0xB0, CHR 0xE6, CHR 0xAF,
      CHR 0x8F, CHR 0xE6, CHR 0x97, CHR 0xA5, CHR 0xE4, CHR 0xB8, CHR 0x8A, CHR 0xE9, CHR 0x99,
      CHR 0x90] @ '' ''"

definition lit_pearl_unknown_slots :: string where \<comment> \<open>slots incomplete\<close>
  "lit_pearl_unknown_slots =
     [CHR 0xE7, CHR 0x8F, CHR 0x8D, CHR 0xE7, CHR 0x8F, CHR 0xA0, CHR 0xE6, CHR 0xA7, CHR 0xBD,
      CHR 0xE4, CHR 0xBD, CHR 0x8D, CHR 0xE5, CHR 0x8D, CHR 0xA0, CHR 0xE7, CHR 0x94, CHR 0xA8,
      CHR 0xE5, CHR 0xAD, CHR 0x97, CHR 0xE6, CHR 0xAE, CHR 0xB5, CHR 0xE4, CHR 0xB8, CHR 0x8D,
      CHR 0xE5, CHR 0xAE, CHR 0x8C, CHR 0xE6, CHR 0x95, CHR 0xB4, CHR 0xEF, CHR 0xBC, CHR 0x8C,
      CHR 0xE6, CHR 0x97, CHR 0xA0, CHR 0xE6, CHR 0xB3, CHR 0x95, CHR 0xE5, CHR 0xAE, CHR 0x89,
      CHR 0xE5, CHR 0x85, CHR 0xA8, CHR 0xE8, CHR 0xAE, CHR 0xA1, CHR 0xE7, CHR 0xAE, CHR 0x97,
      CHR 0xE5, CHR 0x90, CHR 0x8C, CHR 0xE6, CHR 0x97, CHR 0xB6, CHR 0xE5, CHR 0x9C, CHR 0xA8,
      CHR 0xE5, CHR 0xB2, CHR 0x97, CHR 0xE4, CHR 0xBA, CHR 0xBA, CHR 0xE6, CHR 0x95, CHR 0xB0]"

definition lit_pearl_on_duty :: string where \<comment> \<open>workers on duty\<close>
  "lit_pearl_on_duty =
     [CHR 0xE5, CHR 0xBD, CHR 0x93, CHR 0xE5, CHR 0x89, CHR 0x8D, CHR 0xE5, CHR 0x9C, CHR 0xA8,
      CHR 0xE5, CHR 0xB2, CHR 0x97] @ '' ''"

definition lit_pearl_duty_cap :: string where \<comment> \<open>the worker limit\<close>
  "lit_pearl_duty_cap =
     '' '' @ [CHR 0xE4, CHR 0xBA, CHR 0xBA, CHR 0xEF, CHR 0xBC, CHR 0x8C, CHR 0xE5, CHR 0xB7,
      CHR 0xB2, CHR 0xE8, CHR 0xBE, CHR 0xBE, CHR 0xE5, CHR 0x88, CHR 0xB0, CHR 0xE7, CHR 0xAD,
      CHR 0x96, CHR 0xE7, CHR 0x95, CHR 0xA5, CHR 0xE4, CHR 0xB8, CHR 0x8A, CHR 0xE9, CHR 0x99,
      CHR 0x90] @ '' ''"

definition lit_pearl_no_slot :: string where \<comment> \<open>no free slot\<close>
  "lit_pearl_no_slot =
     [CHR 0xE6, CHR 0xB2, CHR 0xA1, CHR 0xE6, CHR 0x9C, CHR 0x89, CHR 0xE5, CHR 0xB7, CHR 0xB2,
      CHR 0xE8, CHR 0xA7, CHR 0xA3, CHR 0xE9, CHR 0x94, CHR 0x81, CHR 0xE4, CHR 0xB8, CHR 0x94,
      CHR 0xE7, CHR 0xA9, CHR 0xBA, CHR 0xE9, CHR 0x97, CHR 0xB2, CHR 0xE7, CHR 0x9A, CHR 0x84,
      CHR 0xE7, CHR 0x8F, CHR 0x8D, CHR 0xE7, CHR 0x8F, CHR 0xA0, CHR 0xE6, CHR 0xA7, CHR 0xBD,
      CHR 0xE4, CHR 0xBD, CHR 0x8D, CHR 0xEF, CHR 0xBC, CHR 0x9B, CHR 0xE4, CHR 0xB8, CHR 0x8D,
      CHR 0xE4, CHR 0xBC, CHR 0x9A, CHR 0xE8, CHR 0x87, CHR 0xAA, CHR 0xE5, CHR 0x8A, CHR 0xA8,
      CHR 0xE8, CHR 0xA7, CHR 0xA3, CHR 0xE9, CHR 0x94, CHR 0x81, CHR 0xE6, CHR 0xA7, CHR 0xBD,
      CHR 0xE4, CHR 0xBD, CHR 0x8D]"

definition lit_pearl_sync_friends :: string where \<comment> \<open>friends not synchronised\<close>
  "lit_pearl_sync_friends =
     [CHR 0xE5, CHR 0xA5, CHR 0xBD, CHR 0xE5, CHR 0x8F, CHR 0x8B, CHR 0xE6, CHR 0x9D, CHR 0xA5,
      CHR 0xE6, CHR 0xBA, CHR 0x90, CHR 0xE5, CHR 0xB0, CHR 0x9A, CHR 0xE6, CHR 0x9C, CHR 0xAA,
      CHR 0xE5, CHR 0x90, CHR 0x8C, CHR 0xE6, CHR 0xAD, CHR 0xA5, CHR 0xEF, CHR 0xBC, CHR 0x8C,
      CHR 0xE5, CHR 0x85, CHR 0x88, CHR 0xE6, CHR 0x8C, CHR 0x89, CHR 0xE5, CHR 0xAE, CHR 0x9E,
      CHR 0xE6, CHR 0xB5, CHR 0x8B, CHR 0xE5, CHR 0x8F, CHR 0xAA, CHR 0xE8, CHR 0xAF, CHR 0xB7,
      CHR 0xE6, CHR 0xB1, CHR 0x82, CHR 0xE5, CHR 0xA5, CHR 0xBD, CHR 0xE5, CHR 0x8F, CHR 0x8B,
      CHR 0xE5, CHR 0x88, CHR 0x97, CHR 0xE8, CHR 0xA1, CHR 0xA8]"

definition lit_pearl_sync_recommend :: string where \<comment> \<open>recommendations stale\<close>
  "lit_pearl_sync_recommend =
     [CHR 0xE6, CHR 0x8E, CHR 0xA8, CHR 0xE8, CHR 0x8D, CHR 0x90, CHR 0xE5, CHR 0x80, CHR 0x99,
      CHR 0xE9, CHR 0x80, CHR 0x89, CHR 0xE7, CHR 0xBC, CHR 0x93, CHR 0xE5, CHR 0xAD, CHR 0x98,
      CHR 0xE7, CHR 0xBC, CHR 0xBA, CHR 0xE5, CHR 0xA4, CHR 0xB1, CHR 0xE6, CHR 0x88, CHR 0x96,
      CHR 0xE5, CHR 0xB7, CHR 0xB2, CHR 0xE8, CHR 0xB6, CHR 0x85, CHR 0xE8, CHR 0xBF, CHR 0x87] @
      '' 5 '' @ [CHR 0xE5, CHR 0x88, CHR 0x86, CHR 0xE9, CHR 0x92, CHR 0x9F, CHR 0xEF, CHR 0xBC,
      CHR 0x8C, CHR 0xE5, CHR 0x88, CHR 0xB7, CHR 0xE6, CHR 0x96, CHR 0xB0, CHR 0xE6, CHR 0x8E,
      CHR 0xA8, CHR 0xE8, CHR 0x8D, CHR 0x90, CHR 0xE5, CHR 0x88, CHR 0x97, CHR 0xE8, CHR 0xA1,
      CHR 0xA8]"

definition lit_pearl_sync_enemies :: string where \<comment> \<open>enemies not synchronised\<close>
  "lit_pearl_sync_enemies =
     [CHR 0xE4, CHR 0xBB, CHR 0x87, CHR 0xE4, CHR 0xBA, CHR 0xBA, CHR 0xE6, CHR 0x9D, CHR 0xA5,
      CHR 0xE6, CHR 0xBA, CHR 0x90, CHR 0xE5, CHR 0xB0, CHR 0x9A, CHR 0xE6, CHR 0x9C, CHR 0xAA,
      CHR 0xE5, CHR 0x90, CHR 0x8C, CHR 0xE6, CHR 0xAD, CHR 0xA5, CHR 0xEF, CHR 0xBC, CHR 0x8C,
      CHR 0xE5, CHR 0x85, CHR 0x88, CHR 0xE5, CHR 0x88, CHR 0xB7, CHR 0xE6, CHR 0x96, CHR 0xB0,
      CHR 0xE8, CHR 0x87, CHR 0xAA, CHR 0xE5, CHR 0xB7, CHR 0xB1, CHR 0xE7, CHR 0x9A, CHR 0x84,
      CHR 0xE7, CHR 0x8F, CHR 0x8D, CHR 0xE7, CHR 0x8F, CHR 0xA0, CHR 0xE7, CHR 0x8A, CHR 0xB6,
      CHR 0xE6, CHR 0x80, CHR 0x81]"

definition lit_pearl_no_candidate :: string where \<comment> \<open>no candidate\<close>
  "lit_pearl_no_candidate =
     [CHR 0xE5, CHR 0xA5, CHR 0xBD, CHR 0xE5, CHR 0x8F, CHR 0x8B, CHR 0xE3, CHR 0x80, CHR 0x81,
      CHR 0xE6, CHR 0x8E, CHR 0xA8, CHR 0xE8, CHR 0x8D, CHR 0x90, CHR 0xE5, CHR 0x92, CHR 0x8C,
      CHR 0xE4, CHR 0xB8, CHR 0x89, CHR 0xE6, CHR 0x97, CHR 0xA5, CHR 0xE5, CHR 0x86, CHR 0x85,
      CHR 0xE4, CHR 0xBB, CHR 0x87, CHR 0xE4, CHR 0xBA, CHR 0xBA, CHR 0xE4, CHR 0xB8, CHR 0xAD,
      CHR 0xE6, CHR 0x9A, CHR 0x82, CHR 0xE6, CHR 0x97, CHR 0xA0, CHR 0xE6, CHR 0xBB, CHR 0xA1,
      CHR 0xE8, CHR 0xB6, CHR 0xB3, CHR 0xE7, CHR 0xAD, CHR 0x89, CHR 0xE7, CHR 0xBA, CHR 0xA7,
      CHR 0xE3, CHR 0x80, CHR 0x81, CHR 0xE4, CHR 0xBF, CHR 0x9D, CHR 0xE6, CHR 0x8A, CHR 0xA4,
      CHR 0xE6, CHR 0x9C, CHR 0x9F, CHR 0xE3, CHR 0x80, CHR 0x81, CHR 0xE5, CHR 0xA4, CHR 0xB1,
      CHR 0xE8, CHR 0xB4, CHR 0xA5, CHR 0xE5, CHR 0x86, CHR 0xB7, CHR 0xE5, CHR 0x8D, CHR 0xB4,
      CHR 0xE4, CHR 0xB8, CHR 0x8E, CHR 0xE5, CHR 0xBD, CHR 0x93, CHR 0xE5, CHR 0x89, CHR 0x8D,
      CHR 0xE4, CHR 0xBC, CHR 0x9A, CHR 0xE8, CHR 0xAF, CHR 0x9D, CHR 0xE8, CHR 0xB7, CHR 0xB3,
      CHR 0xE8, CHR 0xBF, CHR 0x87, CHR 0xE9, CHR 0x97, CHR 0xA8, CHR 0xE6, CHR 0xA7, CHR 0x9B,
      CHR 0xE7, CHR 0x9A, CHR 0x84, CHR 0xE5, CHR 0x80, CHR 0x99, CHR 0xE9, CHR 0x80, CHR 0x89]"

definition lit_pearl_friend :: string where \<comment> \<open>friend\<close>
  "lit_pearl_friend =
     [CHR 0xE5, CHR 0xA5, CHR 0xBD, CHR 0xE5, CHR 0x8F, CHR 0x8B]"

definition lit_pearl_recommend :: string where \<comment> \<open>recommended\<close>
  "lit_pearl_recommend =
     [CHR 0xE6, CHR 0x8E, CHR 0xA8, CHR 0xE8, CHR 0x8D, CHR 0x90]"

definition lit_pearl_enemy :: string where \<comment> \<open>enemy\<close>
  "lit_pearl_enemy =
     [CHR 0xE4, CHR 0xBB, CHR 0x87, CHR 0xE4, CHR 0xBA, CHR 0xBA]"

definition lit_pearl_candidate :: string where \<comment> \<open>candidate\<close>
  "lit_pearl_candidate =
     [CHR 0xE5, CHR 0x80, CHR 0x99, CHR 0xE9, CHR 0x80, CHR 0x89] @ '' ''"

definition lit_pearl_passed :: string where \<comment> \<open>passed every gate\<close>
  "lit_pearl_passed =
     '' '' @ [CHR 0xE5, CHR 0xB7, CHR 0xB2, CHR 0xE9, CHR 0x80, CHR 0x9A, CHR 0xE8, CHR 0xBF,
      CHR 0x87, CHR 0xE7, CHR 0xAD, CHR 0x89, CHR 0xE7, CHR 0xBA, CHR 0xA7, CHR 0xE3, CHR 0x80,
      CHR 0x81, CHR 0xE4, CHR 0xBF, CHR 0x9D, CHR 0xE6, CHR 0x8A, CHR 0xA4, CHR 0xE6, CHR 0x9C,
      CHR 0x9F, CHR 0xE5, CHR 0x92, CHR 0x8C, CHR 0xE9, CHR 0x9B, CHR 0x87, CHR 0xE4, CHR 0xBD,
      CHR 0xA3, CHR 0xE5, CHR 0x88, CHR 0xB8, CHR 0xE9, CHR 0x97, CHR 0xA8, CHR 0xE6, CHR 0xA7,
      CHR 0x9B]"

definition lit_pearl_stale_profile :: string where \<comment> \<open>details missing or stale\<close>
  "lit_pearl_stale_profile =
     [CHR 0xE5, CHR 0x80, CHR 0x99, CHR 0xE9, CHR 0x80, CHR 0x89, CHR 0xE8, CHR 0xAF, CHR 0xA6,
      CHR 0xE6, CHR 0x83, CHR 0x85, CHR 0xE7, CHR 0xBC, CHR 0xBA, CHR 0xE5, CHR 0xA4, CHR 0xB1,
      CHR 0xE6, CHR 0x88, CHR 0x96, CHR 0xE5, CHR 0xB7, CHR 0xB2, CHR 0xE8, CHR 0xB6, CHR 0x85,
      CHR 0xE8, CHR 0xBF, CHR 0x87] @ '' 5 '' @ [CHR 0xE5, CHR 0x88, CHR 0x86, CHR 0xE9, CHR 0x92,
      CHR 0x9F]"

definition lit_pearl_stale_state :: string where \<comment> \<open>protection state missing or stale\<close>
  "lit_pearl_stale_state =
     [CHR 0xE5, CHR 0x80, CHR 0x99, CHR 0xE9, CHR 0x80, CHR 0x89, CHR 0xE4, CHR 0xBF, CHR 0x9D,
      CHR 0xE6, CHR 0x8A, CHR 0xA4, CHR 0xE7, CHR 0x8A, CHR 0xB6, CHR 0xE6, CHR 0x80, CHR 0x81,
      CHR 0xE7, CHR 0xBC, CHR 0xBA, CHR 0xE5, CHR 0xA4, CHR 0xB1, CHR 0xE6, CHR 0x88, CHR 0x96,
      CHR 0xE5, CHR 0xB7, CHR 0xB2, CHR 0xE8, CHR 0xB6, CHR 0x85, CHR 0xE8, CHR 0xBF, CHR 0x87] @
      '' 5 '' @ [CHR 0xE5, CHR 0x88, CHR 0x86, CHR 0xE9, CHR 0x92, CHR 0x9F]"

definition lit_pearl_label :: string where \<comment> \<open>hiring workers\<close>
  "lit_pearl_label =
     [CHR 0xE9, CHR 0x9B, CHR 0x87, CHR 0xE4, CHR 0xBD, CHR 0xA3, CHR 0xE5, CHR 0x8A, CHR 0xB3,
      CHR 0xE5, CHR 0xB7, CHR 0xA5]"

definition lit_pearl_lock_default :: string where \<comment> \<open>result unclear, hiring stopped\<close>
  "lit_pearl_lock_default =
     [CHR 0xE7, CHR 0x8F, CHR 0x8D, CHR 0xE7, CHR 0x8F, CHR 0xA0, CHR 0xE9, CHR 0x9B, CHR 0x87,
      CHR 0xE4, CHR 0xBD, CHR 0xA3, CHR 0xE7, CHR 0xBB, CHR 0x93, CHR 0xE6, CHR 0x9E, CHR 0x9C,
      CHR 0xE4, CHR 0xB8, CHR 0x8D, CHR 0xE6, CHR 0x98, CHR 0x8E, CHR 0xE7, CHR 0xA1, CHR 0xAE,
      CHR 0xEF, CHR 0xBC, CHR 0x8C, CHR 0xE5, CHR 0xBD, CHR 0x93, CHR 0xE5, CHR 0x89, CHR 0x8D,
      CHR 0xE4, CHR 0xBC, CHR 0x9A, CHR 0xE8, CHR 0xAF, CHR 0x9D, CHR 0xE5, CHR 0xB7, CHR 0xB2,
      CHR 0xE5, CHR 0x81, CHR 0x9C, CHR 0xE6, CHR 0xAD, CHR 0xA2, CHR 0xE8, CHR 0x87, CHR 0xAA,
      CHR 0xE5, CHR 0x8A, CHR 0xA8, CHR 0xE9, CHR 0x9B, CHR 0x87, CHR 0xE4, CHR 0xBD, CHR 0xA3]"

definition lit_pearl_lock_unclear :: string where \<comment> \<open>request unclear, locked\<close>
  "lit_pearl_lock_unclear =
     [CHR 0xE7, CHR 0x8F, CHR 0x8D, CHR 0xE7, CHR 0x8F, CHR 0xA0, CHR 0xE9, CHR 0x9B, CHR 0x87,
      CHR 0xE4, CHR 0xBD, CHR 0xA3, CHR 0xE8, CHR 0xAF, CHR 0xB7, CHR 0xE6, CHR 0xB1, CHR 0x82,
      CHR 0xE7, CHR 0xBB, CHR 0x93, CHR 0xE6, CHR 0x9E, CHR 0x9C, CHR 0xE4, CHR 0xB8, CHR 0x8D,
      CHR 0xE6, CHR 0x98, CHR 0x8E, CHR 0xE7, CHR 0xA1, CHR 0xAE, CHR 0xEF, CHR 0xBC, CHR 0x8C,
      CHR 0xE5, CHR 0xBD, CHR 0x93, CHR 0xE5, CHR 0x89, CHR 0x8D, CHR 0xE4, CHR 0xBC, CHR 0x9A,
      CHR 0xE8, CHR 0xAF, CHR 0x9D, CHR 0xE5, CHR 0xB7, CHR 0xB2, CHR 0xE9, CHR 0x94, CHR 0x81,
      CHR 0xE5, CHR 0xAE, CHR 0x9A, CHR 0xE4, CHR 0xBB, CHR 0xA5, CHR 0xE9, CHR 0x81, CHR 0xBF,
      CHR 0xE5, CHR 0x85, CHR 0x8D, CHR 0xE9, CHR 0x87, CHR 0x8D, CHR 0xE5, CHR 0xA4, CHR 0x8D,
      CHR 0xE6, CHR 0x89, CHR 0xA3, CHR 0xE5, CHR 0x88, CHR 0xB8]"

definition lit_pearl_lock_field :: string where \<comment> \<open>malformed field, locked\<close>
  "lit_pearl_lock_field =
     [CHR 0xE7, CHR 0x8F, CHR 0x8D, CHR 0xE7, CHR 0x8F, CHR 0xA0, CHR 0xE9, CHR 0x9B, CHR 0x87,
      CHR 0xE4, CHR 0xBD, CHR 0xA3, CHR 0xE5, CHR 0x93, CHR 0x8D, CHR 0xE5, CHR 0xBA, CHR 0x94,
      CHR 0xE4, CHR 0xB8, CHR 0xAD, CHR 0xE7, CHR 0x9A, CHR 0x84] @ '' 3.0 '' @ [CHR 0xE9, CHR 0x87,
      CHR 0x91, CHR 0xE5, CHR 0xB8, CHR 0x81, CHR 0xE5, CHR 0x9B, CHR 0x9E, CHR 0xE9, CHR 0x80,
      CHR 0x80, CHR 0xE5, CHR 0xAD, CHR 0x97, CHR 0xE6, CHR 0xAE, CHR 0xB5, CHR 0xE6, CHR 0xA0,
      CHR 0xBC, CHR 0xE5, CHR 0xBC, CHR 0x8F, CHR 0xE5, CHR 0xBC, CHR 0x82, CHR 0xE5, CHR 0xB8,
      CHR 0xB8, CHR 0xEF, CHR 0xBC, CHR 0x8C, CHR 0xE5, CHR 0xBD, CHR 0x93, CHR 0xE5, CHR 0x89,
      CHR 0x8D, CHR 0xE4, CHR 0xBC, CHR 0x9A, CHR 0xE8, CHR 0xAF, CHR 0x9D, CHR 0xE5, CHR 0xB7,
      CHR 0xB2, CHR 0xE9, CHR 0x94, CHR 0x81, CHR 0xE5, CHR 0xAE, CHR 0x9A]"

definition lit_pearl_lock_post :: string where \<comment> \<open>postcondition failed, locked\<close>
  "lit_pearl_lock_post =
     [CHR 0xE7, CHR 0x8F, CHR 0x8D, CHR 0xE7, CHR 0x8F, CHR 0xA0, CHR 0xE9, CHR 0x9B, CHR 0x87,
      CHR 0xE4, CHR 0xBD, CHR 0xA3, CHR 0xE5, CHR 0x93, CHR 0x8D, CHR 0xE5, CHR 0xBA, CHR 0x94,
      CHR 0xE6, CHR 0x9C, CHR 0xAA, CHR 0xE6, CHR 0xBB, CHR 0xA1, CHR 0xE8, CHR 0xB6, CHR 0xB3,
      CHR 0xE7, CHR 0xA5, CHR 0xA8, CHR 0xE5, CHR 0x88, CHR 0xB8, CHR 0xE4, CHR 0xB8, CHR 0x8E,
      CHR 0xE6, CHR 0xA7, CHR 0xBD, CHR 0xE4, CHR 0xBD, CHR 0x8D, CHR 0xE5, CHR 0x90, CHR 0x8E,
      CHR 0xE7, CHR 0xBD, CHR 0xAE, CHR 0xE6, CHR 0x9D, CHR 0xA1, CHR 0xE4, CHR 0xBB, CHR 0xB6,
      CHR 0xEF, CHR 0xBC, CHR 0x8C, CHR 0xE5, CHR 0xBD, CHR 0x93, CHR 0xE5, CHR 0x89, CHR 0x8D,
      CHR 0xE4, CHR 0xBC, CHR 0x9A, CHR 0xE8, CHR 0xAF, CHR 0x9D, CHR 0xE5, CHR 0xB7, CHR 0xB2,
      CHR 0xE9, CHR 0x94, CHR 0x81, CHR 0xE5, CHR 0xAE, CHR 0x9A]"

end
