(* ===== verification/Pearl.thy ===== *)
theory Pearl
  imports Daily Ops Names PearlTexts
begin

text \<open>
  Hiring pearl workers: what the state knows of candidates and slots (\<open>state/pearl_hire.go\<close>), the
  planner that advances discovery by one operation or names one hire, and the validation of a hire
  before it is sent (\<open>automation/pearl_hire.go\<close>).
\<close>

abbreviation "RPCFrdEnter \<equiv> ''frd.enter''"
abbreviation "RPCOpptGetDetailOppts \<equiv> ''oppt.getDetailOppts''"
abbreviation "RPCPearlGetHireStateByUids \<equiv> ''pearl.getHireStateByUids''"
abbreviation "RPCPearlGetRecommendList \<equiv> ''pearl.getRecommendList''"
abbreviation "RPCPearlRefresh \<equiv> ''pearl.refresh''"
abbreviation "pearlHireTicketItemID \<equiv> (1003::int)"
abbreviation "pearlCandidateCacheTTL \<equiv> 5 * minute"
abbreviation "pearlHirePriority \<equiv> (5540::int)"
abbreviation "max_int64 \<equiv> (9223372036854775807::int)"

section \<open>Data\<close>

record pearl_place =
  pp_LaborUID :: int
  pp_LaborEndTime :: int
  pp_HireFailCnt :: int
  pp_EveryMakeNum :: int
  pp_RecvCnt :: int
  pp_SurplusRecvNum :: int
  pp_UTimeMs :: int
  pp_LaborUIDObserved :: bool
  pp_LaborEndTimeObserved :: bool
  pp_HireFailCntObserved :: bool
  pp_EveryMakeNumObserved :: bool
  pp_RecvCntObserved :: bool
  pp_SurplusRecvNumObserved :: bool

record pearl_profile =
  pf_UID :: int
  pf_Name :: string
  pf_Level :: int
  pf_LevelObserved :: bool
  pf_ObservedAtMs :: int

record pearl_hire_state =
  hs_UID :: int
  hs_LaborEndTimeMs :: int
  hs_ObservedAtMs :: int

record pearl_hire_view =
  pv_RoleID :: int
  pv_TicketCount :: int
  pv_TicketUsedToday :: int
  pv_Places :: "(int, pearl_place) gomap"
  pv_FriendUIDs :: "int list"
  pv_FriendsObserved :: bool
  pv_Profiles :: "(int, pearl_profile) gomap"
  pv_HireStates :: "(int, pearl_hire_state) gomap"
  pv_RecommendUIDs :: "int list"
  pv_RecommendObservedAtMs :: int
  pv_Enemies :: "(int \<times> int) list"
  pv_EnemiesObserved :: bool
  pv_FailedUntilMs :: "(int, int) gomap"
  pv_SkippedUIDs :: "int list"
  pv_SessionLocked :: bool
  pv_SessionLockReason :: string

record pearl_hire_config =
  hc_TicketItemID :: int
  hc_RestTimeSeconds :: int
  hc_EnemyMaxDays :: int
  hc_Slots :: "(int, bool) gomap"

record pearl_policy =
  pl_AutoHireEnabled :: bool
  pl_MaxHireTicketUsage :: int
  pl_MaxHireLevel :: int
  pl_DailyHireTicketLimit :: int

record pearl_hire_intent =
  hi_GoalID :: string
  hi_DemandID :: string
  hi_Category :: string
  hi_Domain :: string
  hi_Label :: string
  hi_Reason :: string
  hi_Priority :: int

section \<open>The state\<close>

text \<open>The fields of \<open>state.State\<close> that hiring reads and writes.\<close>

record pearl_state =
  ps_roleID :: int
  ps_inventory :: "(int, int) gomap"
  ps_days :: day_state
  ps_places :: "(int, pearl_place) gomap"
  ps_friendRelations :: "(string, int \<times> int) gomap"
  ps_friendOrder :: "string list"
  ps_friendsObserved :: bool
  ps_profiles :: "(int, pearl_profile) gomap"
  ps_hireStates :: "(int, pearl_hire_state) gomap"
  ps_recommendUIDs :: "int list"
  ps_recommendObserved :: bool
  ps_recommendAtMs :: int
  ps_enemies :: "(int, int) gomap"
  ps_enemiesObserved :: bool
  ps_failedUntil :: "(int, int) gomap"
  ps_skipped :: "int list"
  ps_sessionLocked :: bool
  ps_lockReason :: string

definition pearlRelationKey :: "int \<Rightarrow> int \<Rightarrow> string" where
  "pearlRelationKey uid0 uid1 =
     (if uid1 < uid0 then show_int uid1 @ '':'' @ show_int uid0 else show_int uid0 @ '':'' @ show_int uid1)"

text \<open>A friend list replaces what is known when it carries the base row, and adds to it otherwise.\<close>

definition merge_friend ::
  "(string, int \<times> int) gomap \<times> string list \<Rightarrow> int \<times> int \<Rightarrow> (string, int \<times> int) gomap \<times> string list" where
  "merge_friend acc rel =
     (case (acc, rel) of ((relations, order), (uid0, uid1)) \<Rightarrow>
        let key = pearlRelationKey uid0 uid1
        in (AList.update key (uid0, uid1) relations,
            if map_of relations key = None then order @ [key] else order))"

definition applyPearlFriends :: "bool \<Rightarrow> (int \<times> int) list \<Rightarrow> pearl_state \<Rightarrow> pearl_state" where
  "applyPearlFriends hasBase parsed s =
     (case foldl merge_friend (if hasBase then ([], []) else (ps_friendRelations s, ps_friendOrder s)) parsed of
        (relations, order) \<Rightarrow>
          s\<lparr>ps_friendRelations := relations, ps_friendOrder := order,
            ps_friendsObserved := hasBase \<or> ps_friendsObserved s\<rparr>)"

definition relation_friend :: "int \<Rightarrow> int \<times> int \<Rightarrow> int option" where
  "relation_friend me rel =
     (case rel of (uid0, uid1) \<Rightarrow>
        if uid0 \<noteq> me \<and> uid1 \<noteq> me then None
        else
          let uid = (if uid0 = me \<and> uid1 \<noteq> me then uid1 else uid0)
          in if uid \<le> 0 \<or> uid = me then None else Some uid)"

definition pearlFriendUIDs :: "pearl_state \<Rightarrow> int list" where
  "pearlFriendUIDs s =
     foldl (\<lambda>out key.
        case map_of (ps_friendRelations s) key of
          None \<Rightarrow> out
        | Some rel \<Rightarrow>
            (case relation_friend (ps_roleID s) rel of
               None \<Rightarrow> out
             | Some uid \<Rightarrow> if uid \<in> set out then out else out @ [uid]))
       [] (ps_friendOrder s)"

definition enemy_before :: "int \<times> int \<Rightarrow> int \<times> int \<Rightarrow> bool" where
  "enemy_before a b \<longleftrightarrow> (if snd a \<noteq> snd b then snd b < snd a else fst a < fst b)"

definition PearlHireAt :: "pearl_state \<Rightarrow> time \<Rightarrow> pearl_hire_view" where
  "PearlHireAt s now =
     \<lparr>pv_RoleID = ps_roleID s, pv_TicketCount = get_or 0 (ps_inventory s) pearlHireTicketItemID,
      pv_TicketUsedToday = pearlHireTicketUsedToday now (ps_days s), pv_Places = ps_places s,
      pv_FriendUIDs = pearlFriendUIDs s, pv_FriendsObserved = ps_friendsObserved s,
      pv_Profiles = ps_profiles s, pv_HireStates = ps_hireStates s,
      pv_RecommendUIDs = ps_recommendUIDs s, pv_RecommendObservedAtMs = ps_recommendAtMs s,
      pv_Enemies = stable_sort enemy_before (ps_enemies s), pv_EnemiesObserved = ps_enemiesObserved s,
      pv_FailedUntilMs = ps_failedUntil s, pv_SkippedUIDs = ps_skipped s,
      pv_SessionLocked = ps_sessionLocked s, pv_SessionLockReason = ps_lockReason s\<rparr>"

definition MarkPearlHireFailed :: "int \<Rightarrow> time \<Rightarrow> pearl_state \<Rightarrow> pearl_state" where
  "MarkPearlHireFailed uid at s =
     (if uid \<le> 0 \<or> time_is_zero at then s
      else s\<lparr>ps_failedUntil := AList.update uid (to_unix_milli (at + minute)) (ps_failedUntil s),
             ps_hireStates := AList.delete uid (ps_hireStates s),
             ps_profiles := AList.delete uid (ps_profiles s)\<rparr>)"

definition SkipPearlHireCandidate :: "int \<Rightarrow> pearl_state \<Rightarrow> pearl_state" where
  "SkipPearlHireCandidate uid s = (if uid \<le> 0 then s else s\<lparr>ps_skipped := uid # ps_skipped s\<rparr>)"

definition LockPearlHireSession :: "string \<Rightarrow> pearl_state \<Rightarrow> pearl_state" where
  "LockPearlHireSession reason s =
     s\<lparr>ps_sessionLocked := True,
       ps_lockReason := (if trim_space reason = [] then lit_pearl_lock_default else trim_space reason)\<rparr>"

definition ResetPearlHireObservations :: "pearl_state \<Rightarrow> pearl_state" where
  "ResetPearlHireObservations s =
     s\<lparr>ps_friendRelations := [], ps_friendOrder := [], ps_friendsObserved := False, ps_profiles := [],
       ps_hireStates := [], ps_recommendUIDs := [], ps_recommendAtMs := 0, ps_recommendObserved := False,
       ps_enemies := [], ps_enemiesObserved := False\<rparr>"

definition ResetPearlHireSession :: "pearl_state \<Rightarrow> pearl_state" where
  "ResetPearlHireSession s =
     (ResetPearlHireObservations s)\<lparr>ps_failedUntil := [], ps_skipped := [], ps_sessionLocked := False,
       ps_lockReason := []\<rparr>"

section \<open>The catalogue\<close>

record pearl_base_row =
  pb_HireItem :: int
  pb_RestTime :: int
  pb_EnemyTimeMax :: int
  pb_PlaceMax :: int

text \<open>The rows of \<open>c_pearl\<close>, decoded: \<open>None\<close> is a missing or malformed row.\<close>

definition PearlHireConfigFromCatalog ::
  "pearl_base_row option \<Rightarrow> (int \<Rightarrow> int option) \<Rightarrow> pearl_hire_config option" where
  "PearlHireConfigFromCatalog base slot =
     (case base of
        None \<Rightarrow> None
      | Some b \<Rightarrow>
          if pb_HireItem b \<le> 0 \<or> pb_RestTime b \<le> 0 \<or> pb_EnemyTimeMax b \<le> 0 \<or> pb_PlaceMax b \<le> 0 then None
          else if list_ex (\<lambda>i. slot i = None) [1..pb_PlaceMax b] then None
          else Some \<lparr>hc_TicketItemID = pb_HireItem b, hc_RestTimeSeconds = pb_RestTime b,
            hc_EnemyMaxDays = pb_EnemyTimeMax b,
            hc_Slots = map (\<lambda>i. (i, slot i \<noteq> Some 0)) [1..pb_PlaceMax b]\<rparr>)"

section \<open>Operations of the planner\<close>

definition normalizePearlHireIntent :: "pearl_hire_intent \<Rightarrow> pearl_hire_intent" where
  "normalizePearlHireIntent i =
     i\<lparr>hi_GoalID := (if hi_GoalID i = [] then ''basic.pearl'' else hi_GoalID i),
       hi_Category := (if hi_Category i = [] then CategoryBasic else hi_Category i),
       hi_Domain := (if hi_Domain i = [] then ''basic.pearl.hire'' else hi_Domain i),
       hi_Label := (if hi_Label i = [] then lit_pearl_label else hi_Label i),
       hi_Priority := (if hi_Priority i = 0 then pearlHirePriority else hi_Priority i)\<rparr>"

definition pearlHireBaseOp :: "string \<Rightarrow> pearl_hire_intent \<Rightarrow> string \<Rightarrow> string \<Rightarrow> int \<Rightarrow> planned_op" where
  "pearlHireBaseOp kind intent action reason priority =
     zero_op\<lparr>op_OperationID := kind, op_GoalID := hi_GoalID intent, op_DemandID := hi_DemandID intent,
       op_Kind := kind, op_Lane := LaneSide, op_FeatureID := ''basic.pearl_hire'',
       op_Category := hi_Category intent, op_Label := hi_Label intent, op_Domain := hi_Domain intent,
       op_Action := action, op_Status := PlanStatusManaged, op_Executable := True, op_Reason := reason,
       op_Priority := priority\<rparr>"

definition pearlHireSyncOp ::
  "string \<Rightarrow> pearl_hire_intent \<Rightarrow> string \<Rightarrow> string \<Rightarrow> int list \<Rightarrow> int \<Rightarrow> planned_op" where
  "pearlHireSyncOp kind intent source reason uids priority =
     (pearlHireBaseOp kind intent ''sync'' reason priority)
       \<lparr>op_OperationID := kind @ '':'' @ source, op_TargetUIDs := uids\<rparr>"

definition blockedPearlHire :: "pearl_hire_intent \<Rightarrow> string \<Rightarrow> planned_op" where
  "blockedPearlHire intent reason =
     (pearlHireBaseOp ''basic.pearl.hire.blocked'' intent ''hire'' reason (hi_Priority intent))
       \<lparr>op_OperationID := ''basic.pearl.hire.blocked'', op_Status := PlanStatusBlocked, op_Executable := False,
         op_BlockedReasons := [reason]\<rparr>"

definition pearl_hire_op :: "pearl_hire_intent \<Rightarrow> int \<Rightarrow> int \<Rightarrow> string \<Rightarrow> planned_op" where
  "pearl_hire_op intent placeID uid reason =
     (pearlHireBaseOp RPCPearlPlaceHire intent ''hire'' reason (hi_Priority intent))
       \<lparr>op_OperationID := RPCPearlPlaceHire @ '':'' @ show_int placeID @ '':'' @ show_int uid,
         op_TargetID := placeID, op_TargetUID := uid, op_Count := 1, op_ItemCost := [(1003, 1)]\<rparr>"

section \<open>Slots and candidates\<close>

definition cacheFresh :: "int \<Rightarrow> time \<Rightarrow> bool" where
  "cacheFresh observedAtMs now \<longleftrightarrow>
     \<not> (observedAtMs \<le> 0 \<or> time_is_zero now) \<and>
     (let age = time_sub now (unix_milli observedAtMs) in 0 \<le> age \<and> age < pearlCandidateCacheTTL)"

text \<open>\<open>None\<close> when a slot is incomplete.\<close>

definition place_consistent :: "pearl_place \<Rightarrow> bool" where
  "place_consistent p \<longleftrightarrow>
     \<not> (\<not> pp_LaborUIDObserved p \<or> \<not> pp_LaborEndTimeObserved p) \<and>
     \<not> (pp_LaborUID p < 0 \<or> pp_LaborEndTime p < 0 \<or> (pp_LaborUID p = 0) \<noteq> (pp_LaborEndTime p = 0))"

definition pearlActiveWorkers :: "(int, pearl_place) gomap \<Rightarrow> time \<Rightarrow> (int \<times> int list) option" where
  "pearlActiveWorkers places now =
     (if \<not> list_all (\<lambda>(_, p). place_consistent p) places then None
      else
        let taken = filter (\<lambda>p. 0 < pp_LaborUID p) (map snd places)
        in Some (int (length (filter (\<lambda>p. to_unix_milli now < pp_LaborEndTime p) taken)), map pp_LaborUID taken))"

definition pearlPlaceHireSlotFree :: "pearl_place \<Rightarrow> int \<Rightarrow> bool" where
  "pearlPlaceHireSlotFree p nowMs \<longleftrightarrow>
     pp_LaborUID p = 0 \<and> pp_LaborEndTime p = 0 \<or>
     0 < pp_LaborUID p \<and> 0 < pp_LaborEndTime p \<and> pp_LaborEndTime p \<le> nowMs"

definition safe_slot :: "pearl_hire_view \<Rightarrow> time \<Rightarrow> int \<times> bool \<Rightarrow> bool" where
  "safe_slot view now slot =
     (case slot of (placeID, monthly) \<Rightarrow>
        case map_of (pv_Places view) placeID of
          None \<Rightarrow> False
        | Some p \<Rightarrow>
            \<not> (\<not> pp_LaborUIDObserved p \<or> \<not> pp_LaborEndTimeObserved p \<or> monthly) \<and>
            pearlPlaceHireSlotFree p (to_unix_milli now))"

definition firstSafePearlHireSlot :: "pearl_hire_view \<Rightarrow> pearl_hire_config \<Rightarrow> time \<Rightarrow> int option" where
  "firstSafePearlHireSlot view config now =
     map_option fst (List.find (safe_slot view now) (stable_sort (\<lambda>a b. fst a < fst b) (hc_Slots config)))"

text \<open>A candidate that may be looked at; \<open>seen\<close> keeps a candidate from being listed twice.\<close>

definition candidate_open :: "pearl_hire_view \<Rightarrow> int list \<Rightarrow> time \<Rightarrow> int \<Rightarrow> bool" where
  "candidate_open view activeUIDs now uid \<longleftrightarrow>
     \<not> (uid \<le> 0 \<or> uid = pv_RoleID view) \<and> uid \<notin> set activeUIDs \<and>
     \<not> to_unix_milli now < get_or 0 (pv_FailedUntilMs view) uid \<and> uid \<notin> set (pv_SkippedUIDs view)"

fun filterPearlCandidateUIDs ::
  "pearl_hire_view \<Rightarrow> int list \<Rightarrow> time \<Rightarrow> int list \<Rightarrow> int list \<Rightarrow> int list \<times> int list" where
  "filterPearlCandidateUIDs view active now seen [] = ([], seen)"
| "filterPearlCandidateUIDs view active now seen (uid # uids) =
     (if \<not> candidate_open view active now uid \<or> uid \<in> set seen
      then filterPearlCandidateUIDs view active now seen uids
      else
        (case filterPearlCandidateUIDs view active now (uid # seen) uids of
           (out, seen') \<Rightarrow> (uid # out, seen')))"

definition pearlEnemyUIDs :: "(int \<times> int) list \<Rightarrow> int \<Rightarrow> time \<Rightarrow> int list" where
  "pearlEnemyUIDs enemies maxDays now =
     (if maxDays \<le> 0 then []
      else
        let cutoff = to_unix_milli (now - maxDays * 24 * hour)
        in map fst (filter (\<lambda>(uid, at). 0 < uid \<and> cutoff \<le> at \<and> at \<le> to_unix_milli now) enemies))"

datatype candidate_verdict = ProfileStale | StateStale | Unfit | Eligible

definition candidate_verdict ::
  "pearl_hire_view \<Rightarrow> pearl_hire_config \<Rightarrow> pearl_policy \<Rightarrow> time \<Rightarrow> int \<Rightarrow> candidate_verdict" where
  "candidate_verdict view config policy now uid =
     (case map_of (pv_Profiles view) uid of
        None \<Rightarrow> ProfileStale
      | Some profile \<Rightarrow>
          if \<not> cacheFresh (pf_ObservedAtMs profile) now then ProfileStale
          else if \<not> pf_LevelObserved profile \<or> pf_Level profile \<le> 0 then Unfit
          else if 0 < pl_MaxHireLevel policy \<and> pl_MaxHireLevel policy < pf_Level profile then Unfit
          else
            (case map_of (pv_HireStates view) uid of
               None \<Rightarrow> StateStale
             | Some h \<Rightarrow>
                 if \<not> cacheFresh (hs_ObservedAtMs h) now then StateStale
                 else
                   let restTimeMs = hc_RestTimeSeconds config * 1000
                   in if max_int64 - restTimeMs < hs_LaborEndTimeMs h then Unfit
                      else if 0 < hs_LaborEndTimeMs h \<and> to_unix_milli now < hs_LaborEndTimeMs h + restTimeMs then Unfit
                      else Eligible))"

definition pearlCandidateLabel :: "pearl_profile \<Rightarrow> string" where
  "pearlCandidateLabel p =
     (let name = (if trim_space (pf_Name p) = [] then show_int (pf_UID p) else trim_space (pf_Name p))
      in name @ ''(Lv.'' @ show_int (pf_Level p) @ '')'')"

definition candidate_reason :: "pearl_hire_view \<Rightarrow> pearl_hire_intent \<Rightarrow> string \<Rightarrow> int \<Rightarrow> string" where
  "candidate_reason view intent sourceLabel uid =
     (if hi_Reason intent \<noteq> [] then hi_Reason intent
      else case map_of (pv_Profiles view) uid of
        None \<Rightarrow> []
      | Some p \<Rightarrow> sourceLabel @ lit_pearl_candidate @ pearlCandidateLabel p @ lit_pearl_passed)"

definition planPearlCandidateSource ::
  "pearl_hire_view \<Rightarrow> pearl_hire_config \<Rightarrow> pearl_policy \<Rightarrow> time \<Rightarrow> pearl_hire_intent \<Rightarrow> string \<Rightarrow> string \<Rightarrow> int list \<Rightarrow>
   int \<Rightarrow> planned_op option" where
  "planPearlCandidateSource view config policy now intent source sourceLabel uids placeID =
     (let verdict = candidate_verdict view config policy now;
          staleProfiles = filter (\<lambda>u. verdict u = ProfileStale) uids;
          staleHireStates = filter (\<lambda>u. verdict u = StateStale) uids
      in case List.find (\<lambda>u. verdict u = Eligible) uids of
           Some uid \<Rightarrow> Some (pearl_hire_op intent placeID uid (candidate_reason view intent sourceLabel uid))
         | None \<Rightarrow>
             if staleProfiles \<noteq> []
             then Some (pearlHireSyncOp RPCOpptGetDetailOppts intent source (sourceLabel @ lit_pearl_stale_profile)
                    staleProfiles (pearlHirePriority + 5))
             else if staleHireStates \<noteq> []
             then Some (pearlHireSyncOp RPCPearlGetHireStateByUids intent source (sourceLabel @ lit_pearl_stale_state)
                    staleHireStates (pearlHirePriority + 4))
             else None)"

section \<open>One step of the planner\<close>

text \<open>The gates before discovery: a reason, or the catalogue, the workers on the slots and the free slot.\<close>

definition pearl_gate ::
  "pearl_hire_config option \<Rightarrow> pearl_hire_view \<Rightarrow> pearl_policy \<Rightarrow> time \<Rightarrow> string + pearl_hire_config \<times> int list \<times> int" where
  "pearl_gate catalog view policy now =
     (if pl_MaxHireTicketUsage policy \<le> 0 then Inl lit_pearl_no_workers
      else if pl_MaxHireLevel policy < 0 then Inl lit_pearl_bad_level
      else if pl_DailyHireTicketLimit policy < 0 then Inl lit_pearl_bad_limit
      else case catalog of
        None \<Rightarrow> Inl lit_pearl_no_catalog
      | Some config \<Rightarrow>
          if hc_TicketItemID config \<noteq> 1003 then Inl lit_pearl_no_catalog
          else if pv_RoleID view \<le> 0 then Inl lit_pearl_no_uid
          else if pv_SessionLocked view
          then Inl (if pv_SessionLockReason view = [] then lit_pearl_locked else pv_SessionLockReason view)
          else if pv_TicketCount view < 1 then Inl lit_pearl_no_ticket
          else if 0 < pl_DailyHireTicketLimit policy \<and> pl_DailyHireTicketLimit policy \<le> pv_TicketUsedToday view
          then Inl (lit_pearl_used_today @ show_int (pv_TicketUsedToday view) @ lit_pearl_daily_cap @
                 show_int (pl_DailyHireTicketLimit policy))
          else
            (case pearlActiveWorkers (pv_Places view) now of
               None \<Rightarrow> Inl lit_pearl_unknown_slots
             | Some (active, activeUIDs) \<Rightarrow>
                 if pl_MaxHireTicketUsage policy \<le> active
                 then Inl (lit_pearl_on_duty @ show_int active @ lit_pearl_duty_cap @
                        show_int (pl_MaxHireTicketUsage policy))
                 else
                   (case firstSafePearlHireSlot view config now of
                      None \<Rightarrow> Inl lit_pearl_no_slot
                    | Some placeID \<Rightarrow> Inr (config, activeUIDs, placeID))))"

text \<open>The candidates of the three sources, each without those of the sources before it.\<close>

definition friend_candidates :: "pearl_hire_view \<Rightarrow> int list \<Rightarrow> time \<Rightarrow> int list \<times> int list" where
  "friend_candidates view active now = filterPearlCandidateUIDs view active now [] (pv_FriendUIDs view)"

definition recommend_candidates :: "pearl_hire_view \<Rightarrow> int list \<Rightarrow> time \<Rightarrow> int list \<times> int list" where
  "recommend_candidates view active now =
     filterPearlCandidateUIDs view active now (snd (friend_candidates view active now)) (pv_RecommendUIDs view)"

definition enemy_candidates :: "pearl_hire_view \<Rightarrow> pearl_hire_config \<Rightarrow> int list \<Rightarrow> time \<Rightarrow> int list" where
  "enemy_candidates view config active now =
     fst (filterPearlCandidateUIDs view active now (snd (recommend_candidates view active now))
            (pearlEnemyUIDs (pv_Enemies view) (hc_EnemyMaxDays config) now))"

definition pearl_discover ::
  "pearl_hire_view \<Rightarrow> pearl_hire_config \<Rightarrow> pearl_policy \<Rightarrow> time \<Rightarrow> pearl_hire_intent \<Rightarrow> int list \<Rightarrow> int \<Rightarrow> planned_op" where
  "pearl_discover view config policy now intent active placeID =
     (let plan = (\<lambda>source sourceLabel uids.
            planPearlCandidateSource view config policy now intent source sourceLabel uids placeID)
      in if \<not> pv_FriendsObserved view
         then pearlHireSyncOp RPCFrdEnter intent ''friend'' lit_pearl_sync_friends [] (pearlHirePriority + 6)
         else case plan ''friend'' lit_pearl_friend (fst (friend_candidates view active now)) of
           Some x \<Rightarrow> x
         | None \<Rightarrow>
           if \<not> cacheFresh (pv_RecommendObservedAtMs view) now
           then pearlHireSyncOp RPCPearlGetRecommendList intent ''recommend'' lit_pearl_sync_recommend [] (pearlHirePriority + 3)
           else case plan ''recommend'' lit_pearl_recommend (fst (recommend_candidates view active now)) of
             Some x \<Rightarrow> x
           | None \<Rightarrow>
             if \<not> pv_EnemiesObserved view
             then pearlHireSyncOp RPCPearlRefresh intent ''enemy'' lit_pearl_sync_enemies [] (pearlHirePriority + 2)
             else case plan ''enemy'' lit_pearl_enemy (enemy_candidates view config active now) of
               Some x \<Rightarrow> x
             | None \<Rightarrow> blockedPearlHire intent lit_pearl_no_candidate)"

definition plan_pearl_view ::
  "pearl_hire_config option \<Rightarrow> pearl_hire_view \<Rightarrow> pearl_policy \<Rightarrow> time \<Rightarrow> pearl_hire_intent \<Rightarrow> planned_op" where
  "plan_pearl_view catalog view policy now intent =
     (case pearl_gate catalog view policy now of
        Inl reason \<Rightarrow> blockedPearlHire intent reason
      | Inr (config, active, placeID) \<Rightarrow> pearl_discover view config policy now intent active placeID)"

definition PlanOneSafePearlHire ::
  "pearl_hire_config option \<Rightarrow> pearl_state \<Rightarrow> pearl_policy option \<Rightarrow> time \<Rightarrow> pearl_hire_intent \<Rightarrow> planned_op option" where
  "PlanOneSafePearlHire catalog s policy now intent =
     (case policy of
        None \<Rightarrow> None
      | Some p \<Rightarrow>
          if \<not> pl_AutoHireEnabled p then None
          else Some (plan_pearl_view catalog (PearlHireAt s now) p now (normalizePearlHireIntent intent)))"

section \<open>Validation before the request\<close>

datatype hire_rejection =
    PreflightRejected string
  | CandidateChanged int int
  | WrongCost
  | CandidateStale

definition op_intent :: "planned_op \<Rightarrow> pearl_hire_intent" where
  "op_intent x = \<lparr>hi_GoalID = op_GoalID x, hi_DemandID = op_DemandID x, hi_Category = op_Category x,
     hi_Domain = op_Domain x, hi_Label = op_Label x, hi_Reason = op_Reason x, hi_Priority = op_Priority x\<rparr>"

text \<open>\<open>None\<close> is acceptance.\<close>

definition ValidatePearlHireCandidate ::
  "pearl_hire_config option \<Rightarrow> pearl_state \<Rightarrow> pearl_policy option \<Rightarrow> planned_op \<Rightarrow> time \<Rightarrow> hire_rejection option" where
  "ValidatePearlHireCandidate catalog s policy x now =
     (case PlanOneSafePearlHire catalog s policy now (op_intent x) of
        None \<Rightarrow> Some (PreflightRejected [])
      | Some planned \<Rightarrow>
          if op_Kind planned \<noteq> RPCPearlPlaceHire then Some (PreflightRejected (op_Reason planned))
          else if op_TargetID planned \<noteq> op_TargetID x \<or> op_TargetUID planned \<noteq> op_TargetUID x
          then Some (CandidateChanged (op_TargetID planned) (op_TargetUID planned))
          else if op_Count x \<noteq> 1 \<or> op_GoldCost x \<noteq> 0 \<or> op_DiamondCost x \<noteq> 0 \<or>
                  length (op_ItemCost x) \<noteq> 1 \<or> get_or 0 (op_ItemCost x) 1003 \<noteq> 1
          then Some WrongCost
          else None)"

definition spend_fresh :: "int \<Rightarrow> time \<Rightarrow> bool" where
  "spend_fresh at now \<longleftrightarrow>
     (let age = time_sub now (unix_milli at) in 0 < at \<and> 0 \<le> age \<and> age < 30 * second)"

definition PearlHireCandidateFresh :: "pearl_state \<Rightarrow> int \<Rightarrow> time \<Rightarrow> bool" where
  "PearlHireCandidateFresh s uid now \<longleftrightarrow>
     0 < uid \<and>
     (let view = PearlHireAt s now
      in case (map_of (pv_Profiles view) uid, map_of (pv_HireStates view) uid) of
           (Some profile, Some h) \<Rightarrow>
             pf_LevelObserved profile \<and> 0 < pf_Level profile \<and>
             spend_fresh (pf_ObservedAtMs profile) now \<and> spend_fresh (hs_ObservedAtMs h) now
         | _ \<Rightarrow> False)"

definition ValidateSafePearlHire ::
  "pearl_hire_config option \<Rightarrow> pearl_state \<Rightarrow> pearl_policy option \<Rightarrow> planned_op \<Rightarrow> time \<Rightarrow> hire_rejection option" where
  "ValidateSafePearlHire catalog s policy x now =
     (case ValidatePearlHireCandidate catalog s policy x now of
        Some e \<Rightarrow> Some e
      | None \<Rightarrow> if \<not> PearlHireCandidateFresh s (op_TargetUID x) now then Some CandidateStale else None)"

end
