(* ===== verification/PearlSafety.thy ===== *)
theory PearlSafety
  imports Pearl
begin

text \<open>
  What hiring guarantees: a planned hire satisfies every gate of the owner and of the game, what the
  validation before the request accepts is such a hire, and discovery ends.
\<close>

section \<open>Which candidates are listed\<close>

lemma filter_candidates:
  "filterPearlCandidateUIDs view active now seen uids = (out, seen') \<Longrightarrow>
     set out = {u \<in> set uids. candidate_open view active now u \<and> u \<notin> set seen} \<and> set seen' = set seen \<union> set out"
proof (induction uids arbitrary: seen out seen')
  case (Cons uid uids)
  show ?case
  proof (cases "\<not> candidate_open view active now uid \<or> uid \<in> set seen")
    case True
    then have "filterPearlCandidateUIDs view active now seen uids = (out, seen')" using Cons.prems by simp
    from Cons.IH [OF this] True show ?thesis by auto
  next
    case False
    obtain o1 s1 where r: "filterPearlCandidateUIDs view active now (uid # seen) uids = (o1, s1)" by fastforce
    then have eq: "out = uid # o1" "seen' = s1" using False Cons.prems by simp_all
    have "set o1 = {u \<in> set uids. candidate_open view active now u \<and> u \<notin> insert uid (set seen)}"
      "set s1 = insert uid (set seen) \<union> set o1" using Cons.IH [OF r] by simp_all
    then show ?thesis unfolding eq using False by auto
  qed
qed simp

lemma listed_candidate:
  "u \<in> set (fst (filterPearlCandidateUIDs view active now seen uids)) \<longleftrightarrow>
     u \<in> set uids \<and> candidate_open view active now u \<and> u \<notin> set seen"
  using filter_candidates [of view active now seen uids] by (cases "filterPearlCandidateUIDs view active now seen uids") auto

lemma seen_candidates:
  "set (snd (filterPearlCandidateUIDs view active now seen uids)) =
     set seen \<union> {u \<in> set uids. candidate_open view active now u}"
  using filter_candidates [of view active now seen uids] by (cases "filterPearlCandidateUIDs view active now seen uids") auto

lemma listed_open:
  "u \<in> set (fst (friend_candidates view active now)) \<Longrightarrow> candidate_open view active now u"
  "u \<in> set (fst (recommend_candidates view active now)) \<Longrightarrow> candidate_open view active now u"
  "u \<in> set (enemy_candidates view config active now) \<Longrightarrow> candidate_open view active now u"
  by (simp_all add: friend_candidates_def recommend_candidates_def enemy_candidates_def listed_candidate)

section \<open>A planned hire satisfies every gate\<close>

text \<open>What the owner's policy and the rules of the game ask of a hire.\<close>

definition candidate_fit :: "pearl_hire_view \<Rightarrow> pearl_hire_config \<Rightarrow> pearl_policy \<Rightarrow> time \<Rightarrow> int \<Rightarrow> bool" where
  "candidate_fit view config policy now uid \<longleftrightarrow>
     (case (map_of (pv_Profiles view) uid, map_of (pv_HireStates view) uid) of
        (Some profile, Some h) \<Rightarrow>
          cacheFresh (pf_ObservedAtMs profile) now \<and> cacheFresh (hs_ObservedAtMs h) now \<and>
          pf_LevelObserved profile \<and> 0 < pf_Level profile \<and>
          (pl_MaxHireLevel policy = 0 \<or> pf_Level profile \<le> pl_MaxHireLevel policy) \<and>
          (hs_LaborEndTimeMs h \<le> 0 \<or>
           hs_LaborEndTimeMs h + hc_RestTimeSeconds config * 1000 \<le> to_unix_milli now)
      | _ \<Rightarrow> False)"

definition slot_fit :: "pearl_hire_view \<Rightarrow> pearl_hire_config \<Rightarrow> time \<Rightarrow> int \<Rightarrow> bool" where
  "slot_fit view config now placeID \<longleftrightarrow> (\<exists>monthly. (placeID, monthly) \<in> set (hc_Slots config) \<and> safe_slot view now (placeID, monthly))"

definition hireable ::
  "pearl_hire_config \<Rightarrow> pearl_hire_view \<Rightarrow> pearl_policy \<Rightarrow> time \<Rightarrow> int \<Rightarrow> int \<Rightarrow> bool" where
  "hireable config view policy now placeID uid \<longleftrightarrow>
     hc_TicketItemID config = 1003 \<and> \<not> pv_SessionLocked view \<and> 1 \<le> pv_TicketCount view \<and>
     (pl_DailyHireTicketLimit policy = 0 \<or> pv_TicketUsedToday view < pl_DailyHireTicketLimit policy) \<and>
     (case pearlActiveWorkers (pv_Places view) now of
        None \<Rightarrow> False
      | Some (active, uids) \<Rightarrow> active < pl_MaxHireTicketUsage policy \<and> candidate_open view uids now uid) \<and>
     slot_fit view config now placeID \<and> candidate_fit view config policy now uid"

lemma gate_passed:
  assumes "pearl_gate catalog view policy now = Inr (config, active, placeID)"
  shows "catalog = Some config" "hc_TicketItemID config = 1003" "\<not> pv_SessionLocked view" "1 \<le> pv_TicketCount view"
    "0 \<le> pl_MaxHireLevel policy"
    "pl_DailyHireTicketLimit policy = 0 \<or> pv_TicketUsedToday view < pl_DailyHireTicketLimit policy"
    "\<exists>n. pearlActiveWorkers (pv_Places view) now = Some (n, active) \<and> n < pl_MaxHireTicketUsage policy"
    "firstSafePearlHireSlot view config now = Some placeID"
  using assms unfolding pearl_gate_def
  by (auto split: if_splits option.splits prod.splits)

lemma find_in: "List.find P xs = Some x \<Longrightarrow> x \<in> set xs \<and> P x"
  by (induction xs) (auto split: if_splits)

lemma found_slot:
  assumes "firstSafePearlHireSlot view config now = Some placeID"
  shows "slot_fit view config now placeID"
proof -
  obtain slot where "List.find (safe_slot view now) (stable_sort (\<lambda>a b. fst a < fst b) (hc_Slots config)) = Some slot"
    "fst slot = placeID" using assms by (auto simp: firstSafePearlHireSlot_def)
  with find_in show ?thesis unfolding slot_fit_def by (metis prod.collapse set_stable_sort)
qed

lemma eligible_fit:
  "candidate_verdict view config policy now uid = Eligible \<Longrightarrow> 0 \<le> pl_MaxHireLevel policy \<Longrightarrow>
     candidate_fit view config policy now uid"
  by (auto simp: candidate_verdict_def candidate_fit_def Let_def split: option.splits if_splits)

lemma hire_op_simps [simp]:
  "op_Kind (pearl_hire_op intent p u r) = RPCPearlPlaceHire" "op_TargetID (pearl_hire_op intent p u r) = p"
  "op_TargetUID (pearl_hire_op intent p u r) = u" "op_Count (pearl_hire_op intent p u r) = 1"
  "op_ItemCost (pearl_hire_op intent p u r) = [(1003, 1)]" "op_GoldCost (pearl_hire_op intent p u r) = 0"
  "op_DiamondCost (pearl_hire_op intent p u r) = 0" "op_Executable (pearl_hire_op intent p u r)"
  by (simp_all add: pearl_hire_op_def pearlHireBaseOp_def zero_op_def)

lemma other_kinds [simp]:
  "op_Kind (pearlHireSyncOp k intent s r us p) = k" "op_Kind (blockedPearlHire intent r) = ''basic.pearl.hire.blocked''"
  "op_TargetUIDs (pearlHireSyncOp k intent s r us p) = us"
  by (simp_all add: pearlHireSyncOp_def blockedPearlHire_def pearlHireBaseOp_def zero_op_def)

lemma source_hire:
  assumes "planPearlCandidateSource view config policy now intent source l uids placeID = Some x"
    and "op_Kind x = RPCPearlPlaceHire"
  shows "\<exists>uid reason. x = pearl_hire_op intent placeID uid reason \<and> uid \<in> set uids \<and>
    candidate_verdict view config policy now uid = Eligible"
  using assms
  by (auto simp: planPearlCandidateSource_def Let_def split: option.splits if_splits dest!: find_in)

lemma discover_hire:
  assumes "op_Kind (pearl_discover view config policy now intent active placeID) = RPCPearlPlaceHire"
  shows "\<exists>uid reason. pearl_discover view config policy now intent active placeID = pearl_hire_op intent placeID uid reason \<and>
    candidate_open view active now uid \<and> candidate_verdict view config policy now uid = Eligible"
  using assms unfolding pearl_discover_def Let_def
  by (auto split: if_splits option.splits dest!: source_hire dest: listed_open)

lemma hire_planned:
  assumes "op_Kind (plan_pearl_view catalog view policy now intent) = RPCPearlPlaceHire"
  shows "\<exists>config placeID uid reason. catalog = Some config \<and>
    plan_pearl_view catalog view policy now intent = pearl_hire_op intent placeID uid reason \<and>
    hireable config view policy now placeID uid"
proof (cases "pearl_gate catalog view policy now")
  case (Inl reason)
  then show ?thesis using assms by (simp add: plan_pearl_view_def)
next
  case (Inr r)
  obtain config active placeID where r: "r = (config, active, placeID)" by (cases r)
  note g = gate_passed [OF Inr [unfolded r]]
  have p: "plan_pearl_view catalog view policy now intent = pearl_discover view config policy now intent active placeID"
    by (simp add: plan_pearl_view_def Inr r)
  obtain uid reason where u: "pearl_discover view config policy now intent active placeID = pearl_hire_op intent placeID uid reason"
    "candidate_open view active now uid" "candidate_verdict view config policy now uid = Eligible"
    using discover_hire assms unfolding p by blast
  have "hireable config view policy now placeID uid"
    using g u(2) eligible_fit [OF u(3) g(5)] found_slot [OF g(8)] by (auto simp: hireable_def)
  then show ?thesis using p u(1) g(1) by auto
qed

text \<open>What the owner and the game allow, said of the state alone, in milliseconds of the wall clock.\<close>

definition seen_recently :: "time \<Rightarrow> int \<Rightarrow> bool" where
  "seen_recently now ms \<longleftrightarrow> 0 < ms \<and> unix_milli ms \<le> now \<and> now < unix_milli ms + 5 * minute"

definition hire_allowed ::
  "pearl_hire_config \<Rightarrow> pearl_state \<Rightarrow> pearl_policy \<Rightarrow> time \<Rightarrow> int \<Rightarrow> int \<Rightarrow> bool" where
  "hire_allowed config s policy now placeID uid \<longleftrightarrow>
     \<not> ps_sessionLocked s \<and> 1 \<le> get_or 0 (ps_inventory s) 1003 \<and>
     (pl_DailyHireTicketLimit policy = 0 \<or>
       pearlHireTicketUsedToday now (ps_days s) < pl_DailyHireTicketLimit policy) \<and>
     int (length (filter (\<lambda>(i, p). 0 < pp_LaborUID p \<and> to_unix_milli now < pp_LaborEndTime p) (ps_places s)))
       < pl_MaxHireTicketUsage policy \<and>
     (placeID, False) \<in> set (hc_Slots config) \<and>
     (\<exists>p. map_of (ps_places s) placeID = Some p \<and> pp_LaborUIDObserved p \<and> pp_LaborEndTimeObserved p \<and>
        (pp_LaborUID p = 0 \<and> pp_LaborEndTime p = 0 \<or> 0 < pp_LaborUID p \<and> pp_LaborEndTime p \<le> to_unix_milli now)) \<and>
     0 < uid \<and> uid \<noteq> ps_roleID s \<and> (\<forall>(i, p) \<in> set (ps_places s). pp_LaborUID p \<noteq> uid) \<and>
     get_or 0 (ps_failedUntil s) uid \<le> to_unix_milli now \<and> uid \<notin> set (ps_skipped s) \<and>
     (\<exists>profile h. map_of (ps_profiles s) uid = Some profile \<and> map_of (ps_hireStates s) uid = Some h \<and>
        seen_recently now (pf_ObservedAtMs profile) \<and> seen_recently now (hs_ObservedAtMs h) \<and>
        pf_LevelObserved profile \<and> 0 < pf_Level profile \<and>
        (pl_MaxHireLevel policy = 0 \<or> pf_Level profile \<le> pl_MaxHireLevel policy) \<and>
        (hs_LaborEndTimeMs h \<le> 0 \<or>
         hs_LaborEndTimeMs h + hc_RestTimeSeconds config * 1000 \<le> to_unix_milli now))"

lemma fresh_recently: "cacheFresh ms now \<Longrightarrow> seen_recently now ms"
  unfolding cacheFresh_def seen_recently_def Let_def
  by (auto simp: time_sub_def min_def max_def duration_defs split: if_splits)

lemma hireable_allowed:
  assumes "hireable config (PearlHireAt s now) policy now placeID uid"
  shows "hire_allowed config s policy now placeID uid"
proof -
  let ?v = "PearlHireAt s now"
  have v: "pv_Places ?v = ps_places s" "pv_Profiles ?v = ps_profiles s" "pv_HireStates ?v = ps_hireStates s"
    "pv_RoleID ?v = ps_roleID s" "pv_FailedUntilMs ?v = ps_failedUntil s" "pv_SkippedUIDs ?v = ps_skipped s"
    "pv_SessionLocked ?v = ps_sessionLocked s" "pv_TicketCount ?v = get_or 0 (ps_inventory s) 1003"
    "pv_TicketUsedToday ?v = pearlHireTicketUsedToday now (ps_days s)"
    by (simp_all add: PearlHireAt_def)
  obtain active uids where w: "pearlActiveWorkers (ps_places s) now = Some (active, uids)"
    "active < pl_MaxHireTicketUsage policy" "candidate_open ?v uids now uid"
    using assms by (auto simp: hireable_def v split: option.splits)
  have duty: "active = int (length (filter (\<lambda>(i, p). 0 < pp_LaborUID p \<and> to_unix_milli now < pp_LaborEndTime p) (ps_places s)))"
    using w(1) by (auto simp: pearlActiveWorkers_def Let_def filter_map comp_def split_def conj_commute split: if_splits)
  have open': "0 < uid" "uid \<noteq> ps_roleID s" "uid \<notin> set uids" "get_or 0 (ps_failedUntil s) uid \<le> to_unix_milli now"
    "uid \<notin> set (ps_skipped s)"
    using w(3) by (auto simp: candidate_open_def v)
  have uids: "uids = map pp_LaborUID (filter (\<lambda>p. 0 < pp_LaborUID p) (map snd (ps_places s)))"
    using w(1) by (auto simp: pearlActiveWorkers_def Let_def split: if_splits)
  have off: "\<forall>(i, p) \<in> set (ps_places s). pp_LaborUID p \<noteq> uid"
  proof (intro ballI, clarify)
    fix i p assume p: "(i, p) \<in> set (ps_places s)" "uid = pp_LaborUID p"
    then have "p \<in> set (filter (\<lambda>p. 0 < pp_LaborUID p) (map snd (ps_places s)))" using open'(1) by force
    then have "uid \<in> set uids" unfolding uids p(2) by simp
    with open'(3) show False by simp
  qed
  have slot: "(placeID, False) \<in> set (hc_Slots config)" "\<exists>p. map_of (ps_places s) placeID = Some p \<and>
      pp_LaborUIDObserved p \<and> pp_LaborEndTimeObserved p \<and>
      (pp_LaborUID p = 0 \<and> pp_LaborEndTime p = 0 \<or> 0 < pp_LaborUID p \<and> pp_LaborEndTime p \<le> to_unix_milli now)"
    using assms by (auto simp: hireable_def slot_fit_def safe_slot_def pearlPlaceHireSlotFree_def v split: option.splits)
  have fit: "\<exists>profile h. map_of (ps_profiles s) uid = Some profile \<and> map_of (ps_hireStates s) uid = Some h \<and>
        cacheFresh (pf_ObservedAtMs profile) now \<and> cacheFresh (hs_ObservedAtMs h) now \<and>
        pf_LevelObserved profile \<and> 0 < pf_Level profile \<and>
        (pl_MaxHireLevel policy = 0 \<or> pf_Level profile \<le> pl_MaxHireLevel policy) \<and>
        (hs_LaborEndTimeMs h \<le> 0 \<or>
         hs_LaborEndTimeMs h + hc_RestTimeSeconds config * 1000 \<le> to_unix_milli now)"
    using assms by (auto simp: hireable_def candidate_fit_def v split: option.splits)
  then have fit': "\<exists>profile h. map_of (ps_profiles s) uid = Some profile \<and> map_of (ps_hireStates s) uid = Some h \<and>
        seen_recently now (pf_ObservedAtMs profile) \<and> seen_recently now (hs_ObservedAtMs h) \<and>
        pf_LevelObserved profile \<and> 0 < pf_Level profile \<and>
        (pl_MaxHireLevel policy = 0 \<or> pf_Level profile \<le> pl_MaxHireLevel policy) \<and>
        (hs_LaborEndTimeMs h \<le> 0 \<or>
         hs_LaborEndTimeMs h + hc_RestTimeSeconds config * 1000 \<le> to_unix_milli now)"
    using fresh_recently by blast
  have rest: "\<not> ps_sessionLocked s" "1 \<le> get_or 0 (ps_inventory s) 1003"
    "pl_DailyHireTicketLimit policy = 0 \<or> pearlHireTicketUsedToday now (ps_days s) < pl_DailyHireTicketLimit policy"
    using assms by (simp_all add: hireable_def v)
  show ?thesis unfolding hire_allowed_def using rest w(2) [unfolded duty] slot open' off fit' by blast
qed

text \<open>
  C32.  A hire the planner names is one the owner and the game allow: the session is not
  locked, a ticket is there and the daily limit leaves one, fewer workers are on duty than the
  policy allows, the slot is known, free and not reserved for card holders, and the candidate is
  neither the account itself nor on a slot, not cooling down after a failure, not skipped, of a level
  observed within five minutes and within the limit, and past its rest.  It costs exactly one ticket.
\<close>

theorem planned_hire_safe:
  assumes "PlanOneSafePearlHire catalog s (Some policy) now intent = Some x" "op_Kind x = RPCPearlPlaceHire"
  shows "\<exists>config. catalog = Some config \<and> hire_allowed config s policy now (op_TargetID x) (op_TargetUID x) \<and>
    op_Executable x \<and> op_ItemCost x = [(1003, 1)] \<and> op_GoldCost x = 0 \<and> op_DiamondCost x = 0"
proof -
  have "x = plan_pearl_view catalog (PearlHireAt s now) policy now (normalizePearlHireIntent intent)"
    using assms(1) by (simp add: PlanOneSafePearlHire_def split: if_splits)
  with hire_planned assms(2) hireable_allowed show ?thesis by (metis hire_op_simps)
qed

definition hire_state :: pearl_state where
  "hire_state =
     \<lparr>ps_roleID = 7, ps_inventory = [(1003, 2)], ps_days = zero_days,
      ps_places = [(1, \<lparr>pp_LaborUID = 0, pp_LaborEndTime = 0, pp_HireFailCnt = 0, pp_EveryMakeNum = 0, pp_RecvCnt = 0,
        pp_SurplusRecvNum = 0, pp_UTimeMs = 5, pp_LaborUIDObserved = True, pp_LaborEndTimeObserved = True,
        pp_HireFailCntObserved = True, pp_EveryMakeNumObserved = True, pp_RecvCntObserved = True,
        pp_SurplusRecvNumObserved = True\<rparr>)],
      ps_friendRelations = [(pearlRelationKey 7 8, (7, 8))], ps_friendOrder = [pearlRelationKey 7 8],
      ps_friendsObserved = True,
      ps_profiles = [(8, \<lparr>pf_UID = 8, pf_Name = ''Ann'', pf_Level = 5, pf_LevelObserved = True, pf_ObservedAtMs = 1000\<rparr>)],
      ps_hireStates = [(8, \<lparr>hs_UID = 8, hs_LaborEndTimeMs = 0, hs_ObservedAtMs = 1500\<rparr>)],
      ps_recommendUIDs = [], ps_recommendObserved = False, ps_recommendAtMs = 0, ps_enemies = [],
      ps_enemiesObserved = False, ps_failedUntil = [], ps_skipped = [], ps_sessionLocked = False, ps_lockReason = []\<rparr>"

definition hire_catalog :: pearl_hire_config where
  "hire_catalog = \<lparr>hc_TicketItemID = 1003, hc_RestTimeSeconds = 3600, hc_EnemyMaxDays = 3, hc_Slots = [(1, False)]\<rparr>"

definition hire_policy :: pearl_policy where
  "hire_policy = \<lparr>pl_AutoHireEnabled = True, pl_MaxHireTicketUsage = 2, pl_MaxHireLevel = 10, pl_DailyHireTicketLimit = 3\<rparr>"

definition no_intent :: pearl_hire_intent where
  "no_intent = \<lparr>hi_GoalID = [], hi_DemandID = [], hi_Category = [], hi_Domain = [], hi_Label = [], hi_Reason = [], hi_Priority = 0\<rparr>"

definition hire_of_8 :: planned_op where
  "hire_of_8 = pearl_hire_op (normalizePearlHireIntent no_intent) 1 8
     (lit_pearl_friend @ lit_pearl_candidate @ ''Ann(Lv.5)'' @ lit_pearl_passed)"

lemma hire_of_8_planned:
  "PlanOneSafePearlHire (Some hire_catalog) hire_state (Some hire_policy) (unix_milli 2000) no_intent = Some hire_of_8"
  by code_simp

theorem planned_hire_safe_witness:
  "PlanOneSafePearlHire (Some hire_catalog) hire_state (Some hire_policy) (unix_milli 2000) no_intent = Some hire_of_8 \<and>
   (\<exists>config. Some hire_catalog = Some config \<and>
      hire_allowed config hire_state hire_policy (unix_milli 2000) 1 8)"
proof -
  have k: "op_Kind hire_of_8 = RPCPearlPlaceHire" "op_TargetID hire_of_8 = 1" "op_TargetUID hire_of_8 = 8"
    by (simp_all add: hire_of_8_def)
  show ?thesis using hire_of_8_planned planned_hire_safe [OF hire_of_8_planned k(1)] unfolding k(2,3) by blast
qed

section \<open>Discovery ends\<close>

definition profile_fresh :: "pearl_hire_view \<Rightarrow> time \<Rightarrow> int \<Rightarrow> bool" where
  "profile_fresh view now u \<longleftrightarrow>
     (case map_of (pv_Profiles view) u of None \<Rightarrow> False | Some p \<Rightarrow> cacheFresh (pf_ObservedAtMs p) now)"

definition state_fresh :: "pearl_hire_view \<Rightarrow> time \<Rightarrow> int \<Rightarrow> bool" where
  "state_fresh view now u \<longleftrightarrow>
     (case map_of (pv_HireStates view) u of None \<Rightarrow> False | Some h \<Rightarrow> cacheFresh (hs_ObservedAtMs h) now)"

definition workers_of :: "pearl_hire_view \<Rightarrow> time \<Rightarrow> int list" where
  "workers_of view now = (case pearlActiveWorkers (pv_Places view) now of None \<Rightarrow> [] | Some (_, uids) \<Rightarrow> uids)"

text \<open>
  A complete answer to a synchronisation: what was asked for is there, and fresh.
\<close>

definition complete_answer :: "planned_op \<Rightarrow> pearl_hire_view \<Rightarrow> time \<Rightarrow> bool" where
  "complete_answer x view' now' \<longleftrightarrow>
     (op_Kind x = RPCFrdEnter \<longrightarrow> pv_FriendsObserved view') \<and>
     (op_Kind x = RPCPearlGetRecommendList \<longrightarrow> cacheFresh (pv_RecommendObservedAtMs view') now') \<and>
     (op_Kind x = RPCPearlRefresh \<longrightarrow> pv_EnemiesObserved view') \<and>
     (op_Kind x = RPCOpptGetDetailOppts \<longrightarrow> (\<forall>u \<in> set (op_TargetUIDs x). profile_fresh view' now' u)) \<and>
     (op_Kind x = RPCPearlGetHireStateByUids \<longrightarrow> (\<forall>u \<in> set (op_TargetUIDs x). state_fresh view' now' u))"

text \<open>
  Nothing is undone meanwhile: no fresh detail or protection state expires or changes, the lists that
  are there stay and keep their members (enemies may only drop out), and no candidate becomes open again.
\<close>

definition nothing_undone :: "pearl_hire_config \<Rightarrow> pearl_hire_view \<Rightarrow> time \<Rightarrow> pearl_hire_view \<Rightarrow> time \<Rightarrow> bool" where
  "nothing_undone config view now view' now' \<longleftrightarrow>
     (\<forall>u. profile_fresh view now u \<longrightarrow>
        profile_fresh view' now' u \<and> map_of (pv_Profiles view') u = map_of (pv_Profiles view) u) \<and>
     (\<forall>u. state_fresh view now u \<longrightarrow>
        state_fresh view' now' u \<and> map_of (pv_HireStates view') u = map_of (pv_HireStates view) u) \<and>
     (pv_FriendsObserved view \<longrightarrow>
        pv_FriendsObserved view' \<and> set (pv_FriendUIDs view') = set (pv_FriendUIDs view)) \<and>
     (cacheFresh (pv_RecommendObservedAtMs view) now \<longrightarrow>
        cacheFresh (pv_RecommendObservedAtMs view') now' \<and> set (pv_RecommendUIDs view') = set (pv_RecommendUIDs view)) \<and>
     (pv_EnemiesObserved view \<longrightarrow>
        pv_EnemiesObserved view' \<and>
        set (pearlEnemyUIDs (pv_Enemies view') (hc_EnemyMaxDays config) now') \<subseteq>
          set (pearlEnemyUIDs (pv_Enemies view) (hc_EnemyMaxDays config) now)) \<and>
     (\<forall>u. candidate_open view' (workers_of view' now') now' u \<longrightarrow> candidate_open view (workers_of view now) now u)"

definition answered :: "pearl_hire_config \<Rightarrow> planned_op \<Rightarrow> pearl_hire_view \<Rightarrow> time \<Rightarrow> pearl_hire_view \<Rightarrow> time \<Rightarrow> bool" where
  "answered config x view now view' now' \<longleftrightarrow> complete_answer x view' now' \<and> nothing_undone config view now view' now'"

lemmas answered_parts = answered_def complete_answer_def nothing_undone_def

text \<open>Three steps are missing at a source without its list, two with stale details, one with stale states.\<close>

definition stage :: "bool \<Rightarrow> (int \<Rightarrow> candidate_verdict) \<Rightarrow> int list \<Rightarrow> nat" where
  "stage listed verdict uids =
     (if \<not> listed then 3 else if ProfileStale \<in> verdict ` set uids then 2
      else if StateStale \<in> verdict ` set uids then 1 else 0)"

definition friend_stage :: "pearl_hire_config \<Rightarrow> pearl_policy \<Rightarrow> pearl_hire_view \<Rightarrow> time \<Rightarrow> nat" where
  "friend_stage config policy view now =
     stage (pv_FriendsObserved view) (candidate_verdict view config policy now)
       (fst (friend_candidates view (workers_of view now) now))"

definition recommend_stage :: "pearl_hire_config \<Rightarrow> pearl_policy \<Rightarrow> pearl_hire_view \<Rightarrow> time \<Rightarrow> nat" where
  "recommend_stage config policy view now =
     stage (pv_FriendsObserved view \<and> cacheFresh (pv_RecommendObservedAtMs view) now)
       (candidate_verdict view config policy now) (fst (recommend_candidates view (workers_of view now) now))"

definition enemy_stage :: "pearl_hire_config \<Rightarrow> pearl_policy \<Rightarrow> pearl_hire_view \<Rightarrow> time \<Rightarrow> nat" where
  "enemy_stage config policy view now =
     stage (pv_FriendsObserved view \<and> cacheFresh (pv_RecommendObservedAtMs view) now \<and> pv_EnemiesObserved view)
       (candidate_verdict view config policy now) (enemy_candidates view config (workers_of view now) now)"

definition missing_steps :: "pearl_hire_config \<Rightarrow> pearl_policy \<Rightarrow> pearl_hire_view \<Rightarrow> time \<Rightarrow> nat" where
  "missing_steps config policy view now =
     friend_stage config policy view now + recommend_stage config policy view now + enemy_stage config policy view now"

lemma stage_bound: "stage listed verdict uids \<le> 3"
  by (simp add: stage_def)

lemma stage_mono:
  assumes "listed \<Longrightarrow> listed' \<and> set uids' \<subseteq> set uids"
    and "\<And>u. verdict' u = ProfileStale \<Longrightarrow> verdict u = ProfileStale"
    and "\<And>u. verdict' u = StateStale \<Longrightarrow> verdict u = ProfileStale \<or> verdict u = StateStale"
  shows "stage listed' verdict' uids' \<le> stage listed verdict uids"
proof (cases listed)
  case True
  note sub = assms(1) [OF True]
  have p: "ProfileStale \<in> verdict ` set uids" if profile: "ProfileStale \<in> verdict' ` set uids'"
  proof -
    obtain u where "u \<in> set uids'" "verdict' u = ProfileStale" using profile by auto
    then have "u \<in> set uids" "verdict u = ProfileStale" using sub assms(2) by auto
    then show ?thesis by (auto simp: image_iff intro!: bexI [of _ u])
  qed
  have "ProfileStale \<in> verdict ` set uids \<or> StateStale \<in> verdict ` set uids" if state: "StateStale \<in> verdict' ` set uids'"
  proof -
    obtain u where "u \<in> set uids'" "verdict' u = StateStale" using state by auto
    then have u: "u \<in> set uids" "verdict u = ProfileStale \<or> verdict u = StateStale" using sub assms(3) by auto
    then show ?thesis by (metis image_eqI)
  qed
  with p show ?thesis using True sub by (simp add: stage_def) blast
qed (simp add: stage_def)

lemma verdict_profile: "candidate_verdict view config policy now u = ProfileStale \<longleftrightarrow> \<not> profile_fresh view now u"
  by (auto simp: candidate_verdict_def profile_fresh_def Let_def split: option.splits if_splits)

lemma verdict_state:
  "candidate_verdict view config policy now u = StateStale \<Longrightarrow> profile_fresh view now u \<and> \<not> state_fresh view now u"
  by (auto simp: candidate_verdict_def profile_fresh_def state_fresh_def Let_def split: option.splits if_splits)

lemma verdict_same:
  "map_of (pv_Profiles view') u = map_of (pv_Profiles view) u \<Longrightarrow> profile_fresh view now u \<Longrightarrow>
   profile_fresh view' now' u \<Longrightarrow> \<not> state_fresh view now u \<Longrightarrow>
   candidate_verdict view' config policy now' u = StateStale \<Longrightarrow>
   candidate_verdict view config policy now u = StateStale"
  by (auto simp: candidate_verdict_def profile_fresh_def state_fresh_def Let_def split: option.splits if_splits)

lemma profile_stays:
  assumes answer: "answered config x view now view' now'"
  shows "candidate_verdict view' config policy now' u = ProfileStale \<Longrightarrow>
    candidate_verdict view config policy now u = ProfileStale"
  using answer unfolding verdict_profile answered_parts by blast

lemma state_stays:
  assumes answer: "answered config x view now view' now'"
    and stale: "candidate_verdict view' config policy now' u = StateStale"
  shows "candidate_verdict view config policy now u = ProfileStale \<or> candidate_verdict view config policy now u = StateStale"
proof (cases "profile_fresh view now u")
  case True
  then have same: "map_of (pv_Profiles view') u = map_of (pv_Profiles view) u" "profile_fresh view' now' u"
    using answer by (auto simp: answered_parts)
  have "\<not> state_fresh view now u" using answer verdict_state [OF stale] by (auto simp: answered_parts)
  with verdict_same [OF same(1) True same(2)] stale show ?thesis by blast
qed (simp add: verdict_profile)

lemma subset_friend:
  assumes "answered config x view now view' now'" "pv_FriendsObserved view"
  shows "set (fst (friend_candidates view' (workers_of view' now') now'))
    \<subseteq> set (fst (friend_candidates view (workers_of view now) now))"
proof -
  have "set (pv_FriendUIDs view') = set (pv_FriendUIDs view)"
    "\<And>u. candidate_open view' (workers_of view' now') now' u \<Longrightarrow> candidate_open view (workers_of view now) now u"
    using assms unfolding answered_parts by blast+
  then show ?thesis by (auto simp: friend_candidates_def listed_candidate)
qed

lemma subset_recommend:
  assumes "answered config x view now view' now'" "pv_FriendsObserved view"
    "cacheFresh (pv_RecommendObservedAtMs view) now"
  shows "set (fst (recommend_candidates view' (workers_of view' now') now'))
    \<subseteq> set (fst (recommend_candidates view (workers_of view now) now))"
  using assms unfolding answered_parts recommend_candidates_def friend_candidates_def
  by (auto simp: listed_candidate seen_candidates)

lemma subset_enemy:
  assumes "answered config x view now view' now'" "pv_FriendsObserved view"
    "cacheFresh (pv_RecommendObservedAtMs view) now" "pv_EnemiesObserved view"
  shows "set (enemy_candidates view' config (workers_of view' now') now')
    \<subseteq> set (enemy_candidates view config (workers_of view now) now)"
  using assms unfolding answered_parts enemy_candidates_def recommend_candidates_def friend_candidates_def
  by (auto simp: listed_candidate seen_candidates)

lemma listed_kept:
  assumes "answered config x view now view' now'"
  shows "pv_FriendsObserved view \<Longrightarrow> pv_FriendsObserved view'"
    "cacheFresh (pv_RecommendObservedAtMs view) now \<Longrightarrow> cacheFresh (pv_RecommendObservedAtMs view') now'"
    "pv_EnemiesObserved view \<Longrightarrow> pv_EnemiesObserved view'"
  using assms unfolding answered_parts by blast+

lemma stages_kept:
  assumes a: "answered config x view now view' now'"
  shows "friend_stage config policy view' now' \<le> friend_stage config policy view now"
    "recommend_stage config policy view' now' \<le> recommend_stage config policy view now"
    "enemy_stage config policy view' now' \<le> enemy_stage config policy view now"
  unfolding friend_stage_def recommend_stage_def enemy_stage_def
  using listed_kept [OF a] subset_friend [OF a] subset_recommend [OF a] subset_enemy [OF a]
  by (intro stage_mono profile_stays [OF a] state_stays [OF a]; blast)+

text \<open>An answered request for details or states takes its source one stage further.\<close>

lemma source_progress:
  assumes a: "answered config x view now view' now'"
    and plan: "planPearlCandidateSource view config policy now intent source l uids placeID = Some x" "op_Action x = ''sync''"
    and sub: "set uids' \<subseteq> set uids"
  shows "stage True (candidate_verdict view' config policy now') uids' < stage True (candidate_verdict view config policy now) uids"
proof -
  let ?v = "candidate_verdict view config policy now" and ?v' = "candidate_verdict view' config policy now'"
  let ?P = "filter (\<lambda>u. ?v u = ProfileStale) uids" and ?S = "filter (\<lambda>u. ?v u = StateStale) uids"
  have none: "List.find (\<lambda>u. ?v u = Eligible) uids = None"
    using plan by (auto simp: planPearlCandidateSource_def Let_def pearl_hire_op_def pearlHireBaseOp_def zero_op_def split: option.splits)
  consider (details) "?P \<noteq> []" "op_Kind x = RPCOpptGetDetailOppts" "op_TargetUIDs x = ?P"
    | (states) "?P = []" "?S \<noteq> []" "op_Kind x = RPCPearlGetHireStateByUids" "op_TargetUIDs x = ?S"
    using plan(1) unfolding planPearlCandidateSource_def Let_def none
    by (auto split: if_splits)
  then show ?thesis
  proof cases
    case details
    have "?v' u \<noteq> ProfileStale" if "u \<in> set uids'" for u
    proof
      assume u: "?v' u = ProfileStale"
      then have "u \<in> set ?P" using profile_stays [OF a] that sub by auto
      then have "profile_fresh view' now' u" using a details(2,3) unfolding answered_parts by metis
      then show False using u by (simp add: verdict_profile)
    qed
    then have "ProfileStale \<notin> ?v' ` set uids'" by force
    moreover obtain u where "u \<in> set uids" "?v u = ProfileStale" using details(1) by (auto simp: filter_empty_conv)
    then have "ProfileStale \<in> ?v ` set uids" by force
    ultimately show ?thesis by (simp add: stage_def)
  next
    case states
    have np: "\<And>u. u \<in> set uids \<Longrightarrow> ?v u \<noteq> ProfileStale" using states(1) by (simp add: filter_empty_conv)
    have "?v' u \<noteq> ProfileStale \<and> ?v' u \<noteq> StateStale" if "u \<in> set uids'" for u
    proof -
      have u: "u \<in> set uids" using that sub by auto
      have "?v' u \<noteq> StateStale"
      proof
        assume s: "?v' u = StateStale"
        then have "u \<in> set ?S" using state_stays [OF a s] np [OF u] u by simp
        then have "state_fresh view' now' u" using a states(3,4) unfolding answered_parts by metis
        then show False using verdict_state [OF s] by simp
      qed
      moreover have "?v' u \<noteq> ProfileStale" using profile_stays [OF a] np [OF u] by blast
      ultimately show ?thesis by simp
    qed
    then have "ProfileStale \<notin> ?v' ` set uids'" "StateStale \<notin> ?v' ` set uids'" by force+
    moreover obtain u where "u \<in> set uids" "?v u = StateStale" using states(2) by (auto simp: filter_empty_conv)
    then have "StateStale \<in> ?v ` set uids" by force
    ultimately show ?thesis by (simp add: stage_def)
  qed
qed

lemma sync_action [simp]:
  "op_Action (pearlHireSyncOp k intent s r us p) = ''sync''" "op_Action (blockedPearlHire intent r) = ''hire''"
  by (simp_all add: pearlHireSyncOp_def blockedPearlHire_def pearlHireBaseOp_def zero_op_def)

lemma stage_listed: "listed \<Longrightarrow> stage listed verdict uids < 3"
  by (simp add: stage_def)

lemma stage_unlisted: "\<not> listed \<Longrightarrow> stage listed verdict uids = 3"
  by (simp add: stage_def)

lemma discovery_step:
  assumes d: "pearl_discover view config policy now intent (workers_of view now) placeID = x" "op_Action x = ''sync''"
    and a: "answered config x view now view' now'"
  shows "missing_steps config policy view' now' < missing_steps config policy view now"
proof -
  let ?plan = "\<lambda>source l uids. planPearlCandidateSource view config policy now intent source l uids placeID"
  let ?F = "?plan ''friend'' lit_pearl_friend (fst (friend_candidates view (workers_of view now) now))"
  let ?R = "?plan ''recommend'' lit_pearl_recommend (fst (recommend_candidates view (workers_of view now) now))"
  let ?E = "?plan ''enemy'' lit_pearl_enemy (enemy_candidates view config (workers_of view now) now)"
  note kept = stages_kept [OF a, of policy] and lists = listed_kept [OF a]
  consider (enter) "\<not> pv_FriendsObserved view" "op_Kind x = RPCFrdEnter"
    | (friend) "pv_FriendsObserved view" "?F = Some x"
    | (list) "pv_FriendsObserved view" "\<not> cacheFresh (pv_RecommendObservedAtMs view) now" "op_Kind x = RPCPearlGetRecommendList"
    | (recommend) "pv_FriendsObserved view" "cacheFresh (pv_RecommendObservedAtMs view) now" "?R = Some x"
    | (refresh) "pv_FriendsObserved view" "cacheFresh (pv_RecommendObservedAtMs view) now" "\<not> pv_EnemiesObserved view"
        "op_Kind x = RPCPearlRefresh"
    | (enemy) "pv_FriendsObserved view" "cacheFresh (pv_RecommendObservedAtMs view) now" "pv_EnemiesObserved view" "?E = Some x"
    using d unfolding pearl_discover_def Let_def by (auto split: if_splits option.splits)
  then show ?thesis
  proof cases
    case enter
    then have "pv_FriendsObserved view'" using a unfolding answered_parts by blast
    then have "friend_stage config policy view' now' < friend_stage config policy view now"
      unfolding friend_stage_def using enter(1) stage_listed by (simp add: stage_unlisted)
    then show ?thesis using kept unfolding missing_steps_def by linarith
  next
    case friend
    have "friend_stage config policy view' now' < friend_stage config policy view now"
      using source_progress [OF a friend(2) d(2) subset_friend [OF a friend(1)]] friend(1) lists(1) unfolding friend_stage_def by simp
    then show ?thesis using kept unfolding missing_steps_def by linarith
  next
    case list
    then have "cacheFresh (pv_RecommendObservedAtMs view') now'" using a unfolding answered_parts by blast
    then have "recommend_stage config policy view' now' < recommend_stage config policy view now"
      unfolding recommend_stage_def using list lists(1) stage_listed by (simp add: stage_unlisted)
    then show ?thesis using kept unfolding missing_steps_def by linarith
  next
    case recommend
    have "recommend_stage config policy view' now' < recommend_stage config policy view now"
      using source_progress [OF a recommend(3) d(2) subset_recommend [OF a recommend(1,2)]] recommend(1,2) lists
      unfolding recommend_stage_def by simp
    then show ?thesis using kept unfolding missing_steps_def by linarith
  next
    case refresh
    then have "pv_EnemiesObserved view'" using a unfolding answered_parts by blast
    then have "enemy_stage config policy view' now' < enemy_stage config policy view now"
      unfolding enemy_stage_def using refresh lists stage_listed by (simp add: stage_unlisted)
    then show ?thesis using kept unfolding missing_steps_def by linarith
  next
    case enemy
    have "enemy_stage config policy view' now' < enemy_stage config policy view now"
      using source_progress [OF a enemy(4) d(2) subset_enemy [OF a enemy(1-3)]] enemy(1-3) lists
      unfolding enemy_stage_def by simp
    then show ?thesis using kept unfolding missing_steps_def by linarith
  qed
qed

lemma missing_steps_bound: "missing_steps config policy view now \<le> 9"
proof -
  have "friend_stage config policy view now \<le> 3" "recommend_stage config policy view now \<le> 3"
    "enemy_stage config policy view now \<le> 3"
    unfolding friend_stage_def recommend_stage_def enemy_stage_def by (rule stage_bound)+
  then show ?thesis unfolding missing_steps_def by linarith
qed

text \<open>A planned synchronisation comes from discovery, so it is one of the missing steps.\<close>

lemma planned_sync:
  assumes "PlanOneSafePearlHire (Some config) s (Some policy) now intent = Some x" "op_Action x = ''sync''"
  shows "\<exists>placeID. pearl_discover (PearlHireAt s now) config policy now (normalizePearlHireIntent intent)
    (workers_of (PearlHireAt s now) now) placeID = x"
proof -
  have x: "x = plan_pearl_view (Some config) (PearlHireAt s now) policy now (normalizePearlHireIntent intent)"
    using assms(1) by (simp add: PlanOneSafePearlHire_def split: if_splits)
  then obtain c active placeID where g: "pearl_gate (Some config) (PearlHireAt s now) policy now = Inr (c, active, placeID)"
    using assms(2) by (auto simp: plan_pearl_view_def split: sum.splits)
  have "c = config" "workers_of (PearlHireAt s now) now = active"
    using gate_passed(1,7) [OF g] by (auto simp: workers_of_def)
  then show ?thesis unfolding x plan_pearl_view_def by (auto simp: g)
qed

lemma unfinished:
  assumes "pearl_discover view config policy now intent (workers_of view now) placeID = x" "op_Action x = ''sync''"
  shows "0 < missing_steps config policy view now"
proof -
  let ?plan = "\<lambda>source l uids. planPearlCandidateSource view config policy now intent source l uids placeID"
  let ?F = "?plan ''friend'' lit_pearl_friend (fst (friend_candidates view (workers_of view now) now))"
  let ?R = "?plan ''recommend'' lit_pearl_recommend (fst (recommend_candidates view (workers_of view now) now))"
  let ?E = "?plan ''enemy'' lit_pearl_enemy (enemy_candidates view config (workers_of view now) now)"
  have sourced: "0 < stage listed (candidate_verdict view config policy now) uids"
    if "?plan source l uids = Some x" for source l uids listed
    using that assms(2)
    by (auto simp: planPearlCandidateSource_def Let_def pearl_hire_op_def pearlHireBaseOp_def zero_op_def stage_def
        filter_empty_conv image_iff split: option.splits if_splits)
  have "\<not> pv_FriendsObserved view \<or> \<not> cacheFresh (pv_RecommendObservedAtMs view) now \<or> \<not> pv_EnemiesObserved view \<or>
    ?F = Some x \<or> ?R = Some x \<or> ?E = Some x"
    using assms unfolding pearl_discover_def Let_def by (auto split: if_splits option.splits)
  moreover have "?F = Some x \<Longrightarrow> 0 < friend_stage config policy view now"
    "?R = Some x \<Longrightarrow> 0 < recommend_stage config policy view now" "?E = Some x \<Longrightarrow> 0 < enemy_stage config policy view now"
    unfolding friend_stage_def recommend_stage_def enemy_stage_def by (erule sourced)+
  moreover have "\<not> pv_FriendsObserved view \<or> \<not> cacheFresh (pv_RecommendObservedAtMs view) now \<or> \<not> pv_EnemiesObserved view \<Longrightarrow>
    0 < enemy_stage config policy view now"
    unfolding enemy_stage_def by (simp add: stage_unlisted)
  ultimately show ?thesis unfolding missing_steps_def by (metis add_pos_nonneg add_nonneg_pos zero_le)
qed

text \<open>A run of discovery: each plan is a synchronisation, and each is answered completely.\<close>

inductive discovery ::
  "pearl_hire_config \<Rightarrow> pearl_policy \<Rightarrow> pearl_hire_intent \<Rightarrow> nat \<Rightarrow> pearl_state \<Rightarrow> time \<Rightarrow> pearl_state \<Rightarrow> time \<Rightarrow> bool"
  for config policy intent where
  start: "discovery config policy intent 0 s t s t"
| sync: "discovery config policy intent n s t s' t' \<Longrightarrow>
    PlanOneSafePearlHire (Some config) s' (Some policy) t' intent = Some x \<Longrightarrow> op_Action x = ''sync'' \<Longrightarrow>
    answered config x (PearlHireAt s' t') t' (PearlHireAt s'' t'') t'' \<Longrightarrow>
    discovery config policy intent (Suc n) s t s'' t''"

lemma discovery_bounded:
  "discovery config policy intent n s t s' t' \<Longrightarrow>
     n + missing_steps config policy (PearlHireAt s' t') t' \<le> missing_steps config policy (PearlHireAt s t) t"
proof (induction rule: discovery.induct)
  case (sync n s t s' t' x s'' t'')
  obtain placeID where "pearl_discover (PearlHireAt s' t') config policy t' (normalizePearlHireIntent intent)
    (workers_of (PearlHireAt s' t') t') placeID = x" using planned_sync sync.hyps(2,3) by blast
  from discovery_step [OF this sync.hyps(3,4)] sync.IH show ?case by linarith
qed simp

text \<open>
  C33.  Looking for a worker to hire ends, as long as its discoveries last.  Take any chain of
  synchronisations in which each is answered completely and nothing is undone before the chain ends:
  no fresh detail or protection state passes its five minutes or changes, no list that is there is
  lost or gains a member, and no candidate becomes open again (a rest or a cooldown that ends could
  reopen one).  Then the chain has at most nine synchronisations (a list, details and protection
  states for each of the three sources), and after the ninth the planner names a hire or says why
  there is none.
\<close>

theorem discovery_ends:
  assumes "discovery config policy intent n s t s' t'"
  shows "n \<le> 9 \<and>
    (n = 9 \<longrightarrow> (\<forall>x. PlanOneSafePearlHire (Some config) s' (Some policy) t' intent = Some x \<longrightarrow> op_Action x \<noteq> ''sync''))"
proof -
  note b = discovery_bounded [OF assms] missing_steps_bound [of config policy "PearlHireAt s t" t]
  have "op_Action x \<noteq> ''sync''"
    if nine: "n = 9" and plan: "PlanOneSafePearlHire (Some config) s' (Some policy) t' intent = Some x" for x
  proof
    assume sync: "op_Action x = ''sync''"
    obtain placeID where "pearl_discover (PearlHireAt s' t') config policy t' (normalizePearlHireIntent intent)
      (workers_of (PearlHireAt s' t') t') placeID = x" using planned_sync plan sync by blast
    from unfinished [OF this sync] b nine show False by linarith
  qed
  with b show ?thesis by fastforce
qed

definition unknown_friend :: pearl_state where
  "unknown_friend = hire_state\<lparr>ps_profiles := []\<rparr>"

definition ask_details :: planned_op where
  "ask_details = pearlHireSyncOp RPCOpptGetDetailOppts (normalizePearlHireIntent no_intent) ''friend''
     (lit_pearl_friend @ lit_pearl_stale_profile) [8] 5545"

theorem discovery_ends_witness:
  "discovery hire_catalog hire_policy no_intent 1 unknown_friend (unix_milli 2000) hire_state (unix_milli 2000) \<and> (1::nat) \<le> 9"
proof -
  have plan: "PlanOneSafePearlHire (Some hire_catalog) unknown_friend (Some hire_policy) (unix_milli 2000) no_intent = Some ask_details"
    by code_simp
  let ?v = "PearlHireAt unknown_friend (unix_milli 2000)" and ?v' = "PearlHireAt hire_state (unix_milli 2000)"
  have same: "pv_FriendUIDs ?v' = pv_FriendUIDs ?v" "pv_RecommendUIDs ?v' = pv_RecommendUIDs ?v" "pv_Enemies ?v' = pv_Enemies ?v"
    "pv_HireStates ?v' = pv_HireStates ?v" "pv_FriendsObserved ?v'" "pv_RecommendObservedAtMs ?v' = pv_RecommendObservedAtMs ?v"
    "pv_EnemiesObserved ?v' = pv_EnemiesObserved ?v" "pv_Places ?v' = pv_Places ?v" "pv_RoleID ?v' = pv_RoleID ?v"
    "pv_FailedUntilMs ?v' = pv_FailedUntilMs ?v" "pv_SkippedUIDs ?v' = pv_SkippedUIDs ?v" "pv_Profiles ?v = []"
    by (simp_all add: PearlHireAt_def unknown_friend_def hire_state_def pearlFriendUIDs_def)
  have kind: "op_Kind ask_details = RPCOpptGetDetailOppts" "op_TargetUIDs ask_details = [8]" "op_Action ask_details = ''sync''"
    by (simp_all add: ask_details_def)
  have "profile_fresh ?v' (unix_milli 2000) 8" by code_simp
  then have "answered hire_catalog ask_details ?v (unix_milli 2000) ?v' (unix_milli 2000)"
    by (simp add: answered_parts kind same profile_fresh_def [of ?v] state_fresh_def candidate_open_def workers_of_def)
  from discovery.sync [OF discovery.start plan kind(3) this]
  have "discovery hire_catalog hire_policy no_intent 1 unknown_friend (unix_milli 2000) hire_state (unix_milli 2000)" by simp
  with discovery_ends [OF this] show ?thesis by simp
qed

text \<open>
  Completeness of the answers is needed: a candidate whose details never arrive, or arrive without a
  level, holds its source at the request for details, and the sources behind it are not consulted.
\<close>

lemma unanswered_candidate_holds:
  assumes "pearl_gate (Some config) view policy now = Inr (config, active, placeID)" "pv_FriendsObserved view"
    and "u \<in> set (fst (friend_candidates view active now))" "\<not> profile_fresh view now u"
    and "\<And>u. candidate_verdict view config policy now u \<noteq> Eligible"
  shows "op_Kind (plan_pearl_view (Some config) view policy now intent) = RPCOpptGetDetailOppts"
proof -
  let ?v = "candidate_verdict view config policy now"
  have none: "List.find (\<lambda>u. ?v u = Eligible) xs = None" for xs
    using assms(5) by (induction xs) auto
  have "filter (\<lambda>u. ?v u = ProfileStale) (fst (friend_candidates view active now)) \<noteq> []"
    using assms(3,4) by (auto simp: filter_empty_conv verdict_profile)
  then show ?thesis
    using assms(1,2) by (simp add: plan_pearl_view_def pearl_discover_def planPearlCandidateSource_def none Let_def)
qed

end
