(* ===== verification/PearlExec.thy ===== *)
theory PearlExec
  imports PearlSafety
begin

text \<open>
  Sending one hire (\<open>runner/operation_executor_pearl.go\<close>): the requests built from planned operations,
  the checks before the request, the reading of its answer, and the fences that a doubtful answer
  leaves behind.
\<close>

section \<open>Requests\<close>

definition plannedOpHasCyclicNoteTargets :: "planned_op \<Rightarrow> bool" where
  "plannedOpHasCyclicNoteTargets x \<longleftrightarrow>
     op_BatchID x \<noteq> 0 \<or> op_SlotID x \<noteq> 0 \<or> op_TaskID x \<noteq> 0 \<or> op_MilestoneIndex x \<noteq> 0"

datatype request_error =
    UnexpectedFields
  | NotCostFree
  | UIDsRequired
  | UIDsForbidden
  | InvalidUID
  | DuplicateUID
  | TargetRequired
  | InexactCost

fun check_uids :: "int list \<Rightarrow> int list \<Rightarrow> request_error option" where
  "check_uids seen [] = None"
| "check_uids seen (uid # uids) =
     (if uid \<le> 0 then Some InvalidUID else if uid \<in> set seen then Some DuplicateUID else check_uids (uid # seen) uids)"

definition validatePearlCandidateSyncOperation :: "planned_op \<Rightarrow> bool \<Rightarrow> request_error option" where
  "validatePearlCandidateSyncOperation x requireUIDs =
     (if op_TargetID x \<noteq> 0 \<or> op_TargetUID x \<noteq> 0 \<or> op_ItemID x \<noteq> 0 \<or> op_Count x \<noteq> 0 \<or> op_FlowerID x \<noteq> 0 \<or>
         op_VaseID x \<noteq> 0 \<or> op_LandIDs x \<noteq> [] \<or> op_SlotIDs x \<noteq> [] \<or> op_FlowerIDs x \<noteq> [] \<or>
         plannedOpHasCyclicNoteTargets x
      then Some UnexpectedFields
      else if op_GoldCost x \<noteq> 0 \<or> op_DiamondCost x \<noteq> 0 \<or> op_ItemCost x \<noteq> [] then Some NotCostFree
      else if requireUIDs \<and> op_TargetUIDs x = [] then Some UIDsRequired
      else if \<not> requireUIDs \<and> op_TargetUIDs x \<noteq> [] then Some UIDsForbidden
      else check_uids [] (op_TargetUIDs x))"

definition pearlFriendSyncRequest :: "planned_op \<Rightarrow> request_error + int" where
  "pearlFriendSyncRequest x =
     (case validatePearlCandidateSyncOperation x False of Some e \<Rightarrow> Inl e | None \<Rightarrow> Inr 1)"

definition pearlCandidateDetailRequest :: "planned_op \<Rightarrow> request_error + int list \<times> int list" where
  "pearlCandidateDetailRequest x =
     (case validatePearlCandidateSyncOperation x True of Some e \<Rightarrow> Inl e | None \<Rightarrow> Inr (op_TargetUIDs x, [1]))"

definition pearlCandidateHireStateRequest :: "planned_op \<Rightarrow> request_error + int list" where
  "pearlCandidateHireStateRequest x =
     (case validatePearlCandidateSyncOperation x True of Some e \<Rightarrow> Inl e | None \<Rightarrow> Inr (op_TargetUIDs x))"

definition pearlRecommendRequest :: "planned_op \<Rightarrow> request_error + unit" where
  "pearlRecommendRequest x =
     (case validatePearlCandidateSyncOperation x False of Some e \<Rightarrow> Inl e | None \<Rightarrow> Inr ())"

definition pearlHireRequest :: "planned_op \<Rightarrow> request_error + int \<times> int" where
  "pearlHireRequest x =
     (if op_TargetID x \<le> 0 \<or> op_TargetUID x \<le> 0 then Inl TargetRequired
      else if op_Count x \<noteq> 1 \<or> op_ItemID x \<noteq> 0 \<or> op_FlowerID x \<noteq> 0 \<or> op_VaseID x \<noteq> 0 \<or> op_TargetUIDs x \<noteq> [] \<or>
              op_LandIDs x \<noteq> [] \<or> op_SlotIDs x \<noteq> [] \<or> op_FlowerIDs x \<noteq> [] \<or> plannedOpHasCyclicNoteTargets x
      then Inl UnexpectedFields
      else if op_GoldCost x \<noteq> 0 \<or> op_DiamondCost x \<noteq> 0 \<or> length (op_ItemCost x) \<noteq> 1 \<or> get_or 0 (op_ItemCost x) 1003 \<noteq> 1
      then Inl InexactCost
      else Inr (op_TargetID x, op_TargetUID x))"

section \<open>The attempt\<close>

record hire_snapshot =
  sn_At :: time
  sn_PlaceID :: int
  sn_TargetUID :: int
  sn_TicketCount :: int
  sn_PreviousPlaceUTimeMs :: int

definition PearlHireAttemptSnapshot :: "int \<Rightarrow> int \<Rightarrow> time \<Rightarrow> pearl_state \<Rightarrow> hire_snapshot option" where
  "PearlHireAttemptSnapshot placeID targetUID at s =
     (if placeID \<le> 0 \<or> targetUID \<le> 0 \<or> time_is_zero at then None
      else case map_of (ps_places s) placeID of
        None \<Rightarrow> None
      | Some place \<Rightarrow>
          Some \<lparr>sn_At = at, sn_PlaceID = placeID, sn_TargetUID = targetUID,
            sn_TicketCount = get_or 0 (ps_inventory s) pearlHireTicketItemID,
            sn_PreviousPlaceUTimeMs = pp_UTimeMs place\<rparr>)"

text \<open>Success, the failure count, and whether the answer is known.\<close>

definition PearlHireAttemptApplied :: "hire_snapshot \<Rightarrow> pearl_state \<Rightarrow> bool \<times> int \<times> bool" where
  "PearlHireAttemptApplied snap s =
     (if time_is_zero (sn_At snap) \<or> sn_PlaceID snap \<le> 0 \<or> sn_TargetUID snap \<le> 0 then (False, 0, False)
      else case map_of (ps_places s) (sn_PlaceID snap) of
        None \<Rightarrow> (False, 0, False)
      | Some place \<Rightarrow>
          if pp_UTimeMs place = sn_PreviousPlaceUTimeMs snap \<or> \<not> pp_HireFailCntObserved place then (False, 0, False)
          else if 0 < pp_HireFailCnt place then (False, pp_HireFailCnt place, True)
          else if pp_LaborUID place \<noteq> sn_TargetUID snap \<or> pp_LaborEndTime place \<le> to_unix_milli (sn_At snap) \<or>
                  get_or 0 (ps_inventory s) pearlHireTicketItemID \<noteq> sn_TicketCount snap - 1
          then (False, 0, False)
          else (True, 0, True))"

definition PearlHireTicketDecreased :: "hire_snapshot \<Rightarrow> pearl_state \<Rightarrow> bool" where
  "PearlHireTicketDecreased snap s \<longleftrightarrow>
     \<not> (time_is_zero (sn_At snap) \<or> sn_TicketCount snap \<le> 0) \<and>
     get_or 0 (ps_inventory s) pearlHireTicketItemID = sn_TicketCount snap - 1"

text \<open>Field 3.0 of the answer, as decoded: the wire's \<open>$ext.iv\<close>.\<close>

datatype wire_iv =
    NotAnObject
  | NoNamespace
  | NamespaceNoObject
  | NoIv
  | NullIv
  | InexactIv
  | Iv int

datatype gold_fallback = NoFallback | GoldFallback | MalformedFallback

definition pearlHireGoldFallback :: "wire_iv \<Rightarrow> gold_fallback" where
  "pearlHireGoldFallback iv =
     (case iv of
        NotAnObject \<Rightarrow> MalformedFallback
      | NoNamespace \<Rightarrow> NoFallback
      | NamespaceNoObject \<Rightarrow> MalformedFallback
      | NoIv \<Rightarrow> NoFallback
      | NullIv \<Rightarrow> MalformedFallback
      | InexactIv \<Rightarrow> MalformedFallback
      | Iv v \<Rightarrow> if v \<noteq> 0 then GoldFallback else NoFallback)"

text \<open>
  What comes back from the request once it is sent: an error (whether it is the typed rejection of a
  taken candidate without payload, and whether the raw answer carries one), or an answer with the
  change its payload makes to the state and its field 3.0, \<open>None\<close> without payload.
\<close>

datatype hire_reply =
    ReplyError bool bool
  | ReplyAnswer "((pearl_state \<Rightarrow> pearl_state) \<times> wire_iv) option"

datatype hire_result =
    HireRejected
  | HireNotSent
  | HireTaken
  | HireUnclear
  | HireContested int
  | HireMalformed
  | HireFallback bool
  | HirePostcondition
  | HireDone

text \<open>
  One call: the operation, the policy that \<open>CyclicNotePearlPolicy\<close> permits at the two checks
  (\<open>None\<close> when it has been revoked), the moments of the clock, the state at each moment, whether the
  other admission checks of the request passed, the reply, and the outcome of counting the ticket.
\<close>

record hire_call =
  hx_op :: planned_op
  hx_permit1 :: "pearl_policy option option"
  hx_started :: time
  hx_state1 :: pearl_state
  hx_admitted :: bool
  hx_permit2 :: "pearl_policy option option"
  hx_sent :: time
  hx_state2 :: pearl_state
  hx_reply :: hire_reply
  hx_state3 :: pearl_state
  hx_finished :: time
  hx_ready :: bool
  hx_outcome :: sql_outcome
  hx_account :: int

definition hire_preflight ::
  "pearl_hire_config option \<Rightarrow> pearl_policy option option \<Rightarrow> pearl_state \<Rightarrow> planned_op \<Rightarrow> time \<Rightarrow> hire_snapshot option" where
  "hire_preflight catalog permit s x at =
     (case permit of
        None \<Rightarrow> None
      | Some policy \<Rightarrow>
          if ValidateSafePearlHire catalog s policy x at \<noteq> None then None
          else PearlHireAttemptSnapshot (op_TargetID x) (op_TargetUID x) at s)"

definition rejectionUnchanged :: "hire_snapshot \<Rightarrow> time \<Rightarrow> pearl_state \<Rightarrow> bool" where
  "rejectionUnchanged before now s \<longleftrightarrow>
     (case PearlHireAttemptSnapshot (sn_PlaceID before) (sn_TargetUID before) now s of
        None \<Rightarrow> False
      | Some after \<Rightarrow>
          sn_TicketCount after = sn_TicketCount before \<and> sn_PreviousPlaceUTimeMs after = sn_PreviousPlaceUTimeMs before)"

definition lock_and_fail :: "string \<Rightarrow> hire_snapshot \<Rightarrow> time \<Rightarrow> pearl_state \<Rightarrow> pearl_state" where
  "lock_and_fail reason snap at s = MarkPearlHireFailed (sn_TargetUID snap) at (LockPearlHireSession reason s)"

definition count_ticket ::
  "hire_call \<Rightarrow> hire_snapshot \<Rightarrow> day_row option \<Rightarrow> pearl_state \<Rightarrow> day_row option \<times> pearl_state" where
  "count_ticket c snap row s =
     (if \<not> PearlHireTicketDecreased snap s then (row, s)
      else case notePearlHireTicketUsed (hx_ready c) (hx_outcome c) (hx_account c) (hx_finished c) row (ps_days s) of
        (row', days) \<Rightarrow> (row', s\<lparr>ps_days := days\<rparr>))"

definition settle_hire ::
  "hire_call \<Rightarrow> hire_snapshot \<Rightarrow> day_row option \<Rightarrow> day_row option \<times> pearl_state \<times> hire_result" where
  "settle_hire c snap row =
     (case hx_reply c of
        ReplyError taken payload \<Rightarrow>
          if taken \<and> \<not> payload \<and> rejectionUnchanged snap (hx_finished c) (hx_state3 c)
          then (row, MarkPearlHireFailed (sn_TargetUID snap) (hx_finished c) (hx_state3 c), HireTaken)
          else (row, lock_and_fail lit_pearl_lock_unclear snap (hx_finished c) (hx_state3 c), HireUnclear)
      | ReplyAnswer answer \<Rightarrow>
          let fallback = (case answer of None \<Rightarrow> NoFallback | Some (_, iv) \<Rightarrow> pearlHireGoldFallback iv);
              s1 = (case answer of None \<Rightarrow> hx_state3 c | Some (delta, _) \<Rightarrow> delta (hx_state3 c));
              counted = count_ticket c snap row s1;
              row2 = fst counted; s2 = snd counted;
              ticketSpent = PearlHireTicketDecreased snap s1
          in (case PearlHireAttemptApplied snap s2 of
                (success, failCount, known) \<Rightarrow>
                  if known \<and> 0 < failCount
                  then (row2, MarkPearlHireFailed (sn_TargetUID snap) (hx_finished c) s2, HireContested failCount)
                  else if fallback = MalformedFallback
                  then (row2, lock_and_fail lit_pearl_lock_field snap (hx_finished c) s2, HireMalformed)
                  else if fallback = GoldFallback
                  then (row2, SkipPearlHireCandidate (sn_TargetUID snap) s2, HireFallback ticketSpent)
                  else if \<not> success
                  then (row2, lock_and_fail lit_pearl_lock_post snap (hx_finished c) s2, HirePostcondition)
                  else (row2, s2, HireDone)))"

definition executePearlHire ::
  "pearl_hire_config option \<Rightarrow> hire_call \<Rightarrow> day_row option \<Rightarrow> day_row option \<times> pearl_state \<times> hire_result" where
  "executePearlHire catalog c row =
     (case hire_preflight catalog (hx_permit1 c) (hx_state1 c) (hx_op c) (hx_started c) of
        None \<Rightarrow> (row, hx_state1 c, HireRejected)
      | Some _ \<Rightarrow>
          if \<not> hx_admitted c then (row, hx_state2 c, HireNotSent)
          else
            (case hire_preflight catalog (hx_permit2 c) (hx_state2 c) (hx_op c) (hx_sent c) of
               None \<Rightarrow> (row, hx_state2 c, HireNotSent)
             | Some snap \<Rightarrow> settle_hire c snap row))"

text \<open>The reads before the request: none when the evidence on the candidate is under half a minute old.\<close>

datatype prepare_step = PrepareFailed hire_rejection | PrepareReady | PrepareReads int

definition preparePearlHireCandidate ::
  "pearl_hire_config option \<Rightarrow> pearl_policy option \<Rightarrow> pearl_state \<Rightarrow> planned_op \<Rightarrow> time \<Rightarrow> prepare_step" where
  "preparePearlHireCandidate catalog policy s x now =
     (case ValidatePearlHireCandidate catalog s policy x now of
        Some e \<Rightarrow> PrepareFailed e
      | None \<Rightarrow> if PearlHireCandidateFresh s (op_TargetUID x) now then PrepareReady else PrepareReads (op_TargetUID x))"

section \<open>What an accepted hire is\<close>

lemma accepted_candidate:
  assumes "ValidatePearlHireCandidate catalog s policy x now = None"
  obtains p y where "policy = Some p" "PlanOneSafePearlHire catalog s (Some p) now (op_intent x) = Some y"
    "op_Kind y = RPCPearlPlaceHire" "op_TargetID y = op_TargetID x" "op_TargetUID y = op_TargetUID x"
  using assms by (cases policy) (auto simp: ValidatePearlHireCandidate_def PlanOneSafePearlHire_def Let_def split: option.splits if_splits)

lemma preflight_hireable:
  assumes "hire_preflight catalog permit s x at = Some snap"
  shows "\<exists>p config. permit = Some (Some p) \<and> catalog = Some config \<and>
      hireable config (PearlHireAt s at) p at (sn_PlaceID snap) (sn_TargetUID snap)"
    "sn_PlaceID snap = op_TargetID x" "sn_TargetUID snap = op_TargetUID x" "0 < sn_TargetUID snap" "0 < sn_PlaceID snap"
    "sn_At snap = at" "\<not> time_is_zero at"
    "sn_TicketCount snap = get_or 0 (ps_inventory s) pearlHireTicketItemID"
proof -
  obtain policy where permit: "permit = Some policy" and ok: "ValidateSafePearlHire catalog s policy x at = None"
    and snap: "PearlHireAttemptSnapshot (op_TargetID x) (op_TargetUID x) at s = Some snap"
    using assms by (auto simp: hire_preflight_def split: option.splits if_splits)
  have v: "ValidatePearlHireCandidate catalog s policy x at = None"
    using ok by (auto simp: ValidateSafePearlHire_def split: option.splits)
  show basics: "sn_PlaceID snap = op_TargetID x" "sn_TargetUID snap = op_TargetUID x" "0 < sn_TargetUID snap"
    "0 < sn_PlaceID snap" "sn_At snap = at" "\<not> time_is_zero at"
    "sn_TicketCount snap = get_or 0 (ps_inventory s) pearlHireTicketItemID"
    using snap by (auto simp: PearlHireAttemptSnapshot_def split: if_splits option.splits)
  obtain p y where y: "policy = Some p" "PlanOneSafePearlHire catalog s (Some p) at (op_intent x) = Some y"
    "op_Kind y = RPCPearlPlaceHire" "op_TargetID y = op_TargetID x" "op_TargetUID y = op_TargetUID x"
    using accepted_candidate [OF v] .
  obtain config where "catalog = Some config" "hireable config (PearlHireAt s at) p at (op_TargetID y) (op_TargetUID y)"
    using hire_planned [of catalog "PearlHireAt s at" p at "normalizePearlHireIntent (op_intent x)"] y(2,3)
    by (auto simp: PlanOneSafePearlHire_def split: if_splits)
  then show "\<exists>p config. permit = Some (Some p) \<and> catalog = Some config \<and>
      hireable config (PearlHireAt s at) p at (sn_PlaceID snap) (sn_TargetUID snap)"
    using permit y(1,4,5) basics(1,2) by auto
qed

text \<open>What the planner names, the request builders take.\<close>

lemma hire_request_taken:
  "0 < placeID \<Longrightarrow> 0 < uid \<Longrightarrow> pearlHireRequest (pearl_hire_op intent placeID uid reason) = Inr (placeID, uid)"
  by (simp add: pearlHireRequest_def pearl_hire_op_def pearlHireBaseOp_def zero_op_def plannedOpHasCyclicNoteTargets_def get_or_def)

lemma checked_uids:
  "distinct uids \<Longrightarrow> \<forall>u \<in> set uids. 0 < u \<and> u \<notin> set seen \<Longrightarrow> check_uids seen uids = None"
proof (induction uids arbitrary: seen)
  case (Cons u uids)
  have "\<forall>v \<in> set uids. 0 < v \<and> v \<notin> set (u # seen)" using Cons.prems by auto
  with Cons show ?case by simp
qed simp

lemma sync_request_taken:
  "distinct uids \<Longrightarrow> \<forall>u \<in> set uids. 0 < u \<Longrightarrow> (uids \<noteq> []) = requireUIDs \<Longrightarrow>
     validatePearlCandidateSyncOperation (pearlHireSyncOp kind intent source reason uids priority) requireUIDs = None"
  by (simp add: validatePearlCandidateSyncOperation_def pearlHireSyncOp_def pearlHireBaseOp_def zero_op_def
      plannedOpHasCyclicNoteTargets_def checked_uids)

section \<open>Fences of a session\<close>

text \<open>The lock, the skipped candidates and the cool-downs: what a doubtful hire leaves behind.\<close>

definition fences :: "pearl_state \<Rightarrow> bool \<times> int list \<times> (int, int) gomap" where
  "fences s = (ps_sessionLocked s, ps_skipped s, ps_failedUntil s)"

text \<open>Everything else that happens to the state leaves them alone, a transport reconnect included.\<close>

lemma observations_keep_fences:
  "fences (applyPearlFriends hasBase parsed s) = fences s"
  "fences (ResetPearlHireObservations s) = fences s"
  by (simp_all add: fences_def applyPearlFriends_def ResetPearlHireObservations_def split_def)

definition sent :: "hire_result \<Rightarrow> bool" where
  "sent r \<longleftrightarrow> r \<noteq> HireRejected \<and> r \<noteq> HireNotSent"

definition locking :: "hire_result \<Rightarrow> bool" where
  "locking r \<longleftrightarrow> r = HireUnclear \<or> r = HireMalformed \<or> r = HirePostcondition"

definition cooling_down :: "hire_result \<Rightarrow> bool" where
  "cooling_down r \<longleftrightarrow> locking r \<or> r = HireTaken \<or> (\<exists>n. r = HireContested n)"

definition cooled :: "pearl_state \<Rightarrow> int \<Rightarrow> int" where
  "cooled s uid = get_or 0 (ps_failedUntil s) uid"

lemma mark_failed_fences [simp]:
  "ps_sessionLocked (MarkPearlHireFailed uid at s) = ps_sessionLocked s"
  "ps_skipped (MarkPearlHireFailed uid at s) = ps_skipped s"
  "cooled (MarkPearlHireFailed uid at s) u =
     (if u = uid \<and> 0 < uid \<and> \<not> time_is_zero at then to_unix_milli (at + minute) else cooled s u)"
  by (simp_all add: MarkPearlHireFailed_def cooled_def)

lemma other_fences [simp]:
  "ps_sessionLocked (SkipPearlHireCandidate uid s) = ps_sessionLocked s"
  "ps_skipped (LockPearlHireSession r s) = ps_skipped s" "ps_sessionLocked (LockPearlHireSession r s)"
  "cooled (SkipPearlHireCandidate uid s) u = cooled s u" "cooled (LockPearlHireSession r s) u = cooled s u"
  "set (ps_skipped (SkipPearlHireCandidate uid s)) = (if 0 < uid then {uid} else {}) \<union> set (ps_skipped s)"
  by (auto simp: SkipPearlHireCandidate_def LockPearlHireSession_def cooled_def)

lemma count_ticket_fences [simp]: "fences (snd (count_ticket c snap row s)) = fences s"
  by (simp add: count_ticket_def fences_def split: prod.splits)

text \<open>One call of the executor, from the state before it to the state after it.\<close>

lemma settled:
  assumes r: "settle_hire c snap row = (row', s', r)"
    and same: "fences (hx_state3 c) = fences s" "\<forall>delta iv. hx_reply c = ReplyAnswer (Some (delta, iv)) \<longrightarrow> fences (delta (hx_state3 c)) = fences s"
    and snap: "0 < sn_TargetUID snap" "\<not> time_is_zero (hx_finished c)"
  shows "sent r" "ps_sessionLocked s' \<longleftrightarrow> ps_sessionLocked s \<or> locking r"
    "set (ps_skipped s') = set (ps_skipped s) \<union> (if \<exists>b. r = HireFallback b then {sn_TargetUID snap} else {})"
    "cooled s' u = (if u = sn_TargetUID snap \<and> cooling_down r then to_unix_milli (hx_finished c + minute) else cooled s u)"
proof -
  have f3: "ps_sessionLocked (hx_state3 c) = ps_sessionLocked s" "ps_skipped (hx_state3 c) = ps_skipped s"
    "cooled (hx_state3 c) u = cooled s u"
    using same(1) by (auto simp: fences_def cooled_def)
  have "sent r \<and> (ps_sessionLocked s' \<longleftrightarrow> ps_sessionLocked s \<or> locking r) \<and>
    set (ps_skipped s') = set (ps_skipped s) \<union> (if \<exists>b. r = HireFallback b then {sn_TargetUID snap} else {}) \<and>
    cooled s' u = (if u = sn_TargetUID snap \<and> cooling_down r then to_unix_milli (hx_finished c + minute) else cooled s u)"
  proof (cases "hx_reply c")
    case (ReplyError taken payload)
    then show ?thesis using r f3 snap
      by (auto simp: settle_hire_def lock_and_fail_def sent_def locking_def cooling_down_def split: if_splits)
  next
    case (ReplyAnswer answer)
    define s1 where "s1 = (case answer of None \<Rightarrow> hx_state3 c | Some (delta, _) \<Rightarrow> delta (hx_state3 c))"
    define s2 where "s2 = snd (count_ticket c snap row s1)"
    have "fences s2 = fences s"
      unfolding s2_def count_ticket_fences s1_def using same ReplyAnswer by (auto split: option.splits)
    then have f2: "ps_sessionLocked s2 = ps_sessionLocked s" "ps_skipped s2 = ps_skipped s" "cooled s2 u = cooled s u"
      by (auto simp: fences_def cooled_def)
    obtain ok n known where app: "PearlHireAttemptApplied snap s2 = (ok, n, known)" by (cases "PearlHireAttemptApplied snap s2")
    have eq: "(row', s', r) = (let row2 = fst (count_ticket c snap row s1);
        fallback = (case answer of None \<Rightarrow> NoFallback | Some (_, iv) \<Rightarrow> pearlHireGoldFallback iv)
      in if known \<and> 0 < n then (row2, MarkPearlHireFailed (sn_TargetUID snap) (hx_finished c) s2, HireContested n)
         else if fallback = MalformedFallback then (row2, lock_and_fail lit_pearl_lock_field snap (hx_finished c) s2, HireMalformed)
         else if fallback = GoldFallback
         then (row2, SkipPearlHireCandidate (sn_TargetUID snap) s2, HireFallback (PearlHireTicketDecreased snap s1))
         else if \<not> ok then (row2, lock_and_fail lit_pearl_lock_post snap (hx_finished c) s2, HirePostcondition)
         else (row2, s2, HireDone))"
      using r unfolding settle_hire_def ReplyAnswer hire_reply.case Let_def
      unfolding s1_def [symmetric] s2_def [symmetric] app by simp
    show ?thesis
      using eq f2 snap unfolding Let_def lock_and_fail_def
      by (auto simp: sent_def locking_def cooling_down_def split: if_splits)
  qed
  then show "sent r" "ps_sessionLocked s' \<longleftrightarrow> ps_sessionLocked s \<or> locking r"
    "set (ps_skipped s') = set (ps_skipped s) \<union> (if \<exists>b. r = HireFallback b then {sn_TargetUID snap} else {})"
    "cooled s' u = (if u = sn_TargetUID snap \<and> cooling_down r then to_unix_milli (hx_finished c + minute) else cooled s u)"
    by blast+
qed

text \<open>
  A run of one session: other changes to the state that keep the fences, and hires, whose checks and
  replies see states with the same fences.  The log keeps each call that was sent, with its result.
\<close>

record hire_entry =
  he_uid :: int
  he_sent :: time
  he_finished :: time
  he_result :: hire_result

definition call_in_session :: "time \<Rightarrow> pearl_state \<Rightarrow> hire_call \<Rightarrow> bool" where
  "call_in_session t s c \<longleftrightarrow>
     t \<le> hx_started c \<and> hx_started c \<le> hx_sent c \<and> hx_sent c \<le> hx_finished c \<and>
     fences (hx_state1 c) = fences s \<and> fences (hx_state2 c) = fences s \<and> fences (hx_state3 c) = fences s \<and>
     (\<forall>delta iv. hx_reply c = ReplyAnswer (Some (delta, iv)) \<longrightarrow> fences (delta (hx_state3 c)) = fences s)"

definition logged :: "hire_call \<Rightarrow> hire_result \<Rightarrow> hire_entry list" where
  "logged c r =
     (if sent r
      then [\<lparr>he_uid = op_TargetUID (hx_op c), he_sent = hx_sent c, he_finished = hx_finished c, he_result = r\<rparr>]
      else [])"

inductive hire_run :: "pearl_hire_config option \<Rightarrow> time \<Rightarrow> pearl_state \<Rightarrow> hire_entry list \<Rightarrow> bool"
  for catalog where
  start: "0 \<le> t \<Longrightarrow> hire_run catalog t (ResetPearlHireSession s) []"
| other: "hire_run catalog t s log \<Longrightarrow> t \<le> t' \<Longrightarrow> fences s' = fences s \<Longrightarrow> hire_run catalog t' s' log"
| hire: "hire_run catalog t s log \<Longrightarrow> call_in_session t s c \<Longrightarrow>
    executePearlHire catalog c row = (row', s', r) \<Longrightarrow> hire_run catalog (hx_finished c) s' (log @ logged c r)"

definition fenced :: "pearl_state \<Rightarrow> hire_entry \<Rightarrow> bool" where
  "fenced s e \<longleftrightarrow>
     (locking (he_result e) \<longrightarrow> ps_sessionLocked s) \<and>
     ((\<exists>b. he_result e = HireFallback b) \<longrightarrow> he_uid e \<in> set (ps_skipped s)) \<and>
     (cooling_down (he_result e) \<longrightarrow> to_unix_milli (he_finished e + minute) \<le> cooled s (he_uid e))"

text \<open>What an earlier entry forbids a later one.\<close>

definition clear_of :: "hire_entry \<Rightarrow> hire_entry \<Rightarrow> bool" where
  "clear_of e e' \<longleftrightarrow>
     \<not> locking (he_result e) \<and>
     ((\<exists>b. he_result e = HireFallback b) \<longrightarrow> he_uid e' \<noteq> he_uid e) \<and>
     (cooling_down (he_result e) \<and> he_uid e' = he_uid e \<longrightarrow> to_unix_milli (he_finished e + minute) \<le> to_unix_milli (he_sent e'))"

lemma executed:
  assumes x: "executePearlHire catalog c row = (row', s', r)" and c: "call_in_session t s c" and t: "0 \<le> t"
  shows "\<not> sent r \<Longrightarrow> fences s' = fences s"
    "sent r \<Longrightarrow> \<exists>snap. settle_hire c snap row = (row', s', r) \<and> sn_TargetUID snap = op_TargetUID (hx_op c) \<and>
      0 < op_TargetUID (hx_op c) \<and> \<not> ps_sessionLocked s \<and> op_TargetUID (hx_op c) \<notin> set (ps_skipped s) \<and>
      cooled s (op_TargetUID (hx_op c)) \<le> to_unix_milli (hx_sent c)"
proof -
  have fin: "\<not> time_is_zero (hx_finished c)"
    using c t by (auto simp: call_in_session_def time_is_zero_def zero_time_def)
  have f: "fences (hx_state1 c) = fences s" "fences (hx_state2 c) = fences s" using c by (auto simp: call_in_session_def)
  consider (rejected) "r = HireRejected" "s' = hx_state1 c" | (unsent) "r = HireNotSent" "s' = hx_state2 c"
    | (sent) snap where "hire_preflight catalog (hx_permit2 c) (hx_state2 c) (hx_op c) (hx_sent c) = Some snap"
        "settle_hire c snap row = (row', s', r)"
    using x unfolding executePearlHire_def by (auto split: option.splits if_splits)
  then have "(\<not> sent r \<longrightarrow> fences s' = fences s) \<and>
    (sent r \<longrightarrow> (\<exists>snap. settle_hire c snap row = (row', s', r) \<and> sn_TargetUID snap = op_TargetUID (hx_op c) \<and>
      0 < op_TargetUID (hx_op c) \<and> \<not> ps_sessionLocked s \<and> op_TargetUID (hx_op c) \<notin> set (ps_skipped s) \<and>
      cooled s (op_TargetUID (hx_op c)) \<le> to_unix_milli (hx_sent c)))"
  proof cases
    case rejected
    then show ?thesis using f(1) by (simp add: sent_def)
  next
    case unsent
    then show ?thesis using f(2) by (simp add: sent_def)
  next
    case sent
    note pre = preflight_hireable [OF sent(1)]
    obtain p config where h: "hireable config (PearlHireAt (hx_state2 c) (hx_sent c)) p (hx_sent c) (sn_PlaceID snap) (sn_TargetUID snap)"
      using pre(1) by blast
    have s2: "ps_sessionLocked (hx_state2 c) = ps_sessionLocked s" "ps_skipped (hx_state2 c) = ps_skipped s"
      "ps_failedUntil (hx_state2 c) = ps_failedUntil s" using f(2) by (auto simp: fences_def)
    have "\<not> ps_sessionLocked s \<and> sn_TargetUID snap \<notin> set (ps_skipped s) \<and> cooled s (sn_TargetUID snap) \<le> to_unix_milli (hx_sent c)"
      using h s2 by (auto simp: hireable_def candidate_open_def PearlHireAt_def cooled_def split: option.splits prod.splits)
    moreover have "sent r"
      using settled(1) [OF sent(2) _ _ pre(4) fin, of s] c unfolding call_in_session_def by blast
    ultimately show ?thesis using sent(2) pre(3,4) by metis
  qed
  then show "\<not> sent r \<Longrightarrow> fences s' = fences s"
    "sent r \<Longrightarrow> \<exists>snap. settle_hire c snap row = (row', s', r) \<and> sn_TargetUID snap = op_TargetUID (hx_op c) \<and>
      0 < op_TargetUID (hx_op c) \<and> \<not> ps_sessionLocked s \<and> op_TargetUID (hx_op c) \<notin> set (ps_skipped s) \<and>
      cooled s (op_TargetUID (hx_op c)) \<le> to_unix_milli (hx_sent c)"
    by blast+
qed

lemma minute_later: "a \<le> b \<Longrightarrow> to_unix_milli (a + minute) \<le> to_unix_milli (b + minute)"
  by (rule to_unix_milli_mono) simp

lemma hire_run_inv:
  "hire_run catalog t s log \<Longrightarrow>
     0 \<le> t \<and> (\<forall>e \<in> set log. fenced s e \<and> he_finished e \<le> t) \<and> sorted_wrt clear_of log"
proof (induction rule: hire_run.induct)
  case (other t s log t' s')
  have same: "ps_sessionLocked s' = ps_sessionLocked s" "ps_skipped s' = ps_skipped s" "ps_failedUntil s' = ps_failedUntil s"
    using other.hyps(3) by (auto simp: fences_def)
  have "fenced s' e \<longleftrightarrow> fenced s e" for e by (simp add: fenced_def cooled_def same)
  then show ?case using other by fastforce
next
  case (hire t s log c row row' s' r)
  have t: "0 \<le> t" using hire.IH by simp
  have fin: "t \<le> hx_finished c" "0 \<le> hx_finished c" "\<not> time_is_zero (hx_finished c)"
    using hire.hyps(2) t by (auto simp: call_in_session_def time_is_zero_def zero_time_def)
  show ?case
  proof (cases "sent r")
    case False
    have "fences s' = fences s" by (rule executed(1) [OF hire.hyps(3,2) t False])
    then have same: "ps_sessionLocked s' = ps_sessionLocked s" "ps_skipped s' = ps_skipped s" "ps_failedUntil s' = ps_failedUntil s"
      by (auto simp: fences_def)
    have "fenced s' e \<longleftrightarrow> fenced s e" for e by (simp add: fenced_def cooled_def same)
    then show ?thesis using hire.IH fin False by (fastforce simp: logged_def)
  next
    case True
    let ?u = "op_TargetUID (hx_op c)"
    let ?e = "\<lparr>he_uid = ?u, he_sent = hx_sent c, he_finished = hx_finished c, he_result = r\<rparr>"
    obtain snap where snap: "settle_hire c snap row = (row', s', r)" "sn_TargetUID snap = ?u" "0 < ?u"
      and before: "\<not> ps_sessionLocked s" "?u \<notin> set (ps_skipped s)" "cooled s ?u \<le> to_unix_milli (hx_sent c)"
      using executed(2) [OF hire.hyps(3,2) t True] by blast
    have c3: "fences (hx_state3 c) = fences s"
      "\<forall>delta iv. hx_reply c = ReplyAnswer (Some (delta, iv)) \<longrightarrow> fences (delta (hx_state3 c)) = fences s"
      using hire.hyps(2) by (auto simp: call_in_session_def)
    have pos: "0 < sn_TargetUID snap" using snap(2,3) by simp
    note after = settled [OF snap(1) c3(1) c3(2) pos fin(3), unfolded snap(2)]
    have lock: "ps_sessionLocked s' \<longleftrightarrow> ps_sessionLocked s \<or> locking r"
      and skip: "set (ps_skipped s') = set (ps_skipped s) \<union> (if \<exists>b. r = HireFallback b then {?u} else {})"
      and cool: "\<And>u. cooled s' u = (if u = ?u \<and> cooling_down r then to_unix_milli (hx_finished c + minute) else cooled s u)"
      using after by blast+
    have old: "fenced s' e" if "fenced s e" "he_finished e \<le> t" for e
      using that lock skip cool minute_later [of "he_finished e" "hx_finished c"] fin(1)
      unfolding fenced_def by (auto split: if_splits)
    have new: "fenced s' ?e" using lock skip cool by (auto simp: fenced_def)
    have resp: "clear_of e ?e" if "fenced s e" for e
      using that before unfolding fenced_def clear_of_def by auto
    show ?thesis
      using hire.IH fin old new resp True by (fastforce simp: logged_def sorted_wrt_append)
  qed
qed simp

text \<open>
  C34.  Within one session a doubtful hire is never repeated.  Once the answer to a hire was
  unclear, malformed or short of its postcondition, no further hire is sent; a candidate the server
  offered for gold is never hired again; a candidate that was taken, contested or doubtful is not tried
  again before a minute has passed, however the hires, the reconnects and the updates interleave.
\<close>

theorem hires_fenced:
  assumes "hire_run catalog t s (xs @ e # ys)" "e' \<in> set ys"
  shows "\<not> locking (he_result e) \<and>
    (he_uid e' = he_uid e \<longrightarrow>
       (\<forall>b. he_result e \<noteq> HireFallback b) \<and>
       (cooling_down (he_result e) \<longrightarrow> to_unix_milli (he_finished e + minute) \<le> to_unix_milli (he_sent e')))"
proof -
  have "sorted_wrt clear_of (xs @ e # ys)" using hire_run_inv [OF assms(1)] by blast
  then have "clear_of e e'" using assms(2) by (simp add: sorted_wrt_append)
  then show ?thesis unfolding clear_of_def by blast
qed

definition taken_call :: hire_call where
  "taken_call =
     \<lparr>hx_op = hire_of_8, hx_permit1 = Some (Some hire_policy), hx_started = unix_milli 2000, hx_state1 = hire_state,
      hx_admitted = True, hx_permit2 = Some (Some hire_policy), hx_sent = unix_milli 2000, hx_state2 = hire_state,
      hx_reply = ReplyError True False, hx_state3 = hire_state, hx_finished = unix_milli 2000,
      hx_ready = True, hx_outcome = SqlOk, hx_account = 1\<rparr>"

definition cooled_state :: pearl_state where
  "cooled_state = hire_state\<lparr>ps_failedUntil := [(8, 62000)],
     ps_profiles := [(8, \<lparr>pf_UID = 8, pf_Name = ''Ann'', pf_Level = 5, pf_LevelObserved = True, pf_ObservedAtMs = 70000\<rparr>)],
     ps_hireStates := [(8, \<lparr>hs_UID = 8, hs_LaborEndTimeMs = 0, hs_ObservedAtMs = 70000\<rparr>)]\<rparr>"

definition hired_place :: pearl_place where
  "hired_place = \<lparr>pp_LaborUID = 8, pp_LaborEndTime = 99000, pp_HireFailCnt = 0, pp_EveryMakeNum = 0, pp_RecvCnt = 0,
     pp_SurplusRecvNum = 0, pp_UTimeMs = 6, pp_LaborUIDObserved = True, pp_LaborEndTimeObserved = True,
     pp_HireFailCntObserved = True, pp_EveryMakeNumObserved = True, pp_RecvCntObserved = True, pp_SurplusRecvNumObserved = True\<rparr>"

definition hired :: "pearl_state \<Rightarrow> pearl_state" where
  "hired s = s\<lparr>ps_inventory := [(1003, 1)], ps_places := [(1, hired_place)]\<rparr>"

definition done_call :: hire_call where
  "done_call =
     \<lparr>hx_op = hire_of_8, hx_permit1 = Some (Some hire_policy), hx_started = unix_milli 70000, hx_state1 = cooled_state,
      hx_admitted = True, hx_permit2 = Some (Some hire_policy), hx_sent = unix_milli 70000, hx_state2 = cooled_state,
      hx_reply = ReplyAnswer (Some (hired, NoIv)), hx_state3 = cooled_state, hx_finished = unix_milli 70000,
      hx_ready = True, hx_outcome = SqlOk, hx_account = 1\<rparr>"

lemma taken_call_result:
  "executePearlHire (Some hire_catalog) taken_call None =
     (None, MarkPearlHireFailed 8 (unix_milli 2000) hire_state, HireTaken)"
  by code_simp

lemma done_call_result:
  "snd (snd (executePearlHire (Some hire_catalog) done_call None)) = HireDone"
  by code_simp

text \<open>Taken by somebody else at two seconds, hired at seventy.\<close>

theorem hires_fenced_witness:
  "\<exists>s e e'. hire_run (Some hire_catalog) (unix_milli 70000) s ([] @ e # [e']) \<and> he_result e = HireTaken \<and>
     he_result e' = HireDone \<and> he_uid e = 8 \<and> he_uid e' = 8 \<and>
     to_unix_milli (he_finished e + minute) \<le> to_unix_milli (he_sent e')"
proof -
  let ?cat = "Some hire_catalog"
  let ?e = "\<lparr>he_uid = 8, he_sent = unix_milli 2000, he_finished = unix_milli 2000, he_result = HireTaken\<rparr>"
  let ?e' = "\<lparr>he_uid = 8, he_sent = unix_milli 70000, he_finished = unix_milli 70000, he_result = HireDone\<rparr>"
  have u: "op_TargetUID hire_of_8 = 8" by (simp add: hire_of_8_def)
  have 0: "hire_run ?cat 0 (ResetPearlHireSession hire_state) []" by (rule hire_run.start) simp
  have "fences hire_state = fences (ResetPearlHireSession hire_state)"
    by (simp add: fences_def hire_state_def ResetPearlHireSession_def)
  then have 1: "hire_run ?cat 0 hire_state []" by (rule hire_run.other [OF 0 order.refl])
  have "call_in_session 0 hire_state taken_call"
    by (simp add: call_in_session_def taken_call_def unix_milli_def millisecond_def)
  from hire_run.hire [OF 1 this taken_call_result]
  have 2: "hire_run ?cat (unix_milli 2000) (MarkPearlHireFailed 8 (unix_milli 2000) hire_state) [?e]"
    by (simp add: logged_def sent_def taken_call_def u)
  have "fences cooled_state = fences (MarkPearlHireFailed 8 (unix_milli 2000) hire_state)"
    by code_simp
  then have 3: "hire_run ?cat (unix_milli 2000) cooled_state [?e]" by (rule hire_run.other [OF 2 order.refl])
  have c: "call_in_session (unix_milli 2000) cooled_state done_call"
    by (simp add: call_in_session_def done_call_def hired_def fences_def)
  obtain row' s' where r: "executePearlHire ?cat done_call None = (row', s', HireDone)"
    using done_call_result by (metis prod.collapse)
  from hire_run.hire [OF 3 c r]
  have 4: "hire_run ?cat (unix_milli 70000) s' ([] @ ?e # [?e'])" by (simp add: logged_def sent_def done_call_def u)
  from hires_fenced [OF 4, of ?e'] show ?thesis
    by (intro exI [of _ s'] exI [of _ ?e] exI [of _ ?e'] conjI 4) (simp_all add: cooling_down_def)
qed

text \<open>A hire that counts as done left exactly the slot, the worker and the ticket it was meant to.\<close>

lemma hire_done_exact:
  assumes "executePearlHire catalog c row = (row', s', HireDone)" "hx_sent c \<le> hx_finished c" "0 \<le> hx_sent c"
  shows "\<exists>place. map_of (ps_places s') (op_TargetID (hx_op c)) = Some place \<and> pp_LaborUID place = op_TargetUID (hx_op c) \<and>
    pp_HireFailCnt place \<le> 0 \<and> to_unix_milli (hx_sent c) < pp_LaborEndTime place \<and>
    get_or 0 (ps_inventory s') 1003 = get_or 0 (ps_inventory (hx_state2 c)) 1003 - 1"
proof -
  obtain snap where pre: "hire_preflight catalog (hx_permit2 c) (hx_state2 c) (hx_op c) (hx_sent c) = Some snap"
    and s: "settle_hire c snap row = (row', s', HireDone)"
    using assms(1) unfolding executePearlHire_def by (auto split: option.splits if_splits)
  note p = preflight_hireable [OF pre]
  have "\<exists>n known. PearlHireAttemptApplied snap s' = (True, n, known)"
    using s unfolding settle_hire_def Let_def
    by (auto split: hire_reply.splits option.splits prod.splits if_splits)
  then show ?thesis using p unfolding PearlHireAttemptApplied_def
    by (auto split: if_splits option.splits)
qed

end
