(* ===== verification/Stable.thy ===== *)
theory Stable
  imports "HOL-Library.Word" Prelude
begin

text \<open>
  The retry loop of \<open>BuildPlan\<close> (\<open>automation/planner.go\<close>): a plan is computed through many separate
  reads of a state that other goroutines change meanwhile, and kept only when the revision of the
  state is the same before and after.
\<close>

abbreviation "stablePlanAttempts \<equiv> (3::nat)"

text \<open>
  Time is counted in accesses to the state.  \<open>st t\<close> is the state and \<open>revn t\<close> its revision at access
  \<open>t\<close>; a computation takes the states its reads meet and returns its result and the number of reads.
\<close>

fun plan_attempts ::
  "nat \<Rightarrow> (nat \<Rightarrow> 64 word) \<Rightarrow> ((nat \<Rightarrow> 's) \<Rightarrow> 'r \<times> nat) \<Rightarrow> (nat \<Rightarrow> 's) \<Rightarrow> nat \<Rightarrow> 'r option \<times> nat" where
  "plan_attempts 0 revn build st t = (None, t)"
| "plan_attempts (Suc n) revn build st t =
     (case build (\<lambda>i. st (t + 1 + i)) of
        (result, reads) \<Rightarrow>
          if revn t = revn (t + 1 + reads) then (Some result, t + 2 + reads)
          else plan_attempts n revn build st (t + 2 + reads))"

definition BuildPlan ::
  "bool \<Rightarrow> 'r \<Rightarrow> (nat \<Rightarrow> 64 word) \<Rightarrow> ((nat \<Rightarrow> 's) \<Rightarrow> 'r \<times> nat) \<Rightarrow> (nat \<Rightarrow> 's) \<Rightarrow> nat \<Rightarrow> 'r" where
  "BuildPlan automationEnabled zero_plan revn build st t =
     (if \<not> automationEnabled then zero_plan
      else case fst (plan_attempts stablePlanAttempts revn build st t) of None \<Rightarrow> zero_plan | Some result \<Rightarrow> result)"

section \<open>What the loop relies on\<close>

text \<open>A computation depends on nothing but the states its reads meet.\<close>

definition reader :: "((nat \<Rightarrow> 's) \<Rightarrow> 'r \<times> nat) \<Rightarrow> bool" where
  "reader build \<longleftrightarrow> (\<forall>f g. (\<forall>i < snd (build f). f i = g i) \<longrightarrow> build g = build f)"

text \<open>
  The revision counts the patches modulo \<open>2\<^sup>6\<^sup>4\<close>, the state changes only with a patch, and fewer
  than \<open>2\<^sup>6\<^sup>4\<close> patches land during one computation.
\<close>

definition revised :: "(nat \<Rightarrow> nat) \<Rightarrow> (nat \<Rightarrow> 64 word) \<Rightarrow> (nat \<Rightarrow> 's) \<Rightarrow> bool" where
  "revised patches revn st \<longleftrightarrow>
     mono patches \<and> (\<forall>t. revn t = of_nat (patches t)) \<and> (\<forall>t. patches (Suc t) = patches t \<longrightarrow> st (Suc t) = st t)"

definition short_attempts :: "((nat \<Rightarrow> 's) \<Rightarrow> 'r \<times> nat) \<Rightarrow> (nat \<Rightarrow> nat) \<Rightarrow> (nat \<Rightarrow> 's) \<Rightarrow> bool" where
  "short_attempts build patches st \<longleftrightarrow>
     (\<forall>t. patches (t + 1 + snd (build (\<lambda>i. st (t + 1 + i)))) < patches t + 2 ^ 64)"

lemma same_revision:
  assumes "a \<le> b" "b < a + 2 ^ 64"
  shows "(of_nat a :: 64 word) = of_nat b \<longleftrightarrow> a = b"
proof
  assume "(of_nat a :: 64 word) = of_nat b"
  then have "unat (of_nat a :: 64 word) = unat (of_nat b :: 64 word)" by simp
  then have m: "a mod 2 ^ 64 = b mod 2 ^ 64" by (simp only: unat_of_nat) simp
  have "b - a < 2 ^ 64" using assms by linarith
  moreover have "2 ^ 64 dvd b - a" using m assms(1) by (metis mod_eq_dvd_iff_nat)
  ultimately have "b - a = 0" by (meson dvd_imp_le leD neq0_conv)
  then show "a = b" using assms(1) by linarith
qed simp

lemma quiet_state:
  assumes "revised patches revn st" "patches (t + k) = patches t"
  shows "i \<le> k \<Longrightarrow> st (t + i) = st t"
proof (induction i)
  case (Suc i)
  have m: "patches t \<le> patches (t + i)" "patches (t + i) \<le> patches (Suc (t + i))" "patches (Suc (t + i)) \<le> patches (t + k)"
    using assms(1) Suc.prems by (auto simp: revised_def intro!: monoD [of patches])
  with assms have "patches (Suc (t + i)) = patches (t + i)" by linarith
  with assms(1) Suc show ?case by (simp add: revised_def)
qed simp

lemma attempt_stable:
  assumes r: "reader build" and revn: "revised patches revn st" and few: "short_attempts build patches st"
    and b: "build (\<lambda>i. st (t + 1 + i)) = (result, reads)" and eq: "revn t = revn (t + 1 + reads)"
  shows "result = fst (build (\<lambda>_. st t))"
proof -
  have "patches t \<le> patches (t + 1 + reads)" using revn by (auto simp: revised_def intro: monoD)
  moreover have "patches (t + 1 + reads) < patches t + 2 ^ 64"
    using few b unfolding short_attempts_def by (metis snd_conv)
  ultimately have "patches (t + (1 + reads)) = patches t"
    using eq revn same_revision [of "patches t" "patches (t + 1 + reads)"] by (simp add: revised_def add.assoc)
  then have "st (t + 1 + i) = st t" if "i < reads" for i
    using quiet_state [OF revn, of t "1 + reads" "1 + i"] that by (simp add: add.assoc)
  then have "\<forall>i < snd (build (\<lambda>i. st (t + 1 + i))). st (t + 1 + i) = (\<lambda>_. st t) i" unfolding b by simp
  then have "build (\<lambda>_. st t) = build (\<lambda>i. st (t + 1 + i))" 
    using spec [OF spec [OF r [unfolded reader_def], of "\<lambda>i. st (t + 1 + i)"], of "\<lambda>_. st t"] by simp
  with b have "build (\<lambda>_. st t) = (result, reads)" by (rule trans [rotated])
  then show ?thesis by simp
qed

lemma attempts_stable:
  assumes r: "reader build" and revn: "revised patches revn st" and few: "short_attempts build patches st"
  shows "plan_attempts n revn build st t = (res, t') \<Longrightarrow>
    (case res of Some result \<Rightarrow> \<exists>u \<ge> t. u < t' \<and> result = fst (build (\<lambda>_. st u)) | None \<Rightarrow> patches t + n \<le> patches t')"
proof (induction n arbitrary: t)
  case 0
  then show ?case by auto
next
  case (Suc n)
  obtain result reads where b: "build (\<lambda>i. st (t + 1 + i)) = (result, reads)" by fastforce
  show ?case
  proof (cases "revn t = revn (t + 1 + reads)")
    case True
    with Suc.prems b have "res = Some result" "t' = t + 2 + reads" by auto
    then show ?thesis using attempt_stable [OF r revn few b True] by auto
  next
    case False
    with Suc.prems b have rest: "plan_attempts n revn build st (t + 2 + reads) = (res, t')" by simp
    have m: "mono patches" using revn by (simp add: revised_def)
    have "patches t \<noteq> patches (t + 1 + reads)" using False revn by (auto simp: revised_def)
    moreover have "patches t \<le> patches (t + 1 + reads)" "patches (t + 1 + reads) \<le> patches (t + 2 + reads)"
      by (auto intro!: monoD [OF m])
    ultimately have "patches t + 1 \<le> patches (t + 2 + reads)" by linarith
    moreover have "\<exists>u \<ge> t. P u" if "\<exists>u \<ge> t + 2 + reads. P u" for P
      using that by (meson dual_order.trans le_add1 trans_le_add1)
    ultimately show ?thesis using Suc.IH [OF rest] by (cases res) auto
  qed
qed

text \<open>
  C35.  A plan is never assembled from two generations of the state.  When the state
  changes only with its revision, \<open>BuildPlan\<close> returns what the planner computes from the state as it
  was at one moment of the call, or the empty plan; and the empty plan only after a patch has landed
  in each of its three attempts.
\<close>

theorem plan_of_one_state:
  assumes "reader build" "revised patches revn st" "short_attempts build patches st"
  shows "(\<exists>u \<ge> t. BuildPlan True zero_plan revn build st t = fst (build (\<lambda>_. st u))) \<or>
    BuildPlan True zero_plan revn build st t = zero_plan \<and>
    patches t + stablePlanAttempts \<le> patches (snd (plan_attempts stablePlanAttempts revn build st t))"
proof -
  obtain res t' where e: "plan_attempts stablePlanAttempts revn build st t = (res, t')" by fastforce
  from attempts_stable [OF assms e] show ?thesis
    by (cases res) (auto simp: BuildPlan_def e)
qed

definition sums_two :: "(nat \<Rightarrow> int) \<Rightarrow> int \<times> nat" where
  "sums_two f = (f 0 + f 1, 2)"

text \<open>A state that becomes 5 with the patch at the second access: the first attempt is thrown away.\<close>

theorem plan_of_one_state_witness:
  "let st = (\<lambda>t. if t < 2 then 1 else 5); revn = (\<lambda>t. if t < 2 then 0 else 1)
   in BuildPlan True 0 revn sums_two st 0 = 10 \<and>
      ((\<exists>u \<ge> 0. BuildPlan True 0 revn sums_two st 0 = fst (sums_two (\<lambda>_. st u))) \<or> BuildPlan True 0 revn sums_two st 0 = 0)"
proof -
  let ?st = "\<lambda>t. if t < 2 then 1 else 5 :: int" and ?revn = "\<lambda>t. if t < 2 then 0 else 1 :: 64 word"
  let ?p = "\<lambda>t::nat. if t < 2 then 0 else 1 :: nat"
  have "reader sums_two" by (simp add: reader_def sums_two_def)
  moreover have "revised ?p ?revn ?st" by (auto simp: revised_def mono_def)
  moreover have "short_attempts sums_two ?p ?st" by (simp add: short_attempts_def)
  ultimately show ?thesis
    using plan_of_one_state [of sums_two ?p ?revn ?st 0 0]
    by (auto simp: BuildPlan_def numeral_3_eq_3 sums_two_def Let_def)
qed

text \<open>
  The premise is needed: the mutators that leave the revision alone can land inside an attempt, and
  the plan then joins reads of two states.
\<close>

lemma unrevised_change_mixes:
  "BuildPlan True 0 (\<lambda>_. 0) sums_two (\<lambda>t. if t < 2 then 1 else 5) 0 = 6 \<and> (\<forall>s \<in> {1, 5}. fst (sums_two (\<lambda>_. s)) \<noteq> 6)"
  by (simp add: BuildPlan_def numeral_3_eq_3 sums_two_def)

end
