(* ===== verification/GuildTexts.thy ===== *)
theory GuildTexts
  imports Literals
begin

text \<open>
  The Chinese texts of the guild planner (\<open>automation/union.go\<close>, \<open>union_membership.go\<close>,
  \<open>state/fml.go\<close>), as the byte strings the compiler stores.
\<close>

definition lit_guild_share_goal :: string where \<comment> \<open>guild flower sharing\<close>
  "lit_guild_share_goal =
     [CHR 0xE5, CHR 0x85, CHR 0xAC, CHR 0xE4, CHR 0xBC, CHR 0x9A, CHR 0xE9, CHR 0xB2, CHR 0x9C,
      CHR 0xE8, CHR 0x8A, CHR 0xB1, CHR 0xE5, CHR 0x85, CHR 0xB1, CHR 0xE4, CHR 0xBA, CHR 0xAB]"

definition lit_guild_share_unseen :: string where \<comment> \<open>share state unobserved, refresh\<close>
  "lit_guild_share_unseen =
     [CHR 0xE5, CHR 0x85, CHR 0xAC, CHR 0xE4, CHR 0xBC, CHR 0x9A, CHR 0xE5, CHR 0x88, CHR 0x86,
      CHR 0xE4, CHR 0xBA, CHR 0xAB, CHR 0xE7, CHR 0x8A, CHR 0xB6, CHR 0xE6, CHR 0x80, CHR 0x81,
      CHR 0xE6, CHR 0x9C, CHR 0xAA, CHR 0xE8, CHR 0xA7, CHR 0x82, CHR 0xE6, CHR 0xB5, CHR 0x8B,
      CHR 0xEF, CHR 0xBC, CHR 0x8C, CHR 0xE5, CHR 0x85, CHR 0x88, CHR 0xE5, CHR 0x88, CHR 0xB7,
      CHR 0xE6, CHR 0x96, CHR 0xB0]"

definition lit_guild_share_ready :: string where \<comment> \<open>a share slot has a reward\<close>
  "lit_guild_share_ready =
     [CHR 0xE5, CHR 0x85, CHR 0xAC, CHR 0xE4, CHR 0xBC, CHR 0x9A, CHR 0xE5, CHR 0x88, CHR 0x86,
      CHR 0xE4, CHR 0xBA, CHR 0xAB, CHR 0xE6, CHR 0xA7, CHR 0xBD, CHR 0xE4, CHR 0xBD, CHR 0x8D,
      CHR 0xE6, CHR 0x9C, CHR 0x89, CHR 0xE5, CHR 0x8F, CHR 0xAF, CHR 0xE9, CHR 0xA2, CHR 0x86,
      CHR 0xE5, CHR 0x8F, CHR 0x96, CHR 0xE5, CHR 0xA5, CHR 0x96, CHR 0xE5, CHR 0x8A, CHR 0xB1]"

definition lit_guild_take_unseen :: string where \<comment> \<open>take count unobserved, refresh\<close>
  "lit_guild_take_unseen =
     [CHR 0xE5, CHR 0x85, CHR 0xAC, CHR 0xE4, CHR 0xBC, CHR 0x9A, CHR 0xE6, CHR 0x91, CHR 0xB8,
      CHR 0xE8, CHR 0x8A, CHR 0xB1, CHR 0xE6, CHR 0xAC, CHR 0xA1, CHR 0xE6, CHR 0x95, CHR 0xB0,
      CHR 0xE6, CHR 0x9C, CHR 0xAA, CHR 0xE8, CHR 0xA7, CHR 0x82, CHR 0xE6, CHR 0xB5, CHR 0x8B,
      CHR 0xEF, CHR 0xBC, CHR 0x8C, CHR 0xE5, CHR 0x85, CHR 0x88, CHR 0xE5, CHR 0x88, CHR 0xB7,
      CHR 0xE6, CHR 0x96, CHR 0xB0, CHR 0xE5, CHR 0x88, CHR 0x86, CHR 0xE4, CHR 0xBA, CHR 0xAB,
      CHR 0xE7, CHR 0x8A, CHR 0xB6, CHR 0xE6, CHR 0x80, CHR 0x81]"

definition lit_guild_take_stale :: string where \<comment> \<open>take list unobserved or older than an hour\<close>
  "lit_guild_take_stale =
     [CHR 0xE5, CHR 0x85, CHR 0xAC, CHR 0xE4, CHR 0xBC, CHR 0x9A, CHR 0xE6, CHR 0x91, CHR 0xB8,
      CHR 0xE8, CHR 0x8A, CHR 0xB1, CHR 0xE5, CHR 0x88, CHR 0x97, CHR 0xE8, CHR 0xA1, CHR 0xA8,
      CHR 0xE6, CHR 0x9C, CHR 0xAA, CHR 0xE8, CHR 0xA7, CHR 0x82, CHR 0xE6, CHR 0xB5, CHR 0x8B,
      CHR 0xE6, CHR 0x88, CHR 0x96, CHR 0xE8, CHR 0xB6, CHR 0x85, CHR 0xE8, CHR 0xBF, CHR 0x87] @
      ''1'' @ [CHR 0xE5, CHR 0xB0, CHR 0x8F, CHR 0xE6, CHR 0x97, CHR 0xB6, CHR 0xEF, CHR 0xBC,
      CHR 0x8C, CHR 0xE9, CHR 0x87, CHR 0x8D, CHR 0xE6, CHR 0x96, CHR 0xB0, CHR 0xE6, CHR 0x8B,
      CHR 0x89, CHR 0xE5, CHR 0x8F, CHR 0x96]"

definition lit_guild_take :: string where \<comment> \<open>a member shares a flower\<close>
  "lit_guild_take =
     [CHR 0xE5, CHR 0x85, CHR 0xAC, CHR 0xE4, CHR 0xBC, CHR 0x9A, CHR 0xE6, CHR 0x88, CHR 0x90,
      CHR 0xE5, CHR 0x91, CHR 0x98, CHR 0xE5, CHR 0x88, CHR 0x86, CHR 0xE4, CHR 0xBA, CHR 0xAB,
      CHR 0xE9, CHR 0xB2, CHR 0x9C, CHR 0xE8, CHR 0x8A, CHR 0xB1, CHR 0xE5, CHR 0x8F, CHR 0xAF,
      CHR 0xE6, CHR 0x91, CHR 0xB8, CHR 0xE5, CHR 0x8F, CHR 0x96]"

definition lit_guild_build_goal :: string where \<comment> \<open>guild building\<close>
  "lit_guild_build_goal =
     [CHR 0xE5, CHR 0x85, CHR 0xAC, CHR 0xE4, CHR 0xBC, CHR 0x9A, CHR 0xE5, CHR 0xBB, CHR 0xBA,
      CHR 0xE8, CHR 0xAE, CHR 0xBE]"

definition lit_guild_build_unseen :: string where \<comment> \<open>building state unobserved\<close>
  "lit_guild_build_unseen =
     [CHR 0xE5, CHR 0x85, CHR 0xAC, CHR 0xE4, CHR 0xBC, CHR 0x9A, CHR 0xE5, CHR 0xBB, CHR 0xBA,
      CHR 0xE8, CHR 0xAE, CHR 0xBE, CHR 0xE7, CHR 0x8A, CHR 0xB6, CHR 0xE6, CHR 0x80, CHR 0x81,
      CHR 0xE6, CHR 0x9C, CHR 0xAA, CHR 0xE8, CHR 0xA7, CHR 0x82, CHR 0xE6, CHR 0xB5, CHR 0x8B]"

definition lit_guild_build_enter :: string where \<comment> \<open>namespace 25 unobserved\<close>
  "lit_guild_build_enter =
     [CHR 0xE6, CHR 0x9C, CHR 0xAA, CHR 0xE8, CHR 0xA7, CHR 0x82, CHR 0xE5, CHR 0xAF, CHR 0x9F,
      CHR 0xE5, CHR 0x88, CHR 0xB0, CHR 0xE5, CHR 0x85, CHR 0xAC, CHR 0xE4, CHR 0xBC, CHR 0x9A] @
      '' namespace 25'' @ [CHR 0xEF, CHR 0xBC, CHR 0x8C, CHR 0xE9, CHR 0x9C, CHR 0x80, CHR 0xE5,
      CHR 0x85, CHR 0x88, CHR 0xE8, CHR 0xBF, CHR 0x9B, CHR 0xE5, CHR 0x85, CHR 0xA5, CHR 0xE5,
      CHR 0x85, CHR 0xAC, CHR 0xE4, CHR 0xBC, CHR 0x9A, CHR 0xE6, CHR 0x88, CHR 0x96, CHR 0xE8,
      CHR 0xA1, CHR 0xA5, CHR 0xE5, CHR 0x85, CHR 0x85] @ '' fml.enter '' @ [CHR 0xE5, CHR 0x90,
      CHR 0x8C, CHR 0xE6, CHR 0xAD, CHR 0xA5, CHR 0xE9, CHR 0x93, CHR 0xBE, CHR 0xE8, CHR 0xB7,
      CHR 0xAF]"

definition lit_guild_counts_unseen :: string where \<comment> \<open>building counts unobserved\<close>
  "lit_guild_counts_unseen =
     [CHR 0xE5, CHR 0x85, CHR 0xAC, CHR 0xE4, CHR 0xBC, CHR 0x9A, CHR 0xE5, CHR 0xBB, CHR 0xBA,
      CHR 0xE8, CHR 0xAE, CHR 0xBE, CHR 0xE6, CHR 0xAC, CHR 0xA1, CHR 0xE6, CHR 0x95, CHR 0xB0,
      CHR 0xE6, CHR 0x9C, CHR 0xAA, CHR 0xE8, CHR 0xA7, CHR 0x82, CHR 0xE6, CHR 0xB5, CHR 0x8B]"

definition lit_guild_counts_why :: string where \<comment> \<open>bldCountMap unobserved\<close>
  "lit_guild_counts_why =
     [CHR 0xE6, CHR 0x9C, CHR 0xAA, CHR 0xE8, CHR 0xA7, CHR 0x82, CHR 0xE5, CHR 0xAF, CHR 0x9F,
      CHR 0xE5, CHR 0x88, CHR 0xB0] @ '' bldCountMap'' @ [CHR 0xEF, CHR 0xBC, CHR 0x8C, CHR 0xE6,
      CHR 0x97, CHR 0xA0, CHR 0xE6, CHR 0xB3, CHR 0x95, CHR 0xE7, CHR 0xA1, CHR 0xAE, CHR 0xE8,
      CHR 0xAE, CHR 0xA4, CHR 0xE4, CHR 0xBB, CHR 0x8A, CHR 0xE6, CHR 0x97, CHR 0xA5, CHR 0xE5,
      CHR 0xBB, CHR 0xBA, CHR 0xE8, CHR 0xAE, CHR 0xBE, CHR 0xE6, CHR 0xAC, CHR 0xA1, CHR 0xE6,
      CHR 0x95, CHR 0xB0]"

definition lit_guild_option_unknown :: string where \<comment> \<open>building option unknown\<close>
  "lit_guild_option_unknown =
     [CHR 0xE5, CHR 0x85, CHR 0xAC, CHR 0xE4, CHR 0xBC, CHR 0x9A, CHR 0xE5, CHR 0xBB, CHR 0xBA,
      CHR 0xE8, CHR 0xAE, CHR 0xBE, CHR 0xE6, CHR 0xA1, CHR 0xA3, CHR 0xE4, CHR 0xBD, CHR 0x8D,
      CHR 0xE9, CHR 0x85, CHR 0x8D, CHR 0xE7, CHR 0xBD, CHR 0xAE, CHR 0xE7, CHR 0xBC, CHR 0xBA,
      CHR 0xE5, CHR 0xA4, CHR 0xB1]"

definition lit_guild_option_why :: string where \<comment> \<open>no c_fmlBld row\<close>
  "lit_guild_option_why =
     [CHR 0xE7, CHR 0xBC, CHR 0xBA, CHR 0xE5, CHR 0xB0, CHR 0x91] @ '' c_fmlBld '' @ [CHR 0xE9,
      CHR 0x9D, CHR 0x99, CHR 0xE6, CHR 0x80, CHR 0x81, CHR 0xE9, CHR 0x85, CHR 0x8D, CHR 0xE7,
      CHR 0xBD, CHR 0xAE]"

definition lit_guild_build_number :: string where \<comment> \<open>guild building number\<close>
  "lit_guild_build_number =
     [CHR 0xE5, CHR 0x85, CHR 0xAC, CHR 0xE4, CHR 0xBC, CHR 0x9A, CHR 0xE5, CHR 0xBB, CHR 0xBA,
      CHR 0xE8, CHR 0xAE, CHR 0xBE] @ '' #''"

definition lit_executable_suffix :: string where \<comment> \<open>can be executed\<close>
  "lit_executable_suffix =
     [CHR 0xE5, CHR 0x8F, CHR 0xAF, CHR 0xE6, CHR 0x89, CHR 0xA7, CHR 0xE8, CHR 0xA1, CHR 0x8C]"

definition lit_guild_no_cost :: string where \<comment> \<open>option without a cost\<close>
  "lit_guild_no_cost =
     [CHR 0xE5, CHR 0x85, CHR 0xAC, CHR 0xE4, CHR 0xBC, CHR 0x9A, CHR 0xE5, CHR 0xBB, CHR 0xBA,
      CHR 0xE8, CHR 0xAE, CHR 0xBE, CHR 0xE6, CHR 0xA1, CHR 0xA3, CHR 0xE4, CHR 0xBD, CHR 0x8D,
      CHR 0xE7, CHR 0xBC, CHR 0xBA, CHR 0xE5, CHR 0xB0, CHR 0x91, CHR 0xE5, CHR 0x8F, CHR 0xAF,
      CHR 0xE6, CHR 0x89, CHR 0xA7, CHR 0xE8, CHR 0xA1, CHR 0x8C, CHR 0xE6, CHR 0x88, CHR 0x90,
      CHR 0xE6, CHR 0x9C, CHR 0xAC, CHR 0xE9, CHR 0x85, CHR 0x8D, CHR 0xE7, CHR 0xBD, CHR 0xAE]"

definition lit_guild_no_gold_budget :: string where \<comment> \<open>no gold budget\<close>
  "lit_guild_no_gold_budget =
     [CHR 0xE5, CHR 0x85, CHR 0xAC, CHR 0xE4, CHR 0xBC, CHR 0x9A, CHR 0xE9, CHR 0x87, CHR 0x91,
      CHR 0xE5, CHR 0xB8, CHR 0x81, CHR 0xE5, CHR 0xBB, CHR 0xBA, CHR 0xE8, CHR 0xAE, CHR 0xBE,
      CHR 0xE9, CHR 0xA2, CHR 0x84, CHR 0xE7, CHR 0xAE, CHR 0x97, CHR 0xE6, CHR 0x9C, CHR 0xAA,
      CHR 0xE8, CHR 0xAE, CHR 0xBE, CHR 0xE7, CHR 0xBD, CHR 0xAE]"

definition lit_guild_over_gold :: string where \<comment> \<open>over the gold budget\<close>
  "lit_guild_over_gold =
     [CHR 0xE5, CHR 0x85, CHR 0xAC, CHR 0xE4, CHR 0xBC, CHR 0x9A, CHR 0xE9, CHR 0x87, CHR 0x91,
      CHR 0xE5, CHR 0xB8, CHR 0x81, CHR 0xE5, CHR 0xBB, CHR 0xBA, CHR 0xE8, CHR 0xAE, CHR 0xBE,
      CHR 0xE6, CHR 0x88, CHR 0x90, CHR 0xE6, CHR 0x9C, CHR 0xAC, CHR 0xE8, CHR 0xB6, CHR 0x85,
      CHR 0xE8, CHR 0xBF, CHR 0x87, CHR 0xE7, CHR 0xAD, CHR 0x96, CHR 0xE7, CHR 0x95, CHR 0xA5,
      CHR 0xE4, CHR 0xB8, CHR 0x8A, CHR 0xE9, CHR 0x99, CHR 0x90]"

definition lit_no_gold :: string where \<comment> \<open>not enough gold\<close>
  "lit_no_gold =
     [CHR 0xE9, CHR 0x87, CHR 0x91, CHR 0xE5, CHR 0xB8, CHR 0x81, CHR 0xE4, CHR 0xB8, CHR 0x8D,
      CHR 0xE8, CHR 0xB6, CHR 0xB3]"

definition lit_guild_no_diamond_budget :: string where \<comment> \<open>no diamond budget\<close>
  "lit_guild_no_diamond_budget =
     [CHR 0xE5, CHR 0x85, CHR 0xAC, CHR 0xE4, CHR 0xBC, CHR 0x9A, CHR 0xE5, CHR 0x85, CHR 0x83,
      CHR 0xE5, CHR 0xAE, CHR 0x9D, CHR 0xE5, CHR 0xBB, CHR 0xBA, CHR 0xE8, CHR 0xAE, CHR 0xBE,
      CHR 0xE9, CHR 0xA2, CHR 0x84, CHR 0xE7, CHR 0xAE, CHR 0x97, CHR 0xE6, CHR 0x9C, CHR 0xAA,
      CHR 0xE8, CHR 0xAE, CHR 0xBE, CHR 0xE7, CHR 0xBD, CHR 0xAE]"

definition lit_guild_over_diamond :: string where \<comment> \<open>over the diamond budget\<close>
  "lit_guild_over_diamond =
     [CHR 0xE5, CHR 0x85, CHR 0xAC, CHR 0xE4, CHR 0xBC, CHR 0x9A, CHR 0xE5, CHR 0x85, CHR 0x83,
      CHR 0xE5, CHR 0xAE, CHR 0x9D, CHR 0xE5, CHR 0xBB, CHR 0xBA, CHR 0xE8, CHR 0xAE, CHR 0xBE,
      CHR 0xE6, CHR 0x88, CHR 0x90, CHR 0xE6, CHR 0x9C, CHR 0xAC, CHR 0xE8, CHR 0xB6, CHR 0x85,
      CHR 0xE8, CHR 0xBF, CHR 0x87, CHR 0xE7, CHR 0xAD, CHR 0x96, CHR 0xE7, CHR 0x95, CHR 0xA5,
      CHR 0xE4, CHR 0xB8, CHR 0x8A, CHR 0xE9, CHR 0x99, CHR 0x90]"

definition lit_no_diamonds :: string where \<comment> \<open>not enough diamonds\<close>
  "lit_no_diamonds =
     [CHR 0xE5, CHR 0x85, CHR 0x83, CHR 0xE5, CHR 0xAE, CHR 0x9D, CHR 0xE4, CHR 0xB8, CHR 0x8D,
      CHR 0xE8, CHR 0xB6, CHR 0xB3]"

definition lit_diamonds_closed :: string where \<comment> \<open>diamonds are not spent automatically\<close>
  "lit_diamonds_closed =
     [CHR 0xE5, CHR 0x85, CHR 0x83, CHR 0xE5, CHR 0xAE, CHR 0x9D, CHR 0xE6, CHR 0x88, CHR 0x90,
      CHR 0xE6, CHR 0x9C, CHR 0xAC, CHR 0xE6, CHR 0x93, CHR 0x8D, CHR 0xE4, CHR 0xBD, CHR 0x9C,
      CHR 0xE5, CHR 0xB0, CHR 0x9A, CHR 0xE6, CHR 0x9C, CHR 0xAA, CHR 0xE6, CHR 0x94, CHR 0xBE,
      CHR 0xE5, CHR 0xBC, CHR 0x80, CHR 0xE8, CHR 0x87, CHR 0xAA, CHR 0xE5, CHR 0x8A, CHR 0xA8,
      CHR 0xE6, CHR 0x89, CHR 0xA7, CHR 0xE8, CHR 0xA1, CHR 0x8C]"

definition lit_guild_no_item :: string where \<comment> \<open>not enough of the item\<close>
  "lit_guild_no_item =
     [CHR 0xE5, CHR 0x85, CHR 0xAC, CHR 0xE4, CHR 0xBC, CHR 0x9A, CHR 0xE5, CHR 0xBB, CHR 0xBA,
      CHR 0xE8, CHR 0xAE, CHR 0xBE, CHR 0xE6, CHR 0x88, CHR 0x90, CHR 0xE6, CHR 0x9C, CHR 0xAC,
      CHR 0xE7, CHR 0x89, CHR 0xA9, CHR 0xE5, CHR 0x93, CHR 0x81, CHR 0xE4, CHR 0xB8, CHR 0x8D,
      CHR 0xE8, CHR 0xB6, CHR 0xB3, CHR 0xE6, CHR 0x88, CHR 0x96, CHR 0xE6, CHR 0x9C, CHR 0xAA,
      CHR 0xE8, CHR 0xA7, CHR 0x82, CHR 0xE6, CHR 0xB5, CHR 0x8B]"

definition lit_guild_land_goal :: string where \<comment> \<open>guild land\<close>
  "lit_guild_land_goal =
     [CHR 0xE5, CHR 0x85, CHR 0xAC, CHR 0xE4, CHR 0xBC, CHR 0x9A, CHR 0xE5, CHR 0x9C, CHR 0x9F,
      CHR 0xE5, CHR 0x9C, CHR 0xB0]"

definition lit_guild_land_unseen :: string where \<comment> \<open>guild land unobserved\<close>
  "lit_guild_land_unseen =
     [CHR 0xE5, CHR 0x85, CHR 0xAC, CHR 0xE4, CHR 0xBC, CHR 0x9A, CHR 0xE5, CHR 0x9C, CHR 0x9F,
      CHR 0xE5, CHR 0x9C, CHR 0xB0, CHR 0xE7, CHR 0x8A, CHR 0xB6, CHR 0xE6, CHR 0x80, CHR 0x81,
      CHR 0xE6, CHR 0x9C, CHR 0xAA, CHR 0xE8, CHR 0xA7, CHR 0x82, CHR 0xE6, CHR 0xB5, CHR 0x8B,
      CHR 0xEF, CHR 0xBC, CHR 0x8C, CHR 0xE5, CHR 0x85, CHR 0x88, CHR 0xE8, CHR 0xBF, CHR 0x9B,
      CHR 0xE5, CHR 0x85, CHR 0xA5, CHR 0xE5, CHR 0x85, CHR 0xAC, CHR 0xE4, CHR 0xBC, CHR 0x9A,
      CHR 0xE5, CHR 0x90, CHR 0x8C, CHR 0xE6, CHR 0xAD, CHR 0xA5]"

definition lit_guild_leveling :: string where \<comment> \<open>levelling first\<close>
  "lit_guild_leveling =
     [CHR 0xEF, CHR 0xBC, CHR 0x9B, CHR 0xE6, CHR 0x9C, CHR 0xAA, CHR 0xE6, CHR 0xBB, CHR 0xA1] @
      ''11'' @ [CHR 0xE7, CHR 0xBA, CHR 0xA7, CHR 0xE4, CHR 0xBC, CHR 0x98, CHR 0xE5, CHR 0x85,
      CHR 0x88, CHR 0xE7, CHR 0xBB, CHR 0x83, CHR 0xE7, CHR 0xBA, CHR 0xA7, CHR 0xEF, CHR 0xBC,
      CHR 0x8C, CHR 0xE6, CHR 0x94, CHR 0xB9, CHR 0xE7, CHR 0xA7, CHR 0x8D, CHR 0xE4, CHR 0xBB,
      CHR 0x8D, CHR 0xE9, CHR 0x81, CHR 0xB5, CHR 0xE5, CHR 0xAE, CHR 0x88, CHR 0xE6, CHR 0x94,
      CHR 0xB6, CHR 0xE8, CHR 0x8E, CHR 0xB7, CHR 0xE4, CHR 0xB8, CHR 0x8E, CHR 0xE5, CHR 0x86,
      CHR 0xB7, CHR 0xE5, CHR 0x8D, CHR 0xB4, CHR 0xE8, CHR 0xBE, CHR 0xB9, CHR 0xE7, CHR 0x95,
      CHR 0x8C]"

definition lit_flower_number :: string where \<comment> \<open>flower number\<close>
  "lit_flower_number =
     [CHR 0xE8, CHR 0x8A, CHR 0xB1, CHR 0xE5, CHR 0x8D, CHR 0x89] @ ''#''"

definition lit_guild_auto_plant :: string where \<comment> \<open>guild land planting\<close>
  "lit_guild_auto_plant =
     [CHR 0xE5, CHR 0x85, CHR 0xAC, CHR 0xE4, CHR 0xBC, CHR 0x9A, CHR 0xE5, CHR 0x9C, CHR 0x9F,
      CHR 0xE5, CHR 0x9C, CHR 0xB0, CHR 0xE8, CHR 0x87, CHR 0xAA, CHR 0xE5, CHR 0x8A, CHR 0xA8,
      CHR 0xE7, CHR 0xA7, CHR 0x8D, CHR 0xE6, CHR 0xA4, CHR 0x8D] @ '' ''"

definition lit_guild_times :: string where \<comment> \<open>times\<close>
  "lit_guild_times =
     [CHR 0xC3, CHR 0x97]"

definition lit_guild_below :: string where \<comment> \<open>below level first\<close>
  "lit_guild_below =
     [CHR 0xE4, CHR 0xBC, CHR 0x98, CHR 0xE5, CHR 0x85, CHR 0x88, CHR 0xE6, CHR 0x9C, CHR 0xAA,
      CHR 0xE6, CHR 0xBB, CHR 0xA1]"

definition lit_guild_below_rest :: string where \<comment> \<open>by quality, level, stock\<close>
  "lit_guild_below_rest =
     [CHR 0xE7, CHR 0xBA, CHR 0xA7, CHR 0xEF, CHR 0xBC, CHR 0x88, CHR 0xE5, CHR 0x93, CHR 0x81,
      CHR 0xE9, CHR 0x98, CHR 0xB6, CHR 0xE9, CHR 0xAB, CHR 0x98, CHR 0xEF, CHR 0xBC, CHR 0x8C,
      CHR 0xE5, CHR 0x85, CHR 0xB6, CHR 0xE6, CHR 0xAC, CHR 0xA1, CHR 0xE7, CHR 0xAD, CHR 0x89,
      CHR 0xE7, CHR 0xBA, CHR 0xA7, CHR 0xE4, CHR 0xBD, CHR 0x8E, CHR 0xE3, CHR 0x80, CHR 0x81,
      CHR 0xE5, CHR 0xBA, CHR 0x93, CHR 0xE5, CHR 0xAD, CHR 0x98, CHR 0xE5, CHR 0xB0, CHR 0x91,
      CHR 0xEF, CHR 0xBC, CHR 0x89, CHR 0xEF, CHR 0xBC, CHR 0x8C, CHR 0xE7, CHR 0xA1, CHR 0xAE,
      CHR 0xE4, CHR 0xBF, CHR 0x9D, CHR 0xE5, CHR 0x85, CHR 0xA8, CHR 0xE9, CHR 0x83, CHR 0xA8,
      CHR 0xE5, CHR 0x8D, CHR 0x87, CHR 0xE5, CHR 0x88, CHR 0xB0]"

definition lit_guild_all_from :: string where \<comment> \<open>all from level\<close>
  "lit_guild_all_from =
     [CHR 0xE5, CHR 0x85, CHR 0xA8, CHR 0xE9, CHR 0x83, CHR 0xA8, CHR 0xE2, CHR 0x89, CHR 0xA5]"

definition lit_guild_long :: string where \<comment> \<open>long maturity\<close>
  "lit_guild_long =
     [CHR 0xE7, CHR 0xBA, CHR 0xA7, CHR 0xEF, CHR 0xBC, CHR 0x8C, CHR 0xE6, CHR 0x94, CHR 0xB9,
      CHR 0xE7, CHR 0xA7, CHR 0x8D, CHR 0xE6, CHR 0x88, CHR 0x90, CHR 0xE7, CHR 0x86, CHR 0x9F,
      CHR 0xE2, CHR 0x89, CHR 0xA5]"

definition lit_guild_long_rest :: string where \<comment> \<open>minutes and lowest stock\<close>
  "lit_guild_long_rest =
     [CHR 0xE5, CHR 0x88, CHR 0x86, CHR 0xE9, CHR 0x92, CHR 0x9F, CHR 0xE4, CHR 0xB8, CHR 0x94,
      CHR 0xE5, CHR 0xBA, CHR 0x93, CHR 0xE5, CHR 0xAD, CHR 0x98, CHR 0xE5, CHR 0xB0, CHR 0x91]"

definition lit_guild_no_long :: string where \<comment> \<open>no long maturity, lowest stock\<close>
  "lit_guild_no_long =
     [CHR 0xE7, CHR 0xBA, CHR 0xA7, CHR 0xE4, CHR 0xB8, CHR 0x94, CHR 0xE6, CHR 0x97, CHR 0xA0,
      CHR 0xE9, CHR 0x95, CHR 0xBF, CHR 0xE6, CHR 0x88, CHR 0x90, CHR 0xE7, CHR 0x86, CHR 0x9F,
      CHR 0xE5, CHR 0x80, CHR 0x99, CHR 0xE9, CHR 0x80, CHR 0x89, CHR 0xEF, CHR 0xBC, CHR 0x8C,
      CHR 0xE6, CHR 0x94, CHR 0xB9, CHR 0xE7, CHR 0xA7, CHR 0x8D, CHR 0xE5, CHR 0xBA, CHR 0x93,
      CHR 0xE5, CHR 0xAD, CHR 0x98, CHR 0xE6, CHR 0x9C, CHR 0x80, CHR 0xE5, CHR 0xB0, CHR 0x91]"

definition lit_guild_harvest_any :: string where \<comment> \<open>guild land has ripe flowers\<close>
  "lit_guild_harvest_any =
     [CHR 0xE5, CHR 0x85, CHR 0xAC, CHR 0xE4, CHR 0xBC, CHR 0x9A, CHR 0xE5, CHR 0x9C, CHR 0x9F,
      CHR 0xE5, CHR 0x9C, CHR 0xB0, CHR 0xE6, CHR 0x9C, CHR 0x89, CHR 0xE6, CHR 0x88, CHR 0x90,
      CHR 0xE7, CHR 0x86, CHR 0x9F, CHR 0xE9, CHR 0xB2, CHR 0x9C, CHR 0xE8, CHR 0x8A, CHR 0xB1,
      CHR 0xE5, CHR 0x8F, CHR 0xAF, CHR 0xE6, CHR 0x94, CHR 0xB6, CHR 0xE8, CHR 0x8E, CHR 0xB7]"

definition lit_land_number :: string where \<comment> \<open>land number\<close>
  "lit_land_number =
     [CHR 0xE5, CHR 0x9C, CHR 0x9F, CHR 0xE5, CHR 0x9C, CHR 0xB0] @ ''#''"

definition lit_guild_harvest_sum :: string where \<comment> \<open>guild land to harvest\<close>
  "lit_guild_harvest_sum =
     [CHR 0xE5, CHR 0x85, CHR 0xAC, CHR 0xE4, CHR 0xBC, CHR 0x9A, CHR 0xE5, CHR 0x9C, CHR 0x9F,
      CHR 0xE5, CHR 0x9C, CHR 0xB0, CHR 0xE5, CHR 0x8F, CHR 0xAF, CHR 0xE6, CHR 0x94, CHR 0xB6,
      CHR 0xE8, CHR 0x8E, CHR 0xB7] @ '' ''"

definition lit_guild_harvest_pieces :: string where \<comment> \<open>pieces\<close>
  "lit_guild_harvest_pieces =
     '' '' @ [CHR 0xE6, CHR 0x9C, CHR 0xB5] @ '': ''"

definition lit_list_comma :: string where \<comment> \<open>enumeration comma\<close>
  "lit_list_comma =
     [CHR 0xE3, CHR 0x80, CHR 0x81]"

definition lit_forest_goal :: string where \<comment> \<open>energy forest\<close>
  "lit_forest_goal =
     [CHR 0xE8, CHR 0x83, CHR 0xBD, CHR 0xE9, CHR 0x87, CHR 0x8F, CHR 0xE6, CHR 0xA3, CHR 0xAE,
      CHR 0xE6, CHR 0x9E, CHR 0x97]"

definition lit_forest_unseen :: string where \<comment> \<open>forest unobserved\<close>
  "lit_forest_unseen =
     [CHR 0xE8, CHR 0x83, CHR 0xBD, CHR 0xE9, CHR 0x87, CHR 0x8F, CHR 0xE6, CHR 0xA3, CHR 0xAE,
      CHR 0xE6, CHR 0x9E, CHR 0x97, CHR 0xE7, CHR 0x8A, CHR 0xB6, CHR 0xE6, CHR 0x80, CHR 0x81,
      CHR 0xE6, CHR 0x9C, CHR 0xAA, CHR 0xE8, CHR 0xA7, CHR 0x82, CHR 0xE6, CHR 0xB5, CHR 0x8B,
      CHR 0xEF, CHR 0xBC, CHR 0x8C, CHR 0xE5, CHR 0x85, CHR 0x88, CHR 0xE5, CHR 0x88, CHR 0xB7,
      CHR 0xE6, CHR 0x96, CHR 0xB0, CHR 0xE5, CHR 0xB9, CHR 0xB6, CHR 0xE8, CHR 0x87, CHR 0xAA,
      CHR 0xE5, CHR 0x8A, CHR 0xA8, CHR 0xE6, CHR 0x94, CHR 0xB6, CHR 0xE9, CHR 0x9B, CHR 0x86]"

definition lit_forest_ready :: string where \<comment> \<open>forest energy to collect\<close>
  "lit_forest_ready =
     [CHR 0xE8, CHR 0x83, CHR 0xBD, CHR 0xE9, CHR 0x87, CHR 0x8F, CHR 0xE6, CHR 0xA3, CHR 0xAE,
      CHR 0xE6, CHR 0x9E, CHR 0x97, CHR 0xE6, CHR 0x9C, CHR 0x89, CHR 0xE4, CHR 0xB8, CHR 0xB4,
      CHR 0xE6, CHR 0x97, CHR 0xB6, CHR 0xE8, CHR 0x83, CHR 0xBD, CHR 0xE9, CHR 0x87, CHR 0x8F,
      CHR 0xE5, CHR 0x8F, CHR 0xAF, CHR 0xE6, CHR 0x94, CHR 0xB6, CHR 0xE9, CHR 0x9B, CHR 0x86]"

definition lit_member_goal :: string where \<comment> \<open>guild membership\<close>
  "lit_member_goal =
     [CHR 0xE5, CHR 0x85, CHR 0xAC, CHR 0xE4, CHR 0xBC, CHR 0x9A, CHR 0xE8, CHR 0xBA, CHR 0xAB,
      CHR 0xE4, CHR 0xBB, CHR 0xBD, CHR 0xE5, CHR 0x90, CHR 0x8C, CHR 0xE6, CHR 0xAD, CHR 0xA5]"

definition lit_member_sync :: string where \<comment> \<open>membership to confirm\<close>
  "lit_member_sync =
     [CHR 0xE5, CHR 0x85, CHR 0xAC, CHR 0xE4, CHR 0xBC, CHR 0x9A, CHR 0xE8, CHR 0xBA, CHR 0xAB,
      CHR 0xE4, CHR 0xBB, CHR 0xBD, CHR 0xE5, CHR 0xBE, CHR 0x85, CHR 0xE7, CHR 0xA1, CHR 0xAE,
      CHR 0xE8, CHR 0xAE, CHR 0xA4, CHR 0xEF, CHR 0xBC, CHR 0x8C, CHR 0xE9, CHR 0x87, CHR 0x8D,
      CHR 0xE6, CHR 0x96, CHR 0xB0, CHR 0xE8, CHR 0xAF, CHR 0xBB, CHR 0xE5, CHR 0x8F, CHR 0x96,
      CHR 0xE5, CHR 0xBD, CHR 0x93, CHR 0xE5, CHR 0x89, CHR 0x8D, CHR 0xE6, CHR 0x88, CHR 0x90,
      CHR 0xE5, CHR 0x91, CHR 0x98, CHR 0xE4, CHR 0xBF, CHR 0xA1, CHR 0xE6, CHR 0x81, CHR 0xAF]"

end
