(* ===== verification/Guild.thy ===== *)
theory Guild
  imports RacePlan Farm GuildTexts
begin

text \<open>
  The guild beside the race (\<open>automation/union.go\<close>, \<open>union_membership.go\<close>, the guild part of
  \<open>state/fml.go\<close> and \<open>fml_membership.go\<close>): membership, donations, flower sharing, guild land and the
  energy forest.
\<close>

abbreviation "RPCFmlBld \<equiv> ''fml.bld''"
abbreviation "RPCFmlLandPlant \<equiv> ''fmlLand.plant''"
abbreviation "RPCFmlForestRefresh \<equiv> ''fmlForest.refresh''"
abbreviation "RPCFmlFlowerShareRefresh \<equiv> ''fmlFlowerShare.refresh''"
abbreviation "RPCFmlFlowerShareRecvRwd \<equiv> ''fmlFlowerShare.recvRwd''"
abbreviation "RPCFmlFlowerShareTake \<equiv> ''fmlFlowerShare.take''"
abbreviation "RPCFmlFlowerShareGetFmlOtherShareList \<equiv> ''fmlFlowerShare.getFmlOtherShareList''"

abbreviation "fmlFlowerTakeListRefreshInterval \<equiv> hour"
abbreviation "fmlForestRefreshRetryInterval \<equiv> minute"
abbreviation "unionLandPreferBelowLevel \<equiv> (11::int)"
abbreviation "unionLandDefaultMaturityMin \<equiv> (20::int)"
abbreviation "unionLandDefaultReplantMin \<equiv> (60::int)"
abbreviation "unionLandNearMatureGrace \<equiv> 2 * minute"

section \<open>State, catalogue and policy\<close>

record guild_land =
  gl_Level :: int
  gl_FlowerID :: int
  gl_StartTimeMs :: int
  gl_MatureFlowerCnt :: int
  gl_LastCalcTimeMs :: int

record share_slot =
  sh_FlowerID :: int
  sh_ShareNum :: int
  sh_TakeNum :: int

record flower_share =
  fs_Observed :: bool
  fs_UID :: int
  fs_TdyTakeCnt :: int
  fs_LastTakeTimeMs :: int
  fs_Slots :: "(int, share_slot) gomap"

record take_candidate =
  tc_UID :: int
  tc_SlotID :: int
  tc_FlowerID :: int
  tc_Available :: int

text \<open>The fields of \<open>unionState\<close> the planner reads beside those of \<open>game_state\<close>.\<close>

record guild_state =
  gu_MembershipSyncAtMs :: int
  gu_MembershipSyncAttempts :: int
  gu_BuildCountsObserved :: bool
  gu_BuildCounts :: "(int, int) gomap"
  gu_LastBuildTimeMs :: int
  gu_FlowerTakeCnt :: int
  gu_landObserved :: bool
  gu_lands :: "(int, guild_land) gomap"
  gu_share :: flower_share
  gu_otherShares :: "(int, flower_share) gomap"
  gu_otherObserved :: bool
  gu_otherSyncedAtMs :: int
  gu_takeLimitUntilMs :: int
  gu_zeroTakeIDs :: "int list"
  gu_forestObserved :: bool
  gu_forestPending :: "(int, int) gomap"
  gu_forestPendingTotal :: int
  gu_forestAttemptAtMs :: int

record build_option =
  bo_Name :: string
  bo_Type :: int
  bo_DailyLimit :: int
  bo_GroupDailyLimit :: int
  bo_ShareID :: int
  bo_ItemID :: int
  bo_Cost :: int

text \<open>
  The client's tables, as decoded by \<open>state/catalog.go\<close>: seconds and stock of a land level, the
  donation options, the two constants of flower sharing, names and growth times of flowers.
\<close>

record guild_catalog =
  gc_LandLvl :: "int \<Rightarrow> (int \<times> int) option"
  gc_BuildOption :: "int \<Rightarrow> build_option option"
  gc_TakeMax :: int
  gc_InitTakeNum :: int
  gc_FlowerName :: "int \<Rightarrow> string"
  gc_FlowerCD :: "int \<Rightarrow> int \<Rightarrow> int option"

record build_policy =
  ub_FreeEnabled :: bool
  ub_GoldEnabled :: bool
  ub_DiamondEnabled :: bool
  ub_MaxSpendGold :: int
  ub_MaxSpendDiamond :: int

record share_policy =
  uf_ShareEnabled :: bool
  uf_TakeEnabled :: bool
  uf_TakeZeroInventoryOnly :: bool
  uf_TakeMode :: selection_mode
  uf_TakeFlowerIds :: "int list"
  uf_TakeQualities :: "int list"

record guild_land_policy =
  ul_HarvestEnabled :: bool
  ul_AutoPlantEnabled :: bool
  ul_FlowerIds :: "int list"
  ul_Qualities :: "int list"
  ul_MaxFlowerLevel :: int
  ul_MinMaturityMinutes :: int
  ul_MinReplantMinutes :: int

text \<open>A nil sub-policy answers every getter as the zero record.\<close>

record union_policy =
  up_Build :: build_policy
  up_Flower :: share_policy
  up_Land :: guild_land_policy
  up_Race :: "race_policy option"
  up_ForestEnabled :: bool
  up_RedPacketEnabled :: bool

definition guild_goal :: "string \<Rightarrow> string \<Rightarrow> int \<Rightarrow> goal" where
  "guild_goal i lbl priority =
     \<lparr>goal_ID = i, goal_Category = CategoryUnion, goal_Domain = i, goal_Label = lbl, goal_Priority = priority\<rparr>"

section \<open>Growth on guild land\<close>

definition fmlLandCalculationTimeMs :: "guild_land \<Rightarrow> int" where
  "fmlLandCalculationTimeMs land =
     (if 0 < gl_LastCalcTimeMs land then gl_LastCalcTimeMs land else gl_StartTimeMs land)"

text \<open>A level whose growth time is not positive is unknown.\<close>

definition FmlLandLvlByID :: "guild_catalog \<Rightarrow> int \<Rightarrow> (int \<times> int) option" where
  "FmlLandLvlByID cat level =
     (case gc_LandLvl cat level of
        None \<Rightarrow> None
      | Some (timeSec, stock) \<Rightarrow> if timeSec \<le> 0 then None else Some (timeSec, stock))"

definition FmlLandPendingHarvest :: "guild_catalog \<Rightarrow> guild_land \<Rightarrow> time \<Rightarrow> int" where
  "FmlLandPendingHarvest cat land now =
     (if gl_FlowerID land \<le> 0 then 0
      else
        let stored = max (gl_MatureFlowerCnt land) 0; anchor = fmlLandCalculationTimeMs land
        in case FmlLandLvlByID cat (gl_Level land) of
             None \<Rightarrow> stored
           | Some (timeSec, stock) \<Rightarrow>
               if stock \<le> 0 \<or> anchor \<le> 0 \<or> to_unix_milli now \<le> anchor then stored
               else stored + min ((to_unix_milli now - anchor) div (timeSec * 1000)) (max (stock - stored) 0))"

definition FmlLandNextMatureMs :: "guild_catalog \<Rightarrow> guild_land \<Rightarrow> time \<Rightarrow> int" where
  "FmlLandNextMatureMs cat land now =
     (let anchor = fmlLandCalculationTimeMs land
      in if gl_FlowerID land \<le> 0 \<or> anchor \<le> 0 then 0
         else if 0 < FmlLandPendingHarvest cat land now then 0
         else case FmlLandLvlByID cat (gl_Level land) of
                None \<Rightarrow> 0
              | Some (timeSec, stock) \<Rightarrow> if stock \<le> 0 then 0 else anchor + timeSec * 1000)"

definition ReadyFmlLandHarvestIDs :: "guild_catalog \<Rightarrow> guild_state \<Rightarrow> time \<Rightarrow> int list" where
  "ReadyFmlLandHarvestIDs cat u now =
     sort (map fst (filter (\<lambda>(i, land). 0 < FmlLandPendingHarvest cat land now) (gu_lands u)))"

definition flower_title :: "guild_catalog \<Rightarrow> int \<Rightarrow> string" where
  "flower_title cat i = (if gc_FlowerName cat i = [] then lit_flower_number @ show_int i else gc_FlowerName cat i)"

definition harvest_part :: "guild_catalog \<Rightarrow> (int, guild_land) gomap \<Rightarrow> time \<Rightarrow> int \<Rightarrow> string" where
  "harvest_part cat lands now i =
     (case map_of lands i of
        None \<Rightarrow> lit_land_number @ show_int i
      | Some land \<Rightarrow> flower_title cat (gl_FlowerID land) @ lit_guild_times @
          show_int (FmlLandPendingHarvest cat land now) @ ''('' @ lit_land_number @ show_int i @ '')'')"

definition FormatFmlLandHarvestReason ::
  "guild_catalog \<Rightarrow> (int, guild_land) gomap \<Rightarrow> int list \<Rightarrow> time \<Rightarrow> string" where
  "FormatFmlLandHarvestReason cat lands landIDs now =
     (if landIDs = [] then lit_guild_harvest_any
      else lit_guild_harvest_sum @
        show_int (sum_list (map (\<lambda>i. case map_of lands i of None \<Rightarrow> 0
          | Some land \<Rightarrow> FmlLandPendingHarvest cat land now) landIDs)) @
        lit_guild_harvest_pieces @ str_join lit_list_comma (map (harvest_part cat lands now) landIDs))"

section \<open>Membership\<close>

text \<open>\<open>None\<close> is the zero time.\<close>

definition FmlMembershipNextSyncAt :: "fml_build_view \<Rightarrow> guild_state \<Rightarrow> time option" where
  "FmlMembershipNextSyncAt build u =
     (if bv_MembershipObserved build \<and> 0 < bv_MemberFmlID build then None
      else if gu_MembershipSyncAtMs u \<le> 0 then None
      else Some (unix_milli (gu_MembershipSyncAtMs u) +
        (if bv_MembershipObserved build \<or> 3 \<le> gu_MembershipSyncAttempts u then 5 * minute
         else if gu_MembershipSyncAttempts u = 2 then 2 * minute else 30 * second)))"

definition UnionAutomationEnabled :: "union_policy \<Rightarrow> bool" where
  "UnionAutomationEnabled p \<longleftrightarrow>
     ub_FreeEnabled (up_Build p) \<or> ub_GoldEnabled (up_Build p) \<or>
     uf_ShareEnabled (up_Flower p) \<or> uf_TakeEnabled (up_Flower p) \<or>
     ul_HarvestEnabled (up_Land p) \<or> ul_AutoPlantEnabled (up_Land p) \<or>
     (case up_Race p of None \<Rightarrow> False | Some r \<Rightarrow> rp_Enabled r) \<or> up_ForestEnabled p \<or> up_RedPacketEnabled p"

definition unionMembershipOperations ::
  "fml_build_view \<Rightarrow> guild_state \<Rightarrow> union_policy \<Rightarrow> time \<Rightarrow> planned_op list" where
  "unionMembershipOperations build u p now =
     (if \<not> UnionAutomationEnabled p \<or> (case FmlMembershipNextSyncAt build u of None \<Rightarrow> False | Some t \<Rightarrow> now < t)
      then []
      else [(domainOp RPCFmlEnter (guild_goal ''union.membership'' lit_member_goal 43) ''union.membership.sync''
               ''sync'' lit_member_sync 4490 0 0 0)\<lparr>op_CooldownKey := ''union.membership.sync''\<rparr>])"

definition MarkFmlMembershipUncertainAt :: "time \<Rightarrow> fml_build_view \<times> guild_state \<Rightarrow> fml_build_view \<times> guild_state" where
  "MarkFmlMembershipUncertainAt at bu =
     (case bu of (build, u) \<Rightarrow>
        (build\<lparr>bv_MembershipObserved := False, bv_MemberFmlID := 0, bv_MemberPositionObserved := False,
           bv_MemberPosition := 0\<rparr>,
         u\<lparr>gu_MembershipSyncAtMs := to_unix_milli at,
           gu_MembershipSyncAttempts := max 1 (gu_MembershipSyncAttempts u)\<rparr>))"

definition MarkFmlMembershipSyncAttemptAt :: "time \<Rightarrow> guild_state \<Rightarrow> guild_state" where
  "MarkFmlMembershipSyncAttemptAt at u =
     u\<lparr>gu_MembershipSyncAtMs := to_unix_milli at,
       gu_MembershipSyncAttempts := min 3 (gu_MembershipSyncAttempts u + 1)\<rparr>"

section \<open>Donations\<close>

definition unionBuildPolicyEnabled :: "build_policy \<Rightarrow> bool" where
  "unionBuildPolicyEnabled p \<longleftrightarrow> ub_FreeEnabled p \<or> ub_GoldEnabled p \<or> ub_DiamondEnabled p"

definition unionBuildOptionIDs :: "build_policy \<Rightarrow> int list" where
  "unionBuildOptionIDs p =
     (if ub_FreeEnabled p then [1] else []) @ (if ub_GoldEnabled p then [2] else []) @
     (if ub_DiamondEnabled p then [3] else [])"

definition unionBuildGroupUsage :: "guild_catalog \<Rightarrow> (int, int) gomap \<Rightarrow> int \<Rightarrow> int" where
  "unionBuildGroupUsage cat counts buildType =
     sum_list (map (\<lambda>(i, c). case gc_BuildOption cat i of
         None \<Rightarrow> 0 | Some option \<Rightarrow> if bo_Type option = buildType then c else 0) counts)"

text \<open>\<open>FmlBuildOptionUsageAt\<close>: the counts of the calendar day, zero when the last donation is older.\<close>

definition FmlBuildOptionUsageAt :: "guild_catalog \<Rightarrow> guild_state \<Rightarrow> int \<Rightarrow> time \<Rightarrow> bool \<times> int \<times> int" where
  "FmlBuildOptionUsageAt cat u optionID now =
     (if \<not> gu_BuildCountsObserved u \<or> optionID \<le> 0 then (gu_BuildCountsObserved u, 0, 0)
      else if 0 < gu_LastBuildTimeMs u \<and> calendarDayID (unix_milli (gu_LastBuildTimeMs u)) < calendarDayID now
        then (True, 0, 0)
      else (True, get_or 0 (gu_BuildCounts u) optionID,
        case gc_BuildOption cat optionID of
          None \<Rightarrow> 0
        | Some option \<Rightarrow>
            if bo_Type option \<le> 0 then 0 else unionBuildGroupUsage cat (gu_BuildCounts u) (bo_Type option)))"

text \<open>The costs are written into the operation; the result says why it is blocked.\<close>

definition applyUnionBuildCostGate ::
  "planned_op \<Rightarrow> build_option \<Rightarrow> build_policy \<Rightarrow> game_state \<Rightarrow> planned_op \<times> string list" where
  "applyUnionBuildCostGate x option p s =
     (if 0 < bo_ShareID option then (x, [lit_sdk_ad])
      else if bo_ItemID option \<le> 0 \<or> bo_Cost option \<le> 0 then (x, [lit_guild_no_cost])
      else if bo_ItemID option = 11 then
        (if ub_MaxSpendGold p \<le> 0 then (x, [lit_guild_no_gold_budget])
         else if ub_MaxSpendGold p < bo_Cost option then (x, [lit_guild_over_gold])
         else if Gold s < bo_Cost option then (x, [lit_no_gold])
         else (x\<lparr>op_GoldCost := bo_Cost option\<rparr>, []))
      else if bo_ItemID option = 1 then
        (let y = x\<lparr>op_DiamondCost := bo_Cost option\<rparr>
         in if ub_MaxSpendDiamond p \<le> 0 then (y, [lit_guild_no_diamond_budget])
            else if ub_MaxSpendDiamond p < bo_Cost option then (y, [lit_guild_over_diamond])
            else if SpendableDiamonds s < bo_Cost option then (y, [lit_no_diamonds])
            else (y, [lit_diamonds_closed]))
      else if get_or 0 (Inventory s) (bo_ItemID option) < bo_Cost option then (x, [lit_guild_no_item])
      else (x\<lparr>op_ItemCost := [(bo_ItemID option, bo_Cost option)]\<rparr>, []))"

definition missing_adapter :: "string list \<Rightarrow> planned_op \<Rightarrow> planned_op" where
  "missing_adapter reasons x =
     x\<lparr>op_Status := PlanStatusAdapterMissing, op_Executable := False, op_BlockedReasons := reasons\<rparr>"

definition build_goal :: goal where
  "build_goal = guild_goal ''union.build'' lit_guild_build_goal 45"

definition build_op :: "string \<Rightarrow> int \<Rightarrow> int \<Rightarrow> int \<Rightarrow> planned_op" where
  "build_op reason priority optionID cnt =
     domainOp RPCFmlBld build_goal ''union.build'' ''build'' reason priority optionID 0 cnt"

text \<open>The loop over the options: the first that can be paid, else the first that is blocked.\<close>

fun build_options ::
  "guild_catalog \<Rightarrow> game_state \<Rightarrow> guild_state \<Rightarrow> build_policy \<Rightarrow> int list \<Rightarrow> planned_op option \<Rightarrow> planned_op list" where
  "build_options cat s u p [] firstBlocked = (case firstBlocked of None \<Rightarrow> [] | Some b \<Rightarrow> [b])"
| "build_options cat s u p (i # is) firstBlocked =
     (case gc_BuildOption cat i of
        None \<Rightarrow> build_options cat s u p is (Some (case firstBlocked of Some b \<Rightarrow> b
          | None \<Rightarrow> missing_adapter [lit_guild_option_why] (build_op lit_guild_option_unknown (4500 - i) i 0)))
      | Some option \<Rightarrow>
          if 0 < bo_DailyLimit option \<and> bo_DailyLimit option \<le> get_or 0 (gu_BuildCounts u) i
          then build_options cat s u p is firstBlocked
          else if 0 < bo_GroupDailyLimit option \<and>
                  bo_GroupDailyLimit option \<le> unionBuildGroupUsage cat (gu_BuildCounts u) (bo_Type option)
          then build_options cat s u p is firstBlocked
          else
            let reason = (if bo_Name option = [] then lit_guild_build_number @ show_int i else bo_Name option);
                x = (build_op (reason @ lit_executable_suffix) (4500 - i) i 1)\<lparr>op_CooldownKey := ''union.build''\<rparr>
            in case applyUnionBuildCostGate x option p s of (y, blocked) \<Rightarrow>
                 if blocked \<noteq> []
                 then build_options cat s u p is (Some (case firstBlocked of Some b \<Rightarrow> b
                   | None \<Rightarrow> missing_adapter blocked y))
                 else [y])"

definition unionBuildOperations ::
  "guild_catalog \<Rightarrow> game_state \<Rightarrow> guild_state \<Rightarrow> build_policy \<Rightarrow> planned_op list" where
  "unionBuildOperations cat s u p =
     (if \<not> unionBuildPolicyEnabled p then []
      else if \<not> bv_Observed (FmlBuild s)
      then [missing_adapter [lit_guild_build_enter] (build_op lit_guild_build_unseen 4590 0 0)]
      else if \<not> gu_BuildCountsObserved u
      then [missing_adapter [lit_guild_counts_why] (build_op lit_guild_counts_unseen 4590 0 0)]
      else build_options cat s u p (unionBuildOptionIDs p) None)"

section \<open>Flower sharing\<close>

definition ReadyFmlFlowerShareRewardSlotIDs :: "guild_state \<Rightarrow> int list" where
  "ReadyFmlFlowerShareRewardSlotIDs u =
     sort (map fst (filter (\<lambda>(i, slot). 0 < sh_FlowerID slot \<and> 0 < sh_TakeNum slot) (fs_Slots (gu_share u))))"

definition candidate_before :: "take_candidate \<Rightarrow> take_candidate \<Rightarrow> bool" where
  "candidate_before a b \<longleftrightarrow>
     (if tc_FlowerID a \<noteq> tc_FlowerID b then tc_FlowerID a < tc_FlowerID b
      else if tc_UID a \<noteq> tc_UID b then tc_UID a < tc_UID b
      else tc_SlotID a < tc_SlotID b)"

definition share_uid :: "int \<times> flower_share \<Rightarrow> int" where
  "share_uid e = (if fs_UID (snd e) = 0 then fst e else fs_UID (snd e))"

definition share_candidates :: "int \<times> flower_share \<Rightarrow> take_candidate list" where
  "share_candidates e =
     (if share_uid e = 0 then []
      else concat (map (\<lambda>(slotID, slot).
        let available = sh_ShareNum slot - sh_TakeNum slot
        in if sh_FlowerID slot \<le> 0 \<or> available \<le> 0 then []
           else [\<lparr>tc_UID = share_uid e, tc_SlotID = slotID, tc_FlowerID = sh_FlowerID slot,
             tc_Available = available\<rparr>]) (fs_Slots (snd e))))"

definition FmlFlowerTakeCandidates :: "guild_state \<Rightarrow> take_candidate list" where
  "FmlFlowerTakeCandidates u = stable_sort candidate_before (concat (map share_candidates (gu_otherShares u)))"

definition fmlFlowerTakeLimit :: "guild_catalog \<Rightarrow> guild_state \<Rightarrow> int" where
  "fmlFlowerTakeLimit cat u =
     (let limit = gu_FlowerTakeCnt u;
          limit = (if limit \<le> 0 then if gc_TakeMax cat \<le> 0 then gc_InitTakeNum cat else gc_TakeMax cat else limit);
          limit = (if 0 < gc_TakeMax cat \<and> gc_TakeMax cat < limit then gc_TakeMax cat else limit)
      in if limit \<le> 0 then 1 else limit)"

definition FmlFlowerTakeExhausted :: "guild_catalog \<Rightarrow> time \<Rightarrow> guild_state \<Rightarrow> guild_state \<times> bool" where
  "FmlFlowerTakeExhausted cat now u =
     (if 0 < gu_takeLimitUntilMs u \<and> now < unix_milli (gu_takeLimitUntilMs u) then (u, True)
      else
        let u = (if 0 < gu_takeLimitUntilMs u then u\<lparr>gu_takeLimitUntilMs := 0\<rparr> else u); share = gu_share u;
            limit = gu_FlowerTakeCnt u
        in (u, if \<not> fs_Observed share then False
               else if 0 < fs_LastTakeTimeMs share \<and>
                       calendarDayID (unix_milli (fs_LastTakeTimeMs share)) < calendarDayID now then False
               else if limit \<le> 0 then False
               else (if 0 < gc_TakeMax cat \<and> gc_TakeMax cat < limit then gc_TakeMax cat else limit)
                 \<le> fs_TdyTakeCnt share))"

definition FmlFlowerTakeDailyLimitReached :: "time \<Rightarrow> guild_state \<Rightarrow> guild_state \<times> time option" where
  "FmlFlowerTakeDailyLimitReached now u =
     (if gu_takeLimitUntilMs u \<le> 0 then (u, None)
      else if now < unix_milli (gu_takeLimitUntilMs u) then (u, Some (unix_milli (gu_takeLimitUntilMs u)))
      else (u\<lparr>gu_takeLimitUntilMs := 0\<rparr>, None))"

definition MarkFmlFlowerTakeDailyLimitReached :: "guild_catalog \<Rightarrow> time \<Rightarrow> guild_state \<Rightarrow> guild_state" where
  "MarkFmlFlowerTakeDailyLimitReached cat now u =
     (let limit = fmlFlowerTakeLimit cat u; share = gu_share u
      in u\<lparr>gu_takeLimitUntilMs := to_unix_milli (NextCalendarDayReset now),
           gu_share := share\<lparr>fs_Observed := True, fs_TdyTakeCnt := max limit (fs_TdyTakeCnt share),
             fs_LastTakeTimeMs := to_unix_milli now\<rparr>\<rparr>)"

definition note_take :: "int \<Rightarrow> int \<Rightarrow> int \<times> flower_share \<Rightarrow> int \<times> flower_share" where
  "note_take dstUID slotID e =
     (if share_uid e \<noteq> dstUID then e
      else case map_of (fs_Slots (snd e)) slotID of
        None \<Rightarrow> e
      | Some slot \<Rightarrow>
          if sh_ShareNum slot - sh_TakeNum slot \<le> 0 then e
          else (fst e, (snd e)\<lparr>fs_Slots := AList.update slotID (slot\<lparr>sh_TakeNum := sh_TakeNum slot + 1\<rparr>)
                 (fs_Slots (snd e))\<rparr>))"

text \<open>The flower is optional in the source; 0 stands for none.\<close>

definition NoteFmlFlowerShareTake :: "int \<Rightarrow> int \<Rightarrow> int \<Rightarrow> guild_state \<Rightarrow> guild_state" where
  "NoteFmlFlowerShareTake dstUID slotID flowerID u =
     (if dstUID = 0 \<or> slotID \<le> 0 then u
      else u\<lparr>gu_zeroTakeIDs := (if 0 < flowerID then List.insert flowerID (gu_zeroTakeIDs u) else gu_zeroTakeIDs u),
             gu_otherShares := map (note_take dstUID slotID) (gu_otherShares u)\<rparr>)"

definition FmlFlowerTakeWindowOpen :: "time \<Rightarrow> bool" where
  "FmlFlowerTakeWindowOpen now \<longleftrightarrow> minute \<le> (now + gameDayLocation) mod day_length"

definition fmlFlowerTakeListStale :: "guild_state \<Rightarrow> time \<Rightarrow> bool" where
  "fmlFlowerTakeListStale u now \<longleftrightarrow>
     gu_otherSyncedAtMs u \<le> 0 \<or> unix_milli (gu_otherSyncedAtMs u) + fmlFlowerTakeListRefreshInterval \<le> now"

definition unionFlowerTakeAllowed :: "flower_catalog \<Rightarrow> take_candidate \<Rightarrow> share_policy \<Rightarrow> bool" where
  "unionFlowerTakeAllowed cat c p \<longleftrightarrow>
     (let flowers = int32Set (uf_TakeFlowerIds p); qualities = int32Set (uf_TakeQualities p); f = tc_FlowerID c
      in 0 < f \<and>
         (case uf_TakeMode p of
            SelectionSpecific \<Rightarrow> flowers = {} \<or> f \<in> flowers
          | SelectionExclude \<Rightarrow> f \<notin> flowers
          | SelectionQuality \<Rightarrow> qualities = {} \<or> flowerQuality cat f \<in> qualities
          | SelectionAll \<Rightarrow> True
          | SelectionUnspecified \<Rightarrow>
              (flowers = {} \<or> f \<in> flowers) \<and> (qualities = {} \<or> flowerQuality cat f \<in> qualities)))"

text \<open>The loop over the candidates: the lowest stock, the first of equals; it also forgets a take once the flower has come.\<close>

fun pick_take ::
  "flower_catalog \<Rightarrow> (int, int) gomap \<Rightarrow> share_policy \<Rightarrow> take_candidate list \<Rightarrow> guild_state \<Rightarrow>
     (take_candidate \<times> int) option \<Rightarrow> guild_state \<times> take_candidate option" where
  "pick_take cat inventory p [] u best = (u, map_option fst best)"
| "pick_take cat inventory p (c # cs) u best =
     (let stock = get_or 0 inventory (tc_FlowerID c);
          better = (case best of None \<Rightarrow> Some (c, stock)
            | Some (b, bestStock) \<Rightarrow> if stock < bestStock then Some (c, stock) else best)
      in if \<not> unionFlowerTakeAllowed cat c p then pick_take cat inventory p cs u best
         else if uf_TakeZeroInventoryOnly p \<and> 0 < stock
         then pick_take cat inventory p cs (u\<lparr>gu_zeroTakeIDs := removeAll (tc_FlowerID c) (gu_zeroTakeIDs u)\<rparr>) best
         else if uf_TakeZeroInventoryOnly p \<and> tc_FlowerID c \<in> set (gu_zeroTakeIDs u)
         then pick_take cat inventory p cs u best
         else pick_take cat inventory p cs u better)"

definition share_goal :: goal where
  "share_goal = guild_goal ''union.flower'' lit_guild_share_goal 44"

definition take_sync :: "string \<Rightarrow> string \<Rightarrow> int \<Rightarrow> planned_op" where
  "take_sync kind reason priority =
     (domainOp kind share_goal ''union.flower.take'' ''take'' reason priority 0 0 0)
       \<lparr>op_CooldownKey := ''union.flower.take''\<rparr>"

definition unionFlowerTakeOperations ::
  "flower_catalog \<Rightarrow> guild_catalog \<Rightarrow> game_state \<Rightarrow> share_policy \<Rightarrow> time \<Rightarrow> guild_state \<Rightarrow> guild_state \<times> planned_op list" where
  "unionFlowerTakeOperations fcat cat s p now u0 =
     (if \<not> FmlFlowerTakeWindowOpen now then (u0, [])
      else case FmlFlowerTakeDailyLimitReached now u0 of
        (u1, Some til) \<Rightarrow> (u1, [])
      | (u1, None) \<Rightarrow>
          (case FmlFlowerTakeExhausted cat now u1 of (u2, exhausted) \<Rightarrow>
             if exhausted then (u2, [])
             else if \<not> fs_Observed (gu_share u2)
             then (u2, [take_sync RPCFmlFlowerShareRefresh lit_guild_take_unseen 4465])
             else if \<not> gu_otherObserved u2 \<or> fmlFlowerTakeListStale u2 now
             then (u2, [take_sync RPCFmlFlowerShareGetFmlOtherShareList lit_guild_take_stale 4460])
             else case pick_take fcat (Inventory s) p (FmlFlowerTakeCandidates u2) u2 None of
               (u3, None) \<Rightarrow> (u3, [])
             | (u3, Some c) \<Rightarrow>
                 (u3, [(domainOp RPCFmlFlowerShareTake share_goal ''union.flower.take'' ''take'' lit_guild_take
                     4460 (tc_SlotID c) 0 1)
                   \<lparr>op_TargetUID := tc_UID c, op_FlowerID := tc_FlowerID c, op_CooldownKey := ''union.flower.take''\<rparr>])))"

definition unionFlowerOperations ::
  "flower_catalog \<Rightarrow> guild_catalog \<Rightarrow> game_state \<Rightarrow> share_policy \<Rightarrow> time \<Rightarrow> guild_state \<Rightarrow> guild_state \<times> planned_op list" where
  "unionFlowerOperations fcat cat s p now u =
     (let rewards =
            (if \<not> uf_ShareEnabled p then []
             else if \<not> fs_Observed (gu_share u)
             then [domainOp RPCFmlFlowerShareRefresh share_goal ''union.flower.reward'' ''claim'' lit_guild_share_unseen 4470 0 0 0]
             else if ReadyFmlFlowerShareRewardSlotIDs u \<noteq> []
             then [(domainOp RPCFmlFlowerShareRecvRwd share_goal ''union.flower.reward'' ''claim'' lit_guild_share_ready
                      4470 0 0 (int (length (ReadyFmlFlowerShareRewardSlotIDs u))))
                     \<lparr>op_SlotIDs := ReadyFmlFlowerShareRewardSlotIDs u\<rparr>]
             else [])
      in if \<not> uf_TakeEnabled p then (u, rewards)
         else case unionFlowerTakeOperations fcat cat s p now u of (u', takes) \<Rightarrow> (u', rewards @ takes))"


section \<open>Planting guild land\<close>

definition filterUnionLandPlantCandidates ::
  "flower_catalog \<Rightarrow> plantable_flower list \<Rightarrow> guild_land_policy \<Rightarrow> plantable_flower list" where
  "filterUnionLandPlantCandidates cat candidates p =
     (let flowers = int32Set (ul_FlowerIds p); qualities = int32Set (ul_Qualities p); maxLvl = ul_MaxFlowerLevel p
      in if candidates = [] then candidates
         else if flowers = {} \<and> qualities = {} \<and> maxLvl \<le> 0 then candidates
         else filter (\<lambda>c. (flowers \<noteq> {} \<longrightarrow> pf_FlowerID c \<in> flowers) \<and>
                (qualities \<noteq> {} \<longrightarrow> flowerQuality cat (pf_FlowerID c) \<in> qualities) \<and>
                (0 < maxLvl \<longrightarrow> pf_Lvl c \<le> maxLvl)) candidates)"

definition lower_stock :: "plantable_flower \<Rightarrow> plantable_flower \<Rightarrow> bool" where
  "lower_stock c best \<longleftrightarrow>
     pf_Stock c < pf_Stock best \<or> pf_Stock c = pf_Stock best \<and> pf_FlowerID c < pf_FlowerID best"

text \<open>A scan that keeps the candidate found so far unless the next one is better.\<close>

definition pick_best :: "('a \<Rightarrow> 'a \<Rightarrow> bool) \<Rightarrow> 'a list \<Rightarrow> 'a" where
  "pick_best better cs = foldl (\<lambda>best c. if better c best then c else best) (hd cs) (tl cs)"

definition pickLowestStockPlantable :: "plantable_flower list \<Rightarrow> plantable_flower" where
  "pickLowestStockPlantable cs = pick_best lower_stock cs"

definition nobler :: "flower_catalog \<Rightarrow> plantable_flower \<Rightarrow> plantable_flower \<Rightarrow> bool" where
  "nobler cat c best \<longleftrightarrow>
     (let q = flowerQuality cat (pf_FlowerID c); bq = flowerQuality cat (pf_FlowerID best)
      in bq < q \<or> q = bq \<and> pf_Lvl c < pf_Lvl best \<or>
         q = bq \<and> pf_Lvl c = pf_Lvl best \<and> pf_Stock c < pf_Stock best \<or>
         q = bq \<and> pf_Lvl c = pf_Lvl best \<and> pf_Stock c = pf_Stock best \<and> pf_FlowerID c < pf_FlowerID best)"

definition pickHighestQualityThenLevelStock :: "flower_catalog \<Rightarrow> plantable_flower list \<Rightarrow> plantable_flower" where
  "pickHighestQualityThenLevelStock cat cs = pick_best (nobler cat) cs"

definition filterPlantableByMinCD :: "guild_catalog \<Rightarrow> plantable_flower list \<Rightarrow> int \<Rightarrow> plantable_flower list" where
  "filterPlantableByMinCD cat cs minCD =
     filter (\<lambda>c. case gc_FlowerCD cat (pf_FlowerID c) (pf_Lvl c) of None \<Rightarrow> False | Some cd \<Rightarrow> minCD \<le> cd) cs"

definition below_level :: "plantable_flower \<Rightarrow> bool" where
  "below_level c \<longleftrightarrow> 0 < pf_Lvl c \<and> pf_Lvl c < unionLandPreferBelowLevel"

definition unionLandHasBelowLevel :: "plantable_flower list \<Rightarrow> bool" where
  "unionLandHasBelowLevel cs \<longleftrightarrow> list_ex below_level cs"

definition selectUnionLandPlantFlowerFrom ::
  "flower_catalog \<Rightarrow> guild_catalog \<Rightarrow> plantable_flower list \<Rightarrow> guild_land_policy \<Rightarrow> int \<times> string" where
  "selectUnionLandPlantFlowerFrom fcat cat cs p =
     (let minMinutes = (if ul_MinMaturityMinutes p \<le> 0 then unionLandDefaultMaturityMin else ul_MinMaturityMinutes p);
          lowLevel = filter below_level cs;
          longMature = filterPlantableByMinCD cat cs (minMinutes * 60);
          eleven = show_int unionLandPreferBelowLevel
      in if cs = [] then (0, [])
         else if lowLevel \<noteq> []
         then (pf_FlowerID (pickHighestQualityThenLevelStock fcat lowLevel),
               lit_guild_below @ eleven @ lit_guild_below_rest @ eleven)
         else if longMature \<noteq> []
         then (pf_FlowerID (pickLowestStockPlantable longMature),
               lit_guild_all_from @ eleven @ lit_guild_long @ show_int minMinutes @ lit_guild_long_rest)
         else (pf_FlowerID (pickLowestStockPlantable cs), lit_guild_all_from @ eleven @ lit_guild_no_long))"

definition unionLandNearMature :: "guild_catalog \<Rightarrow> guild_land \<Rightarrow> time \<Rightarrow> bool" where
  "unionLandNearMature cat land now \<longleftrightarrow>
     (let nextMs = FmlLandNextMatureMs cat land now; remaining = unix_milli nextMs - now
      in 0 < nextMs \<and> 0 < remaining \<and> remaining \<le> unionLandNearMatureGrace)"

definition unionLandMinReplantMinutes :: "guild_land_policy \<Rightarrow> int" where
  "unionLandMinReplantMinutes p =
     (if ul_MinReplantMinutes p \<le> 0 then unionLandDefaultReplantMin else ul_MinReplantMinutes p)"

definition unionLandReplantCooldownElapsed :: "guild_land \<Rightarrow> time \<Rightarrow> int \<Rightarrow> bool" where
  "unionLandReplantCooldownElapsed land now minMinutes \<longleftrightarrow>
     0 < gl_StartTimeMs land \<and> minMinutes * minute \<le> now - unix_milli (gl_StartTimeMs land)"

definition land_plantable :: "guild_catalog \<Rightarrow> int \<Rightarrow> time \<Rightarrow> guild_land_policy \<Rightarrow> guild_land \<Rightarrow> bool" where
  "land_plantable cat flowerID now p land \<longleftrightarrow>
     (if 0 < FmlLandPendingHarvest cat land now then False
      else if gl_FlowerID land \<le> 0 then True
      else if gl_FlowerID land = flowerID then False
      else if unionLandNearMature cat land now then False
      else unionLandReplantCooldownElapsed land now (unionLandMinReplantMinutes p))"

definition unionLandPlantableIDs :: "guild_catalog \<Rightarrow> guild_state \<Rightarrow> int \<Rightarrow> time \<Rightarrow> guild_land_policy \<Rightarrow> int list" where
  "unionLandPlantableIDs cat u flowerID now p =
     filter (\<lambda>i. land_plantable cat flowerID now p (the (map_of (gu_lands u) i))) (sort (map fst (gu_lands u)))"

definition unionLandPlantOperation ::
  "flower_catalog \<Rightarrow> guild_catalog \<Rightarrow> game_state \<Rightarrow> guild_state \<Rightarrow> guild_land_policy \<Rightarrow> goal \<Rightarrow> time \<Rightarrow> planned_op option" where
  "unionLandPlantOperation fcat cat s u p goal now =
     (let candidates = filterUnionLandPlantCandidates fcat (PlantableFlowers fcat s [] []) p
      in case selectUnionLandPlantFlowerFrom fcat cat candidates p of (flowerID, reason) \<Rightarrow>
           let landIDs = unionLandPlantableIDs cat u flowerID now p;
               reason = (if unionLandHasBelowLevel candidates then reason @ lit_guild_leveling else reason);
               n = int (length landIDs)
           in if flowerID \<le> 0 \<or> landIDs = [] then None
              else Some ((domainOp RPCFmlLandPlant goal ''union.land.plant'' ''plant''
                     (lit_guild_auto_plant @ flower_title cat flowerID @ lit_guild_times @ show_int n @ '': '' @ reason)
                     4480 0 flowerID n)\<lparr>op_LandIDs := landIDs, op_FlowerID := flowerID\<rparr>))"

definition unionLandOperations ::
  "flower_catalog \<Rightarrow> guild_catalog \<Rightarrow> game_state \<Rightarrow> guild_state \<Rightarrow> guild_land_policy \<Rightarrow> time \<Rightarrow> planned_op list" where
  "unionLandOperations fcat cat s u p now =
     (let goal = guild_goal ''union.land'' lit_guild_land_goal 44; ready = ReadyFmlLandHarvestIDs cat u now
      in if \<not> gu_landObserved u
         then [domainOp RPCFmlEnter goal ''union.land'' ''sync'' lit_guild_land_unseen 4485 0 0 0]
         else
           (if \<not> ul_AutoPlantEnabled p then []
            else case unionLandPlantOperation fcat cat s u p goal now of None \<Rightarrow> [] | Some x \<Rightarrow> [x]) @
           (if \<not> ul_HarvestEnabled p \<or> ready = [] then []
            else [(domainOp RPCFmlLandHarvest goal ''union.land.harvest'' ''harvest''
                     (FormatFmlLandHarvestReason cat (gu_lands u) ready now) 4475 0 0 (int (length ready)))
                   \<lparr>op_LandIDs := ready\<rparr>]))"

section \<open>The energy forest and the module as a whole\<close>

definition ReadyFmlForestEnergyTypes :: "guild_state \<Rightarrow> int list" where
  "ReadyFmlForestEnergyTypes u = sort (map fst (filter (\<lambda>(k, n). 0 < n) (gu_forestPending u)))"

definition MarkFmlForestRefreshAttemptAt :: "time \<Rightarrow> guild_state \<Rightarrow> guild_state" where
  "MarkFmlForestRefreshAttemptAt at u = u\<lparr>gu_forestAttemptAtMs := to_unix_milli at\<rparr>"

definition unionForestOperations :: "guild_state \<Rightarrow> bool \<Rightarrow> time \<Rightarrow> planned_op list" where
  "unionForestOperations u enabled now =
     (let goal = guild_goal ''union.forest'' lit_forest_goal 43
      in if \<not> enabled then []
         else if 0 < gu_forestAttemptAtMs u \<and>
                 now < unix_milli (gu_forestAttemptAtMs u) + fmlForestRefreshRetryInterval then []
         else if \<not> gu_forestObserved u
         then [domainOp RPCFmlForestRefresh goal ''union.forest'' ''collect'' lit_forest_unseen 4430 1 0 0]
         else if ReadyFmlForestEnergyTypes u = [] then []
         else [domainOp RPCFmlForestRefresh goal ''union.forest'' ''collect'' lit_forest_ready 4430 1 0
                 (gu_forestPendingTotal u)])"

text \<open>\<open>unionOperations\<close>; reading the shares may forget a daily mark or a remembered take.\<close>

definition unionOperations ::
  "flower_catalog \<Rightarrow> race_catalog \<Rightarrow> guild_catalog \<Rightarrow> game_state \<Rightarrow> union_policy option \<Rightarrow> race_module_gates \<Rightarrow> time \<Rightarrow>
     guild_state \<Rightarrow> guild_state \<times> planned_op list" where
  "unionOperations fcat rcat cat s policy gates now u =
     (case policy of
        None \<Rightarrow> (u, [])
      | Some p \<Rightarrow>
          let build = FmlBuild s
          in if \<not> bv_MembershipObserved build \<or> bv_MemberFmlID build \<le> 0
             then (u, unionMembershipOperations build u p now)
             else case unionFlowerOperations fcat cat s (up_Flower p) now u of (u', flowers) \<Rightarrow>
               (u', unionBuildOperations cat s u (up_Build p) @ flowers @
                  unionLandOperations fcat cat s u' (up_Land p) now @
                  unionRaceOperations rcat s (up_Race p) (gs_roleID s) now gates @
                  unionForestOperations u' (up_ForestEnabled p) now))"

end
