(* ===== verification/GuildSafety.thy ===== *)
theory GuildSafety
  imports Guild OrderCounts
begin

text \<open>
  What the guild planner may do: guild land is replanted only where nothing ripens for two minutes,
  donations stay within budget and stock, and a used-up sharing quota is left alone until midnight.
\<close>

lemma domainOp_plain [simp]:
  "op_Kind (domainOp k g d a r pr t i n) = k" "op_TargetID (domainOp k g d a r pr t i n) = t"
  "op_ItemID (domainOp k g d a r pr t i n) = i" "op_Count (domainOp k g d a r pr t i n) = n"
  "op_LandIDs (domainOp k g d a r pr t i n) = []" "op_GoldCost (domainOp k g d a r pr t i n) = 0"
  "op_DiamondCost (domainOp k g d a r pr t i n) = 0" "op_ItemCost (domainOp k g d a r pr t i n) = []"
  by (simp_all add: domainOp_def enrichPlannedOp_def apply_spec_def Let_def zero_op_def split: option.split)

section \<open>Scanning for the best\<close>

lemma pick_best_in:
  assumes "cs \<noteq> []"
  shows "pick_best better cs \<in> set cs"
proof -
  have scan: "foldl (\<lambda>best c. if better c best then c else best) b xs \<in> insert b (set xs)" for b xs
  proof (induction xs arbitrary: b)
    case (Cons x xs)
    show ?case using Cons.IH [of x] Cons.IH [of b]
      by (cases "better x b") (simp_all only: foldl_Cons if_True if_False list.set insert_iff, blast+)
  qed simp
  from assms obtain c rest where "cs = c # rest" by (cases cs) auto
  with scan [of c rest] show ?thesis by (simp only: pick_best_def list.sel list.set)
qed

context weak_order
begin

lemma scan_best:
  assumes "b \<in> A" "set xs \<subseteq> A"
  shows "foldl (\<lambda>best c. if before c best then c else best) b xs \<in> A \<and>
    (\<forall>c \<in> insert b (set xs). \<not> before c (foldl (\<lambda>best c. if before c best then c else best) b xs))"
  using assms
proof (induction xs arbitrary: b)
  case Nil
  then show ?case using less_asym [of b b] by auto
next
  case (Cons x xs)
  let ?b = "if before x b then x else b"
  have b: "?b \<in> A" "set xs \<subseteq> A" "x \<in> A" using Cons.prems by auto
  note IH = Cons.IH [OF b(1, 2)]
  let ?r = "foldl (\<lambda>best c. if before c best then c else best) ?b xs"
  have "\<not> before x ?b" "\<not> before b ?b"
    using less_asym [of x x] less_asym [of b b] less_asym [of x b] b(3) Cons.prems by (simp_all split: if_split) blast+
  then have "\<not> before x ?r" "\<not> before b ?r"
    using IH less_negtrans [of x ?b ?r] less_negtrans [of b ?b ?r] b Cons.prems by blast+
  with IH show ?case by simp
qed

lemma pick_best_least: "set cs \<subseteq> A \<Longrightarrow> c \<in> set cs \<Longrightarrow> \<not> before c (pick_best before cs)"
  using scan_best [of "hd cs" "tl cs"] by (cases cs) (auto simp: pick_best_def)

end

interpretation low_stock: weak_order UNIV lower_stock
  by unfold_locales (auto simp: lower_stock_def)

definition noble_key :: "flower_catalog \<Rightarrow> plantable_flower \<Rightarrow> int \<times> int \<times> int \<times> int" where
  "noble_key cat c = (- flowerQuality cat (pf_FlowerID c), pf_Lvl c, pf_Stock c, pf_FlowerID c)"

lemma nobler_key: "nobler cat c d \<longleftrightarrow> noble_key cat c < noble_key cat d"
  unfolding nobler_def noble_key_def Let_def less_prod_simp by linarith

interpretation noble: weak_order UNIV "nobler cat" for cat
  by unfold_locales (simp_all only: nobler_key less_asym' not_less order_trans)

section \<open>Growth\<close>

lemma guild_pending_nonneg: "0 \<le> FmlLandPendingHarvest cat land now"
  by (auto simp: FmlLandPendingHarvest_def FmlLandLvlByID_def Let_def pos_imp_zdiv_nonneg_iff
      split: option.splits prod.splits)

lemma no_harvest_soon:
  assumes none: "FmlLandPendingHarvest cat land now = 0" and far: "\<not> unionLandNearMature cat land now"
    and t: "now \<le> t" "t \<le> now + unionLandNearMatureGrace"
  shows "FmlLandPendingHarvest cat land t = 0"
proof (cases "gl_FlowerID land \<le> 0 \<or> fmlLandCalculationTimeMs land \<le> 0 \<or> FmlLandLvlByID cat (gl_Level land) = None")
  case True
  with none show ?thesis by (auto simp: FmlLandPendingHarvest_def Let_def split: option.splits)
next
  case False
  then obtain timeSec stock where lvl: "FmlLandLvlByID cat (gl_Level land) = Some (timeSec, stock)"
    and f: "0 < gl_FlowerID land" and a: "0 < fmlLandCalculationTimeMs land" by auto
  define anchor where "anchor = fmlLandCalculationTimeMs land"
  have pos: "0 < timeSec" using lvl by (auto simp: FmlLandLvlByID_def split: option.splits if_splits)
  show ?thesis
  proof (cases "stock \<le> 0")
    case True
    with none f lvl show ?thesis by (auto simp: FmlLandPendingHarvest_def Let_def)
  next
    case stock: False
    have pend: "FmlLandPendingHarvest cat land u = max (gl_MatureFlowerCnt land) 0 +
        (if to_unix_milli u \<le> anchor then 0
         else min ((to_unix_milli u - anchor) div (timeSec * 1000)) (max (stock - max (gl_MatureFlowerCnt land) 0) 0))" for u
      using f a lvl stock by (simp add: FmlLandPendingHarvest_def anchor_def Let_def)
    have q: "0 \<le> (to_unix_milli now - anchor) div (timeSec * 1000)" if "anchor < to_unix_milli now"
      using that pos by (simp add: pos_imp_zdiv_nonneg_iff)
    have stored: "max (gl_MatureFlowerCnt land) 0 = 0"
      using none pend [of now] q by (auto split: if_splits)
    have nxt: "FmlLandNextMatureMs cat land now = anchor + timeSec * 1000"
      using none f a lvl stock by (simp add: FmlLandNextMatureMs_def anchor_def Let_def)
    have "to_unix_milli now < anchor + timeSec * 1000"
    proof (rule ccontr)
      assume "\<not> ?thesis"
      then have "1 \<le> (to_unix_milli now - anchor) div (timeSec * 1000)" "anchor < to_unix_milli now"
        using pos by (simp_all add: pos_imp_zdiv_pos_iff int_one_le_iff_zero_less)
      with none pend [of now] stored stock show False by auto
    qed
    then have "now < unix_milli (anchor + timeSec * 1000)"
      by (simp add: to_unix_milli_def unix_milli_def millisecond_def)
    moreover have "0 < anchor + timeSec * 1000" using a pos by (simp add: anchor_def)
    ultimately have "now + unionLandNearMatureGrace < unix_milli (anchor + timeSec * 1000)"
      using far nxt by (auto simp: unionLandNearMature_def Let_def)
    then have "to_unix_milli t < anchor + timeSec * 1000"
      using t(2) by (simp add: to_unix_milli_def unix_milli_def millisecond_def)
    then have "to_unix_milli t \<le> anchor \<or> (to_unix_milli t - anchor) div (timeSec * 1000) = 0"
      using pos by (cases "to_unix_milli t \<le> anchor") (simp_all add: div_pos_pos_trivial)
    then show ?thesis using pend [of t] stored by auto
  qed
qed

section \<open>The flower for guild land\<close>

definition land_candidates :: "flower_catalog \<Rightarrow> game_state \<Rightarrow> guild_land_policy \<Rightarrow> plantable_flower list" where
  "land_candidates fcat s p = filterUnionLandPlantCandidates fcat (PlantableFlowers fcat s [] []) p"

text \<open>A flower that is trained before the others: below level 11, of the best quality among those.\<close>

definition trained_first :: "flower_catalog \<Rightarrow> plantable_flower list \<Rightarrow> plantable_flower \<Rightarrow> bool" where
  "trained_first fcat cs c \<longleftrightarrow>
     (\<forall>d \<in> set cs. below_level d \<longrightarrow> below_level c \<and>
        flowerQuality fcat (pf_FlowerID d) \<le> flowerQuality fcat (pf_FlowerID c) \<and>
        (flowerQuality fcat (pf_FlowerID d) = flowerQuality fcat (pf_FlowerID c) \<longrightarrow> pf_Lvl c \<le> pf_Lvl d))"

lemma selected_flower:
  assumes "cs \<noteq> []"
  shows "\<exists>c \<in> set cs. fst (selectUnionLandPlantFlowerFrom fcat cat cs p) = pf_FlowerID c \<and> trained_first fcat cs c"
proof (cases "filter below_level cs = []")
  case False
  let ?c = "pickHighestQualityThenLevelStock fcat (filter below_level cs)"
  have "?c \<in> set (filter below_level cs)"
    unfolding pickHighestQualityThenLevelStock_def by (rule pick_best_in [OF False])
  moreover have "\<not> nobler fcat d ?c" if "d \<in> set (filter below_level cs)" for d
    unfolding pickHighestQualityThenLevelStock_def by (rule noble.pick_best_least) (use that in auto)
  ultimately have "trained_first fcat cs ?c"
    by (fastforce simp: trained_first_def nobler_def Let_def)
  then show ?thesis
    using assms False \<open>?c \<in> _\<close> by (auto simp: selectUnionLandPlantFlowerFrom_def Let_def)
next
  case True
  then have any: "trained_first fcat cs c" for c by (auto simp: trained_first_def filter_empty_conv)
  have "pickLowestStockPlantable (filterPlantableByMinCD cat cs m) \<in> set cs" if "filterPlantableByMinCD cat cs m \<noteq> []" for m
    using pick_best_in [OF that, of lower_stock] by (auto simp: pickLowestStockPlantable_def filterPlantableByMinCD_def)
  moreover have "pickLowestStockPlantable cs \<in> set cs"
    unfolding pickLowestStockPlantable_def by (rule pick_best_in [OF assms])
  ultimately show ?thesis
    using True assms any by (auto simp: selectUnionLandPlantFlowerFrom_def Let_def)
qed

definition land_free :: "guild_catalog \<Rightarrow> guild_land_policy \<Rightarrow> time \<Rightarrow> int \<Rightarrow> guild_land \<Rightarrow> bool" where
  "land_free cat p now flowerID land \<longleftrightarrow>
     gl_FlowerID land \<le> 0 \<or>
     gl_FlowerID land \<noteq> flowerID \<and>
     unix_milli (gl_StartTimeMs land) + minute * unionLandMinReplantMinutes p \<le> now \<and>
     (\<forall>t. now \<le> t \<and> t \<le> now + unionLandNearMatureGrace \<longrightarrow> FmlLandPendingHarvest cat land t = 0)"

lemma land_plantable_free: "land_plantable cat flowerID now p land \<Longrightarrow> land_free cat p now flowerID land"
  using no_harvest_soon [of cat land now] guild_pending_nonneg [of cat land now]
  by (auto simp: land_plantable_def land_free_def unionLandReplantCooldownElapsed_def mult.commute split: if_splits)

text \<open>
  C36.  Guild land is never replanted over a harvest.  Whatever the planner plants on guild
  land, the flower passes the policy's filters and, while any allowed flower is below level 11, is
  itself below level 11, of the best quality and the lowest level among those; the lands are distinct
  lands of the guild, each of them either empty or planted with another flower for at least the
  policy's minutes, and on none of the latter does a flower ripen within the next two minutes.
\<close>

theorem guild_replant_safe:
  assumes "gomap_ok (gu_lands u)" "x \<in> set (unionLandOperations fcat cat s u p now)" "op_Kind x = RPCFmlLandPlant"
  shows "distinct (op_LandIDs x) \<and> op_LandIDs x \<noteq> [] \<and>
    (\<exists>c \<in> set (land_candidates fcat s p). pf_FlowerID c = op_FlowerID x \<and> trained_first fcat (land_candidates fcat s p) c) \<and>
    (\<forall>i \<in> set (op_LandIDs x). \<exists>land. map_of (gu_lands u) i = Some land \<and> land_free cat p now (op_FlowerID x) land)"
proof -
  let ?cs = "land_candidates fcat s p"
  obtain goal where "unionLandPlantOperation fcat cat s u p goal now = Some x"
    using assms(2, 3) by (auto simp: unionLandOperations_def Let_def split: if_splits option.splits)
  then have lands: "op_LandIDs x = unionLandPlantableIDs cat u (op_FlowerID x) now p" "op_LandIDs x \<noteq> []"
    and flower: "0 < op_FlowerID x" "op_FlowerID x = fst (selectUnionLandPlantFlowerFrom fcat cat ?cs p)"
    by (auto simp: unionLandPlantOperation_def land_candidates_def Let_def split: prod.splits if_splits)
  have "?cs \<noteq> []" using flower by (auto simp: selectUnionLandPlantFlowerFrom_def)
  from selected_flower [OF this] flower
  have "\<exists>c \<in> set ?cs. pf_FlowerID c = op_FlowerID x \<and> trained_first fcat ?cs c" by metis
  moreover have "distinct (op_LandIDs x)"
    using assms(1) by (simp add: lands(1) unionLandPlantableIDs_def gomap_ok_def)
  moreover have "\<exists>land. map_of (gu_lands u) i = Some land \<and> land_free cat p now (op_FlowerID x) land"
    if "i \<in> set (op_LandIDs x)" for i
  proof -
    have i: "i \<in> fst ` set (gu_lands u)" "land_plantable cat (op_FlowerID x) now p (the (map_of (gu_lands u) i))"
      using that by (auto simp: lands(1) unionLandPlantableIDs_def)
    then obtain land where "map_of (gu_lands u) i = Some land" by (metis map_of_eq_None_iff not_None_eq)
    with i(2) land_plantable_free show ?thesis by auto
  qed
  ultimately show ?thesis using lands(2) by blast
qed


text \<open>Land 1 is empty, land 2 holds another flower for hours with nothing near, land 3 ripens in a minute.\<close>

definition guild_land_of :: "int \<Rightarrow> int \<Rightarrow> guild_land" where
  "guild_land_of flower start =
     \<lparr>gl_Level = 1, gl_FlowerID = flower, gl_StartTimeMs = start, gl_MatureFlowerCnt = 0, gl_LastCalcTimeMs = 0\<rparr>"

definition slow_catalog :: guild_catalog where
  "slow_catalog = \<lparr>gc_LandLvl = (\<lambda>_. Some (36000, 6)), gc_BuildOption = (\<lambda>_. None), gc_TakeMax = 4,
     gc_InitTakeNum = 1, gc_FlowerName = (\<lambda>_. ''rose''), gc_FlowerCD = (\<lambda>_ _. None)\<rparr>"

definition plain_flowers :: flower_catalog where
  "plain_flowers = \<lparr>fc_Gold = (\<lambda>_. 0), fc_Experience = (\<lambda>_. 0), fc_Color = (\<lambda>_. None)\<rparr>"

definition no_share :: flower_share where
  "no_share = \<lparr>fs_Observed = False, fs_UID = 0, fs_TdyTakeCnt = 0, fs_LastTakeTimeMs = 0, fs_Slots = []\<rparr>"

definition guild_of :: "(int, guild_land) gomap \<Rightarrow> guild_state" where
  "guild_of lands = \<lparr>gu_MembershipSyncAtMs = 0, gu_MembershipSyncAttempts = 0, gu_BuildCountsObserved = False,
     gu_BuildCounts = [], gu_LastBuildTimeMs = 0, gu_FlowerTakeCnt = 0, gu_landObserved = True, gu_lands = lands,
     gu_share = no_share, gu_otherShares = [], gu_otherObserved = False, gu_otherSyncedAtMs = 0,
     gu_takeLimitUntilMs = 0, gu_zeroTakeIDs = [], gu_forestObserved = False, gu_forestPending = [],
     gu_forestPendingTotal = 0, gu_forestAttemptAtMs = 0\<rparr>"

definition sample_guild :: guild_state where
  "sample_guild = guild_of [(1, guild_land_of 0 0), (2, guild_land_of 23002 1), (3, guild_land_of 23003 3660001)]"

definition sample_land_policy :: guild_land_policy where
  "sample_land_policy = \<lparr>ul_HarvestEnabled = False, ul_AutoPlantEnabled = True, ul_FlowerIds = [], ul_Qualities = [],
     ul_MaxFlowerLevel = 0, ul_MinMaturityMinutes = 0, ul_MinReplantMinutes = 60\<rparr>"

definition rose_state :: game_state where
  "rose_state = sample_state\<lparr>gs_cultivations := [(23001, \<lparr>cv_Status = 2, cv_Lvl = 3\<rparr>)]\<rparr>"

lemma sample_land_parts:
  "unionLandPlantableIDs slow_catalog sample_guild 23001 (2 * hour) sample_land_policy = [1, 2]"
  "map pf_FlowerID (filterUnionLandPlantCandidates plain_flowers (PlantableFlowers plain_flowers rose_state [] []) sample_land_policy) = [23001]"
  by code_simp+

lemma sample_land_plan:
  "\<exists>x. unionLandOperations plain_flowers slow_catalog rose_state sample_guild sample_land_policy (2 * hour) = [x] \<and>
     op_LandIDs x = [1, 2] \<and> op_Kind x = RPCFmlLandPlant"
proof -
  obtain c where c: "filterUnionLandPlantCandidates plain_flowers (PlantableFlowers plain_flowers rose_state [] [])
      sample_land_policy = [c]" "pf_FlowerID c = 23001"
    using sample_land_parts(2) by auto
  have "fst (selectUnionLandPlantFlowerFrom plain_flowers slow_catalog [c] sample_land_policy) = 23001"
    using selected_flower [of "[c]" plain_flowers slow_catalog sample_land_policy] c(2) by auto
  then obtain r where r: "selectUnionLandPlantFlowerFrom plain_flowers slow_catalog [c] sample_land_policy = (23001, r)"
    by (metis prod.collapse)
  have on: "ul_AutoPlantEnabled sample_land_policy" "\<not> ul_HarvestEnabled sample_land_policy" "gu_landObserved sample_guild"
    by (simp_all add: sample_land_policy_def sample_guild_def guild_of_def)
  have "\<exists>x. unionLandPlantOperation plain_flowers slow_catalog rose_state sample_guild sample_land_policy goal (2 * hour) =
      Some x \<and> op_LandIDs x = [1, 2] \<and> op_Kind x = RPCFmlLandPlant" for goal
    by (simp add: unionLandPlantOperation_def c(1) r sample_land_parts(1) Let_def)
  then obtain x where "unionLandPlantOperation plain_flowers slow_catalog rose_state sample_guild sample_land_policy
      (guild_goal ''union.land'' lit_guild_land_goal 44) (2 * hour) = Some x"
    "op_LandIDs x = [1, 2]" "op_Kind x = RPCFmlLandPlant" by blast
  with on show ?thesis by (simp add: unionLandOperations_def Let_def)
qed

theorem guild_replant_safe_witness:
  "\<exists>x. unionLandOperations plain_flowers slow_catalog rose_state sample_guild sample_land_policy (2 * hour) = [x] \<and>
     op_LandIDs x = [1, 2] \<and>
     (\<forall>i \<in> {1, 2}. \<exists>land. map_of (gu_lands sample_guild) i = Some land \<and>
        land_free slow_catalog sample_land_policy (2 * hour) (op_FlowerID x) land)"
proof -
  let ?ops = "unionLandOperations plain_flowers slow_catalog rose_state sample_guild sample_land_policy (2 * hour)"
  obtain x where x: "?ops = [x]" "op_LandIDs x = [1, 2]" "op_Kind x = RPCFmlLandPlant"
    using sample_land_plan by blast
  have "gomap_ok (gu_lands sample_guild)" by (simp add: sample_guild_def guild_of_def gomap_ok_def)
  moreover have "x \<in> set ?ops" using x(1) by simp
  ultimately have "\<forall>i \<in> set (op_LandIDs x). \<exists>land. map_of (gu_lands sample_guild) i = Some land \<and>
      land_free slow_catalog sample_land_policy (2 * hour) (op_FlowerID x) land"
    using guild_replant_safe [of sample_guild x] x(3) by blast
  then show ?thesis using x by auto
qed

section \<open>Donations\<close>

lemma cost_gate_open:
  assumes "applyUnionBuildCostGate x option p s = (y, [])" "op_GoldCost x = 0" "op_DiamondCost x = 0" "op_ItemCost x = []"
  shows "op_DiamondCost y = 0 \<and> op_GoldCost y \<le> max 0 (min (ub_MaxSpendGold p) (Gold s)) \<and>
    (\<forall>(i, n) \<in> set (op_ItemCost y). i \<noteq> 1 \<and> i \<noteq> 11 \<and> n \<le> get_or 0 (Inventory s) i) \<and>
    op_TargetID y = op_TargetID x"
  using assms by (auto simp: applyUnionBuildCostGate_def Let_def split: if_splits)

definition donation_open :: "guild_catalog \<Rightarrow> guild_state \<Rightarrow> int \<Rightarrow> bool" where
  "donation_open cat u i \<longleftrightarrow> (\<exists>option. gc_BuildOption cat i = Some option \<and>
     (0 < bo_DailyLimit option \<longrightarrow> get_or 0 (gu_BuildCounts u) i < bo_DailyLimit option) \<and>
     (0 < bo_GroupDailyLimit option \<longrightarrow>
        unionBuildGroupUsage cat (gu_BuildCounts u) (bo_Type option) < bo_GroupDailyLimit option))"

definition donation_paid :: "guild_catalog \<Rightarrow> game_state \<Rightarrow> guild_state \<Rightarrow> build_policy \<Rightarrow> int list \<Rightarrow> planned_op \<Rightarrow> bool" where
  "donation_paid cat s u p is x \<longleftrightarrow>
     op_TargetID x \<in> set is \<and> donation_open cat u (op_TargetID x) \<and> op_DiamondCost x = 0 \<and>
     op_GoldCost x \<le> max 0 (min (ub_MaxSpendGold p) (Gold s)) \<and>
     (\<forall>(i, n) \<in> set (op_ItemCost x). i \<noteq> 1 \<and> i \<noteq> 11 \<and> n \<le> get_or 0 (Inventory s) i)"

lemma donation_paid_more: "donation_paid cat s u p is x \<Longrightarrow> donation_paid cat s u p (i # is) x"
  by (simp add: donation_paid_def)

definition not_yet :: "planned_op option \<Rightarrow> bool" where
  "not_yet first \<longleftrightarrow> (\<forall>b. first = Some b \<longrightarrow> \<not> op_Executable b)"

lemma not_yet_first: "not_yet first \<Longrightarrow> not_yet (Some (case first of Some b \<Rightarrow> b | None \<Rightarrow> missing_adapter r z))"
  by (cases first) (simp_all add: not_yet_def missing_adapter_def)

lemma build_options_paid:
  "x \<in> set (build_options cat s u p is first) \<Longrightarrow> op_Executable x \<Longrightarrow> not_yet first \<Longrightarrow>
     donation_paid cat s u p is x"
proof (induction "is" arbitrary: first)
  case Nil
  then show ?case by (auto simp: not_yet_def split: option.splits)
next
  case (Cons i "is")
  show ?case
  proof (cases "gc_BuildOption cat i")
    case None
    with Cons show ?thesis by (auto intro!: donation_paid_more Cons.IH not_yet_first)
  next
    case (Some option)
    define reason where "reason = (if bo_Name option = [] then lit_guild_build_number @ show_int i else bo_Name option)"
    define z where "z = (build_op (reason @ lit_executable_suffix) (4500 - i) i 1)\<lparr>op_CooldownKey := ''union.build''\<rparr>"
    obtain y blocked where g: "applyUnionBuildCostGate z option p s = (y, blocked)" by fastforce
    let ?full = "0 < bo_DailyLimit option \<and> bo_DailyLimit option \<le> get_or 0 (gu_BuildCounts u) i \<or>
        0 < bo_GroupDailyLimit option \<and>
        bo_GroupDailyLimit option \<le> unionBuildGroupUsage cat (gu_BuildCounts u) (bo_Type option)"
    have step: "build_options cat s u p (i # is) first =
        (if ?full then build_options cat s u p is first
         else if blocked \<noteq> []
         then build_options cat s u p is (Some (case first of Some b \<Rightarrow> b | None \<Rightarrow> missing_adapter blocked y))
         else [y])"
      using g by (simp add: Some Let_def z_def reason_def)
    let ?rest = "build_options cat s u p is (Some (case first of Some b \<Rightarrow> b | None \<Rightarrow> missing_adapter blocked y))"
    have mem: "x \<in> set (if ?full then build_options cat s u p is first else if blocked \<noteq> [] then ?rest else [y])"
      using Cons.prems(1) unfolding step .
    consider (skip) "x \<in> set (build_options cat s u p is first)" | (block) "x \<in> set ?rest"
      | (pay) "\<not> ?full" "blocked = []" "x = y"
    proof (cases ?full)
      case True
      with mem skip show ?thesis by (simp only: if_True)
    next
      case False
      then show ?thesis
      proof (cases "blocked = []")
        case True
        from mem have "x = y" by (simp only: False True if_False not_not simp_thms list.set) simp
        then show ?thesis using pay False True by blast
      next
        case blocked: False
        from mem have "x \<in> set ?rest" by (simp only: False blocked if_False if_True simp_thms)
        then show ?thesis by (rule block)
      qed
    qed
    then show ?thesis
    proof cases
      case pay
      have plain: "op_GoldCost z = 0" "op_DiamondCost z = 0" "op_ItemCost z = []" "op_TargetID z = i"
        by (simp_all add: z_def build_op_def)
      from cost_gate_open [OF g [unfolded pay(2)] plain(1-3)] pay(1) Some plain(4) show ?thesis
        unfolding donation_paid_def donation_open_def pay(3) by (auto simp: not_le)
    next
      case skip
      then show ?thesis by (rule donation_paid_more [OF Cons.IH]) (use Cons.prems in simp_all)
    next
      case block
      then show ?thesis by (rule donation_paid_more [OF Cons.IH]) (use Cons.prems not_yet_first in simp_all)
    qed
  qed
qed

lemma donation_affordable:
  assumes "x \<in> set (unionBuildOperations cat s u p)" "op_Executable x"
  shows "donation_paid cat s u p (unionBuildOptionIDs p) x"
proof -
  have "x \<in> set (build_options cat s u p (unionBuildOptionIDs p) None)"
    using assms by (auto simp: unionBuildOperations_def missing_adapter_def split: if_splits)
  then show ?thesis using assms(2) by (rule build_options_paid) (simp add: not_yet_def)
qed

text \<open>
  The planner reads the counts without asking for their day.  After midnight a donation of yesterday
  still blocks, although the counts of today are zero for \<open>FmlBuildOptionUsageAt\<close>.
\<close>

definition gold_donation :: guild_catalog where
  "gold_donation = slow_catalog\<lparr>gc_BuildOption := (\<lambda>i. if i = 2 then Some \<lparr>bo_Name = ''gold'', bo_Type = 1,
     bo_DailyLimit = 1, bo_GroupDailyLimit = 0, bo_ShareID = 0, bo_ItemID = 11, bo_Cost = 100\<rparr> else None)\<rparr>"

definition donated_yesterday :: guild_state where
  "donated_yesterday = (guild_of [])\<lparr>gu_BuildCountsObserved := True, gu_BuildCounts := [(2, 1)], gu_LastBuildTimeMs := 1\<rparr>"

lemma stale_donation_blocks:
  assumes "bv_Observed (FmlBuild s)" "ub_GoldEnabled p" "\<not> ub_FreeEnabled p" "\<not> ub_DiamondEnabled p"
  shows "FmlBuildOptionUsageAt gold_donation donated_yesterday 2 (2 * day_length) = (True, 0, 0) \<and>
    unionBuildOperations gold_donation s donated_yesterday p = []"
proof
  have "calendarDayID (unix_milli 1) < calendarDayID (2 * day_length)" by code_simp
  then show "FmlBuildOptionUsageAt gold_donation donated_yesterday 2 (2 * day_length) = (True, 0, 0)"
    by (simp add: FmlBuildOptionUsageAt_def donated_yesterday_def)
  show "unionBuildOperations gold_donation s donated_yesterday p = []"
    using assms by (simp add: unionBuildOperations_def unionBuildPolicyEnabled_def unionBuildOptionIDs_def
        donated_yesterday_def gold_donation_def get_or_def)
qed

section \<open>Taking shared flowers\<close>

definition take_eligible ::
  "flower_catalog \<Rightarrow> (int, int) gomap \<Rightarrow> share_policy \<Rightarrow> int list \<Rightarrow> take_candidate \<Rightarrow> bool" where
  "take_eligible cat inventory p taken c \<longleftrightarrow> unionFlowerTakeAllowed cat c p \<and>
     (uf_TakeZeroInventoryOnly p \<longrightarrow> get_or 0 inventory (tc_FlowerID c) \<le> 0 \<and> tc_FlowerID c \<notin> set taken)"

lemma pick_take_best:
  assumes "pick_take cat inventory p cs u best = (u', Some c)"
    and "\<forall>b n. best = Some (b, n) \<longrightarrow> n = get_or 0 inventory (tc_FlowerID b)"
  shows "(take_eligible cat inventory p (gu_zeroTakeIDs u) c \<and> c \<in> set cs \<or> (\<exists>n. best = Some (c, n))) \<and>
    (\<forall>d. take_eligible cat inventory p (gu_zeroTakeIDs u) d \<and> d \<in> set cs \<or> (\<exists>n. best = Some (d, n)) \<longrightarrow>
       get_or 0 inventory (tc_FlowerID c) \<le> get_or 0 inventory (tc_FlowerID d))"
  using assms
proof (induction cs arbitrary: u best)
  case Nil
  then show ?case by auto
next
  case (Cons d cs)
  let ?stock = "get_or 0 inventory (tc_FlowerID d)"
  let ?better = "case best of None \<Rightarrow> Some (d, ?stock) | Some (b, n) \<Rightarrow> if ?stock < n then Some (d, ?stock) else best"
  let ?u = "u\<lparr>gu_zeroTakeIDs := removeAll (tc_FlowerID d) (gu_zeroTakeIDs u)\<rparr>"
  consider (no) "\<not> take_eligible cat inventory p (gu_zeroTakeIDs u) d" "pick_take cat inventory p cs u best = (u', Some c)"
    | (forget) "uf_TakeZeroInventoryOnly p" "0 < ?stock" "pick_take cat inventory p cs ?u best = (u', Some c)"
    | (yes) "take_eligible cat inventory p (gu_zeroTakeIDs u) d" "pick_take cat inventory p cs u ?better = (u', Some c)"
    using Cons.prems(1) by (auto simp: take_eligible_def Let_def split: if_splits)
  then show ?case
  proof cases
    case no
    with Cons.IH [OF no(2) Cons.prems(2)] show ?thesis by auto
  next
    case forget
    then have same: "take_eligible cat inventory p (gu_zeroTakeIDs ?u) e \<longleftrightarrow>
        take_eligible cat inventory p (gu_zeroTakeIDs u) e" for e
      by (auto simp: take_eligible_def)
    have "\<not> take_eligible cat inventory p (gu_zeroTakeIDs u) d" using forget by (simp add: take_eligible_def)
    with Cons.IH [OF forget(3) Cons.prems(2)] show ?thesis unfolding same by auto
  next
    case yes
    have "\<forall>b n. ?better = Some (b, n) \<longrightarrow> n = get_or 0 inventory (tc_FlowerID b)"
      using Cons.prems(2) by (auto split: option.splits)
    note IH = Cons.IH [OF yes(2) this]
    show ?thesis
    proof (cases best)
      case None
      with IH yes(1) show ?thesis by auto
    next
      case (Some bn)
      obtain b n where bn: "bn = (b, n)" by fastforce
      have n: "n = get_or 0 inventory (tc_FlowerID b)" using Cons.prems(2) Some bn by simp
      show ?thesis
      proof (cases "?stock < n")
        case True
        with IH yes(1) n Some bn show ?thesis by (auto dest: order_less_imp_le intro: order_trans)
      next
        case False
        with IH yes(1) n Some bn show ?thesis by (auto intro: order_trans)
      qed
    qed
  qed
qed

lemma take_candidate_shared:
  assumes "c \<in> set (FmlFlowerTakeCandidates u)"
  shows "\<exists>e \<in> set (gu_otherShares u). share_uid e = tc_UID c \<and> tc_UID c \<noteq> 0 \<and>
    (\<exists>slot. (tc_SlotID c, slot) \<in> set (fs_Slots (snd e)) \<and> sh_FlowerID slot = tc_FlowerID c \<and>
       0 < tc_FlowerID c \<and> sh_TakeNum slot < sh_ShareNum slot)"
  using assms
  by (fastforce simp: FmlFlowerTakeCandidates_def share_candidates_def Let_def split: if_splits)

lemma take_waits_for_midnight:
  assumes "0 \<le> now" "now \<le> t" "t < NextCalendarDayReset now"
  shows "unionFlowerTakeOperations fcat cat s p t (MarkFmlFlowerTakeDailyLimitReached cat now u) =
    (MarkFmlFlowerTakeDailyLimitReached cat now u, [])"
  using assms reset_after_epoch(2) [OF assms(1)] resets_in_milliseconds(1) [of now]
  by (simp add: unionFlowerTakeOperations_def MarkFmlFlowerTakeDailyLimitReached_def FmlFlowerTakeDailyLimitReached_def Let_def)

lemma exhausted_same:
  assumes "FmlFlowerTakeExhausted cat now u = (u', e)"
  shows "gu_otherShares u' = gu_otherShares u \<and> gu_zeroTakeIDs u' = gu_zeroTakeIDs u \<and> gu_share u' = gu_share u \<and>
    gu_FlowerTakeCnt u' = gu_FlowerTakeCnt u \<and> gu_otherSyncedAtMs u' = gu_otherSyncedAtMs u \<and>
    gu_otherObserved u' = gu_otherObserved u"
  using assms by (auto simp: FmlFlowerTakeExhausted_def Let_def split: if_splits)

lemma limit_reached_same:
  assumes "FmlFlowerTakeDailyLimitReached now u = (u', None)"
  shows "gu_otherShares u' = gu_otherShares u \<and> gu_zeroTakeIDs u' = gu_zeroTakeIDs u \<and> gu_share u' = gu_share u \<and>
    gu_FlowerTakeCnt u' = gu_FlowerTakeCnt u \<and> gu_otherSyncedAtMs u' = gu_otherSyncedAtMs u \<and>
    gu_otherObserved u' = gu_otherObserved u \<and>
    (gu_takeLimitUntilMs u \<le> 0 \<or> unix_milli (gu_takeLimitUntilMs u) \<le> now)"
  using assms by (auto simp: FmlFlowerTakeDailyLimitReached_def split: if_splits)

lemma candidates_same: "gu_otherShares u' = gu_otherShares u \<Longrightarrow> FmlFlowerTakeCandidates u' = FmlFlowerTakeCandidates u"
  by (simp add: FmlFlowerTakeCandidates_def)

text \<open>
  The account's own counter leaves a take, when it is of today and the guild's allowance is known: an
  unknown allowance (zero or less) must not stop the taking.
\<close>

definition counter_of_today :: "guild_state \<Rightarrow> time \<Rightarrow> bool" where
  "counter_of_today u now \<longleftrightarrow>
     fs_LastTakeTimeMs (gu_share u) \<le> 0 \<or>
     calendarDayID now \<le> calendarDayID (unix_milli (fs_LastTakeTimeMs (gu_share u)))"

definition quota_left :: "guild_catalog \<Rightarrow> guild_state \<Rightarrow> time \<Rightarrow> bool" where
  "quota_left cat u now \<longleftrightarrow>
     (counter_of_today u now \<and> 0 < gu_FlowerTakeCnt u \<longrightarrow>
        fs_TdyTakeCnt (gu_share u) < gu_FlowerTakeCnt u \<and>
        (0 < gc_TakeMax cat \<longrightarrow> fs_TdyTakeCnt (gu_share u) < gc_TakeMax cat))"

lemma quota_same:
  "quota_left cat u1 now \<Longrightarrow> gu_share u1 = gu_share u \<Longrightarrow> gu_FlowerTakeCnt u1 = gu_FlowerTakeCnt u \<Longrightarrow> quota_left cat u now"
  by (simp only: quota_left_def counter_of_today_def)

lemma not_exhausted_quota:
  assumes "FmlFlowerTakeExhausted cat now u = (u', False)" "fs_Observed (gu_share u)"
  shows "quota_left cat u now"
  using assms by (auto simp: FmlFlowerTakeExhausted_def quota_left_def counter_of_today_def Let_def not_le split: if_splits)

text \<open>
  C37.  A shared flower is taken within the daily quota, as far as that is known, and on fresh data.
  Whatever take the planner emits, it is past 00:01, no refusal of the server for today is on record,
  and both the account's own share and the members' list have been read, the list recently; when the
  guild's allowance is known and the account's counter is of today, the counter is below the allowance
  and below the catalogue's maximum (an unknown allowance does not stop the taking: then only the
  server's refusal does); a member's slot that offers the flower has pieces left; the policy allows
  the flower, under the zero-stock rule only one that is out of stock and not taken already; and no
  flower the policy would also allow is scarcer in the inventory.
\<close>

theorem guild_take_sound:
  assumes "x \<in> set (snd (unionFlowerTakeOperations fcat cat s p now u))" "op_Kind x = RPCFmlFlowerShareTake"
  shows "FmlFlowerTakeWindowOpen now \<and>
    fs_Observed (gu_share u) \<and> gu_otherObserved u \<and> \<not> fmlFlowerTakeListStale u now \<and>
    (counter_of_today u now \<and> 0 < gu_FlowerTakeCnt u \<longrightarrow>
       fs_TdyTakeCnt (gu_share u) < gu_FlowerTakeCnt u \<and>
       (0 < gc_TakeMax cat \<longrightarrow> fs_TdyTakeCnt (gu_share u) < gc_TakeMax cat)) \<and>
    (gu_takeLimitUntilMs u \<le> 0 \<or> unix_milli (gu_takeLimitUntilMs u) \<le> now) \<and>
    (\<exists>c \<in> set (FmlFlowerTakeCandidates u). op_TargetUID x = tc_UID c \<and> op_TargetID x = tc_SlotID c \<and>
       op_FlowerID x = tc_FlowerID c \<and> op_Count x = 1 \<and>
       take_eligible fcat (Inventory s) p (gu_zeroTakeIDs u) c \<and>
       (\<exists>e \<in> set (gu_otherShares u). share_uid e = tc_UID c \<and>
          (\<exists>slot. (tc_SlotID c, slot) \<in> set (fs_Slots (snd e)) \<and> sh_FlowerID slot = tc_FlowerID c \<and>
             sh_TakeNum slot < sh_ShareNum slot)) \<and>
       (\<forall>d \<in> set (FmlFlowerTakeCandidates u). take_eligible fcat (Inventory s) p (gu_zeroTakeIDs u) d \<longrightarrow>
          get_or 0 (Inventory s) (tc_FlowerID c) \<le> get_or 0 (Inventory s) (tc_FlowerID d)))"
proof -
  obtain u1 reached where r: "FmlFlowerTakeDailyLimitReached now u = (u1, reached)" by fastforce
  obtain u2 e where e: "FmlFlowerTakeExhausted cat now u1 = (u2, e)" by fastforce
  obtain u3 best where pick: "pick_take fcat (Inventory s) p (FmlFlowerTakeCandidates u2) u2 None = (u3, best)" by fastforce
  have sync: "op_Kind (take_sync k why pr) = k" for k why pr by (simp add: take_sync_def)
  have open': "FmlFlowerTakeWindowOpen now" "reached = None" "\<not> e" "fs_Observed (gu_share u2)"
    "gu_otherObserved u2" "\<not> fmlFlowerTakeListStale u2 now"
    using assms by (auto simp: unionFlowerTakeOperations_def r e sync split: if_splits option.splits)
  obtain c where c: "best = Some c"
    using assms open' by (auto simp: unionFlowerTakeOperations_def r e pick sync split: if_splits option.splits)
  have x: "op_TargetUID x = tc_UID c" "op_TargetID x = tc_SlotID c" "op_FlowerID x = tc_FlowerID c" "op_Count x = 1"
    using assms open' by (auto simp: unionFlowerTakeOperations_def r e pick c sync split: if_splits)
  note same = exhausted_same [OF e] limit_reached_same [OF r [unfolded open'(2)]]
  have cs: "FmlFlowerTakeCandidates u2 = FmlFlowerTakeCandidates u" by (rule candidates_same) (simp add: same)
  have best: "c \<in> set (FmlFlowerTakeCandidates u)" "take_eligible fcat (Inventory s) p (gu_zeroTakeIDs u) c"
    "\<forall>d \<in> set (FmlFlowerTakeCandidates u). take_eligible fcat (Inventory s) p (gu_zeroTakeIDs u) d \<longrightarrow>
       get_or 0 (Inventory s) (tc_FlowerID c) \<le> get_or 0 (Inventory s) (tc_FlowerID d)"
    using pick_take_best [OF pick [unfolded c]] by (auto simp: cs same)
  have fresh: "fs_Observed (gu_share u)" "gu_otherObserved u" "\<not> fmlFlowerTakeListStale u now"
    using open'(4-6) same by (simp_all add: fmlFlowerTakeListStale_def)
  then have "quota_left cat u1 now" using e open'(3) same by (intro not_exhausted_quota [of cat now u1 u2]) simp_all
  then have "quota_left cat u now" by (rule quota_same) (simp_all add: same)
  with x best fresh open'(1) same take_candidate_shared [OF best(1)] show ?thesis unfolding quota_left_def by blast
qed

text \<open>Two members share flowers; the one in stock is left alone.\<close>

definition sharing_guild :: guild_state where
  "sharing_guild = (guild_of [])\<lparr>gu_FlowerTakeCnt := 2, gu_share := no_share\<lparr>fs_Observed := True\<rparr>, gu_otherObserved := True,
     gu_otherSyncedAtMs := 7000000,
     gu_otherShares := [(7, no_share\<lparr>fs_Slots := [(1, \<lparr>sh_FlowerID = 23001, sh_ShareNum = 3, sh_TakeNum = 1\<rparr>)]\<rparr>),
       (8, no_share\<lparr>fs_Slots := [(2, \<lparr>sh_FlowerID = 23005, sh_ShareNum = 3, sh_TakeNum = 1\<rparr>)]\<rparr>)]\<rparr>"

definition take_any :: share_policy where
  "take_any = \<lparr>uf_ShareEnabled = False, uf_TakeEnabled = True, uf_TakeZeroInventoryOnly = False,
     uf_TakeMode = SelectionAll, uf_TakeFlowerIds = [], uf_TakeQualities = []\<rparr>"

definition stocked_rose :: game_state where
  "stocked_rose = sample_state\<lparr>gs_inventory := [(23001, 4)]\<rparr>"

lemma sharing_parts:
  "FmlFlowerTakeWindowOpen (2 * hour)" "FmlFlowerTakeDailyLimitReached (2 * hour) sharing_guild = (sharing_guild, None)"
  "FmlFlowerTakeExhausted slow_catalog (2 * hour) sharing_guild = (sharing_guild, False)"
  "fs_Observed (gu_share sharing_guild)" "gu_otherObserved sharing_guild" "\<not> fmlFlowerTakeListStale sharing_guild (2 * hour)"
  "pick_take plain_flowers (Inventory stocked_rose) take_any (FmlFlowerTakeCandidates sharing_guild) sharing_guild None =
     (sharing_guild, Some \<lparr>tc_UID = 8, tc_SlotID = 2, tc_FlowerID = 23005, tc_Available = 2\<rparr>)"
  by code_simp+

theorem guild_take_sound_witness:
  "\<exists>x. snd (unionFlowerTakeOperations plain_flowers slow_catalog stocked_rose take_any (2 * hour) sharing_guild) = [x] \<and>
     op_TargetUID x = 8 \<and> gu_otherObserved sharing_guild \<and>
     fs_TdyTakeCnt (gu_share sharing_guild) < gu_FlowerTakeCnt sharing_guild \<and>
     (\<exists>c \<in> set (FmlFlowerTakeCandidates sharing_guild). op_FlowerID x = tc_FlowerID c)"
proof -
  let ?ops = "snd (unionFlowerTakeOperations plain_flowers slow_catalog stocked_rose take_any (2 * hour) sharing_guild)"
  obtain x where x: "?ops = [x]" "op_TargetUID x = 8" "op_Kind x = RPCFmlFlowerShareTake"
    by (simp add: unionFlowerTakeOperations_def sharing_parts)
  have "x \<in> set ?ops" using x(1) by simp
  moreover have "counter_of_today sharing_guild (2 * hour)" "0 < gu_FlowerTakeCnt sharing_guild" by code_simp+
  ultimately show ?thesis using guild_take_sound [of x plain_flowers slow_catalog stocked_rose take_any] x by blast
qed

end
