(* ===== verification/ShopTexts.thy ===== *)
theory ShopTexts
  imports Literals
begin

text \<open>
  The Chinese texts of the shops (\<open>automation/shop.go\<close>) and of feeding pets
  (\<open>automation/basic.go\<close>), as the byte strings the compiler stores.
\<close>

definition lit_shop_vip :: string where \<comment> \<open>VIP shop unconfirmed\<close>
  "lit_shop_vip =
     ''VIP '' @ [CHR 0xE5, CHR 0x95, CHR 0x86, CHR 0xE5, CHR 0xBA, CHR 0x97, CHR 0xE8, CHR 0xB4,
      CHR 0xAD, CHR 0xE4, CHR 0xB9, CHR 0xB0, CHR 0xE9, CHR 0x9C, CHR 0x80, CHR 0xE8, CHR 0xA6,
      CHR 0x81, CHR 0xE6, CHR 0x88, CHR 0x90, CHR 0xE6, CHR 0x9C, CHR 0xAC, CHR 0xE5, CHR 0x92,
      CHR 0x8C, CHR 0xE7, CHR 0x8A, CHR 0xB6, CHR 0xE6, CHR 0x80, CHR 0x81, CHR 0xE7, CHR 0xA1,
      CHR 0xAE, CHR 0xE8, CHR 0xAE, CHR 0xA4]"

definition lit_shop_vip_label :: string where \<comment> \<open>VIP shop\<close>
  "lit_shop_vip_label =
     ''VIP '' @ [CHR 0xE5, CHR 0x95, CHR 0x86, CHR 0xE5, CHR 0xBA, CHR 0x97]"

definition lit_shop_vip_why :: string where \<comment> \<open>VIP shop protocol unconfirmed\<close>
  "lit_shop_vip_why =
     ''VIP '' @ [CHR 0xE5, CHR 0x95, CHR 0x86, CHR 0xE5, CHR 0xBA, CHR 0x97, CHR 0xE5, CHR 0x95,
      CHR 0x86, CHR 0xE5, CHR 0x93, CHR 0x81, CHR 0xE7, CHR 0x8A, CHR 0xB6, CHR 0xE6, CHR 0x80,
      CHR 0x81, CHR 0xE3, CHR 0x80, CHR 0x81, CHR 0xE8, CHR 0x8A, CHR 0xB1, CHR 0xE5, CHR 0x9D,
      CHR 0x8A, CHR 0xE5, CHR 0xB8, CHR 0x81] @ ''/'' @ [CHR 0xE5, CHR 0x85, CHR 0x83, CHR 0xE5,
      CHR 0xAE, CHR 0x9D, CHR 0xE6, CHR 0x88, CHR 0x90, CHR 0xE6, CHR 0x9C, CHR 0xAC, CHR 0xE5,
      CHR 0xB0, CHR 0x9A, CHR 0xE6, CHR 0x9C, CHR 0xAA, CHR 0xE5, CHR 0xAE, CHR 0x8C, CHR 0xE6,
      CHR 0x88, CHR 0x90, CHR 0xE5, CHR 0x8D, CHR 0x8F, CHR 0xE8, CHR 0xAE, CHR 0xAE, CHR 0xE7,
      CHR 0xA1, CHR 0xAE, CHR 0xE8, CHR 0xAE, CHR 0xA4]"

definition lit_shop_gift_goal :: string where \<comment> \<open>free gift bags\<close>
  "lit_shop_gift_goal =
     [CHR 0xE5, CHR 0x85, CHR 0x8D, CHR 0xE8, CHR 0xB4, CHR 0xB9, CHR 0xE7, CHR 0xA4, CHR 0xBC,
      CHR 0xE5, CHR 0x8C, CHR 0x85]"

definition lit_shop_gift_video :: string where \<comment> \<open>gift needs an advertisement\<close>
  "lit_shop_gift_video =
     [CHR 0xE8, CHR 0xA7, CHR 0x86, CHR 0xE9, CHR 0xA2, CHR 0x91, CHR 0xE7, CHR 0xA4, CHR 0xBC,
      CHR 0xE5, CHR 0x8C, CHR 0x85, CHR 0xE9, CHR 0x9C, CHR 0x80, CHR 0xE8, CHR 0xA6, CHR 0x81,
      CHR 0xE5, CHR 0xB9, CHR 0xBF, CHR 0xE5, CHR 0x91, CHR 0x8A] @ '' SDK '' @ [CHR 0xE5, CHR 0x9B,
      CHR 0x9E, CHR 0xE8, CHR 0xB0, CHR 0x83, CHR 0xEF, CHR 0xBC, CHR 0x8C, CHR 0xE5, CHR 0xB7,
      CHR 0xB2, CHR 0xE6, CHR 0x8B, CHR 0x92, CHR 0xE7, CHR 0xBB, CHR 0x9D, CHR 0xE8, CHR 0x87,
      CHR 0xAA, CHR 0xE5, CHR 0x8A, CHR 0xA8, CHR 0xE9, CHR 0xA2, CHR 0x86, CHR 0xE5, CHR 0x8F,
      CHR 0x96]"

definition lit_shop_gift_sync :: string where \<comment> \<open>gift record unobserved\<close>
  "lit_shop_gift_sync =
     [CHR 0xE5, CHR 0x85, CHR 0x8D, CHR 0xE8, CHR 0xB4, CHR 0xB9, CHR 0xE7, CHR 0xA4, CHR 0xBC,
      CHR 0xE5, CHR 0x8C, CHR 0x85, CHR 0xE7, CHR 0x8A, CHR 0xB6, CHR 0xE6, CHR 0x80, CHR 0x81,
      CHR 0xE6, CHR 0x9C, CHR 0xAA, CHR 0xE5, CHR 0x90, CHR 0x8C, CHR 0xE6, CHR 0xAD, CHR 0xA5,
      CHR 0xEF, CHR 0xBC, CHR 0x8C, CHR 0xE5, CHR 0x85, CHR 0x88, CHR 0xE8, CHR 0xBF, CHR 0x9B,
      CHR 0xE5, CHR 0x85, CHR 0xA5, CHR 0xE5, CHR 0x95, CHR 0x86, CHR 0xE5, CHR 0xBA, CHR 0x97,
      CHR 0xE8, CHR 0x8E, CHR 0xB7, CHR 0xE5, CHR 0x8F, CHR 0x96, CHR 0xE9, CHR 0xA2, CHR 0x86,
      CHR 0xE5, CHR 0x8F, CHR 0x96, CHR 0xE8, CHR 0xAE, CHR 0xB0, CHR 0xE5, CHR 0xBD, CHR 0x95]"

definition lit_shop_gift_claim :: string where \<comment> \<open>free gift can be claimed\<close>
  "lit_shop_gift_claim =
     [CHR 0xE6, CHR 0x97, CHR 0xA0, CHR 0xE5, CHR 0xB9, CHR 0xBF, CHR 0xE5, CHR 0x91, CHR 0x8A,
      CHR 0xE5, CHR 0x9B, CHR 0x9E, CHR 0xE8, CHR 0xB0, CHR 0x83, CHR 0xE8, CHR 0xA6, CHR 0x81,
      CHR 0xE6, CHR 0xB1, CHR 0x82, CHR 0xE7, CHR 0x9A, CHR 0x84, CHR 0xE5, CHR 0x85, CHR 0x8D,
      CHR 0xE8, CHR 0xB4, CHR 0xB9, CHR 0xE7, CHR 0xA4, CHR 0xBC, CHR 0xE5, CHR 0x8C, CHR 0x85,
      CHR 0xE5, CHR 0x8F, CHR 0xAF, CHR 0xE9, CHR 0xA2, CHR 0x86, CHR 0xE5, CHR 0x8F, CHR 0x96]"

definition lit_shop_goal :: string where \<comment> \<open>material shop\<close>
  "lit_shop_goal =
     [CHR 0xE6, CHR 0x9D, CHR 0x90, CHR 0xE6, CHR 0x96, CHR 0x99, CHR 0xE5, CHR 0x95, CHR 0x86,
      CHR 0xE5, CHR 0xBA, CHR 0x97]"

definition lit_shop_sync :: string where \<comment> \<open>material shop unobserved\<close>
  "lit_shop_sync =
     [CHR 0xE6, CHR 0x9D, CHR 0x90, CHR 0xE6, CHR 0x96, CHR 0x99, CHR 0xE5, CHR 0x95, CHR 0x86,
      CHR 0xE5, CHR 0xBA, CHR 0x97, CHR 0xE7, CHR 0x8A, CHR 0xB6, CHR 0xE6, CHR 0x80, CHR 0x81,
      CHR 0xE6, CHR 0x9C, CHR 0xAA, CHR 0xE5, CHR 0x90, CHR 0x8C, CHR 0xE6, CHR 0xAD, CHR 0xA5,
      CHR 0xEF, CHR 0xBC, CHR 0x8C, CHR 0xE5, CHR 0x85, CHR 0x88, CHR 0xE8, CHR 0xBF, CHR 0x9B,
      CHR 0xE5, CHR 0x85, CHR 0xA5, CHR 0xE5, CHR 0x95, CHR 0x86, CHR 0xE5, CHR 0xBA, CHR 0x97,
      CHR 0xE8, CHR 0x8E, CHR 0xB7, CHR 0xE5, CHR 0x8F, CHR 0x96, CHR 0xE4, CHR 0xBB, CHR 0xB7,
      CHR 0xE6, CHR 0xA0, CHR 0xBC]"

definition lit_shop_new_day :: string where \<comment> \<open>material shop of another day\<close>
  "lit_shop_new_day =
     [CHR 0xE6, CHR 0x9D, CHR 0x90, CHR 0xE6, CHR 0x96, CHR 0x99, CHR 0xE5, CHR 0x95, CHR 0x86,
      CHR 0xE5, CHR 0xBA, CHR 0x97, CHR 0xE5, CHR 0xB7, CHR 0xB2, CHR 0xE8, CHR 0xB7, CHR 0xA8,
      CHR 0xE6, CHR 0x97, CHR 0xA5, CHR 0xE9, CHR 0x87, CHR 0x8D, CHR 0xE7, CHR 0xBD, CHR 0xAE,
      CHR 0xEF, CHR 0xBC, CHR 0x8C, CHR 0xE5, CHR 0x85, CHR 0x88, CHR 0xE8, CHR 0xBF, CHR 0x9B,
      CHR 0xE5, CHR 0x85, CHR 0xA5, CHR 0xE5, CHR 0x95, CHR 0x86, CHR 0xE5, CHR 0xBA, CHR 0x97,
      CHR 0xE5, CHR 0x88, CHR 0xB7, CHR 0xE6, CHR 0x96, CHR 0xB0, CHR 0xE8, CHR 0xB4, CHR 0xAD,
      CHR 0xE4, CHR 0xB9, CHR 0xB0, CHR 0xE8, CHR 0xAE, CHR 0xB0, CHR 0xE5, CHR 0xBD, CHR 0x95]"

definition lit_shop_rotated :: string where \<comment> \<open>shelf rotated\<close>
  "lit_shop_rotated =
     [CHR 0xE6, CHR 0x9D, CHR 0x90, CHR 0xE6, CHR 0x96, CHR 0x99, CHR 0xE5, CHR 0x95, CHR 0x86,
      CHR 0xE5, CHR 0xBA, CHR 0x97, CHR 0xE8, CHR 0x87, CHR 0xAA, CHR 0xE5, CHR 0x8A, CHR 0xA8,
      CHR 0xE6, CHR 0x8D, CHR 0xA2, CHR 0xE8, CHR 0xB4, CHR 0xA7, CHR 0xE5, CHR 0x80, CHR 0x92,
      CHR 0xE8, CHR 0xAE, CHR 0xA1, CHR 0xE6, CHR 0x97, CHR 0xB6, CHR 0xE5, CHR 0xB7, CHR 0xB2,
      CHR 0xE7, CHR 0xBB, CHR 0x93, CHR 0xE6, CHR 0x9D, CHR 0x9F, CHR 0xEF, CHR 0xBC, CHR 0x8C,
      CHR 0xE9, CHR 0x87, CHR 0x8D, CHR 0xE6, CHR 0x96, CHR 0xB0, CHR 0xE8, CHR 0xBF, CHR 0x9B,
      CHR 0xE5, CHR 0x85, CHR 0xA5, CHR 0xE5, CHR 0x95, CHR 0x86, CHR 0xE5, CHR 0xBA, CHR 0x97,
      CHR 0xE8, CHR 0x8E, CHR 0xB7, CHR 0xE5, CHR 0x8F, CHR 0x96, CHR 0xE6, CHR 0x96, CHR 0xB0,
      CHR 0xE8, CHR 0xB4, CHR 0xA7, CHR 0xE6, CHR 0x9E, CHR 0xB6]"

definition lit_shop_buy :: string where \<comment> \<open>material can be bought\<close>
  "lit_shop_buy =
     [CHR 0xE6, CHR 0x9D, CHR 0x90, CHR 0xE6, CHR 0x96, CHR 0x99, CHR 0xE5, CHR 0x95, CHR 0x86,
      CHR 0xE5, CHR 0xBA, CHR 0x97, CHR 0xE7, CHR 0x99, CHR 0xBD, CHR 0xE5, CHR 0x90, CHR 0x8D,
      CHR 0xE5, CHR 0x8D, CHR 0x95, CHR 0xE5, CHR 0x95, CHR 0x86, CHR 0xE5, CHR 0x93, CHR 0x81,
      CHR 0xE5, CHR 0x8F, CHR 0xAF, CHR 0xE8, CHR 0xB4, CHR 0xAD, CHR 0xE4, CHR 0xB9, CHR 0xB0]"

definition lit_shop_sold_out :: string where \<comment> \<open>sold out\<close>
  "lit_shop_sold_out =
     [CHR 0xE6, CHR 0x9D, CHR 0x90, CHR 0xE6, CHR 0x96, CHR 0x99, CHR 0xE5, CHR 0x95, CHR 0x86,
      CHR 0xE5, CHR 0xBA, CHR 0x97, CHR 0xE5, CHR 0xBD, CHR 0x93, CHR 0xE5, CHR 0x89, CHR 0x8D,
      CHR 0xE8, CHR 0xB4, CHR 0xA7, CHR 0xE6, CHR 0x9E, CHR 0xB6, CHR 0xE5, CHR 0xB7, CHR 0xB2,
      CHR 0xE5, CHR 0x94, CHR 0xAE, CHR 0xE7, CHR 0xBD, CHR 0x84, CHR 0xEF, CHR 0xBC, CHR 0x8C,
      CHR 0xE7, CHR 0xAD, CHR 0x89, CHR 0xE5, CHR 0xBE, CHR 0x85, CHR 0xE8, CHR 0x87, CHR 0xAA,
      CHR 0xE5, CHR 0x8A, CHR 0xA8, CHR 0xE6, CHR 0x8D, CHR 0xA2, CHR 0xE8, CHR 0xB4, CHR 0xA7]"

definition lit_shop_no_match :: string where \<comment> \<open>nothing on the list\<close>
  "lit_shop_no_match =
     [CHR 0xE5, CHR 0xBD, CHR 0x93, CHR 0xE5, CHR 0x89, CHR 0x8D, CHR 0xE8, CHR 0xB4, CHR 0xA7,
      CHR 0xE6, CHR 0x9E, CHR 0xB6, CHR 0xE6, CHR 0xB2, CHR 0xA1, CHR 0xE6, CHR 0x9C, CHR 0x89,
      CHR 0xE5, CHR 0x91, CHR 0xBD, CHR 0xE4, CHR 0xB8, CHR 0xAD, CHR 0xE6, CHR 0x9D, CHR 0x90,
      CHR 0xE6, CHR 0x96, CHR 0x99, CHR 0xE5, CHR 0x95, CHR 0x86, CHR 0xE5, CHR 0x93, CHR 0x81] @
      '' ID'' @ [CHR 0xEF, CHR 0xBC, CHR 0x9B, CHR 0xE6, CHR 0xB8, CHR 0x85, CHR 0xE7, CHR 0xA9,
      CHR 0xBA, CHR 0xE5, CHR 0x88, CHR 0x97, CHR 0xE8, CHR 0xA1, CHR 0xA8, CHR 0xE5, CHR 0x8F,
      CHR 0xAF, CHR 0xE5, CHR 0x85, CHR 0x81, CHR 0xE8, CHR 0xAE, CHR 0xB8, CHR 0xE6, CHR 0x89,
      CHR 0x80, CHR 0xE6, CHR 0x9C, CHR 0x89, CHR 0xE7, CHR 0xAC, CHR 0xA6, CHR 0xE5, CHR 0x90,
      CHR 0x88, CHR 0xE9, CHR 0xA2, CHR 0x84, CHR 0xE7, CHR 0xAE, CHR 0x97, CHR 0xE7, CHR 0x9A,
      CHR 0x84, CHR 0xE5, CHR 0x95, CHR 0x86, CHR 0xE5, CHR 0x93, CHR 0x81]"

definition lit_shop_no_price :: string where \<comment> \<open>price unobserved\<close>
  "lit_shop_no_price =
     [CHR 0xE6, CHR 0x9D, CHR 0x90, CHR 0xE6, CHR 0x96, CHR 0x99, CHR 0xE5, CHR 0x95, CHR 0x86,
      CHR 0xE5, CHR 0xBA, CHR 0x97, CHR 0xE4, CHR 0xBB, CHR 0xB7, CHR 0xE6, CHR 0xA0, CHR 0xBC,
      CHR 0xE6, CHR 0x9C, CHR 0xAA, CHR 0xE8, CHR 0xA7, CHR 0x82, CHR 0xE6, CHR 0xB5, CHR 0x8B]"

definition lit_shop_no_gold_budget :: string where \<comment> \<open>no gold budget\<close>
  "lit_shop_no_gold_budget =
     [CHR 0xE6, CHR 0x9D, CHR 0x90, CHR 0xE6, CHR 0x96, CHR 0x99, CHR 0xE5, CHR 0x95, CHR 0x86,
      CHR 0xE5, CHR 0xBA, CHR 0x97, CHR 0xE9, CHR 0x87, CHR 0x91, CHR 0xE5, CHR 0xB8, CHR 0x81,
      CHR 0xE9, CHR 0xA2, CHR 0x84, CHR 0xE7, CHR 0xAE, CHR 0x97, CHR 0xE6, CHR 0x9C, CHR 0xAA,
      CHR 0xE8, CHR 0xAE, CHR 0xBE, CHR 0xE7, CHR 0xBD, CHR 0xAE]"

definition lit_shop_over_gold :: string where \<comment> \<open>over the gold budget\<close>
  "lit_shop_over_gold =
     [CHR 0xE6, CHR 0x9D, CHR 0x90, CHR 0xE6, CHR 0x96, CHR 0x99, CHR 0xE5, CHR 0x95, CHR 0x86,
      CHR 0xE5, CHR 0xBA, CHR 0x97, CHR 0xE9, CHR 0x87, CHR 0x91, CHR 0xE5, CHR 0xB8, CHR 0x81,
      CHR 0xE6, CHR 0x88, CHR 0x90, CHR 0xE6, CHR 0x9C, CHR 0xAC, CHR 0xE8, CHR 0xB6, CHR 0x85,
      CHR 0xE8, CHR 0xBF, CHR 0x87, CHR 0xE7, CHR 0xAD, CHR 0x96, CHR 0xE7, CHR 0x95, CHR 0xA5,
      CHR 0xE4, CHR 0xB8, CHR 0x8A, CHR 0xE9, CHR 0x99, CHR 0x90]"

definition lit_shop_no_gold :: string where \<comment> \<open>not enough gold\<close>
  "lit_shop_no_gold =
     [CHR 0xE9, CHR 0x87, CHR 0x91, CHR 0xE5, CHR 0xB8, CHR 0x81, CHR 0xE4, CHR 0xB8, CHR 0x8D,
      CHR 0xE8, CHR 0xB6, CHR 0xB3]"

definition lit_shop_no_diamond_budget :: string where \<comment> \<open>no diamond budget\<close>
  "lit_shop_no_diamond_budget =
     [CHR 0xE6, CHR 0x9D, CHR 0x90, CHR 0xE6, CHR 0x96, CHR 0x99, CHR 0xE5, CHR 0x95, CHR 0x86,
      CHR 0xE5, CHR 0xBA, CHR 0x97, CHR 0xE5, CHR 0x85, CHR 0x83, CHR 0xE5, CHR 0xAE, CHR 0x9D,
      CHR 0xE9, CHR 0xA2, CHR 0x84, CHR 0xE7, CHR 0xAE, CHR 0x97, CHR 0xE6, CHR 0x9C, CHR 0xAA,
      CHR 0xE8, CHR 0xAE, CHR 0xBE, CHR 0xE7, CHR 0xBD, CHR 0xAE]"

definition lit_shop_over_diamond :: string where \<comment> \<open>over the diamond budget\<close>
  "lit_shop_over_diamond =
     [CHR 0xE6, CHR 0x9D, CHR 0x90, CHR 0xE6, CHR 0x96, CHR 0x99, CHR 0xE5, CHR 0x95, CHR 0x86,
      CHR 0xE5, CHR 0xBA, CHR 0x97, CHR 0xE5, CHR 0x85, CHR 0x83, CHR 0xE5, CHR 0xAE, CHR 0x9D,
      CHR 0xE6, CHR 0x88, CHR 0x90, CHR 0xE6, CHR 0x9C, CHR 0xAC, CHR 0xE8, CHR 0xB6, CHR 0x85,
      CHR 0xE8, CHR 0xBF, CHR 0x87, CHR 0xE7, CHR 0xAD, CHR 0x96, CHR 0xE7, CHR 0x95, CHR 0xA5,
      CHR 0xE4, CHR 0xB8, CHR 0x8A, CHR 0xE9, CHR 0x99, CHR 0x90]"

definition lit_shop_diamonds_closed :: string where \<comment> \<open>diamonds are not spent\<close>
  "lit_shop_diamonds_closed =
     [CHR 0xE5, CHR 0x85, CHR 0x83, CHR 0xE5, CHR 0xAE, CHR 0x9D, CHR 0xE6, CHR 0x88, CHR 0x90,
      CHR 0xE6, CHR 0x9C, CHR 0xAC, CHR 0xE6, CHR 0x93, CHR 0x8D, CHR 0xE4, CHR 0xBD, CHR 0x9C,
      CHR 0xE5, CHR 0xB0, CHR 0x9A, CHR 0xE6, CHR 0x9C, CHR 0xAA, CHR 0xE6, CHR 0x94, CHR 0xBE,
      CHR 0xE5, CHR 0xBC, CHR 0x80, CHR 0xE8, CHR 0x87, CHR 0xAA, CHR 0xE5, CHR 0x8A, CHR 0xA8,
      CHR 0xE6, CHR 0x89, CHR 0xA7, CHR 0xE8, CHR 0xA1, CHR 0x8C]"

definition lit_shop_no_item :: string where \<comment> \<open>not enough of the item\<close>
  "lit_shop_no_item =
     [CHR 0xE6, CHR 0x88, CHR 0x90, CHR 0xE6, CHR 0x9C, CHR 0xAC, CHR 0xE7, CHR 0x89, CHR 0xA9,
      CHR 0xE5, CHR 0x93, CHR 0x81, CHR 0xE4, CHR 0xB8, CHR 0x8D, CHR 0xE8, CHR 0xB6, CHR 0xB3,
      CHR 0xE6, CHR 0x88, CHR 0x96, CHR 0xE6, CHR 0x9C, CHR 0xAA, CHR 0xE8, CHR 0xA7, CHR 0x82,
      CHR 0xE6, CHR 0xB5, CHR 0x8B]"

definition lit_zoo_shop_sync :: string where \<comment> \<open>food shop unobserved\<close>
  "lit_zoo_shop_sync =
     [CHR 0xE6, CHR 0x99, CHR 0xAE, CHR 0xE9, CHR 0x80, CHR 0x9A, CHR 0xE7, CHR 0x8C, CHR 0xAB,
      CHR 0xE7, CHR 0xB2, CHR 0xAE, CHR 0xE5, CHR 0x95, CHR 0x86, CHR 0xE5, CHR 0xBA, CHR 0x97,
      CHR 0xE7, CHR 0x8A, CHR 0xB6, CHR 0xE6, CHR 0x80, CHR 0x81, CHR 0xE6, CHR 0x88, CHR 0x96,
      CHR 0xE4, CHR 0xBB, CHR 0x8A, CHR 0xE6, CHR 0x97, CHR 0xA5, CHR 0xE9, CHR 0x99, CHR 0x90,
      CHR 0xE8, CHR 0xB4, CHR 0xAD, CHR 0xE8, CHR 0xAE, CHR 0xB0, CHR 0xE5, CHR 0xBD, CHR 0x95,
      CHR 0xE6, CHR 0x9C, CHR 0xAA, CHR 0xE5, CHR 0x90, CHR 0x8C, CHR 0xE6, CHR 0xAD, CHR 0xA5,
      CHR 0xEF, CHR 0xBC, CHR 0x8C, CHR 0xE5, CHR 0x85, CHR 0x88, CHR 0xE8, CHR 0xBF, CHR 0x9B,
      CHR 0xE5, CHR 0x85, CHR 0xA5, CHR 0xE5, CHR 0x95, CHR 0x86, CHR 0xE5, CHR 0xBA, CHR 0x97] @
      '' 9''"

definition lit_zoo_shop_config :: string where \<comment> \<open>food offer incomplete\<close>
  "lit_zoo_shop_config =
     ''c_shop_item_9 '' @ [CHR 0xE7, CHR 0x9A, CHR 0x84, CHR 0xE6, CHR 0x99, CHR 0xAE, CHR 0xE9,
      CHR 0x80, CHR 0x9A, CHR 0xE7, CHR 0x8C, CHR 0xAB, CHR 0xE7, CHR 0xB2, CHR 0xAE, CHR 0xE5,
      CHR 0x95, CHR 0x86, CHR 0xE5, CHR 0x93, CHR 0x81, CHR 0xE3, CHR 0x80, CHR 0x81, CHR 0xE9,
      CHR 0x87, CHR 0x91, CHR 0xE5, CHR 0xB8, CHR 0x81, CHR 0xE6, CHR 0x88, CHR 0x90, CHR 0xE6,
      CHR 0x9C, CHR 0xAC, CHR 0xE6, CHR 0x88, CHR 0x96, CHR 0xE6, CHR 0xAF, CHR 0x8F, CHR 0xE6,
      CHR 0x97, CHR 0xA5, CHR 0xE9, CHR 0x99, CHR 0x90, CHR 0xE8, CHR 0xB4, CHR 0xAD, CHR 0xE9,
      CHR 0x85, CHR 0x8D, CHR 0xE7, CHR 0xBD, CHR 0xAE, CHR 0xE4, CHR 0xB8, CHR 0x8D, CHR 0xE5,
      CHR 0xAE, CHR 0x8C, CHR 0xE6, CHR 0x95, CHR 0xB4]"

definition lit_zoo_bought :: string where \<comment> \<open>food bought today\<close>
  "lit_zoo_bought =
     [CHR 0xE6, CHR 0x99, CHR 0xAE, CHR 0xE9, CHR 0x80, CHR 0x9A, CHR 0xE7, CHR 0x8C, CHR 0xAB,
      CHR 0xE7, CHR 0xB2, CHR 0xAE, CHR 0xE4, CHR 0xBB, CHR 0x8A, CHR 0xE6, CHR 0x97, CHR 0xA5,
      CHR 0xE5, CHR 0xB7, CHR 0xB2, CHR 0xE8, CHR 0xB4, CHR 0xAD, CHR 0xE4, CHR 0xB9, CHR 0xB0] @
      '' ''"

definition lit_zoo_wait_reset :: string where \<comment> \<open>wait for the daily reset\<close>
  "lit_zoo_wait_reset =
     [CHR 0xEF, CHR 0xBC, CHR 0x8C, CHR 0xE7, CHR 0xAD, CHR 0x89, CHR 0xE5, CHR 0xBE, CHR 0x85,
      CHR 0xE6, CHR 0xAF, CHR 0x8F, CHR 0xE6, CHR 0x97, CHR 0xA5, CHR 0xE9, CHR 0x87, CHR 0x8D,
      CHR 0xE7, CHR 0xBD, CHR 0xAE]"

definition lit_zoo_no_budget :: string where \<comment> \<open>no budget for food\<close>
  "lit_zoo_no_budget =
     [CHR 0xE8, CHR 0xB4, CHR 0xAD, CHR 0xE4, CHR 0xB9, CHR 0xB0, CHR 0xE6, CHR 0x99, CHR 0xAE,
      CHR 0xE9, CHR 0x80, CHR 0x9A, CHR 0xE7, CHR 0x8C, CHR 0xAB, CHR 0xE7, CHR 0xB2, CHR 0xAE,
      CHR 0xE5, CHR 0x89, CHR 0x8D, CHR 0xE5, CHR 0xBF, CHR 0x85, CHR 0xE9, CHR 0xA1, CHR 0xBB,
      CHR 0xE8, CHR 0xAE, CHR 0xBE, CHR 0xE7, CHR 0xBD, CHR 0xAE, CHR 0xE5, CHR 0x8D, CHR 0x95,
      CHR 0xE6, CHR 0xAC, CHR 0xA1, CHR 0xE9, CHR 0x87, CHR 0x91, CHR 0xE5, CHR 0xB8, CHR 0x81,
      CHR 0xE4, CHR 0xB8, CHR 0x8A, CHR 0xE9, CHR 0x99, CHR 0x90]"

definition lit_zoo_each :: string where \<comment> \<open>a portion costs\<close>
  "lit_zoo_each =
     [CHR 0xE6, CHR 0x99, CHR 0xAE, CHR 0xE9, CHR 0x80, CHR 0x9A, CHR 0xE7, CHR 0x8C, CHR 0xAB,
      CHR 0xE7, CHR 0xB2, CHR 0xAE, CHR 0xE6, CHR 0xAF, CHR 0x8F, CHR 0xE4, CHR 0xBB, CHR 0xBD,
      CHR 0xE9, CHR 0x9C, CHR 0x80] @ '' ''"

definition lit_zoo_over_budget :: string where \<comment> \<open>over the budget\<close>
  "lit_zoo_over_budget =
     '' '' @ [CHR 0xE9, CHR 0x87, CHR 0x91, CHR 0xE5, CHR 0xB8, CHR 0x81, CHR 0xEF, CHR 0xBC,
      CHR 0x8C, CHR 0xE8, CHR 0xB6, CHR 0x85, CHR 0xE8, CHR 0xBF, CHR 0x87, CHR 0xE5, CHR 0x8D,
      CHR 0x95, CHR 0xE6, CHR 0xAC, CHR 0xA1, CHR 0xE9, CHR 0x87, CHR 0x91, CHR 0xE5, CHR 0xB8,
      CHR 0x81, CHR 0xE4, CHR 0xB8, CHR 0x8A, CHR 0xE9, CHR 0x99, CHR 0x90]"

definition lit_zoo_gold_short :: string where \<comment> \<open>gold short for a portion\<close>
  "lit_zoo_gold_short =
     [CHR 0xE9, CHR 0x87, CHR 0x91, CHR 0xE5, CHR 0xB8, CHR 0x81, CHR 0xE4, CHR 0xB8, CHR 0x8D,
      CHR 0xE8, CHR 0xB6, CHR 0xB3, CHR 0xEF, CHR 0xBC, CHR 0x9A, CHR 0xE6, CHR 0x99, CHR 0xAE,
      CHR 0xE9, CHR 0x80, CHR 0x9A, CHR 0xE7, CHR 0x8C, CHR 0xAB, CHR 0xE7, CHR 0xB2, CHR 0xAE,
      CHR 0xE6, CHR 0xAF, CHR 0x8F, CHR 0xE4, CHR 0xBB, CHR 0xBD, CHR 0xE9, CHR 0x9C, CHR 0x80] @
      '' ''"

definition lit_zoo_current :: string where \<comment> \<open>at present\<close>
  "lit_zoo_current =
     [CHR 0xEF, CHR 0xBC, CHR 0x8C, CHR 0xE5, CHR 0xBD, CHR 0x93, CHR 0xE5, CHR 0x89, CHR 0x8D] @
      '' ''"

definition lit_zoo_bowl_lacks :: string where \<comment> \<open>the bowl lacks\<close>
  "lit_zoo_bowl_lacks =
     [CHR 0xE9, CHR 0xA3, CHR 0x9F, CHR 0xE7, CHR 0x9B, CHR 0x86, CHR 0xE7, CHR 0xBC, CHR 0xBA,
      CHR 0xE5, CHR 0xB0, CHR 0x91] @ '' ''"

definition lit_zoo_buy :: string where \<comment> \<open>portions, buy\<close>
  "lit_zoo_buy =
     '' '' @ [CHR 0xE4, CHR 0xBB, CHR 0xBD, CHR 0xEF, CHR 0xBC, CHR 0x8C, CHR 0xE8, CHR 0xB4,
      CHR 0xAD, CHR 0xE4, CHR 0xB9, CHR 0xB0, CHR 0xE9, CHR 0x87, CHR 0x91, CHR 0xE5, CHR 0xB8,
      CHR 0x81, CHR 0xE6, CHR 0x99, CHR 0xAE, CHR 0xE9, CHR 0x80, CHR 0x9A, CHR 0xE7, CHR 0x8C,
      CHR 0xAB, CHR 0xE7, CHR 0xB2, CHR 0xAE] @ '' ''"

definition lit_zoo_portions :: string where \<comment> \<open>portions\<close>
  "lit_zoo_portions =
     '' '' @ [CHR 0xE4, CHR 0xBB, CHR 0xBD]"

end
