(* ===== verification/Shops.thy ===== *)
theory Shops
  imports GuildSafety ShopTexts
begin

text \<open>
  The shops: gift bags and the material shop (\<open>automation/shop.go\<close>, the shop part of
  \<open>state/rewards.go\<close>), and food for the pets' bowls (\<open>zooFoodPurchaseOperation\<close> and its checks in
  \<open>automation/basic.go\<close>, \<open>state/shop.go\<close>, the bowls of \<open>state/zoo.go\<close>).
\<close>

abbreviation "RPCShopEnter \<equiv> ''shop.enter''"
abbreviation "RPCShopBuy \<equiv> ''shop.buy''"
abbreviation "RPCShopCultivateEnter \<equiv> ''shopCultivate.enter''"
abbreviation "RPCShopCultivateBuy \<equiv> ''shopCultivate.buy''"
abbreviation "RPCShopGiftbagEnter \<equiv> ''shopGiftbag.enter''"
abbreviation "RPCShopGiftbagBuy \<equiv> ''shopGiftbag.buy''"
abbreviation "PlanStatusSkipped \<equiv> ''skipped''"

section \<open>The material shop\<close>

text \<open>What \<open>shopCultivateStatic\<close> reads of a row: item, pieces, limit and position; the row counts when the item is known.\<close>

record shop_row =
  sr_ItemID :: int
  sr_ItemCount :: int
  sr_BuyLimit :: int
  sr_Sort :: int

record material_state =
  ms_Observed :: bool
  ms_ResetMs :: int
  ms_LarMs :: int
  ms_Costs :: "(int, int \<times> int) gomap"
  ms_Bought :: "(int, int) gomap"

record material_offer =
  mo_ShopID :: int
  mo_ItemID :: int
  mo_ItemCount :: int
  mo_CostItemID :: int
  mo_CostCount :: int
  mo_Bought :: int
  mo_BuyLimit :: int
  mo_Remaining :: int
  mo_Sort :: int

definition static_row :: "(int \<Rightarrow> shop_row option) \<Rightarrow> int \<Rightarrow> shop_row option" where
  "static_row rows shopID =
     (case rows shopID of None \<Rightarrow> None | Some r \<Rightarrow> if 0 < sr_ItemID r then Some r else None)"

definition MarkShopCultivateOfferExhausted ::
  "(int \<Rightarrow> shop_row option) \<Rightarrow> int \<Rightarrow> material_state \<Rightarrow> material_state \<times> bool" where
  "MarkShopCultivateOfferExhausted rows shopID m =
     (case static_row rows shopID of
        None \<Rightarrow> (m, False)
      | Some r \<Rightarrow>
          if shopID \<le> 0 \<or> sr_BuyLimit r \<le> 0 then (m, False)
          else if sr_BuyLimit r \<le> get_or 0 (ms_Bought m) shopID then (m, False)
          else (m\<lparr>ms_Bought := AList.update shopID (sr_BuyLimit r) (ms_Bought m)\<rparr>, True))"

definition shopCultivateSyncMarkerMs :: "int \<Rightarrow> int \<Rightarrow> int" where
  "shopCultivateSyncMarkerMs resetMs larMs =
     (if resetMs \<le> 0 then larMs
      else if larMs \<le> 0 then resetMs
      else if gameDayID (unix_milli resetMs) < gameDayID (unix_milli larMs) then larMs else resetMs)"

definition ShopCultivateNeedsEnter :: "material_state \<Rightarrow> time \<Rightarrow> bool" where
  "ShopCultivateNeedsEnter m now \<longleftrightarrow>
     (let marker = shopCultivateSyncMarkerMs (ms_ResetMs m) (ms_LarMs m)
      in if \<not> ms_Observed m then True
         else if ms_LarMs m \<le> 0 then True
         else if marker \<le> 0 then True
         else gameDayID (unix_milli marker) < gameDayID now)"

text \<open>\<open>autoRefresh\<close> is the client's rotation period, 9000 seconds unless its table says otherwise.\<close>

definition ShopCultivateAutoRefreshDue :: "duration \<Rightarrow> material_state \<Rightarrow> time \<Rightarrow> bool" where
  "ShopCultivateAutoRefreshDue autoRefresh m now \<longleftrightarrow>
     ms_Observed m \<and> 0 < ms_LarMs m \<and> 0 < autoRefresh \<and> unix_milli (ms_LarMs m) + autoRefresh \<le> now"

definition material_offer_of ::
  "(int \<Rightarrow> shop_row option) \<Rightarrow> material_state \<Rightarrow> int \<times> int \<times> int \<Rightarrow> material_offer" where
  "material_offer_of rows m e =
     (case e of (shopID, costItem, costCount) \<Rightarrow>
        let bought = get_or 0 (ms_Bought m) shopID
        in case static_row rows shopID of
             None \<Rightarrow> \<lparr>mo_ShopID = shopID, mo_ItemID = 0, mo_ItemCount = 0, mo_CostItemID = costItem, mo_CostCount = costCount,
               mo_Bought = bought, mo_BuyLimit = 0, mo_Remaining = 0, mo_Sort = 0\<rparr>
           | Some r \<Rightarrow> \<lparr>mo_ShopID = shopID, mo_ItemID = sr_ItemID r, mo_ItemCount = sr_ItemCount r,
               mo_CostItemID = costItem, mo_CostCount = costCount, mo_Bought = bought, mo_BuyLimit = sr_BuyLimit r,
               mo_Remaining = (if 0 < sr_BuyLimit r then max 0 (sr_BuyLimit r - bought) else 0), mo_Sort = sr_Sort r\<rparr>)"

definition material_before :: "material_offer \<Rightarrow> material_offer \<Rightarrow> bool" where
  "material_before a b \<longleftrightarrow> (if mo_Sort a \<noteq> mo_Sort b then mo_Sort a < mo_Sort b else mo_ShopID a < mo_ShopID b)"

definition ShopCultivateOffers :: "(int \<Rightarrow> shop_row option) \<Rightarrow> material_state \<Rightarrow> material_offer list" where
  "ShopCultivateOffers rows m = stable_sort material_before (map (material_offer_of rows m) (ms_Costs m))"

record material_policy =
  mp_AutoBuy :: bool
  mp_ItemIds :: "int list"
  mp_MaxSpendGold :: int
  mp_MaxSpendDiamond :: int

definition applyShopCultivateCostGate ::
  "planned_op \<Rightarrow> material_offer \<Rightarrow> material_policy \<Rightarrow> game_state \<Rightarrow> planned_op \<times> string list" where
  "applyShopCultivateCostGate x offer p s =
     (if mo_CostItemID offer \<le> 0 \<or> mo_CostCount offer \<le> 0 then (x, [lit_shop_no_price])
      else if mo_CostItemID offer = 11 then
        (if mp_MaxSpendGold p \<le> 0 then (x, [lit_shop_no_gold_budget])
         else if mp_MaxSpendGold p < mo_CostCount offer then (x, [lit_shop_over_gold])
         else if Gold s < mo_CostCount offer then (x, [lit_shop_no_gold])
         else (x\<lparr>op_GoldCost := mo_CostCount offer\<rparr>, []))
      else if mo_CostItemID offer = 1 then
        (let y = x\<lparr>op_DiamondCost := mo_CostCount offer\<rparr>
         in if mp_MaxSpendDiamond p \<le> 0 then (y, [lit_shop_no_diamond_budget])
            else if mp_MaxSpendDiamond p < mo_CostCount offer then (y, [lit_shop_over_diamond])
            else (y, [lit_shop_diamonds_closed]))
      else if get_or 0 (Inventory s) (mo_CostItemID offer) < mo_CostCount offer then (x, [lit_shop_no_item])
      else (x\<lparr>op_ItemCost := [(mo_CostItemID offer, mo_CostCount offer)]\<rparr>, []))"

definition material_goal :: goal where
  "material_goal = \<lparr>goal_ID = ''basic.shop.cultivate'', goal_Category = CategoryBasic,
     goal_Domain = ''basic.shop.cultivate'', goal_Label = lit_shop_goal, goal_Priority = 54\<rparr>"

definition material_sync :: "string \<Rightarrow> int \<Rightarrow> planned_op" where
  "material_sync reason priority =
     domainOp RPCShopCultivateEnter material_goal ''basic.shop.cultivate'' ''sync'' reason priority 0 0 0"

definition material_listed :: "material_policy \<Rightarrow> material_offer \<Rightarrow> bool" where
  "material_listed p offer \<longleftrightarrow>
     (let allowed = int32Set (mp_ItemIds p)
      in 0 < mo_ShopID offer \<and> 0 < mo_Remaining offer \<and>
         (allowed = {} \<or> mo_ShopID offer \<in> allowed \<or> mo_ItemID offer \<in> allowed))"

text \<open>The loop over the offers: the first that can be paid, else the first that is blocked, else a remark.\<close>

fun material_buys ::
  "game_state \<Rightarrow> material_policy \<Rightarrow> material_offer list \<Rightarrow> planned_op option \<Rightarrow> planned_op list" where
  "material_buys s p [] firstBlocked =
     (case firstBlocked of
        Some b \<Rightarrow> [b]
      | None \<Rightarrow> [(markerOp CategoryBasic ''basic.shop.cultivate'' ''buy''
          (if int32Set (mp_ItemIds p) = {} then lit_shop_sold_out else lit_shop_no_match) 5400)
          \<lparr>op_Status := PlanStatusSkipped, op_Executable := False\<rparr>])"
| "material_buys s p (offer # offers) firstBlocked =
     (let x = (domainOp RPCShopCultivateBuy material_goal ''basic.shop.cultivate'' ''buy'' lit_shop_buy 5400
            (mo_ShopID offer) (mo_ItemID offer) (mo_ItemCount offer))\<lparr>op_ItemCost := []\<rparr>
      in if \<not> material_listed p offer then material_buys s p offers firstBlocked
         else case applyShopCultivateCostGate x offer p s of (y, blocked) \<Rightarrow>
           if blocked \<noteq> []
           then material_buys s p offers (Some (case firstBlocked of Some b \<Rightarrow> b | None \<Rightarrow> missing_adapter blocked y))
           else [y])"

definition cultivateShopOperations ::
  "(int \<Rightarrow> shop_row option) \<Rightarrow> duration \<Rightarrow> game_state \<Rightarrow> material_state \<Rightarrow> material_policy \<Rightarrow> time \<Rightarrow> planned_op list" where
  "cultivateShopOperations rows autoRefresh s m p now =
     (if \<not> mp_AutoBuy p then []
      else if ShopCultivateNeedsEnter m now
      then [material_sync (if ms_Observed m then lit_shop_new_day else lit_shop_sync) 5450]
      else if ShopCultivateAutoRefreshDue autoRefresh m now then [material_sync lit_shop_rotated 5420]
      else material_buys s p (ShopCultivateOffers rows m) None)"

section \<open>Gift bags\<close>

record gift_row =
  gr_Type :: int
  gr_ShareID :: int
  gr_RchgID :: int
  gr_MoneyID :: int
  gr_Price :: int
  gr_PriceMax :: int
  gr_DailyLimit :: int
  gr_WeeklyLimit :: int
  gr_MonthLimit :: int
  gr_TotalLimit :: int
  gr_Sort :: int

record gift_state =
  gs_GiftObserved :: bool
  gs_GiftResetMs :: int
  gs_GiftDaily :: "(int, int) gomap"
  gs_GiftWeek :: "(int, int) gomap"
  gs_GiftMonth :: "(int, int) gomap"
  gs_GiftTotal :: "(int, int) gomap"

record gift_offer =
  go_ShopID :: int
  go_Row :: gift_row
  go_Remaining :: int

definition apply_limit :: "int \<times> int \<Rightarrow> int \<Rightarrow> int" where
  "apply_limit lb remaining =
     (case lb of (limit, bought) \<Rightarrow>
        let left = max 0 (limit - bought)
        in if limit \<le> 0 then remaining else if remaining = 0 \<or> left < remaining then left else remaining)"

definition giftbagRemaining :: "(int \<times> int) list \<Rightarrow> int" where
  "giftbagRemaining limits = fold apply_limit limits 0"

definition gift_daily :: "gift_state \<Rightarrow> time \<Rightarrow> int \<Rightarrow> int" where
  "gift_daily g now shopID =
     (if 0 < gs_GiftResetMs g \<and> calendarDayID (unix_milli (gs_GiftResetMs g)) < calendarDayID now then 0
      else get_or 0 (gs_GiftDaily g) shopID)"

definition gift_limits :: "gift_state \<Rightarrow> time \<Rightarrow> int \<Rightarrow> gift_row \<Rightarrow> (int \<times> int) list" where
  "gift_limits g now shopID r =
     [(gr_DailyLimit r, gift_daily g now shopID), (gr_WeeklyLimit r, get_or 0 (gs_GiftWeek g) shopID),
      (gr_MonthLimit r, get_or 0 (gs_GiftMonth g) shopID), (gr_TotalLimit r, get_or 0 (gs_GiftTotal g) shopID)]"

definition gift_before :: "gift_offer \<Rightarrow> gift_offer \<Rightarrow> bool" where
  "gift_before a b \<longleftrightarrow>
     (if gr_Sort (go_Row a) \<noteq> gr_Sort (go_Row b) then gr_Sort (go_Row a) < gr_Sort (go_Row b)
      else go_ShopID a < go_ShopID b)"

definition ShopGiftbagOffersAt :: "(int, gift_row) gomap \<Rightarrow> gift_state \<Rightarrow> time \<Rightarrow> gift_offer list" where
  "ShopGiftbagOffersAt rows g now =
     stable_sort gift_before
       (map (\<lambda>(i, r). \<lparr>go_ShopID = i, go_Row = r, go_Remaining = giftbagRemaining (gift_limits g now i r)\<rparr>)
         (filter (\<lambda>(i, r). 0 < i) rows))"

definition zeroCostGiftbag :: "gift_row \<Rightarrow> bool" where
  "zeroCostGiftbag r \<longleftrightarrow>
     gr_Type r = 1 \<and> gr_RchgID r = 0 \<and> gr_MoneyID r = 0 \<and> gr_Price r = 0 \<and> gr_PriceMax r = 0"

definition gift_goal :: goal where
  "gift_goal = \<lparr>goal_ID = ''basic.shop.giftbag'', goal_Category = CategoryBasic, goal_Domain = ''basic.shop.giftbag'',
     goal_Label = lit_shop_gift_goal, goal_Priority = 54\<rparr>"

definition gift_op :: "bool \<Rightarrow> gift_offer \<Rightarrow> planned_op" where
  "gift_op observed offer =
     (if 0 < gr_ShareID (go_Row offer)
      then missing_adapter [lit_sdk_ad] ((markerOp CategoryBasic ''basic.shop.video_gift'' ''claim'' lit_shop_gift_video 5470)
        \<lparr>op_TargetID := go_ShopID offer\<rparr>)
      else if \<not> observed
      then domainOp RPCShopGiftbagEnter gift_goal ''basic.shop.giftbag'' ''sync'' lit_shop_gift_sync 5480 0 0 0
      else domainOp RPCShopGiftbagBuy gift_goal ''basic.shop.giftbag'' ''claim'' lit_shop_gift_claim 5470
        (go_ShopID offer) 0 1)"

definition giftbagOperations :: "(int, gift_row) gomap \<Rightarrow> gift_state \<Rightarrow> bool \<Rightarrow> time \<Rightarrow> planned_op list" where
  "giftbagOperations rows g enabled now =
     (if \<not> enabled then []
      else case List.find (\<lambda>offer. zeroCostGiftbag (go_Row offer) \<and> 0 < go_Remaining offer) (ShopGiftbagOffersAt rows g now) of
        None \<Rightarrow> []
      | Some offer \<Rightarrow> [gift_op (gs_GiftObserved g) offer])"

record shop_policy =
  sp_VideoFreeGiftEnabled :: bool
  sp_Cultivate :: material_policy
  sp_VipAutoBuy :: bool

text \<open>The gift bags are read at the wall clock, the material shop at the time of the plan.\<close>

definition shopOperations ::
  "(int \<Rightarrow> shop_row option) \<Rightarrow> duration \<Rightarrow> (int, gift_row) gomap \<Rightarrow> game_state \<Rightarrow> material_state \<Rightarrow> gift_state \<Rightarrow>
     shop_policy \<Rightarrow> time \<Rightarrow> time \<Rightarrow> planned_op list" where
  "shopOperations rows autoRefresh gifts s m g p wall now =
     giftbagOperations gifts g (sp_VideoFreeGiftEnabled p) wall @
     cultivateShopOperations rows autoRefresh s m (sp_Cultivate p) now @
     (if sp_VipAutoBuy p
      then [missing_adapter [lit_shop_vip_why]
        ((markerOp CategoryBasic ''basic.shop.vip'' ''buy'' lit_shop_vip 115)\<lparr>op_Label := lit_shop_vip_label\<rparr>)]
      else [])"

section \<open>Purchases within the budget\<close>

definition purchase_paid :: "game_state \<Rightarrow> material_policy \<Rightarrow> material_offer list \<Rightarrow> planned_op \<Rightarrow> bool" where
  "purchase_paid s p offers x \<longleftrightarrow>
     (\<exists>offer \<in> set offers. op_TargetID x = mo_ShopID offer \<and> material_listed p offer) \<and> op_DiamondCost x = 0 \<and>
     op_GoldCost x \<le> max 0 (min (mp_MaxSpendGold p) (Gold s)) \<and>
     (\<forall>(i, n) \<in> set (op_ItemCost x). i \<noteq> 1 \<and> i \<noteq> 11 \<and> n \<le> get_or 0 (Inventory s) i)"

lemma purchase_paid_more: "purchase_paid s p offers x \<Longrightarrow> purchase_paid s p (offer # offers) x"
  by (auto simp: purchase_paid_def)

lemma material_gate_open:
  assumes "applyShopCultivateCostGate x offer p s = (y, [])" "op_GoldCost x = 0" "op_DiamondCost x = 0" "op_ItemCost x = []"
  shows "op_DiamondCost y = 0 \<and> op_GoldCost y \<le> max 0 (min (mp_MaxSpendGold p) (Gold s)) \<and>
    (\<forall>(i, n) \<in> set (op_ItemCost y). i \<noteq> 1 \<and> i \<noteq> 11 \<and> n \<le> get_or 0 (Inventory s) i) \<and>
    op_TargetID y = op_TargetID x"
  using assms by (auto simp: applyShopCultivateCostGate_def Let_def split: if_splits)

lemma material_buys_paid:
  "x \<in> set (material_buys s p offers first) \<Longrightarrow> op_Executable x \<Longrightarrow> not_yet first \<Longrightarrow> purchase_paid s p offers x"
proof (induction offers arbitrary: first)
  case Nil
  then show ?case by (auto simp: not_yet_def split: option.splits)
next
  case (Cons offer offers)
  define z where "z = (domainOp RPCShopCultivateBuy material_goal ''basic.shop.cultivate'' ''buy'' lit_shop_buy 5400
      (mo_ShopID offer) (mo_ItemID offer) (mo_ItemCount offer))\<lparr>op_ItemCost := []\<rparr>"
  obtain y blocked where g: "applyShopCultivateCostGate z offer p s = (y, blocked)" by fastforce
  let ?rest = "material_buys s p offers (Some (case first of Some b \<Rightarrow> b | None \<Rightarrow> missing_adapter blocked y))"
  have mem: "x \<in> set (if \<not> material_listed p offer then material_buys s p offers first
      else if blocked \<noteq> [] then ?rest else [y])"
    using Cons.prems(1) unfolding material_buys.simps Let_def z_def [symmetric] g prod.case .
  consider (skip) "x \<in> set (material_buys s p offers first)" | (block) "x \<in> set ?rest"
    | (pay) "material_listed p offer" "blocked = []" "x = y"
  proof (cases "material_listed p offer")
    case False
    with mem skip show ?thesis by simp
  next
    case listed: True
    then show ?thesis
    proof (cases "blocked = []")
      case True
      from mem have "x = y" by (simp only: listed True if_False not_not simp_thms list.set) simp
      then show ?thesis using pay listed True by blast
    next
      case False
      from mem have "x \<in> set ?rest" by (simp only: listed False if_False if_True simp_thms)
      then show ?thesis by (rule block)
    qed
  qed
  then show ?case
  proof cases
    case skip
    then show ?thesis by (rule purchase_paid_more [OF Cons.IH]) (use Cons.prems in simp_all)
  next
    case block
    then show ?thesis by (rule purchase_paid_more [OF Cons.IH]) (use Cons.prems not_yet_first in simp_all)
  next
    case pay
    have plain: "op_GoldCost z = 0" "op_DiamondCost z = 0" "op_ItemCost z = []" "op_TargetID z = mo_ShopID offer"
      by (simp_all add: z_def)
    from material_gate_open [OF g [unfolded pay(2)] plain(1-3)] plain(4) pay(1) show ?thesis
      unfolding purchase_paid_def pay(3) by auto
  qed
qed

lemma offer_open:
  assumes "offer \<in> set (ShopCultivateOffers rows m)" "material_listed p offer"
  shows "\<exists>r. static_row rows (mo_ShopID offer) = Some r \<and> get_or 0 (ms_Bought m) (mo_ShopID offer) < sr_BuyLimit r"
  using assms
  by (auto simp: ShopCultivateOffers_def material_offer_of_def material_listed_def Let_def split: option.splits if_splits)

text \<open>
  C38.  Spending stays within the owner's limits.  Whatever the planner of the
  material shop and of guild donations marks executable costs no diamonds, no more gold than the policy
  allows for one purchase and than the account has, and of every other item no more than the inventory
  holds; a material is on sale today, on the owner's list and below its limit, a donation below its
  limits of the day and of its group.
\<close>

theorem purchases_within_budget:
  shows "(\<forall>x \<in> set (cultivateShopOperations rows autoRefresh s m p now). op_Executable x \<and> op_Kind x = RPCShopCultivateBuy \<longrightarrow>
      \<not> ShopCultivateNeedsEnter m now \<and> purchase_paid s p (ShopCultivateOffers rows m) x \<and>
      (\<exists>r. static_row rows (op_TargetID x) = Some r \<and> get_or 0 (ms_Bought m) (op_TargetID x) < sr_BuyLimit r)) \<and>
    (\<forall>x \<in> set (unionBuildOperations cat s u b). op_Executable x \<longrightarrow> donation_paid cat s u b (unionBuildOptionIDs b) x)"
proof (rule conjI; intro ballI impI)
  fix x assume x: "x \<in> set (cultivateShopOperations rows autoRefresh s m p now)" "op_Executable x \<and> op_Kind x = RPCShopCultivateBuy"
  have sync: "op_Kind (material_sync r pr) = RPCShopCultivateEnter" for r pr by (simp add: material_sync_def)
  have "RPCShopCultivateEnter \<noteq> RPCShopCultivateBuy" by simp
  with x sync have "\<not> ShopCultivateNeedsEnter m now" "x \<in> set (material_buys s p (ShopCultivateOffers rows m) None)"
    unfolding cultivateShopOperations_def by (auto split: if_splits)
  then show "\<not> ShopCultivateNeedsEnter m now \<and> purchase_paid s p (ShopCultivateOffers rows m) x \<and>
      (\<exists>r. static_row rows (op_TargetID x) = Some r \<and> get_or 0 (ms_Bought m) (op_TargetID x) < sr_BuyLimit r)"
    using material_buys_paid [of x s p "ShopCultivateOffers rows m" None] x(2) offer_open
    unfolding not_yet_def purchase_paid_def by fastforce
next
  fix x assume "x \<in> set (unionBuildOperations cat s u b)" "op_Executable x"
  then show "donation_paid cat s u b (unionBuildOptionIDs b) x" by (rule donation_affordable)
qed

text \<open>Dearer goods first on the shelf: the first offer is over the budget, the second is bought.\<close>

definition shelf_rows :: "int \<Rightarrow> shop_row option" where
  "shelf_rows i = (if i = 1 \<or> i = 2 then Some \<lparr>sr_ItemID = 100 + i, sr_ItemCount = 5, sr_BuyLimit = 1, sr_Sort = i\<rparr> else None)"

definition sample_shelf :: material_state where
  "sample_shelf = \<lparr>ms_Observed = True, ms_ResetMs = 0, ms_LarMs = 3600000, ms_Costs = [(1, 11, 900), (2, 11, 100)],
     ms_Bought = []\<rparr>"

definition thrifty :: material_policy where
  "thrifty = \<lparr>mp_AutoBuy = True, mp_ItemIds = [], mp_MaxSpendGold = 500, mp_MaxSpendDiamond = 0\<rparr>"

lemma sample_shelf_parts:
  "\<not> ShopCultivateNeedsEnter sample_shelf (2 * hour)"
  "\<not> ShopCultivateAutoRefreshDue (9000 * second) sample_shelf (2 * hour)"
  "map mo_ShopID (ShopCultivateOffers shelf_rows sample_shelf) = [1, 2]"
  "map mo_CostCount (ShopCultivateOffers shelf_rows sample_shelf) = [900, 100]"
  "map mo_CostItemID (ShopCultivateOffers shelf_rows sample_shelf) = [11, 11]"
  "\<forall>offer \<in> set (ShopCultivateOffers shelf_rows sample_shelf). material_listed thrifty offer"
  by code_simp+

lemma cultivate_feature:
  "case featureByDomainAction (featureKey ''basic.shop.cultivate'' ''buy'') of None \<Rightarrow> False | Some spec \<Rightarrow> spec_runnable spec"
  by code_simp

lemma cultivate_buy_runs:
  "op_Executable (domainOp RPCShopCultivateBuy material_goal ''basic.shop.cultivate'' ''buy'' r pr t i n)"
proof -
  have "op_ready (domainOp RPCShopCultivateBuy material_goal ''basic.shop.cultivate'' ''buy'' r pr t i n)"
    unfolding domainOp_def
    by (subst enrich_fresh) (use cultivate_feature in \<open>auto simp: fresh_op_def zero_op_def split: option.splits\<close>)
  then show ?thesis by (simp add: op_ready_def)
qed

theorem purchases_within_budget_witness:
  "\<exists>x. cultivateShopOperations shelf_rows (9000 * second) sample_state sample_shelf thrifty (2 * hour) = [x] \<and>
     op_GoldCost x = 100 \<and> op_GoldCost x \<le> max 0 (min 500 (Gold sample_state)) \<and>
     purchase_paid sample_state thrifty (ShopCultivateOffers shelf_rows sample_shelf) x"
proof -
  obtain a b where offers: "ShopCultivateOffers shelf_rows sample_shelf = [a, b]"
    using sample_shelf_parts(3) by (auto simp: map_eq_Cons_conv)
  have ab: "mo_CostItemID a = 11" "mo_CostCount a = 900" "mo_CostItemID b = 11" "mo_CostCount b = 100"
    "material_listed thrifty a" "material_listed thrifty b"
    using sample_shelf_parts(4-6) by (simp_all add: offers)
  have p: "mp_MaxSpendGold thrifty = 500" "mp_AutoBuy thrifty" by (simp_all add: thrifty_def)
  have gold: "100 \<le> Gold sample_state" by (simp add: Gold_def sample_state_def)
  let ?z = "(domainOp RPCShopCultivateBuy material_goal ''basic.shop.cultivate'' ''buy'' lit_shop_buy 5400
      (mo_ShopID b) (mo_ItemID b) (mo_ItemCount b))\<lparr>op_ItemCost := [], op_GoldCost := 100\<rparr>"
  have ops: "cultivateShopOperations shelf_rows (9000 * second) sample_state sample_shelf thrifty (2 * hour) = [?z]"
    unfolding cultivateShopOperations_def offers using sample_shelf_parts(1, 2) ab p gold
    by (simp add: applyShopCultivateCostGate_def Let_def)
  moreover have "purchase_paid sample_state thrifty (ShopCultivateOffers shelf_rows sample_shelf) ?z"
    using purchases_within_budget [of shelf_rows "9000 * second" sample_state sample_shelf thrifty "2 * hour"
        slow_catalog sample_guild "\<lparr>ub_FreeEnabled = False, ub_GoldEnabled = False, ub_DiamondEnabled = False,
          ub_MaxSpendGold = 0, ub_MaxSpendDiamond = 0\<rparr>"] ops cultivate_buy_runs
    by simp
  ultimately show ?thesis using gold by simp
qed

text \<open>A limit of the day that is used up does not count once a longer limit is open: the remainder starts again.\<close>

lemma used_up_day_forgotten:
  "giftbagRemaining [(1, 1), (3, 0), (0, 0), (0, 0)] = 3" "giftbagRemaining [(3, 0), (1, 1), (0, 0), (0, 0)] = 0"
  by (simp_all add: giftbagRemaining_def apply_limit_def)

end
