(* ===== verification/FeedTexts.thy ===== *)
theory FeedTexts
  imports Literals
begin

text \<open>
  The Chinese texts of filling the pets' bowls (\<open>automation/basic.go\<close>), as the byte strings the
  compiler stores.
\<close>

definition lit_zoo_goal :: string where \<comment> \<open>pets\<close>
  "lit_zoo_goal =
     [CHR 0xE5, CHR 0xAE, CHR 0xA0, CHR 0xE7, CHR 0x89, CHR 0xA9]"

definition lit_zoo_off :: string where \<comment> \<open>pet module off\<close>
  "lit_zoo_off =
     [CHR 0xE5, CHR 0xAE, CHR 0xA0, CHR 0xE7, CHR 0x89, CHR 0xA9, CHR 0xE5, CHR 0xAD, CHR 0x90,
      CHR 0xE5, CHR 0x8A, CHR 0x9F, CHR 0xE8, CHR 0x83, CHR 0xBD, CHR 0xE5, CHR 0xB7, CHR 0xB2,
      CHR 0xE5, CHR 0xBC, CHR 0x80, CHR 0xE5, CHR 0x90, CHR 0xAF, CHR 0xEF, CHR 0xBC, CHR 0x8C,
      CHR 0xE4, CHR 0xBD, CHR 0x86, CHR 0xE5, CHR 0xAE, CHR 0xA0, CHR 0xE7, CHR 0x89, CHR 0xA9,
      CHR 0xE6, CHR 0xA8, CHR 0xA1, CHR 0xE5, CHR 0x9D, CHR 0x97, CHR 0xE6, CHR 0x80, CHR 0xBB,
      CHR 0xE5, CHR 0xBC, CHR 0x80, CHR 0xE5, CHR 0x85, CHR 0xB3, CHR 0xE6, CHR 0x9C, CHR 0xAA,
      CHR 0xE5, CHR 0xBC, CHR 0x80, CHR 0xE5, CHR 0x90, CHR 0xAF]"

definition lit_zoo_enter :: string where \<comment> \<open>pets unobserved\<close>
  "lit_zoo_enter =
     [CHR 0xE5, CHR 0xAE, CHR 0xA0, CHR 0xE7, CHR 0x89, CHR 0xA9, CHR 0xE7, CHR 0x8A, CHR 0xB6,
      CHR 0xE6, CHR 0x80, CHR 0x81, CHR 0xE6, CHR 0x9C, CHR 0xAA, CHR 0xE5, CHR 0x90, CHR 0x8C,
      CHR 0xE6, CHR 0xAD, CHR 0xA5, CHR 0xEF, CHR 0xBC, CHR 0x8C, CHR 0xE5, CHR 0x85, CHR 0x88,
      CHR 0xE8, CHR 0xBF, CHR 0x9B, CHR 0xE5, CHR 0x85, CHR 0xA5, CHR 0xE5, CHR 0xAE, CHR 0xA0,
      CHR 0xE7, CHR 0x89, CHR 0xA9, CHR 0xE6, CHR 0xA8, CHR 0xA1, CHR 0xE5, CHR 0x9D, CHR 0x97]"

definition lit_zoo_bowls :: string where \<comment> \<open>bowls unobserved\<close>
  "lit_zoo_bowls =
     [CHR 0xE9, CHR 0xA3, CHR 0x9F, CHR 0xE7, CHR 0x9B, CHR 0x86, CHR 0xE5, CHR 0xAE, CHR 0xB9,
      CHR 0xE9, CHR 0x87, CHR 0x8F, CHR 0xE8, CHR 0xAF, CHR 0x81, CHR 0xE6, CHR 0x8D, CHR 0xAE,
      CHR 0xE4, CHR 0xB8, CHR 0x8D, CHR 0xE5, CHR 0xAE, CHR 0x8C, CHR 0xE6, CHR 0x95, CHR 0xB4,
      CHR 0xEF, CHR 0xBC, CHR 0x8C, CHR 0xE5, CHR 0x85, CHR 0x88, CHR 0xE5, CHR 0x88, CHR 0xB7,
      CHR 0xE6, CHR 0x96, CHR 0xB0, CHR 0xE5, CHR 0xAE, CHR 0xA0, CHR 0xE7, CHR 0x89, CHR 0xA9,
      CHR 0xE9, CHR 0xA3, CHR 0x9F, CHR 0xE7, CHR 0x9B, CHR 0x86]"

definition lit_zoo_stock :: string where \<comment> \<open>fill the bowl from stock\<close>
  "lit_zoo_stock =
     [CHR 0xE6, CHR 0x8C, CHR 0x89, CHR 0xE5, CHR 0xAE, CHR 0xA2, CHR 0xE6, CHR 0x88, CHR 0xB7,
      CHR 0xE7, CHR 0xAB, CHR 0xAF, CHR 0xE9, CHR 0xA3, CHR 0x9F, CHR 0xE7, CHR 0x9B, CHR 0x86,
      CHR 0xE5, CHR 0xAE, CHR 0xB9, CHR 0xE9, CHR 0x87, CHR 0x8F, CHR 0xE4, CHR 0xBD, CHR 0xBF,
      CHR 0xE7, CHR 0x94, CHR 0xA8, CHR 0xE5, CHR 0xB7, CHR 0xB2, CHR 0xE6, CHR 0x9C, CHR 0x89,
      CHR 0xE5, CHR 0xBA, CHR 0x93, CHR 0xE5, CHR 0xAD, CHR 0x98, CHR 0xE8, CHR 0xA1, CHR 0xA5,
      CHR 0xE5, CHR 0x85, CHR 0x85, CHR 0xE5, CHR 0xAE, CHR 0xA0, CHR 0xE7, CHR 0x89, CHR 0xA9,
      CHR 0xE9, CHR 0xA3, CHR 0x9F, CHR 0xE7, CHR 0x9B, CHR 0x86]"

definition lit_zoo_no_food :: string where \<comment> \<open>no food for the bowl\<close>
  "lit_zoo_no_food =
     [CHR 0xE9, CHR 0xA3, CHR 0x9F, CHR 0xE7, CHR 0x9B, CHR 0x86, CHR 0xE6, CHR 0x9C, CHR 0x89,
      CHR 0xE7, CHR 0xA9, CHR 0xBA, CHR 0xE4, CHR 0xBD, CHR 0x8D, CHR 0xEF, CHR 0xBC, CHR 0x8C,
      CHR 0xE4, CHR 0xBD, CHR 0x86, CHR 0xE6, CHR 0x9A, CHR 0x82, CHR 0xE6, CHR 0x97, CHR 0xA0,
      CHR 0xE5, CHR 0xB7, CHR 0xB2, CHR 0xE7, CHR 0xA1, CHR 0xAE, CHR 0xE8, CHR 0xAE, CHR 0xA4,
      CHR 0xE5, CHR 0x8F, CHR 0xAF, CHR 0xE7, CHR 0x94, CHR 0xA8, CHR 0xE7, CHR 0x9A, CHR 0x84,
      CHR 0xE7, CHR 0x8C, CHR 0xAB, CHR 0xE7, CHR 0xB2, CHR 0xAE, CHR 0xE6, CHR 0x88, CHR 0x96,
      CHR 0xE5, CHR 0xB0, CHR 0x8F, CHR 0xE9, CHR 0xB1, CHR 0xBC, CHR 0xE5, CHR 0xB9, CHR 0xB2,
      CHR 0xEF, CHR 0xBC, CHR 0x9B, CHR 0xE5, CHR 0x8F, CHR 0xAF, CHR 0xE5, CHR 0xBC, CHR 0x80,
      CHR 0xE5, CHR 0x90, CHR 0xAF, CHR 0xE8, CHR 0xB4, CHR 0xAD, CHR 0xE4, CHR 0xB9, CHR 0xB0,
      CHR 0xE6, CHR 0x99, CHR 0xAE, CHR 0xE9, CHR 0x80, CHR 0x9A, CHR 0xE7, CHR 0x8C, CHR 0xAB,
      CHR 0xE7, CHR 0xB2, CHR 0xAE]"

definition lit_zoo_full :: string where \<comment> \<open>all bowls full\<close>
  "lit_zoo_full =
     [CHR 0xE6, CHR 0x89, CHR 0x80, CHR 0xE6, CHR 0x9C, CHR 0x89, CHR 0xE5, CHR 0xB7, CHR 0xB2,
      CHR 0xE8, CHR 0xA7, CHR 0x82, CHR 0xE6, CHR 0xB5, CHR 0x8B, CHR 0xE5, CHR 0xAE, CHR 0xA0,
      CHR 0xE7, CHR 0x89, CHR 0xA9, CHR 0xE7, CHR 0x9A, CHR 0x84, CHR 0xE9, CHR 0xA3, CHR 0x9F,
      CHR 0xE7, CHR 0x9B, CHR 0x86, CHR 0xE5, CHR 0x9D, CHR 0x87, CHR 0xE5, CHR 0xB7, CHR 0xB2,
      CHR 0xE8, CHR 0xA3, CHR 0x85, CHR 0xE6, CHR 0xBB, CHR 0xA1]"

definition lit_zoo_bowls_unseen :: string where \<comment> \<open>bowls not synchronised\<close>
  "lit_zoo_bowls_unseen =
     [CHR 0xE5, CHR 0xAE, CHR 0xA0, CHR 0xE7, CHR 0x89, CHR 0xA9, CHR 0xE9, CHR 0xA3, CHR 0x9F,
      CHR 0xE7, CHR 0x9B, CHR 0x86] @ '' foodstuffArr '' @ [CHR 0xE5, CHR 0xB0, CHR 0x9A, CHR 0xE6,
      CHR 0x9C, CHR 0xAA, CHR 0xE5, CHR 0xAE, CHR 0x8C, CHR 0xE6, CHR 0x95, CHR 0xB4, CHR 0xE5,
      CHR 0x90, CHR 0x8C, CHR 0xE6, CHR 0xAD, CHR 0xA5]"

definition lit_zoo_need_feed :: string where \<comment> \<open>buying needs feeding\<close>
  "lit_zoo_need_feed =
     [CHR 0xE8, CHR 0xB4, CHR 0xAD, CHR 0xE4, CHR 0xB9, CHR 0xB0, CHR 0xE6, CHR 0x99, CHR 0xAE,
      CHR 0xE9, CHR 0x80, CHR 0x9A, CHR 0xE7, CHR 0x8C, CHR 0xAB, CHR 0xE7, CHR 0xB2, CHR 0xAE,
      CHR 0xE9, CHR 0x9C, CHR 0x80, CHR 0xE8, CHR 0xA6, CHR 0x81, CHR 0xE5, CHR 0x90, CHR 0x8C,
      CHR 0xE6, CHR 0x97, CHR 0xB6, CHR 0xE5, CHR 0xBC, CHR 0x80, CHR 0xE5, CHR 0x90, CHR 0xAF,
      CHR 0xE8, CHR 0x87, CHR 0xAA, CHR 0xE5, CHR 0x8A, CHR 0xA8, CHR 0xE8, CHR 0xA1, CHR 0xA5,
      CHR 0xE5, CHR 0x85, CHR 0x85, CHR 0xE9, CHR 0xA3, CHR 0x9F, CHR 0xE7, CHR 0x9B, CHR 0x86,
      CHR 0xEF, CHR 0xBC, CHR 0x8C, CHR 0xE9, CHR 0x81, CHR 0xBF, CHR 0xE5, CHR 0x85, CHR 0x8D,
      CHR 0xE6, CHR 0x97, CHR 0xA0, CHR 0xE9, CHR 0x9C, CHR 0x80, CHR 0xE6, CHR 0xB1, CHR 0x82,
      CHR 0xE5, CHR 0x9B, CHR 0xA4, CHR 0xE7, CHR 0xA7, CHR 0xAF]"

end
