(* ===== verification/Feeding.thy ===== *)
theory Feeding
  imports Shops FeedTexts
begin

text \<open>
  Filling the pets' bowls: the bowls of \<open>state/zoo.go\<close>, shop 9 of \<open>state/shop.go\<close>, the feeding part of
  \<open>zooOperations\<close>, the purchase of plain food and the checks the runner repeats before it sends
  (\<open>ValidateZooFoodPurchase\<close>, \<open>ValidateZooFoodStock\<close> of \<open>automation/basic.go\<close>).
\<close>

abbreviation "RPCZooEnterZoo \<equiv> ''zoo.enterZoo''"
abbreviation "RPCZooAddFoodstuff \<equiv> ''zoo.addFoodstuff''"
abbreviation "ZooFoodShopTempID \<equiv> (9::int)"
abbreviation "ZooNormalFoodShopItemID \<equiv> (90001::int)"

section \<open>Bowls and stock\<close>

record pet_view =
  pet_PetID :: int
  pet_FoodstuffIDs :: "int list"
  pet_FoodstuffObserved :: bool

record food_shop =
  fo_DailyBought :: "(int, int) gomap"
  fo_DailyRecordObserved :: bool
  fo_Observed :: bool
  fo_FullSyncedAtMs :: int

record zoo_state =
  zo_Observed :: bool
  zo_pets :: "(int, pet_view) gomap"
  zo_usableLimits :: "(int, int) gomap"
  zo_shop :: "food_shop option"

text \<open>What \<open>zooNormalFoodStatic\<close> decodes of the client's table: food, portions, gold and daily limit; 0 where unknown.\<close>

record food_offer =
  fd_FoodstuffID :: int
  fd_FoodstuffCount :: int
  fd_GoldCost :: int
  fd_DailyLimit :: int

record zoo_catalog =
  zc_BowlCapacity :: int
  zc_Food :: food_offer

definition usable_food :: "game_state \<Rightarrow> zoo_state \<Rightarrow> int \<Rightarrow> int" where
  "usable_food s z itemID =
     (let n = get_or 0 (Inventory s) itemID
      in case map_of (zo_usableLimits z) itemID of None \<Rightarrow> n | Some limit \<Rightarrow> if limit < n then limit else n)"

definition RejectZooFoodStock :: "int \<Rightarrow> zoo_state \<Rightarrow> zoo_state" where
  "RejectZooFoodStock itemID z =
     (if itemID \<noteq> 1501 \<and> itemID \<noteq> 1502 then z
      else z\<lparr>zo_usableLimits := AList.update itemID 0 (zo_usableLimits z)\<rparr>)"

definition InvalidateZooFoodBowl :: "int \<Rightarrow> zoo_state \<Rightarrow> zoo_state" where
  "InvalidateZooFoodBowl petID z =
     (case map_of (zo_pets z) petID of
        None \<Rightarrow> z
      | Some pet \<Rightarrow> z\<lparr>zo_pets := AList.update petID (pet\<lparr>pet_FoodstuffObserved := False\<rparr>) (zo_pets z)\<rparr>)"

definition bowl_room :: "zoo_catalog \<Rightarrow> pet_view \<Rightarrow> int" where
  "bowl_room cat pet = zc_BowlCapacity cat - int (length (pet_FoodstuffIDs pet))"

definition NextZooFoodBowlNeed :: "zoo_catalog \<Rightarrow> zoo_state \<Rightarrow> (int \<times> int) option" where
  "NextZooFoodBowlNeed cat z =
     (let ids = sort (map fst (filter (\<lambda>(i, pet). 0 < pet_PetID pet \<and> pet_FoodstuffObserved pet) (zo_pets z)))
      in if zc_BowlCapacity cat \<le> 0 then None
         else map_option (\<lambda>i. (i, bowl_room cat (the (map_of (zo_pets z) i))))
           (List.find (\<lambda>i. 0 < bowl_room cat (the (map_of (zo_pets z) i))) ids))"

definition ZooFoodBowlsObserved :: "zoo_state \<Rightarrow> bool" where
  "ZooFoodBowlsObserved z \<longleftrightarrow>
     (let known = filter (\<lambda>(i, pet). 0 < pet_PetID pet) (zo_pets z)
      in known \<noteq> [] \<and> list_all (\<lambda>(i, pet). pet_FoodstuffObserved pet) known)"

definition NextZooFoodstuffPlan :: "zoo_catalog \<Rightarrow> game_state \<Rightarrow> zoo_state \<Rightarrow> (int \<times> int \<times> int) option" where
  "NextZooFoodstuffPlan cat s z =
     (case NextZooFoodBowlNeed cat z of
        None \<Rightarrow> None
      | Some (petID, need) \<Rightarrow>
          map_option (\<lambda>f. (petID, f, if need < usable_food s z f then need else usable_food s z f))
            (List.find (\<lambda>f. 0 < usable_food s z f) [1501, 1502]))"

section \<open>Shop 9\<close>

record food_view =
  fv_Observed :: bool
  fv_NeedsEnter :: bool
  fv_Food :: food_offer
  fv_DailyBought :: int
  fv_DailyRemaining :: int

definition ZooFoodShop :: "zoo_catalog \<Rightarrow> zoo_state \<Rightarrow> time \<Rightarrow> food_view" where
  "ZooFoodShop cat z now =
     (let food = zc_Food cat; whole = \<lparr>fv_Observed = False, fv_NeedsEnter = True, fv_Food = food, fv_DailyBought = 0,
            fv_DailyRemaining = fd_DailyLimit food\<rparr>
      in case zo_shop z of
           None \<Rightarrow> whole
         | Some shop \<Rightarrow>
             if \<not> fo_Observed shop then whole
             else
               let bought = get_or 0 (fo_DailyBought shop) ZooNormalFoodShopItemID
               in \<lparr>fv_Observed = True,
                   fv_NeedsEnter = (\<not> fo_DailyRecordObserved shop \<or> fo_FullSyncedAtMs shop \<le> 0 \<or>
                     gameDayID (unix_milli (fo_FullSyncedAtMs shop)) < gameDayID now),
                   fv_Food = food, fv_DailyBought = bought,
                   fv_DailyRemaining = (if 0 < fd_DailyLimit food then max 0 (fd_DailyLimit food - bought)
                     else fd_DailyLimit food)\<rparr>)"

record zoo_policy =
  zp_Enabled :: bool
  zp_AutoFeed :: bool
  zp_AutoBuyFood :: bool
  zp_AutoStroke :: bool
  zp_AutoEventEnabled :: bool
  zp_MaxSpendGold :: int

definition zoo_goal :: goal where
  "zoo_goal = \<lparr>goal_ID = ''basic.zoo'', goal_Category = CategoryBasic, goal_Domain = ''basic.zoo'',
     goal_Label = lit_zoo_goal, goal_Priority = 57\<rparr>"

definition unbought :: "string \<Rightarrow> string \<Rightarrow> planned_op" where
  "unbought status reason =
     (markerOp CategoryBasic ''basic.zoo.buy_food'' ''buy'' reason 5687)
       \<lparr>op_Status := status, op_Executable := False, op_TargetID := ZooFoodShopTempID, op_ItemID := ZooNormalFoodShopItemID,
        op_BlockedReasons := (if status = PlanStatusBlocked then [reason] else
          op_BlockedReasons (markerOp CategoryBasic ''basic.zoo.buy_food'' ''buy'' reason 5687))\<rparr>"

text \<open>How many portions: the need, cut by the daily limit, the budget of one purchase and the account's gold.\<close>

definition food_count :: "food_view \<Rightarrow> zoo_policy \<Rightarrow> int \<Rightarrow> int \<Rightarrow> int" where
  "food_count v p gold need =
     (let cost = fd_GoldCost (fv_Food v);
          n = (if fv_DailyRemaining v < need then fv_DailyRemaining v else need);
          n = (if zp_MaxSpendGold p div cost < n then zp_MaxSpendGold p div cost else n)
      in if gold div cost < n then gold div cost else n)"

definition zooFoodPurchaseOperation :: "zoo_catalog \<Rightarrow> game_state \<Rightarrow> zoo_state \<Rightarrow> zoo_policy \<Rightarrow> int \<Rightarrow> time \<Rightarrow> planned_op" where
  "zooFoodPurchaseOperation cat s z p need now =
     (let v = ZooFoodShop cat z now; food = fv_Food v; cost = fd_GoldCost food; n = food_count v p (Gold s) need
      in if fv_NeedsEnter v
         then domainOp RPCShopEnter zoo_goal ''basic.zoo.buy_food'' ''sync'' lit_zoo_shop_sync 5687 ZooFoodShopTempID 0 0
         else if fd_FoodstuffID food \<noteq> 1501 \<or> fd_FoodstuffCount food \<le> 0 \<or> cost \<le> 0 \<or> fd_DailyLimit food \<le> 0
         then unbought PlanStatusBlocked lit_zoo_shop_config
         else if fv_DailyRemaining v \<le> 0
         then unbought PlanStatusSkipped (lit_zoo_bought @ show_int (fv_DailyBought v) @ ''/'' @
           show_int (fd_DailyLimit food) @ lit_zoo_wait_reset)
         else if zp_MaxSpendGold p \<le> 0 then unbought PlanStatusBlocked lit_zoo_no_budget
         else if n \<le> 0
         then unbought PlanStatusBlocked
           (if zp_MaxSpendGold p < cost then lit_zoo_each @ show_int cost @ lit_zoo_over_budget
            else lit_zoo_gold_short @ show_int cost @ lit_zoo_current @ show_int (Gold s))
         else (domainOp RPCShopBuy zoo_goal ''basic.zoo.buy_food'' ''buy''
             (lit_zoo_bowl_lacks @ show_int need @ lit_zoo_buy @ show_int n @ lit_zoo_portions) 5687
             ZooFoodShopTempID ZooNormalFoodShopItemID n)\<lparr>op_GoldCost := cost * n\<rparr>)"

definition waiting_stock :: "string \<Rightarrow> string \<Rightarrow> planned_op" where
  "waiting_stock status reason =
     (markerOp CategoryBasic ''basic.zoo.feed'' ''stock'' reason 5688)
       \<lparr>op_Status := status, op_Executable := False,
        op_BlockedReasons := (if status = PlanStatusBlocked then [reason] else
          op_BlockedReasons (markerOp CategoryBasic ''basic.zoo.feed'' ''stock'' reason 5688))\<rparr>"

definition zoo_blocked :: "string \<Rightarrow> string \<Rightarrow> string \<Rightarrow> int \<Rightarrow> planned_op" where
  "zoo_blocked domain action reason priority =
     (markerOp CategoryBasic domain action reason priority)
       \<lparr>op_Status := PlanStatusBlocked, op_Executable := False, op_BlockedReasons := [reason]\<rparr>"

text \<open>What \<open>zooOperations\<close> plans for the bowls, up to the purchase.\<close>

definition zoo_feeding ::
  "zoo_catalog \<Rightarrow> game_state \<Rightarrow> zoo_state \<Rightarrow> zoo_policy \<Rightarrow> time \<Rightarrow> planned_op list" where
  "zoo_feeding cat s z p now =
     (let need = NextZooFoodBowlNeed cat z; food = NextZooFoodstuffPlan cat s z
      in (if zp_AutoFeed p \<and> zo_pets z \<noteq> [] \<and> \<not> ZooFoodBowlsObserved z
          then [domainOp RPCZooEnterZoo zoo_goal ''basic.zoo'' ''sync'' lit_zoo_bowls 5690 0 0 0] else []) @
         (if zp_AutoFeed p then
            (case need of
               Some (petID, room) \<Rightarrow>
                 (case food of
                    Some (pet, f, n) \<Rightarrow>
                      [(domainOp RPCZooAddFoodstuff zoo_goal ''basic.zoo.feed'' ''stock'' lit_zoo_stock 5688 pet f n)
                        \<lparr>op_ItemCost := [(f, n)]\<rparr>]
                  | None \<Rightarrow>
                      if zp_AutoBuyFood p then []
                      else [(waiting_stock PlanStatusSkipped lit_zoo_no_food)\<lparr>op_TargetID := petID, op_Count := room\<rparr>])
             | None \<Rightarrow>
                 [if ZooFoodBowlsObserved z then waiting_stock PlanStatusSkipped lit_zoo_full
                  else waiting_stock PlanStatusBlocked lit_zoo_bowls_unseen])
          else []) @
         (if \<not> zp_AutoBuyFood p then []
          else if \<not> zp_AutoFeed p then [zoo_blocked ''basic.zoo.buy_food'' ''buy'' lit_zoo_need_feed 5687]
          else case need of
            Some (petID, room) \<Rightarrow> (if food = None then [zooFoodPurchaseOperation cat s z p room now] else [])
          | None \<Rightarrow> []))"

text \<open>The early returns of \<open>zooOperations\<close>; \<open>None\<close> goes on to the bowls.\<close>

definition zoo_gate :: "zoo_state \<Rightarrow> zoo_policy option \<Rightarrow> planned_op list option" where
  "zoo_gate z policy =
     (case policy of
        None \<Rightarrow> Some []
      | Some p \<Rightarrow>
          if \<not> zp_Enabled p then
            Some (if zp_AutoFeed p \<or> zp_AutoBuyFood p \<or> zp_AutoStroke p \<or> zp_AutoEventEnabled p
              then [zoo_blocked ''basic.zoo'' ''sync'' lit_zoo_off 5690] else [])
          else if \<not> zo_Observed z
          then Some [domainOp RPCZooEnterZoo zoo_goal ''basic.zoo'' ''sync'' lit_zoo_enter 5690 0 0 0]
          else None)"

section \<open>The checks before sending\<close>

datatype food_error =
    FoodDisabled | BowlUnready | FoodShort | NothingMissing | StockFirst | ShopUnsynced | PurchaseStale | CostOff | NotGoldOnly

definition ValidateZooFoodStock ::
  "zoo_catalog \<Rightarrow> game_state \<Rightarrow> zoo_state \<Rightarrow> zoo_policy \<Rightarrow> planned_op \<Rightarrow> food_error option" where
  "ValidateZooFoodStock cat s z p x =
     (if \<not> zp_Enabled p \<or> \<not> zp_AutoFeed p then Some FoodDisabled
      else case map_of (zo_pets z) (op_TargetID x) of
        None \<Rightarrow> Some BowlUnready
      | Some pet \<Rightarrow>
          if \<not> pet_FoodstuffObserved pet \<or> op_Count x \<le> 0 \<or> bowl_room cat pet < op_Count x then Some BowlUnready
          else if (op_ItemID x \<noteq> 1501 \<and> op_ItemID x \<noteq> 1502) \<or> usable_food s z (op_ItemID x) < op_Count x
          then Some FoodShort
          else None)"

definition ValidateZooFoodPurchase ::
  "zoo_catalog \<Rightarrow> game_state \<Rightarrow> zoo_state \<Rightarrow> zoo_policy option \<Rightarrow> planned_op \<Rightarrow> time \<Rightarrow> food_error option" where
  "ValidateZooFoodPurchase cat s z policy x now =
     (case policy of
        None \<Rightarrow> Some FoodDisabled
      | Some p \<Rightarrow>
          let v = ZooFoodShop cat z now; cost = fd_GoldCost (fv_Food v); want = cost * op_Count x
          in if \<not> zp_Enabled p \<or> \<not> zp_AutoFeed p \<or> \<not> zp_AutoBuyFood p then Some FoodDisabled
             else case NextZooFoodBowlNeed cat z of
               None \<Rightarrow> Some NothingMissing
             | Some (petID, need) \<Rightarrow>
                 if NextZooFoodstuffPlan cat s z \<noteq> None then Some StockFirst
                 else if fv_NeedsEnter v \<or> \<not> fv_Observed v then Some ShopUnsynced
                 else if op_TargetID x \<noteq> ZooFoodShopTempID \<or> op_ItemID x \<noteq> ZooNormalFoodShopItemID \<or> op_Count x \<le> 0 \<or>
                         need < op_Count x \<or> fv_DailyRemaining v < op_Count x then Some PurchaseStale
                 else if cost \<le> 0 \<or> want \<le> 0 \<or> op_GoldCost x \<noteq> want \<or> zp_MaxSpendGold p < want then Some CostOff
                 else if op_DiamondCost x \<noteq> 0 \<or> op_ItemCost x \<noteq> [] then Some NotGoldOnly
                 else None)"

section \<open>What is planned passes the checks\<close>

lemma need_found:
  assumes "NextZooFoodBowlNeed cat z = Some (petID, room)" "gomap_ok (zo_pets z)"
  shows "\<exists>pet. map_of (zo_pets z) petID = Some pet \<and> pet_FoodstuffObserved pet \<and> room = bowl_room cat pet \<and> 0 < room"
proof -
  let ?ids = "sort (map fst (filter (\<lambda>(i, pet). 0 < pet_PetID pet \<and> pet_FoodstuffObserved pet) (zo_pets z)))"
  have "List.find (\<lambda>i. 0 < bowl_room cat (the (map_of (zo_pets z) i))) ?ids = Some petID"
    and room: "room = bowl_room cat (the (map_of (zo_pets z) petID))"
    using assms(1) by (auto simp: NextZooFoodBowlNeed_def Let_def split: if_splits)
  from find_SomeD [OF this(1)] have pos: "0 < bowl_room cat (the (map_of (zo_pets z) petID))" "petID \<in> set ?ids" by auto
  then obtain pet where "(petID, pet) \<in> set (zo_pets z)" "pet_FoodstuffObserved pet" by auto
  with assms(2) have "map_of (zo_pets z) petID = Some pet" by (simp add: gomap_ok_def)
  with \<open>pet_FoodstuffObserved pet\<close> pos(1) room show ?thesis by simp
qed

lemma need_positive: "NextZooFoodBowlNeed cat z = Some (petID, room) \<Longrightarrow> 0 < room"
  by (auto simp: NextZooFoodBowlNeed_def Let_def split: if_splits dest: find_SomeD)

lemma food_count_fits:
  assumes "0 < fd_GoldCost (fv_Food v)"
  shows "food_count v p gold need \<le> need \<and> food_count v p gold need \<le> fv_DailyRemaining v \<and>
    fd_GoldCost (fv_Food v) * food_count v p gold need \<le> zp_MaxSpendGold p \<and>
    fd_GoldCost (fv_Food v) * food_count v p gold need \<le> gold"
proof -
  let ?c = "fd_GoldCost (fv_Food v)" and ?n = "food_count v p gold need"
  have n: "?n \<le> need" "?n \<le> fv_DailyRemaining v" "?n \<le> zp_MaxSpendGold p div ?c" "?n \<le> gold div ?c"
    by (auto simp: food_count_def Let_def)
  have "?c * ?n \<le> m" if "?n \<le> m div ?c" for m
  proof -
    have "?c * ?n \<le> ?c * (m div ?c)" using that assms by (simp add: mult_left_mono)
    also have "\<dots> \<le> m" using assms by (simp add: zdiv_mono1 mult_div_mod_eq [symmetric] minus_mod_eq_mult_div [symmetric])
    finally show ?thesis .
  qed
  with n show ?thesis by blast
qed

lemma markerOp_kind: "op_Kind (markerOp c d a r pr) = d @ ''.'' @ a"
  by (simp add: markerOp_def enrichPlannedOp_def apply_spec_def Let_def split: option.split)

lemma unbought_kind: "op_Kind (unbought st r) = ''basic.zoo.buy_food.buy''"
  by (simp add: unbought_def markerOp_kind)

lemma waiting_kind: "op_Kind (waiting_stock st r) = ''basic.zoo.feed.stock''"
  by (simp add: waiting_stock_def markerOp_kind)

lemma zoo_blocked_kind: "op_Kind (zoo_blocked d a r pr) = d @ ''.'' @ a"
  by (simp add: zoo_blocked_def markerOp_kind)

lemma purchase_planned:
  assumes "x = zooFoodPurchaseOperation cat s z p need now" "op_Kind x = RPCShopBuy"
  shows "\<exists>v. v = ZooFoodShop cat z now \<and> \<not> fv_NeedsEnter v \<and> 0 < fd_GoldCost (fv_Food v) \<and>
    0 < food_count v p (Gold s) need \<and> op_TargetID x = ZooFoodShopTempID \<and> op_ItemID x = ZooNormalFoodShopItemID \<and>
    op_Count x = food_count v p (Gold s) need \<and> op_GoldCost x = fd_GoldCost (fv_Food v) * food_count v p (Gold s) need \<and>
    op_DiamondCost x = 0 \<and> op_ItemCost x = []"
proof -
  define v where "v = ZooFoodShop cat z now"
  define n where "n = food_count v p (Gold s) need"
  have *: "\<not> fv_NeedsEnter v" "0 < fd_GoldCost (fv_Food v)" "0 < n"
    and x: "x = (domainOp RPCShopBuy zoo_goal ''basic.zoo.buy_food'' ''buy''
             (lit_zoo_bowl_lacks @ show_int need @ lit_zoo_buy @ show_int n @ lit_zoo_portions) 5687
             ZooFoodShopTempID ZooNormalFoodShopItemID n)\<lparr>op_GoldCost := fd_GoldCost (fv_Food v) * n\<rparr>"
    using assms(2) unfolding assms(1) zooFoodPurchaseOperation_def Let_def v_def [symmetric] n_def [symmetric]
    by (simp_all add: unbought_kind split: if_splits)
  then show ?thesis by (intro exI [of _ v]) (simp add: v_def n_def)
qed

text \<open>
  C39.  What the planner plans for the bowls, the runner lets through.  In the state
  the plan was made from, a planned purchase of plain food passes every check made again before sending
  and takes no more portions than a bowl lacks and the day allows, for no more gold than the owner's
  limit and the account's gold; planned stocking passes its checks too and names an observed bowl with
  room for it.
\<close>

theorem planned_feeding_valid:
  assumes "gomap_ok (zo_pets z)" "x \<in> set (zoo_feeding cat s z p now)" "zp_Enabled p"
  shows "(op_Kind x = RPCShopBuy \<longrightarrow>
      ValidateZooFoodPurchase cat s z (Some p) x now = None \<and> op_GoldCost x \<le> min (zp_MaxSpendGold p) (Gold s) \<and>
      (\<exists>pet room. NextZooFoodBowlNeed cat z = Some (pet, room) \<and> op_Count x \<le> room)) \<and>
    (op_Kind x = RPCZooAddFoodstuff \<longrightarrow>
      ValidateZooFoodStock cat s z p x = None \<and> op_ItemCost x = [(op_ItemID x, op_Count x)])"
proof (intro conjI impI)
  assume buy: "op_Kind x = RPCShopBuy"
  then obtain petID room where on: "zp_AutoFeed p" "zp_AutoBuyFood p" and need: "NextZooFoodBowlNeed cat z = Some (petID, room)"
    and none: "NextZooFoodstuffPlan cat s z = None" and x: "x = zooFoodPurchaseOperation cat s z p room now"
    using assms(2) unfolding zoo_feeding_def Let_def
    by (auto simp: waiting_kind zoo_blocked_kind split: if_splits option.splits)
  from purchase_planned [OF x buy] obtain v where v: "v = ZooFoodShop cat z now" "\<not> fv_NeedsEnter v"
    and cost: "0 < fd_GoldCost (fv_Food v)" "0 < food_count v p (Gold s) room"
    and f: "op_TargetID x = ZooFoodShopTempID" "op_ItemID x = ZooNormalFoodShopItemID" "op_Count x = food_count v p (Gold s) room"
      "op_GoldCost x = fd_GoldCost (fv_Food v) * food_count v p (Gold s) room" "op_DiamondCost x = 0" "op_ItemCost x = []"
    by blast
  have obs: "fv_Observed v" using v by (auto simp: ZooFoodShop_def Let_def split: option.splits if_splits)
  note fits = food_count_fits [OF cost(1), of p "Gold s" room]
  have "\<not> fd_GoldCost (fv_Food v) * food_count v p (Gold s) room \<le> 0"
    using cost by (simp only: not_le zero_less_mult_iff simp_thms)
  with fits show "ValidateZooFoodPurchase cat s z (Some p) x now = None"
    using on need none assms(3) v(2) obs cost f
    by (simp add: ValidateZooFoodPurchase_def Let_def v(1) [symmetric] not_less)
  show "op_GoldCost x \<le> min (zp_MaxSpendGold p) (Gold s)" using fits f by simp
  show "\<exists>pet room. NextZooFoodBowlNeed cat z = Some (pet, room) \<and> op_Count x \<le> room" using need fits f by simp
next
  assume stock: "op_Kind x = RPCZooAddFoodstuff"
  have other: "op_Kind (zooFoodPurchaseOperation cat s z p n now) \<noteq> RPCZooAddFoodstuff" for n
    by (simp add: zooFoodPurchaseOperation_def unbought_kind Let_def)
  obtain petID room pet f n where on: "zp_AutoFeed p" and need: "NextZooFoodBowlNeed cat z = Some (petID, room)"
    and food: "NextZooFoodstuffPlan cat s z = Some (pet, f, n)"
    and x: "op_TargetID x = pet" "op_ItemID x = f" "op_Count x = n" "op_ItemCost x = [(f, n)]"
    using assms(2) stock other unfolding zoo_feeding_def Let_def
    by (cases "NextZooFoodstuffPlan cat s z"; cases "NextZooFoodBowlNeed cat z")
      (auto simp: waiting_kind zoo_blocked_kind split: if_splits)
  have "List.find (\<lambda>f. 0 < usable_food s z f) [1501, 1502] = Some f" and p: "pet = petID"
    and n: "n = (if room < usable_food s z f then room else usable_food s z f)"
    using food need by (auto simp: NextZooFoodstuffPlan_def)
  from find_SomeD [OF this(1)] have f: "0 < usable_food s z f" "f = 1501 \<or> f = 1502" by auto
  from need_found [OF need assms(1)] obtain v where "map_of (zo_pets z) petID = Some v" "pet_FoodstuffObserved v"
    "room = bowl_room cat v" "0 < room" by blast
  then show "ValidateZooFoodStock cat s z p x = None"
    using x f n p on assms(3) by (auto simp: ValidateZooFoodStock_def)
  show "op_ItemCost x = [(op_ItemID x, op_Count x)]" using x by simp
qed

text \<open>A bowl with room for three, gold for two portions.\<close>

definition cat_food :: zoo_catalog where
  "cat_food = \<lparr>zc_BowlCapacity = 4, zc_Food = \<lparr>fd_FoodstuffID = 1501, fd_FoodstuffCount = 1, fd_GoldCost = 40, fd_DailyLimit = 9\<rparr>\<rparr>"

definition hungry_cat :: zoo_state where
  "hungry_cat = \<lparr>zo_Observed = True, zo_pets = [(1, \<lparr>pet_PetID = 1, pet_FoodstuffIDs = [1501], pet_FoodstuffObserved = True\<rparr>)],
     zo_usableLimits = [], zo_shop = Some \<lparr>fo_DailyBought = [], fo_DailyRecordObserved = True, fo_Observed = True,
       fo_FullSyncedAtMs = 3600000\<rparr>\<rparr>"

definition feeder :: zoo_policy where
  "feeder = \<lparr>zp_Enabled = True, zp_AutoFeed = True, zp_AutoBuyFood = True, zp_AutoStroke = False,
     zp_AutoEventEnabled = False, zp_MaxSpendGold = 1000\<rparr>"

definition poor_state :: game_state where
  "poor_state = sample_state\<lparr>gs_gold := 90, gs_inventory := []\<rparr>"

lemma hungry_parts:
  "NextZooFoodBowlNeed cat_food hungry_cat = Some (1, 3)" "NextZooFoodstuffPlan cat_food poor_state hungry_cat = None"
  "ZooFoodBowlsObserved hungry_cat" "\<not> fv_NeedsEnter (ZooFoodShop cat_food hungry_cat (2 * hour))"
  "fv_Food (ZooFoodShop cat_food hungry_cat (2 * hour)) = zc_Food cat_food"
  "fv_DailyRemaining (ZooFoodShop cat_food hungry_cat (2 * hour)) = 9"
  "food_count (ZooFoodShop cat_food hungry_cat (2 * hour)) feeder (Gold poor_state) 3 = 2"
  by code_simp+

theorem planned_feeding_valid_witness:
  "\<exists>x. zoo_feeding cat_food poor_state hungry_cat feeder (2 * hour) = [x] \<and> op_Count x = 2 \<and>
     ValidateZooFoodPurchase cat_food poor_state hungry_cat (Some feeder) x (2 * hour) = None \<and>
     op_GoldCost x \<le> min 1000 (Gold poor_state)"
proof -
  have p: "zp_AutoFeed feeder" "zp_AutoBuyFood feeder" "zp_MaxSpendGold feeder = 1000" "zp_Enabled feeder"
    by (simp_all add: feeder_def)
  have "\<exists>x. zooFoodPurchaseOperation cat_food poor_state hungry_cat feeder 3 (2 * hour) = x \<and> op_Count x = 2 \<and> op_Kind x = RPCShopBuy"
    by (simp add: zooFoodPurchaseOperation_def Let_def hungry_parts p(3)) (simp add: cat_food_def)
  then obtain x where x: "zooFoodPurchaseOperation cat_food poor_state hungry_cat feeder 3 (2 * hour) = x" "op_Count x = 2"
    "op_Kind x = RPCShopBuy" by blast
  have plan: "zoo_feeding cat_food poor_state hungry_cat feeder (2 * hour) = [x]"
    by (simp add: zoo_feeding_def Let_def hungry_parts p x(1))
  have "gomap_ok (zo_pets hungry_cat)" by (simp add: hungry_cat_def gomap_ok_def)
  moreover have "x \<in> set (zoo_feeding cat_food poor_state hungry_cat feeder (2 * hour))" by (simp add: plan)
  ultimately have "ValidateZooFoodPurchase cat_food poor_state hungry_cat (Some feeder) x (2 * hour) = None"
    "op_GoldCost x \<le> min 1000 (Gold poor_state)"
    using planned_feeding_valid [of hungry_cat x cat_food poor_state feeder "2 * hour"] p x(3) by auto
  with plan x(2) show ?thesis by blast
qed

end
