(* ===== verification/UpkeepTexts.thy ===== *)
theory UpkeepTexts
  imports Literals
begin

text \<open>
  The Chinese texts of farm maintenance (\<open>automation/maintenance.go\<close>), as the byte strings the
  compiler stores.
\<close>

definition lit_unlock_land :: string where \<comment> \<open>land to reclaim\<close>
  "lit_unlock_land =
     [CHR 0xE6, CHR 0x9C, CHR 0x89, CHR 0xE5, CHR 0x8F, CHR 0xAF, CHR 0xE5, CHR 0xBC, CHR 0x80,
      CHR 0xE5, CHR 0x9E, CHR 0xA6, CHR 0xE5, CHR 0x9C, CHR 0x9F, CHR 0xE5, CHR 0x9C, CHR 0xB0]"

definition lit_cultivate_goal :: string where \<comment> \<open>cultivation\<close>
  "lit_cultivate_goal =
     [CHR 0xE5, CHR 0x9F, CHR 0xB9, CHR 0xE8, CHR 0x82, CHR 0xB2]"

definition lit_cultivate_ready :: string where \<comment> \<open>cultivation done\<close>
  "lit_cultivate_ready =
     [CHR 0xE5, CHR 0x9F, CHR 0xB9, CHR 0xE8, CHR 0x82, CHR 0xB2, CHR 0xE5, CHR 0xAE, CHR 0x8C,
      CHR 0xE6, CHR 0x88, CHR 0x90, CHR 0xE5, CHR 0x8F, CHR 0xAF, CHR 0xE9, CHR 0xA2, CHR 0x86,
      CHR 0xE5, CHR 0x8F, CHR 0x96]"

definition lit_cultivate_main_goal :: string where \<comment> \<open>main task\<close>
  "lit_cultivate_main_goal =
     [CHR 0xE4, CHR 0xB8, CHR 0xBB, CHR 0xE7, CHR 0xBA, CHR 0xBF, CHR 0xE4, CHR 0xBB, CHR 0xBB,
      CHR 0xE5, CHR 0x8A, CHR 0xA1]"

definition lit_cultivate_main :: string where \<comment> \<open>main task needs\<close>
  "lit_cultivate_main =
     [CHR 0xE4, CHR 0xB8, CHR 0xBB, CHR 0xE7, CHR 0xBA, CHR 0xBF, CHR 0xE4, CHR 0xBB, CHR 0xBB,
      CHR 0xE5, CHR 0x8A, CHR 0xA1, CHR 0xE9, CHR 0x9C, CHR 0x80, CHR 0xE8, CHR 0xA6, CHR 0x81,
      CHR 0xE5, CHR 0x9F, CHR 0xB9, CHR 0xE8, CHR 0x82, CHR 0xB2] @ '' ''"

definition lit_cultivate_upgrade :: string where \<comment> \<open>upgrade possible\<close>
  "lit_cultivate_upgrade =
     [CHR 0xE9, CHR 0xB2, CHR 0x9C, CHR 0xE8, CHR 0x8A, CHR 0xB1, CHR 0xE5, CHR 0x9F, CHR 0xB9,
      CHR 0xE8, CHR 0x82, CHR 0xB2, CHR 0xE7, CHR 0xAD, CHR 0x89, CHR 0xE7, CHR 0xBA, CHR 0xA7,
      CHR 0xE5, CHR 0x8F, CHR 0xAF, CHR 0xE5, CHR 0x8D, CHR 0x87, CHR 0xE7, CHR 0xBA, CHR 0xA7]"

definition lit_cultivate_new :: string where \<comment> \<open>flower not cultivated\<close>
  "lit_cultivate_new =
     [CHR 0xE6, CHR 0x9C, CHR 0x89, CHR 0xE6, CHR 0x9C, CHR 0xAA, CHR 0xE5, CHR 0x9F, CHR 0xB9,
      CHR 0xE8, CHR 0x82, CHR 0xB2, CHR 0xE8, CHR 0x8A, CHR 0xB1, CHR 0xE6, CHR 0x9C, CHR 0xB5]"

definition lit_cultivate_unknown :: string where \<comment> \<open>materials unknown\<close>
  "lit_cultivate_unknown =
     [CHR 0xE5, CHR 0x9F, CHR 0xB9, CHR 0xE8, CHR 0x82, CHR 0xB2, CHR 0xE6, CHR 0x9D, CHR 0x90,
      CHR 0xE6, CHR 0x96, CHR 0x99, CHR 0xE9, CHR 0x85, CHR 0x8D, CHR 0xE7, CHR 0xBD, CHR 0xAE,
      CHR 0xE6, CHR 0x9C, CHR 0xAA, CHR 0xE7, CHR 0xA1, CHR 0xAE, CHR 0xE8, CHR 0xAE, CHR 0xA4]"

definition lit_cultivate_unknown_why :: string where \<comment> \<open>no static materials\<close>
  "lit_cultivate_unknown_why =
     [CHR 0xE7, CHR 0xBC, CHR 0xBA, CHR 0xE5, CHR 0xB0, CHR 0x91, CHR 0xE5, CHR 0x9F, CHR 0xB9,
      CHR 0xE8, CHR 0x82, CHR 0xB2, CHR 0xE6, CHR 0x9D, CHR 0x90, CHR 0xE6, CHR 0x96, CHR 0x99,
      CHR 0xE9, CHR 0x9D, CHR 0x99, CHR 0xE6, CHR 0x80, CHR 0x81, CHR 0xE9, CHR 0x85, CHR 0x8D,
      CHR 0xE7, CHR 0xBD, CHR 0xAE, CHR 0xEF, CHR 0xBC, CHR 0x8C, CHR 0xE5, CHR 0xB7, CHR 0xB2,
      CHR 0xE9, CHR 0x98, CHR 0xBB, CHR 0xE5, CHR 0xA1, CHR 0x9E, CHR 0xE7, CHR 0xAD, CHR 0x89,
      CHR 0xE5, CHR 0xBE, CHR 0x85, CHR 0xE7, CHR 0xA1, CHR 0xAE, CHR 0xE8, CHR 0xAE, CHR 0xA4]"

definition lit_cultivate_short :: string where \<comment> \<open>short\<close>
  "lit_cultivate_short =
     [CHR 0xE4, CHR 0xB8, CHR 0x8D, CHR 0xE8, CHR 0xB6, CHR 0xB3]"

definition lit_unknown_module :: string where \<comment> \<open>protocol unclear\<close>
  "lit_unknown_module =
     [CHR 0xE5, CHR 0x8D, CHR 0x8F, CHR 0xE8, CHR 0xAE, CHR 0xAE, CHR 0xE6, CHR 0x88, CHR 0x96,
      CHR 0xE7, CHR 0x8A, CHR 0xB6, CHR 0xE6, CHR 0x80, CHR 0x81, CHR 0xE4, CHR 0xB8, CHR 0x8D,
      CHR 0xE6, CHR 0x98, CHR 0x8E, CHR 0xE7, CHR 0xA1, CHR 0xAE, CHR 0xEF, CHR 0xBC, CHR 0x8C,
      CHR 0xE5, CHR 0xB7, CHR 0xB2, CHR 0xE6, CHR 0x8C, CHR 0x89, CHR 0xE8, CHR 0xAE, CHR 0xA1,
      CHR 0xE5, CHR 0x88, CHR 0x92, CHR 0xE9, CHR 0x98, CHR 0xBB, CHR 0xE5, CHR 0xA1, CHR 0x9E]"

definition lit_unknown_why :: string where \<comment> \<open>not confirmed\<close>
  "lit_unknown_why =
     [CHR 0xE8, CHR 0xAF, CHR 0xA5, CHR 0xE9, CHR 0xA2, CHR 0x86, CHR 0xE5, CHR 0x9F, CHR 0x9F,
      CHR 0xE5, CHR 0xB0, CHR 0x9A, CHR 0xE6, CHR 0x9C, CHR 0xAA, CHR 0xE5, CHR 0xAE, CHR 0x8C,
      CHR 0xE6, CHR 0x88, CHR 0x90, CHR 0xE5, CHR 0x8D, CHR 0x8F, CHR 0xE8, CHR 0xAE, CHR 0xAE,
      CHR 0xE7, CHR 0xA1, CHR 0xAE, CHR 0xE8, CHR 0xAE, CHR 0xA4, CHR 0xEF, CHR 0xBC, CHR 0x8C,
      CHR 0xE5, CHR 0x85, CHR 0x88, CHR 0xE8, CHR 0xAE, CHR 0xB0, CHR 0xE5, CHR 0xBD, CHR 0x95,
      CHR 0xE6, CHR 0x96, CHR 0x87, CHR 0xE6, CHR 0xA1, CHR 0xA3, CHR 0xEF, CHR 0xBC, CHR 0x8C,
      CHR 0xE4, CHR 0xB8, CHR 0x8D, CHR 0xE8, CHR 0x87, CHR 0xAA, CHR 0xE5, CHR 0x8A, CHR 0xA8,
      CHR 0xE6, CHR 0x89, CHR 0xA7, CHR 0xE8, CHR 0xA1, CHR 0x8C]"

definition lit_unknown_union :: string where \<comment> \<open>guild extensions\<close>
  "lit_unknown_union =
     [CHR 0xE5, CHR 0x85, CHR 0xAC, CHR 0xE4, CHR 0xBC, CHR 0x9A, CHR 0xE6, CHR 0x89, CHR 0xA9,
      CHR 0xE5, CHR 0xB1, CHR 0x95, CHR 0xE5, CHR 0x8A, CHR 0x9F, CHR 0xE8, CHR 0x83, CHR 0xBD]"

end
