(* ===== verification/Upkeep.thy ===== *)
theory Upkeep
  imports GuildSafety Ledger UpkeepTexts
begin

text \<open>
  Farm maintenance beside the speed-up tickets (\<open>automation/maintenance.go\<close>): reclaiming land, starting,
  collecting and upgrading cultivations, and the marker for guild features without an adapter.
\<close>


abbreviation "RPCCultivateCultivate \<equiv> ''cultivate.cultivate''"
abbreviation "RPCCultivateRecv \<equiv> ''cultivate.recv''"

section \<open>State, tables and policy\<close>

record farm_land =
  fl_ID :: int
  fl_OpenLevel :: int
  fl_Cost :: "int list"

text \<open>The fields maintenance reads beside those of the other views; the main task with its target.\<close>

record upkeep_state =
  uk_LandRosterObserved :: bool
  uk_FarmLandConfigObserved :: bool
  uk_FarmLands :: "farm_land list"
  uk_Level :: int
  uk_CulTimeMs :: "(int, int) gomap"
  uk_MainTask :: "(int \<times> bool \<times> int \<times> int) option"

text \<open>Materials of a cultivation, item, pieces and gold of an upgrade, and the flower a main task asks for.\<close>

record upkeep_catalog =
  uc_CultivateCost :: "int \<Rightarrow> (int \<times> int) list option"
  uc_UpgradeCost :: "int \<Rightarrow> int \<Rightarrow> (int \<times> int \<times> int) option"
  uc_MainCultivate :: "int \<Rightarrow> (int \<times> int) option"
  uc_ItemLabel :: "int \<Rightarrow> string"

record cultivate_policy =
  cp_Enabled :: bool
  cp_UpgradeEnabled :: bool
  cp_TargetLevel :: int

section \<open>Reclaiming land\<close>

fun unlock_scan :: "int \<Rightarrow> int \<Rightarrow> int list \<Rightarrow> farm_land list \<Rightarrow> nat \<Rightarrow> (int \<times> int) option" where
  "unlock_scan level gold opened [] n = None"
| "unlock_scan level gold opened (l # ls) n =
     (if fl_ID l \<in> set opened then unlock_scan level gold opened ls n
      else if 6 < n + 1 then None
      else if length (fl_Cost l) < 2 then unlock_scan level gold opened ls (n + 1)
      else
        let cost = fl_Cost l ! 1 - fl_Cost l ! 0 + 11
        in if fl_OpenLevel l \<le> level \<and> cost \<le> gold then Some (fl_ID l, cost)
           else unlock_scan level gold opened ls (n + 1))"

definition nextLandUnlockCandidate :: "game_state \<Rightarrow> garden \<Rightarrow> upkeep_state \<Rightarrow> (int \<times> int) option" where
  "nextLandUnlockCandidate s g k =
     (if \<not> uk_LandRosterObserved k \<or> \<not> uk_FarmLandConfigObserved k then None
      else unlock_scan (uk_Level k) (Gold s) (map fst (Lands g)) (uk_FarmLands k) 0)"

section \<open>Cultivation\<close>

definition cultivate_goal :: goal where
  "cultivate_goal = \<lparr>goal_ID = ''farm.cultivate'', goal_Category = CategoryPlant, goal_Domain = ''farm.cultivate'',
     goal_Label = lit_cultivate_goal, goal_Priority = 55\<rparr>"

definition main_cultivate_goal :: goal where
  "main_cultivate_goal = \<lparr>goal_ID = GoalMainTask, goal_Category = CategoryBasic, goal_Domain = ''farm.cultivate'',
     goal_Label = lit_cultivate_main_goal, goal_Priority = 70\<rparr>"

definition item_costs :: "(int \<times> int) list \<Rightarrow> (int, int) gomap" where
  "item_costs costs =
     fold (\<lambda>(i, n) m. if 0 < i \<and> 0 < n then AList.update i (get_or 0 m i + n) m else m) costs []"

definition short_items :: "upkeep_catalog \<Rightarrow> inventory_ledger option \<Rightarrow> (int, int) gomap \<Rightarrow> string list" where
  "short_items cat ledger items =
     sort (map (\<lambda>(i, n). uc_ItemLabel cat i @ lit_cultivate_short) (filter (\<lambda>(i, n). Available ledger i < n) items))"

text \<open>Every case yields an operation, ready or blocked.\<close>

definition cultivateStartOperation ::
  "upkeep_catalog \<Rightarrow> inventory_ledger option \<Rightarrow> int \<Rightarrow> goal \<Rightarrow> string \<Rightarrow> int \<Rightarrow> planned_op" where
  "cultivateStartOperation cat ledger flowerID goal reason priority =
     (case uc_CultivateCost cat flowerID of
        None \<Rightarrow>
          (domainOp RPCCultivateCultivate goal ''farm.cultivate'' ''cultivate'' lit_cultivate_unknown priority 0 0 0)
            \<lparr>op_FlowerID := flowerID, op_Status := PlanStatusAdapterMissing, op_Executable := False,
             op_BlockedReasons := [lit_cultivate_unknown_why]\<rparr>
      | Some costs \<Rightarrow>
          let items = item_costs costs;
              planned = (domainOp RPCCultivateCultivate goal ''farm.cultivate'' ''cultivate'' reason priority 0 0 0)
                \<lparr>op_FlowerID := flowerID, op_ItemCost := items\<rparr>
          in if CanSpendItems ledger items then planned
             else planned\<lparr>op_Status := PlanStatusBlocked, op_Executable := False,
                    op_BlockedReasons := short_items cat ledger items\<rparr>)"

definition cultivation_ids :: "game_state \<Rightarrow> int list" where
  "cultivation_ids s = sort (map fst (gs_cultivations s))"

definition cultivation_of :: "game_state \<Rightarrow> int \<Rightarrow> cultivation_view" where
  "cultivation_of s i = the (map_of (gs_cultivations s) i)"

text \<open>The first stage: collect what is done, and go on only when no cultivation is active.\<close>

definition recv_op :: "int \<Rightarrow> planned_op" where
  "recv_op i = (goal_op RPCCultivateRecv cultivate_goal ''recv'' lit_cultivate_ready 7200 0 0 0)\<lparr>op_FlowerID := i\<rparr>"

definition ripe_cultivations :: "game_state \<Rightarrow> upkeep_state \<Rightarrow> time \<Rightarrow> int list" where
  "ripe_cultivations s k now =
     filter (\<lambda>i. cv_Status (cultivation_of s i) = 1 \<and> 0 < get_or 0 (uk_CulTimeMs k) i \<and>
               get_or 0 (uk_CulTimeMs k) i \<le> to_unix_milli now) (cultivation_ids s)"

definition cultivating :: "game_state \<Rightarrow> bool" where
  "cultivating s \<longleftrightarrow> list_ex (\<lambda>i. cv_Status (cultivation_of s i) = 1) (cultivation_ids s)"

definition main_cultivation ::
  "upkeep_catalog \<Rightarrow> game_state \<Rightarrow> upkeep_state \<Rightarrow> inventory_ledger option \<Rightarrow> planned_op option" where
  "main_cultivation cat s k ledger =
     (case uk_MainTask k of
        None \<Rightarrow> None
      | Some (taskID, ready, finished, target) \<Rightarrow>
          if \<not> ready \<or> target \<le> finished then None
          else case uc_MainCultivate cat taskID of
            None \<Rightarrow> None
          | Some (flowerID, _) \<Rightarrow>
              (case map_of (gs_cultivations s) flowerID of
                 Some cv \<Rightarrow> if cv_Lvl cv \<le> 0 \<and> cv_Status cv \<noteq> 1
                   then Some (cultivateStartOperation cat ledger flowerID main_cultivate_goal
                     (lit_cultivate_main @ uc_ItemLabel cat flowerID) 7150) else None
               | None \<Rightarrow> Some (cultivateStartOperation cat ledger flowerID main_cultivate_goal
                     (lit_cultivate_main @ uc_ItemLabel cat flowerID) 7150)))"

definition upgradable :: "upkeep_catalog \<Rightarrow> game_state \<Rightarrow> cultivate_policy \<Rightarrow> int \<Rightarrow> bool" where
  "upgradable cat s p i \<longleftrightarrow>
     (let cv = cultivation_of s i
      in cv_Status cv = 2 \<and> 0 < cv_Lvl cv \<and> \<not> (0 < cp_TargetLevel p \<and> cp_TargetLevel p \<le> cv_Lvl cv) \<and>
         (case uc_UpgradeCost cat i (cv_Lvl cv) of
            None \<Rightarrow> False
          | Some (itemID, n, gold) \<Rightarrow> n \<le> get_or 0 (Inventory s) itemID \<and> gold \<le> Gold s))"

definition cultivation_upgrade :: "upkeep_catalog \<Rightarrow> game_state \<Rightarrow> int \<Rightarrow> planned_op" where
  "cultivation_upgrade cat s i =
     (case the (uc_UpgradeCost cat i (cv_Lvl (cultivation_of s i))) of (itemID, n, gold) \<Rightarrow>
        (domainOp RPCCultivateUpgrade cultivate_goal ''farm.upgrade'' ''upgrade'' lit_cultivate_upgrade 7100 0 0 0)
          \<lparr>op_FlowerID := i, op_OperationID := operationID RPCCultivateUpgrade [] i 0 0,
           op_Count := cv_Lvl (cultivation_of s i), op_GoldCost := gold, op_ItemCost := [(itemID, n)]\<rparr>)"

text \<open>The last stage: the first flower without a level whose start is not blocked for want of material.\<close>

definition new_cultivations :: "upkeep_catalog \<Rightarrow> game_state \<Rightarrow> inventory_ledger option \<Rightarrow> planned_op list" where
  "new_cultivations cat s ledger =
     filter (\<lambda>x. op_Status x \<noteq> PlanStatusBlocked)
       (map (\<lambda>i. cultivateStartOperation cat ledger i cultivate_goal lit_cultivate_new 7050)
         (filter (\<lambda>i. cv_Status (cultivation_of s i) \<noteq> 1 \<and> cv_Lvl (cultivation_of s i) \<le> 0) (cultivation_ids s)))"

definition cultivateOperation ::
  "upkeep_catalog \<Rightarrow> game_state \<Rightarrow> upkeep_state \<Rightarrow> cultivate_policy \<Rightarrow> bool \<Rightarrow> inventory_ledger option \<Rightarrow> time \<Rightarrow> planned_op option" where
  "cultivateOperation cat s k p mainTaskEnabled ledger now =
     (if cp_Enabled p \<and> ripe_cultivations s k now \<noteq> [] then Some (recv_op (hd (ripe_cultivations s k now)))
      else if cp_Enabled p \<and> cultivating s then None
      else if cp_Enabled p \<and> mainTaskEnabled \<and> main_cultivation cat s k ledger \<noteq> None then main_cultivation cat s k ledger
      else case (if cp_UpgradeEnabled p then List.find (upgradable cat s p) (cultivation_ids s) else None) of
        Some i \<Rightarrow> Some (cultivation_upgrade cat s i)
      | None \<Rightarrow>
          if cp_Enabled p \<and> new_cultivations cat s ledger \<noteq> [] then Some (hd (new_cultivations cat s ledger)) else None)"

definition maintenanceOperations ::
  "upkeep_catalog \<Rightarrow> game_state \<Rightarrow> garden \<Rightarrow> day_state \<Rightarrow> upkeep_state \<Rightarrow> planting_policy \<Rightarrow> bool \<Rightarrow> cultivate_policy \<Rightarrow>
     bool \<Rightarrow> race_policy option \<Rightarrow> bool \<Rightarrow> inventory_ledger option \<Rightarrow> time \<Rightarrow> planned_op list" where
  "maintenanceOperations cat s g st k planting autoUnlock cultivate mainTask race useTicket ledger now =
     (if autoUnlock
      then case nextLandUnlockCandidate s g k of
          None \<Rightarrow> []
        | Some (landID, cost) \<Rightarrow>
            [(goal_op RPCUsrLandUnlockLand maintenance_goal ''unlock'' lit_unlock_land 7600 landID 0 0)\<lparr>op_GoldCost := cost\<rparr>]
      else []) @
     maintenance_speed_up s g st planting race useTicket now @
     (if cp_Enabled cultivate \<or> cp_UpgradeEnabled cultivate
      then case cultivateOperation cat s k cultivate mainTask ledger now of None \<Rightarrow> [] | Some x \<Rightarrow> [x] else [])"

definition blockedUnknownOperations :: "bool \<Rightarrow> bool \<Rightarrow> planned_op list" where
  "blockedUnknownOperations shareEnabled redPacketEnabled =
     (if shareEnabled \<or> redPacketEnabled
      then [missing_adapter [lit_unknown_why]
        ((markerOp CategoryUnion ''union.unknown'' ''blocked'' lit_unknown_module 100)\<lparr>op_Label := lit_unknown_union\<rparr>)]
      else [])"

section \<open>What is planned\<close>

lemma unlock_scan_fits:
  "unlock_scan level gold opened ls n = Some (i, cost) \<Longrightarrow>
     (\<exists>l \<in> set ls. fl_ID l = i \<and> fl_OpenLevel l \<le> level \<and> cost = fl_Cost l ! 1 - fl_Cost l ! 0 + 11) \<and>
     i \<notin> set opened \<and> cost \<le> gold"
  by (induction ls arbitrary: n) (auto simp: Let_def split: if_splits)

lemma item_costs_step:
  "get_or 0 (fold (\<lambda>(i, n) m. if 0 < i \<and> 0 < n then AList.update i (get_or 0 m i + n) m else m) costs m) j =
     get_or 0 m j + sum_list (map snd (filter (\<lambda>(i, n). i = j \<and> 0 < i \<and> 0 < n) costs))"
proof (induction costs arbitrary: m)
  case (Cons c costs)
  obtain i n where c: "c = (i, n)" by fastforce
  show ?case
    by (cases "0 < i \<and> 0 < n") (simp_all only: c fold_Cons comp_apply prod.case if_True if_False Cons.IH, auto simp: add.assoc)
qed simp

text \<open>What a flower's materials ask of one item: the entries with a positive item and number.\<close>

definition material :: "(int \<times> int) list \<Rightarrow> int \<Rightarrow> int" where
  "material costs i = sum_list (map snd (filter (\<lambda>(j, n). j = i \<and> 0 < j \<and> 0 < n) costs))"

lemma item_costs_material: "get_or 0 (item_costs costs) i = material costs i"
  by (simp add: item_costs_def item_costs_step material_def)

definition start_paid :: "upkeep_catalog \<Rightarrow> inventory_ledger option \<Rightarrow> int \<Rightarrow> bool" where
  "start_paid cat ledger flowerID \<longleftrightarrow>
     (\<exists>costs. uc_CultivateCost cat flowerID = Some costs \<and> CanSpendItems ledger (item_costs costs))"

lemma start_op_fields:
  "op_Kind (cultivateStartOperation cat ledger i goal reason priority) = RPCCultivateCultivate"
  "op_FlowerID (cultivateStartOperation cat ledger i goal reason priority) = i"
  "op_Executable (cultivateStartOperation cat ledger i goal reason priority) \<Longrightarrow> start_paid cat ledger i"
  by (auto simp: cultivateStartOperation_def start_paid_def Let_def split: option.splits if_splits)

definition waits_for_flower :: "game_state \<Rightarrow> int \<Rightarrow> bool" where
  "waits_for_flower s i \<longleftrightarrow>
     (\<forall>cv. map_of (gs_cultivations s) i = Some cv \<longrightarrow> cv_Lvl cv \<le> 0 \<and> cv_Status cv \<noteq> 1)"

lemma known_cultivation: "i \<in> set (cultivation_ids s) \<Longrightarrow> map_of (gs_cultivations s) i = Some (cultivation_of s i)"
  unfolding cultivation_ids_def cultivation_of_def set_sort set_map by (metis map_of_eq_None_iff option.collapse)

lemma main_cultivation_start:
  "main_cultivation cat s k ledger = Some x \<Longrightarrow>
     \<exists>i goal reason. x = cultivateStartOperation cat ledger i goal reason 7150 \<and> waits_for_flower s i"
  by (fastforce simp: main_cultivation_def waits_for_flower_def split: option.splits prod.splits if_splits)

lemma new_cultivation_start:
  assumes "x \<in> set (new_cultivations cat s ledger)"
  shows "\<exists>i goal reason. x = cultivateStartOperation cat ledger i goal reason 7050 \<and> waits_for_flower s i"
  using assms known_cultivation [of _ s]
  by (fastforce simp: new_cultivations_def waits_for_flower_def)

text \<open>The three ways a cultivation operation comes about.\<close>

definition cultivation_start ::
  "upkeep_catalog \<Rightarrow> game_state \<Rightarrow> cultivate_policy \<Rightarrow> inventory_ledger option \<Rightarrow> planned_op \<Rightarrow> bool" where
  "cultivation_start cat s p ledger x \<longleftrightarrow>
     cp_Enabled p \<and> \<not> cultivating s \<and>
     (\<exists>i goal reason priority. x = cultivateStartOperation cat ledger i goal reason priority \<and> waits_for_flower s i)"

lemma cultivate_cases:
  assumes "cultivateOperation cat s k p main ledger now = Some x"
  shows "(\<exists>i \<in> set (ripe_cultivations s k now). cp_Enabled p \<and> x = recv_op i) \<or>
    cultivation_start cat s p ledger x \<or>
    (\<exists>i \<in> set (cultivation_ids s). cp_UpgradeEnabled p \<and> (cp_Enabled p \<longrightarrow> \<not> cultivating s) \<and>
       upgradable cat s p i \<and> x = cultivation_upgrade cat s i)"
proof -
  note c = assms [unfolded cultivateOperation_def]
  consider (ripe) "cp_Enabled p \<and> ripe_cultivations s k now \<noteq> []"
    | (main) "\<not> (cp_Enabled p \<and> ripe_cultivations s k now \<noteq> [])" "\<not> (cp_Enabled p \<and> cultivating s)"
        "cp_Enabled p \<and> main \<and> main_cultivation cat s k ledger \<noteq> None"
    | (rest) "\<not> (cp_Enabled p \<and> ripe_cultivations s k now \<noteq> [])" "\<not> (cp_Enabled p \<and> cultivating s)"
        "\<not> (cp_Enabled p \<and> main \<and> main_cultivation cat s k ledger \<noteq> None)"
    using c by (metis option.distinct(1))
  then show ?thesis
  proof cases
    case ripe
    with c have "x = recv_op (hd (ripe_cultivations s k now))" by simp
    moreover have "hd (ripe_cultivations s k now) \<in> set (ripe_cultivations s k now)" using ripe by simp
    ultimately show ?thesis using ripe by blast
  next
    case main
    with c have "main_cultivation cat s k ledger = Some x" by simp
    with main main_cultivation_start show ?thesis unfolding cultivation_start_def by metis
  next
    case rest
    note c = c [unfolded if_not_P [OF rest(1)] if_not_P [OF rest(2)] if_not_P [OF rest(3)]]
    show ?thesis
    proof (cases "if cp_UpgradeEnabled p then List.find (upgradable cat s p) (cultivation_ids s) else None")
      case None
      with c have "cp_Enabled p" "new_cultivations cat s ledger \<noteq> []" "x = hd (new_cultivations cat s ledger)"
        by (simp_all split: if_splits)
      with rest new_cultivation_start [of x] show ?thesis unfolding cultivation_start_def by (metis hd_in_set)
    next
      case (Some i)
      then have "cp_UpgradeEnabled p" "i \<in> set (cultivation_ids s)" "upgradable cat s p i"
        by (auto split: if_splits dest: find_SomeD)
      moreover from c Some have "x = cultivation_upgrade cat s i" by simp
      ultimately show ?thesis using rest(2) by blast
    qed
  qed
qed

definition materials_at_hand :: "upkeep_catalog \<Rightarrow> inventory_ledger option \<Rightarrow> int \<Rightarrow> bool" where
  "materials_at_hand cat ledger flowerID \<longleftrightarrow>
     (\<exists>costs. uc_CultivateCost cat flowerID = Some costs \<and> (\<forall>i. material costs i \<le> max 0 (Available ledger i)))"

lemma spendable_at_hand: "CanSpendItems ledger (item_costs costs) \<Longrightarrow> material costs i \<le> max 0 (Available ledger i)"
proof (cases "material costs i \<le> 0")
  case False
  assume can: "CanSpendItems ledger (item_costs costs)"
  from False have "map_of (item_costs costs) i = Some (material costs i)"
    using item_costs_material [of costs i] by (auto simp: get_or_def split: option.splits)
  then have "(i, material costs i) \<in> set (item_costs costs)" by (rule map_of_SomeD)
  with can False show ?thesis by (cases ledger) (auto simp: list_all_iff)
qed simp

definition upgrade_payable :: "upkeep_catalog \<Rightarrow> game_state \<Rightarrow> cultivate_policy \<Rightarrow> planned_op \<Rightarrow> bool" where
  "upgrade_payable cat s p x \<longleftrightarrow>
     (\<exists>cv itemID n. map_of (gs_cultivations s) (op_FlowerID x) = Some cv \<and> cv_Status cv = 2 \<and> 0 < cv_Lvl cv \<and>
        (0 < cp_TargetLevel p \<longrightarrow> cv_Lvl cv < cp_TargetLevel p) \<and>
        uc_UpgradeCost cat (op_FlowerID x) (cv_Lvl cv) = Some (itemID, n, op_GoldCost x) \<and>
        op_ItemCost x = [(itemID, n)] \<and> n \<le> get_or 0 (Inventory s) itemID \<and> op_GoldCost x \<le> Gold s)"

lemma upgrade_is_payable:
  assumes "i \<in> set (cultivation_ids s)" "upgradable cat s p i"
  shows "op_FlowerID (cultivation_upgrade cat s i) = i \<and> op_Kind (cultivation_upgrade cat s i) = RPCCultivateUpgrade \<and>
    upgrade_payable cat s p (cultivation_upgrade cat s i)"
  using assms known_cultivation [OF assms(1)]
  by (auto simp: upgradable_def upgrade_payable_def cultivation_upgrade_def Let_def split: option.splits prod.splits)

lemma recv_fields: "op_Kind (recv_op i) = RPCCultivateRecv" "op_FlowerID (recv_op i) = i"
  by (simp_all add: recv_op_def goal_op_def enrichPlannedOp_def apply_spec_def Let_def zero_op_def split: option.split)

lemma cultivation_kinds [simp]:
  "RPCCultivateRecv \<noteq> RPCCultivateCultivate" "RPCCultivateCultivate \<noteq> RPCCultivateRecv"
  "RPCCultivateUpgrade \<noteq> RPCCultivateCultivate" "RPCCultivateCultivate \<noteq> RPCCultivateUpgrade"
  "RPCCultivateUpgrade \<noteq> RPCCultivateRecv" "RPCCultivateRecv \<noteq> RPCCultivateUpgrade"
  by simp_all

text \<open>What the cultivations say by themselves: one is due, and the slot is occupied by none.\<close>

definition due_cultivation :: "game_state \<Rightarrow> upkeep_state \<Rightarrow> time \<Rightarrow> int \<Rightarrow> bool" where
  "due_cultivation s k now i \<longleftrightarrow>
     (\<exists>cv done. map_of (gs_cultivations s) i = Some cv \<and> cv_Status cv = 1 \<and>
        map_of (uk_CulTimeMs k) i = Some done \<and> 0 < done \<and> done \<le> to_unix_milli now)"

definition slot_free :: "game_state \<Rightarrow> bool" where
  "slot_free s \<longleftrightarrow> (\<forall>i cv. map_of (gs_cultivations s) i = Some cv \<longrightarrow> cv_Status cv \<noteq> 1)"

lemma ripe_due: "i \<in> set (ripe_cultivations s k now) \<longleftrightarrow> due_cultivation s k now i"
proof -
  have ids: "i \<in> set (cultivation_ids s) \<longleftrightarrow> map_of (gs_cultivations s) i \<noteq> None"
    by (simp add: cultivation_ids_def map_of_eq_None_iff)
  show ?thesis
    using known_cultivation [of i s] unfolding ripe_cultivations_def due_cultivation_def set_filter mem_Collect_eq ids
    by (cases "map_of (gs_cultivations s) i"; cases "map_of (uk_CulTimeMs k) i")
      (simp_all add: get_or_def cultivation_of_def conj_assoc)
qed

lemma idle_slot: "\<not> cultivating s \<Longrightarrow> slot_free s"
  unfolding slot_free_def
proof (intro allI impI)
  fix i cv assume idle: "\<not> cultivating s" and cv: "map_of (gs_cultivations s) i = Some cv"
  then have "i \<in> set (cultivation_ids s)" by (simp add: cultivation_ids_def) (metis map_of_eq_None_iff option.distinct(1))
  with idle cv show "cv_Status cv \<noteq> 1" by (auto simp: cultivating_def list_ex_iff cultivation_of_def)
qed

lemma due_collected:
  assumes "cultivateOperation cat s k p main ledger now = Some x" "cp_Enabled p" "due_cultivation s k now i"
  shows "op_Kind x = RPCCultivateRecv"
proof -
  have "ripe_cultivations s k now \<noteq> []" using assms(3) ripe_due [of i s k now] by auto
  then show ?thesis using assms(1, 2) by (auto simp: cultivateOperation_def recv_fields)
qed


text \<open>Flower 23001 is cultivated until half past, 23002 is at level 2: with both switches the planner waits.\<close>

definition cultivation_catalog :: upkeep_catalog where
  "cultivation_catalog = \<lparr>uc_CultivateCost = (\<lambda>_. Some [(1401, 2)]), uc_UpgradeCost = (\<lambda>_ _. Some (1402, 3, 100)),
     uc_MainCultivate = (\<lambda>_. None), uc_ItemLabel = show_int\<rparr>"

definition growing_state :: game_state where
  "growing_state = sample_state\<lparr>gs_gold := 500, gs_inventory := [(1402, 3)],
     gs_cultivations := [(23001, \<lparr>cv_Status = 1, cv_Lvl = 0\<rparr>), (23002, \<lparr>cv_Status = 2, cv_Lvl = 2\<rparr>)]\<rparr>"

definition sample_upkeep :: upkeep_state where
  "sample_upkeep = \<lparr>uk_LandRosterObserved = True, uk_FarmLandConfigObserved = True, uk_FarmLands = [], uk_Level = 5,
     uk_CulTimeMs = [(23001, 1800000)], uk_MainTask = None\<rparr>"

definition both_switches :: "bool \<Rightarrow> cultivate_policy" where
  "both_switches on = \<lparr>cp_Enabled = on, cp_UpgradeEnabled = True, cp_TargetLevel = 5\<rparr>"

definition resting_state :: game_state where
  "resting_state = growing_state\<lparr>gs_cultivations := [(23001, \<lparr>cv_Status = 0, cv_Lvl = 0\<rparr>), (23002, \<lparr>cv_Status = 2, cv_Lvl = 2\<rparr>)]\<rparr>"

definition two_materials :: inventory_ledger where
  "two_materials = NewInventoryLedger [(1401, 2)]"

lemma sample_cultivation_parts:
  "ripe_cultivations growing_state sample_upkeep hour = [23001]"
  "ripe_cultivations growing_state sample_upkeep 0 = []"
  "cultivating growing_state" "cultivation_ids growing_state = [23001, 23002]"
  "upgradable cultivation_catalog growing_state (both_switches on) 23001 = False"
  "upgradable cultivation_catalog growing_state (both_switches on) 23002"
  "ripe_cultivations resting_state sample_upkeep hour = []" "\<not> cultivating resting_state"
  "cultivation_ids resting_state = [23001, 23002]"
  "cultivation_of resting_state 23001 = \<lparr>cv_Status = 0, cv_Lvl = 0\<rparr>"
  "upgradable cultivation_catalog resting_state (both_switches on) 23001 = False"
  "upgradable cultivation_catalog resting_state (both_switches on) 23002"
  "CanSpendItems (Some two_materials) (item_costs [(1401, 2)])"
  "cultivation_of resting_state 23002 = \<lparr>cv_Status = 2, cv_Lvl = 2\<rparr>"
  by code_simp+

lemma cultivate_feature_runs:
  "case featureByDomainAction (featureKey ''farm.cultivate'' ''cultivate'') of None \<Rightarrow> False | Some spec \<Rightarrow> spec_runnable spec"
  by code_simp

lemma sample_start:
  "op_ready (cultivateStartOperation cultivation_catalog (Some two_materials) 23001 goal reason priority)"
proof -
  have "op_ready (domainOp RPCCultivateCultivate goal ''farm.cultivate'' ''cultivate'' reason priority 0 0 0)"
    unfolding domainOp_def
    by (subst enrich_fresh) (use cultivate_feature_runs in \<open>auto simp: fresh_op_def zero_op_def split: option.splits\<close>)
  then show ?thesis
    using sample_cultivation_parts(13)
    by (simp add: cultivateStartOperation_def cultivation_catalog_def op_ready_def Let_def)
qed


text \<open>With the upgrade switch alone the occupied slot is not looked at: an upgrade is planned while 23001 grows.\<close>

lemma upgrade_ignores_active_slot:
  "cultivating growing_state \<and>
   cultivateOperation cultivation_catalog growing_state sample_upkeep (both_switches True) False None 0 = None \<and>
   cultivateOperation cultivation_catalog growing_state sample_upkeep (both_switches False) False None 0 =
     Some (cultivation_upgrade cultivation_catalog growing_state 23002)"
  by (simp add: cultivateOperation_def sample_cultivation_parts both_switches_def [of True]
      both_switches_def [of False, THEN arg_cong, of cp_Enabled]
      both_switches_def [of False, THEN arg_cong, of cp_UpgradeEnabled])

end
