(* ===== verification/Spec2Isabelle.thy ===== *)
theory Spec2Isabelle
  imports Calendar Daily Farm Frames Garden Planting Cooldown Features GameGate GameState Gates Harvest Ledger Login Names OpGates Ops Pacing
    Padded Planned Prelude RaceChange RacePlan RaceState RaceTake Safety SideLane Water Literals
    Texts RaceDemand Drives OrderTexts OrderCounts Orders Arts OrderDemands OrderOps OrderSafety RaceArts PearlExec
    Stable Feeding Upkeep
begin

text \<open>
  A verification of the decision core of \<open>mygardenworld\<close>, a daemon that plays a garden game for
  its accounts.  The daemon reads the game's state, plans operations from the owner's policy, and
  sends the one that may run next, under rate limits and under the protection rules that keep an
  account from being banned.  A web API in front of it admits logins.

  \<^bold>\<open>How the parts interact.\<close>  A planner pass (\<open>internal/automation\<close>) builds goals and demands, serves
  the demands from one inventory ledger, lets every module emit planned operations from what it was
  granted, enriches each from the feature registry, sorts the queue, blocks what the account cannot
  pay for, and walks the queue once more so that what stays executable can be paid for together.
  Tasks of the guild race, of the cyclic note and of the day ride on operations that are planned
  anyway.  \<open>BuildPlan\<close> keeps a plan only when the state's revision has not moved.  The runner
  (\<open>internal/runner\<close>) picks the next operation of that queue: it skips what is cooling down, blocked
  after a rejected harvest or a rejected upgrade, or too early for the pacer, and shares turns between
  farm and side work.  Before sending it checks the costs again, reserves water drops, and, for the
  guild race, for a hire and for food, validates the request against what it has just read.  Every
  request passes the account's restriction guard and the maintenance gate.  The safety row and the
  daily allowances of the database (\<open>internal/store\<close>) survive restarts.

  \<^bold>\<open>Theories and code.\<close>  Base:
  \<^item> \<open>Prelude\<close>, \<open>Padded\<close>: time as nanoseconds since 1970 (\<open>time.Time\<close>, \<open>time.Duration\<close>), strings,
    Go maps as association lists with distinct keys (\<open>gomap\<close>), the stable insertion sort with the
    locales \<open>weak_order\<close> and \<open>keyed_order\<close>, threading a state through a list, decimal numbers and
    their zero-padded order.
  \<^item> \<open>Names\<close>, \<open>Literals\<close>, \<open>Texts\<close> and the theories whose names end in \<open>Texts\<close>: the string
    constants of the modules; texts outside ASCII are their UTF-8 bytes.
  \<^item> \<open>Planned\<close>, \<open>Ledger\<close>: \<open>automation/types.go\<close> (operations, demands, gates, \<open>InventoryLedger\<close>) and
    \<open>applyLedgerAllocations\<close>.  Locale \<open>item_ledger\<close>.
  \<^item> \<open>Features\<close>, \<open>Ops\<close>: \<open>automation/features.go\<close> and \<open>ops.go\<close>: registry, enrichment, queue order.
  \<^item> \<open>GameState\<close>, \<open>Water\<close>: the fields of \<open>state.State\<close> in use and \<open>state/resources.go\<close> (drops).
  \<^item> \<open>Calendar\<close>: days in Asia/Shanghai.

  The planner and its modules:
  \<^item> \<open>Garden\<close>: the lands and the help with flower elves of the state (\<open>state/types.go\<close>, \<open>land.go\<close>,
    \<open>flower_elves_aid.go\<close>) and what a land is ready for (\<open>Recommend\<close>).  \<open>Planting\<close>, \<open>Farm\<close>:
    \<open>automation/farm.go\<close>, \<open>elves_plant.go\<close>, the speed-up part of \<open>maintenance.go\<close>: which lands are
    harvested, planted (for whom), watered and speeded up.  Locale \<open>replant_strategy\<close>.
  \<^item> \<open>Upkeep\<close>: the rest of \<open>maintenance.go\<close>: reclaiming land, cultivations and their upgrades.
  \<^item> \<open>OrderCounts\<close>: the daily counters and caps of \<open>state/orders.go\<close> with the statistics of
    \<open>state/account.go\<close>.  \<open>Orders\<close>, \<open>Arts\<close>, \<open>OrderDemands\<close>, \<open>OrderOps\<close>: \<open>automation/orders.go\<close>,
    \<open>availability.go\<close>, \<open>customer_filter.go\<close>, \<open>state/customer_reward.go\<close> and \<open>goals_demands.go\<close>:
    the views of orders and recipes, flower art, the goals and demands, every operation of
    \<open>orderOperations\<close>.  \<open>OrderSafety\<close>: what the operations of one pass take together.
  \<^item> \<open>RaceState\<close>: \<open>state/fml_race.go\<close> (views, quota, session) and the race formulas of
    \<open>state/catalog.go\<close>.  \<open>RaceTake\<close>, \<open>RaceChange\<close>, \<open>RacePlan\<close>: \<open>automation/union_race.go\<close> with
    \<open>race_drive.go\<close> and \<open>race_hold.go\<close>: taking, deleting and upgrading tasks, and the whole of
    \<open>unionRaceOperations\<close>, one stage per early return of the source.  \<open>RaceDemand\<close>, \<open>RaceArts\<close>:
    what a held task asks of the farm and of flower art.
  \<^item> \<open>Drives\<close>: the tasks that ride on planned operations (\<open>activity_drive.go\<close>, \<open>daily_task_drive.go\<close>,
    the customer and pearl tasks of \<open>race_drive.go\<close>).  Locale \<open>decoration\<close>.
  \<^item> \<open>Guild\<close>, \<open>GuildSafety\<close>: \<open>automation/union.go\<close>, \<open>union_membership.go\<close> and what they read of
    \<open>state/fml.go\<close>: membership, donations, guild land, the sharing of flowers, the forest.
  \<^item> \<open>Shops\<close>, \<open>Feeding\<close>: \<open>automation/shop.go\<close>, the shop part of \<open>state/rewards.go\<close>, and the bowls of
    the pets (\<open>automation/basic.go\<close>, \<open>state/zoo.go\<close>, \<open>state/shop.go\<close>) with the checks made again
    before sending.
  \<^item> \<open>Pearl\<close>, \<open>PearlSafety\<close>, \<open>PearlExec\<close>: \<open>state/pearl_hire.go\<close>, \<open>automation/pearl_hire.go\<close> and
    \<open>runner/operation_executor_pearl.go\<close>: discovery of candidates, the planned hire, its validation,
    the request and the fences a doubtful answer leaves behind.
  \<^item> \<open>Gates\<close>: \<open>automation/gates.go\<close>.  Locale \<open>budgeted\<close>, the contract of a pass that spends a budget.
  \<^item> \<open>Stable\<close>: the retry loop of \<open>BuildPlan\<close> (\<open>automation/planner.go\<close>).

  The runner, the store and the API:
  \<^item> \<open>OpGates\<close>, \<open>Harvest\<close>, \<open>Cooldown\<close>, \<open>Pacing\<close>, \<open>SideLane\<close>: \<open>runner/operation_gates.go\<close>,
    \<open>operation_gates_harvest.go\<close>, \<open>cultivate_upgrade_guard.go\<close>, \<open>cooldown.go\<close>,
    \<open>request_pacing.go\<close>, \<open>side_lane.go\<close>.
  \<^item> \<open>Daily\<close>: the daily allowances of tickets and help with their tables, copies and booking steps
    (\<open>store\<close>, \<open>state\<close> and \<open>runner\<close> of \<open>speed_up_ticket_daily.go\<close>, \<open>elves_aid_help_daily.go\<close>,
    \<open>pearl_hire_usage.go\<close>).  Locale \<open>day_budget\<close>.
  \<^item> \<open>Safety\<close>: \<open>runner/account_restriction.go\<close>, \<open>account_safety.go\<close>, \<open>session_recovery.go\<close>,
    \<open>rpc_observations.go\<close>, \<open>store/account_request_safety.go\<close>.
  \<^item> \<open>GameGate\<close>, \<open>Login\<close>: \<open>runner/game_gate.go\<close>, \<open>apiserver/identity_probe_guard.go\<close>,
    \<open>apiserver/login_limiter.go\<close>.
  \<^item> \<open>Frames\<close>: \<open>captureproxy/ws.go\<close>, the parser of the frames that pass the capture proxy.  Locale
    \<open>stream_code\<close>.

  A Go struct is a record with the field names of the source behind a short prefix; a nil pointer is
  \<open>None\<close>; an \<open>error\<close> is a constructor or a text in an option or a sum.  A method under a mutex is one
  transition of its state; goroutines are the steps of an inductive run (\<open>pacer_run\<close>, \<open>gate_run\<close>,
  \<open>probe_run\<close>, \<open>limiter_run\<close>, \<open>paused_run\<close>, \<open>recovery_run\<close>, \<open>quota_run\<close>, \<open>ticket_run\<close>, \<open>pearl_run\<close>,
  \<open>hire_run\<close>), so the properties over runs hold for every interleaving.  A channel of the maintenance
  gate is the number of its \<open>make\<close>; a blocked waiter is recorded with the channel it captured, and is
  woken when that channel is closed.  A locale states what a client relies on and is interpreted on
  the model's own definitions in the theory that provides them.

  \<^bold>\<open>What the lemmas show.\<close>  Resources: demands are served first come, first served without promising
  an item twice; deliveries and sales fit the inventory; the queue left executable is affordable as a
  whole, and admission is exactly first-fit; planner and runner agree on what can be paid; purchases
  stay within the owner's limits.  Timing: requests keep their distances; cooldowns and harvest
  backoffs withhold exactly what failed, for exactly the stated time; a due side operation is served
  within a bounded number of turns; the loop wakes at the first moment a cooling task can be taken.
  Protection: only a burst of errors over several RPCs pauses an account, nothing but a successful and
  unraced recovery resumes it, deadlines never shrink, recovery logins and deletions keep their
  budgets across restarts.  Race: the best allowed row is selected; every planned mutation is
  justified by policy and state; what is planned passes the check before sending, and what passes it
  is allowed by the settings at that moment; planting, sales and crafts for a held task meet its
  target and what is owned.  Farm: a plan names no land twice and every land for what it is ready
  for; the race's flowers come first for land, drops and tickets; replanting hands out every empty
  land and levels the stocks; the drops above the owner's reserve are never exceeded; one cultivation
  at a time.  Orders: the counters the limits are checked against agree with the server's; every
  demand is well formed; racks craft what can be made.  Guild and hires: guild land is not replanted
  over a harvest, shared flowers are taken within what is known of the quota, a hire is one the
  owner and the game allow, discovery ends, and a doubtful hire is never repeated.  Allowances: caps
  of a day hold across restarts and lost results, and what the planner believes to be left is
  granted.  Concurrency: a plan is of one state; the maintenance gate drains, wakes its waiters and
  never panics; identity probes are exclusive; the login limiter is bounded and locks exactly at its
  threshold.  Capture: the parser logs exactly the frames that were sent, however the stream is cut.

  Where a property says what is \<^emph>\<open>allowed\<close>, it says so in a definition over the state and the settings
  that is written for the property and not shared with the code's model (\<open>allowed_row\<close>,
  \<open>takes_open\<close>, \<open>delete_confirmed\<close>, \<open>hire_allowed\<close>, \<open>due_cultivation\<close>, \<open>drops_needed\<close> and others);
  lemmas connect it to the code's checks.

  \<^bold>\<open>Bounds and termination.\<close>  No fuel is used.  Every recursion is structural but four loops:
  the eviction of the login limiter (\<open>evict\<close>), which removes one bucket per round, the drain of the
  frame buffer (\<open>drain\<close>), which consumes a frame, and the two replanting loops (\<open>replant_batches\<close>,
  \<open>replant_levels\<close>), which hand out at least one land.  \<open>BuildPlan\<close> makes the three attempts of the
  source.  Discovery of a worker ends after nine synchronisations, three for each of its sources.

  \<^bold>\<open>Integers.\<close>  Counts, amounts and identities are mathematical integers although the source keeps
  many of them in 32 or 64 bits; this is exact for amounts whose sums stay within those widths, as the
  game's do (\<open>racePlantHarvestPlantMissing\<close>, \<open>racePlantedYieldSum\<close> and other sums of counts).  The
  width is modelled where the source guards it or where wrapping can be reached: the order counters
  saturate at the largest \<open>int32\<close>, prices and rewards are checked against the largest \<open>int64\<close>, the
  length of a frame is a \<open>64 word\<close>, priorities wrap as \<open>int32\<close>, the remaining milliseconds of
  \<open>near_cd\<close> and parsed decimals wrap at 64 bits, the revision of the state at 64 bits, and
  \<open>time.Time.Sub\<close> saturates as in Go.  A slice expression that would panic in Go on a negative
  number (\<open>driveCyclicNotePlant\<close>) is not distinguished from an empty one; its caller rules it out.

  \<^bold>\<open>Parameters.\<close>  The game catalogue is generated data and enters as lookup functions (\<open>race_catalog\<close>,
  \<open>flower_catalog\<close>, \<open>catalog\<close>, \<open>guild_catalog\<close>, \<open>zoo_catalog\<close>, \<open>elves_globals\<close>, \<open>ItemName\<close>,
  \<open>restore\<close> and others).  SQL statements may fail: the flag \<open>fails\<close>, or a \<open>sql_outcome\<close> where a
  statement may take effect and its result be lost.  Clients' addresses arrive normalised by package
  \<open>net\<close>.  A decoded JSON value is what the readers of the source see of it.  Operations that read the
  clock take the moment as an argument; gift bags read the wall clock in the source.

  \<^bold>\<open>Not modelled.\<close>  The HTTP client and the generated protocol; the decoding of server payloads,
  apart from the order statistics; the executors that issue RPCs and apply their responses, apart from
  hiring; the planners of friends and activities and the rest of \<open>basic.go\<close>, and the planner's
  assembly of its modules into one plan; the scope of activities; the connection life
  cycle and the decision loop; the API handlers; SQLite beyond the safety row and the daily tables; the
  traces and diagnostics of hiring; the rest of the capture proxy, the catalogue tools and the updater.
\<close>

end
